(* ===== verification/Go_Base.thy ===== *)
theory Go_Base
  imports Main
begin

text \<open>
  Prelude of the development: the conventions by which Go values are modelled and the generic
  lemmas the components share.

  \<^item> A Go \<open>error\<close> value is its text together with the sentinel values that \<open>errors.Is\<close>
    reaches through \<open>Unwrap\<close>; a nil error is \<open>None\<close>.
  \<^item> A call that returns \<open>(T, error)\<close> is a value of the sum type \<open>'s go_error + 'a\<close>, with \<open>Inl\<close>
    the error.
  \<^item> A \<open>time.Time\<close> is the number of nanoseconds since the Unix epoch and a \<open>time.Duration\<close> a number
    of nanoseconds; both are integers. The zero time (1 January of year 1) is \<open>zero_time\<close>.
  \<^item> A Go \<open>string\<close> is its list of bytes, the type \<open>string\<close> of HOL.
\<close>

section \<open>Collections of facts\<close>

named_theorems go_defs \<open>definitions of the modelled Go library calls\<close>
named_theorems svc_laws \<open>laws of the external services\<close>

section \<open>Errors\<close>

datatype 's go_error = GoError (error_text: string) (error_chain: "'s list")

type_synonym ('s, 'a) res = "'s go_error + 'a"

definition errors_new :: "'s \<Rightarrow> string \<Rightarrow> 's go_error" where
  "errors_new s t = GoError t [s]"

definition errors_text :: "string \<Rightarrow> 's go_error" where
  "errors_text t = GoError t []"

definition errors_is :: "'s go_error \<Rightarrow> 's \<Rightarrow> bool" where
  "errors_is e s \<longleftrightarrow> s \<in> set (error_chain e)"

text \<open>\<open>fmt.Errorf("%w: text", e)\<close> keeps the chain of \<open>e\<close> and appends to its text.\<close>

definition errorf_w :: "'s go_error \<Rightarrow> string \<Rightarrow> 's go_error" where
  "errorf_w e t = GoError (error_text e @ '': '' @ t) (error_chain e)"

text \<open>\<open>fmt.Errorf("%w: %w", e, f)\<close> and \<open>errors.Join(e, f)\<close> reach the sentinels of both.\<close>

definition errorf_ww :: "'s go_error \<Rightarrow> 's go_error \<Rightarrow> 's go_error" where
  "errorf_ww e f = GoError (error_text e @ '': '' @ error_text f) (error_chain e @ error_chain f)"

definition errors_join :: "'s go_error \<Rightarrow> 's go_error \<Rightarrow> 's go_error" where
  "errors_join e f =
     GoError (error_text e @ [CHR 0x0A] @ error_text f) (error_chain e @ error_chain f)"

lemma errors_is_new [simp]: "errors_is (errors_new s t) s' \<longleftrightarrow> s' = s"
  by (auto simp: errors_is_def errors_new_def)

lemma errors_is_text [simp]: "\<not> errors_is (errors_text t) s"
  by (simp add: errors_is_def errors_text_def)

lemma errors_is_errorf_w [simp]: "errors_is (errorf_w e t) s \<longleftrightarrow> errors_is e s"
  by (simp add: errors_is_def errorf_w_def)

lemma errors_is_errorf_ww [simp]:
  "errors_is (errorf_ww e f) s \<longleftrightarrow> errors_is e s \<or> errors_is f s"
  by (simp add: errors_is_def errorf_ww_def)

lemma errors_is_join [simp]:
  "errors_is (errors_join e f) s \<longleftrightarrow> errors_is e s \<or> errors_is f s"
  by (simp add: errors_is_def errors_join_def)

section \<open>Time\<close>

type_synonym time = int
type_synonym duration = int

definition zero_time :: time where
  "zero_time = - 62135596800 * 1000000000"

definition is_zero :: "time \<Rightarrow> bool" where
  "is_zero t \<longleftrightarrow> t = zero_time"

definition millisecond :: duration where "millisecond = 1000000"
definition second :: duration where "second = 1000000000"
definition minute :: duration where "minute = 60 * second"
definition hour :: duration where "hour = 60 * minute"

lemmas duration_defs [go_defs] = millisecond_def second_def minute_def hour_def

text \<open>
  Go's integer division truncates towards zero; \<open>Duration.Milliseconds\<close> and the conversion of
  \<open>Duration.Seconds\<close> to an integer are such divisions.
\<close>

definition go_div :: "int \<Rightarrow> int \<Rightarrow> int" where
  "go_div a b = sgn a * sgn b * (\<bar>a\<bar> div \<bar>b\<bar>)"

definition milliseconds :: "duration \<Rightarrow> int" where
  "milliseconds d = go_div d millisecond"

lemma go_div_nonneg: "0 \<le> a \<Longrightarrow> 0 < b \<Longrightarrow> go_div a b = a div b"
  by (cases "a = 0") (auto simp: go_div_def)

lemma milliseconds_pos: "millisecond \<le> d \<Longrightarrow> 0 < milliseconds d"
proof -
  assume d: "millisecond \<le> d"
  then have "0 \<le> d" by (simp add: millisecond_def)
  then have "milliseconds d = d div millisecond"
    by (simp add: milliseconds_def go_div_nonneg millisecond_def)
  also have "\<dots> > 0"
    using d by (simp add: millisecond_def pos_imp_zdiv_pos_iff)
  finally show ?thesis .
qed

section \<open>Lists, options and maps\<close>

text \<open>The first element that satisfies a test, as the \<open>First\<close> of a query returns it.\<close>

definition find_first :: "('a \<Rightarrow> bool) \<Rightarrow> 'a list \<Rightarrow> 'a option" where
  "find_first p xs = List.find p xs"

lemma find_first_SomeD: "find_first p xs = Some x \<Longrightarrow> x \<in> set xs \<and> p x"
  by (auto simp: find_first_def find_Some_iff)

lemma find_first_None_iff: "find_first p xs = None \<longleftrightarrow> (\<forall>x \<in> set xs. \<not> p x)"
  by (auto simp: find_first_def find_None_iff)

lemma length_filter_1_iff:
  assumes "distinct xs" and "\<And>x y. x \<in> set xs \<Longrightarrow> y \<in> set xs \<Longrightarrow> p x \<Longrightarrow> p y \<Longrightarrow> x = y"
  shows "length (filter p xs) = 1 \<longleftrightarrow> (\<exists>x \<in> set xs. p x)"
  using assms
proof (induction xs)
  case Nil
  then show ?case by simp
next
  case (Cons x xs)
  show ?case
  proof (cases "p x")
    case True
    with Cons.prems have "filter p xs = []"
      by (auto simp: filter_empty_conv)
    with True show ?thesis by simp
  next
    case False
    from Cons.prems have "\<And>u v. u \<in> set xs \<Longrightarrow> v \<in> set xs \<Longrightarrow> p u \<Longrightarrow> p v \<Longrightarrow> u = v"
      by auto
    then have "length (filter p xs) = 1 \<longleftrightarrow> (\<exists>x \<in> set xs. p x)"
      using Cons.IH Cons.prems(1) by simp
    with False show ?thesis by simp
  qed
qed

text \<open>With distinct keys, the entries with the key of a given one are that one.\<close>

lemma filter_unique_key: "distinct (map k xs) \<Longrightarrow> x \<in> set xs \<Longrightarrow> filter (\<lambda>y. k y = k x) xs = [x]"
proof (induction xs)
  case (Cons y ys)
  then have "k y \<noteq> k x" if "x \<noteq> y" using that by auto
  moreover have "filter (\<lambda>z. k z = k y) ys = []" using Cons.prems(1) by (auto simp: filter_empty_conv) (metis imageI)
  ultimately show ?case using Cons by (cases "x = y") auto
qed simp

end
