(* ===== verification/Go_Text.thy ===== *)
theory Go_Text
  imports Go_Base
begin

text \<open>
  The operations on Go strings that the program uses (packages \<open>strings\<close>, \<open>unicode\<close> and
  \<open>unicode/utf8\<close>). A string is its bytes. \<open>utf8_chunks\<close> cuts it as Go's \<open>range\<close> loop does: each
  chunk is a rune with the bytes it was read from; a byte that starts no valid encoding is a
  chunk of its own with the rune U+FFFD.
\<close>

section \<open>UTF-8\<close>

definition rune_error :: nat where
  "rune_error = 65533"

definition utf8_cont :: "nat \<Rightarrow> bool" where
  "utf8_cont b \<longleftrightarrow> 128 \<le> b \<and> b \<le> 191"

text \<open>Number of bytes an encoding with this first byte has; 0 for a byte that starts none.\<close>

definition utf8_need :: "nat \<Rightarrow> nat" where
  "utf8_need b =
     (if b < 128 then 1 else if 194 \<le> b \<and> b \<le> 223 then 2
      else if 224 \<le> b \<and> b \<le> 239 then 3 else if 240 \<le> b \<and> b \<le> 244 then 4 else 0)"

text \<open>The range of the second byte depends on the first one (no overlong form, no surrogate).\<close>

definition utf8_second :: "nat \<Rightarrow> nat \<Rightarrow> bool" where
  "utf8_second b c \<longleftrightarrow>
     (if b = 224 then 160 else if b = 240 then 144 else 128) \<le> c \<and>
     c \<le> (if b = 237 then 159 else if b = 244 then 143 else 191)"

definition utf8_tail :: "nat \<Rightarrow> nat list \<Rightarrow> bool" where
  "utf8_tail b cs \<longleftrightarrow>
     (case cs of [] \<Rightarrow> True | c # ds \<Rightarrow> utf8_second b c \<and> list_all utf8_cont ds)"

definition utf8_value :: "nat \<Rightarrow> nat list \<Rightarrow> nat" where
  "utf8_value b cs =
     foldl (\<lambda>v c. v * 64 + c mod 64)
       (if cs = [] then b else b mod (2 ^ (6 - length cs))) cs"

text \<open>\<open>utf8.DecodeRune\<close> on a non-empty list of bytes: the rune and the number of bytes read.\<close>

definition decode_rune :: "nat list \<Rightarrow> nat \<times> nat" where
  "decode_rune bs =
     (let n = utf8_need (hd bs); cs = take (n - 1) (tl bs)
      in if n \<noteq> 0 \<and> n \<le> length bs \<and> utf8_tail (hd bs) cs then (utf8_value (hd bs) cs, n)
         else (rune_error, 1))"

definition bytes_of :: "string \<Rightarrow> nat list" where
  "bytes_of s = map of_char s"

lemma decode_rune_pos: "0 < snd (decode_rune bs)"
  by (simp add: decode_rune_def Let_def)

lemma decode_rune_le: "bs \<noteq> [] \<Longrightarrow> snd (decode_rune bs) \<le> length bs"
  by (cases bs) (auto simp: decode_rune_def Let_def)

function utf8_chunks :: "string \<Rightarrow> (nat \<times> string) list" where
  "utf8_chunks s =
     (if s = [] then []
      else let d = decode_rune (bytes_of s)
           in (fst d, take (snd d) s) # utf8_chunks (drop (snd d) s))"
  by pat_completeness auto
termination
proof (relation "measure length")
  show "wf (measure length)" by simp
next
  fix s :: string and d
  assume "s \<noteq> []" and "d = decode_rune (bytes_of s)"
  then show "(drop (snd d) s, s) \<in> measure length"
    using decode_rune_pos [of "bytes_of s"] by (simp add: diff_less)
qed

declare utf8_chunks.simps [simp del]

lemma utf8_chunks_Nil [simp]: "utf8_chunks [] = []"
  by (simp add: utf8_chunks.simps)

lemma utf8_chunks_nonempty:
  "s \<noteq> [] \<Longrightarrow> utf8_chunks s =
     (fst (decode_rune (bytes_of s)), take (snd (decode_rune (bytes_of s))) s)
       # utf8_chunks (drop (snd (decode_rune (bytes_of s))) s)"
  by (subst utf8_chunks.simps) (simp add: Let_def)

text \<open>What a \<open>range\<close> loop over the string visits, \<open>utf8.ValidString\<close> and \<open>utf8.RuneCountInString\<close>.\<close>

definition runes :: "string \<Rightarrow> nat list" where
  "runes s = map fst (utf8_chunks s)"

definition bad_chunk :: "nat \<times> string \<Rightarrow> bool" where
  "bad_chunk c \<longleftrightarrow> fst c = rune_error \<and> length (snd c) = 1"

definition valid_utf8 :: "string \<Rightarrow> bool" where
  "valid_utf8 s \<longleftrightarrow> list_all (\<lambda>c. \<not> bad_chunk c) (utf8_chunks s)"

definition rune_count :: "string \<Rightarrow> nat" where
  "rune_count s = length (utf8_chunks s)"

definition is_control :: "nat \<Rightarrow> bool" where
  "is_control r \<longleftrightarrow> r < 32 \<or> (127 \<le> r \<and> r < 160)"

definition is_space :: "nat \<Rightarrow> bool" where
  "is_space r \<longleftrightarrow> (9 \<le> r \<and> r \<le> 13) \<or> r = 32 \<or> r = 133 \<or> r = 160 \<or> r = 5760 \<or>
     (8192 \<le> r \<and> r \<le> 8202) \<or> r = 8232 \<or> r = 8233 \<or> r = 8239 \<or> r = 8287 \<or> r = 12288"

section \<open>Trimming, case and search\<close>

definition trim_both :: "('a \<Rightarrow> bool) \<Rightarrow> 'a list \<Rightarrow> 'a list" where
  "trim_both p xs = rev (dropWhile p (rev (dropWhile p xs)))"

definition unchunk :: "(nat \<times> string) list \<Rightarrow> string" where
  "unchunk cs = concat (map snd cs)"

text \<open>\<open>strings.TrimSpace\<close> removes white space as Unicode defines it, from both ends.\<close>

definition trim_space :: "string \<Rightarrow> string" where
  "trim_space s = unchunk (trim_both (\<lambda>c. is_space (fst c)) (utf8_chunks s))"

text \<open>\<open>strings.Trim(s, cutset)\<close> for a cutset of ASCII characters.\<close>

definition trim_cutset :: "string \<Rightarrow> string \<Rightarrow> string" where
  "trim_cutset cs s = trim_both (\<lambda>c. c \<in> set cs) s"

text \<open>\<open>strings.ContainsAny(s, chars)\<close> for ASCII characters and \<open>strings.HasPrefix\<close>.\<close>

definition contains_any :: "string \<Rightarrow> string \<Rightarrow> bool" where
  "contains_any s cs \<longleftrightarrow> list_ex (\<lambda>c. c \<in> set cs) s"

definition has_prefix :: "string \<Rightarrow> string \<Rightarrow> bool" where
  "has_prefix s p \<longleftrightarrow> take (length p) s = p"

definition trim_prefix :: "string \<Rightarrow> string \<Rightarrow> string" where
  "trim_prefix s p = (if has_prefix s p then drop (length p) s else s)"

definition has_suffix :: "string \<Rightarrow> string \<Rightarrow> bool" where
  "has_suffix s p \<longleftrightarrow> has_prefix (rev s) (rev p)"

text \<open>\<open>strings.Split(s, sep)\<close> for a separator of one byte.\<close>

fun split_on :: "char \<Rightarrow> string \<Rightarrow> string list" where
  "split_on sep [] = [[]]"
| "split_on sep (c # cs) =
     (if c = sep then [] # split_on sep cs
      else case split_on sep cs of [] \<Rightarrow> [[c]] | w # ws \<Rightarrow> (c # w) # ws)"

text \<open>\<open>strings.Fields\<close>: the words between runs of white space.\<close>

fun field_chunks :: "string \<Rightarrow> (nat \<times> string) list \<Rightarrow> string list" where
  "field_chunks w [] = (if w = [] then [] else [w])"
| "field_chunks w ((r, b) # cs) =
     (if is_space r then (if w = [] then [] else [w]) @ field_chunks [] cs else field_chunks (w @ b) cs)"

definition string_fields :: "string \<Rightarrow> string list" where
  "string_fields s = field_chunks [] (utf8_chunks s)"

text \<open>
  \<open>strings.ToLower\<close>: ASCII letters are mapped here, the other runes by the Unicode table \<open>tbl\<close>,
  which is a parameter; a byte that is not UTF-8 becomes the encoding of U+FFFD.
\<close>

definition encode_rune :: "nat \<Rightarrow> string" where
  "encode_rune r = map char_of
     (if r < 128 then [r]
      else if r < 2048 then [192 + r div 64, 128 + r mod 64]
      else if r < 65536 then [224 + r div 4096, 128 + (r div 64) mod 64, 128 + r mod 64]
      else [240 + r div 262144, 128 + (r div 4096) mod 64, 128 + (r div 64) mod 64, 128 + r mod 64])"

definition lower_rune :: "(nat \<Rightarrow> nat) \<Rightarrow> nat \<Rightarrow> nat" where
  "lower_rune tbl r = (if 65 \<le> r \<and> r \<le> 90 then r + 32 else if r < 128 then r else tbl r)"

definition to_lower :: "(nat \<Rightarrow> nat) \<Rightarrow> string \<Rightarrow> string" where
  "to_lower tbl s = concat (map (\<lambda>r. encode_rune (lower_rune tbl r)) (runes s))"

section \<open>Lemmas\<close>

lemma unchunk_utf8_chunks [simp]: "unchunk (utf8_chunks s) = s"
proof (induction s rule: utf8_chunks.induct)
  case (1 s)
  then show ?case
    by (cases "s = []") (simp_all add: unchunk_def utf8_chunks_nonempty)
qed

lemma unchunk_append [simp]: "unchunk (as @ bs) = unchunk as @ unchunk bs"
  by (simp add: unchunk_def)

lemma unchunk_Nil [simp]: "unchunk [] = []"
  by (simp add: unchunk_def)

text \<open>
  Reading a rune depends only on the bytes it consumes: what follows a chunk can be cut off at
  a chunk boundary without changing how the chunk is read.
\<close>

lemma decode_rune_prefix:
  assumes "xs \<noteq> []" and "snd (decode_rune (xs @ ys)) \<le> length xs"
  shows "decode_rune xs = decode_rune (xs @ ys)"
proof -
  define n where "n = utf8_need (hd xs)"
  have hd: "hd (xs @ ys) = hd xs" using assms(1) by simp
  show ?thesis
  proof (cases "n \<noteq> 0 \<and> n \<le> length xs")
    case True
    then have "take (n - 1) (tl (xs @ ys)) = take (n - 1) (tl xs)"
      using assms(1) by (cases xs) auto
    with True show ?thesis
      by (simp add: decode_rune_def hd n_def [symmetric] Let_def)
  next
    case False
    then have "decode_rune xs = (rune_error, 1)"
      by (auto simp: decode_rune_def n_def [symmetric] Let_def)
    moreover have "decode_rune (xs @ ys) = (rune_error, 1)"
      using False assms(2) by (auto simp: decode_rune_def hd n_def [symmetric] Let_def split: if_splits)
    ultimately show ?thesis by simp
  qed
qed

lemma utf8_chunks_append:
  "utf8_chunks s = cs @ ds \<Longrightarrow> utf8_chunks (unchunk cs) = cs \<and> utf8_chunks (unchunk ds) = ds"
proof (induction cs arbitrary: s)
  case Nil
  then show ?case by (metis append_Nil unchunk_utf8_chunks utf8_chunks_Nil unchunk_def concat.simps(1) list.simps(8))
next
  case (Cons c cs)
  then have s: "s \<noteq> []" by auto
  define d where "d = decode_rune (bytes_of s)"
  from Cons.prems s have c: "c = (fst d, take (snd d) s)"
    and rest: "utf8_chunks (drop (snd d) s) = cs @ ds"
    by (simp_all add: utf8_chunks_nonempty d_def)
  from Cons.IH [OF rest] have IH: "utf8_chunks (unchunk cs) = cs" "utf8_chunks (unchunk ds) = ds"
    by auto
  have len: "0 < snd d" "snd d \<le> length s"
    using decode_rune_pos [of "bytes_of s"] decode_rune_le [of "bytes_of s"] s
    by (simp_all add: d_def bytes_of_def)
  have whole: "drop (snd d) s = unchunk cs @ unchunk ds"
    using arg_cong [OF rest, of unchunk] by simp
  define p where "p = take (snd d) s @ unchunk cs"
  have sp: "s = p @ unchunk ds"
    using whole by (metis append.assoc append_take_drop_id p_def)
  have p: "p \<noteq> []" "snd d \<le> length p"
    using len s by (auto simp: p_def)
  have "decode_rune (bytes_of p) = d"
    using decode_rune_prefix [of "bytes_of p" "bytes_of (unchunk ds)"] p sp
    by (simp add: d_def bytes_of_def)
  moreover have "take (snd d) p = take (snd d) s" "drop (snd d) p = unchunk cs"
    using len by (simp_all add: p_def)
  ultimately have "utf8_chunks p = c # cs"
    using p c IH by (simp add: utf8_chunks_nonempty)
  moreover have "p = unchunk (c # cs)" using c by (simp add: p_def unchunk_def)
  ultimately show ?case using IH by simp
qed

lemma trim_both_infix: "\<exists>as bs. xs = as @ trim_both p xs @ bs"
proof -
  define ys where "ys = dropWhile p xs"
  have "xs = takeWhile p xs @ ys" by (simp add: ys_def)
  moreover have "ys = rev (dropWhile p (rev ys)) @ rev (takeWhile p (rev ys))"
    by (metis rev_append rev_rev_ident takeWhile_dropWhile_id)
  ultimately show ?thesis unfolding trim_both_def ys_def by metis
qed

lemma utf8_chunks_trim_space:
  "utf8_chunks (trim_space s) = trim_both (\<lambda>c. is_space (fst c)) (utf8_chunks s)"
proof -
  obtain as bs where "utf8_chunks s = as @ trim_both (\<lambda>c. is_space (fst c)) (utf8_chunks s) @ bs"
    using trim_both_infix by blast
  then show ?thesis
    unfolding trim_space_def using utf8_chunks_append by metis
qed

lemma trim_both_Nil_iff: "trim_both p xs = [] \<longleftrightarrow> (\<forall>x \<in> set xs. p x)"
proof -
  have "trim_both p xs = [] \<longleftrightarrow> (\<forall>x \<in> set (dropWhile p xs). p x)"
    by (simp add: trim_both_def)
  also have "\<dots> \<longleftrightarrow> (\<forall>x \<in> set xs. p x)"
    by (metis dropWhile_eq_Nil_conv dropWhile_idem)
  finally show ?thesis .
qed

lemma trim_both_idem [simp]: "trim_both p (trim_both p xs) = trim_both p xs"
proof (cases "trim_both p xs")
  case Nil
  show ?thesis unfolding Nil by (simp add: trim_both_def)
next
  case (Cons y ys)
  define zs where "zs = dropWhile p xs"
  have t: "trim_both p xs = rev (dropWhile p (rev zs))" by (simp add: trim_both_def zs_def)
  have "zs = trim_both p xs @ rev (takeWhile p (rev zs))"
    unfolding t by (metis rev_append rev_rev_ident takeWhile_dropWhile_id)
  with Cons have "zs = y # (ys @ rev (takeWhile p (rev zs)))" by simp
  then have "\<not> p y" using hd_dropWhile [of p xs] unfolding zs_def
    by (metis list.distinct(1) list.sel(1))
  then have "dropWhile p (trim_both p xs) = trim_both p xs" using Cons by simp
  then show ?thesis by (simp add: trim_both_def)
qed

lemma dropWhile_none: "\<forall>x \<in> set xs. \<not> p x \<Longrightarrow> dropWhile p xs = xs"
  by (cases xs) auto

lemma trim_both_id: "\<forall>x \<in> set xs. \<not> p x \<Longrightarrow> trim_both p xs = xs"
  by (simp add: trim_both_def dropWhile_none)

lemma trim_both_subset: "set (trim_both p xs) \<subseteq> set xs"
  using trim_both_infix [of xs p] by (metis Un_iff set_append subsetI)

lemma trim_space_idem [simp]: "trim_space (trim_space s) = trim_space s"
  by (simp add: trim_space_def [of "trim_space s"] utf8_chunks_trim_space)
     (simp add: trim_space_def)

lemma utf8_chunk_nonempty: "c \<in> set (utf8_chunks s) \<Longrightarrow> snd c \<noteq> []"
proof (induction s rule: utf8_chunks.induct)
  case (1 s)
  then show ?case
    using decode_rune_pos [of "bytes_of s"]
    by (cases "s = []") (auto simp: utf8_chunks_nonempty)
qed

lemma utf8_chunks_eq_Nil [simp]: "utf8_chunks s = [] \<longleftrightarrow> s = []"
  by (cases "s = []") (simp_all add: utf8_chunks_nonempty)

lemma trim_space_Nil_iff: "trim_space s = [] \<longleftrightarrow> (\<forall>r \<in> set (runes s). is_space r)"
proof -
  have "trim_space s = [] \<longleftrightarrow> utf8_chunks (trim_space s) = []" by simp
  then show ?thesis
    by (auto simp: utf8_chunks_trim_space trim_both_Nil_iff runes_def)
qed

lemma valid_utf8_trim_space: "valid_utf8 s \<Longrightarrow> valid_utf8 (trim_space s)"
  using trim_both_subset [of "\<lambda>c. is_space (fst c)" "utf8_chunks s"]
  by (auto simp: valid_utf8_def utf8_chunks_trim_space list_all_iff)

lemma runes_trim_space_subset: "set (runes (trim_space s)) \<subseteq> set (runes s)"
  using trim_both_subset [of "\<lambda>c. is_space (fst c)" "utf8_chunks s"]
  by (auto simp: runes_def utf8_chunks_trim_space)

lemma length_trim_space: "length (trim_space s) \<le> length s"
proof -
  obtain as bs where "utf8_chunks s = as @ trim_both (\<lambda>c. is_space (fst c)) (utf8_chunks s) @ bs"
    using trim_both_infix by blast
  then have "unchunk (utf8_chunks s) = unchunk as @ trim_space s @ unchunk bs"
    unfolding trim_space_def by (metis unchunk_append)
  then have "length s = length (unchunk as) + (length (trim_space s) + length (unchunk bs))"
    by (metis length_append unchunk_utf8_chunks)
  then show ?thesis by simp
qed

text \<open>Trimming by a cutset leaves nothing exactly when every byte belongs to the cutset.\<close>

lemma trim_cutset_Nil_iff: "trim_cutset cs s = [] \<longleftrightarrow> set s \<subseteq> set cs"
  by (auto simp: trim_cutset_def trim_both_Nil_iff)

text \<open>On ASCII text a chunk is a byte, so the rune loops are loops over the bytes.\<close>

lemma utf8_chunks_ascii:
  "(\<forall>c \<in> set s. of_char c < (128::nat)) \<Longrightarrow> utf8_chunks s = map (\<lambda>c. (of_char c, [c])) s"
proof (induction s)
  case (Cons c s)
  then show ?case
    by (simp add: utf8_chunks_nonempty decode_rune_def bytes_of_def utf8_need_def utf8_tail_def
        utf8_value_def Let_def)
qed simp

lemma runes_ascii: "(\<forall>c \<in> set s. of_char c < (128::nat)) \<Longrightarrow> runes s = map of_char s"
  by (simp add: runes_def utf8_chunks_ascii)

text \<open>A rune below 128 is read from a single byte, the rune itself.\<close>

lemma mod_in_window: "k * m \<le> b \<Longrightarrow> b < k * m + m \<Longrightarrow> b mod m = b - k * m" for b k m :: nat
proof -
  assume "k * m \<le> b" "b < k * m + m"
  then have "b mod m = (b - k * m + k * m) mod m" and "b - k * m < m" by auto
  then show ?thesis by (simp only: mod_mult_self1 mod_less)
qed

lemma utf8_value_2: "194 \<le> b \<Longrightarrow> b \<le> 223 \<Longrightarrow> 128 \<le> utf8_value b [c]"
proof -
  assume "194 \<le> b" "b \<le> 223"
  then have "2 \<le> b mod 32" using mod_in_window [of 6 32 b] by simp
  then show ?thesis by (simp add: utf8_value_def)
qed

lemma utf8_value_3:
  assumes "224 \<le> b" "b \<le> 239" "utf8_second b c"
  shows "128 \<le> utf8_value b [c, d]"
proof (cases "b = 224")
  case True
  with assms(3) have "160 \<le> c" "c \<le> 191" by (auto simp: utf8_second_def)
  then have "32 \<le> c mod 64" using mod_in_window [of 2 64 c] by simp
  with True show ?thesis by (simp add: utf8_value_def)
next
  case False
  with assms have "1 \<le> b mod 16" using mod_in_window [of 14 16 b] by simp
  then show ?thesis by (simp add: utf8_value_def)
qed

lemma utf8_value_4:
  assumes "240 \<le> b" "b \<le> 244" "utf8_second b c"
  shows "128 \<le> utf8_value b [c, d, e]"
proof (cases "b = 240")
  case True
  with assms(3) have "144 \<le> c" "c \<le> 191" by (auto simp: utf8_second_def)
  then have "16 \<le> c mod 64" using mod_in_window [of 2 64 c] by simp
  with True show ?thesis by (simp add: utf8_value_def)
next
  case False
  with assms have "1 \<le> b mod 8" using mod_in_window [of 30 8 b] by simp
  then show ?thesis by (simp add: utf8_value_def)
qed

lemma list_of_length_2: "length xs = 2 \<longleftrightarrow> (\<exists>a b. xs = [a, b])"
  by (auto simp: numeral_2_eq_2 length_Suc_conv)

lemma list_of_length_3: "length xs = 3 \<longleftrightarrow> (\<exists>a b c. xs = [a, b, c])"
  by (auto simp: numeral_3_eq_3 length_Suc_conv)

lemma utf8_value_ge:
  assumes "1 < utf8_need b" and "length cs = utf8_need b - 1" and "utf8_tail b cs"
  shows "128 \<le> utf8_value b cs"
proof -
  consider "194 \<le> b \<and> b \<le> 223 \<and> length cs = 1" | "224 \<le> b \<and> b \<le> 239 \<and> length cs = 2"
    | "240 \<le> b \<and> b \<le> 244 \<and> length cs = 3"
    using assms by (auto simp: utf8_need_def split: if_splits)
  then show ?thesis
  proof cases
    case 1
    then obtain c where "cs = [c]" by (auto simp: length_Suc_conv)
    with 1 show ?thesis using utf8_value_2 by simp
  next
    case 2
    then obtain c d where "cs = [c, d]" by (auto simp: list_of_length_2)
    with 2 assms(3) show ?thesis using utf8_value_3 by (simp add: utf8_tail_def)
  next
    case 3
    then obtain c d e where "cs = [c, d, e]" by (auto simp: list_of_length_3)
    with 3 assms(3) show ?thesis using utf8_value_4 by (simp add: utf8_tail_def)
  qed
qed

lemma decode_rune_lt_128:
  assumes "bs \<noteq> []" and "fst (decode_rune bs) < 128"
  shows "decode_rune bs = (hd bs, 1)"
proof -
  define n where "n = utf8_need (hd bs)"
  define cs where "cs = take (n - 1) (tl bs)"
  have ok: "n \<noteq> 0 \<and> n \<le> length bs \<and> utf8_tail (hd bs) cs"
    using assms(2) by (auto simp: decode_rune_def n_def cs_def Let_def rune_error_def split: if_splits)
  then have d: "decode_rune bs = (utf8_value (hd bs) cs, n)"
    by (simp add: decode_rune_def n_def cs_def Let_def)
  have "n = 1"
  proof (rule ccontr)
    assume "n \<noteq> 1"
    with ok have "128 \<le> utf8_value (hd bs) cs"
      by (intro utf8_value_ge) (auto simp: n_def cs_def)
    with d assms(2) show False by simp
  qed
  with d show ?thesis by (simp add: cs_def utf8_value_def)
qed

lemma utf8_chunk_lt_128:
  "c \<in> set (utf8_chunks s) \<Longrightarrow> fst c < 128 \<Longrightarrow> \<exists>ch. snd c = [ch] \<and> of_char ch = fst c"
proof (induction s rule: utf8_chunks.induct)
  case (1 s)
  show ?case
  proof (cases "s = []")
    case True
    with 1 show ?thesis by simp
  next
    case False
    define d where "d = decode_rune (bytes_of s)"
    consider "c = (fst d, take (snd d) s)" | "c \<in> set (utf8_chunks (drop (snd d) s))"
      using 1 False by (auto simp: utf8_chunks_nonempty d_def)
    then show ?thesis
    proof cases
      case 1
      then have "d = (hd (bytes_of s), 1)"
        using decode_rune_lt_128 [of "bytes_of s"] False \<open>fst c < 128\<close>
        by (simp add: d_def bytes_of_def)
      with 1 False show ?thesis by (cases s) (auto simp: bytes_of_def)
    next
      case 2
      then show ?thesis using "1.IH" [OF False d_def] \<open>fst c < 128\<close> by simp
    qed
  qed
qed

text \<open>A byte below 128 is never part of a longer encoding.\<close>

lemma utf8_tail_ge:
  assumes "utf8_tail b cs" and "c \<in> set cs"
  shows "128 \<le> c"
  using assms by (auto simp: utf8_tail_def utf8_second_def utf8_cont_def list_all_iff
      split: list.splits if_splits)

lemma decode_rune_low_byte:
  assumes "bs \<noteq> []" and "b \<in> set (take (snd (decode_rune bs)) bs)" and "b < 128"
  shows "decode_rune bs = (b, 1)"
proof -
  define n where "n = utf8_need (hd bs)"
  define cs where "cs = take (n - 1) (tl bs)"
  show ?thesis
  proof (cases "n \<noteq> 0 \<and> n \<le> length bs \<and> utf8_tail (hd bs) cs")
    case True
    then have d: "decode_rune bs = (utf8_value (hd bs) cs, n)"
      by (simp add: decode_rune_def n_def cs_def Let_def)
    from True assms(1) have "take n bs = hd bs # cs"
      by (cases bs; cases n) (auto simp: cs_def)
    with assms(2) d have "b = hd bs \<or> b \<in> set cs" by simp
    with assms(3) True utf8_tail_ge have hd: "b = hd bs" by fastforce
    with assms(3) have "n = 1" by (simp add: n_def utf8_need_def)
    with d hd show ?thesis by (simp add: cs_def utf8_value_def)
  next
    case False
    then have d: "decode_rune bs = (rune_error, 1)"
      by (auto simp: decode_rune_def n_def cs_def Let_def)
    with assms have "b = hd bs" by (cases bs) auto
    with assms(3) have "n = 1" by (simp add: n_def utf8_need_def)
    with False assms(1) show ?thesis by (cases bs) (auto simp: cs_def utf8_tail_def)
  qed
qed

lemma utf8_chunk_low_byte:
  "c \<in> set (utf8_chunks s) \<Longrightarrow> ch \<in> set (snd c) \<Longrightarrow> of_char ch < (128::nat) \<Longrightarrow> fst c = of_char ch"
proof (induction s rule: utf8_chunks.induct)
  case (1 s)
  show ?case
  proof (cases "s = []")
    case True
    with 1 show ?thesis by simp
  next
    case False
    define d where "d = decode_rune (bytes_of s)"
    consider "c = (fst d, take (snd d) s)" | "c \<in> set (utf8_chunks (drop (snd d) s))"
      using "1.prems" False by (auto simp: utf8_chunks_nonempty d_def)
    then show ?thesis
    proof cases
      case 1
      then have "of_char ch \<in> set (take (snd d) (bytes_of s))"
        using "1.prems"(2) by (auto simp: bytes_of_def take_map)
      then have "d = (of_char ch, 1)"
        using decode_rune_low_byte [of "bytes_of s" "of_char ch"] False "1.prems"(3)
        by (simp add: d_def bytes_of_def)
      with 1 show ?thesis by simp
    next
      case 2
      then show ?thesis using "1.IH" [OF False d_def] "1.prems" by simp
    qed
  qed
qed

text \<open>A loop over the runes that admits ASCII only is a loop over the bytes.\<close>

lemma all_runes_ascii_iff:
  assumes "\<And>r. P r \<Longrightarrow> r < 128"
  shows "(\<forall>r \<in> set (runes s). P r) \<longleftrightarrow> (\<forall>c \<in> set s. P (of_char c))"
proof
  assume r: "\<forall>r \<in> set (runes s). P r"
  show "\<forall>c \<in> set s. P (of_char c)"
  proof
    fix ch assume "ch \<in> set s"
    then have "ch \<in> set (unchunk (utf8_chunks s))" by simp
    then obtain c where c: "c \<in> set (utf8_chunks s)" "ch \<in> set (snd c)"
      by (auto simp: unchunk_def)
    with r have p: "P (fst c)" by (auto simp: runes_def)
    with assms c utf8_chunk_lt_128 show "P (of_char ch)" by fastforce
  qed
next
  assume "\<forall>c \<in> set s. P (of_char c)"
  moreover from this have "\<forall>c \<in> set s. of_char c < (128::nat)" using assms by blast
  ultimately show "\<forall>r \<in> set (runes s). P r" by (simp add: runes_ascii)
qed

lemma valid_utf8_ascii: "(\<forall>c \<in> set s. of_char c < (128::nat)) \<Longrightarrow> valid_utf8 s"
  by (auto simp: valid_utf8_def utf8_chunks_ascii list_all_iff bad_chunk_def rune_error_def)

lemma trim_space_ascii_id:
  assumes "\<forall>c \<in> set s. 32 < (of_char c :: nat) \<and> of_char c < (128::nat)"
  shows "trim_space s = s"
proof -
  have ch: "utf8_chunks s = map (\<lambda>c. (of_char c, [c])) s"
    using assms by (simp add: utf8_chunks_ascii)
  have "\<forall>c \<in> set (utf8_chunks s). \<not> is_space (fst c)"
    using assms by (auto simp: ch is_space_def)
  then have "trim_both (\<lambda>c. is_space (fst c)) (utf8_chunks s) = utf8_chunks s"
    by (rule trim_both_id)
  then show ?thesis by (simp add: trim_space_def)
qed

text \<open>Printable ASCII without capitals reads as itself.\<close>

definition plain_text :: "string \<Rightarrow> bool" where
  "plain_text s \<longleftrightarrow> list_all (\<lambda>c. 32 < (of_char c :: nat) \<and> of_char c < (127::nat) \<and> \<not> (65 \<le> (of_char c :: nat) \<and> of_char c \<le> (90::nat))) s"

lemma plain_text_simps:
  assumes "plain_text s"
  shows "trim_space s = s" "valid_utf8 s" "runes s = map of_char s" "utf8_chunks s = map (\<lambda>c. (of_char c, [c])) s" "to_lower tbl s = s"
    "list_ex is_control (runes s) = False"
proof -
  have p: "32 < (of_char c :: nat)" "of_char c < (128::nat)" "\<not> (65 \<le> (of_char c :: nat) \<and> of_char c \<le> (90::nat))" "of_char c < (127::nat)"
    if "c \<in> set s" for c
    using assms that by (auto simp: plain_text_def list_all_iff)
  show "trim_space s = s" using p by (intro trim_space_ascii_id) blast
  show "valid_utf8 s" using p by (intro valid_utf8_ascii) blast
  show r: "runes s = map of_char s" using p by (intro runes_ascii) blast
  show "utf8_chunks s = map (\<lambda>c. (of_char c, [c])) s" using p by (intro utf8_chunks_ascii) blast
  have "encode_rune (lower_rune tbl (of_char c)) = [c]" if "c \<in> set s" for c
    using p [OF that] by (auto simp: encode_rune_def lower_rune_def)
  then have "map (\<lambda>r. encode_rune (lower_rune tbl r)) (map of_char s) = map (\<lambda>c. [c]) s" by simp
  then have "to_lower tbl s = concat (map (\<lambda>c. [c]) s)" unfolding to_lower_def r by (rule arg_cong)
  then show "to_lower tbl s = s" by simp
  show "list_ex is_control (runes s) = False" using p by (fastforce simp: r list_ex_iff is_control_def)
qed

end
