(* ===== verification/Identity.thy ===== *)
theory Identity
  imports Go_Text
begin

text \<open>
  Package \<open>identity\<close> (\<open>src/identity\<close>): the organisation member, the explicit authorization and the
  display names, and how they travel in a request context.

  A context is a record with one slot per context key (\<open>context.WithValue\<close> fills the slot,
  \<open>Value\<close> reads it) and the state of \<open>ctx.Err()\<close>; later theories extend the record with the slots
  of their packages. A nil context is \<open>None\<close>. Where \<open>context.WithValue\<close> panics on a nil parent the
  result is \<open>None\<close>. Slices are values here, so the deep copies of \<open>cloneAuthorization\<close> rebuild an
  equal value; aliasing between caller and context is outside this model.
\<close>

section \<open>Members\<close>

datatype identity_sentinel = ErrInvalidMember | ErrInvalidDisplayNames

abbreviation err_invalid_member :: "identity_sentinel go_error" where
  "err_invalid_member \<equiv> errors_new ErrInvalidMember ''invalid organization member''"

abbreviation err_invalid_display_names :: "identity_sentinel go_error" where
  "err_invalid_display_names \<equiv> errors_new ErrInvalidDisplayNames ''invalid identity display names''"

record member =
  OrganizationID :: string
  UserID :: string

definition member_field_bad :: "string \<Rightarrow> nat \<Rightarrow> bool" where
  "member_field_bad v limit \<longleftrightarrow>
     v = [] \<or> \<not> valid_utf8 v \<or> rune_count v > limit \<or> trim_space v \<noteq> v \<or>
     list_ex is_control (runes v)"

definition member_Validate :: "member \<Rightarrow> identity_sentinel go_error option" where
  "member_Validate s =
     (if list_ex (\<lambda>(v, limit). member_field_bad v limit) [(OrganizationID s, 64), (UserID s, 128)]
      then Some err_invalid_member else None)"

abbreviation member_ok :: "member \<Rightarrow> bool" where
  "member_ok m \<equiv> member_Validate m = None"

section \<open>Authorization\<close>

record department =
  dept_ID :: string
  AncestorIDs :: "string list"

record authorization =
  auth_Member :: member
  IsOrganizationOwner :: bool
  Departments :: "department list"
  Permissions :: "string list"

definition maximumDepartmentIDRunes :: nat where "maximumDepartmentIDRunes = 128"
definition maximumPermissionRunes :: nat where "maximumPermissionRunes = 128"

definition validAuthorizationText :: "string \<Rightarrow> nat \<Rightarrow> bool" where
  "validAuthorizationText v limit \<longleftrightarrow>
     \<not> (v = [] \<or> \<not> valid_utf8 v \<or> rune_count v > limit \<or> trim_space v \<noteq> v) \<and>
     \<not> list_ex is_control (runes v)"

definition validAuthorization :: "authorization \<Rightarrow> bool" where
  "validAuthorization a \<longleftrightarrow>
     member_ok (auth_Member a) \<and>
     list_all (\<lambda>d. validAuthorizationText (dept_ID d) maximumDepartmentIDRunes \<and>
       list_all (\<lambda>i. validAuthorizationText i maximumDepartmentIDRunes) (AncestorIDs d))
       (Departments a) \<and>
     list_all (\<lambda>p. validAuthorizationText p maximumPermissionRunes) (Permissions a)"

definition Allows :: "authorization \<Rightarrow> string \<Rightarrow> bool" where
  "Allows a permission \<longleftrightarrow>
     (if \<not> validAuthorization a \<or> permission = [] then False
      else list_ex (\<lambda>granted. granted = permission) (Permissions a))"

definition cloneAuthorization :: "authorization \<Rightarrow> authorization" where
  "cloneAuthorization a =
     \<lparr> auth_Member = auth_Member a,
       IsOrganizationOwner = IsOrganizationOwner a,
       Departments = map (\<lambda>d. d\<lparr>AncestorIDs := map (\<lambda>i. i) (AncestorIDs d)\<rparr>) (Departments a),
       Permissions = map (\<lambda>p. p) (Permissions a) \<rparr>"

section \<open>Display names\<close>

record display_names =
  Username :: string
  OrganizationName :: string

definition maximumDisplayNameBytes :: nat where "maximumDisplayNameBytes = 512"

definition display_field_bad :: "string \<Rightarrow> bool" where
  "display_field_bad f \<longleftrightarrow>
     trim_space f = [] \<or> length f > maximumDisplayNameBytes \<or> \<not> valid_utf8 f \<or>
     list_ex is_control (runes f)"

definition display_Validate :: "display_names \<Rightarrow> identity_sentinel go_error option" where
  "display_Validate n =
     (if list_ex display_field_bad [Username n, OrganizationName n]
      then Some err_invalid_display_names else None)"

section \<open>Contexts\<close>

datatype ctx_err = Canceled | DeadlineExceeded

record identity_context =
  ctx_Err :: "ctx_err option"
  ctx_authorization :: "(authorization \<times> bool) option"
  ctx_display_names :: "(member \<times> display_names) option"

definition WithAuthorization ::
  "'z identity_context_scheme option \<Rightarrow> authorization \<Rightarrow> 'z identity_context_scheme option" where
  "WithAuthorization ctx a =
     (case ctx of None \<Rightarrow> None
      | Some c \<Rightarrow> Some (c\<lparr>ctx_authorization := Some (cloneAuthorization a, validAuthorization a)\<rparr>))"

definition AuthorizationFromContext ::
  "'z identity_context_scheme option \<Rightarrow> authorization option" where
  "AuthorizationFromContext ctx =
     (case ctx of None \<Rightarrow> None
      | Some c \<Rightarrow>
         (case ctx_authorization c of None \<Rightarrow> None
          | Some (value, valid) \<Rightarrow> if \<not> valid then None else Some (cloneAuthorization value)))"

definition WithDisplayNames ::
  "'z identity_context_scheme option \<Rightarrow> member \<Rightarrow> display_names \<Rightarrow>
   identity_sentinel go_error + 'z identity_context_scheme" where
  "WithDisplayNames ctx m names =
     (case member_Validate m of Some e \<Rightarrow> Inl e
      | None \<Rightarrow>
         (case display_Validate names of Some e \<Rightarrow> Inl e
          | None \<Rightarrow>
             (let names' = names\<lparr>Username := trim_space (Username names),
                                 OrganizationName := trim_space (OrganizationName names)\<rparr>
              in case ctx of None \<Rightarrow> Inl err_invalid_display_names
                 | Some c \<Rightarrow> Inr (c\<lparr>ctx_display_names := Some (m, names')\<rparr>))))"

definition DisplayNamesFromContext ::
  "'z identity_context_scheme option \<Rightarrow> member \<Rightarrow> display_names option" where
  "DisplayNamesFromContext ctx m =
     (case ctx of None \<Rightarrow> None
      | Some c \<Rightarrow>
         if member_Validate m \<noteq> None then None
         else (case ctx_display_names c of None \<Rightarrow> None
               | Some (stored, names) \<Rightarrow>
                  if stored \<noteq> m \<or> display_Validate names \<noteq> None then None else Some names))"

section \<open>Lemmas\<close>

lemma cloneAuthorization_id [simp]: "cloneAuthorization a = a"
  by (simp add: cloneAuthorization_def)

lemma member_ok_iff:
  "member_ok m \<longleftrightarrow> \<not> member_field_bad (OrganizationID m) 64 \<and> \<not> member_field_bad (UserID m) 128"
  by (simp add: member_Validate_def)

lemma member_ok_no_nul:
  "member_ok m \<Longrightarrow> CHR 0x00 \<notin> set (OrganizationID m) \<and> CHR 0x00 \<notin> set (UserID m)"
proof -
  have nul: "list_ex is_control (runes s)" if "CHR 0x00 \<in> set s" for s
  proof (rule ccontr)
    assume no: "\<not> list_ex is_control (runes s)"
    from that have "CHR 0x00 \<in> set (unchunk (utf8_chunks s))" by simp
    then obtain c where c: "c \<in> set (utf8_chunks s)" "CHR 0x00 \<in> set (snd c)"
      by (auto simp: unchunk_def)
    then have "fst c = 0" using utf8_chunk_low_byte [of c s "CHR 0x00"] by simp
    with c no show False by (auto simp: list_ex_iff runes_def is_control_def)
  qed
  assume "member_ok m"
  with nul show ?thesis by (auto simp: member_ok_iff member_field_bad_def)
qed

lemma display_ok_trim:
  "display_Validate n = None \<Longrightarrow>
     display_Validate (n\<lparr>Username := trim_space (Username n),
                         OrganizationName := trim_space (OrganizationName n)\<rparr>) = None"
proof -
  have step: "\<not> display_field_bad (trim_space f)" if "\<not> display_field_bad f" for f
    using that runes_trim_space_subset [of f] length_trim_space [of f]
    by (auto simp: display_field_bad_def valid_utf8_trim_space list_ex_iff)
  assume "display_Validate n = None"
  then show ?thesis using step by (auto simp: display_Validate_def split: if_splits)
qed

lemma Allows_iff:
  "Allows a p \<longleftrightarrow> validAuthorization a \<and> p \<in> set (Permissions a)"
  by (auto simp: Allows_def list_ex_iff validAuthorization_def list_all_iff validAuthorizationText_def)

end
