(* ===== verification/Request_Context.thy ===== *)
theory Request_Context
  imports Identity
begin

text \<open>
  Packages \<open>requestid\<close> and \<open>safeerror\<close>: the request identifier a context carries and the wrapper
  that gives an error a fixed public text.

  The context record of \<open>Identity\<close> gets two more slots: the one under the package's own key and
  the one under the string key \<open>"reqid"\<close> that the HTTP runtime fills. A slot that holds no string is
  \<open>None\<close>.
\<close>

section \<open>Request identifiers\<close>

record request_context = identity_context +
  ctx_request_id :: "string option"
  ctx_reqid :: "string option"

definition Background :: request_context where
  "Background = \<lparr>ctx_Err = None, ctx_authorization = None, ctx_display_names = None,
     ctx_request_id = None, ctx_reqid = None\<rparr>"

definition request_id_rune :: "nat \<Rightarrow> bool" where
  "request_id_rune c \<longleftrightarrow>
     (97 \<le> c \<and> c \<le> 122) \<or> (65 \<le> c \<and> c \<le> 90) \<or> (48 \<le> c \<and> c \<le> 57) \<or> c = 45 \<or> c = 95 \<or> c = 46"

definition Valid :: "string \<Rightarrow> bool" where
  "Valid i \<longleftrightarrow>
     (if length i = 0 \<or> length i > 128 then False
      else \<not> list_ex (\<lambda>c. \<not> request_id_rune c) (runes i))"

definition FromContext :: "request_context option \<Rightarrow> string" where
  "FromContext ctx =
     (case ctx of None \<Rightarrow> ''''
      | Some c \<Rightarrow>
         (case ctx_request_id c of
            Some i \<Rightarrow> if Valid i then i
              else (case ctx_reqid c of Some j \<Rightarrow> if Valid j then j else '''' | None \<Rightarrow> '''')
          | None \<Rightarrow> (case ctx_reqid c of Some j \<Rightarrow> if Valid j then j else '''' | None \<Rightarrow> '''')))"

definition WithContext :: "request_context option \<Rightarrow> string \<Rightarrow> request_context option" where
  "WithContext ctx i =
     (let c = (case ctx of None \<Rightarrow> Background | Some c \<Rightarrow> c)
      in if \<not> Valid i then Some c else Some (c\<lparr>ctx_request_id := Some i\<rparr>))"

section \<open>Errors with a fixed public text\<close>

text \<open>\<open>Unwrap\<close> leads to the cause, so its sentinels stay reachable under the new text.\<close>

definition safeerror_Wrap :: "string \<Rightarrow> 's go_error option \<Rightarrow> 's go_error option" where
  "safeerror_Wrap message cause =
     (case cause of None \<Rightarrow> None | Some e \<Rightarrow> Some (GoError message (error_chain e)))"

section \<open>Lemmas\<close>

lemma request_id_rune_ascii: "request_id_rune r \<Longrightarrow> r < 128"
  by (auto simp: request_id_rune_def)

text \<open>The loop over runes is a test of every byte, and the length bound is one in bytes.\<close>

lemma Valid_iff:
  "Valid i \<longleftrightarrow> 0 < length i \<and> length i \<le> 128 \<and> (\<forall>c \<in> set i. request_id_rune (of_char c))"
  using all_runes_ascii_iff [of request_id_rune i, OF request_id_rune_ascii]
  by (auto simp: Valid_def list_ex_iff not_less)

lemma FromContext_valid_or_empty: "FromContext ctx = '''' \<or> Valid (FromContext ctx)"
  by (auto simp: FromContext_def split: option.splits)

lemma errors_is_safeerror_Wrap [simp]:
  "safeerror_Wrap m (Some e) = Some e' \<Longrightarrow> errors_is e' s \<longleftrightarrow> errors_is e s"
  by (auto simp: safeerror_Wrap_def errors_is_def)

end
