(* ===== verification/Context_Properties.thy ===== *)
theory Context_Properties
  imports Request_Context
begin

text \<open>
  Properties of packages \<open>identity\<close> and \<open>requestid\<close>: what a context hands to a downstream reader is
  what was validated when it was written, bound to the member it was written for.
\<close>

definition w_member :: member where
  "w_member = \<lparr>OrganizationID = ''org-1'', UserID = ''user-7''\<rparr>"

definition w_names :: display_names where
  "w_names = \<lparr>Username = '' Ann '', OrganizationName = ''Acme''\<rparr>"

lemma w_member_ok: "member_Validate w_member = None"
proof -
  have ok: "\<not> member_field_bad s n"
    if "s \<noteq> []" "length s \<le> n" "\<forall>c \<in> set s. 32 < (of_char c :: nat) \<and> of_char c < (127::nat)" for s n
  proof -
    have ascii: "\<forall>c \<in> set s. of_char c < (128::nat)" using that(3) by fastforce
    show ?thesis
      using that trim_space_ascii_id [of s] valid_utf8_ascii [OF ascii] utf8_chunks_ascii [OF ascii] runes_ascii [OF ascii]
      by (force simp: member_field_bad_def rune_count_def list_ex_iff is_control_def)
  qed
  show ?thesis by (simp add: member_ok_iff w_member_def ok)
qed

lemma w_names_ok: "display_Validate w_names = None"
proof -
  have n: "utf8_chunks '' Ann '' = map (\<lambda>c. (of_char c, [c])) '' Ann ''"
    "utf8_chunks ''Acme'' = map (\<lambda>c. (of_char c, [c])) ''Acme''"
    by (rule utf8_chunks_ascii; simp)+
  show ?thesis
    by (simp add: display_Validate_def display_field_bad_def w_names_def trim_space_def trim_both_def unchunk_def
        is_space_def maximumDisplayNameBytes_def valid_utf8_def bad_chunk_def rune_error_def runes_def is_control_def n)
qed

text \<open>Reading the authorization from a context returns exactly the authorization that was attached
  last, provided it was valid; an invalid one hides every earlier one instead of falling back to it.\<close>

theorem authorization_round_trip:
  "AuthorizationFromContext (WithAuthorization (Some c) a) = (if validAuthorization a then Some a else None) \<and>
   AuthorizationFromContext (WithAuthorization (WithAuthorization (Some c) b) a) =
     (if validAuthorization a then Some a else None)"
  by (simp add: WithAuthorization_def AuthorizationFromContext_def)

text \<open>C36 A permission is allowed exactly when the authorization is valid and lists it: being the
  organization's owner or belonging to a department grants nothing.\<close>

theorem permissions_are_explicit:
  "(Allows a p \<longleftrightarrow> validAuthorization a \<and> p \<in> set (Permissions a)) \<and>
   Allows (a\<lparr>IsOrganizationOwner := b\<rparr>) p = Allows a p \<and>
   (validAuthorization a \<and> Permissions a = [] \<longrightarrow> \<not> Allows a p)"
  by (auto simp: Allows_iff validAuthorization_def)

definition w_auth :: authorization where
  "w_auth = \<lparr>auth_Member = w_member, IsOrganizationOwner = True, Departments = [], Permissions = []\<rparr>"

theorem permissions_are_explicit_witness: "\<not> Allows w_auth ''billing.read''"
proof -
  have "validAuthorization w_auth" "Permissions w_auth = []"
    by (simp_all add: validAuthorization_def w_auth_def w_member_ok)
  with permissions_are_explicit [of w_auth "''billing.read''"] show ?thesis by blast
qed

text \<open>C37 Display names attached for a member are read back, trimmed, for that member and for no other.\<close>

theorem display_names_bound_to_member:
  assumes "WithDisplayNames ctx m n = Inr c"
  shows "DisplayNamesFromContext (Some c) m' =
    (if m' = m then Some (n\<lparr>Username := trim_space (Username n), OrganizationName := trim_space (OrganizationName n)\<rparr>)
     else None)"
proof -
  define t where "t = n\<lparr>Username := trim_space (Username n), OrganizationName := trim_space (OrganizationName n)\<rparr>"
  have "member_Validate m = None" "display_Validate n = None" "ctx_display_names c = Some (m, t)"
    using assms by (auto simp: WithDisplayNames_def Let_def t_def split: option.splits)
  then show ?thesis
    using display_ok_trim [of n] by (auto simp: DisplayNamesFromContext_def t_def)
qed

theorem display_names_bound_to_member_witness:
  "\<exists>c. WithDisplayNames (Some Background) w_member w_names = Inr c \<and>
     DisplayNamesFromContext (Some c) w_member = Some \<lparr>Username = ''Ann'', OrganizationName = ''Acme''\<rparr>"
proof -
  obtain c where c: "WithDisplayNames (Some Background) w_member w_names = Inr c"
    by (simp add: WithDisplayNames_def w_member_ok w_names_ok Let_def)
  have n: "utf8_chunks '' Ann '' = map (\<lambda>c. (of_char c, [c])) '' Ann ''"
    "utf8_chunks ''Acme'' = map (\<lambda>c. (of_char c, [c])) ''Acme''"
    by (rule utf8_chunks_ascii; simp)+
  have "trim_space '' Ann '' = ''Ann''" "trim_space ''Acme'' = ''Acme''"
    by (simp_all add: trim_space_def trim_both_def unchunk_def is_space_def n)
  then show ?thesis
    using c display_names_bound_to_member [OF c, of w_member] by (simp add: w_names_def)
qed

text \<open>A request identifier is accepted exactly when it has 1 to 128 bytes, all of them letters,
  digits, hyphens, underscores or dots; an accepted one is read back from the context, and one that is
  not accepted leaves the context as it was.\<close>

theorem request_id_round_trip:
  "(Valid i \<longleftrightarrow> 0 < length i \<and> length i \<le> 128 \<and> (\<forall>c. c \<in> set i \<longrightarrow> request_id_rune (of_char c))) \<and>
   FromContext (WithContext (Some c) i) = (if Valid i then i else FromContext (Some c)) \<and>
   (FromContext ctx = '''' \<or> Valid (FromContext ctx))"
  using Valid_iff FromContext_valid_or_empty
  by (auto simp: WithContext_def FromContext_def Let_def split: option.splits)

theorem request_id_round_trip_witness:
  "FromContext (WithContext (Some Background) ''req-1.a_B'') = ''req-1.a_B''"
proof -
  have "Valid ''req-1.a_B''" by (simp add: Valid_iff request_id_rune_def)
  with request_id_round_trip [of "''req-1.a_B''" Background None] show ?thesis by simp
qed

end
