(* ===== verification/Base64.thy ===== *)
theory Base64
  imports Go_Text
begin

text \<open>
  \<open>base64.RawURLEncoding\<close> of Go's standard library: the URL alphabet without padding, its encoder and
  its strict decoder, which ignores line breaks and rejects a last group whose unused bits are not
  zero. Bytes and sextets are natural numbers here, strings at the boundary.
\<close>

definition b64_char :: "nat \<Rightarrow> char" where
  "b64_char n =
     (if n < 26 then char_of (65 + n) else if n < 52 then char_of (97 + (n - 26))
      else if n < 62 then char_of (48 + (n - 52)) else if n = 62 then CHR ''-'' else CHR ''_'')"

definition b64_value :: "char \<Rightarrow> nat option" where
  "b64_value c =
     (let n = of_char c in
      if 65 \<le> n \<and> n \<le> 90 then Some (n - 65) else if 97 \<le> n \<and> n \<le> 122 then Some (n - 97 + 26)
      else if 48 \<le> n \<and> n \<le> 57 then Some (n - 48 + 52) else if n = 45 then Some 62
      else if n = 95 then Some 63 else None)"

fun b64_groups :: "nat list \<Rightarrow> nat list" where
  "b64_groups (a # b # c # rest) =
     [a div 4, (a mod 4) * 16 + b div 16, (b mod 16) * 4 + c div 64, c mod 64] @ b64_groups rest"
| "b64_groups [a, b] = [a div 4, (a mod 4) * 16 + b div 16, (b mod 16) * 4]"
| "b64_groups [a] = [a div 4, (a mod 4) * 16]"
| "b64_groups [] = []"

fun b64_ungroup :: "nat list \<Rightarrow> nat list option" where
  "b64_ungroup (w # x # y # z # rest) =
     map_option (\<lambda>r. [w * 4 + x div 16, (x mod 16) * 16 + y div 4, (y mod 4) * 64 + z] @ r)
       (b64_ungroup rest)"
| "b64_ungroup [w, x, y] =
     (if y mod 4 = 0 then Some [w * 4 + x div 16, (x mod 16) * 16 + y div 4] else None)"
| "b64_ungroup [w, x] = (if x mod 16 = 0 then Some [w * 4 + x div 16] else None)"
| "b64_ungroup [w] = None"
| "b64_ungroup [] = Some []"

definition b64_encode :: "nat list \<Rightarrow> string" where
  "b64_encode bs = map b64_char (b64_groups bs)"

definition b64_decode :: "string \<Rightarrow> nat list option" where
  "b64_decode s =
     (let cs = filter (\<lambda>c. c \<noteq> CHR 0x0A \<and> c \<noteq> CHR 0x0D) s
      in if list_all (\<lambda>c. b64_value c \<noteq> None) cs
         then b64_ungroup (map (\<lambda>c. the (b64_value c)) cs) else None)"

section \<open>Lemmas\<close>

lemma b64_value_char: "n < 64 \<Longrightarrow> b64_value (b64_char n) = Some n"
proof -
  assume n: "n < 64"
  consider "n < 26" | "26 \<le> n \<and> n < 52" | "52 \<le> n \<and> n < 62" | "n = 62" | "n = 63"
    using n by linarith
  then show ?thesis
    by cases (auto simp: b64_char_def b64_value_def Let_def)
qed

lemma b64_char_no_break: "n < 64 \<Longrightarrow> b64_char n \<noteq> CHR 0x0A \<and> b64_char n \<noteq> CHR 0x0D"
  using b64_value_char [of n] by (auto simp: b64_value_def)

lemma b64_groups_bounded: "\<forall>b \<in> set bs. b < 256 \<Longrightarrow> \<forall>n \<in> set (b64_groups bs). n < 64"
  by (induction bs rule: b64_groups.induct) (auto simp: less_mult_imp_div_less)

lemma b64_ungroup_groups:
  "\<forall>b \<in> set bs. b < 256 \<Longrightarrow> b64_ungroup (b64_groups bs) = Some bs"
proof (induction bs rule: b64_groups.induct)
  case (1 a b c rest)
  have "(a mod 4 * 16 + b div 16) div 16 = a mod 4" "(b mod 16 * 4 + c div 64) div 4 = b mod 16"
    using 1 by (simp_all add: less_mult_imp_div_less)
  moreover have "(a mod 4 * 16 + b div 16) mod 16 = b div 16" "(b mod 16 * 4 + c div 64) mod 4 = c div 64"
    using 1 by (simp_all add: less_mult_imp_div_less)
  ultimately show ?case using 1 by simp
next
  case (2 a b)
  have "(a mod 4 * 16 + b div 16) div 16 = a mod 4" "(a mod 4 * 16 + b div 16) mod 16 = b div 16"
    using 2 by (simp_all add: less_mult_imp_div_less)
  with 2 show ?case by simp
qed simp_all

lemma length_b64_groups: "3 * length (b64_groups bs) = 4 * length bs + (if length bs mod 3 = 0 then 0
  else if length bs mod 3 = 1 then 2 else 1)"
  by (induction bs rule: b64_groups.induct) auto

lemma b64_decode_encode:
  assumes "\<forall>b \<in> set bs. b < 256"
  shows "b64_decode (b64_encode bs) = Some bs"
proof -
  have g: "\<forall>n \<in> set (b64_groups bs). n < 64" using b64_groups_bounded assms by blast
  have "filter (\<lambda>c. c \<noteq> CHR 0x0A \<and> c \<noteq> CHR 0x0D) (b64_encode bs) = b64_encode bs"
    unfolding b64_encode_def using g b64_char_no_break by (intro filter_True) auto
  moreover have "map (\<lambda>c. the (b64_value c)) (b64_encode bs) = b64_groups bs"
    using g by (simp add: b64_encode_def b64_value_char comp_def map_idI)
  moreover have "list_all (\<lambda>c. b64_value c \<noteq> None) (b64_encode bs)"
    using g by (auto simp: b64_encode_def list_all_iff b64_value_char)
  ultimately show ?thesis
    using assms by (simp add: b64_decode_def Let_def b64_ungroup_groups)
qed

end
