(* ===== verification/Go_Numbers.thy ===== *)
theory Go_Numbers
  imports Go_Text
begin

text \<open>
  Decimal numerals (\<open>strconv.Itoa\<close>, \<open>strconv.FormatInt\<close>, \<open>strconv.ParseInt\<close> in base 10) and the
  ranges of the machine integers the program parses into.
\<close>

definition digit_char :: "nat \<Rightarrow> char" where
  "digit_char d = char_of (48 + d)"

definition is_digit :: "char \<Rightarrow> bool" where
  "is_digit c \<longleftrightarrow> 48 \<le> (of_char c :: nat) \<and> (of_char c :: nat) \<le> 57"

definition digit_value :: "char \<Rightarrow> nat" where
  "digit_value c = of_char c - 48"

fun nat_digits :: "nat \<Rightarrow> string" where
  "nat_digits n =
     (if n < 10 then [digit_char n] else nat_digits (n div 10) @ [digit_char (n mod 10)])"

declare nat_digits.simps [simp del]

definition digits_value :: "string \<Rightarrow> nat" where
  "digits_value s = foldl (\<lambda>v c. v * 10 + digit_value c) 0 s"

definition itoa :: "int \<Rightarrow> string" where
  "itoa n = (if n < 0 then CHR ''-'' # nat_digits (nat (- n)) else nat_digits (nat n))"

definition int64 :: "int \<Rightarrow> bool" where
  "int64 n \<longleftrightarrow> - (2 ^ 63) \<le> n \<and> n < 2 ^ 63"

definition parse_digits :: "string \<Rightarrow> nat option" where
  "parse_digits s = (if s \<noteq> [] \<and> list_all is_digit s then Some (digits_value s) else None)"

text \<open>\<open>strconv.ParseInt(s, 10, 64)\<close>: an optional sign, then digits; a value out of range is an error.\<close>

definition parse_int :: "string \<Rightarrow> int option" where
  "parse_int s =
     (let r = (case s of [] \<Rightarrow> None
        | c # cs \<Rightarrow>
            if c = CHR ''-'' then map_option (\<lambda>n. - int n) (parse_digits cs)
            else if c = CHR ''+'' then map_option int (parse_digits cs)
            else map_option int (parse_digits s))
      in case r of None \<Rightarrow> None | Some n \<Rightarrow> if int64 n then Some n else None)"

section \<open>Lemmas\<close>

lemma digit_char_props:
  "d < 10 \<Longrightarrow> is_digit (digit_char d)" "d < 10 \<Longrightarrow> digit_value (digit_char d) = d"
  by (simp_all add: is_digit_def digit_char_def digit_value_def)

lemma digit_char_simps [simp]:
  "digit_char 0 = CHR ''0''" "digit_char (Suc 0) = CHR ''1''" "digit_char 2 = CHR ''2''"
  "digit_char 3 = CHR ''3''" "digit_char 4 = CHR ''4''" "digit_char 5 = CHR ''5''"
  "digit_char 6 = CHR ''6''" "digit_char 7 = CHR ''7''" "digit_char 8 = CHR ''8''"
  "digit_char 9 = CHR ''9''"
  by (simp_all add: digit_char_def char_of_eq_iff)

lemma nat_digits_all: "list_all is_digit (nat_digits n)"
proof (induction n rule: nat_digits.induct)
  case (1 n)
  then show ?case
    by (subst nat_digits.simps) (simp add: digit_char_props)
qed

lemma nat_digits_nonempty [simp]: "nat_digits n \<noteq> []"
  by (subst nat_digits.simps) simp

lemma digits_value_nat_digits [simp]: "digits_value (nat_digits n) = n"
proof (induction n rule: nat_digits.induct)
  case (1 n)
  show ?case
  proof (cases "n < 10")
    case True
    then show ?thesis
      by (subst nat_digits.simps) (simp add: digits_value_def digit_char_props)
  next
    case False
    with 1 have "digits_value (nat_digits (n div 10)) = n div 10" by simp
    with False show ?thesis
      by (subst nat_digits.simps) (simp add: digits_value_def digit_char_props)
  qed
qed

lemma parse_digits_nat_digits [simp]: "parse_digits (nat_digits n) = Some n"
  by (simp add: parse_digits_def nat_digits_all)

lemma nat_digits_head: "\<exists>c cs. nat_digits n = c # cs \<and> is_digit c"
  using nat_digits_all [of n] nat_digits_nonempty [of n]
  by (cases "nat_digits n") auto

text \<open>Printing and parsing a number in range is the identity.\<close>

lemma parse_int_itoa [simp]: "int64 n \<Longrightarrow> parse_int (itoa n) = Some n"
proof -
  assume n: "int64 n"
  obtain c cs where c: "nat_digits (nat n) = c # cs" "is_digit c"
    using nat_digits_head by blast
  then have "c \<noteq> CHR ''-''" "c \<noteq> CHR ''+''" by (auto simp: is_digit_def)
  with c have pos: "0 \<le> n \<Longrightarrow> parse_int (itoa n) = Some n"
    using n parse_digits_nat_digits [of "nat n"] by (simp add: parse_int_def itoa_def Let_def)
  show ?thesis
  proof (cases "n < 0")
    case True
    with n show ?thesis by (simp add: parse_int_def itoa_def Let_def)
  qed (use pos in simp)
qed

lemma itoa_inj: "int64 m \<Longrightarrow> int64 n \<Longrightarrow> itoa m = itoa n \<Longrightarrow> m = n"
  by (metis option.inject parse_int_itoa)

end
