(* ===== verification/Redis_Service.thy ===== *)
theory Redis_Service
  imports Go_Numbers "HOL-Library.Finite_Map" "HOL-Library.List_Lexorder" "HOL-Library.Char_ord"
begin

text \<open>
  Redis, as the program uses it. The server is not part of the repository: it is a parameter, a
  record \<open>redis\<close> with the operation \<open>r_call\<close> (one command, executed atomically), the passing of time
  \<open>r_wait\<close> and the observation \<open>r_db\<close> of its contents over a state type \<open>'r\<close> of its own. What the
  program relies on is the hypothesis \<open>redis_ok\<close>: every command does to the observed contents what
  the command reference says (\<open>redis_doc\<close>). A Lua script is a program in \<open>cmd\<close>; it is written over
  the function that executes a command, so that the same text runs on the parameter and on the
  documented behaviour, and \<open>cmd_sim\<close> relates the two runs.
\<close>

section \<open>Contents\<close>

text \<open>
  A stream holds its entries with their identifiers in order, the last identifier it gave, and for
  each consumer group the identifier delivered last.
\<close>

datatype redis_value =
    RString string
  | RHash "(string, string) fmap"
  | RStream "(nat \<times> string) list" nat "(string, nat) fmap"

type_synonym redis_entry = "redis_value \<times> int option"

text \<open>Deadlines and the clock are in milliseconds; a key whose deadline has come does not exist.\<close>

record redis_db =
  db_keys :: "string \<Rightarrow> redis_entry option"
  db_clock :: int

definition entry_live :: "int \<Rightarrow> redis_entry \<Rightarrow> bool" where
  "entry_live now e \<longleftrightarrow> (case snd e of None \<Rightarrow> True | Some d \<Rightarrow> now < d)"

definition db_live :: "redis_db \<Rightarrow> string \<Rightarrow> redis_entry option" where
  "db_live db k =
     (case db_keys db k of None \<Rightarrow> None
      | Some e \<Rightarrow> if entry_live (db_clock db) e then Some e else None)"

definition db_put :: "string \<Rightarrow> redis_entry \<Rightarrow> redis_db \<Rightarrow> redis_db" where
  "db_put k e db = db\<lparr>db_keys := (db_keys db)(k := Some e)\<rparr>"

definition db_del :: "string \<Rightarrow> redis_db \<Rightarrow> redis_db" where
  "db_del k db = db\<lparr>db_keys := (db_keys db)(k := None)\<rparr>"

definition db_wait :: "int \<Rightarrow> redis_db \<Rightarrow> redis_db" where
  "db_wait ms db = db\<lparr>db_clock := db_clock db + ms\<rparr>"

section \<open>Commands\<close>

datatype redis_command =
    EXISTS string | GET string | DEL string | INCR string | GETDEL string
  | PEXPIRE string string
  | SET_PX string string string
  | SETNX_EX string string int
  | HEXISTS string string | HGET string string | HDEL string string
  | HSET string "(string \<times> string) list"
  | HINCRBY string string int
  | HGETALL string | HLEN string
  | XADD string string | XGROUP_CREATE string string | XREADGROUP string string
  | XINFO_GROUPS string | XRANGE string string nat

datatype redis_reply =
    RInt int | RBulk string | RNil | ROk | RPairs "(string \<times> string) list" | RBulks "string list"

type_synonym ('r, 'a) cmd = "'r \<Rightarrow> (string + 'a) \<times> 'r"

definition cmd_return :: "'a \<Rightarrow> ('r, 'a) cmd" where
  "cmd_return a r = (Inr a, r)"

definition cmd_raise :: "string \<Rightarrow> ('r, 'a) cmd" where
  "cmd_raise e r = (Inl e, r)"

definition cmd_bind :: "('r, 'a) cmd \<Rightarrow> ('a \<Rightarrow> ('r, 'b) cmd) \<Rightarrow> ('r, 'b) cmd" where
  "cmd_bind m f r = (case m r of (Inl e, r') \<Rightarrow> (Inl e, r') | (Inr a, r') \<Rightarrow> f a r')"

text \<open>The integers Redis stores in strings are canonical decimal numerals of 64 bits.\<close>

definition redis_int :: "string \<Rightarrow> int option" where
  "redis_int s = (case parse_int s of None \<Rightarrow> None
     | Some n \<Rightarrow> if itoa n = s then Some n else None)"

definition wrong_type :: string where
  "wrong_type = ''WRONGTYPE Operation against a key holding the wrong kind of value''"

definition not_integer :: string where
  "not_integer = ''ERR value is not an integer or out of range''"

definition incr_text :: "string option \<Rightarrow> int \<Rightarrow> (string + int)" where
  "incr_text old by =
     (case old of None \<Rightarrow> Inr by
      | Some s \<Rightarrow> (case redis_int s of None \<Rightarrow> Inl not_integer
          | Some n \<Rightarrow> if int64 (n + by) then Inr (n + by) else Inl not_integer))"

definition as_hash :: "redis_entry option \<Rightarrow> (string + (string, string) fmap \<times> int option)" where
  "as_hash e =
     (case e of None \<Rightarrow> Inr (fmempty, None)
      | Some (RHash h, d) \<Rightarrow> Inr (h, d)
      | Some (_, d) \<Rightarrow> Inl wrong_type)"

definition as_stream :: "redis_entry option \<Rightarrow> (string + ((nat \<times> string) list \<times> nat \<times> (string, nat) fmap \<times> int option) option)" where
  "as_stream e =
     (case e of None \<Rightarrow> Inr None
      | Some (RStream es l gs, d) \<Rightarrow> Inr (Some (es, l, gs, d))
      | Some (_, d) \<Rightarrow> Inl wrong_type)"

text \<open>An enumeration of the fields of a hash; clients get them in no particular order.\<close>

definition hash_pairs :: "(string, string) fmap \<Rightarrow> (string \<times> string) list" where
  "hash_pairs h = map (\<lambda>f. (f, the (fmlookup h f))) (sorted_list_of_fset (fmdom h))"

definition group_pairs :: "(string, nat) fmap \<Rightarrow> (string \<times> string) list" where
  "group_pairs g = map (\<lambda>f. (f, nat_digits (the (fmlookup g f)))) (sorted_list_of_fset (fmdom g))"

definition put_fields :: "(string \<times> string) list \<Rightarrow> (string, string) fmap \<Rightarrow> (string, string) fmap" where
  "put_fields fs h = fold (\<lambda>(f, v) g. fmupd f v g) fs h"

text \<open>
  \<open>redis_doc c\<close> is the documented effect of the command \<open>c\<close>; a hash that loses its last field is
  deleted.
\<close>

fun redis_doc :: "redis_command \<Rightarrow> (redis_db, redis_reply) cmd" where
  "redis_doc (EXISTS k) db = (Inr (RInt (if db_live db k = None then 0 else 1)), db)"
| "redis_doc (GET k) db =
     (case db_live db k of None \<Rightarrow> (Inr RNil, db)
      | Some (RString v, _) \<Rightarrow> (Inr (RBulk v), db)
      | Some (_, _) \<Rightarrow> (Inl wrong_type, db))"
| "redis_doc (DEL k) db =
     (Inr (RInt (if db_live db k = None then 0 else 1)), db_del k db)"
| "redis_doc (GETDEL k) db =
     (case db_live db k of None \<Rightarrow> (Inr RNil, db)
      | Some (RString v, _) \<Rightarrow> (Inr (RBulk v), db_del k db)
      | Some (_, _) \<Rightarrow> (Inl wrong_type, db))"
| "redis_doc (INCR k) db =
     (case db_live db k of
        None \<Rightarrow> (Inr (RInt 1), db_put k (RString (itoa 1), None) db)
      | Some (RString v, d) \<Rightarrow>
          (case incr_text (Some v) 1 of Inl e \<Rightarrow> (Inl e, db)
           | Inr n \<Rightarrow> (Inr (RInt n), db_put k (RString (itoa n), d) db))
      | Some (_, _) \<Rightarrow> (Inl wrong_type, db))"
| "redis_doc (PEXPIRE k ms) db =
     (case redis_int ms of None \<Rightarrow> (Inl not_integer, db)
      | Some n \<Rightarrow>
         (case db_live db k of None \<Rightarrow> (Inr (RInt 0), db)
          | Some (v, _) \<Rightarrow>
              if n \<le> 0 then (Inr (RInt 1), db_del k db)
              else (Inr (RInt 1), db_put k (v, Some (db_clock db + n)) db)))"
| "redis_doc (SET_PX k v ms) db =
     (case redis_int ms of None \<Rightarrow> (Inl not_integer, db)
      | Some n \<Rightarrow> if n \<le> 0 then (Inl ''ERR invalid expire time in 'set' command'', db)
          else (Inr ROk, db_put k (RString v, Some (db_clock db + n)) db))"
| "redis_doc (SETNX_EX k v ms) db =
     (if db_live db k \<noteq> None then (Inr RNil, db)
      else (Inr ROk, db_put k (RString v, if ms > 0 then Some (db_clock db + ms) else None) db))"
| "redis_doc (HEXISTS k f) db =
     (case as_hash (db_live db k) of Inl e \<Rightarrow> (Inl e, db)
      | Inr (h, _) \<Rightarrow> (Inr (RInt (if fmlookup h f = None then 0 else 1)), db))"
| "redis_doc (HGET k f) db =
     (case as_hash (db_live db k) of Inl e \<Rightarrow> (Inl e, db)
      | Inr (h, _) \<Rightarrow> (Inr (case fmlookup h f of None \<Rightarrow> RNil | Some v \<Rightarrow> RBulk v), db))"
| "redis_doc (HDEL k f) db =
     (case as_hash (db_live db k) of Inl e \<Rightarrow> (Inl e, db)
      | Inr (h, d) \<Rightarrow>
          if fmlookup h f = None then (Inr (RInt 0), db)
          else (Inr (RInt 1), if fmdrop f h = fmempty then db_del k db
                              else db_put k (RHash (fmdrop f h), d) db))"
| "redis_doc (HSET k fs) db =
     (case as_hash (db_live db k) of Inl e \<Rightarrow> (Inl e, db)
      | Inr (h, d) \<Rightarrow>
          (Inr (RInt (int (length (filter (\<lambda>f. fmlookup h f = None) (remdups (map fst fs)))))),
           db_put k (RHash (put_fields fs h), d) db))"
| "redis_doc (HINCRBY k f by) db =
     (case as_hash (db_live db k) of Inl e \<Rightarrow> (Inl e, db)
      | Inr (h, d) \<Rightarrow>
         (case incr_text (fmlookup h f) by of Inl e \<Rightarrow> (Inl e, db)
          | Inr n \<Rightarrow> (Inr (RInt n), db_put k (RHash (fmupd f (itoa n) h), d) db)))"
| "redis_doc (HGETALL k) db =
     (case as_hash (db_live db k) of Inl e \<Rightarrow> (Inl e, db) | Inr (h, _) \<Rightarrow> (Inr (RPairs (hash_pairs h)), db))"
| "redis_doc (HLEN k) db =
     (case as_hash (db_live db k) of Inl e \<Rightarrow> (Inl e, db) | Inr (h, _) \<Rightarrow> (Inr (RInt (int (size (fmdom h)))), db))"
| "redis_doc (XADD k v) db =
     (case as_stream (db_live db k) of Inl e \<Rightarrow> (Inl e, db)
      | Inr None \<Rightarrow> (Inr (RBulk (nat_digits 1)), db_put k (RStream [(1, v)] 1 fmempty, None) db)
      | Inr (Some (es, l, gs, d)) \<Rightarrow>
          (Inr (RBulk (nat_digits (l + 1))), db_put k (RStream (es @ [(l + 1, v)]) (l + 1) gs, d) db))"
| "redis_doc (XGROUP_CREATE k g) db =
     (case as_stream (db_live db k) of Inl e \<Rightarrow> (Inl e, db)
      | Inr None \<Rightarrow> (Inr ROk, db_put k (RStream [] 0 (fmupd g 0 fmempty), None) db)
      | Inr (Some (es, l, gs, d)) \<Rightarrow>
          if fmlookup gs g \<noteq> None then (Inl ''BUSYGROUP Consumer Group name already exists'', db)
          else (Inr ROk, db_put k (RStream es l (fmupd g l gs), d) db))"
| "redis_doc (XREADGROUP k g) db =
     (case as_stream (db_live db k) of Inl e \<Rightarrow> (Inl e, db)
      | Inr None \<Rightarrow> (Inl ''NOGROUP No such key'', db)
      | Inr (Some (es, l, gs, d)) \<Rightarrow>
         (case fmlookup gs g of None \<Rightarrow> (Inl ''NOGROUP No such consumer group'', db)
          | Some cursor \<Rightarrow>
             (case List.find (\<lambda>e. cursor < fst e) es of None \<Rightarrow> (Inr RNil, db)
              | Some e \<Rightarrow> (Inr (RBulk (nat_digits (fst e))), db_put k (RStream es l (fmupd g (fst e) gs), d) db))))"
| "redis_doc (XINFO_GROUPS k) db =
     (case as_stream (db_live db k) of Inl e \<Rightarrow> (Inl e, db)
      | Inr None \<Rightarrow> (Inl ''ERR no such key'', db)
      | Inr (Some (es, l, gs, d)) \<Rightarrow> (Inr (RPairs (group_pairs gs)), db))"
| "redis_doc (XRANGE k start count) db =
     (case as_stream (db_live db k) of Inl e \<Rightarrow> (Inl e, db)
      | Inr None \<Rightarrow> (Inr (RBulks []), db)
      | Inr (Some (es, l, gs, d)) \<Rightarrow>
         (case parse_digits start of None \<Rightarrow> (Inl ''ERR Invalid stream ID specified as stream command argument'', db)
          | Some n \<Rightarrow>
             (Inr (RBulks (take count (map (\<lambda>e. nat_digits (fst e)) (filter (\<lambda>e. n \<le> fst e) es)))), db)))"

section \<open>The service\<close>

record 'r redis =
  r_db :: "'r \<Rightarrow> redis_db"
  r_call :: "redis_command \<Rightarrow> ('r, redis_reply) cmd"
  r_wait :: "int \<Rightarrow> 'r \<Rightarrow> 'r"

definition cmd_sim :: "'r redis \<Rightarrow> ('r, 'a) cmd \<Rightarrow> (redis_db, 'a) cmd \<Rightarrow> bool" where
  "cmd_sim R m d \<longleftrightarrow> (\<forall>r. (fst (m r), r_db R (snd (m r))) = d (r_db R r))"

definition redis_ok :: "'r redis \<Rightarrow> bool" where
  "redis_ok R \<longleftrightarrow> (\<forall>c. cmd_sim R (r_call R c) (redis_doc c)) \<and>
     (\<forall>ms r. 0 \<le> ms \<longrightarrow> r_db R (r_wait R ms r) = db_wait ms (r_db R r))"

text \<open>The reference server of the witnesses: its state is the documented contents.\<close>

definition ref_redis :: "redis_db redis" where
  "ref_redis = \<lparr>r_db = id, r_call = redis_doc, r_wait = db_wait\<rparr>"

definition empty_redis_db :: redis_db where
  "empty_redis_db = \<lparr>db_keys = (\<lambda>_. None), db_clock = 0\<rparr>"

text \<open>
  A request to the server is delivered, or lost before the server saw it, or executed and its
  reply lost; in the last two cases the client sees an error.
\<close>

datatype net = Delivered | LostBefore | LostAfter

definition via_net :: "net \<Rightarrow> ('r, 'a) cmd \<Rightarrow> ('r, 'a) cmd" where
  "via_net n m r =
     (case n of Delivered \<Rightarrow> m r
      | LostBefore \<Rightarrow> (Inl ''connection failed'', r)
      | LostAfter \<Rightarrow> (Inl ''connection failed'', snd (m r)))"

section \<open>Lemmas\<close>

lemma ref_redis_ok: "redis_ok ref_redis"
  by (auto simp: redis_ok_def cmd_sim_def ref_redis_def)

lemma r_call_sim [svc_laws]: "redis_ok R \<Longrightarrow> cmd_sim R (r_call R c) (redis_doc c)"
  by (simp add: redis_ok_def)

lemma cmd_sim_return [svc_laws]: "cmd_sim R (cmd_return a) (cmd_return a)"
  by (simp add: cmd_sim_def cmd_return_def)

lemma cmd_sim_raise [svc_laws]: "cmd_sim R (cmd_raise e) (cmd_raise e)"
  by (simp add: cmd_sim_def cmd_raise_def)

lemma cmd_sim_bind [svc_laws]:
  assumes m: "cmd_sim R m d" and f: "\<And>a. cmd_sim R (f a) (g a)"
  shows "cmd_sim R (cmd_bind m f) (cmd_bind d g)"
  unfolding cmd_sim_def
proof
  fix r
  have "(fst (m r), r_db R (snd (m r))) = d (r_db R r)" using m by (simp add: cmd_sim_def)
  moreover have "(fst (f a (snd (m r))), r_db R (snd (f a (snd (m r))))) = g a (r_db R (snd (m r)))" for a
    using f by (simp add: cmd_sim_def)
  ultimately show "(fst (cmd_bind m f r), r_db R (snd (cmd_bind m f r))) = cmd_bind d g (r_db R r)"
    by (cases "m r"; cases "fst (m r)") (auto simp: cmd_bind_def split: prod.splits)
qed

lemma cmd_sim_if [svc_laws]:
  "cmd_sim R m d \<Longrightarrow> cmd_sim R m' d' \<Longrightarrow> cmd_sim R (if b then m else m') (if b then d else d')"
  by simp

lemma cmd_sim_case_option [svc_laws]:
  "cmd_sim R m d \<Longrightarrow> (\<And>a. cmd_sim R (f a) (g a)) \<Longrightarrow>
   cmd_sim R (case x of None \<Rightarrow> m | Some a \<Rightarrow> f a) (case x of None \<Rightarrow> d | Some a \<Rightarrow> g a)"
  by (cases x) simp_all

lemma cmd_sim_via_net: "cmd_sim R m d \<Longrightarrow> cmd_sim R (via_net n m) (via_net n d)"
  unfolding cmd_sim_def via_net_def by (cases n) (force simp: prod_eq_iff)+

lemma cmd_simD: "cmd_sim R m d \<Longrightarrow> fst (m r) = fst (d (r_db R r)) \<and> r_db R (snd (m r)) = snd (d (r_db R r))"
  unfolding cmd_sim_def by (metis fst_conv snd_conv)

text \<open>
  A program whose request goes over the network: nothing happened, or all of it; an answer is the documented one.
\<close>

lemma net_sim:
  assumes sim: "cmd_sim R m d" and out: "via_net n m r = (res, r')"
  shows "r_db R r' = r_db R r \<or> r_db R r' = snd (d (r_db R r))"
    and "\<And>v. res = Inr v \<Longrightarrow> fst (d (r_db R r)) = Inr v \<and> r_db R r' = snd (d (r_db R r))"
    and "n = Delivered \<Longrightarrow> res = fst (d (r_db R r)) \<and> r_db R r' = snd (d (r_db R r))"
proof -
  note s = cmd_simD [OF sim, of r]
  show "r_db R r' = r_db R r \<or> r_db R r' = snd (d (r_db R r))"
    using out s by (cases n) (auto simp: via_net_def)
  show "fst (d (r_db R r)) = Inr v \<and> r_db R r' = snd (d (r_db R r))" if "res = Inr v" for v
    using out s that by (cases n) (auto simp: via_net_def)
  show "res = fst (d (r_db R r)) \<and> r_db R r' = snd (d (r_db R r))" if "n = Delivered"
    using out s that by (auto simp: via_net_def)
qed

lemma redis_int_itoa [simp]: "int64 n \<Longrightarrow> redis_int (itoa n) = Some n"
  by (simp add: redis_int_def)

lemma incr_text_itoa:
  "int64 n \<Longrightarrow> int64 (n + by) \<Longrightarrow> incr_text (Some (itoa n)) by = Inr (n + by)"
  by (simp add: incr_text_def)

lemma db_clock_simps [simp]:
  "db_clock (db_put k e db) = db_clock db" "db_clock (db_del k db) = db_clock db"
  "db_clock (db_wait ms db) = db_clock db + ms"
  by (simp_all add: db_put_def db_del_def db_wait_def)

lemma db_put_put [simp]: "db_put k e (db_put k e' db) = db_put k e db"
  by (simp add: db_put_def)

lemma db_live_put [simp]:
  "db_live (db_put k e db) k' =
     (if k' = k then (if entry_live (db_clock db) e then Some e else None) else db_live db k')"
  by (simp add: db_live_def db_put_def split: option.splits)

lemma db_live_del [simp]: "db_live (db_del k db) k' = (if k' = k then None else db_live db k')"
  by (simp add: db_live_def db_del_def split: option.splits)

lemma db_live_wait:
  "0 \<le> ms \<Longrightarrow> db_live (db_wait ms db) k =
     (case db_live db k of None \<Rightarrow> None
      | Some e \<Rightarrow> if entry_live (db_clock db + ms) e then Some e else None)"
  by (auto simp: db_live_def db_wait_def entry_live_def split: option.splits)

lemma fmdrop_nonempty: "fmlookup h k = Some v \<Longrightarrow> k \<noteq> f \<Longrightarrow> fmdrop f h \<noteq> fmempty"
  by (metis fmempty_lookup fmlookup_drop option.distinct(1))

lemma entry_live_None [simp]: "entry_live now (v, None)"
  by (simp add: entry_live_def)

lemma entry_live_Some [simp]: "entry_live now (v, Some d) \<longleftrightarrow> now < d"
  by (simp add: entry_live_def)

lemma db_live_entry_live: "db_live db k = Some e \<Longrightarrow> entry_live (db_clock db) e"
  by (auto simp: db_live_def split: option.splits if_splits)

end
