(* ===== verification/Verification_Types.thy ===== *)
theory Verification_Types
  imports Request_Context Base64 Redis_Service
begin

text \<open>
  Package \<open>verification\<close>, the types and validations of \<open>src/verification/verification.go\<close>:
  sentinels, policies, inputs, claims and the validation of identities and codes.

  Parts of Go's library that the package only calls are fields of the parameter \<open>verification_lib\<close>:
  \<open>mail.ParseAddress\<close> (the address it extracts, if it parses), \<open>net.ParseIP(s).String()\<close>, the lower
  case table of Unicode and \<open>sha256.Sum256\<close>. The theorems hold for every choice of them.
\<close>

section \<open>Sentinels\<close>

datatype vsent =
    ErrInvalidPolicy | ErrInvalidPurpose | ErrInvalidChannel | ErrInvalidDestination
  | ErrInvalidClientIP | ErrInvalidCode | ErrResendCooldown | ErrTargetRateLimited
  | ErrIPRateLimited | ErrChallengeNotFound | ErrCodeMismatch | ErrAttemptsExceeded
  | ErrChallengeClaimed | ErrInvalidClaim | ErrDeliveryFailed | ErrCodeGenerationFailed
  | ErrClaimGenerationFailed | ErrStore | ErrContext ctx_err

fun vsent_text :: "vsent \<Rightarrow> string" where
  "vsent_text ErrInvalidPolicy = ''invalid verification policy''"
| "vsent_text ErrInvalidPurpose = ''invalid verification purpose''"
| "vsent_text ErrInvalidChannel = ''invalid verification channel''"
| "vsent_text ErrInvalidDestination = ''invalid verification destination''"
| "vsent_text ErrInvalidClientIP = ''invalid verification client IP''"
| "vsent_text ErrInvalidCode = ''invalid verification code''"
| "vsent_text ErrResendCooldown = ''verification resend cooldown active''"
| "vsent_text ErrTargetRateLimited = ''verification target rate limit exceeded''"
| "vsent_text ErrIPRateLimited = ''verification IP rate limit exceeded''"
| "vsent_text ErrChallengeNotFound = ''verification challenge not found''"
| "vsent_text ErrCodeMismatch = ''verification code mismatch''"
| "vsent_text ErrAttemptsExceeded = ''verification attempts exceeded''"
| "vsent_text ErrChallengeClaimed = ''verification challenge is already claimed''"
| "vsent_text ErrInvalidClaim = ''invalid verification claim''"
| "vsent_text ErrDeliveryFailed = ''verification delivery failed''"
| "vsent_text ErrCodeGenerationFailed = ''verification code generation failed''"
| "vsent_text ErrClaimGenerationFailed = ''verification claim generation failed''"
| "vsent_text ErrStore = ''verification store failed''"
| "vsent_text (ErrContext Canceled) = ''context canceled''"
| "vsent_text (ErrContext DeadlineExceeded) = ''context deadline exceeded''"

type_synonym verror = "vsent go_error"

definition verr :: "vsent \<Rightarrow> verror" where
  "verr s = errors_new s (vsent_text s)"

lemma errors_is_verr [simp]: "errors_is (verr s) s' \<longleftrightarrow> s' = s"
  by (simp add: verr_def)

lemma verr_inject [simp]: "verr a = verr b \<longleftrightarrow> a = b"
  by (auto simp: verr_def errors_new_def)

section \<open>Policy, inputs, claims\<close>

record policy =
  CodeLength :: int
  CodeTTL :: duration
  ResendCooldown :: duration
  MaxAttempts :: int
  TargetLimit :: int
  TargetWindow :: duration
  IPLimit :: int
  IPWindow :: duration

definition currentCodeLength :: int where "currentCodeLength = 6"

definition Policy_Validate :: "policy \<Rightarrow> verror option" where
  "Policy_Validate p =
     (if CodeLength p < 4 \<or> CodeLength p > 10 \<or> CodeLength p \<noteq> currentCodeLength
      then Some (verr ErrInvalidPolicy)
      else if CodeTTL p < second \<or> CodeTTL p > 30 * minute then Some (verr ErrInvalidPolicy)
      else if ResendCooldown p < second \<or> ResendCooldown p > CodeTTL p then Some (verr ErrInvalidPolicy)
      else if MaxAttempts p < 1 \<or> MaxAttempts p > 20 then Some (verr ErrInvalidPolicy)
      else if TargetLimit p < 1 \<or> TargetLimit p > 10000 \<or> TargetWindow p < second \<or>
              TargetWindow p > 24 * hour then Some (verr ErrInvalidPolicy)
      else if IPLimit p < 1 \<or> IPLimit p > 100000 \<or> IPWindow p < second \<or> IPWindow p > 24 * hour
      then Some (verr ErrInvalidPolicy)
      else None)"

record identity_input =
  in_Purpose :: string
  in_Channel :: string
  in_Destination :: string

record send_input = identity_input +
  ClientIP :: string

record verify_input = identity_input +
  Code :: string

record claim = identity_input +
  claim_token :: string

record delivery = identity_input +
  dl_Code :: string
  ExpiresAt :: time

record verification_lib =
  lib_ParseAddress :: "string \<Rightarrow> string option"
  lib_ParseIP :: "string \<Rightarrow> string option"
  lib_lower :: "nat \<Rightarrow> nat"
  lib_sha256 :: "string \<Rightarrow> nat list"

section \<open>Validation\<close>

definition ChannelEmail :: string where "ChannelEmail = ''email''"
definition ChannelPhone :: string where "ChannelPhone = ''phone''"

definition char_in :: "nat \<Rightarrow> nat \<Rightarrow> char \<Rightarrow> bool" where
  "char_in lo hi c \<longleftrightarrow> lo \<le> of_char c \<and> of_char c \<le> hi"

text \<open>
  The regular expressions of a purpose (a lower case letter, then at most 63 lower case letters,
  digits, underscores, dots or hyphens) and of an E.164 number (a plus sign, a digit 1 to 9, then 7
  to 14 digits).
\<close>

definition purposePattern :: "string \<Rightarrow> bool" where
  "purposePattern s =
     (case s of [] \<Rightarrow> False
      | c # cs \<Rightarrow> char_in 97 122 c \<and> length cs \<le> 63 \<and>
          list_all (\<lambda>d. char_in 97 122 d \<or> char_in 48 57 d \<or> d \<in> set ''_.-'') cs)"

definition phonePattern :: "string \<Rightarrow> bool" where
  "phonePattern s =
     (case s of a # b # cs \<Rightarrow> a = CHR ''+'' \<and> char_in 49 57 b \<and> 7 \<le> length cs \<and> length cs \<le> 14 \<and>
          list_all (char_in 48 57) cs
      | _ \<Rightarrow> False)"

definition validateIdentity :: "verification_lib \<Rightarrow> string \<Rightarrow> string \<Rightarrow> string \<Rightarrow> verror option" where
  "validateIdentity L purpose channel destination =
     (if \<not> purposePattern purpose then Some (verr ErrInvalidPurpose)
      else if channel = ChannelEmail then
        (case lib_ParseAddress L destination of
           None \<Rightarrow> Some (verr ErrInvalidDestination)
         | Some address \<Rightarrow>
             if address \<noteq> destination \<or> to_lower (lib_lower L) destination \<noteq> destination
             then Some (verr ErrInvalidDestination) else None)
      else if channel = ChannelPhone then
        (if \<not> phonePattern destination then Some (verr ErrInvalidDestination) else None)
      else Some (verr ErrInvalidChannel))"

abbreviation identity_ok :: "verification_lib \<Rightarrow> 'z identity_input_scheme \<Rightarrow> bool" where
  "identity_ok L i \<equiv> validateIdentity L (in_Purpose i) (in_Channel i) (in_Destination i) = None"

definition validateSendInput :: "verification_lib \<Rightarrow> send_input \<Rightarrow> verror option" where
  "validateSendInput L i =
     (case validateIdentity L (in_Purpose i) (in_Channel i) (in_Destination i) of
        Some e \<Rightarrow> Some e
      | None \<Rightarrow>
         (case lib_ParseIP L (ClientIP i) of
            None \<Rightarrow> Some (verr ErrInvalidClientIP)
          | Some ip \<Rightarrow> if ip \<noteq> ClientIP i then Some (verr ErrInvalidClientIP) else None))"

definition validateVerifyInput :: "verification_lib \<Rightarrow> verify_input \<Rightarrow> int \<Rightarrow> verror option" where
  "validateVerifyInput L i codeLength =
     (case validateIdentity L (in_Purpose i) (in_Channel i) (in_Destination i) of
        Some e \<Rightarrow> Some e
      | None \<Rightarrow>
         if int (length (Code i)) \<noteq> codeLength then Some (verr ErrInvalidCode)
         else if list_ex (\<lambda>c. \<not> is_digit c) (Code i) then Some (verr ErrInvalidCode)
         else None)"

section \<open>Codes and claim tokens\<close>

text \<open>
  \<open>generateCode\<close>. Each element of \<open>reads\<close> is the outcome of one \<open>rand.Read\<close> of six bytes (\<open>None\<close> a
  failure); a list that ends while the loop still needs bytes gives \<open>None\<close>, the loop is waiting.
  \<open>take_digits\<close> is the inner loop over one read.
\<close>

fun take_digits :: "string \<Rightarrow> nat list \<Rightarrow> string" where
  "take_digits code [] = code"
| "take_digits code (v # vs) =
     (if v \<ge> 250 then take_digits code vs
      else let code' = code @ [digit_char (v mod 10)]
           in if length code' = nat currentCodeLength then code' else take_digits code' vs)"

fun generateCode_loop :: "string \<Rightarrow> nat list option list \<Rightarrow> (verror + string) option" where
  "generateCode_loop code reads =
     (if length code < nat currentCodeLength then
        (case reads of [] \<Rightarrow> None
         | None # _ \<Rightarrow> Some (Inl (errors_text ''rand: read failed''))
         | Some bytes # rest \<Rightarrow> generateCode_loop (take_digits code bytes) rest)
      else Some (Inr code))"

declare generateCode_loop.simps [simp del]

definition generateCode :: "nat list option list \<Rightarrow> (verror + string) option" where
  "generateCode reads = generateCode_loop [] reads"

text \<open>
  \<open>generateClaimToken\<close> reads 32 bytes from the entropy source; \<open>None\<close> as source is a nil reader, and
  \<open>Some None\<close> a read that failed.
\<close>

definition generateClaimToken :: "nat list option option \<Rightarrow> verror + string" where
  "generateClaimToken entropy =
     (case entropy of None \<Rightarrow> Inl (verr ErrClaimGenerationFailed)
      | Some None \<Rightarrow> Inl (errors_text ''read failed'')
      | Some (Some bytes) \<Rightarrow> Inr (b64_encode bytes))"

definition validClaim :: "verification_lib \<Rightarrow> claim option \<Rightarrow> bool" where
  "validClaim L c =
     (case c of None \<Rightarrow> False
      | Some cl \<Rightarrow>
         if validateIdentity L (in_Purpose cl) (in_Channel cl) (in_Destination cl) \<noteq> None then False
         else (case b64_decode (claim_token cl) of None \<Rightarrow> False
               | Some decoded \<Rightarrow> length decoded = 32 \<and> b64_encode decoded = claim_token cl))"

definition sanitizeStoreError :: "verror option \<Rightarrow> vsent list \<Rightarrow> verror option" where
  "sanitizeStoreError err allowed =
     (case err of None \<Rightarrow> None
      | Some e \<Rightarrow>
         (case find_first (errors_is e) allowed of
            Some candidate \<Rightarrow> Some (verr candidate)
          | None \<Rightarrow>
              if errors_is e (ErrContext Canceled) then Some (verr (ErrContext Canceled))
              else if errors_is e (ErrContext DeadlineExceeded)
              then Some (verr (ErrContext DeadlineExceeded))
              else Some (verr ErrStore)))"

section \<open>Lemmas\<close>

lemma Policy_Validate_bounds:
  assumes "Policy_Validate p = None"
  shows "CodeLength p = 6" "second \<le> CodeTTL p" "CodeTTL p \<le> 30 * minute"
    "second \<le> ResendCooldown p" "ResendCooldown p \<le> CodeTTL p" "1 \<le> MaxAttempts p" "MaxAttempts p \<le> 20"
    "1 \<le> TargetLimit p" "TargetLimit p \<le> 10000" "second \<le> TargetWindow p" "TargetWindow p \<le> 24 * hour"
    "1 \<le> IPLimit p" "IPLimit p \<le> 100000" "second \<le> IPWindow p" "IPWindow p \<le> 24 * hour"
  using assms by (auto simp: Policy_Validate_def currentCodeLength_def split: if_splits)

lemma milliseconds_bounds:
  assumes "second \<le> d" "d \<le> 24 * hour"
  shows "0 < milliseconds d \<and> milliseconds d \<le> 86400000"
proof -
  have "milliseconds d = d div 1000000"
    using assms by (simp add: milliseconds_def go_div_nonneg duration_defs)
  with assms show ?thesis by (simp add: duration_defs pos_imp_zdiv_pos_iff)
qed

lemma length_take_digits: "length code < 6 \<Longrightarrow> length (take_digits code vs) \<le> 6"
  by (induction code vs rule: take_digits.induct) (auto simp: currentCodeLength_def Let_def)

lemma take_digits_eq:
  "length code < 6 \<Longrightarrow> take_digits code vs =
     code @ take (6 - length code) (map (\<lambda>v. digit_char (v mod 10)) (filter (\<lambda>v. v < 250) vs))"
proof (induction code vs rule: take_digits.induct)
  case (2 code v vs)
  show ?case
  proof (cases "v < 250 \<and> length code < 5")
    case True
    then have "Suc (length code) < 6" by simp
    with 2 True show ?thesis
      by (simp add: currentCodeLength_def Let_def) (simp add: take_Cons')
  next
    case False
    with 2 show ?thesis
      by (cases "v < 250") (auto simp: currentCodeLength_def Let_def take_Cons')
  qed
qed simp

text \<open>The digits of the bytes that the rejection loop accepts, in order.\<close>

definition accepted_digits :: "nat list \<Rightarrow> string" where
  "accepted_digits bytes = map (\<lambda>v. digit_char (v mod 10)) (filter (\<lambda>v. v < 250) bytes)"

lemma generateCode_loop_eq:
  "length code \<le> 6 \<Longrightarrow> 6 \<le> length code + length (accepted_digits (concat reads)) \<Longrightarrow>
   generateCode_loop code (map Some reads @ rest) =
     Some (Inr (code @ take (6 - length code) (accepted_digits (concat reads))))"
proof (induction reads arbitrary: code)
  case Nil
  then show ?case by (simp add: accepted_digits_def generateCode_loop.simps currentCodeLength_def)
next
  case (Cons bytes reads)
  show ?case
  proof (cases "length code < 6")
    case True
    define d where "d = accepted_digits bytes"
    have code': "take_digits code bytes = code @ take (6 - length code) d"
      using True take_digits_eq by (simp add: d_def accepted_digits_def)
    have all: "accepted_digits (concat (bytes # reads)) = d @ accepted_digits (concat reads)"
      by (simp add: d_def accepted_digits_def)
    have len: "length (take_digits code bytes) \<le> 6" using True code' by simp
    have "generateCode_loop code (map Some (bytes # reads) @ rest)
        = generateCode_loop (take_digits code bytes) (map Some reads @ rest)"
      using True by (subst generateCode_loop.simps) (simp add: currentCodeLength_def)
    also have "\<dots> = Some (Inr (take_digits code bytes @
        take (6 - length (take_digits code bytes)) (accepted_digits (concat reads))))"
      using Cons.IH [OF len] Cons.prems all code' by (auto simp: min_def)
    also have "take_digits code bytes @ take (6 - length (take_digits code bytes)) (accepted_digits (concat reads))
        = code @ take (6 - length code) (d @ accepted_digits (concat reads))"
      using code' True by (auto simp: min_def)
    finally show ?thesis using all by simp
  next
    case False
    with Cons.prems show ?thesis by (simp add: generateCode_loop.simps currentCodeLength_def)
  qed
qed

lemma take_digits_shape:
  "length code < 6 \<Longrightarrow> list_all is_digit code \<Longrightarrow>
   length (take_digits code vs) \<le> 6 \<and> list_all is_digit (take_digits code vs)"
  by (auto simp: take_digits_eq list_all_iff digit_char_props dest!: in_set_takeD)

lemma generateCode_loop_shape:
  "length code \<le> 6 \<Longrightarrow> list_all is_digit code \<Longrightarrow> generateCode_loop code reads = Some (Inr c) \<Longrightarrow>
   length c = 6 \<and> list_all is_digit c"
proof (induction code reads rule: generateCode_loop.induct)
  case (1 code reads)
  show ?case
  proof (cases "length code < 6")
    case True
    then obtain bytes rest where r: "reads = Some bytes # rest"
      and rec: "generateCode_loop (take_digits code bytes) rest = Some (Inr c)"
      using "1.prems"(3)
      by (subst (asm) generateCode_loop.simps) (auto simp: currentCodeLength_def split: list.splits option.splits)
    show ?thesis
      using "1.IH" [of "Some bytes" rest bytes] r rec take_digits_shape [OF True "1.prems"(2)] True
      by (simp add: currentCodeLength_def)
  next
    case False
    with "1.prems" show ?thesis
      by (simp add: generateCode_loop.simps [of code reads] currentCodeLength_def)
  qed
qed

lemma validClaim_generated:
  assumes "identity_ok L c" and "length bytes = 32" and "\<forall>b \<in> set bytes. b < 256"
    and "claim_token c = b64_encode bytes"
  shows "validClaim L (Some c)"
  using assms by (simp add: validClaim_def b64_decode_encode)

text \<open>Whatever the store reports, the caller sees one of the allowed sentinels or a fixed one.\<close>

lemma sanitizeStoreError_closed:
  "sanitizeStoreError err allowed = Some e \<Longrightarrow>
   \<exists>s \<in> set allowed \<union> {ErrContext Canceled, ErrContext DeadlineExceeded, ErrStore}. e = verr s"
  by (auto simp: sanitizeStoreError_def dest: find_first_SomeD split: option.splits if_splits)

lemma sanitizeStoreError_None_iff [simp]: "sanitizeStoreError err allowed = None \<longleftrightarrow> err = None"
  by (auto simp: sanitizeStoreError_def split: option.splits)

lemma sanitizeStoreError_verr:
  "s \<in> set allowed \<Longrightarrow> sanitizeStoreError (Some (verr s)) allowed = Some (verr s)"
proof -
  assume s: "s \<in> set allowed"
  have "find_first (errors_is (verr s)) allowed = Some s"
    using s by (induction allowed) (auto simp: find_first_def)
  then show ?thesis by (simp add: sanitizeStoreError_def)
qed

text \<open>A purpose has no colon, nor has a channel that passed validation.\<close>

lemma purposePattern_no_colon: "purposePattern p \<Longrightarrow> CHR '':'' \<notin> set p"
  by (auto simp: purposePattern_def char_in_def list_all_iff split: list.splits)

lemma validateIdentity_channel:
  "validateIdentity L p c d = None \<Longrightarrow> purposePattern p \<and> (c = ChannelEmail \<or> c = ChannelPhone)"
  by (auto simp: validateIdentity_def split: if_splits)

end
