(* ===== verification/Verification_Spec.thy ===== *)
theory Verification_Spec
  imports Verification_Store
begin

text \<open>
  What the verification store promises. \<open>chal\<close> reads a challenge out of the contents of the server;
  the \<open>spec_\<close> functions are the contract of the operations on challenges; the refinement lemmas show
  that each script, run on any server with the documented behaviour, answers and changes the
  challenge as its contract says, touches no other key and keeps the store well typed.
\<close>

section \<open>Challenges\<close>

record challenge =
  ch_code :: string
  ch_attempts :: int
  ch_claim :: "string option"
  ch_deadline :: int

definition chal :: "redis_db \<Rightarrow> string \<Rightarrow> challenge option" where
  "chal db k =
     (case db_live db k of
        Some (RHash h, Some d) \<Rightarrow>
          (case (fmlookup h ''code'', fmlookup h ''attempts'') of
             (Some c, Some a) \<Rightarrow>
               (case redis_int a of
                  Some n \<Rightarrow> if 0 \<le> n \<and> n < 20
                    then Some \<lparr>ch_code = c, ch_attempts = n, ch_claim = fmlookup h ''claim'', ch_deadline = d\<rparr>
                    else None
                | None \<Rightarrow> None)
           | _ \<Rightarrow> None)
      | _ \<Rightarrow> None)"

definition ch_typed :: "redis_db \<Rightarrow> string \<Rightarrow> bool" where
  "ch_typed db k \<longleftrightarrow> (db_live db k = None \<or> chal db k \<noteq> None)"

fun spec_verify :: "string \<Rightarrow> int \<Rightarrow> challenge option \<Rightarrow> vsent option \<times> challenge option" where
  "spec_verify code limit None = (Some ErrChallengeNotFound, None)"
| "spec_verify code limit (Some ch) =
     (if ch_claim ch \<noteq> None then (Some ErrChallengeClaimed, Some ch)
      else if ch_code ch = code then (None, None)
      else if ch_attempts ch + 1 \<ge> limit then (Some ErrAttemptsExceeded, None)
      else (Some ErrCodeMismatch, Some (ch\<lparr>ch_attempts := ch_attempts ch + 1\<rparr>)))"

fun spec_claim :: "string \<Rightarrow> int \<Rightarrow> string \<Rightarrow> challenge option \<Rightarrow> vsent option \<times> challenge option" where
  "spec_claim code limit token None = (Some ErrChallengeNotFound, None)"
| "spec_claim code limit token (Some ch) =
     (if ch_claim ch \<noteq> None then (Some ErrChallengeClaimed, Some ch)
      else if ch_code ch = code then (None, Some (ch\<lparr>ch_claim := Some token\<rparr>))
      else if ch_attempts ch + 1 \<ge> limit then (Some ErrAttemptsExceeded, None)
      else (Some ErrCodeMismatch, Some (ch\<lparr>ch_attempts := ch_attempts ch + 1\<rparr>)))"

fun spec_consume :: "string \<Rightarrow> challenge option \<Rightarrow> vsent option \<times> challenge option" where
  "spec_consume token None = (Some ErrChallengeNotFound, None)"
| "spec_consume token (Some ch) =
     (if ch_claim ch = Some token then (None, None) else (Some ErrInvalidClaim, Some ch))"

fun spec_release :: "string \<Rightarrow> challenge option \<Rightarrow> vsent option \<times> challenge option" where
  "spec_release token None = (Some ErrChallengeNotFound, None)"
| "spec_release token (Some ch) =
     (if ch_claim ch = Some token then (None, Some (ch\<lparr>ch_claim := None\<rparr>)) else (Some ErrInvalidClaim, Some ch))"

section \<open>Refinement of the documented behaviour\<close>

definition frame :: "string set \<Rightarrow> redis_db \<Rightarrow> redis_db \<Rightarrow> bool" where
  "frame K db db' \<longleftrightarrow> (\<forall>k. k \<notin> K \<longrightarrow> db_live db' k = db_live db k) \<and> db_clock db' = db_clock db"

lemma frame_refl [simp]: "frame K db db"
  by (simp add: frame_def)

lemma frame_put [simp]: "k \<in> K \<Longrightarrow> frame K db (db_put k e db)"
  by (auto simp: frame_def)

lemma frame_del [simp]: "k \<in> K \<Longrightarrow> frame K db (db_del k db)"
  by (auto simp: frame_def)

lemma chal_cong: "db_live db' k = db_live db k \<Longrightarrow> chal db' k = chal db k \<and> ch_typed db' k = ch_typed db k"
  by (simp add: chal_def ch_typed_def)

lemma chal_None: "db_live db k = None \<Longrightarrow> chal db k = None"
  by (simp add: chal_def)

lemma chal_SomeE:
  assumes "chal db k = Some ch"
  obtains h a where "db_live db k = Some (RHash h, Some (ch_deadline ch))"
    "fmlookup h ''code'' = Some (ch_code ch)" "fmlookup h ''attempts'' = Some a"
    "redis_int a = Some (ch_attempts ch)" "fmlookup h ''claim'' = ch_claim ch"
    "0 \<le> ch_attempts ch" "ch_attempts ch < 20" "db_clock db < ch_deadline ch"
  using assms db_live_entry_live [of db k]
  by (auto simp: chal_def split: option.splits prod.splits redis_value.splits if_splits)

definition refines :: "string \<Rightarrow> (int \<Rightarrow> verror option) \<Rightarrow> (redis_db, int) cmd \<Rightarrow>
    (challenge option \<Rightarrow> vsent option \<times> challenge option) \<Rightarrow> bool" where
  "refines k mapResult d spec \<longleftrightarrow>
     (\<forall>db. ch_typed db k \<longrightarrow>
       (\<exists>n db'. d db = (Inr n, db') \<and> mapResult n = map_option verr (fst (spec (chal db k))) \<and>
          chal db' k = snd (spec (chal db k)) \<and> ch_typed db' k \<and> frame {k} db db'))"

lemmas script_simps = cmd_bind_def cmd_return_def lua_number_def as_hash_def put_fields_def

lemma refinesI:
  assumes none: "\<And>db. db_live db k = None \<Longrightarrow> chal db k = None \<Longrightarrow>
      \<exists>n db'. d db = (Inr n, db') \<and> mapResult n = map_option verr (fst (spec None)) \<and>
        chal db' k = snd (spec None) \<and> ch_typed db' k \<and> frame {k} db db'"
    and some: "\<And>db ch h a. chal db k = Some ch \<Longrightarrow> db_live db k = Some (RHash h, Some (ch_deadline ch)) \<Longrightarrow>
      fmlookup h ''code'' = Some (ch_code ch) \<Longrightarrow> fmlookup h ''attempts'' = Some a \<Longrightarrow>
      redis_int a = Some (ch_attempts ch) \<Longrightarrow> fmlookup h ''claim'' = ch_claim ch \<Longrightarrow>
      0 \<le> ch_attempts ch \<Longrightarrow> ch_attempts ch < 20 \<Longrightarrow> db_clock db < ch_deadline ch \<Longrightarrow>
      \<exists>n db'. d db = (Inr n, db') \<and> mapResult n = map_option verr (fst (spec (Some ch))) \<and>
        chal db' k = snd (spec (Some ch)) \<and> ch_typed db' k \<and> frame {k} db db'"
  shows "refines k mapResult d spec"
  unfolding refines_def
proof (intro allI impI)
  fix db assume typed: "ch_typed db k"
  show "\<exists>n db'. d db = (Inr n, db') \<and> mapResult n = map_option verr (fst (spec (chal db k))) \<and>
      chal db' k = snd (spec (chal db k)) \<and> ch_typed db' k \<and> frame {k} db db'"
  proof (cases "chal db k")
    case None
    with typed none show ?thesis by (simp add: ch_typed_def)
  next
    case (Some ch)
    then show ?thesis by (rule chal_SomeE) (use Some some in auto)
  qed
qed

text \<open>The failed attempt, which two scripts share: the counter goes up or the challenge goes away.\<close>

lemma int64_small: "0 \<le> n \<Longrightarrow> n \<le> 100000000 \<Longrightarrow> int64 n"
  by (simp add: int64_def)

lemma chal_put:
  "db_clock db < d \<Longrightarrow> chal (db_put k (RHash h, Some d) db) k =
     (case (fmlookup h ''code'', fmlookup h ''attempts'') of
        (Some c, Some a) \<Rightarrow>
          (case redis_int a of
             Some n \<Rightarrow> if 0 \<le> n \<and> n < 20
               then Some \<lparr>ch_code = c, ch_attempts = n, ch_claim = fmlookup h ''claim'', ch_deadline = d\<rparr>
               else None
           | None \<Rightarrow> None)
      | _ \<Rightarrow> None)"
  by (simp add: chal_def)

lemma incr_attempts:
  "redis_int a = Some n \<Longrightarrow> 0 \<le> n \<Longrightarrow> n < 20 \<Longrightarrow> incr_text (Some a) 1 = Inr (n + 1)"
  by (simp add: incr_text_def int64_small)

lemma chal_del [simp]: "chal (db_del k db) k = None" "ch_typed (db_del k db) k"
  by (simp_all add: chal_None ch_typed_def)

lemma verifyScript_refines:
  assumes "1 \<le> limit" "limit \<le> 20"
  shows "refines k mapVerifyResult (verifyScript redis_doc [k] [code, itoa limit]) (spec_verify code limit)"
proof (rule refinesI, goal_cases)
  case (1 db)
  then show ?case
    by (simp add: verifyScript_def script_simps mapVerifyResult_def ch_typed_def)
next
  case (2 db ch h a)
  have lim: "parse_int (itoa limit) = Some limit" using assms by (simp add: int64_small)
  have inc: "incr_text (Some a) 1 = Inr (ch_attempts ch + 1)" using 2 by (intro incr_attempts)
  show ?case
  proof (cases "ch_claim ch = None \<and> ch_code ch \<noteq> code \<and> ch_attempts ch + 1 < limit")
    case True
    define h' where "h' = fmupd ''attempts'' (itoa (ch_attempts ch + 1)) h"
    have "chal (db_put k (RHash h', Some (ch_deadline ch)) db) k = Some (ch\<lparr>ch_attempts := ch_attempts ch + 1\<rparr>)"
      using 2 True assms by (simp add: chal_put h'_def int64_small)
    with True 2 inc lim show ?thesis
      by (simp add: verifyScript_def script_simps mapVerifyResult_def ch_typed_def h'_def [symmetric])
  next
    case False
    have typed: "ch_typed db k" using 2 by (simp add: ch_typed_def)
    have del: "frame {k} db (db_del k (db_put k e db))" for e by (simp add: frame_def)
    show ?thesis
      using False 2 inc lim typed del
      by (cases "ch_claim ch"; cases "ch_code ch = code")
         (auto simp: verifyScript_def script_simps mapVerifyResult_def not_less)
  qed
qed

lemma verifyAndClaimScript_refines:
  assumes "1 \<le> limit" "limit \<le> 20"
  shows "refines k mapVerifyResult (verifyAndClaimScript redis_doc [k] [code, itoa limit, token])
    (spec_claim code limit token)"
proof (rule refinesI, goal_cases)
  case (1 db)
  then show ?case
    by (simp add: verifyAndClaimScript_def script_simps mapVerifyResult_def ch_typed_def)
next
  case (2 db ch h a)
  have lim: "parse_int (itoa limit) = Some limit" using assms by (simp add: int64_small)
  have inc: "incr_text (Some a) 1 = Inr (ch_attempts ch + 1)" using 2 by (intro incr_attempts)
  consider (claimed) "ch_claim ch \<noteq> None" | (match) "ch_claim ch = None" "ch_code ch = code"
    | (last) "ch_claim ch = None" "ch_code ch \<noteq> code" "ch_attempts ch + 1 \<ge> limit"
    | (miss) "ch_claim ch = None" "ch_code ch \<noteq> code" "ch_attempts ch + 1 < limit"
    by linarith
  then show ?case
  proof cases
    case claimed
    with 2 show ?thesis
      by (auto simp: verifyAndClaimScript_def script_simps mapVerifyResult_def ch_typed_def)
  next
    case match
    have "chal (db_put k (RHash (fmupd ''claim'' token h), Some (ch_deadline ch)) db) k = Some (ch\<lparr>ch_claim := Some token\<rparr>)"
      using 2 by (simp add: chal_put)
    with match 2 show ?thesis
      by (simp add: verifyAndClaimScript_def script_simps mapVerifyResult_def ch_typed_def)
  next
    case last
    have "frame {k} db (db_del k (db_put k e db))" for e by (simp add: frame_def)
    with last 2 inc lim show ?thesis
      by (simp add: verifyAndClaimScript_def script_simps mapVerifyResult_def)
  next
    case miss
    define h' where "h' = fmupd ''attempts'' (itoa (ch_attempts ch + 1)) h"
    have "chal (db_put k (RHash h', Some (ch_deadline ch)) db) k = Some (ch\<lparr>ch_attempts := ch_attempts ch + 1\<rparr>)"
      using 2 miss assms by (simp add: chal_put h'_def int64_small)
    with miss 2 inc lim show ?thesis
      by (simp add: verifyAndClaimScript_def script_simps mapVerifyResult_def ch_typed_def h'_def [symmetric])
  qed
qed

lemma consumeClaimScript_refines:
  "refines k mapClaimMutationResult (consumeClaimScript redis_doc [k] [token]) (spec_consume token)"
proof (rule refinesI, goal_cases)
  case (1 db)
  then show ?case
    by (simp add: consumeClaimScript_def script_simps mapClaimMutationResult_def ch_typed_def)
next
  case (2 db ch h a)
  then show ?case
    by (cases "ch_claim ch")
       (auto simp: consumeClaimScript_def script_simps mapClaimMutationResult_def ch_typed_def)
qed

lemma releaseClaimScript_refines:
  "refines k mapClaimMutationResult (releaseClaimScript redis_doc [k] [token]) (spec_release token)"
proof (rule refinesI, goal_cases)
  case (1 db)
  then show ?case
    by (simp add: releaseClaimScript_def script_simps mapClaimMutationResult_def ch_typed_def)
next
  case (2 db ch h a)
  have "fmdrop ''claim'' h \<noteq> fmempty" using 2 by (intro fmdrop_nonempty [of h "''code''"]) auto
  moreover have "chal (db_put k (RHash (fmdrop ''claim'' h), Some (ch_deadline ch)) db) k = Some (ch\<lparr>ch_claim := None\<rparr>)"
    using 2 by (simp add: chal_put)
  ultimately show ?case
    using 2 by (cases "ch_claim ch = Some token"; cases "ch_claim ch")
       (auto simp: releaseClaimScript_def script_simps mapClaimMutationResult_def ch_typed_def)
qed

section \<open>Reservation\<close>

text \<open>
  A rate counter counts the reservations of its window; \<open>rate_deadline\<close> is the end of the window.
  \<open>spec_reserve\<close> is the decision of the script and \<open>bumped\<close> the effect of counting one reservation.
\<close>

definition rate :: "redis_db \<Rightarrow> string \<Rightarrow> int" where
  "rate db k =
     (case db_live db k of
        Some (RString v, _) \<Rightarrow> (case redis_int v of Some n \<Rightarrow> n | None \<Rightarrow> 0)
      | _ \<Rightarrow> 0)"

definition rate_deadline :: "redis_db \<Rightarrow> string \<Rightarrow> int option" where
  "rate_deadline db k = (case db_live db k of None \<Rightarrow> None | Some (_, d) \<Rightarrow> d)"

definition rate_typed :: "redis_db \<Rightarrow> string \<Rightarrow> bool" where
  "rate_typed db k \<longleftrightarrow>
     (case db_live db k of None \<Rightarrow> True
      | Some (RString v, Some d) \<Rightarrow>
          (case redis_int v of Some n \<Rightarrow> 1 \<le> n \<and> n \<le> 100000 | None \<Rightarrow> False)
      | Some _ \<Rightarrow> False)"

definition spec_reserve :: "challenge option \<Rightarrow> bool \<Rightarrow> int \<Rightarrow> int \<Rightarrow> int \<Rightarrow> int \<Rightarrow> vsent option" where
  "spec_reserve ch cooling target_count target_limit ip_count ip_limit =
     (if (case ch of None \<Rightarrow> False | Some c \<Rightarrow> ch_claim c \<noteq> None) \<or> cooling then Some ErrResendCooldown
      else if target_count \<ge> target_limit then Some ErrTargetRateLimited
      else if ip_count \<ge> ip_limit then Some ErrIPRateLimited
      else None)"

definition bumped :: "string \<Rightarrow> int \<Rightarrow> redis_db \<Rightarrow> redis_db" where
  "bumped k w db =
     db_put k (RString (itoa (rate db k + 1)),
       case rate_deadline db k of None \<Rightarrow> Some (db_clock db + w) | Some d \<Rightarrow> Some d) db"

lemma rate_typed_cases:
  assumes "rate_typed db k"
  obtains "db_live db k = None" "rate db k = 0" "rate_deadline db k = None"
  | v d where "db_live db k = Some (RString v, Some d)" "redis_int v = Some (rate db k)"
      "1 \<le> rate db k" "rate db k \<le> 100000" "rate_deadline db k = Some d" "db_clock db < d"
  using assms db_live_entry_live [of db k]
  by (auto simp: rate_typed_def rate_def rate_deadline_def
      split: option.splits prod.splits redis_value.splits)

lemma rate_cong:
  "db_live db' k = db_live db k \<Longrightarrow>
   rate db' k = rate db k \<and> rate_deadline db' k = rate_deadline db k \<and> rate_typed db' k = rate_typed db k"
  by (simp add: rate_def rate_deadline_def rate_typed_def)

lemma rate_GET:
  assumes "rate_typed db k"
  shows "\<exists>g. redis_doc (GET k) db = (Inr g, db) \<and> lua_number (or_zero g) = (cmd_return (rate db k) :: (redis_db, int) cmd)"
  using assms
proof (cases rule: rate_typed_cases)
  case 1
  then show ?thesis by (simp add: or_zero_def lua_number_def parse_int_def parse_digits_def
        is_digit_def digits_value_def digit_value_def int64_def)
next
  case (2 v d)
  then show ?thesis
    by (auto simp: or_zero_def lua_number_def redis_int_def split: option.splits if_splits)
qed

lemma rate_bump:
  assumes "rate_typed db k" "rate db k < 100000" "0 < w" "w \<le> 86400000"
  shows "cmd_bind (redis_doc (INCR k)) (\<lambda>c. cmd_bind
      (if c = RInt 1 then redis_doc (PEXPIRE k (itoa w)) else cmd_return RNil) (\<lambda>_. m)) db = m (bumped k w db)"
  using assms
proof (cases rule: rate_typed_cases)
  case 1
  with assms show ?thesis
    by (simp add: cmd_bind_def bumped_def int64_small)
next
  case (2 v d)
  with assms show ?thesis
    by (simp add: cmd_bind_def cmd_return_def bumped_def incr_text_def int64_small)
qed

lemma bumped_live:
  assumes "rate_typed db k" "0 < w"
  shows "db_live (bumped k w db) k = Some (RString (itoa (rate db k + 1)),
      Some (case rate_deadline db k of None \<Rightarrow> db_clock db + w | Some d \<Rightarrow> d))"
  using assms by (cases rule: rate_typed_cases) (simp_all add: bumped_def)

lemma rate_typed_bounds: "rate_typed db k \<Longrightarrow> 0 \<le> rate db k \<and> rate db k \<le> 100000"
  by (cases rule: rate_typed_cases) auto

lemma bumped_props:
  assumes "rate_typed db k" "rate db k < 100000" "0 < w"
  shows "rate (bumped k w db) k = rate db k + 1" "rate_typed (bumped k w db) k"
    "rate_deadline (bumped k w db) k = Some (case rate_deadline db k of None \<Rightarrow> db_clock db + w | Some d \<Rightarrow> d)"
proof -
  have n: "redis_int (itoa (rate db k + 1)) = Some (rate db k + 1)" "0 \<le> rate db k"
    using assms rate_typed_bounds by (auto simp: int64_small)
  note live = bumped_live [OF assms(1,3)]
  show "rate (bumped k w db) k = rate db k + 1" unfolding rate_def [of "bumped k w db"] live by (simp add: n)
  show "rate_typed (bumped k w db) k" unfolding rate_typed_def live using n assms by simp
  show "rate_deadline (bumped k w db) k = Some (case rate_deadline db k of None \<Rightarrow> db_clock db + w | Some d \<Rightarrow> d)"
    unfolding rate_deadline_def [of "bumped k w db"] live by simp
qed

lemma bumped_frame [simp]:
  "db_clock (bumped k w db) = db_clock db" "k' \<noteq> k \<Longrightarrow> db_live (bumped k w db) k' = db_live db k'"
  by (simp_all add: bumped_def)

text \<open>The tail of the script stores the challenge and starts the cooldown.\<close>

definition stored :: "string \<Rightarrow> string \<Rightarrow> string \<Rightarrow> int \<Rightarrow> int \<Rightarrow> redis_db \<Rightarrow> redis_db" where
  "stored k1 k2 code ttl cd db =
     db_put k2 (RString ''1'', Some (db_clock db + cd))
       (db_put k1 (RHash (fmupd ''attempts'' ''0'' (fmupd ''code'' code
           (case as_hash (db_live db k1) of Inl _ \<Rightarrow> fmempty | Inr (h, _) \<Rightarrow> h))), Some (db_clock db + ttl)) db)"

lemma store_tail:
  assumes "ch_typed db k1" "0 < ttl" "ttl \<le> 86400000" "0 < cd" "cd \<le> 86400000"
  shows "cmd_bind (redis_doc (HSET k1 [(''code'', code), (''attempts'', ''0'')])) (\<lambda>_.
      cmd_bind (redis_doc (PEXPIRE k1 (itoa ttl))) (\<lambda>_.
      cmd_bind (redis_doc (SET_PX k2 ''1'' (itoa cd))) (\<lambda>_. cmd_return 0))) db
    = (Inr (0::int), stored k1 k2 code ttl cd db)"
proof (cases "chal db k1")
  case None
  with assms have "db_live db k1 = None" by (simp add: ch_typed_def)
  with assms show ?thesis by (simp add: script_simps stored_def int64_small)
next
  case (Some ch)
  then obtain h where "db_live db k1 = Some (RHash h, Some (ch_deadline ch))" "db_clock db < ch_deadline ch"
    by (rule chal_SomeE)
  with assms show ?thesis by (simp add: script_simps stored_def int64_small)
qed

lemma redis_int_zero [simp]: "redis_int ''0'' = Some 0"
  by (simp add: redis_int_def parse_int_def parse_digits_def is_digit_def digits_value_def
      digit_value_def int64_def itoa_def nat_digits.simps)

definition unclaimed :: "challenge option \<Rightarrow> bool" where
  "unclaimed ch \<longleftrightarrow> (case ch of None \<Rightarrow> True | Some c \<Rightarrow> ch_claim c = None)"

lemma stored_chal:
  assumes "ch_typed db k1" "unclaimed (chal db k1)" "0 < ttl" "k1 \<noteq> k2"
  shows "chal (stored k1 k2 code ttl cd db) k1 =
    Some \<lparr>ch_code = code, ch_attempts = 0, ch_claim = None, ch_deadline = db_clock db + ttl\<rparr>"
proof (cases "chal db k1")
  case None
  with assms have "db_live db k1 = None" by (simp add: ch_typed_def)
  with assms show ?thesis by (simp add: stored_def chal_def as_hash_def)
next
  case (Some ch)
  then obtain h where "db_live db k1 = Some (RHash h, Some (ch_deadline ch))" "fmlookup h ''claim'' = ch_claim ch"
    by (rule chal_SomeE)
  with assms Some show ?thesis by (simp add: stored_def chal_def as_hash_def unclaimed_def)
qed

lemma stored_frame:
  "db_clock (stored k1 k2 code ttl cd db) = db_clock db"
  "k \<noteq> k1 \<Longrightarrow> k \<noteq> k2 \<Longrightarrow> db_live (stored k1 k2 code ttl cd db) k = db_live db k"
  "0 < cd \<Longrightarrow> db_live (stored k1 k2 code ttl cd db) k2 = Some (RString ''1'', Some (db_clock db + cd))"
  by (simp_all add: stored_def)

text \<open>
  The script as a whole: it answers as \<open>spec_reserve\<close> decides; a refusal changes nothing, and a
  reservation counts in both windows, stores a fresh challenge and starts the cooldown.
\<close>

lemma reserveScript_doc:
  assumes keys: "distinct [k1, k2, k3, k4]"
    and typed: "ch_typed db k1" "rate_typed db k3" "rate_typed db k4"
    and times: "0 < ttl" "ttl \<le> 86400000" "0 < cd" "cd \<le> 86400000" "0 < tw" "tw \<le> 86400000" "0 < iw" "iw \<le> 86400000"
    and limits: "1 \<le> tlim" "tlim \<le> 10000" "1 \<le> ilim" "ilim \<le> 100000"
  defines "v \<equiv> spec_reserve (chal db k1) (db_live db k2 \<noteq> None) (rate db k3) tlim (rate db k4) ilim"
  shows "\<exists>n. reserveScript redis_doc [k1, k2, k3, k4]
      [code, itoa ttl, itoa cd, itoa tlim, itoa tw, itoa ilim, itoa iw] db =
      (Inr n, if v = None then stored k1 k2 code ttl cd (bumped k4 iw (bumped k3 tw db)) else db) \<and>
    mapReserveResult n = map_option verr v"
proof -
  obtain g where g: "redis_doc (GET k3) db = (Inr g, db)" "lua_number (or_zero g) = (cmd_return (rate db k3) :: (redis_db, int) cmd)"
    using rate_GET [OF typed(2)] by blast
  obtain g' where g': "redis_doc (GET k4) db = (Inr g', db)" "lua_number (or_zero g') = (cmd_return (rate db k4) :: (redis_db, int) cmd)"
    using rate_GET [OF typed(3)] by blast
  have lims: "lua_number (itoa tlim) r = (Inr tlim, r)" "lua_number (itoa ilim) r = (Inr ilim, r)" for r :: redis_db
    using limits by (simp_all add: lua_number_def cmd_return_def int64_small)
  have hx: "redis_doc (HEXISTS k1 ''claim'') db = (Inr (RInt (if unclaimed (chal db k1) then 0 else 1)), db)"
  proof (cases "chal db k1")
    case None
    with typed have "db_live db k1 = None" by (simp add: ch_typed_def)
    with None show ?thesis by (simp add: as_hash_def unclaimed_def)
  next
    case (Some ch)
    then obtain h where "db_live db k1 = Some (RHash h, Some (ch_deadline ch))" "fmlookup h ''claim'' = ch_claim ch"
      by (rule chal_SomeE)
    with Some show ?thesis by (simp add: as_hash_def unclaimed_def)
  qed
  have ex: "redis_doc (EXISTS k2) db = (Inr (RInt (if db_live db k2 = None then 0 else 1)), db)" by simp
  define run where "run = reserveScript redis_doc [k1, k2, k3, k4]
    [code, itoa ttl, itoa cd, itoa tlim, itoa tw, itoa ilim, itoa iw] db"
  note start = run_def reserveScript_def cmd_bind_def [of _ _ db] cmd_return_def hx ex g g' lims
  consider (claimed) "\<not> unclaimed (chal db k1)" | (cooling) e where "unclaimed (chal db k1)" "db_live db k2 = Some e"
    | (fresh) "unclaimed (chal db k1)" "db_live db k2 = None" by (cases "db_live db k2") auto
  then have "\<exists>n. run = (Inr n, if v = None then stored k1 k2 code ttl cd (bumped k4 iw (bumped k3 tw db)) else db) \<and>
    mapReserveResult n = map_option verr v"
  proof cases
    case claimed
    then have "run = (Inr 1, db)" by (simp add: start del: redis_doc.simps)
    moreover have "v = Some ErrResendCooldown"
      using claimed by (auto simp: v_def spec_reserve_def unclaimed_def split: option.splits)
    ultimately show ?thesis by (simp add: mapReserveResult_def)
  next
    case cooling
    then have "run = (Inr 1, db)" by (simp add: start del: redis_doc.simps)
    moreover have "v = Some ErrResendCooldown" using cooling by (simp add: v_def spec_reserve_def)
    ultimately show ?thesis by (simp add: mapReserveResult_def)
  next
    case fresh
    then have v: "v = (if rate db k3 \<ge> tlim then Some ErrTargetRateLimited
        else if rate db k4 \<ge> ilim then Some ErrIPRateLimited else None)"
      by (auto simp: v_def spec_reserve_def unclaimed_def split: option.splits)
    show ?thesis
    proof (cases "v = None")
      case False
      then have "run = (Inr (if rate db k3 \<ge> tlim then 2 else 3), db)"
        using v fresh by (auto simp: start simp del: redis_doc.simps split: if_splits)
      with False v show ?thesis by (auto simp: mapReserveResult_def split: if_splits)
    next
      case True
      define db1 where "db1 = bumped k3 tw db"
      define db2 where "db2 = bumped k4 iw db1"
      from True v have below: "rate db k3 < tlim" "rate db k4 < ilim" by (auto split: if_splits)
      have t1: "rate_typed db1 k4" "rate db1 k4 = rate db k4"
        using rate_cong [of db1 k4 db] keys typed by (auto simp: db1_def)
      have t2: "ch_typed db2 k1"
        using chal_cong [of db2 k1 db] keys typed by (auto simp: db2_def db1_def)
      have r: "rate db k3 < 100000" "rate db1 k4 < 100000" using below limits t1 by auto
      note b1 = rate_bump [OF typed(2) r(1) times(5,6)] and b2 = rate_bump [OF t1(1) r(2) times(7,8)]
      note tail = store_tail [OF t2 times(1-4)]
      have "run = cmd_bind (redis_doc (INCR k3)) (\<lambda>c. cmd_bind
          (if c = RInt 1 then redis_doc (PEXPIRE k3 (itoa tw)) else cmd_return RNil) (\<lambda>_.
          cmd_bind (redis_doc (INCR k4)) (\<lambda>c. cmd_bind
          (if c = RInt 1 then redis_doc (PEXPIRE k4 (itoa iw)) else cmd_return RNil) (\<lambda>_.
          cmd_bind (redis_doc (HSET k1 [(''code'', code), (''attempts'', ''0'')])) (\<lambda>_.
          cmd_bind (redis_doc (PEXPIRE k1 (itoa ttl))) (\<lambda>_.
          cmd_bind (redis_doc (SET_PX k2 ''1'' (itoa cd))) (\<lambda>_. cmd_return 0))))))) db"
        using below fresh
        by (simp add: run_def reserveScript_def cmd_bind_def [of "redis_doc (HEXISTS _ _)"]
            cmd_bind_def [of "redis_doc (EXISTS _)"] cmd_bind_def [of "redis_doc (GET _)"]
            cmd_bind_def [of "lua_number _"] cmd_bind_def [of "cmd_return _"] cmd_return_def [of _ db]
            hx ex g g' lims del: redis_doc.simps cong: if_cong)
      also have "\<dots> = (Inr 0, stored k1 k2 code ttl cd db2)"
        unfolding b1 db1_def [symmetric] b2 db2_def [symmetric] by (rule tail)
      finally show ?thesis using True by (simp add: mapReserveResult_def db2_def db1_def)
    qed
  qed
  then show ?thesis by (simp only: run_def)
qed

end
