(* ===== verification/Verification_Service.thy ===== *)
theory Verification_Service
  imports Verification_Spec
begin

text \<open>
  \<open>Service\<close> of package \<open>verification\<close>: sending a code, verifying and consuming it, and the two-phase
  claim. The interface \<open>Store\<close> and its extension \<open>claimStore\<close> are records of operations; a store
  without the extension has \<open>None\<close> there, which is what the type assertion of the code tests. The
  \<open>Deliverer\<close> is an operation on a state \<open>'w\<close> of its own. The locale \<open>challenge_store\<close> is the contract
  between the service and a store, and \<open>RedisStore\<close> is shown to fulfil it.
\<close>

section \<open>Interfaces\<close>

record ('c, 's) claim_ops =
  cs_verifyAndClaim :: "net \<Rightarrow> 'c \<Rightarrow> verify_input \<Rightarrow> policy \<Rightarrow> string \<Rightarrow> 's \<Rightarrow> verror option \<times> 's"
  cs_consumeClaim :: "net \<Rightarrow> 'c \<Rightarrow> string \<Rightarrow> string \<Rightarrow> string \<Rightarrow> string \<Rightarrow> 's \<Rightarrow> verror option \<times> 's"
  cs_releaseClaim :: "net \<Rightarrow> 'c \<Rightarrow> string \<Rightarrow> string \<Rightarrow> string \<Rightarrow> string \<Rightarrow> 's \<Rightarrow> verror option \<times> 's"

record ('c, 's) store_ops =
  st_Reserve :: "net \<Rightarrow> 'c \<Rightarrow> send_input \<Rightarrow> string \<Rightarrow> policy \<Rightarrow> 's \<Rightarrow> verror option \<times> 's"
  st_VerifyAndConsume :: "net \<Rightarrow> 'c \<Rightarrow> verify_input \<Rightarrow> policy \<Rightarrow> 's \<Rightarrow> verror option \<times> 's"
  st_claims :: "('c, 's) claim_ops option"

record ('c, 's, 'w) service =
  sv_store :: "('c, 's) store_ops"
  sv_deliver :: "'c \<Rightarrow> delivery \<Rightarrow> 'w \<Rightarrow> verror option \<times> 'w"
  sv_policy :: policy

section \<open>Service\<close>

definition NewService ::
  "('c, 's) store_ops option \<Rightarrow> ('c \<Rightarrow> delivery \<Rightarrow> 'w \<Rightarrow> verror option \<times> 'w) option \<Rightarrow> policy \<Rightarrow>
   verror + ('c, 's, 'w) service" where
  "NewService store deliverer p =
     (case (store, deliverer) of
        (Some st, Some dl) \<Rightarrow>
          (case Policy_Validate p of Some e \<Rightarrow> Inl e
           | None \<Rightarrow> Inr \<lparr>sv_store = st, sv_deliver = dl, sv_policy = p\<rparr>)
      | _ \<Rightarrow> Inl (verr ErrInvalidPolicy))"

text \<open>
  \<open>Send\<close>. \<open>now\<close> is the reading of the clock and \<open>reads\<close> the outcomes of the random source; the result
  is \<open>None\<close> while the random source has not produced enough.
\<close>

definition Send ::
  "verification_lib \<Rightarrow> ('c, 's, 'w) service \<Rightarrow> net \<Rightarrow> 'c \<Rightarrow> time \<Rightarrow> nat list option list \<Rightarrow> send_input \<Rightarrow>
   's \<Rightarrow> 'w \<Rightarrow> (verror option \<times> 's \<times> 'w) option" where
  "Send L sv n ctx now reads i s w =
     (case validateSendInput L i of Some e \<Rightarrow> Some (Some e, s, w)
      | None \<Rightarrow>
         (let expiresAt = now + CodeTTL (sv_policy sv) in
          case generateCode reads of None \<Rightarrow> None
          | Some (Inl _) \<Rightarrow> Some (Some (verr ErrCodeGenerationFailed), s, w)
          | Some (Inr code) \<Rightarrow>
             (case st_Reserve (sv_store sv) n ctx i code (sv_policy sv) s of
                (Some e, s') \<Rightarrow>
                  Some (sanitizeStoreError (Some e) [ErrResendCooldown, ErrTargetRateLimited, ErrIPRateLimited], s', w)
              | (None, s') \<Rightarrow>
                 (case sv_deliver sv ctx
                     \<lparr>in_Purpose = in_Purpose i, in_Channel = in_Channel i, in_Destination = in_Destination i,
                      dl_Code = code, ExpiresAt = expiresAt\<rparr> w of
                    (Some _, w') \<Rightarrow> Some (Some (verr ErrDeliveryFailed), s', w')
                  | (None, w') \<Rightarrow> Some (None, s', w')))))"

definition VerifyAndConsume ::
  "verification_lib \<Rightarrow> ('c, 's, 'w) service \<Rightarrow> net \<Rightarrow> 'c \<Rightarrow> verify_input \<Rightarrow> 's \<Rightarrow> verror option \<times> 's" where
  "VerifyAndConsume L sv n ctx i s =
     (case validateVerifyInput L i (CodeLength (sv_policy sv)) of Some e \<Rightarrow> (Some e, s)
      | None \<Rightarrow>
         (let out = st_VerifyAndConsume (sv_store sv) n ctx i (sv_policy sv) s
          in (sanitizeStoreError (fst out)
                [ErrChallengeNotFound, ErrCodeMismatch, ErrAttemptsExceeded, ErrChallengeClaimed], snd out)))"

definition VerifyAndClaim ::
  "verification_lib \<Rightarrow> ('c, 's, 'w) service \<Rightarrow> net \<Rightarrow> 'c \<Rightarrow> nat list option option \<Rightarrow> verify_input \<Rightarrow> 's \<Rightarrow>
   (verror + claim) \<times> 's" where
  "VerifyAndClaim L sv n ctx entropy i s =
     (case validateVerifyInput L i (CodeLength (sv_policy sv)) of Some e \<Rightarrow> (Inl e, s)
      | None \<Rightarrow>
         (case st_claims (sv_store sv) of None \<Rightarrow> (Inl (verr ErrStore), s)
          | Some store \<Rightarrow>
             (case generateClaimToken entropy of Inl _ \<Rightarrow> (Inl (verr ErrClaimGenerationFailed), s)
              | Inr token \<Rightarrow>
                 (let out = cs_verifyAndClaim store n ctx i (sv_policy sv) token s
                  in case sanitizeStoreError (fst out)
                       [ErrChallengeNotFound, ErrCodeMismatch, ErrAttemptsExceeded, ErrChallengeClaimed] of
                       Some e \<Rightarrow> (Inl e, snd out)
                     | None \<Rightarrow>
                        (Inr \<lparr>in_Purpose = in_Purpose i, in_Channel = in_Channel i,
                              in_Destination = in_Destination i, claim_token = token\<rparr>, snd out)))))"

definition ConsumeClaim ::
  "verification_lib \<Rightarrow> ('c, 's, 'w) service \<Rightarrow> net \<Rightarrow> 'c \<Rightarrow> claim option \<Rightarrow> 's \<Rightarrow> verror option \<times> 's" where
  "ConsumeClaim L sv n ctx cl s =
     (case (st_claims (sv_store sv), cl) of
        (Some store, Some c) \<Rightarrow>
          if \<not> validClaim L cl then (Some (verr ErrInvalidClaim), s)
          else (let out = cs_consumeClaim store n ctx (in_Purpose c) (in_Channel c) (in_Destination c) (claim_token c) s
                in (sanitizeStoreError (fst out) [ErrChallengeNotFound, ErrInvalidClaim], snd out))
      | _ \<Rightarrow> (Some (verr ErrInvalidClaim), s))"

definition ReleaseClaim ::
  "verification_lib \<Rightarrow> ('c, 's, 'w) service \<Rightarrow> net \<Rightarrow> 'c \<Rightarrow> claim option \<Rightarrow> 's \<Rightarrow> verror option \<times> 's" where
  "ReleaseClaim L sv n ctx cl s =
     (case (st_claims (sv_store sv), cl) of
        (Some store, Some c) \<Rightarrow>
          if \<not> validClaim L cl then (Some (verr ErrInvalidClaim), s)
          else (let out = cs_releaseClaim store n ctx (in_Purpose c) (in_Channel c) (in_Destination c) (claim_token c) s
                in (sanitizeStoreError (fst out) [ErrChallengeNotFound, ErrInvalidClaim], snd out))
      | _ \<Rightarrow> (Some (verr ErrInvalidClaim), s))"

text \<open>\<open>RedisStore\<close> implements both interfaces.\<close>

definition redis_store :: "verification_lib \<Rightarrow> 'r redis \<Rightarrow> ('z identity_context_scheme, 'r) store_ops" where
  "redis_store L R =
     \<lparr>st_Reserve = RedisStore_Reserve L R, st_VerifyAndConsume = RedisStore_VerifyAndConsume L R,
      st_claims = Some \<lparr>cs_verifyAndClaim = RedisStore_verifyAndClaim L R,
                       cs_consumeClaim = RedisStore_consumeClaim L R,
                       cs_releaseClaim = RedisStore_releaseClaim L R\<rparr>\<rparr>"

section \<open>The contract of a store\<close>

text \<open>
  \<open>meets\<close>: a request whose contract is \<open>spec\<close> was answered by \<open>out\<close>. Delivered, it answers and
  changes the challenge as \<open>spec\<close> says; lost before the server, it changes nothing; with its reply
  lost, the change has happened but the caller sees a store or context error.
\<close>

definition store_error :: "verror option \<Rightarrow> bool" where
  "store_error e \<longleftrightarrow> (\<exists>f. e = Some f \<and> set (error_chain f) \<subseteq> {ErrStore, ErrContext Canceled, ErrContext DeadlineExceeded}
     \<and> error_chain f \<noteq> [])"

definition meets :: "net \<Rightarrow> ('s \<Rightarrow> challenge option) \<Rightarrow> (challenge option \<Rightarrow> vsent option \<times> challenge option) \<Rightarrow>
    's \<Rightarrow> verror option \<times> 's \<Rightarrow> bool" where
  "meets n view spec s out \<longleftrightarrow>
     (case n of
        Delivered \<Rightarrow> fst out = map_option verr (fst (spec (view s))) \<and> view (snd out) = snd (spec (view s))
      | LostBefore \<Rightarrow> store_error (fst out) \<and> view (snd out) = view s
      | LostAfter \<Rightarrow> store_error (fst out) \<and> view (snd out) = snd (spec (view s)))"

text \<open>A reservation: refused with nothing changed, or a fresh challenge until the TTL is over.\<close>

definition meets_reserve :: "net \<Rightarrow> string \<Rightarrow> int \<Rightarrow> int \<Rightarrow> challenge option \<Rightarrow> verror option \<Rightarrow> challenge option \<Rightarrow> bool" where
  "meets_reserve n code ttl now before err after \<longleftrightarrow>
     (if err = None then n = Delivered \<and> unclaimed before \<and>
        after = Some \<lparr>ch_code = code, ch_attempts = 0, ch_claim = None, ch_deadline = now + ttl\<rparr>
      else after = before \<or> n = LostAfter \<and> store_error err \<and> unclaimed before \<and>
        after = Some \<lparr>ch_code = code, ch_attempts = 0, ch_claim = None, ch_deadline = now + ttl\<rparr>)"

section \<open>RedisStore fulfils the contract\<close>

definition vstore_ok :: "redis_db \<Rightarrow> bool" where
  "vstore_ok db \<longleftrightarrow>
     (\<forall>x. ch_typed db (redisKeyPrefix @ ''challenge:'' @ x)) \<and>
     (\<forall>x. rate_typed db (redisKeyPrefix @ ''target-rate:'' @ x)) \<and>
     (\<forall>x. rate_typed db (redisKeyPrefix @ ''ip-rate:'' @ x))"

definition redis_inv :: "'r redis \<Rightarrow> 'r \<Rightarrow> bool" where
  "redis_inv R r \<longleftrightarrow> redis_ok R \<and> vstore_ok (r_db R r)"

definition view_at :: "'r redis \<Rightarrow> string \<Rightarrow> 'r \<Rightarrow> challenge option" where
  "view_at R k r = chal (r_db R r) k"

lemma script_sims:
  assumes "redis_ok R"
  shows "cmd_sim R (reserveScript (r_call R) K A) (reserveScript redis_doc K A)"
    "cmd_sim R (verifyScript (r_call R) K A) (verifyScript redis_doc K A)"
    "cmd_sim R (verifyAndClaimScript (r_call R) K A) (verifyAndClaimScript redis_doc K A)"
    "cmd_sim R (consumeClaimScript (r_call R) K A) (consumeClaimScript redis_doc K A)"
    "cmd_sim R (releaseClaimScript (r_call R) K A) (releaseClaimScript redis_doc K A)"
  unfolding reserveScript_def verifyScript_def verifyAndClaimScript_def consumeClaimScript_def
    releaseClaimScript_def lua_number_def
  by (intro svc_laws assms)+

lemma challengeKey_form: "\<exists>x. challengeKey L p c d = redisKeyPrefix @ ''challenge:'' @ x"
  by (auto simp: challengeKey_def)

lemma vstore_ok_frame:
  assumes "vstore_ok db" "frame {challengeKey L p c d} db db'" "ch_typed db' (challengeKey L p c d)"
  shows "vstore_ok db'"
proof -
  have other: "db_live db' k = db_live db k" if "k \<noteq> challengeKey L p c d" for k
    using assms(2) that by (simp add: frame_def)
  have "ch_typed db' (redisKeyPrefix @ ''challenge:'' @ x)" for x
    using assms(1,3) other [of "redisKeyPrefix @ ''challenge:'' @ x"]
    by (cases "redisKeyPrefix @ ''challenge:'' @ x = challengeKey L p c d")
       (metis, simp add: vstore_ok_def ch_typed_def chal_def)
  moreover have "rate_typed db' (redisKeyPrefix @ ''target-rate:'' @ x)"
    "rate_typed db' (redisKeyPrefix @ ''ip-rate:'' @ x)" for x
    using assms(1) other [of "redisKeyPrefix @ ''target-rate:'' @ x"] other [of "redisKeyPrefix @ ''ip-rate:'' @ x"]
    by (simp_all add: vstore_ok_def rate_typed_def challengeKey_def)
  ultimately show ?thesis by (simp add: vstore_ok_def)
qed

lemma store_error_script_result:
  "store_error (fst (script_result ctx what m (Inl e, r)))"
  by (auto simp: script_result_def store_error_def verr_def errors_new_def errorf_w_def split: option.splits)
     (metis ctx_err.exhaust)

lemma script_result_snd [simp]: "snd (script_result ctx what m out) = snd out"
  by (simp add: script_result_def)

lemma script_result_Inr [simp]: "fst (script_result ctx what m (Inr n, r)) = m n"
  by (simp add: script_result_def)

text \<open>The three ways a request can go, for a script that refines its contract.\<close>

lemma script_meets:
  assumes inv: "redis_inv R r" and sim: "cmd_sim R mR d" and ref: "refines k m d spec"
    and k: "k = challengeKey L p c de" and out: "script_result ctx what m (via_net n mR r) = (e, r')"
  shows "redis_inv R r' \<and> db_clock (r_db R r') = db_clock (r_db R r) \<and>
    (\<forall>k'. k' \<noteq> k \<longrightarrow> view_at R k' r' = view_at R k' r) \<and> meets n (view_at R k) spec r (e, r')"
proof -
  define db where "db = r_db R r"
  have typed: "ch_typed db k" "vstore_ok db"
    using inv k challengeKey_form [of L p c de] by (auto simp: redis_inv_def vstore_ok_def db_def)
  obtain x db' where d: "d db = (Inr x, db')" "m x = map_option verr (fst (spec (chal db k)))"
    "chal db' k = snd (spec (chal db k))" "ch_typed db' k" "frame {k} db db'"
    using ref typed(1) unfolding refines_def by blast
  have mR: "fst (mR r) = Inr x" "r_db R (snd (mR r)) = db'"
    using cmd_simD [OF sim, of r] d(1) by (simp_all add: db_def)
  have ok: "vstore_ok db'" using vstore_ok_frame typed(2) d(4,5) k by blast
  have eq: "mR r = (Inr x, snd (mR r))" using mR by (metis prod.collapse)
  have others: "chal db' k' = chal db k'" if "k' \<noteq> k" for k'
    using d(5) that by (simp add: frame_def chal_def)
  have clock: "db_clock db' = db_clock db" using d(5) by (simp add: frame_def)
  have e: "e = fst (script_result ctx what m (via_net n mR r))" "r' = snd (via_net n mR r)"
    using out by (metis fst_conv, metis script_result_snd snd_conv)
  show ?thesis
  proof (cases n)
    case Delivered
    then have "e = m x" "r' = snd (mR r)" using e eq by (metis net.simps(7) script_result_Inr via_net_def, simp add: via_net_def)
    with Delivered inv ok mR d others clock show ?thesis
      by (simp add: meets_def redis_inv_def view_at_def db_def)
  next
    case LostBefore
    then have "r' = r" "store_error e" using e store_error_script_result by (simp_all add: via_net_def)
    with LostBefore inv show ?thesis by (simp add: meets_def)
  next
    case LostAfter
    then have "r' = snd (mR r)" "store_error e" using e store_error_script_result by (simp_all add: via_net_def)
    with LostAfter inv ok mR d others clock show ?thesis
      by (simp add: meets_def redis_inv_def view_at_def db_def)
  qed
qed

text \<open>Reservations: the decision, and the contents after a reservation.\<close>

definition reserve_verdict :: "verification_lib \<Rightarrow> send_input \<Rightarrow> policy \<Rightarrow> redis_db \<Rightarrow> vsent option" where
  "reserve_verdict L i p db =
     (let ks = redisKeys L (in_Purpose i) (in_Channel i) (in_Destination i) (ClientIP i)
      in spec_reserve (chal db (ks ! 0)) (db_live db (ks ! 1) \<noteq> None) (rate db (ks ! 2)) (TargetLimit p)
           (rate db (ks ! 3)) (IPLimit p))"

definition reserved_db :: "verification_lib \<Rightarrow> send_input \<Rightarrow> string \<Rightarrow> policy \<Rightarrow> redis_db \<Rightarrow> redis_db" where
  "reserved_db L i code p db =
     (let ks = redisKeys L (in_Purpose i) (in_Channel i) (in_Destination i) (ClientIP i)
      in stored (ks ! 0) (ks ! 1) code (milliseconds (CodeTTL p)) (milliseconds (ResendCooldown p))
           (bumped (ks ! 3) (milliseconds (IPWindow p)) (bumped (ks ! 2) (milliseconds (TargetWindow p)) db)))"

lemma redisKeys_distinct: "distinct (redisKeys L p c d ip)"
  by (simp add: redisKeys_def Let_def)

lemma redisKeys_challengeKey: "redisKeys L p c d ip ! 0 = challengeKey L p c d"
  by (simp add: redisKeys_def challengeKey_def Let_def)

lemma policy_milliseconds:
  assumes "Policy_Validate p = None"
  shows "0 < milliseconds (CodeTTL p)" "milliseconds (CodeTTL p) \<le> 86400000"
    "0 < milliseconds (ResendCooldown p)" "milliseconds (ResendCooldown p) \<le> 86400000"
    "0 < milliseconds (TargetWindow p)" "milliseconds (TargetWindow p) \<le> 86400000"
    "0 < milliseconds (IPWindow p)" "milliseconds (IPWindow p) \<le> 86400000"
proof -
  note b = Policy_Validate_bounds [OF assms]
  have "CodeTTL p \<le> 24 * hour" "ResendCooldown p \<le> 24 * hour"
    using b(3,5) by (simp_all add: duration_defs)
  with b milliseconds_bounds show "0 < milliseconds (CodeTTL p)" "milliseconds (CodeTTL p) \<le> 86400000"
    "0 < milliseconds (ResendCooldown p)" "milliseconds (ResendCooldown p) \<le> 86400000"
    "0 < milliseconds (TargetWindow p)" "milliseconds (TargetWindow p) \<le> 86400000"
    "0 < milliseconds (IPWindow p)" "milliseconds (IPWindow p) \<le> 86400000" by blast+
qed

lemma reserve_doc:
  assumes ok: "vstore_ok db" and p: "Policy_Validate p = None"
  shows "\<exists>n. reserveScript redis_doc
      (redisKeys L (in_Purpose i) (in_Channel i) (in_Destination i) (ClientIP i))
      [code, itoa (milliseconds (CodeTTL p)), itoa (milliseconds (ResendCooldown p)), itoa (TargetLimit p),
       itoa (milliseconds (TargetWindow p)), itoa (IPLimit p), itoa (milliseconds (IPWindow p))] db
      = (Inr n, if reserve_verdict L i p db = None then reserved_db L i code p db else db) \<and>
    mapReserveResult n = map_option verr (reserve_verdict L i p db)"
proof -
  define ks where "ks = redisKeys L (in_Purpose i) (in_Channel i) (in_Destination i) (ClientIP i)"
  obtain k1 k2 k3 k4 where ks: "ks = [k1, k2, k3, k4]" by (simp add: ks_def redisKeys_def Let_def)
  have "distinct [k1, k2, k3, k4]"
    using redisKeys_distinct [of L "in_Purpose i" "in_Channel i" "in_Destination i" "ClientIP i"]
    unfolding ks_def [symmetric] ks .
  moreover have "ch_typed db k1" "rate_typed db k3" "rate_typed db k4"
    using ok ks by (auto simp: vstore_ok_def ks_def redisKeys_def Let_def)
  ultimately show ?thesis
    using reserveScript_doc [of k1 k2 k3 k4 db, where code = code, OF _ _ _ _ policy_milliseconds [OF p]
        Policy_Validate_bounds(8,9,12,13) [OF p]]
    unfolding reserve_verdict_def reserved_db_def Let_def ks_def [symmetric] ks
    by (simp split del: if_split cong: if_cong)
qed

lemma reserved_live:
  assumes "k \<notin> set (redisKeys L (in_Purpose i) (in_Channel i) (in_Destination i) (ClientIP i))"
  shows "db_live (reserved_db L i code p db) k = db_live db k"
  using assms by (simp add: reserved_db_def Let_def stored_frame redisKeys_def)

lemma reserve_verdict_unclaimed:
  "reserve_verdict L i p db = None \<Longrightarrow>
   unclaimed (chal db (challengeKey L (in_Purpose i) (in_Channel i) (in_Destination i)))"
  by (auto simp: reserve_verdict_def Let_def redisKeys_challengeKey spec_reserve_def unclaimed_def
      split: if_splits option.splits)

lemma reserved_db_props:
  assumes ok: "vstore_ok db" and p: "Policy_Validate p = None" and v: "reserve_verdict L i p db = None"
  defines "k \<equiv> challengeKey L (in_Purpose i) (in_Channel i) (in_Destination i)"
  shows "vstore_ok (reserved_db L i code p db)"
    and "chal (reserved_db L i code p db) k =
      Some \<lparr>ch_code = code, ch_attempts = 0, ch_claim = None, ch_deadline = db_clock db + milliseconds (CodeTTL p)\<rparr>"
    and "db_clock (reserved_db L i code p db) = db_clock db"
proof -
  define ks where "ks = redisKeys L (in_Purpose i) (in_Channel i) (in_Destination i) (ClientIP i)"
  obtain k2 k3 k4 where ks: "ks = [k, k2, k3, k4]" by (simp add: k_def ks_def redisKeys_def Let_def challengeKey_def)
  have dist: "distinct [k, k2, k3, k4]"
    using redisKeys_distinct [of L "in_Purpose i" "in_Channel i" "in_Destination i" "ClientIP i"]
    unfolding ks_def [symmetric] ks .
  have typed: "ch_typed db k" "rate_typed db k3" "rate_typed db k4"
    using ok ks by (auto simp: vstore_ok_def ks_def redisKeys_def Let_def)
  note b = Policy_Validate_bounds [OF p]
  have below: "rate db k3 < 100000" "rate db k4 < 100000"
    using v b(9,13) unfolding reserve_verdict_def ks_def [symmetric] ks Let_def
    by (auto simp: spec_reserve_def split: if_splits)
  define db1 where "db1 = bumped k3 (milliseconds (TargetWindow p)) db"
  define db2 where "db2 = bumped k4 (milliseconds (IPWindow p)) db1"
  have res: "reserved_db L i code p db = stored k k2 code (milliseconds (CodeTTL p)) (milliseconds (ResendCooldown p)) db2"
    unfolding reserved_db_def ks_def [symmetric] ks Let_def db1_def db2_def by simp
  have t1: "rate_typed db1 k4 \<and> rate db1 k4 = rate db k4"
    using rate_cong [of db1 k4 db] dist typed by (auto simp: db1_def)
  have c2: "chal db2 k = chal db k \<and> ch_typed db2 k"
    using chal_cong [of db2 k db] dist typed by (auto simp: db1_def db2_def)
  show ch: "chal (reserved_db L i code p db) k = Some \<lparr>ch_code = code, ch_attempts = 0, ch_claim = None,
      ch_deadline = db_clock db + milliseconds (CodeTTL p)\<rparr>"
    unfolding res using stored_chal [of db2 k "milliseconds (CodeTTL p)" k2] c2 dist policy_milliseconds [OF p]
      reserve_verdict_unclaimed [OF v] by (simp add: k_def [symmetric] db2_def db1_def)
  show "db_clock (reserved_db L i code p db) = db_clock db"
    unfolding res by (simp add: stored_frame db2_def db1_def)
  have live3: "db_live (reserved_db L i code p db) k3 = db_live db1 k3"
    and live4: "db_live (reserved_db L i code p db) k4 = db_live db2 k4"
    unfolding res using dist by (auto simp: stored_frame(2) db2_def)
  have r3: "rate_typed (reserved_db L i code p db) k3"
    using rate_cong [OF live3] bumped_props(2) [OF typed(2) below(1) policy_milliseconds(5) [OF p]] by (simp add: db1_def)
  have r4: "rate_typed (reserved_db L i code p db) k4"
    using rate_cong [OF live4] bumped_props(2) [of db1 k4, OF _ _ policy_milliseconds(7) [OF p]] t1 below
    by (simp add: db2_def)
  have "ch_typed (reserved_db L i code p db) (redisKeyPrefix @ ''challenge:'' @ x)" for x
  proof (cases "redisKeyPrefix @ ''challenge:'' @ x = k")
    case True
    with ch show ?thesis by (simp add: ch_typed_def)
  next
    case False
    then have "db_live (reserved_db L i code p db) (redisKeyPrefix @ ''challenge:'' @ x)
        = db_live db (redisKeyPrefix @ ''challenge:'' @ x)"
      by (intro reserved_live) (simp add: redisKeys_def Let_def k_def challengeKey_def)
    from chal_cong [OF this] ok show ?thesis by (simp add: vstore_ok_def)
  qed
  moreover have "rate_typed (reserved_db L i code p db) k'"
    if "k' = redisKeyPrefix @ ''target-rate:'' @ x \<or> k' = redisKeyPrefix @ ''ip-rate:'' @ x" for x k'
  proof (cases "k' = k3 \<or> k' = k4")
    case True
    with r3 r4 show ?thesis by auto
  next
    case False
    obtain y where "k2 = redisKeyPrefix @ ''cooldown:'' @ y" using ks by (auto simp: ks_def redisKeys_def Let_def)
    with False that have "k' \<notin> set ks" unfolding ks by (auto simp: k_def challengeKey_def)
    then have "db_live (reserved_db L i code p db) k' = db_live db k'"
      unfolding ks_def by (rule reserved_live)
    from rate_cong [OF this] ok that show ?thesis by (auto simp: vstore_ok_def)
  qed
  ultimately show "vstore_ok (reserved_db L i code p db)" by (simp add: vstore_ok_def)
qed

lemma Reserve_db:
  assumes inv: "redis_inv R r" and p: "Policy_Validate p = None"
    and out: "RedisStore_Reserve L R n ctx i code p r = (e, r')"
  defines "db \<equiv> r_db R r"
  defines "done \<equiv> if reserve_verdict L i p db = None then reserved_db L i code p db else db"
  shows "case n of
      Delivered \<Rightarrow> e = map_option verr (reserve_verdict L i p db) \<and> r_db R r' = done
    | LostBefore \<Rightarrow> store_error e \<and> r' = r
    | LostAfter \<Rightarrow> store_error e \<and> r_db R r' = done"
proof -
  define args where "args = [code, itoa (milliseconds (CodeTTL p)), itoa (milliseconds (ResendCooldown p)),
     itoa (TargetLimit p), itoa (milliseconds (TargetWindow p)), itoa (IPLimit p), itoa (milliseconds (IPWindow p))]"
  define ks where "ks = redisKeys L (in_Purpose i) (in_Channel i) (in_Destination i) (ClientIP i)"
  obtain x where d: "reserveScript redis_doc ks args db = (Inr x, done)"
    "mapReserveResult x = map_option verr (reserve_verdict L i p db)"
    using reserve_doc [of db p L i code] inv p unfolding redis_inv_def db_def done_def ks_def args_def
    by blast
  have sim: "cmd_sim R (reserveScript (r_call R) ks args) (reserveScript redis_doc ks args)"
    using inv by (auto simp: redis_inv_def intro: script_sims)
  obtain r2 where mR: "reserveScript (r_call R) ks args r = (Inr x, r2)" "r_db R r2 = done"
    using cmd_simD [OF sim, of r] d(1) by (cases "reserveScript (r_call R) ks args r") (simp add: db_def)
  have out': "script_result ctx ''reserve script failed'' mapReserveResult
      (via_net n (reserveScript (r_call R) ks args) r) = (e, r')"
    using out by (simp add: RedisStore_Reserve_def ks_def args_def)
  show ?thesis
  proof (cases n)
    case Delivered
    with out' mR d(2) show ?thesis by (simp add: via_net_def script_result_def)
  next
    case LostBefore
    with out' show ?thesis
      using store_error_script_result [of ctx "''reserve script failed''" mapReserveResult "''connection failed''" r]
      by (auto simp: via_net_def script_result_def)
  next
    case LostAfter
    with out' mR show ?thesis
      using store_error_script_result [of ctx "''reserve script failed''" mapReserveResult "''connection failed''" r]
      by (auto simp: via_net_def script_result_def)
  qed
qed

lemma store_error_not_None [simp]: "\<not> store_error None"
  by (simp add: store_error_def)

lemma Reserve_meets:
  assumes inv: "redis_inv R r" and p: "Policy_Validate p = None"
    and out: "RedisStore_Reserve L R n ctx i code p r = (e, r')"
    and k: "k = challengeKey L (in_Purpose i) (in_Channel i) (in_Destination i)"
  shows "redis_inv R r' \<and> db_clock (r_db R r') = db_clock (r_db R r) \<and>
    (\<forall>k'. (\<exists>x. k' = redisKeyPrefix @ ''challenge:'' @ x) \<and> k' \<noteq> k \<longrightarrow> view_at R k' r' = view_at R k' r) \<and>
    meets_reserve n code (milliseconds (CodeTTL p)) (db_clock (r_db R r)) (view_at R k r) e (view_at R k r')"
proof -
  define db where "db = r_db R r"
  have ok: "vstore_ok db" "redis_ok R" using inv by (simp_all add: redis_inv_def db_def)
  have others: "chal (reserved_db L i code p db) k' = chal db k'"
    if "\<exists>x. k' = redisKeyPrefix @ ''challenge:'' @ x" "k' \<noteq> k" for k'
  proof -
    from that k have "k' \<notin> set (redisKeys L (in_Purpose i) (in_Channel i) (in_Destination i) (ClientIP i))"
      by (auto simp: redisKeys_def Let_def challengeKey_def)
    then show ?thesis using chal_cong reserved_live by blast
  qed
  note step = Reserve_db [OF inv p out, folded db_def]
  consider "r_db R r' = db" "e \<noteq> None"
    | "reserve_verdict L i p db = None" "r_db R r' = reserved_db L i code p db"
      "n = Delivered \<and> e = None \<or> n = LostAfter \<and> store_error e"
  proof (cases n)
    case Delivered
    then show ?thesis using step that by (cases "reserve_verdict L i p db") simp_all
  next
    case LostBefore
    then show ?thesis using step that(1) by (cases e) (simp_all add: db_def)
  next
    case LostAfter
    then show ?thesis using step that by (cases "reserve_verdict L i p db"; cases e) simp_all
  qed
  then show ?thesis
  proof cases
    case 1
    with ok show ?thesis by (cases e) (simp_all add: redis_inv_def view_at_def meets_reserve_def db_def)
  next
    case 2
    note props = reserved_db_props [OF ok(1) p 2(1), of code, folded k]
    have "unclaimed (chal db k)" using reserve_verdict_unclaimed [OF 2(1)] k by simp
    with 2 props ok others show ?thesis
      by (auto simp: redis_inv_def view_at_def meets_reserve_def db_def [symmetric])
  qed
qed

locale challenge_store =
  fixes ops :: "('c, 's) store_ops"
    and claims :: "('c, 's) claim_ops"
    and inv :: "'s \<Rightarrow> bool"
    and key :: "string \<Rightarrow> string \<Rightarrow> string \<Rightarrow> 'k"
    and view :: "'k \<Rightarrow> 's \<Rightarrow> challenge option"
    and clock :: "'s \<Rightarrow> int"
  assumes claims: "st_claims ops = Some claims"
    and reserve_law: "inv s \<Longrightarrow> Policy_Validate p = None \<Longrightarrow>
      st_Reserve ops n ctx i code p s = (e, s') \<Longrightarrow> k = key (in_Purpose i) (in_Channel i) (in_Destination i) \<Longrightarrow>
      inv s' \<and> clock s' = clock s \<and> (\<forall>p' c' d'. key p' c' d' \<noteq> k \<longrightarrow> view (key p' c' d') s' = view (key p' c' d') s) \<and>
      meets_reserve n code (milliseconds (CodeTTL p)) (clock s) (view k s) e (view k s')"
    and verify_law: "inv s \<Longrightarrow> Policy_Validate p = None \<Longrightarrow>
      st_VerifyAndConsume ops n ctx vi p s = (e, s') \<Longrightarrow> k = key (in_Purpose vi) (in_Channel vi) (in_Destination vi) \<Longrightarrow>
      inv s' \<and> clock s' = clock s \<and> (\<forall>p' c' d'. key p' c' d' \<noteq> k \<longrightarrow> view (key p' c' d') s' = view (key p' c' d') s) \<and>
      meets n (view k) (spec_verify (Code vi) (MaxAttempts p)) s (e, s')"
    and claim_law: "inv s \<Longrightarrow> Policy_Validate p = None \<Longrightarrow>
      cs_verifyAndClaim claims n ctx vi p token s = (e, s') \<Longrightarrow> k = key (in_Purpose vi) (in_Channel vi) (in_Destination vi) \<Longrightarrow>
      inv s' \<and> clock s' = clock s \<and> (\<forall>p' c' d'. key p' c' d' \<noteq> k \<longrightarrow> view (key p' c' d') s' = view (key p' c' d') s) \<and>
      meets n (view k) (spec_claim (Code vi) (MaxAttempts p) token) s (e, s')"
    and consume_law: "inv s \<Longrightarrow>
      cs_consumeClaim claims n ctx pu ch de token s = (e, s') \<Longrightarrow> k = key pu ch de \<Longrightarrow>
      inv s' \<and> clock s' = clock s \<and> (\<forall>p' c' d'. key p' c' d' \<noteq> k \<longrightarrow> view (key p' c' d') s' = view (key p' c' d') s) \<and>
      meets n (view k) (spec_consume token) s (e, s')"
    and release_law: "inv s \<Longrightarrow>
      cs_releaseClaim claims n ctx pu ch de token s = (e, s') \<Longrightarrow> k = key pu ch de \<Longrightarrow>
      inv s' \<and> clock s' = clock s \<and> (\<forall>p' c' d'. key p' c' d' \<noteq> k \<longrightarrow> view (key p' c' d') s' = view (key p' c' d') s) \<and>
      meets n (view k) (spec_release token) s (e, s')"
begin

text \<open>What the service makes of the contract, operation by operation.\<close>

lemma send_view:
  assumes sv: "sv_store sv = ops" "Policy_Validate (sv_policy sv) = None" and "inv s"
    and send: "Send L sv n ctx now reads i s w = Some (None, s1, w1)"
    and k: "k = key (in_Purpose i) (in_Channel i) (in_Destination i)"
  shows "\<exists>code. generateCode reads = Some (Inr code) \<and> validateSendInput L i = None \<and> inv s1 \<and>
    clock s1 = clock s \<and> view k s1 = Some \<lparr>ch_code = code, ch_attempts = 0, ch_claim = None,
      ch_deadline = clock s + milliseconds (CodeTTL (sv_policy sv))\<rparr>"
proof -
  obtain code where c: "validateSendInput L i = None" "generateCode reads = Some (Inr code)"
    "st_Reserve ops n ctx i code (sv_policy sv) s = (None, s1)"
    using send sv(1) by (auto simp: Send_def Let_def split: option.splits sum.splits prod.splits)
  with reserve_law [OF assms(3) sv(2) c(3) k] show ?thesis by (auto simp: meets_reserve_def)
qed

lemma verify_view:
  assumes sv: "sv_store sv = ops" "Policy_Validate (sv_policy sv) = None" and "inv s"
    and v: "validateVerifyInput L vi (CodeLength (sv_policy sv)) = None"
    and ex: "VerifyAndConsume L sv Delivered ctx vi s = (e, s1)"
    and k: "k = key (in_Purpose vi) (in_Channel vi) (in_Destination vi)"
  shows "inv s1 \<and> e = map_option verr (fst (spec_verify (Code vi) (MaxAttempts (sv_policy sv)) (view k s))) \<and>
    view k s1 = snd (spec_verify (Code vi) (MaxAttempts (sv_policy sv)) (view k s))"
proof -
  obtain e' where o: "st_VerifyAndConsume ops Delivered ctx vi (sv_policy sv) s = (e', s1)"
    "e = sanitizeStoreError e' [ErrChallengeNotFound, ErrCodeMismatch, ErrAttemptsExceeded, ErrChallengeClaimed]"
    using ex v sv(1) by (auto simp: VerifyAndConsume_def Let_def prod_eq_iff)
  from verify_law [OF assms(3) sv(2) o(1) k] have m: "inv s1"
    "e' = map_option verr (fst (spec_verify (Code vi) (MaxAttempts (sv_policy sv)) (view k s)))"
    "view k s1 = snd (spec_verify (Code vi) (MaxAttempts (sv_policy sv)) (view k s))"
    by (auto simp: meets_def)
  have "e = e'"
    unfolding o(2) m(2) by (cases "view k s") (auto simp: sanitizeStoreError_verr)
  with m show ?thesis by simp
qed

lemma claim_view:
  assumes sv: "sv_store sv = ops" "Policy_Validate (sv_policy sv) = None" and "inv s"
    and v: "validateVerifyInput L vi (CodeLength (sv_policy sv)) = None"
    and ex: "VerifyAndClaim L sv Delivered ctx (Some (Some bytes)) vi s = (out, s1)"
    and k: "k = key (in_Purpose vi) (in_Channel vi) (in_Destination vi)"
  shows "inv s1 \<and> view k s1 = snd (spec_claim (Code vi) (MaxAttempts (sv_policy sv)) (b64_encode bytes) (view k s)) \<and>
    out = (case fst (spec_claim (Code vi) (MaxAttempts (sv_policy sv)) (b64_encode bytes) (view k s)) of
      Some x \<Rightarrow> Inl (verr x)
    | None \<Rightarrow> Inr \<lparr>in_Purpose = in_Purpose vi, in_Channel = in_Channel vi, in_Destination = in_Destination vi,
                  claim_token = b64_encode bytes\<rparr>)"
proof -
  define e' where "e' = fst (cs_verifyAndClaim claims Delivered ctx vi (sv_policy sv) (b64_encode bytes) s)"
  have o: "cs_verifyAndClaim claims Delivered ctx vi (sv_policy sv) (b64_encode bytes) s = (e', s1)"
    using ex v sv(1) claims
    by (auto simp: VerifyAndClaim_def generateClaimToken_def Let_def e'_def prod_eq_iff split: option.splits)
  from claim_law [OF assms(3) sv(2) o k] have m: "inv s1"
    "e' = map_option verr (fst (spec_claim (Code vi) (MaxAttempts (sv_policy sv)) (b64_encode bytes) (view k s)))"
    "view k s1 = snd (spec_claim (Code vi) (MaxAttempts (sv_policy sv)) (b64_encode bytes) (view k s))"
    by (auto simp: meets_def)
  have "sanitizeStoreError e' [ErrChallengeNotFound, ErrCodeMismatch, ErrAttemptsExceeded, ErrChallengeClaimed] = e'"
    unfolding m(2) by (cases "view k s") (auto simp: sanitizeStoreError_verr)
  with m o ex v sv(1) claims show ?thesis
    by (auto simp: VerifyAndClaim_def generateClaimToken_def Let_def split: option.splits)
qed

lemma consume_view:
  assumes sv: "sv_store sv = ops" and "inv s" and v: "validClaim L (Some c)"
    and ex: "ConsumeClaim L sv Delivered ctx (Some c) s = (e, s1)"
    and k: "k = key (in_Purpose c) (in_Channel c) (in_Destination c)"
  shows "inv s1 \<and> e = map_option verr (fst (spec_consume (claim_token c) (view k s))) \<and>
    view k s1 = snd (spec_consume (claim_token c) (view k s))"
proof -
  obtain e' where o: "cs_consumeClaim claims Delivered ctx (in_Purpose c) (in_Channel c) (in_Destination c) (claim_token c) s = (e', s1)"
    "e = sanitizeStoreError e' [ErrChallengeNotFound, ErrInvalidClaim]"
    using ex v sv claims by (auto simp: ConsumeClaim_def Let_def prod_eq_iff)
  from consume_law [OF assms(2) o(1) k] have m: "inv s1"
    "e' = map_option verr (fst (spec_consume (claim_token c) (view k s)))"
    "view k s1 = snd (spec_consume (claim_token c) (view k s))"
    by (auto simp: meets_def)
  have "e = e'" unfolding o(2) m(2) by (cases "view k s") (auto simp: sanitizeStoreError_verr)
  with m show ?thesis by simp
qed

lemma release_view:
  assumes sv: "sv_store sv = ops" and "inv s" and v: "validClaim L (Some c)"
    and ex: "ReleaseClaim L sv Delivered ctx (Some c) s = (e, s1)"
    and k: "k = key (in_Purpose c) (in_Channel c) (in_Destination c)"
  shows "inv s1 \<and> e = map_option verr (fst (spec_release (claim_token c) (view k s))) \<and>
    view k s1 = snd (spec_release (claim_token c) (view k s))"
proof -
  obtain e' where o: "cs_releaseClaim claims Delivered ctx (in_Purpose c) (in_Channel c) (in_Destination c) (claim_token c) s = (e', s1)"
    "e = sanitizeStoreError e' [ErrChallengeNotFound, ErrInvalidClaim]"
    using ex v sv claims by (auto simp: ReleaseClaim_def Let_def prod_eq_iff)
  from release_law [OF assms(2) o(1) k] have m: "inv s1"
    "e' = map_option verr (fst (spec_release (claim_token c) (view k s)))"
    "view k s1 = snd (spec_release (claim_token c) (view k s))"
    by (auto simp: meets_def)
  have "e = e'" unfolding o(2) m(2) by (cases "view k s") (auto simp: sanitizeStoreError_verr)
  with m show ?thesis by simp
qed

end

text \<open>The Redis store fulfils the contract on every server with the documented behaviour.\<close>

interpretation rs: challenge_store "redis_store L R"
    "\<lparr>cs_verifyAndClaim = RedisStore_verifyAndClaim L R, cs_consumeClaim = RedisStore_consumeClaim L R,
      cs_releaseClaim = RedisStore_releaseClaim L R\<rparr>"
    "redis_inv R" "challengeKey L" "view_at R" "\<lambda>r. db_clock (r_db R r)" for L R
proof (unfold_locales, goal_cases)
  case 1
  show ?case by (simp add: redis_store_def)
next
  case (2 s p n ctx i code e s' k)
  then show ?case
    using Reserve_meets [of R s p L n ctx i code e s' k] challengeKey_form
    by (auto simp: redis_store_def)
next
  case (3 s p n ctx vi e s' k)
  have out: "script_result ctx ''verify script failed'' mapVerifyResult
      (via_net n (verifyScript (r_call R) [k] [Code vi, itoa (MaxAttempts p)]) s) = (e, s')"
    using 3(3,4) by (simp add: redis_store_def RedisStore_VerifyAndConsume_def)
  have "redis_ok R" using 3(1) by (simp add: redis_inv_def)
  from script_meets [OF 3(1) script_sims(2) [OF this]
      verifyScript_refines [OF Policy_Validate_bounds(6,7) [OF 3(2)]] 3(4) out]
  show ?case by blast
next
  case (4 s p n ctx vi token e s' k)
  have out: "script_result ctx ''verify-and-claim script failed'' mapVerifyResult
      (via_net n (verifyAndClaimScript (r_call R) [k] [Code vi, itoa (MaxAttempts p), token]) s) = (e, s')"
    using 4(3,4) by (simp add: RedisStore_verifyAndClaim_def)
  have "redis_ok R" using 4(1) by (simp add: redis_inv_def)
  from script_meets [OF 4(1) script_sims(3) [OF this]
      verifyAndClaimScript_refines [OF Policy_Validate_bounds(6,7) [OF 4(2)]] 4(4) out]
  show ?case by blast
next
  case (5 s n ctx pu ch de token e s' k)
  have out: "script_result ctx (''consume'' @ '' claim script failed'') mapClaimMutationResult
      (via_net n (consumeClaimScript (r_call R) [k] [token]) s) = (e, s')"
    using 5(2,3) by (simp add: RedisStore_consumeClaim_def runClaimMutation_def)
  have "redis_ok R" using 5(1) by (simp add: redis_inv_def)
  from script_meets [OF 5(1) script_sims(4) [OF this] consumeClaimScript_refines 5(3) out]
  show ?case by blast
next
  case (6 s n ctx pu ch de token e s' k)
  have out: "script_result ctx (''release'' @ '' claim script failed'') mapClaimMutationResult
      (via_net n (releaseClaimScript (r_call R) [k] [token]) s) = (e, s')"
    using 6(2,3) by (simp add: RedisStore_releaseClaim_def runClaimMutation_def)
  have "redis_ok R" using 6(1) by (simp add: redis_inv_def)
  from script_meets [OF 6(1) script_sims(5) [OF this] releaseClaimScript_refines 6(3) out]
  show ?case by blast
qed

end
