(* ===== verification/Verification_Machine.thy ===== *)
theory Verification_Machine
  imports Verification_Service
begin

text \<open>
  Runs of the verification store: any interleaving of requests by any clients, with any fate on the
  network, and of passing time. A script is atomic on the server, so a run is a sequence of
  requests. \<open>vrun\<close> is the step relation closed over sequences; the invariants below are proved by
  rule induction from the contract of the store.
\<close>

section \<open>Runs\<close>

datatype vop =
    OpReserve net identity_context send_input string policy
  | OpVerify net identity_context verify_input policy
  | OpClaim net identity_context verify_input policy string
  | OpConsume net identity_context string string string string
  | OpRelease net identity_context string string string string
  | OpWait int

fun vexec :: "verification_lib \<Rightarrow> 'r redis \<Rightarrow> vop \<Rightarrow> 'r \<Rightarrow> verror option \<times> 'r" where
  "vexec L R (OpReserve n ctx i code p) r = RedisStore_Reserve L R n ctx i code p r"
| "vexec L R (OpVerify n ctx vi p) r = RedisStore_VerifyAndConsume L R n ctx vi p r"
| "vexec L R (OpClaim n ctx vi p token) r = RedisStore_verifyAndClaim L R n ctx vi p token r"
| "vexec L R (OpConsume n ctx pu ch de token) r = RedisStore_consumeClaim L R n ctx pu ch de token r"
| "vexec L R (OpRelease n ctx pu ch de token) r = RedisStore_releaseClaim L R n ctx pu ch de token r"
| "vexec L R (OpWait ms) r = (None, r_wait R ms r)"

text \<open>The policies of a service passed \<open>Validate\<close> when it was made; time does not go back.\<close>

fun vop_ok :: "vop \<Rightarrow> bool" where
  "vop_ok (OpReserve n ctx i code p) = (Policy_Validate p = None)"
| "vop_ok (OpVerify n ctx vi p) = (Policy_Validate p = None)"
| "vop_ok (OpClaim n ctx vi p token) = (Policy_Validate p = None)"
| "vop_ok (OpWait ms) = (0 \<le> ms)"
| "vop_ok _ = True"

inductive vrun :: "verification_lib \<Rightarrow> 'r redis \<Rightarrow> 'r \<Rightarrow> (vop \<times> verror option) list \<Rightarrow> 'r \<Rightarrow> bool"
  for L R r where
  vrun_nil: "vrun L R r [] r"
| vrun_step: "vrun L R r tr r1 \<Longrightarrow> vop_ok op \<Longrightarrow> vexec L R op r1 = (e, r2) \<Longrightarrow> vrun L R r (tr @ [(op, e)]) r2"

inductive_cases vrun_nilE: "vrun L R r [] r'"
inductive_cases vrun_snocE: "vrun L R r (tr @ [ev]) r'"

text \<open>The codes issued under a challenge key, the codes accepted, and how often one was consumed.\<close>

fun issue :: "verification_lib \<Rightarrow> string \<Rightarrow> vop \<times> verror option \<Rightarrow> string list" where
  "issue L k (OpReserve n ctx i code p, e) =
     (if challengeKey L (in_Purpose i) (in_Channel i) (in_Destination i) = k \<and> (e = None \<or> n = LostAfter)
      then [code] else [])"
| "issue L k _ = []"

definition issued :: "verification_lib \<Rightarrow> string \<Rightarrow> (vop \<times> verror option) list \<Rightarrow> string list" where
  "issued L k tr = concat (map (issue L k) tr)"

fun accepts :: "verification_lib \<Rightarrow> string \<Rightarrow> vop \<times> verror option \<Rightarrow> string list" where
  "accepts L k (OpVerify n ctx vi p, e) =
     (if challengeKey L (in_Purpose vi) (in_Channel vi) (in_Destination vi) = k \<and> e = None then [Code vi] else [])"
| "accepts L k (OpClaim n ctx vi p token, e) =
     (if challengeKey L (in_Purpose vi) (in_Channel vi) (in_Destination vi) = k \<and> e = None then [Code vi] else [])"
| "accepts L k _ = []"

definition accepted :: "verification_lib \<Rightarrow> string \<Rightarrow> (vop \<times> verror option) list \<Rightarrow> string list" where
  "accepted L k tr = concat (map (accepts L k) tr)"

fun consumes :: "verification_lib \<Rightarrow> string \<Rightarrow> vop \<times> verror option \<Rightarrow> nat" where
  "consumes L k (OpVerify n ctx vi p, e) =
     (if challengeKey L (in_Purpose vi) (in_Channel vi) (in_Destination vi) = k \<and> e = None then 1 else 0)"
| "consumes L k (OpConsume n ctx pu ch de token, e) =
     (if challengeKey L pu ch de = k \<and> e = None then 1 else 0)"
| "consumes L k _ = 0"

definition consumed :: "verification_lib \<Rightarrow> string \<Rightarrow> (vop \<times> verror option) list \<Rightarrow> nat" where
  "consumed L k tr = sum_list (map (consumes L k) tr)"

section \<open>One step\<close>

lemma trace_snoc [simp]:
  "issued L k (tr @ [ev]) = issued L k tr @ issue L k ev"
  "accepted L k (tr @ [ev]) = accepted L k tr @ accepts L k ev"
  "consumed L k (tr @ [ev]) = consumed L k tr + consumes L k ev"
  "issued L k [] = []" "accepted L k [] = []" "consumed L k [] = 0"
  by (simp_all add: issued_def accepted_def consumed_def)

lemma meets_None: "meets n view spec s (None, s') \<Longrightarrow>
    n = Delivered \<and> fst (spec (view s)) = None \<and> view s' = snd (spec (view s))"
  by (cases n) (auto simp: meets_def)

lemma meets_view: "meets n view spec s (e, s') \<Longrightarrow> view s' = view s \<or> view s' = snd (spec (view s))"
  by (cases n) (auto simp: meets_def)

lemma spec_verify_None: "fst (spec_verify code lim c) = None \<Longrightarrow>
    (\<exists>ch. c = Some ch \<and> ch_code ch = code) \<and> snd (spec_verify code lim c) = None"
  by (cases c) (auto split: if_splits)

lemma spec_verify_code: "snd (spec_verify code lim c) = Some ch' \<Longrightarrow> \<exists>ch. c = Some ch \<and> ch_code ch = ch_code ch'"
  by (cases c) (auto split: if_splits)

lemma spec_claim_None: "fst (spec_claim code lim token c) = None \<Longrightarrow> \<exists>ch. c = Some ch \<and> ch_code ch = code"
  by (cases c) (auto split: if_splits)

lemma spec_claim_code: "snd (spec_claim code lim token c) = Some ch' \<Longrightarrow> \<exists>ch. c = Some ch \<and> ch_code ch = ch_code ch'"
  by (cases c) (auto split: if_splits)

lemma spec_consume_None: "fst (spec_consume token c) = None \<Longrightarrow> c \<noteq> None \<and> snd (spec_consume token c) = None"
  by (cases c) (auto split: if_splits)

lemma spec_consume_code: "snd (spec_consume token c) = Some ch' \<Longrightarrow> c = Some ch'"
  by (cases c) (auto split: if_splits)

lemma spec_release_code: "snd (spec_release token c) = Some ch' \<Longrightarrow> \<exists>ch. c = Some ch \<and> ch_code ch = ch_code ch'"
  by (cases c) (auto split: if_splits)

lemma wait_view:
  assumes "redis_inv R r" "0 \<le> ms"
  shows "redis_inv R (r_wait R ms r)"
    "view_at R k (r_wait R ms r) =
      (case view_at R k r of None \<Rightarrow> None
       | Some ch \<Rightarrow> if db_clock (r_db R r) + ms < ch_deadline ch then Some ch else None)"
    "db_clock (r_db R (r_wait R ms r)) = db_clock (r_db R r) + ms"
proof -
  have db: "r_db R (r_wait R ms r) = db_wait ms (r_db R r)" and ok: "redis_ok R" "vstore_ok (r_db R r)"
    using assms by (auto simp: redis_inv_def redis_ok_def)
  have live: "db_live (db_wait ms db) k = db_live db k \<or> db_live (db_wait ms db) k = None" for db k
    using assms(2) by (auto simp: db_live_wait split: option.splits)
  have "ch_typed (db_wait ms db) k" if "ch_typed db k" for db k
    using live [of db k] that chal_cong [of "db_wait ms db" k db] by (auto simp: ch_typed_def)
  moreover have "rate_typed (db_wait ms db) k" if "rate_typed db k" for db k
    using live [of db k] that rate_cong [of "db_wait ms db" k db] by (auto simp: rate_typed_def)
  ultimately show "redis_inv R (r_wait R ms r)"
    using ok by (simp add: redis_inv_def db vstore_ok_def)
  show "view_at R k (r_wait R ms r) =
      (case view_at R k r of None \<Rightarrow> None
       | Some ch \<Rightarrow> if db_clock (r_db R r) + ms < ch_deadline ch then Some ch else None)"
    using assms(2)
    by (auto simp: view_at_def db chal_def db_live_wait
        split: option.splits prod.splits redis_value.splits if_splits)
  show "db_clock (r_db R (r_wait R ms r)) = db_clock (r_db R r) + ms" by (simp add: db)
qed

text \<open>
  \<open>step_ok\<close> is what one request does to the challenge under \<open>k\<close>: an accepted code is the stored one,
  a consumption removes a challenge, and a challenge that is there afterwards either was there with
  the same code or has just been issued.
\<close>

definition step_ok :: "verification_lib \<Rightarrow> string \<Rightarrow> vop \<times> verror option \<Rightarrow> challenge option \<Rightarrow> challenge option \<Rightarrow> bool" where
  "step_ok L k ev before after \<longleftrightarrow>
     (\<forall>c \<in> set (accepts L k ev). \<exists>ch. before = Some ch \<and> ch_code ch = c) \<and>
     (consumes L k ev = 0 \<or> consumes L k ev = 1 \<and> before \<noteq> None \<and> after = None \<and> issue L k ev = []) \<and>
     (\<forall>ch'. after = Some ch' \<longrightarrow>
        (\<exists>ch. before = Some ch \<and> ch_code ch = ch_code ch') \<or> issue L k ev = [ch_code ch'])"

lemma step_ok_same: "accepts L k ev = [] \<Longrightarrow> consumes L k ev = 0 \<Longrightarrow> step_ok L k ev c c"
  by (auto simp: step_ok_def)

lemma step_ok_meets:
  assumes m: "meets n view spec s (e, s')" and i: "issue L k ev = []"
    and a: "accepts L k ev = (if e = None then codes else [])"
    and c: "consumes L k ev = (if e = None then u else 0)"
    and ok: "\<And>b. fst (spec b) = None \<Longrightarrow> (\<forall>c \<in> set codes. \<exists>ch. b = Some ch \<and> ch_code ch = c) \<and>
      (u = 0 \<or> u = 1 \<and> b \<noteq> None \<and> snd (spec b) = None)"
    and keep: "\<And>b ch'. snd (spec b) = Some ch' \<Longrightarrow> \<exists>ch. b = Some ch \<and> ch_code ch = ch_code ch'"
  shows "step_ok L k ev (view s) (view s')"
proof (cases "e = None")
  case True
  then have "fst (spec (view s)) = None" "view s' = snd (spec (view s))"
    using m meets_None [of n view spec s s'] by auto
  with ok [of "view s"] keep a c i True show ?thesis unfolding step_ok_def by auto
next
  case False
  have "\<exists>ch. view s = Some ch \<and> ch_code ch = ch_code ch'" if "view s' = Some ch'" for ch'
    using meets_view [OF m] keep [of "view s" ch'] that by (cases "view s") auto
  with False a c show ?thesis by (cases e) (simp_all add: step_ok_def)
qed

lemma step_ok_reserve:
  assumes "meets_reserve n code ttl now before e after"
    and "issue L k ev = (if e = None \<or> n = LostAfter then [code] else [])"
    and "accepts L k ev = []" "consumes L k ev = 0"
  shows "step_ok L k ev before after"
  using assms by (cases before; cases "e = None") (auto simp: step_ok_def meets_reserve_def)

lemmas store_ops_simps = redis_store_def store_ops.simps claim_ops.simps

text \<open>One request, by kind: it keeps the invariant, and leaves every other key alone.\<close>

lemma vexec_reserve:
  assumes "redis_inv R r" "Policy_Validate p = None" "RedisStore_Reserve L R n ctx i code p r = (e, r')"
    and k: "k = challengeKey L pu0 ch0 de0"
  shows "redis_inv R r' \<and> step_ok L k (OpReserve n ctx i code p, e) (view_at R k r) (view_at R k r')"
proof -
  define k1 where "k1 = challengeKey L (in_Purpose i) (in_Channel i) (in_Destination i)"
  have law: "redis_inv R r'" "k \<noteq> k1 \<Longrightarrow> view_at R k r' = view_at R k r"
    "meets_reserve n code (milliseconds (CodeTTL p)) (db_clock (r_db R r)) (view_at R k1 r) e (view_at R k1 r')"
    using rs.reserve_law [OF assms(1), of p L n ctx i code e r' k1] assms
    by (auto simp: store_ops_simps k1_def)
  show ?thesis
    using law step_ok_reserve [OF law(3), of L k "(OpReserve n ctx i code p, e)"]
      step_ok_same [of L k "(OpReserve n ctx i code p, e)" "view_at R k r"]
    by (cases "k = k1") (auto simp: k1_def)
qed

lemma vexec_verify:
  assumes "redis_inv R r" "Policy_Validate p = None" "RedisStore_VerifyAndConsume L R n ctx vi p r = (e, r')"
    and k: "k = challengeKey L pu0 ch0 de0"
  shows "redis_inv R r' \<and> step_ok L k (OpVerify n ctx vi p, e) (view_at R k r) (view_at R k r')"
proof -
  define k1 where "k1 = challengeKey L (in_Purpose vi) (in_Channel vi) (in_Destination vi)"
  have law: "redis_inv R r'" "k \<noteq> k1 \<Longrightarrow> view_at R k r' = view_at R k r"
    "meets n (view_at R k1) (spec_verify (Code vi) (MaxAttempts p)) r (e, r')"
    using rs.verify_law [OF assms(1), of p L n ctx vi e r' k1] assms
    by (auto simp: store_ops_simps k1_def)
  show ?thesis
  proof (cases "k = k1")
    case True
    have "step_ok L k (OpVerify n ctx vi p, e) (view_at R k1 r) (view_at R k1 r')"
      by (rule step_ok_meets [OF law(3), where codes = "[Code vi]" and u = 1])
         (auto simp: True k1_def dest: spec_verify_None spec_verify_code)
    with law True show ?thesis by simp
  qed (use law step_ok_same [of L k "(OpVerify n ctx vi p, e)"] in \<open>simp add: k1_def\<close>)
qed

lemma vexec_claim:
  assumes "redis_inv R r" "Policy_Validate p = None" "RedisStore_verifyAndClaim L R n ctx vi p token r = (e, r')"
    and k: "k = challengeKey L pu0 ch0 de0"
  shows "redis_inv R r' \<and> step_ok L k (OpClaim n ctx vi p token, e) (view_at R k r) (view_at R k r')"
proof -
  define k1 where "k1 = challengeKey L (in_Purpose vi) (in_Channel vi) (in_Destination vi)"
  have law: "redis_inv R r'" "k \<noteq> k1 \<Longrightarrow> view_at R k r' = view_at R k r"
    "meets n (view_at R k1) (spec_claim (Code vi) (MaxAttempts p) token) r (e, r')"
    using rs.claim_law [OF assms(1), of p L n ctx vi token e r' k1] assms
    by (auto simp: store_ops_simps k1_def)
  show ?thesis
  proof (cases "k = k1")
    case True
    have "step_ok L k (OpClaim n ctx vi p token, e) (view_at R k1 r) (view_at R k1 r')"
      by (rule step_ok_meets [OF law(3), where codes = "[Code vi]" and u = 0])
         (auto simp: True k1_def dest: spec_claim_None spec_claim_code)
    with law True show ?thesis by simp
  qed (use law step_ok_same [of L k "(OpClaim n ctx vi p token, e)"] in \<open>simp add: k1_def\<close>)
qed

lemma vexec_consume:
  assumes "redis_inv R r" "RedisStore_consumeClaim L R n ctx pu ch de token r = (e, r')"
    and k: "k = challengeKey L pu0 ch0 de0"
  shows "redis_inv R r' \<and> step_ok L k (OpConsume n ctx pu ch de token, e) (view_at R k r) (view_at R k r')"
proof -
  define k1 where "k1 = challengeKey L pu ch de"
  have law: "redis_inv R r'" "k \<noteq> k1 \<Longrightarrow> view_at R k r' = view_at R k r"
    "meets n (view_at R k1) (spec_consume token) r (e, r')"
    using rs.consume_law [OF assms(1), of L n ctx pu ch de token e r'] assms
    by (auto simp: store_ops_simps k1_def)
  show ?thesis
  proof (cases "k = k1")
    case True
    have "step_ok L k (OpConsume n ctx pu ch de token, e) (view_at R k1 r) (view_at R k1 r')"
      by (rule step_ok_meets [OF law(3), where codes = "[]" and u = 1])
         (auto simp: True k1_def dest: spec_consume_None spec_consume_code)
    with law True show ?thesis by simp
  qed (use law step_ok_same [of L k "(OpConsume n ctx pu ch de token, e)"] in \<open>simp add: k1_def\<close>)
qed

lemma vexec_release:
  assumes "redis_inv R r" "RedisStore_releaseClaim L R n ctx pu ch de token r = (e, r')"
    and k: "k = challengeKey L pu0 ch0 de0"
  shows "redis_inv R r' \<and> step_ok L k (OpRelease n ctx pu ch de token, e) (view_at R k r) (view_at R k r')"
proof -
  define k1 where "k1 = challengeKey L pu ch de"
  have law: "redis_inv R r'" "k \<noteq> k1 \<Longrightarrow> view_at R k r' = view_at R k r"
    "meets n (view_at R k1) (spec_release token) r (e, r')"
    using rs.release_law [OF assms(1), of L n ctx pu ch de token e r'] assms
    by (auto simp: store_ops_simps k1_def)
  show ?thesis
  proof (cases "k = k1")
    case True
    have "step_ok L k (OpRelease n ctx pu ch de token, e) (view_at R k1 r) (view_at R k1 r')"
      by (rule step_ok_meets [OF law(3), where codes = "[]" and u = 0])
         (auto dest: spec_release_code)
    with law True show ?thesis by simp
  qed (use law step_ok_same [of L k "(OpRelease n ctx pu ch de token, e)"] in simp)
qed

lemma vexec_step:
  assumes "redis_inv R r" "vop_ok op" "vexec L R op r = (e, r')" and k: "k = challengeKey L pu0 ch0 de0"
  shows "redis_inv R r' \<and> step_ok L k (op, e) (view_at R k r) (view_at R k r')"
proof (cases op)
  case (OpWait ms)
  with assms have "0 \<le> ms" "r' = r_wait R ms r" by auto
  with OpWait wait_view(1) [OF assms(1), of ms] wait_view(2) [OF assms(1), of ms k] show ?thesis
    by (auto simp: step_ok_def split: option.splits if_splits)
qed (use assms vexec_reserve vexec_verify vexec_claim vexec_consume vexec_release in simp_all)

section \<open>Runs keep the invariant and the account\<close>

lemma vrun_inv: "vrun L R r tr r' \<Longrightarrow> redis_inv R r \<Longrightarrow> redis_inv R r'"
  by (induction rule: vrun.induct) (auto dest: vexec_step [OF _ _ _ refl])

lemma vrun_account:
  assumes "vrun L R r tr r'" and "redis_inv R r" and k: "k = challengeKey L pu ch de" and "view_at R k r = None"
  shows "consumed L k tr + (if view_at R k r' = None then 0 else 1) \<le> length (issued L k tr) \<and>
    set (accepted L k tr) \<subseteq> set (issued L k tr) \<and>
    (\<forall>c. view_at R k r' = Some c \<longrightarrow> ch_code c \<in> set (issued L k tr))"
  using assms(1)
proof (induction rule: vrun.induct)
  case vrun_nil
  then show ?case using assms by simp
next
  case (vrun_step tr r1 op e r2)
  have "step_ok L k (op, e) (view_at R k r1) (view_at R k r2)"
    using vexec_step [OF vrun_inv [OF vrun_step.hyps(1) assms(2)] vrun_step.hyps(2,3) k] by simp
  with vrun_step.IH show ?case
    by (cases "view_at R k r1"; cases "view_at R k r2") (auto simp: step_ok_def)
qed

section \<open>Rate limiting\<close>

text \<open>
  The counter of a target: requests other than reservations of the same target leave it alone, a
  reservation of the target counts.
\<close>

definition targetKey :: "verification_lib \<Rightarrow> send_input \<Rightarrow> string" where
  "targetKey L i = redisKeys L (in_Purpose i) (in_Channel i) (in_Destination i) (ClientIP i) ! 2"

fun sends_to :: "verification_lib \<Rightarrow> string \<Rightarrow> policy \<Rightarrow> vop \<Rightarrow> bool" where
  "sends_to L kt p (OpReserve n ctx i code p') = (targetKey L i = kt \<and> p' = p)"
| "sends_to L kt p _ = False"

fun other_op :: "verification_lib \<Rightarrow> string \<Rightarrow> vop \<Rightarrow> bool" where
  "other_op L kt (OpReserve n ctx i code p') = (targetKey L i \<noteq> kt)"
| "other_op L kt _ = True"

fun passed :: "vop \<times> verror option \<Rightarrow> int" where
  "passed (OpWait ms, e) = ms"
| "passed _ = 0"

definition elapsed :: "(vop \<times> verror option) list \<Rightarrow> int" where
  "elapsed tr = sum_list (map passed tr)"

definition sent :: "verification_lib \<Rightarrow> string \<Rightarrow> policy \<Rightarrow> (vop \<times> verror option) list \<Rightarrow> nat" where
  "sent L kt p tr = length (filter (\<lambda>ev. sends_to L kt p (fst ev) \<and> snd ev = None) tr)"

lemma targetKey_form: "\<exists>x. targetKey L i = redisKeyPrefix @ ''target-rate:'' @ x"
  by (simp add: targetKey_def redisKeys_def Let_def)

lemma script_frame:
  assumes inv: "redis_inv R r" and sim: "cmd_sim R mR d" and ref: "refines k m d spec"
    and k: "k = challengeKey L p c de" and out: "script_result ctx what m' (via_net n mR r) = (e, r')"
  shows "frame {k} (r_db R r) (r_db R r')"
proof -
  have "ch_typed (r_db R r) k" using inv k challengeKey_form [of L p c de] by (auto simp: redis_inv_def vstore_ok_def)
  then have f: "frame {k} (r_db R r) (r_db R (snd (mR r)))"
    using ref cmd_simD [OF sim, of r] unfolding refines_def by fastforce
  have "r' = snd (via_net n mR r)" using out by (metis script_result_snd snd_conv)
  with f show ?thesis by (cases n) (simp_all add: via_net_def)
qed

lemma live_frame: "frame {challengeKey L p c d} db db' \<Longrightarrow> kt = targetKey L i \<Longrightarrow>
    db_live db' kt = db_live db kt \<and> db_clock db' = db_clock db"
  using targetKey_form [of L i] by (auto simp: frame_def challengeKey_def)

lemma vexec_rate_other:
  assumes inv: "redis_inv R r" and ok: "vop_ok op" and ex: "vexec L R op r = (e, r')"
    and kt: "kt = targetKey L i0" and other: "other_op L kt op" "\<not> (\<exists>ms. op = OpWait ms)"
  shows "db_live (r_db R r') kt = db_live (r_db R r) kt \<and> db_clock (r_db R r') = db_clock (r_db R r)"
proof -
  have R: "redis_ok R" using inv by (simp add: redis_inv_def)
  show ?thesis
  proof (cases op)
    case (OpReserve n ctx i code p)
    have ne: "kt \<notin> set (redisKeys L (in_Purpose i) (in_Channel i) (in_Destination i) (ClientIP i))"
      using other OpReserve targetKey_form [of L i0] kt by (auto simp: targetKey_def redisKeys_def Let_def)
    have "r_db R r' = r_db R r \<or> reserve_verdict L i p (r_db R r) = None \<and> r_db R r' = reserved_db L i code p (r_db R r)"
      using Reserve_db [OF inv, of p L n ctx i code e r'] ok ex OpReserve by (cases n) (auto split: if_splits)
    with reserved_live [OF ne] reserved_db_props(3) [of "r_db R r" p L i code] inv ok OpReserve show ?thesis
      by (auto simp: redis_inv_def)
  next
    case (OpVerify n ctx vi p)
    with ok ex show ?thesis
      using live_frame [OF script_frame [OF inv script_sims(2) [OF R] verifyScript_refines refl] kt]
        Policy_Validate_bounds(6,7) [of p] by (simp add: RedisStore_VerifyAndConsume_def) blast
  next
    case (OpClaim n ctx vi p token)
    with ok ex show ?thesis
      using live_frame [OF script_frame [OF inv script_sims(3) [OF R] verifyAndClaimScript_refines refl] kt]
        Policy_Validate_bounds(6,7) [of p] by (simp add: RedisStore_verifyAndClaim_def) blast
  next
    case (OpConsume n ctx pu ch de token)
    with ex show ?thesis
      using live_frame [OF script_frame [OF inv script_sims(4) [OF R] consumeClaimScript_refines refl] kt]
      by (simp add: RedisStore_consumeClaim_def runClaimMutation_def) blast
  next
    case (OpRelease n ctx pu ch de token)
    with ex show ?thesis
      using live_frame [OF script_frame [OF inv script_sims(5) [OF R] releaseClaimScript_refines refl] kt]
      by (simp add: RedisStore_releaseClaim_def runClaimMutation_def) blast
  next
    case (OpWait ms)
    with other show ?thesis by simp
  qed
qed

lemma reserved_rate:
  assumes ok: "vstore_ok db" and p: "Policy_Validate p = None" and v: "reserve_verdict L i p db = None"
  defines "kt \<equiv> targetKey L i"
  shows "rate db kt < TargetLimit p" "rate (reserved_db L i code p db) kt = rate db kt + 1"
    "rate_deadline (reserved_db L i code p db) kt =
      Some (case rate_deadline db kt of None \<Rightarrow> db_clock db + milliseconds (TargetWindow p) | Some d \<Rightarrow> d)"
proof -
  define ks where "ks = redisKeys L (in_Purpose i) (in_Channel i) (in_Destination i) (ClientIP i)"
  obtain k1 k2 k4 where ks: "ks = [k1, k2, kt, k4]" by (simp add: kt_def targetKey_def ks_def redisKeys_def Let_def)
  have dist: "distinct [k1, k2, kt, k4]"
    using redisKeys_distinct [of L "in_Purpose i" "in_Channel i" "in_Destination i" "ClientIP i"]
    unfolding ks_def [symmetric] ks .
  have typed: "rate_typed db kt" using ok targetKey_form [of L i] by (auto simp: vstore_ok_def kt_def)
  show below: "rate db kt < TargetLimit p"
    using v unfolding reserve_verdict_def ks_def [symmetric] ks Let_def
    by (auto simp: spec_reserve_def split: if_splits)
  have "db_live (reserved_db L i code p db) kt = db_live (bumped kt (milliseconds (TargetWindow p)) db) kt"
    unfolding reserved_db_def ks_def [symmetric] ks Let_def using dist by (auto simp: stored_frame(2))
  note c = rate_cong [OF this]
  have "rate db kt < 100000" using below Policy_Validate_bounds(9) [OF p] by simp
  from bumped_props(1,3) [OF typed this policy_milliseconds(5) [OF p]] c
  show "rate (reserved_db L i code p db) kt = rate db kt + 1"
    "rate_deadline (reserved_db L i code p db) kt =
      Some (case rate_deadline db kt of None \<Rightarrow> db_clock db + milliseconds (TargetWindow p) | Some d \<Rightarrow> d)"
    by simp_all
qed

lemma vexec_rate_send:
  assumes inv: "redis_inv R r" and p: "Policy_Validate p = None"
    and ex: "RedisStore_Reserve L R n ctx i code p r = (e, r')" and kt: "kt = targetKey L i"
  shows "db_clock (r_db R r') = db_clock (r_db R r) \<and>
    (e \<noteq> None \<and> db_live (r_db R r') kt = db_live (r_db R r) kt \<or>
     rate (r_db R r) kt < TargetLimit p \<and> rate (r_db R r') kt = rate (r_db R r) kt + 1 \<and>
     rate_deadline (r_db R r') kt = Some (case rate_deadline (r_db R r) kt of
       None \<Rightarrow> db_clock (r_db R r) + milliseconds (TargetWindow p) | Some d \<Rightarrow> d))"
proof -
  define db where "db = r_db R r"
  have ok: "vstore_ok db" using inv by (simp add: redis_inv_def db_def)
  note step = Reserve_db [OF inv p ex, folded db_def]
  have "r_db R r' = db \<and> e \<noteq> None \<or> reserve_verdict L i p db = None \<and> r_db R r' = reserved_db L i code p db"
    using step by (cases n) (auto simp: db_def split: if_splits)
  then show ?thesis
    using reserved_rate(1) [OF ok p, of L i] reserved_rate(2,3) [OF ok p, of L i code] reserved_db_props(3) [OF ok p, of L i code] kt
    unfolding db_def [symmetric] by auto
qed

lemma elapsed_snoc [simp]: "elapsed (tr @ [ev]) = elapsed tr + passed ev" "elapsed [] = 0"
  by (simp_all add: elapsed_def)

lemma sent_snoc [simp]:
  "sent L kt p (tr @ [ev]) = sent L kt p tr + (if sends_to L kt p (fst ev) \<and> snd ev = None then 1 else 0)"
  "sent L kt p [] = 0"
  by (simp_all add: sent_def)

lemma passed_nonneg: "vop_ok op \<Longrightarrow> 0 \<le> passed (op, e)"
  by (cases op) auto

text \<open>
  The account of a window: either nothing was sent yet and the counter does not exist, or the
  counter has seen every message sent and stays until the window is over.
\<close>

definition window_ok :: "redis_db \<Rightarrow> string \<Rightarrow> int \<Rightarrow> nat \<Rightarrow> int \<Rightarrow> bool" where
  "window_ok db kt close n limit \<longleftrightarrow>
     n = 0 \<and> db_live db kt = None \<or>
     int n \<le> rate db kt \<and> rate db kt \<le> limit \<and> (\<exists>d. rate_deadline db kt = Some d \<and> close \<le> d)"

lemma window_ok_cong: "db_live db' kt = db_live db kt \<Longrightarrow> window_ok db' kt close n limit = window_ok db kt close n limit"
  using rate_cong [of db' kt db] by (simp add: window_ok_def)

lemma window_ok_wait:
  assumes "window_ok db kt close n limit" "0 \<le> ms" "db_clock db + ms < close"
  shows "window_ok (db_wait ms db) kt close n limit"
proof -
  have "db_live (db_wait ms db) kt = db_live db kt"
    using assms by (auto simp: db_live_wait window_ok_def rate_deadline_def entry_live_def split: option.splits prod.splits)
  with assms(1) window_ok_cong show ?thesis by blast
qed

lemma window_ok_send:
  assumes w: "window_ok db kt close n limit" and "rate db kt < limit" "rate db' kt = rate db kt + 1"
    and d: "rate_deadline db' kt = Some (case rate_deadline db kt of None \<Rightarrow> t | Some d \<Rightarrow> d)" and "close \<le> t"
  shows "window_ok db' kt close (Suc n) limit" "window_ok db' kt close n limit"
proof -
  have "int n \<le> rate db kt" "\<exists>d. rate_deadline db' kt = Some d \<and> close \<le> d"
    using w d assms(5) by (auto simp: window_ok_def rate_def rate_deadline_def)
  with assms show "window_ok db' kt close (Suc n) limit" "window_ok db' kt close n limit"
    by (auto simp: window_ok_def)
qed

lemma vrun_window:
  assumes "vrun L R r tr r'" and inv: "redis_inv R r" and kt: "kt = targetKey L i0"
    and p: "Policy_Validate p = None" and fresh: "db_live (r_db R r) kt = None"
    and "\<forall>ev \<in> set tr. other_op L kt (fst ev) \<or> sends_to L kt p (fst ev)"
    and "elapsed tr < milliseconds (TargetWindow p)"
  shows "db_clock (r_db R r') = db_clock (r_db R r) + elapsed tr \<and> 0 \<le> elapsed tr \<and>
    window_ok (r_db R r') kt (db_clock (r_db R r) + milliseconds (TargetWindow p)) (sent L kt p tr) (TargetLimit p)"
  using assms(1,6,7)
proof (induction rule: vrun.induct)
  case vrun_nil
  with fresh show ?case by (simp add: window_ok_def)
next
  case (vrun_step tr r1 op e r2)
  have inv1: "redis_inv R r1" using vrun_inv [OF vrun_step.hyps(1) inv] .
  have pos: "0 \<le> passed (op, e)" using passed_nonneg vrun_step.hyps(2) .
  with vrun_step.IH vrun_step.prems have IH: "db_clock (r_db R r1) = db_clock (r_db R r) + elapsed tr" "0 \<le> elapsed tr"
    "window_ok (r_db R r1) kt (db_clock (r_db R r) + milliseconds (TargetWindow p)) (sent L kt p tr) (TargetLimit p)"
    by auto
  have "other_op L kt op \<or> sends_to L kt p op" using vrun_step.prems by simp
  then consider (wait) ms where "op = OpWait ms" | (other) "other_op L kt op" "\<not> (\<exists>ms. op = OpWait ms)"
    | (send) n ctx i code where "op = OpReserve n ctx i code p" "targetKey L i = kt"
    by (cases op) auto
  then show ?case
  proof cases
    case wait
    with vrun_step.hyps(2,3) inv1 have "0 \<le> ms" "r_db R r2 = db_wait ms (r_db R r1)"
      by (auto simp: redis_inv_def redis_ok_def)
    with wait IH vrun_step.prems(2) window_ok_wait [OF IH(3)] show ?thesis by simp
  next
    case other
    have "\<not> sends_to L kt p op" "passed (op, e) = 0" using other by (cases op; simp)+
    moreover note same = vexec_rate_other [OF inv1 vrun_step.hyps(2,3) kt other]
    ultimately show ?thesis using IH window_ok_cong [OF conjunct1 [OF same]] by simp
  next
    case send
    then have ex: "RedisStore_Reserve L R n ctx i code p r1 = (e, r2)" using vrun_step.hyps(3) by simp
    from vexec_rate_send [OF inv1 p ex send(2) [symmetric]]
    consider "e \<noteq> None" "db_live (r_db R r2) kt = db_live (r_db R r1) kt"
      | "rate (r_db R r1) kt < TargetLimit p" "rate (r_db R r2) kt = rate (r_db R r1) kt + 1"
        "rate_deadline (r_db R r2) kt = Some (case rate_deadline (r_db R r1) kt of
           None \<Rightarrow> db_clock (r_db R r1) + milliseconds (TargetWindow p) | Some d \<Rightarrow> d)" by blast
    then have "window_ok (r_db R r2) kt (db_clock (r_db R r) + milliseconds (TargetWindow p))
        (sent L kt p (tr @ [(op, e)])) (TargetLimit p)"
    proof cases
      case 1
      then have "sent L kt p (tr @ [(op, e)]) = sent L kt p tr" by simp
      with IH(3) window_ok_cong [OF 1(2)] show ?thesis by simp
    next
      case 2
      have t: "db_clock (r_db R r) + milliseconds (TargetWindow p) \<le> db_clock (r_db R r1) + milliseconds (TargetWindow p)"
        using IH(1,2) by simp
      show ?thesis using window_ok_send [OF IH(3) 2 t] by simp
    qed
    with vexec_rate_send [OF inv1 p ex send(2) [symmetric]] IH send(1) show ?thesis by simp
  qed
qed

end
