(* ===== verification/Verification_Properties.thy ===== *)
theory Verification_Properties
  imports Verification_Machine
begin

text \<open>
  The properties of package \<open>verification\<close>, stated over the service on the Redis store, with their
  witnesses: a concrete library, policy and recipient on the reference server.
\<close>

section \<open>Shared facts\<close>

definition w_lib :: verification_lib where
  "w_lib = \<lparr>lib_ParseAddress = (\<lambda>s. Some s), lib_ParseIP = (\<lambda>s. Some s), lib_lower = (\<lambda>r. r),
            lib_sha256 = (\<lambda>s. map of_char s)\<rparr>"

definition w_policy :: policy where
  "w_policy = \<lparr>CodeLength = 6, CodeTTL = 60 * second, ResendCooldown = 30 * second, MaxAttempts = 2,
     TargetLimit = 2, TargetWindow = 600 * second, IPLimit = 5, IPWindow = 600 * second\<rparr>"

definition w_ctx :: identity_context where
  "w_ctx = \<lparr>ctx_Err = None, ctx_authorization = None, ctx_display_names = None\<rparr>"

definition w_send :: send_input where
  "w_send = \<lparr>in_Purpose = ''login'', in_Channel = ''phone'', in_Destination = ''+8613800000000'', ClientIP = ''1.2.3.4''\<rparr>"

definition w_verify :: verify_input where
  "w_verify = \<lparr>in_Purpose = ''login'', in_Channel = ''phone'', in_Destination = ''+8613800000000'', Code = ''123456''\<rparr>"

definition w_reads :: "nat list option list" where
  "w_reads = [Some [1, 252, 2, 3, 14, 255], Some [25, 6, 7, 8, 9, 0]]"

definition w_service :: "(identity_context, redis_db, delivery list) service" where
  "w_service = \<lparr>sv_store = redis_store w_lib ref_redis, sv_deliver = (\<lambda>ctx d w. (None, w @ [d])), sv_policy = w_policy\<rparr>"

lemmas w_defs = w_lib_def w_policy_def w_ctx_def w_send_def w_verify_def w_reads_def w_service_def

lemma w_policy_ok: "Policy_Validate w_policy = None"
  by (simp add: w_policy_def Policy_Validate_def currentCodeLength_def duration_defs)

lemma empty_inv: "redis_inv ref_redis empty_redis_db"
  using ref_redis_ok
  by (simp add: redis_inv_def vstore_ok_def ch_typed_def rate_typed_def empty_redis_db_def db_live_def)
     (simp add: ref_redis_def)

lemma w_code: "generateCode w_reads = Some (Inr ''123456'')"
  by (simp add: generateCode_def w_reads_def generateCode_loop.simps currentCodeLength_def Let_def)

lemma w_new_service:
  "NewService (Some (redis_store w_lib ref_redis)) (Some (\<lambda>ctx d w. (None, w @ [d]))) w_policy = Inr w_service"
  by (simp add: NewService_def w_policy_ok w_service_def)

text \<open>The state of the reference server after the first reservation, and the reply.\<close>

definition w_reserved :: redis_db where
  "w_reserved = snd (RedisStore_Reserve w_lib ref_redis Delivered w_ctx w_send ''123456'' w_policy empty_redis_db)"

lemma w_reserve:
  "RedisStore_Reserve w_lib ref_redis Delivered w_ctx w_send ''123456'' w_policy empty_redis_db = (None, w_reserved)"
proof -
  have v: "reserve_verdict w_lib w_send w_policy empty_redis_db = None"
    by (simp add: reserve_verdict_def spec_reserve_def chal_def rate_def db_live_def empty_redis_db_def
        w_policy_def Let_def)
  obtain e r where out: "RedisStore_Reserve w_lib ref_redis Delivered w_ctx w_send ''123456'' w_policy empty_redis_db = (e, r)"
    by (meson surj_pair)
  from Reserve_db [OF empty_inv w_policy_ok out] v have "e = None" by (simp add: ref_redis_def)
  with out show ?thesis by (simp add: w_reserved_def)
qed

lemma phone_valid: "validateIdentity w_lib ''login'' ''phone'' ''+8613800000000'' = None"
  by (simp add: validateIdentity_def purposePattern_def phonePattern_def ChannelEmail_def ChannelPhone_def char_in_def)

lemma w_send_ok:
  "Send w_lib w_service Delivered w_ctx 0 w_reads w_send empty_redis_db [] =
     Some (None, w_reserved, [\<lparr>in_Purpose = ''login'', in_Channel = ''phone'', in_Destination = ''+8613800000000'',
       dl_Code = ''123456'', ExpiresAt = 60000000000\<rparr>])"
proof -
  have "validateSendInput w_lib w_send = None"
    by (simp add: validateSendInput_def w_send_def phone_valid) (simp add: w_lib_def)
  moreover have "st_Reserve (sv_store w_service) = RedisStore_Reserve w_lib ref_redis" "sv_policy w_service = w_policy"
    by (simp_all add: w_service_def redis_store_def)
  ultimately show ?thesis
    by (simp add: Send_def w_code w_reserve Let_def) (simp add: w_send_def w_service_def w_policy_def second_def)
qed

lemma NewService_fields:
  "NewService (Some st) (Some dl) p = Inr sv \<Longrightarrow>
   sv_store sv = st \<and> sv_policy sv = p \<and> sv_deliver sv = dl \<and> Policy_Validate p = None"
  by (auto simp: NewService_def split: option.splits)

lemma code_valid_input:
  assumes "validateSendInput L i = None" "generateCode reads = Some (Inr (Code vi))"
    and "in_Purpose vi = in_Purpose i" "in_Channel vi = in_Channel i" "in_Destination vi = in_Destination i"
  shows "validateVerifyInput L vi 6 = None"
proof -
  have "length (Code vi) = 6 \<and> list_all is_digit (Code vi)"
    using generateCode_loop_shape [of "[]" reads] assms(2) by (simp add: generateCode_def)
  with assms show ?thesis
    by (auto simp: validateVerifyInput_def validateSendInput_def list_ex_iff list_all_iff split: option.splits)
qed

section \<open>Properties\<close>

text \<open>C12 A code that was sent is accepted once: verified within its time to live it is accepted, later
  it is not found; and after the first verification it is never found again.\<close>

theorem send_then_verify_once:
  assumes inv: "redis_inv R r" and sv: "NewService (Some (redis_store L R)) (Some dl) p = Inr sv"
    and send: "Send L sv n ctx now reads i r w = Some (None, r1, w1)"
    and code: "generateCode reads = Some (Inr (Code vi))"
    and vi: "in_Purpose vi = in_Purpose i" "in_Channel vi = in_Channel i" "in_Destination vi = in_Destination i"
    and ms: "0 \<le> ms"
    and v1: "VerifyAndConsume L sv Delivered ctx1 vi (r_wait R ms r1) = (e1, r2)"
    and v2: "VerifyAndConsume L sv Delivered ctx2 vi r2 = (e2, r3)"
  shows "e1 = (if ms < milliseconds (CodeTTL p) then None else Some (verr ErrChallengeNotFound)) \<and>
    e2 = Some (verr ErrChallengeNotFound)"
proof -
  note f = NewService_fields [OF sv]
  define k where "k = challengeKey L (in_Purpose vi) (in_Channel vi) (in_Destination vi)"
  have st: "sv_store sv = redis_store L R" "Policy_Validate (sv_policy sv) = None" using f by auto
  have s1: "validateSendInput L i = None" "redis_inv R r1" "db_clock (r_db R r1) = db_clock (r_db R r)"
    "view_at R k r1 = Some \<lparr>ch_code = Code vi, ch_attempts = 0, ch_claim = None,
      ch_deadline = db_clock (r_db R r) + milliseconds (CodeTTL p)\<rparr>"
    using rs.send_view [OF st inv send refl] code f vi by (auto simp: k_def)
  have len: "validateVerifyInput L vi (CodeLength (sv_policy sv)) = None"
    using code_valid_input [OF s1(1) code vi] Policy_Validate_bounds(1) [of p] f by simp
  note w = wait_view(1) [OF s1(2) ms] wait_view(2) [OF s1(2) ms, of k]
  have a: "redis_inv R r2" "e1 = (if ms < milliseconds (CodeTTL p) then None else Some (verr ErrChallengeNotFound))"
    "view_at R k r2 = None"
    using rs.verify_view [OF st w(1) len v1 k_def] w(2) s1 by auto
  show ?thesis using rs.verify_view [OF st a(1) len v2 k_def] a by simp
qed

theorem send_then_verify_once_witness:
  "fst (VerifyAndConsume w_lib w_service Delivered w_ctx w_verify (db_wait 59999 w_reserved)) = None \<and>
   fst (VerifyAndConsume w_lib w_service Delivered w_ctx w_verify (db_wait 60000 w_reserved)) = Some (verr ErrChallengeNotFound)"
proof -
  have vi: "in_Purpose w_verify = in_Purpose w_send" "in_Channel w_verify = in_Channel w_send"
    "in_Destination w_verify = in_Destination w_send" "generateCode w_reads = Some (Inr (Code w_verify))"
    by (simp_all add: w_verify_def w_send_def w_code)
  have ttl: "milliseconds (CodeTTL w_policy) = 60000"
    by (simp add: w_policy_def milliseconds_def go_div_def duration_defs)
  note use = send_then_verify_once [OF empty_inv w_new_service w_send_ok vi(4) vi(1-3) _ surjective_pairing surjective_pairing, of _ w_ctx w_ctx]
  show ?thesis using use [of 59999] use [of 60000] by (simp add: ttl ref_redis_def)
qed

text \<open>C1 In every interleaving of reservations, verifications, claims, consumptions, releases, lost
  requests and passing time, a challenge that starts empty is consumed at most as often as codes
  were issued for it, and every accepted code is one that was issued for it.\<close>

theorem codes_are_single_use:
  assumes "redis_inv R r" and "view_at R (challengeKey L pu ch de) r = None" and "vrun L R r tr r'"
  shows "consumed L (challengeKey L pu ch de) tr \<le> length (issued L (challengeKey L pu ch de) tr) \<and>
    set (accepted L (challengeKey L pu ch de) tr) \<subseteq> set (issued L (challengeKey L pu ch de) tr)"
  using vrun_account [OF assms(3,1) refl assms(2)] by (auto split: if_splits)

lemma w_run:
  "vrun w_lib ref_redis empty_redis_db
     [(OpReserve Delivered w_ctx w_send ''123456'' w_policy, None),
      (OpVerify Delivered w_ctx w_verify w_policy,
       fst (RedisStore_VerifyAndConsume w_lib ref_redis Delivered w_ctx w_verify w_policy w_reserved))]
     (snd (RedisStore_VerifyAndConsume w_lib ref_redis Delivered w_ctx w_verify w_policy w_reserved))"
proof -
  have "vrun w_lib ref_redis empty_redis_db ([] @ [(OpReserve Delivered w_ctx w_send ''123456'' w_policy, None)]) w_reserved"
    by (rule vrun_step [OF vrun_nil]) (simp_all add: w_policy_ok w_reserve)
  from vrun_step [OF this, of "OpVerify Delivered w_ctx w_verify w_policy"] show ?thesis by (simp add: w_policy_ok)
qed

lemma empty_view: "view_at ref_redis k empty_redis_db = None"
  by (simp add: view_at_def chal_def db_live_def ref_redis_def empty_redis_db_def)

theorem codes_are_single_use_witness:
  "consumed w_lib (challengeKey w_lib ''login'' ''phone'' ''+8613800000000'')
     [(OpReserve Delivered w_ctx w_send ''123456'' w_policy, None),
      (OpVerify Delivered w_ctx w_verify w_policy,
       fst (RedisStore_VerifyAndConsume w_lib ref_redis Delivered w_ctx w_verify w_policy w_reserved))] \<le> 1"
  using codes_are_single_use [OF empty_inv empty_view w_run, of "''login''" "''phone''" "''+8613800000000''"]
  by (simp add: issued_def w_send_def)

text \<open>C25 Within one window of the target limit, starting with the counter absent, no interleaving sends
  more than the limit to one target.\<close>

theorem target_rate_limit:
  assumes "redis_inv R r" and "Policy_Validate p = None" and "db_live (r_db R r) (targetKey L i) = None"
    and "vrun L R r tr r'"
    and "\<forall>ev \<in> set tr. other_op L (targetKey L i) (fst ev) \<or> sends_to L (targetKey L i) p (fst ev)"
    and "elapsed tr < milliseconds (TargetWindow p)"
  shows "int (sent L (targetKey L i) p tr) \<le> TargetLimit p"
  using vrun_window [OF assms(4,1) refl assms(2,3,5,6)] Policy_Validate_bounds(8) [OF assms(2)]
  by (auto simp: window_ok_def)

theorem target_rate_limit_witness:
  "int (sent w_lib (targetKey w_lib w_send) w_policy
     [(OpReserve Delivered w_ctx w_send ''123456'' w_policy, None),
      (OpVerify Delivered w_ctx w_verify w_policy,
       fst (RedisStore_VerifyAndConsume w_lib ref_redis Delivered w_ctx w_verify w_policy w_reserved))]) \<le> 2"
proof -
  have "db_live (r_db ref_redis empty_redis_db) k = None" for k
    by (simp add: ref_redis_def empty_redis_db_def db_live_def)
  moreover have "milliseconds (TargetWindow w_policy) = 600000"
    by (simp add: w_policy_def milliseconds_def go_div_def duration_defs)
  ultimately show ?thesis
    using target_rate_limit [OF empty_inv w_policy_ok _ w_run, of w_send]
    by (simp add: elapsed_def) (simp add: w_policy_def)
qed

text \<open>C26 A claim is exclusive and two-phase: while it is held, a further verification or claim of the
  challenge is answered with \<open>ErrChallengeClaimed\<close> and changes nothing; releasing it restores the
  challenge with its attempts and deadline; consuming it removes the challenge, and a second
  consumption finds nothing.\<close>

theorem claim_two_phase:
  assumes inv: "redis_inv R r" and sv: "NewService (Some (redis_store L R)) (Some dl) p = Inr sv"
    and bytes: "length bytes = 32" "\<forall>b \<in> set bytes. b < 256"
    and claim: "VerifyAndClaim L sv Delivered ctx (Some (Some bytes)) vi r = (Inr c, r1)"
    and k: "k = challengeKey L (in_Purpose vi) (in_Channel vi) (in_Destination vi)"
    and again: "VerifyAndConsume L sv Delivered ctx1 vi r1 = (e2, r2)"
      "VerifyAndClaim L sv Delivered ctx2 (Some (Some bytes')) vi r1 = (out3, r3)"
    and rel: "ReleaseClaim L sv Delivered ctx3 (Some c) r1 = (e4, r4)"
    and con: "ConsumeClaim L sv Delivered ctx4 (Some c) r1 = (e5, r5)" "ConsumeClaim L sv Delivered ctx5 (Some c) r5 = (e6, r6)"
  shows "e2 = Some (verr ErrChallengeClaimed) \<and> view_at R k r2 = view_at R k r1 \<and>
    out3 = Inl (verr ErrChallengeClaimed) \<and> view_at R k r3 = view_at R k r1 \<and>
    e4 = None \<and> view_at R k r4 = view_at R k r \<and>
    e5 = None \<and> view_at R k r5 = None \<and> e6 = Some (verr ErrChallengeNotFound)"
proof -
  note f = NewService_fields [OF sv]
  have st: "sv_store sv = redis_store L R" "Policy_Validate (sv_policy sv) = None" using f by auto
  have valid: "validateVerifyInput L vi (CodeLength (sv_policy sv)) = None"
    using claim by (auto simp: VerifyAndClaim_def split: option.splits)
  then have ident: "identity_ok L vi" by (auto simp: validateVerifyInput_def split: option.splits)
  obtain ch where ch: "redis_inv R r1" "view_at R k r = Some ch" "ch_claim ch = None"
    "view_at R k r1 = Some (ch\<lparr>ch_claim := Some (b64_encode bytes)\<rparr>)"
    "c = \<lparr>in_Purpose = in_Purpose vi, in_Channel = in_Channel vi, in_Destination = in_Destination vi, claim_token = b64_encode bytes\<rparr>"
    using rs.claim_view [OF st inv valid claim k]
    by (cases "view_at R k r") (auto split: if_splits)
  have vc: "validClaim L (Some c)" using validClaim_generated [OF _ bytes, of L c] ch(5) ident by simp
  have kc: "k = challengeKey L (in_Purpose c) (in_Channel c) (in_Destination c)" using ch(5) k by simp
  have "e2 = Some (verr ErrChallengeClaimed) \<and> view_at R k r2 = view_at R k r1"
    using rs.verify_view [OF st ch(1) valid again(1) k] ch by simp
  moreover have "out3 = Inl (verr ErrChallengeClaimed) \<and> view_at R k r3 = view_at R k r1"
    using rs.claim_view [OF st ch(1) valid again(2) k] ch by simp
  moreover have "e4 = None \<and> view_at R k r4 = view_at R k r"
    using rs.release_view [OF st(1) ch(1) vc rel kc] ch by simp
  moreover have five: "redis_inv R r5 \<and> e5 = None \<and> view_at R k r5 = None"
    using rs.consume_view [OF st(1) ch(1) vc con(1) kc] ch by simp
  moreover have "e6 = Some (verr ErrChallengeNotFound)"
    using rs.consume_view [OF st(1) _ vc con(2) kc] five by simp
  ultimately show ?thesis by simp
qed

lemma w_claimed:
  "\<exists>r1. VerifyAndClaim w_lib w_service Delivered w_ctx (Some (Some (replicate 32 7))) w_verify w_reserved =
     (Inr \<lparr>in_Purpose = ''login'', in_Channel = ''phone'', in_Destination = ''+8613800000000'',
           claim_token = b64_encode (replicate 32 7)\<rparr>, r1)"
proof -
  note f = NewService_fields [OF w_new_service]
  have st: "sv_store w_service = redis_store w_lib ref_redis" "Policy_Validate (sv_policy w_service) = None"
    using f by auto
  define k where "k = challengeKey w_lib (in_Purpose w_verify) (in_Channel w_verify) (in_Destination w_verify)"
  have k': "k = challengeKey w_lib (in_Purpose w_send) (in_Channel w_send) (in_Destination w_send)"
    by (simp add: k_def w_verify_def w_send_def)
  have s1: "redis_inv ref_redis w_reserved" "\<exists>d. view_at ref_redis k w_reserved =
      Some \<lparr>ch_code = ''123456'', ch_attempts = 0, ch_claim = None, ch_deadline = d\<rparr>"
    using rs.send_view [OF st empty_inv w_send_ok k'] w_code by auto
  have valid: "validateVerifyInput w_lib w_verify (CodeLength (sv_policy w_service)) = None"
    by (simp add: validateVerifyInput_def w_verify_def phone_valid is_digit_def) (simp add: w_service_def w_policy_def)
  obtain out r1 where o: "VerifyAndClaim w_lib w_service Delivered w_ctx (Some (Some (replicate 32 7))) w_verify w_reserved = (out, r1)"
    by fastforce
  from rs.claim_view [OF st s1(1) valid o k_def] s1(2) o show ?thesis
    by (auto simp: w_verify_def)
qed

theorem claim_two_phase_witness:
  "\<exists>r1. fst (VerifyAndConsume w_lib w_service Delivered w_ctx w_verify r1) = Some (verr ErrChallengeClaimed) \<and>
     fst (ConsumeClaim w_lib w_service Delivered w_ctx (Some \<lparr>in_Purpose = ''login'', in_Channel = ''phone'',
       in_Destination = ''+8613800000000'', claim_token = b64_encode (replicate 32 7)\<rparr>) r1) = None"
proof -
  obtain r1 where c: "VerifyAndClaim w_lib w_service Delivered w_ctx (Some (Some (replicate 32 7))) w_verify w_reserved =
     (Inr \<lparr>in_Purpose = ''login'', in_Channel = ''phone'', in_Destination = ''+8613800000000'',
           claim_token = b64_encode (replicate 32 7)\<rparr>, r1)" using w_claimed by blast
  have inv: "redis_inv ref_redis w_reserved"
    using Reserve_meets [OF empty_inv w_policy_ok w_reserve refl] by simp
  note two = claim_two_phase [OF inv w_new_service _ _ c refl surjective_pairing surjective_pairing surjective_pairing
      surjective_pairing surjective_pairing]
  show ?thesis by (rule exI [of _ r1]) (use two in auto)
qed

text \<open>C28 Wrong codes are bounded: after a reservation, verifying \<open>MaxAttempts\<close> wrong codes in a row is
  answered with \<open>ErrCodeMismatch\<close> until the last, which is answered with \<open>ErrAttemptsExceeded\<close> and
  removes the challenge, so the right code is not found any more.\<close>

fun verify_all :: "verification_lib \<Rightarrow> ('c, 's, 'w) service \<Rightarrow> 'c \<Rightarrow> verify_input list \<Rightarrow> 's \<Rightarrow> verror option list \<times> 's" where
  "verify_all L sv ctx [] s = ([], s)"
| "verify_all L sv ctx (vi # vis) s =
     (let (e, s1) = VerifyAndConsume L sv Delivered ctx vi s; (es, s2) = verify_all L sv ctx vis s1
      in (e # es, s2))"

lemma verify_all_wrong:
  assumes st: "sv_store sv = redis_store L R" "Policy_Validate (sv_policy sv) = None"
    and "vis \<noteq> []" "redis_inv R r" "view_at R k r = Some ch" "ch_claim ch = None"
    and "\<forall>vi \<in> set vis. validateVerifyInput L vi (CodeLength (sv_policy sv)) = None \<and> ch_code ch \<noteq> Code vi \<and>
      challengeKey L (in_Purpose vi) (in_Channel vi) (in_Destination vi) = k"
    and "ch_attempts ch + int (length vis) = MaxAttempts (sv_policy sv)"
  shows "fst (verify_all L sv ctx vis r) =
      replicate (length vis - 1) (Some (verr ErrCodeMismatch)) @ [Some (verr ErrAttemptsExceeded)] \<and>
    redis_inv R (snd (verify_all L sv ctx vis r)) \<and> view_at R k (snd (verify_all L sv ctx vis r)) = None"
  using assms(3-)
proof (induction vis arbitrary: r ch)
  case (Cons vi vis)
  obtain e r1 where o: "VerifyAndConsume L sv Delivered ctx vi r = (e, r1)" by fastforce
  have v: "validateVerifyInput L vi (CodeLength (sv_policy sv)) = None"
    "k = challengeKey L (in_Purpose vi) (in_Channel vi) (in_Destination vi)" using Cons.prems(5) by auto
  note step = rs.verify_view [OF st Cons.prems(2) v(1) o v(2)]
  show ?case
  proof (cases "vis = []")
    case True
    with step o Cons.prems show ?thesis by simp
  next
    case False
    have s1: "redis_inv R r1" "e = Some (verr ErrCodeMismatch)" "view_at R k r1 = Some (ch\<lparr>ch_attempts := ch_attempts ch + 1\<rparr>)"
      using step Cons.prems False by (cases vis; simp)+
    from Cons.IH [OF False s1(1,3)] Cons.prems o s1(2) False show ?thesis
      by (cases "length vis") (simp_all add: split_def Let_def)
  qed
qed simp

theorem attempts_bounded:
  assumes inv: "redis_inv R r" and sv: "NewService (Some (redis_store L R)) (Some dl) p = Inr sv"
    and send: "Send L sv n ctx now reads i r w = Some (None, r1, w1)"
    and code: "generateCode reads = Some (Inr (Code vi))"
    and vi: "in_Purpose vi = in_Purpose i" "in_Channel vi = in_Channel i" "in_Destination vi = in_Destination i"
    and wrong: "length vis = nat (MaxAttempts p)"
      "\<forall>v \<in> set vis. v = vi\<lparr>Code := Code v\<rparr> \<and> length (Code v) = 6 \<and> list_all is_digit (Code v) \<and> Code v \<noteq> Code vi"
    and after: "VerifyAndConsume L sv Delivered ctx2 vi (snd (verify_all L sv ctx1 vis r1)) = (e, r3)"
  shows "fst (verify_all L sv ctx1 vis r1) =
      replicate (nat (MaxAttempts p) - 1) (Some (verr ErrCodeMismatch)) @ [Some (verr ErrAttemptsExceeded)] \<and>
    e = Some (verr ErrChallengeNotFound)"
proof -
  note f = NewService_fields [OF sv]
  note b = Policy_Validate_bounds [of p]
  define k where "k = challengeKey L (in_Purpose vi) (in_Channel vi) (in_Destination vi)"
  have st: "sv_store sv = redis_store L R" "Policy_Validate (sv_policy sv) = None" using f by auto
  have s1: "validateSendInput L i = None" "redis_inv R r1"
    "view_at R k r1 = Some \<lparr>ch_code = Code vi, ch_attempts = 0, ch_claim = None,
      ch_deadline = db_clock (r_db R r) + milliseconds (CodeTTL p)\<rparr>"
    using rs.send_view [OF st inv send refl] code f vi by (auto simp: k_def)
  have len: "validateVerifyInput L vi (CodeLength (sv_policy sv)) = None" "CodeLength (sv_policy sv) = 6"
    using code_valid_input [OF s1(1) code vi] b(1) f by auto
  have wr: "\<forall>v \<in> set vis. validateVerifyInput L v (CodeLength (sv_policy sv)) = None \<and> Code vi \<noteq> Code v \<and>
      challengeKey L (in_Purpose v) (in_Channel v) (in_Destination v) = k"
  proof
    fix v assume "v \<in> set vis"
    with wrong(2) have v: "v = vi\<lparr>Code := Code v\<rparr>" "length (Code v) = 6" "list_all is_digit (Code v)" "Code v \<noteq> Code vi"
      by auto
    have "in_Purpose v = in_Purpose vi" "in_Channel v = in_Channel vi" "in_Destination v = in_Destination vi"
      by (subst v(1), simp)+
    with v len show "validateVerifyInput L v (CodeLength (sv_policy sv)) = None \<and> Code vi \<noteq> Code v \<and>
      challengeKey L (in_Purpose v) (in_Channel v) (in_Destination v) = k"
      by (auto simp: validateVerifyInput_def k_def list_ex_iff list_all_iff split: option.splits)
  qed
  have "vis \<noteq> []" "0 + int (length vis) = MaxAttempts (sv_policy sv)" using wrong(1) b(6) f by auto
  with verify_all_wrong [OF st _ s1(2,3), of vis ctx1] wr have
    all: "fst (verify_all L sv ctx1 vis r1) =
      replicate (length vis - 1) (Some (verr ErrCodeMismatch)) @ [Some (verr ErrAttemptsExceeded)]"
    "redis_inv R (snd (verify_all L sv ctx1 vis r1))" "view_at R k (snd (verify_all L sv ctx1 vis r1)) = None"
    by simp_all
  with rs.verify_view [OF st all(2) len(1) after k_def] wrong(1) show ?thesis by simp
qed

theorem attempts_bounded_witness:
  "fst (verify_all w_lib w_service w_ctx [w_verify\<lparr>Code := ''000000''\<rparr>, w_verify\<lparr>Code := ''999999''\<rparr>] w_reserved) =
     [Some (verr ErrCodeMismatch), Some (verr ErrAttemptsExceeded)]"
proof -
  have vi: "in_Purpose w_verify = in_Purpose w_send" "in_Channel w_verify = in_Channel w_send"
    "in_Destination w_verify = in_Destination w_send" "generateCode w_reads = Some (Inr (Code w_verify))"
    by (simp_all add: w_verify_def w_send_def w_code)
  from attempts_bounded [OF empty_inv w_new_service w_send_ok vi(4) vi(1-3) _ _ surjective_pairing,
      of "[w_verify\<lparr>Code := ''000000''\<rparr>, w_verify\<lparr>Code := ''999999''\<rparr>]" w_ctx w_ctx]
  show ?thesis by (simp add: is_digit_def w_verify_def) (simp add: w_policy_def numeral_2_eq_2)
qed

text \<open>Challenges of different recipients are isolated: for identities that pass validation, two
  challenge keys are equal only for the same purpose and channel and the same digest.\<close>

lemma append_colon_inj:
  "a @ CHR '':'' # b = a' @ CHR '':'' # b' \<Longrightarrow> CHR '':'' \<notin> set a \<Longrightarrow> CHR '':'' \<notin> set a' \<Longrightarrow> a = a' \<and> b = b'"
proof (induction a arbitrary: a')
  case Nil
  then show ?case by (cases a') auto
next
  case (Cons x xs)
  then show ?case by (cases a') auto
qed

theorem challenge_keys_isolated:
  assumes "validateIdentity L p c d = None" "validateIdentity L p' c' d' = None"
  shows "challengeKey L p c d = challengeKey L p' c' d' \<longleftrightarrow> p = p' \<and> c = c' \<and> digest L d = digest L d'"
proof
  assume "challengeKey L p c d = challengeKey L p' c' d'"
  then have eq: "p @ CHR '':'' # (c @ CHR '':'' # digest L d) = p' @ CHR '':'' # (c' @ CHR '':'' # digest L d')"
    by (simp add: challengeKey_def)
  have "CHR '':'' \<notin> set p" "CHR '':'' \<notin> set p'" "CHR '':'' \<notin> set c" "CHR '':'' \<notin> set c'"
    using validateIdentity_channel [OF assms(1)] validateIdentity_channel [OF assms(2)] purposePattern_no_colon
    by (auto simp: ChannelEmail_def ChannelPhone_def)
  with append_colon_inj [OF eq] append_colon_inj [of c "digest L d" c' "digest L d'"]
  show "p = p' \<and> c = c' \<and> digest L d = digest L d'" by simp
qed (simp add: challengeKey_def)

theorem challenge_keys_isolated_witness:
  "challengeKey w_lib ''login'' ''phone'' ''+8613800000000'' \<noteq> challengeKey w_lib ''login.x'' ''phone'' ''+8613800000000''"
proof -
  have "validateIdentity w_lib ''login.x'' ''phone'' ''+8613800000000'' = None"
    by (simp add: validateIdentity_def purposePattern_def phonePattern_def ChannelEmail_def ChannelPhone_def char_in_def)
  from challenge_keys_isolated [OF phone_valid this] show ?thesis by simp
qed

text \<open>Code generation returns as soon as the random source has produced six acceptable bytes (below
  250), whatever follows, and the code is their last decimal digits; every digit is the image of
  exactly 25 of the 250 acceptable bytes.\<close>

theorem generateCode_uniform:
  assumes "6 \<le> length (filter (\<lambda>v. v < 250) (concat reads))"
  shows "generateCode (map Some reads @ rest) = Some (Inr (take 6 (accepted_digits (concat reads)))) \<and>
    (\<forall>d. d < (10::nat) \<longrightarrow> card {v. v < 250 \<and> v mod 10 = d} = 25)"
proof -
  have "{v. v < 250 \<and> v mod 10 = d} = (\<lambda>q. 10 * q + d) ` {..<25}" if "d < 10" for d :: nat
  proof -
    have "v = 10 * (v div 10) + d \<and> v div 10 < 25" if "v < 250" "v mod 10 = d" for v using that by auto
    with that show ?thesis by (fastforce simp: image_iff)
  qed
  moreover have "card ((\<lambda>q. 10 * q + d) ` {..<25}) = 25" for d :: nat
    by (subst card_image) (auto simp: inj_on_def)
  ultimately show ?thesis
    using generateCode_loop_eq [of "[]" reads rest] assms by (simp add: generateCode_def accepted_digits_def)
qed

theorem generateCode_uniform_witness:
  "generateCode [Some [1, 252, 2, 3, 14, 255], Some [25, 6, 7, 8, 9, 0], None] = Some (Inr ''123456'')"
  using generateCode_uniform [of "[[1, 252, 2, 3, 14, 255], [25, 6, 7, 8, 9, 0]]" "[None]"]
  by (simp add: accepted_digits_def)

text \<open>Whatever the store and the deliverer report, the errors of the service come from a closed list
  of sentinels, each with its fixed text: neither a code nor a destination can leak through them.\<close>

theorem service_errors_closed:
  "(\<forall>n ctx now reads i s w e s' w'. Send L sv n ctx now reads i s w = Some (Some e, s', w') \<longrightarrow>
      (\<exists>x. e = verr x)) \<and>
   (\<forall>n ctx vi s e s'. VerifyAndConsume L sv n ctx vi s = (Some e, s') \<longrightarrow> (\<exists>x. e = verr x)) \<and>
   (\<forall>n ctx entropy vi s e s'. VerifyAndClaim L sv n ctx entropy vi s = (Inl e, s') \<longrightarrow> (\<exists>x. e = verr x)) \<and>
   (\<forall>n ctx c s e s'. ConsumeClaim L sv n ctx c s = (Some e, s') \<longrightarrow> (\<exists>x. e = verr x)) \<and>
   (\<forall>n ctx c s e s'. ReleaseClaim L sv n ctx c s = (Some e, s') \<longrightarrow> (\<exists>x. e = verr x))"
proof -
  have id: "validateIdentity L p c d = Some e \<Longrightarrow> \<exists>x. e = verr x" for p c d e
    by (auto simp: validateIdentity_def split: if_splits option.splits)
  have si: "validateSendInput L i = Some e \<Longrightarrow> \<exists>x. e = verr x" for i e
    using id by (auto simp: validateSendInput_def split: if_splits option.splits)
  have vi: "validateVerifyInput L i n = Some e \<Longrightarrow> \<exists>x. e = verr x" for i n e
    using id by (auto simp: validateVerifyInput_def split: if_splits option.splits)
  have sa: "sanitizeStoreError r al = Some e \<Longrightarrow> \<exists>x. e = verr x" for r al e
    using sanitizeStoreError_closed by blast
  show ?thesis
    by (intro conjI allI impI)
       (auto simp: Send_def VerifyAndConsume_def VerifyAndClaim_def ConsumeClaim_def ReleaseClaim_def Let_def
         dest: si vi sa split: option.splits sum.splits prod.splits if_splits)
qed

theorem service_errors_closed_witness:
  "\<exists>x. verr ErrInvalidPurpose = verr x \<and>
     fst (VerifyAndConsume w_lib w_service Delivered w_ctx (w_verify\<lparr>in_Purpose := ''Login''\<rparr>) empty_redis_db) = Some (verr ErrInvalidPurpose)"
proof -
  obtain r where o: "VerifyAndConsume w_lib w_service Delivered w_ctx (w_verify\<lparr>in_Purpose := ''Login''\<rparr>) empty_redis_db =
      (Some (verr ErrInvalidPurpose), r)"
    by (auto simp: VerifyAndConsume_def validateVerifyInput_def validateIdentity_def purposePattern_def char_in_def)
  with service_errors_closed [of w_lib w_service] show ?thesis by fastforce
qed

end
