(* ===== verification/Sql_Service.thy ===== *)
theory Sql_Service
  imports Redis_Service
begin

text \<open>
  One table of a MySQL database behind GORM, as the program uses it. The database is a parameter, a
  record \<open>sqltab\<close> with the operation \<open>t_exec\<close> (one statement, atomic) and the observation \<open>t_rows\<close> of
  the table in the order of its primary key, over a state type \<open>'d\<close> of its own. The hypothesis
  \<open>sql_ok\<close> says that every statement does to the table what SQL says (\<open>sql_doc\<close>). A query is a function
  from the table to the rows of its answer (with its joins, order and limit), a \<open>WHERE\<close> clause of an
  \<open>UPDATE\<close> a predicate on rows and its \<open>SET\<close> clause a function on rows; the soft delete clause that
  GORM adds is written out by the components. \<open>Upsert\<close> is the statement of GORM's \<open>Save\<close>: it replaces
  the row with the same identifier or adds the row. \<open>InsertIgnore\<close> is GORM's \<open>OnConflict\<close> with \<open>DoNothing\<close>,
  its predicate tells which stored rows have the key of the new one. \<open>InsertUpdate\<close> is GORM's \<open>OnConflict\<close> with \<open>DoUpdates\<close> (\<open>ON
  DUPLICATE KEY UPDATE\<close>): the first row with the key of the new one is changed, or the new one is added.

  A statement can fail: the state a session works on carries the fates of its coming requests, and
  a statement takes the next one. A list of fates that has run out means delivery.
\<close>

section \<open>Statements\<close>

datatype 'row stmt =
    Select "'row list \<Rightarrow> 'row list"
  | Update "'row \<Rightarrow> bool" "'row \<Rightarrow> 'row"
  | Insert "'row list"
  | InsertIgnore "'row \<Rightarrow> bool" 'row
  | Upsert 'row
  | InsertUpdate "'row \<Rightarrow> bool" 'row "'row \<Rightarrow> 'row"

datatype 'row sql_reply = Rows "'row list" | Affected nat

text \<open>
  \<open>with_id\<close> stores the identifier that the server assigns to an inserted row and \<open>row_id\<close> reads it; an
  \<open>INSERT\<close> of several rows takes consecutive identifiers (\<open>innodb_autoinc_lock_mode\<close> 1) and answers
  with the stored rows, from which GORM fills in the identifiers. The affected rows of an \<open>UPDATE\<close>
  are the rows that changed, or those that matched when the connection asks for \<open>clientFoundRows\<close>.
\<close>

record ('row, 'd) sqltab =
  t_rows :: "'d \<Rightarrow> 'row list"
  t_next :: "'d \<Rightarrow> nat"
  t_exec :: "'row stmt \<Rightarrow> 'd \<Rightarrow> 'row sql_reply \<times> 'd"
  t_found_rows :: bool
  row_id :: "'row \<Rightarrow> nat"
  with_id :: "nat \<Rightarrow> 'row \<Rightarrow> 'row"

fun number_rows :: "(nat \<Rightarrow> 'row \<Rightarrow> 'row) \<Rightarrow> nat \<Rightarrow> 'row list \<Rightarrow> 'row list" where
  "number_rows w n [] = []"
| "number_rows w n (x # xs) = w n x # number_rows w (Suc n) xs"

definition update_where :: "('row \<Rightarrow> bool) \<Rightarrow> ('row \<Rightarrow> 'row) \<Rightarrow> 'row list \<Rightarrow> 'row list" where
  "update_where p f rows = map (\<lambda>r. if p r then f r else r) rows"

fun update_first :: "('row \<Rightarrow> bool) \<Rightarrow> ('row \<Rightarrow> 'row) \<Rightarrow> 'row list \<Rightarrow> 'row list" where
  "update_first p f [] = []"
| "update_first p f (r # rs) = (if p r then f r # rs else r # update_first p f rs)"

definition affected :: "bool \<Rightarrow> ('row \<Rightarrow> bool) \<Rightarrow> ('row \<Rightarrow> 'row) \<Rightarrow> 'row list \<Rightarrow> nat" where
  "affected found p f rows = length (filter (\<lambda>r. p r \<and> (found \<or> f r \<noteq> r)) rows)"

fun sql_doc :: "('row, 'd) sqltab \<Rightarrow> 'row stmt \<Rightarrow> 'row list \<Rightarrow> nat \<Rightarrow> 'row sql_reply \<times> 'row list \<times> nat" where
  "sql_doc T (Select q) rows n = (Rows (q rows), rows, n)"
| "sql_doc T (Update p f) rows n = (Affected (affected (t_found_rows T) p f rows), update_where p f rows, n)"
| "sql_doc T (Insert xs) rows n =
     (Rows (number_rows (with_id T) n xs), rows @ number_rows (with_id T) n xs, n + length xs)"
| "sql_doc T (InsertIgnore conflict x) rows n =
     (if list_ex conflict rows then (Affected 0, rows, n) else (Affected 1, rows @ [x], n))"
| "sql_doc T (Upsert x) rows n =
     (if row_id T x = 0 then (Affected 1, rows @ [with_id T n x], n + 1)
      else if list_ex (\<lambda>r. row_id T r = row_id T x) rows
      then (Affected 1, update_where (\<lambda>r. row_id T r = row_id T x) (\<lambda>_. x) rows, n)
      else (Affected 1, rows @ [x], max n (row_id T x + 1)))"
| "sql_doc T (InsertUpdate conflict x f) rows n =
     (if list_ex conflict rows then (Affected 2, update_first conflict f rows, n) else (Affected 1, rows @ [with_id T n x], n + 1))"

definition sql_ok :: "('row, 'd) sqltab \<Rightarrow> bool" where
  "sql_ok T \<longleftrightarrow>
     (\<forall>q d. (fst (t_exec T q d), t_rows T (snd (t_exec T q d)), t_next T (snd (t_exec T q d))) =
        sql_doc T q (t_rows T d) (t_next T d))"

text \<open>Rows have distinct identifiers below the next one to assign: the primary key of the table.\<close>

definition keyed :: "('row, 'd) sqltab \<Rightarrow> 'd \<Rightarrow> bool" where
  "keyed T d \<longleftrightarrow> distinct (map (row_id T) (t_rows T d)) \<and> (\<forall>r \<in> set (t_rows T d). row_id T r < t_next T d)"

text \<open>Two tables of one database: a statement on one of them leaves the other alone.\<close>

definition leaves_alone :: "('row, 'd) sqltab \<Rightarrow> ('r, 'd) sqltab \<Rightarrow> bool" where
  "leaves_alone T U \<longleftrightarrow>
     (\<forall>q d. t_rows U (snd (t_exec T q d)) = t_rows U d \<and> t_next U (snd (t_exec T q d)) = t_next U d)"

section \<open>Sessions\<close>

record 'd session =
  s_db :: 'd
  s_fates :: "net list"

datatype dberr = DbError

definition sql :: "('row, 'd) sqltab \<Rightarrow> 'row stmt \<Rightarrow> 'd session \<Rightarrow> (dberr + 'row sql_reply) \<times> 'd session" where
  "sql T q s =
     (let fate = (case s_fates s of [] \<Rightarrow> Delivered | f # _ \<Rightarrow> f);
          s' = s\<lparr>s_fates := tl (s_fates s)\<rparr>;
          out = t_exec T q (s_db s)
      in case fate of
           Delivered \<Rightarrow> (Inr (fst out), s'\<lparr>s_db := snd out\<rparr>)
         | LostBefore \<Rightarrow> (Inl DbError, s')
         | LostAfter \<Rightarrow> (Inl DbError, s'\<lparr>s_db := snd out\<rparr>))"

definition sql_select :: "('row, 'd) sqltab \<Rightarrow> ('row list \<Rightarrow> 'row list) \<Rightarrow> 'd session \<Rightarrow> (dberr + 'row list) \<times> 'd session" where
  "sql_select T q s =
     (case sql T (Select q) s of (Inl e, s') \<Rightarrow> (Inl e, s')
      | (Inr (Rows rs), s') \<Rightarrow> (Inr rs, s')
      | (Inr (Affected n), s') \<Rightarrow> (Inl DbError, s'))"

definition sql_update :: "('row, 'd) sqltab \<Rightarrow> ('row \<Rightarrow> bool) \<Rightarrow> ('row \<Rightarrow> 'row) \<Rightarrow> 'd session \<Rightarrow> (dberr + nat) \<times> 'd session" where
  "sql_update T p f s =
     (case sql T (Update p f) s of (Inl e, s') \<Rightarrow> (Inl e, s')
      | (Inr (Affected n), s') \<Rightarrow> (Inr n, s')
      | (Inr (Rows _), s') \<Rightarrow> (Inl DbError, s'))"

definition sql_save :: "('row, 'd) sqltab \<Rightarrow> 'row \<Rightarrow> 'd session \<Rightarrow> (dberr + unit) \<times> 'd session" where
  "sql_save T x s = (case sql T (Upsert x) s of (Inl e, s') \<Rightarrow> (Inl e, s') | (Inr _, s') \<Rightarrow> (Inr (), s'))"

text \<open>
  A transaction works on the session and ends with \<open>sql_commit\<close>; \<open>sql_begin\<close> remembers the contents to
  return to. Every way out before the commit rolls back.
\<close>

definition sql_begin :: "'d session \<Rightarrow> (dberr + 'd) \<times> 'd session" where
  "sql_begin s =
     (let s' = s\<lparr>s_fates := tl (s_fates s)\<rparr>
      in case s_fates s of [] \<Rightarrow> (Inr (s_db s), s') | Delivered # _ \<Rightarrow> (Inr (s_db s), s') | _ \<Rightarrow> (Inl DbError, s'))"

definition sql_rollback :: "'d \<Rightarrow> 'd session \<Rightarrow> 'd session" where
  "sql_rollback d s = s\<lparr>s_db := d\<rparr>"

definition sql_commit :: "'d \<Rightarrow> 'd session \<Rightarrow> (dberr + unit) \<times> 'd session" where
  "sql_commit d s =
     (let s' = s\<lparr>s_fates := tl (s_fates s)\<rparr>
      in case s_fates s of [] \<Rightarrow> (Inr (), s') | Delivered # _ \<Rightarrow> (Inr (), s')
         | LostBefore # _ \<Rightarrow> (Inl DbError, sql_rollback d s') | LostAfter # _ \<Rightarrow> (Inl DbError, s'))"

definition sql_insert :: "('row, 'd) sqltab \<Rightarrow> 'row list \<Rightarrow> 'd session \<Rightarrow> (dberr + 'row list) \<times> 'd session" where
  "sql_insert T xs s =
     (case sql T (Insert xs) s of (Inl e, s') \<Rightarrow> (Inl e, s')
      | (Inr (Rows rs), s') \<Rightarrow> (Inr rs, s')
      | (Inr (Affected n), s') \<Rightarrow> (Inl DbError, s'))"

definition sql_insert_update :: "('row, 'd) sqltab \<Rightarrow> ('row \<Rightarrow> bool) \<Rightarrow> 'row \<Rightarrow> ('row \<Rightarrow> 'row) \<Rightarrow> 'd session \<Rightarrow> (dberr + unit) \<times> 'd session" where
  "sql_insert_update T conflict x f s = (case sql T (InsertUpdate conflict x f) s of (Inl e, s') \<Rightarrow> (Inl e, s') | (Inr _, s') \<Rightarrow> (Inr (), s'))"

definition sql_insert_new :: "('row, 'd) sqltab \<Rightarrow> ('row \<Rightarrow> bool) \<Rightarrow> 'row \<Rightarrow> 'd session \<Rightarrow> (dberr + nat) \<times> 'd session" where
  "sql_insert_new T conflict x s =
     (case sql T (InsertIgnore conflict x) s of (Inl e, s') \<Rightarrow> (Inl e, s')
      | (Inr (Affected n), s') \<Rightarrow> (Inr n, s')
      | (Inr (Rows _), s') \<Rightarrow> (Inl DbError, s'))"

section \<open>Lemmas\<close>

lemma sql_cases:
  assumes "sql_ok T" and "sql T q s = (r, s')"
  obtains (delivered) reply where "r = Inr reply"
      "(reply, t_rows T (s_db s'), t_next T (s_db s')) = sql_doc T q (t_rows T (s_db s)) (t_next T (s_db s))"
  | (before) "r = Inl DbError" "s_db s' = s_db s"
  | (after) "r = Inl DbError"
      "(t_rows T (s_db s'), t_next T (s_db s')) = snd (sql_doc T q (t_rows T (s_db s)) (t_next T (s_db s)))"
proof -
  obtain reply d' where e: "t_exec T q (s_db s) = (reply, d')" by (meson surj_pair)
  have "(fst (t_exec T q (s_db s)), t_rows T (snd (t_exec T q (s_db s))), t_next T (snd (t_exec T q (s_db s)))) =
      sql_doc T q (t_rows T (s_db s)) (t_next T (s_db s))"
    using assms(1) unfolding sql_ok_def by blast
  with e have doc: "(reply, t_rows T d', t_next T d') = sql_doc T q (t_rows T (s_db s)) (t_next T (s_db s))"
    by simp
  have "(t_rows T d', t_next T d') = snd (sql_doc T q (t_rows T (s_db s)) (t_next T (s_db s)))"
    using doc by (metis snd_conv)
  then show thesis
    using assms(2) e doc that
    by (cases "case s_fates s of [] \<Rightarrow> Delivered | f # _ \<Rightarrow> f") (auto simp: sql_def Let_def)
qed

lemma sql_select_cases:
  assumes "sql_ok T" and "sql_select T sel s = (r, s')"
  obtains "r = Inr (sel (t_rows T (s_db s)))" "t_rows T (s_db s') = t_rows T (s_db s)" "t_next T (s_db s') = t_next T (s_db s)"
  | "r = Inl DbError" "t_rows T (s_db s') = t_rows T (s_db s)" "t_next T (s_db s') = t_next T (s_db s)"
proof -
  obtain q s1 where q: "sql T (Select sel) s = (q, s1)" by (meson surj_pair)
  show thesis using assms(1) q
  proof (cases rule: sql_cases)
    case (delivered reply)
    then show thesis using assms(2) q that by (auto simp: sql_select_def)
  next
    case before
    then show thesis using assms(2) q that(2) by (auto simp: sql_select_def)
  next
    case after
    then show thesis using assms(2) q that(2) by (auto simp: sql_select_def)
  qed
qed

lemma sql_update_cases:
  assumes "sql_ok T" and "sql_update T p f s = (r, s')"
  obtains "r = Inr (affected (t_found_rows T) p f (t_rows T (s_db s)))"
      "t_rows T (s_db s') = update_where p f (t_rows T (s_db s))" "t_next T (s_db s') = t_next T (s_db s)"
  | "r = Inl DbError" "t_rows T (s_db s') = t_rows T (s_db s)" "t_next T (s_db s') = t_next T (s_db s)"
  | "r = Inl DbError" "t_rows T (s_db s') = update_where p f (t_rows T (s_db s))" "t_next T (s_db s') = t_next T (s_db s)"
proof -
  obtain q s1 where q: "sql T (Update p f) s = (q, s1)" by (meson surj_pair)
  show thesis using assms(1) q
  proof (cases rule: sql_cases)
    case (delivered reply)
    then show thesis using assms(2) q that(1) by (auto simp: sql_update_def)
  next
    case before
    then show thesis using assms(2) q that(2) by (auto simp: sql_update_def)
  next
    case after
    then show thesis using assms(2) q that(3) by (auto simp: sql_update_def)
  qed
qed

lemma sql_insert_cases:
  assumes "sql_ok T" and "sql_insert T xs s = (r, s')"
  defines "new \<equiv> number_rows (with_id T) (t_next T (s_db s)) xs"
  obtains "r = Inr new" "t_rows T (s_db s') = t_rows T (s_db s) @ new" "t_next T (s_db s') = t_next T (s_db s) + length xs"
  | "r = Inl DbError" "t_rows T (s_db s') = t_rows T (s_db s)" "t_next T (s_db s') = t_next T (s_db s)"
  | "r = Inl DbError" "t_rows T (s_db s') = t_rows T (s_db s) @ new" "t_next T (s_db s') = t_next T (s_db s) + length xs"
proof -
  obtain q s1 where q: "sql T (Insert xs) s = (q, s1)" by (meson surj_pair)
  show thesis using assms(1) q
  proof (cases rule: sql_cases)
    case (delivered reply)
    then show thesis using assms(2) q that(1) by (auto simp: sql_insert_def new_def)
  next
    case before
    then show thesis using assms(2) q that(2) by (auto simp: sql_insert_def)
  next
    case after
    then show thesis using assms(2) q that(3) by (auto simp: sql_insert_def new_def)
  qed
qed

lemma sql_insert_new_cases:
  assumes "sql_ok T" and "sql_insert_new T c x s = (r, s')"
  obtains "r = Inr 0" "list_ex c (t_rows T (s_db s))" "t_rows T (s_db s') = t_rows T (s_db s)" "t_next T (s_db s') = t_next T (s_db s)"
  | "r = Inr 1 \<or> r = Inl DbError" "\<not> list_ex c (t_rows T (s_db s))"
      "t_rows T (s_db s') = t_rows T (s_db s) @ [x]" "t_next T (s_db s') = t_next T (s_db s)"
  | "r = Inl DbError" "t_rows T (s_db s') = t_rows T (s_db s)" "t_next T (s_db s') = t_next T (s_db s)"
proof -
  obtain q s1 where q: "sql T (InsertIgnore c x) s = (q, s1)" by (meson surj_pair)
  show thesis using assms(1) q
    by (cases rule: sql_cases) (use assms(2) q that in \<open>auto simp: sql_insert_new_def split: if_splits\<close>)
qed

lemma sql_begin_cases:
  assumes "sql_begin s = (r, s')"
  obtains "r = Inr (s_db s)" "s_db s' = s_db s" | "r = Inl DbError" "s_db s' = s_db s"
  using assms that by (auto simp: sql_begin_def Let_def split: list.splits net.splits)

lemma sql_commit_cases:
  assumes "sql_commit d s = (r, s')"
  obtains "r = Inr ()" "s_db s' = s_db s" | "r = Inl DbError" "s_db s' = d" | "r = Inl DbError" "s_db s' = s_db s"
  using assms that by (auto simp: sql_commit_def sql_rollback_def Let_def split: list.splits net.splits)

text \<open>A session without failures.\<close>

lemma sql_delivered:
  assumes "sql_ok T" "s_fates s = []"
  shows "\<exists>s'. sql_select T sel s = (Inr (sel (t_rows T (s_db s))), s') \<and> s_fates s' = [] \<and>
      t_rows T (s_db s') = t_rows T (s_db s) \<and> t_next T (s_db s') = t_next T (s_db s)"
    and "\<exists>s'. sql_update T p f s = (Inr (affected (t_found_rows T) p f (t_rows T (s_db s))), s') \<and> s_fates s' = [] \<and>
      t_rows T (s_db s') = update_where p f (t_rows T (s_db s)) \<and> t_next T (s_db s') = t_next T (s_db s)"
    and "sql_begin s = (Inr (s_db s), s)" "sql_commit d s = (Inr (), s)"
proof -
  have tl: "s\<lparr>s_fates := tl (s_fates s)\<rparr> = s" using assms(2) by simp
  have law: "(fst (t_exec T q d), t_rows T (snd (t_exec T q d)), t_next T (snd (t_exec T q d))) =
      sql_doc T q (t_rows T d) (t_next T d)" for q d using assms(1) unfolding sql_ok_def by blast
  show "\<exists>s'. sql_select T sel s = (Inr (sel (t_rows T (s_db s))), s') \<and> s_fates s' = [] \<and>
      t_rows T (s_db s') = t_rows T (s_db s) \<and> t_next T (s_db s') = t_next T (s_db s)"
    using law [of "Select sel" "s_db s"] assms(2) tl
    by (cases "t_exec T (Select sel) (s_db s)") (auto simp: sql_select_def sql_def Let_def)
  show "\<exists>s'. sql_update T p f s = (Inr (affected (t_found_rows T) p f (t_rows T (s_db s))), s') \<and> s_fates s' = [] \<and>
      t_rows T (s_db s') = update_where p f (t_rows T (s_db s)) \<and> t_next T (s_db s') = t_next T (s_db s)"
    using law [of "Update p f" "s_db s"] assms(2) tl
    by (cases "t_exec T (Update p f) (s_db s)") (auto simp: sql_update_def sql_def Let_def)
  show "sql_begin s = (Inr (s_db s), s)" "sql_commit d s = (Inr (), s)"
    using assms(2) tl by (simp_all add: sql_begin_def sql_commit_def)
qed

text \<open>With distinct identifiers, a clause that fixes the identifier matches one row at most.\<close>

lemma affected_one:
  assumes "distinct (map i rows)" and "\<And>r. p r \<Longrightarrow> i r = k" and "\<And>r. p r \<Longrightarrow> f r \<noteq> r"
  shows "affected found p f rows = 1 \<longleftrightarrow> (\<exists>r \<in> set rows. p r)"
proof -
  have d: "distinct rows" using assms(1) by (simp add: distinct_map)
  have "length (filter (\<lambda>r. p r \<and> (found \<or> f r \<noteq> r)) rows) = 1 \<longleftrightarrow> (\<exists>r \<in> set rows. p r \<and> (found \<or> f r \<noteq> r))"
    by (rule length_filter_1_iff [OF d])
       (use assms in \<open>auto simp: distinct_map inj_on_def\<close>)
  then show ?thesis using assms(3) by (auto simp: affected_def)
qed

lemma number_rows_ids: "(\<And>n r. i (w n r) = n) \<Longrightarrow> map i (number_rows w n xs) = [n..<n + length xs]"
  by (induction xs arbitrary: n) (auto simp: upt_rec)

lemma length_number_rows [simp]: "length (number_rows w n xs) = length xs"
  by (induction xs arbitrary: n) auto

lemma keyed_rows:
  "keyed T d \<Longrightarrow> t_rows T d' = t_rows T d \<Longrightarrow> t_next T d' = t_next T d \<Longrightarrow> keyed T d'"
  by (simp add: keyed_def)

lemma keyed_update:
  assumes "keyed T d" "t_rows T d' = update_where p f (t_rows T d)" "t_next T d' = t_next T d"
    and "\<And>r. p r \<Longrightarrow> row_id T (f r) = row_id T r"
  shows "keyed T d'"
proof -
  have "map (row_id T) (t_rows T d') = map (row_id T) (t_rows T d)"
    using assms(2,4) by (simp add: update_where_def)
  moreover have "\<forall>r \<in> set (t_rows T d'). row_id T r < t_next T d'"
    using assms by (auto simp: keyed_def update_where_def)
  ultimately show ?thesis using assms(1) by (simp add: keyed_def)
qed

lemma keyed_insert:
  assumes "keyed T d" "\<And>n r. row_id T (with_id T n r) = n" "t_rows T d' = t_rows T d @ number_rows (with_id T) (t_next T d) xs"
    "t_next T d' = t_next T d + length xs"
  shows "keyed T d'"
proof -
  have ids: "map (row_id T) (number_rows (with_id T) (t_next T d) xs) = [t_next T d..<t_next T d + length xs]"
    using assms(2) by (intro number_rows_ids)
  then have "row_id T ` set (number_rows (with_id T) (t_next T d) xs) = {t_next T d..<t_next T d + length xs}"
    by (metis list.set_map set_upt)
  with assms ids show ?thesis
    by (fastforce simp: keyed_def)
qed

text \<open>The other table of the database under each statement.\<close>

lemma sql_frame:
  assumes "leaves_alone T U" "sql T q s = (r, s')"
  shows "t_rows U (s_db s') = t_rows U (s_db s)" "t_next U (s_db s') = t_next U (s_db s)"
  using assms by (auto simp: sql_def leaves_alone_def Let_def split: net.splits)

lemma sql_frames:
  assumes "leaves_alone T U"
  shows "sql_select T sel s = (r1, s') \<Longrightarrow> t_rows U (s_db s') = t_rows U (s_db s) \<and> t_next U (s_db s') = t_next U (s_db s)"
    and "sql_update T p f s = (r2, s') \<Longrightarrow> t_rows U (s_db s') = t_rows U (s_db s) \<and> t_next U (s_db s') = t_next U (s_db s)"
    and "sql_insert T xs s = (r3, s') \<Longrightarrow> t_rows U (s_db s') = t_rows U (s_db s) \<and> t_next U (s_db s') = t_next U (s_db s)"
    and "sql_insert_new T c x s = (r4, s') \<Longrightarrow> t_rows U (s_db s') = t_rows U (s_db s) \<and> t_next U (s_db s') = t_next U (s_db s)"
  using sql_frame [OF assms]
  by (auto simp: sql_select_def sql_update_def sql_insert_def sql_insert_new_def split: prod.splits sum.splits sql_reply.splits)

section \<open>A database\<close>

text \<open>The documented behaviour run as it is, on a list of rows and the next identifier.\<close>

definition blank_table :: "('row \<Rightarrow> nat) \<Rightarrow> (nat \<Rightarrow> 'row \<Rightarrow> 'row) \<Rightarrow> ('row, 'row list \<times> nat) sqltab" where
  "blank_table i w =
     \<lparr>t_rows = fst, t_next = snd, t_exec = (\<lambda>_ d. (Affected 0, d)), t_found_rows = False, row_id = i, with_id = w\<rparr>"

definition ref_table :: "('row \<Rightarrow> nat) \<Rightarrow> (nat \<Rightarrow> 'row \<Rightarrow> 'row) \<Rightarrow> ('row, 'row list \<times> nat) sqltab" where
  "ref_table i w = (blank_table i w)\<lparr>t_exec := \<lambda>q d. sql_doc (blank_table i w) q (fst d) (snd d)\<rparr>"

lemma ref_table_simps [simp]:
  "t_rows (ref_table i w) = fst" "t_next (ref_table i w) = snd" "row_id (ref_table i w) = i" "with_id (ref_table i w) = w"
  "t_found_rows (ref_table i w) = False" "sql_doc (ref_table i w) q = sql_doc (blank_table i w) q"
  by (simp_all add: ref_table_def blank_table_def) (cases q; simp add: fun_eq_iff)

lemma ref_table_ok [simp]: "sql_ok (ref_table i w)"
  by (simp add: sql_ok_def) (simp add: ref_table_def)

text \<open>Two tables in one database, side by side.\<close>

definition left_table :: "('row, 'a) sqltab \<Rightarrow> ('row, 'a \<times> 'b) sqltab" where
  "left_table T =
     \<lparr>t_rows = (\<lambda>d. t_rows T (fst d)), t_next = (\<lambda>d. t_next T (fst d)),
      t_exec = (\<lambda>q d. (fst (t_exec T q (fst d)), (snd (t_exec T q (fst d)), snd d))),
      t_found_rows = t_found_rows T, row_id = row_id T, with_id = with_id T\<rparr>"

definition right_table :: "('row, 'b) sqltab \<Rightarrow> ('row, 'a \<times> 'b) sqltab" where
  "right_table T =
     \<lparr>t_rows = (\<lambda>d. t_rows T (snd d)), t_next = (\<lambda>d. t_next T (snd d)),
      t_exec = (\<lambda>q d. (fst (t_exec T q (snd d)), (fst d, snd (t_exec T q (snd d))))),
      t_found_rows = t_found_rows T, row_id = row_id T, with_id = with_id T\<rparr>"

lemma side_tables_simps [simp]:
  "t_rows (left_table T) d = t_rows T (fst d)" "t_next (left_table T) d = t_next T (fst d)"
  "row_id (left_table T) = row_id T" "with_id (left_table T) = with_id T" "t_found_rows (left_table T) = t_found_rows T"
  "t_rows (right_table U) d = t_rows U (snd d)" "t_next (right_table U) d = t_next U (snd d)"
  "row_id (right_table U) = row_id U" "with_id (right_table U) = with_id U" "t_found_rows (right_table U) = t_found_rows U"
  by (simp_all add: left_table_def right_table_def)

lemma side_tables_doc [simp]: "sql_doc (left_table T) q = sql_doc T q" "sql_doc (right_table T) q = sql_doc T q"
  by (cases q; simp add: fun_eq_iff)+

lemma side_tables_ok [simp]:
  "sql_ok T \<Longrightarrow> sql_ok (left_table T)" "sql_ok U \<Longrightarrow> sql_ok (right_table U)"
  "leaves_alone (left_table T) (right_table U)" "leaves_alone (right_table U) (left_table T)"
  by (simp_all add: sql_ok_def leaves_alone_def) (simp_all add: left_table_def right_table_def)

end
