(* ===== verification/Task_Types.thy ===== *)
theory Task_Types
  imports Request_Context Sql_Service
begin

text \<open>
  Package \<open>task\<close>, data (\<open>task_info.go\<close>, \<open>biz.go\<close>, \<open>independent.go\<close> and the validation of
  \<open>crud.go\<close>): the task row, the requests of a worker and what is checked of them.

  \<open>task_env\<close> collects what the package takes from its surroundings: which texts the default
  collation of the database takes for equal, what a \<open>datetime\<close> column keeps of a time, and which task
  types were registered as independent.
\<close>

section \<open>Rows\<close>

datatype TaskStatus =
    TaskStatusPending | TaskStatusRunning | TaskStatusCompleting | TaskStatusSuccess
  | TaskStatusFail | TaskStatusCancel | TaskStatusTimeout | TaskStatusText string

record task =
  tk_ID :: nat
  tk_CreatedAt :: time
  tk_UpdatedAt :: time
  tk_DeletedAt :: "time option"
  tk_OrganizationID :: string
  tk_UserID :: string
  tk_SubjectID :: nat
  tk_Step :: int
  tk_TaskType :: string
  tk_Priority :: int
  tk_TaskStatus :: TaskStatus
  tk_Redo :: int
  tk_ErrMsg :: string
  tk_Comment :: string
  tk_WorkerID :: string
  tk_StartAt :: "time option"
  tk_EndAt :: "time option"
  tk_Cost :: int
  tk_Payload :: string
  tk_Result :: string
  tk_AppGroup :: string
  tk_TaskConfigRedo :: int
  tk_TaskConfigTimeout :: duration

record task_env =
  same_text :: "string \<Rightarrow> string \<Rightarrow> bool"
  col_time :: "time \<Rightarrow> time"
  independent_types :: "string list"

text \<open>\<open>RegisterIndependentTaskType\<close> panics on an empty type (\<open>None\<close>).\<close>

definition RegisterIndependentTaskType :: "string \<Rightarrow> task_env \<Rightarrow> task_env option" where
  "RegisterIndependentTaskType taskType E =
     (if taskType = [] then None
      else Some (E\<lparr>independent_types := List.insert taskType (independent_types E)\<rparr>))"

definition independentTaskType :: "task_env \<Rightarrow> string \<Rightarrow> bool" where
  "independentTaskType E taskType \<longleftrightarrow> taskType \<in> set (independent_types E)"

section \<open>Errors\<close>

datatype tsent = TDatabase | TNotFound | TMember

type_synonym terror = "tsent go_error"

definition db_error :: terror where
  "db_error = errors_new TDatabase ''database error''"

definition record_not_found :: terror where
  "record_not_found = errors_new TNotFound ''record not found''"

definition invalid_member :: terror where
  "invalid_member = errors_new TMember ''invalid organization member''"

definition task_member_ok :: "task \<Rightarrow> bool" where
  "task_member_ok t \<longleftrightarrow> member_ok \<lparr>OrganizationID = tk_OrganizationID t, UserID = tk_UserID t\<rparr>"

section \<open>New tasks\<close>

definition validateNewTask :: "task_env \<Rightarrow> task option \<Rightarrow> terror option" where
  "validateNewTask E tsk =
     (case tsk of None \<Rightarrow> Some (errors_text ''task is nil'')
      | Some t \<Rightarrow>
         if tk_AppGroup t = [] then Some (errors_text ''app_group cannot be empty'')
         else if tk_SubjectID t = 0 then Some (errors_text ''subject_id cannot be zero'')
         else if \<not> task_member_ok t
         then Some (errors_text ''organization_id and user_id must identify a valid member'')
         else if tk_TaskType t = [] then Some (errors_text ''task_type cannot be empty'')
         else if independentTaskType E (tk_TaskType t) \<and> tk_Step t \<noteq> 0
         then Some (errors_text ''independent tasks must use step zero'')
         else if tk_Payload t = [] then Some (errors_text ''payload cannot be empty'')
         else if tk_TaskConfigTimeout t \<le> 0
         then Some (errors_text ''task_config_timeout must be greater than zero'')
         else if tk_TaskConfigRedo t < 0 then Some (errors_text ''task_config_redo cannot be negative'')
         else None)"

section \<open>Requests\<close>

record base_response =
  resp_Code :: nat
  resp_Message :: string

definition ErrCode_BadRequest :: nat where "ErrCode_BadRequest = 400"
definition ErrCode_Forbidden :: nat where "ErrCode_Forbidden = 403"
definition ErrCode_NotFound :: nat where "ErrCode_NotFound = 404"
definition ErrCode_InternalError :: nat where "ErrCode_InternalError = 500"
definition ErrCode_ServiceUnavailable :: nat where "ErrCode_ServiceUnavailable = 503"

lemmas errcode_defs = ErrCode_BadRequest_def ErrCode_Forbidden_def ErrCode_NotFound_def
  ErrCode_InternalError_def ErrCode_ServiceUnavailable_def

definition ok_response :: base_response where
  "ok_response = \<lparr>resp_Code = 0, resp_Message = []\<rparr>"

definition fail_response :: "nat \<Rightarrow> string \<Rightarrow> base_response" where
  "fail_response code message = \<lparr>resp_Code = code, resp_Message = message\<rparr>"

text \<open>The message of a bad request, the UTF-8 bytes of its four characters.\<close>

definition bad_parameters :: base_response where
  "bad_parameters = fail_response ErrCode_BadRequest (map char_of [229, 143, 130, 230, 149, 176, 233, 148, 153, 232, 175, 175 :: nat])"

record pending_request =
  pr_TaskType :: string
  pr_WorkerID :: string

definition GetPendingTestRequest_Validity :: "pending_request \<Rightarrow> base_response" where
  "GetPendingTestRequest_Validity req =
     (if pr_TaskType req = [] \<or> pr_WorkerID req = [] then bad_parameters else ok_response)"

record pending_response =
  pp_base :: base_response
  pp_TaskID :: nat
  pp_Attempt :: int
  pp_Payload :: string

record callback_request =
  cb_TaskID :: nat
  cb_Attempt :: int
  cb_WorkerID :: string
  cb_Status :: TaskStatus
  cb_ErrorMessage :: string
  cb_Result :: string

definition TaskCallBackRequest_Validity :: "callback_request \<Rightarrow> base_response" where
  "TaskCallBackRequest_Validity req =
     (if cb_TaskID req = 0 \<or> cb_WorkerID req = [] \<or> cb_Attempt req \<le> 0 \<or>
         (cb_Status req \<noteq> TaskStatusSuccess \<and> cb_Status req \<noteq> TaskStatusFail)
      then bad_parameters else ok_response)"

record instance_request =
  ir_TaskType :: string
  ir_WorkerID :: string
  ir_TaskID :: nat

definition CheckInstanceRequest_Validity :: "instance_request \<Rightarrow> base_response" where
  "CheckInstanceRequest_Validity req =
     (if ir_WorkerID req = [] \<or> ir_TaskType req = [] then bad_parameters else ok_response)"

section \<open>Lemmas\<close>

lemma validateNewTask_None:
  "validateNewTask E (Some t) = None \<Longrightarrow>
     task_member_ok t \<and> 0 < tk_TaskConfigTimeout t \<and> 0 \<le> tk_TaskConfigRedo t \<and>
     (independentTaskType E (tk_TaskType t) \<longrightarrow> tk_Step t = 0)"
  by (auto simp: validateNewTask_def split: if_splits)

lemma validity_codes:
  "resp_Code (TaskCallBackRequest_Validity req) = 0 \<longleftrightarrow>
     cb_TaskID req \<noteq> 0 \<and> cb_WorkerID req \<noteq> [] \<and> 0 < cb_Attempt req \<and>
     (cb_Status req = TaskStatusSuccess \<or> cb_Status req = TaskStatusFail)"
  by (auto simp: TaskCallBackRequest_Validity_def bad_parameters_def fail_response_def ok_response_def errcode_defs)

end
