(* ===== verification/Task_Store.thy ===== *)
theory Task_Store
  imports Task_Types "HOL-Library.Product_Lexorder"
begin

text \<open>
  Package \<open>task\<close>, persistence (\<open>src/task/crud.go\<close>): claiming a pending task, reserving and finishing a
  callback, expiry, creation and the query for the next step. \<open>T\<close> is the table \<open>core_task\<close> and \<open>E\<close>
  the surroundings; every operation works on a session of the database. A clock reading of the code
  is the argument \<open>now\<close>.
\<close>

section \<open>Clauses\<close>

definition live :: "task \<Rightarrow> bool" where
  "live r \<longleftrightarrow> tk_DeletedAt r = None"

definition retryable :: "task \<Rightarrow> bool" where
  "retryable r \<longleftrightarrow> tk_TaskStatus r \<in> {TaskStatusPending, TaskStatusFail} \<and>
     0 \<le> tk_Redo r \<and> tk_Redo r < 2147483647 \<and> tk_Redo r \<le> tk_TaskConfigRedo r"

definition unfinished :: "task \<Rightarrow> bool" where
  "unfinished r \<longleftrightarrow> live r \<and> tk_TaskStatus r \<notin> {TaskStatusCancel, TaskStatusSuccess}"

definition same_group :: "task_env \<Rightarrow> task \<Rightarrow> task \<Rightarrow> bool" where
  "same_group E a b \<longleftrightarrow> tk_OrganizationID a = tk_OrganizationID b \<and> tk_UserID a = tk_UserID b \<and>
     tk_SubjectID a = tk_SubjectID b \<and> same_text E (tk_AppGroup a) (tk_AppGroup b)"

text \<open>\<open>readyTaskJoin\<close>: the step of the row is the least step of the unfinished rows of its group.\<close>

definition readyTaskJoin :: "task_env \<Rightarrow> task list \<Rightarrow> task \<Rightarrow> bool" where
  "readyTaskJoin E rows r \<longleftrightarrow>
     (let steps = map tk_Step (filter (\<lambda>b. unfinished b \<and> same_group E b r) rows)
      in tk_Step r \<in> set steps \<and> list_all (\<lambda>s. tk_Step r \<le> s) steps)"

definition eligibleDependencyQuery :: "task_env \<Rightarrow> string \<Rightarrow> task list \<Rightarrow> task \<Rightarrow> bool" where
  "eligibleDependencyQuery E taskType rows r =
     (if independentTaskType E taskType then tk_Step r = 0 else readyTaskJoin E rows r)"

definition claim_order :: "task \<Rightarrow> int \<times> time \<times> nat" where
  "claim_order r = (- tk_Priority r, tk_UpdatedAt r, tk_ID r)"

section \<open>Claiming\<close>

definition claimCandidateBatch :: nat where "claimCandidateBatch = 32"

definition candidates :: "task_env \<Rightarrow> string \<Rightarrow> nat list \<Rightarrow> task list \<Rightarrow> task list" where
  "candidates E taskType attempted rows =
     take claimCandidateBatch (sort_key claim_order
       (filter (\<lambda>r. live r \<and> same_text E (tk_TaskType r) taskType \<and> retryable r \<and>
          eligibleDependencyQuery E taskType rows r \<and> tk_ID r \<notin> set attempted) rows))"

text \<open>
  \<open>claimCandidate\<close>. \<open>locked\<close> says which rows other transactions hold at the time of the locking read,
  which skips them.
\<close>

definition claimed_row :: "task_env \<Rightarrow> string \<Rightarrow> time \<Rightarrow> task \<Rightarrow> task" where
  "claimed_row E workerID now r =
     r\<lparr>tk_TaskStatus := TaskStatusRunning, tk_StartAt := Some (col_time E now), tk_WorkerID := workerID,
       tk_EndAt := None, tk_Cost := 0, tk_UpdatedAt := now\<rparr>"

definition claim_answer :: "string \<Rightarrow> time \<Rightarrow> task \<Rightarrow> task" where
  "claim_answer workerID now tsk =
     tsk\<lparr>tk_TaskStatus := TaskStatusRunning, tk_StartAt := Some now, tk_WorkerID := workerID, tk_EndAt := None,
         tk_Cost := 0, tk_Result := []\<rparr>"

definition lock_query :: "task_env \<Rightarrow> (nat \<Rightarrow> bool) \<Rightarrow> nat \<Rightarrow> string \<Rightarrow> task list \<Rightarrow> task list" where
  "lock_query E locked i taskType =
     filter (\<lambda>r. live r \<and> tk_ID r = i \<and> same_text E (tk_TaskType r) taskType \<and> retryable r \<and> \<not> locked (tk_ID r))"

definition blocker_query :: "task_env \<Rightarrow> task \<Rightarrow> task list \<Rightarrow> task list" where
  "blocker_query E tsk rows =
     take 1 (filter (\<lambda>b. live b \<and> same_group E b tsk \<and> tk_Step b < tk_Step tsk \<and>
       tk_TaskStatus b \<notin> {TaskStatusCancel, TaskStatusSuccess}) rows)"

text \<open>The end of the transaction of \<open>claimCandidate\<close>, once the row is locked and free to start.\<close>

definition commit_claim ::
  "(task, 'd) sqltab \<Rightarrow> task_env \<Rightarrow> time \<Rightarrow> string \<Rightarrow> 'd \<Rightarrow> task \<Rightarrow> 'd session \<Rightarrow> (terror + task option) \<times> 'd session" where
  "commit_claim T E now workerID d0 tsk s2 =
     (case sql_update T (\<lambda>r. live r \<and> tk_ID r = tk_ID tsk) (claimed_row E workerID now) s2 of
        (Inl _, s3) \<Rightarrow> (Inl db_error, sql_rollback d0 s3)
      | (Inr _, s3) \<Rightarrow>
         (case sql_commit d0 s3 of (Inl _, s4) \<Rightarrow> (Inl db_error, s4)
          | (Inr _, s4) \<Rightarrow> (Inr (Some (claim_answer workerID now tsk)), s4)))"

definition claimCandidate ::
  "(task, 'd) sqltab \<Rightarrow> task_env \<Rightarrow> (nat \<Rightarrow> bool) \<Rightarrow> time \<Rightarrow> nat \<Rightarrow> string \<Rightarrow> string \<Rightarrow>
   'd session \<Rightarrow> (terror + task option) \<times> 'd session" where
  "claimCandidate T E locked now i taskType workerID s =
     (case sql_begin s of (Inl _, s0) \<Rightarrow> (Inl db_error, s0)
      | (Inr d0, s0) \<Rightarrow>
     (case sql_select T (lock_query E locked i taskType) s0 of
        (Inl _, s1) \<Rightarrow> (Inl db_error, sql_rollback d0 s1)
      | (Inr [], s1) \<Rightarrow> (Inr None, sql_rollback d0 s1)
      | (Inr (tsk # _), s1) \<Rightarrow>
         if \<not> task_member_ok tsk then (Inl (errorf_ww (errors_text ''stored task member'') invalid_member), sql_rollback d0 s1)
         else
        if \<not> independentTaskType E taskType then
          (case sql_select T (blocker_query E tsk) s1 of
             (Inl _, s2) \<Rightarrow> (Inl db_error, sql_rollback d0 s2)
           | (Inr blockers, s2) \<Rightarrow>
               if blockers \<noteq> [] then (Inr None, sql_rollback d0 s2)
               else commit_claim T E now workerID d0 tsk s2)
        else if tk_Step tsk \<noteq> 0 then (Inr None, sql_rollback d0 s1)
        else commit_claim T E now workerID d0 tsk s1))"

text \<open>The loop over the candidates of one batch stops at the first claim or error.\<close>

fun claim_batch ::
  "(task, 'd) sqltab \<Rightarrow> task_env \<Rightarrow> (nat \<Rightarrow> bool) \<Rightarrow> time \<Rightarrow> string \<Rightarrow> string \<Rightarrow> nat list \<Rightarrow>
   'd session \<Rightarrow> (terror + task option) \<times> 'd session" where
  "claim_batch T E locked now taskType workerID [] s = (Inr None, s)"
| "claim_batch T E locked now taskType workerID (i # is) s =
     (case claimCandidate T E locked now i taskType workerID s of
        (Inl e, s') \<Rightarrow> (Inl e, s')
      | (Inr (Some t), s') \<Rightarrow> (Inr (Some t), s')
      | (Inr None, s') \<Rightarrow> claim_batch T E locked now taskType workerID is s')"

text \<open>
  \<open>claimPendingTask\<close>. The loop over batches has no bound of its own in the code, it ends by the
  deadline of five seconds on its context, which shows as a failing request. \<open>fuel\<close> bounds the
  batches; \<open>None\<close> means that the loop is still running.
\<close>

fun claim_loop ::
  "nat \<Rightarrow> (task, 'd) sqltab \<Rightarrow> task_env \<Rightarrow> (nat \<Rightarrow> bool) \<Rightarrow> time \<Rightarrow> string \<Rightarrow> string \<Rightarrow> nat list \<Rightarrow>
   'd session \<Rightarrow> ((terror + task option) \<times> 'd session) option" where
  "claim_loop 0 T E locked now taskType workerID attempted s = None"
| "claim_loop (Suc fuel) T E locked now taskType workerID attempted s =
     (case sql_select T (candidates E taskType attempted) s of
        (Inl _, s') \<Rightarrow> Some (Inl db_error, s')
      | (Inr rows, s') \<Rightarrow>
         (let ids = map tk_ID rows
          in case claim_batch T E locked now taskType workerID ids s' of
               (Inl e, s'') \<Rightarrow> Some (Inl e, s'')
             | (Inr (Some t), s'') \<Rightarrow> Some (Inr (Some t), s'')
             | (Inr None, s'') \<Rightarrow>
                 if length ids < claimCandidateBatch then Some (Inr None, s'')
                 else claim_loop fuel T E locked now taskType workerID (attempted @ ids) s''))"

definition claimPendingTask ::
  "nat \<Rightarrow> (task, 'd) sqltab \<Rightarrow> task_env \<Rightarrow> (nat \<Rightarrow> bool) \<Rightarrow> time \<Rightarrow> string \<Rightarrow> string \<Rightarrow>
   'd session \<Rightarrow> ((terror + task option) \<times> 'd session) option" where
  "claimPendingTask fuel T E locked now taskType workerID s = claim_loop fuel T E locked now taskType workerID [] s"

section \<open>Reading, saving, cancelling, deleting\<close>

definition first_row :: "(dberr + task list) \<times> 'd session \<Rightarrow> (terror + task) \<times> 'd session" where
  "first_row out =
     (case out of (Inl _, s) \<Rightarrow> (Inl db_error, s) | (Inr [], s) \<Rightarrow> (Inl record_not_found, s)
      | (Inr (t # _), s) \<Rightarrow> (Inr t, s))"

definition GetTaskByID :: "(task, 'd) sqltab \<Rightarrow> nat \<Rightarrow> 'd session \<Rightarrow> (terror + task) \<times> 'd session" where
  "GetTaskByID T i s = first_row (sql_select T (filter (\<lambda>r. live r \<and> tk_ID r = i)) s)"

definition getTaskByIDAndWorkerID ::
  "(task, 'd) sqltab \<Rightarrow> task_env \<Rightarrow> nat \<Rightarrow> string \<Rightarrow> 'd session \<Rightarrow> (terror + task) \<times> 'd session" where
  "getTaskByIDAndWorkerID T E i worker s =
     first_row (sql_select T (filter (\<lambda>r. live r \<and> tk_ID r = i \<and> same_text E (tk_WorkerID r) worker)) s)"

definition cost_of :: "task \<Rightarrow> int" where
  "cost_of t =
     (case (tk_StartAt t, tk_EndAt t) of
        (Some a, Some b) \<Rightarrow> if a < b then go_div (b - a) second else tk_Cost t
      | _ \<Rightarrow> tk_Cost t)"

definition SaveTask ::
  "(task, 'd) sqltab \<Rightarrow> time \<Rightarrow> (string \<Rightarrow> 'q \<Rightarrow> terror option \<times> 'q) \<Rightarrow> task \<Rightarrow> 'd session \<Rightarrow> 'q \<Rightarrow>
   terror option \<times> task \<times> 'd session \<times> 'q" where
  "SaveTask T now push t s q =
     (let t1 = t\<lparr>tk_Cost := cost_of t\<rparr>;
          t2 = (if tk_TaskStatus t1 = TaskStatusFail then t1\<lparr>tk_Redo := tk_Redo t1 + 1\<rparr> else t1);
          t3 = t2\<lparr>tk_UpdatedAt := now\<rparr>
      in case sql_save T t3 s of (Inl _, s') \<Rightarrow> (Some db_error, t3, s', q)
         | (Inr _, s') \<Rightarrow>
             if tk_TaskStatus t3 = TaskStatusFail \<and> tk_Redo t3 \<le> tk_TaskConfigRedo t3
             then (case push (tk_TaskType t3) q of (e, q') \<Rightarrow> (e, t3, s', q'))
             else (None, t3, s', q))"

definition CancelTask :: "(task, 'd) sqltab \<Rightarrow> time \<Rightarrow> task \<Rightarrow> 'd session \<Rightarrow> terror option \<times> 'd session" where
  "CancelTask T now t s =
     (case sql_save T (t\<lparr>tk_TaskStatus := TaskStatusCancel, tk_ErrMsg := ''task cancelled'', tk_UpdatedAt := now\<rparr>) s of
        (Inl _, s') \<Rightarrow> (Some db_error, s') | (Inr _, s') \<Rightarrow> (None, s'))"

definition DeleteTask :: "(task, 'd) sqltab \<Rightarrow> task_env \<Rightarrow> time \<Rightarrow> nat \<Rightarrow> 'd session \<Rightarrow> terror option \<times> 'd session" where
  "DeleteTask T E now i s =
     (case sql_update T (\<lambda>r. live r \<and> tk_ID r = i) (\<lambda>r. r\<lparr>tk_DeletedAt := Some (col_time E now)\<rparr>) s of
        (Inl _, s') \<Rightarrow> (Some db_error, s') | (Inr _, s') \<Rightarrow> (None, s'))"

definition InitTaskDBStauts :: "(task, 'd) sqltab \<Rightarrow> time \<Rightarrow> 'd session \<Rightarrow> 'd session" where
  "InitTaskDBStauts T now s =
     snd (sql_update T (\<lambda>r. live r \<and> tk_TaskStatus r \<in> {TaskStatusRunning})
       (\<lambda>r. r\<lparr>tk_TaskStatus := TaskStatusFail, tk_Redo := tk_Redo r + 1, tk_UpdatedAt := now\<rparr>) s)"

section \<open>Callbacks\<close>

text \<open>The clause that fences a claim: the row still carries the claim that \<open>t\<close> was read with.\<close>

definition claim_fence :: "task_env \<Rightarrow> task \<Rightarrow> int \<Rightarrow> TaskStatus \<Rightarrow> task \<Rightarrow> bool" where
  "claim_fence E t redo expected r \<longleftrightarrow>
     live r \<and> tk_ID r = tk_ID t \<and> same_text E (tk_WorkerID r) (tk_WorkerID t) \<and> tk_StartAt r = tk_StartAt t \<and>
     tk_StartAt t \<noteq> None \<and> tk_Redo r = redo \<and> tk_TaskStatus r = expected"

definition claimCallback ::
  "(task, 'd) sqltab \<Rightarrow> task_env \<Rightarrow> time \<Rightarrow> task option \<Rightarrow> int \<Rightarrow> 'd session \<Rightarrow> (terror + bool) \<times> 'd session" where
  "claimCallback T E now tsk attempt s =
     (case tsk of None \<Rightarrow> (Inl (errors_text ''task callback has no claim timestamp''), s)
      | Some t \<Rightarrow>
         if tk_StartAt t = None then (Inl (errors_text ''task callback has no claim timestamp''), s)
         else if attempt \<le> 0 \<or> tk_Redo t < 0 \<or> attempt \<noteq> tk_Redo t + 1 then (Inr False, s)
         else (case sql_update T (claim_fence E t (tk_Redo t) TaskStatusRunning)
                 (\<lambda>r. r\<lparr>tk_TaskStatus := TaskStatusCompleting, tk_UpdatedAt := now\<rparr>) s of
                 (Inl _, s') \<Rightarrow> (Inl db_error, s')
               | (Inr n, s') \<Rightarrow> (Inr (n = 1), s')))"

definition outcome_row :: "task_env \<Rightarrow> task \<Rightarrow> time \<Rightarrow> task \<Rightarrow> task" where
  "outcome_row E t now r =
     r\<lparr>tk_TaskStatus := tk_TaskStatus t, tk_Result := tk_Result t, tk_ErrMsg := tk_ErrMsg t,
       tk_EndAt := map_option (col_time E) (tk_EndAt t),
       tk_Cost := tk_Cost t, tk_Redo := tk_Redo t, tk_Priority := tk_Priority t, tk_UpdatedAt := now\<rparr>"

text \<open>\<open>finishClaimFromStatus\<close> also changes the task it is given, which is part of the result.\<close>

definition finishClaimFromStatus ::
  "(task, 'd) sqltab \<Rightarrow> task_env \<Rightarrow> time \<Rightarrow> task \<Rightarrow> TaskStatus \<Rightarrow> 'd session \<Rightarrow> (terror + bool) \<times> task \<times> 'd session" where
  "finishClaimFromStatus T E now t expected s =
     (if tk_StartAt t = None \<or> tk_EndAt t = None
      then (Inl (errors_text ''task outcome has no claim timestamps''), t, s)
      else
       (let t1 = t\<lparr>tk_Cost := cost_of t\<rparr>;
            claimRedo = tk_Redo t1;
            t2 = (if tk_TaskStatus t1 = TaskStatusFail then t1\<lparr>tk_Redo := tk_Redo t1 + 1\<rparr> else t1)
        in case sql_update T (claim_fence E t2 claimRedo expected) (outcome_row E t2 now) s of
             (Inl _, s') \<Rightarrow> (Inl db_error, t2, s')
           | (Inr n, s') \<Rightarrow> (Inr (n = 1), t2, s')))"

definition finishClaim ::
  "(task, 'd) sqltab \<Rightarrow> task_env \<Rightarrow> time \<Rightarrow> task \<Rightarrow> 'd session \<Rightarrow> (terror + bool) \<times> task \<times> 'd session" where
  "finishClaim T E now t s = finishClaimFromStatus T E now t TaskStatusRunning s"

section \<open>Expiry\<close>

fun expire_all :: "(task, 'd) sqltab \<Rightarrow> task_env \<Rightarrow> time \<Rightarrow> task list \<Rightarrow> 'd session \<Rightarrow> 'd session" where
  "expire_all T E now [] s = s"
| "expire_all T E now (t # ts) s =
     (if (case tk_StartAt t of None \<Rightarrow> True | Some a \<Rightarrow> \<not> a + tk_TaskConfigTimeout t < now)
      then expire_all T E now ts s
      else expire_all T E now ts
        (snd (snd (finishClaim T E now
          (t\<lparr>tk_TaskStatus := TaskStatusFail, tk_ErrMsg := ''timeout'', tk_EndAt := Some now\<rparr>) s))))"

definition abandoned_row :: "task_env \<Rightarrow> time \<Rightarrow> task \<Rightarrow> task" where
  "abandoned_row E now r =
     r\<lparr>tk_TaskStatus := TaskStatusFail, tk_ErrMsg := ''task_callback_outcome_unknown'',
       tk_Redo := tk_TaskConfigRedo r + 1, tk_EndAt := Some (col_time E now), tk_UpdatedAt := now\<rparr>"

definition CheckAndTimeoutTasks :: "(task, 'd) sqltab \<Rightarrow> task_env \<Rightarrow> time \<Rightarrow> 'd session \<Rightarrow> 'd session" where
  "CheckAndTimeoutTasks T E now s =
     (case sql_select T (filter (\<lambda>r. live r \<and> tk_TaskStatus r = TaskStatusRunning)) s of
        (Inl _, s') \<Rightarrow> s'
      | (Inr tasks, s') \<Rightarrow>
          snd (sql_update T (\<lambda>r. live r \<and> tk_TaskStatus r = TaskStatusCompleting \<and> tk_UpdatedAt r < now - hour)
            (abandoned_row E now) (expire_all T E now tasks s')))"

section \<open>Creation\<close>

definition stamped :: "time \<Rightarrow> task \<Rightarrow> task" where
  "stamped now t = t\<lparr>tk_CreatedAt := (if is_zero (tk_CreatedAt t) then now else tk_CreatedAt t),
                    tk_UpdatedAt := (if is_zero (tk_UpdatedAt t) then now else tk_UpdatedAt t)\<rparr>"

definition CreateTask ::
  "(task, 'd) sqltab \<Rightarrow> task_env \<Rightarrow> time \<Rightarrow> (string \<Rightarrow> 'q \<Rightarrow> terror option \<times> 'q) \<Rightarrow> task option \<Rightarrow>
   'd session \<Rightarrow> 'q \<Rightarrow> terror option \<times> 'd session \<times> 'q" where
  "CreateTask T E now push tsk s q =
     (case validateNewTask E tsk of Some e \<Rightarrow> (Some e, s, q)
      | None \<Rightarrow>
         (case sql_insert T (map (stamped now) (case tsk of None \<Rightarrow> [] | Some t \<Rightarrow> [t])) s of
            (Inl _, s') \<Rightarrow> (Some db_error, s', q)
          | (Inr rows, s') \<Rightarrow>
             (case push (case tsk of None \<Rightarrow> [] | Some t \<Rightarrow> tk_TaskType t) q of (e, q') \<Rightarrow> (e, s', q'))))"

fun first_invalid :: "task_env \<Rightarrow> nat \<Rightarrow> task option list \<Rightarrow> terror option" where
  "first_invalid E at [] = None"
| "first_invalid E at (t # ts) =
     (case validateNewTask E t of
        Some e \<Rightarrow> Some (errorf_ww (errors_text (''tasks['' @ nat_digits at @ '']'')) e)
      | None \<Rightarrow> first_invalid E (Suc at) ts)"

text \<open>
  \<open>createTasks\<close>: one atomic insertion of all rows, then the wake-ups, whose failure is only logged.
  The result carries the stored rows.
\<close>

definition createTasks ::
  "(task, 'd) sqltab \<Rightarrow> task_env \<Rightarrow> time \<Rightarrow> (string list \<Rightarrow> 'q \<Rightarrow> terror option \<times> 'q) \<Rightarrow> task option list \<Rightarrow>
   'd session \<Rightarrow> 'q \<Rightarrow> (terror + task list) \<times> 'd session \<times> 'q" where
  "createTasks T E now wake tasks s q =
     (if tasks = [] then (Inl (errors_text ''tasks cannot be empty''), s, q)
      else case first_invalid E 0 tasks of Some e \<Rightarrow> (Inl e, s, q)
      | None \<Rightarrow>
         (case sql_insert T (map (\<lambda>t. stamped now (the t)) tasks) s of
            (Inl _, s') \<Rightarrow> (Inl db_error, s', q)
          | (Inr rows, s') \<Rightarrow> (Inr rows, s', snd (wake (map (\<lambda>t. tk_TaskType (the t)) tasks) q))))"

section \<open>The next step\<close>

definition unblocked :: "task_env \<Rightarrow> task list \<Rightarrow> task \<Rightarrow> bool" where
  "unblocked E rows r \<longleftrightarrow>
     \<not> list_ex (\<lambda>b. same_group E b r \<and> tk_Step b < tk_Step r \<and> unfinished b) rows"

definition next_step_query :: "task_env \<Rightarrow> task \<Rightarrow> task list \<Rightarrow> task list" where
  "next_step_query E t rows =
     sort_key (\<lambda>r. (tk_Step r, tk_ID r))
       (filter (\<lambda>r. live r \<and> same_group E r t \<and> tk_Step t < tk_Step r \<and> retryable r \<and> unblocked E rows r) rows)"

definition nextStepTasks ::
  "(task, 'd) sqltab \<Rightarrow> task_env \<Rightarrow> task option \<Rightarrow> 'd session \<Rightarrow> (terror + task list) \<times> 'd session" where
  "nextStepTasks T E tsk s =
     (case tsk of None \<Rightarrow> (Inl invalid_member, s)
      | Some t \<Rightarrow>
         if \<not> task_member_ok t then (Inl invalid_member, s)
         else if independentTaskType E (tk_TaskType t) \<and> tk_Step t = 0 then (Inr [], s)
         else (case sql_select T (next_step_query E t) s of
                 (Inl _, s') \<Rightarrow> (Inl (errorf_ww (errors_text ''read unblocked task steps'') db_error), s')
               | (Inr rows, s') \<Rightarrow> (Inr rows, s')))"

definition GetPendingTaskCount ::
  "(task, 'd) sqltab \<Rightarrow> task_env \<Rightarrow> string \<Rightarrow> 'd session \<Rightarrow> (terror + nat) \<times> 'd session" where
  "GetPendingTaskCount T E taskType s =
     (case sql_select T (\<lambda>rows. filter (\<lambda>r. live r \<and> same_text E (tk_TaskType r) taskType \<and> retryable r \<and>
             eligibleDependencyQuery E taskType rows r) rows) s of
        (Inl _, s') \<Rightarrow> (Inl db_error, s') | (Inr rows, s') \<Rightarrow> (Inr (length rows), s'))"

end
