(* ===== verification/Task_Lemmas.thy ===== *)
theory Task_Lemmas
  imports Task_Store
begin

text \<open>
  What the operations of \<open>Task_Store\<close> do, as case rules: which rows change, how, and with which answer.
\<close>

definition may_start :: "task_env \<Rightarrow> string \<Rightarrow> task list \<Rightarrow> task \<Rightarrow> bool" where
  "may_start E taskType rows r =
     (if independentTaskType E taskType then tk_Step r = 0 else unblocked E rows r)"

lemma blockers_unblocked:
  "blocker_query E t rows = [] \<longleftrightarrow> unblocked E rows t"
  by (auto simp: blocker_query_def unblocked_def unfinished_def list_ex_iff filter_empty_conv)

definition claims :: "(task, 'd) sqltab \<Rightarrow> task_env \<Rightarrow> string \<Rightarrow> string \<Rightarrow> time \<Rightarrow> (nat \<Rightarrow> bool) \<Rightarrow> 'd \<Rightarrow> 'd \<Rightarrow> task \<Rightarrow> bool" where
  "claims T E ty w now locked d d' r \<longleftrightarrow>
     r \<in> set (t_rows T d) \<and> live r \<and> same_text E (tk_TaskType r) ty \<and> retryable r \<and> \<not> locked (tk_ID r) \<and>
     task_member_ok r \<and> may_start E ty (t_rows T d) r \<and>
     t_rows T d' = update_where (\<lambda>x. live x \<and> tk_ID x = tk_ID r) (claimed_row E w now) (t_rows T d) \<and>
     t_next T d' = t_next T d"

text \<open>The last part of the transaction: update and commit.\<close>

lemma claim_commit:
  assumes ok: "sql_ok T"
    and rows: "t_rows T (s_db s2) = t_rows T d0" "t_next T (s_db s2) = t_next T d0"
    and out: "commit_claim T E now w d0 tsk s2 = (res, s')"
  shows "res = Inl db_error \<and> s_db s' = d0 \<or>
    (res = Inl db_error \<or> res = Inr (Some (claim_answer w now tsk))) \<and>
    t_rows T (s_db s') = update_where (\<lambda>r. live r \<and> tk_ID r = tk_ID tsk) (claimed_row E w now) (t_rows T d0) \<and>
    t_next T (s_db s') = t_next T d0"
proof -
  note out = out [unfolded commit_claim_def]
  obtain u s3 where u: "sql_update T (\<lambda>r. live r \<and> tk_ID r = tk_ID tsk) (claimed_row E w now) s2 = (u, s3)"
    by (meson surj_pair)
  obtain c s4 where c: "sql_commit d0 s3 = (c, s4)" by (meson surj_pair)
  from ok u show ?thesis
  proof (cases rule: sql_update_cases)
    case 1
    from c show ?thesis
      by (cases rule: sql_commit_cases) (use out u c 1 rows in auto)
  qed (use out u in \<open>auto simp: sql_rollback_def\<close>)
qed

lemma claimCandidate_cases:
  assumes ok: "sql_ok T" and out: "claimCandidate T E locked now i ty w s = (res, s')"
  shows "(\<forall>t. res \<noteq> Inr (Some t)) \<and> s_db s' = s_db s \<or>
    (\<exists>r. tk_ID r = i \<and> claims T E ty w now locked (s_db s) (s_db s') r \<and>
      (res = Inl db_error \<or> res = Inr (Some (claim_answer w now r))))"
proof -
  obtain b s0 where b: "sql_begin s = (b, s0)" by (meson surj_pair)
  from b consider (failed) "b = Inl DbError" "s_db s0 = s_db s" | (started) "b = Inr (s_db s)" "s_db s0 = s_db s"
    by (cases rule: sql_begin_cases) auto
  then show ?thesis
  proof cases
    case failed
    with out b show ?thesis by (auto simp: claimCandidate_def)
  next
    case started
    define sel where "sel = lock_query E locked i ty"
    obtain q s1 where q: "sql_select T sel s0 = (q, s1)" by (meson surj_pair)
    have rows1: "t_rows T (s_db s1) = t_rows T (s_db s)" "t_next T (s_db s1) = t_next T (s_db s)"
      using sql_select_cases [OF ok q] started by metis+
    show ?thesis
    proof (cases "\<exists>tsk ts. q = Inr (tsk # ts) \<and> task_member_ok tsk")
      case False
      with out b started q show ?thesis
        by (auto simp: claimCandidate_def sel_def [symmetric] sql_rollback_def split: sum.splits list.splits if_splits)
    next
      case True
      then obtain tsk ts where tsk: "q = Inr (tsk # ts)" "task_member_ok tsk" by blast
      have "sel (t_rows T (s_db s0)) = tsk # ts"
        using sql_select_cases [OF ok q] tsk by (metis Inl_Inr_False Inr_inject)
      with started have "tsk \<in> set (sel (t_rows T (s_db s)))" by simp
      then have t: "tsk \<in> set (t_rows T (s_db s))" "live tsk" "tk_ID tsk = i" "same_text E (tk_TaskType tsk) ty"
        "retryable tsk" "\<not> locked (tk_ID tsk)" by (auto simp: sel_def lock_query_def)
      have fin: "(\<forall>t. res \<noteq> Inr (Some t)) \<and> s_db s' = s_db s \<or>
          (\<exists>r. tk_ID r = i \<and> claims T E ty w now locked (s_db s) (s_db s') r \<and>
            (res = Inl db_error \<or> res = Inr (Some (claim_answer w now r))))"
        if m: "may_start E ty (t_rows T (s_db s)) tsk"
          and r2: "t_rows T (s_db s2) = t_rows T (s_db s)" "t_next T (s_db s2) = t_next T (s_db s)"
          and g: "commit_claim T E now w (s_db s) tsk s2 = (res, s')" for s2
        using claim_commit [OF ok r2 g] t tsk(2) m by (auto simp: claims_def)
      show ?thesis
      proof (cases "independentTaskType E ty")
        case True
        show ?thesis
        proof (cases "tk_Step tsk = 0")
          case step: True
          with True have "may_start E ty (t_rows T (s_db s)) tsk" by (simp add: may_start_def)
          from fin [OF this rows1] out b started q tsk True step show ?thesis
            by (simp add: claimCandidate_def sel_def [symmetric])
        next
          case False
          with True out b started q tsk show ?thesis
            by (auto simp: claimCandidate_def sel_def [symmetric] sql_rollback_def)
        qed
      next
        case False
        define sel2 where "sel2 = blocker_query E tsk"
        obtain q2 s2 where q2: "sql_select T sel2 s1 = (q2, s2)" by (meson surj_pair)
        have rows2: "t_rows T (s_db s2) = t_rows T (s_db s)" "t_next T (s_db s2) = t_next T (s_db s)"
          using sql_select_cases [OF ok q2] rows1 by metis+
        note unf = claimCandidate_def sel_def [symmetric] sel2_def [symmetric]
        show ?thesis
        proof (cases "q2 = Inr []")
          case True
          then have "sel2 (t_rows T (s_db s)) = []"
            using sql_select_cases [OF ok q2] rows1 by (metis Inl_Inr_False Inr_inject)
          then have "may_start E ty (t_rows T (s_db s)) tsk"
            using False blockers_unblocked [of E tsk] by (simp add: may_start_def sel2_def)
          from fin [OF this rows2] out b started q tsk False q2 True show ?thesis
            by (simp add: unf)
        next
          case blocked: False
          with out b started q tsk False q2 show ?thesis
            by (cases q2) (auto simp: unf sql_rollback_def)
        qed
      qed
    qed
  qed
qed

section \<open>The claim loops\<close>

lemma claims_same_rows:
  "t_rows T d1 = t_rows T d \<Longrightarrow> t_next T d1 = t_next T d \<Longrightarrow> claims T E ty w now locked d1 d' r = claims T E ty w now locked d d' r"
  by (simp add: claims_def)

definition claim_result :: "(task, 'd) sqltab \<Rightarrow> task_env \<Rightarrow> string \<Rightarrow> string \<Rightarrow> time \<Rightarrow> (nat \<Rightarrow> bool) \<Rightarrow> 'd \<Rightarrow>
    (terror + task option) \<Rightarrow> 'd \<Rightarrow> bool" where
  "claim_result T E ty w now locked d res d' \<longleftrightarrow>
     (\<forall>t. res \<noteq> Inr (Some t)) \<and> t_rows T d' = t_rows T d \<and> t_next T d' = t_next T d \<or>
     (\<exists>r. claims T E ty w now locked d d' r \<and> (res = Inl db_error \<or> res = Inr (Some (claim_answer w now r))))"

lemma claim_batch_result:
  assumes "sql_ok T"
  shows "claim_batch T E locked now ty w ids s = (res, s') \<Longrightarrow>
    claim_result T E ty w now locked (s_db s) res (s_db s') \<and>
    (res = Inr None \<longrightarrow> s_db s' = s_db s)"
proof (induction ids arbitrary: s)
  case Nil
  then show ?case by (auto simp: claim_result_def)
next
  case (Cons i ids)
  obtain r1 s1 where c: "claimCandidate T E locked now i ty w s = (r1, s1)" by (meson surj_pair)
  show ?case
  proof (cases "r1 = Inr None")
    case True
    with claimCandidate_cases [OF assms c] have "s_db s1 = s_db s" by (auto simp: db_error_def)
    with Cons.IH [of s1] Cons.prems c True show ?thesis by simp
  next
    case False
    then have "res = r1" "s' = s1" using Cons.prems c by (auto split: sum.splits option.splits)
    with claimCandidate_cases [OF assms c] False show ?thesis by (auto simp: claim_result_def)
  qed
qed

lemma claim_loop_result:
  assumes ok: "sql_ok T"
  shows "claim_loop fuel T E locked now ty w attempted s = Some (res, s') \<Longrightarrow>
    claim_result T E ty w now locked (s_db s) res (s_db s')"
proof (induction fuel arbitrary: attempted s)
  case (Suc fuel)
  obtain q s1 where q: "sql_select T (candidates E ty attempted) s = (q, s1)" by (meson surj_pair)
  have rows: "t_rows T (s_db s1) = t_rows T (s_db s)" "t_next T (s_db s1) = t_next T (s_db s)"
    using sql_select_cases [OF ok q] by metis+
  have tr: "claim_result T E ty w now locked (s_db s1) r d = claim_result T E ty w now locked (s_db s) r d" for r d
    using rows claims_same_rows [OF rows] by (simp add: claim_result_def)
  show ?case
  proof (cases q)
    case (Inl e)
    with Suc.prems q rows show ?thesis by (auto simp: claim_result_def)
  next
    case (Inr cand)
    obtain r2 s2 where b: "claim_batch T E locked now ty w (map tk_ID cand) s1 = (r2, s2)" by (meson surj_pair)
    note br = claim_batch_result [OF ok b]
    show ?thesis
    proof (cases "r2 = Inr None \<and> \<not> length cand < claimCandidateBatch")
      case True
      then have "claim_loop fuel T E locked now ty w (attempted @ map tk_ID cand) s2 = Some (res, s')" "s_db s2 = s_db s1"
        using Suc.prems q Inr b br by (auto simp: Let_def)
      with Suc.IH tr show ?thesis by fastforce
    next
      case False
      then have "res = r2" "s' = s2" using Suc.prems q Inr b by (auto simp: Let_def split: sum.splits option.splits if_splits)
      with br tr show ?thesis by simp
    qed
  qed
qed simp

text \<open>
  The loop over the batches ends: each full batch that yields nothing removes 32 rows from those still
  to be tried, so one round more than their number divided by 32 is always enough.
\<close>

definition untried :: "task list \<Rightarrow> nat list \<Rightarrow> nat" where
  "untried rows attempted = card {r \<in> set rows. tk_ID r \<notin> set attempted}"

lemma candidates_props:
  "set (candidates E ty attempted rows) \<subseteq> {r \<in> set rows. tk_ID r \<notin> set attempted}"
  "distinct rows \<Longrightarrow> distinct (candidates E ty attempted rows)"
  by (auto simp: candidates_def dest: in_set_takeD)

lemma untried_decreases:
  assumes "distinct rows" "length (candidates E ty attempted rows) = 32"
  shows "untried rows (attempted @ map tk_ID (candidates E ty attempted rows)) + 32 \<le> untried rows attempted"
proof -
  define c where "c = candidates E ty attempted rows"
  have sub: "set c \<subseteq> {r \<in> set rows. tk_ID r \<notin> set attempted}" "distinct c" "length c = 32"
    using candidates_props assms by (auto simp: c_def)
  have "{r \<in> set rows. tk_ID r \<notin> set (attempted @ map tk_ID c)} \<subseteq> {r \<in> set rows. tk_ID r \<notin> set attempted} - set c"
    by auto
  then have "untried rows (attempted @ map tk_ID c) \<le> card ({r \<in> set rows. tk_ID r \<notin> set attempted} - set c)"
    unfolding untried_def by (intro card_mono) auto
  also have "\<dots> = untried rows attempted - card (set c)"
    unfolding untried_def by (rule card_Diff_subset) (use sub in auto)
  finally show ?thesis
    using sub card_mono [OF _ sub(1)] by (simp add: distinct_card c_def untried_def)
qed

lemma claim_loop_returns:
  assumes ok: "sql_ok T"
  shows "distinct (t_rows T (s_db s)) \<Longrightarrow> untried (t_rows T (s_db s)) attempted div 32 < fuel \<Longrightarrow>
    \<exists>out. claim_loop fuel T E locked now ty w attempted s = Some out"
proof (induction fuel arbitrary: attempted s)
  case (Suc fuel)
  obtain q s1 where q: "sql_select T (candidates E ty attempted) s = (q, s1)" by (meson surj_pair)
  have rows: "t_rows T (s_db s1) = t_rows T (s_db s)"
    and qc: "q = Inl DbError \<or> q = Inr (candidates E ty attempted (t_rows T (s_db s)))"
    using sql_select_cases [OF ok q] by metis+
  show ?case
  proof (cases "q = Inl DbError")
    case True
    with q show ?thesis by simp
  next
    case False
    define cand where "cand = candidates E ty attempted (t_rows T (s_db s))"
    have qi: "q = Inr cand" using False qc by (simp add: cand_def)
    obtain r2 s2 where b: "claim_batch T E locked now ty w (map tk_ID cand) s1 = (r2, s2)" by (meson surj_pair)
    show ?thesis
    proof (cases "r2 = Inr None \<and> \<not> length cand < claimCandidateBatch")
      case True
      then have len: "length cand = 32" by (auto simp: cand_def candidates_def claimCandidateBatch_def)
      have "s_db s2 = s_db s1" using claim_batch_result [OF ok b] True by simp
      then have r2: "t_rows T (s_db s2) = t_rows T (s_db s)" using rows by simp
      have "untried (t_rows T (s_db s)) (attempted @ map tk_ID cand) div 32 < fuel"
        using untried_decreases [OF Suc.prems(1), of E ty attempted] len Suc.prems(2) by (simp add: cand_def)
      with Suc.IH [of s2 "attempted @ map tk_ID cand"] Suc.prems(1) r2 have
        "\<exists>out. claim_loop fuel T E locked now ty w (attempted @ map tk_ID cand) s2 = Some out" by simp
      with q qi b True show ?thesis by simp
    next
      case False
      with q qi b show ?thesis by (auto simp: Let_def split: sum.splits option.splits)
    qed
  qed
qed simp

section \<open>Without failures and locks\<close>

lemma eligible_may_start:
  assumes "eligibleDependencyQuery E ty rows r"
  shows "may_start E ty rows r"
  using assms
  by (auto simp: eligibleDependencyQuery_def may_start_def readyTaskJoin_def unblocked_def Let_def
      list_all_iff list_ex_iff split: if_splits)

lemma claimCandidate_delivered:
  assumes ok: "sql_ok T" and s: "s_fates s = []"
    and r: "lock_query E (\<lambda>_. False) i ty (t_rows T (s_db s)) = r # rs" "task_member_ok r"
    and m: "may_start E ty (t_rows T (s_db s)) r"
  shows "\<exists>s'. claimCandidate T E (\<lambda>_. False) now i ty w s = (Inr (Some (claim_answer w now r)), s') \<and> s_fates s' = []"
proof -
  obtain s1 where s1: "sql_select T (lock_query E (\<lambda>_. False) i ty) s = (Inr (r # rs), s1)" "s_fates s1 = []"
    "t_rows T (s_db s1) = t_rows T (s_db s)" using sql_delivered(1) [OF ok s, of "lock_query E (\<lambda>_. False) i ty"] r by auto
  have commit: "\<exists>s'. commit_claim T E now w (s_db s) r s2 = (Inr (Some (claim_answer w now r)), s') \<and> s_fates s' = []"
    if fates: "s_fates s2 = []" for s2
  proof -
    obtain n s3 where u: "sql_update T (\<lambda>x. live x \<and> tk_ID x = tk_ID r) (claimed_row E w now) s2 = (Inr n, s3)" "s_fates s3 = []"
      using sql_delivered(2) [OF ok fates] by blast
    from sql_delivered(4) [OF ok u(2), of "s_db s"] u show ?thesis by (simp add: commit_claim_def)
  qed
  show ?thesis
  proof (cases "independentTaskType E ty")
    case True
    with m commit [OF s1(2)] s1 r sql_delivered(3) [OF ok s] show ?thesis by (simp add: claimCandidate_def may_start_def)
  next
    case False
    obtain s2 where s2: "sql_select T (blocker_query E r) s1 = (Inr [], s2)" "s_fates s2 = []"
      using sql_delivered(1) [OF ok s1(2), of "blocker_query E r"] s1(3) m False blockers_unblocked [of E r]
      by (auto simp: may_start_def)
    with commit [OF s2(2)] s1 r False sql_delivered(3) [OF ok s] show ?thesis by (simp add: claimCandidate_def)
  qed
qed

lemma claimPendingTask_best:
  assumes ok: "sql_ok T" and s: "s_fates s = []"
    and c: "candidates E ty [] (t_rows T (s_db s)) = r # rest" and m: "task_member_ok r"
    and key: "distinct (map tk_ID (t_rows T (s_db s)))"
  shows "\<exists>s'. claimPendingTask (Suc fuel) T E (\<lambda>_. False) now ty w s = Some (Inr (Some (claim_answer w now r)), s') \<and> s_fates s' = []"
proof -
  define rows where "rows = t_rows T (s_db s)"
  have "r \<in> set (candidates E ty [] rows)" using c by (simp add: rows_def)
  then have r: "r \<in> set rows" "live r" "same_text E (tk_TaskType r) ty" "retryable r" "eligibleDependencyQuery E ty rows r"
    by (auto simp: candidates_def dest: in_set_takeD)
  obtain s1 where s1: "sql_select T (candidates E ty []) s = (Inr (r # rest), s1)" "s_fates s1 = []" "t_rows T (s_db s1) = rows"
    using sql_delivered(1) [OF ok s, of "candidates E ty []"] c by (auto simp: rows_def)
  have "r \<in> set (lock_query E (\<lambda>_. False) (tk_ID r) ty rows)" using r by (simp add: lock_query_def)
  then obtain x xs where lq: "lock_query E (\<lambda>_. False) (tk_ID r) ty rows = x # xs"
    by (cases "lock_query E (\<lambda>_. False) (tk_ID r) ty rows") auto
  then have "x \<in> set (lock_query E (\<lambda>_. False) (tk_ID r) ty rows)" by simp
  then have "x \<in> set rows" "tk_ID x = tk_ID r" by (auto simp: lock_query_def)
  with key r(1) have "x = r" by (metis distinct_map inj_on_def rows_def)
  with claimCandidate_delivered [OF ok s1(2), of E "tk_ID r" ty x xs now w] lq m s1(3) eligible_may_start [OF r(5)]
  obtain s2 where "claimCandidate T E (\<lambda>_. False) now (tk_ID r) ty w s1 = (Inr (Some (claim_answer w now r)), s2)" "s_fates s2 = []"
    by auto
  with s1 show ?thesis by (simp add: claimPendingTask_def Let_def)
qed

end
