(* ===== verification/Go_Path.thy ===== *)
theory Go_Path
  imports Go_Text
begin

text \<open>
  Package \<open>path\<close> of the Go library: \<open>path.Clean\<close> and \<open>path.Join\<close> on slash separated paths, and
  what it means for a path to be its own clean form.
\<close>

section \<open>Cleaning\<close>

definition slash :: char where "slash = CHR 0x2F"

definition is_abs :: "string \<Rightarrow> bool" where
  "is_abs p \<longleftrightarrow> (case p of [] \<Rightarrow> False | c # _ \<Rightarrow> c = slash)"

definition dot :: string where "dot = ''.''"
definition dotdot :: string where "dotdot = ''..''"

text \<open>The components kept so far, the last one first.\<close>

fun clean_step :: "bool \<Rightarrow> string list \<Rightarrow> string \<Rightarrow> string list" where
  "clean_step rooted kept c =
     (if c = [] \<or> c = dot then kept
      else if c = dotdot
      then (case kept of [] \<Rightarrow> if rooted then [] else [dotdot]
            | k # ks \<Rightarrow> if k = dotdot then dotdot # kept else ks)
      else c # kept)"

definition clean_components :: "bool \<Rightarrow> string list \<Rightarrow> string list" where
  "clean_components rooted cs = rev (foldl (clean_step rooted) [] cs)"

fun join_with :: "char \<Rightarrow> string list \<Rightarrow> string" where
  "join_with sep [] = []"
| "join_with sep [x] = x"
| "join_with sep (x # y # zs) = x @ sep # join_with sep (y # zs)"

definition path_clean :: "string \<Rightarrow> string" where
  "path_clean p =
     (let rooted = is_abs p; body = join_with slash (clean_components rooted (split_on slash p))
      in if rooted then slash # body else if body = [] then dot else body)"

definition path_join :: "string list \<Rightarrow> string" where
  "path_join elems =
     (let used = filter (\<lambda>e. e \<noteq> []) elems in if used = [] then [] else path_clean (join_with slash used))"

section \<open>Components\<close>

lemma split_on_nonempty [simp]: "split_on sep s \<noteq> []"
  by (induction s) (auto split: list.splits)

lemma split_on_no_sep: "sep \<notin> set s \<Longrightarrow> split_on sep s = [s]"
  by (induction s) auto

lemma split_on_append: "sep \<notin> set a \<Longrightarrow> split_on sep (a @ sep # b) = a # split_on sep b"
  by (induction a) auto

lemma split_on_elements: "c \<in> set (split_on sep s) \<Longrightarrow> sep \<notin> set c"
  by (induction s arbitrary: c) (auto split: list.splits if_splits)

lemma split_join:
  "cs \<noteq> [] \<Longrightarrow> \<forall>c \<in> set cs. sep \<notin> set c \<Longrightarrow> split_on sep (join_with sep cs) = cs"
  by (induction sep cs rule: join_with.induct) (auto simp: split_on_no_sep split_on_append)

lemma clean_components_subset: "set (clean_components r cs) \<subseteq> set cs"
proof -
  have "set (foldl (clean_step r) kept cs) \<subseteq> set kept \<union> set cs" for kept
    by (induction cs arbitrary: kept) (fastforce split: list.splits if_splits)+
  then show ?thesis by (fastforce simp: clean_components_def)
qed

text \<open>No empty and no dot component is kept, and \<open>..\<close> only in front.\<close>

definition clean_list :: "string list \<Rightarrow> bool" where
  "clean_list cs \<longleftrightarrow> (\<exists>n rest. cs = replicate n dotdot @ rest \<and> dotdot \<notin> set rest \<and> [] \<notin> set cs \<and> dot \<notin> set cs)"

lemma clean_step_keeps:
  assumes "clean_list (rev kept)"
  shows "clean_list (rev (clean_step r kept c))"
proof -
  obtain n rest where k: "rev kept = replicate n dotdot @ rest" "dotdot \<notin> set rest" "[] \<notin> set kept" "dot \<notin> set kept"
    using assms by (auto simp: clean_list_def)
  have up: "clean_list (rev (clean_step r kept c))" if c: "c = dotdot"
  proof (cases rest rule: rev_cases)
    case Nil
    then have kept: "kept = replicate n dotdot" using k(1) by (metis append_Nil2 rev_replicate rev_rev_ident)
    have "rev (dotdot # replicate n dotdot) = replicate (Suc n) dotdot" by (simp add: replicate_append_same)
    then have "clean_list (rev (dotdot # kept))" using k(3,4) kept c
      by (auto simp: clean_list_def dot_def dotdot_def intro!: exI [of _ "Suc n"] exI [of _ "[]"])
    moreover have "clean_list (rev ([] :: string list))" by (simp add: clean_list_def)
    ultimately show ?thesis using kept c by (cases n) (auto simp: dot_def dotdot_def)
  next
    case (snoc init x)
    then have "kept = x # rev (replicate n dotdot @ init)" using k(1) by (metis append_assoc rev.simps(2) rev_eq_Cons_iff rev_rev_ident)
    moreover from this k snoc have "x \<noteq> dotdot" "clean_list (replicate n dotdot @ init)" by (auto simp: clean_list_def)
    ultimately show ?thesis using c by (auto simp: dot_def dotdot_def)
  qed
  show ?thesis
  proof (cases "c = [] \<or> c = dot \<or> c = dotdot")
    case True
    then consider "c = dotdot" | "c = [] \<or> c = dot" by blast
    then show ?thesis
    proof cases
      case 1
      then show ?thesis by (rule up)
    next
      case 2
      with assms show ?thesis by auto
    qed
  next
    case False
    then have "rev (c # kept) = replicate n dotdot @ (rest @ [c])" "dotdot \<notin> set (rest @ [c])" using k(1,2) by auto
    moreover have "[] \<notin> set (rev (c # kept))" "dot \<notin> set (rev (c # kept))" using k(3,4) False by auto
    ultimately have "clean_list (rev (c # kept))" unfolding clean_list_def by blast
    with False show ?thesis by simp
  qed
qed

lemma clean_components_clean: "clean_list (clean_components r cs)"
proof -
  have "clean_list (rev kept) \<Longrightarrow> clean_list (rev (foldl (clean_step r) kept cs))" for kept
  proof (induction cs arbitrary: kept)
    case (Cons c cs)
    show ?case using Cons.IH [OF clean_step_keeps [OF Cons.prems]] by simp
  qed simp
  then show ?thesis by (simp add: clean_components_def clean_list_def)
qed

text \<open>A relative path that is its own clean form is made of the components that cleaning keeps.\<close>

lemma path_clean_fixed:
  assumes "path_clean p = p" "\<not> is_abs p" "p \<noteq> dot"
  shows "clean_list (split_on slash p)"
proof -
  define cs where "cs = clean_components False (split_on slash p)"
  have p: "p = join_with slash cs" "cs \<noteq> []"
    using assms by (auto simp: path_clean_def Let_def cs_def split: if_splits)
  have "\<forall>c \<in> set cs. slash \<notin> set c"
    using clean_components_subset [of False "split_on slash p"] split_on_elements by (auto simp: cs_def)
  then have "split_on slash p = cs" using split_join [OF p(2)] p(1) by metis
  then show ?thesis using clean_components_clean by (metis cs_def)
qed

lemma clean_list_no_updir:
  assumes "clean_list cs" "cs \<noteq> []" "hd cs \<noteq> dotdot"
  shows "\<forall>c \<in> set cs. c \<noteq> [] \<and> c \<noteq> dot \<and> c \<noteq> dotdot"
proof -
  obtain n rest where cs: "cs = replicate n dotdot @ rest" "dotdot \<notin> set rest" "[] \<notin> set cs" "dot \<notin> set cs"
    using assms(1) by (auto simp: clean_list_def)
  with assms(3) have "n = 0" by (cases n) auto
  with cs show ?thesis by auto
qed

end
