(* ===== verification/Task_Queue.thy ===== *)
theory Task_Queue
  imports Task_Lemmas Go_Path "HOL-Library.AList"
begin

text \<open>
  Package \<open>task\<close>, wake-ups and heartbeats on Redis (\<open>task_queue.go\<close> and the Redis part of
  \<open>task_health_check.go\<close>). The state of a worker endpoint is a \<open>tworld\<close>: the database session, the state
  of the Redis server and the fates of the coming Redis requests. Message identifiers of a stream are
  numbers.
\<close>

record ('d, 'r) tworld =
  w_sess :: "'d session"
  w_redis :: 'r
  w_rfates :: "net list"

definition rcall :: "'r redis \<Rightarrow> redis_command \<Rightarrow> ('d, 'r) tworld \<Rightarrow> (string + redis_reply) \<times> ('d, 'r) tworld" where
  "rcall R c w =
     (let fate = (case w_rfates w of [] \<Rightarrow> Delivered | f # _ \<Rightarrow> f);
          out = via_net fate (r_call R c) (w_redis w)
      in (fst out, w\<lparr>w_redis := snd out, w_rfates := tl (w_rfates w)\<rparr>))"

definition redis_error :: terror where
  "redis_error = errors_text ''redis error''"

definition TaskQueryPrefix :: string where "TaskQueryPrefix = ''coretask:task_queue:''"
definition TaskGroupPrefix :: string where "TaskGroupPrefix = ''coretask:task_group:''"
definition rediskeyprefix :: string where "rediskeyprefix = ''coretask:task:''"
definition heartbeatTimeout :: int where "heartbeatTimeout = 30"

section \<open>Queue\<close>

definition PushTaskQueue :: "'r redis \<Rightarrow> string \<Rightarrow> ('d, 'r) tworld \<Rightarrow> terror option \<times> ('d, 'r) tworld" where
  "PushTaskQueue R taskType w =
     (case rcall R (XADD (TaskQueryPrefix @ taskType) taskType) w of
        (Inl _, w') \<Rightarrow> (Some redis_error, w') | (Inr _, w') \<Rightarrow> (None, w'))"

text \<open>A pipeline is one request; each command runs whatever the others answer.\<close>

fun pipe_xadd :: "'r redis \<Rightarrow> string list \<Rightarrow> 'r \<Rightarrow> bool \<times> 'r" where
  "pipe_xadd R [] r = (True, r)"
| "pipe_xadd R (taskType # ts) r =
     (let (res, r1) = r_call R (XADD (TaskQueryPrefix @ taskType) taskType) r;
          (ok, r2) = pipe_xadd R ts r1
      in ((case res of Inl _ \<Rightarrow> False | Inr _ \<Rightarrow> ok), r2))"

definition pushTaskQueues :: "'r redis \<Rightarrow> string list \<Rightarrow> ('d, 'r) tworld \<Rightarrow> terror option \<times> ('d, 'r) tworld" where
  "pushTaskQueues R taskTypes w =
     (if taskTypes = [] then (Some (errors_text ''task types cannot be empty''), w)
      else let fate = (case w_rfates w of [] \<Rightarrow> Delivered | f # _ \<Rightarrow> f);
               w' = w\<lparr>w_rfates := tl (w_rfates w)\<rparr>;
               out = pipe_xadd R taskTypes (w_redis w)
           in case fate of
                Delivered \<Rightarrow> (if fst out then None else Some redis_error, w'\<lparr>w_redis := snd out\<rparr>)
              | LostBefore \<Rightarrow> (Some redis_error, w')
              | LostAfter \<Rightarrow> (Some redis_error, w'\<lparr>w_redis := snd out\<rparr>))"

definition PopTaskQueue :: "'r redis \<Rightarrow> string \<Rightarrow> string \<Rightarrow> ('d, 'r) tworld \<Rightarrow> (terror + string) \<times> ('d, 'r) tworld" where
  "PopTaskQueue R taskType workerid w =
     (let stream = TaskQueryPrefix @ taskType;
          grp = TaskGroupPrefix @ taskType;
          w1 = snd (rcall R (XGROUP_CREATE stream grp) w)
      in case rcall R (XREADGROUP stream grp) w1 of
           (Inl _, w2) \<Rightarrow> (Inl redis_error, w2)
         | (Inr RNil, w2) \<Rightarrow> (Inr [], w2)
         | (Inr (RBulk i), w2) \<Rightarrow> (Inr i, w2)
         | (Inr _, w2) \<Rightarrow> (Inl (errors_text (''no task, wait for next task, taskType: '' @ taskType @ '', workerid: '' @ workerid)), w2))"

definition GetStreamPendingLen :: "'r redis \<Rightarrow> string \<Rightarrow> ('d, 'r) tworld \<Rightarrow> (terror + nat) \<times> ('d, 'r) tworld" where
  "GetStreamPendingLen R taskType w =
     (let stream = TaskQueryPrefix @ taskType;
          grp = TaskGroupPrefix @ taskType
      in case rcall R (XINFO_GROUPS stream) w of
           (Inr (RPairs gs), w1) \<Rightarrow>
             (case List.find (\<lambda>g. fst g = grp) gs of
                None \<Rightarrow> (Inl (errors_text (''group '' @ [CHR 0x27] @ grp @ [CHR 0x27] @ '' not found'')), w1)
              | Some (_, lastID) \<Rightarrow>
                 (case rcall R (XRANGE stream lastID 10000) w1 of
                    (Inr (RBulks entries), w2) \<Rightarrow>
                      (let count = length entries in (Inr (if count > 0 then count - 1 else count), w2))
                  | (_, w2) \<Rightarrow> (Inl (errorf_ww (errors_text ''XRANGE error'') redis_error), w2)))
         | (_, w1) \<Rightarrow> (Inl (errorf_ww (errors_text ''XINFO GROUPS error'') redis_error), w1))"

fun push_times :: "'r redis \<Rightarrow> string \<Rightarrow> nat \<Rightarrow> ('d, 'r) tworld \<Rightarrow> ('d, 'r) tworld" where
  "push_times R t 0 w = w"
| "push_times R t (Suc n) w = push_times R t n (snd (PushTaskQueue R t w))"

section \<open>Heartbeats\<close>

definition heartbeat_text :: "int \<Rightarrow> nat \<Rightarrow> string" where
  "heartbeat_text timestamp taskid = itoa timestamp @ ''-'' @ nat_digits taskid"

definition SetRedis :: "'r redis \<Rightarrow> int \<Rightarrow> string \<Rightarrow> string \<Rightarrow> nat \<Rightarrow> ('d, 'r) tworld \<Rightarrow> (terror + int) \<times> ('d, 'r) tworld" where
  "SetRedis R timestamp taskType worker taskid w =
     (case rcall R (HSET (rediskeyprefix @ taskType) [(worker, heartbeat_text timestamp taskid)]) w of
        (Inr (RInt n), w') \<Rightarrow> (Inr n, w')
      | (_, w') \<Rightarrow> (Inl redis_error, w'))"

definition DeleteRedis :: "'r redis \<Rightarrow> string \<Rightarrow> string \<Rightarrow> ('d, 'r) tworld \<Rightarrow> (terror + int) \<times> ('d, 'r) tworld" where
  "DeleteRedis R taskType worker w =
     (case rcall R (HDEL (rediskeyprefix @ taskType) worker) w of
        (Inr (RInt n), w') \<Rightarrow> (Inr n, w')
      | (_, w') \<Rightarrow> (Inl redis_error, w'))"

definition LenTaskInstanceMap :: "'r redis \<Rightarrow> string \<Rightarrow> ('d, 'r) tworld \<Rightarrow> (terror + int) \<times> ('d, 'r) tworld" where
  "LenTaskInstanceMap R taskType w =
     (case rcall R (HLEN (rediskeyprefix @ taskType)) w of
        (Inr (RInt n), w') \<Rightarrow> (Inr n, w')
      | (_, w') \<Rightarrow> (Inl redis_error, w'))"

text \<open>
  \<open>GetAllCoreTaskKeys\<close>: the scan over the key space. \<open>pages\<close> are the answers of the server, each an error
  or some keys with the next cursor; \<open>None\<close> means that the scan has not come to an end yet.
\<close>

fun scan_keys :: "string list \<Rightarrow> (terror + string list \<times> nat) list \<Rightarrow> (terror + string list) option" where
  "scan_keys keys [] = None"
| "scan_keys keys (Inl e # pages) = Some (Inl e)"
| "scan_keys keys (Inr (kk, cursor) # pages) =
     (if cursor = 0 then Some (Inr (keys @ kk)) else scan_keys (keys @ kk) pages)"

definition GetAllCoreTaskKeys :: "(terror + string list \<times> nat) list \<Rightarrow> (terror + string list) option" where
  "GetAllCoreTaskKeys pages =
     (case scan_keys [] pages of None \<Rightarrow> None
      | Some (Inl e) \<Rightarrow> Some (Inl e)
      | Some (Inr keys) \<Rightarrow>
          Some (Inr (map (\<lambda>k. trim_prefix k rediskeyprefix) (filter (\<lambda>k. has_prefix k rediskeyprefix) keys))))"

text \<open>What the health check reads out of a heartbeat: delete the worker, keep it, or expire its task.\<close>

datatype health = Malformed | Alive | Expired "nat option"

definition read_heartbeat :: "int \<Rightarrow> string \<Rightarrow> health" where
  "read_heartbeat now value =
     (case split_on (CHR ''-'') value of
        timestampStr # taskStr # _ \<Rightarrow>
          (case parse_int timestampStr of None \<Rightarrow> Malformed
           | Some timestamp \<Rightarrow>
               if now - timestamp > heartbeatTimeout
               then Expired (case parse_digits taskStr of None \<Rightarrow> None
                             | Some n \<Rightarrow> if n < 2 ^ 64 then Some n else None)
               else Alive)
      | _ \<Rightarrow> Malformed)"

text \<open>\<open>GetInstanceInfo\<close> counts the workers of every known type; the map is filled only on success.\<close>

fun instance_counts :: "'r redis \<Rightarrow> string list \<Rightarrow> (string \<times> int) list \<Rightarrow> ('d, 'r) tworld \<Rightarrow> (base_response + (string \<times> int) list) \<times> ('d, 'r) tworld" where
  "instance_counts R [] found w = (Inr found, w)"
| "instance_counts R (item # types) found w =
     (case LenTaskInstanceMap R item w of
        (Inl _, w') \<Rightarrow> (Inl (fail_response ErrCode_InternalError ''task_get_instance_count_failed''), w')
      | (Inr count, w') \<Rightarrow> instance_counts R types (AList.update item count found) w')"

definition GetInstanceInfo ::
  "'r redis \<Rightarrow> (terror + string list \<times> nat) list \<Rightarrow> ('d, 'r) tworld \<Rightarrow> (base_response \<times> (string \<times> int) list option \<times> ('d, 'r) tworld) option" where
  "GetInstanceInfo R pages w =
     (case GetAllCoreTaskKeys pages of None \<Rightarrow> None
      | Some (Inl _) \<Rightarrow> Some (ok_response, None, w)
      | Some (Inr types) \<Rightarrow>
         (case instance_counts R types [] w of
            (Inl resp, w') \<Rightarrow> Some (resp, None, w')
          | (Inr found, w') \<Rightarrow> Some (ok_response, Some found, w')))"

section \<open>Repair of lost wake-ups\<close>

definition check_queue_type ::
  "(task, 'd) sqltab \<Rightarrow> task_env \<Rightarrow> 'r redis \<Rightarrow> string \<Rightarrow> ('d, 'r) tworld \<Rightarrow> ('d, 'r) tworld" where
  "check_queue_type T E R t w =
     (case GetStreamPendingLen R t w of (Inl _, w1) \<Rightarrow> w1
      | (Inr count, w1) \<Rightarrow>
         (case GetPendingTaskCount T E t (w_sess w1) of
            (Inl _, s') \<Rightarrow> w1\<lparr>w_sess := s'\<rparr>
          | (Inr task_count, s') \<Rightarrow> push_times R t (task_count - count) (w1\<lparr>w_sess := s'\<rparr>)))"

definition CheckQueueCount ::
  "(task, 'd) sqltab \<Rightarrow> task_env \<Rightarrow> 'r redis \<Rightarrow> (terror + string list \<times> nat) list \<Rightarrow> ('d, 'r) tworld \<Rightarrow> ('d, 'r) tworld option" where
  "CheckQueueCount T E R pages w =
     (case GetAllCoreTaskKeys pages of None \<Rightarrow> None
      | Some (Inl _) \<Rightarrow> Some w
      | Some (Inr types) \<Rightarrow> Some (fold (check_queue_type T E R) types w))"

section \<open>Lemmas\<close>

text \<open>A heartbeat is read back as it was written, and expires after thirty seconds.\<close>


lemma nat_digits_no_dash: "CHR ''-'' \<notin> set (nat_digits n)"
  using nat_digits_all [of n] by (auto simp: list_all_iff is_digit_def)

lemma read_heartbeat_text:
  assumes "0 \<le> t" "int64 t" "taskid < 2 ^ 64"
  shows "read_heartbeat now (heartbeat_text t taskid) =
    (if now - t > 30 then Expired (Some taskid) else Alive)"
proof -
  have "itoa t = nat_digits (nat t)" using assms by (simp add: itoa_def)
  then have "split_on (CHR ''-'') (heartbeat_text t taskid) = [itoa t, nat_digits taskid]"
    using nat_digits_no_dash [of "nat t"] nat_digits_no_dash [of taskid]
    by (simp add: heartbeat_text_def split_on_append split_on_no_sep)
  with assms show ?thesis by (simp add: read_heartbeat_def heartbeatTimeout_def)
qed

end
