(* ===== verification/Task_Machine.thy ===== *)
theory Task_Machine
  imports Task_Lemmas
begin

text \<open>
  The life of task rows under every operation of the package that is fenced or terminal, in any
  order and with any failures: claims, callback reservations, outcomes, expiry, the reset at start-up,
  creation, cancellation and deletion. \<open>trun\<close> records which callbacks were entered. A row \<open>past\<close> the
  attempt \<open>n\<close> can never enter the callback of that attempt again; every operation keeps that.
\<close>

section \<open>Attempts that are over\<close>

definition terminal :: "task \<Rightarrow> bool" where
  "terminal r \<longleftrightarrow> tk_TaskStatus r \<in> {TaskStatusSuccess, TaskStatusCancel}"

definition past :: "int \<Rightarrow> task \<Rightarrow> bool" where
  "past n r \<longleftrightarrow> terminal r \<or> n < tk_Redo r \<or> n = tk_Redo r \<and> tk_TaskStatus r = TaskStatusCompleting"

text \<open>A row that a worker holds was claimed within its configured retries.\<close>

definition row_wf :: "task \<Rightarrow> bool" where
  "row_wf r \<longleftrightarrow> (tk_TaskStatus r \<in> {TaskStatusRunning, TaskStatusCompleting} \<longrightarrow> tk_Redo r \<le> tk_TaskConfigRedo r)"

definition keeps :: "(task \<Rightarrow> bool) \<Rightarrow> (task \<Rightarrow> task) \<Rightarrow> bool" where
  "keeps p f \<longleftrightarrow> (\<forall>r. p r \<and> row_wf r \<longrightarrow>
     row_wf (f r) \<and> tk_ID (f r) = tk_ID r \<and> (\<forall>n. past n r \<longrightarrow> past n (f r)))"

definition task_table :: "(task, 'd) sqltab \<Rightarrow> bool" where
  "task_table T \<longleftrightarrow> sql_ok T \<and> row_id T = tk_ID \<and> with_id T = (\<lambda>n r. r\<lparr>tk_ID := n\<rparr>)"

text \<open>
  The invariant: distinct identifiers, rows well formed, and every entered callback is over in its
  row; \<open>entered\<close> holds pairs of task and attempt, an attempt being the value of \<open>redo\<close>.
\<close>

definition task_inv :: "(task, 'd) sqltab \<Rightarrow> 'd \<Rightarrow> (nat \<times> int) list \<Rightarrow> bool" where
  "task_inv T d entered \<longleftrightarrow>
     keyed T d \<and> 0 < t_next T d \<and> (\<forall>r \<in> set (t_rows T d). row_wf r) \<and>
     (\<forall>(i, n) \<in> set entered. i < t_next T d \<and> (\<forall>r \<in> set (t_rows T d). tk_ID r = i \<longrightarrow> past n r))"

section \<open>Statements keep the invariant\<close>

lemma keeps_claim: "keeps (\<lambda>r. p r \<and> retryable r) (claimed_row E w now)"
  by (auto simp: keeps_def retryable_def claimed_row_def row_wf_def past_def terminal_def)

lemma keeps_reserve:
  "keeps (claim_fence E t redo TaskStatusRunning) (\<lambda>r. r\<lparr>tk_TaskStatus := TaskStatusCompleting, tk_UpdatedAt := now\<rparr>)"
  by (auto simp: keeps_def claim_fence_def row_wf_def past_def terminal_def)

lemma keeps_outcome:
  assumes "tk_TaskStatus t = TaskStatusFail \<and> tk_Redo t = redo + 1 \<or> tk_TaskStatus t = TaskStatusSuccess"
    and "expected \<in> {TaskStatusRunning, TaskStatusCompleting}"
  shows "keeps (claim_fence E t redo expected) (outcome_row E t now)"
  using assms by (auto simp: keeps_def claim_fence_def outcome_row_def row_wf_def past_def terminal_def)

lemma keeps_abandoned:
  "keeps (\<lambda>r. live r \<and> tk_TaskStatus r = TaskStatusCompleting \<and> tk_UpdatedAt r < t) (abandoned_row E now)"
  by (auto simp: keeps_def abandoned_row_def row_wf_def past_def terminal_def)

lemma keeps_init:
  "keeps (\<lambda>r. live r \<and> tk_TaskStatus r \<in> {TaskStatusRunning})
     (\<lambda>r. r\<lparr>tk_TaskStatus := TaskStatusFail, tk_Redo := tk_Redo r + 1, tk_UpdatedAt := now\<rparr>)"
  by (auto simp: keeps_def row_wf_def past_def terminal_def)

lemma keeps_delete: "keeps p (\<lambda>r. r\<lparr>tk_DeletedAt := d\<rparr>)"
  by (auto simp: keeps_def row_wf_def past_def terminal_def)

lemma keeps_weaken: "keeps p f \<Longrightarrow> (\<And>r. q r \<Longrightarrow> p r) \<Longrightarrow> keeps q f"
  by (auto simp: keeps_def)

lemma task_inv_update:
  assumes "task_table T" "task_inv T d entered" "keeps p f"
    and "t_rows T d' = update_where p f (t_rows T d)" "t_next T d' = t_next T d"
  shows "task_inv T d' entered"
proof -
  have wf: "\<forall>r \<in> set (t_rows T d). row_wf r" using assms(2) by (simp add: task_inv_def)
  have k: "row_wf (f r)" "tk_ID (f r) = tk_ID r" "\<And>n. past n r \<Longrightarrow> past n (f r)"
    if "p r" "r \<in> set (t_rows T d)" for r
    using assms(3) that wf by (auto simp: keeps_def)
  have "map tk_ID (t_rows T d') = map tk_ID (t_rows T d)"
    using assms(4) k(2) by (auto simp: update_where_def)
  moreover have "\<forall>r \<in> set (t_rows T d'). tk_ID r < t_next T d'"
    using assms(1,2,4,5) k(2) by (auto simp: update_where_def task_inv_def keyed_def task_table_def)
  ultimately have "keyed T d'" using assms(1,2) by (simp add: keyed_def task_inv_def task_table_def)
  with assms(2,4,5) k show ?thesis
    unfolding task_inv_def by (fastforce simp: update_where_def)
qed

lemma task_inv_same:
  "task_inv T d entered \<Longrightarrow> t_rows T d' = t_rows T d \<Longrightarrow> t_next T d' = t_next T d \<Longrightarrow> task_inv T d' entered"
  using keyed_rows [of T d d'] by (simp add: task_inv_def)

lemma task_inv_sql_update:
  assumes "task_table T" "task_inv T (s_db s) entered" "keeps p f" "sql_update T p f s = (r, s')"
  shows "task_inv T (s_db s') entered"
proof -
  have ok: "sql_ok T" using assms(1) by (simp add: task_table_def)
  from ok assms(4) show ?thesis
    by (cases rule: sql_update_cases)
       (use task_inv_update [OF assms(1,2,3)] task_inv_same [OF assms(2)] in blast)+
qed

lemma task_inv_sql_select:
  assumes "task_table T" "task_inv T (s_db s) entered" "sql_select T q s = (r, s')"
  shows "task_inv T (s_db s') entered"
proof -
  have ok: "sql_ok T" using assms(1) by (simp add: task_table_def)
  from ok assms(3) show ?thesis
    by (cases rule: sql_select_cases) (use task_inv_same [OF assms(2)] in blast)+
qed

section \<open>Operations keep the invariant\<close>

lemma update_where_cong: "(\<And>r. r \<in> set rows \<Longrightarrow> p r = q r) \<Longrightarrow> update_where p f rows = update_where q f rows"
  by (simp add: update_where_def)

lemma keyed_unique:
  "task_table T \<Longrightarrow> keyed T d \<Longrightarrow> a \<in> set (t_rows T d) \<Longrightarrow> b \<in> set (t_rows T d) \<Longrightarrow> tk_ID a = tk_ID b \<Longrightarrow> a = b"
  by (auto simp: keyed_def task_table_def distinct_map inj_on_def)

lemma task_inv_claims:
  assumes T: "task_table T" and inv: "task_inv T d entered" and c: "claims T E ty w now locked d d' r"
  shows "task_inv T d' entered"
proof -
  have k: "keyed T d" using inv by (simp add: task_inv_def)
  have "update_where (\<lambda>x. live x \<and> tk_ID x = tk_ID r) (claimed_row E w now) (t_rows T d) =
      update_where (\<lambda>x. (live x \<and> tk_ID x = tk_ID r) \<and> retryable x) (claimed_row E w now) (t_rows T d)"
    by (rule update_where_cong) (use c keyed_unique [OF T k, of _ r] in \<open>auto simp: claims_def\<close>)
  with c show ?thesis
    by (intro task_inv_update [OF T inv keeps_claim [of "\<lambda>x. live x \<and> tk_ID x = tk_ID r" E w now]])
       (simp_all add: claims_def)
qed

lemma task_inv_claimCandidate:
  assumes T: "task_table T" and inv: "task_inv T (s_db s) entered"
    and out: "claimCandidate T E locked now i ty w s = (res, s')"
  shows "task_inv T (s_db s') entered"
proof -
  have ok: "sql_ok T" using T by (simp add: task_table_def)
  from claimCandidate_cases [OF ok out] show ?thesis
    using inv task_inv_claims [OF T inv] by auto
qed

lemma finish_task_cases:
  assumes "tk_TaskStatus t \<in> {TaskStatusSuccess, TaskStatusFail}" "expected \<in> {TaskStatusRunning, TaskStatusCompleting}"
  shows "keeps (claim_fence E (if tk_TaskStatus t = TaskStatusFail then t\<lparr>tk_Redo := tk_Redo t + 1\<rparr> else t) (tk_Redo t) expected)
    (outcome_row E (if tk_TaskStatus t = TaskStatusFail then t\<lparr>tk_Redo := tk_Redo t + 1\<rparr> else t) now)"
  by (rule keeps_outcome) (use assms in auto)

lemma task_inv_finish:
  assumes T: "task_table T" and inv: "task_inv T (s_db s) entered"
    and t: "tk_TaskStatus t \<in> {TaskStatusSuccess, TaskStatusFail}" "expected \<in> {TaskStatusRunning, TaskStatusCompleting}"
    and out: "finishClaimFromStatus T E now t expected s = (res, t', s')"
  shows "task_inv T (s_db s') entered"
proof (cases "tk_StartAt t = None \<or> tk_EndAt t = None")
  case True
  with out inv show ?thesis by (simp add: finishClaimFromStatus_def)
next
  case False
  define t1 where "t1 = t\<lparr>tk_Cost := cost_of t\<rparr>"
  define t2 where "t2 = (if tk_TaskStatus t1 = TaskStatusFail then t1\<lparr>tk_Redo := tk_Redo t1 + 1\<rparr> else t1)"
  obtain r s1 where u: "sql_update T (claim_fence E t2 (tk_Redo t1) expected) (outcome_row E t2 now) s = (r, s1)"
    by (meson surj_pair)
  have "keeps (claim_fence E t2 (tk_Redo t1) expected) (outcome_row E t2 now)"
    unfolding t2_def by (rule finish_task_cases) (use t in \<open>simp_all add: t1_def\<close>)
  from task_inv_sql_update [OF T inv this u] have "task_inv T (s_db s1) entered" .
  moreover have "s' = s1"
    using out False u unfolding finishClaimFromStatus_def t1_def [symmetric] Let_def t2_def [symmetric]
    by (auto split: sum.splits)
  ultimately show ?thesis by simp
qed

lemma task_inv_expire_all:
  assumes T: "task_table T"
  shows "task_inv T (s_db s) entered \<Longrightarrow> task_inv T (s_db (expire_all T E now ts s)) entered"
proof (induction ts arbitrary: s)
  case (Cons t ts)
  define t' where "t' = t\<lparr>tk_TaskStatus := TaskStatusFail, tk_ErrMsg := ''timeout'', tk_EndAt := Some now\<rparr>"
  obtain res t2 s1 where f: "finishClaimFromStatus T E now t' TaskStatusRunning s = (res, t2, s1)"
    by (metis prod_cases3)
  have "task_inv T (s_db s1) entered"
    using task_inv_finish [OF T Cons.prems _ _ f] by (simp add: t'_def)
  with Cons f show ?case by (simp add: finishClaim_def t'_def [symmetric])
qed simp

lemma task_inv_CheckAndTimeoutTasks:
  assumes T: "task_table T" and inv: "task_inv T (s_db s) entered"
  shows "task_inv T (s_db (CheckAndTimeoutTasks T E now s)) entered"
proof -
  obtain q s1 where q: "sql_select T (filter (\<lambda>r. live r \<and> tk_TaskStatus r = TaskStatusRunning)) s = (q, s1)" by (meson surj_pair)
  have i1: "task_inv T (s_db s1) entered" using task_inv_sql_select [OF T inv q] .
  show ?thesis
  proof (cases q)
    case (Inl e)
    with q i1 show ?thesis by (simp add: CheckAndTimeoutTasks_def)
  next
    case (Inr ts)
    have i2: "task_inv T (s_db (expire_all T E now ts s1)) entered" using task_inv_expire_all [OF T i1] .
    with task_inv_sql_update [OF T i2 keeps_abandoned surjective_pairing] q Inr show ?thesis
      by (simp add: CheckAndTimeoutTasks_def)
  qed
qed

lemma task_inv_insert:
  assumes T: "task_table T" and inv: "task_inv T d entered" and wf: "\<forall>x \<in> set xs. row_wf x"
    and d': "t_rows T d' = t_rows T d @ number_rows (with_id T) (t_next T d) xs" "t_next T d' = t_next T d + length xs"
  shows "task_inv T d' entered"
proof -
  have new: "row_wf x" "t_next T d \<le> tk_ID x" if "x \<in> set (number_rows (with_id T) n xs)" "t_next T d \<le> n" for x n
    using that wf T by (induction xs arbitrary: n) (auto simp: task_table_def row_wf_def)
  have "keyed T d'" using keyed_insert [OF _ _ d'] inv T by (simp add: task_inv_def task_table_def)
  with inv d' new [of _ "t_next T d"] show ?thesis
    unfolding task_inv_def by fastforce
qed

lemma task_inv_createTasks:
  assumes T: "task_table T" and inv: "task_inv T (s_db s) entered" and wf: "\<forall>t \<in> set ts. \<forall>x. t = Some x \<longrightarrow> row_wf x"
    and out: "createTasks T E now wake ts s q = (res, s', q')"
  shows "task_inv T (s_db s') entered"
proof (cases "ts = [] \<or> first_invalid E 0 ts \<noteq> None")
  case True
  with out inv show ?thesis by (auto simp: createTasks_def split: option.splits if_splits)
next
  case False
  define xs where "xs = map (\<lambda>t. stamped now (the t)) ts"
  have valid: "first_invalid E n ts = None \<Longrightarrow> \<forall>t \<in> set ts. t \<noteq> None" for n
    by (induction ts arbitrary: n) (auto simp: validateNewTask_def split: option.splits)
  have "\<forall>x \<in> set xs. row_wf x"
    using valid [of 0] False wf by (auto simp: xs_def stamped_def row_wf_def)
  moreover obtain r s1 where i: "sql_insert T xs s = (r, s1)" by (meson surj_pair)
  moreover have "s' = s1" using out False i by (auto simp: createTasks_def xs_def split: option.splits sum.splits)
  moreover have "sql_ok T" using T by (simp add: task_table_def)
  ultimately show ?thesis
    using task_inv_insert [OF T inv] task_inv_same [OF inv] sql_insert_cases [of T xs s r s1] by metis
qed

lemma task_inv_cancel:
  assumes T: "task_table T" and inv: "task_inv T (s_db s) entered" and out: "CancelTask T now t s = (e, s')"
  shows "task_inv T (s_db s') entered"
proof -
  define x where "x = t\<lparr>tk_TaskStatus := TaskStatusCancel, tk_ErrMsg := ''task cancelled'', tk_UpdatedAt := now\<rparr>"
  have wf: "row_wf y" "past n y" if "tk_TaskStatus y = TaskStatusCancel" for y n
    using that by (simp_all add: row_wf_def past_def terminal_def)
  have ok: "sql_ok T" "row_id T = tk_ID" "with_id T = (\<lambda>n r. r\<lparr>tk_ID := n\<rparr>)" using T by (simp_all add: task_table_def)
  have step: "task_inv T d' entered"
    if "(t_rows T d', t_next T d') = snd (sql_doc T (Upsert x) (t_rows T (s_db s)) (t_next T (s_db s)))" for d'
  proof -
    consider (new) "tk_ID x = 0" | (old) "tk_ID x \<noteq> 0" "list_ex (\<lambda>r. tk_ID r = tk_ID x) (t_rows T (s_db s))"
      | (add) "tk_ID x \<noteq> 0" "\<not> list_ex (\<lambda>r. tk_ID r = tk_ID x) (t_rows T (s_db s))" by blast
    then show ?thesis
    proof cases
      case new
      with that ok show ?thesis
        using task_inv_insert [OF T inv, of "[x]" d'] wf(1) [of x] by (simp add: x_def)
    next
      case old
      have "keeps (\<lambda>r. tk_ID r = tk_ID x) (\<lambda>_. x)" using wf by (auto simp: keeps_def x_def)
      with old that ok task_inv_update [OF T inv, of "\<lambda>r. tk_ID r = tk_ID x" "\<lambda>_. x" d'] show ?thesis by simp
    next
      case add
      with that ok have d': "t_rows T d' = t_rows T (s_db s) @ [x]" "t_next T d' = max (t_next T (s_db s)) (tk_ID x + 1)"
        by simp_all
      have "keyed T d'"
        using inv add d' ok by (auto simp: keyed_def task_inv_def list_ex_iff less_max_iff_disj)
      with inv d' wf [of x] show ?thesis
        unfolding task_inv_def by (auto simp: x_def)
    qed
  qed
  obtain r s1 where u: "sql T (Upsert x) s = (r, s1)" by (meson surj_pair)
  have "s' = s1" using out u by (auto simp: CancelTask_def sql_save_def x_def [symmetric] split: sum.splits prod.splits)
  with ok(1) u show ?thesis
    by (cases rule: sql_cases) (use step inv task_inv_same in \<open>auto dest: arg_cong [where f = snd]\<close>)
qed

section \<open>Runs\<close>

text \<open>
  The rows handed to reservations and outcomes are arbitrary snapshots, however stale. What is asked
  of an event: an outcome is a success or a failure, and a new task is not created as one that is
  already running beyond its retries.
\<close>

datatype tev =
    TClaim "nat \<Rightarrow> bool" time nat string string
  | TReserve time task int
  | TFinish time task TaskStatus
  | TExpire time
  | TInit time
  | TCreate time "task option list"
  | TCancel time task
  | TDelete time nat

fun tev_ok :: "tev \<Rightarrow> bool" where
  "tev_ok (TFinish now t expected) =
     (tk_TaskStatus t \<in> {TaskStatusSuccess, TaskStatusFail} \<and> expected \<in> {TaskStatusRunning, TaskStatusCompleting})"
| "tev_ok (TCreate now ts) = list_all (\<lambda>t. case t of None \<Rightarrow> True | Some x \<Rightarrow> row_wf x) ts"
| "tev_ok _ = True"

text \<open>\<open>texec\<close> performs an event and returns the callback it let in, as task and attempt.\<close>

fun texec :: "(task, 'd) sqltab \<Rightarrow> task_env \<Rightarrow> tev \<Rightarrow> 'd session \<Rightarrow> (nat \<times> int) list \<times> 'd session" where
  "texec T E (TClaim locked now i ty w) s = ([], snd (claimCandidate T E locked now i ty w s))"
| "texec T E (TReserve now t attempt) s =
     (case claimCallback T E now (Some t) attempt s of (res, s') \<Rightarrow>
        (if res = Inr True then [(tk_ID t, attempt)] else [], s'))"
| "texec T E (TFinish now t expected) s = ([], snd (snd (finishClaimFromStatus T E now t expected s)))"
| "texec T E (TExpire now) s = ([], CheckAndTimeoutTasks T E now s)"
| "texec T E (TInit now) s = ([], InitTaskDBStauts T now s)"
| "texec T E (TCreate now ts) s = ([], fst (snd (createTasks T E now (\<lambda>_ q. (None, q)) ts s ())))"
| "texec T E (TCancel now t) s = ([], snd (CancelTask T now t s))"
| "texec T E (TDelete now i) s = ([], snd (DeleteTask T E now i s))"

inductive trun :: "(task, 'd) sqltab \<Rightarrow> task_env \<Rightarrow> 'd session \<Rightarrow> (nat \<times> int) list \<Rightarrow> 'd session \<Rightarrow> bool"
  for T E s where
  trun_nil: "trun T E s [] s"
| trun_step: "trun T E s entered s1 \<Longrightarrow> tev_ok ev \<Longrightarrow> texec T E ev s1 = (new, s2) \<Longrightarrow> trun T E s (entered @ new) s2"

text \<open>
  A reservation that is let in found the row running in exactly that attempt, so the attempt was not
  over, and leaves it over. The invariant counts attempts by the value of \<open>redo\<close>, one less.
\<close>

lemma reserve_enters:
  assumes T: "task_table T" and inv: "task_inv T (s_db s) entered"
    and out: "claimCallback T E now (Some t) attempt s = (Inr True, s')"
  shows "(tk_ID t, attempt - 1) \<notin> set entered \<and> task_inv T (s_db s') (entered @ [(tk_ID t, attempt - 1)])"
proof -
  have ok: "sql_ok T" using T by (simp add: task_table_def)
  define p where "p = claim_fence E t (tk_Redo t) TaskStatusRunning"
  define f :: "task \<Rightarrow> task" where "f = (\<lambda>r. r\<lparr>tk_TaskStatus := TaskStatusCompleting, tk_UpdatedAt := now\<rparr>)"
  have att: "attempt = tk_Redo t + 1" and u: "\<exists>n. sql_update T p f s = (Inr n, s') \<and> n = 1"
    using out by (auto simp: claimCallback_def p_def f_def split: if_splits sum.splits prod.splits)
  then obtain n where n: "sql_update T p f s = (Inr n, s')" "n = 1" by blast
  from ok n(1) have d': "n = affected (t_found_rows T) p f (t_rows T (s_db s))"
    "t_rows T (s_db s') = update_where p f (t_rows T (s_db s))" "t_next T (s_db s') = t_next T (s_db s)"
    by (cases rule: sql_update_cases; simp)+
  obtain r where r: "r \<in> set (t_rows T (s_db s))" "p r"
    using d'(1) n(2) by (metis (no_types, lifting) affected_def filter_False length_0_conv zero_neq_one)
  have rp: "tk_ID r = tk_ID t" "tk_TaskStatus r = TaskStatusRunning" "tk_Redo r = tk_Redo t"
    using r(2) by (simp_all add: p_def claim_fence_def)
  then have "\<not> past (attempt - 1) r" using att by (simp add: past_def terminal_def)
  with inv r(1) rp(1) have new: "(tk_ID t, attempt - 1) \<notin> set entered" by (auto simp: task_inv_def)
  have inv': "task_inv T (s_db s') entered"
    using task_inv_sql_update [OF T inv _ n(1)] keeps_reserve by (simp add: p_def f_def)
  have k: "keyed T (s_db s)" using inv by (simp add: task_inv_def)
  have "past (attempt - 1) x" if x: "x \<in> set (t_rows T (s_db s'))" "tk_ID x = tk_ID t" for x
  proof -
    obtain y where y: "y \<in> set (t_rows T (s_db s))" "x = (if p y then f y else y)"
      using x(1) d'(2) by (auto simp: update_where_def)
    then have "tk_ID y = tk_ID r" using x(2) rp(1) by (auto simp: f_def split: if_splits)
    then have "y = r" using keyed_unique [OF T k y(1) r(1)] by simp
    with y r(2) rp att show ?thesis by (simp add: f_def past_def)
  qed
  moreover have "tk_ID t < t_next T (s_db s')"
    using k r(1) rp(1) d'(3) T by (auto simp: keyed_def task_table_def)
  ultimately have "task_inv T (s_db s') (entered @ [(tk_ID t, attempt - 1)])"
    using inv' by (auto simp: task_inv_def)
  with new show ?thesis by simp
qed

lemma reserve_refused:
  assumes T: "task_table T" and inv: "task_inv T (s_db s) entered"
    and out: "claimCallback T E now (Some t) attempt s = (res, s')"
  shows "task_inv T (s_db s') entered"
proof -
  obtain r s1 where u: "sql_update T (claim_fence E t (tk_Redo t) TaskStatusRunning)
      (\<lambda>r. r\<lparr>tk_TaskStatus := TaskStatusCompleting, tk_UpdatedAt := now\<rparr>) s = (r, s1)" by (meson surj_pair)
  have "task_inv T (s_db s1) entered" using task_inv_sql_update [OF T inv keeps_reserve u] .
  with out inv u show ?thesis by (auto simp: claimCallback_def split: if_splits sum.splits)
qed

lemma texec_keeps:
  assumes T: "task_table T" and inv: "task_inv T (s_db s) (map (\<lambda>(i, a). (i, a - 1)) entered)"
    and ok: "tev_ok ev" and ex: "texec T E ev s = (new, s')" and d: "distinct entered"
  shows "distinct (entered @ new) \<and> task_inv T (s_db s') (map (\<lambda>(i, a). (i, a - 1)) (entered @ new))"
proof (cases ev)
  case (TReserve now t attempt)
  obtain res s1 where c: "claimCallback T E now (Some t) attempt s = (res, s1)" by (meson surj_pair)
  show ?thesis
  proof (cases "res = Inr True")
    case True
    with TReserve ex c have e: "new = [(tk_ID t, attempt)]" "s' = s1" by auto
    have "(tk_ID t, attempt) \<notin> set entered \<and> task_inv T (s_db s1) (map (\<lambda>(i, a). (i, a - 1)) entered @ [(tk_ID t, attempt - 1)])"
      using reserve_enters [OF T inv] c True by fastforce
    with e d show ?thesis by simp
  next
    case False
    with TReserve ex c d reserve_refused [OF T inv c] show ?thesis by auto
  qed
next
  case (TClaim locked now i ty w)
  with ex d task_inv_claimCandidate [OF T inv surjective_pairing] show ?thesis by auto
next
  case (TFinish now t expected)
  with ex ok d task_inv_finish [OF T inv, of t expected E now] show ?thesis
    by (cases "finishClaimFromStatus T E now t expected s") auto
next
  case (TExpire now)
  with ex d task_inv_CheckAndTimeoutTasks [OF T inv] show ?thesis by auto
next
  case (TInit now)
  with ex d task_inv_sql_update [OF T inv keeps_init surjective_pairing] show ?thesis by (auto simp: InitTaskDBStauts_def)
next
  case (TCreate now ts)
  have wf: "\<forall>t \<in> set ts. \<forall>x. t = Some x \<longrightarrow> row_wf x" using ok TCreate by (auto simp: list_all_iff)
  from TCreate ex d task_inv_createTasks [OF T inv wf] show ?thesis
    by (cases "createTasks T E now (\<lambda>_ q. (None, q)) ts s ()") auto
next
  case (TCancel now t)
  with ex d task_inv_cancel [OF T inv surjective_pairing] show ?thesis by auto
next
  case (TDelete now i)
  have "task_inv T (s_db (snd (DeleteTask T E now i s))) (map (\<lambda>(i, a). (i, a - 1)) entered)"
    using task_inv_sql_update [OF T inv keeps_delete surjective_pairing, of "\<lambda>r. live r \<and> tk_ID r = i" "Some (col_time E now)"]
    by (auto simp: DeleteTask_def split: sum.splits prod.splits)
  with TDelete ex d show ?thesis by auto
qed

lemma trun_invariant:
  assumes "trun T E s entered s'" "task_table T" "task_inv T (s_db s) (map (\<lambda>(i, a). (i, a - 1)) before)" "distinct before"
  shows "distinct (before @ entered) \<and> task_inv T (s_db s') (map (\<lambda>(i, a). (i, a - 1)) (before @ entered))"
  using assms(1)
proof (induction rule: trun.induct)
  case trun_nil
  with assms show ?case by simp
next
  case (trun_step entered s1 ev new s2)
  with texec_keeps [OF assms(2), of s1 "before @ entered" ev E new s2] show ?case by simp
qed

end
