(* ===== verification/Task_Server.thy ===== *)
theory Task_Server
  imports Task_Queue Task_Machine
begin

text \<open>
  Package \<open>task\<close>, the worker protocol (\<open>task_server.go\<close>, \<open>task.go\<close> and the rest of
  \<open>task_health_check.go\<close>): handing out a task, its callback, the heartbeat and the health check.

  A registered application callback may change the task it is given and the state \<open>'u\<close> of the
  application; the registry maps a task type to it. It works on its own state and not on the table.
\<close>

section \<open>Registry of callbacks\<close>

type_synonym 'u callback = "task \<Rightarrow> 'u \<Rightarrow> terror option \<times> task \<times> 'u"
type_synonym 'u registry = "string \<Rightarrow> 'u callback option"

definition RegisterCallBack :: "string \<Rightarrow> 'u callback \<Rightarrow> 'u registry \<Rightarrow> 'u registry" where
  "RegisterCallBack taskType cb reg = reg(taskType := Some cb)"

definition GetCallBack :: "'u registry \<Rightarrow> string \<Rightarrow> terror + 'u callback" where
  "GetCallBack reg taskType =
     (case reg taskType of None \<Rightarrow> Inl (errors_text (''taskType '' @ taskType @ '' not found'')) | Some cb \<Rightarrow> Inr cb)"

text \<open>What the protocol asks of a callback: the status it leaves is still an outcome.\<close>

definition callbacks_ok :: "'u registry \<Rightarrow> bool" where
  "callbacks_ok reg \<longleftrightarrow> (\<forall>ty cb t u. reg ty = Some cb \<and> tk_TaskStatus t \<in> {TaskStatusSuccess, TaskStatusFail} \<longrightarrow>
     tk_TaskStatus (fst (snd (cb t u))) \<in> {TaskStatusSuccess, TaskStatusFail})"

section \<open>Handing out a task\<close>

text \<open>
  The polling loop. \<open>done\<close> are the outcomes of the checks whether the request was cancelled, one per
  round, \<open>False\<close> when the list has ended.
\<close>

fun poll_queue :: "nat \<Rightarrow> bool list \<Rightarrow> 'r redis \<Rightarrow> string \<Rightarrow> string \<Rightarrow> ('d, 'r) tworld \<Rightarrow> (base_response + string) \<times> bool list \<times> ('d, 'r) tworld" where
  "poll_queue 0 done R ty worker w = (Inr [], done, w)"
| "poll_queue (Suc n) done R ty worker w =
     (if done \<noteq> [] \<and> hd done
      then (Inl (fail_response ErrCode_InternalError ''task_request_canceled''), tl done, w)
      else case PopTaskQueue R ty worker w of
             (Inl _, w') \<Rightarrow> (Inl (fail_response ErrCode_InternalError ''task_get_task_failed''), tl done, w')
           | (Inr msgID, w') \<Rightarrow>
               if msgID \<noteq> [] then (Inr msgID, tl done, w') else poll_queue n (tl done) R ty worker w')"

definition pending_only :: "base_response \<Rightarrow> pending_response" where
  "pending_only b = \<lparr>pp_base = b, pp_TaskID = 0, pp_Attempt = 0, pp_Payload = []\<rparr>"

definition GetPendingTask ::
  "nat \<Rightarrow> (task, 'd) sqltab \<Rightarrow> task_env \<Rightarrow> 'r redis \<Rightarrow> (nat \<Rightarrow> bool) \<Rightarrow> time \<Rightarrow> bool list \<Rightarrow> pending_request \<Rightarrow>
   ('d, 'r) tworld \<Rightarrow> (pending_response \<times> ('d, 'r) tworld) option" where
  "GetPendingTask fuel T E R locked now done req w =
     (let valid = GetPendingTestRequest_Validity req; ty = pr_TaskType req; worker = pr_WorkerID req
      in if resp_Code valid \<noteq> 0 then Some (pending_only valid, w)
      else let w1 = snd (SetRedis R (go_div now second) ty worker 0 w)
      in case poll_queue 10 done R ty worker w1 of
           (Inl resp, done', w2) \<Rightarrow> Some (pending_only resp, w2)
         | (Inr msgID, done', w2) \<Rightarrow>
            if msgID = [] then Some (pending_only (fail_response ErrCode_NotFound ''task_no_task''), w2)
            else if done' \<noteq> [] \<and> hd done'
            then Some (pending_only (fail_response ErrCode_InternalError ''task_request_canceled''), w2)
            else
             (case claimPendingTask fuel T E locked now ty worker (w_sess w2) of
                None \<Rightarrow> None
              | Some (Inl _, s') \<Rightarrow>
                  Some (pending_only (fail_response ErrCode_InternalError ''task_query_task_failed''),
                        snd (PushTaskQueue R ty (w2\<lparr>w_sess := s'\<rparr>)))
              | Some (Inr None, s') \<Rightarrow> Some (pending_only ok_response, w2\<lparr>w_sess := s'\<rparr>)
              | Some (Inr (Some tsk), s') \<Rightarrow>
                  Some (\<lparr>pp_base = ok_response, pp_TaskID = tk_ID tsk, pp_Attempt = tk_Redo tsk + 1, pp_Payload = tk_Payload tsk\<rparr>,
                        snd (SetRedis R (go_div now second) ty worker (tk_ID tsk) (w2\<lparr>w_sess := s'\<rparr>)))))"

section \<open>Callback\<close>

text \<open>
  \<open>TaskCallBack\<close> in three parts: the application callback on the task with the reported outcome
  (\<open>apply_callback\<close>), what follows a saved outcome (\<open>after_outcome\<close>), and the handler. \<open>now\<close> is the
  time of the request.
\<close>

definition apply_callback ::
  "'u registry \<Rightarrow> callback_request \<Rightarrow> time \<Rightarrow> task \<Rightarrow> 'u \<Rightarrow> task \<times> 'u" where
  "apply_callback reg req now tsk u =
     (let t1 = tsk\<lparr>tk_TaskStatus := cb_Status req, tk_Result := cb_Result req, tk_ErrMsg := cb_ErrorMessage req, tk_EndAt := Some now\<rparr>;
          out = (case GetCallBack reg (tk_TaskType t1) of
                   Inl _ \<Rightarrow> (t1, u)
                 | Inr cb \<Rightarrow>
                    (case cb t1 u of
                       (Some _, t2, u') \<Rightarrow> (t2\<lparr>tk_TaskStatus := TaskStatusFail, tk_ErrMsg := ''task_application_callback_failed''\<rparr>, u')
                     | (None, t2, u') \<Rightarrow> (t2, u')))
      in (if tk_TaskStatus (fst out) = TaskStatusFail then (fst out)\<lparr>tk_Priority := tk_Priority (fst out) - 1\<rparr> else fst out, snd out))"

definition after_outcome ::
  "(task, 'd) sqltab \<Rightarrow> task_env \<Rightarrow> 'r redis \<Rightarrow> time \<Rightarrow> callback_request \<Rightarrow> task \<Rightarrow> ('d, 'r) tworld \<Rightarrow> base_response \<times> ('d, 'r) tworld" where
  "after_outcome T E R now req tsk w =
     (let w1 = snd (SetRedis R (go_div now second) (tk_TaskType tsk) (cb_WorkerID req) 0 w);
          w2 = (if tk_TaskStatus tsk = TaskStatusFail \<and> tk_Redo tsk \<le> tk_TaskConfigRedo tsk
                then snd (PushTaskQueue R (tk_TaskType tsk) w1) else w1)
      in if tk_TaskStatus tsk = TaskStatusSuccess then
           (case nextStepTasks T E (Some tsk) (w_sess w2) of
              (Inl _, s') \<Rightarrow> (fail_response ErrCode_InternalError ''task_get_next_task_failed'', w2\<lparr>w_sess := s'\<rparr>)
            | (Inr tasks, s') \<Rightarrow>
                (ok_response,
                 if tasks \<noteq> [] then snd (pushTaskQueues R (map tk_TaskType tasks) (w2\<lparr>w_sess := s'\<rparr>)) else w2\<lparr>w_sess := s'\<rparr>))
         else (ok_response, w2))"

definition TaskCallBack ::
  "(task, 'd) sqltab \<Rightarrow> task_env \<Rightarrow> 'r redis \<Rightarrow> 'u registry \<Rightarrow> time \<Rightarrow> callback_request \<Rightarrow>
   ('d, 'r) tworld \<Rightarrow> 'u \<Rightarrow> base_response \<times> ('d, 'r) tworld \<times> 'u" where
  "TaskCallBack T E R reg now req w u =
     (let valid = TaskCallBackRequest_Validity req
      in if resp_Code valid \<noteq> 0 then (valid, w, u)
      else case getTaskByIDAndWorkerID T E (cb_TaskID req) (cb_WorkerID req) (w_sess w) of
        (Inl _, s1) \<Rightarrow> (fail_response ErrCode_InternalError ''task_get_task_failed_or_timeout'', w\<lparr>w_sess := s1\<rparr>, u)
      | (Inr tsk, s1) \<Rightarrow>
         if tk_TaskStatus tsk \<noteq> TaskStatusRunning then (ok_response, w\<lparr>w_sess := s1\<rparr>, u)
         else
        (case claimCallback T E now (Some tsk) (cb_Attempt req) s1 of
           (Inl _, s2) \<Rightarrow> (fail_response ErrCode_InternalError ''task_claim_callback_failed'', w\<lparr>w_sess := s2\<rparr>, u)
         | (Inr False, s2) \<Rightarrow> (ok_response, w\<lparr>w_sess := s2\<rparr>, u)
         | (Inr True, s2) \<Rightarrow>
            (case apply_callback reg req now tsk u of (t1, u') \<Rightarrow>
            (case finishClaimFromStatus T E now t1 TaskStatusCompleting s2 of
               (Inl _, t2, s3) \<Rightarrow> (fail_response ErrCode_InternalError ''task_save_task_failed'', w\<lparr>w_sess := s3\<rparr>, u')
             | (Inr False, t2, s3) \<Rightarrow> (ok_response, w\<lparr>w_sess := s3\<rparr>, u')
             | (Inr True, t2, s3) \<Rightarrow>
                (case after_outcome T E R now req t2 (w\<lparr>w_sess := s3\<rparr>) of (resp, w') \<Rightarrow> (resp, w', u'))))))"

section \<open>Heartbeat and health check\<close>

definition CheckInstance :: "'r redis \<Rightarrow> time \<Rightarrow> instance_request \<Rightarrow> ('d, 'r) tworld \<Rightarrow> base_response \<times> ('d, 'r) tworld" where
  "CheckInstance R now req w =
     (let valid = CheckInstanceRequest_Validity req
      in if resp_Code valid \<noteq> 0 then (valid, w)
         else case SetRedis R (go_div now second) (ir_TaskType req) (ir_WorkerID req) (ir_TaskID req) w of
                (Inl _, w') \<Rightarrow> (fail_response ErrCode_InternalError ''task_register_instance_failed'', w')
              | (Inr _, w') \<Rightarrow> (ok_response, w'))"

text \<open>One worker of the health check: an expired heartbeat is removed and its running task fails.\<close>

definition check_worker ::
  "(task, 'd) sqltab \<Rightarrow> task_env \<Rightarrow> 'r redis \<Rightarrow> time \<Rightarrow> string \<Rightarrow> string \<times> string \<Rightarrow> ('d, 'r) tworld \<Rightarrow> ('d, 'r) tworld" where
  "check_worker T E R now item pair w =
     (case pair of (worker, value) \<Rightarrow>
      case read_heartbeat (go_div now second) value of
        Malformed \<Rightarrow> snd (DeleteRedis R item worker w)
      | Alive \<Rightarrow> w
      | Expired taskid \<Rightarrow>
         (let w1 = snd (DeleteRedis R item worker w)
          in case taskid of None \<Rightarrow> w1
             | Some i \<Rightarrow>
                if i = 0 then w1
                else case getTaskByIDAndWorkerID T E i worker (w_sess w1) of
                       (Inl _, s1) \<Rightarrow> w1\<lparr>w_sess := s1\<rparr>
                     | (Inr tsk, s1) \<Rightarrow>
                        if tk_TaskStatus tsk \<noteq> TaskStatusRunning then w1\<lparr>w_sess := s1\<rparr>
                        else
                       (case finishClaim T E now
                          (tsk\<lparr>tk_ErrMsg := ''task_health_check_timeout'', tk_TaskStatus := TaskStatusFail, tk_EndAt := Some now\<rparr>) s1 of
                          (Inr True, t2, s2) \<Rightarrow>
                            if tk_Redo t2 \<le> tk_TaskConfigRedo t2
                            then snd (PushTaskQueue R (tk_TaskType t2) (w1\<lparr>w_sess := s2\<rparr>)) else w1\<lparr>w_sess := s2\<rparr>
                        | (_, t2, s2) \<Rightarrow> w1\<lparr>w_sess := s2\<rparr>)))"

definition check_workers_of ::
  "(task, 'd) sqltab \<Rightarrow> task_env \<Rightarrow> 'r redis \<Rightarrow> time \<Rightarrow> string \<Rightarrow> ('d, 'r) tworld \<Rightarrow> ('d, 'r) tworld" where
  "check_workers_of T E R now item w =
     (case rcall R (HGETALL (rediskeyprefix @ item)) w of
        (Inr (RPairs workers), w') \<Rightarrow> fold (check_worker T E R now item) workers w'
      | (_, w') \<Rightarrow> w')"

definition ChackWockerHealth ::
  "(task, 'd) sqltab \<Rightarrow> task_env \<Rightarrow> 'r redis \<Rightarrow> time \<Rightarrow> (terror + string list \<times> nat) list \<Rightarrow> ('d, 'r) tworld \<Rightarrow> ('d, 'r) tworld option" where
  "ChackWockerHealth T E R now pages w =
     (case GetAllCoreTaskKeys pages of None \<Rightarrow> None
      | Some (Inl _) \<Rightarrow> Some w
      | Some (Inr types) \<Rightarrow> Some (fold (check_workers_of T E R now) types w))"

text \<open>One tick of the two background loops of \<open>InitTask\<close>: only the master works.\<close>

definition timeout_tick ::
  "bool \<Rightarrow> (task, 'd) sqltab \<Rightarrow> task_env \<Rightarrow> 'r redis \<Rightarrow> time \<Rightarrow> (terror + string list \<times> nat) list \<Rightarrow> ('d, 'r) tworld \<Rightarrow> ('d, 'r) tworld option" where
  "timeout_tick master T E R now pages w =
     (if master then CheckQueueCount T E R pages (w\<lparr>w_sess := CheckAndTimeoutTasks T E now (w_sess w)\<rparr>) else Some w)"

definition health_tick ::
  "bool \<Rightarrow> (task, 'd) sqltab \<Rightarrow> task_env \<Rightarrow> 'r redis \<Rightarrow> time \<Rightarrow> (terror + string list \<times> nat) list \<Rightarrow> ('d, 'r) tworld \<Rightarrow> ('d, 'r) tworld option" where
  "health_tick master T E R now pages w = (if master then ChackWockerHealth T E R now pages w else Some w)"

section \<open>Lemmas\<close>

lemma rcall_sess [simp]: "w_sess (snd (rcall R c w)) = w_sess w"
  by (simp add: rcall_def Let_def)

lemma PushTaskQueue_sess [simp]: "w_sess (snd (PushTaskQueue R t w)) = w_sess w"
  using rcall_sess [of R "XADD (TaskQueryPrefix @ t) t" w]
  by (cases "rcall R (XADD (TaskQueryPrefix @ t) t) w") (auto simp: PushTaskQueue_def split: sum.splits)

lemma SetRedis_sess [simp]: "w_sess (snd (SetRedis R ts t k i w)) = w_sess w"
  using rcall_sess [of R "HSET (rediskeyprefix @ t) [(k, heartbeat_text ts i)]" w]
  by (cases "rcall R (HSET (rediskeyprefix @ t) [(k, heartbeat_text ts i)]) w")
     (auto simp: SetRedis_def split: sum.splits redis_reply.splits)

lemma pushTaskQueues_sess [simp]: "w_sess (snd (pushTaskQueues R ts w)) = w_sess w"
  by (auto simp: pushTaskQueues_def Let_def split: net.splits list.splits)

lemma apply_callback_status:
  assumes "callbacks_ok reg" "cb_Status req \<in> {TaskStatusSuccess, TaskStatusFail}"
  shows "tk_TaskStatus (fst (apply_callback reg req now tsk u)) \<in> {TaskStatusSuccess, TaskStatusFail}"
proof -
  define t1 where "t1 = tsk\<lparr>tk_TaskStatus := cb_Status req, tk_Result := cb_Result req, tk_ErrMsg := cb_ErrorMessage req, tk_EndAt := Some now\<rparr>"
  have "tk_TaskStatus t1 \<in> {TaskStatusSuccess, TaskStatusFail}" using assms(2) by (simp add: t1_def)
  moreover have "tk_TaskStatus (fst (snd (cb t1 u))) \<in> {TaskStatusSuccess, TaskStatusFail}"
    if "reg (tk_TaskType t1) = Some cb" for cb
    using assms(1) that calculation unfolding callbacks_ok_def by blast
  ultimately show ?thesis
    unfolding apply_callback_def t1_def [symmetric] Let_def GetCallBack_def
    by (cases "reg (tk_TaskType t1)") (auto split: prod.splits option.splits)
qed

lemma first_row_select:
  assumes "task_table T" "task_inv T (s_db s) entered" "first_row (sql_select T sel s) = (r, s')"
  shows "task_inv T (s_db s') entered"
  using task_inv_sql_select [OF assms(1,2)] assms(3)
  by (cases "sql_select T sel s") (auto simp: first_row_def split: sum.splits list.splits)

end
