(* ===== verification/Task_Properties.thy ===== *)
theory Task_Properties
  imports Task_Server Context_Properties
begin

text \<open>
  Properties of package \<open>task\<close>: claims, callbacks, outcomes, creation, the order of steps and
  heartbeats. The database is any table that does what SQL documents (\<open>task_table\<close>), Redis any server,
  and every statement may fail; \<open>trun\<close> puts any number of other operations in between.
\<close>

section \<open>Concrete surroundings\<close>

definition core_task :: "(task, task list \<times> nat) sqltab" where
  "core_task = ref_table tk_ID (\<lambda>n r. r\<lparr>tk_ID := n\<rparr>)"

definition plain_env :: task_env where
  "plain_env = \<lparr>same_text = (=), col_time = (\<lambda>t. t), independent_types = []\<rparr>"

definition sample_task :: "nat \<Rightarrow> TaskStatus \<Rightarrow> task" where
  "sample_task i st =
     \<lparr>tk_ID = i, tk_CreatedAt = 5, tk_UpdatedAt = 5, tk_DeletedAt = None, tk_OrganizationID = ''org-1'', tk_UserID = ''user-7'',
      tk_SubjectID = 3, tk_Step = 0, tk_TaskType = ''report'', tk_Priority = 0, tk_TaskStatus = st, tk_Redo = 0,
      tk_ErrMsg = [], tk_Comment = [], tk_WorkerID = ''w'', tk_StartAt = Some 6, tk_EndAt = None, tk_Cost = 0,
      tk_Payload = ''{}'', tk_Result = [], tk_AppGroup = ''main'', tk_TaskConfigRedo = 2, tk_TaskConfigTimeout = 60000000000\<rparr>"

lemma sample_member [simp]: "task_member_ok (sample_task i st)"
  using w_member_ok by (simp add: task_member_ok_def sample_task_def w_member_def)

lemma core_task_ok [simp]: "task_table core_task"
  by (simp add: core_task_def task_table_def)

lemma core_task_simps [simp]: "t_rows core_task = fst" "t_next core_task = snd"
  by (simp_all add: core_task_def)

lemma core_task_exec [simp]: "t_exec core_task q d = sql_doc core_task q (fst d) (snd d)"
  by (simp add: core_task_def) (simp add: ref_table_def)

lemma core_task_row [simp]: "row_id core_task = tk_ID" "with_id core_task = (\<lambda>n r. r\<lparr>tk_ID := n\<rparr>)" "t_found_rows core_task = False"
  by (simp_all add: core_task_def)

lemmas sql_run = sql_select_def sql_update_def sql_insert_def sql_def sql_begin_def sql_commit_def sql_rollback_def

lemmas callback_run = TaskCallBack_def getTaskByIDAndWorkerID_def first_row_def claimCallback_def claim_fence_def
  apply_callback_def GetCallBack_def finishClaimFromStatus_def cost_of_def outcome_row_def update_where_def affected_def live_def

text \<open>
  A connection to Redis that is down for the first requests, and an application that counts its callbacks.
\<close>

definition counting :: "nat registry" where
  "counting = RegisterCallBack ''report'' (\<lambda>t n. (None, t, Suc n)) (\<lambda>_. None)"

definition sample_world :: "task list \<Rightarrow> (task list \<times> nat, redis_db) tworld" where
  "sample_world ts = \<lparr>w_sess = \<lparr>s_db = (ts, 9), s_fates = []\<rparr>, w_redis = \<lparr>db_keys = (\<lambda>_. None), db_clock = 0\<rparr>, w_rfates = [LostBefore, LostBefore]\<rparr>"

definition sample_callback :: callback_request where
  "sample_callback = \<lparr>cb_TaskID = 4, cb_Attempt = 1, cb_WorkerID = ''w'', cb_Status = TaskStatusSuccess,
     cb_ErrorMessage = [], cb_Result = ''ok''\<rparr>"

lemma counting_ok [simp]: "callbacks_ok counting"
  by (auto simp: callbacks_ok_def counting_def RegisterCallBack_def split: if_splits)

definition sample_session :: "task list \<Rightarrow> (task list \<times> nat) session" where
  "sample_session ts = \<lparr>s_db = (ts, 9), s_fates = []\<rparr>"

lemmas sample_defs = sample_session_def sample_task_def plain_env_def

lemma sample_ready:
  "candidates plain_env ''report'' [] [sample_task i TaskStatusPending] = [sample_task i TaskStatusPending]"
  by (simp add: candidates_def claimCandidateBatch_def sample_defs live_def retryable_def eligibleDependencyQuery_def
      independentTaskType_def readyTaskJoin_def unfinished_def same_group_def)

lemma sample_claim:
  "\<exists>s'. claimPendingTask 1 core_task plain_env (\<lambda>_. False) 9 ''report'' ''v'' (sample_session [sample_task 4 TaskStatusPending]) =
     Some (Inr (Some (claim_answer ''v'' 9 (sample_task 4 TaskStatusPending))), s') \<and> s_fates s' = []"
  using claimPendingTask_best [of core_task "sample_session [sample_task 4 TaskStatusPending]" plain_env "''report''"
      "sample_task 4 TaskStatusPending" "[]" 0 9 "''v''"] sample_ready [of 4] core_task_ok
  by (simp add: sample_session_def task_table_def)

section \<open>Callbacks run at most once\<close>

lemma get_task_id:
  assumes ok: "sql_ok T" and g: "getTaskByIDAndWorkerID T E i worker s = (Inr tsk, s')"
  shows "tk_ID tsk = i"
proof -
  obtain q s1 where q: "sql_select T (filter (\<lambda>r. live r \<and> tk_ID r = i \<and> same_text E (tk_WorkerID r) worker)) s = (q, s1)"
    by (meson surj_pair)
  with g obtain ts where "q = Inr (tsk # ts)"
    by (auto simp: getTaskByIDAndWorkerID_def first_row_def split: sum.splits list.splits)
  moreover have "q = Inl DbError \<or> q = Inr (filter (\<lambda>r. live r \<and> tk_ID r = i \<and> same_text E (tk_WorkerID r) worker) (t_rows T (s_db s)))"
    using sql_select_cases [OF ok q] by metis
  ultimately have "filter (\<lambda>r. live r \<and> tk_ID r = i \<and> same_text E (tk_WorkerID r) worker) (t_rows T (s_db s)) = tsk # ts"
    by auto
  then show ?thesis by (auto simp: filter_eq_Cons_iff)
qed

lemma nextStepTasks_inv:
  assumes "task_table T" "task_inv T (s_db s) entered" "nextStepTasks T E tsk s = (r, s')"
  shows "task_inv T (s_db s') entered"
  using assms(3,2) task_inv_sql_select [OF assms(1,2)]
  by (auto simp: nextStepTasks_def split: option.splits if_splits sum.splits prod.splits)

lemma after_outcome_inv:
  assumes T: "task_table T" and inv: "task_inv T (s_db (w_sess w)) entered"
  shows "task_inv T (s_db (w_sess (snd (after_outcome T E R now req t w)))) entered"
proof -
  define w2 where "w2 = (if tk_TaskStatus t = TaskStatusFail \<and> tk_Redo t \<le> tk_TaskConfigRedo t
    then snd (PushTaskQueue R (tk_TaskType t) (snd (SetRedis R (go_div now second) (tk_TaskType t) (cb_WorkerID req) 0 w)))
    else snd (SetRedis R (go_div now second) (tk_TaskType t) (cb_WorkerID req) 0 w))"
  have i: "task_inv T (s_db (w_sess w2)) entered" using inv by (simp add: w2_def)
  obtain r s' where n: "nextStepTasks T E (Some t) (w_sess w2) = (r, s')" by (meson surj_pair)
  from i nextStepTasks_inv [OF T i n] n show ?thesis
    unfolding after_outcome_def Let_def w2_def [symmetric] by (cases r) auto
qed

text \<open>
  A callback request either leaves the application alone or is let in for its attempt; in both cases
  the invariant of the table is kept.
\<close>

lemma TaskCallBack_enters:
  assumes T: "task_table T" and reg: "callbacks_ok reg" and inv: "task_inv T (s_db (w_sess w)) entered"
    and call: "TaskCallBack T E R reg now req w u = (resp, w', u')"
  shows "u' = u \<and> task_inv T (s_db (w_sess w')) entered \<or>
    (cb_TaskID req, cb_Attempt req - 1) \<notin> set entered \<and>
    task_inv T (s_db (w_sess w')) (entered @ [(cb_TaskID req, cb_Attempt req - 1)])"
proof (cases "resp_Code (TaskCallBackRequest_Validity req) = 0")
  case False
  with call inv show ?thesis by (simp add: TaskCallBack_def)
next
  case valid: True
  have ok: "sql_ok T" using T by (simp add: task_table_def)
  obtain g s1 where g: "getTaskByIDAndWorkerID T E (cb_TaskID req) (cb_WorkerID req) (w_sess w) = (g, s1)" by (meson surj_pair)
  have i1: "task_inv T (s_db s1) entered" using first_row_select [OF T inv] g by (simp add: getTaskByIDAndWorkerID_def)
  show ?thesis
  proof (cases "\<exists>tsk. g = Inr tsk \<and> tk_TaskStatus tsk = TaskStatusRunning")
    case False
    with call valid g i1 show ?thesis by (auto simp: TaskCallBack_def split: sum.splits if_splits)
  next
    case True
    then obtain tsk where tsk: "g = Inr tsk" "tk_TaskStatus tsk = TaskStatusRunning" by blast
    obtain c s2 where c: "claimCallback T E now (Some tsk) (cb_Attempt req) s1 = (c, s2)" by (meson surj_pair)
    show ?thesis
    proof (cases "c = Inr True")
      case False
      have "u' = u" "w_sess w' = s2" using call valid g tsk c False
        by (auto simp: TaskCallBack_def split: sum.splits bool.splits)
      with reserve_refused [OF T i1 c] show ?thesis by simp
    next
      case True
      have e: "(cb_TaskID req, cb_Attempt req - 1) \<notin> set entered"
        and i2: "task_inv T (s_db s2) (entered @ [(cb_TaskID req, cb_Attempt req - 1)])"
        using reserve_enters [OF T i1 c [unfolded True]] get_task_id [OF ok g [unfolded tsk(1)]] by auto
      obtain t1 u1 where a: "apply_callback reg req now tsk u = (t1, u1)" by (meson surj_pair)
      have "cb_Status req \<in> {TaskStatusSuccess, TaskStatusFail}" using valid validity_codes by auto
      then have st: "tk_TaskStatus t1 \<in> {TaskStatusSuccess, TaskStatusFail}"
        using apply_callback_status [OF reg, of req now tsk u] a by simp
      obtain f t2 s3 where f: "finishClaimFromStatus T E now t1 TaskStatusCompleting s2 = (f, t2, s3)" by (metis prod_cases3)
      have i3: "task_inv T (s_db s3) (entered @ [(cb_TaskID req, cb_Attempt req - 1)])"
        using task_inv_finish [OF T i2 st _ f] by simp
      have "w_sess w' = s3 \<or> w_sess w' = w_sess (snd (after_outcome T E R now req t2 (w\<lparr>w_sess := s3\<rparr>)))"
        using call valid g tsk c True a f
        by (auto simp: TaskCallBack_def split: sum.splits bool.splits prod.splits)
      then have "task_inv T (s_db (w_sess w')) (entered @ [(cb_TaskID req, cb_Attempt req - 1)])"
      proof
        assume "w_sess w' = s3"
        with i3 show ?thesis by simp
      next
        assume "w_sess w' = w_sess (snd (after_outcome T E R now req t2 (w\<lparr>w_sess := s3\<rparr>)))"
        with after_outcome_inv [OF T, of "w\<lparr>w_sess := s3\<rparr>"] i3 show ?thesis by simp
      qed
      with e show ?thesis by blast
    qed
  qed
qed



section \<open>Claims\<close>

text \<open>A claim hands out a task that was ready: of the wanted type, not held by another transaction, with
  retries left, and with no unfinished earlier step in its group. Exactly that row becomes running for
  the worker. Without a claim and without an error the table is as before.
\<close>

theorem claim_takes_ready_task:
  assumes "sql_ok T" and "claimPendingTask fuel T E locked now ty w s = Some (Inr answer, s')"
  shows "case answer of
      None \<Rightarrow> t_rows T (s_db s') = t_rows T (s_db s)
    | Some t \<Rightarrow> \<exists>r. r \<in> set (t_rows T (s_db s)) \<and> t = claim_answer w now r \<and>
        live r \<and> same_text E (tk_TaskType r) ty \<and> retryable r \<and> \<not> locked (tk_ID r) \<and>
        (if independentTaskType E ty then tk_Step r = 0
         else \<not> (\<exists>b. b \<in> set (t_rows T (s_db s)) \<and> same_group E b r \<and> unfinished b \<and> tk_Step b < tk_Step r)) \<and>
        t_rows T (s_db s') = update_where (\<lambda>x. live x \<and> tk_ID x = tk_ID r) (claimed_row E w now) (t_rows T (s_db s))"
proof (cases answer)
  case None
  with claim_loop_result [OF assms(1)] assms(2) show ?thesis
    by (fastforce simp: claimPendingTask_def claim_result_def)
next
  case (Some t)
  with claim_loop_result [OF assms(1)] assms(2)
  obtain r where "claims T E ty w now locked (s_db s) (s_db s') r" "t = claim_answer w now r"
    by (fastforce simp: claimPendingTask_def claim_result_def)
  with Some show ?thesis
    by (auto simp: claims_def may_start_def unblocked_def list_ex_iff split: if_splits intro!: exI [of _ r])
qed

theorem claim_takes_ready_task_witness:
  "\<exists>r s'. claimPendingTask 1 core_task plain_env (\<lambda>_. False) 9 ''report'' ''v'' (sample_session [sample_task 4 TaskStatusPending]) =
      Some (Inr (Some (claim_answer ''v'' 9 r)), s') \<and> r = sample_task 4 TaskStatusPending \<and>
    fst (s_db s') = [claimed_row plain_env ''v'' 9 r]"
proof -
  obtain s' where c: "claimPendingTask 1 core_task plain_env (\<lambda>_. False) 9 ''report'' ''v'' (sample_session [sample_task 4 TaskStatusPending]) =
      Some (Inr (Some (claim_answer ''v'' 9 (sample_task 4 TaskStatusPending))), s')" using sample_claim by blast
  have "sql_ok core_task" using core_task_ok by (simp add: task_table_def)
  from claim_takes_ready_task [OF this c] c show ?thesis
    by (auto simp: sample_session_def update_where_def split: if_splits)
qed

text \<open>The search for a task ends: with n rows in the table, n divided by 32 plus one batches are enough,
  whatever other transactions hold and whichever statements fail.
\<close>

theorem claim_search_ends:
  assumes "sql_ok T" and "keyed T (s_db s)" and "length (t_rows T (s_db s)) div 32 < fuel"
  shows "\<exists>out. claimPendingTask fuel T E locked now ty w s = Some out"
proof -
  have d: "distinct (t_rows T (s_db s))" using assms(2) by (simp add: keyed_def distinct_map)
  have "untried (t_rows T (s_db s)) [] = length (t_rows T (s_db s))"
    by (simp add: untried_def distinct_card [OF d])
  with claim_loop_returns [OF assms(1) d, of "[]"] assms(3) show ?thesis by (simp add: claimPendingTask_def)
qed

theorem claim_search_ends_witness:
  "\<exists>out. claimPendingTask 1 core_task plain_env (\<lambda>i. i = 4) 9 ''report'' ''v'' (sample_session [sample_task 4 TaskStatusPending]) = Some out"
  using core_task_ok
  by (intro claim_search_ends) (simp_all add: task_table_def keyed_def sample_defs)

text \<open>Workers get tasks in order: without failures and other transactions, a claim takes the ready task
  of highest priority, of those the one changed longest ago, of those the oldest.
\<close>

theorem claim_in_order:
  assumes "sql_ok T" and "s_fates s = []" and "keyed T (s_db s)" and "row_id T = tk_ID"
    and "r \<in> set (t_rows T (s_db s))" and "live r" and "same_text E (tk_TaskType r) ty" and "retryable r"
    and "eligibleDependencyQuery E ty (t_rows T (s_db s)) r"
    and "list_all task_member_ok (t_rows T (s_db s))"
  shows "\<exists>t s'. claimPendingTask (Suc fuel) T E (\<lambda>_. False) now ty w s = Some (Inr (Some t), s') \<and>
    (tk_Priority r < tk_Priority t \<or> tk_Priority r = tk_Priority t \<and>
      (tk_UpdatedAt t < tk_UpdatedAt r \<or> tk_UpdatedAt t = tk_UpdatedAt r \<and> tk_ID t \<le> tk_ID r))"
proof -
  define rows where "rows = t_rows T (s_db s)"
  define found where "found = sort_key claim_order (filter (\<lambda>r. live r \<and> same_text E (tk_TaskType r) ty \<and> retryable r \<and>
    eligibleDependencyQuery E ty rows r) rows)"
  have r: "r \<in> set found" using assms(5-9) by (simp add: found_def rows_def)
  then obtain x xs where x: "found = x # xs" by (cases found) auto
  have "sorted (map claim_order found)" by (simp add: found_def)
  with x r have le: "claim_order x \<le> claim_order r" by auto
  have xm: "task_member_ok x"
  proof -
    have "x \<in> set found" using x by simp
    then show ?thesis using assms(10) by (simp add: found_def rows_def list_all_iff)
  qed
  have c: "candidates E ty [] (t_rows T (s_db s)) = x # take 31 xs"
    using x by (simp add: candidates_def claimCandidateBatch_def found_def rows_def)
  have "distinct (map tk_ID (t_rows T (s_db s)))" using assms(3,4) by (simp add: keyed_def)
  from claimPendingTask_best [OF assms(1,2) c xm this, of fuel now w]
  obtain s' where "claimPendingTask (Suc fuel) T E (\<lambda>_. False) now ty w s = Some (Inr (Some (claim_answer w now x)), s')" by blast
  with le show ?thesis by (auto simp: claim_order_def claim_answer_def)
qed

theorem claim_in_order_witness:
  "\<exists>t s'. claimPendingTask (Suc 0) core_task plain_env (\<lambda>_. False) 9 ''report'' ''v'' (sample_session [sample_task 4 TaskStatusPending]) =
     Some (Inr (Some t), s') \<and> (0 < tk_Priority t \<or> 0 = tk_Priority t \<and> (tk_UpdatedAt t < 5 \<or> tk_UpdatedAt t = 5 \<and> tk_ID t \<le> 4))"
proof -
  have "sql_ok core_task" "keyed core_task (s_db (sample_session [sample_task 4 TaskStatusPending]))" "row_id core_task = tk_ID"
    using core_task_ok by (simp_all add: task_table_def keyed_def sample_defs)
  from claim_in_order [OF this(1) _ this(2,3), of "sample_task 4 TaskStatusPending" plain_env "''report''" 0 9 "''v''"]
  show ?thesis
    using sample_member [of 4 TaskStatusPending]
    by (simp add: sample_defs live_def retryable_def eligibleDependencyQuery_def
        independentTaskType_def readyTaskJoin_def unfinished_def same_group_def)
qed

section \<open>Outcomes\<close>

lemma affected_at_most_one:
  assumes "distinct (map i rows)" and "\<And>r. p r \<Longrightarrow> i r = k"
  shows "affected found p f rows \<le> 1"
proof -
  have "distinct (map i (filter (\<lambda>r. p r \<and> (found \<or> f r \<noteq> r)) rows))" using assms(1) by (simp add: distinct_map_filter)
  moreover have "set (map i (filter (\<lambda>r. p r \<and> (found \<or> f r \<noteq> r)) rows)) \<subseteq> {k}" using assms(2) by auto
  ultimately have "length (map i (filter (\<lambda>r. p r \<and> (found \<or> f r \<noteq> r)) rows)) \<le> card {k}"
    by (metis card_mono distinct_card finite.emptyI finite_insert)
  then show ?thesis by (simp add: affected_def)
qed

lemma affected_none:
  "affected found p f rows = 0 \<Longrightarrow> update_where p f rows = rows"
  by (induction rows) (auto simp: affected_def update_where_def split: if_splits)



section \<open>Creation\<close>

lemma first_invalid_None:
  "first_invalid E n ts = None \<longleftrightarrow> (\<forall>t \<in> set ts. validateNewTask E t = None)"
  by (induction ts arbitrary: n) (auto split: option.splits)

text \<open>Tasks are created together or not at all: a successful call has validated every task and has
  appended them in order with consecutive identifiers; after a failed call the table is unchanged, or all
  of them are there because only the answer of the database was lost.
\<close>

theorem tasks_created_together:
  assumes "task_table T" and "createTasks T E now wake tasks s q = (res, s', q')"
  shows "case res of
      Inr rows \<Rightarrow> t_rows T (s_db s') = t_rows T (s_db s) @ rows \<and>
        map tk_ID rows = [t_next T (s_db s)..<t_next T (s_db s) + length tasks] \<and>
        map (\<lambda>r. r\<lparr>tk_ID := 0\<rparr>) rows = map (\<lambda>t. (stamped now (the t))\<lparr>tk_ID := 0\<rparr>) tasks \<and>
        list_all (\<lambda>t. validateNewTask E t = None) tasks
    | Inl _ \<Rightarrow> t_rows T (s_db s') = t_rows T (s_db s) \<or>
        list_all (\<lambda>t. validateNewTask E t = None) tasks \<and>
        t_rows T (s_db s') = t_rows T (s_db s) @ number_rows (with_id T) (t_next T (s_db s)) (map (\<lambda>t. stamped now (the t)) tasks)"
proof (cases "tasks = [] \<or> first_invalid E 0 tasks \<noteq> None")
  case True
  with assms(2) show ?thesis by (auto simp: createTasks_def split: option.splits if_splits)
next
  case False
  define xs where "xs = map (\<lambda>t. stamped now (the t)) tasks"
  define new where "new = number_rows (with_id T) (t_next T (s_db s)) xs"
  have ok: "sql_ok T" and w: "with_id T = (\<lambda>n r. r\<lparr>tk_ID := n\<rparr>)" using assms(1) by (simp_all add: task_table_def)
  have v: "list_all (\<lambda>t. validateNewTask E t = None) tasks" using False by (simp add: first_invalid_None list_all_iff)
  have ids: "map tk_ID new = [t_next T (s_db s)..<t_next T (s_db s) + length tasks]"
    using number_rows_ids [of tk_ID "with_id T" "t_next T (s_db s)" xs] by (simp add: new_def w xs_def)
  have body: "map (\<lambda>r. r\<lparr>tk_ID := 0\<rparr>) (number_rows (with_id T) n ys) = map (\<lambda>r. r\<lparr>tk_ID := 0\<rparr>) ys" for n ys
    by (induction ys arbitrary: n) (simp_all add: w)
  obtain r s1 where i: "sql_insert T xs s = (r, s1)" by (meson surj_pair)
  have res: "s' = s1" "res = (case r of Inl _ \<Rightarrow> Inl db_error | Inr rows \<Rightarrow> Inr rows)"
    using assms(2) False i by (auto simp: createTasks_def xs_def split: option.splits sum.splits)
  from ok i show ?thesis
    by (cases rule: sql_insert_cases) (use res v ids body in \<open>simp_all add: new_def xs_def comp_def\<close>)
qed

theorem tasks_created_together_witness:
  "map tk_ID (fst (s_db (fst (snd (createTasks core_task plain_env 9 (\<lambda>_ q. (None, q))
     [Some (sample_task 0 TaskStatusPending), Some (sample_task 0 TaskStatusPending)] (sample_session []) ()))))) = [9, 10]"
proof -
  let ?ts = "[Some (sample_task 0 TaskStatusPending), Some (sample_task 0 TaskStatusPending)]"
  have valid: "validateNewTask plain_env (Some (sample_task 0 TaskStatusPending)) = None"
    using sample_member [of 0 TaskStatusPending]
    by (simp add: validateNewTask_def independentTaskType_def) (simp add: sample_defs)
  have "\<exists>rows s'. createTasks core_task plain_env 9 (\<lambda>_ q. (None, q)) ?ts (sample_session []) () = (Inr rows, s', ())"
    using valid by (simp add: createTasks_def sql_run sample_session_def Let_def)
  then obtain rows s' where c: "createTasks core_task plain_env 9 (\<lambda>_ q. (None, q)) ?ts (sample_session []) () = (Inr rows, s', ())"
    by blast
  from tasks_created_together [OF core_task_ok c] c show ?thesis by (simp add: sample_session_def upt_rec)
qed

end
