(* ===== verification/Task_Progress.thy ===== *)
theory Task_Progress
  imports Task_Properties
begin

text \<open>
  Properties of package \<open>task\<close> on progress: the sweep over expired claims, the steps a success unblocks,
  the way of a task from its claim to its stored result, and the heartbeat.
\<close>

section \<open>The sweep\<close>

definition overdue :: "time \<Rightarrow> task \<Rightarrow> bool" where
  "overdue now r \<longleftrightarrow> (case tk_StartAt r of None \<Rightarrow> False | Some a \<Rightarrow> a + tk_TaskConfigTimeout r < now)"

definition timed_out :: "task_env \<Rightarrow> time \<Rightarrow> task \<Rightarrow> task" where
  "timed_out E now r =
     r\<lparr>tk_TaskStatus := TaskStatusFail, tk_ErrMsg := ''timeout'', tk_EndAt := Some (col_time E now),
       tk_Cost := cost_of (r\<lparr>tk_EndAt := Some now\<rparr>), tk_Redo := tk_Redo r + 1, tk_UpdatedAt := now\<rparr>"

definition swept :: "task_env \<Rightarrow> time \<Rightarrow> task \<Rightarrow> task" where
  "swept E now r =
     (if live r \<and> tk_TaskStatus r = TaskStatusRunning \<and> overdue now r then timed_out E now r
      else if live r \<and> tk_TaskStatus r = TaskStatusCompleting \<and> tk_UpdatedAt r < now - hour then abandoned_row E now r
      else r)"

text \<open>Without failures, expiring one running row changes just that row.\<close>

lemma expire_one:
  assumes ok: "sql_ok T" and s: "s_fates s = []" and k: "distinct (map tk_ID (t_rows T (s_db s)))"
    and t: "t \<in> set (t_rows T (s_db s))" "live t" "tk_TaskStatus t = TaskStatusRunning" "overdue now t"
    and rfl: "\<And>x. same_text E x x"
  shows "\<exists>res t2 s'. finishClaim T E now (t\<lparr>tk_TaskStatus := TaskStatusFail, tk_ErrMsg := ''timeout'', tk_EndAt := Some now\<rparr>) s = (res, t2, s') \<and>
    s_fates s' = [] \<and> t_rows T (s_db s') = map (\<lambda>r. if r = t then timed_out E now r else r) (t_rows T (s_db s))"
proof -
  define t1 where "t1 = t\<lparr>tk_TaskStatus := TaskStatusFail, tk_ErrMsg := ''timeout'', tk_EndAt := Some now\<rparr>"
  define t2 where "t2 = t1\<lparr>tk_Cost := cost_of t1, tk_Redo := tk_Redo t1 + 1\<rparr>"
  define p where "p = claim_fence E t2 (tk_Redo t1) TaskStatusRunning"
  obtain s' where u: "sql_update T p (outcome_row E t2 now) s = (Inr (affected (t_found_rows T) p (outcome_row E t2 now) (t_rows T (s_db s))), s')"
    "s_fates s' = []" "t_rows T (s_db s') = update_where p (outcome_row E t2 now) (t_rows T (s_db s))"
    using sql_delivered(2) [OF ok s] by blast
  have start: "tk_StartAt t \<noteq> None" using t(4) by (auto simp: overdue_def split: option.splits)
  have "p r \<longleftrightarrow> r = t" if "r \<in> set (t_rows T (s_db s))" for r
    using that k t start rfl by (auto simp: p_def t2_def t1_def claim_fence_def distinct_map inj_on_def)
  moreover have "outcome_row E t2 now t = timed_out E now t"
    by (cases "tk_StartAt t") (simp_all add: outcome_row_def timed_out_def t2_def t1_def cost_of_def)
  ultimately have "t_rows T (s_db s') = map (\<lambda>r. if r = t then timed_out E now r else r) (t_rows T (s_db s))"
    unfolding u(3) update_where_def by (intro map_cong) auto
  moreover have "finishClaim T E now t1 s = (Inr (affected (t_found_rows T) p (outcome_row E t2 now) (t_rows T (s_db s)) = 1), t2, s')"
    using u(1) start by (simp add: finishClaim_def finishClaimFromStatus_def Let_def p_def t2_def t1_def)
  ultimately show ?thesis using u(2) unfolding t1_def by blast
qed

lemma expire_all_rows:
  assumes ok: "sql_ok T" and rfl: "\<And>x. same_text E x x"
  shows "s_fates s = [] \<Longrightarrow> distinct (map tk_ID (t_rows T (s_db s))) \<Longrightarrow> distinct ts \<Longrightarrow>
    set ts \<subseteq> {r \<in> set (t_rows T (s_db s)). live r \<and> tk_TaskStatus r = TaskStatusRunning} \<Longrightarrow>
    s_fates (expire_all T E now ts s) = [] \<and>
    t_rows T (s_db (expire_all T E now ts s)) = map (\<lambda>r. if r \<in> set ts \<and> overdue now r then timed_out E now r else r) (t_rows T (s_db s))"
proof (induction ts arbitrary: s)
  case (Cons t ts)
  let ?rows = "t_rows T (s_db s)"
  show ?case
  proof (cases "overdue now t")
    case False
    have "expire_all T E now (t # ts) s = expire_all T E now ts s"
      using False by (auto simp: overdue_def split: option.splits)
    moreover have "map (\<lambda>r. if r \<in> set ts \<and> overdue now r then timed_out E now r else r) ?rows =
        map (\<lambda>r. if r \<in> set (t # ts) \<and> overdue now r then timed_out E now r else r) ?rows"
      using False by (intro map_cong) auto
    ultimately show ?thesis using Cons.IH [of s] Cons.prems by simp
  next
    case True
    have tt: "t \<in> set ?rows" "live t" "tk_TaskStatus t = TaskStatusRunning" using Cons.prems(4) by auto
    obtain res t2 s1 where f: "finishClaim T E now (t\<lparr>tk_TaskStatus := TaskStatusFail, tk_ErrMsg := ''timeout'', tk_EndAt := Some now\<rparr>) s = (res, t2, s1)"
      "s_fates s1 = []" "t_rows T (s_db s1) = map (\<lambda>r. if r = t then timed_out E now r else r) ?rows"
      using expire_one [OF ok Cons.prems(1,2) tt True rfl] by blast
    have step: "expire_all T E now (t # ts) s = expire_all T E now ts s1"
      using True f(1) by (auto simp: overdue_def split: option.splits)
    have ids: "map tk_ID (t_rows T (s_db s1)) = map tk_ID ?rows" by (simp add: f(3) timed_out_def)
    have "set ts \<subseteq> {r \<in> set (t_rows T (s_db s1)). live r \<and> tk_TaskStatus r = TaskStatusRunning}"
      using Cons.prems(3,4) by (force simp: f(3))
    with Cons.IH [OF f(2)] Cons.prems(2,3) ids
    have ih: "s_fates (expire_all T E now ts s1) = []"
      "t_rows T (s_db (expire_all T E now ts s1)) = map (\<lambda>r. if r \<in> set ts \<and> overdue now r then timed_out E now r else r) (t_rows T (s_db s1))"
      by simp_all
    have "timed_out E now t \<notin> set ts"
    proof
      assume "timed_out E now t \<in> set ts"
      with Cons.prems(4) show False by (auto simp: timed_out_def)
    qed
    then have "map (\<lambda>r. if r \<in> set ts \<and> overdue now r then timed_out E now r else r) (t_rows T (s_db s1)) =
        map (\<lambda>r. if r \<in> set (t # ts) \<and> overdue now r then timed_out E now r else r) ?rows"
      unfolding f(3) map_map by (intro map_cong) (use True in auto)
    with ih show ?thesis unfolding step by simp
  qed
qed simp

text \<open>One sweep without database failures does exactly this to every row: a running task past its
  timeout fails with one attempt used up, a callback that was entered over an hour ago without a stored
  outcome fails for good, and everything else stays.
\<close>

theorem sweep_effect:
  assumes "task_table T" and "s_fates s = []" and "keyed T (s_db s)" and "\<And>x. same_text E x x"
  shows "t_rows T (s_db (CheckAndTimeoutTasks T E now s)) = map (swept E now) (t_rows T (s_db s))"
proof -
  have ok: "sql_ok T" and id: "row_id T = tk_ID" using assms(1) by (simp_all add: task_table_def)
  define q where "q = filter (\<lambda>r. live r \<and> tk_TaskStatus r = TaskStatusRunning)"
  let ?rows = "t_rows T (s_db s)"
  obtain s1 where s1: "sql_select T q s = (Inr (q ?rows), s1)" "s_fates s1 = []" "t_rows T (s_db s1) = ?rows"
    using sql_delivered(1) [OF ok assms(2)] by blast
  have k: "distinct (map tk_ID ?rows)" using assms(3) id by (simp add: keyed_def)
  then have d: "distinct (q ?rows)" by (simp add: q_def distinct_map)
  define s2 where "s2 = expire_all T E now (q ?rows) s1"
  have s2: "s_fates s2 = []" "t_rows T (s_db s2) = map (\<lambda>r. if r \<in> set (q ?rows) \<and> overdue now r then timed_out E now r else r) ?rows"
    using expire_all_rows [OF ok assms(4) s1(2) _ d] k s1(3) by (auto simp: s2_def q_def)
  obtain n s3 where s3: "sql_update T (\<lambda>r. live r \<and> tk_TaskStatus r = TaskStatusCompleting \<and> tk_UpdatedAt r < now - hour) (abandoned_row E now) s2 = (Inr n, s3)"
    "t_rows T (s_db s3) = update_where (\<lambda>r. live r \<and> tk_TaskStatus r = TaskStatusCompleting \<and> tk_UpdatedAt r < now - hour) (abandoned_row E now) (t_rows T (s_db s2))"
    using sql_delivered(2) [OF ok s2(1)] by blast
  have "CheckAndTimeoutTasks T E now s = s3"
    using s1(1) s3(1) by (simp add: CheckAndTimeoutTasks_def q_def s2_def)
  moreover have "t_rows T (s_db s3) = map (swept E now) ?rows"
    unfolding s3(2) s2(2) update_where_def map_map
    by (rule map_cong) (auto simp: swept_def q_def timed_out_def)
  ultimately show "t_rows T (s_db (CheckAndTimeoutTasks T E now s)) = map (swept E now) ?rows" by simp
qed

theorem sweep_effect_witness:
  "t_rows core_task (s_db (CheckAndTimeoutTasks core_task plain_env 4000000000000
     (sample_session [sample_task 4 TaskStatusRunning, sample_task 5 TaskStatusCompleting, sample_task 6 TaskStatusSuccess]))) =
   [timed_out plain_env 4000000000000 (sample_task 4 TaskStatusRunning),
    abandoned_row plain_env 4000000000000 (sample_task 5 TaskStatusCompleting), sample_task 6 TaskStatusSuccess] \<and>
   \<not> retryable (abandoned_row plain_env 4000000000000 (sample_task 5 TaskStatusCompleting))"
proof -
  let ?s = "sample_session [sample_task 4 TaskStatusRunning, sample_task 5 TaskStatusCompleting, sample_task 6 TaskStatusSuccess]"
  have s: "s_fates ?s = []" "keyed core_task (s_db ?s)" "\<And>x. same_text plain_env x x"
    by (simp_all add: keyed_def sample_defs)
  have "map (swept plain_env 4000000000000) (fst (s_db ?s)) =
    [timed_out plain_env 4000000000000 (sample_task 4 TaskStatusRunning),
     abandoned_row plain_env 4000000000000 (sample_task 5 TaskStatusCompleting), sample_task 6 TaskStatusSuccess]"
    by (simp add: sample_session_def swept_def) (simp add: sample_task_def live_def overdue_def hour_def minute_def second_def)
  with sweep_effect [OF core_task_ok s, of 4000000000000] show ?thesis
    by (simp add: abandoned_row_def retryable_def)
qed

section \<open>The next step\<close>

lemma same_group_equiv:
  assumes "equivp (same_text E)"
  shows "same_group E a a" "same_group E a b \<Longrightarrow> same_group E b a"
    "same_group E a b \<Longrightarrow> same_group E b c \<Longrightarrow> same_group E a c"
  using equivp_reflp [OF assms, of "tk_AppGroup a"] equivp_symp [OF assms, of "tk_AppGroup a" "tk_AppGroup b"]
    equivp_transp [OF assms, of "tk_AppGroup a" "tk_AppGroup b" "tk_AppGroup c"]
  by (simp_all add: same_group_def)

text \<open>What a finished task wakes up can start: the tasks returned as next lie after it in its group, have
  retries left, have no unfinished task before them, and all belong to one step.
\<close>

theorem next_steps_can_start:
  assumes "sql_ok T" and "equivp (same_text E)" and "nextStepTasks T E (Some t) s = (Inr ts, s')" and "a \<in> set ts" and "b \<in> set ts"
  shows "readyTaskJoin E (t_rows T (s_db s)) a \<and> retryable a \<and> live a \<and> same_group E a t \<and> tk_Step t < tk_Step a \<and> tk_Step a = tk_Step b"
proof -
  note eq = same_group_equiv [OF assms(2)]
  let ?rows = "t_rows T (s_db s)"
  obtain q s1 where q: "sql_select T (next_step_query E t) s = (q, s1)" by (meson surj_pair)
  have "q = Inr ts" using assms(3,4) q by (auto simp: nextStepTasks_def split: if_splits sum.splits)
  then have "ts = next_step_query E t ?rows" using sql_select_cases [OF assms(1) q] by (metis Inl_Inr_False Inr_inject)
  then have mem: "x \<in> set ?rows" "live x" "same_group E x t" "tk_Step t < tk_Step x" "retryable x" "unblocked E ?rows x"
    if "x \<in> set ts" for x using that by (auto simp: next_step_query_def)
  then have un: "unfinished x" if "x \<in> set ts" for x
    using mem(2,5) [OF that] by (auto simp: unfinished_def retryable_def)
  have le: "tk_Step x \<le> tk_Step y" if "x \<in> set ts" "y \<in> set ?rows" "unfinished y" "same_group E y x" for x y
    using mem(6) [OF that(1)] that by (auto simp: unblocked_def list_ex_iff)
  have "same_group E b a" "same_group E a b" using mem(3) assms(4,5) eq(2,3) by blast+
  then have "tk_Step a = tk_Step b" using le [OF assms(4) mem(1) un] le [OF assms(5) mem(1) un] assms(4,5) by force
  moreover have "readyTaskJoin E ?rows a"
    using mem(1) [OF assms(4)] un [OF assms(4)] eq(1) le [OF assms(4)] by (auto simp: readyTaskJoin_def list_all_iff)
  ultimately show ?thesis using mem assms(4) by blast
qed

theorem next_steps_can_start_witness:
  "(let a = (sample_task 5 TaskStatusPending)\<lparr>tk_Step := 1\<rparr>; t = sample_task 4 TaskStatusSuccess; s = sample_session [t, a]
    in \<exists>s'. nextStepTasks core_task plain_env (Some t) s = (Inr [a], s') \<and> readyTaskJoin plain_env [t, a] a)"
proof -
  define a where "a = (sample_task 5 TaskStatusPending)\<lparr>tk_Step := 1\<rparr>"
  define t where "t = sample_task 4 TaskStatusSuccess"
  have "task_member_ok t" by (simp add: t_def)
  moreover have "next_step_query plain_env t [t, a] = [a]"
    by (simp add: next_step_query_def t_def a_def sample_defs live_def same_group_def retryable_def unblocked_def unfinished_def)
  ultimately have n: "\<exists>s'. nextStepTasks core_task plain_env (Some t) (sample_session [t, a]) = (Inr [a], s')"
    by (simp add: nextStepTasks_def independentTaskType_def sql_run sample_session_def plain_env_def)
  then obtain s' where "nextStepTasks core_task plain_env (Some t) (sample_session [t, a]) = (Inr [a], s')" by blast
  with next_steps_can_start [OF _ _ this, of a a] core_task_ok have "readyTaskJoin plain_env [t, a] a"
    by (simp add: task_table_def plain_env_def sample_session_def identity_equivp)
  with n show ?thesis by (simp add: a_def [symmetric] t_def [symmetric])
qed

section \<open>From claim to result\<close>

lemma filter_unique: "distinct xs \<Longrightarrow> r \<in> set xs \<Longrightarrow> filter ((=) r) xs = [r]"
  by (induction xs) (auto simp: filter_empty_conv)

lemma ids_kept: "(\<And>x. p x \<Longrightarrow> tk_ID (f x) = tk_ID x) \<Longrightarrow> map tk_ID (map (\<lambda>x. if p x then f x else x) xs) = map tk_ID xs"
  by (induction xs) auto

lemma sql_update_one:
  assumes ok: "sql_ok T" and s: "s_fates s = []" and k: "distinct (map tk_ID (t_rows T (s_db s)))"
    and r: "r \<in> set (t_rows T (s_db s))" "p r" and p: "\<And>x. p x \<Longrightarrow> tk_ID x = tk_ID r" and f: "\<And>x. p x \<Longrightarrow> f x \<noteq> x"
  shows "\<exists>s'. sql_update T p f s = (Inr 1, s') \<and> s_fates s' = [] \<and>
    t_rows T (s_db s') = map (\<lambda>x. if x = r then f r else x) (t_rows T (s_db s))"
proof -
  have one: "p x \<longleftrightarrow> r = x" if "x \<in> set (t_rows T (s_db s))" for x
  proof
    assume "p x"
    then have "tk_ID r = tk_ID x" using p [of x] by simp
    then show "r = x" using k that r(1) by (simp add: distinct_map inj_on_def)
  qed (use r in simp)
  have "filter (\<lambda>x. p x \<and> (t_found_rows T \<or> f x \<noteq> x)) (t_rows T (s_db s)) = filter ((=) r) (t_rows T (s_db s))"
    using one f [OF r(2)] by (intro filter_cong) auto
  also have "\<dots> = [r]" using k r(1) by (simp add: distinct_map filter_unique)
  finally have "affected (t_found_rows T) p f (t_rows T (s_db s)) = 1" by (simp add: affected_def)
  moreover have "update_where p f (t_rows T (s_db s)) = map (\<lambda>x. if x = r then f r else x) (t_rows T (s_db s))"
    unfolding update_where_def using one by (intro map_cong) auto
  ultimately show ?thesis using sql_delivered(2) [OF ok s, of p f] by auto
qed

lemma get_running:
  assumes ok: "sql_ok T" and s: "s_fates s = []" and k: "distinct (map tk_ID (t_rows T (s_db s)))"
    and r: "r \<in> set (t_rows T (s_db s))" "live r" "same_text E (tk_WorkerID r) worker"
  shows "\<exists>s'. getTaskByIDAndWorkerID T E (tk_ID r) worker s = (Inr r, s') \<and> s_fates s' = [] \<and>
    t_rows T (s_db s') = t_rows T (s_db s)"
proof -
  define q where "q = filter (\<lambda>x. live x \<and> tk_ID x = tk_ID r \<and> same_text E (tk_WorkerID x) worker)"
  have "q (t_rows T (s_db s)) = filter ((=) r) (t_rows T (s_db s))"
    unfolding q_def using k r by (intro filter_cong) (auto simp: distinct_map inj_on_def)
  also have "\<dots> = [r]" using k r(1) by (simp add: distinct_map filter_unique)
  finally show ?thesis
    using sql_delivered(1) [OF ok s, of q] by (auto simp: getTaskByIDAndWorkerID_def first_row_def q_def)
qed

text \<open>The two statements of a callback on a row that is running for it.\<close>

lemma reserve_running:
  fixes now :: time
  assumes ok: "sql_ok T" and s: "s_fates s = []" and k: "distinct (map tk_ID (t_rows T (s_db s)))"
    and r: "r \<in> set (t_rows T (s_db s))" "live r" "tk_TaskStatus r = TaskStatusRunning" "tk_StartAt r \<noteq> None" "0 \<le> tk_Redo r"
    and rfl: "\<And>x. same_text E x x"
  defines "r' \<equiv> r\<lparr>tk_TaskStatus := TaskStatusCompleting, tk_UpdatedAt := now\<rparr>"
  shows "\<exists>s'. claimCallback T E now (Some r) (tk_Redo r + 1) s = (Inr True, s') \<and> s_fates s' = [] \<and>
    t_rows T (s_db s') = map (\<lambda>x. if x = r then r' else x) (t_rows T (s_db s))"
proof -
  define f :: "task \<Rightarrow> task" where "f = (\<lambda>r. r\<lparr>tk_TaskStatus := TaskStatusCompleting, tk_UpdatedAt := now\<rparr>)"
  define p where "p = claim_fence E r (tk_Redo r) TaskStatusRunning"
  have "p r" using r rfl by (auto simp: p_def claim_fence_def)
  moreover have "f x \<noteq> x" if "p x" for x
  proof
    assume "f x = x"
    then have "tk_TaskStatus (f x) = tk_TaskStatus x" by simp
    with that show False by (simp add: p_def claim_fence_def f_def)
  qed
  moreover have "tk_ID x = tk_ID r" if "p x" for x using that by (simp add: p_def claim_fence_def)
  ultimately obtain s' where "sql_update T p f s = (Inr 1, s')" "s_fates s' = []"
    "t_rows T (s_db s') = map (\<lambda>x. if x = r then f r else x) (t_rows T (s_db s))"
    using sql_update_one [OF ok s k r(1), of p f] by blast
  then show ?thesis using r(4,5) by (simp add: claimCallback_def p_def f_def r'_def)
qed

lemma finish_completing:
  assumes ok: "sql_ok T" and s: "s_fates s = []" and k: "distinct (map tk_ID (t_rows T (s_db s)))"
    and r: "r \<in> set (t_rows T (s_db s))" "claim_fence E t (tk_Redo t) TaskStatusCompleting r"
    and t: "tk_TaskStatus t = TaskStatusSuccess" "tk_EndAt t \<noteq> None"
  defines "t' \<equiv> t\<lparr>tk_Cost := cost_of t\<rparr>"
  shows "\<exists>s'. finishClaimFromStatus T E now t TaskStatusCompleting s = (Inr True, t', s') \<and> s_fates s' = [] \<and>
    t_rows T (s_db s') = map (\<lambda>x. if x = r then outcome_row E t' now r else x) (t_rows T (s_db s))"
proof -
  define p where "p = claim_fence E t' (tk_Redo t') TaskStatusCompleting"
  have pt: "p = claim_fence E t (tk_Redo t) TaskStatusCompleting" by (auto simp: p_def t'_def claim_fence_def fun_eq_iff)
  have "p r" using r(2) pt by simp
  moreover have "outcome_row E t' now x \<noteq> x" if "p x" for x
  proof
    assume "outcome_row E t' now x = x"
    then have "tk_TaskStatus (outcome_row E t' now x) = tk_TaskStatus x" by simp
    with that t(1) show False by (simp add: p_def claim_fence_def outcome_row_def t'_def)
  qed
  moreover have "tk_ID x = tk_ID r" if "p x" for x using that r(2) pt by (simp add: claim_fence_def)
  ultimately obtain s' where "sql_update T p (outcome_row E t' now) s = (Inr 1, s')" "s_fates s' = []"
    "t_rows T (s_db s') = map (\<lambda>x. if x = r then outcome_row E t' now r else x) (t_rows T (s_db s))"
    using sql_update_one [OF ok s k r(1), of p "outcome_row E t' now"] by blast
  then show ?thesis using r(2) t by (simp add: finishClaimFromStatus_def p_def t'_def claim_fence_def)
qed

lemma after_success:
  assumes ok: "sql_ok T" and s: "s_fates (w_sess w) = []" and t: "tk_TaskStatus t = TaskStatusSuccess" "task_member_ok t"
  shows "\<exists>w'. after_outcome T E R now req t w = (ok_response, w') \<and> t_rows T (s_db (w_sess w')) = t_rows T (s_db (w_sess w))"
proof -
  define w1 where "w1 = snd (SetRedis R (go_div now second) (tk_TaskType t) (cb_WorkerID req) 0 w)"
  have w1: "w_sess w1 = w_sess w" by (simp add: w1_def)
  obtain ts s' where n: "nextStepTasks T E (Some t) (w_sess w) = (Inr ts, s')" "t_rows T (s_db s') = t_rows T (s_db (w_sess w))"
    using sql_delivered(1) [OF ok s, of "next_step_query E t"] t(2) by (cases "independentTaskType E (tk_TaskType t) \<and> tk_Step t = 0") (auto simp: nextStepTasks_def)
  then show ?thesis
    unfolding after_outcome_def Let_def w1_def [symmetric] using t(1) w1 by (simp add: t)
qed



section \<open>Heartbeats\<close>

text \<open>The heartbeat that a worker stores is read back by the health check as written: within thirty
  seconds the worker counts as alive, afterwards exactly the task it had reported is expired.
\<close>

theorem heartbeat_read_back:
  assumes "0 \<le> t" and "int64 t" and "taskid < 2 ^ 64"
  shows "read_heartbeat now (heartbeat_text t taskid) = (if now - t > 30 then Expired (Some taskid) else Alive)"
  by (rule read_heartbeat_text [OF assms])

theorem heartbeat_read_back_witness:
  "read_heartbeat 1700000040 (heartbeat_text 1700000000 17) = Expired (Some 17) \<and>
   read_heartbeat 1700000030 (heartbeat_text 1700000000 17) = Alive"
  using heartbeat_read_back [of 1700000000 17 1700000040] heartbeat_read_back [of 1700000000 17 1700000030]
  by (simp add: int64_def)

end
