(* ===== verification/Upload_Types.thy ===== *)
theory Upload_Types
  imports Request_Context Sql_Service Go_Path
begin

text \<open>
  Package \<open>fileupload\<close>, data and validation (\<open>types.go\<close>, the validating functions of \<open>service.go\<close> and
  \<open>verifier.go\<close>) with the parts of \<open>storage/fileinfo.go\<close> that it uses: sessions, registered files,
  requests, and what is accepted of them.

  \<open>upload_env\<close> collects what the package takes from outside: \<open>mime.ParseMediaType\<close> (the media type of a
  well-formed value), \<open>uuid.Parse\<close> followed by \<open>String\<close>, the lower case table, SHA-256, the collation of
  the identifier columns and the precision of a \<open>datetime(3)\<close> column.
\<close>

section \<open>Errors\<close>

datatype usent =
    ErrInvalidRequest | ErrNotFound | ErrConflict | ErrExpired | ErrIntegrity | ErrUnavailable
  | CtxCanceled | CtxDeadline

type_synonym uerror = "usent go_error"

fun usent_text :: "usent \<Rightarrow> string" where
  "usent_text ErrInvalidRequest = ''invalid file upload request''"
| "usent_text ErrNotFound = ''file upload not found''"
| "usent_text ErrConflict = ''file upload state conflict''"
| "usent_text ErrExpired = ''file upload expired''"
| "usent_text ErrIntegrity = ''file upload integrity check failed''"
| "usent_text ErrUnavailable = ''file upload dependency unavailable''"
| "usent_text CtxCanceled = ''context canceled''"
| "usent_text CtxDeadline = ''context deadline exceeded''"

definition uerr :: "usent \<Rightarrow> uerror" where
  "uerr s = errors_new s (usent_text s)"

definition uerrf :: "usent \<Rightarrow> string \<Rightarrow> uerror" where
  "uerrf s detail = errorf_w (uerr s) detail"

lemma uerr_is [simp]: "errors_is (uerr s) t \<longleftrightarrow> t = s" "errors_is (uerrf s d) t \<longleftrightarrow> t = s"
  by (auto simp: uerr_def uerrf_def)

section \<open>Data\<close>

datatype upload_mode = ModeSingle | ModeMultipart | ModeReused

datatype upload_state = StateActive | StateCompleting | StateAborting | StateCompleted | StateAborted | StateExpired

record upload_env =
  ue_media :: "string \<Rightarrow> string option"
  ue_uuid :: "string \<Rightarrow> string option"
  ue_lower :: "nat \<Rightarrow> nat"
  ue_sha256 :: "string \<Rightarrow> nat list"
  ue_same :: "string \<Rightarrow> string \<Rightarrow> bool"
  ue_ms :: "time \<Rightarrow> time"

record upload_options =
  op_MultipartThreshold :: int
  op_PartSize :: int
  op_CompletionTimeout :: duration
  op_CleanupGrace :: duration

record upload_request =
  rq_ID :: string
  rq_Owner :: member
  rq_Purpose :: string
  rq_Filename :: string
  rq_FileExt :: string
  rq_MIMEType :: string
  rq_SizeBytes :: int
  rq_SHA256 :: string
  rq_AllowMultipart :: bool
  rq_ExpiresAt :: time

record upload_session =
  us_ID :: string
  us_OrganizationID :: string
  us_UserID :: string
  us_Purpose :: string
  us_Filename :: string
  us_FileExt :: string
  us_MIMEType :: string
  us_SizeBytes :: int
  us_SHA256 :: string
  us_StoragePath :: string
  us_MultipartID :: string
  us_Mode :: upload_mode
  us_PartSize :: int
  us_PartCount :: int
  us_ExpiresAt :: time
  us_FileID :: "nat option"
  us_State :: upload_state
  us_LeaseToken :: string
  us_LeaseExpiresAt :: "time option"
  us_CreatedAt :: time
  us_UpdatedAt :: time

record core_file =
  cf_ID :: nat
  cf_CreatedAt :: time
  cf_UpdatedAt :: time
  cf_DeletedAt :: "time option"
  cf_OrganizationID :: string
  cf_UserID :: string
  cf_Purpose :: string
  cf_Filename :: string
  cf_FileExt :: string
  cf_MIMEType :: string
  cf_Size :: int
  cf_Hash :: string
  cf_StoragePath :: string
  cf_PublicURL :: string

record verified_object =
  vo_SizeBytes :: int
  vo_SHA256 :: string
  vo_MIMEType :: string
  vo_StoragePath :: string
  vo_ETag :: string

record upload_part =
  pt_PartNumber :: int
  pt_ETag :: string

definition session_owner :: "upload_session \<Rightarrow> member" where
  "session_owner x = \<lparr>OrganizationID = us_OrganizationID x, UserID = us_UserID x\<rparr>"

section \<open>Limits\<close>

definition maxPartCount :: int where "maxPartCount = 10000"
definition maxPartURLBatch :: nat where "maxPartURLBatch = 100"
definition maxCleanupBatch :: int where "maxCleanupBatch = 1000"
definition defaultMultipartThreshold :: int where "defaultMultipartThreshold = 64 * 2 ^ 20"
definition defaultPartSize :: int where "defaultPartSize = 16 * 2 ^ 20"
definition defaultCompletionTimeout :: duration where "defaultCompletionTimeout = 10 * minute"
definition defaultCleanupGrace :: duration where "defaultCleanupGrace = 24 * hour"
definition defaultSingleUploadTTL :: duration where "defaultSingleUploadTTL = 15 * minute"
definition defaultMultipartUploadTTL :: duration where "defaultMultipartUploadTTL = 24 * hour"

text \<open>\<open>newWithRepository\<close>; the two flags say whether the repository and the storage are given.\<close>

definition newWithRepository :: "bool \<Rightarrow> bool \<Rightarrow> upload_options \<Rightarrow> uerror + upload_options" where
  "newWithRepository repository objectStorage options =
     (if \<not> repository \<or> \<not> objectStorage
      then Inl (uerrf ErrInvalidRequest ''repository and object storage are required'')
      else let o1 = options
        \<lparr>op_MultipartThreshold := (if op_MultipartThreshold options = 0 then defaultMultipartThreshold else op_MultipartThreshold options),
         op_PartSize := (if op_PartSize options = 0 then defaultPartSize else op_PartSize options),
         op_CompletionTimeout := (if op_CompletionTimeout options = 0 then defaultCompletionTimeout else op_CompletionTimeout options),
         op_CleanupGrace := (if op_CleanupGrace options = 0 then defaultCleanupGrace else op_CleanupGrace options)\<rparr>
      in if op_MultipartThreshold o1 < 0 \<or> op_PartSize o1 < 0 \<or> op_CompletionTimeout o1 < 0 \<or> op_CleanupGrace o1 < 0
         then Inl (uerrf ErrInvalidRequest ''upload option must not be negative'')
         else if op_PartSize o1 \<le> 0 \<or> op_CompletionTimeout o1 \<le> 0 \<or> op_CleanupGrace o1 \<le> 0
         then Inl (uerrf ErrInvalidRequest ''upload timing option must be positive'')
         else Inr o1)"

text \<open>\<open>uploadMode\<close>: the mode, the part size and the part count, one above the limit when it is exceeded.\<close>

definition uploadMode :: "upload_options \<Rightarrow> upload_request \<Rightarrow> upload_mode \<times> int \<times> int" where
  "uploadMode options request =
     (if rq_AllowMultipart request \<and> rq_SizeBytes request > op_MultipartThreshold options
      then let partCount = go_div (rq_SizeBytes request - 1) (op_PartSize options) + 1
           in if partCount > maxPartCount then (ModeMultipart, op_PartSize options, maxPartCount + 1)
              else (ModeMultipart, op_PartSize options, partCount)
      else (ModeSingle, 0, 0))"

section \<open>Text fields\<close>

definition purpose_chars :: string where
  "purpose_chars = ''abcdefghijklmnopqrstuvwxyzABCDEFGHIJKLMNOPQRSTUVWXYZ0123456789-_''"

definition validPurpose :: "string \<Rightarrow> bool" where
  "validPurpose value \<longleftrightarrow>
     \<not> (value = [] \<or> length value > 32 \<or> \<not> valid_utf8 value) \<and> trim_cutset purpose_chars value = []"

definition validFilename :: "string \<Rightarrow> bool" where
  "validFilename value \<longleftrightarrow>
     \<not> (value = [] \<or> value = dot \<or> value = dotdot \<or> \<not> valid_utf8 value \<or> rune_count value > 255 \<or>
        contains_any value [slash, CHR 0x5C]) \<and> list_all (\<lambda>r. \<not> is_control r) (runes value)"

definition validFileExt :: "string \<Rightarrow> bool" where
  "validFileExt value \<longleftrightarrow>
     \<not> (length value < 2 \<or> length value > 16 \<or> hd value \<noteq> CHR ''.'') \<and>
     list_all (\<lambda>r. \<not> ((r < 97 \<or> r > 122) \<and> (r < 48 \<or> r > 57))) (runes (tl value))"

definition isHex :: "string \<Rightarrow> bool" where
  "isHex value \<longleftrightarrow>
     list_all (\<lambda>r. 48 \<le> r \<and> r \<le> 57 \<or> 97 \<le> r \<and> r \<le> 102 \<or> 65 \<le> r \<and> r \<le> 70) (runes value) \<and> value \<noteq> []"

definition validSHA256 :: "string \<Rightarrow> bool" where
  "validSHA256 value \<longleftrightarrow> length value = 64 \<and> isHex value"

definition validLowerSHA256 :: "string \<Rightarrow> bool" where
  "validLowerSHA256 value \<longleftrightarrow> length value = 64 \<and> trim_cutset ''0123456789abcdef'' value = []"

definition canonicalMIME :: "upload_env \<Rightarrow> string \<Rightarrow> string option" where
  "canonicalMIME E value =
     (let v = trim_space value
      in if v = [] \<or> length v > 128 \<or> contains_any v [CHR 0x0D, CHR 0x0A, CHR 0x00] then None
         else map_option (to_lower (ue_lower E)) (ue_media E v))"

definition mimeEqual :: "upload_env \<Rightarrow> string \<Rightarrow> string \<Rightarrow> bool" where
  "mimeEqual E left right \<longleftrightarrow> canonicalMIME E left \<noteq> None \<and> canonicalMIME E left = canonicalMIME E right"

definition mime_bad :: "upload_env \<Rightarrow> string \<Rightarrow> bool" where
  "mime_bad E value \<longleftrightarrow> canonicalMIME E value = None \<or> length value > 128 \<or> \<not> valid_utf8 value"

definition uuid_bad :: "upload_env \<Rightarrow> string \<Rightarrow> bool" where
  "uuid_bad E i \<longleftrightarrow> ue_uuid E i \<noteq> Some (to_lower (ue_lower E) i)"

section \<open>Requests and objects\<close>

text \<open>\<open>fresh\<close> is the value of \<open>uuid.NewString\<close>, should it be needed.\<close>

definition normalizeRequest :: "upload_env \<Rightarrow> string \<Rightarrow> upload_request \<Rightarrow> time \<Rightarrow> bool \<Rightarrow> uerror + upload_request" where
  "normalizeRequest E fresh request now allowEmptyID =
     (if \<not> member_ok (rq_Owner request) then Inl (uerrf ErrInvalidRequest ''invalid owner'')
      else let i = trim_space (rq_ID request)
      in if i = [] \<and> \<not> allowEmptyID then Inl (uerrf ErrInvalidRequest ''id is required'')
      else let i' = (if i = [] then fresh else i)
      in if uuid_bad E i' then Inl (uerrf ErrInvalidRequest ''id must be a canonical UUID'')
      else if \<not> validPurpose (rq_Purpose request) then Inl (uerrf ErrInvalidRequest ''invalid purpose'')
      else if \<not> validFilename (rq_Filename request) then Inl (uerrf ErrInvalidRequest ''invalid filename'')
      else let ext = to_lower (ue_lower E) (trim_space (rq_FileExt request))
      in if \<not> validFileExt ext then Inl (uerrf ErrInvalidRequest ''invalid file extension'')
      else let mime = trim_space (rq_MIMEType request)
      in if mime_bad E mime then Inl (uerrf ErrInvalidRequest ''invalid MIME type'')
      else if rq_SizeBytes request \<le> 0 then Inl (uerrf ErrInvalidRequest ''size_bytes must be positive'')
      else let sha = to_lower (ue_lower E) (trim_space (rq_SHA256 request))
      in if sha \<noteq> [] \<and> \<not> validSHA256 sha
      then Inl (uerrf ErrInvalidRequest ''sha256 must be 64 hexadecimal characters'')
      else if \<not> is_zero (rq_ExpiresAt request) \<and> \<not> now < rq_ExpiresAt request
      then Inl (uerrf ErrInvalidRequest ''expires_at must be in the future'')
      else Inr (request\<lparr>rq_ID := i', rq_FileExt := ext, rq_MIMEType := mime, rq_SHA256 := sha\<rparr>))"

definition validateOwnerAndID :: "upload_env \<Rightarrow> member \<Rightarrow> string \<Rightarrow> uerror option" where
  "validateOwnerAndID E owner i =
     (if \<not> member_ok owner then Some (uerrf ErrInvalidRequest ''invalid owner'')
      else if uuid_bad E (trim_space i) then Some (uerrf ErrInvalidRequest ''id must be a canonical UUID'')
      else None)"

definition validateStoragePath :: "string \<Rightarrow> string \<Rightarrow> uerror option" where
  "validateStoragePath purpose storagePath =
     (if storagePath = [] \<or> length storagePath > 512 \<or> \<not> valid_utf8 storagePath \<or> CHR 0x5C \<in> set storagePath \<or>
         path_clean storagePath \<noteq> storagePath \<or> is_abs storagePath
      then Some (uerrf ErrIntegrity ''invalid storage path'')
      else if list_ex is_control (runes storagePath) then Some (uerrf ErrIntegrity ''invalid storage path'')
      else let components = split_on slash storagePath
      in if length components < 2 \<or> hd components \<noteq> purpose
      then Some (uerrf ErrIntegrity ''storage path is outside the upload namespace'')
      else None)"

definition validateVerifiedObject :: "upload_env \<Rightarrow> upload_request \<Rightarrow> verified_object \<Rightarrow> uerror option" where
  "validateVerifiedObject E request verified =
     (if \<not> validLowerSHA256 (vo_SHA256 verified) then Some (uerrf ErrIntegrity ''verified SHA256 is invalid'')
      else if rq_SHA256 request \<noteq> [] \<and> vo_SHA256 verified \<noteq> rq_SHA256 request
      then Some (uerrf ErrIntegrity ''verified SHA256 mismatch'')
      else if vo_SizeBytes verified \<noteq> rq_SizeBytes request then Some (uerrf ErrIntegrity ''verified size mismatch'')
      else if mime_bad E (vo_MIMEType verified) then Some (uerrf ErrIntegrity ''verified MIME is invalid'')
      else validateStoragePath (rq_Purpose request) (vo_StoragePath verified))"

definition session_request :: "upload_session \<Rightarrow> upload_request" where
  "session_request x =
     \<lparr>rq_ID = [], rq_Owner = session_owner x, rq_Purpose = us_Purpose x, rq_Filename = us_Filename x, rq_FileExt = us_FileExt x,
      rq_MIMEType = us_MIMEType x, rq_SizeBytes = us_SizeBytes x, rq_SHA256 = us_SHA256 x, rq_AllowMultipart = False,
      rq_ExpiresAt = zero_time\<rparr>"

definition validateVerifiedObjectFromSession :: "upload_env \<Rightarrow> upload_session \<Rightarrow> verified_object \<Rightarrow> uerror option" where
  "validateVerifiedObjectFromSession E x verified = validateVerifiedObject E (session_request x) verified"

definition coreFileFromVerified :: "upload_env \<Rightarrow> upload_session \<Rightarrow> verified_object \<Rightarrow> core_file" where
  "coreFileFromVerified E x verified =
     \<lparr>cf_ID = 0, cf_CreatedAt = zero_time, cf_UpdatedAt = zero_time, cf_DeletedAt = None,
      cf_OrganizationID = us_OrganizationID x, cf_UserID = us_UserID x, cf_Purpose = us_Purpose x,
      cf_Filename = us_Filename x, cf_FileExt = us_FileExt x, cf_MIMEType = vo_MIMEType verified, cf_Size = vo_SizeBytes verified,
      cf_Hash = ''sha256:'' @ to_lower (ue_lower E) (trim_space (vo_SHA256 verified)),
      cf_StoragePath = vo_StoragePath verified, cf_PublicURL = []\<rparr>"

fun check_parts :: "int \<Rightarrow> int list \<Rightarrow> upload_part list \<Rightarrow> uerror option" where
  "check_parts count seen [] = None"
| "check_parts count seen (part # parts) =
     (if pt_PartNumber part < 1 \<or> pt_PartNumber part > count \<or> trim_space (pt_ETag part) = [] \<or>
         contains_any (pt_ETag part) [CHR 0x0D, CHR 0x0A] \<or> length (pt_ETag part) > 1024
      then Some (uerrf ErrInvalidRequest ''invalid multipart part'')
      else if pt_PartNumber part \<in> set seen then Some (uerrf ErrInvalidRequest ''duplicate multipart part'')
      else check_parts count (pt_PartNumber part # seen) parts)"

definition validateMultipartParts :: "upload_session \<Rightarrow> upload_part list \<Rightarrow> uerror option" where
  "validateMultipartParts x parts =
     (if int (length parts) \<noteq> us_PartCount x \<or> int (length parts) > maxPartCount
      then Some (uerrf ErrInvalidRequest ''multipart part count mismatch'')
      else check_parts (us_PartCount x) [] parts)"

definition validateRegisterExistingRetry ::
  "upload_env \<Rightarrow> upload_session \<Rightarrow> core_file \<Rightarrow> upload_request \<Rightarrow> verified_object \<Rightarrow> uerror option" where
  "validateRegisterExistingRetry E x file request verified =
     (if us_State x \<noteq> StateCompleted \<or> us_FileID x \<noteq> Some (cf_ID file)
      then Some (uerrf ErrConflict ''existing file registration is incomplete'')
      else if session_owner x \<noteq> rq_Owner request \<or> us_Purpose x \<noteq> rq_Purpose request \<or> us_Filename x \<noteq> rq_Filename request \<or>
         us_FileExt x \<noteq> rq_FileExt request \<or> us_MIMEType x \<noteq> rq_MIMEType request \<or> us_SizeBytes x \<noteq> rq_SizeBytes request \<or>
         us_SHA256 x \<noteq> rq_SHA256 request
      then Some (uerrf ErrConflict ''existing upload request metadata differs'')
      else if cf_OrganizationID file \<noteq> OrganizationID (rq_Owner request) \<or> cf_UserID file \<noteq> UserID (rq_Owner request) \<or>
         cf_Purpose file \<noteq> rq_Purpose request \<or> cf_Filename file \<noteq> rq_Filename request \<or> cf_FileExt file \<noteq> rq_FileExt request \<or>
         cf_Size file \<noteq> vo_SizeBytes verified \<or> cf_Hash file \<noteq> ''sha256:'' @ to_lower (ue_lower E) (trim_space (vo_SHA256 verified)) \<or>
         cf_MIMEType file \<noteq> vo_MIMEType verified \<or> cf_StoragePath file \<noteq> vo_StoragePath verified
      then Some (uerrf ErrConflict ''existing file metadata differs'')
      else None)"

definition validateUseVerifiedObject :: "upload_env \<Rightarrow> core_file \<Rightarrow> verified_object \<Rightarrow> uerror option" where
  "validateUseVerifiedObject E file verified =
     (if \<not> validLowerSHA256 (vo_SHA256 verified) \<or>
         cf_Hash file \<noteq> ''sha256:'' @ to_lower (ue_lower E) (trim_space (vo_SHA256 verified)) \<or> cf_Size file \<noteq> vo_SizeBytes verified
      then Some (uerrf ErrIntegrity ''verified object metadata differs from completed file'')
      else if \<not> mimeEqual E (cf_MIMEType file) (vo_MIMEType verified)
      then Some (uerrf ErrIntegrity ''verified object MIME differs from completed file'')
      else validateStoragePath (cf_Purpose file) (vo_StoragePath verified))"

text \<open>
  \<open>mapServiceError\<close> and \<open>mapRepositoryError\<close> let the sentinels of the package through.
\<close>

definition mapServiceError :: "uerror \<Rightarrow> uerror" where
  "mapServiceError err =
     (if list_ex (errors_is err) [ErrInvalidRequest, ErrNotFound, ErrConflict, ErrExpired, ErrIntegrity, ErrUnavailable]
      then err else uerrf ErrUnavailable ''upload operation'')"

definition mapRepositoryError :: "uerror \<Rightarrow> uerror" where
  "mapRepositoryError err =
     (if errors_is err ErrInvalidRequest \<or> errors_is err ErrNotFound \<or> errors_is err ErrConflict \<or> errors_is err ErrUnavailable
      then err else uerrf ErrUnavailable ''upload repository operation'')"

section \<open>Storage paths\<close>

definition ext_chars :: string where
  "ext_chars = ''abcdefghijklmnopqrstuvwxyzABCDEFGHIJKLMNOPQRSTUVWXYZ0123456789''"

definition hex_digit :: "nat \<Rightarrow> char" where
  "hex_digit n = ''0123456789abcdef'' ! n"

definition hex_encode :: "nat list \<Rightarrow> string" where
  "hex_encode bs = concat (map (\<lambda>b. [hex_digit (b div 16), hex_digit (b mod 16)]) bs)"

text \<open>
  \<open>GenerateFileStoragePathWithName\<close>: \<open>entropy\<close> are the sixteen random bytes, absent when the source of
  randomness fails, and \<open>day\<close> is the formatted date. The errors are only told apart by the caller's
  text, so one value stands for them.
\<close>

definition GenerateFileStoragePathWithName ::
  "upload_env \<Rightarrow> nat list option \<Rightarrow> string \<Rightarrow> string \<Rightarrow> member \<Rightarrow> string \<Rightarrow> string option" where
  "GenerateFileStoragePathWithName E entropy day purpose owner fileName =
     (if \<not> member_ok owner then None
      else if purpose = [] \<or> length purpose > 32 \<or> trim_cutset purpose_chars purpose \<noteq> [] \<or> fileName = [] \<or>
         \<not> valid_utf8 fileName \<or> length fileName > 128 \<or> fileName = dot \<or> fileName = dotdot \<or> contains_any fileName [slash, CHR 0x5C]
      then None
      else if list_ex is_control (runes fileName) then None
      else case entropy of None \<Rightarrow> None
         | Some rnd \<Rightarrow>
            (let ownerHash = ue_sha256 E (''jxfile-owner-v1'' @ [CHR 0x00] @ OrganizationID owner @ [CHR 0x00] @ UserID owner)
             in Some (path_join [purpose, day, hex_encode (take 8 ownerHash) @ ''-'' @ hex_encode rnd, fileName])))"

definition GenerateFileStoragePath ::
  "upload_env \<Rightarrow> nat list option \<Rightarrow> string \<Rightarrow> string \<Rightarrow> member \<Rightarrow> string \<Rightarrow> string option" where
  "GenerateFileStoragePath E entropy day purpose owner fileExt =
     (if fileExt = [] \<or> length fileExt > 16 \<or> hd fileExt \<noteq> CHR ''.'' \<or> trim_cutset ext_chars (tl fileExt) \<noteq> [] \<or> length fileExt = 1
      then None else GenerateFileStoragePathWithName E entropy day purpose owner (''file'' @ fileExt))"

end
