(* ===== verification/Upload_Repository.thy ===== *)
theory Upload_Repository
  imports Upload_Types
begin

text \<open>
  Package \<open>fileupload\<close>, persistence (\<open>repository.go\<close>, with \<open>findMemberFile\<close> of \<open>storage/fileinfo.go\<close>): the
  operations of the GORM repository on the table \<open>S\<close> of upload sessions and the table \<open>F\<close> of registered
  files of one database. A repository always has a database and a context here. \<open>now\<close> is the clock
  reading an operation is given or takes itself.
\<close>

section \<open>Clauses\<close>

definition owned :: "upload_env \<Rightarrow> member \<Rightarrow> string \<Rightarrow> upload_session \<Rightarrow> bool" where
  "owned E owner i r \<longleftrightarrow> ue_same E (us_ID r) i \<and> us_OrganizationID r = OrganizationID owner \<and> us_UserID r = UserID owner"

definition file_owned :: "member \<Rightarrow> nat \<Rightarrow> core_file \<Rightarrow> bool" where
  "file_owned owner i r \<longleftrightarrow> cf_DeletedAt r = None \<and> cf_ID r = i \<and> cf_OrganizationID r = OrganizationID owner \<and> cf_UserID r = UserID owner"

text \<open>What a column keeps of the times of a session.\<close>

definition stored_session :: "upload_env \<Rightarrow> upload_session \<Rightarrow> upload_session" where
  "stored_session E x =
     x\<lparr>us_ExpiresAt := ue_ms E (us_ExpiresAt x), us_LeaseExpiresAt := map_option (ue_ms E) (us_LeaseExpiresAt x),
       us_CreatedAt := ue_ms E (us_CreatedAt x), us_UpdatedAt := ue_ms E (us_UpdatedAt x)\<rparr>"

definition stored_file :: "upload_env \<Rightarrow> time \<Rightarrow> core_file \<Rightarrow> core_file" where
  "stored_file E now f =
     f\<lparr>cf_CreatedAt := ue_ms E (if is_zero (cf_CreatedAt f) then now else cf_CreatedAt f),
       cf_UpdatedAt := ue_ms E (if is_zero (cf_UpdatedAt f) then now else cf_UpdatedAt f)\<rparr>"

definition validateRepositoryRead :: "member \<Rightarrow> string \<Rightarrow> uerror option" where
  "validateRepositoryRead owner i =
     (if i = [] then Some (uerr ErrInvalidRequest)
      else if \<not> member_ok owner then Some (uerr ErrInvalidRequest) else None)"

text \<open>\<open>First\<close>: the first row of the answer, a missing row, or a failure.\<close>

datatype 'row first = Found 'row | Missing | Failed

definition sql_first :: "('row, 'd) sqltab \<Rightarrow> ('row \<Rightarrow> bool) \<Rightarrow> 'd session \<Rightarrow> 'row first \<times> 'd session" where
  "sql_first T p s =
     (case sql_select T (filter p) s of (Inl _, s') \<Rightarrow> (Failed, s') | (Inr [], s') \<Rightarrow> (Missing, s')
      | (Inr (r # _), s') \<Rightarrow> (Found r, s'))"

section \<open>Sessions\<close>

definition CreateSession ::
  "(upload_session, 'd) sqltab \<Rightarrow> upload_env \<Rightarrow> upload_session \<Rightarrow> 'd session \<Rightarrow> uerror option \<times> 'd session" where
  "CreateSession S E x s =
     (case sql_insert_new S (\<lambda>r. ue_same E (us_ID r) (us_ID x)) (stored_session E x) s of
        (Inl _, s') \<Rightarrow> (Some (uerrf ErrUnavailable ''insert upload session''), s')
      | (Inr n, s') \<Rightarrow> (if n \<noteq> 1 then Some (uerr ErrConflict) else None, s'))"

definition GetSession ::
  "(upload_session, 'd) sqltab \<Rightarrow> upload_env \<Rightarrow> member \<Rightarrow> string \<Rightarrow> 'd session \<Rightarrow> (uerror + upload_session) \<times> 'd session" where
  "GetSession S E owner i s =
     (case validateRepositoryRead owner i of Some e \<Rightarrow> (Inl e, s)
      | None \<Rightarrow>
         (case sql_first S (owned E owner i) s of
            (Missing, s') \<Rightarrow> (Inl (uerr ErrNotFound), s')
          | (Failed, s') \<Rightarrow> (Inl (uerrf ErrUnavailable ''read upload session''), s')
          | (Found x, s') \<Rightarrow> (Inr x, s')))"

definition lease_over :: "time \<Rightarrow> upload_session \<Rightarrow> bool" where
  "lease_over now r \<longleftrightarrow> (case us_LeaseExpiresAt r of None \<Rightarrow> False | Some u \<Rightarrow> u \<le> now)"

definition claimable :: "upload_state \<Rightarrow> time \<Rightarrow> upload_session \<Rightarrow> bool" where
  "claimable state now r \<longleftrightarrow>
     (if state = StateCompleting
      then us_State r = StateActive \<or> us_State r = StateCompleting \<and> lease_over now r
      else us_State r = StateActive \<or> us_State r \<in> {StateCompleting, StateAborting} \<and> lease_over now r)"

definition leased_row :: "upload_env \<Rightarrow> upload_state \<Rightarrow> string \<Rightarrow> time \<Rightarrow> time \<Rightarrow> upload_session \<Rightarrow> upload_session" where
  "leased_row E state token now until r =
     r\<lparr>us_State := state, us_LeaseToken := token, us_LeaseExpiresAt := Some (ue_ms E until), us_UpdatedAt := ue_ms E now\<rparr>"

definition ClaimLease ::
  "(upload_session, 'd) sqltab \<Rightarrow> upload_env \<Rightarrow> member \<Rightarrow> string \<Rightarrow> upload_state \<Rightarrow> string \<Rightarrow> time \<Rightarrow> time \<Rightarrow>
   'd session \<Rightarrow> (uerror + upload_session) \<times> 'd session" where
  "ClaimLease S E owner i state token now until s =
     (case validateRepositoryRead owner i of Some e \<Rightarrow> (Inl e, s)
      | None \<Rightarrow>
         if (state \<noteq> StateCompleting \<and> state \<noteq> StateAborting) \<or> token = [] \<or> \<not> now < until then (Inl (uerr ErrInvalidRequest), s)
         else
        (case sql_update S (\<lambda>r. owned E owner i r \<and> claimable state now r) (leased_row E state token now until) s of
           (Inl _, s') \<Rightarrow> (Inl (uerrf ErrUnavailable ''claim upload lease''), s')
         | (Inr n, s') \<Rightarrow> if n \<noteq> 1 then (Inl (uerr ErrConflict), s') else GetSession S E owner i s'))"

definition freed_row :: "upload_env \<Rightarrow> upload_state \<Rightarrow> time \<Rightarrow> upload_session \<Rightarrow> upload_session" where
  "freed_row E state now r =
     r\<lparr>us_State := state, us_LeaseToken := [], us_LeaseExpiresAt := None, us_UpdatedAt := ue_ms E now\<rparr>"

definition ReleaseLease ::
  "(upload_session, 'd) sqltab \<Rightarrow> upload_env \<Rightarrow> member \<Rightarrow> string \<Rightarrow> string \<Rightarrow> time \<Rightarrow> 'd session \<Rightarrow> uerror option \<times> 'd session" where
  "ReleaseLease S E owner i token now s =
     (case validateRepositoryRead owner i of Some e \<Rightarrow> (Some e, s)
      | None \<Rightarrow>
         if token = [] then (Some (uerr ErrInvalidRequest), s)
         else
        (case sql_update S (\<lambda>r. owned E owner i r \<and> ue_same E (us_LeaseToken r) token \<and> us_State r = StateCompleting)
                (freed_row E StateActive now) s of
           (Inl _, s') \<Rightarrow> (Some (uerrf ErrUnavailable ''release upload lease''), s')
         | (Inr n, s') \<Rightarrow> (if n \<noteq> 1 then Some (uerr ErrConflict) else None, s')))"

definition lease_left :: "time \<Rightarrow> upload_session \<Rightarrow> bool" where
  "lease_left now r \<longleftrightarrow> (case us_LeaseExpiresAt r of None \<Rightarrow> False | Some u \<Rightarrow> now < u)"

definition Finish ::
  "(upload_session, 'd) sqltab \<Rightarrow> upload_env \<Rightarrow> member \<Rightarrow> string \<Rightarrow> string \<Rightarrow> upload_state \<Rightarrow> time \<Rightarrow>
   'd session \<Rightarrow> uerror option \<times> 'd session" where
  "Finish S E owner i token state now s =
     (case validateRepositoryRead owner i of Some e \<Rightarrow> (Some e, s)
      | None \<Rightarrow>
         if token = [] \<or> (state \<noteq> StateAborted \<and> state \<noteq> StateExpired) then (Some (uerr ErrInvalidRequest), s)
         else
        (case sql_update S (\<lambda>r. owned E owner i r \<and> ue_same E (us_LeaseToken r) token \<and>
                us_State r \<in> {StateCompleting, StateAborting} \<and> lease_left now r)
                (freed_row E state now) s of
           (Inl _, s') \<Rightarrow> (Some (uerrf ErrUnavailable ''finish upload session''), s')
         | (Inr n, s') \<Rightarrow> (if n \<noteq> 1 then Some (uerr ErrConflict) else None, s')))"

section \<open>Registration\<close>

text \<open>
  A transaction body returns its result and the session; \<open>in_transaction\<close> commits it or rolls it back
  (\<open>gorm.DB.Transaction\<close>). Identifiers taken by a body that is rolled back are assigned again.
\<close>

definition in_transaction :: "('d session \<Rightarrow> (uerror + 'a) \<times> 'd session) \<Rightarrow> 'd session \<Rightarrow> (uerror + 'a) \<times> 'd session" where
  "in_transaction body s =
     (case sql_begin s of (Inl _, s0) \<Rightarrow> (Inl (mapRepositoryError (errors_text ''database error'')), s0)
      | (Inr d0, s0) \<Rightarrow>
     (case body s0 of
        (Inl e, s1) \<Rightarrow> (Inl (mapRepositoryError e), sql_rollback d0 s1)
      | (Inr x, s1) \<Rightarrow>
         (case sql_commit d0 s1 of (Inl _, s2) \<Rightarrow> (Inl (mapRepositoryError (errors_text ''database error'')), s2)
          | (Inr _, s2) \<Rightarrow> (Inr x, s2))))"

definition read_file ::
  "(core_file, 'd) sqltab \<Rightarrow> member \<Rightarrow> nat \<Rightarrow> string \<Rightarrow> 'd session \<Rightarrow> (uerror + core_file) \<times> 'd session" where
  "read_file F owner i failure s =
     (case sql_first F (file_owned owner i) s of
        (Missing, s') \<Rightarrow> (Inl (uerr ErrConflict), s')
      | (Failed, s') \<Rightarrow> (Inl (uerrf ErrUnavailable failure), s')
      | (Found f, s') \<Rightarrow> (Inr f, s'))"

definition completed_row :: "upload_env \<Rightarrow> nat \<Rightarrow> time \<Rightarrow> upload_session \<Rightarrow> upload_session" where
  "completed_row E fileID now r = (freed_row E StateCompleted now r)\<lparr>us_FileID := Some fileID\<rparr>"

definition register_file ::
  "(core_file, 'd) sqltab \<Rightarrow> upload_env \<Rightarrow> time \<Rightarrow> core_file \<Rightarrow> 'd session \<Rightarrow> core_file option \<times> 'd session" where
  "register_file F E now file s =
     (case sql_insert F [stored_file E now file] s of
        (Inr (f # _), s') \<Rightarrow> (Some (file\<lparr>cf_ID := cf_ID f\<rparr>), s')
      | (_, s') \<Rightarrow> (None, s'))"

definition finalize_body ::
  "(upload_session, 'd) sqltab \<Rightarrow> (core_file, 'd) sqltab \<Rightarrow> upload_env \<Rightarrow> member \<Rightarrow> string \<Rightarrow> string \<Rightarrow> time \<Rightarrow> core_file \<Rightarrow>
   'd session \<Rightarrow> (uerror + core_file) \<times> 'd session" where
  "finalize_body S F E owner i token now file s =
     (case sql_first S (owned E owner i) s of
        (Missing, s1) \<Rightarrow> (Inl (uerr ErrNotFound), s1)
      | (Failed, s1) \<Rightarrow> (Inl (uerrf ErrUnavailable ''lock upload session''), s1)
      | (Found x, s1) \<Rightarrow>
         if us_State x = StateCompleted \<and> us_FileID x \<noteq> None
         then read_file F owner (the (us_FileID x)) ''read completed file'' s1
         else if us_State x \<noteq> StateCompleting \<or> us_LeaseToken x \<noteq> token \<or> \<not> lease_left now x
         then (Inl (uerr ErrConflict), s1)
         else
        (case register_file F E now file s1 of
           (None, s2) \<Rightarrow> (Inl (uerrf ErrUnavailable ''register core file''), s2)
         | (Some file', s2) \<Rightarrow>
            (case sql_update S (\<lambda>r. owned E owner i r \<and> us_State r = StateCompleting \<and> ue_same E (us_LeaseToken r) token \<and>
                    lease_left now r) (completed_row E (cf_ID file') now) s2 of
               (Inl _, s3) \<Rightarrow> (Inl (uerrf ErrUnavailable ''complete upload session''), s3)
             | (Inr n, s3) \<Rightarrow> if n \<noteq> 1 then (Inl (uerr ErrConflict), s3) else (Inr file', s3))))"

definition FinalizeComplete ::
  "(upload_session, 'd) sqltab \<Rightarrow> (core_file, 'd) sqltab \<Rightarrow> upload_env \<Rightarrow> member \<Rightarrow> string \<Rightarrow> string \<Rightarrow> time \<Rightarrow> core_file \<Rightarrow>
   'd session \<Rightarrow> (uerror + core_file) \<times> 'd session" where
  "FinalizeComplete S F E owner i token now file s =
     (case validateRepositoryRead owner i of Some e \<Rightarrow> (Inl e, s)
      | None \<Rightarrow>
         if token = [] then (Inl (uerr ErrInvalidRequest), s)
         else in_transaction (finalize_body S F E owner i token now file) s)"

definition register_body ::
  "(upload_session, 'd) sqltab \<Rightarrow> (core_file, 'd) sqltab \<Rightarrow> upload_env \<Rightarrow> time \<Rightarrow> upload_session \<Rightarrow> core_file \<Rightarrow>
   'd session \<Rightarrow> (uerror + core_file) \<times> 'd session" where
  "register_body S F E now x file s =
     (case sql_first S (owned E (session_owner x) (us_ID x)) s of
        (Found existing, s1) \<Rightarrow>
          (case us_FileID existing of
             None \<Rightarrow> (Inl (uerr ErrConflict), s1)
           | Some fileID \<Rightarrow>
               if us_State existing \<noteq> StateCompleted then (Inl (uerr ErrConflict), s1)
               else read_file F (session_owner x) fileID ''read existing core file'' s1)
      | (Failed, s1) \<Rightarrow> (Inl (uerrf ErrUnavailable ''read existing upload session''), s1)
      | (Missing, s1) \<Rightarrow>
         (case register_file F E now file s1 of
            (None, s2) \<Rightarrow> (Inl (uerrf ErrUnavailable ''register existing core file''), s2)
          | (Some file', s2) \<Rightarrow>
             (case sql_insert_new S (\<lambda>r. ue_same E (us_ID r) (us_ID x))
                     (stored_session E (x\<lparr>us_State := StateCompleted, us_FileID := Some (cf_ID file')\<rparr>)) s2 of
                (Inl _, s3) \<Rightarrow> (Inl (uerrf ErrUnavailable ''register existing upload session''), s3)
              | (Inr n, s3) \<Rightarrow> if n \<noteq> 1 then (Inl (uerr ErrConflict), s3) else (Inr file', s3))))"

definition repo_RegisterExisting ::
  "(upload_session, 'd) sqltab \<Rightarrow> (core_file, 'd) sqltab \<Rightarrow> upload_env \<Rightarrow> time \<Rightarrow> upload_session \<Rightarrow> core_file \<Rightarrow>
   'd session \<Rightarrow> (uerror + core_file) \<times> 'd session" where
  "repo_RegisterExisting S F E now x file s =
     (case validateRepositoryRead (session_owner x) (us_ID x) of Some e \<Rightarrow> (Inl e, s)
      | None \<Rightarrow> in_transaction (register_body S F E now x file) s)"

definition update_path_body ::
  "(upload_session, 'd) sqltab \<Rightarrow> (core_file, 'd) sqltab \<Rightarrow> upload_env \<Rightarrow> member \<Rightarrow> string \<Rightarrow> nat \<Rightarrow> string \<Rightarrow> string \<Rightarrow> time \<Rightarrow>
   'd session \<Rightarrow> (uerror + core_file) \<times> 'd session" where
  "update_path_body S F E owner i fileID expectedPath storagePath now s =
     (case sql_first S (owned E owner i) s of
        (Missing, s1) \<Rightarrow> (Inl (uerr ErrNotFound), s1)
      | (Failed, s1) \<Rightarrow> (Inl (uerrf ErrUnavailable ''lock completed upload session''), s1)
      | (Found x, s1) \<Rightarrow>
         if us_State x \<noteq> StateCompleted \<or> us_FileID x \<noteq> Some fileID then (Inl (uerr ErrConflict), s1)
         else
        (case sql_first F (file_owned owner fileID) s1 of
           (Missing, s2) \<Rightarrow> (Inl (uerr ErrConflict), s2)
         | (Failed, s2) \<Rightarrow> (Inl (uerrf ErrUnavailable ''lock completed core file''), s2)
         | (Found file, s2) \<Rightarrow>
            if cf_StoragePath file = storagePath then (Inr file, s2)
            else if cf_StoragePath file \<noteq> expectedPath then (Inl (uerr ErrConflict), s2)
            else
           (case sql_update F (\<lambda>r. file_owned owner fileID r \<and> ue_same E (cf_StoragePath r) expectedPath)
                   (\<lambda>r. r\<lparr>cf_StoragePath := storagePath, cf_UpdatedAt := ue_ms E now\<rparr>) s2 of
              (Inl _, s3) \<Rightarrow> (Inl (uerrf ErrUnavailable ''update core file path''), s3)
            | (Inr n, s3) \<Rightarrow>
                if n \<noteq> 1 then (Inl (uerr ErrConflict), s3) else (Inr (file\<lparr>cf_StoragePath := storagePath\<rparr>), s3))))"

definition UpdateFilePath ::
  "(upload_session, 'd) sqltab \<Rightarrow> (core_file, 'd) sqltab \<Rightarrow> upload_env \<Rightarrow> member \<Rightarrow> string \<Rightarrow> nat \<Rightarrow> string \<Rightarrow> string \<Rightarrow> time \<Rightarrow>
   'd session \<Rightarrow> (uerror + core_file) \<times> 'd session" where
  "UpdateFilePath S F E owner i fileID expectedPath storagePath now s =
     (case validateRepositoryRead owner i of Some e \<Rightarrow> (Inl e, s)
      | None \<Rightarrow>
         if fileID = 0 \<or> expectedPath = [] \<or> storagePath = [] then (Inl (uerr ErrInvalidRequest), s)
         else in_transaction (update_path_body S F E owner i fileID expectedPath storagePath now) s)"

section \<open>Listing and files\<close>

text \<open>\<open>dbnow\<close> is the clock of the database, \<open>UTC_TIMESTAMP(3)\<close>.\<close>

definition expired_query :: "time \<Rightarrow> time \<Rightarrow> nat \<Rightarrow> upload_session list \<Rightarrow> upload_session list" where
  "expired_query dbnow before limit rows =
     take limit (sort_key us_ExpiresAt (sort_key us_ID (filter (\<lambda>r. us_ExpiresAt r < before \<and>
       (us_State r = StateActive \<or> us_State r \<in> {StateCompleting, StateAborting} \<and>
         (us_LeaseExpiresAt r = None \<or> lease_over dbnow r))) rows)))"

definition ListExpired ::
  "(upload_session, 'd) sqltab \<Rightarrow> time \<Rightarrow> time \<Rightarrow> int \<Rightarrow> 'd session \<Rightarrow> (uerror + upload_session list) \<times> 'd session" where
  "ListExpired S dbnow before limit s =
     (if is_zero before \<or> limit < 1 \<or> limit > maxCleanupBatch then (Inl (uerr ErrInvalidRequest), s)
      else case sql_select S (expired_query dbnow before (nat limit)) s of
             (Inl _, s') \<Rightarrow> (Inl (uerrf ErrUnavailable ''list expired upload sessions''), s')
           | (Inr rows, s') \<Rightarrow> (Inr rows, s'))"

text \<open>\<open>storage.GetFileByID\<close> and its query on a column of the member's files.\<close>

datatype lookup_error = InvalidMember | RecordNotFound | LookupFailed

definition findMemberFile ::
  "(core_file, 'd) sqltab \<Rightarrow> member \<Rightarrow> (core_file \<Rightarrow> bool) \<Rightarrow> 'd session \<Rightarrow> (lookup_error + core_file) \<times> 'd session" where
  "findMemberFile F owner column s =
     (if \<not> member_ok owner then (Inl InvalidMember, s)
      else case sql_first F (\<lambda>r. cf_DeletedAt r = None \<and> cf_OrganizationID r = OrganizationID owner \<and> cf_UserID r = UserID owner \<and> column r) s of
             (Missing, s') \<Rightarrow> (Inl RecordNotFound, s')
           | (Failed, s') \<Rightarrow> (Inl LookupFailed, s')
           | (Found f, s') \<Rightarrow> (Inr f, s'))"

definition GetFileByID ::
  "(core_file, 'd) sqltab \<Rightarrow> member \<Rightarrow> nat \<Rightarrow> 'd session \<Rightarrow> (lookup_error + core_file) \<times> 'd session" where
  "GetFileByID F owner i s = (if i = 0 then (Inl RecordNotFound, s) else findMemberFile F owner (\<lambda>r. cf_ID r = i) s)"

definition GetFileByHash ::
  "(core_file, 'd) sqltab \<Rightarrow> upload_env \<Rightarrow> member \<Rightarrow> string \<Rightarrow> 'd session \<Rightarrow> (lookup_error + core_file) \<times> 'd session" where
  "GetFileByHash F E owner hashstr s = findMemberFile F owner (\<lambda>r. ue_same E (cf_Hash r) hashstr) s"

definition GetFileByPublicURL ::
  "(core_file, 'd) sqltab \<Rightarrow> upload_env \<Rightarrow> member \<Rightarrow> string \<Rightarrow> 'd session \<Rightarrow> (lookup_error + core_file) \<times> 'd session" where
  "GetFileByPublicURL F E owner publicURL s = findMemberFile F owner (\<lambda>r. ue_same E (cf_PublicURL r) publicURL) s"

definition GetFile ::
  "(core_file, 'd) sqltab \<Rightarrow> member \<Rightarrow> nat \<Rightarrow> 'd session \<Rightarrow> (uerror + core_file) \<times> 'd session" where
  "GetFile F owner i s =
     (if i = 0 then (Inl (uerr ErrInvalidRequest), s)
      else case GetFileByID F owner i s of
             (Inl RecordNotFound, s') \<Rightarrow> (Inl (uerr ErrNotFound), s')
           | (Inl InvalidMember, s') \<Rightarrow> (Inl (uerr ErrInvalidRequest), s')
           | (Inl LookupFailed, s') \<Rightarrow> (Inl (uerrf ErrUnavailable ''read core file''), s')
           | (Inr f, s') \<Rightarrow> (Inr f, s'))"

end
