(* ===== verification/Upload_Service.thy ===== *)
theory Upload_Service
  imports Upload_Repository
begin

text \<open>
  Package \<open>fileupload\<close>, the service (\<open>service.go\<close>) and its default verifier (\<open>verifier.go\<close>) over the GORM
  repository. The object storage is a parameter, a record of its operations over a state \<open>'o\<close>; nothing
  is assumed of it. A storage error is the error code it carries, if it has one.

  The state of a request is a \<open>uworld\<close>: the database session, the state of the storage and the outcomes
  of the coming checks of the context, \<open>None\<close> when it is not done. Clock readings and lease tokens
  (\<open>None\<close> when the random source fails) are arguments, in the order the code takes them.
\<close>

section \<open>Object storage\<close>

type_synonym oerror = "string option"

record file_metadata =
  fm_ContentLength :: int
  fm_ContentType :: string
  fm_ETag :: string

text \<open>A reader delivers its bytes and then ends or, when \<open>rd_breaks\<close>, fails.\<close>

record reader =
  rd_bytes :: string
  rd_breaks :: bool
  rd_close :: "oerror option"

record 'o multipart_storage =
  mp_create :: "string \<Rightarrow> string \<Rightarrow> 'o \<Rightarrow> (oerror + string) \<times> 'o"
  mp_part_url :: "string \<Rightarrow> string \<Rightarrow> int \<Rightarrow> 'o \<Rightarrow> (oerror + string) \<times> 'o"
  mp_list :: "string \<Rightarrow> string \<Rightarrow> 'o \<Rightarrow> (oerror + upload_part list) \<times> 'o"
  mp_complete :: "string \<Rightarrow> string \<Rightarrow> (int \<rightharpoonup> string) \<Rightarrow> 'o \<Rightarrow> oerror option \<times> 'o"
  mp_abort :: "string \<Rightarrow> string \<Rightarrow> 'o \<Rightarrow> oerror option \<times> 'o"

record 'o object_storage =
  os_presign :: "string \<Rightarrow> string \<Rightarrow> 'o \<Rightarrow> (oerror + string) \<times> 'o"
  os_head :: "string \<Rightarrow> 'o \<Rightarrow> (oerror + file_metadata option) \<times> 'o"
  os_read :: "string \<Rightarrow> 'o \<Rightarrow> (oerror + reader option) \<times> 'o"
  os_delete :: "string \<Rightarrow> 'o \<Rightarrow> oerror option \<times> 'o"
  os_multipart :: "'o multipart_storage option"

record ('d, 'o) uworld =
  u_sess :: "'d session"
  u_obj :: 'o
  u_ctx :: "usent option list"

definition ctx_err :: "('d, 'o) uworld \<Rightarrow> usent option \<times> ('d, 'o) uworld" where
  "ctx_err w = ((case u_ctx w of [] \<Rightarrow> None | c # _ \<Rightarrow> c), w\<lparr>u_ctx := tl (u_ctx w)\<rparr>)"

definition ctx_error :: "usent \<Rightarrow> uerror" where
  "ctx_error c = errorf_ww (uerr ErrUnavailable) (uerr c)"

text \<open>A call of the database, and one of the storage.\<close>

definition on_db :: "('d session \<Rightarrow> 'a \<times> 'd session) \<Rightarrow> ('d, 'o) uworld \<Rightarrow> 'a \<times> ('d, 'o) uworld" where
  "on_db f w = (let out = f (u_sess w) in (fst out, w\<lparr>u_sess := snd out\<rparr>))"

definition on_obj :: "('o \<Rightarrow> 'a \<times> 'o) \<Rightarrow> ('d, 'o) uworld \<Rightarrow> 'a \<times> ('d, 'o) uworld" where
  "on_obj f w = (let out = f (u_obj w) in (fst out, w\<lparr>u_obj := snd out\<rparr>))"

text \<open>An error that the context explains is reported as the context's.\<close>

definition fail_with :: "uerror \<Rightarrow> ('d, 'o) uworld \<Rightarrow> uerror \<times> ('d, 'o) uworld" where
  "fail_with e w = (case ctx_err w of (Some c, w') \<Rightarrow> (ctx_error c, w') | (None, w') \<Rightarrow> (e, w'))"

definition validateContext :: "('d, 'o) uworld \<Rightarrow> uerror option \<times> ('d, 'o) uworld" where
  "validateContext w = (case ctx_err w of (Some c, w') \<Rightarrow> (Some (ctx_error c), w') | (None, w') \<Rightarrow> (None, w'))"

section \<open>Verification\<close>

type_synonym ('d, 'o) verifier = "upload_session \<Rightarrow> ('d, 'o) uworld \<Rightarrow> (uerror + verified_object) \<times> ('d, 'o) uworld"

text \<open>\<open>io.Copy\<close> into the digest from a reader limited to \<open>limit\<close> bytes: the bytes read, or a failure.\<close>

definition limited_copy :: "reader \<Rightarrow> nat \<Rightarrow> string option" where
  "limited_copy rd limit =
     (if limit \<le> length (rd_bytes rd) then Some (take limit (rd_bytes rd))
      else if rd_breaks rd then None else Some (rd_bytes rd))"

text \<open>The part of \<open>defaultVerifier\<close> after the object was opened.\<close>

definition verify_stream ::
  "upload_env \<Rightarrow> upload_session \<Rightarrow> string \<Rightarrow> reader \<Rightarrow> ('d, 'o) uworld \<Rightarrow> (uerror + verified_object) \<times> ('d, 'o) uworld" where
  "verify_stream E x etag rd w =
     (case limited_copy rd (nat (us_SizeBytes x + 1)) of
        None \<Rightarrow> (case fail_with (uerrf ErrUnavailable ''stream uploaded object'') w of (e, w') \<Rightarrow> (Inl e, w'))
      | Some content \<Rightarrow>
         if rd_close rd \<noteq> None then (Inl (uerrf ErrUnavailable ''close uploaded object''), w)
         else if int (length content) \<noteq> us_SizeBytes x then (Inl (uerrf ErrIntegrity ''streamed size mismatch''), w)
         else let sha = hex_encode (ue_sha256 E content)
         in if us_SHA256 x \<noteq> [] \<and> sha \<noteq> us_SHA256 x then (Inl (uerrf ErrIntegrity ''streamed SHA256 mismatch''), w)
         else (Inr \<lparr>vo_SizeBytes = int (length content), vo_SHA256 = sha, vo_MIMEType = us_MIMEType x,
                    vo_StoragePath = us_StoragePath x, vo_ETag = etag\<rparr>, w))"

definition defaultVerifier :: "upload_env \<Rightarrow> 'o object_storage \<Rightarrow> ('d, 'o) verifier" where
  "defaultVerifier E St x w =
     (case ctx_err w of (Some c, w1) \<Rightarrow> (Inl (ctx_error c), w1)
      | (None, w1) \<Rightarrow>
     (case on_obj (os_head St (us_StoragePath x)) w1 of
        (Inl _, w2) \<Rightarrow> (case fail_with (uerrf ErrUnavailable ''inspect uploaded object'') w2 of (e, w3) \<Rightarrow> (Inl e, w3))
      | (Inr None, w2) \<Rightarrow> (Inl (uerrf ErrIntegrity ''stored size mismatch''), w2)
      | (Inr (Some metadata), w2) \<Rightarrow>
         if fm_ContentLength metadata \<noteq> us_SizeBytes x then (Inl (uerrf ErrIntegrity ''stored size mismatch''), w2)
         else if \<not> mimeEqual E (fm_ContentType metadata) (us_MIMEType x) then (Inl (uerrf ErrIntegrity ''stored MIME mismatch''), w2)
         else
        (case on_obj (os_read St (us_StoragePath x)) w2 of
           (Inl _, w3) \<Rightarrow> (case fail_with (uerrf ErrUnavailable ''read uploaded object'') w3 of (e, w4) \<Rightarrow> (Inl e, w4))
         | (Inr None, w3) \<Rightarrow> (Inl (uerrf ErrUnavailable ''uploaded object reader is missing''), w3)
         | (Inr (Some rd), w3) \<Rightarrow> verify_stream E x (fm_ETag metadata) rd w3)))"

section \<open>Starting\<close>

text \<open>
  \<open>Start\<close>. Its two halves: the session that the request asks for, and what the storage and the
  database say to it.
\<close>

definition new_session :: "upload_request \<Rightarrow> string \<Rightarrow> upload_mode \<Rightarrow> int \<Rightarrow> int \<Rightarrow> upload_state \<Rightarrow> time \<Rightarrow> upload_session" where
  "new_session rq storagePath mode partSize partCount state now =
     \<lparr>us_ID = rq_ID rq, us_OrganizationID = OrganizationID (rq_Owner rq), us_UserID = UserID (rq_Owner rq),
      us_Purpose = rq_Purpose rq, us_Filename = rq_Filename rq, us_FileExt = rq_FileExt rq, us_MIMEType = rq_MIMEType rq,
      us_SizeBytes = rq_SizeBytes rq, us_SHA256 = rq_SHA256 rq, us_StoragePath = storagePath, us_MultipartID = [],
      us_Mode = mode, us_PartSize = partSize, us_PartCount = partCount, us_ExpiresAt = rq_ExpiresAt rq, us_FileID = None,
      us_State = state, us_LeaseToken = [], us_LeaseExpiresAt = None, us_CreatedAt = now, us_UpdatedAt = now\<rparr>"

definition plan_session ::
  "upload_env \<Rightarrow> upload_options \<Rightarrow> string \<Rightarrow> nat list option \<Rightarrow> string \<Rightarrow> time \<Rightarrow> upload_request \<Rightarrow> uerror + upload_session" where
  "plan_session E opts fresh entropy day now request =
     (case normalizeRequest E fresh request now True of Inl e \<Rightarrow> Inl e
      | Inr rq \<Rightarrow>
         (case uploadMode opts rq of (mode, partSize, partCount) \<Rightarrow>
            if mode = ModeMultipart \<and> (partCount < 1 \<or> partCount > maxPartCount)
            then Inl (uerrf ErrInvalidRequest ''multipart part count exceeds limit'')
            else let rq' = (if is_zero (rq_ExpiresAt rq)
                            then rq\<lparr>rq_ExpiresAt := now + (if mode = ModeMultipart then defaultMultipartUploadTTL else defaultSingleUploadTTL)\<rparr>
                            else rq)
            in if \<not> now < rq_ExpiresAt rq' then Inl (uerrf ErrInvalidRequest ''expires_at must be in the future'')
            else case GenerateFileStoragePath E entropy day (rq_Purpose rq') (rq_Owner rq') (rq_FileExt rq') of
                   None \<Rightarrow> Inl (uerrf ErrInvalidRequest ''generate storage path'')
                 | Some storagePath \<Rightarrow> Inr (new_session rq' storagePath mode partSize partCount StateActive now)))"

definition open_upload ::
  "'o object_storage \<Rightarrow> upload_session \<Rightarrow> ('d, 'o) uworld \<Rightarrow> (uerror + upload_session \<times> string) \<times> ('d, 'o) uworld" where
  "open_upload St x w =
     (case us_Mode x of
        ModeMultipart \<Rightarrow>
          (case os_multipart St of None \<Rightarrow> (Inl (uerrf ErrUnavailable ''multipart storage is unavailable''), w)
           | Some mp \<Rightarrow>
              (case on_obj (mp_create mp (us_StoragePath x) (us_MIMEType x)) w of
                 (Inl _, w1) \<Rightarrow> (Inl (uerrf ErrUnavailable ''create multipart upload''), w1)
               | (Inr uid, w1) \<Rightarrow>
                   if trim_space uid = [] then (Inl (uerrf ErrUnavailable ''multipart upload ID is empty''), w1)
                   else (Inr (x\<lparr>us_MultipartID := uid\<rparr>, []), w1)))
      | ModeSingle \<Rightarrow>
          (case on_obj (os_presign St ''PUT'' (us_StoragePath x)) w of
             (Inl _, w1) \<Rightarrow> (Inl (uerrf ErrUnavailable ''create upload URL''), w1)
           | (Inr url, w1) \<Rightarrow>
               if url = [] then (Inl (uerrf ErrUnavailable ''create upload URL''), w1) else (Inr (x, url), w1))
      | ModeReused \<Rightarrow> (Inl (uerr ErrInvalidRequest), w))"

definition abandon_multipart :: "'o object_storage \<Rightarrow> upload_session \<Rightarrow> ('d, 'o) uworld \<Rightarrow> ('d, 'o) uworld" where
  "abandon_multipart St x w =
     (if us_Mode x = ModeMultipart \<and> us_MultipartID x \<noteq> []
      then (case os_multipart St of None \<Rightarrow> w
            | Some mp \<Rightarrow> snd (on_obj (mp_abort mp (us_StoragePath x) (us_MultipartID x)) w))
      else w)"

definition Start ::
  "(upload_session, 'd) sqltab \<Rightarrow> upload_env \<Rightarrow> 'o object_storage \<Rightarrow> upload_options \<Rightarrow> string \<Rightarrow> nat list option \<Rightarrow> string \<Rightarrow> time \<Rightarrow>
   upload_request \<Rightarrow> ('d, 'o) uworld \<Rightarrow> (uerror + upload_session \<times> string) \<times> ('d, 'o) uworld" where
  "Start S E St opts fresh entropy day now request w =
     (case validateContext w of (Some e, w0) \<Rightarrow> (Inl e, w0)
      | (None, w0) \<Rightarrow>
     (case plan_session E opts fresh entropy day now request of Inl e \<Rightarrow> (Inl e, w0)
      | Inr x0 \<Rightarrow>
     (case open_upload St x0 w0 of (Inl e, w1) \<Rightarrow> (Inl e, w1)
      | (Inr (x, url), w1) \<Rightarrow>
     (case on_db (CreateSession S E x) w1 of
        (Some e, w2) \<Rightarrow> (Inl (mapServiceError e), abandon_multipart St x w2)
      | (None, w2) \<Rightarrow> (Inr (x, url), w2)))))"

section \<open>Reading\<close>

text \<open>The checks that every operation on a session of a member begins with.\<close>

definition entry_checks :: "upload_env \<Rightarrow> member \<Rightarrow> string \<Rightarrow> ('d, 'o) uworld \<Rightarrow> uerror option \<times> ('d, 'o) uworld" where
  "entry_checks E owner i w =
     (case validateContext w of (Some e, w1) \<Rightarrow> (Some e, w1) | (None, w1) \<Rightarrow> (validateOwnerAndID E owner i, w1))"

definition Get ::
  "(upload_session, 'd) sqltab \<Rightarrow> upload_env \<Rightarrow> member \<Rightarrow> string \<Rightarrow> ('d, 'o) uworld \<Rightarrow> (uerror + upload_session) \<times> ('d, 'o) uworld" where
  "Get S E owner i w =
     (case entry_checks E owner i w of (Some e, w1) \<Rightarrow> (Inl e, w1)
      | (None, w1) \<Rightarrow>
     (case on_db (GetSession S E owner i) w1 of (Inl e, w2) \<Rightarrow> (Inl (mapServiceError e), w2) | (Inr x, w2) \<Rightarrow> (Inr x, w2)))"

definition active_multipart ::
  "(upload_session, 'd) sqltab \<Rightarrow> upload_env \<Rightarrow> member \<Rightarrow> string \<Rightarrow> time \<Rightarrow> ('d, 'o) uworld \<Rightarrow> (uerror + upload_session) \<times> ('d, 'o) uworld" where
  "active_multipart S E owner i now w =
     (case on_db (GetSession S E owner i) w of (Inl e, w1) \<Rightarrow> (Inl (mapServiceError e), w1)
      | (Inr x, w1) \<Rightarrow>
         if \<not> now < us_ExpiresAt x \<and> us_State x = StateActive then (Inl (uerr ErrExpired), w1)
         else if us_State x \<noteq> StateActive \<or> us_Mode x \<noteq> ModeMultipart \<or> us_MultipartID x = [] then (Inl (uerr ErrConflict), w1)
         else (Inr x, w1))"

fun check_numbers :: "int \<Rightarrow> int list \<Rightarrow> int list \<Rightarrow> uerror option" where
  "check_numbers count seen [] = None"
| "check_numbers count seen (n # ns) =
     (if n < 1 \<or> n > count then Some (uerrf ErrInvalidRequest ''part number out of range'')
      else if n \<in> set seen then Some (uerrf ErrInvalidRequest ''duplicate part number'')
      else check_numbers count (n # seen) ns)"

fun sign_parts ::
  "'o multipart_storage \<Rightarrow> upload_session \<Rightarrow> int list \<Rightarrow> (int \<times> string) list \<Rightarrow> ('d, 'o) uworld \<Rightarrow>
   (uerror + (int \<times> string) list) \<times> ('d, 'o) uworld" where
  "sign_parts mp x [] signed w = (Inr signed, w)"
| "sign_parts mp x (n # ns) signed w =
     (case on_obj (mp_part_url mp (us_StoragePath x) (us_MultipartID x) n) w of
        (Inl _, w1) \<Rightarrow> (Inl (uerrf ErrUnavailable ''create part upload URL''), w1)
      | (Inr url, w1) \<Rightarrow>
          if url = [] then (Inl (uerrf ErrUnavailable ''create part upload URL''), w1)
          else sign_parts mp x ns (signed @ [(n, url)]) w1)"

definition PartURLs ::
  "(upload_session, 'd) sqltab \<Rightarrow> upload_env \<Rightarrow> 'o object_storage \<Rightarrow> member \<Rightarrow> string \<Rightarrow> time \<Rightarrow> int list \<Rightarrow>
   ('d, 'o) uworld \<Rightarrow> (uerror + (int \<times> string) list) \<times> ('d, 'o) uworld" where
  "PartURLs S E St owner i now partNumbers w =
     (case entry_checks E owner i w of (Some e, w1) \<Rightarrow> (Inl e, w1)
      | (None, w1) \<Rightarrow>
         if partNumbers = [] \<or> length partNumbers > maxPartURLBatch then (Inl (uerrf ErrInvalidRequest ''invalid part URL batch''), w1)
         else
        (case active_multipart S E owner i now w1 of (Inl e, w2) \<Rightarrow> (Inl e, w2)
         | (Inr x, w2) \<Rightarrow>
            (case check_numbers (us_PartCount x) [] partNumbers of Some e \<Rightarrow> (Inl e, w2)
             | None \<Rightarrow>
                (case os_multipart St of None \<Rightarrow> (Inl (uerrf ErrUnavailable ''multipart storage is unavailable''), w2)
                 | Some mp \<Rightarrow> sign_parts mp x partNumbers [] w2))))"

definition Parts ::
  "(upload_session, 'd) sqltab \<Rightarrow> upload_env \<Rightarrow> 'o object_storage \<Rightarrow> member \<Rightarrow> string \<Rightarrow> time \<Rightarrow>
   ('d, 'o) uworld \<Rightarrow> (uerror + upload_part list) \<times> ('d, 'o) uworld" where
  "Parts S E St owner i now w =
     (case entry_checks E owner i w of (Some e, w1) \<Rightarrow> (Inl e, w1)
      | (None, w1) \<Rightarrow>
     (case active_multipart S E owner i now w1 of (Inl e, w2) \<Rightarrow> (Inl e, w2)
      | (Inr x, w2) \<Rightarrow>
         (case os_multipart St of None \<Rightarrow> (Inl (uerrf ErrUnavailable ''multipart storage is unavailable''), w2)
          | Some mp \<Rightarrow>
             (case on_obj (mp_list mp (us_StoragePath x) (us_MultipartID x)) w2 of
                (Inl _, w3) \<Rightarrow> (Inl (uerrf ErrUnavailable ''list uploaded parts''), w3)
              | (Inr parts, w3) \<Rightarrow> (Inr parts, w3)))))"

definition completedFile ::
  "(core_file, 'd) sqltab \<Rightarrow> member \<Rightarrow> upload_session \<Rightarrow> ('d, 'o) uworld \<Rightarrow> (uerror + core_file) \<times> ('d, 'o) uworld" where
  "completedFile F owner x w =
     (case us_FileID x of
        None \<Rightarrow> (Inl (uerrf ErrConflict ''completed session has no file ID''), w)
      | Some i \<Rightarrow>
          if i = 0 then (Inl (uerrf ErrConflict ''completed session has no file ID''), w)
          else (case on_db (GetFile F owner i) w of (Inl e, w1) \<Rightarrow> (Inl (mapServiceError e), w1) | (Inr f, w1) \<Rightarrow> (Inr f, w1)))"

section \<open>Completing\<close>

text \<open>Merging the parts, when the session has parts. An error is recovered from if the object is there.\<close>

definition merge_parts ::
  "'o object_storage \<Rightarrow> upload_session \<Rightarrow> upload_part list \<Rightarrow> ('d, 'o) uworld \<Rightarrow> uerror option \<times> ('d, 'o) uworld" where
  "merge_parts St x parts w =
     (if us_Mode x = ModeMultipart then
        (case validateMultipartParts x parts of Some e \<Rightarrow> (Some e, w)
         | None \<Rightarrow>
        (case os_multipart St of None \<Rightarrow> (Some (uerrf ErrUnavailable ''multipart storage is unavailable''), w)
         | Some mp \<Rightarrow>
        (case on_obj (mp_complete mp (us_StoragePath x) (us_MultipartID x) (map_of (rev (map (\<lambda>p. (pt_PartNumber p, pt_ETag p)) parts)))) w of
           (None, w1) \<Rightarrow> (None, w1)
         | (Some _, w1) \<Rightarrow>
            (case ctx_err w1 of (Some c, w2) \<Rightarrow> (Some (ctx_error c), w2)
             | (None, w2) \<Rightarrow>
                (case on_obj (os_head St (us_StoragePath x)) w2 of
                   (Inl _, w3) \<Rightarrow> (Some (uerrf ErrUnavailable ''merge multipart upload''), w3)
                 | (Inr _, w3) \<Rightarrow> (None, w3))))))
      else if parts \<noteq> [] then (Some (uerrf ErrInvalidRequest ''parts are only valid for multipart uploads''), w)
      else (None, w))"

definition run_verifier ::
  "upload_env \<Rightarrow> 'o object_storage \<Rightarrow> ('d, 'o) verifier option \<Rightarrow> upload_session \<Rightarrow> ('d, 'o) uworld \<Rightarrow>
   (uerror + verified_object) \<times> ('d, 'o) uworld" where
  "run_verifier E St verifier x w =
     (case (case verifier of None \<Rightarrow> defaultVerifier E St | Some v \<Rightarrow> v) x w of
        (Inr verified, w1) \<Rightarrow>
          (case validateVerifiedObjectFromSession E x verified of Some e \<Rightarrow> (Inl e, w1) | None \<Rightarrow> (Inr verified, w1))
      | (Inl err, w1) \<Rightarrow>
          (case ctx_err w1 of (Some c, w2) \<Rightarrow> (Inl (ctx_error c), w2)
           | (None, w2) \<Rightarrow>
               if errors_is err ErrIntegrity \<or> errors_is err ErrInvalidRequest \<or> errors_is err ErrExpired
               then (Inl (mapServiceError err), w2)
               else (Inl (uerrf ErrUnavailable ''object verifier failed''), w2)))"

definition completeClaimed ::
  "(upload_session, 'd) sqltab \<Rightarrow> (core_file, 'd) sqltab \<Rightarrow> upload_env \<Rightarrow> 'o object_storage \<Rightarrow> ('d, 'o) verifier option \<Rightarrow> time \<Rightarrow>
   upload_session \<Rightarrow> string \<Rightarrow> upload_part list \<Rightarrow> ('d, 'o) uworld \<Rightarrow> (uerror + core_file) \<times> ('d, 'o) uworld" where
  "completeClaimed S F E St verifier now x token parts w =
     (case merge_parts St x parts w of (Some e, w1) \<Rightarrow> (Inl e, w1)
      | (None, w1) \<Rightarrow>
     (case run_verifier E St verifier x w1 of (Inl e, w2) \<Rightarrow> (Inl e, w2)
      | (Inr verified, w2) \<Rightarrow>
     (case on_db (FinalizeComplete S F E (session_owner x) (us_ID x) token now (coreFileFromVerified E x verified)) w2 of
        (Inl e, w3) \<Rightarrow> (Inl (mapServiceError e), w3)
      | (Inr f, w3) \<Rightarrow> (Inr f, w3))))"

text \<open>After a conflict, \<open>Complete\<close> looks whether someone else has completed the session.\<close>

definition after_conflict ::
  "(upload_session, 'd) sqltab \<Rightarrow> (core_file, 'd) sqltab \<Rightarrow> upload_env \<Rightarrow> member \<Rightarrow> string \<Rightarrow> uerror \<Rightarrow> uerror \<Rightarrow>
   ('d, 'o) uworld \<Rightarrow> (uerror + core_file) \<times> ('d, 'o) uworld" where
  "after_conflict S F E owner i err answer w =
     (if errors_is err ErrConflict
      then (case on_db (GetSession S E owner i) w of
              (Inr latest, w1) \<Rightarrow> if us_State latest = StateCompleted then completedFile F owner latest w1 else (Inl answer, w1)
            | (Inl _, w1) \<Rightarrow> (Inl answer, w1))
      else (Inl answer, w))"

text \<open>
  \<open>now\<close>, \<open>now2\<close> and \<open>now3\<close> are the readings before the claim, after it and at the registration; \<open>now4\<close>
  is the one that a release of the lease stores.
\<close>

definition Complete ::
  "(upload_session, 'd) sqltab \<Rightarrow> (core_file, 'd) sqltab \<Rightarrow> upload_env \<Rightarrow> 'o object_storage \<Rightarrow> upload_options \<Rightarrow> ('d, 'o) verifier option \<Rightarrow>
   time \<Rightarrow> time \<Rightarrow> time \<Rightarrow> time \<Rightarrow> string option \<Rightarrow> member \<Rightarrow> string \<Rightarrow> upload_part list \<Rightarrow>
   ('d, 'o) uworld \<Rightarrow> (uerror + core_file) \<times> ('d, 'o) uworld" where
  "Complete S F E St opts verifier now now2 now3 now4 newToken owner i parts w =
     (case entry_checks E owner i w of (Some e, w0) \<Rightarrow> (Inl e, w0)
      | (None, w0) \<Rightarrow>
     (case on_db (GetSession S E owner i) w0 of (Inl e, w1) \<Rightarrow> (Inl (mapServiceError e), w1)
      | (Inr x, w1) \<Rightarrow>
         if us_State x = StateCompleted then completedFile F owner x w1
         else if us_State x \<in> {StateAborted, StateExpired} then (Inl (uerr ErrConflict), w1)
         else if \<not> now < us_ExpiresAt x then (Inl (uerr ErrExpired), w1)
         else
        (case newToken of None \<Rightarrow> (Inl (uerrf ErrUnavailable ''generate lease token''), w1)
         | Some token \<Rightarrow>
        (case on_db (ClaimLease S E owner i StateCompleting token now (now + op_CompletionTimeout opts)) w1 of
           (Inl e, w2) \<Rightarrow> after_conflict S F E owner i e (mapServiceError e) w2
         | (Inr claimed, w2) \<Rightarrow>
            if \<not> now2 < us_ExpiresAt claimed
            then (Inl (uerr ErrExpired), snd (on_db (ReleaseLease S E owner i token now4) w2))
            else
           (case completeClaimed S F E St verifier now3 claimed token parts w2 of
              (Inl e, w3) \<Rightarrow> after_conflict S F E owner i e e (snd (on_db (ReleaseLease S E owner i token now4) w3))
            | (Inr file, w3) \<Rightarrow>
                (Inr file, if us_StoragePath claimed \<noteq> cf_StoragePath file
                           then snd (on_obj (os_delete St (us_StoragePath claimed)) w3) else w3))))))"

section \<open>Trusted registration\<close>

definition existingRegistration ::
  "(core_file, 'd) sqltab \<Rightarrow> upload_env \<Rightarrow> member \<Rightarrow> upload_session \<Rightarrow> upload_request \<Rightarrow> verified_object \<Rightarrow>
   ('d, 'o) uworld \<Rightarrow> (uerror + core_file) \<times> ('d, 'o) uworld" where
  "existingRegistration F E owner x request verified w =
     (if us_State x \<noteq> StateCompleted then (Inl (uerr ErrConflict), w)
      else case completedFile F owner x w of (Inl e, w1) \<Rightarrow> (Inl e, w1)
           | (Inr file, w1) \<Rightarrow>
               (case validateRegisterExistingRetry E x file request verified of Some e \<Rightarrow> (Inl e, w1) | None \<Rightarrow> (Inr file, w1)))"

text \<open>The end of \<open>RegisterExisting\<close>: what was stored is read again and compared.\<close>

definition confirm_registration ::
  "(upload_session, 'd) sqltab \<Rightarrow> (core_file, 'd) sqltab \<Rightarrow> upload_env \<Rightarrow> upload_request \<Rightarrow> verified_object \<Rightarrow> core_file \<Rightarrow>
   ('d, 'o) uworld \<Rightarrow> (uerror + core_file) \<times> ('d, 'o) uworld" where
  "confirm_registration S F E rq verified registered w =
     (case on_db (GetSession S E (rq_Owner rq) (rq_ID rq)) w of (Inl e, w1) \<Rightarrow> (Inl (mapServiceError e), w1)
      | (Inr stored, w1) \<Rightarrow>
     (case completedFile F (rq_Owner rq) stored w1 of (Inl e, w2) \<Rightarrow> (Inl e, w2)
      | (Inr file, w2) \<Rightarrow>
         (case validateRegisterExistingRetry E stored file rq verified of Some e \<Rightarrow> (Inl e, w2) | None \<Rightarrow> (Inr registered, w2))))"

definition RegisterExisting ::
  "(upload_session, 'd) sqltab \<Rightarrow> (core_file, 'd) sqltab \<Rightarrow> upload_env \<Rightarrow> string \<Rightarrow> time \<Rightarrow> upload_request \<Rightarrow> verified_object \<Rightarrow>
   ('d, 'o) uworld \<Rightarrow> (uerror + core_file) \<times> ('d, 'o) uworld" where
  "RegisterExisting S F E fresh now request verified w =
     (case validateContext w of (Some e, w0) \<Rightarrow> (Inl e, w0)
      | (None, w0) \<Rightarrow>
     (case normalizeRequest E fresh (request\<lparr>rq_ExpiresAt := zero_time\<rparr>) now True of Inl e \<Rightarrow> (Inl e, w0)
      | Inr rq \<Rightarrow>
     (case validateVerifiedObject E rq verified of Some e \<Rightarrow> (Inl e, w0)
      | None \<Rightarrow>
     (case on_db (GetSession S E (rq_Owner rq) (rq_ID rq)) w0 of
        (Inr existing, w1) \<Rightarrow> existingRegistration F E (rq_Owner rq) existing rq verified w1
      | (Inl e, w1) \<Rightarrow>
         if \<not> errors_is e ErrNotFound then (Inl (mapServiceError e), w1)
         else let x = (new_session (rq\<lparr>rq_ExpiresAt := now\<rparr>) (vo_StoragePath verified) ModeReused 0 0 StateCompleted now)
         in case on_db (repo_RegisterExisting S F E now x (coreFileFromVerified E x verified)) w1 of
              (Inr registered, w2) \<Rightarrow> confirm_registration S F E rq verified registered w2
            | (Inl err, w2) \<Rightarrow>
                if errors_is err ErrConflict
                then (case on_db (GetSession S E (rq_Owner rq) (rq_ID rq)) w2 of
                        (Inr existing, w3) \<Rightarrow>
                          if us_State existing = StateCompleted then existingRegistration F E (rq_Owner rq) existing rq verified w3
                          else (Inl (mapServiceError err), w3)
                      | (Inl _, w3) \<Rightarrow> (Inl (mapServiceError err), w3))
                else (Inl (mapServiceError err), w2)))))"

definition UseVerifiedObject ::
  "(upload_session, 'd) sqltab \<Rightarrow> (core_file, 'd) sqltab \<Rightarrow> upload_env \<Rightarrow> time \<Rightarrow> member \<Rightarrow> string \<Rightarrow> verified_object \<Rightarrow>
   ('d, 'o) uworld \<Rightarrow> (uerror + core_file) \<times> ('d, 'o) uworld" where
  "UseVerifiedObject S F E now owner i verified w =
     (case entry_checks E owner i w of (Some e, w0) \<Rightarrow> (Inl e, w0)
      | (None, w0) \<Rightarrow>
     (case on_db (GetSession S E owner i) w0 of (Inl e, w1) \<Rightarrow> (Inl (mapServiceError e), w1)
      | (Inr x, w1) \<Rightarrow>
         if us_State x \<noteq> StateCompleted \<or> us_FileID x = None then (Inl (uerr ErrConflict), w1)
         else
        (case completedFile F owner x w1 of (Inl e, w2) \<Rightarrow> (Inl e, w2)
         | (Inr file, w2) \<Rightarrow>
            (case validateUseVerifiedObject E file verified of Some e \<Rightarrow> (Inl e, w2)
             | None \<Rightarrow>
                (case on_db (UpdateFilePath S F E owner i (the (us_FileID x)) (cf_StoragePath file) (vo_StoragePath verified) now) w2 of
                   (Inl e, w3) \<Rightarrow> (Inl (mapServiceError e), w3)
                 | (Inr f, w3) \<Rightarrow> (Inr f, w3))))))"

section \<open>Aborting and cleaning up\<close>

definition multipartUploadAlreadyAborted :: "oerror \<Rightarrow> bool" where
  "multipartUploadAlreadyAborted err \<longleftrightarrow> err = Some ''NoSuchUpload''"

text \<open>Whether the parts were merged already is found out by looking for the object.\<close>

definition abort_parts ::
  "'o object_storage \<Rightarrow> upload_session \<Rightarrow> ('d, 'o) uworld \<Rightarrow> uerror option \<times> ('d, 'o) uworld" where
  "abort_parts St x w =
     (case on_obj (os_head St (us_StoragePath x)) w of
        (Inr (Some _), w1) \<Rightarrow> (None, w1)
      | (_, w1) \<Rightarrow>
         (case os_multipart St of None \<Rightarrow> (Some (uerrf ErrUnavailable ''multipart storage is unavailable''), w1)
          | Some mp \<Rightarrow>
             (case on_obj (mp_abort mp (us_StoragePath x) (us_MultipartID x)) w1 of
                (None, w2) \<Rightarrow> (None, w2)
              | (Some err, w2) \<Rightarrow>
                 (case ctx_err w2 of (Some c, w3) \<Rightarrow> (Some (ctx_error c), w3)
                  | (None, w3) \<Rightarrow>
                      (if \<not> multipartUploadAlreadyAborted err then Some (uerrf ErrUnavailable ''abort multipart upload'') else None, w3)))))"

definition removeUnfinishedObject ::
  "'o object_storage \<Rightarrow> upload_session \<Rightarrow> ('d, 'o) uworld \<Rightarrow> uerror option \<times> ('d, 'o) uworld" where
  "removeUnfinishedObject St x w =
     (if us_StoragePath x = [] \<or> us_State x \<noteq> StateAborting then (Some (uerr ErrConflict), w)
      else case (if us_Mode x = ModeMultipart \<and> us_MultipartID x \<noteq> [] then abort_parts St x w else (None, w)) of
             (Some e, w1) \<Rightarrow> (Some e, w1)
           | (None, w1) \<Rightarrow>
               if us_Mode x = ModeReused then (None, w1)
               else (case on_obj (os_delete St (us_StoragePath x)) w1 of
                       (None, w2) \<Rightarrow> (None, w2)
                     | (Some _, w2) \<Rightarrow> (case fail_with (uerrf ErrUnavailable ''delete unfinished object'') w2 of (e, w3) \<Rightarrow> (Some e, w3))))"

definition Abort ::
  "(upload_session, 'd) sqltab \<Rightarrow> upload_env \<Rightarrow> 'o object_storage \<Rightarrow> upload_options \<Rightarrow> time \<Rightarrow> time \<Rightarrow> string option \<Rightarrow> member \<Rightarrow> string \<Rightarrow>
   ('d, 'o) uworld \<Rightarrow> uerror option \<times> ('d, 'o) uworld" where
  "Abort S E St opts now now2 newToken owner i w =
     (case entry_checks E owner i w of (Some e, w0) \<Rightarrow> (Some e, w0)
      | (None, w0) \<Rightarrow>
     (case on_db (GetSession S E owner i) w0 of (Inl e, w1) \<Rightarrow> (Some (mapServiceError e), w1)
      | (Inr x, w1) \<Rightarrow>
         if us_State x = StateCompleted then (Some (uerr ErrConflict), w1)
         else if us_State x \<in> {StateAborted, StateExpired} then (None, w1)
         else
        (case newToken of None \<Rightarrow> (Some (uerrf ErrUnavailable ''generate lease token''), w1)
         | Some token \<Rightarrow>
        (case on_db (ClaimLease S E owner i StateAborting token now (now + op_CompletionTimeout opts)) w1 of
           (Inl e, w2) \<Rightarrow> (Some (mapServiceError e), w2)
         | (Inr claimed, w2) \<Rightarrow>
        (case removeUnfinishedObject St claimed w2 of (Some e, w3) \<Rightarrow> (Some e, w3)
         | (None, w3) \<Rightarrow>
        (case on_db (Finish S E owner i token StateAborted now2) w3 of
           (Some e, w4) \<Rightarrow> (Some (mapServiceError e), w4)
         | (None, w4) \<Rightarrow> (None, w4)))))))"

text \<open>
  The loop of \<open>CleanupExpired\<close>; \<open>rounds\<close> gives for each candidate the two clock readings and the token.
\<close>

fun cleanup_loop ::
  "(upload_session, 'd) sqltab \<Rightarrow> upload_env \<Rightarrow> 'o object_storage \<Rightarrow> upload_options \<Rightarrow> (upload_session \<times> time \<times> time \<times> string option) list \<Rightarrow> nat \<Rightarrow>
   ('d, 'o) uworld \<Rightarrow> nat \<times> uerror option \<times> ('d, 'o) uworld" where
  "cleanup_loop S E St opts [] removed w = (removed, None, w)"
| "cleanup_loop S E St opts ((x, now, now2, newToken) # rounds) removed w =
     (case newToken of None \<Rightarrow> (removed, Some (uerrf ErrUnavailable ''generate cleanup lease token''), w)
      | Some token \<Rightarrow>
     (case on_db (ClaimLease S E (session_owner x) (us_ID x) StateAborting token now (now + op_CompletionTimeout opts)) w of
        (Inl e, w1) \<Rightarrow>
          if errors_is e ErrConflict \<or> errors_is e ErrNotFound then cleanup_loop S E St opts rounds removed w1
          else (removed, Some (mapServiceError e), w1)
      | (Inr claimed, w1) \<Rightarrow>
     (case removeUnfinishedObject St claimed w1 of (Some e, w2) \<Rightarrow> (removed, Some e, w2)
      | (None, w2) \<Rightarrow>
     (case on_db (Finish S E (session_owner x) (us_ID x) token StateExpired now2) w2 of
        (Some e, w3) \<Rightarrow>
          if errors_is e ErrConflict then cleanup_loop S E St opts rounds removed w3 else (removed, Some (mapServiceError e), w3)
      | (None, w3) \<Rightarrow> cleanup_loop S E St opts rounds (removed + 1) w3))))"

definition CleanupExpired ::
  "(upload_session, 'd) sqltab \<Rightarrow> upload_env \<Rightarrow> 'o object_storage \<Rightarrow> upload_options \<Rightarrow> time \<Rightarrow> (nat \<Rightarrow> time \<times> time \<times> string option) \<Rightarrow>
   time \<Rightarrow> int \<Rightarrow> ('d, 'o) uworld \<Rightarrow> nat \<times> uerror option \<times> ('d, 'o) uworld" where
  "CleanupExpired S E St opts dbnow readings before limit w =
     (case validateContext w of (Some e, w0) \<Rightarrow> (0, Some e, w0)
      | (None, w0) \<Rightarrow>
         if is_zero before \<or> limit < 1 \<or> limit > maxCleanupBatch then (0, Some (uerrf ErrInvalidRequest ''invalid cleanup bound''), w0)
         else
        (case on_db (ListExpired S dbnow (before - op_CleanupGrace opts) limit) w0 of
           (Inl e, w1) \<Rightarrow> (0, Some (mapServiceError e), w1)
         | (Inr xs, w1) \<Rightarrow>
             cleanup_loop S E St opts (map (\<lambda>(n, x). (x, readings n)) (enumerate 0 xs)) 0 w1))"

end
