(* ===== verification/Row_Life.thy ===== *)
theory Row_Life
  imports Main
begin

text \<open>
  The life of the rows of a table under the operations of a component, as an interface: a component
  provides an invariant, its operations as steps, and a relation \<open>life\<close> between a row and what may become
  of it. What is proved here once holds for every sequence of operations.
\<close>

locale row_life =
  fixes inv :: "'w \<Rightarrow> bool"
    and rows :: "'w \<Rightarrow> 'r list"
    and step :: "'e \<Rightarrow> 'w \<Rightarrow> 'w"
    and ok :: "'e \<Rightarrow> bool"
    and life :: "'r \<Rightarrow> 'r \<Rightarrow> bool"
  assumes life_refl: "life r r"
    and life_trans: "life a b \<Longrightarrow> life b c \<Longrightarrow> life a c"
    and step_inv: "inv w \<Longrightarrow> ok e \<Longrightarrow> inv (step e w)"
    and step_life: "inv w \<Longrightarrow> ok e \<Longrightarrow> r \<in> set (rows w) \<Longrightarrow> \<exists>r' \<in> set (rows (step e w)). life r r'"
begin

lemma fold_inv: "inv w \<Longrightarrow> list_all ok es \<Longrightarrow> inv (fold step es w)"
  by (induction es arbitrary: w) (auto intro: step_inv)

lemma fold_life:
  "inv w \<Longrightarrow> list_all ok es \<Longrightarrow> r \<in> set (rows w) \<Longrightarrow> \<exists>r' \<in> set (rows (fold step es w)). life r r'"
proof (induction es arbitrary: w r)
  case (Cons e es)
  then obtain r1 where r1: "r1 \<in> set (rows (step e w))" "life r r1" using step_life by fastforce
  have "inv (step e w)" using Cons.prems step_inv by simp
  with Cons.IH r1(1) Cons.prems(2) obtain r2 where "r2 \<in> set (rows (fold step es (step e w)))" "life r1 r2" by fastforce
  with r1(2) life_trans show ?case by fastforce
qed (auto intro: life_refl)

end

end
