(* ===== verification/Upload_Machine.thy ===== *)
theory Upload_Machine
  imports Upload_Service Row_Life
begin

text \<open>
  The life of upload sessions and registered files under the operations of the repository, in any order,
  with any arguments and any failures of the database. Requests that run at the same time interleave
  at these operations. The invariant ties every completed session to a file of its own.
\<close>

section \<open>Invariant\<close>

definition upload_tables :: "(upload_session, 'd) sqltab \<Rightarrow> (core_file, 'd) sqltab \<Rightarrow> bool" where
  "upload_tables S F \<longleftrightarrow> sql_ok S \<and> sql_ok F \<and> leaves_alone S F \<and> leaves_alone F S \<and>
     row_id F = cf_ID \<and> with_id F = (\<lambda>n f. f\<lparr>cf_ID := n\<rparr>)"

definition row_ok :: "upload_session \<Rightarrow> bool" where
  "row_ok r \<longleftrightarrow> (us_State r \<in> {StateCompleting, StateAborting} \<longleftrightarrow> us_LeaseExpiresAt r \<noteq> None) \<and>
     (us_State r = StateCompleted \<longleftrightarrow> us_FileID r \<noteq> None)"

definition linked :: "core_file list \<Rightarrow> upload_session \<Rightarrow> bool" where
  "linked files r \<longleftrightarrow> (\<forall>i. us_FileID r = Some i \<longrightarrow> i \<noteq> 0 \<and> (\<exists>f \<in> set files. file_owned (session_owner r) i f))"

definition file_ids :: "upload_session list \<Rightarrow> nat list" where
  "file_ids rows = List.map_filter us_FileID rows"

definition upload_inv :: "(upload_session, 'd) sqltab \<Rightarrow> (core_file, 'd) sqltab \<Rightarrow> upload_env \<Rightarrow> 'd \<Rightarrow> bool" where
  "upload_inv S F E d \<longleftrightarrow> upload_tables S F \<and>
     sorted_wrt (\<lambda>a b. \<not> ue_same E (us_ID a) (us_ID b)) (t_rows S d) \<and>
     (\<forall>r \<in> set (t_rows S d). row_ok r \<and> linked (t_rows F d) r) \<and>
     distinct (file_ids (t_rows S d)) \<and> keyed F d \<and> 0 < t_next F d"

section \<open>Life\<close>

definition terminal_state :: "upload_state \<Rightarrow> bool" where
  "terminal_state st \<longleftrightarrow> st \<in> {StateCompleted, StateAborted, StateExpired}"

text \<open>What never changes of a session, and of a file.\<close>

definition session_frame :: "upload_session \<Rightarrow> upload_session" where
  "session_frame r = r\<lparr>us_State := StateActive, us_FileID := None, us_LeaseToken := [], us_LeaseExpiresAt := None, us_UpdatedAt := 0\<rparr>"

definition file_frame :: "core_file \<Rightarrow> core_file" where
  "file_frame f = f\<lparr>cf_StoragePath := [], cf_UpdatedAt := 0\<rparr>"

definition session_life :: "upload_session \<Rightarrow> upload_session \<Rightarrow> bool" where
  "session_life a b \<longleftrightarrow> session_frame a = session_frame b \<and> (terminal_state (us_State a) \<longrightarrow> b = a) \<and>
     (us_State a = StateAborting \<longrightarrow> us_State b \<in> {StateAborting, StateAborted, StateExpired})"

definition file_life :: "core_file \<Rightarrow> core_file \<Rightarrow> bool" where
  "file_life a b \<longleftrightarrow> file_frame a = file_frame b"

lemma session_life_refl: "session_life r r"
  by (auto simp: session_life_def)

lemma session_life_trans: "session_life a b \<Longrightarrow> session_life b c \<Longrightarrow> session_life a c"
  by (auto simp: session_life_def terminal_state_def)

lemma session_frame_fields:
  assumes "session_frame a = session_frame b"
  shows "us_ID a = us_ID b" "us_OrganizationID a = us_OrganizationID b" "us_UserID a = us_UserID b" "session_owner a = session_owner b"
proof -
  have "us_ID (session_frame a) = us_ID (session_frame b)" "us_OrganizationID (session_frame a) = us_OrganizationID (session_frame b)"
    "us_UserID (session_frame a) = us_UserID (session_frame b)" using assms by simp_all
  then show "us_ID a = us_ID b" "us_OrganizationID a = us_OrganizationID b" "us_UserID a = us_UserID b" "session_owner a = session_owner b"
    by (simp_all add: session_frame_def session_owner_def)
qed

lemma file_frame_fields:
  assumes "file_frame a = file_frame b"
  shows "cf_ID a = cf_ID b" "file_owned o' i a = file_owned o' i b" "cf_Size a = cf_Size b" "cf_Hash a = cf_Hash b"
proof -
  have "cf_ID (file_frame a) = cf_ID (file_frame b)" "cf_DeletedAt (file_frame a) = cf_DeletedAt (file_frame b)"
    "cf_OrganizationID (file_frame a) = cf_OrganizationID (file_frame b)" "cf_UserID (file_frame a) = cf_UserID (file_frame b)"
    "cf_Size (file_frame a) = cf_Size (file_frame b)" "cf_Hash (file_frame a) = cf_Hash (file_frame b)" using assms by simp_all
  then show "cf_ID a = cf_ID b" "file_owned o' i a = file_owned o' i b" "cf_Size a = cf_Size b" "cf_Hash a = cf_Hash b"
    by (simp_all add: file_frame_def file_owned_def)
qed

section \<open>Effects that keep the invariant\<close>

lemma sorted_wrt_key_map:
  "(\<And>r. r \<in> set rows \<Longrightarrow> us_ID (f r) = us_ID r) \<Longrightarrow>
   sorted_wrt (\<lambda>a b. \<not> ue_same E (us_ID a) (us_ID b)) (map f rows) = sorted_wrt (\<lambda>a b. \<not> ue_same E (us_ID a) (us_ID b)) rows"
  by (induction rows) auto

lemma file_ids_map: "(\<And>r. r \<in> set rows \<Longrightarrow> us_FileID (f r) = us_FileID r) \<Longrightarrow> file_ids (map f rows) = file_ids rows"
  by (induction rows) (auto simp: file_ids_def List.map_filter_def)

lemma file_ids_append: "file_ids (as @ bs) = file_ids as @ file_ids bs"
  by (simp add: file_ids_def List.map_filter_def)

lemma file_ids_mem: "i \<in> set (file_ids rows) \<longleftrightarrow> (\<exists>r \<in> set rows. us_FileID r = Some i)"
  by (force simp: file_ids_def List.map_filter_def image_iff)

lemma linked_mono: "linked files r \<Longrightarrow> set files \<subseteq> set files' \<Longrightarrow> linked files' r"
  by (auto simp: linked_def)

text \<open>What an update of the session table leaves behind, whatever it reports.\<close>

definition updates :: "(upload_session, 'd) sqltab \<Rightarrow> (core_file, 'd) sqltab \<Rightarrow> (upload_session \<Rightarrow> bool) \<Rightarrow> (upload_session \<Rightarrow> upload_session) \<Rightarrow> 'd \<Rightarrow> 'd \<Rightarrow> bool" where
  "updates S F p f d d' \<longleftrightarrow> t_rows S d' = update_where p f (t_rows S d) \<and> t_rows F d' = t_rows F d \<and> t_next F d' = t_next F d"

text \<open>An update of sessions that keeps identity and file.\<close>

lemma inv_update:
  assumes inv: "upload_inv S F E d"
    and u: "updates S F p f d d'"
    and f: "\<And>r. p r \<Longrightarrow> row_ok r \<Longrightarrow> row_ok (f r) \<and> session_frame (f r) = session_frame r \<and> us_FileID (f r) = us_FileID r"
  shows "upload_inv S F E d'"
proof -
  define g where "g r = (if p r then f r else r)" for r
  have rows': "t_rows S d' = map g (t_rows S d)" and F: "t_rows F d' = t_rows F d" "t_next F d' = t_next F d"
    using u by (simp_all add: updates_def update_where_def g_def)
  have ok: "row_ok r" "linked (t_rows F d) r" if "r \<in> set (t_rows S d)" for r using inv that by (auto simp: upload_inv_def)
  have g: "us_ID (g r) = us_ID r" "us_FileID (g r) = us_FileID r" "row_ok (g r)" "session_owner (g r) = session_owner r"
    if "r \<in> set (t_rows S d)" for r
    using f [of r] ok(1) [OF that] session_frame_fields [of "f r" r] by (auto simp: g_def)
  have "keyed F d'" using inv F keyed_rows [of F d d'] by (simp add: upload_inv_def)
  moreover have "\<forall>r \<in> set (map g (t_rows S d)). row_ok r \<and> linked (t_rows F d) r"
    using g ok by (auto simp: linked_def)
  ultimately show ?thesis
    using inv F sorted_wrt_key_map [of "t_rows S d" g E] file_ids_map [of "t_rows S d" g] g(1,2)
    unfolding upload_inv_def rows' by simp
qed

text \<open>A new session without a file.\<close>

lemma inv_add:
  assumes inv: "upload_inv S F E d" and rows: "t_rows S d' = t_rows S d @ [x]" and F: "t_rows F d' = t_rows F d" "t_next F d' = t_next F d"
    and new: "\<not> list_ex (\<lambda>r. ue_same E (us_ID r) (us_ID x)) (t_rows S d)" and x: "row_ok x" "us_FileID x = None"
  shows "upload_inv S F E d'"
proof -
  have "keyed F d'" using inv F keyed_rows [of F d d'] by (simp add: upload_inv_def)
  moreover have "linked (t_rows F d) x" using x(2) by (simp add: linked_def)
  moreover have "file_ids (t_rows S d @ [x]) = file_ids (t_rows S d)" using x(2) by (simp add: file_ids_append) (simp add: file_ids_def List.map_filter_def)
  ultimately show ?thesis
    using inv F new x(1) by (auto simp: upload_inv_def rows sorted_wrt_append list_ex_iff)
qed

text \<open>A file is registered together with the one session that it belongs to.\<close>

lemma linked_fresh:
  assumes inv: "upload_inv S F E d" and i: "i = t_next F d"
  shows "i \<notin> set (file_ids (t_rows S d))" "0 < i"
proof -
  show "i \<notin> set (file_ids (t_rows S d))"
  proof
    assume "i \<in> set (file_ids (t_rows S d))"
    then obtain r where r: "r \<in> set (t_rows S d)" "us_FileID r = Some i" by (auto simp: file_ids_mem)
    with inv obtain f where "f \<in> set (t_rows F d)" "cf_ID f = i" by (auto simp: upload_inv_def linked_def file_owned_def)
    with inv i show False by (auto simp: upload_inv_def keyed_def upload_tables_def)
  qed
  show "0 < i" using inv i by (simp add: upload_inv_def)
qed

lemma keyed_new_file:
  assumes inv: "upload_inv S F E d" and "t_rows F d' = t_rows F d @ [f\<lparr>cf_ID := t_next F d\<rparr>]" "t_next F d' = t_next F d + 1"
  shows "keyed F d'"
  using keyed_insert [of F d d' "[f]"] assms by (auto simp: upload_inv_def upload_tables_def)

lemma update_where_one:
  assumes "rows = as @ r # bs" "p r" "\<And>x. x \<in> set (as @ bs) \<Longrightarrow> \<not> p x"
  shows "update_where p f rows = as @ f r # bs"
proof -
  have "map (\<lambda>x. if p x then f x else x) xs = xs" if "\<forall>x \<in> set xs. \<not> p x" for xs
    using that by (induction xs) auto
  then show ?thesis using assms by (simp add: update_where_def)
qed

lemma inv_complete:
  assumes inv: "upload_inv S F E d"
    and F: "t_rows F d' = t_rows F d @ [f\<lparr>cf_ID := t_next F d\<rparr>]" "t_next F d' = t_next F d + 1"
    and rows: "t_rows S d' = update_where p (completed_row E (t_next F d) now) (t_rows S d)"
    and r: "t_rows S d = as @ r # bs" "p r" "\<And>x. x \<in> set (as @ bs) \<Longrightarrow> \<not> p x" "us_State r = StateCompleting"
    and f: "cf_DeletedAt f = None" "cf_OrganizationID f = us_OrganizationID r" "cf_UserID f = us_UserID r"
  shows "upload_inv S F E d'"
proof -
  let ?i = "t_next F d"
  define r' where "r' = completed_row E ?i now r"
  have rows': "t_rows S d' = as @ r' # bs" unfolding rows r'_def by (rule update_where_one [where p = p, OF r(1-3)])
  have same: "us_ID r' = us_ID r" "session_owner r' = session_owner r" "us_FileID r' = Some ?i" "row_ok r'"
    by (auto simp: r'_def completed_row_def freed_row_def session_owner_def row_ok_def)
  have "file_owned (session_owner r) ?i (f\<lparr>cf_ID := ?i\<rparr>)" using f by (simp add: file_owned_def session_owner_def)
  then have "linked (t_rows F d') r'" using same linked_fresh [OF inv refl] by (auto simp: linked_def F(1))
  moreover have "row_ok x \<and> linked (t_rows F d') x" if "x \<in> set (as @ bs)" for x
    using inv that r(1) linked_mono [of "t_rows F d" x "t_rows F d'"] by (auto simp: upload_inv_def F(1))
  moreover have "us_FileID r = None" using inv r(1,4) by (auto simp: upload_inv_def row_ok_def)
  then have "file_ids (as @ r # bs) = file_ids as @ file_ids bs" "file_ids (as @ r' # bs) = file_ids as @ ?i # file_ids bs"
    using same(3) by (simp_all add: file_ids_def List.map_filter_def)
  ultimately show ?thesis
    using inv same linked_fresh [OF inv refl] keyed_new_file [OF inv F] F(2)
    by (auto simp: upload_inv_def rows' r(1) sorted_wrt_append)
qed

lemma inv_register:
  assumes inv: "upload_inv S F E d"
    and F: "t_rows F d' = t_rows F d @ [f\<lparr>cf_ID := t_next F d\<rparr>]" "t_next F d' = t_next F d + 1"
    and rows: "t_rows S d' = t_rows S d @ [x]"
    and new: "\<not> list_ex (\<lambda>r. ue_same E (us_ID r) (us_ID x)) (t_rows S d)" and x: "row_ok x" "us_FileID x = Some (t_next F d)"
    and f: "cf_DeletedAt f = None" "cf_OrganizationID f = us_OrganizationID x" "cf_UserID f = us_UserID x"
  shows "upload_inv S F E d'"
proof -
  have "linked (t_rows F d') x"
    using x(2) f linked_fresh [OF inv refl] by (auto simp: linked_def F(1) file_owned_def session_owner_def)
  moreover have "row_ok r \<and> linked (t_rows F d') r" if "r \<in> set (t_rows S d)" for r
    using inv that linked_mono [of "t_rows F d" r "t_rows F d'"] by (auto simp: upload_inv_def F(1))
  moreover have "file_ids (t_rows S d @ [x]) = file_ids (t_rows S d) @ [t_next F d]"
    using x(2) by (simp add: file_ids_append) (simp add: file_ids_def List.map_filter_def)
  ultimately show ?thesis
    using inv x(1) new linked_fresh [OF inv refl] keyed_new_file [OF inv F] F(2)
    by (auto simp: upload_inv_def rows sorted_wrt_append list_ex_iff)
qed

section \<open>Operations\<close>

text \<open>Two database states with the same tables.\<close>

definition same_tables :: "(upload_session, 'd) sqltab \<Rightarrow> (core_file, 'd) sqltab \<Rightarrow> 'd \<Rightarrow> 'd \<Rightarrow> bool" where
  "same_tables S F d d' \<longleftrightarrow> t_rows S d' = t_rows S d \<and> t_rows F d' = t_rows F d \<and> t_next F d' = t_next F d"

lemma inv_same: "upload_inv S F E d \<Longrightarrow> same_tables S F d d' \<Longrightarrow> upload_inv S F E d'"
  using keyed_rows [of F d d'] by (simp add: upload_inv_def same_tables_def)

lemma sql_first_cases:
  assumes "sql_ok T" "sql_first T p s = (r, s')"
  shows "t_rows T (s_db s') = t_rows T (s_db s) \<and> t_next T (s_db s') = t_next T (s_db s) \<and>
    (case r of Found x \<Rightarrow> x \<in> set (t_rows T (s_db s)) \<and> p x | Missing \<Rightarrow> \<not> list_ex p (t_rows T (s_db s)) | Failed \<Rightarrow> True)"
proof -
  obtain q s1 where q: "sql_select T (filter p) s = (q, s1)" by (meson surj_pair)
  from assms(1) q show ?thesis
  proof (cases rule: sql_select_cases)
    case 1
    show ?thesis
    proof (cases "filter p (t_rows T (s_db s))")
      case Nil
      with assms(2) q 1 show ?thesis by (auto simp: sql_first_def list_ex_iff filter_empty_conv)
    next
      case (Cons x xs)
      then have "x \<in> set (filter p (t_rows T (s_db s)))" by simp
      then have "x \<in> set (t_rows T (s_db s)) \<and> p x" by simp
      with assms(2) q 1 Cons show ?thesis by (auto simp: sql_first_def)
    qed
  next
    case 2
    with assms(2) q show ?thesis by (auto simp: sql_first_def)
  qed
qed

lemma sql_first_frame:
  assumes "leaves_alone T U" "sql_first T p s = (r, s')"
  shows "t_rows U (s_db s') = t_rows U (s_db s) \<and> t_next U (s_db s') = t_next U (s_db s)"
  using assms sql_frames(1) [OF assms(1), of "filter p" s] by (auto simp: sql_first_def split: prod.splits sum.splits list.splits)

text \<open>Reading keeps both tables.\<close>

lemma first_same:
  assumes "upload_tables S F"
  shows "sql_first S p s = (r, s') \<Longrightarrow> same_tables S F (s_db s) (s_db s')"
    and "sql_first F q s = (r', s') \<Longrightarrow> same_tables S F (s_db s) (s_db s')"
  using assms sql_first_cases [of S p s r s'] sql_first_cases [of F q s r' s'] sql_first_frame [of S F p s r s'] sql_first_frame [of F S q s r' s']
  by (auto simp: upload_tables_def same_tables_def)

lemma same_tables_trans: "same_tables S F a b \<Longrightarrow> same_tables S F b c \<Longrightarrow> same_tables S F a c"
  by (simp add: same_tables_def)

lemma same_tables_refl [simp]: "same_tables S F a a"
  by (simp add: same_tables_def)

lemma GetSession_same:
  assumes "upload_tables S F" "GetSession S E owner i s = (r, s')"
  shows "same_tables S F (s_db s) (s_db s')"
  using assms(2) first_same(1) [OF assms(1)]
  by (auto simp: GetSession_def split: option.splits prod.splits first.splits)

lemma GetSession_found:
  assumes "upload_tables S F" "GetSession S E owner i s = (Inr x, s')"
  shows "x \<in> set (t_rows S (s_db s)) \<and> owned E owner i x"
proof -
  obtain r s1 where f: "sql_first S (owned E owner i) s = (r, s1)" by (meson surj_pair)
  then have "r = Found x" using assms(2) by (auto simp: GetSession_def split: option.splits first.splits)
  with f sql_first_cases [of S "owned E owner i" s r s1] assms(1) show ?thesis by (auto simp: upload_tables_def)
qed

lemma updates_or_same:
  assumes "upload_tables S F" "sql_update S p f s = (r, s')"
  shows "same_tables S F (s_db s) (s_db s') \<or> updates S F p f (s_db s) (s_db s')"
proof -
  have ok: "sql_ok S" and fr: "leaves_alone S F" using assms(1) by (simp_all add: upload_tables_def)
  from ok assms(2) show ?thesis
    by (cases rule: sql_update_cases) (use sql_frames(2) [OF fr assms(2)] in \<open>auto simp: same_tables_def updates_def\<close>)
qed

lemma updates_same_trans: "updates S F p f a b \<Longrightarrow> same_tables S F b c \<Longrightarrow> updates S F p f a c"
  by (simp add: updates_def same_tables_def)

text \<open>Claims, releases and finishes are updates of one kind each.\<close>

definition claim_clause :: "upload_env \<Rightarrow> member \<Rightarrow> string \<Rightarrow> upload_state \<Rightarrow> time \<Rightarrow> upload_session \<Rightarrow> bool" where
  "claim_clause E owner i state now r \<longleftrightarrow> owned E owner i r \<and> claimable state now r"

definition release_clause :: "upload_env \<Rightarrow> member \<Rightarrow> string \<Rightarrow> string \<Rightarrow> upload_session \<Rightarrow> bool" where
  "release_clause E owner i token r \<longleftrightarrow> owned E owner i r \<and> ue_same E (us_LeaseToken r) token \<and> us_State r = StateCompleting"

definition finish_clause :: "upload_env \<Rightarrow> member \<Rightarrow> string \<Rightarrow> string \<Rightarrow> time \<Rightarrow> upload_session \<Rightarrow> bool" where
  "finish_clause E owner i token now r \<longleftrightarrow> owned E owner i r \<and> ue_same E (us_LeaseToken r) token \<and>
     us_State r \<in> {StateCompleting, StateAborting} \<and> lease_left now r"

lemma ClaimLease_effect:
  assumes T: "upload_tables S F" and out: "ClaimLease S E owner i state token now until s = (r, s')"
  shows "same_tables S F (s_db s) (s_db s') \<or>
    state \<in> {StateCompleting, StateAborting} \<and> updates S F (claim_clause E owner i state now) (leased_row E state token now until) (s_db s) (s_db s')"
proof -
  obtain u s1 where u: "sql_update S (\<lambda>r. owned E owner i r \<and> claimable state now r) (leased_row E state token now until) s = (u, s1)"
    by (meson surj_pair)
  have clause: "claim_clause E owner i state now = (\<lambda>r. owned E owner i r \<and> claimable state now r)" by (simp add: fun_eq_iff claim_clause_def)
  consider "s' = s" | "state \<in> {StateCompleting, StateAborting}" "s' = s1"
    | "state \<in> {StateCompleting, StateAborting}" "\<exists>g. GetSession S E owner i s1 = (g, s')"
    using out u by (auto simp: ClaimLease_def split: option.splits if_splits sum.splits)
  then show ?thesis
  proof cases
    case 1
    then show ?thesis by simp
  next
    case 2
    with updates_or_same [OF T u] show ?thesis by (auto simp: clause)
  next
    case 3
    then have "same_tables S F (s_db s1) (s_db s')" using GetSession_same [OF T] by blast
    with 3(1) updates_or_same [OF T u] show ?thesis unfolding clause by (auto simp: updates_def same_tables_def)
  qed
qed

lemma ReleaseLease_effect:
  assumes T: "upload_tables S F" and out: "ReleaseLease S E owner i token now s = (r, s')"
  shows "same_tables S F (s_db s) (s_db s') \<or> updates S F (release_clause E owner i token) (freed_row E StateActive now) (s_db s) (s_db s')"
proof -
  have clause: "release_clause E owner i token = (\<lambda>r. owned E owner i r \<and> ue_same E (us_LeaseToken r) token \<and> us_State r = StateCompleting)"
    by (simp add: fun_eq_iff release_clause_def)
  obtain u s1 where u: "sql_update S (release_clause E owner i token) (freed_row E StateActive now) s = (u, s1)" by (meson surj_pair)
  have "s' = s \<or> s' = s1" using out u by (auto simp: clause ReleaseLease_def split: option.splits if_splits sum.splits)
  with updates_or_same [OF T u] show ?thesis by auto
qed

lemma Finish_effect:
  assumes T: "upload_tables S F" and out: "Finish S E owner i token state now s = (r, s')"
  shows "same_tables S F (s_db s) (s_db s') \<or>
    state \<in> {StateAborted, StateExpired} \<and> updates S F (finish_clause E owner i token now) (freed_row E state now) (s_db s) (s_db s')"
proof -
  have clause: "finish_clause E owner i token now = (\<lambda>r. owned E owner i r \<and> ue_same E (us_LeaseToken r) token \<and>
      us_State r \<in> {StateCompleting, StateAborting} \<and> lease_left now r)" by (simp add: fun_eq_iff finish_clause_def)
  obtain u s1 where u: "sql_update S (finish_clause E owner i token now) (freed_row E state now) s = (u, s1)" by (meson surj_pair)
  have "s' = s \<or> state \<in> {StateAborted, StateExpired} \<and> s' = s1"
    using out u by (auto simp: clause Finish_def split: option.splits if_splits sum.splits)
  with updates_or_same [OF T u] show ?thesis by auto
qed

lemma inv_claim:
  assumes "upload_inv S F E d" "state \<in> {StateCompleting, StateAborting}"
    "updates S F (claim_clause E owner i state now) (leased_row E state token now until) d d'"
  shows "upload_inv S F E d'"
  by (rule inv_update [OF assms(1,3)])
     (use assms(2) in \<open>auto simp: claim_clause_def claimable_def leased_row_def row_ok_def session_frame_def split: if_splits\<close>)

lemma inv_release:
  assumes "upload_inv S F E d" "updates S F (release_clause E owner i token) (freed_row E StateActive now) d d'"
  shows "upload_inv S F E d'"
  by (rule inv_update [OF assms]) (auto simp: release_clause_def freed_row_def row_ok_def session_frame_def)

lemma inv_finish:
  assumes "upload_inv S F E d" "state \<in> {StateAborted, StateExpired}"
    "updates S F (finish_clause E owner i token now) (freed_row E state now) d d'"
  shows "upload_inv S F E d'"
  by (rule inv_update [OF assms(1,3)])
     (use assms(2) in \<open>auto simp: finish_clause_def freed_row_def row_ok_def session_frame_def\<close>)

section \<open>Transactions\<close>

lemma in_transaction_cases:
  assumes "in_transaction body s = (res, s')"
  obtains (undone) e where "res = Inl e" "s_db s' = s_db s"
  | (committed) x s0 s1 where "s_db s0 = s_db s" "body s0 = (Inr x, s1)" "s_db s' = s_db s1" "res = Inr x \<or> (\<exists>e. res = Inl e)"
proof -
  obtain b s0 where b: "sql_begin s = (b, s0)" by (meson surj_pair)
  from b show thesis
  proof (cases rule: sql_begin_cases)
    case 2
    with assms b that(1) show thesis by (auto simp: in_transaction_def)
  next
    case 1
    obtain r s1 where r: "body s0 = (r, s1)" by (meson surj_pair)
    show thesis
    proof (cases r)
      case (Inl e)
      with assms b 1 r that(1) show thesis by (auto simp: in_transaction_def sql_rollback_def)
    next
      case (Inr x)
      obtain c s2 where c: "sql_commit (s_db s) s1 = (c, s2)" by (meson surj_pair)
      from c show thesis
        by (cases rule: sql_commit_cases) (use assms b 1 r Inr c that in \<open>auto simp: in_transaction_def\<close>)
    qed
  qed
qed

lemma register_file_cases:
  assumes T: "upload_tables S F" and out: "register_file F E now file s = (r, s')"
  shows "(r = None \<or> r = Some (file\<lparr>cf_ID := t_next F (s_db s)\<rparr>)) \<and> t_rows S (s_db s') = t_rows S (s_db s) \<and>
    (r \<noteq> None \<longrightarrow> t_rows F (s_db s') = t_rows F (s_db s) @ [(stored_file E now file)\<lparr>cf_ID := t_next F (s_db s)\<rparr>] \<and>
      t_next F (s_db s') = t_next F (s_db s) + 1)"
proof -
  have ok: "sql_ok F" "leaves_alone F S" and w: "with_id F = (\<lambda>n f. f\<lparr>cf_ID := n\<rparr>)" using T by (simp_all add: upload_tables_def)
  obtain q s1 where q: "sql_insert F [stored_file E now file] s = (q, s1)" by (meson surj_pair)
  have S: "t_rows S (s_db s1) = t_rows S (s_db s)" using sql_frames(3) [OF ok(2) q] by simp
  from ok(1) q show ?thesis
    by (cases rule: sql_insert_cases) (use out q S w in \<open>auto simp: register_file_def\<close>)
qed

text \<open>The successful runs of the two registering transactions: an earlier registration, or a new one.\<close>

lemma read_file_found:
  assumes T: "upload_tables S F" and out: "read_file F owner i msg s = (Inr f, s')"
  shows "same_tables S F (s_db s) (s_db s') \<and> f \<in> set (t_rows F (s_db s)) \<and> file_owned owner i f"
proof -
  obtain r s1 where r: "sql_first F (file_owned owner i) s = (r, s1)" by (meson surj_pair)
  with out have "r = Found f" "s' = s1" by (auto simp: read_file_def split: first.splits)
  with r T first_same(2) [OF T r] sql_first_cases [of F "file_owned owner i" s r s1] show ?thesis by (auto simp: upload_tables_def)
qed

lemma affected_one_split:
  assumes "affected found p f rows = 1" and "\<And>r. p r \<Longrightarrow> f r \<noteq> r"
  obtains as r bs where "rows = as @ r # bs" "p r" "\<And>x. x \<in> set (as @ bs) \<Longrightarrow> \<not> p x"
proof -
  have "filter (\<lambda>r. p r \<and> (found \<or> f r \<noteq> r)) rows = filter p rows" using assms(2) by (intro filter_cong) auto
  with assms(1) obtain r where r: "filter p rows = [r]" by (auto simp: affected_def length_Suc_conv)
  then obtain as bs where "rows = as @ r # bs" "\<forall>u \<in> set as. \<not> p u" "p r" "filter p bs = []"
    by (auto simp: filter_eq_Cons_iff)
  then show thesis using that [of as r bs] by (auto simp: filter_empty_conv)
qed

lemma finalize_body_cases:
  assumes T: "upload_tables S F" and out: "finalize_body S F E owner i token now file s = (Inr f, s')"
  obtains (earlier) x j where "same_tables S F (s_db s) (s_db s')" "f \<in> set (t_rows F (s_db s))" "file_owned owner j f"
      "x \<in> set (t_rows S (s_db s))" "owned E owner i x" "us_State x = StateCompleted" "us_FileID x = Some j"
  | (fresh) p as r bs where "f = file\<lparr>cf_ID := t_next F (s_db s)\<rparr>"
      "t_rows F (s_db s') = t_rows F (s_db s) @ [(stored_file E now file)\<lparr>cf_ID := t_next F (s_db s)\<rparr>]"
      "t_next F (s_db s') = t_next F (s_db s) + 1"
      "t_rows S (s_db s') = update_where p (completed_row E (t_next F (s_db s)) now) (t_rows S (s_db s))"
      "t_rows S (s_db s) = as @ r # bs" "p r" "\<And>x. x \<in> set (as @ bs) \<Longrightarrow> \<not> p x"
      "us_State r = StateCompleting" "owned E owner i r" "ue_same E (us_LeaseToken r) token" "lease_left now r"
      "\<exists>x. x \<in> set (t_rows S (s_db s)) \<and> owned E owner i x \<and> us_State x = StateCompleting \<and> us_LeaseToken x = token \<and> lease_left now x"
proof -
  have ok: "sql_ok S" "leaves_alone S F" using T by (simp_all add: upload_tables_def)
  obtain q s1 where q: "sql_first S (owned E owner i) s = (q, s1)" by (meson surj_pair)
  obtain x where x: "q = Found x" using out q by (cases q) (auto simp: finalize_body_def)
  have same: "same_tables S F (s_db s) (s_db s1)" using first_same(1) [OF T q] .
  have xr: "x \<in> set (t_rows S (s_db s))" "owned E owner i x" using sql_first_cases [OF ok(1) q] x by auto
  show thesis
  proof (cases "us_State x = StateCompleted \<and> us_FileID x \<noteq> None")
    case True
    then have rf: "read_file F owner (the (us_FileID x)) ''read completed file'' s1 = (Inr f, s')" using out q x by (auto simp: finalize_body_def)
    from read_file_found [OF T rf] True same xr show thesis
      using earlier [of "the (us_FileID x)" x] by (auto simp: same_tables_def)
  next
    case False
    define p where "p = (\<lambda>r. owned E owner i r \<and> us_State r = StateCompleting \<and> ue_same E (us_LeaseToken r) token \<and> lease_left now r)"
    have guard: "us_State x = StateCompleting" "us_LeaseToken x = token" "lease_left now x"
      using out q x False by (auto simp: finalize_body_def split: if_splits)
    obtain rf s2 where rf: "register_file F E now file s1 = (rf, s2)" by (meson surj_pair)
    obtain file' where file': "rf = Some file'" using out q x False guard rf by (cases rf) (auto simp: finalize_body_def)
    obtain u s3 where u: "sql_update S p (completed_row E (cf_ID file') now) s2 = (u, s3)" by (meson surj_pair)
    have fin: "u = Inr 1" "f = file'" "s' = s3"
      using out q x False guard rf file' u by (auto simp: finalize_body_def p_def split: sum.splits if_splits)
    from register_file_cases [OF T rf] file' same
    have F2: "file' = file\<lparr>cf_ID := t_next F (s_db s)\<rparr>" "t_rows S (s_db s2) = t_rows S (s_db s)"
      "t_rows F (s_db s2) = t_rows F (s_db s) @ [(stored_file E now file)\<lparr>cf_ID := t_next F (s_db s)\<rparr>]" "t_next F (s_db s2) = t_next F (s_db s) + 1"
      by (auto simp: same_tables_def)
    have up: "affected (t_found_rows S) p (completed_row E (cf_ID file') now) (t_rows S (s_db s)) = 1"
      "t_rows S (s_db s3) = update_where p (completed_row E (cf_ID file') now) (t_rows S (s_db s))"
      using sql_update_cases [OF ok(1) u] fin(1) F2(2) by (metis Inr_inject Inl_Inr_False)+
    have "completed_row E (cf_ID file') now r \<noteq> r" if "p r" for r
    proof
      assume "completed_row E (cf_ID file') now r = r"
      then have "us_State (completed_row E (cf_ID file') now r) = us_State r" by simp
      with that show False by (simp add: p_def completed_row_def freed_row_def)
    qed
    from affected_one_split [OF up(1) this] obtain as r bs where
      r: "t_rows S (s_db s) = as @ r # bs" "p r" "\<And>x. x \<in> set (as @ bs) \<Longrightarrow> \<not> p x" by blast
    have fr: "t_rows F (s_db s3) = t_rows F (s_db s2)" "t_next F (s_db s3) = t_next F (s_db s2)"
      using sql_frames(2) [OF ok(2) u] by simp_all
    show thesis
      by (rule fresh [of p as r bs]) (use fin F2 up fr r guard xr in \<open>auto simp: p_def\<close>)
  qed
qed

lemma register_body_cases:
  assumes T: "upload_tables S F" and out: "register_body S F E now x file s = (Inr f, s')"
  obtains (earlier) "same_tables S F (s_db s) (s_db s')" "f \<in> set (t_rows F (s_db s))"
  | (fresh) "f = file\<lparr>cf_ID := t_next F (s_db s)\<rparr>"
      "t_rows F (s_db s') = t_rows F (s_db s) @ [(stored_file E now file)\<lparr>cf_ID := t_next F (s_db s)\<rparr>]"
      "t_next F (s_db s') = t_next F (s_db s) + 1"
      "t_rows S (s_db s') = t_rows S (s_db s) @ [stored_session E (x\<lparr>us_State := StateCompleted, us_FileID := Some (t_next F (s_db s))\<rparr>)]"
      "\<not> list_ex (\<lambda>r. ue_same E (us_ID r) (us_ID x)) (t_rows S (s_db s))"
proof -
  have ok: "sql_ok S" "leaves_alone S F" using T by (simp_all add: upload_tables_def)
  obtain q s1 where q: "sql_first S (owned E (session_owner x) (us_ID x)) s = (q, s1)" by (meson surj_pair)
  have same: "same_tables S F (s_db s) (s_db s1)" using first_same(1) [OF T q] .
  show thesis
  proof (cases q)
    case (Found y)
    then obtain j where rf: "read_file F (session_owner x) j ''read existing core file'' s1 = (Inr f, s')"
      using out q by (auto simp: register_body_def split: option.splits if_splits)
    from read_file_found [OF T rf] same show thesis using earlier by (auto simp: same_tables_def)
  next
    case Failed
    with out q show thesis by (auto simp: register_body_def)
  next
    case Missing
    obtain rf s2 where rf: "register_file F E now file s1 = (rf, s2)" by (meson surj_pair)
    obtain file' where file': "rf = Some file'" using out q Missing rf by (cases rf) (auto simp: register_body_def)
    define y where "y = stored_session E (x\<lparr>us_State := StateCompleted, us_FileID := Some (cf_ID file')\<rparr>)"
    obtain u s3 where u: "sql_insert_new S (\<lambda>r. ue_same E (us_ID r) (us_ID x)) y s2 = (u, s3)" by (meson surj_pair)
    have fin: "u = Inr 1" "f = file'" "s' = s3"
      using out q Missing rf file' u by (auto simp: register_body_def y_def split: sum.splits if_splits)
    from register_file_cases [OF T rf] file' same
    have F2: "file' = file\<lparr>cf_ID := t_next F (s_db s)\<rparr>" "t_rows S (s_db s2) = t_rows S (s_db s)"
      "t_rows F (s_db s2) = t_rows F (s_db s) @ [(stored_file E now file)\<lparr>cf_ID := t_next F (s_db s)\<rparr>]" "t_next F (s_db s2) = t_next F (s_db s) + 1"
      by (auto simp: same_tables_def)
    have fr: "t_rows F (s_db s3) = t_rows F (s_db s2)" "t_next F (s_db s3) = t_next F (s_db s2)"
      using sql_frames(4) [OF ok(2) u] by simp_all
    from ok(1) u have "t_rows S (s_db s3) = t_rows S (s_db s) @ [y]" "\<not> list_ex (\<lambda>r. ue_same E (us_ID r) (us_ID x)) (t_rows S (s_db s))"
      by (cases rule: sql_insert_new_cases; use fin F2(2) in auto)+
    with fin F2 fr show thesis using fresh by (simp add: y_def)
  qed
qed

section \<open>Steps\<close>

datatype uev =
    UCreate upload_session
  | UClaim member string upload_state string time time
  | URelease member string string time
  | UFinish member string string upload_state time
  | UFinalize member string string time core_file
  | URegister time upload_session core_file
  | UPath member string nat string string time

text \<open>
  What the service asks of the repository: a new session is active and unclaimed, a registered one
  unclaimed, and a file belongs to the member it is registered for.
\<close>

fun uev_ok :: "uev \<Rightarrow> bool" where
  "uev_ok (UCreate x) \<longleftrightarrow> us_State x = StateActive \<and> us_FileID x = None \<and> us_LeaseExpiresAt x = None"
| "uev_ok (UFinalize owner i token now file) \<longleftrightarrow>
     cf_DeletedAt file = None \<and> cf_OrganizationID file = OrganizationID owner \<and> cf_UserID file = UserID owner"
| "uev_ok (URegister now x file) \<longleftrightarrow> us_LeaseExpiresAt x = None \<and>
     cf_DeletedAt file = None \<and> cf_OrganizationID file = us_OrganizationID x \<and> cf_UserID file = us_UserID x"
| "uev_ok _ \<longleftrightarrow> True"

fun uexec :: "(upload_session, 'd) sqltab \<Rightarrow> (core_file, 'd) sqltab \<Rightarrow> upload_env \<Rightarrow> uev \<Rightarrow> 'd session \<Rightarrow> 'd session" where
  "uexec S F E (UCreate x) s = snd (CreateSession S E x s)"
| "uexec S F E (UClaim owner i state token now until) s = snd (ClaimLease S E owner i state token now until s)"
| "uexec S F E (URelease owner i token now) s = snd (ReleaseLease S E owner i token now s)"
| "uexec S F E (UFinish owner i token state now) s = snd (Finish S E owner i token state now s)"
| "uexec S F E (UFinalize owner i token now file) s = snd (FinalizeComplete S F E owner i token now file s)"
| "uexec S F E (URegister now x file) s = snd (repo_RegisterExisting S F E now x file s)"
| "uexec S F E (UPath owner i fileID expected path now) s = snd (UpdateFilePath S F E owner i fileID expected path now s)"

text \<open>
  The effect of a step on the two tables: nothing, an update of sessions that keeps the files, a new
  session, a completion, a registration, or a new path of a file.
\<close>

inductive ueffect :: "(upload_session, 'd) sqltab \<Rightarrow> (core_file, 'd) sqltab \<Rightarrow> upload_env \<Rightarrow> 'd \<Rightarrow> 'd \<Rightarrow> bool" for S F E d d' where
  eff_same: "same_tables S F d d' \<Longrightarrow> ueffect S F E d d'"
| eff_claim: "state \<in> {StateCompleting, StateAborting} \<Longrightarrow>
    updates S F (claim_clause E owner i state now) (leased_row E state token now until) d d' \<Longrightarrow> ueffect S F E d d'"
| eff_release: "updates S F (release_clause E owner i token) (freed_row E StateActive now) d d' \<Longrightarrow> ueffect S F E d d'"
| eff_finish: "state \<in> {StateAborted, StateExpired} \<Longrightarrow>
    updates S F (finish_clause E owner i token now) (freed_row E state now) d d' \<Longrightarrow> ueffect S F E d d'"
| eff_create: "t_rows S d' = t_rows S d @ [x] \<Longrightarrow> t_rows F d' = t_rows F d \<Longrightarrow> t_next F d' = t_next F d \<Longrightarrow>
    \<not> list_ex (\<lambda>r. ue_same E (us_ID r) (us_ID x)) (t_rows S d) \<Longrightarrow> row_ok x \<Longrightarrow> us_FileID x = None \<Longrightarrow> ueffect S F E d d'"
| eff_complete: "t_rows F d' = t_rows F d @ [f\<lparr>cf_ID := t_next F d\<rparr>] \<Longrightarrow> t_next F d' = t_next F d + 1 \<Longrightarrow>
    t_rows S d' = update_where p (completed_row E (t_next F d) now) (t_rows S d) \<Longrightarrow>
    t_rows S d = as @ r # bs \<Longrightarrow> p r \<Longrightarrow> (\<And>x. x \<in> set (as @ bs) \<Longrightarrow> \<not> p x) \<Longrightarrow> us_State r = StateCompleting \<Longrightarrow>
    cf_DeletedAt f = None \<Longrightarrow> cf_OrganizationID f = us_OrganizationID r \<Longrightarrow> cf_UserID f = us_UserID r \<Longrightarrow> ueffect S F E d d'"
| eff_register: "t_rows F d' = t_rows F d @ [f\<lparr>cf_ID := t_next F d\<rparr>] \<Longrightarrow> t_next F d' = t_next F d + 1 \<Longrightarrow>
    t_rows S d' = t_rows S d @ [x] \<Longrightarrow> \<not> list_ex (\<lambda>r. ue_same E (us_ID r) (us_ID x)) (t_rows S d) \<Longrightarrow>
    row_ok x \<Longrightarrow> us_FileID x = Some (t_next F d) \<Longrightarrow>
    cf_DeletedAt f = None \<Longrightarrow> cf_OrganizationID f = us_OrganizationID x \<Longrightarrow> cf_UserID f = us_UserID x \<Longrightarrow> ueffect S F E d d'"
| eff_path: "t_rows S d' = t_rows S d \<Longrightarrow> t_rows F d' = update_where q g (t_rows F d) \<Longrightarrow> t_next F d' = t_next F d \<Longrightarrow>
    (\<And>f. file_frame (g f) = file_frame f) \<Longrightarrow> ueffect S F E d d'"

lemma UpdateFilePath_effect:
  assumes T: "upload_tables S F" and out: "UpdateFilePath S F E owner i fileID expected path now s = (r, s')"
  shows "ueffect S F E (s_db s) (s_db s')"
proof (cases "s_db s' = s_db s")
  case True
  then show ?thesis by (simp add: eff_same)
next
  case False
  have "in_transaction (update_path_body S F E owner i fileID expected path now) s = (r, s')"
    using out False by (auto simp: UpdateFilePath_def split: option.splits if_splits)
  then show ?thesis
  proof (cases rule: in_transaction_cases)
    case (undone e)
    with False show ?thesis by simp
  next
    case (committed x s0 s1)
    have ok: "sql_ok F" "leaves_alone F S" using T by (simp_all add: upload_tables_def)
    obtain q2 s2 where q2: "sql_first S (owned E owner i) s0 = (q2, s2)" by (meson surj_pair)
    obtain q3 s3 where q3: "sql_first F (file_owned owner fileID) s2 = (q3, s3)" by (meson surj_pair)
    define g :: "core_file \<Rightarrow> core_file" where "g = (\<lambda>r. r\<lparr>cf_StoragePath := path, cf_UpdatedAt := ue_ms E now\<rparr>)"
    define p where "p = (\<lambda>r. file_owned owner fileID r \<and> ue_same E (cf_StoragePath r) expected)"
    obtain u s4 where u: "sql_update F p g s3 = (u, s4)" by (meson surj_pair)
    have same: "same_tables S F (s_db s0) (s_db s3)" using same_tables_trans [OF first_same(1) [OF T q2] first_same(2) [OF T q3]] .
    have "s1 = s2 \<or> s1 = s3 \<or> s1 = s4"
      using committed(2) q2 q3 u by (auto simp: update_path_body_def p_def g_def split: first.splits if_splits sum.splits)
    moreover have "ueffect S F E (s_db s0) (s_db s4)"
    proof -
      have fr: "t_rows S (s_db s4) = t_rows S (s_db s3)" using sql_frames(2) [OF ok(2) u] by simp
      have g: "file_frame (g f) = file_frame f" for f by (simp add: g_def file_frame_def)
      from ok(1) u show ?thesis
        by (cases rule: sql_update_cases)
           (use same fr g in \<open>auto simp: same_tables_def intro: eff_same eff_path [where q = p and g = g]\<close>)
    qed
    moreover have "ueffect S F E (s_db s0) (s_db s2)" "ueffect S F E (s_db s0) (s_db s3)"
      using same first_same(1) [OF T q2] by (auto intro: eff_same)
    ultimately show ?thesis using committed by auto
  qed
qed

lemma FinalizeComplete_effect:
  assumes T: "upload_tables S F" and ok: "uev_ok (UFinalize owner i token now file)"
    and out: "FinalizeComplete S F E owner i token now file s = (r, s')"
  shows "ueffect S F E (s_db s) (s_db s')"
proof (cases "s_db s' = s_db s")
  case True
  then show ?thesis by (simp add: eff_same)
next
  case False
  have "in_transaction (finalize_body S F E owner i token now file) s = (r, s')"
    using out False by (auto simp: FinalizeComplete_def split: option.splits if_splits)
  then show ?thesis
  proof (cases rule: in_transaction_cases)
    case (undone e)
    with False show ?thesis by simp
  next
    case (committed f s0 s1)
    from T committed(2) show ?thesis
    proof (cases rule: finalize_body_cases)
      case (earlier x j)
      with committed show ?thesis by (auto intro: eff_same)
    next
      case (fresh p as r bs)
      have own: "us_OrganizationID r = OrganizationID owner" "us_UserID r = UserID owner" using fresh(9) by (simp_all add: owned_def)
      show ?thesis unfolding committed(3) committed(1) [symmetric]
        by (rule eff_complete [OF fresh(2-8)]) (use ok own in \<open>simp_all add: stored_file_def\<close>)
    qed
  qed
qed

lemma RegisterExisting_effect:
  assumes T: "upload_tables S F" and ok: "uev_ok (URegister now x file)" and out: "repo_RegisterExisting S F E now x file s = (r, s')"
  shows "ueffect S F E (s_db s) (s_db s')"
proof (cases "s_db s' = s_db s")
  case True
  then show ?thesis by (simp add: eff_same)
next
  case False
  have "in_transaction (register_body S F E now x file) s = (r, s')"
    using out False by (auto simp: repo_RegisterExisting_def split: option.splits)
  then show ?thesis
  proof (cases rule: in_transaction_cases)
    case (undone e)
    with False show ?thesis by simp
  next
    case (committed f s0 s1)
    from T committed(2) show ?thesis
    proof (cases rule: register_body_cases)
      case earlier
      with committed show ?thesis by (auto intro: eff_same)
    next
      case fresh
      show ?thesis unfolding committed(3) committed(1) [symmetric]
        by (rule eff_register [OF fresh(2-4)]) (use ok fresh(5) in \<open>simp_all add: stored_file_def stored_session_def row_ok_def\<close>)
    qed
  qed
qed

lemma CreateSession_effect:
  assumes T: "upload_tables S F" and ok: "uev_ok (UCreate x)" and out: "CreateSession S E x s = (r, s')"
  shows "ueffect S F E (s_db s) (s_db s')"
proof -
  have S: "sql_ok S" "leaves_alone S F" using T by (simp_all add: upload_tables_def)
  define c :: "upload_session \<Rightarrow> bool" where "c = (\<lambda>r. ue_same E (us_ID r) (us_ID x))"
  obtain u s1 where u: "sql_insert_new S c (stored_session E x) s = (u, s1)" by (meson surj_pair)
  have "s' = s1" using out u by (auto simp: CreateSession_def c_def split: sum.splits if_splits)
  have fr: "t_rows F (s_db s1) = t_rows F (s_db s)" "t_next F (s_db s1) = t_next F (s_db s)" using sql_frames(4) [OF S(2) u] by simp_all
  have x: "row_ok (stored_session E x)" "us_FileID (stored_session E x) = None" "us_ID (stored_session E x) = us_ID x"
    using ok by (simp_all add: stored_session_def row_ok_def)
  from S(1) u show ?thesis unfolding \<open>s' = s1\<close>
    by (cases rule: sql_insert_new_cases)
       (use fr x in \<open>auto simp: same_tables_def c_def intro: eff_same eff_create [where x = "stored_session E x"]\<close>)
qed

lemma uexec_effect:
  assumes T: "upload_tables S F" and ok: "uev_ok ev"
  shows "ueffect S F E (s_db s) (s_db (uexec S F E ev s))"
proof (cases ev)
  case (UCreate x)
  with CreateSession_effect [OF T _ surjective_pairing] ok show ?thesis by simp
next
  case (UClaim owner i state token now until)
  obtain r s' where c: "ClaimLease S E owner i state token now until s = (r, s')" by (meson surj_pair)
  with UClaim ClaimLease_effect [OF T c] show ?thesis by (auto intro: eff_same eff_claim)
next
  case (URelease owner i token now)
  obtain r s' where c: "ReleaseLease S E owner i token now s = (r, s')" by (meson surj_pair)
  with URelease ReleaseLease_effect [OF T c] show ?thesis by (auto intro: eff_same eff_release)
next
  case (UFinish owner i token state now)
  obtain r s' where c: "Finish S E owner i token state now s = (r, s')" by (meson surj_pair)
  with UFinish Finish_effect [OF T c] show ?thesis by (auto intro: eff_same eff_finish)
next
  case (UFinalize owner i token now cf)
  with FinalizeComplete_effect [OF T _ surjective_pairing] ok show ?thesis by simp
next
  case (URegister now x cf)
  with RegisterExisting_effect [OF T _ surjective_pairing] ok show ?thesis by simp
next
  case (UPath owner i fileID expected path now)
  with UpdateFilePath_effect [OF T surjective_pairing] show ?thesis by simp
qed

text \<open>A new path of a file keeps its identity and its owner, so every session keeps its file.\<close>

lemma inv_path:
  assumes inv: "upload_inv S F E d" and S: "t_rows S d' = t_rows S d"
    and F: "t_rows F d' = update_where q g (t_rows F d)" "t_next F d' = t_next F d" and g: "\<And>f. file_frame (g f) = file_frame f"
  shows "upload_inv S F E d'"
proof -
  have id: "cf_ID (g f) = cf_ID f" "file_owned o' i (g f) = file_owned o' i f" for f o' i using file_frame_fields [OF g] by simp_all
  have "keyed F d'"
    using keyed_update [of F d d' q g] inv F id(1) by (auto simp: upload_inv_def upload_tables_def)
  moreover have "linked (t_rows F d') r" if "linked (t_rows F d) r" for r
    unfolding linked_def
  proof (intro allI impI)
    fix j assume j: "us_FileID r = Some j"
    with that obtain f where f: "j \<noteq> 0" "f \<in> set (t_rows F d)" "file_owned (session_owner r) j f" by (auto simp: linked_def)
    then have "(if q f then g f else f) \<in> set (t_rows F d')" "file_owned (session_owner r) j (if q f then g f else f)"
      using id(2) by (auto simp: F(1) update_where_def)
    with f(1) show "j \<noteq> 0 \<and> (\<exists>f \<in> set (t_rows F d'). file_owned (session_owner r) j f)" by blast
  qed
  ultimately show ?thesis using inv S F(2) by (auto simp: upload_inv_def)
qed

lemma ueffect_inv: "ueffect S F E d d' \<Longrightarrow> upload_inv S F E d \<Longrightarrow> upload_inv S F E d'"
proof (induction rule: ueffect.induct)
  case eff_same
  show ?case by (rule inv_same [OF eff_same.prems eff_same.hyps])
next
  case eff_claim
  show ?case by (rule inv_claim [OF eff_claim.prems eff_claim.hyps])
next
  case eff_release
  show ?case by (rule inv_release [OF eff_release.prems eff_release.hyps])
next
  case eff_finish
  show ?case by (rule inv_finish [OF eff_finish.prems eff_finish.hyps])
next
  case eff_create
  show ?case by (rule inv_add [OF eff_create.prems eff_create.hyps])
next
  case eff_complete
  show ?case by (rule inv_complete [OF eff_complete.prems eff_complete.hyps])
next
  case eff_register
  show ?case by (rule inv_register [OF eff_register.prems eff_register.hyps])
next
  case eff_path
  show ?case by (rule inv_path [OF eff_path.prems eff_path.hyps])
qed

text \<open>Every row keeps its place, and what becomes of it is one of the lives above.\<close>

lemma update_life:
  assumes "rows' = update_where p f rows" "r \<in> set rows" "life r r" "p r \<Longrightarrow> life r (f r)"
  shows "\<exists>r' \<in> set rows'. life r r'"
  using assms by (cases "p r") (auto simp: update_where_def)

lemma frame_rows [simp]:
  "session_frame (leased_row E state token now until r) = session_frame r"
  "session_frame (freed_row E state now r) = session_frame r"
  "session_frame (completed_row E n now r) = session_frame r"
  by (simp_all add: session_frame_def leased_row_def freed_row_def completed_row_def)

lemma claim_life:
  assumes "claim_clause E owner i state now r" "state \<in> {StateCompleting, StateAborting}"
  shows "session_life r (leased_row E state token now until r)"
proof -
  have "\<not> terminal_state (us_State r)" "us_State r = StateAborting \<longrightarrow> state = StateAborting"
    using assms by (auto simp: claim_clause_def claimable_def terminal_state_def split: if_splits)
  moreover have "us_State (leased_row E state token now until r) = state" by (simp add: leased_row_def)
  ultimately show ?thesis by (auto simp: session_life_def)
qed

lemma freed_life: "us_State r = StateCompleting \<or> us_State r = StateAborting \<and> state \<in> {StateAborted, StateExpired} \<Longrightarrow>
    session_life r (freed_row E state now r)"
  by (auto simp: session_life_def terminal_state_def) (simp_all add: freed_row_def)

lemma completed_life: "us_State r = StateCompleting \<Longrightarrow> session_life r (completed_row E n now r)"
  by (simp add: session_life_def terminal_state_def)

lemma ueffect_session_life:
  "ueffect S F E d d' \<Longrightarrow> r \<in> set (t_rows S d) \<Longrightarrow> \<exists>r' \<in> set (t_rows S d'). session_life r r'"
proof (induction rule: ueffect.induct)
  case (eff_claim state owner i now token until)
  show ?case
    by (rule update_life [where life = session_life, OF eff_claim.hyps(2) [unfolded updates_def, THEN conjunct1] eff_claim.prems])
       (use eff_claim.hyps(1) in \<open>auto simp: session_life_refl intro: claim_life\<close>)
next
  case (eff_release owner i token now)
  show ?case
    by (rule update_life [where life = session_life, OF eff_release.hyps(1) [unfolded updates_def, THEN conjunct1] eff_release.prems])
       (auto simp: session_life_refl release_clause_def intro: freed_life)
next
  case (eff_finish state owner i token now)
  show ?case
    by (rule update_life [where life = session_life, OF eff_finish.hyps(2) [unfolded updates_def, THEN conjunct1] eff_finish.prems])
       (use eff_finish.hyps(1) in \<open>auto simp: session_life_refl finish_clause_def intro: freed_life\<close>)
next
  case (eff_complete f p now as r0 bs)
  have r: "us_State r = StateCompleting" if "p r" using that eff_complete by auto
  show ?case
    by (rule update_life [where life = session_life, OF eff_complete.hyps(3) eff_complete.prems])
       (use r in \<open>auto simp: session_life_refl intro: completed_life\<close>)
qed (auto simp: same_tables_def intro: session_life_refl)

lemma ueffect_file_life:
  "ueffect S F E d d' \<Longrightarrow> f \<in> set (t_rows F d) \<Longrightarrow> \<exists>f' \<in> set (t_rows F d'). file_life f f'"
proof (induction rule: ueffect.induct)
  case (eff_path q g)
  show ?case
    by (rule update_life [where life = file_life, OF eff_path.hyps(2) eff_path.prems]) (simp_all add: file_life_def eff_path.hyps(4))
qed (auto simp: same_tables_def updates_def file_life_def)

interpretation sessions: row_life "\<lambda>s. upload_inv S F E (s_db s)" "\<lambda>s. t_rows S (s_db s)" "uexec S F E" uev_ok session_life
  for S :: "(upload_session, 'd) sqltab" and F :: "(core_file, 'd) sqltab" and E :: upload_env
proof
  fix s :: "'d session" and ev r
  assume inv: "upload_inv S F E (s_db s)" and ok: "uev_ok ev"
  have "upload_tables S F" using inv by (simp add: upload_inv_def)
  then have eff: "ueffect S F E (s_db s) (s_db (uexec S F E ev s))" using ok by (rule uexec_effect)
  show "upload_inv S F E (s_db (uexec S F E ev s))" using ueffect_inv [OF eff inv] .
  show "\<exists>r' \<in> set (t_rows S (s_db (uexec S F E ev s))). session_life r r'" if "r \<in> set (t_rows S (s_db s))"
    using ueffect_session_life [OF eff that] .
qed (fact session_life_refl session_life_trans)+

interpretation files: row_life "\<lambda>s. upload_inv S F E (s_db s)" "\<lambda>s. t_rows F (s_db s)" "uexec S F E" uev_ok file_life
  for S :: "(upload_session, 'd) sqltab" and F :: "(core_file, 'd) sqltab" and E :: upload_env
proof
  fix s :: "'d session" and ev f
  assume inv: "upload_inv S F E (s_db s)" and ok: "uev_ok ev"
  have "upload_tables S F" using inv by (simp add: upload_inv_def)
  then have eff: "ueffect S F E (s_db s) (s_db (uexec S F E ev s))" using ok by (rule uexec_effect)
  show "upload_inv S F E (s_db (uexec S F E ev s))" using ueffect_inv [OF eff inv] .
  show "\<exists>f' \<in> set (t_rows F (s_db (uexec S F E ev s))). file_life f f'" if "f \<in> set (t_rows F (s_db s))"
    using ueffect_file_life [OF eff that] .
qed (auto simp: file_life_def)

end
