(* ===== verification/Upload_Validation.thy ===== *)
theory Upload_Validation
  imports Upload_Service Context_Properties "HOL-Library.Multiset"
begin

text \<open>
  What the validating functions of package \<open>fileupload\<close> guarantee: the parts of a merged upload, the
  bounds of a multipart plan, the storage paths that are let through, and what the default verifier
  has seen of an object that it accepts.
\<close>

section \<open>Concrete surroundings\<close>

definition sample_uenv :: upload_env where
  "sample_uenv = \<lparr>ue_media = Some, ue_uuid = Some, ue_lower = (\<lambda>n. n), ue_sha256 = (\<lambda>_. replicate 32 171), ue_same = (=), ue_ms = (\<lambda>t. t)\<rparr>"

definition sample_options :: upload_options where
  "sample_options = \<lparr>op_MultipartThreshold = 10, op_PartSize = 4, op_CompletionTimeout = 60, op_CleanupGrace = 60\<rparr>"

definition sample_request :: upload_request where
  "sample_request = \<lparr>rq_ID = ''u1'', rq_Owner = w_member, rq_Purpose = ''doc'', rq_Filename = ''a.txt'', rq_FileExt = ''.txt'',
     rq_MIMEType = ''text/plain'', rq_SizeBytes = 11, rq_SHA256 = [], rq_AllowMultipart = True, rq_ExpiresAt = zero_time\<rparr>"

lemma sample_words:
  "plain_text ''u1''" "plain_text ''doc''" "plain_text ''a.txt''" "plain_text ''.txt''" "plain_text ''text/plain''"
  "plain_text []" "plain_text ''file.txt''" "plain_text ''txt''" "plain_text ''doc/file.txt''"
  by (simp_all add: plain_text_def)

lemmas sample_texts = plain_text_simps [OF sample_words(1)] plain_text_simps [OF sample_words(2)] plain_text_simps [OF sample_words(3)]
  plain_text_simps [OF sample_words(4)] plain_text_simps [OF sample_words(5)] plain_text_simps [OF sample_words(6)]
  plain_text_simps [OF sample_words(7)] plain_text_simps [OF sample_words(8)] plain_text_simps [OF sample_words(9)]

lemmas text_checks = trim_cutset_Nil_iff purpose_chars_def ext_chars_def rune_count_def contains_any_def slash_def is_control_def
  dot_def dotdot_def Let_def

lemma sample_purpose: "validPurpose ''doc''"
  by (simp add: validPurpose_def sample_texts text_checks)

lemma sample_normal: "normalizeRequest sample_uenv fresh sample_request 5 True = Inr sample_request"
  using w_member_ok
  by (simp add: normalizeRequest_def sample_request_def sample_uenv_def uuid_bad_def sample_purpose validFilename_def validFileExt_def mime_bad_def
      canonicalMIME_def sample_texts text_checks is_zero_def zero_time_def)

lemma sample_path: "\<exists>p. GenerateFileStoragePath sample_uenv (Some (replicate 16 7)) ''20250101'' ''doc'' w_member ''.txt'' = Some p"
  using w_member_ok
  by (simp add: GenerateFileStoragePath_def GenerateFileStoragePathWithName_def sample_uenv_def sample_texts text_checks)

lemma sample_plan:
  "\<exists>x. plan_session sample_uenv sample_options ''u1'' (Some (replicate 16 7)) ''20250101'' 5 sample_request = Inr x \<and>
     us_Mode x = ModeMultipart \<and> us_SizeBytes x = 11"
proof -
  obtain p where p: "GenerateFileStoragePath sample_uenv (Some (replicate 16 7)) ''20250101'' ''doc'' w_member ''.txt'' = Some p"
    using sample_path by blast
  have m: "uploadMode sample_options sample_request = (ModeMultipart, 4, 3)"
    by (simp add: uploadMode_def sample_options_def sample_request_def go_div_def maxPartCount_def)
  show ?thesis
    by (simp add: plan_session_def sample_normal m maxPartCount_def)
       (simp add: sample_request_def p is_zero_def zero_time_def defaultMultipartUploadTTL_def hour_def minute_def second_def new_session_def)
qed

section \<open>Parts\<close>

definition etag_ok :: "upload_part \<Rightarrow> bool" where
  "etag_ok p \<longleftrightarrow> trim_space (pt_ETag p) \<noteq> [] \<and> \<not> contains_any (pt_ETag p) [CHR 0x0D, CHR 0x0A] \<and> length (pt_ETag p) \<le> 1024"

lemma check_parts_iff:
  "check_parts n seen parts = None \<longleftrightarrow>
   (\<forall>p \<in> set parts. 1 \<le> pt_PartNumber p \<and> pt_PartNumber p \<le> n \<and> etag_ok p) \<and>
   distinct (map pt_PartNumber parts) \<and> set (map pt_PartNumber parts) \<inter> set seen = {}"
  by (induction n seen parts rule: check_parts.induct) (auto simp: etag_ok_def)

lemma distinct_range_iff:
  fixes xs :: "int list"
  assumes "distinct xs" "int (length xs) = n"
  shows "(\<forall>x \<in> set xs. 1 \<le> x \<and> x \<le> n) \<longleftrightarrow> set xs = {1..n}"
proof
  assume b: "\<forall>x \<in> set xs. 1 \<le> x \<and> x \<le> n"
  have "card (set xs) = card {1..n}" using assms by (simp add: distinct_card)
  then show "set xs = {1..n}" using b by (intro card_subset_eq) auto
qed auto

text \<open>A list of parts is accepted for merging exactly when it holds every part number from one to the
  part count of the session once, at most ten thousand, each with a usable ETag.\<close>

theorem multipart_parts_complete:
  "validateMultipartParts x parts = None \<longleftrightarrow>
   int (length parts) = us_PartCount x \<and> us_PartCount x \<le> maxPartCount \<and>
   mset (map pt_PartNumber parts) = mset_set {1..us_PartCount x} \<and> list_all etag_ok parts"
proof -
  have "mset (map pt_PartNumber parts) = mset_set {1..us_PartCount x} \<longleftrightarrow>
      distinct (map pt_PartNumber parts) \<and> set (map pt_PartNumber parts) = {1..us_PartCount x}"
  proof
    assume m: "mset (map pt_PartNumber parts) = mset_set {1..us_PartCount x}"
    then have "set (map pt_PartNumber parts) = {1..us_PartCount x}" by (metis finite_atLeastAtMost_int finite_set_mset_mset_set set_mset_mset)
    with m show "distinct (map pt_PartNumber parts) \<and> set (map pt_PartNumber parts) = {1..us_PartCount x}"
      by (metis distinct_count_atmost_1 count_mset_set finite_atLeastAtMost_int)
  qed (metis mset_set_set)
  then show ?thesis
    using distinct_range_iff [of "map pt_PartNumber parts" "us_PartCount x"]
    by (auto simp: validateMultipartParts_def check_parts_iff list_all_iff)
qed

section \<open>Modes\<close>

lemma ceil_div_bounds:
  fixes s p :: int
  assumes "0 < p" "0 < s"
  defines "n \<equiv> go_div (s - 1) p + 1"
  shows "1 \<le> n" "(n - 1) * p < s" "s \<le> n * p"
proof -
  have d: "go_div (s - 1) p = (s - 1) div p" using assms(1,2) by (cases "s = 1") (auto simp: go_div_def)
  show "1 \<le> n" using assms(1,2) by (simp add: n_def d pos_imp_zdiv_nonneg_iff)
  obtain q m where q: "(s - 1) div p = q" "s - 1 = p * q + m" "0 \<le> m" "m < p"
    using mult_div_mod_eq [of p "s - 1"] assms(1) by (metis pos_mod_bound pos_mod_sign)
  then show "(n - 1) * p < s" "s \<le> n * p" unfolding n_def d q(1) by (simp_all add: algebra_simps)
qed

text \<open>With options that the constructor accepts, a multipart plan that \<open>Start\<close> lets through has between
  one and ten thousand parts of the configured size, and they cover the object exactly: the last part is not
  empty and not oversized.\<close>

theorem multipart_plan_bounds:
  assumes "newWithRepository True True options = Inr opts" and "plan_session E opts fresh entropy day now request = Inr x"
    and "us_Mode x = ModeMultipart"
  shows "1 \<le> us_PartCount x \<and> us_PartCount x \<le> maxPartCount \<and> us_PartSize x = op_PartSize opts \<and> 0 < us_PartSize x \<and>
    (us_PartCount x - 1) * us_PartSize x < us_SizeBytes x \<and> us_SizeBytes x \<le> us_PartCount x * us_PartSize x"
proof -
  have p: "0 < op_PartSize opts" using assms(1) by (auto simp: newWithRepository_def Let_def split: if_splits)
  obtain rq where rq: "normalizeRequest E fresh request now True = Inr rq"
    using assms(2) by (auto simp: plan_session_def split: sum.splits)
  have size: "0 < rq_SizeBytes rq" using rq by (auto simp: normalizeRequest_def Let_def split: if_splits)
  obtain mode ps n where m: "uploadMode opts rq = (mode, ps, n)" by (meson prod_cases3)
  have x: "us_Mode x = mode" "us_PartSize x = ps" "us_PartCount x = n" "us_SizeBytes x = rq_SizeBytes rq"
      "mode = ModeMultipart \<longrightarrow> 1 \<le> n \<and> n \<le> maxPartCount"
    using assms(2) rq m by (auto simp: plan_session_def new_session_def Let_def split: if_splits option.splits)
  have "ps = op_PartSize opts" "n = go_div (rq_SizeBytes rq - 1) (op_PartSize opts) + 1"
    using m x assms(3) by (auto simp: uploadMode_def Let_def split: if_splits)
  with x assms(3) p ceil_div_bounds [OF p size] show ?thesis by simp
qed

theorem multipart_plan_bounds_witness:
  "\<exists>x. plan_session sample_uenv sample_options ''u1'' (Some (replicate 16 7)) ''20250101'' 5 sample_request = Inr x \<and>
     1 \<le> us_PartCount x \<and> us_PartSize x = 4 \<and> (us_PartCount x - 1) * 4 < 11 \<and> 11 \<le> us_PartCount x * 4"
proof -
  obtain x where x: "plan_session sample_uenv sample_options ''u1'' (Some (replicate 16 7)) ''20250101'' 5 sample_request = Inr x"
    "us_Mode x = ModeMultipart" "us_SizeBytes x = 11" using sample_plan by blast
  have o: "newWithRepository True True sample_options = Inr sample_options" by (simp add: newWithRepository_def sample_options_def)
  from multipart_plan_bounds [OF o x(1,2)] x show ?thesis by (auto simp: sample_options_def)
qed

section \<open>Paths\<close>

lemma validPurpose_chars: "validPurpose p \<Longrightarrow> p \<noteq> [] \<and> set p \<subseteq> set purpose_chars"
  by (auto simp: validPurpose_def trim_cutset_def trim_both_Nil_iff)

lemma validPurpose_plain: "validPurpose p \<Longrightarrow> p \<noteq> dot \<and> p \<noteq> dotdot \<and> slash \<notin> set p"
  using validPurpose_chars [of p] by (auto simp: purpose_chars_def dot_def dotdot_def slash_def)

text \<open>A storage path that is accepted for a valid purpose stays inside the directory of that purpose: it is
  relative, starts with the purpose, goes on, and no component is empty, a dot or a step up.\<close>

theorem storage_path_contained:
  assumes "validPurpose purpose" and "validateStoragePath purpose path = None"
  shows "\<exists>c rest. split_on slash path = purpose # c # rest \<and>
    (\<forall>d \<in> set (purpose # c # rest). d \<noteq> [] \<and> d \<noteq> dot \<and> d \<noteq> dotdot \<and> slash \<notin> set d)"
proof -
  have v: "path_clean path = path" "\<not> is_abs path" "2 \<le> length (split_on slash path)" "hd (split_on slash path) = purpose"
    using assms(2) by (auto simp: validateStoragePath_def Let_def split: if_splits)
  then obtain c rest where cs: "split_on slash path = purpose # c # rest"
    by (metis Suc_le_length_iff list.sel(1) numeral_2_eq_2)
  have "path \<noteq> dot" using cs by (auto simp: dot_def slash_def)
  then have "clean_list (split_on slash path)" using v path_clean_fixed by blast
  then have "\<forall>d \<in> set (split_on slash path). d \<noteq> [] \<and> d \<noteq> dot \<and> d \<noteq> dotdot"
    by (rule clean_list_no_updir) (use validPurpose_plain [OF assms(1)] cs in simp_all)
  moreover have "\<forall>d \<in> set (split_on slash path). slash \<notin> set d" using split_on_elements by blast
  ultimately show ?thesis unfolding cs by blast
qed

theorem storage_path_contained_witness:
  "\<exists>c rest. split_on slash ''doc/file.txt'' = ''doc'' # c # rest \<and>
    (\<forall>d \<in> set (''doc'' # c # rest). d \<noteq> [] \<and> d \<noteq> dot \<and> d \<noteq> dotdot \<and> slash \<notin> set d)"
proof -
  have "validateStoragePath ''doc'' ''doc/file.txt'' = None"
    by (simp add: validateStoragePath_def sample_texts text_checks path_clean_def is_abs_def clean_components_def)
  then show ?thesis by (rule storage_path_contained [OF sample_purpose])
qed

section \<open>Verification\<close>

lemma limited_copy_whole:
  "limited_copy rd (Suc n) = Some content \<Longrightarrow> length content = n \<Longrightarrow> content = rd_bytes rd \<and> \<not> rd_breaks rd"
  by (auto simp: limited_copy_def split: if_splits dest!: arg_cong [where f = length])

text \<open>What the default verifier reports of an object is true of the bytes it read: it has seen the whole
  object and nothing after it, its length is the declared one, the digest is the digest of these bytes and equal
  to a declared one, the stored media type is the declared one, and the database is untouched.\<close>

theorem default_verifier_integrity:
  assumes "defaultVerifier E St x w = (Inr v, w')" and "0 \<le> us_SizeBytes x"
  shows "\<exists>m o1 rd. os_head St (us_StoragePath x) (u_obj w) = (Inr (Some m), o1) \<and>
    os_read St (us_StoragePath x) o1 = (Inr (Some rd), u_obj w') \<and>
    int (length (rd_bytes rd)) = us_SizeBytes x \<and> fm_ContentLength m = us_SizeBytes x \<and> \<not> rd_breaks rd \<and>
    vo_SHA256 v = hex_encode (ue_sha256 E (rd_bytes rd)) \<and> (us_SHA256 x \<noteq> [] \<longrightarrow> vo_SHA256 v = us_SHA256 x) \<and>
    mimeEqual E (fm_ContentType m) (us_MIMEType x) \<and> vo_SizeBytes v = us_SizeBytes x \<and> vo_StoragePath v = us_StoragePath x \<and>
    u_sess w' = u_sess w"
proof -
  obtain h o1 where h: "os_head St (us_StoragePath x) (u_obj w) = (h, o1)" by (meson surj_pair)
  obtain r o2 where r: "os_read St (us_StoragePath x) o1 = (r, o2)" by (meson surj_pair)
  obtain m rd where mr: "h = Inr (Some m)" "r = Inr (Some rd)" "fm_ContentLength m = us_SizeBytes x"
      "mimeEqual E (fm_ContentType m) (us_MIMEType x)"
    and vs: "verify_stream E x (fm_ETag m) rd (w\<lparr>u_ctx := tl (u_ctx w), u_obj := o2\<rparr>) = (Inr v, w')"
    using assms(1) h r
    by (auto simp: defaultVerifier_def ctx_err_def on_obj_def fail_with_def Let_def split: option.splits sum.splits if_splits prod.splits)
  obtain content where c: "limited_copy rd (nat (us_SizeBytes x + 1)) = Some content" "int (length content) = us_SizeBytes x"
      "w' = w\<lparr>u_ctx := tl (u_ctx w), u_obj := o2\<rparr>" "vo_SHA256 v = hex_encode (ue_sha256 E content)"
      "us_SHA256 x \<noteq> [] \<longrightarrow> vo_SHA256 v = us_SHA256 x" "vo_SizeBytes v = us_SizeBytes x" "vo_StoragePath v = us_StoragePath x"
    using vs by (auto simp: verify_stream_def fail_with_def Let_def split: option.splits if_splits prod.splits)
  have "content = rd_bytes rd \<and> \<not> rd_breaks rd"
    using limited_copy_whole [of rd "nat (us_SizeBytes x)" content] c(1,2) assms(2) by (simp add: nat_add_distrib)
  with c mr h r show ?thesis by auto
qed

text \<open>A storage that holds one object of three bytes.\<close>

definition sample_storage :: "unit object_storage" where
  "sample_storage =
     \<lparr>os_presign = (\<lambda>_ _ o'. (Inr ''https://store/put'', o')),
      os_head = (\<lambda>_ o'. (Inr (Some \<lparr>fm_ContentLength = 3, fm_ContentType = ''text/plain'', fm_ETag = ''e''\<rparr>), o')),
      os_read = (\<lambda>_ o'. (Inr (Some \<lparr>rd_bytes = ''abc'', rd_breaks = False, rd_close = None\<rparr>), o')),
      os_delete = (\<lambda>_ o'. (None, o')), os_multipart = None\<rparr>"

definition sample_upload :: "upload_state \<Rightarrow> upload_session" where
  "sample_upload st = (new_session (sample_request\<lparr>rq_SizeBytes := 3, rq_AllowMultipart := False, rq_ExpiresAt := 1000\<rparr>)
     ''doc/file.txt'' ModeSingle 0 0 st 5)"

lemma sample_verified:
  "defaultVerifier sample_uenv sample_storage (sample_upload st) w =
    (if fst (ctx_err w) = None
     then (Inr \<lparr>vo_SizeBytes = 3, vo_SHA256 = concat (replicate 32 ''ab''), vo_MIMEType = ''text/plain'', vo_StoragePath = ''doc/file.txt'', vo_ETag = ''e''\<rparr>, snd (ctx_err w))
     else (Inl (ctx_error (the (fst (ctx_err w)))), snd (ctx_err w)))"
  by (cases "fst (ctx_err w)"; cases "ctx_err w")
     (simp_all add: defaultVerifier_def sample_storage_def on_obj_def sample_upload_def new_session_def sample_request_def sample_uenv_def
      mimeEqual_def canonicalMIME_def sample_texts text_checks verify_stream_def limited_copy_def hex_encode_def hex_digit_def)

theorem default_verifier_integrity_witness:
  "\<exists>v w'. defaultVerifier sample_uenv sample_storage (sample_upload StateActive) \<lparr>u_sess = \<lparr>s_db = (), s_fates = []\<rparr>, u_obj = (), u_ctx = []\<rparr> = (Inr v, w') \<and>
     vo_SHA256 v = hex_encode (ue_sha256 sample_uenv ''abc'') \<and> vo_SizeBytes v = 3"
proof -
  let ?w = "\<lparr>u_sess = \<lparr>s_db = (), s_fates = []\<rparr>, u_obj = (), u_ctx = []\<rparr>"
  have x: "0 \<le> us_SizeBytes (sample_upload StateActive)" "us_SizeBytes (sample_upload StateActive) = 3"
    by (simp_all add: sample_upload_def new_session_def)
  obtain v w' where v: "defaultVerifier sample_uenv sample_storage (sample_upload StateActive) ?w = (Inr v, w')"
    by (simp add: sample_verified ctx_err_def)
  from default_verifier_integrity [OF v x(1)] v x(2) show ?thesis
    by (auto simp: sample_storage_def)
qed

end
