(* ===== verification/Upload_Properties.thy ===== *)
theory Upload_Properties
  imports Upload_Machine Upload_Validation
begin

text \<open>
  Properties of the life of uploads: what every sequence of repository operations keeps, and what
  the service guarantees to its callers. The database is any pair of tables that does what SQL documents
  (\<open>upload_tables\<close>), the storage is any storage, and every request may fail.
\<close>

section \<open>Concrete surroundings\<close>

type_synonym upload_db = "(upload_session list \<times> nat) \<times> (core_file list \<times> nat)"

definition session_table :: "(upload_session, upload_db) sqltab" where
  "session_table = left_table (ref_table (\<lambda>_. 0) (\<lambda>_ r. r))"

definition file_table :: "(core_file, upload_db) sqltab" where
  "file_table = right_table (ref_table cf_ID (\<lambda>n r. r\<lparr>cf_ID := n\<rparr>))"

lemma upload_db_ok [simp]: "upload_tables session_table file_table"
  by (simp add: upload_tables_def session_table_def file_table_def)

lemma upload_db_rows [simp]:
  "t_rows session_table d = fst (fst d)" "t_rows file_table d = fst (snd d)" "t_next file_table d = snd (snd d)"
  by (simp_all add: session_table_def file_table_def)

definition upload_start :: "upload_session list \<Rightarrow> upload_db session" where
  "upload_start xs = \<lparr>s_db = ((xs, 0), ([], 1)), s_fates = []\<rparr>"

section \<open>The invariant\<close>

text \<open>C3. From empty tables, whatever operations the service makes, in whatever order and with whatever failures:
  a session is completed exactly when it has a file and under a lease exactly when it is completing or aborting;
  the file of a completed session is there, is the only one with its identifier and belongs to the member of the
  session; and no two sessions share a file.\<close>

theorem upload_invariant:
  fixes E :: upload_env
  assumes "upload_tables S F" and "t_rows S (s_db s) = []" "t_rows F (s_db s) = []" "0 < t_next F (s_db s)" and "list_all uev_ok evs"
  defines "d \<equiv> s_db (fold (uexec S F E) evs s)"
  shows "(\<forall>r \<in> set (t_rows S d). (us_State r = StateCompleted \<longleftrightarrow> us_FileID r \<noteq> None) \<and>
      (us_State r \<in> {StateCompleting, StateAborting} \<longleftrightarrow> us_LeaseExpiresAt r \<noteq> None) \<and>
      (\<forall>i. us_FileID r = Some i \<longrightarrow> (\<exists>f. filter (\<lambda>f. cf_ID f = i) (t_rows F d) = [f] \<and> file_owned (session_owner r) i f))) \<and>
    distinct (List.map_filter us_FileID (t_rows S d))"
proof -
  have "upload_inv S F E (s_db s)" using assms(1-4) by (simp add: upload_inv_def keyed_def file_ids_def List.map_filter_def)
  then have inv: "upload_inv S F E d" unfolding d_def using assms(5) by (rule sessions.fold_inv)
  have "\<exists>f. filter (\<lambda>f. cf_ID f = i) (t_rows F d) = [f] \<and> file_owned (session_owner r) i f"
    if r: "r \<in> set (t_rows S d)" "us_FileID r = Some i" for r i
  proof -
    obtain f where f: "f \<in> set (t_rows F d)" "file_owned (session_owner r) i f"
      using inv r by (auto simp: upload_inv_def linked_def)
    have "distinct (map cf_ID (t_rows F d))" using inv by (auto simp: upload_inv_def keyed_def upload_tables_def)
    with f show ?thesis using filter_unique_key [of cf_ID "t_rows F d" f] by (auto simp: file_owned_def)
  qed
  then show ?thesis using inv by (auto simp: upload_inv_def row_ok_def file_ids_def)
qed

definition sample_steps :: "uev list" where
  "sample_steps = [UCreate (sample_upload StateActive), UClaim w_member ''u1'' StateCompleting ''t'' 6 60,
     UFinalize w_member ''u1'' ''t'' 7 (coreFileFromVerified sample_uenv (sample_upload StateActive)
       \<lparr>vo_SizeBytes = 3, vo_SHA256 = ''ab'', vo_MIMEType = ''text/plain'', vo_StoragePath = ''doc/file.txt'', vo_ETag = []\<rparr>)]"

lemma sample_steps_ok: "list_all uev_ok sample_steps"
  by (simp add: sample_steps_def sample_upload_def new_session_def sample_request_def coreFileFromVerified_def)

theorem upload_invariant_witness:
  "distinct (List.map_filter us_FileID
     (t_rows session_table (s_db (fold (uexec session_table file_table sample_uenv) sample_steps (upload_start [])))))"
  using upload_invariant [of session_table file_table "upload_start []" sample_steps sample_uenv] sample_steps_ok
  by (simp add: upload_start_def)

section \<open>Ends\<close>

lemma sample_inv: "list_all (\<lambda>r. row_ok r \<and> us_FileID r = None) xs \<Longrightarrow> distinct (map us_ID xs) \<Longrightarrow>
    upload_inv session_table file_table sample_uenv (s_db (upload_start xs))"
  by (auto simp: upload_inv_def upload_start_def keyed_def list_all_iff linked_def file_ids_def List.map_filter_def sample_uenv_def
      distinct_map sorted_wrt_iff_nth_less filter_empty_conv inj_on_def distinct_conv_nth)

text \<open>A session that has ended stays as it is, and one that is being aborted is never completed, whatever
  operations follow.\<close>

theorem ended_uploads_stay:
  assumes "upload_inv S F E (s_db s)" and "r \<in> set (t_rows S (s_db s))" and "list_all uev_ok evs"
  shows "\<exists>r' \<in> set (t_rows S (s_db (fold (uexec S F E) evs s))). us_ID r' = us_ID r \<and> session_owner r' = session_owner r \<and>
    (us_State r \<in> {StateCompleted, StateAborted, StateExpired} \<longrightarrow> r' = r) \<and>
    (us_State r = StateAborting \<longrightarrow> us_State r' \<noteq> StateCompleted \<and> us_FileID r' = None)"
proof -
  obtain r' where r': "r' \<in> set (t_rows S (s_db (fold (uexec S F E) evs s)))" "session_life r r'"
    using sessions.fold_life [OF assms(1,3,2)] by blast
  have inv: "upload_inv S F E (s_db (fold (uexec S F E) evs s))" using sessions.fold_inv [OF assms(1,3)] .
  have "session_frame r = session_frame r'" using r'(2) by (simp add: session_life_def)
  note same = session_frame_fields [OF this]
  have "row_ok r'" using inv r'(1) by (simp add: upload_inv_def)
  with r' same show ?thesis by (intro bexI [OF _ r'(1)]) (auto simp: session_life_def terminal_state_def row_ok_def)
qed

theorem ended_uploads_stay_witness:
  "\<exists>r' \<in> set (t_rows session_table (s_db (fold (uexec session_table file_table sample_uenv) sample_steps (upload_start [sample_upload StateAborted])))).
     r' = sample_upload StateAborted"
proof -
  have "upload_inv session_table file_table sample_uenv (s_db (upload_start [sample_upload StateAborted]))"
    by (rule sample_inv) (simp_all add: row_ok_def sample_upload_def new_session_def)
  moreover have "us_State (sample_upload StateAborted) = StateAborted" by (simp add: sample_upload_def new_session_def)
  ultimately show ?thesis
    using ended_uploads_stay [of session_table file_table sample_uenv "upload_start [sample_upload StateAborted]" "sample_upload StateAborted" sample_steps]
      sample_steps_ok by (auto simp: upload_start_def)
qed

text \<open>A completed upload keeps its file: after any further operations the session still points to it, and the
  file has the same identifier, owner, size, digest and media type, only its storage path may have moved.\<close>

theorem completed_upload_keeps_file:
  fixes E :: upload_env
  assumes "upload_inv S F E (s_db s)" and "r \<in> set (t_rows S (s_db s))" "us_FileID r = Some i" and "list_all uev_ok evs"
  defines "d \<equiv> s_db (fold (uexec S F E) evs s)"
  shows "r \<in> set (t_rows S d) \<and>
    (\<exists>f f'. f \<in> set (t_rows F (s_db s)) \<and> f' \<in> set (t_rows F d) \<and> file_owned (session_owner r) i f' \<and>
      f'\<lparr>cf_StoragePath := cf_StoragePath f, cf_UpdatedAt := cf_UpdatedAt f\<rparr> = f)"
proof -
  have state: "us_State r = StateCompleted" using assms(1-3) by (auto simp: upload_inv_def row_ok_def)
  obtain r' where "r' \<in> set (t_rows S d)" "session_life r r'"
    unfolding d_def using sessions.fold_life [OF assms(1,4,2)] by blast
  then have r: "r \<in> set (t_rows S d)" using state by (auto simp: session_life_def terminal_state_def)
  obtain f where f: "f \<in> set (t_rows F (s_db s))" "file_owned (session_owner r) i f"
    using assms(1-3) by (auto simp: upload_inv_def linked_def)
  obtain f' where f': "f' \<in> set (t_rows F d)" "file_life f f'"
    unfolding d_def using files.fold_life [OF assms(1,4) f(1)] by blast
  have fr: "file_frame f' = file_frame f" using f'(2) by (simp add: file_life_def)
  then have "file_owned (session_owner r) i f'" using f(2) file_frame_fields by blast
  moreover have "f'\<lparr>cf_StoragePath := cf_StoragePath f, cf_UpdatedAt := cf_UpdatedAt f\<rparr> = f"
    using fr by (cases f; cases f') (simp add: file_frame_def)
  ultimately show ?thesis using r f f' by blast
qed

definition sample_file :: core_file where
  "sample_file = (coreFileFromVerified sample_uenv (sample_upload StateActive)
     \<lparr>vo_SizeBytes = 3, vo_SHA256 = ''ab'', vo_MIMEType = ''text/plain'', vo_StoragePath = ''doc/file.txt'', vo_ETag = []\<rparr>)\<lparr>cf_ID := 1\<rparr>"

definition sample_completed :: upload_session where
  "sample_completed = (sample_upload StateCompleted)\<lparr>us_FileID := Some 1\<rparr>"

definition upload_done :: "upload_db session" where
  "upload_done = \<lparr>s_db = (([sample_completed], 0), ([sample_file], 2)), s_fates = []\<rparr>"

lemmas sample_upload_defs = sample_completed_def sample_upload_def new_session_def sample_request_def sample_file_def coreFileFromVerified_def

lemma upload_done_inv: "upload_inv session_table file_table sample_uenv (s_db upload_done)"
proof -
  have "row_id file_table = cf_ID" by (simp add: file_table_def)
  then show ?thesis
    by (simp add: upload_inv_def upload_done_def keyed_def linked_def file_ids_def List.map_filter_def row_ok_def sample_upload_defs
        file_owned_def session_owner_def)
qed

theorem completed_upload_keeps_file_witness:
  "sample_completed \<in> set (t_rows session_table (s_db (fold (uexec session_table file_table sample_uenv) sample_steps upload_done)))"
  using completed_upload_keeps_file [OF upload_done_inv, of sample_completed 1 sample_steps] sample_steps_ok
  by (simp add: upload_done_def sample_completed_def)

section \<open>Registration is all or nothing\<close>

lemma owned_unique:
  assumes inv: "upload_inv S F E d" and eq: "equivp (ue_same E)"
    and r: "r \<in> set (t_rows S d)" "owned E owner i r" and x: "x \<in> set (t_rows S d)" "owned E owner i x"
  shows "x = r"
proof -
  have same: "ue_same E (us_ID r) (us_ID x)" "ue_same E (us_ID x) (us_ID r)"
    using r(2) x(2) eq by (auto simp: owned_def intro: equivp_transp equivp_symp)
  have "sorted_wrt (\<lambda>a b. \<not> ue_same E (us_ID a) (us_ID b)) rows \<Longrightarrow> r \<in> set rows \<Longrightarrow> x \<in> set rows \<Longrightarrow> x = r" for rows
    using same by (induction rows) auto
  moreover have "sorted_wrt (\<lambda>a b. \<not> ue_same E (us_ID a) (us_ID b)) (t_rows S d)" using inv by (simp add: upload_inv_def)
  ultimately show ?thesis using r(1) x(1) by blast
qed

lemma FinalizeComplete_cases:
  assumes inv: "upload_inv S F E (s_db s)" and eq: "equivp (ue_same E)"
    and out: "FinalizeComplete S F E owner i token now file s = (res, s')"
  obtains (kept) "same_tables S F (s_db s) (s_db s')"
      "\<And>f. res = Inr f \<Longrightarrow> f \<in> set (t_rows F (s_db s)) \<and>
        (\<exists>x \<in> set (t_rows S (s_db s)). owned E owner i x \<and> us_State x = StateCompleted \<and> us_FileID x = Some (cf_ID f))"
  | (registered) as r bs where "t_rows S (s_db s) = as @ r # bs" "owned E owner i r" "us_State r = StateCompleting" "us_LeaseToken r = token"
      "lease_left now r" "t_rows S (s_db s') = as @ completed_row E (t_next F (s_db s)) now r # bs"
      "t_rows F (s_db s') = t_rows F (s_db s) @ [(stored_file E now file)\<lparr>cf_ID := t_next F (s_db s)\<rparr>]"
      "\<And>f. res = Inr f \<Longrightarrow> f = file\<lparr>cf_ID := t_next F (s_db s)\<rparr>"
proof -
  have T: "upload_tables S F" using inv by (simp add: upload_inv_def)
  consider "s_db s' = s_db s" "\<exists>e. res = Inl e" | "in_transaction (finalize_body S F E owner i token now file) s = (res, s')"
    using out by (auto simp: FinalizeComplete_def split: option.splits if_splits)
  then show thesis
  proof cases
    case 1
    then show thesis using kept by auto
  next
    case 2
    then show thesis
    proof (cases rule: in_transaction_cases)
      case (undone e)
      then show thesis using kept by simp
    next
      case (committed f s0 s1)
      from T committed(2) show thesis
      proof (cases rule: finalize_body_cases)
        case (earlier x j)
        then have "cf_ID f = j" by (simp add: file_owned_def)
        with earlier committed show thesis by (intro kept) auto
      next
        case (fresh p as r bs)
        then obtain x where x: "x \<in> set (t_rows S (s_db s))" "owned E owner i x" "us_LeaseToken x = token"
          using committed(1) by auto
        have "x = r" using owned_unique [OF inv eq _ _ x(1,2)] fresh(5,9) committed(1) by simp
        moreover have "t_rows S (s_db s1) = as @ completed_row E (t_next F (s_db s)) now r # bs"
          using update_where_one [where p = p, OF fresh(5-7)] fresh(4) by (simp add: committed(1))
        ultimately show thesis using fresh committed x by (intro registered [of as r bs]) auto
      qed
    qed
  qed
qed

text \<open>C13. Completing a session registers its file in one step. The call leaves both tables as they were, or the
  session was being completed under exactly this lease, which had time left, and becomes completed together with
  the one new file, and nothing else changes. A success names the new file, or the one of an earlier completion.\<close>

theorem finalize_all_or_nothing:
  assumes inv: "upload_inv S F E (s_db s)" and eq: "equivp (ue_same E)"
    and out: "FinalizeComplete S F E owner i token now file s = (res, s')"
  defines "n \<equiv> t_next F (s_db s)"
  shows "same_tables S F (s_db s) (s_db s') \<and>
      (\<forall>f. res = Inr f \<longrightarrow> f \<in> set (t_rows F (s_db s)) \<and>
        (\<exists>x \<in> set (t_rows S (s_db s)). owned E owner i x \<and> us_State x = StateCompleted \<and> us_FileID x = Some (cf_ID f))) \<or>
    (\<exists>as r bs. t_rows S (s_db s) = as @ r # bs \<and> owned E owner i r \<and> us_State r = StateCompleting \<and> us_LeaseToken r = token \<and>
        lease_left now r \<and> t_rows S (s_db s') = as @ completed_row E n now r # bs \<and>
        t_rows F (s_db s') = t_rows F (s_db s) @ [(stored_file E now file)\<lparr>cf_ID := n\<rparr>] \<and>
        (\<forall>f. res = Inr f \<longrightarrow> f = file\<lparr>cf_ID := n\<rparr>))"
  using inv eq out
proof (cases rule: FinalizeComplete_cases)
  case kept
  then show ?thesis by blast
next
  case (registered as r bs)
  then show ?thesis unfolding n_def by blast
qed

definition sample_leased :: upload_session where
  "sample_leased = leased_row sample_uenv StateCompleting ''t'' 6 60 (sample_upload StateActive)"

lemma sample_leased_inv: "upload_inv session_table file_table sample_uenv (s_db (upload_start [sample_leased]))"
  by (rule sample_inv) (simp_all add: sample_leased_def leased_row_def row_ok_def sample_upload_def new_session_def)

theorem finalize_all_or_nothing_witness:
  "\<exists>res s'. FinalizeComplete session_table file_table sample_uenv w_member ''u1'' ''t'' 7 sample_file (upload_start [sample_leased]) = (res, s') \<and>
     (same_tables session_table file_table (s_db (upload_start [sample_leased])) (s_db s') \<or>
      t_rows file_table (s_db s') = [(stored_file sample_uenv 7 sample_file)\<lparr>cf_ID := 1\<rparr>])"
proof -
  obtain res s' where f: "FinalizeComplete session_table file_table sample_uenv w_member ''u1'' ''t'' 7 sample_file (upload_start [sample_leased]) = (res, s')"
    by (meson surj_pair)
  have "equivp (ue_same sample_uenv)" by (simp add: sample_uenv_def identity_equivp)
  from finalize_all_or_nothing [OF sample_leased_inv this f] f show ?thesis by (auto simp: upload_start_def)
qed

section \<open>Completion\<close>

lemma on_db_eq: "on_db f w = (r, w') \<longleftrightarrow> (\<exists>s'. f (u_sess w) = (r, s') \<and> w' = w\<lparr>u_sess := s'\<rparr>)"
  by (cases "f (u_sess w)") (auto simp: on_db_def)

lemma on_obj_sess [simp]: "u_sess (snd (on_obj f w)) = u_sess w"
  by (simp add: on_obj_def Let_def)

lemma ctx_err_sess [simp]: "u_sess (snd (ctx_err w)) = u_sess w" "u_obj (snd (ctx_err w)) = u_obj w"
  by (simp_all add: ctx_err_def)

lemma entry_checks_world:
  "entry_checks E owner i w = (r, w') \<Longrightarrow> u_sess w' = u_sess w \<and> u_obj w' = u_obj w \<and> (r = None \<longrightarrow> validateOwnerAndID E owner i = None)"
  by (auto simp: entry_checks_def validateContext_def ctx_err_def split: option.splits list.splits)

text \<open>What a member is told of a session is the session of that identifier.\<close>

lemma GetSession_unique:
  assumes inv: "upload_inv S F E (s_db s)" and eq: "equivp (ue_same E)" and r: "r \<in> set (t_rows S (s_db s))" "owned E owner i r"
    and out: "GetSession S E owner i s = (q, s')"
  shows "same_tables S F (s_db s) (s_db s')" "\<And>x. q = Inr x \<Longrightarrow> x = r"
proof -
  have T: "upload_tables S F" using inv by (simp add: upload_inv_def)
  show "same_tables S F (s_db s) (s_db s')" using GetSession_same [OF T out] .
  show "x = r" if "q = Inr x" for x
    using GetSession_found [OF T] out that owned_unique [OF inv eq r] by blast
qed

text \<open>Aborting a completed upload is refused and harms nothing: the storage is not called and the tables stay.\<close>

theorem abort_spares_completed:
  assumes inv: "upload_inv S F E (s_db (u_sess w))" and eq: "equivp (ue_same E)"
    and r: "r \<in> set (t_rows S (s_db (u_sess w)))" "owned E owner i r" "us_State r = StateCompleted"
    and out: "Abort S E St opts now now2 token owner i w = (res, w')"
  shows "res \<noteq> None \<and> u_obj w' = u_obj w \<and> same_tables S F (s_db (u_sess w)) (s_db (u_sess w'))"
proof -
  obtain e w0 where e: "entry_checks E owner i w = (e, w0)" by (meson surj_pair)
  note w0 = entry_checks_world [OF e]
  show ?thesis
  proof (cases e)
    case (Some err)
    with out e w0 show ?thesis by (auto simp: Abort_def)
  next
    case None
    obtain q s1 where g: "GetSession S E owner i (u_sess w) = (q, s1)" by (meson surj_pair)
    note q = GetSession_unique [OF inv eq r(1,2) g]
    have "on_db (GetSession S E owner i) w0 = (q, w0\<lparr>u_sess := s1\<rparr>)" using g w0 by (simp add: on_db_eq)
    with out e None q w0 r(3) show ?thesis by (cases q) (auto simp: Abort_def)
  qed
qed

theorem abort_spares_completed_witness:
  "\<exists>res w'. Abort session_table sample_uenv sample_storage sample_options 6 7 (Some ''t'') w_member ''u1'' \<lparr>u_sess = upload_done, u_obj = (), u_ctx = []\<rparr> = (res, w') \<and>
     res \<noteq> None"
proof -
  obtain res w' where a: "Abort session_table sample_uenv sample_storage sample_options 6 7 (Some ''t'') w_member ''u1''
      \<lparr>u_sess = upload_done, u_obj = (), u_ctx = []\<rparr> = (res, w')" by (meson surj_pair)
  have "equivp (ue_same sample_uenv)" by (simp add: sample_uenv_def identity_equivp)
  from abort_spares_completed [OF _ this _ _ _ a, of file_table sample_completed] upload_done_inv a show ?thesis
    by (simp add: upload_done_def owned_def sample_upload_defs sample_uenv_def w_member_def)
qed

end
