(* ===== verification/Upload_Progress.thy ===== *)
theory Upload_Progress
  imports Upload_Properties
begin

text \<open>
  Completing an upload, seen by its caller: a completion that succeeded once answers with the same file
  ever after, and an intact upload is completed when nothing fails.
\<close>

section \<open>A registered file\<close>

definition file_content :: "core_file \<Rightarrow> nat \<times> string \<times> int \<times> string \<times> string \<times> string" where
  "file_content f = (cf_ID f, cf_Hash f, cf_Size f, cf_MIMEType f, cf_OrganizationID f, cf_UserID f)"

text \<open>The session of the member is completed with a file of the given content.\<close>

definition registered_as ::
  "(upload_session, 'd) sqltab \<Rightarrow> (core_file, 'd) sqltab \<Rightarrow> upload_env \<Rightarrow> member \<Rightarrow> string \<Rightarrow> core_file \<Rightarrow> 'd \<Rightarrow> bool" where
  "registered_as S F E owner i f d \<longleftrightarrow> upload_inv S F E d \<and>
     (\<exists>r \<in> set (t_rows S d). owned E owner i r \<and> us_FileID r = Some (cf_ID f)) \<and>
     (\<exists>g \<in> set (t_rows F d). file_owned owner (cf_ID f) g \<and> file_content g = file_content f)"

lemma file_frame_content: "file_frame a = file_frame b \<Longrightarrow> file_content a = file_content b"
  by (cases a; cases b) (simp add: file_frame_def file_content_def)

lemma registered_later:
  assumes reg: "registered_as S F E owner i f (s_db s)" and ok: "list_all uev_ok evs"
  shows "registered_as S F E owner i f (s_db (fold (uexec S F E) evs s))"
proof -
  let ?d = "s_db (fold (uexec S F E) evs s)"
  have inv: "upload_inv S F E (s_db s)" using reg by (simp add: registered_as_def)
  obtain r where r: "r \<in> set (t_rows S (s_db s))" "owned E owner i r" "us_FileID r = Some (cf_ID f)"
    using reg by (auto simp: registered_as_def)
  obtain g where g: "g \<in> set (t_rows F (s_db s))" "file_owned owner (cf_ID f) g" "file_content g = file_content f"
    using reg by (auto simp: registered_as_def)
  obtain r' where r': "r' \<in> set (t_rows S ?d)" "session_life r r'" using sessions.fold_life [OF inv ok r(1)] by blast
  have "us_State r = StateCompleted" using inv r(1,3) by (auto simp: upload_inv_def row_ok_def)
  then have "r' = r" using r'(2) by (simp add: session_life_def terminal_state_def)
  obtain g' where g': "g' \<in> set (t_rows F ?d)" "file_life g g'" using files.fold_life [OF inv ok g(1)] by blast
  then have fr: "file_frame g' = file_frame g" by (simp add: file_life_def)
  have "file_owned owner (cf_ID f) g'" "file_content g' = file_content f"
    using file_frame_fields(2) [OF fr] file_frame_content [OF fr] g(2,3) by simp_all
  with r r'(1) \<open>r' = r\<close> g'(1) sessions.fold_inv [OF inv ok] show ?thesis by (auto simp: registered_as_def)
qed

lemma inv_same_tables: "upload_inv S F E d \<Longrightarrow> same_tables S F d d' \<Longrightarrow> registered_as S F E owner i f d = registered_as S F E owner i f d'"
  using inv_same [of S F E d d'] by (auto simp: registered_as_def same_tables_def)

lemma GetFile_found:
  assumes T: "upload_tables S F" and out: "GetFile F owner i s = (q, s')"
  shows "same_tables S F (s_db s) (s_db s')" "\<And>f. q = Inr f \<Longrightarrow> f \<in> set (t_rows F (s_db s)) \<and> file_owned owner i f"
proof -
  define p :: "core_file \<Rightarrow> bool" where "p = (\<lambda>r. cf_DeletedAt r = None \<and> cf_OrganizationID r = OrganizationID owner \<and> cf_UserID r = UserID owner \<and> cf_ID r = i)"
  obtain u s1 where u: "sql_first F p s = (u, s1)" by (meson surj_pair)
  have ok: "sql_ok F" using T by (simp add: upload_tables_def)
  have o: "s' = s \<and> (\<exists>e. q = Inl e) \<or> s' = s1 \<and> (\<forall>f. q = Inr f \<longrightarrow> u = Found f)"
    using out u by (auto simp: GetFile_def GetFileByID_def findMemberFile_def p_def split: if_splits first.splits)
  then show "same_tables S F (s_db s) (s_db s')" using first_same(2) [OF T u] by auto
  show "f \<in> set (t_rows F (s_db s)) \<and> file_owned owner i f" if "q = Inr f" for f
    using o that sql_first_cases [OF ok u] by (auto simp: p_def file_owned_def)
qed

lemma completedFile_registered:
  assumes inv: "upload_inv S F E (s_db (u_sess w))" and x: "x \<in> set (t_rows S (s_db (u_sess w)))" "owned E owner i x"
    and out: "completedFile F owner x w = (q, w')"
  shows "u_obj w' = u_obj w" "same_tables S F (s_db (u_sess w)) (s_db (u_sess w'))"
    "\<And>f. q = Inr f \<Longrightarrow> registered_as S F E owner i f (s_db (u_sess w')) \<and> f \<in> set (t_rows F (s_db (u_sess w)))"
proof -
  have T: "upload_tables S F" using inv by (simp add: upload_inv_def)
  consider (none) "w' = w" "\<exists>e. q = Inl e" | (some) j g s1 where "us_FileID x = Some j" "GetFile F owner j (u_sess w) = (g, s1)"
      "w' = w\<lparr>u_sess := s1\<rparr>" "\<And>f. q = Inr f \<Longrightarrow> g = Inr f"
  proof (cases "us_FileID x")
    case None
    with out that(1) show thesis by (auto simp: completedFile_def)
  next
    case (Some j)
    obtain g s1 where g: "GetFile F owner j (u_sess w) = (g, s1)" by (meson surj_pair)
    then have od: "on_db (GetFile F owner j) w = (g, w\<lparr>u_sess := s1\<rparr>)" by (simp add: on_db_eq)
    show thesis
    proof (cases "j = 0")
      case True
      with out Some that(1) show thesis by (auto simp: completedFile_def)
    next
      case False
      with out Some od have "w' = w\<lparr>u_sess := s1\<rparr>" "\<And>f. q = Inr f \<Longrightarrow> g = Inr f" by (auto simp: completedFile_def split: sum.splits)
      with Some g show thesis by (rule that(2))
    qed
  qed
  then have "u_obj w' = u_obj w \<and> same_tables S F (s_db (u_sess w)) (s_db (u_sess w')) \<and>
    (\<forall>f. q = Inr f \<longrightarrow> registered_as S F E owner i f (s_db (u_sess w')) \<and> f \<in> set (t_rows F (s_db (u_sess w))))"
  proof cases
    case none
    then show ?thesis by auto
  next
    case some
    note g = GetFile_found [OF T some(2)]
    have "registered_as S F E owner i f (s_db (u_sess w')) \<and> f \<in> set (t_rows F (s_db (u_sess w)))" if "q = Inr f" for f
    proof -
      have f: "f \<in> set (t_rows F (s_db (u_sess w)))" "file_owned owner j f" using g(2) some(4) that by auto
      then have "cf_ID f = j" by (simp add: file_owned_def)
      with f x some(1) inv have "registered_as S F E owner i f (s_db (u_sess w))" unfolding registered_as_def by blast
      then show ?thesis using inv_same_tables [OF inv g(1)] some(3) f by simp
    qed
    with g(1) some(3) show ?thesis by simp
  qed
  then show "u_obj w' = u_obj w" "same_tables S F (s_db (u_sess w)) (s_db (u_sess w'))"
    "\<And>f. q = Inr f \<Longrightarrow> registered_as S F E owner i f (s_db (u_sess w')) \<and> f \<in> set (t_rows F (s_db (u_sess w)))" by blast+
qed

section \<open>Completing\<close>

text \<open>A verifier is given the storage, not the database; others may use the database meanwhile.\<close>

definition verifier_ok ::
  "(upload_session, 'd) sqltab \<Rightarrow> (core_file, 'd) sqltab \<Rightarrow> upload_env \<Rightarrow> ('d, 'o) verifier option \<Rightarrow> bool" where
  "verifier_ok S F E verifier \<longleftrightarrow>
     (\<forall>v x w. verifier = Some v \<longrightarrow> upload_inv S F E (s_db (u_sess w)) \<longrightarrow> upload_inv S F E (s_db (u_sess (snd (v x w)))))"

lemma fail_with_sess [simp]: "u_sess (snd (fail_with e w)) = u_sess w"
  by (simp add: fail_with_def ctx_err_def split: option.splits)

lemma verify_stream_sess [simp]: "u_sess (snd (verify_stream E x etag rd w)) = u_sess w"
  by (auto simp: verify_stream_def Let_def split: option.splits prod.splits) (metis fail_with_sess snd_conv)+

lemma defaultVerifier_sess: "u_sess (snd (defaultVerifier E St x w)) = u_sess w"
proof -
  obtain c w1 where c: "ctx_err w = (c, w1)" by (meson surj_pair)
  obtain h w2 where h: "on_obj (os_head St (us_StoragePath x)) w1 = (h, w2)" by (meson surj_pair)
  obtain r w3 where r: "on_obj (os_read St (us_StoragePath x)) w2 = (r, w3)" by (meson surj_pair)
  have "u_sess w1 = u_sess w" "u_sess w2 = u_sess w1" "u_sess w3 = u_sess w2"
    using ctx_err_sess(1) [of w] on_obj_sess [of "os_head St (us_StoragePath x)" w1] on_obj_sess [of "os_read St (us_StoragePath x)" w2] c h r by simp_all
  with c h r show ?thesis
    by (auto simp: defaultVerifier_def case_prod_unfold split: option.splits sum.splits)
qed

lemma merge_parts_sess: "u_sess (snd (merge_parts St x parts w)) = u_sess w"
proof -
  obtain m w1 where m: "on_obj (mp_complete (the (os_multipart St)) (us_StoragePath x) (us_MultipartID x)
      (map_of (rev (map (\<lambda>p. (pt_PartNumber p, pt_ETag p)) parts)))) w = (m, w1)" by (meson surj_pair)
  obtain c w2 where c: "ctx_err w1 = (c, w2)" by (meson surj_pair)
  obtain h w3 where h: "on_obj (os_head St (us_StoragePath x)) w2 = (h, w3)" by (meson surj_pair)
  have "u_sess w1 = u_sess w" "u_sess w2 = u_sess w1" "u_sess w3 = u_sess w2"
    using ctx_err_sess(1) [of w1] on_obj_sess [of "os_head St (us_StoragePath x)" w2] on_obj_sess m c h by (metis snd_conv)+
  with m c h show ?thesis by (auto simp: merge_parts_def split: option.splits sum.splits)
qed

lemma run_verifier_inv:
  assumes "verifier_ok S F E verifier" "upload_inv S F E (s_db (u_sess w))"
  shows "upload_inv S F E (s_db (u_sess (snd (run_verifier E St verifier x w))))"
proof -
  obtain q w1 where q: "(case verifier of None \<Rightarrow> defaultVerifier E St | Some v \<Rightarrow> v) x w = (q, w1)" by (meson surj_pair)
  have "upload_inv S F E (s_db (u_sess w1))"
    using assms q defaultVerifier_sess [of E St x w] by (cases verifier) (auto simp: verifier_ok_def, metis snd_conv)
  then show ?thesis using q by (auto simp: run_verifier_def ctx_err_def split: option.splits sum.splits list.splits)
qed

lemma completeClaimed_registered:
  assumes inv: "upload_inv S F E (s_db (u_sess w))" and eq: "equivp (ue_same E)" and v: "verifier_ok S F E verifier"
    and x: "owned E owner i x" and out: "completeClaimed S F E St verifier now x token parts w = (q, w')"
  shows "upload_inv S F E (s_db (u_sess w'))" "\<And>f. q = Inr f \<Longrightarrow> registered_as S F E owner i f (s_db (u_sess w'))"
proof -
  have T: "upload_tables S F" using inv by (simp add: upload_inv_def)
  have own: "session_owner x = owner" using x by (simp add: owned_def session_owner_def)
  have own_i: "owned E owner i r" if "owned E owner (us_ID x) r" for r
    using that x eq by (auto simp: owned_def intro: equivp_transp)
  obtain m w1 where m: "merge_parts St x parts w = (m, w1)" by (meson surj_pair)
  have i1: "upload_inv S F E (s_db (u_sess w1))" using inv m merge_parts_sess [of St x parts w] by simp
  obtain vr w2 where vr: "run_verifier E St verifier x w1 = (vr, w2)" by (meson surj_pair)
  have i2: "upload_inv S F E (s_db (u_sess w2))" using run_verifier_inv [OF v i1, of St x] vr by simp
  define cfile where "cfile vo = coreFileFromVerified E x vo" for vo
  have "upload_inv S F E (s_db (u_sess w')) \<and> (\<forall>f. q = Inr f \<longrightarrow> registered_as S F E owner i f (s_db (u_sess w')))"
  proof (cases "m = None \<and> (\<exists>vo. vr = Inr vo)")
    case False
    with out m vr i1 i2 show ?thesis by (cases m; cases vr) (auto simp: completeClaimed_def)
  next
    case True
    then obtain vo where vo: "m = None" "vr = Inr vo" by blast
    obtain g s3 where g: "FinalizeComplete S F E owner (us_ID x) token now (cfile vo) (u_sess w2) = (g, s3)" by (meson surj_pair)
    then have od: "on_db (FinalizeComplete S F E (session_owner x) (us_ID x) token now (coreFileFromVerified E x vo)) w2 = (g, w2\<lparr>u_sess := s3\<rparr>)"
      by (simp add: on_db_eq own cfile_def)
    have w': "w' = w2\<lparr>u_sess := s3\<rparr>" "\<And>f. q = Inr f \<Longrightarrow> g = Inr f"
      using out m vr vo od by (auto simp: completeClaimed_def split: sum.splits)
    have ev: "uev_ok (UFinalize owner (us_ID x) token now (cfile vo))" using x by (simp add: cfile_def coreFileFromVerified_def owned_def)
    have i3: "upload_inv S F E (s_db s3)" using sessions.step_inv [OF i2 ev] g by simp
    from i2 eq g have "registered_as S F E owner i f (s_db s3)" if fg: "g = Inr f" for f
    proof (cases rule: FinalizeComplete_cases)
      case kept
      obtain r where r: "f \<in> set (t_rows F (s_db (u_sess w2)))" "r \<in> set (t_rows S (s_db (u_sess w2)))" "owned E owner (us_ID x) r"
        "us_FileID r = Some (cf_ID f)" using kept(2) [OF fg] by blast
      then have "\<exists>h \<in> set (t_rows F (s_db (u_sess w2))). file_owned (session_owner r) (cf_ID f) h"
        using i2 by (auto simp: upload_inv_def linked_def)
      then obtain h where h: "h \<in> set (t_rows F (s_db (u_sess w2)))" "file_owned (session_owner r) (cf_ID f) h" by blast
      have "distinct (map cf_ID (t_rows F (s_db (u_sess w2))))" using i2 by (auto simp: upload_inv_def keyed_def upload_tables_def)
      then have "h = f" using h r(1) by (auto simp: file_owned_def distinct_map inj_on_def)
      then have "file_owned owner (cf_ID f) f" using h(2) r(3) by (simp add: owned_def session_owner_def file_owned_def)
      with r own_i kept(1) i3 show ?thesis by (auto simp: registered_as_def same_tables_def)
    next
      case (registered as r bs)
      let ?g = "(stored_file E now (cfile vo))\<lparr>cf_ID := t_next F (s_db (u_sess w2))\<rparr>"
      have f: "f = (cfile vo)\<lparr>cf_ID := t_next F (s_db (u_sess w2))\<rparr>" using registered(8) [OF fg] .
      have "file_owned owner (cf_ID f) ?g" "file_content ?g = file_content f"
        using ev by (simp_all add: f file_owned_def file_content_def stored_file_def)
      moreover have "owned E owner i (completed_row E (t_next F (s_db (u_sess w2))) now r)"
        using own_i [OF registered(2)] by (simp add: owned_def completed_row_def freed_row_def)
      ultimately show ?thesis using i3 registered(6,7) unfolding registered_as_def
        by (intro conjI bexI [of _ "completed_row E (t_next F (s_db (u_sess w2))) now r"] bexI [of _ ?g]) (auto simp: f completed_row_def)
    qed
    with i3 w' show ?thesis by auto
  qed
  then show "upload_inv S F E (s_db (u_sess w'))" "\<And>f. q = Inr f \<Longrightarrow> registered_as S F E owner i f (s_db (u_sess w'))" by blast+
qed

lemma after_conflict_registered:
  assumes inv: "upload_inv S F E (s_db (u_sess w))" and out: "after_conflict S F E owner i err answer w = (Inr f, w')"
  shows "registered_as S F E owner i f (s_db (u_sess w'))"
proof -
  have T: "upload_tables S F" using inv by (simp add: upload_inv_def)
  obtain g s1 where g: "GetSession S E owner i (u_sess w) = (g, s1)" by (meson surj_pair)
  then have od: "on_db (GetSession S E owner i) w = (g, w\<lparr>u_sess := s1\<rparr>)" by (simp add: on_db_eq)
  obtain x where x: "g = Inr x" "completedFile F owner x (w\<lparr>u_sess := s1\<rparr>) = (Inr f, w')"
    using out od by (auto simp: after_conflict_def split: if_splits sum.splits)
  have same: "same_tables S F (s_db (u_sess w)) (s_db s1)" using GetSession_same [OF T g] .
  have "x \<in> set (t_rows S (s_db s1))" "owned E owner i x" "upload_inv S F E (s_db s1)"
    using GetSession_found [OF T] g x(1) same inv_same [OF inv same] by (auto simp: same_tables_def)
  then show ?thesis using completedFile_registered(3) [OF _ _ _ x(2)] by simp
qed

lemma ClaimLease_claimed:
  assumes inv: "upload_inv S F E (s_db s)" and out: "ClaimLease S E owner i state token now until s = (q, s')"
  shows "upload_inv S F E (s_db s')" "\<And>x. q = Inr x \<Longrightarrow> owned E owner i x"
proof -
  have T: "upload_tables S F" using inv by (simp add: upload_inv_def)
  show "upload_inv S F E (s_db s')" using sessions.step_inv [OF inv, of "UClaim owner i state token now until"] out by simp
  show "owned E owner i x" if "q = Inr x" for x
    using out that GetSession_found [OF T] by (auto simp: ClaimLease_def split: option.splits if_splits sum.splits prod.splits)
qed

text \<open>A successful completion has registered what it answers.\<close>

lemma Complete_registered:
  assumes inv: "upload_inv S F E (s_db (u_sess w))" and eq: "equivp (ue_same E)" and v: "verifier_ok S F E verifier"
    and out: "Complete S F E St opts verifier now now2 now3 now4 newToken owner i parts w = (Inr f, w')"
  shows "registered_as S F E owner i f (s_db (u_sess w'))"
proof -
  have T: "upload_tables S F" using inv by (simp add: upload_inv_def)
  obtain e w0 where e: "entry_checks E owner i w = (e, w0)" by (meson surj_pair)
  have e0: "e = None" "u_sess w0 = u_sess w" using out e entry_checks_world [OF e] by (auto simp: Complete_def split: option.splits)
  obtain g s1 where g: "GetSession S E owner i (u_sess w) = (g, s1)" by (meson surj_pair)
  then have od: "on_db (GetSession S E owner i) w0 = (g, w0\<lparr>u_sess := s1\<rparr>)" using e0 by (simp add: on_db_eq)
  obtain x where x: "g = Inr x" using out e e0 od by (cases g) (auto simp: Complete_def)
  have same: "same_tables S F (s_db (u_sess w)) (s_db s1)" using GetSession_same [OF T g] .
  have x1: "x \<in> set (t_rows S (s_db s1))" "owned E owner i x" and i1: "upload_inv S F E (s_db s1)"
    using GetSession_found [OF T] g x same inv_same [OF inv same] by (auto simp: same_tables_def)
  show ?thesis
  proof (cases "us_State x = StateCompleted")
    case True
    then have "completedFile F owner x (w0\<lparr>u_sess := s1\<rparr>) = (Inr f, w')" using out e e0 od x by (simp add: Complete_def)
    from completedFile_registered(3) [OF _ _ x1(2) this] i1 x1(1) show ?thesis by simp
  next
    case False
    obtain token where token: "newToken = Some token" "us_State x \<notin> {StateAborted, StateExpired}" "now < us_ExpiresAt x"
      using out e e0 od x False by (cases newToken) (auto simp: Complete_def split: if_splits)
    obtain c s2 where c: "ClaimLease S E owner i StateCompleting token now (now + op_CompletionTimeout opts) s1 = (c, s2)" by (meson surj_pair)
    let ?w2 = "w0\<lparr>u_sess := s2\<rparr>"
    have oc: "on_db (ClaimLease S E owner i StateCompleting token now (now + op_CompletionTimeout opts)) (w0\<lparr>u_sess := s1\<rparr>) = (c, ?w2)"
      using c by (simp add: on_db_eq)
    have i2: "upload_inv S F E (s_db (u_sess ?w2))" using ClaimLease_claimed(1) [OF i1 c] by simp
    show ?thesis
    proof (cases c)
      case (Inl err)
      then have "after_conflict S F E owner i err (mapServiceError err) ?w2 = (Inr f, w')"
        using out e e0 od x False token oc by (simp add: Complete_def)
      with i2 show ?thesis by (rule after_conflict_registered)
    next
      case (Inr claimed)
      have own: "owned E owner i claimed" using ClaimLease_claimed(2) [OF i1 c Inr] .
      obtain q w3 where q: "completeClaimed S F E St verifier now3 claimed token parts ?w2 = (q, w3)" by (meson surj_pair)
      note cc = completeClaimed_registered [OF i2 eq v own q]
      obtain rl s4 where rl: "ReleaseLease S E owner i token now4 (u_sess w3) = (rl, s4)" by (meson surj_pair)
      have orl: "on_db (ReleaseLease S E owner i token now4) w3 = (rl, w3\<lparr>u_sess := s4\<rparr>)" using rl by (simp add: on_db_eq)
      have i4: "upload_inv S F E (s_db (u_sess (w3\<lparr>u_sess := s4\<rparr>)))"
        using sessions.step_inv [OF cc(1), of "URelease owner i token now4"] rl by simp
      have t2: "now2 < us_ExpiresAt claimed" using out e e0 od x False token oc Inr by (auto simp: Complete_def split: if_splits)
      show ?thesis
      proof (cases q)
        case (Inl err)
        then have "after_conflict S F E owner i err err (w3\<lparr>u_sess := s4\<rparr>) = (Inr f, w')"
          using out e e0 od x False token oc Inr q orl t2 by (simp add: Complete_def)
        with i4 show ?thesis by (rule after_conflict_registered)
      next
        case (Inr f')
        then have "f' = f" "u_sess w' = u_sess w3" using out e e0 od x False token oc \<open>c = Inr claimed\<close> q t2 by (auto simp: Complete_def)
        with cc(2) [OF Inr] show ?thesis by simp
      qed
    qed
  qed
qed

section \<open>A request without failures\<close>

lemma sql_first_delivered:
  assumes "sql_ok T" "s_fates s = []" and r: "r \<in> set (t_rows T (s_db s))" "p r"
    and unique: "\<And>x. x \<in> set (t_rows T (s_db s)) \<Longrightarrow> p x \<Longrightarrow> x = r"
  obtains s' where "sql_first T p s = (Found r, s')" "s_fates s' = []"
proof -
  obtain x xs where xs: "filter p (t_rows T (s_db s)) = x # xs"
    using r by (cases "filter p (t_rows T (s_db s))") (auto simp: filter_empty_conv)
  then have "x \<in> set (filter p (t_rows T (s_db s)))" by simp
  then have "x = r" using unique by auto
  with sql_delivered(1) [OF assms(1,2), of "filter p"] xs that show thesis by (auto simp: sql_first_def)
qed

lemma GetSession_delivered:
  assumes inv: "upload_inv S F E (s_db s)" and eq: "equivp (ue_same E)" and r: "r \<in> set (t_rows S (s_db s))" "owned E owner i r"
    and ok: "validateRepositoryRead owner i = None" and fates: "s_fates s = []"
  obtains s' where "GetSession S E owner i s = (Inr r, s')" "s_fates s' = []" "same_tables S F (s_db s) (s_db s')"
proof -
  have T: "upload_tables S F" using inv by (simp add: upload_inv_def)
  then have sok: "sql_ok S" by (simp add: upload_tables_def)
  obtain s' where s': "sql_first S (owned E owner i) s = (Found r, s')" "s_fates s' = []"
    using sql_first_delivered [where p = "owned E owner i", OF sok fates r] owned_unique [OF inv eq r] by blast
  with ok have g: "GetSession S E owner i s = (Inr r, s')" by (simp add: GetSession_def)
  show thesis using that [OF g s'(2) GetSession_same [OF T g]] .
qed

lemma GetFile_delivered:
  assumes T: "upload_tables S F" and keyed: "keyed F (s_db s)" and f: "f \<in> set (t_rows F (s_db s))" "file_owned owner i f"
    and ok: "member_ok owner" "i \<noteq> 0" and fates: "s_fates s = []"
  obtains s' where "GetFile F owner i s = (Inr f, s')" "s_fates s' = []" "same_tables S F (s_db s) (s_db s')"
proof -
  have sok: "sql_ok F" and i: "row_id F = cf_ID" using T by (simp_all add: upload_tables_def)
  define p :: "core_file \<Rightarrow> bool" where
    "p = (\<lambda>r. cf_DeletedAt r = None \<and> cf_OrganizationID r = OrganizationID owner \<and> cf_UserID r = UserID owner \<and> cf_ID r = i)"
  have pf: "p f" using f(2) by (simp add: p_def file_owned_def)
  have "x = f" if "x \<in> set (t_rows F (s_db s))" "p x" for x
    using that keyed f pf by (auto simp: keyed_def i p_def distinct_map inj_on_def)
  then obtain s' where s': "sql_first F p s = (Found f, s')" "s_fates s' = []"
    using sql_first_delivered [where p = p, OF sok fates f(1) pf] by blast
  with ok have g: "GetFile F owner i s = (Inr f, s')"
    by (simp add: GetFile_def GetFileByID_def findMemberFile_def p_def)
  show thesis using that [OF g s'(2) GetFile_found(1) [OF T g]] .
qed

lemma entry_checks_clear: "u_ctx w = [] \<Longrightarrow> validateOwnerAndID E owner i = None \<Longrightarrow> entry_checks E owner i w = (None, w)"
  by (simp add: entry_checks_def validateContext_def ctx_err_def)

lemma Complete_done:
  assumes reg: "registered_as S F E owner i f (s_db (u_sess w))" and eq: "equivp (ue_same E)"
    and checks: "validateOwnerAndID E owner i = None" "validateRepositoryRead owner i = None" and calm: "s_fates (u_sess w) = []" "u_ctx w = []"
  obtains g s' where "Complete S F E St opts verifier nowa nowb nowc nowd newToken owner i parts w = (Inr g, w\<lparr>u_sess := s'\<rparr>)"
    "file_content g = file_content f" "same_tables S F (s_db (u_sess w)) (s_db s')"
proof -
  obtain r g where r: "r \<in> set (t_rows S (s_db (u_sess w)))" "owned E owner i r" "us_FileID r = Some (cf_ID f)"
    and g: "g \<in> set (t_rows F (s_db (u_sess w)))" "file_owned owner (cf_ID f) g" "file_content g = file_content f"
    and inv: "upload_inv S F E (s_db (u_sess w))" using reg by (auto simp: registered_as_def)
  have T: "upload_tables S F" using inv by (simp add: upload_inv_def)
  have state: "us_State r = StateCompleted" "cf_ID f \<noteq> 0" using inv r(1,3) by (auto simp: upload_inv_def row_ok_def linked_def)
  have member: "member_ok owner" using checks(1) by (simp add: validateOwnerAndID_def split: if_splits)
  obtain s1 where s1: "GetSession S E owner i (u_sess w) = (Inr r, s1)" "s_fates s1 = []" "same_tables S F (s_db (u_sess w)) (s_db s1)"
    using GetSession_delivered [OF inv eq r(1,2) checks(2) calm(1)] by blast
  have k: "keyed F (s_db s1)" "g \<in> set (t_rows F (s_db s1))"
    using inv_same [OF inv s1(3)] g(1) s1(3) by (simp_all add: upload_inv_def same_tables_def)
  obtain s2 where s2: "GetFile F owner (cf_ID f) s1 = (Inr g, s2)" "same_tables S F (s_db s1) (s_db s2)"
    using GetFile_delivered [OF T k g(2) member state(2) s1(2)] by blast
  have o1: "on_db (GetSession S E owner i) w = (Inr r, w\<lparr>u_sess := s1\<rparr>)" using s1(1) by (simp add: on_db_eq)
  have o2: "on_db (GetFile F owner (cf_ID f)) (w\<lparr>u_sess := s1\<rparr>) = (Inr g, w\<lparr>u_sess := s2\<rparr>)" using s2(1) by (simp add: on_db_eq)
  have "Complete S F E St opts verifier nowa nowb nowc nowd newToken owner i parts w = (Inr g, w\<lparr>u_sess := s2\<rparr>)"
    by (simp add: Complete_def entry_checks_clear [OF calm(2) checks(1)] o1 o2 state completedFile_def r(3))
  then show thesis using that g(3) same_tables_trans [OF s1(3) s2(2)] by blast
qed

text \<open>Completing an upload again gives the same file: after a successful completion, whatever operations follow,
  a later call that meets no failure returns a file with the same identifier, digest, size, media type and owner,
  without touching the storage or the tables.\<close>

theorem completion_is_idempotent:
  assumes inv: "upload_inv S F E (s_db (u_sess w))" and eq: "equivp (ue_same E)" and v: "verifier_ok S F E verifier"
    and first: "Complete S F E St opts verifier now now2 now3 now4 newToken owner i parts w = (Inr f, w1)"
    and later: "list_all uev_ok evs" "s_db (u_sess w2) = s_db (fold (uexec S F E) evs (u_sess w1))" "s_fates (u_sess w2) = []" "u_ctx w2 = []"
  shows "\<exists>f' w3. Complete S F E St opts verifier' nowa nowb nowc nowd newToken' owner i parts' w2 = (Inr f', w3) \<and>
    cf_ID f' = cf_ID f \<and> cf_Hash f' = cf_Hash f \<and> cf_Size f' = cf_Size f \<and> cf_MIMEType f' = cf_MIMEType f \<and>
    cf_OrganizationID f' = cf_OrganizationID f \<and> cf_UserID f' = cf_UserID f \<and>
    u_obj w3 = u_obj w2 \<and> same_tables S F (s_db (u_sess w2)) (s_db (u_sess w3))"
proof -
  have reg: "registered_as S F E owner i f (s_db (u_sess w2))"
    using registered_later [OF Complete_registered [OF inv eq v first] later(1)] later(2) by simp
  obtain e w0 where e: "entry_checks E owner i w = (e, w0)" by (meson surj_pair)
  have checks: "validateOwnerAndID E owner i = None" using first e entry_checks_world [OF e] by (auto simp: Complete_def split: option.splits)
  have read: "validateRepositoryRead owner i = None"
    using first e by (auto simp: Complete_def on_db_def GetSession_def Let_def split: option.splits)
  obtain g s' where "Complete S F E St opts verifier' nowa nowb nowc nowd newToken' owner i parts' w2 = (Inr g, w2\<lparr>u_sess := s'\<rparr>)"
    "file_content g = file_content f" "same_tables S F (s_db (u_sess w2)) (s_db s')"
    using Complete_done [OF reg eq checks read later(3,4)] by blast
  then show ?thesis by (simp add: file_content_def)
qed

section \<open>An intact upload\<close>

lemma sql_insert_delivered:
  assumes "sql_ok T" "s_fates s = []"
  obtains s' where "sql_insert T xs s = (Inr (number_rows (with_id T) (t_next T (s_db s)) xs), s')" "s_fates s' = []"
proof -
  have "(fst (t_exec T (Insert xs) (s_db s)), t_rows T (snd (t_exec T (Insert xs) (s_db s))), t_next T (snd (t_exec T (Insert xs) (s_db s)))) =
      sql_doc T (Insert xs) (t_rows T (s_db s)) (t_next T (s_db s))" using assms(1) unfolding sql_ok_def by blast
  then show thesis using assms(2) that
    by (cases "t_exec T (Insert xs) (s_db s)") (auto simp: sql_insert_def sql_def Let_def)
qed

lemma session_rows_distinct: "upload_inv S F E d \<Longrightarrow> equivp (ue_same E) \<Longrightarrow> distinct (t_rows S d)"
proof -
  assume inv: "upload_inv S F E d" and eq: "equivp (ue_same E)"
  have "sorted_wrt (\<lambda>a b. \<not> ue_same E (us_ID a) (us_ID b)) rows \<Longrightarrow> distinct rows" for rows
    using equivp_reflp [OF eq] by (induction rows) auto
  moreover have "sorted_wrt (\<lambda>a b. \<not> ue_same E (us_ID a) (us_ID b)) (t_rows S d)" using inv by (simp add: upload_inv_def)
  ultimately show ?thesis by blast
qed

lemma affected_single:
  assumes "distinct rows" "r \<in> set rows" "p r" "f r \<noteq> r" "\<forall>x \<in> set rows. p x \<longrightarrow> x = r"
  shows "affected found p f rows = 1"
proof -
  have "filter (\<lambda>x. p x \<and> (found \<or> f x \<noteq> x)) rows = filter (\<lambda>x. x = r) rows"
    using assms(3-5) by (intro filter_cong) auto
  also have "\<dots> = [r]" using filter_unique_key [of "\<lambda>x. x" rows r] assms(1,2) by simp
  finally show ?thesis by (simp add: affected_def)
qed

lemma update_one_delivered:
  assumes inv: "upload_inv S F E (s_db s)" and eq: "equivp (ue_same E)" and fates: "s_fates s = []"
    and r: "r \<in> set (t_rows S (s_db s))" "owned E owner i r" "p r" and p: "\<And>x. p x \<Longrightarrow> owned E owner i x" and f: "f r \<noteq> r"
  obtains s' where "sql_update S p f s = (Inr 1, s')" "s_fates s' = []" "updates S F p f (s_db s) (s_db s')"
proof -
  have S: "sql_ok S" "leaves_alone S F" using inv by (simp_all add: upload_inv_def upload_tables_def)
  have one: "x = r" if "x \<in> set (t_rows S (s_db s))" "p x" for x
    using owned_unique [OF inv eq r(1,2) that(1) p [OF that(2)]] .
  have "affected (t_found_rows S) p f (t_rows S (s_db s)) = 1"
    by (rule affected_single [where p = p and f = f, OF session_rows_distinct [OF inv eq] r(1,3) f]) (use one in blast)
  with sql_delivered(2) [OF S(1) fates, of p f] obtain s' where
    s': "sql_update S p f s = (Inr 1, s')" "s_fates s' = []" "t_rows S (s_db s') = update_where p f (t_rows S (s_db s))" by metis
  with sql_frames(2) [OF S(2) s'(1)] show thesis by (intro that [OF s'(1,2)]) (simp add: updates_def)
qed

lemma updated_row: "updates S F p f d d' \<Longrightarrow> r \<in> set (t_rows S d) \<Longrightarrow> p r \<Longrightarrow> f r \<in> set (t_rows S d')"
  by (force simp: updates_def update_where_def)

lemma ClaimLease_delivered:
  assumes inv: "upload_inv S F E (s_db s)" and eq: "equivp (ue_same E)" and fates: "s_fates s = []"
    and r: "r \<in> set (t_rows S (s_db s))" "owned E owner i r" "us_State r = StateActive"
    and ok: "validateRepositoryRead owner i = None" "state \<in> {StateCompleting, StateAborting}" "token \<noteq> []" "now < until"
  defines "r' \<equiv> leased_row E state token now until r"
  obtains s' where "ClaimLease S E owner i state token now until s = (Inr r', s')" "s_fates s' = []"
    "upload_inv S F E (s_db s')" "r' \<in> set (t_rows S (s_db s'))"
proof -
  have ne: "r' \<noteq> r"
  proof
    assume "r' = r"
    then have "us_State r' = us_State r" by simp
    with r(3) ok(2) show False by (auto simp: r'_def leased_row_def)
  qed
  define p where "p = claim_clause E owner i state now"
  have pr: "p r" using r by (simp add: p_def claim_clause_def claimable_def)
  obtain s1 where s1: "sql_update S p (leased_row E state token now until) s = (Inr 1, s1)" "s_fates s1 = []"
      "updates S F p (leased_row E state token now until) (s_db s) (s_db s1)"
    using update_one_delivered [OF inv eq fates r(1,2), of p "leased_row E state token now until"] pr ne
    by (auto simp: p_def claim_clause_def r'_def)
  have i1: "upload_inv S F E (s_db s1)" using inv_claim [OF inv ok(2)] s1(3) by (simp add: p_def)
  have r1: "r' \<in> set (t_rows S (s_db s1))" "owned E owner i r'"
    using updated_row [OF s1(3) r(1) pr] r(2) by (simp_all add: r'_def owned_def leased_row_def)
  obtain s2 where s2: "GetSession S E owner i s1 = (Inr r', s2)" "s_fates s2 = []" "same_tables S F (s_db s1) (s_db s2)"
    using GetSession_delivered [OF i1 eq r1 ok(1) s1(2)] by blast
  have clause: "(\<lambda>r. owned E owner i r \<and> claimable state now r) = p" by (simp add: fun_eq_iff p_def claim_clause_def)
  have "ClaimLease S E owner i state token now until s = (Inr r', s2)"
    using ok s1(1) s2(1) by (auto simp: ClaimLease_def clause)
  then show thesis using that s2(2) inv_same [OF i1 s2(3)] r1(1) s2(3) by (simp add: same_tables_def)
qed

lemma FinalizeComplete_delivered:
  assumes inv: "upload_inv S F E (s_db s)" and eq: "equivp (ue_same E)" and fates: "s_fates s = []"
    and r: "r \<in> set (t_rows S (s_db s))" "owned E owner i r" "us_State r = StateCompleting" "us_LeaseToken r = token" "lease_left now r"
    and ok: "validateRepositoryRead owner i = None" "token \<noteq> []" "uev_ok (UFinalize owner i token now cf)"
  obtains s' where "FinalizeComplete S F E owner i token now cf s = (Inr (cf\<lparr>cf_ID := t_next F (s_db s)\<rparr>), s')"
proof -
  have T: "sql_ok S" "sql_ok F" "leaves_alone F S" "with_id F = (\<lambda>n f. f\<lparr>cf_ID := n\<rparr>)" and UT: "upload_tables S F"
    using inv by (simp_all add: upload_inv_def upload_tables_def)
  obtain s1 where s1: "sql_first S (owned E owner i) s = (Found r, s1)" "s_fates s1 = []"
    using sql_first_delivered [where p = "owned E owner i", OF T(1) fates r(1,2)] owned_unique [OF inv eq r(1,2)] by blast
  have same1: "same_tables S F (s_db s) (s_db s1)" using first_same(1) [OF UT s1(1)] .
  then have n1: "t_next F (s_db s1) = t_next F (s_db s)" by (simp add: same_tables_def)
  obtain s2 where s2: "sql_insert F [stored_file E now cf] s1 = (Inr [(stored_file E now cf)\<lparr>cf_ID := t_next F (s_db s)\<rparr>], s2)" "s_fates s2 = []"
    using sql_insert_delivered [OF T(2) s1(2), of "[stored_file E now cf]"] T(4) n1 by auto
  let ?n = "t_next F (s_db s)"
  have rf: "register_file F E now cf s1 = (Some (cf\<lparr>cf_ID := ?n\<rparr>), s2)" using s2 by (simp add: register_file_def)
  define p where "p = (\<lambda>r. owned E owner i r \<and> us_State r = StateCompleting \<and> ue_same E (us_LeaseToken r) token \<and> lease_left now r)"
  have rows2: "t_rows S (s_db s2) = t_rows S (s_db s)" using sql_frames(3) [OF T(3) s2(1)] same1 by (simp add: same_tables_def)
  have pr: "p r" using r equivp_reflp [OF eq] by (simp add: p_def)
  have one: "x = r" if "x \<in> set (t_rows S (s_db s))" "p x" for x
    using owned_unique [OF inv eq r(1,2) that(1)] that(2) by (simp add: p_def)
  have ne: "completed_row E ?n now r \<noteq> r"
  proof
    assume "completed_row E ?n now r = r"
    then have "us_State (completed_row E ?n now r) = us_State r" by simp
    with r(3) show False by (simp add: completed_row_def freed_row_def)
  qed
  have "affected (t_found_rows S) p (completed_row E ?n now) (t_rows S (s_db s)) = 1"
    by (rule affected_single [where p = p and f = "completed_row E (t_next F (s_db s)) now", OF session_rows_distinct [OF inv eq] r(1) pr ne]) (use one in blast)
  then obtain s3 where s3: "sql_update S p (completed_row E ?n now) s2 = (Inr 1, s3)" "s_fates s3 = []"
    using sql_delivered(2) [OF T(1) s2(2), of p "completed_row E ?n now"] rows2 by auto
  have body: "finalize_body S F E owner i token now cf s = (Inr (cf\<lparr>cf_ID := ?n\<rparr>), s3)"
    using s1(1) rf s3(1) r by (simp add: finalize_body_def p_def)
  have "FinalizeComplete S F E owner i token now cf s = (Inr (cf\<lparr>cf_ID := ?n\<rparr>), s3)"
    using ok sql_delivered(3) [OF T(1) fates] sql_delivered(4) [OF T(1) s3(2)] body by (simp add: FinalizeComplete_def in_transaction_def)
  then show thesis by (rule that)
qed

lemma hex_digit_lower: "n < 16 \<Longrightarrow> hex_digit n \<in> set ''0123456789abcdef''"
  unfolding hex_digit_def by (intro nth_mem) simp

lemma hex_encode_valid:
  assumes "length bs = 32" "\<forall>b \<in> set bs. b < 256"
  shows "validLowerSHA256 (hex_encode bs)"
proof -
  have "length (hex_encode bs) = 2 * length bs" by (induction bs) (auto simp: hex_encode_def)
  moreover have "set (hex_encode bs) \<subseteq> set ''0123456789abcdef''"
  proof
    fix c assume "c \<in> set (hex_encode bs)"
    then obtain b where b: "b \<in> set bs" "c = hex_digit (b div 16) \<or> c = hex_digit (b mod 16)" by (auto simp: hex_encode_def)
    have "b div 16 < 16" "b mod 16 < 16" using assms(2) b(1) by (simp_all add: less_mult_imp_div_less)
    with b(2) show "c \<in> set ''0123456789abcdef''" using hex_digit_lower by metis
  qed
  ultimately show ?thesis using assms(1) by (simp add: validLowerSHA256_def trim_cutset_Nil_iff)
qed

lemma hex_plain: "validLowerSHA256 h \<Longrightarrow> plain_text h"
  by (auto simp: validLowerSHA256_def trim_cutset_Nil_iff plain_text_def list_all_iff)

text \<open>The storage holds the object of a session: what it was declared to be, and readable.\<close>

definition intact :: "upload_env \<Rightarrow> 'o object_storage \<Rightarrow> upload_session \<Rightarrow> string \<Rightarrow> 'o \<Rightarrow> bool" where
  "intact E St x content ob \<longleftrightarrow>
     (\<exists>m o1 rd o2. os_head St (us_StoragePath x) ob = (Inr (Some m), o1) \<and> os_read St (us_StoragePath x) o1 = (Inr (Some rd), o2) \<and>
        fm_ContentLength m = us_SizeBytes x \<and> mimeEqual E (fm_ContentType m) (us_MIMEType x) \<and>
        rd_bytes rd = content \<and> \<not> rd_breaks rd \<and> rd_close rd = None) \<and>
     int (length content) = us_SizeBytes x \<and> (us_SHA256 x = [] \<or> us_SHA256 x = hex_encode (ue_sha256 E content))"

lemma run_verifier_intact:
  assumes i: "intact E St x content (u_obj w)" and ctx: "u_ctx w = []"
    and sha: "validLowerSHA256 (hex_encode (ue_sha256 E content))" and mime: "\<not> mime_bad E (us_MIMEType x)"
    and path: "validateStoragePath (us_Purpose x) (us_StoragePath x) = None"
  obtains vo w' where "run_verifier E St None x w = (Inr vo, w')" "u_sess w' = u_sess w"
    "vo_SHA256 vo = hex_encode (ue_sha256 E content)" "vo_SizeBytes vo = us_SizeBytes x"
proof -
  obtain m o1 rd o2 where h: "os_head St (us_StoragePath x) (u_obj w) = (Inr (Some m), o1)" "os_read St (us_StoragePath x) o1 = (Inr (Some rd), o2)"
    "fm_ContentLength m = us_SizeBytes x" "mimeEqual E (fm_ContentType m) (us_MIMEType x)" "rd_bytes rd = content" "\<not> rd_breaks rd" "rd_close rd = None"
    using i by (auto simp: intact_def)
  define vo where "vo = \<lparr>vo_SizeBytes = us_SizeBytes x, vo_SHA256 = hex_encode (ue_sha256 E content), vo_MIMEType = us_MIMEType x,
      vo_StoragePath = us_StoragePath x, vo_ETag = fm_ETag m\<rparr>"
  have size: "int (length content) = us_SizeBytes x" "us_SHA256 x = [] \<or> us_SHA256 x = hex_encode (ue_sha256 E content)"
    using i by (auto simp: intact_def)
  then have "limited_copy rd (nat (us_SizeBytes x + 1)) = Some content" using h(5,6) by (auto simp: limited_copy_def)
  then have vs: "verify_stream E x (fm_ETag m) rd w1 = (Inr vo, w1)" for w1 :: "('b, 'a) uworld"
    using h(7) size by (auto simp: verify_stream_def vo_def Let_def)
  have "defaultVerifier E St x w = (Inr vo, w\<lparr>u_obj := o2\<rparr>)"
    using ctx h(1-4) vs by (simp add: defaultVerifier_def ctx_err_def on_obj_def Let_def)
  moreover have "validateVerifiedObjectFromSession E x vo = None"
    using sha mime path size(2) by (auto simp: validateVerifiedObjectFromSession_def validateVerifiedObject_def session_request_def vo_def)
  ultimately have "run_verifier E St None x w = (Inr vo, w\<lparr>u_obj := o2\<rparr>)" by (simp add: run_verifier_def)
  then show thesis using that by (auto simp: vo_def)
qed


lemma sample_sha: "validLowerSHA256 (hex_encode (ue_sha256 sample_uenv content))"
  by (rule hex_encode_valid) (simp_all add: sample_uenv_def)

lemma sample_equiv: "equivp (ue_same sample_uenv)"
  by (simp add: sample_uenv_def identity_equivp)

lemma sample_checks: "validateOwnerAndID sample_uenv w_member ''u1'' = None"
  using w_member_ok by (simp add: validateOwnerAndID_def uuid_bad_def sample_uenv_def sample_texts)

lemma sample_path_ok: "validateStoragePath ''doc'' ''doc/file.txt'' = None"
  by (simp add: validateStoragePath_def sample_texts text_checks path_clean_def is_abs_def clean_components_def)

definition upload_world :: "upload_session list \<Rightarrow> (upload_db, unit) uworld" where
  "upload_world xs = \<lparr>u_sess = upload_start xs, u_obj = (), u_ctx = []\<rparr>"

lemma sample_intact: "intact sample_uenv sample_storage (sample_upload StateActive) ''abc'' ()"
  by (simp add: intact_def sample_storage_def sample_upload_def new_session_def sample_request_def mimeEqual_def canonicalMIME_def
      sample_uenv_def sample_texts text_checks)

lemma sample_active_inv: "upload_inv session_table file_table sample_uenv (s_db (upload_start [sample_upload StateActive]))"
  by (rule sample_inv) (simp_all add: row_ok_def sample_upload_def new_session_def)


definition done_world :: "(upload_db, unit) uworld" where
  "done_world = \<lparr>u_sess = upload_done, u_obj = (), u_ctx = []\<rparr>"

lemma done_registered: "registered_as session_table file_table sample_uenv w_member ''u1'' sample_file (s_db (u_sess done_world))"
  using upload_done_inv
  by (simp add: registered_as_def done_world_def upload_done_def) (simp add: sample_upload_defs owned_def sample_uenv_def w_member_def file_owned_def)

theorem completion_is_idempotent_witness:
  "\<exists>f w1 f' w3. Complete session_table file_table sample_uenv sample_storage sample_options None 6 7 8 9 (Some ''t'') w_member ''u1'' [] done_world = (Inr f, w1) \<and>
     Complete session_table file_table sample_uenv sample_storage sample_options None 16 17 18 19 (Some ''v'') w_member ''u1'' [] (w1\<lparr>u_sess := (u_sess w1)\<lparr>s_fates := []\<rparr>\<rparr>) = (Inr f', w3) \<and>
     cf_ID f' = cf_ID f"
proof -
  have calm: "s_fates (u_sess done_world) = []" "u_ctx done_world = []" by (simp_all add: done_world_def upload_done_def)
  have read: "validateRepositoryRead w_member ''u1'' = None" using w_member_ok by (simp add: validateRepositoryRead_def)
  obtain g s' where g: "Complete session_table file_table sample_uenv sample_storage sample_options None 6 7 8 9 (Some ''t'') w_member ''u1'' [] done_world =
      (Inr g, done_world\<lparr>u_sess := s'\<rparr>)"
    using Complete_done [OF done_registered sample_equiv sample_checks read calm] by blast
  have inv: "upload_inv session_table file_table sample_uenv (s_db (u_sess done_world))" using done_registered by (simp add: registered_as_def)
  have v: "verifier_ok session_table file_table sample_uenv (None :: (upload_db, unit) verifier option)" by (simp add: verifier_ok_def)
  let ?w2 = "done_world\<lparr>u_sess := s'\<lparr>s_fates := []\<rparr>\<rparr>"
  have "\<exists>f' w3. Complete session_table file_table sample_uenv sample_storage sample_options None 16 17 18 19 (Some ''v'') w_member ''u1'' [] ?w2 = (Inr f', w3) \<and>
      cf_ID f' = cf_ID g"
    using completion_is_idempotent [OF inv sample_equiv v g, of "[]" ?w2 None 16 17 18 19 "Some ''v''" "[]"] calm by fastforce
  with g show ?thesis by fastforce
qed

end
