(* ===== verification/Go_Json.thy ===== *)
theory Go_Json
  imports Go_Numbers
begin

text \<open>
  JSON documents as the decoder of \<open>encoding/json\<close> hands them out. The text of a document is parsed
  outside (its grammar is not part of this library); \<open>jd_end\<close> says whether only white space follows the
  first value. A number is kept as its literal, members keep their order and their repetitions.
\<close>

datatype json = JNull | JBool bool | JNumber string | JString string | JArray "json list" | JObject "(string \<times> json) list"

record json_doc =
  jd_value :: json
  jd_end :: bool

text \<open>\<open>Decode\<close> into a pointer: \<open>null\<close> makes it nil, a value of another type is an error.\<close>

fun decode_string :: "json \<Rightarrow> string option option" where
  "decode_string JNull = Some None"
| "decode_string (JString s) = Some (Some s)"
| "decode_string _ = None"

fun decode_int64 :: "json \<Rightarrow> int option option" where
  "decode_int64 JNull = Some None"
| "decode_int64 (JNumber n) = (case parse_int n of None \<Rightarrow> None | Some i \<Rightarrow> Some (Some i))"
| "decode_int64 _ = None"

text \<open>
  The loop over the members of an object that both decoders of the program use: a repeated name and a
  member that \<open>field\<close> refuses end it.
\<close>

fun read_members :: "(string \<Rightarrow> json \<Rightarrow> 's \<Rightarrow> 's option) \<Rightarrow> string list \<Rightarrow> (string \<times> json) list \<Rightarrow> 's \<Rightarrow> 's option" where
  "read_members field seen [] s = Some s"
| "read_members field seen ((name, v) # ms) s =
     (if name \<in> set seen then None
      else case field name v s of None \<Rightarrow> None | Some s' \<Rightarrow> read_members field (name # seen) ms s')"

lemma read_members_distinct:
  "read_members field seen ms s = Some s' \<Longrightarrow> distinct (map fst ms) \<and> set (map fst ms) \<inter> set seen = {}"
  by (induction field seen ms s rule: read_members.induct) (auto split: if_splits option.splits)

text \<open>With distinct names the loop is a fold, in which every member is accepted.\<close>

lemma read_members_append:
  "read_members field seen (ms @ ns) s =
    (case read_members field seen ms s of None \<Rightarrow> None | Some s' \<Rightarrow> read_members field (rev (map fst ms) @ seen) ns s')"
  by (induction field seen ms s rule: read_members.induct) (auto split: option.splits)

lemma read_members_names:
  assumes "read_members field seen ms s = Some s'" "\<And>n v s s'. field n v s = Some s' \<Longrightarrow> n \<in> N"
  shows "set (map fst ms) \<subseteq> N"
  using assms by (induction field seen ms s rule: read_members.induct) (auto split: if_splits option.splits)

text \<open>A component of the state that has changed has the value of a member that sets it.\<close>

lemma read_members_component:
  assumes "read_members field seen ms s = Some s'"
    and "\<And>n v s s'. field n v s = Some s' \<Longrightarrow> get s' = get s \<or> P n v (get s')"
  shows "get s' = get s \<or> (\<exists>(n, v) \<in> set ms. P n v (get s'))"
  using assms(1)
proof (induction ms arbitrary: seen s)
  case (Cons m ms)
  obtain n v where m: "m = (n, v)" by (cases m)
  then obtain s1 where s1: "field n v s = Some s1" "read_members field (n # seen) ms s1 = Some s'"
    using Cons.prems by (auto split: if_splits option.splits)
  from Cons.IH [OF s1(2)] assms(2) [OF s1(1)] m show ?case by auto
qed simp

end
