(* ===== verification/Credits_Client.thy ===== *)
theory Credits_Client
  imports Request_Context Go_Json
begin

text \<open>
  Package \<open>credits\<close>, the protocol client (\<open>client.go\<close>, \<open>balance.go\<close>): validation of connections and
  balances, the call of the credits service and what is made of its answers. \<open>url.Parse\<close>, the parsing
  of media types and of JSON texts and the case folding of \<open>encoding/json\<close> are parameters
  (\<open>credits_env\<close>), and so is the HTTP client: a function from the request to a response or an error, over
  a state of its own.
\<close>

section \<open>Errors\<close>

datatype credits_sentinel = CreditsUnavailable | CreditsDenied | CreditsCanceled | CreditsDeadline

type_synonym cerror = "credits_sentinel go_error"

fun sentinel_text :: "credits_sentinel \<Rightarrow> string" where
  "sentinel_text CreditsUnavailable = ''credits unavailable''"
| "sentinel_text CreditsDenied = ''credits access denied''"
| "sentinel_text CreditsCanceled = ''context canceled''"
| "sentinel_text CreditsDeadline = ''context deadline exceeded''"

definition cerr :: "credits_sentinel \<Rightarrow> cerror" where
  "cerr s = errors_new s (sentinel_text s)"

fun ctx_sentinel :: "ctx_err \<Rightarrow> credits_sentinel" where
  "ctx_sentinel Canceled = CreditsCanceled"
| "ctx_sentinel DeadlineExceeded = CreditsDeadline"

definition ctx_cerror :: "ctx_err \<Rightarrow> cerror" where
  "ctx_cerror c = cerr (ctx_sentinel c)"

text \<open>\<open>errors.Join(a, b)\<close> where \<open>b\<close> may be nil.\<close>

definition join_opt :: "'s go_error \<Rightarrow> 's go_error option \<Rightarrow> 's go_error" where
  "join_opt a b = (case b of None \<Rightarrow> a | Some e \<Rightarrow> errors_join a e)"

definition wrap_text :: "string \<Rightarrow> 's go_error \<Rightarrow> 's go_error" where
  "wrap_text message e = the (safeerror_Wrap message (Some e))"

definition unavailableCause :: "cerror option \<Rightarrow> cerror" where
  "unavailableCause cause =
     (case cause of None \<Rightarrow> cerr CreditsUnavailable
      | Some e \<Rightarrow> wrap_text (error_text (cerr CreditsUnavailable)) (errors_join (cerr CreditsUnavailable) e))"

section \<open>Data\<close>

record connection =
  BaseURL :: string
  APIKey :: string

record credits_config =
  cc_Endpoint :: string
  cc_Timeout :: duration

record balance =
  State :: string
  Quota :: int
  UsedQuota :: int

text \<open>What the program reads of a parsed URL; \<open>ur_String\<close> is its \<open>String\<close>.\<close>

record parsed_url =
  ur_Scheme :: string
  ur_Host :: string
  ur_User :: bool
  ur_Path :: string
  ur_RawQuery :: string
  ur_Fragment :: string
  ur_String :: string

record credits_env =
  ce_url :: "string \<Rightarrow> cerror + parsed_url"
  ce_media :: "string \<Rightarrow> cerror + string"
  ce_json :: "string \<Rightarrow> cerror + json_doc"
  ce_fold :: "string \<Rightarrow> string"

definition trim_right :: "char \<Rightarrow> string \<Rightarrow> string" where
  "trim_right c s = rev (dropWhile (\<lambda>x. x = c) (rev s))"

definition url_error :: "cerror + parsed_url \<Rightarrow> cerror option" where
  "url_error r = (case r of Inl e \<Rightarrow> Some e | Inr _ \<Rightarrow> None)"

section \<open>Validation\<close>

definition ValidateConnection :: "credits_env \<Rightarrow> connection \<Rightarrow> cerror option" where
  "ValidateConnection E c =
     (let r = ce_url E (BaseURL c)
      in if (case r of Inl _ \<Rightarrow> True
             | Inr u \<Rightarrow> length (BaseURL c) > 512 \<or> ur_Scheme u \<noteq> ''https'' \<or> ur_Host u = [] \<or> ur_User u \<or> ur_RawQuery u \<noteq> [] \<or>
                 ur_Fragment u \<noteq> [] \<or> trim_right (CHR 0x2F) (ur_Path u) \<noteq> ''/v1'' \<or> length (APIKey c) < 1 \<or> length (APIKey c) > 8192 \<or>
                 contains_any (APIKey c) [CHR '' '', CHR 0x09, CHR 0x0D, CHR 0x0A])
         then Some (unavailableCause (url_error r)) else None)"

definition maxExactInteger :: int where "maxExactInteger = 2 ^ 53 - 1"

definition ValidateBalance :: "balance \<Rightarrow> cerror option" where
  "ValidateBalance b =
     (if (State b \<noteq> ''ready'' \<and> State b \<noteq> ''pending'') \<or> Quota b < - maxExactInteger \<or> Quota b > maxExactInteger \<or>
         UsedQuota b < 0 \<or> UsedQuota b > maxExactInteger
      then Some (cerr CreditsUnavailable) else None)"

section \<open>Client\<close>

record credits_client =
  cl_endpoint :: string
  cl_timeout :: duration

text \<open>\<open>transport\<close> says whether one is given.\<close>

definition NewClientWithTransport :: "credits_env \<Rightarrow> credits_config \<Rightarrow> bool \<Rightarrow> cerror + credits_client" where
  "NewClientWithTransport E cfg transport =
     (case ce_url E (cc_Endpoint cfg) of Inl e \<Rightarrow> Inl (unavailableCause (Some e))
      | Inr u \<Rightarrow>
         if length (cc_Endpoint cfg) > 512 \<or> ur_Scheme u \<noteq> ''https'' \<or> ur_Host u = [] \<or> ur_User u \<or>
            (ur_Path u \<noteq> [] \<and> ur_Path u \<noteq> ''/'') \<or> ur_RawQuery u \<noteq> [] \<or> ur_Fragment u \<noteq> [] \<or> \<not> transport
         then Inl (unavailableCause None)
         else let timeout = (if cc_Timeout cfg = 0 then 15 * second else cc_Timeout cfg)
         in if timeout \<le> 0 \<or> timeout > 45 * second then Inl (cerr CreditsUnavailable)
            else Inr \<lparr>cl_endpoint = trim_right (CHR 0x2F) (ur_String u), cl_timeout = timeout\<rparr>)"

definition DefaultPath :: string where "DefaultPath = ''/internal/credits/default''"
definition BalancePath :: string where "BalancePath = ''/internal/credits/balance''"

record credits_request =
  hq_URL :: string
  hq_RequestID :: string
  hq_Subject :: member
  hq_DisplayNames :: "display_names option"

text \<open>A response: its body is what can be read of it, then its end or an error.\<close>

record http_response =
  hr_Status :: nat
  hr_ContentType :: string
  hr_Body :: string
  hr_BodyError :: "cerror option"

type_synonym 'n http_client = "credits_request \<Rightarrow> 'n \<Rightarrow> (cerror + http_response) \<times> 'n"

definition bodyLimit :: nat where "bodyLimit = 16 * 1024"

text \<open>\<open>io.ReadAll\<close> of the limited body: the error, if the reader fails before the limit, and the bytes.\<close>

definition read_body :: "http_response \<Rightarrow> cerror option \<times> string" where
  "read_body r =
     (if length (hr_Body r) > bodyLimit then (None, take (bodyLimit + 1) (hr_Body r)) else (hr_BodyError r, hr_Body r))"

text \<open>The answer of the service, decoded by \<open>decode\<close>, which is an error or a value.\<close>

definition read_response :: "credits_env \<Rightarrow> (json \<Rightarrow> cerror + 'a) \<Rightarrow> http_response \<Rightarrow> cerror + 'a" where
  "read_response E decode r =
     (if hr_Status r = 403 \<or> hr_Status r = 409 then Inl (cerr CreditsDenied)
      else if hr_Status r \<noteq> 200 then Inl (cerr CreditsUnavailable)
      else case ce_media E (hr_ContentType r) of Inl e \<Rightarrow> Inl (unavailableCause (Some e))
      | Inr media \<Rightarrow>
         if media \<noteq> ''application/json'' then Inl (unavailableCause None)
         else case read_body r of (err, raw) \<Rightarrow>
           if err \<noteq> None \<or> length raw > bodyLimit then Inl (unavailableCause err)
           else case ce_json E raw of Inl e \<Rightarrow> Inl (unavailableCause (Some e))
           | Inr doc \<Rightarrow>
              (case decode (jd_value doc) of Inl e \<Rightarrow> Inl (unavailableCause (Some e))
               | Inr v \<Rightarrow> if \<not> jd_end doc then Inl (unavailableCause None) else Inr v))"

definition call_request :: "credits_client \<Rightarrow> request_context option \<Rightarrow> member \<Rightarrow> string \<Rightarrow> credits_request" where
  "call_request c ctx subject path =
     \<lparr>hq_URL = cl_endpoint c @ path, hq_RequestID = FromContext ctx, hq_Subject = subject,
      hq_DisplayNames = DisplayNamesFromContext ctx subject\<rparr>"

text \<open>The exchange with the service; \<open>e1\<close> is the state of the context after it has failed.\<close>

definition exchange ::
  "credits_env \<Rightarrow> 'n http_client \<Rightarrow> credits_request \<Rightarrow> ctx_err option \<Rightarrow> (json \<Rightarrow> cerror + 'a) \<Rightarrow> 'n \<Rightarrow> (cerror + 'a) \<times> 'n" where
  "exchange E http q e1 decode n =
     (case http q n of
        (Inl err, n') \<Rightarrow>
          (case e1 of
             Some e \<Rightarrow> (Inl (wrap_text (error_text (ctx_cerror e)) (errors_join (ctx_cerror e) err)), n')
           | None \<Rightarrow> (Inl (unavailableCause (Some err)), n'))
      | (Inr r, n') \<Rightarrow> (read_response E decode r, n'))"

text \<open>\<open>call\<close>: the context is \<open>ctx\<close> with \<open>e0\<close> its error at the beginning.\<close>

definition client_call ::
  "credits_env \<Rightarrow> 'n http_client \<Rightarrow> credits_client option \<Rightarrow> request_context option \<Rightarrow> ctx_err option \<Rightarrow> ctx_err option \<Rightarrow> member \<Rightarrow> string \<Rightarrow>
   (json \<Rightarrow> cerror + 'a) \<Rightarrow> 'n \<Rightarrow> (cerror + 'a) \<times> 'n" where
  "client_call E http client ctx e0 e1 subject path decode n =
     (case (client, ctx) of
        (Some c, Some _) \<Rightarrow>
          if member_Validate subject \<noteq> None then (Inl (cerr CreditsDenied), n)
          else (case e0 of Some e \<Rightarrow> (Inl (ctx_cerror e), n)
          | None \<Rightarrow>
             (case ce_url E (cl_endpoint c @ path) of Inl e \<Rightarrow> (Inl (unavailableCause (Some e)), n)
              | Inr _ \<Rightarrow> exchange E http (call_request c ctx subject path) e1 decode n))
      | _ \<Rightarrow> (Inl (cerr CreditsDenied), n))"

section \<open>Connections\<close>

text \<open>
  \<open>json.Decode\<close> into a \<open>Connection\<close> with unknown fields refused: names are compared after folding, a
  later member overrides an earlier one, \<open>null\<close> changes nothing.
\<close>

definition json_error :: cerror where "json_error = errors_text ''json: cannot unmarshal''"

definition connection_member :: "credits_env \<Rightarrow> string \<times> json \<Rightarrow> connection option \<Rightarrow> connection option" where
  "connection_member E m acc =
     (case acc of None \<Rightarrow> None
      | Some c \<Rightarrow>
         (if ce_fold E (fst m) = ce_fold E ''base_url''
          then (case snd m of JString s \<Rightarrow> Some (c\<lparr>BaseURL := s\<rparr>) | JNull \<Rightarrow> Some c | _ \<Rightarrow> None)
          else if ce_fold E (fst m) = ce_fold E ''api_key''
          then (case snd m of JString s \<Rightarrow> Some (c\<lparr>APIKey := s\<rparr>) | JNull \<Rightarrow> Some c | _ \<Rightarrow> None)
          else None))"

fun decode_connection :: "credits_env \<Rightarrow> json \<Rightarrow> cerror + connection" where
  "decode_connection E JNull = Inr \<lparr>BaseURL = [], APIKey = []\<rparr>"
| "decode_connection E (JObject ms) =
     (case fold (connection_member E) ms (Some \<lparr>BaseURL = [], APIKey = []\<rparr>) of None \<Rightarrow> Inl json_error | Some c \<Rightarrow> Inr c)"
| "decode_connection E _ = Inl json_error"

definition client_AcquireDefault ::
  "credits_env \<Rightarrow> 'n http_client \<Rightarrow> credits_client option \<Rightarrow> request_context option \<Rightarrow> ctx_err option \<Rightarrow> ctx_err option \<Rightarrow> member \<Rightarrow>
   'n \<Rightarrow> (cerror + connection) \<times> 'n" where
  "client_AcquireDefault E http client ctx e0 e1 subject n =
     (case client_call E http client ctx e0 e1 subject DefaultPath (decode_connection E) n of
        (Inl e, n') \<Rightarrow> (Inl e, n')
      | (Inr c, n') \<Rightarrow> (case ValidateConnection E c of Some e \<Rightarrow> (Inl e, n') | None \<Rightarrow> (Inr c, n')))"

section \<open>Balances\<close>

record balance_wire =
  bw_State :: "string option"
  bw_Quota :: "int option"
  bw_UsedQuota :: "int option"

definition balance_field :: "string \<Rightarrow> json \<Rightarrow> balance_wire \<Rightarrow> balance_wire option" where
  "balance_field name v b =
     (if name = ''state'' then map_option (\<lambda>s. b\<lparr>bw_State := s\<rparr>) (decode_string v)
      else if name = ''quota'' then map_option (\<lambda>q. b\<lparr>bw_Quota := q\<rparr>) (decode_int64 v)
      else if name = ''used_quota'' then map_option (\<lambda>q. b\<lparr>bw_UsedQuota := q\<rparr>) (decode_int64 v)
      else None)"

definition empty_wire :: balance_wire where
  "empty_wire = \<lparr>bw_State = None, bw_Quota = None, bw_UsedQuota = None\<rparr>"

fun balance_UnmarshalJSON :: "json \<Rightarrow> cerror + balance_wire" where
  "balance_UnmarshalJSON (JObject ms) =
     (case read_members balance_field [] ms empty_wire of None \<Rightarrow> Inl (cerr CreditsUnavailable) | Some b \<Rightarrow> Inr b)"
| "balance_UnmarshalJSON _ = Inl (cerr CreditsUnavailable)"

definition GetBalance ::
  "credits_env \<Rightarrow> 'n http_client \<Rightarrow> credits_client option \<Rightarrow> request_context option \<Rightarrow> ctx_err option \<Rightarrow> ctx_err option \<Rightarrow> member \<Rightarrow>
   'n \<Rightarrow> (cerror + balance) \<times> 'n" where
  "GetBalance E http client ctx e0 e1 subject n =
     (case client_call E http client ctx e0 e1 subject BalancePath balance_UnmarshalJSON n of
        (Inl e, n') \<Rightarrow> (Inl e, n')
      | (Inr wire, n') \<Rightarrow>
         (case (bw_State wire, bw_Quota wire, bw_UsedQuota wire) of
            (Some st, Some q, Some u) \<Rightarrow>
              (let b = \<lparr>State = st, Quota = q, UsedQuota = u\<rparr>
               in case ValidateBalance b of Some e \<Rightarrow> (Inl e, n') | None \<Rightarrow> (Inr b, n'))
          | _ \<Rightarrow> (Inl (cerr CreditsUnavailable), n')))"

end
