(* ===== verification/Step_Invariant.thy ===== *)
theory Step_Invariant
  imports Main
begin

text \<open>
  Step relations with an invariant, as an interface: a component provides its step relation, a predicate on its
  states and the proof that every step keeps it. What is proved here once holds for every run of the component.
\<close>

locale step_invariant =
  fixes step :: "'s \<Rightarrow> 's \<Rightarrow> bool"
    and inv :: "'s \<Rightarrow> bool"
  assumes step_keeps: "inv s \<Longrightarrow> step s s' \<Longrightarrow> inv s'"
begin

lemma run_keeps: "step\<^sup>*\<^sup>* s s' \<Longrightarrow> inv s \<Longrightarrow> inv s'"
  by (induction rule: rtranclp_induct) (auto intro: step_keeps)

text \<open>An observation that no step from a state with the invariant takes back stays for the rest of a run.\<close>

lemma run_stable:
  assumes "step\<^sup>*\<^sup>* s s'" "inv s" "P s" and stable: "\<And>s s'. inv s \<Longrightarrow> step s s' \<Longrightarrow> P s \<Longrightarrow> P s'"
  shows "P s'"
proof -
  from assms(1-3) have "inv s' \<and> P s'"
    by (induction rule: rtranclp_induct) (auto intro: step_keeps stable)
  then show ?thesis ..
qed

end

end
