(* ===== verification/Credits_Execution.thy ===== *)
theory Credits_Execution
  imports Credits_Client Step_Invariant
begin

text \<open>
  Package \<open>credits\<close>, executions (\<open>execution.go\<close>): an execution acquires a connection at most once and all
  its callers share the outcome. \<open>AcquireDefault\<close> is the run of a caller on its own; \<open>exec_step\<close> are the
  steps of any number of callers that interleave, at the lock, at the end of the acquisition and at the
  \<open>select\<close>.
\<close>

section \<open>Data\<close>

text \<open>\<open>ex_acquire\<close>: an acquire function is given; \<open>ex_outcome\<close>: the result, once \<open>done\<close> is closed.\<close>

record execution =
  ex_subject :: member
  ex_acquire :: bool
  ex_started :: bool
  ex_outcome :: "(cerror + connection) option"

definition NewExecution :: "member \<Rightarrow> bool \<Rightarrow> cerror + execution" where
  "NewExecution subject acquire =
     (if member_Validate subject \<noteq> None then Inl (cerr CreditsDenied)
      else if \<not> acquire then Inl (cerr CreditsUnavailable)
      else Inr \<lparr>ex_subject = subject, ex_acquire = acquire, ex_started = False, ex_outcome = None\<rparr>)"

definition Subject :: "execution option \<Rightarrow> member" where
  "Subject e = (case e of None \<Rightarrow> \<lparr>OrganizationID = [], UserID = []\<rparr> | Some x \<Rightarrow> ex_subject x)"

section \<open>Acquiring\<close>

definition classification :: "cerror \<Rightarrow> credits_sentinel" where
  "classification err =
     (if errors_is err CreditsDenied then CreditsDenied
      else if errors_is err CreditsCanceled then CreditsCanceled
      else if errors_is err CreditsDeadline then CreditsDeadline
      else CreditsUnavailable)"

text \<open>What the first caller stores: \<open>out\<close> is the answer of the acquire function and \<open>e\<close> the state of its context then.\<close>

definition settle :: "credits_env \<Rightarrow> cerror + connection \<Rightarrow> ctx_err option \<Rightarrow> cerror + connection" where
  "settle E out e =
     (let err = (case out of Inl x \<Rightarrow> Some x | Inr c \<Rightarrow> ValidateConnection E c);
          err' = (case e of None \<Rightarrow> err | Some c \<Rightarrow> Some (join_opt (ctx_cerror c) err))
      in case err' of
           None \<Rightarrow> out
         | Some x \<Rightarrow> Inl (wrap_text (sentinel_text (classification x)) (errors_join (cerr (classification x)) x)))"

text \<open>
  A caller on its own: \<open>e0\<close>, \<open>e1\<close> and \<open>e2\<close> are the states of its context at the beginning, after the
  acquisition and at the end. \<open>None\<close> says that the caller waits for another one.
\<close>

definition AcquireDefault ::
  "credits_env \<Rightarrow> (member \<Rightarrow> cerror + connection) \<Rightarrow> ctx_err option \<Rightarrow> ctx_err option \<Rightarrow> ctx_err option \<Rightarrow> execution option \<Rightarrow>
   (cerror + connection) option \<times> execution option" where
  "AcquireDefault E acquire e0 e1 e2 e =
     (case e of None \<Rightarrow> (Some (Inl (cerr CreditsDenied)), None)
      | Some x \<Rightarrow>
         if \<not> ex_acquire x then (Some (Inl (cerr CreditsDenied)), Some x)
         else (case e0 of Some c \<Rightarrow> (Some (Inl (ctx_cerror c)), Some x)
         | None \<Rightarrow>
            (let x' = (if ex_started x then x
                       else x\<lparr>ex_started := True, ex_outcome := Some (settle E (acquire (ex_subject x)) e1)\<rparr>)
             in case e2 of Some c \<Rightarrow> (Some (Inl (ctx_cerror c)), Some x')
                | None \<Rightarrow> (ex_outcome x', Some x'))))"

section \<open>Contexts\<close>

record credits_context = request_context +
  ctx_execution :: "execution option option"

definition WithExecution :: "credits_context option \<Rightarrow> execution option \<Rightarrow> credits_context option" where
  "WithExecution ctx e = map_option (\<lambda>c. c\<lparr>ctx_execution := Some e\<rparr>) ctx"

definition ExecutionFromContext :: "credits_context option \<Rightarrow> cerror + execution" where
  "ExecutionFromContext ctx =
     (case ctx of None \<Rightarrow> Inl (cerr CreditsDenied)
      | Some c \<Rightarrow>
         (case ctx_execution c of
            Some (Some e) \<Rightarrow> if \<not> ex_acquire e then Inl (cerr CreditsDenied) else Inr e
          | _ \<Rightarrow> Inl (cerr CreditsDenied)))"

definition ConnectionFromContext ::
  "credits_env \<Rightarrow> (member \<Rightarrow> cerror + connection) \<Rightarrow> ctx_err option \<Rightarrow> ctx_err option \<Rightarrow> ctx_err option \<Rightarrow> credits_context option \<Rightarrow>
   (cerror + connection) option \<times> execution option" where
  "ConnectionFromContext E acquire e0 e1 e2 ctx =
     (case ExecutionFromContext ctx of Inl e \<Rightarrow> (Some (Inl e), None)
      | Inr x \<Rightarrow> AcquireDefault E acquire e0 e1 e2 (Some x))"

section \<open>Interleaved callers\<close>

datatype phase = Entering | Acquiring | Waiting | GaveUp ctx_err | Returned "cerror + connection" | Panicked

text \<open>\<open>xs_calls\<close> counts the calls of the acquire function.\<close>

record exec_state =
  xs_exec :: execution
  xs_phase :: "nat \<Rightarrow> phase"
  xs_calls :: nat

definition exec_start :: "execution \<Rightarrow> exec_state" where
  "exec_start e = \<lparr>xs_exec = e, xs_phase = (\<lambda>_. Entering), xs_calls = 0\<rparr>"

definition set_phase :: "nat \<Rightarrow> phase \<Rightarrow> exec_state \<Rightarrow> exec_state" where
  "set_phase c p s = s\<lparr>xs_phase := (xs_phase s)(c := p)\<rparr>"

definition set_outcome :: "cerror + connection \<Rightarrow> exec_state \<Rightarrow> exec_state" where
  "set_outcome r s = s\<lparr>xs_exec := (xs_exec s)\<lparr>ex_outcome := Some r\<rparr>\<rparr>"

inductive exec_step :: "credits_env \<Rightarrow> exec_state \<Rightarrow> exec_state \<Rightarrow> bool" for E where
  enter_ended: "xs_phase s c = Entering \<Longrightarrow> exec_step E s (set_phase c (GaveUp e) s)"
| enter_first: "xs_phase s c = Entering \<Longrightarrow> \<not> ex_started (xs_exec s) \<Longrightarrow>
    exec_step E s (set_phase c Acquiring (s\<lparr>xs_exec := (xs_exec s)\<lparr>ex_started := True\<rparr>, xs_calls := Suc (xs_calls s)\<rparr>))"
| enter_later: "xs_phase s c = Entering \<Longrightarrow> ex_started (xs_exec s) \<Longrightarrow> exec_step E s (set_phase c Waiting s)"
| acquired: "xs_phase s c = Acquiring \<Longrightarrow> exec_step E s (set_phase c Waiting (set_outcome (settle E out e) s))"
| panicking: "xs_phase s c = Acquiring \<Longrightarrow> exec_step E s (set_phase c Panicked (set_outcome (Inl (cerr CreditsUnavailable)) s))"
| wait_ended: "xs_phase s c = Waiting \<Longrightarrow> exec_step E s (set_phase c (GaveUp e) s)"
| wait_done: "xs_phase s c = Waiting \<Longrightarrow> ex_outcome (xs_exec s) = Some r \<Longrightarrow> exec_step E s (set_phase c (Returned r) s)"

inductive_cases exec_stepE: "exec_step E s s'"

section \<open>Invariant\<close>

definition public_texts :: "string set" where
  "public_texts = {''credits unavailable'', ''credits access denied'', ''context canceled'', ''context deadline exceeded''}"

definition outcome_ok :: "credits_env \<Rightarrow> cerror + connection \<Rightarrow> bool" where
  "outcome_ok E r \<longleftrightarrow> (case r of Inl e \<Rightarrow> error_text e \<in> public_texts | Inr c \<Rightarrow> ValidateConnection E c = None)"

lemma sentinel_public: "sentinel_text s \<in> public_texts"
  by (cases s) (simp_all add: public_texts_def)

lemma cerr_text [simp]: "error_text (cerr s) = sentinel_text s"
  by (simp add: cerr_def errors_new_def)

lemma wrap_text_text [simp]: "error_text (wrap_text m e) = m" "error_chain (wrap_text m e) = error_chain e"
  by (simp_all add: wrap_text_def safeerror_Wrap_def)

lemma settle_ok: "outcome_ok E (settle E out e)"
  by (auto simp: settle_def outcome_ok_def sentinel_public Let_def split: option.splits sum.splits)

definition exec_inv :: "credits_env \<Rightarrow> exec_state \<Rightarrow> bool" where
  "exec_inv E s \<longleftrightarrow>
     xs_calls s = (if ex_started (xs_exec s) then 1 else 0) \<and>
     (\<not> ex_started (xs_exec s) \<longrightarrow> ex_outcome (xs_exec s) = None \<and> (\<forall>c. xs_phase s c \<notin> {Acquiring, Waiting})) \<and>
     (ex_started (xs_exec s) \<longrightarrow> (ex_outcome (xs_exec s) = None \<longleftrightarrow> (\<exists>c. xs_phase s c = Acquiring))) \<and>
     (\<forall>c d. xs_phase s c = Acquiring \<longrightarrow> xs_phase s d = Acquiring \<longrightarrow> c = d) \<and>
     (\<forall>r. ex_outcome (xs_exec s) = Some r \<longrightarrow> outcome_ok E r) \<and>
     (\<forall>c r. xs_phase s c = Returned r \<longrightarrow> ex_outcome (xs_exec s) = Some r)"

lemma exec_inv_start: "\<not> ex_started e \<Longrightarrow> ex_outcome e = None \<Longrightarrow> exec_inv E (exec_start e)"
  by (simp add: exec_inv_def exec_start_def)

lemma exec_inv_settle:
  assumes inv: "exec_inv E s" and c: "xs_phase s c = Acquiring" and r: "outcome_ok E r" and p: "p = Waiting \<or> p = Panicked"
  shows "exec_inv E (set_phase c p (set_outcome r s))"
proof -
  have st: "ex_started (xs_exec s)" using inv c by (auto simp: exec_inv_def)
  then have none: "ex_outcome (xs_exec s) = None" and calls: "xs_calls s = 1" using inv c by (auto simp: exec_inv_def)
  have others: "xs_phase s d \<noteq> Acquiring" if "d \<noteq> c" for d using inv c that by (auto simp: exec_inv_def)
  have "xs_phase s d \<noteq> Returned q" for d q using inv none by (auto simp: exec_inv_def)
  with st calls others r p show ?thesis by (auto simp: exec_inv_def set_phase_def set_outcome_def)
qed

lemma exec_inv_first:
  assumes inv: "exec_inv E s" and c: "\<not> ex_started (xs_exec s)"
  shows "exec_inv E (set_phase c Acquiring (s\<lparr>xs_exec := (xs_exec s)\<lparr>ex_started := True\<rparr>, xs_calls := Suc (xs_calls s)\<rparr>))"
proof -
  have "ex_outcome (xs_exec s) = None" "xs_calls s = 0" "\<And>d. xs_phase s d \<noteq> Acquiring" using inv c by (auto simp: exec_inv_def)
  moreover have "xs_phase s d \<noteq> Returned q" for d q using inv calculation(1) by (auto simp: exec_inv_def)
  ultimately show ?thesis by (simp add: exec_inv_def set_phase_def)
qed

text \<open>A caller that moves between other phases, waiting only after the start and returning only the outcome.\<close>

lemma exec_inv_move:
  assumes inv: "exec_inv E s" and c: "xs_phase s c \<noteq> Acquiring" and p: "p \<noteq> Acquiring" "p = Waiting \<Longrightarrow> ex_started (xs_exec s)"
    "\<And>r. p = Returned r \<Longrightarrow> ex_outcome (xs_exec s) = Some r"
  shows "exec_inv E (set_phase c p s)"
proof -
  have ph: "xs_phase (set_phase c p s) d = Acquiring \<longleftrightarrow> xs_phase s d = Acquiring" for d using c p(1) by (simp add: set_phase_def)
  have "xs_phase (set_phase c p s) d = Returned r \<Longrightarrow> ex_outcome (xs_exec s) = Some r" for d r
    using inv p(3) by (auto simp: set_phase_def exec_inv_def split: if_splits)
  moreover have "xs_phase (set_phase c p s) d \<noteq> Waiting" if "\<not> ex_started (xs_exec s)" for d
    using inv p(2) that by (auto simp: set_phase_def exec_inv_def)
  moreover have "xs_exec (set_phase c p s) = xs_exec s" "xs_calls (set_phase c p s) = xs_calls s" by (simp_all add: set_phase_def)
  ultimately show ?thesis using inv by (simp add: exec_inv_def ph)
qed

lemma exec_inv_step: "exec_step E s s' \<Longrightarrow> exec_inv E s \<Longrightarrow> exec_inv E s'"
proof (induction rule: exec_step.induct)
  case (acquired s c out e)
  then show ?case using exec_inv_settle settle_ok by blast
next
  case (panicking s c)
  then show ?case using exec_inv_settle [of E s c "Inl (cerr CreditsUnavailable)" Panicked]
    by (auto simp: outcome_ok_def public_texts_def)
next
  case (enter_first s c)
  then show ?case using exec_inv_first by blast
qed (rule exec_inv_move; simp)+

interpretation executions: step_invariant "exec_step E" "exec_inv E"
  by unfold_locales (rule exec_inv_step)

text \<open>The outcome of an execution never changes once it is there.\<close>

lemma outcome_fixed:
  assumes run: "(exec_step E)\<^sup>*\<^sup>* s s'" and inv: "exec_inv E s" and r: "ex_outcome (xs_exec s) = Some r"
  shows "ex_outcome (xs_exec s') = Some r"
  using run inv r
proof (rule executions.run_stable [where P = "\<lambda>s. ex_outcome (xs_exec s) = Some r"])
  fix s s' assume inv: "exec_inv E s" and step: "exec_step E s s'" and r: "ex_outcome (xs_exec s) = Some r"
  then have "xs_phase s c \<noteq> Acquiring" "ex_started (xs_exec s)" for c by (auto simp: exec_inv_def)
  with step r show "ex_outcome (xs_exec s') = Some r" by cases (auto simp: set_phase_def)
qed

text \<open>A caller on its own takes these steps one after the other.\<close>

lemma AcquireDefault_steps:
  assumes x: "xs_exec s = x" "ex_acquire x" and c: "xs_phase s c = Entering"
    and out: "AcquireDefault E acquire e0 e1 e2 (Some x) = (Some r, Some x')"
  shows "\<exists>s'. (exec_step E)\<^sup>*\<^sup>* s s' \<and> xs_exec s' = x' \<and> (xs_phase s' c = Returned r \<or> (\<exists>e. xs_phase s' c = GaveUp e \<and> r = Inl (ctx_cerror e)))"
proof (cases e0)
  case (Some e)
  with x out have "x' = x" "r = Inl (ctx_cerror e)" by (simp_all add: AcquireDefault_def)
  moreover have "exec_step E s (set_phase c (GaveUp e) s)" using c by (rule enter_ended)
  ultimately show ?thesis using x by (intro exI [of _ "set_phase c (GaveUp e) s"]) (auto simp: set_phase_def)
next
  case None
  have "\<exists>s1. (exec_step E)\<^sup>*\<^sup>* s s1 \<and> xs_phase s1 c = Waiting \<and>
      xs_exec s1 = (if ex_started x then x else x\<lparr>ex_started := True, ex_outcome := Some (settle E (acquire (ex_subject x)) e1)\<rparr>)"
  proof (cases "ex_started x")
    case True
    then have "exec_step E s (set_phase c Waiting s)" using c x by (intro enter_later) simp_all
    then show ?thesis using True x by (intro exI [of _ "set_phase c Waiting s"]) (auto simp: set_phase_def)
  next
    case False
    define s1 where "s1 = set_phase c Acquiring (s\<lparr>xs_exec := (xs_exec s)\<lparr>ex_started := True\<rparr>, xs_calls := Suc (xs_calls s)\<rparr>)"
    define s2 where "s2 = set_phase c Waiting (set_outcome (settle E (acquire (ex_subject x)) e1) s1)"
    have "exec_step E s s1" unfolding s1_def using c x False by (intro enter_first) simp_all
    moreover have "exec_step E s1 s2" unfolding s2_def by (rule acquired) (simp add: s1_def set_phase_def)
    ultimately show ?thesis using x False
      by (intro exI [of _ s2]) (auto simp: s1_def s2_def set_phase_def set_outcome_def intro: rtranclp.rtrancl_into_rtrancl)
  qed
  then obtain s1 where s1: "(exec_step E)\<^sup>*\<^sup>* s s1" "xs_phase s1 c = Waiting"
    "xs_exec s1 = (if ex_started x then x else x\<lparr>ex_started := True, ex_outcome := Some (settle E (acquire (ex_subject x)) e1)\<rparr>)" by blast
  show ?thesis
  proof (cases e2)
    case (Some e)
    with x None out s1(3) have "x' = xs_exec s1" "r = Inl (ctx_cerror e)" by (simp_all add: AcquireDefault_def Let_def)
    moreover have "exec_step E s1 (set_phase c (GaveUp e) s1)" using s1(2) by (rule wait_ended)
    ultimately show ?thesis using s1(1)
      by (intro exI [of _ "set_phase c (GaveUp e) s1"]) (auto simp: set_phase_def intro: rtranclp.rtrancl_into_rtrancl)
  next
    case e2: None
    have alone: "AcquireDefault E acquire e0 e1 e2 (Some x) = (ex_outcome (xs_exec s1), Some (xs_exec s1))"
      by (simp add: AcquireDefault_def x(2) s1(3) Let_def None e2)
    have x': "x' = xs_exec s1" "ex_outcome (xs_exec s1) = Some r" using alone out by (metis prod.inject option.inject)+
    have "exec_step E s1 (set_phase c (Returned r) s1)" using s1(2) x'(2) by (rule wait_done)
    with x' s1(1) show ?thesis
      by (intro exI [of _ "set_phase c (Returned r) s1"]) (auto simp: set_phase_def intro: rtranclp.rtrancl_into_rtrancl)
  qed
qed

end
