(* ===== verification/Worker_Routes.thy ===== *)
theory Worker_Routes
  imports Task_Store Credits_Execution
begin

text \<open>
  Package \<open>task\<close>, the boundary of the workers (\<open>worker_routes.go\<close>): the guard of every worker route, the binding of
  an execution to the claimed task, and the handler that hands out a model connection. A handler works on a
  session of the task table; \<open>Inl\<close> is the HTTP status of an aborted request. SHA-256 is a parameter, and so is
  what the credits client takes from outside (\<open>credits_env\<close>).
\<close>

section \<open>Configuration\<close>

record worker_caller =
  wc_Principal :: string
  wc_TaskType :: string

record worker_env =
  we_task :: task_env
  we_credits :: credits_env
  we_sha256 :: "string \<Rightarrow> string"

definition caller_bad :: "worker_env \<Rightarrow> string \<Rightarrow> string list \<Rightarrow> worker_caller \<Rightarrow> bool" where
  "caller_bad W taskType seen c \<longleftrightarrow>
     (case ce_url (we_credits W) (wc_Principal c) of Inl _ \<Rightarrow> True
      | Inr u \<Rightarrow> length (wc_Principal c) > 512 \<or> ur_Scheme u \<noteq> ''spiffe'' \<or> ur_Host u = [] \<or> ur_Path u = [] \<or> ur_User u \<or>
          ur_RawQuery u \<noteq> [] \<or> ur_Fragment u \<noteq> [] \<or> wc_TaskType c \<noteq> taskType \<or> wc_Principal c \<in> set seen)"

fun callers_bad :: "worker_env \<Rightarrow> string \<Rightarrow> string list \<Rightarrow> worker_caller list \<Rightarrow> bool" where
  "callers_bad W taskType seen [] = False"
| "callers_bad W taskType seen (c # cs) = (caller_bad W taskType seen c \<or> callers_bad W taskType (wc_Principal c # seen) cs)"

definition validateWorkerCallers :: "worker_env \<Rightarrow> string \<Rightarrow> worker_caller list \<Rightarrow> terror option" where
  "validateWorkerCallers W taskType callers =
     (if callers = [] \<or> length callers > 64 then Some (errors_text ''task: invalid worker callers'')
      else if callers_bad W taskType [] callers then Some (errors_text ''task: invalid worker callers'')
      else None)"

text \<open>The registered routes: the path, and whether an execution is bound after the guard.\<close>

definition RegisterWorkerRoutes ::
  "worker_env \<Rightarrow> bool \<Rightarrow> string \<Rightarrow> string \<Rightarrow> string \<Rightarrow> bool \<Rightarrow> worker_caller list \<Rightarrow> terror + (string \<times> bool) list" where
  "RegisterWorkerRoutes W router service taskType token acquire callers =
     (if \<not> router \<or> service = [] \<or> taskType = [] \<or> length token < 32 \<or> length token > 8192 \<or>
         contains_any token [CHR '' '', CHR 0x09, CHR 0x0D, CHR 0x0A] \<or> \<not> acquire
      then Inl (errors_text ''task: invalid worker route configuration'')
      else case validateWorkerCallers W taskType callers of Some e \<Rightarrow> Inl e
      | None \<Rightarrow> Inr [(service @ ''.GetPendingTask'', False), (service @ ''.TaskCallBack'', True), (service @ ''.CheckInstance'', False),
                     (service @ ''.AcquireTaskModelConnection'', True)])"

section \<open>Requests\<close>

text \<open>A certificate is known by its URI names; a missing pointer is \<open>None\<close>, as is a request without TLS.\<close>

type_synonym certificate = "string option list"

record worker_http =
  wh_Path :: string
  wh_Authorization :: "string list"
  wh_Cookie :: "string list"
  wh_VerifiedChains :: "certificate option list list option"
  wh_Body :: string
  wh_BodyFails :: bool

definition authorizedWorkerCertificate :: "worker_http \<Rightarrow> string \<Rightarrow> worker_caller list \<Rightarrow> bool" where
  "authorizedWorkerCertificate r taskType callers =
     (case wh_VerifiedChains r of
        Some ((Some [Some uri] # _) # _) \<Rightarrow> list_ex (\<lambda>c. wc_TaskType c = taskType \<and> wc_Principal c = uri) callers
      | _ \<Rightarrow> False)"

record worker_input =
  wi_TaskID :: nat
  wi_WorkerID :: string
  wi_Attempt :: int
  wi_TaskType :: string

definition empty_input :: worker_input where
  "empty_input = \<lparr>wi_TaskID = 0, wi_WorkerID = [], wi_Attempt = 0, wi_TaskType = []\<rparr>"

text \<open>
  \<open>json.Unmarshal\<close> into a \<open>workerTaskInput\<close>: names are compared after folding, unknown ones are skipped, a later
  member overrides an earlier one, \<open>null\<close> changes nothing, and a value of another type is an error.
\<close>

definition decode_uint :: "string \<Rightarrow> nat option" where
  "decode_uint n = (case parse_digits n of Some i \<Rightarrow> if i < 2 ^ 64 then Some i else None | None \<Rightarrow> None)"

definition input_field :: "credits_env \<Rightarrow> string \<times> json \<Rightarrow> worker_input option \<Rightarrow> worker_input option" where
  "input_field C m acc =
     (case acc of None \<Rightarrow> None
      | Some i \<Rightarrow>
         (let named = (\<lambda>name. ce_fold C (fst m) = ce_fold C name)
          in if \<not> (named ''task_id'' \<or> named ''worker_id'' \<or> named ''attempt'' \<or> named ''task_type'') \<or> snd m = JNull then Some i
             else case snd m of
               JNumber n \<Rightarrow>
                 if named ''task_id'' then map_option (\<lambda>v. i\<lparr>wi_TaskID := v\<rparr>) (decode_uint n)
                 else if named ''attempt'' then map_option (\<lambda>v. i\<lparr>wi_Attempt := v\<rparr>) (parse_int n)
                 else None
             | JString s \<Rightarrow>
                 if named ''worker_id'' then Some (i\<lparr>wi_WorkerID := s\<rparr>)
                 else if named ''task_type'' then Some (i\<lparr>wi_TaskType := s\<rparr>)
                 else None
             | _ \<Rightarrow> None))"

definition input_member :: "credits_env \<Rightarrow> string \<times> json \<Rightarrow> worker_input option \<Rightarrow> worker_input option" where
  "input_member C m acc =
     (case acc of None \<Rightarrow> None
      | Some i \<Rightarrow>
         if ce_fold C (fst m) \<noteq> ce_fold C ''request'' then Some i
         else (case snd m of JNull \<Rightarrow> Some i | JObject ms \<Rightarrow> fold (input_field C) ms (Some i) | _ \<Rightarrow> None))"

definition decode_input :: "credits_env \<Rightarrow> string \<Rightarrow> worker_input option" where
  "decode_input C raw =
     (case ce_json C raw of Inl _ \<Rightarrow> None
      | Inr doc \<Rightarrow>
         if \<not> jd_end doc then None
         else (case jd_value doc of JNull \<Rightarrow> Some empty_input | JObject ms \<Rightarrow> fold (input_member C) ms (Some empty_input) | _ \<Rightarrow> None))"

section \<open>Guard\<close>

definition lookupWorkerTask ::
  "(task, 'd) sqltab \<Rightarrow> task_env \<Rightarrow> nat \<Rightarrow> string \<Rightarrow> string \<Rightarrow> 'd session \<Rightarrow> (terror + task) \<times> 'd session" where
  "lookupWorkerTask T E i worker taskType s =
     first_row (sql_select T (filter (\<lambda>r. live r \<and> tk_ID r = i \<and> same_text E (tk_WorkerID r) worker \<and> same_text E (tk_TaskType r) taskType)) s)"

definition bodyMax :: nat where "bodyMax = 2 ^ 20"

definition bearer_ok :: "worker_env \<Rightarrow> string \<Rightarrow> worker_http \<Rightarrow> bool" where
  "bearer_ok W token r =
     (case wh_Authorization r of
        [v] \<Rightarrow> wh_Cookie r = [] \<and> has_prefix v ''Bearer '' \<and> we_sha256 W (trim_prefix v ''Bearer '') = we_sha256 W token
      | _ \<Rightarrow> False)"

text \<open>What the guard lets through: the row of the task the request names, if it names one.\<close>

definition authenticateWorker ::
  "(task, 'd) sqltab \<Rightarrow> worker_env \<Rightarrow> string \<Rightarrow> string \<Rightarrow> worker_caller list \<Rightarrow> worker_http \<Rightarrow> 'd session \<Rightarrow> (nat + task option) \<times> 'd session" where
  "authenticateWorker T W taskType token callers r s =
     (if \<not> bearer_ok W token r then (Inl 401, s)
      else if \<not> authorizedWorkerCertificate r taskType callers then (Inl 403, s)
      else if wh_BodyFails r \<or> length (wh_Body r) > bodyMax then (Inl 400, s)
      else case decode_input (we_credits W) (wh_Body r) of None \<Rightarrow> (Inl 400, s)
      | Some i \<Rightarrow>
         if wi_WorkerID i = [] \<or> length (wi_WorkerID i) > 255 then (Inl 400, s)
         else if wi_TaskType i \<noteq> [] \<and> wi_TaskType i \<noteq> taskType then (Inl 403, s)
         else if (has_suffix (wh_Path r) ''.GetPendingTask'' \<or> has_suffix (wh_Path r) ''.CheckInstance'') \<and> wi_TaskType i \<noteq> taskType then (Inl 403, s)
         else if wi_TaskID i = 0 then (if wi_TaskType i \<noteq> taskType then (Inl 403, s) else (Inr None, s))
         else (case lookupWorkerTask T (we_task W) (wi_TaskID i) (wi_WorkerID i) taskType s of
                 (Inl _, s') \<Rightarrow> (Inl 403, s')
               | (Inr row, s') \<Rightarrow> (Inr (Some row), s')))"

section \<open>Connections of claimed tasks\<close>

definition task_subject :: "task \<Rightarrow> member" where
  "task_subject t = \<lparr>OrganizationID = tk_OrganizationID t, UserID = tk_UserID t\<rparr>"

text \<open>\<open>requestid.WithContext\<close> on a context that has a slot for an execution too.\<close>

definition with_request_id :: "credits_context \<Rightarrow> string \<Rightarrow> credits_context" where
  "with_request_id ctx i = (if \<not> Valid i then ctx else ctx\<lparr>ctx_request_id := Some i\<rparr>)"

text \<open>The context of the request, with the request identifier of the HTTP context \<open>gin\<close> and the execution of the task.\<close>

definition bindTaskExecution :: "bool \<Rightarrow> task option \<Rightarrow> request_context \<Rightarrow> credits_context \<Rightarrow> nat + credits_context" where
  "bindTaskExecution acquire row gin ctx =
     (case row of None \<Rightarrow> Inl 503
      | Some t \<Rightarrow>
         if \<not> acquire then Inl 503
         else (case NewExecution (task_subject t) acquire of Inl _ \<Rightarrow> Inl 403
               | Inr e \<Rightarrow> Inr (the (WithExecution (Some (with_request_id ctx (FromContext (Some gin)))) (Some e)))))"

definition worker_validClaim :: "task option \<Rightarrow> nat \<Rightarrow> string \<Rightarrow> int \<Rightarrow> time \<Rightarrow> bool" where
  "worker_validClaim row i worker attempt now =
     (case row of None \<Rightarrow> False
      | Some t \<Rightarrow> i \<noteq> 0 \<and> tk_ID t = i \<and> worker \<noteq> [] \<and> tk_WorkerID t = worker \<and> attempt > 0 \<and> attempt = tk_Redo t + 1 \<and>
          tk_TaskStatus t = TaskStatusRunning \<and> member_Validate (task_subject t) = None \<and>
          (case tk_StartAt t of None \<Rightarrow> False | Some a \<Rightarrow> tk_TaskConfigTimeout t > 0 \<and> now < a + tk_TaskConfigTimeout t))"

record acquire_request =
  aq_TaskID :: nat
  aq_WorkerID :: string
  aq_Attempt :: int

record acquire_response =
  ap_Code :: nat
  ap_Connection :: connection

definition refused :: "nat \<Rightarrow> acquire_response" where
  "refused code = \<lparr>ap_Code = code, ap_Connection = \<lparr>BaseURL = [], APIKey = []\<rparr>\<rparr>"

text \<open>
  The handler: \<open>others\<close> is what happens to the table while the connection is acquired, \<open>now1\<close> and \<open>now2\<close> are the
  times of the two checks, \<open>e0\<close>, \<open>e1\<close>, \<open>e2\<close> the states of the context. \<open>None\<close>: the acquisition never ends.
\<close>

definition acquireTaskModelConnection ::
  "(task, 'd) sqltab \<Rightarrow> worker_env \<Rightarrow> (member \<Rightarrow> cerror + connection) \<Rightarrow> ctx_err option \<times> ctx_err option \<times> ctx_err option \<Rightarrow> time \<Rightarrow> time \<Rightarrow>
   ('d session \<Rightarrow> 'd session) \<Rightarrow> credits_context \<Rightarrow> task option \<Rightarrow> acquire_request \<Rightarrow> 'd session \<Rightarrow> (acquire_response \<times> 'd session) option" where
  "acquireTaskModelConnection T W acquire errs now1 now2 others ctx row req s =
     (if \<not> worker_validClaim row (aq_TaskID req) (aq_WorkerID req) (aq_Attempt req) now1 then Some (refused ErrCode_Forbidden, s)
      else let t = the row
      in case fst (case errs of (e0, e1, e2) \<Rightarrow> ConnectionFromContext (we_credits W) acquire e0 e1 e2 (Some ctx)) of
           None \<Rightarrow> None
         | Some (Inl err) \<Rightarrow>
             Some (refused (if errors_is err CreditsDenied then ErrCode_Forbidden else ErrCode_ServiceUnavailable), others s)
         | Some (Inr c) \<Rightarrow>
             (case lookupWorkerTask T (we_task W) (tk_ID t) (tk_WorkerID t) (tk_TaskType t) (others s) of
                (Inl _, s') \<Rightarrow> Some (refused ErrCode_Forbidden, s')
              | (Inr latest, s') \<Rightarrow>
                  if \<not> worker_validClaim (Some latest) (tk_ID t) (tk_WorkerID t) (aq_Attempt req) now2 \<or>
                     tk_StartAt latest \<noteq> tk_StartAt t \<or> tk_OrganizationID latest \<noteq> tk_OrganizationID t \<or> tk_UserID latest \<noteq> tk_UserID t
                  then Some (refused ErrCode_Forbidden, s')
                  else Some (\<lparr>ap_Code = 0, ap_Connection = c\<rparr>, s')))"

text \<open>The route: guard, binding and handler one after the other.\<close>

definition serve_connection ::
  "(task, 'd) sqltab \<Rightarrow> worker_env \<Rightarrow> string \<Rightarrow> string \<Rightarrow> worker_caller list \<Rightarrow> (member \<Rightarrow> cerror + connection) \<Rightarrow>
   ctx_err option \<times> ctx_err option \<times> ctx_err option \<Rightarrow> time \<Rightarrow> time \<Rightarrow> ('d session \<Rightarrow> 'd session) \<Rightarrow> request_context \<Rightarrow> credits_context \<Rightarrow> worker_http \<Rightarrow> acquire_request \<Rightarrow>
   'd session \<Rightarrow> ((nat + acquire_response) \<times> 'd session) option" where
  "serve_connection T W taskType token callers acquire errs now1 now2 others gin ctx r req s =
     (case authenticateWorker T W taskType token callers r s of
        (Inl status, s') \<Rightarrow> Some (Inl status, s')
      | (Inr row, s') \<Rightarrow>
         (case bindTaskExecution True row gin ctx of
            Inl status \<Rightarrow> Some (Inl status, s')
          | Inr ctx' \<Rightarrow> map_option (\<lambda>(p, s''). (Inr p, s'')) (acquireTaskModelConnection T W acquire errs now1 now2 others ctx' row req s')))"

end
