(* ===== verification/Credits_Properties.thy ===== *)
theory Credits_Properties
  imports Credits_Execution Context_Properties
begin

text \<open>
  Properties of package \<open>credits\<close>: one acquisition per execution whoever calls, errors with fixed texts,
  and balances that are what the service said, exactly.
\<close>

section \<open>Executions\<close>

text \<open>C5. However many callers use one execution at the same time, and whenever their contexts end: the acquire function is
  called at most once, every caller that is answered gets the same answer, which is a validated connection or an
  error with one of four fixed texts, and nobody waits for a result that no one is producing.\<close>

theorem connection_acquired_once:
  assumes "NewExecution subject acquire = Inr e" and "(exec_step E)\<^sup>*\<^sup>* (exec_start e) s"
  shows "xs_calls s \<le> 1 \<and>
    (\<forall>c d r r'. xs_phase s c = Returned r \<longrightarrow> xs_phase s d = Returned r' \<longrightarrow> r = r') \<and>
    (\<forall>c r. xs_phase s c = Returned r \<longrightarrow>
      (case r of Inl err \<Rightarrow> error_text err \<in> public_texts | Inr conn \<Rightarrow> ValidateConnection E conn = None)) \<and>
    (\<forall>c. xs_phase s c = Waiting \<longrightarrow> ex_outcome (xs_exec s) \<noteq> None \<or> (\<exists>d. xs_phase s d = Acquiring))"
proof -
  have "exec_inv E (exec_start e)" using assms(1) by (intro exec_inv_start) (auto simp: NewExecution_def split: if_splits)
  with assms(2) have inv: "exec_inv E s" by (rule executions.run_keeps)
  then have "xs_calls s \<le> 1" "\<forall>c r. xs_phase s c = Returned r \<longrightarrow> ex_outcome (xs_exec s) = Some r"
    "\<forall>r. ex_outcome (xs_exec s) = Some r \<longrightarrow> outcome_ok E r" by (auto simp: exec_inv_def)
  moreover have "ex_outcome (xs_exec s) \<noteq> None \<or> (\<exists>d. xs_phase s d = Acquiring)" if "xs_phase s c = Waiting" for c
    using inv that by (cases "ex_started (xs_exec s)") (auto simp: exec_inv_def)
  ultimately show ?thesis unfolding outcome_ok_def by (metis option.inject)
qed

definition plain_credits :: credits_env where
  "plain_credits = \<lparr>ce_url = (\<lambda>t. Inr \<lparr>ur_Scheme = ''https'', ur_Host = ''api'', ur_User = False, ur_Path = ''/v1'', ur_RawQuery = [],
     ur_Fragment = [], ur_String = t\<rparr>), ce_media = Inr, ce_json = (\<lambda>_. Inr \<lparr>jd_value = JObject [(''quota'', JNumber ''-5''), (''state'', JString ''ready''),
     (''used_quota'', JNumber ''12'')], jd_end = True\<rparr>), ce_fold = (\<lambda>s. s)\<rparr>"

definition sample_connection :: connection where
  "sample_connection = \<lparr>BaseURL = ''https://api/v1'', APIKey = ''key''\<rparr>"

lemma sample_connection_ok: "ValidateConnection plain_credits sample_connection = None"
  by (simp add: ValidateConnection_def plain_credits_def sample_connection_def trim_right_def contains_any_def)

definition sample_exec :: execution where
  "sample_exec = \<lparr>ex_subject = w_member, ex_acquire = True, ex_started = False, ex_outcome = None\<rparr>"

theorem connection_acquired_once_witness:
  "\<exists>s. (exec_step plain_credits)\<^sup>*\<^sup>* (exec_start sample_exec) s \<and> xs_phase s 0 = Returned (Inr sample_connection) \<and> xs_calls s \<le> 1"
proof -
  have n: "NewExecution w_member True = Inr sample_exec" by (simp add: NewExecution_def w_member_ok sample_exec_def)
  let ?x = "sample_exec\<lparr>ex_started := True, ex_outcome := Some (Inr sample_connection)\<rparr>"
  have "settle plain_credits (Inr sample_connection) None = Inr sample_connection" by (simp add: settle_def sample_connection_ok)
  then have "AcquireDefault plain_credits (\<lambda>_. Inr sample_connection) None None None (Some sample_exec) = (Some (Inr sample_connection), Some ?x)"
    by (simp add: AcquireDefault_def sample_exec_def)
  from AcquireDefault_steps [OF _ _ _ this, of "exec_start sample_exec" 0] obtain s where
    s: "(exec_step plain_credits)\<^sup>*\<^sup>* (exec_start sample_exec) s" "xs_phase s 0 = Returned (Inr sample_connection)"
    by (auto simp: exec_start_def sample_exec_def)
  with connection_acquired_once [OF n s(1)] show ?thesis by blast
qed

section \<open>Errors\<close>

lemma unavailable_text [simp]: "error_text (unavailableCause c) = ''credits unavailable''"
  by (simp add: unavailableCause_def split: option.splits)

lemma unavailable_chain: "errors_is (unavailableCause c) s \<longleftrightarrow> s = CreditsUnavailable \<or> (\<exists>e. c = Some e \<and> errors_is e s)"
  by (auto simp: unavailableCause_def errors_is_def wrap_text_def safeerror_Wrap_def errors_join_def cerr_def errors_new_def split: option.splits)

text \<open>What the outside reports does not claim to be a denial by the service.\<close>

definition no_denials :: "credits_env \<Rightarrow> 'n http_client \<Rightarrow> bool" where
  "no_denials E http \<longleftrightarrow> (\<forall>t e. ce_url E t = Inl e \<longrightarrow> \<not> errors_is e CreditsDenied) \<and> (\<forall>t e. ce_media E t = Inl e \<longrightarrow> \<not> errors_is e CreditsDenied) \<and>
     (\<forall>t e. ce_json E t = Inl e \<longrightarrow> \<not> errors_is e CreditsDenied) \<and>
     (\<forall>q n e n'. http q n = (Inl e, n') \<longrightarrow> \<not> errors_is e CreditsDenied) \<and>
     (\<forall>q n r n' e. http q n = (Inr r, n') \<longrightarrow> hr_BodyError r = Some e \<longrightarrow> \<not> errors_is e CreditsDenied)"

lemma read_response_errors:
  assumes "read_response E decode r = Inl err"
    and "\<And>t e. ce_media E t = Inl e \<Longrightarrow> \<not> errors_is e CreditsDenied" "\<And>t e. ce_json E t = Inl e \<Longrightarrow> \<not> errors_is e CreditsDenied"
    and "\<And>e. hr_BodyError r = Some e \<Longrightarrow> \<not> errors_is e CreditsDenied" "\<And>v e. decode v = Inl e \<Longrightarrow> \<not> errors_is e CreditsDenied"
  shows "error_text err \<in> public_texts" "errors_is err CreditsDenied \<longleftrightarrow> hr_Status r \<in> {403, 409}"
proof -
  have den: "errors_is (cerr CreditsDenied) CreditsDenied" "\<not> errors_is (cerr CreditsUnavailable) CreditsDenied" by (simp_all add: cerr_def)
  show "error_text err \<in> public_texts"
    using assms(1) by (auto simp: read_response_def public_texts_def split: if_splits sum.splits prod.splits)
  show "errors_is err CreditsDenied \<longleftrightarrow> hr_Status r \<in> {403, 409}"
    using assms den by (auto simp: read_response_def read_body_def unavailable_chain split: if_splits sum.splits)
qed

lemma ctx_cerror_errors: "error_text (ctx_cerror e) \<in> public_texts" "\<not> errors_is (ctx_cerror e) CreditsDenied"
  by (cases e; simp add: ctx_cerror_def cerr_def errors_new_def public_texts_def errors_is_def)+

lemma exchange_errors:
  assumes out: "exchange E http q e1 decode n = (Inl err, n')" and calm: "no_denials E http"
    and dec: "\<forall>v e. decode v = Inl e \<longrightarrow> \<not> errors_is e CreditsDenied"
  shows "error_text err \<in> public_texts \<and> (errors_is err CreditsDenied \<longleftrightarrow> (\<exists>r. http q n = (Inr r, n') \<and> hr_Status r \<in> {403, 409}))"
proof -
  obtain h n1 where h: "http q n = (h, n1)" by (meson surj_pair)
  show ?thesis
  proof (cases h)
    case (Inl e)
    then have ne: "\<not> errors_is e CreditsDenied" using calm h unfolding no_denials_def by blast
    show ?thesis
    proof (cases e1)
      case None
      with out h Inl have "err = unavailableCause (Some e)" by (simp add: exchange_def)
      with ne h Inl show ?thesis by (simp add: unavailable_chain public_texts_def)
    next
      case (Some ce)
      with out h Inl have err: "err = wrap_text (error_text (ctx_cerror ce)) (errors_join (ctx_cerror ce) e)" by (simp add: exchange_def)
      have "\<not> errors_is (errors_join (ctx_cerror ce) e) CreditsDenied" using ne ctx_cerror_errors(2) by simp
      then show ?thesis using ctx_cerror_errors(1) h Inl by (simp add: err errors_is_def)
    qed
  next
    case (Inr r)
    with out h have rr: "read_response E decode r = Inl err" "n1 = n'" by (simp_all add: exchange_def)
    have "error_text err \<in> public_texts" "errors_is err CreditsDenied \<longleftrightarrow> hr_Status r \<in> {403, 409}"
      by (rule read_response_errors [OF rr(1)]; use calm dec h Inr in \<open>fastforce simp: no_denials_def\<close>)+
    with h Inr rr(2) show ?thesis by auto
  qed
qed

text \<open>Every error of a call to the credits service has one of four fixed texts, whatever the network, the service or its
  answer look like, and it says that access is denied exactly when there is no client or context, the member is
  not well formed, or the service answered 403 or 409.\<close>

theorem credits_errors_closed:
  assumes "client_call E http client ctx e0 e1 subject path decode n = (Inl err, n')" and "no_denials E http"
    and "\<forall>v e. decode v = Inl e \<longrightarrow> \<not> errors_is e CreditsDenied"
  shows "error_text err \<in> public_texts \<and>
    (errors_is err CreditsDenied \<longleftrightarrow> client = None \<or> ctx = None \<or> member_Validate subject \<noteq> None \<or>
      e0 = None \<and> (\<exists>u. ce_url E (cl_endpoint (the client) @ path) = Inr u) \<and>
      (\<exists>r. http (call_request (the client) ctx subject path) n = (Inr r, n') \<and> hr_Status r \<in> {403, 409}))"
proof -
  have denied: "error_text (cerr CreditsDenied) \<in> public_texts" "errors_is (cerr CreditsDenied) CreditsDenied"
    using sentinel_public [of CreditsDenied] by (simp_all only: cerr_text) (simp add: cerr_def)
  consider (guard) "client = None \<or> ctx = None \<or> member_Validate subject \<noteq> None"
    | (ended) c x e where "client = Some c" "ctx = Some x" "member_Validate subject = None" "e0 = Some e"
    | (no_url) c x e where "client = Some c" "ctx = Some x" "member_Validate subject = None" "e0 = None" "ce_url E (cl_endpoint c @ path) = Inl e"
    | (sent) c x u where "client = Some c" "ctx = Some x" "member_Validate subject = None" "e0 = None" "ce_url E (cl_endpoint c @ path) = Inr u"
    by (cases client; cases ctx; cases e0; cases "ce_url E (cl_endpoint (the client) @ path)"; cases "member_Validate subject") auto
  then show ?thesis
  proof cases
    case guard
    then have "err = cerr CreditsDenied" using assms(1) by (auto simp: client_call_def split: option.splits if_splits)
    with guard denied show ?thesis by blast
  next
    case ended
    with assms(1) ctx_cerror_errors show ?thesis by (auto simp: client_call_def)
  next
    case no_url
    with assms(1) have "err = unavailableCause (Some e)" by (simp add: client_call_def)
    moreover have "\<not> errors_is e CreditsDenied" using assms(2) no_url by (auto simp: no_denials_def)
    ultimately show ?thesis using no_url by (simp add: unavailable_chain public_texts_def)
  next
    case sent
    with assms(1) have "exchange E http (call_request c ctx subject path) e1 decode n = (Inl err, n')" by (simp add: client_call_def)
    from exchange_errors [OF this assms(2,3)] sent show ?thesis by simp
  qed
qed

text \<open>A service that refuses.\<close>

definition refusing :: "unit http_client" where
  "refusing q n = (Inr \<lparr>hr_Status = 403, hr_ContentType = [], hr_Body = [], hr_BodyError = None\<rparr>, n)"

definition sample_client :: credits_client where
  "sample_client = \<lparr>cl_endpoint = ''https://credits'', cl_timeout = 15 * second\<rparr>"

lemma plain_no_denials:
  assumes "\<And>q n. \<exists>r. http q n = (Inr r, n) \<and> hr_BodyError r = None"
  shows "no_denials plain_credits http"
proof -
  have "fst (http q n) \<noteq> Inl e" "http q n = (Inr r, n') \<Longrightarrow> hr_BodyError r = None" for q n e r n'
    using assms [of q n] by auto
  then show ?thesis unfolding no_denials_def by (auto simp: plain_credits_def) (metis fst_conv)+
qed

theorem credits_errors_closed_witness:
  "\<exists>err. client_call plain_credits refusing (Some sample_client) (Some Background) None None w_member DefaultPath (decode_connection plain_credits) () = (Inl err, ()) \<and>
     error_text err \<in> public_texts \<and> errors_is err CreditsDenied"
proof -
  obtain u where u: "ce_url plain_credits (cl_endpoint sample_client @ DefaultPath) = Inr u" by (simp add: plain_credits_def)
  have c: "client_call plain_credits refusing (Some sample_client) (Some Background) None None w_member DefaultPath (decode_connection plain_credits) () = (Inl (cerr CreditsDenied), ())"
    using u by (simp add: client_call_def w_member_ok exchange_def refusing_def read_response_def)
  have n: "no_denials plain_credits refusing" by (rule plain_no_denials) (simp add: refusing_def)
  have d: "\<forall>v e. decode_connection plain_credits v = Inl e \<longrightarrow> \<not> errors_is e CreditsDenied"
  proof (intro allI impI)
    fix v e assume "decode_connection plain_credits v = Inl e"
    then have "e = json_error" by (cases v) (auto split: option.splits)
    then show "\<not> errors_is e CreditsDenied" by (simp add: json_error_def)
  qed
  from credits_errors_closed [OF c n d] c u show ?thesis by (simp add: refusing_def)
qed

section \<open>Balances\<close>

lemma decode_string_Some: "decode_string v = Some (Some s) \<longleftrightarrow> v = JString s"
  by (cases v) auto

lemma decode_int64_Some: "decode_int64 v = Some (Some i) \<longleftrightarrow> (\<exists>t. v = JNumber t \<and> parse_int t = Some i)"
  by (cases v) (auto split: option.splits)

lemma balance_wire_reads:
  assumes "read_members balance_field [] ms empty_wire = Some b"
  shows "bw_State b = Some s \<Longrightarrow> (''state'', JString s) \<in> set ms"
    and "bw_Quota b = Some i \<Longrightarrow> \<exists>t. (''quota'', JNumber t) \<in> set ms \<and> parse_int t = Some i"
    and "bw_UsedQuota b = Some i \<Longrightarrow> \<exists>t. (''used_quota'', JNumber t) \<in> set ms \<and> parse_int t = Some i"
proof -
  have none: "bw_State empty_wire = None" "bw_Quota empty_wire = None" "bw_UsedQuota empty_wire = None" by (simp_all add: empty_wire_def)
  have st: "bw_State b = bw_State empty_wire \<or> (\<exists>(n, v) \<in> set ms. n = ''state'' \<and> decode_string v = Some (bw_State b))"
    by (rule read_members_component [OF assms, where get = bw_State and P = "\<lambda>n v x. n = ''state'' \<and> decode_string v = Some x"])
       (auto simp: balance_field_def split: if_splits)
  have q: "bw_Quota b = bw_Quota empty_wire \<or> (\<exists>(n, v) \<in> set ms. n = ''quota'' \<and> decode_int64 v = Some (bw_Quota b))"
    by (rule read_members_component [OF assms, where get = bw_Quota and P = "\<lambda>n v x. n = ''quota'' \<and> decode_int64 v = Some x"])
       (auto simp: balance_field_def split: if_splits)
  have u: "bw_UsedQuota b = bw_UsedQuota empty_wire \<or> (\<exists>(n, v) \<in> set ms. n = ''used_quota'' \<and> decode_int64 v = Some (bw_UsedQuota b))"
    by (rule read_members_component [OF assms, where get = bw_UsedQuota and P = "\<lambda>n v x. n = ''used_quota'' \<and> decode_int64 v = Some x"])
       (auto simp: balance_field_def split: if_splits)
  show "bw_State b = Some s \<Longrightarrow> (''state'', JString s) \<in> set ms" using st by (auto simp: none decode_string_Some)
  show "bw_Quota b = Some i \<Longrightarrow> \<exists>t. (''quota'', JNumber t) \<in> set ms \<and> parse_int t = Some i" using q by (auto simp: none decode_int64_Some)
  show "bw_UsedQuota b = Some i \<Longrightarrow> \<exists>t. (''used_quota'', JNumber t) \<in> set ms \<and> parse_int t = Some i" using u by (auto simp: none decode_int64_Some)
qed

lemma balance_names: "read_members balance_field seen ms b = Some b' \<Longrightarrow> set (map fst ms) \<subseteq> {''state'', ''quota'', ''used_quota''}"
  by (erule read_members_names) (auto simp: balance_field_def split: if_splits)

lemma read_response_ok:
  assumes "read_response E decode r = Inr v"
  shows "hr_Status r = 200" "\<exists>doc. ce_json E (hr_Body r) = Inr doc \<and> jd_end doc \<and> decode (jd_value doc) = Inr v" "length (hr_Body r) \<le> bodyLimit"
  using assms by (auto simp: read_response_def read_body_def split: if_splits sum.splits)

lemma client_call_ok:
  assumes "client_call E http client ctx e0 e1 subject path decode n = (Inr v, n')"
  obtains c r where "client = Some c" "member_Validate subject = None" "http (call_request c ctx subject path) n = (Inr r, n')" "read_response E decode r = Inr v"
  using assms by (auto simp: client_call_def exchange_def split: option.splits if_splits sum.splits prod.splits)

text \<open>A balance is exactly what the service said: a success means that the service was asked for the very member and
  answered 200 with one JSON object of exactly the three members, each once and not null, whose values are the ones
  returned, with both numbers exact in a browser and the used quota not negative.\<close>

theorem balance_is_exact:
  assumes "GetBalance E http client ctx e0 e1 subject n = (Inr b, n')"
  shows "\<exists>c r doc ms q u. client = Some c \<and> http (call_request c ctx subject BalancePath) n = (Inr r, n') \<and> hr_Status r = 200 \<and>
    ce_json E (hr_Body r) = Inr doc \<and> jd_end doc \<and> jd_value doc = JObject ms \<and>
    distinct (map fst ms) \<and> set ms = {(''state'', JString (State b)), (''quota'', JNumber q), (''used_quota'', JNumber u)} \<and>
    parse_int q = Some (Quota b) \<and> parse_int u = Some (UsedQuota b) \<and>
    State b \<in> {''ready'', ''pending''} \<and> \<bar>Quota b\<bar> \<le> maxExactInteger \<and> 0 \<le> UsedQuota b \<and> UsedQuota b \<le> maxExactInteger"
proof -
  obtain wire where w: "client_call E http client ctx e0 e1 subject BalancePath balance_UnmarshalJSON n = (Inr wire, n')"
      "bw_State wire = Some (State b)" "bw_Quota wire = Some (Quota b)" "bw_UsedQuota wire = Some (UsedQuota b)" "ValidateBalance b = None"
    using assms by (auto simp: GetBalance_def Let_def split: prod.splits sum.splits option.splits)
  obtain c r where c: "client = Some c" "http (call_request c ctx subject BalancePath) n = (Inr r, n')" "read_response E balance_UnmarshalJSON r = Inr wire"
    using client_call_ok [OF w(1)] by blast
  obtain doc where doc: "ce_json E (hr_Body r) = Inr doc" "jd_end doc" "balance_UnmarshalJSON (jd_value doc) = Inr wire"
    using read_response_ok(2) [OF c(3)] by blast
  obtain ms where ms: "jd_value doc = JObject ms" "read_members balance_field [] ms empty_wire = Some wire"
    using doc(3) by (cases "jd_value doc") (auto split: option.splits)
  obtain q u where m: "(''state'', JString (State b)) \<in> set ms" "(''quota'', JNumber q) \<in> set ms" "parse_int q = Some (Quota b)"
      "(''used_quota'', JNumber u) \<in> set ms" "parse_int u = Some (UsedQuota b)"
    using balance_wire_reads [OF ms(2)] w(2-4) by blast
  have d: "distinct (map fst ms)" using read_members_distinct [OF ms(2)] by simp
  have "set ms \<subseteq> {(''state'', JString (State b)), (''quota'', JNumber q), (''used_quota'', JNumber u)}"
  proof
    fix x assume x: "x \<in> set ms"
    then have "fst x \<in> {''state'', ''quota'', ''used_quota''}" using balance_names [OF ms(2)] by auto
    then obtain y where "y \<in> {(''state'', JString (State b)), (''quota'', JNumber q), (''used_quota'', JNumber u)}" "fst y = fst x" by auto
    moreover from this m have "y \<in> set ms" by auto
    ultimately show "x \<in> {(''state'', JString (State b)), (''quota'', JNumber q), (''used_quota'', JNumber u)}"
      using d x by (metis distinct_map inj_onD)
  qed
  with m have "set ms = {(''state'', JString (State b)), (''quota'', JNumber q), (''used_quota'', JNumber u)}" by blast
  moreover have "State b \<in> {''ready'', ''pending''} \<and> \<bar>Quota b\<bar> \<le> maxExactInteger \<and> 0 \<le> UsedQuota b \<and> UsedQuota b \<le> maxExactInteger"
    using w(5) by (auto simp: ValidateBalance_def split: if_splits)
  ultimately show ?thesis using c doc ms(1) d m read_response_ok(1) [OF c(3)] by blast
qed

definition answering :: "unit http_client" where
  "answering q n = (Inr \<lparr>hr_Status = 200, hr_ContentType = ''application/json'', hr_Body = ''{}'', hr_BodyError = None\<rparr>, n)"

theorem balance_is_exact_witness:
  "\<exists>b. GetBalance plain_credits answering (Some sample_client) (Some Background) None None w_member () = (Inr b, ()) \<and>
     State b \<in> {''ready'', ''pending''} \<and> Quota b = -5"
proof -
  have p: "parse_int ''-5'' = Some (-5)" "parse_int ''12'' = Some 12"
    by (simp_all add: parse_int_def parse_digits_def is_digit_def digits_value_def digit_value_def int64_def)
  have "client_call plain_credits answering (Some sample_client) (Some Background) None None w_member BalancePath balance_UnmarshalJSON () =
      (Inr \<lparr>bw_State = Some ''ready'', bw_Quota = Some (-5), bw_UsedQuota = Some 12\<rparr>, ())"
    by (simp add: client_call_def w_member_ok exchange_def answering_def read_response_def read_body_def bodyLimit_def plain_credits_def
        balance_field_def empty_wire_def p)
  then have "GetBalance plain_credits answering (Some sample_client) (Some Background) None None w_member () =
      (Inr \<lparr>State = ''ready'', Quota = -5, UsedQuota = 12\<rparr>, ())"
    by (simp add: GetBalance_def ValidateBalance_def maxExactInteger_def)
  from balance_is_exact [OF this] this show ?thesis by auto
qed

end
