(* ===== verification/Worker_Properties.thy ===== *)
theory Worker_Properties
  imports Worker_Routes Task_Properties Credits_Properties
begin

text \<open>
  The property of the worker boundary: what a worker has shown, and what the task table says, when a model
  connection leaves the process.
\<close>

lemma lookup_found:
  assumes "sql_ok T" and "lookupWorkerTask T E i worker taskType s = (Inr row, s')"
  shows "row \<in> set (t_rows T (s_db s))" "t_rows T (s_db s') = t_rows T (s_db s)" "live row" "same_text E (tk_TaskType row) taskType"
proof -
  obtain q s1 where q: "sql_select T (filter (\<lambda>r. live r \<and> tk_ID r = i \<and> same_text E (tk_WorkerID r) worker \<and> same_text E (tk_TaskType r) taskType)) s = (q, s1)"
    by (meson surj_pair)
  then obtain rs where q': "q = Inr (row # rs)" "s1 = s'"
    using assms(2) by (auto simp: lookupWorkerTask_def first_row_def split: sum.splits list.splits)
  have sel: "row # rs = filter (\<lambda>r. live r \<and> tk_ID r = i \<and> same_text E (tk_WorkerID r) worker \<and> same_text E (tk_TaskType r) taskType) (t_rows T (s_db s))"
    "t_rows T (s_db s1) = t_rows T (s_db s)"
    using assms(1) q q' by (auto elim: sql_select_cases)
  have "row \<in> set (filter (\<lambda>r. live r \<and> tk_ID r = i \<and> same_text E (tk_WorkerID r) worker \<and> same_text E (tk_TaskType r) taskType) (t_rows T (s_db s)))"
    by (simp flip: sel(1))
  then show "row \<in> set (t_rows T (s_db s))" "live row" "same_text E (tk_TaskType row) taskType" by simp_all
  show "t_rows T (s_db s') = t_rows T (s_db s)" using sel(2) q'(2) by simp
qed

lemma guard_passed:
  assumes "sql_ok T" and "authenticateWorker T W taskType token callers r s = (Inr row, s')"
  shows "bearer_ok W token r" "authorizedWorkerCertificate r taskType callers" "\<And>t. row = Some t \<Longrightarrow> same_text (we_task W) (tk_TaskType t) taskType"
  using assms lookup_found(4) [OF assms(1)] by (auto simp: authenticateWorker_def split: if_splits option.splits prod.splits sum.splits)

text \<open>The connection of a fresh execution is the answer of the acquire function for its member, and a valid one.\<close>

lemma fresh_connection:
  assumes "bindTaskExecution True (Some t) gin ctx = Inr ctx'"
    and "fst (ConnectionFromContext E acquire e0 e1 e2 (Some ctx')) = Some (Inr c)"
  shows "acquire (task_subject t) = Inr c" "ValidateConnection E c = None" "member_ok (task_subject t)"
proof -
  obtain e where e: "NewExecution (task_subject t) True = Inr e" "ctx_execution ctx' = Some (Some e)"
    using assms(1) by (auto simp: bindTaskExecution_def WithExecution_def split: sum.splits)
  then have ex: "ex_subject e = task_subject t" "ex_acquire e" "\<not> ex_started e" "member_ok (task_subject t)"
    by (auto simp: NewExecution_def split: if_splits)
  have "ConnectionFromContext E acquire e0 e1 e2 (Some ctx') = AcquireDefault E acquire e0 e1 e2 (Some e)"
    using e ex by (simp add: ConnectionFromContext_def ExecutionFromContext_def)
  then have "settle E (acquire (task_subject t)) e1 = Inr c"
    using assms(2) ex by (auto simp: AcquireDefault_def Let_def split: option.splits)
  then show "acquire (task_subject t) = Inr c" "ValidateConnection E c = None"
    by (auto simp: settle_def Let_def split: option.splits sum.splits)
  show "member_ok (task_subject t)" by (rule ex(4))
qed

text \<open>C14. A model connection leaves the worker boundary only to a caller with the service token and a certificate of a
  registered principal, and only while the task it names is held: at the end of the acquisition, whatever happened
  to the tables during it, the stored row is running, under this worker and this attempt and before its deadline,
  and the connection is the valid one acquired for the very member that this row belongs to.\<close>

theorem model_connection_needs_claim:
  assumes ok: "sql_ok T"
    and out: "serve_connection T W taskType token callers acquire errs now1 now2 others gin ctx r req s = Some (Inr p, s')" "ap_Code p = 0"
  shows "bearer_ok W token r \<and> authorizedWorkerCertificate r taskType callers \<and>
    (\<exists>t \<in> set (t_rows T (s_db s')). live t \<and> tk_ID t = aq_TaskID req \<and> tk_WorkerID t = aq_WorkerID req \<and> aq_Attempt req = tk_Redo t + 1 \<and>
       tk_TaskStatus t = TaskStatusRunning \<and> (\<exists>a. tk_StartAt t = Some a \<and> now2 < a + tk_TaskConfigTimeout t) \<and>
       member_ok (task_subject t) \<and> acquire (task_subject t) = Inr (ap_Connection p) \<and> ValidateConnection (we_credits W) (ap_Connection p) = None)"
proof -
  obtain row s1 where g: "authenticateWorker T W taskType token callers r s = (Inr row, s1)"
    using out by (auto simp: serve_connection_def split: prod.splits sum.splits)
  then obtain ctx' where b: "bindTaskExecution True row gin ctx = Inr ctx'"
    using out by (auto simp: serve_connection_def split: sum.splits)
  then obtain t where t: "row = Some t" by (cases row) (auto simp: bindTaskExecution_def)
  obtain e0 e1 e2 where errs: "errs = (e0, e1, e2)" by (cases errs)
  have h: "acquireTaskModelConnection T W acquire errs now1 now2 others ctx' row req s1 = Some (p, s')"
    using out(1) g b by (auto simp: serve_connection_def)
  obtain c latest where
      c: "fst (ConnectionFromContext (we_credits W) acquire e0 e1 e2 (Some ctx')) = Some (Inr c)" "ap_Connection p = c"
    and l: "lookupWorkerTask T (we_task W) (tk_ID t) (tk_WorkerID t) (tk_TaskType t) (others s1) = (Inr latest, s')"
    and v: "worker_validClaim (Some t) (aq_TaskID req) (aq_WorkerID req) (aq_Attempt req) now1"
      "worker_validClaim (Some latest) (tk_ID t) (tk_WorkerID t) (aq_Attempt req) now2" "task_subject latest = task_subject t"
    using h out(2) t errs
    by (auto simp: acquireTaskModelConnection_def Let_def refused_def errcode_defs task_subject_def split: if_splits option.splits sum.splits prod.splits)
  note f = fresh_connection [OF b [unfolded t] c(1)] and lf = lookup_found [OF ok l]
  have "latest \<in> set (t_rows T (s_db s'))" "live latest" using lf by simp_all
  moreover have "tk_ID latest = aq_TaskID req" "tk_WorkerID latest = aq_WorkerID req" "aq_Attempt req = tk_Redo latest + 1"
      "tk_TaskStatus latest = TaskStatusRunning" "\<exists>a. tk_StartAt latest = Some a \<and> now2 < a + tk_TaskConfigTimeout latest"
    using v(1,2) by (auto simp: worker_validClaim_def split: option.splits)
  ultimately show ?thesis using guard_passed(1,2) [OF ok g] f v(3) c(2) by metis
qed

text \<open>A worker with a running task; during the acquisition nothing happens to the table.\<close>

definition worker_credits :: credits_env where
  "worker_credits = plain_credits\<lparr>ce_json := (\<lambda>_. Inr \<lparr>jd_value = JObject [(''request'', JObject [(''task_id'', JNumber ''4''),
     (''worker_id'', JString ''w''), (''attempt'', JNumber ''1'')])], jd_end = True\<rparr>)\<rparr>"

definition worker_surroundings :: worker_env where
  "worker_surroundings = \<lparr>we_task = plain_env, we_credits = worker_credits, we_sha256 = (\<lambda>t. t)\<rparr>"

definition worker_post :: worker_http where
  "worker_post = \<lparr>wh_Path = ''/v1/jobs.AcquireTaskModelConnection'', wh_Authorization = [''Bearer t''], wh_Cookie = [],
     wh_VerifiedChains = Some [[Some [Some ''spiffe://a/w'']]], wh_Body = ''{}'', wh_BodyFails = False\<rparr>"

definition worker_table :: "(task list \<times> nat) session" where
  "worker_table = \<lparr>s_db = ([sample_task 4 TaskStatusRunning], 9), s_fates = []\<rparr>"

definition worker_context :: credits_context where
  "worker_context = request_context.extend Background (credits_context.fields None)"

lemma worker_guard:
  "authenticateWorker core_task worker_surroundings ''report'' ''t'' [\<lparr>wc_Principal = ''spiffe://a/w'', wc_TaskType = ''report''\<rparr>] worker_post worker_table =
     (Inr (Some (sample_task 4 TaskStatusRunning)), worker_table)"
  by (simp add: authenticateWorker_def worker_surroundings_def worker_credits_def worker_post_def worker_table_def plain_env_def bearer_ok_def
      has_prefix_def trim_prefix_def has_suffix_def authorizedWorkerCertificate_def bodyMax_def decode_input_def input_member_def input_field_def
      plain_credits_def decode_uint_def parse_digits_def parse_int_def digits_value_def digit_value_def is_digit_def int64_def Let_def empty_input_def
      lookupWorkerTask_def first_row_def sql_run live_def sample_task_def)

lemma worker_answer:
  "serve_connection core_task worker_surroundings ''report'' ''t'' [\<lparr>wc_Principal = ''spiffe://a/w'', wc_TaskType = ''report''\<rparr>] (\<lambda>_. Inr sample_connection)
     (None, None, None) 7 8 (\<lambda>s. s) Background worker_context worker_post \<lparr>aq_TaskID = 4, aq_WorkerID = ''w'', aq_Attempt = 1\<rparr> worker_table =
   Some (Inr \<lparr>ap_Code = 0, ap_Connection = sample_connection\<rparr>, worker_table)"
proof -
  let ?t = "sample_task 4 TaskStatusRunning"
  have m: "member_Validate (task_subject ?t) = None" using sample_member [of 4 TaskStatusRunning] by (simp add: task_member_ok_def task_subject_def)
  have valid: "worker_validClaim (Some ?t) 4 ''w'' 1 7" "worker_validClaim (Some ?t) 4 ''w'' 1 8"
    using m by (simp_all add: worker_validClaim_def) (simp_all add: sample_task_def)
  have "settle worker_credits (Inr sample_connection) None = Inr sample_connection"
    using sample_connection_ok by (simp add: settle_def ValidateConnection_def worker_credits_def)
  moreover have "lookupWorkerTask core_task plain_env (tk_ID ?t) (tk_WorkerID ?t) (tk_TaskType ?t) worker_table = (Inr ?t, worker_table)"
    by (simp add: lookupWorkerTask_def first_row_def sql_run live_def worker_table_def sample_task_def plain_env_def)
  moreover have "we_task worker_surroundings = plain_env" "we_credits worker_surroundings = worker_credits" by (simp_all add: worker_surroundings_def)
  moreover have "tk_ID ?t = 4" "tk_WorkerID ?t = ''w''" by (simp_all add: sample_task_def)
  ultimately show ?thesis
    using m valid
    by (simp add: serve_connection_def worker_guard bindTaskExecution_def NewExecution_def WithExecution_def acquireTaskModelConnection_def
        ConnectionFromContext_def ExecutionFromContext_def AcquireDefault_def Let_def)
qed

theorem model_connection_needs_claim_witness:
  "\<exists>t \<in> set (t_rows core_task (s_db worker_table)). live t \<and> tk_TaskStatus t = TaskStatusRunning \<and> aq_Attempt \<lparr>aq_TaskID = 4, aq_WorkerID = ''w'', aq_Attempt = 1\<rparr> = tk_Redo t + 1"
proof -
  have "sql_ok core_task" using core_task_ok by (simp add: task_table_def)
  from model_connection_needs_claim [OF this worker_answer] show ?thesis by auto
qed

end
