(* ===== verification/Cluster_Mutex.thy ===== *)
theory Cluster_Mutex
  imports Redis_Service Step_Invariant
begin

text \<open>
  Package \<open>mutex\<close>: the election of a master among the nodes of a cluster (\<open>cluster.go\<close>) and the lock of
  \<open>redis_locker.go\<close>, over a Redis server that is a parameter. Each operation is given the fates of its
  requests. The daemon of a node calls \<open>tryPreempt\<close> once and \<open>tick\<close> with every tick of its timer;
  \<open>cluster_step\<close> lets the single requests of the daemons of any number of nodes and the time go on in any order.
\<close>

section \<open>Cluster mutex\<close>

definition clusterMutexExpiration :: duration where "clusterMutexExpiration = 30 * second"
definition minRenewInterval :: duration where "minRenewInterval = 8 * second"

record cluster_mutex =
  cm_key :: string
  cm_myName :: string
  cm_currentMaster :: string
  cm_interval :: duration
  cm_ready :: bool

text \<open>\<open>jitter\<close> is the random number of milliseconds below 5000.\<close>

definition NewClusterMutex :: "string \<Rightarrow> string \<Rightarrow> nat \<Rightarrow> cluster_mutex" where
  "NewClusterMutex lockName nodeID jitter =
     \<lparr>cm_key = ''cluster:mutex:'' @ lockName, cm_myName = nodeID, cm_currentMaster = [],
      cm_interval = minRenewInterval + millisecond * int jitter, cm_ready = False\<rparr>"

definition IsMaster :: "cluster_mutex \<Rightarrow> bool" where
  "IsMaster m \<longleftrightarrow> cm_myName m \<noteq> [] \<and> cm_myName m = cm_currentMaster m"

definition getCurrentMaster :: "'r redis \<Rightarrow> net \<Rightarrow> cluster_mutex \<Rightarrow> 'r \<Rightarrow> string option \<times> cluster_mutex \<times> 'r" where
  "getCurrentMaster R n m r =
     (case via_net n (r_call R (GET (cm_key m))) r of
        (Inr (RBulk val), r') \<Rightarrow> (Some val, m\<lparr>cm_currentMaster := val\<rparr>, r')
      | (_, r') \<Rightarrow> (None, m, r'))"

definition tryPreempt :: "'r redis \<Rightarrow> bool \<Rightarrow> net \<Rightarrow> net \<Rightarrow> cluster_mutex \<Rightarrow> 'r \<Rightarrow> bool \<times> cluster_mutex \<times> 'r" where
  "tryPreempt R isFirst n n2 m r =
     (case via_net n (r_call R (SETNX_EX (cm_key m) (cm_myName m) (milliseconds clusterMutexExpiration))) r of
        (Inr ROk, r') \<Rightarrow> (True, m\<lparr>cm_currentMaster := cm_myName m, cm_ready := True\<rparr>, r')
      | (Inr RNil, r') \<Rightarrow>
          if isFirst then (case getCurrentMaster R n2 m r' of (_, m', r'') \<Rightarrow> (True, m'\<lparr>cm_ready := True\<rparr>, r''))
          else (True, m, r')
      | (_, r') \<Rightarrow> (False, m, r'))"

text \<open>\<open>EXPIRE\<close> with seconds is \<open>PEXPIRE\<close> with a thousand times as many milliseconds.\<close>

definition renew :: "'r redis \<Rightarrow> net \<Rightarrow> cluster_mutex \<Rightarrow> 'r \<Rightarrow> bool \<times> 'r" where
  "renew R n m r =
     (case via_net n (r_call R (PEXPIRE (cm_key m) (itoa (milliseconds clusterMutexExpiration)))) r of
        (Inl _, r') \<Rightarrow> (False, r') | (Inr _, r') \<Rightarrow> (True, r'))"

definition release :: "'r redis \<Rightarrow> net \<Rightarrow> cluster_mutex \<Rightarrow> 'r \<Rightarrow> 'r" where
  "release R n m r = (if \<not> IsMaster m then r else snd (via_net n (r_call R (DEL (cm_key m))) r))"

definition tick :: "'r redis \<Rightarrow> net \<Rightarrow> net \<Rightarrow> cluster_mutex \<Rightarrow> 'r \<Rightarrow> cluster_mutex \<times> 'r" where
  "tick R n1 n2 m r =
     (case getCurrentMaster R n1 m r of
        (None, m1, r1) \<Rightarrow> (case tryPreempt R False n2 n2 m1 r1 of (_, m2, r2) \<Rightarrow> (m2, r2))
      | (Some master, m1, r1) \<Rightarrow> if master = cm_myName m1 then (m1, snd (renew R n2 m1 r1)) else (m1, r1))"

text \<open>
  The mutex of the process (\<open>mutex.go\<close>): created by the first call, with the key of the last option of that call;
  \<open>hostname\<close> is the environment variable and \<open>fresh\<close> a new UUID.
\<close>

definition std_IsMaster :: "string list \<Rightarrow> string \<Rightarrow> string \<Rightarrow> nat \<Rightarrow> cluster_mutex option \<Rightarrow> bool \<times> cluster_mutex option" where
  "std_IsMaster keys hostname fresh jitter std =
     (let mutexKey = fold (\<lambda>k _. k) keys ''default_cluster_mutex'';
          m = (case std of Some m \<Rightarrow> m | None \<Rightarrow> NewClusterMutex mutexKey (if hostname = [] then fresh else hostname) jitter)
      in (IsMaster m, Some m))"

section \<open>Locker\<close>

record redis_locker =
  lk_lockTimeout :: duration
  lk_lockerName :: string
  lk_retryDelay :: duration

definition NewRedisLocker :: "string \<Rightarrow> duration \<Rightarrow> redis_locker" where
  "NewRedisLocker name timeout =
     (let retryDelay = go_div timeout 100
      in \<lparr>lk_lockTimeout = timeout, lk_lockerName = name,
          lk_retryDelay = (if retryDelay < millisecond * 10 then millisecond * 10
                           else if retryDelay > second then second else retryDelay)\<rparr>)"

definition lockerKey :: "redis_locker \<Rightarrow> string" where
  "lockerKey l = ''core:locker:'' @ lk_lockerName l"

text \<open>What \<open>Lock\<close> comes back with: the lock, or an error of Redis, which it only logs.\<close>

datatype lock_end = Locked | NotLocked

text \<open>
  The loop of \<open>Lock\<close>, at most \<open>length fates\<close> times; \<open>others\<close> is what the server goes through while the
  caller sleeps. \<open>None\<close> means that the loop has not ended by then.
\<close>

fun Lock_loop :: "'r redis \<Rightarrow> ('r \<Rightarrow> 'r) \<Rightarrow> net list \<Rightarrow> redis_locker \<Rightarrow> 'r \<Rightarrow> (lock_end \<times> 'r) option" where
  "Lock_loop R others [] l r = None"
| "Lock_loop R others (n # ns) l r =
     (case via_net n (r_call R (SETNX_EX (lockerKey l) (itoa 1) (milliseconds (lk_lockTimeout l)))) r of
        (Inr ROk, r') \<Rightarrow> Some (Locked, r')
      | (Inr RNil, r') \<Rightarrow> Lock_loop R others ns l (others (r_wait R (milliseconds (lk_retryDelay l)) r'))
      | (_, r') \<Rightarrow> Some (NotLocked, r'))"

definition Unlock :: "'r redis \<Rightarrow> net \<Rightarrow> redis_locker \<Rightarrow> 'r \<Rightarrow> 'r" where
  "Unlock R n l r = snd (via_net n (r_call R (DEL (lockerKey l))) r)"

section \<open>A cluster\<close>

record 'r cluster =
  cl_redis :: 'r
  cl_nodes :: "nat \<Rightarrow> cluster_mutex"
  cl_running :: "nat \<Rightarrow> bool"

definition set_node :: "nat \<Rightarrow> cluster_mutex \<Rightarrow> 'r \<Rightarrow> 'r cluster \<Rightarrow> 'r cluster" where
  "set_node i m r c = c\<lparr>cl_redis := r, cl_nodes := (cl_nodes c)(i := m)\<rparr>"

text \<open>
  Time goes on in a cluster that is on time: the key of a running master does not lapse before the
  master comes to renew it.
\<close>

definition on_time :: "'r redis \<Rightarrow> int \<Rightarrow> 'r cluster \<Rightarrow> bool" where
  "on_time R ms c \<longleftrightarrow> (\<forall>i. cl_running c i \<and> IsMaster (cl_nodes c i) \<longrightarrow>
     db_live (db_wait ms (r_db R (cl_redis c))) (cm_key (cl_nodes c i)) \<noteq> None)"

inductive cluster_step :: "'r redis \<Rightarrow> 'r cluster \<Rightarrow> 'r cluster \<Rightarrow> bool" for R where
  node_starts: "\<not> cl_running c i \<Longrightarrow>
    cluster_step R c ((set_node i ((cl_nodes c i)\<lparr>cm_currentMaster := [], cm_ready := False\<rparr>) (cl_redis c) c)\<lparr>cl_running := (cl_running c)(i := True)\<rparr>)"
| node_reads: "cl_running c i \<Longrightarrow> getCurrentMaster R n (cl_nodes c i) (cl_redis c) = (g, m, r) \<Longrightarrow> cluster_step R c (set_node i m r c)"
| node_preempts: "cl_running c i \<Longrightarrow> tryPreempt R False n n2 (cl_nodes c i) (cl_redis c) = (b, m, r) \<Longrightarrow> cluster_step R c (set_node i m r c)"
| node_renews: "cl_running c i \<Longrightarrow> renew R n (cl_nodes c i) (cl_redis c) = (b, r) \<Longrightarrow> cluster_step R c (set_node i (cl_nodes c i) r c)"
| node_ready: "cl_running c i \<Longrightarrow> cluster_step R c (set_node i ((cl_nodes c i)\<lparr>cm_ready := True\<rparr>) (cl_redis c) c)"
| node_stops: "cl_running c i \<Longrightarrow>
    cluster_step R c (c\<lparr>cl_redis := release R n (cl_nodes c i) (cl_redis c), cl_running := (cl_running c)(i := False)\<rparr>)"
| time_passes: "0 \<le> ms \<Longrightarrow> on_time R ms c \<Longrightarrow> cluster_step R c (c\<lparr>cl_redis := r_wait R ms (cl_redis c)\<rparr>)"

lemma set_node_simps [simp]:
  "cl_redis (set_node i m r c) = r" "cl_running (set_node i m r c) = cl_running c" "cl_nodes (set_node i m r c) j = (if j = i then m else cl_nodes c j)"
  "set_node i m2 r2 (set_node i m r c) = set_node i m2 r2 c"
  by (simp_all add: set_node_def)

text \<open>The first attempt of a daemon and every later tick are sequences of these steps.\<close>

lemma tryPreempt_first_steps:
  assumes run: "cl_running c i" and out: "tryPreempt R True n n2 (cl_nodes c i) (cl_redis c) = (b, m, r)"
  shows "(cluster_step R)\<^sup>*\<^sup>* c (set_node i m r c)"
proof -
  obtain b1 m1 r1 where t: "tryPreempt R False n n2 (cl_nodes c i) (cl_redis c) = (b1, m1, r1)" by (meson prod_cases3)
  have one: "cluster_step R c (set_node i m1 r1 c)" using run t by (rule node_preempts)
  obtain g m2 r2 where g: "getCurrentMaster R n2 (cl_nodes c i) r1 = (g, m2, r2)" by (meson prod_cases3)
  obtain q r0 where "via_net n (r_call R (SETNX_EX (cm_key (cl_nodes c i)) (cm_myName (cl_nodes c i)) (milliseconds clusterMutexExpiration))) (cl_redis c) = (q, r0)"
    by (meson surj_pair)
  then consider "m = m1" "r = r1" | "m1 = cl_nodes c i" "m = m2\<lparr>cm_ready := True\<rparr>" "r = r2"
    using out t g by (auto simp: tryPreempt_def split: sum.splits redis_reply.splits)
  then show ?thesis
  proof cases
    case 2
    have "cluster_step R (set_node i m1 r1 c) (set_node i m2 r2 (set_node i m1 r1 c))"
      by (rule node_reads) (use run g 2 in simp_all)
    moreover have "cluster_step R (set_node i m2 r2 c) (set_node i m r (set_node i m2 r2 c))"
      using node_ready [of "set_node i m2 r2 c" i R] run 2 by simp
    ultimately show ?thesis using one by (auto intro: rtranclp.rtrancl_into_rtrancl)
  qed (use one in auto)
qed

lemma tick_steps:
  assumes run: "cl_running c i" and out: "tick R n1 n2 (cl_nodes c i) (cl_redis c) = (m, r)"
  shows "(cluster_step R)\<^sup>*\<^sup>* c (set_node i m r c)"
proof -
  obtain g m1 r1 where g: "getCurrentMaster R n1 (cl_nodes c i) (cl_redis c) = (g, m1, r1)" by (meson prod_cases3)
  have one: "cluster_step R c (set_node i m1 r1 c)" using run g by (rule node_reads)
  obtain b1 m2 r2 where t: "tryPreempt R False n2 n2 m1 r1 = (b1, m2, r2)" by (meson prod_cases3)
  obtain b2 r3 where w: "renew R n2 m1 r1 = (b2, r3)" by (meson surj_pair)
  have "cluster_step R (set_node i m1 r1 c) (set_node i m2 r2 (set_node i m1 r1 c))"
    by (rule node_preempts) (use run t in simp_all)
  moreover have "cluster_step R (set_node i m1 r1 c) (set_node i m1 r3 (set_node i m1 r1 c))"
    using node_renews [of "set_node i m1 r1 c" i R] run w by simp
  moreover have "m = m2 \<and> r = r2 \<or> m = m1 \<and> (r = r3 \<or> r = r1)"
    using out g t w by (auto simp: tick_def split: option.splits if_splits)
  ultimately show ?thesis using one by (auto intro: rtranclp.rtrancl_into_rtrancl)
qed

section \<open>What a request does to the key\<close>

lemmas net_call = net_sim [OF r_call_sim]

text \<open>The value of a live key.\<close>

definition holder :: "'r redis \<Rightarrow> 'r \<Rightarrow> string \<Rightarrow> redis_value option" where
  "holder R r k = map_option fst (db_live (r_db R r) k)"

lemma expiration_ms [simp]: "milliseconds clusterMutexExpiration = 30000"
  by (simp add: milliseconds_def clusterMutexExpiration_def second_def millisecond_def go_div_def)

lemma getCurrentMaster_holder:
  assumes ok: "redis_ok R" and out: "getCurrentMaster R n m r = (res, m', r')"
  shows "r_db R r' = r_db R r" "res = None \<Longrightarrow> m' = m"
    "\<And>v. res = Some v \<Longrightarrow> m' = m\<lparr>cm_currentMaster := v\<rparr> \<and> holder R r (cm_key m) = Some (RString v)"
proof -
  obtain q r1 where q: "via_net n (r_call R (GET (cm_key m))) r = (q, r1)" by (meson surj_pair)
  have same: "snd (redis_doc (GET (cm_key m)) (r_db R r)) = r_db R r" by (simp split: option.splits redis_value.splits prod.splits)
  have r': "r' = r1" and res: "res = None \<and> m' = m \<or> (\<exists>v. q = Inr (RBulk v) \<and> res = Some v \<and> m' = m\<lparr>cm_currentMaster := v\<rparr>)"
    using out q by (auto simp: getCurrentMaster_def split: sum.splits redis_reply.splits)
  show "r_db R r' = r_db R r" using net_call(1) [OF ok q] same r' by auto
  show "m' = m" if "res = None" using res that by auto
  show "m' = m\<lparr>cm_currentMaster := v\<rparr> \<and> holder R r (cm_key m) = Some (RString v)" if "res = Some v" for v
  proof -
    have "q = Inr (RBulk v)" "m' = m\<lparr>cm_currentMaster := v\<rparr>" using res that by auto
    then have "fst (redis_doc (GET (cm_key m)) (r_db R r)) = Inr (RBulk v)" using net_call(2) [OF ok q] by blast
    then show ?thesis using \<open>m' = _\<close> by (auto simp: holder_def split: option.splits redis_value.splits prod.splits)
  qed
qed

text \<open>Taking the key, and learning who has it.\<close>

lemma tryPreempt_holder:
  assumes ok: "redis_ok R" and out: "tryPreempt R isFirst n n2 m r = (b, m', r')"
  shows "holder R r' (cm_key m) = holder R r (cm_key m) \<or>
      holder R r (cm_key m) = None \<and> holder R r' (cm_key m) = Some (RString (cm_myName m))"
    and "cm_myName m' = cm_myName m" "cm_key m' = cm_key m"
    and "cm_currentMaster m' = cm_currentMaster m \<or> holder R r' (cm_key m) = Some (RString (cm_currentMaster m'))"
proof -
  let ?c = "SETNX_EX (cm_key m) (cm_myName m) 30000" and ?k = "cm_key m"
  obtain q r1 where q: "via_net n (r_call R ?c) r = (q, r1)" by (meson surj_pair)
  obtain g m2 r2 where g: "getCurrentMaster R n2 m r1 = (g, m2, r2)" by (meson prod_cases3)
  note get = getCurrentMaster_holder [OF ok g]
  have free: "holder R r1 ?k = Some (RString (cm_myName m))" "holder R r ?k = None" if "q = Inr ROk"
    using net_call(2) [OF ok q that] by (cases "db_live (r_db R r) ?k"; simp add: holder_def)+
  have change: "holder R r1 ?k = holder R r ?k \<or> holder R r ?k = None \<and> holder R r1 ?k = Some (RString (cm_myName m))"
    using net_call(1) [OF ok q] by (cases "db_live (r_db R r) ?k") (auto simp: holder_def)
  have m2: "cm_myName m2 = cm_myName m" "cm_key m2 = cm_key m" "holder R r2 ?k = holder R r1 ?k"
      "cm_currentMaster m2 = cm_currentMaster m \<or> holder R r1 ?k = Some (RString (cm_currentMaster m2))"
    using get by (cases g; auto simp: holder_def)+
  consider (taken) "q = Inr ROk" "m' = m\<lparr>cm_currentMaster := cm_myName m, cm_ready := True\<rparr>" "r' = r1"
    | (learned) "m' = m2\<lparr>cm_ready := True\<rparr>" "r' = r2" | (kept) "m' = m" "r' = r1"
    using out q g by (auto simp: tryPreempt_def split: sum.splits redis_reply.splits if_splits)
  then show "holder R r' ?k = holder R r ?k \<or> holder R r ?k = None \<and> holder R r' ?k = Some (RString (cm_myName m))"
    "cm_myName m' = cm_myName m" "cm_key m' = cm_key m"
    "cm_currentMaster m' = cm_currentMaster m \<or> holder R r' ?k = Some (RString (cm_currentMaster m'))"
    by (cases; use free change m2 in auto)+
qed

lemma renew_holder:
  assumes ok: "redis_ok R" and out: "renew R n m r = (b, r')"
  shows "holder R r' (cm_key m) = holder R r (cm_key m)"
proof -
  obtain q r2 where q: "via_net n (r_call R (PEXPIRE (cm_key m) (itoa 30000))) r = (q, r2)" by (meson surj_pair)
  have "r' = r2" using out q by (auto simp: renew_def split: sum.splits)
  then show ?thesis using net_call(1) [OF ok q] by (auto simp: holder_def int64_def split: option.splits)
qed

end
