(* ===== verification/Cluster_Properties.thy ===== *)
theory Cluster_Properties
  imports Cluster_Mutex
begin

text \<open>
  Properties of package \<open>mutex\<close>: at most one master in a cluster that is on time, what a tick decides,
  the masters that a cluster out of time can have, and the end of \<open>Lock\<close>.
\<close>

section \<open>One master\<close>

definition cluster_inv :: "'r redis \<Rightarrow> string \<Rightarrow> 'r cluster \<Rightarrow> bool" where
  "cluster_inv R k c \<longleftrightarrow> (\<forall>i. cm_key (cl_nodes c i) = k) \<and> inj (\<lambda>i. cm_myName (cl_nodes c i)) \<and> (\<forall>i. cm_myName (cl_nodes c i) \<noteq> []) \<and>
     (\<forall>i. cl_running c i \<longrightarrow> IsMaster (cl_nodes c i) \<longrightarrow> holder R (cl_redis c) k = Some (RString (cm_myName (cl_nodes c i))))"

text \<open>A node that runs on after a request: its key is taken only when it was free, and what it believes is new or old.\<close>

lemma cluster_inv_node:
  assumes inv: "cluster_inv R k c"
    and h: "holder R r k = holder R (cl_redis c) k \<or> holder R (cl_redis c) k = None \<and> holder R r k = Some (RString (cm_myName (cl_nodes c i)))"
    and m: "cm_myName m = cm_myName (cl_nodes c i)" "cm_key m = k"
    and belief: "IsMaster m \<Longrightarrow> holder R r k = Some (RString (cm_myName m))"
    and run: "\<And>j. j \<noteq> i \<Longrightarrow> run j = cl_running c j"
  shows "cluster_inv R k ((set_node i m r c)\<lparr>cl_running := run\<rparr>)"
proof -
  have names: "cm_myName (if j = i then m else cl_nodes c j) = cm_myName (cl_nodes c j)" for j using m(1) by simp
  have "holder R r k = Some (RString (cm_myName (cl_nodes c j)))" if "cl_running c j" "IsMaster (cl_nodes c j)" for j
    using inv that h by (auto simp: cluster_inv_def)
  with belief run inv m names show ?thesis by (auto simp: cluster_inv_def)
qed

lemma cluster_inv_request:
  assumes inv: "cluster_inv R k c" and run: "cl_running c i"
    and h: "holder R r k = holder R (cl_redis c) k \<or> holder R (cl_redis c) k = None \<and> holder R r k = Some (RString (cm_myName (cl_nodes c i)))"
    and m: "cm_myName m = cm_myName (cl_nodes c i)" "cm_key m = k"
    and belief: "cm_currentMaster m = cm_currentMaster (cl_nodes c i) \<or> holder R r k = Some (RString (cm_currentMaster m))"
  shows "cluster_inv R k (set_node i m r c)"
proof -
  have "holder R r k = Some (RString (cm_myName m))" if "IsMaster m"
  proof (cases "cm_currentMaster m = cm_currentMaster (cl_nodes c i)")
    case True
    then have "IsMaster (cl_nodes c i)" using that m by (auto simp: IsMaster_def)
    then have "holder R (cl_redis c) k = Some (RString (cm_myName (cl_nodes c i)))" using inv run by (simp add: cluster_inv_def)
    with h m show ?thesis by auto
  qed (use belief that in \<open>auto simp: IsMaster_def\<close>)
  then have "cluster_inv R k ((set_node i m r c)\<lparr>cl_running := cl_running c\<rparr>)"
    using cluster_inv_node [OF inv h m] by blast
  then show ?thesis by (simp add: set_node_def)
qed

lemma cluster_inv_step:
  assumes ok: "redis_ok R" and step: "cluster_step R c c'" and inv: "cluster_inv R k c"
  shows "cluster_inv R k c'"
  using step
proof cases
  case (node_starts i)
  show ?thesis unfolding node_starts(1)
    by (rule cluster_inv_node [OF inv]) (use inv in \<open>auto simp: IsMaster_def cluster_inv_def\<close>)
next
  case (node_reads i n g m r)
  have k: "cm_key (cl_nodes c i) = k" using inv by (simp add: cluster_inv_def)
  note t = getCurrentMaster_holder [OF ok node_reads(3), unfolded k]
  have "holder R r k = holder R (cl_redis c) k" using t(1) by (simp add: holder_def)
  then show ?thesis unfolding node_reads(1)
    by (intro cluster_inv_request [OF inv node_reads(2)]) (use t(2,3) k in \<open>cases g; auto\<close>)+
next
  case (node_preempts i n n2 b m r)
  have k: "cm_key (cl_nodes c i) = k" using inv by (simp add: cluster_inv_def)
  note t = tryPreempt_holder [OF ok node_preempts(3), unfolded k]
  show ?thesis unfolding node_preempts(1) by (rule cluster_inv_request [OF inv node_preempts(2) t])
next
  case (node_renews i n b r)
  have k: "cm_key (cl_nodes c i) = k" using inv by (simp add: cluster_inv_def)
  with renew_holder [OF ok node_renews(3)] show ?thesis unfolding node_renews(1)
    by (intro cluster_inv_request [OF inv node_renews(2)]) simp_all
next
  case (node_ready i)
  then show ?thesis unfolding node_ready(1)
    by (intro cluster_inv_request [OF inv node_ready(2)]) (use inv in \<open>simp_all add: cluster_inv_def\<close>)
next
  case (node_stops i n)
  have "holder R (cl_redis c') k = Some (RString (cm_myName (cl_nodes c j)))" if j: "cl_running c j" "IsMaster (cl_nodes c j)" "j \<noteq> i" for j
  proof -
    have hj: "holder R (cl_redis c) k = Some (RString (cm_myName (cl_nodes c j)))" using inv j by (simp add: cluster_inv_def)
    have "\<not> IsMaster (cl_nodes c i)"
    proof
      assume "IsMaster (cl_nodes c i)"
      then have "cm_myName (cl_nodes c i) = cm_myName (cl_nodes c j)" using inv node_stops(2) hj by (simp add: cluster_inv_def)
      with inv j(3) show False by (auto simp: cluster_inv_def inj_def)
    qed
    with hj show ?thesis unfolding node_stops(1) by (simp add: release_def)
  qed
  with inv show ?thesis unfolding node_stops(1) by (auto simp: cluster_inv_def)
next
  case (time_passes ms)
  have w: "r_db R (r_wait R ms (cl_redis c)) = db_wait ms (r_db R (cl_redis c))" using ok time_passes(2) by (simp add: redis_ok_def)
  have "holder R (r_wait R ms (cl_redis c)) k = holder R (cl_redis c) k" if j: "cl_running c j" "IsMaster (cl_nodes c j)" for j
  proof -
    have "db_live (db_wait ms (r_db R (cl_redis c))) k \<noteq> None" using time_passes(3) inv j by (auto simp: on_time_def cluster_inv_def)
    then show ?thesis using time_passes(2) by (auto simp: holder_def w db_live_wait split: option.splits if_splits)
  qed
  with inv show ?thesis unfolding time_passes(1) by (auto simp: cluster_inv_def)
qed

interpretation clusters: step_invariant "cluster_step R" "\<lambda>c. redis_ok R \<and> cluster_inv R k c"
  by unfold_locales (blast intro: cluster_inv_step)

text \<open>C17. In a cluster whose nodes have different names and whose masters come in time, two running nodes are never
  masters at once, and the key in Redis names the master, whatever requests are lost.\<close>

theorem one_master:
  assumes "redis_ok R" and "(cluster_step R)\<^sup>*\<^sup>* c c'" and "\<forall>i. \<not> cl_running c i"
    and "\<forall>i. cl_nodes c i = NewClusterMutex lockName (names i) (jitter i)" and "inj names" "\<forall>i. names i \<noteq> []"
  shows "\<forall>i j. cl_running c' i \<longrightarrow> cl_running c' j \<longrightarrow> IsMaster (cl_nodes c' i) \<longrightarrow> IsMaster (cl_nodes c' j) \<longrightarrow>
    i = j \<and> holder R (cl_redis c') (''cluster:mutex:'' @ lockName) = Some (RString (cm_myName (cl_nodes c' i)))"
proof -
  have "cluster_inv R (''cluster:mutex:'' @ lockName) c"
    using assms(3-6) by (auto simp: cluster_inv_def NewClusterMutex_def)
  with assms(1) have inv: "cluster_inv R (''cluster:mutex:'' @ lockName) c'"
    using clusters.run_keeps [OF assms(2)] by blast
  show ?thesis
  proof (intro allI impI)
    fix i j assume r: "cl_running c' i" "cl_running c' j" "IsMaster (cl_nodes c' i)" "IsMaster (cl_nodes c' j)"
    then have h: "holder R (cl_redis c') (''cluster:mutex:'' @ lockName) = Some (RString (cm_myName (cl_nodes c' i)))"
      "holder R (cl_redis c') (''cluster:mutex:'' @ lockName) = Some (RString (cm_myName (cl_nodes c' j)))" using inv unfolding cluster_inv_def by blast+
    then have "cm_myName (cl_nodes c' i) = cm_myName (cl_nodes c' j)" by simp
    moreover have "inj (\<lambda>i. cm_myName (cl_nodes c' i))" using inv by (simp add: cluster_inv_def)
    ultimately show "i = j \<and> holder R (cl_redis c') (''cluster:mutex:'' @ lockName) = Some (RString (cm_myName (cl_nodes c' i)))"
      using h(1) by (auto dest: injD)
  qed
qed

definition two_nodes :: "redis_db cluster" where
  "two_nodes = \<lparr>cl_redis = empty_redis_db, cl_nodes = (\<lambda>i. NewClusterMutex ''jobs'' (replicate (Suc i) CHR ''n'') 0), cl_running = (\<lambda>_. False)\<rparr>"

theorem one_master_witness:
  "\<exists>c'. (cluster_step ref_redis)\<^sup>*\<^sup>* two_nodes c' \<and> cl_running c' 0 \<and> IsMaster (cl_nodes c' 0) \<and>
     (\<forall>i j. cl_running c' i \<longrightarrow> cl_running c' j \<longrightarrow> IsMaster (cl_nodes c' i) \<longrightarrow> IsMaster (cl_nodes c' j) \<longrightarrow> i = j)"
proof -
  let ?fresh = "(cl_nodes two_nodes 0)\<lparr>cm_currentMaster := [], cm_ready := False\<rparr>"
  let ?start = "(set_node 0 ?fresh (cl_redis two_nodes) two_nodes)\<lparr>cl_running := (cl_running two_nodes)(0 := True)\<rparr>"
  obtain b m r where t: "tryPreempt ref_redis True Delivered Delivered (cl_nodes ?start 0) (cl_redis ?start) = (b, m, r)"
    by (meson prod_cases3)
  let ?c = "set_node 0 m r ?start"
  have "cluster_step ref_redis two_nodes ?start" by (rule node_starts) (simp add: two_nodes_def)
  moreover have "(cluster_step ref_redis)\<^sup>*\<^sup>* ?start ?c" by (rule tryPreempt_first_steps [OF _ t]) simp
  ultimately have steps: "(cluster_step ref_redis)\<^sup>*\<^sup>* two_nodes ?c" by (rule converse_rtranclp_into_rtranclp)
  have master: "IsMaster m" using t
    by (auto simp: tryPreempt_def two_nodes_def NewClusterMutex_def IsMaster_def via_net_def ref_redis_def empty_redis_db_def db_live_def set_node_def)
  have "inj (\<lambda>i. replicate (Suc i) CHR ''n'')" by (auto simp: inj_def replicate_eq_replicate)
  moreover have "\<forall>i. \<not> cl_running two_nodes i" "\<forall>i. cl_nodes two_nodes i = NewClusterMutex ''jobs'' (replicate (Suc i) CHR ''n'') 0"
    "\<forall>i. replicate (Suc i) CHR ''n'' \<noteq> []" by (simp_all add: two_nodes_def)
  ultimately have "\<forall>i j. cl_running ?c i \<longrightarrow> cl_running ?c j \<longrightarrow> IsMaster (cl_nodes ?c i) \<longrightarrow> IsMaster (cl_nodes ?c j) \<longrightarrow> i = j"
    using one_master [OF ref_redis_ok steps, of "''jobs''" "\<lambda>i. replicate (Suc i) CHR ''n''" "\<lambda>_. 0"] by blast
  moreover have "cl_running ?c 0" "IsMaster (cl_nodes ?c 0)" using master by simp_all
  ultimately show ?thesis using steps by blast
qed

section \<open>Ticks\<close>

text \<open>A tick whose requests arrive makes a node master exactly when the key was free or its own, and then the key
  is its own for the next thirty seconds, more than twice the time to its next tick.\<close>

theorem tick_decides:
  assumes ok: "redis_ok R" and t: "tick R Delivered Delivered m r = (m', r')" and name: "cm_myName m \<noteq> []"
    and key: "\<forall>v. holder R r (cm_key m) = Some v \<longrightarrow> (\<exists>s. v = RString s)"
  shows "(IsMaster m' \<longleftrightarrow> holder R r (cm_key m) = None \<or> holder R r (cm_key m) = Some (RString (cm_myName m))) \<and>
    (IsMaster m' \<longrightarrow> (\<forall>ms. 0 \<le> ms \<and> ms < 30000 \<longrightarrow> holder R (r_wait R ms r') (cm_key m) = Some (RString (cm_myName m)))) \<and>
    (\<forall>lock i jitter. jitter < 5000 \<longrightarrow> 2 * cm_interval (NewClusterMutex lock i jitter) < 30 * second)"
proof -
  let ?k = "cm_key m" and ?db = "r_db R r"
  obtain g r1 where g: "r_call R (GET ?k) r = (g, r1)" by (meson surj_pair)
  then have g': "via_net Delivered (r_call R (GET ?k)) r = (g, r1)" by (simp add: via_net_def)
  have r1: "g = fst (redis_doc (GET ?k) ?db)" "r_db R r1 = snd (redis_doc (GET ?k) ?db)" using net_call(3) [OF ok g'] by simp_all
  have lives: "holder R (r_wait R ms r') ?k = Some (RString (cm_myName m))"
    if "r_db R r' = db_put ?k (RString (cm_myName m), Some (db_clock ?db + 30000)) ?db" "0 \<le> ms" "ms < 30000" for ms
    using ok that by (simp add: redis_ok_def holder_def db_live_wait)
  have main: "(IsMaster m' \<longleftrightarrow> holder R r ?k = None \<or> holder R r ?k = Some (RString (cm_myName m))) \<and>
    (IsMaster m' \<longrightarrow> (\<forall>ms. 0 \<le> ms \<and> ms < 30000 \<longrightarrow> holder R (r_wait R ms r') ?k = Some (RString (cm_myName m))))"
  proof (cases "db_live ?db ?k")
    case None
    let ?c = "SETNX_EX ?k (cm_myName m) 30000"
    obtain q r2 where q: "r_call R ?c r1 = (q, r2)" by (meson surj_pair)
    then have q': "via_net Delivered (r_call R ?c) r1 = (q, r2)" by (simp add: via_net_def)
    have db1: "r_db R r1 = ?db" "g = Inr RNil" using r1 None by simp_all
    have r2: "q = Inr ROk" "r_db R r2 = db_put ?k (RString (cm_myName m), Some (db_clock ?db + 30000)) ?db"
      using net_call(3) [OF ok q'] None db1 by simp_all
    have "m' = m\<lparr>cm_currentMaster := cm_myName m, cm_ready := True\<rparr>" "r' = r2"
      using t g' q' db1 r2 by (simp_all add: tick_def getCurrentMaster_def tryPreempt_def)
    with lives r2 name None show ?thesis by (simp add: IsMaster_def holder_def)
  next
    case (Some e)
    then obtain v d where e: "e = (RString v, d)" using key by (cases e) (auto simp: holder_def)
    have db1: "r_db R r1 = ?db" "g = Inr (RBulk v)" using r1 Some e by simp_all
    show ?thesis
    proof (cases "v = cm_myName m")
      case True
      let ?c = "PEXPIRE ?k (itoa 30000)"
      obtain q r2 where q: "r_call R ?c r1 = (q, r2)" by (meson surj_pair)
      then have q': "via_net Delivered (r_call R ?c) r1 = (q, r2)" by (simp add: via_net_def)
      have r2: "r_db R r2 = db_put ?k (RString (cm_myName m), Some (db_clock ?db + 30000)) ?db"
        using net_call(3) [OF ok q'] Some e db1 True by (simp add: int64_def)
      have "m' = m\<lparr>cm_currentMaster := v\<rparr>" "r' = r2"
        using t g' q' db1 True by (simp_all add: tick_def getCurrentMaster_def renew_def split: sum.splits)
      with lives r2 name True Some e show ?thesis by (simp add: IsMaster_def holder_def)
    next
      case False
      have "m' = m\<lparr>cm_currentMaster := v\<rparr>" using t g' db1 False by (simp add: tick_def getCurrentMaster_def)
      with False Some e show ?thesis by (simp add: IsMaster_def holder_def)
    qed
  qed
  moreover have "2 * cm_interval (NewClusterMutex lock i jitter) < 30 * second" if "jitter < 5000" for lock i jitter
    using that by (simp add: NewClusterMutex_def minRenewInterval_def second_def millisecond_def)
  ultimately show ?thesis by blast
qed

theorem tick_decides_witness:
  "\<exists>m' r'. tick ref_redis Delivered Delivered (NewClusterMutex ''jobs'' ''a'' 0) empty_redis_db = (m', r') \<and> IsMaster m'"
proof -
  obtain m' r' where t: "tick ref_redis Delivered Delivered (NewClusterMutex ''jobs'' ''a'' 0) empty_redis_db = (m', r')" by (meson surj_pair)
  have h: "holder ref_redis empty_redis_db (cm_key (NewClusterMutex ''jobs'' ''a'' 0)) = None"
    by (simp add: holder_def ref_redis_def empty_redis_db_def db_live_def)
  from tick_decides [OF ref_redis_ok t] h t show ?thesis by (simp add: NewClusterMutex_def)
qed

text \<open>
  A node whose requests get lost keeps taking itself for the master after its key has lapsed: \<open>tick\<close> leaves
  \<open>currentMaster\<close> as it is when neither request is answered. In this run both nodes are masters.
\<close>

theorem two_masters_when_late:
  "let a0 = NewClusterMutex ''jobs'' ''a'' 0; b0 = NewClusterMutex ''jobs'' ''b'' 0;
       (_, a1, r1) = tryPreempt ref_redis True Delivered Delivered a0 empty_redis_db;
       (a2, r2) = tick ref_redis LostBefore LostBefore a1 (db_wait 13000 r1);
       (a3, r3) = tick ref_redis LostBefore LostBefore a2 (db_wait 13000 r2);
       (b1, r4) = tick ref_redis Delivered Delivered b0 (db_wait 5000 r3)
   in IsMaster a3 \<and> IsMaster b1"
  by (simp add: NewClusterMutex_def tryPreempt_def tick_def getCurrentMaster_def renew_def IsMaster_def via_net_def ref_redis_def empty_redis_db_def
      db_live_def db_put_def db_wait_def)

text \<open>The mutex of the process answers for the key of its first call, whatever key a later call asks for.\<close>

theorem later_keys_ignored:
  assumes "std_IsMaster [a] h f j None = (b1, std1)" and "std_IsMaster [b] h f' j' std1 = (b2, std2)"
  shows "std2 = std1 \<and> b2 = b1 \<and> cm_key (the std2) = ''cluster:mutex:'' @ a"
  using assms by (auto simp: std_IsMaster_def Let_def NewClusterMutex_def)

section \<open>Locks\<close>

text \<open>\<open>Lock\<close> ends with the lock: when requests arrive and the key of the holder has a deadline, waiting out that
  deadline is enough, whatever the lock's time-out is (the retry delay is between ten milliseconds and one second).\<close>

theorem lock_obtained:
  assumes ok: "redis_ok R" and l: "l = NewRedisLocker name timeout" "millisecond \<le> timeout"
    and live: "\<forall>v d. db_live (r_db R r) (lockerKey l) = Some (v, d) \<longrightarrow> (\<exists>x. d = Some x \<and> x \<le> db_clock (r_db R r) + int n * 10)"
  shows "\<exists>r'. Lock_loop R (\<lambda>x. x) (replicate (Suc n) Delivered) l r = Some (Locked, r') \<and>
    (\<exists>d. db_live (r_db R r') (lockerKey l) = Some (RString ''1'', Some d) \<and> db_clock (r_db R r') < d)"
proof -
  define delay where "delay = milliseconds (lk_retryDelay l)"
  define ttl where "ttl = milliseconds (lk_lockTimeout l)"
  have rd: "10 * millisecond \<le> lk_retryDelay l" using l(1) by (auto simp: NewRedisLocker_def Let_def millisecond_def second_def)
  have delay: "10 \<le> delay" using rd by (simp add: delay_def milliseconds_def go_div_nonneg millisecond_def)
  have ttl: "0 < ttl" using l by (simp add: ttl_def milliseconds_def go_div_nonneg millisecond_def NewRedisLocker_def Let_def)
  let ?k = "lockerKey l" and ?c = "SETNX_EX (lockerKey l) (itoa 1) ttl"
  have itoa1: "itoa 1 = ''1''" by (simp add: itoa_def nat_digits.simps)
  show ?thesis using live
  proof (induction n arbitrary: r)
    case 0
    obtain q r1 where q: "via_net Delivered (r_call R ?c) r = (q, r1)" by (meson surj_pair)
    have none: "db_live (r_db R r) ?k = None"
    proof (cases "db_live (r_db R r) ?k")
      case (Some e)
      with 0 obtain x where "e = (fst e, Some x)" "x \<le> db_clock (r_db R r)" by (cases e) auto
      then show ?thesis using db_live_entry_live [OF Some] by (metis entry_live_Some not_le)
    qed
    have "q = Inr ROk" "r_db R r1 = db_put ?k (RString ''1'', Some (db_clock (r_db R r) + ttl)) (r_db R r)"
      using net_call(3) [OF ok q] none ttl itoa1 by simp_all
    then show ?case using q ttl by (simp add: ttl_def)
  next
    case (Suc n)
    obtain q r1 where q: "via_net Delivered (r_call R ?c) r = (q, r1)" by (meson surj_pair)
    show ?case
    proof (cases "db_live (r_db R r) ?k")
      case None
      have "q = Inr ROk" "r_db R r1 = db_put ?k (RString ''1'', Some (db_clock (r_db R r) + ttl)) (r_db R r)"
        using net_call(3) [OF ok q] None ttl itoa1 by simp_all
      then show ?thesis using q ttl by (simp add: ttl_def)
    next
      case (Some e)
      with Suc.prems obtain v x where e: "e = (v, Some x)" "x \<le> db_clock (r_db R r) + int (Suc n) * 10" by (cases e) auto
      have r1: "q = Inr RNil" "r_db R r1 = r_db R r" using net_call(3) [OF ok q] Some by simp_all
      have w: "r_db R (r_wait R delay r1) = db_wait delay (r_db R r)" using ok delay r1(2) by (simp add: redis_ok_def)
      have "\<exists>r'. Lock_loop R (\<lambda>x. x) (replicate (Suc n) Delivered) l (r_wait R delay r1) = Some (Locked, r') \<and>
          (\<exists>d. db_live (r_db R r') ?k = Some (RString ''1'', Some d) \<and> db_clock (r_db R r') < d)"
        by (rule Suc.IH) (use e Some delay in \<open>auto simp: w db_live_wait split: if_splits\<close>)
      moreover have "Lock_loop R (\<lambda>x. x) (replicate (Suc (Suc n)) Delivered) l r = Lock_loop R (\<lambda>x. x) (replicate (Suc n) Delivered) l (r_wait R delay r1)"
        using q r1(1) by (simp add: ttl_def delay_def)
      ultimately show ?thesis by simp
    qed
  qed
qed

theorem lock_obtained_witness:
  "\<exists>r'. Lock_loop ref_redis (\<lambda>x. x) (replicate 1 Delivered) (NewRedisLocker ''job'' second) empty_redis_db = Some (Locked, r')"
  using lock_obtained [OF ref_redis_ok refl, of second empty_redis_db "''job''" 0]
  by (simp add: second_def millisecond_def ref_redis_def empty_redis_db_def db_live_def) blast

end
