(* ===== verification/Session_Store.thy ===== *)
theory Session_Store
  imports Redis_Service Base64 Request_Context
begin

text \<open>
  Package \<open>logtobff\<close>, the store of browser sessions (\<open>store.go\<close>, the deadlines of \<open>session_renewal.go\<close>): sessions and
  login transactions, their deadlines, encryption, and the operations on Redis with their Lua scripts. A session is
  used under a lease, a key with an owner that every write has to show.

  The authenticated cipher and the JSON codec of the two records are parameters (\<open>session_box\<close>), with the laws
  \<open>box_ok\<close>. Operations are given the entropy they read (\<open>None\<close>: the source fails), the time, and the fates of
  their requests.
\<close>

section \<open>Errors\<close>

datatype bsent = BMissing | BBusy | BInvalid | BAccess nat string | BCtx ctx_err | BRedis

type_synonym berror = "bsent go_error"

definition errMissing :: berror where "errMissing = errors_new BMissing ''session missing''"
definition errBusy :: berror where "errBusy = errors_new BBusy ''session busy''"
definition errInvalid :: berror where "errInvalid = errors_new BInvalid ''session invalid''"

text \<open>\<open>sessionRedisError\<close>: a fixed text over the cause.\<close>

definition redisFailure :: berror where
  "redisFailure = errors_new BRedis ''authentication Redis operation failed''"

text \<open>An error of the Redis driver that is passed on as it is; its text is the driver's.\<close>

definition redisRaw :: berror where
  "redisRaw = errors_new BRedis ''redis''"

definition ctx_berror :: "ctx_err \<Rightarrow> berror" where
  "ctx_berror e = errors_new (BCtx e) (case e of Canceled \<Rightarrow> ''context canceled'' | DeadlineExceeded \<Rightarrow> ''context deadline exceeded'')"

section \<open>Data\<close>

text \<open>A nil map of the SDK is \<open>None\<close>.\<close>

type_synonym sdk_map = "(string, string) fmap option"

record bsession =
  bs_SDK :: sdk_map
  bs_Subject :: string
  bs_Organization :: string
  bs_Revision :: string
  bs_CSRF :: string
  bs_Until :: time
  bs_PolicyVersion :: nat
  bs_AuthenticatedAt :: time
  bs_IdleUntil :: time
  bs_AbsoluteUntil :: time

record btransaction =
  bt_SDK :: sdk_map
  bt_Nonce :: string
  bt_State :: string
  bt_ReturnTo :: string
  bt_Silent :: bool

definition sessionPolicyVersion :: nat where "sessionPolicyVersion = 2"
definition sessionIdleLifetime :: duration where "sessionIdleLifetime = 8 * hour"
definition sessionAbsoluteLifetime :: duration where "sessionAbsoluteLifetime = 7 * 24 * hour"
definition sessionAcquireRetryMin :: duration where "sessionAcquireRetryMin = 2 * millisecond"
definition sessionAcquireRetryMax :: duration where "sessionAcquireRetryMax = 25 * millisecond"
definition authenticationTimeout :: duration where "authenticationTimeout = 20 * second"

lemmas lifetime_defs = sessionIdleLifetime_def sessionAbsoluteLifetime_def hour_def minute_def second_def millisecond_def

section \<open>Deadlines\<close>

definition validateSessionSchema :: "bsession option \<Rightarrow> time \<Rightarrow> berror option" where
  "validateSessionSchema value now =
     (case value of None \<Rightarrow> Some errInvalid
      | Some v \<Rightarrow>
         if bs_PolicyVersion v \<noteq> sessionPolicyVersion \<or> is_zero (bs_AuthenticatedAt v) \<or> now < bs_AuthenticatedAt v \<or>
            is_zero (bs_IdleUntil v) \<or> is_zero (bs_AbsoluteUntil v) \<or> bs_Until v \<noteq> bs_IdleUntil v \<or>
            bs_IdleUntil v < bs_AuthenticatedAt v \<or> bs_AbsoluteUntil v < bs_IdleUntil v \<or>
            bs_AbsoluteUntil v \<noteq> bs_AuthenticatedAt v + sessionAbsoluteLifetime
         then Some errInvalid else None)"

definition sessionDeadline :: "bsession option \<Rightarrow> time \<Rightarrow> berror + time" where
  "sessionDeadline value now =
     (case validateSessionSchema value now of Some e \<Rightarrow> Inl e
      | None \<Rightarrow>
         let v = the value;
             deadline = (if bs_AbsoluteUntil v < bs_IdleUntil v then bs_AbsoluteUntil v else bs_IdleUntil v)
         in if \<not> now < deadline then Inl errMissing else Inr deadline)"

definition nextSessionIdle :: "time \<Rightarrow> time \<Rightarrow> time" where
  "nextSessionIdle now absolute = (let nxt = now + sessionIdleLifetime in if absolute < nxt then absolute else nxt)"

definition sessionCookieDeadline :: "bsession \<Rightarrow> berror + time" where
  "sessionCookieDeadline v =
     (case validateSessionSchema (Some v) (bs_AuthenticatedAt v) of Some e \<Rightarrow> Inl e | None \<Rightarrow> Inr (bs_AbsoluteUntil v))"

definition sessionCookieMaxAge :: "bsession \<Rightarrow> time \<Rightarrow> int" where
  "sessionCookieMaxAge v now =
     (case sessionCookieDeadline v of Inl _ \<Rightarrow> -1
      | Inr deadline \<Rightarrow> let remaining = deadline - now in if remaining \<le> 0 then -1 else go_div (remaining + second - 1) second)"

section \<open>Encryption\<close>

record session_box =
  bx_nonce_size :: nat
  bx_Seal :: "string \<Rightarrow> string \<Rightarrow> string \<Rightarrow> string"
  bx_Open :: "string \<Rightarrow> string \<Rightarrow> string \<Rightarrow> string option"
  bx_session :: "bsession \<Rightarrow> string option"
  bx_read_session :: "string \<Rightarrow> bsession option"
  bx_tx :: "btransaction \<Rightarrow> string option"
  bx_read_tx :: "string \<Rightarrow> btransaction option"

text \<open>Values that JSON keeps as they are: their texts are valid UTF-8.\<close>

definition sdk_text :: "sdk_map \<Rightarrow> bool" where
  "sdk_text m \<longleftrightarrow> (case m of None \<Rightarrow> True | Some f \<Rightarrow> \<forall>k v. fmlookup f k = Some v \<longrightarrow> valid_utf8 k \<and> valid_utf8 v)"

definition session_text :: "bsession \<Rightarrow> bool" where
  "session_text v \<longleftrightarrow> sdk_text (bs_SDK v) \<and> valid_utf8 (bs_Subject v) \<and> valid_utf8 (bs_Organization v) \<and> valid_utf8 (bs_Revision v) \<and> valid_utf8 (bs_CSRF v)"

definition tx_text :: "btransaction \<Rightarrow> bool" where
  "tx_text t \<longleftrightarrow> sdk_text (bt_SDK t) \<and> valid_utf8 (bt_Nonce t) \<and> valid_utf8 (bt_State t) \<and> valid_utf8 (bt_ReturnTo t)"

text \<open>
  What \<open>cipher.AEAD\<close> documents of AES-GCM, with its nonce of 12 and tag of 16 bytes, and what a JSON codec does to a
  value it has encoded. The additional data has to be the one that was sealed.
  (That a text does not open under another key is a statement about adversaries and not used.)
\<close>

definition box_ok :: "session_box \<Rightarrow> bool" where
  "box_ok B \<longleftrightarrow> bx_nonce_size B = 12 \<and>
     (\<forall>n p k. length n = 12 \<longrightarrow> length (bx_Seal B n p k) = length p + 16) \<and>
     (\<forall>n p k. length n = 12 \<longrightarrow> bx_Open B n (bx_Seal B n p k) k = Some p) \<and>
     (\<forall>v d. session_text v \<longrightarrow> bx_session B v = Some d \<longrightarrow> bx_read_session B d = Some v) \<and>
     (\<forall>v d. tx_text v \<longrightarrow> bx_tx B v = Some d \<longrightarrow> bx_read_tx B d = Some v)"

record bstore =
  st_prefix :: string
  st_box :: session_box

text \<open>The encoded value \<open>data\<close> (\<open>None\<close>: encoding failed) under the nonce that is read.\<close>

definition seal :: "bstore \<Rightarrow> string option \<Rightarrow> string \<Rightarrow> string option \<Rightarrow> berror + string" where
  "seal S nonce key data =
     (case data of None \<Rightarrow> Inl (errors_text ''json: unsupported value'')
      | Some d \<Rightarrow>
         if length d > 65536 then Inl (errors_text ''authentication value too large'')
         else (case nonce of None \<Rightarrow> Inl (errors_text ''unexpected EOF'')
               | Some n \<Rightarrow> Inr (n @ bx_Seal (st_box S) n d key)))"

definition open_sealed :: "bstore \<Rightarrow> string \<Rightarrow> string \<Rightarrow> (string \<Rightarrow> 'v option) \<Rightarrow> berror + 'v" where
  "open_sealed S key data unmarshal =
     (let n = bx_nonce_size (st_box S)
      in if length data < n \<or> length data > 66000 then Inl (errors_text ''invalid authentication value'')
         else case bx_Open (st_box S) (take n data) (drop n data) key of
           None \<Rightarrow> Inl (errors_text ''authentication value integrity failure'')
         | Some plain \<Rightarrow> (case unmarshal plain of None \<Rightarrow> Inl (errors_text ''json: cannot unmarshal'') | Some v \<Rightarrow> Inr v))"

section \<open>Identifiers\<close>

definition opaque_char :: "char \<Rightarrow> bool" where
  "opaque_char c \<longleftrightarrow> (let n = of_char c :: nat in
     (65 \<le> n \<and> n \<le> 90) \<or> (97 \<le> n \<and> n \<le> 122) \<or> (48 \<le> n \<and> n \<le> 57) \<or> n = 95 \<or> n = 45)"

definition opaquePattern :: "string \<Rightarrow> bool" where
  "opaquePattern s \<longleftrightarrow> length s = 43 \<and> list_all opaque_char s"

definition orgPattern :: "string \<Rightarrow> bool" where
  "orgPattern s \<longleftrightarrow> 1 \<le> length s \<and> length s \<le> 64 \<and> list_all opaque_char s"

text \<open>The 32 bytes that were read, in the URL alphabet without padding.\<close>

definition opaque :: "string option \<Rightarrow> berror + string" where
  "opaque ent =
     (case ent of None \<Rightarrow> Inl (errors_text ''system entropy unavailable'') | Some bytes \<Rightarrow> Inr (b64_encode (map of_char bytes)))"

text \<open>\<open>box\<close> makes the cipher of a key of 32 bytes.\<close>

definition newStore :: "(nat list \<Rightarrow> session_box) \<Rightarrow> string \<Rightarrow> string \<Rightarrow> berror + bstore" where
  "newStore box key prefix =
     (case b64_decode key of None \<Rightarrow> Inl (errors_text ''invalid session encryption key'')
      | Some raw \<Rightarrow> if length raw \<noteq> 32 then Inl (errors_text ''invalid session encryption key'')
                    else Inr \<lparr>st_prefix = prefix, st_box = box raw\<rparr>)"

definition txKey :: "bstore \<Rightarrow> string \<Rightarrow> string" where "txKey S i = st_prefix S @ ''tx:'' @ i"
definition sessionKey :: "bstore \<Rightarrow> string \<Rightarrow> string" where "sessionKey S i = st_prefix S @ ''s:'' @ i"
definition lockKey :: "bstore \<Rightarrow> string \<Rightarrow> string" where "lockKey S i = st_prefix S @ ''lock:'' @ i"

section \<open>Login transactions\<close>

definition start_tx ::
  "bstore \<Rightarrow> 'r redis \<Rightarrow> net \<Rightarrow> string option \<Rightarrow> string option \<Rightarrow> btransaction \<Rightarrow> 'r \<Rightarrow> (berror + string) \<times> 'r" where
  "start_tx S R n ent nonce tx r =
     (case opaque ent of Inl e \<Rightarrow> (Inl e, r)
      | Inr i \<Rightarrow>
         (case seal S nonce (txKey S i) (bx_tx (st_box S) tx) of Inl e \<Rightarrow> (Inl e, r)
          | Inr data \<Rightarrow>
             (case via_net n (r_call R (SET_PX (txKey S i) data (itoa (milliseconds (5 * minute))))) r of
                (Inl _, r') \<Rightarrow> (Inl redisRaw, r') | (Inr _, r') \<Rightarrow> (Inr i, r'))))"

definition consume :: "bstore \<Rightarrow> 'r redis \<Rightarrow> net \<Rightarrow> string \<Rightarrow> 'r \<Rightarrow> (berror + btransaction) \<times> 'r" where
  "consume S R n i r =
     (if \<not> opaquePattern i then (Inl errMissing, r)
      else case via_net n (r_call R (GETDEL (txKey S i))) r of
        (Inr (RBulk data), r') \<Rightarrow> (open_sealed S (txKey S i) data (bx_read_tx (st_box S)), r')
      | (Inr RNil, r') \<Rightarrow> (Inl errMissing, r')
      | (_, r') \<Rightarrow> (Inl redisRaw, r'))"

section \<open>Sessions\<close>

definition createScript :: "(redis_command \<Rightarrow> ('r, redis_reply) cmd) \<Rightarrow> string list \<Rightarrow> string list \<Rightarrow> ('r, int) cmd" where
  "createScript call KEYS ARGV =
     cmd_bind (call (SET_PX (KEYS ! 0) (ARGV ! 0) (ARGV ! 1))) (\<lambda>_.
     cmd_bind (call (DEL (KEYS ! 1))) (\<lambda>_. cmd_return 1))"

text \<open>The new identifier is returned together with the error.\<close>

definition create ::
  "bstore \<Rightarrow> 'r redis \<Rightarrow> net \<Rightarrow> time \<Rightarrow> string option \<Rightarrow> string option \<Rightarrow> bsession \<Rightarrow> string \<Rightarrow> 'r \<Rightarrow> (string \<times> berror option) \<times> 'r" where
  "create S R n now ent nonce value previous r =
     (case sessionDeadline (Some value) now of Inl e \<Rightarrow> (([], Some e), r)
      | Inr deadline \<Rightarrow>
     (case opaque ent of Inl e \<Rightarrow> (([], Some e), r)
      | Inr i \<Rightarrow>
     (case seal S nonce (sessionKey S i) (bx_session (st_box S) value) of Inl e \<Rightarrow> (([], Some e), r)
      | Inr data \<Rightarrow>
         let prev = (if opaquePattern previous then previous else ''absent'')
         in case via_net n (createScript (r_call R) [sessionKey S i, sessionKey S prev] [data, itoa (milliseconds (deadline - now))]) r of
              (Inl _, r') \<Rightarrow> ((i, Some redisRaw), r') | (Inr _, r') \<Rightarrow> ((i, None), r'))))"

datatype lua_value = LInt int | LStr string

definition lua_px :: "string \<Rightarrow> ('r, int) cmd" where
  "lua_px s = (case redis_int s of None \<Rightarrow> cmd_raise not_integer | Some n \<Rightarrow> cmd_return n)"

definition acquireScript :: "(redis_command \<Rightarrow> ('r, redis_reply) cmd) \<Rightarrow> string list \<Rightarrow> string list \<Rightarrow> ('r, lua_value list) cmd" where
  "acquireScript call KEYS ARGV =
     cmd_bind (call (GET (KEYS ! 1))) (\<lambda>data.
     if data = RNil then cmd_return [LInt (-1)] else
     cmd_bind (lua_px (ARGV ! 1)) (\<lambda>ms.
     cmd_bind (call (SETNX_EX (KEYS ! 0) (ARGV ! 0) ms)) (\<lambda>locked.
     if locked = RNil then cmd_return [LInt 0] else
     cmd_return [LInt 1, LStr (case data of RBulk d \<Rightarrow> d | _ \<Rightarrow> [])])))"

definition releaseScript :: "(redis_command \<Rightarrow> ('r, redis_reply) cmd) \<Rightarrow> string list \<Rightarrow> string list \<Rightarrow> ('r, redis_reply) cmd" where
  "releaseScript call KEYS ARGV =
     cmd_bind (call (GET (KEYS ! 0))) (\<lambda>v. if v = RBulk (ARGV ! 0) then call (DEL (KEYS ! 0)) else cmd_return (RInt 0))"

definition release_lease :: "bstore \<Rightarrow> 'r redis \<Rightarrow> net \<Rightarrow> string \<Rightarrow> string \<Rightarrow> 'r \<Rightarrow> 'r" where
  "release_lease S R n i owner r = snd (via_net n (releaseScript (r_call R) [lockKey S i] [owner]) r)"

text \<open>\<open>jitter\<close> is the random number of nanoseconds.\<close>

definition sessionAcquireRetryDelay :: "nat \<Rightarrow> duration \<Rightarrow> duration" where
  "sessionAcquireRetryDelay jitter remaining =
     (let delay = sessionAcquireRetryMin + int jitter in if delay > remaining then remaining else delay)"

text \<open>
  A round of the loop of \<open>acquire\<close>: the fates of its requests, the time up to the answer, the random delay, an
  end of the context during the delay, and what the server goes through in it.
\<close>

record 'r acquire_round =
  rd_eval :: net
  rd_release :: net
  rd_elapsed :: duration
  rd_jitter :: nat
  rd_done :: "ctx_err option"
  rd_others :: "'r \<Rightarrow> 'r"

text \<open>What is made of an answer that grants the lease.\<close>

definition read_leased :: "bstore \<Rightarrow> string \<Rightarrow> time \<Rightarrow> string \<Rightarrow> berror + bsession" where
  "read_leased S i now data =
     (case open_sealed S (sessionKey S i) data (bx_read_session (st_box S)) of Inl e \<Rightarrow> Inl e
      | Inr v \<Rightarrow> (case sessionDeadline (Some v) now of Inl e \<Rightarrow> Inl e | Inr _ \<Rightarrow> Inr v))"

text \<open>One request of the loop: the end of the loop, or \<open>None\<close> when another owner has the lease.\<close>

definition acquire_try ::
  "bstore \<Rightarrow> 'r redis \<Rightarrow> net \<Rightarrow> net \<Rightarrow> time \<Rightarrow> string \<Rightarrow> string \<Rightarrow> 'r \<Rightarrow> (berror + bsession) option \<times> 'r" where
  "acquire_try S R n n2 now i owner r =
     (case via_net n (acquireScript (r_call R) [lockKey S i, sessionKey S i] [owner, itoa (milliseconds (30 * second))]) r of
        (Inl _, r1) \<Rightarrow> (Some (Inl redisFailure), release_lease S R n2 i owner r1)
      | (Inr [], r1) \<Rightarrow>
          (Some (Inl (errors_text ''acquire authentication session: invalid script response'')), release_lease S R n2 i owner r1)
      | (Inr (LStr _ # _), r1) \<Rightarrow>
          (Some (Inl (errors_text ''acquire authentication session: invalid script status'')), release_lease S R n2 i owner r1)
      | (Inr (LInt status # rest), r1) \<Rightarrow>
          if status = -1 then (Some (Inl errMissing), r1)
          else if status = 0 then (None, r1)
          else if status = 1 then
            (case rest of
               [LStr data] \<Rightarrow>
                 (case read_leased S i now data of Inl e \<Rightarrow> (Some (Inl e), release_lease S R n2 i owner r1)
                  | Inr v \<Rightarrow> (Some (Inr v), r1))
             | [_] \<Rightarrow> (Some (Inl (errors_text ''acquire authentication session: invalid script payload'')), release_lease S R n2 i owner r1)
             | _ \<Rightarrow> (Some (Inl (errors_text ''acquire authentication session: invalid script data'')), release_lease S R n2 i owner r1))
          else (Some (Inl (errors_text ''acquire authentication session: unknown script status'')), release_lease S R n2 i owner r1))"

fun acquire_loop ::
  "bstore \<Rightarrow> 'r redis \<Rightarrow> string \<Rightarrow> string \<Rightarrow> time \<Rightarrow> time \<Rightarrow> 'r acquire_round list \<Rightarrow> 'r \<Rightarrow> ((berror + bsession) \<times> 'r) option" where
  "acquire_loop S R i owner deadline now [] r = None"
| "acquire_loop S R i owner deadline now (rd # rds) r =
     (let t = now + rd_elapsed rd
      in case acquire_try S R (rd_eval rd) (rd_release rd) t i owner r of
           (Some out, r1) \<Rightarrow> Some (out, r1)
         | (None, r1) \<Rightarrow>
             let remaining = deadline - t
             in if remaining \<le> 0 then Some (Inl errBusy, r1)
                else case rd_done rd of Some e \<Rightarrow> Some (Inl (ctx_berror e), r1)
                | None \<Rightarrow> acquire_loop S R i owner deadline (t + sessionAcquireRetryDelay (rd_jitter rd) remaining) rds (rd_others rd r1))"

text \<open>The session and its owner; \<open>None\<close> means that the rounds given have not been enough.\<close>

definition acquire_session ::
  "bstore \<Rightarrow> 'r redis \<Rightarrow> string option \<Rightarrow> time \<Rightarrow> 'r acquire_round list \<Rightarrow> string \<Rightarrow> 'r \<Rightarrow> ((berror + bsession \<times> string) \<times> 'r) option" where
  "acquire_session S R ent now rounds i r =
     (if \<not> opaquePattern i then Some (Inl errMissing, r)
      else case opaque ent of Inl e \<Rightarrow> Some (Inl e, r)
      | Inr owner \<Rightarrow>
         map_option (\<lambda>(out, r'). (map_sum id (\<lambda>v. (v, owner)) out, r'))
           (acquire_loop S R i owner (now + authenticationTimeout) now rounds r))"

definition commitScript :: "(redis_command \<Rightarrow> ('r, redis_reply) cmd) \<Rightarrow> string list \<Rightarrow> string list \<Rightarrow> ('r, int) cmd" where
  "commitScript call KEYS ARGV =
     cmd_bind (call (GET (KEYS ! 0))) (\<lambda>owner.
     if owner \<noteq> RBulk (ARGV ! 0) then cmd_return 0 else
     cmd_bind (call (EXISTS (KEYS ! 1))) (\<lambda>ex. if ex = RInt 0 then cmd_return 0 else
     cmd_bind (if ARGV ! 4 = ''1'' then call (DEL (KEYS ! 1))
               else cmd_bind (call (SET_PX (KEYS ! 2) (ARGV ! 1) (ARGV ! 2))) (\<lambda>_.
                    if KEYS ! 1 \<noteq> KEYS ! 2 then call (DEL (KEYS ! 1)) else cmd_return RNil)) (\<lambda>_.
     cmd_bind (call (DEL (KEYS ! 0))) (\<lambda>_. cmd_return 1))))"

definition commit_ttl :: "bsession \<Rightarrow> time \<Rightarrow> bool \<Rightarrow> berror + int" where
  "commit_ttl value now remove =
     (if remove then Inr 0
      else case sessionDeadline (Some value) now of Inl e \<Rightarrow> Inl e | Inr deadline \<Rightarrow> Inr (milliseconds (deadline - now)))"

definition commit_failed :: "berror \<Rightarrow> berror" where
  "commit_failed e = GoError (''commit authentication state: '' @ error_text e) (error_chain e)"

definition commit_session ::
  "bstore \<Rightarrow> 'r redis \<Rightarrow> net \<Rightarrow> time \<Rightarrow> string option \<Rightarrow> string \<Rightarrow> string \<Rightarrow> string \<Rightarrow> bsession \<Rightarrow> bool \<Rightarrow> 'r \<Rightarrow> berror option \<times> 'r" where
  "commit_session S R n now nonce i owner nxt value remove r =
     (case validateSessionSchema (Some value) now of Some e \<Rightarrow> (Some e, r)
      | None \<Rightarrow>
     (case seal S nonce (sessionKey S nxt) (bx_session (st_box S) value) of Inl e \<Rightarrow> (Some e, r)
      | Inr data \<Rightarrow>
     (case commit_ttl value now remove of Inl e \<Rightarrow> (Some e, r)
      | Inr ttl \<Rightarrow>
     (case via_net n (commitScript (r_call R) [lockKey S i, sessionKey S i, sessionKey S nxt]
              [owner, data, itoa ttl, [], if remove then ''1'' else ''0'']) r of
        (Inl _, r') \<Rightarrow> (Some (commit_failed redisFailure), r')
      | (Inr result, r') \<Rightarrow> (if result \<noteq> 1 then Some errMissing else None, r')))))"

end
