(* ===== verification/Session_Machine.thy ===== *)
theory Session_Machine
  imports Session_Store Step_Invariant
begin

text \<open>
  The session store under any number of clients. The scripts are read at the level of the documented contents; then
  \<open>store_step\<close> lets the requests of all clients and the time go on in any order, where new identifiers are not among
  \<open>taken\<close> and nobody but one client uses the owner \<open>me\<close>. Its invariant says what the lease of that client protects.
\<close>

section \<open>The scripts on the contents\<close>

lemma script_sims_session:
  assumes "redis_ok R"
  shows "cmd_sim R (createScript (r_call R) K A) (createScript redis_doc K A)"
    "cmd_sim R (acquireScript (r_call R) K A) (acquireScript redis_doc K A)"
    "cmd_sim R (releaseScript (r_call R) K A) (releaseScript redis_doc K A)"
    "cmd_sim R (commitScript (r_call R) K A) (commitScript redis_doc K A)"
  unfolding createScript_def acquireScript_def releaseScript_def commitScript_def lua_px_def
  by (intro svc_laws assms)+

text \<open>The owner of a lease and the stored text of a session.\<close>

definition held_by :: "redis_db \<Rightarrow> string \<Rightarrow> string \<Rightarrow> bool" where
  "held_by db k owner \<longleftrightarrow> (\<exists>d. db_live db k = Some (RString owner, d))"

definition text_at :: "redis_db \<Rightarrow> string \<Rightarrow> string option" where
  "text_at db k = (case db_live db k of Some (RString d, _) \<Rightarrow> Some d | _ \<Rightarrow> None)"

lemma GET_held: "fst (redis_doc (GET k) db) = Inr (RBulk v) \<longleftrightarrow> held_by db k v"
  by (auto simp: held_by_def split: option.splits redis_value.splits)

lemma acquire_doc:
  "acquireScript redis_doc [l, k] [owner, itoa 30000] db =
    (case db_live db k of None \<Rightarrow> (Inr [LInt (-1)], db)
     | Some (RString d, _) \<Rightarrow>
         if db_live db l \<noteq> None then (Inr [LInt 0], db)
         else (Inr [LInt 1, LStr d], db_put l (RString owner, Some (db_clock db + 30000)) db)
     | Some _ \<Rightarrow> (Inl wrong_type, db))"
  by (simp add: acquireScript_def cmd_bind_def cmd_return_def lua_px_def int64_def split: option.splits redis_value.splits)

lemma release_doc:
  "snd (releaseScript redis_doc [l] [owner] db) = (if held_by db l owner then db_del l db else db)"
  by (auto simp: releaseScript_def cmd_bind_def cmd_return_def held_by_def split: option.splits redis_value.splits)

text \<open>A commit changes the contents only under the lease and while the session exists.\<close>

definition committed_db :: "string \<Rightarrow> string \<Rightarrow> string \<Rightarrow> string \<Rightarrow> int \<Rightarrow> bool \<Rightarrow> redis_db \<Rightarrow> redis_db" where
  "committed_db l k kn data ttl remove db =
     db_del l (if remove then db_del k db
               else let db' = db_put kn (RString data, Some (db_clock db + ttl)) db in if k \<noteq> kn then db_del k db' else db')"

lemma commit_doc:
  assumes "l \<noteq> k" "l \<noteq> kn" and "int64 ttl" and b: "b = (if remove then ''1'' else ''0'')"
  shows "commitScript redis_doc [l, k, kn] [owner, data, itoa ttl, [], b] db =
    (if held_by db l owner \<and> db_live db k \<noteq> None \<and> (remove \<or> 0 < ttl)
     then (Inr 1, committed_db l k kn data ttl remove db)
     else (fst (commitScript redis_doc [l, k, kn] [owner, data, itoa ttl, [], b] db), db)) \<and>
    (fst (commitScript redis_doc [l, k, kn] [owner, data, itoa ttl, [], b] db) = Inr 1 \<longrightarrow>
     held_by db l owner \<and> db_live db k \<noteq> None \<and> (remove \<or> 0 < ttl))"
  using assms
  by (auto simp: commitScript_def cmd_bind_def cmd_return_def held_by_def committed_db_def Let_def
      split: option.splits redis_value.splits)

lemma create_doc:
  assumes "int64 ttl"
  shows "createScript redis_doc [kn, kp] [data, itoa ttl] db =
    (if 0 < ttl then (Inr 1, db_del kp (db_put kn (RString data, Some (db_clock db + ttl)) db))
     else (fst (createScript redis_doc [kn, kp] [data, itoa ttl] db), db))"
  using assms by (simp add: createScript_def cmd_bind_def cmd_return_def)

section \<open>The operations on the contents\<close>

lemma key_simps [simp]:
  "sessionKey S i = sessionKey S j \<longleftrightarrow> i = j" "lockKey S i = lockKey S j \<longleftrightarrow> i = j" "txKey S i = txKey S j \<longleftrightarrow> i = j"
  "sessionKey S i \<noteq> lockKey S j" "lockKey S i \<noteq> sessionKey S j" "sessionKey S i \<noteq> txKey S j" "txKey S i \<noteq> sessionKey S j"
  "lockKey S i \<noteq> txKey S j" "txKey S i \<noteq> lockKey S j"
  by (simp_all add: sessionKey_def lockKey_def txKey_def)

lemma lease_ms [simp]: "milliseconds (30 * second) = 30000"
  by (simp add: milliseconds_def second_def millisecond_def go_div_def)

lemma schema_facts:
  assumes "validateSessionSchema (Some v) now = None"
  shows "bs_AuthenticatedAt v \<le> now" "bs_AuthenticatedAt v \<le> bs_IdleUntil v" "bs_IdleUntil v \<le> bs_AbsoluteUntil v"
    "bs_AbsoluteUntil v = bs_AuthenticatedAt v + sessionAbsoluteLifetime" "bs_Until v = bs_IdleUntil v" "bs_PolicyVersion v = sessionPolicyVersion"
  using assms by (auto simp: validateSessionSchema_def split: if_splits)

lemma sessionDeadline_facts:
  assumes "sessionDeadline (Some v) now = Inr d"
  shows "d = bs_IdleUntil v" "now < d" "d - now \<le> sessionAbsoluteLifetime" "validateSessionSchema (Some v) now = None"
proof -
  show sch: "validateSessionSchema (Some v) now = None" using assms by (auto simp: sessionDeadline_def split: option.splits)
  note f = schema_facts [OF sch]
  show d: "d = bs_IdleUntil v" "now < d" using assms f(3) sch by (auto simp: sessionDeadline_def Let_def split: if_splits)
  show "d - now \<le> sessionAbsoluteLifetime" using f d by linarith
qed

lemma ttl_bounds:
  assumes "sessionDeadline (Some v) now = Inr d"
  shows "0 \<le> milliseconds (d - now)" "milliseconds (d - now) \<le> 604800000" "int64 (milliseconds (d - now))"
proof -
  have b: "0 < d - now" "d - now \<le> 604800 * second" using sessionDeadline_facts [OF assms] by (simp_all add: lifetime_defs)
  then show 1: "0 \<le> milliseconds (d - now)" "milliseconds (d - now) \<le> 604800000"
    by (simp_all add: milliseconds_def go_div_nonneg millisecond_def second_def)
  then show "int64 (milliseconds (d - now))" by (simp add: int64_def)
qed

lemma release_effect:
  assumes "redis_ok R"
  shows "r_db R (release_lease S R n i owner r) = r_db R r \<or>
    r_db R (release_lease S R n i owner r) = (if held_by (r_db R r) (lockKey S i) owner then db_del (lockKey S i) (r_db R r) else r_db R r)"
  using net_sim(1) [OF script_sims_session(3) [OF assms], of n "[lockKey S i]" "[owner]" r]
  by (auto simp: release_lease_def release_doc prod_eq_iff)

text \<open>One request for a lease: the lock is taken when it was free, or taken and given back, or nothing changes.\<close>

lemma acquire_effect:
  assumes ok: "redis_ok R" and out: "acquire_try S R n n2 now i owner r = (res, r')"
  shows "(\<exists>v. res = Some (Inr v) \<and> db_live (r_db R r) (lockKey S i) = None \<and>
       (\<exists>data. text_at (r_db R r) (sessionKey S i) = Some data \<and> read_leased S i now data = Inr v) \<and>
       r_db R r' = db_put (lockKey S i) (RString owner, Some (db_clock (r_db R r) + 30000)) (r_db R r)) \<or>
     (\<forall>v. res \<noteq> Some (Inr v)) \<and>
       (r_db R r' = r_db R r \<or>
        db_live (r_db R r) (lockKey S i) = None \<and>
          (r_db R r' = db_put (lockKey S i) (RString owner, Some (db_clock (r_db R r) + 30000)) (r_db R r) \<or>
           r_db R r' = db_del (lockKey S i) (db_put (lockKey S i) (RString owner, Some (db_clock (r_db R r) + 30000)) (r_db R r))) \<or>
        held_by (r_db R r) (lockKey S i) owner \<and> r_db R r' = db_del (lockKey S i) (r_db R r))"
proof -
  let ?l = "lockKey S i" and ?k = "sessionKey S i" and ?db = "r_db R r"
  let ?taken = "db_put ?l (RString owner, Some (db_clock ?db + 30000)) ?db"
  obtain q r1 where q: "via_net n (acquireScript (r_call R) [?l, ?k] [owner, itoa 30000]) r = (q, r1)" by (meson surj_pair)
  note sim = net_sim [OF script_sims_session(2) [OF ok] q]
  have doc: "snd (acquireScript redis_doc [?l, ?k] [owner, itoa 30000] ?db) = ?db \<or>
      db_live ?db ?l = None \<and> snd (acquireScript redis_doc [?l, ?k] [owner, itoa 30000] ?db) = ?taken"
    by (auto simp: acquire_doc split: option.splits redis_value.splits)
  have r1: "r_db R r1 = ?db \<or> db_live ?db ?l = None \<and> r_db R r1 = ?taken" using sim(1) doc by auto
  have rel: "r_db R (release_lease S R n2 i owner r1) = ?db \<or>
      db_live ?db ?l = None \<and> (r_db R (release_lease S R n2 i owner r1) = ?taken \<or> r_db R (release_lease S R n2 i owner r1) = db_del ?l ?taken) \<or>
      held_by ?db ?l owner \<and> r_db R (release_lease S R n2 i owner r1) = db_del ?l ?db"
    using release_effect [OF ok, of S n2 i owner r1] r1 by (auto simp: held_by_def split: if_splits)
  show ?thesis
  proof (cases "\<exists>v. res = Some (Inr v)")
    case True
    then obtain v data where v: "res = Some (Inr v)" "q = Inr [LInt 1, LStr data]" "read_leased S i now data = Inr v" "r' = r1"
      using out q by (auto simp: acquire_try_def split: sum.splits list.splits lua_value.splits if_splits)
    have "db_live ?db ?l = None" "text_at ?db ?k = Some data" "r_db R r1 = ?taken"
      using sim(2) [OF v(2)] by (cases "db_live ?db ?l"; auto simp: acquire_doc text_at_def split: option.splits redis_value.splits if_splits)+
    with v show ?thesis by blast
  next
    case False
    have "r' = r1 \<or> r' = release_lease S R n2 i owner r1"
      using out q by (auto simp: acquire_try_def split: sum.splits list.splits lua_value.splits if_splits)
    with False r1 rel show ?thesis by auto
  qed
qed

lemma commit_effect:
  assumes ok: "redis_ok R" and out: "commit_session S R n now nonce i owner nxt v remove r = (e, r')"
  shows "(\<exists>data ttl. held_by (r_db R r) (lockKey S i) owner \<and> db_live (r_db R r) (sessionKey S i) \<noteq> None \<and>
       seal S nonce (sessionKey S nxt) (bx_session (st_box S) v) = Inr data \<and> validateSessionSchema (Some v) now = None \<and>
       (\<not> remove \<longrightarrow> (\<exists>d. sessionDeadline (Some v) now = Inr d \<and> ttl = milliseconds (d - now) \<and> 0 < ttl)) \<and>
       r_db R r' = committed_db (lockKey S i) (sessionKey S i) (sessionKey S nxt) data ttl remove (r_db R r)) \<or>
     e \<noteq> None \<and> r_db R r' = r_db R r"
proof (cases "\<exists>data ttl. validateSessionSchema (Some v) now = None \<and> seal S nonce (sessionKey S nxt) (bx_session (st_box S) v) = Inr data \<and> commit_ttl v now remove = Inr ttl")
  case True
  then obtain data ttl where d: "validateSessionSchema (Some v) now = None" "seal S nonce (sessionKey S nxt) (bx_session (st_box S) v) = Inr data"
    "commit_ttl v now remove = Inr ttl" by blast
  let ?args = "[owner, data, itoa ttl, [], if remove then ''1'' else ''0'']" and ?keys = "[lockKey S i, sessionKey S i, sessionKey S nxt]" and ?db = "r_db R r"
  have ttl: "int64 ttl" "\<not> remove \<Longrightarrow> \<exists>x. sessionDeadline (Some v) now = Inr x \<and> ttl = milliseconds (x - now)"
    using d(3) ttl_bounds [of v now] by (auto simp: commit_ttl_def int64_def split: if_splits sum.splits)
  obtain q r1 where q: "via_net n (commitScript (r_call R) ?keys ?args) r = (q, r1)" by (meson surj_pair)
  note sim = net_sim [OF script_sims_session(4) [OF ok] q]
  note doc = commit_doc [where l = "lockKey S i" and k = "sessionKey S i" and kn = "sessionKey S nxt" and remove = remove and owner = owner and data = data and db = ?db,
      OF key_simps(5) key_simps(5) ttl(1) refl]
  have r': "r' = r1" "e = None \<Longrightarrow> q = Inr 1" using out q d by (auto simp: commit_session_def split: sum.splits if_splits)
  show ?thesis
  proof (cases "held_by ?db (lockKey S i) owner \<and> db_live ?db (sessionKey S i) \<noteq> None \<and> (remove \<or> 0 < ttl)")
    case True
    then have "snd (commitScript redis_doc ?keys ?args ?db) = committed_db (lockKey S i) (sessionKey S i) (sessionKey S nxt) data ttl remove ?db"
      using doc by (metis snd_conv)
    then have "r_db R r' = ?db \<and> q \<noteq> Inr 1 \<or> r_db R r' = committed_db (lockKey S i) (sessionKey S i) (sessionKey S nxt) data ttl remove ?db"
      using sim(1,2) r'(1) by auto
    then show ?thesis using True d ttl(2) r'(2) by blast
  next
    case False
    then have "snd (commitScript redis_doc ?keys ?args ?db) = ?db" "fst (commitScript redis_doc ?keys ?args ?db) \<noteq> Inr 1"
      using doc by (metis snd_conv, blast)
    then have "r_db R r' = ?db" "e \<noteq> None" using sim(1,2) r' by auto
    then show ?thesis by blast
  qed
next
  case False
  then have "e \<noteq> None" "r' = r" using out
    by (cases "validateSessionSchema (Some v) now"; auto simp: commit_session_def split: sum.splits)+
  then show ?thesis by simp
qed

lemma create_effect:
  assumes ok: "redis_ok R" and out: "create S R n now ent nonce v previous r = ((i, e), r')"
  shows "e \<noteq> None \<and> r_db R r' = r_db R r \<or>
    (\<exists>data d. opaque ent = Inr i \<and> seal S nonce (sessionKey S i) (bx_session (st_box S) v) = Inr data \<and> sessionDeadline (Some v) now = Inr d \<and>
       0 < milliseconds (d - now) \<and>
       r_db R r' = db_del (sessionKey S (if opaquePattern previous then previous else ''absent'')) (db_put (sessionKey S i) (RString data, Some (db_clock (r_db R r) + milliseconds (d - now))) (r_db R r)))"
proof (cases "\<exists>data d j. opaque ent = Inr j \<and> seal S nonce (sessionKey S j) (bx_session (st_box S) v) = Inr data \<and> sessionDeadline (Some v) now = Inr d")
  case True
  then obtain data d j where d: "opaque ent = Inr j" "seal S nonce (sessionKey S j) (bx_session (st_box S) v) = Inr data" "sessionDeadline (Some v) now = Inr d" by blast
  define prev where "prev = (if opaquePattern previous then previous else ''absent'')"
  let ?ttl = "milliseconds (d - now)" and ?db = "r_db R r"
  obtain q r1 where q: "via_net n (createScript (r_call R) [sessionKey S j, sessionKey S prev] [data, itoa ?ttl]) r = (q, r1)" by (meson surj_pair)
  note sim = net_sim [OF script_sims_session(1) [OF ok] q]
  have r': "r' = r1" "i = j" "e = None \<Longrightarrow> \<exists>x. q = Inr x" using out q d by (auto simp: create_def Let_def prev_def split: sum.splits)
  note doc = create_doc [OF ttl_bounds(3) [OF d(3)], of "sessionKey S j" "sessionKey S prev" data ?db]
  show ?thesis
  proof (cases "0 < ?ttl")
    case True
    then have doc': "createScript redis_doc [sessionKey S j, sessionKey S prev] [data, itoa ?ttl] ?db =
        (Inr 1, db_del (sessionKey S prev) (db_put (sessionKey S j) (RString data, Some (db_clock ?db + ?ttl)) ?db))" using doc by simp
    then have "r_db R r' = ?db \<and> e \<noteq> None \<or> r_db R r' = db_del (sessionKey S prev) (db_put (sessionKey S j) (RString data, Some (db_clock ?db + ?ttl)) ?db)"
      using sim(1,2) r' by (metis snd_conv)
    then show ?thesis using d True r'(2) unfolding prev_def by blast
  next
    case False
    then have "\<not> ?ttl > 0" .
    then have bad: "fst (createScript redis_doc [sessionKey S j, sessionKey S prev] [data, itoa ?ttl] ?db) \<noteq> Inr x" for x
      using ttl_bounds(3) [OF d(3)] by (simp add: createScript_def cmd_bind_def)
    then have "e \<noteq> None" "r_db R r' = ?db" using sim(1,2) r' doc False by (metis snd_conv)+
    then show ?thesis by simp
  qed
next
  case False
  then have "e \<noteq> None" "r' = r" using out by (auto simp: create_def split: option.splits sum.splits)
  then show ?thesis by simp
qed

lemma start_effect:
  assumes ok: "redis_ok R" and out: "start_tx S R n ent nonce tx r = (res, r')"
  shows "(\<forall>i. res \<noteq> Inr i) \<and> r_db R r' = r_db R r \<or>
    (\<exists>j data. opaque ent = Inr j \<and> seal S nonce (txKey S j) (bx_tx (st_box S) tx) = Inr data \<and>
       r_db R r' = db_put (txKey S j) (RString data, Some (db_clock (r_db R r) + 300000)) (r_db R r))"
proof (cases "\<exists>j data. opaque ent = Inr j \<and> seal S nonce (txKey S j) (bx_tx (st_box S) tx) = Inr data")
  case True
  then obtain j data where d: "opaque ent = Inr j" "seal S nonce (txKey S j) (bx_tx (st_box S) tx) = Inr data" by blast
  have ms: "milliseconds (5 * minute) = 300000" by (simp add: milliseconds_def minute_def second_def millisecond_def go_div_def)
  obtain q r1 where q: "via_net n (r_call R (SET_PX (txKey S j) data (itoa 300000))) r = (q, r1)" by (meson surj_pair)
  then have r': "r' = r1" "\<And>i. res = Inr i \<Longrightarrow> \<exists>x. q = Inr x" using out d by (auto simp: start_tx_def ms split: sum.splits)
  have doc: "redis_doc (SET_PX (txKey S j) data (itoa 300000)) (r_db R r) =
      (Inr ROk, db_put (txKey S j) (RString data, Some (db_clock (r_db R r) + 300000)) (r_db R r))"
    by (simp add: int64_def)
  show ?thesis using net_sim(1,2) [OF r_call_sim [OF ok] q] r' d unfolding doc by auto
next
  case False
  then show ?thesis using out by (auto simp: start_tx_def split: sum.splits)
qed

lemma consume_effect:
  assumes ok: "redis_ok R" and out: "consume S R n i r = (res, r')"
  shows "r_db R r' = r_db R r \<and> (\<forall>tx. res \<noteq> Inr tx) \<or>
    (\<exists>data. text_at (r_db R r) (txKey S i) = Some data \<and> r_db R r' = db_del (txKey S i) (r_db R r) \<and>
       (\<forall>tx. res = Inr tx \<longrightarrow> open_sealed S (txKey S i) data (bx_read_tx (st_box S)) = Inr tx))"
proof (cases "opaquePattern i")
  case True
  let ?db = "r_db R r"
  obtain q r1 where q: "via_net n (r_call R (GETDEL (txKey S i))) r = (q, r1)" by (meson surj_pair)
  note sim = net_sim [OF r_call_sim [OF ok] q]
  have r': "r' = r1" "\<And>tx. res = Inr tx \<Longrightarrow> \<exists>data. q = Inr (RBulk data) \<and> open_sealed S (txKey S i) data (bx_read_tx (st_box S)) = Inr tx"
    using out True q by (auto simp: consume_def split: sum.splits redis_reply.splits)
  show ?thesis
  proof (cases "\<exists>data. text_at ?db (txKey S i) = Some data")
    case True
    then obtain data d where d: "db_live ?db (txKey S i) = Some (RString data, d)" "text_at ?db (txKey S i) = Some data"
      by (auto simp: text_at_def split: option.splits redis_value.splits)
    then have "r_db R r1 = ?db \<and> (\<forall>v. q \<noteq> Inr v) \<or> r_db R r1 = db_del (txKey S i) ?db \<and> (\<forall>v. q = Inr v \<longrightarrow> v = RBulk data)"
      using sim(1,2) by (cases q) auto
    with d(2) r' show ?thesis by fastforce
  next
    case False
    then have s: "snd (redis_doc (GETDEL (txKey S i)) ?db) = ?db" and f: "fst (redis_doc (GETDEL (txKey S i)) ?db) \<noteq> Inr (RBulk v)" for v
      by (auto simp: text_at_def split: option.splits redis_value.splits)
    have "res \<noteq> Inr tx" for tx
    proof
      assume "res = Inr tx"
      then obtain data where "q = Inr (RBulk data)" using r'(2) by blast
      from sim(2) [OF this] f show False by blast
    qed
    moreover have "r_db R r' = ?db" using sim(1) r'(1) unfolding s by blast
    ultimately show ?thesis by blast
  qed
qed (use out in \<open>auto simp: consume_def\<close>)

section \<open>Interleaved clients\<close>

inductive store_step :: "bstore \<Rightarrow> 'r redis \<Rightarrow> string \<Rightarrow> string set \<Rightarrow> 'r \<Rightarrow> 'r \<Rightarrow> bool" for S R me taken where
  other_acquires: "owner \<noteq> me \<Longrightarrow> acquire_try S R n n2 now j owner r = (res, r') \<Longrightarrow> store_step S R me taken r r'"
| other_releases: "owner \<noteq> me \<Longrightarrow> store_step S R me taken r (release_lease S R n j owner r)"
| other_commits: "owner \<noteq> me \<Longrightarrow> nxt = j \<or> nxt \<notin> taken \<Longrightarrow> commit_session S R n now nonce j owner nxt v remove r = (e, r') \<Longrightarrow>
    store_step S R me taken r r'"
| session_created: "create S R n now ent nonce v previous r = ((j, e), r') \<Longrightarrow> j \<notin> taken \<or> r' = r \<Longrightarrow> store_step S R me taken r r'"
| login_started: "\<forall>j. opaque ent = Inr j \<longrightarrow> j \<notin> taken \<Longrightarrow> start_tx S R n ent nonce tx r = (out, r') \<Longrightarrow> store_step S R me taken r r'"
| login_consumed: "consume S R n j r = (tx, r') \<Longrightarrow> store_step S R me taken r r'"
| time_goes_on: "0 \<le> ms \<Longrightarrow> store_step S R me taken r (r_wait R ms r)"

text \<open>
  What a step of the others may do to an identifier that is taken: a session or transaction that is gone stays gone, the lease of
  \<open>me\<close> is only lost, and under it the text of the session stays or disappears.
\<close>

definition spares :: "bstore \<Rightarrow> string \<Rightarrow> string \<Rightarrow> redis_db \<Rightarrow> redis_db \<Rightarrow> bool" where
  "spares S me i db db' \<longleftrightarrow>
     (db_live db (sessionKey S i) = None \<longrightarrow> db_live db' (sessionKey S i) = None) \<and>
     (db_live db (txKey S i) = None \<longrightarrow> db_live db' (txKey S i) = None) \<and>
     (held_by db' (lockKey S i) me \<longrightarrow> held_by db (lockKey S i) me) \<and>
     (held_by db (lockKey S i) me \<longrightarrow> db_live db' (sessionKey S i) = None \<or> text_at db' (sessionKey S i) = text_at db (sessionKey S i))"

lemma spares_cong:
  assumes "db_live db' (sessionKey S i) = db_live db (sessionKey S i)" "db_live db' (lockKey S i) = db_live db (lockKey S i)"
    "db_live db (txKey S i) = None \<longrightarrow> db_live db' (txKey S i) = None"
  shows "spares S me i db db'"
  using assms by (simp add: spares_def held_by_def text_at_def)

lemma spares_lock:
  assumes "db_live db' (sessionKey S i) = db_live db (sessionKey S i)" "\<not> held_by db' (lockKey S i) me"
    "db_live db (txKey S i) = None \<longrightarrow> db_live db' (txKey S i) = None"
  shows "spares S me i db db'"
  using assms by (simp add: spares_def text_at_def)

lemma spares_gone: "spares S me i db db' \<Longrightarrow> db_live db (sessionKey S i) = None \<Longrightarrow> db_live db' (sessionKey S i) = None"
  by (simp add: spares_def)

lemma spares_tx_gone: "spares S me i db db' \<Longrightarrow> db_live db (txKey S i) = None \<Longrightarrow> db_live db' (txKey S i) = None"
  by (simp add: spares_def)

lemma spares_leased:
  assumes "spares S me i db db'" and "held_by db (lockKey S i) me \<longrightarrow> db_live db (sessionKey S i) = None \<or> text_at db (sessionKey S i) = x"
  shows "held_by db' (lockKey S i) me \<longrightarrow> db_live db' (sessionKey S i) = None \<or> text_at db' (sessionKey S i) = x"
  using assms by (auto simp: spares_def)

lemma spares_same [simp]: "spares S me i db db"
  by (rule spares_cong) simp_all

lemma spares_commit:
  assumes "held_by db (lockKey S j) owner" "owner \<noteq> me" "db_live db (sessionKey S j) \<noteq> None" "nxt = j \<or> nxt \<noteq> i"
  shows "spares S me i db (committed_db (lockKey S j) (sessionKey S j) (sessionKey S nxt) data ttl remove db)"
  using assms by (auto simp: spares_def committed_db_def held_by_def text_at_def Let_def)

lemma store_step_spares:
  assumes ok: "redis_ok R" and i: "i \<in> taken" and step: "store_step S R me taken r r'"
  shows "spares S me i (r_db R r) (r_db R r')"
  using step
proof cases
  case (other_acquires owner n n2 now j res)
  show ?thesis
  proof (cases "j = i")
    case True
    with acquire_effect [OF ok other_acquires(2)] other_acquires(1) show ?thesis
      by (elim disjE exE conjE) (auto intro!: spares_lock simp: held_by_def)
  next
    case False
    with acquire_effect [OF ok other_acquires(2)] show ?thesis
      by (elim disjE exE conjE) (auto intro!: spares_cong)
  qed
next
  case (other_releases owner n j)
  note eff = release_effect [OF ok, of S n j owner r, folded other_releases(1)]
  show ?thesis
  proof (cases "j = i \<and> r_db R r' \<noteq> r_db R r")
    case True
    with eff other_releases(2) show ?thesis by (intro spares_lock) (auto simp: held_by_def split: if_splits)
  next
    case False
    with eff show ?thesis by (intro spares_cong) (auto split: if_splits)
  qed
next
  case (other_commits owner nxt j n now nonce v remove e)
  then have "nxt = j \<or> nxt \<noteq> i" using i by auto
  with commit_effect [OF ok other_commits(3)] other_commits(1) show ?thesis
    by (elim disjE exE conjE) (auto intro!: spares_commit)
next
  case (session_created n now ent nonce v previous j e)
  with i have "j \<noteq> i \<or> r' = r" by auto
  with create_effect [OF ok session_created(1)] show ?thesis
    by (elim disjE exE conjE) (auto simp: spares_def held_by_def text_at_def)
next
  case (login_started ent n nonce tx out)
  have "j \<noteq> i" if "opaque ent = Inr j" for j using login_started(1) i that by blast
  with start_effect [OF ok login_started(2)] show ?thesis
    by (elim disjE exE conjE) (auto intro!: spares_cong)
next
  case (login_consumed n j tx)
  from consume_effect [OF ok login_consumed(1)] show ?thesis
    by (elim disjE exE conjE) (auto intro!: spares_cong)
next
  case (time_goes_on ms)
  then have "r_db R r' = db_wait ms (r_db R r)" using ok by (simp add: redis_ok_def)
  then show ?thesis using time_goes_on(2)
    by (auto simp: spares_def held_by_def text_at_def db_live_wait split: option.splits if_splits)
qed

interpretation gone: step_invariant "store_step S R me taken" "\<lambda>r. redis_ok R \<and> i \<in> taken \<and> db_live (r_db R r) (sessionKey S i) = None"
  by unfold_locales (blast intro: spares_gone store_step_spares)

interpretation tx_gone: step_invariant "store_step S R me taken" "\<lambda>r. redis_ok R \<and> i \<in> taken \<and> db_live (r_db R r) (txKey S i) = None"
  by unfold_locales (blast intro: spares_tx_gone store_step_spares)

interpretation leased: step_invariant "store_step S R me taken"
  "\<lambda>r. redis_ok R \<and> i \<in> taken \<and>
     (held_by (r_db R r) (lockKey S i) me \<longrightarrow> db_live (r_db R r) (sessionKey S i) = None \<or> text_at (r_db R r) (sessionKey S i) = Some data)"
  by unfold_locales (intro conjI; (elim conjE)?; (rule spares_leased [OF store_step_spares])?; assumption)

section \<open>What is stored\<close>

text \<open>
  A stored session is the sealed text of a session that was well formed when it was written, and Redis keeps it for
  seven days at most.
\<close>

definition session_entry :: "bstore \<Rightarrow> string \<Rightarrow> int \<Rightarrow> redis_entry \<Rightarrow> bool" where
  "session_entry S j clock e \<longleftrightarrow>
     (\<exists>v nonce t data d. e = (RString data, Some d) \<and> seal S nonce (sessionKey S j) (bx_session (st_box S) v) = Inr data \<and>
        validateSessionSchema (Some v) t = None \<and> d \<le> clock + 604800000)"

definition store_ok :: "bstore \<Rightarrow> redis_db \<Rightarrow> bool" where
  "store_ok S db \<longleftrightarrow> (\<forall>j e. db_live db (sessionKey S j) = Some e \<longrightarrow> session_entry S j (db_clock db) e)"

lemma store_ok_mono:
  assumes "store_ok S db" "db_clock db \<le> db_clock db'" "\<And>j. db_live db' (sessionKey S j) = None \<or> db_live db' (sessionKey S j) = db_live db (sessionKey S j)"
  shows "store_ok S db'"
  unfolding store_ok_def
proof (intro allI impI)
  fix j e assume e: "db_live db' (sessionKey S j) = Some e"
  then have "db_live db (sessionKey S j) = Some e" using assms(3) [of j] by auto
  then have "session_entry S j (db_clock db) e" using assms(1) unfolding store_ok_def by blast
  then show "session_entry S j (db_clock db') e" using assms(2) by (fastforce simp: session_entry_def)
qed

lemma store_ok_put:
  assumes "store_ok S db" "seal S nonce (sessionKey S j) (bx_session (st_box S) v) = Inr data" "validateSessionSchema (Some v) t = None" "ttl \<le> 604800000"
  shows "store_ok S (db_put (sessionKey S j) (RString data, Some (db_clock db + ttl)) db)"
  using assms by (auto simp: store_ok_def session_entry_def split: if_splits)

lemma store_ok_del: "store_ok S db \<Longrightarrow> store_ok S (db_del k db)"
  by (erule store_ok_mono) auto

lemma store_ok_lock: "store_ok S db \<Longrightarrow> store_ok S (db_put (lockKey S i) e db)"
  by (erule store_ok_mono) auto

lemma store_ok_committed:
  assumes "store_ok S db" "seal S nonce (sessionKey S nxt) (bx_session (st_box S) v) = Inr data" "validateSessionSchema (Some v) t = None"
    "remove \<or> ttl \<le> 604800000"
  shows "store_ok S (committed_db l k (sessionKey S nxt) data ttl remove db)"
  using assms by (auto simp: committed_db_def Let_def intro!: store_ok_del intro: store_ok_put)

lemma store_step_ok:
  assumes ok: "redis_ok R" and inv: "store_ok S (r_db R r)" and step: "store_step S R me taken r r'"
  shows "store_ok S (r_db R r')"
  using step
proof cases
  case (other_acquires owner n n2 now j res)
  from acquire_effect [OF ok other_acquires(2)] inv show ?thesis
    by (elim disjE exE conjE) (simp_all add: store_ok_del store_ok_lock)
next
  case (other_releases owner n j)
  with release_effect [OF ok, of S n j owner r] inv show ?thesis by (auto intro: store_ok_del split: if_splits)
next
  case (other_commits owner nxt j n now nonce v remove e)
  show ?thesis
    using commit_effect [OF ok other_commits(3)]
  proof (elim disjE exE conjE)
    fix data ttl
    assume c: "seal S nonce (sessionKey S nxt) (bx_session (st_box S) v) = Inr data" "validateSessionSchema (Some v) now = None"
      "\<not> remove \<longrightarrow> (\<exists>d. sessionDeadline (Some v) now = Inr d \<and> ttl = milliseconds (d - now) \<and> 0 < ttl)"
      "r_db R r' = committed_db (lockKey S j) (sessionKey S j) (sessionKey S nxt) data ttl remove (r_db R r)"
    then have "remove \<or> ttl \<le> 604800000" using ttl_bounds(2) by blast
    with c inv show ?thesis by (simp add: store_ok_committed)
  qed (use inv in simp)
next
  case (session_created n now ent nonce v previous j e)
  show ?thesis
    using create_effect [OF ok session_created(1)]
  proof (elim disjE exE conjE)
    fix data d
    assume c: "seal S nonce (sessionKey S j) (bx_session (st_box S) v) = Inr data" "sessionDeadline (Some v) now = Inr d"
      "r_db R r' = db_del (sessionKey S (if opaquePattern previous then previous else ''absent'')) (db_put (sessionKey S j) (RString data, Some (db_clock (r_db R r) + milliseconds (d - now))) (r_db R r))"
    show ?thesis unfolding c(3)
      by (rule store_ok_del, rule store_ok_put [OF inv c(1) sessionDeadline_facts(4) [OF c(2)] ttl_bounds(2) [OF c(2)]])
  qed (use inv in simp)
next
  case (login_started ent n nonce tx out)
  from start_effect [OF ok login_started(2)] show ?thesis
    by (elim disjE exE conjE; intro store_ok_mono [OF inv]; simp)
next
  case (login_consumed n j tx)
  from consume_effect [OF ok login_consumed(1)] inv show ?thesis
    by (elim disjE exE conjE) (auto intro: store_ok_del)
next
  case (time_goes_on ms)
  then have "r_db R r' = db_wait ms (r_db R r)" using ok by (simp add: redis_ok_def)
  then show ?thesis using time_goes_on(2) by (intro store_ok_mono [OF inv]) (auto simp: db_live_wait split: option.splits)
qed

interpretation stored: step_invariant "store_step S R me taken" "\<lambda>r. redis_ok R \<and> store_ok S (r_db R r)"
  by unfold_locales (blast intro: store_step_ok)

end
