(* ===== verification/Session_Properties.thy ===== *)
theory Session_Properties
  imports Session_Machine
begin

text \<open>
  Properties of the session store: leases protect what was read under them, ended sessions and used transactions do
  not come back, stored sessions are well formed and bounded, \<open>acquire\<close> returns, and a session that was created is
  the one that is read.
\<close>

section \<open>Leases\<close>

lemma acquire_loop_granted:
  assumes ok: "redis_ok R" and out: "acquire_loop S R i owner deadline now rounds r = Some (Inr v, r1)"
  shows "\<exists>data t. text_at (r_db R r1) (sessionKey S i) = Some data \<and> read_leased S i t data = Inr v \<and> held_by (r_db R r1) (lockKey S i) owner"
  using out
proof (induction rounds arbitrary: now r)
  case (Cons rd rds)
  obtain res r2 where t: "acquire_try S R (rd_eval rd) (rd_release rd) (now + rd_elapsed rd) i owner r = (res, r2)" by (meson surj_pair)
  show ?case
  proof (cases res)
    case None
    with Cons t show ?thesis by (auto simp: Let_def split: if_splits option.splits)
  next
    case (Some out)
    with Cons(2) t have "res = Some (Inr v)" "r2 = r1" by (simp_all add: Let_def)
    with acquire_effect [OF ok t] show ?thesis by (auto simp: text_at_def held_by_def)
  qed
qed simp

text \<open>C10. No update is lost: when a client has read a session under a lease and later commits under it successfully, then
  the session it replaces or removes is still the one it read, whatever requests other clients made in between,
  lost ones included; afterwards the lease is free and a removed or renamed session is gone.\<close>

theorem commit_replaces_what_was_read:
  assumes ok: "redis_ok R" and acq: "acquire_loop S R i owner deadline now rounds r = Some (Inr v, r1)"
    and run: "(store_step S R owner taken)\<^sup>*\<^sup>* r1 r2" and i: "i \<in> taken"
    and com: "commit_session S R n now2 nonce i owner nxt v2 remove r2 = (None, r3)"
  shows "(\<exists>data t. text_at (r_db R r2) (sessionKey S i) = Some data \<and> read_leased S i t data = Inr v) \<and>
    db_live (r_db R r3) (lockKey S i) = None \<and> (remove \<or> nxt \<noteq> i \<longrightarrow> db_live (r_db R r3) (sessionKey S i) = None)"
proof -
  obtain data t where d: "text_at (r_db R r1) (sessionKey S i) = Some data" "read_leased S i t data = Inr v"
    using acquire_loop_granted [OF ok acq] by blast
  have "held_by (r_db R r2) (lockKey S i) owner \<longrightarrow> db_live (r_db R r2) (sessionKey S i) = None \<or> text_at (r_db R r2) (sessionKey S i) = Some data"
    using leased.run_keeps [OF run, of i data] ok i d(1) by blast
  moreover obtain d2 ttl where c: "held_by (r_db R r2) (lockKey S i) owner" "db_live (r_db R r2) (sessionKey S i) \<noteq> None"
      "r_db R r3 = committed_db (lockKey S i) (sessionKey S i) (sessionKey S nxt) d2 ttl remove (r_db R r2)"
    using commit_effect [OF ok com] by blast
  ultimately have "text_at (r_db R r2) (sessionKey S i) = Some data" by blast
  moreover have "db_live (r_db R r3) (lockKey S i) = None" "remove \<or> nxt \<noteq> i \<longrightarrow> db_live (r_db R r3) (sessionKey S i) = None"
    by (auto simp: c(3) committed_db_def Let_def)
  ultimately show ?thesis using d(2) by blast
qed

section \<open>Ends\<close>

text \<open>C18. An ended session does not come back: once a commit has removed it (or moved it to a new identifier), every
  later attempt to use it is refused, whatever the other clients do, among them late writers that had read it
  before.\<close>

theorem ended_session_stays_ended:
  assumes ok: "redis_ok R" and com: "commit_session S R n now nonce i owner nxt v remove r = (None, r1)" "remove \<or> nxt \<noteq> i"
    and run: "(store_step S R [] taken)\<^sup>*\<^sup>* r1 r2" and i: "i \<in> taken"
  shows "(\<forall>o2 deadline t rounds. rounds \<noteq> [] \<longrightarrow> (\<exists>e r3. acquire_loop S R i o2 deadline t rounds r2 = Some (Inl e, r3))) \<and>
    (\<forall>n2 t nonce2 o2 nxt2 v2 b. fst (commit_session S R n2 t nonce2 i o2 nxt2 v2 b r2) \<noteq> None)"
proof -
  obtain d2 ttl where "r_db R r1 = committed_db (lockKey S i) (sessionKey S i) (sessionKey S nxt) d2 ttl remove (r_db R r)"
    using commit_effect [OF ok com(1)] by blast
  then have "db_live (r_db R r1) (sessionKey S i) = None" using com(2) by (auto simp: committed_db_def Let_def)
  then have gone: "db_live (r_db R r2) (sessionKey S i) = None" using gone.run_keeps [OF run, of i] ok i by blast
  have tried: "\<exists>e. fst (acquire_try S R m m2 t i o2 r2) = Some (Inl e)" for m m2 t o2
  proof -
    obtain q r3 where q: "via_net m (acquireScript (r_call R) [lockKey S i, sessionKey S i] [o2, itoa 30000]) r2 = (q, r3)" by (meson surj_pair)
    have "q = Inr [LInt (-1)] \<or> (\<exists>e. q = Inl e)"
      using net_sim(2) [OF script_sims_session(2) [OF ok] q] gone by (cases q) (auto simp: acquire_doc)
    with q show ?thesis by (auto simp: acquire_try_def)
  qed
  have "\<exists>e r3. acquire_loop S R i o2 deadline t (rd # rds) r2 = Some (Inl e, r3)" for o2 deadline t rd rds
  proof -
    obtain out r3 where "acquire_try S R (rd_eval rd) (rd_release rd) (t + rd_elapsed rd) i o2 r2 = (out, r3)" by (meson surj_pair)
    with tried [of "rd_eval rd" "rd_release rd" "t + rd_elapsed rd" o2] show ?thesis by (auto simp: Let_def)
  qed
  moreover have "fst (commit_session S R n2 t nonce2 i o2 nxt2 v2 b r2) \<noteq> None" for n2 t nonce2 o2 nxt2 v2 b
    using commit_effect [OF ok, of S n2 t nonce2 i o2 nxt2 v2 b r2] gone by (metis prod.collapse)
  ultimately show ?thesis by (metis neq_Nil_conv)
qed

text \<open>A transaction that is gone is refused to everybody.\<close>

lemma gone_transaction_refused:
  assumes ok: "redis_ok R" and gone: "db_live (r_db R r) (txKey S i) = None"
  shows "\<exists>e. fst (consume S R n i r) = Inl e \<and> (n = Delivered \<longrightarrow> e = errMissing)"
proof -
  obtain q r3 where q: "via_net n (r_call R (GETDEL (txKey S i))) r = (q, r3)" by (meson surj_pair)
  have "q = Inr RNil \<or> n \<noteq> Delivered \<and> (\<exists>e. q = Inl e)"
    using net_sim(2,3) [OF r_call_sim [OF ok] q] gone by (cases q) auto
  then show ?thesis using q by (auto simp: consume_def)
qed

section \<open>What is stored\<close>

text \<open>C38. In every reachable state of the store each session in Redis is the sealed form of a well formed session (of the
  current policy, its idle deadline within the absolute one, that one seven days after the login), under a key
  that expires within seven days.\<close>

theorem stored_sessions_well_formed:
  assumes "redis_ok R" and "(store_step S R me taken)\<^sup>*\<^sup>* r r'" and "\<forall>j. db_live (r_db R r) (sessionKey S j) = None"
    and "db_live (r_db R r') (sessionKey S j) = Some e"
  shows "\<exists>v nonce data d. e = (RString data, Some d) \<and> d \<le> db_clock (r_db R r') + 604800000 \<and>
    seal S nonce (sessionKey S j) (bx_session (st_box S) v) = Inr data \<and> bs_PolicyVersion v = sessionPolicyVersion \<and> bs_Until v = bs_IdleUntil v \<and>
    bs_AuthenticatedAt v \<le> bs_IdleUntil v \<and> bs_IdleUntil v \<le> bs_AbsoluteUntil v \<and> bs_AbsoluteUntil v = bs_AuthenticatedAt v + sessionAbsoluteLifetime"
proof -
  have "store_ok S (r_db R r)" using assms(3) by (simp add: store_ok_def)
  then have "store_ok S (r_db R r')" using stored.run_keeps [OF assms(2)] assms(1) by blast
  then have "session_entry S j (db_clock (r_db R r')) e" using assms(4) unfolding store_ok_def by blast
  then obtain v nonce t data d where x: "e = (RString data, Some d)" "seal S nonce (sessionKey S j) (bx_session (st_box S) v) = Inr data"
    "validateSessionSchema (Some v) t = None" "d \<le> db_clock (r_db R r') + 604800000" unfolding session_entry_def by blast
  show ?thesis by (intro exI [of _ v] exI [of _ nonce] exI [of _ data] exI [of _ d]) (use x schema_facts [OF x(3)] in simp)
qed

section \<open>The wait for a lease\<close>

text \<open>C39. \<open>acquire\<close> returns: every busy round waits two milliseconds or up to the deadline, so that ten thousand and one
  rounds are enough, whatever the other clients do.\<close>

theorem acquire_returns:
  assumes "10001 \<le> length rounds" and "\<forall>rd \<in> set rounds. 0 \<le> rd_elapsed rd"
  shows "acquire_session S R ent now rounds i r \<noteq> None"
proof -
  have loop: "acquire_loop S R i owner deadline t rds q \<noteq> None"
    if "deadline - t \<le> (int (length rds) - 1) * (2 * millisecond)" "rds \<noteq> []" "\<forall>rd \<in> set rds. 0 \<le> rd_elapsed rd" for owner deadline t rds q
    using that
  proof (induction rds arbitrary: t q)
    case (Cons rd rds)
    let ?t = "t + rd_elapsed rd" and ?rem = "deadline - (t + rd_elapsed rd)"
    let ?delay = "sessionAcquireRetryDelay (rd_jitter rd) ?rem"
    obtain res q1 where a: "acquire_try S R (rd_eval rd) (rd_release rd) ?t i owner q = (res, q1)" by (meson surj_pair)
    show ?case
    proof (cases "res = None \<and> 0 < ?rem \<and> rd_done rd = None")
      case True
      then have d: "?delay = ?rem \<or> 2 * millisecond \<le> ?delay" by (auto simp: sessionAcquireRetryDelay_def Let_def sessionAcquireRetryMin_def)
      have e: "0 \<le> rd_elapsed rd" using Cons.prems(3) by simp
      have ne: "rds \<noteq> []" using Cons.prems(1) True e by auto
      then have "0 \<le> (int (length rds) - 1) * (2 * millisecond)" by (cases rds) (simp_all add: millisecond_def)
      then have "deadline - (?t + ?delay) \<le> (int (length rds) - 1) * (2 * millisecond)"
        using d e Cons.prems(1) by (auto simp: algebra_simps)
      from Cons.IH [OF this ne] Cons.prems(3) True a show ?thesis by (simp add: Let_def)
    next
      case False
      then show ?thesis using a by (cases res) (auto simp: Let_def split: option.splits)
    qed
  qed simp
  have "now + authenticationTimeout - now \<le> (int (length rounds) - 1) * (2 * millisecond)"
    using assms(1) by (simp add: authenticationTimeout_def second_def millisecond_def)
  moreover have "rounds \<noteq> []" using assms(1) by auto
  ultimately have "acquire_loop S R i owner (now + authenticationTimeout) now rounds r \<noteq> None" for owner using loop assms(2) by blast
  then show ?thesis by (cases "opaque ent") (simp_all add: acquire_session_def del: not_None_eq)
qed

section \<open>Round trip\<close>

lemma b64_char_opaque: "n < 64 \<Longrightarrow> opaque_char (b64_char n)"
  by (auto simp: opaque_char_def b64_char_def Let_def)

lemma opaque_pattern:
  assumes "length bytes = 32"
  shows "\<exists>i. opaque (Some bytes) = Inr i \<and> opaquePattern i"
proof -
  let ?bs = "map of_char bytes :: nat list"
  have "length (b64_groups ?bs) = 43" using length_b64_groups [of ?bs] assms by simp
  moreover have "\<forall>n \<in> set (b64_groups ?bs). n < 64" by (rule b64_groups_bounded) auto
  ultimately show ?thesis by (auto simp: opaque_def opaquePattern_def b64_encode_def list_all_iff b64_char_opaque)
qed

lemma open_seal:
  assumes B: "box_ok (st_box S)" and n: "length n = 12" and s: "seal S (Some n) k (Some d) = Inr data" and u: "unmarshal d = Some v"
  shows "open_sealed S k data unmarshal = Inr v"
proof -
  have data: "data = n @ bx_Seal (st_box S) n d k" "length d \<le> 65536" using s by (auto simp: seal_def split: if_splits)
  moreover have "length (bx_Seal (st_box S) n d k) = length d + 16" "bx_Open (st_box S) n (bx_Seal (st_box S) n d k) k = Some d" "bx_nonce_size (st_box S) = 12"
    using B n by (simp_all add: box_ok_def)
  ultimately show ?thesis using n u by (simp add: open_sealed_def)
qed

text \<open>What is created is what is read: the session of a login is handed out unchanged, under a lease of thirty seconds, to the
  next request with its identifier that comes before the idle deadline.\<close>

theorem created_session_is_read:
  assumes ok: "redis_ok R" and B: "box_ok (st_box S)" and v: "session_text v" and n: "length nonce = 12" and ent: "length bytes = 32" "length bytes2 = 32"
    and c: "create S R Delivered now (Some bytes) (Some nonce) v previous r = ((i, None), r1)" "previous \<noteq> i"
    and free: "db_live (r_db R r) (lockKey S i) = None"
    and ms: "0 \<le> ms" "ms < milliseconds (bs_IdleUntil v - now)"
    and rd: "rd_eval rd = Delivered" "now2 + rd_elapsed rd < bs_IdleUntil v" "now \<le> now2 + rd_elapsed rd"
  shows "\<exists>owner r2. acquire_session S R (Some bytes2) now2 (rd # rds) i (r_wait R ms r1) = Some (Inr (v, owner), r2) \<and>
    db_live (r_db R r2) (lockKey S i) = Some (RString owner, Some (db_clock (r_db R r2) + 30000))"
proof -
  let ?db = "r_db R r" and ?t = "now2 + rd_elapsed rd" and ?k = "sessionKey S i" and ?l = "lockKey S i"
  obtain data d where e: "opaque (Some bytes) = Inr i" "seal S (Some nonce) ?k (bx_session (st_box S) v) = Inr data" "sessionDeadline (Some v) now = Inr d"
      "r_db R r1 = db_del (sessionKey S (if opaquePattern previous then previous else ''absent'')) (db_put ?k (RString data, Some (db_clock ?db + milliseconds (d - now))) ?db)"
    using create_effect [OF ok c(1)] by auto
  have pat: "opaquePattern i" using opaque_pattern [OF ent(1)] e(1) by auto
  then have "(if opaquePattern previous then previous else ''absent'') \<noteq> i" using c(2) by (auto simp: opaquePattern_def)
  moreover have w: "r_db R (r_wait R ms r1) = db_wait ms (r_db R r1)" using ok ms(1) by (simp add: redis_ok_def)
  moreover have "d = bs_IdleUntil v" using sessionDeadline_facts(1) [OF e(3)] .
  ultimately have live: "db_live (r_db R (r_wait R ms r1)) ?k = Some (RString data, Some (db_clock ?db + milliseconds (d - now)))" "db_live (r_db R (r_wait R ms r1)) ?l = None"
    using ms free e(4) by (simp_all add: db_live_wait)
  obtain json where json: "bx_session (st_box S) v = Some json" using e(2) by (cases "bx_session (st_box S) v") (auto simp: seal_def)
  have "open_sealed S ?k data (bx_read_session (st_box S)) = Inr v"
  proof (rule open_seal [OF B n])
    show "seal S (Some nonce) ?k (Some json) = Inr data" using e(2) json by simp
    show "bx_read_session (st_box S) json = Some v" using B v json unfolding box_ok_def by blast
  qed
  moreover have "\<exists>x. sessionDeadline (Some v) ?t = Inr x"
    using sessionDeadline_facts(4) [OF e(3)] rd(2,3) by (auto simp: sessionDeadline_def validateSessionSchema_def Let_def split: if_splits)
  ultimately have leased: "read_leased S i ?t data = Inr v" by (auto simp: read_leased_def)
  obtain owner where o: "opaque (Some bytes2) = Inr owner" using opaque_pattern [OF ent(2)] by blast
  obtain q r2 where q: "via_net Delivered (acquireScript (r_call R) [?l, ?k] [owner, itoa 30000]) (r_wait R ms r1) = (q, r2)" by (meson surj_pair)
  have r2: "q = Inr [LInt 1, LStr data]" "r_db R r2 = db_put ?l (RString owner, Some (db_clock (r_db R (r_wait R ms r1)) + 30000)) (r_db R (r_wait R ms r1))"
    using net_sim(3) [OF script_sims_session(2) [OF ok] q] live by (simp_all add: acquire_doc)
  have "acquire_try S R Delivered (rd_release rd) ?t i owner (r_wait R ms r1) = (Some (Inr v), r2)"
    using q r2(1) leased by (simp add: acquire_try_def)
  then have "acquire_session S R (Some bytes2) now2 (rd # rds) i (r_wait R ms r1) = Some (Inr (v, owner), r2)"
    using pat o rd(1) by (simp add: acquire_session_def)
  with r2(2) show ?thesis by auto
qed

section \<open>Witnesses\<close>

text \<open>A cipher that only adds a tag, and a codec for one session and one transaction.\<close>

definition login_session :: bsession where
  "login_session = \<lparr>bs_SDK = Some fmempty, bs_Subject = ''user-7'', bs_Organization = ''org-1'', bs_Revision = ''3'', bs_CSRF = ''c'',
     bs_Until = sessionIdleLifetime, bs_PolicyVersion = 2, bs_AuthenticatedAt = 0, bs_IdleUntil = sessionIdleLifetime, bs_AbsoluteUntil = sessionAbsoluteLifetime\<rparr>"

definition login_tx :: btransaction where
  "login_tx = \<lparr>bt_SDK = None, bt_Nonce = ''n'', bt_State = ''s'', bt_ReturnTo = ''/'', bt_Silent = False\<rparr>"

definition tag_box :: session_box where
  "tag_box = \<lparr>bx_nonce_size = 12, bx_Seal = (\<lambda>n p k. replicate 16 (CHR 0x00) @ p), bx_Open = (\<lambda>n c k. Some (drop 16 c)),
     bx_session = (\<lambda>v. if v = login_session then Some ''{}'' else None), bx_read_session = (\<lambda>d. if d = ''{}'' then Some login_session else None),
     bx_tx = (\<lambda>v. if v = login_tx then Some ''[]'' else None), bx_read_tx = (\<lambda>d. if d = ''[]'' then Some login_tx else None)\<rparr>"

definition app_store :: bstore where
  "app_store = \<lparr>st_prefix = ''app:'', st_box = tag_box\<rparr>"

lemma tag_box_ok: "box_ok tag_box"
  by (simp add: box_ok_def tag_box_def)

lemma login_session_ok: "sessionDeadline (Some login_session) 0 = Inr sessionIdleLifetime"
  by (simp add: sessionDeadline_def validateSessionSchema_def login_session_def lifetime_defs sessionPolicyVersion_def is_zero_def zero_time_def)

definition stored_login :: redis_db where
  "stored_login = db_put (sessionKey app_store ''id'') (RString (replicate 28 (CHR 0x00) @ ''{}''), Some 1000) empty_redis_db"

definition first_round :: "redis_db acquire_round" where
  "first_round = \<lparr>rd_eval = Delivered, rd_release = Delivered, rd_elapsed = 0, rd_jitter = 0, rd_done = None, rd_others = id\<rparr>"

abbreviation leased_login :: redis_db where
  "leased_login \<equiv> db_put (lockKey app_store ''id'') (RString ''owner'', Some 30000) stored_login"

lemma empty_live [simp]: "db_live empty_redis_db k = None" "db_clock empty_redis_db = 0"
  by (simp_all add: empty_redis_db_def db_live_def)

lemma stored_login_clock [simp]: "db_clock stored_login = 0"
  by (simp add: stored_login_def)

lemma login_acquired:
  "acquire_loop app_store ref_redis ''id'' ''owner'' authenticationTimeout 0 [first_round] stored_login = Some (Inr login_session, leased_login)"
proof -
  have "read_leased app_store ''id'' 0 (replicate 28 (CHR 0x00) @ ''{}'') = Inr login_session"
    by (simp add: read_leased_def open_sealed_def app_store_def tag_box_def login_session_ok)
  moreover have "acquireScript redis_doc [lockKey app_store ''id'', sessionKey app_store ''id''] [''owner'', itoa 30000] stored_login =
      (Inr [LInt 1, LStr (replicate 28 (CHR 0x00) @ ''{}'')], leased_login)"
    by (simp add: acquire_doc stored_login_def)
  ultimately show ?thesis by (simp add: first_round_def acquire_try_def via_net_def ref_redis_def)
qed

lemma login_removed:
  "\<exists>r3. commit_session app_store ref_redis Delivered 0 (Some (replicate 12 (CHR 0x00))) ''id'' ''owner'' ''id'' login_session True leased_login = (None, r3)"
proof -
  have "validateSessionSchema (Some login_session) 0 = None" using sessionDeadline_facts(4) [OF login_session_ok] .
  moreover have "held_by leased_login (lockKey app_store ''id'') ''owner''" "db_live leased_login (sessionKey app_store ''id'') \<noteq> None"
    by (simp_all add: held_by_def stored_login_def)
  moreover obtain d where "seal app_store (Some (replicate 12 (CHR 0x00))) (sessionKey app_store ''id'') (bx_session (st_box app_store) login_session) = Inr d"
    by (simp add: seal_def app_store_def tag_box_def)
  moreover have "commitScript redis_doc [lockKey app_store ''id'', sessionKey app_store ''id'', sessionKey app_store ''id''] [''owner'', d, itoa 0, [], ''1''] leased_login =
      (Inr 1, committed_db (lockKey app_store ''id'') (sessionKey app_store ''id'') (sessionKey app_store ''id'') d 0 True leased_login)"
    using commit_doc [of "lockKey app_store ''id''" "sessionKey app_store ''id''" "sessionKey app_store ''id''" 0 "''1''" True "''owner''" d leased_login]
      calculation(2,3) by (simp add: int64_def)
  ultimately show ?thesis by (simp add: commit_session_def commit_ttl_def via_net_def ref_redis_def)
qed

theorem commit_replaces_what_was_read_witness:
  "\<exists>data t. text_at leased_login (sessionKey app_store ''id'') = Some data \<and> read_leased app_store ''id'' t data = Inr login_session"
proof -
  obtain r3 where "commit_session app_store ref_redis Delivered 0 (Some (replicate 12 (CHR 0x00))) ''id'' ''owner'' ''id'' login_session True leased_login = (None, r3)"
    using login_removed by blast
  from commit_replaces_what_was_read [OF ref_redis_ok login_acquired rtranclp.rtrancl_refl _ this, of "{''id''}"]
  show ?thesis by (simp add: ref_redis_def)
qed

theorem ended_session_stays_ended_witness:
  "\<exists>r3 e r4. commit_session app_store ref_redis Delivered 0 (Some (replicate 12 (CHR 0x00))) ''id'' ''owner'' ''id'' login_session True leased_login = (None, r3) \<and>
     acquire_loop app_store ref_redis ''id'' ''o2'' 5 0 [first_round] r3 = Some (Inl e, r4)"
proof -
  obtain r3 where c: "commit_session app_store ref_redis Delivered 0 (Some (replicate 12 (CHR 0x00))) ''id'' ''owner'' ''id'' login_session True leased_login = (None, r3)"
    using login_removed by blast
  from ended_session_stays_ended [OF ref_redis_ok c _ rtranclp.rtrancl_refl, of "{''id''}"] c show ?thesis by blast
qed

abbreviation "tx_id \<equiv> replicate 43 (CHR ''x'')"

definition stored_tx :: redis_db where
  "stored_tx = db_put (txKey app_store tx_id) (RString (replicate 28 (CHR 0x00) @ ''[]''), Some 1000) empty_redis_db"

lemma tx_consumed:
  "consume app_store ref_redis Delivered tx_id stored_tx = (Inr login_tx, db_del (txKey app_store tx_id) stored_tx)"
proof -
  have "opaquePattern tx_id" by (simp add: opaquePattern_def opaque_char_def list_all_iff)
  then show ?thesis by (simp add: consume_def via_net_def ref_redis_def stored_tx_def open_sealed_def app_store_def tag_box_def)
qed

lemma login_created:
  "\<exists>i r1. create app_store ref_redis Delivered 0 (Some (replicate 32 (CHR ''a''))) (Some (replicate 12 (CHR 0x00))) login_session [] empty_redis_db = ((i, None), r1)"
proof -
  obtain i where i: "opaque (Some (replicate 32 (CHR ''a''))) = Inr i" using opaque_pattern [of "replicate 32 (CHR ''a'')"] by auto
  have "0 < milliseconds (sessionIdleLifetime - 0)" by (simp add: milliseconds_def go_div_nonneg lifetime_defs)
  then show ?thesis using i create_doc [OF ttl_bounds(3) [OF login_session_ok]]
    by (simp add: create_def login_session_ok seal_def app_store_def tag_box_def via_net_def ref_redis_def)
qed

theorem stored_sessions_well_formed_witness:
  "\<exists>r1 j e. (store_step app_store ref_redis [] {})\<^sup>*\<^sup>* empty_redis_db r1 \<and> db_live r1 (sessionKey app_store j) = Some e \<and>
     (\<exists>data d. e = (RString data, Some d) \<and> d \<le> db_clock r1 + 604800000)"
proof -
  obtain i r1 where c: "create app_store ref_redis Delivered 0 (Some (replicate 32 (CHR ''a''))) (Some (replicate 12 (CHR 0x00))) login_session [] empty_redis_db = ((i, None), r1)"
    using login_created by blast
  have step: "(store_step app_store ref_redis [] {})\<^sup>*\<^sup>* empty_redis_db r1" using session_created [OF c, of "{}" "[]"] by auto
  have "i \<noteq> ''absent''" using create_effect [OF ref_redis_ok c] opaque_pattern [of "replicate 32 (CHR ''a'')"] by (auto simp: opaquePattern_def)
  then obtain e where e: "db_live (r_db ref_redis r1) (sessionKey app_store i) = Some e"
    using create_effect [OF ref_redis_ok c] by (auto simp: opaquePattern_def)
  have "\<exists>data d. e = (RString data, Some d) \<and> d \<le> db_clock (r_db ref_redis r1) + 604800000"
    using stored_sessions_well_formed [OF ref_redis_ok step _ e] by (auto simp: ref_redis_def)
  moreover have "r_db ref_redis r1 = r1" by (simp add: ref_redis_def)
  ultimately show ?thesis using step e by metis
qed

theorem acquire_returns_witness:
  "acquire_session app_store ref_redis (Some (replicate 32 (CHR ''a''))) 0 (replicate 10001 first_round) tx_id stored_login \<noteq> None"
  by (rule acquire_returns) (simp_all add: first_round_def)

theorem created_session_is_read_witness:
  "\<exists>i r1 owner r2. create app_store ref_redis Delivered 0 (Some (replicate 32 (CHR ''a''))) (Some (replicate 12 (CHR 0x00))) login_session [] empty_redis_db = ((i, None), r1) \<and>
     acquire_session app_store ref_redis (Some (replicate 32 (CHR ''b''))) 0 [first_round] i (db_wait 5 r1) = Some (Inr (login_session, owner), r2)"
proof -
  obtain i r1 where c: "create app_store ref_redis Delivered 0 (Some (replicate 32 (CHR ''a''))) (Some (replicate 12 (CHR 0x00))) login_session [] empty_redis_db = ((i, None), r1)"
    using login_created by blast
  then have "[] \<noteq> i" using create_effect [OF ref_redis_ok c] opaque_pattern [of "replicate 32 (CHR ''a'')"] by (auto simp: opaquePattern_def)
  moreover have "session_text login_session" by (simp add: session_text_def sdk_text_def login_session_def plain_text_simps(2) plain_text_def)
  moreover have "5 < milliseconds (bs_IdleUntil login_session - 0)" by (simp add: login_session_def milliseconds_def go_div_nonneg lifetime_defs)
  moreover have "rd_eval first_round = Delivered" "0 + rd_elapsed first_round < bs_IdleUntil login_session" "0 \<le> 0 + rd_elapsed first_round"
    by (simp_all add: first_round_def login_session_def lifetime_defs)
  moreover have "box_ok (st_box app_store)" using tag_box_ok by (simp add: app_store_def)
  ultimately show ?thesis
    using created_session_is_read [OF ref_redis_ok, of app_store login_session "replicate 12 (CHR 0x00)" "replicate 32 (CHR ''a'')" "replicate 32 (CHR ''b'')" 0 "[]" empty_redis_db i r1 5 first_round 0 "[]"] c
    by (auto simp: ref_redis_def)
qed

end
