(* ===== verification/Session_Identity.thy ===== *)
theory Session_Identity
  imports Session_Store Go_Json
begin

text \<open>
  Package \<open>logtobff\<close>, the identity behind a session (\<open>identity.go\<close>, \<open>identity_session.go\<close>): what the identity provider is asked,
  what is made of its answers, and how a session is loaded and written back around that.

  The provider with its SDK is a parameter (\<open>idp\<close>) over a state of its own. The SDK keeps tokens in the map of the session,
  so its calls return that map. \<open>idp_env\<close> has what is computed outside: decoding of JSON documents, parsing and
  validation of signed tokens.
\<close>

section \<open>Errors\<close>

definition access_error :: "nat \<Rightarrow> string \<Rightarrow> berror" where
  "access_error status code = errors_new (BAccess status code) code"

fun first_access :: "bsent list \<Rightarrow> (nat \<times> string) option" where
  "first_access [] = None"
| "first_access (BAccess status code # _) = Some (status, code)"
| "first_access (_ # ss) = first_access ss"

text \<open>\<open>errors.As(err, &denied)\<close>.\<close>

definition access_of :: "berror \<Rightarrow> (nat \<times> string) option" where
  "access_of e = first_access (error_chain e)"

definition identityErrorRevokesOrganization :: "berror option \<Rightarrow> bool" where
  "identityErrorRevokesOrganization err =
     (case err of None \<Rightarrow> False
      | Some e \<Rightarrow> (case access_of e of None \<Rightarrow> False | Some (status, _) \<Rightarrow> status = 401 \<or> status = 403))"

section \<open>Data\<close>

record organization =
  og_ID :: string
  og_Name :: string

record profile =
  pf_Subject :: string
  pf_Username :: string
  pf_Name :: string
  pf_Avatar :: string
  pf_Email :: string
  pf_Roles :: "string list"

definition no_profile :: profile where
  "no_profile = \<lparr>pf_Subject = [], pf_Username = [], pf_Name = [], pf_Avatar = [], pf_Email = [], pf_Roles = []\<rparr>"

record signed_claims =
  sc_Subject :: string
  sc_ClientID :: string
  sc_OrganizationID :: string
  sc_Scope :: string
  sc_DepartmentIDs :: "string list"
  sc_PrimaryDepartmentID :: "string option"
  sc_ExpiresAt :: time

record access_token =
  at_Token :: string
  at_ExpiresAt :: int

datatype sdk_error = NotAuthenticated | ResponseError nat string | OtherSdkError

record idp_request =
  iq_Method :: string
  iq_URL :: string
  iq_Token :: string

record idp_response =
  ir_Status :: nat
  ir_Body :: string
  ir_BodyFails :: bool

record 'n idp =
  ip_GetAccessToken :: "sdk_map \<Rightarrow> 'n \<Rightarrow> (sdk_error + access_token) \<times> sdk_map \<times> 'n"
  ip_GetAccessTokenFor :: "string \<Rightarrow> string \<Rightarrow> sdk_map \<Rightarrow> 'n \<Rightarrow> (sdk_error + string) \<times> sdk_map \<times> 'n"
  ip_GetIdTokenClaims :: "sdk_map \<Rightarrow> string option"
  ip_FetchUserInfo :: "sdk_map \<Rightarrow> 'n \<Rightarrow> (sdk_error + string) \<times> sdk_map \<times> 'n"
  ip_Do :: "idp_request \<Rightarrow> 'n \<Rightarrow> idp_response option \<times> 'n"
  ip_VerifySignature :: "string \<Rightarrow> 'n \<Rightarrow> string option \<times> 'n"

text \<open>The document of the identity endpoint.\<close>

record identity_doc =
  id_Organizations :: "organization list option"
  id_OrganizationID :: string
  id_Revision :: string
  id_User :: "profile option"

record idp_env =
  ie_identity :: "string \<Rightarrow> identity_doc option"
  ie_profile :: "string \<Rightarrow> profile option"
  ie_error :: "string \<Rightarrow> string option"
  ie_prune :: "string \<Rightarrow> string option"
  ie_token_key :: string
  ie_alg :: "string \<Rightarrow> string option"
  ie_claims :: "string \<Rightarrow> signed_claims option"
  ie_valid :: "string \<Rightarrow> string \<Rightarrow> signed_claims \<Rightarrow> bool"
  ie_url_ok :: "string \<Rightarrow> bool"
  ie_host :: "string \<Rightarrow> string"

record bff_config =
  cf_Endpoint :: string
  cf_Origin :: string
  cf_ClientID :: string
  cf_APIResource :: string
  cf_CookieName :: string

definition unix :: "time \<Rightarrow> int" where
  "unix t = t div second"

section \<open>Failures of the provider\<close>

text \<open>At most 4096 bytes of the body are decoded.\<close>

definition providerFailure :: "idp_env \<Rightarrow> idp_response \<Rightarrow> bool \<Rightarrow> berror" where
  "providerFailure I response account =
     (case ie_error I (take 4096 (ir_Body response)) of None \<Rightarrow> errors_text ''invalid provider response''
      | Some code \<Rightarrow>
         if (account \<and> ir_Status response = 401) \<or> (\<not> account \<and> ir_Status response = 400 \<and> code = ''invalid_grant'')
         then access_error 401 ''session_invalid''
         else if ir_Status response = 403 \<or> (ir_Status response = 400 \<and> code = ''access_denied'')
         then access_error 403 ''organization_access_denied''
         else errors_text ''provider unavailable'')"

fun sdkFailure :: "sdk_error \<Rightarrow> berror" where
  "sdkFailure NotAuthenticated = access_error 401 ''session_invalid''"
| "sdkFailure (ResponseError status code) =
     (if status = 403 \<or> code = ''access_denied'' then access_error 403 ''organization_access_denied''
      else errors_text ''identity provider unavailable'')"
| "sdkFailure OtherSdkError = errors_text ''identity provider unavailable''"

definition validRevision :: "string \<Rightarrow> bool" where
  "validRevision value = (case parse_digits value of None \<Rightarrow> False | Some n \<Rightarrow> n < 2 ^ 53 \<and> n > 0 \<and> nat_digits n = value)"

section \<open>Tokens\<close>

definition sdk_get :: "sdk_map \<Rightarrow> string \<Rightarrow> string" where
  "sdk_get m k = (case m of None \<Rightarrow> [] | Some f \<Rightarrow> (case fmlookup f k of None \<Rightarrow> [] | Some v \<Rightarrow> v))"

definition sdk_set :: "string \<Rightarrow> string \<Rightarrow> sdk_map \<Rightarrow> sdk_map" where
  "sdk_set k v m = map_option (fmupd k v) m"

definition sdk_del :: "string \<Rightarrow> sdk_map \<Rightarrow> sdk_map" where
  "sdk_del k m = map_option (fmdrop k) m"

text \<open>\<open>token\<close> for an organization drops the cached organization tokens first.\<close>

definition bff_token ::
  "bff_config \<Rightarrow> idp_env \<Rightarrow> 'n idp \<Rightarrow> string \<Rightarrow> bsession \<Rightarrow> 'n \<Rightarrow> (berror + string) \<times> bsession \<times> 'n" where
  "bff_token C I P org value n =
     (if bs_SDK value = None then (Inl (access_error 401 ''session_invalid''), value, n)
      else
       (let data = sdk_get (bs_SDK value) (ie_token_key I);
            pruned = (if org = [] then Some (bs_SDK value)
                      else if data = [] then Some (sdk_set (ie_token_key I) ''{}'' (bs_SDK value))
                      else map_option (\<lambda>d. sdk_set (ie_token_key I) d (bs_SDK value)) (ie_prune I data))
        in case pruned of None \<Rightarrow> (Inl (errors_text ''invalid stored token cache''), value, n)
           | Some sdk \<Rightarrow>
              (case ip_GetAccessTokenFor P (if org = [] then [] else cf_APIResource C) org sdk n of
                 (Inl e, sdk', n') \<Rightarrow> (Inl (sdkFailure e), value\<lparr>bs_SDK := sdk'\<rparr>, n')
               | (Inr t, sdk', n') \<Rightarrow> (Inr t, value\<lparr>bs_SDK := sdk'\<rparr>, n'))))"

definition refresh ::
  "bff_config \<Rightarrow> idp_env \<Rightarrow> 'n idp \<Rightarrow> bsession \<Rightarrow> 'n \<Rightarrow> (berror + profile) \<times> bsession \<times> 'n" where
  "refresh C I P value n =
     (case bff_token C I P [] value n of
        (Inl e, v1, n1) \<Rightarrow> (Inl e, v1, n1)
      | (Inr _, v1, n1) \<Rightarrow>
         (case ip_FetchUserInfo P (bs_SDK v1) n1 of
            (Inl (ResponseError status code), sdk, n2) \<Rightarrow>
              (Inl (if status = 401 then access_error 401 ''session_invalid'' else sdkFailure (ResponseError status code)), v1\<lparr>bs_SDK := sdk\<rparr>, n2)
          | (Inl e, sdk, n2) \<Rightarrow> (Inl (sdkFailure e), v1\<lparr>bs_SDK := sdk\<rparr>, n2)
          | (Inr raw, sdk, n2) \<Rightarrow>
             (case ie_profile I raw of None \<Rightarrow> (Inl (access_error 401 ''subject_mismatch''), v1\<lparr>bs_SDK := sdk\<rparr>, n2)
              | Some user \<Rightarrow>
                 (if pf_Subject user \<noteq> bs_Subject v1 then Inl (access_error 401 ''subject_mismatch'') else Inr user, v1\<lparr>bs_SDK := sdk\<rparr>, n2))))"

section \<open>The current organization\<close>

definition validateDisplayProfile :: "profile \<Rightarrow> berror option" where
  "validateDisplayProfile user =
     (if pf_Subject user = [] \<or> length (pf_Username user) > 512 \<or> length (pf_Name user) > 512 \<or> length (pf_Avatar user) > 4096 \<or> length (pf_Email user) > 320
      then Some (errors_text ''invalid identity profile'') else None)"

definition contains_org :: "organization list \<Rightarrow> string \<Rightarrow> bool" where
  "contains_org rows i \<longleftrightarrow> list_ex (\<lambda>row. og_ID row = i) rows"

fun rows_bad :: "string list \<Rightarrow> organization list \<Rightarrow> bool" where
  "rows_bad seen [] = False"
| "rows_bad seen (row # rows) =
     (\<not> orgPattern (og_ID row) \<or> length (og_Name row) > 512 \<or> og_ID row \<in> set seen \<or> rows_bad (og_ID row # seen) rows)"

text \<open>What is accepted of a document; \<open>subject\<close> is the one of the session.\<close>

definition read_identity :: "identity_doc \<Rightarrow> string \<Rightarrow> bool \<Rightarrow> berror + (profile \<times> organization list)" where
  "read_identity doc subject includeProfile =
     (case id_Organizations doc of None \<Rightarrow> Inl (errors_text ''invalid directory'')
      | Some rows \<Rightarrow>
         if length rows > 1000 \<or> \<not> validRevision (id_Revision doc) \<or> \<not> orgPattern (id_OrganizationID doc) then Inl (errors_text ''invalid directory'')
         else if rows_bad [] rows then Inl (errors_text ''invalid directory entry'')
         else if \<not> contains_org rows (id_OrganizationID doc) then Inl (access_error 403 ''organization_not_enabled_for_app'')
         else if \<not> includeProfile then Inr (no_profile, rows)
         else case id_User doc of None \<Rightarrow> Inl (errors_text ''identity profile missing'')
         | Some user \<Rightarrow>
            (case validateDisplayProfile user of Some e \<Rightarrow> Inl e
             | None \<Rightarrow> if pf_Subject user \<noteq> subject then Inl (access_error 401 ''subject_mismatch'') else Inr (user\<lparr>pf_Roles := []\<rparr>, rows)))"

definition organizations ::
  "bff_config \<Rightarrow> idp_env \<Rightarrow> 'n idp \<Rightarrow> bsession \<Rightarrow> bool \<Rightarrow> 'n \<Rightarrow> (berror + (profile \<times> organization list)) \<times> bsession \<times> 'n" where
  "organizations C I P value includeProfile n =
     (let endpoint = cf_Endpoint C @ ''/api/my-account/organization-identity'' @ (if includeProfile then ''?include_profile=true'' else [])
      in if \<not> ie_url_ok I endpoint then (Inl (errors_text ''parse''), value, n)
         else case ip_GetAccessToken P (bs_SDK value) n of
           (Inl e, sdk, n1) \<Rightarrow> (Inl (sdkFailure e), value\<lparr>bs_SDK := sdk\<rparr>, n1)
         | (Inr token, sdk, n1) \<Rightarrow>
            let v1 = value\<lparr>bs_SDK := sdk\<rparr>
            in case ip_Do P \<lparr>iq_Method = ''GET'', iq_URL = endpoint, iq_Token = at_Token token\<rparr> n1 of
                 (None, n2) \<Rightarrow> (Inl (errors_text ''identity request failed''), v1, n2)
               | (Some response, n2) \<Rightarrow>
                  if ir_Status response \<noteq> 200 then (Inl (providerFailure I response True), v1, n2)
                  else if ir_BodyFails response \<or> length (ir_Body response) > 2 ^ 20 then (Inl (errors_text ''invalid directory response''), v1, n2)
                  else case ie_identity I (ir_Body response) of None \<Rightarrow> (Inl (errors_text ''invalid directory''), v1, n2)
                  | Some doc \<Rightarrow>
                     (case read_identity doc (bs_Subject v1) includeProfile of
                        Inl e \<Rightarrow> (Inl e, v1, n2)
                      | Inr out \<Rightarrow> (Inr out, v1\<lparr>bs_Organization := id_OrganizationID doc, bs_Revision := id_Revision doc\<rparr>, n2)))"

text \<open>In the mode without a resource the profile comes with the identity; otherwise it is asked for first.\<close>

definition ask_identity ::
  "bff_config \<Rightarrow> idp_env \<Rightarrow> 'n idp \<Rightarrow> bsession \<Rightarrow> 'n \<Rightarrow> (berror + (profile \<times> organization list)) \<times> bsession \<times> 'n" where
  "ask_identity C I P value n =
     (if cf_APIResource C = [] then organizations C I P value True n
      else case refresh C I P value n of
        (Inl e, v1, n1) \<Rightarrow> (Inl e, v1, n1)
      | (Inr user, v1, n1) \<Rightarrow>
         (case organizations C I P v1 False n1 of
            (Inl e, v2, n2) \<Rightarrow> (Inl e, v2, n2) | (Inr (_, rows), v2, n2) \<Rightarrow> (Inr (user, rows), v2, n2)))"

definition currentRequest ::
  "bff_config \<Rightarrow> idp_env \<Rightarrow> 'n idp \<Rightarrow> bsession \<Rightarrow> 'n \<Rightarrow> (berror + (profile \<times> organization list)) \<times> bsession \<times> 'n" where
  "currentRequest C I P value n =
     (case ask_identity C I P value n of
        (Inl e, v1, n1) \<Rightarrow>
          (Inl e, if identityErrorRevokesOrganization (Some e) then v1\<lparr>bs_Organization := []\<rparr> else v1, n1)
      | (Inr (user, rows), v1, n1) \<Rightarrow>
          if bs_Organization v1 \<noteq> [] \<and> \<not> contains_org rows (bs_Organization v1)
          then (Inl (access_error 403 ''organization_access_revoked''), v1\<lparr>bs_Organization := []\<rparr>, n1)
          else (Inr (user, rows), v1, n1))"

section \<open>Organization tokens\<close>

definition bff_verify ::
  "bff_config \<Rightarrow> idp_env \<Rightarrow> 'n idp \<Rightarrow> string \<Rightarrow> string \<Rightarrow> string \<Rightarrow> 'n \<Rightarrow> (berror + signed_claims) \<times> 'n" where
  "bff_verify C I P raw org clientID n =
     (if \<not> orgPattern org \<or> length raw > 32768 then (Inl (errors_text ''invalid credential''), n)
      else if ie_alg I raw \<noteq> Some ''ES384'' \<and> ie_alg I raw \<noteq> Some ''RS256'' then (Inl (errors_text ''unsupported credential''), n)
      else case ip_VerifySignature P raw n of (None, n1) \<Rightarrow> (Inl (errors_text ''failed to verify signature''), n1)
      | (Some payload, n1) \<Rightarrow>
         (case ie_claims I payload of None \<Rightarrow> (Inl (errors_text ''invalid claims''), n1)
          | Some claims \<Rightarrow>
             if \<not> ie_valid I (cf_Endpoint C @ ''/oidc'') (cf_APIResource C) claims \<or> sc_Subject claims = [] \<or> sc_ClientID claims \<noteq> clientID \<or>
                sc_OrganizationID claims \<noteq> org
             then (Inl (errors_text ''invalid API claims''), n1) else (Inr claims, n1)))"

definition organizationClaims ::
  "bff_config \<Rightarrow> idp_env \<Rightarrow> 'n idp \<Rightarrow> bsession \<Rightarrow> string \<Rightarrow> 'n \<Rightarrow> (berror + signed_claims) \<times> bsession \<times> 'n" where
  "organizationClaims C I P value org n =
     (case bff_token C I P org value n of
        (Inl e, v1, n1) \<Rightarrow> (Inl e, v1, n1)
      | (Inr raw, v1, n1) \<Rightarrow>
         (case bff_verify C I P raw org (cf_ClientID C) n1 of
            (Inl _, n2) \<Rightarrow> (Inl (access_error 401 ''api_credential_invalid''), v1, n2)
          | (Inr claims, n2) \<Rightarrow>
              (if sc_Subject claims \<noteq> bs_Subject v1 then Inl (access_error 401 ''api_credential_invalid'') else Inr claims, v1, n2)))"

definition hasScope :: "signed_claims \<Rightarrow> string \<Rightarrow> bool" where
  "hasScope claims scope \<longleftrightarrow> scope \<in> set (string_fields (sc_Scope claims))"

section \<open>Preparing an identity\<close>

definition token_short :: "time \<Rightarrow> access_token \<Rightarrow> bool" where
  "token_short now t \<longleftrightarrow> at_ExpiresAt t \<le> unix (now + authenticationTimeout)"

definition prepareIdentity ::
  "idp_env \<Rightarrow> 'n idp \<Rightarrow> time \<Rightarrow> bsession \<Rightarrow> 'n \<Rightarrow> berror option \<times> bsession \<times> 'n" where
  "prepareIdentity I P now value n =
     (if bs_SDK value = None then (Some (access_error 401 ''session_invalid''), value, n)
      else case ip_GetAccessToken P (bs_SDK value) n of
        (Inl e, sdk, n1) \<Rightarrow> (Some (sdkFailure e), value\<lparr>bs_SDK := sdk\<rparr>, n1)
      | (Inr t1, sdk1, n1) \<Rightarrow>
         (case (if token_short now t1 then ip_GetAccessToken P (sdk_del (ie_token_key I) sdk1) n1 else (Inr t1, sdk1, n1)) of
            (Inl e, sdk2, n2) \<Rightarrow> (Some (sdkFailure e), value\<lparr>bs_SDK := sdk2\<rparr>, n2)
          | (Inr t2, sdk2, n2) \<Rightarrow>
              if token_short now t2 then (Some (errors_text ''identity token lifetime insufficient''), value\<lparr>bs_SDK := sdk2\<rparr>, n2)
              else if ip_GetIdTokenClaims P sdk2 \<noteq> Some (bs_Subject value)
              then (Some (access_error 401 ''subject_mismatch''), value\<lparr>bs_SDK := sdk2\<rparr>, n2)
              else (None, value\<lparr>bs_SDK := sdk2\<rparr>, n2)))"

end
