(* ===== verification/Session_Handlers.thy ===== *)
theory Session_Handlers
  imports Session_Identity
begin

text \<open>
  Package \<open>logtobff\<close>, requests with a session (\<open>runtime.go\<close>, \<open>identity_session.go\<close>, \<open>session_renewal.go\<close>, \<open>revalidate.go\<close>,
  \<open>resource_grant.go\<close>): the two ways to run a handler on a session, the handlers, and the renewed checks of a principal.

  \<open>lease_io\<close> is what one use of the store is given: entropy, times, fates of requests, and in \<open>li_between\<close> what other
  clients do to the store while the provider is asked. \<open>None\<close> stands for rounds of \<open>acquire\<close> that have run out.
\<close>

section \<open>Results\<close>

record principal =
  pn_Issuer :: string
  pn_UserID :: string
  pn_OrganizationID :: string
  pn_Username :: string
  pn_OrganizationName :: string
  pn_OrganizationRevision :: string
  pn_DepartmentIDs :: "string list"
  pn_PrimaryDepartmentID :: "string option"
  pn_Permissions :: "string list"
  pn_ExpiresAt :: int

record session_view =
  sv_Organizations :: "organization list"
  sv_OrganizationID :: string
  sv_Revision :: string
  sv_ExpiresAt :: int
  sv_CSRF :: string
  sv_User :: "profile option"
  sv_Roles :: "string list"
  sv_Permissions :: "string list"

datatype bdata = NoData | ErrorData string | RedirectData string | ViewData session_view

record bresult =
  br_status :: nat
  br_data :: bdata
  br_rotate :: bool
  br_remove :: bool
  br_redirect :: string
  br_principal :: "principal option"

definition plain_result :: "nat \<Rightarrow> bdata \<Rightarrow> bresult" where
  "plain_result status data = \<lparr>br_status = status, br_data = data, br_rotate = False, br_remove = False, br_redirect = [], br_principal = None\<rparr>"

definition problem :: "nat \<Rightarrow> string \<Rightarrow> bresult" where
  "problem status code = plain_result status (ErrorData code)"

definition classify :: "berror option \<Rightarrow> bresult" where
  "classify err =
     (case err of None \<Rightarrow> problem 503 ''identity_provider_unavailable''
      | Some e \<Rightarrow>
         if errors_is e BMissing then problem 401 ''session_expired''
         else if errors_is e BInvalid then problem 401 ''session_invalid''
         else if errors_is e BBusy then problem 409 ''session_busy''
         else (case access_of e of Some (status, code) \<Rightarrow> problem status code | None \<Rightarrow> problem 503 ''identity_provider_unavailable''))"

section \<open>Loading and writing back\<close>

record 'r lease_io =
  li_owner :: "string option"
  li_now :: time
  li_rounds :: "'r acquire_round list"
  li_between :: "'r \<Rightarrow> 'r"
  li_commit :: net
  li_commit_at :: time
  li_nonce :: "string option"
  li_release :: net

definition applyIdentityPreparationFailure :: "bsession \<Rightarrow> berror option \<Rightarrow> bool \<times> bsession" where
  "applyIdentityPreparationFailure value err =
     (case err of None \<Rightarrow> (False, value)
      | Some e \<Rightarrow>
         (br_status (classify (Some e)) = 401, if identityErrorRevokesOrganization (Some e) then value\<lparr>bs_Organization := []\<rparr> else value))"

definition beginIdentity ::
  "idp_env \<Rightarrow> 'n idp \<Rightarrow> bstore \<Rightarrow> 'r redis \<Rightarrow> 'r lease_io \<Rightarrow> string \<Rightarrow> 'r \<Rightarrow> 'n \<Rightarrow> ((berror + bsession) \<times> 'r \<times> 'n) option" where
  "beginIdentity I P S R io i r n =
     (case acquire_session S R (li_owner io) (li_now io) (li_rounds io) i r of
        None \<Rightarrow> None
      | Some (Inl e, r1) \<Rightarrow> Some (Inl e, r1, n)
      | Some (Inr (value, owner), r1) \<Rightarrow>
         (case prepareIdentity I P (li_commit_at io) value n of (prepareErr, v1, n1) \<Rightarrow>
            (case applyIdentityPreparationFailure v1 prepareErr of (remove, v2) \<Rightarrow>
               (case commit_session S R (li_commit io) (li_commit_at io) (li_nonce io) i owner i v2 remove (li_between io r1) of
                  (Some e, r2) \<Rightarrow> Some (Inl e, release_lease S R (li_release io) i owner r2, n1)
                | (None, r2) \<Rightarrow> Some (case prepareErr of Some e \<Rightarrow> Inl e | None \<Rightarrow> Inr v2, r2, n1)))))"

definition identityUpdateConflict :: berror where
  "identityUpdateConflict = access_error 409 ''organization_identity_changed''"

definition mergeIdentityUpdate :: "bsession \<Rightarrow> bsession \<Rightarrow> bsession \<Rightarrow> time \<Rightarrow> berror + bsession" where
  "mergeIdentityUpdate current before value now =
     (if bs_Subject current \<noteq> bs_Subject before \<or> bs_Organization current \<noteq> bs_Organization before \<or> bs_Revision current \<noteq> bs_Revision before \<or>
         bs_CSRF current \<noteq> bs_CSRF before
      then Inl identityUpdateConflict
      else case validateSessionSchema (Some current) now of Some e \<Rightarrow> Inl e
      | None \<Rightarrow>
         (case validateSessionSchema (Some value) now of Some e \<Rightarrow> Inl e
          | None \<Rightarrow>
             if bs_PolicyVersion before \<noteq> sessionPolicyVersion \<or> bs_PolicyVersion current \<noteq> sessionPolicyVersion \<or>
                bs_PolicyVersion value \<noteq> sessionPolicyVersion \<or>
                bs_AuthenticatedAt current \<noteq> bs_AuthenticatedAt before \<or> bs_AuthenticatedAt value \<noteq> bs_AuthenticatedAt before \<or>
                bs_AbsoluteUntil current \<noteq> bs_AbsoluteUntil before \<or> bs_AbsoluteUntil value \<noteq> bs_AbsoluteUntil before
             then Inl identityUpdateConflict
             else let idle = (if bs_IdleUntil current < bs_IdleUntil value then bs_IdleUntil value else bs_IdleUntil current)
             in Inr (current\<lparr>bs_IdleUntil := idle, bs_Until := idle\<rparr>)))"

definition maps_Equal :: "sdk_map \<Rightarrow> sdk_map \<Rightarrow> bool" where
  "maps_Equal a b \<longleftrightarrow> (case a of None \<Rightarrow> fmempty | Some f \<Rightarrow> f) = (case b of None \<Rightarrow> fmempty | Some f \<Rightarrow> f)"

text \<open>The session as it was written, on success.\<close>

definition finishIdentity ::
  "bstore \<Rightarrow> 'r redis \<Rightarrow> 'r lease_io \<Rightarrow> string \<Rightarrow> string \<Rightarrow> bsession \<Rightarrow> bsession \<Rightarrow> bool \<Rightarrow> 'r \<Rightarrow> ((berror + bsession) \<times> 'r) option" where
  "finishIdentity S R io i nextID before value remove r =
     (case acquire_session S R (li_owner io) (li_now io) (li_rounds io) i r of
        None \<Rightarrow> None
      | Some (Inl e, r1) \<Rightarrow> Some (Inl e, r1)
      | Some (Inr (current, owner), r1) \<Rightarrow>
         if remove \<and> \<not> maps_Equal (bs_SDK before) (bs_SDK current)
         then Some (Inl identityUpdateConflict, release_lease S R (li_release io) i owner r1)
         else case mergeIdentityUpdate current before value (li_commit_at io) of
           Inl e \<Rightarrow> Some (Inl e, release_lease S R (li_release io) i owner r1)
         | Inr merged \<Rightarrow>
            let next_value = merged\<lparr>bs_Organization := bs_Organization value, bs_Revision := bs_Revision value, bs_CSRF := bs_CSRF value\<rparr>
            in case commit_session S R (li_commit io) (li_commit_at io) (li_nonce io) i owner nextID next_value remove (li_between io r1) of
                 (Some e, r2) \<Rightarrow> Some (Inl e, release_lease S R (li_release io) i owner r2)
               | (None, r2) \<Rightarrow> Some (Inr next_value, r2))"

section \<open>Requests\<close>

record browser_request =
  bq_Host :: string
  bq_Cookies :: "string \<Rightarrow> string list"
  bq_Authorization :: "string list"
  bq_Origin :: "string list"
  bq_CSRF :: "string list"
  bq_OrganizationID :: "string list"
  bq_OrganizationRevision :: "string list"

type_synonym 'n session_handler = "browser_request \<Rightarrow> bsession \<Rightarrow> 'n \<Rightarrow> bresult \<times> bsession \<times> 'n"

definition validHost :: "bff_config \<Rightarrow> idp_env \<Rightarrow> browser_request \<Rightarrow> bool" where
  "validHost C I q \<longleftrightarrow> bq_Host q = ie_host I (cf_Origin C)"

definition csrfValid :: "bff_config \<Rightarrow> browser_request \<Rightarrow> bsession \<Rightarrow> bool" where
  "csrfValid C q value \<longleftrightarrow> bq_Origin q = [cf_Origin C] \<and> bs_CSRF value \<noteq> [] \<and> bq_CSRF q = [bs_CSRF value]"

text \<open>A cookie to set: its value and age; a response, or the principal that is handed to the application.\<close>

record bresponse =
  bp_status :: nat
  bp_data :: bdata
  bp_cookie :: "(string \<times> int) option"
  bp_redirect :: string
  bp_principal :: "(string \<times> principal) option"

definition reply_with :: "nat \<Rightarrow> bdata \<Rightarrow> bresponse" where
  "reply_with status data = \<lparr>bp_status = status, bp_data = data, bp_cookie = None, bp_redirect = [], bp_principal = None\<rparr>"

definition fail_with_code :: "nat \<Rightarrow> string \<Rightarrow> bresponse" where
  "fail_with_code status code = reply_with status (ErrorData code)"

text \<open>The checks before a session is loaded; the identifier of the session.\<close>

definition session_gate :: "bff_config \<Rightarrow> idp_env \<Rightarrow> browser_request \<Rightarrow> bresponse + string" where
  "session_gate C I q =
     (if \<not> validHost C I q then Inl (fail_with_code 403 ''host_rejected'')
      else if bq_Authorization q \<noteq> [] then Inl (fail_with_code 400 ''cookie_mode_rejects_bearer'')
      else case bq_Cookies q (cf_CookieName C) of [v] \<Rightarrow> Inr v | _ \<Rightarrow> Inl (fail_with_code 401 ''session_missing_or_ambiguous''))"

definition with_expiry :: "int \<Rightarrow> bresult \<Rightarrow> bresult" where
  "with_expiry t o1 =
     o1\<lparr>br_data := (case br_data o1 of ViewData v \<Rightarrow> ViewData (v\<lparr>sv_ExpiresAt := t\<rparr>) | d \<Rightarrow> d),
        br_principal := map_option (\<lambda>p. p\<lparr>pn_ExpiresAt := t\<rparr>) (br_principal o1)\<rparr>"

definition with_csrf :: "string \<Rightarrow> bdata \<Rightarrow> bdata" where
  "with_csrf csrf d = (case d of ViewData v \<Rightarrow> ViewData (v\<lparr>sv_CSRF := csrf\<rparr>) | _ \<Rightarrow> d)"

text \<open>What is sent once the session is written: cookie, principal, redirection or data.\<close>

definition session_response :: "bresult \<Rightarrow> string \<Rightarrow> bsession \<Rightarrow> time \<Rightarrow> bool \<Rightarrow> bresponse" where
  "session_response o1 nextID value now authorized =
     (let data = (if \<not> br_remove o1 \<and> br_rotate o1 then with_csrf (bs_CSRF value) (br_data o1) else br_data o1);
          cookie = (if br_remove o1 then Some ([], -1) else if br_rotate o1 then Some (nextID, sessionCookieMaxAge value now) else None)
      in if br_principal o1 \<noteq> None \<and> authorized
         then (reply_with 200 NoData)\<lparr>bp_cookie := cookie, bp_principal := Some (nextID, the (br_principal o1))\<rparr>
         else if br_redirect o1 \<noteq> [] then (reply_with 302 NoData)\<lparr>bp_cookie := cookie, bp_redirect := br_redirect o1\<rparr>
         else (reply_with (br_status o1) data)\<lparr>bp_cookie := cookie\<rparr>)"

text \<open>The outcome of a handler, with rotation and removal as the session asks for them.\<close>

definition settle_outcome :: "bsession \<Rightarrow> bsession \<Rightarrow> bresult \<Rightarrow> bresult" where
  "settle_outcome before value o1 =
     o1\<lparr>br_rotate := br_rotate o1 \<or> bs_Organization value \<noteq> [] \<and> (bs_Organization value \<noteq> bs_Organization before \<or> bs_Revision value \<noteq> bs_Revision before),
        br_remove := br_remove o1 \<or> br_status o1 = 401\<rparr>"

text \<open>A new identifier and CSRF token when \<open>rotating\<close>: \<open>ents\<close> is the entropy for the two.\<close>

definition rotate_session :: "bool \<Rightarrow> string option \<times> string option \<Rightarrow> string \<Rightarrow> bsession \<Rightarrow> (string \<times> bsession) option" where
  "rotate_session rotating ents i value =
     (if \<not> rotating then Some (i, value)
      else case (opaque (fst ents), opaque (snd ents)) of
        (Inr nextID, Inr csrf) \<Rightarrow> Some (nextID, value\<lparr>bs_CSRF := csrf\<rparr>) | _ \<Rightarrow> None)"

text \<open>
  The copy of the session that is made before the handler runs shares the map of the SDK with it, so that the calls of
  the handler show in both.
\<close>

definition withIdentitySession ::
  "bff_config \<Rightarrow> idp_env \<Rightarrow> 'n idp \<Rightarrow> bstore \<Rightarrow> 'r redis \<Rightarrow> 'r lease_io \<Rightarrow> 'r lease_io \<Rightarrow> string option \<times> string option \<Rightarrow> time \<Rightarrow>
   'n session_handler \<Rightarrow> bool \<Rightarrow> browser_request \<Rightarrow> 'r \<Rightarrow> 'n \<Rightarrow> (bresponse \<times> 'r \<times> 'n) option" where
  "withIdentitySession C I P S R io1 io2 ents now handler authorized q r n =
     (case session_gate C I q of Inl p \<Rightarrow> Some (p, r, n)
      | Inr i \<Rightarrow>
     (case beginIdentity I P S R io1 i r n of
        None \<Rightarrow> None
      | Some (Inl e, r1, n1) \<Rightarrow> Some (fail_with_code (br_status (classify (Some e))) ''session_unavailable'', r1, n1)
      | Some (Inr before, r1, n1) \<Rightarrow>
         (case handler q before n1 of (o0, v1, n2) \<Rightarrow>
            let o1 = settle_outcome before v1 o0
            in case rotate_session (br_rotate o1 \<and> \<not> br_remove o1) ents i v1 of
                 None \<Rightarrow> Some (fail_with_code 503 ''session_entropy_unavailable'', r1, n2)
               | Some (nextID, v2) \<Rightarrow>
                  (case finishIdentity S R io2 i nextID (before\<lparr>bs_SDK := bs_SDK v1\<rparr>) v2 (br_remove o1) r1 of
                     None \<Rightarrow> None
                   | Some (Inl e, r2) \<Rightarrow> Some (fail_with_code (br_status (classify (Some e))) ''session_changed_or_unavailable'', r2, n2)
                   | Some (Inr v3, r2) \<Rightarrow>
                      let o2 = (if br_remove o1 then o1
                                else case sessionDeadline (Some v3) now of Inl _ \<Rightarrow> o1 | Inr deadline \<Rightarrow> with_expiry (unix deadline) o1)
                      in Some (session_response o2 nextID v3 now authorized, r2, n2)))))"

text \<open>With a resource the lease is held while the handler runs.\<close>

definition acquire_failure :: "berror \<Rightarrow> bresponse" where
  "acquire_failure e =
     (if errors_is e BMissing then fail_with_code 401 ''session_expired''
      else if errors_is e BInvalid then fail_with_code 401 ''session_invalid''
      else if errors_is e BBusy then fail_with_code 409 ''session_busy''
      else fail_with_code 503 ''session_store_unavailable'')"

definition withSession ::
  "bff_config \<Rightarrow> idp_env \<Rightarrow> 'n idp \<Rightarrow> bstore \<Rightarrow> 'r redis \<Rightarrow> 'r lease_io \<Rightarrow> 'r lease_io \<Rightarrow> string option \<times> string option \<Rightarrow> time \<Rightarrow>
   'n session_handler \<Rightarrow> bool \<Rightarrow> browser_request \<Rightarrow> 'r \<Rightarrow> 'n \<Rightarrow> (bresponse \<times> 'r \<times> 'n) option" where
  "withSession C I P S R io1 io2 ents now handler authorized q r n =
     (if cf_APIResource C = [] then withIdentitySession C I P S R io1 io2 ents now handler authorized q r n
      else case session_gate C I q of Inl p \<Rightarrow> Some (p, r, n)
      | Inr i \<Rightarrow>
     (case acquire_session S R (li_owner io1) (li_now io1) (li_rounds io1) i r of
        None \<Rightarrow> None
      | Some (Inl e, r1) \<Rightarrow> Some (acquire_failure e, r1, n)
      | Some (Inr (value, owner), r1) \<Rightarrow>
         (case handler q value n of (o0, v1, n1) \<Rightarrow>
            let o1 = settle_outcome value v1 o0
            in case rotate_session (br_rotate o1) ents i v1 of
                 None \<Rightarrow> Some (fail_with_code 503 ''session_entropy_unavailable'', release_lease S R (li_release io1) i owner (li_between io1 r1), n1)
               | Some (nextID, v2) \<Rightarrow>
                  (case commit_session S R (li_commit io1) (li_commit_at io1) (li_nonce io1) i owner nextID v2 (br_remove o1) (li_between io1 r1) of
                     (Some e, r2) \<Rightarrow> Some (fail_with_code 503 ''session_commit_failed'', release_lease S R (li_release io1) i owner r2, n1)
                   | (None, r2) \<Rightarrow> Some (session_response o1 nextID v2 now authorized, r2, n1)))))"

section \<open>Handlers\<close>

definition bff_view :: "bsession \<Rightarrow> profile \<Rightarrow> organization list \<Rightarrow> time \<Rightarrow> session_view" where
  "bff_view value user rows deadline =
     \<lparr>sv_Organizations = rows, sv_OrganizationID = bs_Organization value, sv_Revision = bs_Revision value, sv_ExpiresAt = unix deadline, sv_CSRF = bs_CSRF value,
      sv_User = (if bs_Organization value \<noteq> [] then Some user else None),
      sv_Roles = (if bs_Organization value \<noteq> []
                  then map (\<lambda>x. trim_prefix x (bs_Organization value @ '':'')) (filter (\<lambda>x. has_prefix x (bs_Organization value @ '':'')) (pf_Roles user)) else []),
      sv_Permissions = []\<rparr>"

definition sessionViewData ::
  "bff_config \<Rightarrow> idp_env \<Rightarrow> 'n idp \<Rightarrow> time \<Rightarrow> bsession \<Rightarrow> profile \<Rightarrow> organization list \<Rightarrow> 'n \<Rightarrow> (berror + session_view) \<times> bsession \<times> 'n" where
  "sessionViewData C I P now value user rows n =
     (case sessionDeadline (Some value) now of Inl e \<Rightarrow> (Inl e, value, n)
      | Inr deadline \<Rightarrow>
         let data = bff_view value user rows deadline
         in if bs_Organization value \<noteq> [] \<and> cf_APIResource C \<noteq> []
            then (case organizationClaims C I P value (bs_Organization value) n of
                    (Inl e, v1, n1) \<Rightarrow> (Inl e, v1, n1)
                  | (Inr claims, v1, n1) \<Rightarrow> (Inr (data\<lparr>sv_Permissions := string_fields (sc_Scope claims)\<rparr>), v1, n1))
            else (Inr data, value, n))"

definition sessionView :: "bff_config \<Rightarrow> idp_env \<Rightarrow> 'n idp \<Rightarrow> time \<Rightarrow> 'n session_handler" where
  "sessionView C I P now q value n =
     (case currentRequest C I P value n of
        (Inl e, v1, n1) \<Rightarrow> (classify (Some e), v1, n1)
      | (Inr (user, rows), v1, n1) \<Rightarrow>
         (case sessionViewData C I P now v1 user rows n1 of
            (Inl e, v2, n2) \<Rightarrow> (classify (Some e), v2, n2) | (Inr data, v2, n2) \<Rightarrow> (plain_result 200 (ViewData data), v2, n2)))"

definition accountCenter :: "bff_config \<Rightarrow> idp_env \<Rightarrow> 'n idp \<Rightarrow> 'n session_handler" where
  "accountCenter C I P q value n =
     (case currentRequest C I P value n of
        (Inl e, v1, n1) \<Rightarrow> (classify (Some e), v1, n1)
      | (Inr _, v1, n1) \<Rightarrow> ((plain_result 302 NoData)\<lparr>br_redirect := cf_Endpoint C @ ''/account/organizations''\<rparr>, v1, n1))"

definition org_headers :: "browser_request \<Rightarrow> bsession \<Rightarrow> bool" where
  "org_headers q value \<longleftrightarrow> bq_OrganizationID q = [bs_Organization value] \<and> bq_OrganizationRevision q = [bs_Revision value]"

definition renewSession :: "bff_config \<Rightarrow> idp_env \<Rightarrow> 'n idp \<Rightarrow> time \<Rightarrow> 'n session_handler" where
  "renewSession C I P now q value n =
     (if \<not> csrfValid C q value then (problem 403 ''csrf_rejected'', value, n)
      else if \<not> org_headers q value then (problem 409 ''organization_identity_changed'', value, n)
      else if bs_PolicyVersion value \<noteq> sessionPolicyVersion then (problem 409 ''session_renewal_unsupported'', value, n)
      else case currentRequest C I P value n of
        (Inl e, v1, n1) \<Rightarrow>
          (classify (Some e),
           if identityErrorRevokesOrganization (Some e) then v1\<lparr>bs_Organization := []\<rparr>
           else v1\<lparr>bs_Organization := bs_Organization value, bs_Revision := bs_Revision value\<rparr>, n1)
      | (Inr (user, rows), v1, n1) \<Rightarrow>
          if bs_Organization v1 \<noteq> bs_Organization value \<or> bs_Revision v1 \<noteq> bs_Revision value
          then (problem 409 ''organization_identity_changed'', v1\<lparr>bs_Organization := bs_Organization value, bs_Revision := bs_Revision value\<rparr>, n1)
          else if cf_APIResource C \<noteq> [] \<and> (case sessionDeadline (Some v1) now of Inl _ \<Rightarrow> True | Inr _ \<Rightarrow> False)
          then (case sessionDeadline (Some v1) now of Inl e \<Rightarrow> (classify (Some e), v1, n1) | Inr _ \<Rightarrow> (classify None, v1, n1))
          else let idle = nextSessionIdle now (bs_AbsoluteUntil v1);
                   v2 = v1\<lparr>bs_IdleUntil := idle, bs_Until := idle\<rparr>
          in case sessionViewData C I P now v2 user rows n1 of
               (Inl e, v3, n2) \<Rightarrow> (classify (Some e), v3\<lparr>bs_IdleUntil := bs_IdleUntil v1, bs_Until := bs_Until v1\<rparr>, n2)
             | (Inr data, v3, n2) \<Rightarrow> (plain_result 200 (ViewData data), v3, n2))"

definition principalDisplayNames :: "profile \<Rightarrow> organization list \<Rightarrow> string \<Rightarrow> string \<times> string" where
  "principalDisplayNames user rows organizationID =
     (let username = (if pf_Username user = [] then pf_Name user else pf_Username user);
          organizationName = (case List.find (\<lambda>row. og_ID row = organizationID) rows of None \<Rightarrow> [] | Some row \<Rightarrow> og_Name row);
          names = \<lparr>Username = username, OrganizationName = organizationName\<rparr>
      in if display_Validate names \<noteq> None then ([], []) else (trim_space username, trim_space organizationName))"

text \<open>The handler that \<open>Require\<close> runs: a principal, or why there is none.\<close>

definition requirePrincipal :: "bff_config \<Rightarrow> idp_env \<Rightarrow> 'n idp \<Rightarrow> time \<Rightarrow> string list \<Rightarrow> 'n session_handler" where
  "requirePrincipal C I P now scopes q s n =
     (if \<not> csrfValid C q s then (problem 403 ''csrf_rejected'', s, n)
      else if bs_Organization s = [] then (problem 403 ''organization_selection_required'', s, n)
      else case currentRequest C I P s n of
        (Inl e, v1, n1) \<Rightarrow> (classify (Some e), v1, n1)
      | (Inr (user, rows), v1, n1) \<Rightarrow>
          if \<not> org_headers q v1 then (problem 409 ''organization_identity_changed'', v1, n1)
          else if cf_APIResource C = [] then
            (if scopes \<noteq> [] then (problem 403 ''insufficient_scope'', v1, n1)
             else case sessionDeadline (Some v1) now of Inl e \<Rightarrow> (classify (Some e), v1, n1)
             | Inr deadline \<Rightarrow>
                (case principalDisplayNames user rows (bs_Organization v1) of (username, organizationName) \<Rightarrow>
                   ((plain_result 200 NoData)\<lparr>br_principal := Some
                      \<lparr>pn_Issuer = cf_Endpoint C @ ''/oidc'', pn_UserID = bs_Subject v1, pn_OrganizationID = bs_Organization v1, pn_Username = username,
                       pn_OrganizationName = organizationName, pn_OrganizationRevision = bs_Revision v1, pn_DepartmentIDs = [], pn_PrimaryDepartmentID = None,
                       pn_Permissions = [], pn_ExpiresAt = unix deadline\<rparr>\<rparr>, v1, n1)))
          else
          (case organizationClaims C I P v1 (bs_Organization v1) n1 of
             (Inl e, v2, n2) \<Rightarrow> (classify (Some e), v2, n2)
           | (Inr claims, v2, n2) \<Rightarrow>
              if list_ex (\<lambda>scope. scope = [] \<or> \<not> hasScope claims scope) scopes then (problem 403 ''insufficient_scope'', v2, n2)
              else case sessionDeadline (Some v2) now of Inl e \<Rightarrow> (classify (Some e), v2, n2)
              | Inr deadline \<Rightarrow>
                 (case principalDisplayNames user rows (sc_OrganizationID claims) of (username, organizationName) \<Rightarrow>
                    ((plain_result 200 NoData)\<lparr>br_principal := Some
                       \<lparr>pn_Issuer = cf_Endpoint C @ ''/oidc'', pn_UserID = sc_Subject claims, pn_OrganizationID = sc_OrganizationID claims, pn_Username = username,
                        pn_OrganizationName = organizationName, pn_OrganizationRevision = bs_Revision v2, pn_DepartmentIDs = sc_DepartmentIDs claims,
                        pn_PrimaryDepartmentID = sc_PrimaryDepartmentID claims, pn_Permissions = string_fields (sc_Scope claims),
                        pn_ExpiresAt = min (unix (sc_ExpiresAt claims)) (unix deadline)\<rparr>\<rparr>, v2, n2))))"

definition bff_logout :: "bff_config \<Rightarrow> idp_env \<Rightarrow> 'n idp \<Rightarrow> 'n session_handler" where
  "bff_logout C I P q value n =
     (let failure = problem 503 ''browser_logout_unavailable'';
          target = cf_Endpoint C @ ''/api/my-account/browser-session/logout''
      in if \<not> csrfValid C q value then (problem 403 ''csrf_rejected'', value, n)
         else case ip_GetAccessToken P (bs_SDK value) n of
           (Inl _, sdk, n1) \<Rightarrow> (failure, value\<lparr>bs_SDK := sdk\<rparr>, n1)
         | (Inr token, sdk, n1) \<Rightarrow>
             let v1 = value\<lparr>bs_SDK := sdk\<rparr>
             in if at_Token token = [] \<or> \<not> ie_url_ok I target then (failure, v1, n1)
                else case ip_Do P \<lparr>iq_Method = ''POST'', iq_URL = target, iq_Token = at_Token token\<rparr> n1 of
                  (None, n2) \<Rightarrow> (failure, v1, n2)
                | (Some response, n2) \<Rightarrow>
                    if ir_BodyFails response then (failure, v1, n2)
                    else if ir_Status response = 401 then (problem 401 ''session_invalid'', v1, n2)
                    else if ir_Status response \<noteq> 204 then (failure, v1, n2)
                    else ((plain_result 200 (RedirectData (cf_Origin C @ ''/'')))\<lparr>br_remove := True\<rparr>, v1, n2))"

section \<open>Checking a principal again\<close>

datatype recheck = Confirmed | AuthorizationChanged | Unavailable

text \<open>\<open>classify\<close> of an error as the outcome of a check; \<open>codes\<close> are the statuses that mean a change.\<close>

definition recheck_of :: "nat set \<Rightarrow> berror \<Rightarrow> recheck" where
  "recheck_of codes e = (if br_status (classify (Some e)) \<in> codes then AuthorizationChanged else Unavailable)"

definition same_principal :: "bsession \<Rightarrow> principal \<Rightarrow> bool" where
  "same_principal v p \<longleftrightarrow> bs_Organization v = pn_OrganizationID p \<and> bs_Revision v = pn_OrganizationRevision p"

definition revalidateIdentity ::
  "bff_config \<Rightarrow> idp_env \<Rightarrow> 'n idp \<Rightarrow> bstore \<Rightarrow> 'r redis \<Rightarrow> 'r lease_io \<Rightarrow> 'r lease_io \<Rightarrow> string \<Rightarrow> principal \<Rightarrow> string list \<Rightarrow>
   'r \<Rightarrow> 'n \<Rightarrow> (recheck \<times> 'r \<times> 'n) option" where
  "revalidateIdentity C I P S R io1 io2 i expected scopes r n =
     (if scopes \<noteq> [] then Some (AuthorizationChanged, r, n)
      else case beginIdentity I P S R io1 i r n of
        None \<Rightarrow> None
      | Some (Inl e, r1, n1) \<Rightarrow> Some (recheck_of {401, 403, 409} e, r1, n1)
      | Some (Inr value, r1, n1) \<Rightarrow>
          if bs_Subject value \<noteq> pn_UserID expected \<or> \<not> same_principal value expected then Some (AuthorizationChanged, r1, n1)
          else case currentRequest C I P value n1 of (res, v1, n2) \<Rightarrow>
            let valid = same_principal v1 expected;
                v2 = (case res of Inr _ \<Rightarrow> v1\<lparr>bs_Organization := bs_Organization value, bs_Revision := bs_Revision value\<rparr> | Inl _ \<Rightarrow> v1);
                remove = (case res of Inl e \<Rightarrow> br_status (classify (Some e)) = 401 | Inr _ \<Rightarrow> False)
            in case finishIdentity S R io2 i i (value\<lparr>bs_SDK := bs_SDK v1\<rparr>) v2 remove r1 of
                 None \<Rightarrow> None
               | Some (Inl e, r2) \<Rightarrow> Some (recheck_of {401, 403, 409} e, r2, n2)
               | Some (Inr _, r2) \<Rightarrow>
                   Some (case res of Inl e \<Rightarrow> recheck_of {401, 403} e | Inr _ \<Rightarrow> if valid then Confirmed else AuthorizationChanged, r2, n2))"

definition authorizationError :: "berror \<Rightarrow> recheck" where
  "authorizationError e =
     (if errors_is e BMissing \<or> errors_is e BBusy \<or> errors_is e BInvalid then AuthorizationChanged
      else case access_of e of Some (status, _) \<Rightarrow> if 400 \<le> status \<and> status < 500 then AuthorizationChanged else Unavailable | None \<Rightarrow> Unavailable)"

text \<open>With a resource: the whole check is made under one lease.\<close>

definition recheck_claims ::
  "bff_config \<Rightarrow> idp_env \<Rightarrow> 'n idp \<Rightarrow> principal \<Rightarrow> string list \<Rightarrow> bsession \<Rightarrow> 'n \<Rightarrow> berror option \<times> bool \<times> bsession \<times> 'n" where
  "recheck_claims C I P expected scopes value n =
     (if \<not> (bs_Subject value = pn_UserID expected \<and> same_principal value expected) then (None, False, value, n)
      else case currentRequest C I P value n of
        (Inl e, v1, n1) \<Rightarrow> (Some e, same_principal v1 expected, v1, n1)
      | (Inr _, v1, n1) \<Rightarrow>
         (case organizationClaims C I P v1 (bs_Organization v1) n1 of
            (Inl e, v2, n2) \<Rightarrow> (Some e, same_principal v1 expected, v2, n2)
          | (Inr claims, v2, n2) \<Rightarrow> (None, same_principal v1 expected \<and> list_all (hasScope claims) scopes, v2, n2)))"

definition revalidate ::
  "bff_config \<Rightarrow> idp_env \<Rightarrow> 'n idp \<Rightarrow> bstore \<Rightarrow> 'r redis \<Rightarrow> 'r lease_io \<Rightarrow> 'r lease_io \<Rightarrow> string \<Rightarrow> principal \<Rightarrow> string list \<Rightarrow>
   'r \<Rightarrow> 'n \<Rightarrow> (recheck \<times> 'r \<times> 'n) option" where
  "revalidate C I P S R io1 io2 i expected scopes r n =
     (if cf_APIResource C = [] then revalidateIdentity C I P S R io1 io2 i expected scopes r n
      else case acquire_session S R (li_owner io1) (li_now io1) (li_rounds io1) i r of
        None \<Rightarrow> None
      | Some (Inl e, r1) \<Rightarrow> Some (if errors_is e BMissing then AuthorizationChanged else Unavailable, r1, n)
      | Some (Inr (value, owner), r1) \<Rightarrow>
         (case recheck_claims C I P expected scopes value n of (err, valid, v1, n1) \<Rightarrow>
            let v2 = (if \<not> same_principal v1 expected then v1\<lparr>bs_Organization := bs_Organization value, bs_Revision := bs_Revision value\<rparr> else v1);
                v3 = (if identityErrorRevokesOrganization err then v2\<lparr>bs_Organization := []\<rparr> else v2);
                remove = (case err of None \<Rightarrow> False | Some e \<Rightarrow> (case access_of e of Some (status, _) \<Rightarrow> status = 401 | None \<Rightarrow> False));
                out = commit_session S R (li_commit io1) (li_commit_at io1) (li_nonce io1) i owner i v3 remove (li_between io1 r1);
                verdict = (if fst out \<noteq> None then Unavailable
                           else case err of Some e \<Rightarrow> if access_of e = None then Unavailable else AuthorizationChanged
                           | None \<Rightarrow> if valid then Confirmed else AuthorizationChanged)
            in Some (verdict, release_lease S R (li_release io1) i owner (snd out), n1)))"

end
