(* ===== verification/Handler_Lemmas.thy ===== *)
theory Handler_Lemmas
  imports Session_Handlers Session_Properties
begin

text \<open>
  What the questions to the identity provider change of a session, which errors they end with, and what the answers
  that are accepted have confirmed: the lemmas behind the properties of requests with a session.
\<close>

section \<open>What stays of a session\<close>

text \<open>Questions to the provider change at most the tokens, the organization and its revision.\<close>

definition same_login :: "bsession \<Rightarrow> bsession \<Rightarrow> bool" where
  "same_login v w \<longleftrightarrow> bs_Subject w = bs_Subject v \<and> bs_CSRF w = bs_CSRF v \<and> bs_Until w = bs_Until v \<and> bs_PolicyVersion w = bs_PolicyVersion v \<and>
     bs_AuthenticatedAt w = bs_AuthenticatedAt v \<and> bs_IdleUntil w = bs_IdleUntil v \<and> bs_AbsoluteUntil w = bs_AbsoluteUntil v"

definition same_place :: "bsession \<Rightarrow> bsession \<Rightarrow> bool" where
  "same_place v w \<longleftrightarrow> bs_Organization w = bs_Organization v \<and> bs_Revision w = bs_Revision v"

lemma same_login_simps [simp]:
  "same_login v v" "same_login v (w\<lparr>bs_SDK := x\<rparr>) = same_login v w" "same_login v (w\<lparr>bs_Organization := y\<rparr>) = same_login v w"
  "same_login v (w\<lparr>bs_Revision := z\<rparr>) = same_login v w"
  by (simp_all add: same_login_def)

lemma same_place_simps [simp]: "same_place v v" "same_place v (w\<lparr>bs_SDK := x\<rparr>) = same_place v w"
  by (simp_all add: same_place_def)

lemma same_login_trans: "same_login u v \<Longrightarrow> same_login v w \<Longrightarrow> same_login u w"
  by (simp add: same_login_def)

lemma same_place_trans: "same_place u v \<Longrightarrow> same_place v w \<Longrightarrow> same_place u w"
  by (simp add: same_place_def)

lemma same_login_deadlines:
  assumes "same_login v w"
  shows "sessionDeadline (Some w) t = sessionDeadline (Some v) t" "validateSessionSchema (Some w) t = validateSessionSchema (Some v) t"
proof -
  show 1: "validateSessionSchema (Some w) t = validateSessionSchema (Some v) t" using assms by (simp add: validateSessionSchema_def same_login_def)
  then show "sessionDeadline (Some w) t = sessionDeadline (Some v) t" using assms by (simp add: sessionDeadline_def Let_def same_login_def split: option.splits)
qed

lemma token_keeps:
  assumes "bff_token C I P org v n = (res, w, n')"
  shows "same_login v w \<and> same_place v w"
  using assms by (auto simp: bff_token_def Let_def split: if_splits option.splits sum.splits prod.splits)

lemma refresh_keeps:
  assumes "refresh C I P v n = (res, w, n')"
  shows "same_login v w \<and> same_place v w"
proof -
  obtain res1 v1 n1 where t: "bff_token C I P [] v n = (res1, v1, n1)" by (meson prod_cases3)
  from token_keeps [OF t] assms t show ?thesis
    by (auto simp: refresh_def split: sum.splits prod.splits sdk_error.splits option.splits if_splits)
qed

lemma claims_keeps:
  assumes "organizationClaims C I P v org n = (res, w, n')"
  shows "same_login v w \<and> same_place v w"
proof -
  obtain res1 v1 n1 where t: "bff_token C I P org v n = (res1, v1, n1)" by (meson prod_cases3)
  from token_keeps [OF t] assms t show ?thesis
    by (auto simp: organizationClaims_def split: sum.splits prod.splits if_splits)
qed

lemma organizations_keeps:
  assumes "organizations C I P v b n = (res, w, n')"
  shows "same_login v w"
  using assms by (auto simp: organizations_def Let_def split: if_splits option.splits sum.splits prod.splits)

lemma ask_keeps:
  assumes "ask_identity C I P v n = (res, w, n')"
  shows "same_login v w"
proof (cases "cf_APIResource C = []")
  case True
  then show ?thesis using assms organizations_keeps by (auto simp: ask_identity_def)
next
  case False
  obtain r1 v1 n1 where f: "refresh C I P v n = (r1, v1, n1)" by (meson prod_cases3)
  obtain r2 v2 n2 where g: "organizations C I P v1 False n1 = (r2, v2, n2)" by (meson prod_cases3)
  have "same_login v v2" using refresh_keeps [OF f] organizations_keeps [OF g] same_login_trans by blast
  then show ?thesis using assms False f g refresh_keeps [OF f] by (auto simp: ask_identity_def split: sum.splits prod.splits)
qed

lemma currentRequest_keeps:
  assumes "currentRequest C I P v n = (res, w, n')"
  shows "same_login v w"
proof -
  obtain r1 v1 n1 where f: "ask_identity C I P v n = (r1, v1, n1)" by (meson prod_cases3)
  from ask_keeps [OF f] assms f show ?thesis by (auto simp: currentRequest_def split: sum.splits prod.splits if_splits)
qed

lemma prepare_keeps:
  assumes "prepareIdentity I P t v n = (res, w, n')"
  shows "same_login v w \<and> same_place v w"
  using assms by (auto simp: prepareIdentity_def split: if_splits option.splits sum.splits prod.splits)

section \<open>What an answer confirms\<close>

text \<open>A request for the identity that the provider answered, between two of its states, with this organization and revision.\<close>

definition answer_confirms :: "bff_config \<Rightarrow> idp_env \<Rightarrow> 'n idp \<Rightarrow> 'n \<Rightarrow> 'n \<Rightarrow> string \<Rightarrow> string \<Rightarrow> bool" where
  "answer_confirms C I P m1 m2 org revision \<longleftrightarrow>
     (\<exists>token response doc rows.
        ip_Do P \<lparr>iq_Method = ''GET'',
                 iq_URL = cf_Endpoint C @ ''/api/my-account/organization-identity'' @ (if cf_APIResource C = [] then ''?include_profile=true'' else []),
                 iq_Token = token\<rparr> m1 = (Some response, m2) \<and>
        ir_Status response = 200 \<and> ie_identity I (ir_Body response) = Some doc \<and> id_Organizations doc = Some rows \<and>
        id_OrganizationID doc = org \<and> id_Revision doc = revision \<and> contains_org rows org \<and> orgPattern org \<and> validRevision revision)"

lemma organizations_confirms:
  assumes "organizations C I P v b n = (Inr (user, rows), w, n')"
  shows "\<exists>token response doc m1.
      ip_Do P \<lparr>iq_Method = ''GET'', iq_URL = cf_Endpoint C @ ''/api/my-account/organization-identity'' @ (if b then ''?include_profile=true'' else []),
               iq_Token = token\<rparr> m1 = (Some response, n') \<and>
      ir_Status response = 200 \<and> ie_identity I (ir_Body response) = Some doc \<and> id_Organizations doc = Some rows \<and>
      id_OrganizationID doc = bs_Organization w \<and> id_Revision doc = bs_Revision w \<and> contains_org rows (bs_Organization w) \<and>
      orgPattern (bs_Organization w) \<and> validRevision (bs_Revision w)"
  using assms by (fastforce simp: organizations_def read_identity_def Let_def split: if_splits option.splits sum.splits prod.splits)

lemma currentRequest_confirms:
  assumes "currentRequest C I P v n = (Inr (user, rows), w, n')"
  shows "\<exists>m1. answer_confirms C I P m1 n' (bs_Organization w) (bs_Revision w)"
proof -
  have ask: "ask_identity C I P v n = (Inr (user, rows), w, n')"
    using assms by (auto simp: currentRequest_def split: sum.splits prod.splits if_splits)
  have "\<exists>v0 b u0 n0. organizations C I P v0 b n0 = (Inr (u0, rows), w, n') \<and> b = (cf_APIResource C = [])"
    using ask by (fastforce simp: ask_identity_def split: if_splits sum.splits prod.splits)
  then obtain v0 b u0 n0 where o: "organizations C I P v0 b n0 = (Inr (u0, rows), w, n')" "b = (cf_APIResource C = [])" by blast
  from organizations_confirms [OF o(1)] show ?thesis unfolding answer_confirms_def o(2) by blast
qed

lemma claims_checked:
  assumes "organizationClaims C I P v org n = (Inr claims, w, n')"
  shows "sc_OrganizationID claims = org \<and> sc_Subject claims = bs_Subject v \<and> sc_ClientID claims = cf_ClientID C \<and> sc_Subject claims \<noteq> []"
proof -
  obtain res1 v1 n1 where t: "bff_token C I P org v n = (res1, v1, n1)" by (meson prod_cases3)
  from token_keeps [OF t] assms t show ?thesis
    by (auto simp: organizationClaims_def bff_verify_def same_login_def split: sum.splits prod.splits if_splits option.splits)
qed

section \<open>Errors\<close>

text \<open>The errors of the provider: an access error is a refusal of the session or of the organization.\<close>

definition provider_error :: "berror \<Rightarrow> bool" where
  "provider_error e \<longleftrightarrow> (\<forall>status code. access_of e = Some (status, code) \<longrightarrow> status = 401 \<or> status = 403) \<and> \<not> errors_is e BBusy"

lemma access_error_simps [simp]:
  "access_of (access_error s c) = Some (s, c)" "access_of (errors_text t) = None"
  by (simp_all add: access_error_def access_of_def errors_new_def errors_text_def)


lemma provider_error_simps [simp]:
  "provider_error (errors_text t)" "provider_error (access_error s c) \<longleftrightarrow> s = 401 \<or> s = 403"
  by (auto simp: provider_error_def access_error_def access_of_def errors_new_def errors_text_def errors_is_def)

lemma sdkFailure_provider [simp]: "provider_error (sdkFailure e)"
  by (cases e) auto

lemma providerFailure_provider [simp]: "provider_error (providerFailure I response b)"
  by (auto simp: providerFailure_def split: option.splits)

lemma token_errors: "bff_token C I P org v n = (Inl e, w, n') \<Longrightarrow> provider_error e"
  by (auto simp: bff_token_def Let_def split: if_splits option.splits sum.splits prod.splits)

lemma refresh_errors:
  assumes "refresh C I P v n = (Inl e, w, n')"
  shows "provider_error e"
  using assms token_errors [of C I P "[]" v n]
  by (auto simp del: sdkFailure.simps simp: refresh_def split: sum.splits prod.splits sdk_error.splits option.splits if_splits)

lemma read_identity_errors: "read_identity doc subject b = Inl e \<Longrightarrow> provider_error e"
  by (auto simp: read_identity_def validateDisplayProfile_def split: if_splits option.splits)

lemma organizations_errors: "organizations C I P v b n = (Inl e, w, n') \<Longrightarrow> provider_error e"
  by (auto simp: organizations_def Let_def dest: read_identity_errors split: if_splits option.splits sum.splits prod.splits)

lemma currentRequest_errors:
  assumes "currentRequest C I P v n = (Inl e, w, n')"
  shows "provider_error e"
proof -
  have "provider_error e1" if "ask_identity C I P v n = (Inl e1, v1, n1)" for e1 v1 n1
    using that by (auto simp: ask_identity_def split: if_splits sum.splits prod.splits dest: organizations_errors refresh_errors)
  then show ?thesis using assms by (auto simp: currentRequest_def split: sum.splits prod.splits if_splits)
qed

lemma claims_errors: "organizationClaims C I P v org n = (Inl e, w, n') \<Longrightarrow> provider_error e"
  by (auto simp: organizationClaims_def split: sum.splits prod.splits if_splits dest: token_errors)

text \<open>The error of a deadline.\<close>

lemma deadline_errors: "sessionDeadline v t = Inl e \<Longrightarrow> e = errMissing \<or> e = errInvalid"
  by (auto simp: sessionDeadline_def validateSessionSchema_def Let_def split: option.splits if_splits)

section \<open>Results\<close>

lemma classify_simps [simp]:
  "br_principal (classify e) = None" "br_rotate (classify e) = False" "br_remove (classify e) = False" "br_redirect (classify e) = []"
  "br_principal (problem s c) = None" "br_rotate (problem s c) = False" "br_remove (problem s c) = False" "br_redirect (problem s c) = []"
  "br_status (problem s c) = s" "br_data (problem s c) = ErrorData c"
  "br_principal (plain_result s d) = None" "br_rotate (plain_result s d) = False" "br_remove (plain_result s d) = False"
  "br_redirect (plain_result s d) = []" "br_status (plain_result s d) = s" "br_data (plain_result s d) = d"
  by (auto simp: classify_def problem_def plain_result_def split: option.splits)

lemma classify_data: "\<exists>c. br_data (classify e) = ErrorData c"
  by (auto simp: classify_def split: option.splits)

lemma classify_status:
  assumes "provider_error e \<or> e = errMissing \<or> e = errInvalid"
  shows "br_status (classify (Some e)) = 401 \<or> br_status (classify (Some e)) = 403 \<or> br_status (classify (Some e)) = 503"
  using assms
proof (elim disjE)
  assume "provider_error e"
  then show ?thesis by (auto simp: classify_def provider_error_def split: option.splits)
qed (auto simp: classify_def errMissing_def errInvalid_def)

end
