(* ===== verification/Handler_Properties.thy ===== *)
theory Handler_Properties
  imports Handler_Lemmas
begin

text \<open>
  Properties of requests with a session: who becomes a principal, how far a session is renewed, what an update merges,
  when a cookie is set or removed, and what confirms a principal again.
\<close>

section \<open>Principals\<close>

lemma requirePrincipal_granted:
  assumes out: "requirePrincipal C I P t scopes q s n = (o1, v, n')" and p: "br_principal o1 = Some p"
  shows "csrfValid C q s \<and> same_login s v \<and> bs_Organization v = pn_OrganizationID p \<and> bs_Revision v = pn_OrganizationRevision p \<and> bs_Subject s = pn_UserID p \<and>
    bq_OrganizationID q = [pn_OrganizationID p] \<and> bq_OrganizationRevision q = [pn_OrganizationRevision p] \<and>
    set scopes \<subseteq> set (pn_Permissions p) \<and> pn_ExpiresAt p \<le> unix (bs_IdleUntil s) \<and> t < bs_IdleUntil s \<and>
    br_status o1 = 200 \<and> \<not> br_remove o1 \<and>
    (\<exists>user rows w m1 m2. currentRequest C I P s n = (Inr (user, rows), w, m2) \<and> answer_confirms C I P m1 m2 (pn_OrganizationID p) (pn_OrganizationRevision p))"
proof -
  obtain res w m2 where cur: "currentRequest C I P s n = (res, w, m2)" by (meson prod_cases3)
  obtain res2 w2 m3 where cl: "organizationClaims C I P w (bs_Organization w) m2 = (res2, w2, m3)" by (meson prod_cases3)
  have head: "csrfValid C q s" "bs_Organization s \<noteq> []" "\<exists>user rows. res = Inr (user, rows)" "org_headers q w"
    using out p cur by (auto simp: requirePrincipal_def split: if_splits sum.splits)
  then obtain user rows where res: "res = Inr (user, rows)" by blast
  have keep: "same_login s w" using currentRequest_keeps [OF cur] .
  obtain m1 where conf: "answer_confirms C I P m1 m2 (bs_Organization w) (bs_Revision w)" using currentRequest_confirms cur res by metis
  have keep2: "same_login w w2" "same_place w w2" using claims_keeps [OF cl] by simp_all
  have dl: "d = bs_IdleUntil s" "t < bs_IdleUntil s" if "sessionDeadline (Some x) t = Inr d" "same_login s x" for x d
    using sessionDeadline_facts(1,2) [OF that(1)] that(2) by (simp_all add: same_login_def)
  show ?thesis
  proof (cases "cf_APIResource C = []")
    case True
    with out p cur res head obtain d where d: "scopes = []" "sessionDeadline (Some w) t = Inr d" "v = w" "br_status o1 = 200" "\<not> br_remove o1"
        "pn_UserID p = bs_Subject w" "pn_OrganizationID p = bs_Organization w" "pn_OrganizationRevision p = bs_Revision w" "pn_ExpiresAt p = unix d"
      by (auto simp: requirePrincipal_def split: if_splits sum.splits prod.splits)
    then have "d = bs_IdleUntil s" "t < bs_IdleUntil s" using dl keep by blast+
    with d head conf keep cur res show ?thesis by (auto simp: org_headers_def same_login_def)
  next
    case False
    note step = out [unfolded requirePrincipal_def, simplified head cur res cl False if_True if_False not_True_eq_False prod.case sum.case]
    obtain claims where claims: "res2 = Inr claims" using step p by (cases res2) auto
    note step2 = step [unfolded claims sum.case]
    have scoped: "list_all (\<lambda>scope. hasScope claims scope) scopes" using step2 p by (auto simp: list_ex_iff list_all_iff split: if_splits)
    have "\<not> list_ex (\<lambda>scope. scope = [] \<or> \<not> hasScope claims scope) scopes" using step2 p by (auto split: if_splits)
    note step3 = step2 [unfolded if_not_P [OF this]]
    obtain d where dd: "sessionDeadline (Some w2) t = Inr d" using step3 p by (cases "sessionDeadline (Some w2) t") auto
    obtain un on where names: "principalDisplayNames user rows (sc_OrganizationID claims) = (un, on)" by (meson surj_pair)
    note step4 = step3 [unfolded dd names sum.case prod.case, symmetric]
    have d: "v = w2" "br_status o1 = 200" "\<not> br_remove o1" using step4 by simp_all
    have pp: "p = the (br_principal o1)" using p by simp
    have q: "pn_UserID p = sc_Subject claims" "pn_OrganizationID p = sc_OrganizationID claims" "pn_OrganizationRevision p = bs_Revision w2"
        "pn_Permissions p = string_fields (sc_Scope claims)" "pn_ExpiresAt p = min (unix (sc_ExpiresAt claims)) (unix d)"
      unfolding pp step4 [THEN arg_cong, of fst, unfolded fst_conv] by simp_all
    have "sc_OrganizationID claims = bs_Organization w" "sc_Subject claims = bs_Subject w" using claims_checked [OF cl [unfolded claims]] by simp_all
    moreover have "d = bs_IdleUntil s" "t < bs_IdleUntil s" using dl [OF dd same_login_trans [OF keep keep2(1)]] by simp_all
    moreover have "set scopes \<subseteq> set (pn_Permissions p)" using scoped q(4) by (auto simp: list_all_iff hasScope_def)
    moreover have "pn_ExpiresAt p \<le> unix d" unfolding q(5) by (rule min.cobounded2)
    ultimately show ?thesis using d q(1-4) head conf cur res keep keep2 same_login_trans [OF keep keep2(1)]
      by (simp add: org_headers_def same_place_def) (auto simp: same_login_def)
  qed
qed

lemma beginIdentity_prepared:
  assumes "beginIdentity I P S R io i r n = Some (Inr w, r2, n1)"
  shows "\<exists>v owner r1. acquire_session S R (li_owner io) (li_now io) (li_rounds io) i r = Some (Inr (v, owner), r1) \<and> same_login v w \<and> same_place v w \<and>
    prepareIdentity I P (li_commit_at io) v n = (None, w, n1) \<and>
    commit_session S R (li_commit io) (li_commit_at io) (li_nonce io) i owner i w False (li_between io r1) = (None, r2)"
proof -
  obtain v owner r1 where a: "acquire_session S R (li_owner io) (li_now io) (li_rounds io) i r = Some (Inr (v, owner), r1)"
    using assms by (auto simp: beginIdentity_def split: option.splits sum.splits)
  obtain e w1 n2 where p: "prepareIdentity I P (li_commit_at io) v n = (e, w1, n2)" by (meson prod_cases3)
  have "e = None" "w1 = w" "n2 = n1" "commit_session S R (li_commit io) (li_commit_at io) (li_nonce io) i owner i w False (li_between io r1) = (None, r2)"
    using assms a p by (auto simp: beginIdentity_def applyIdentityPreparationFailure_def split: option.splits prod.splits)
  with a p prepare_keeps [OF p] show ?thesis by blast
qed

text \<open>What an update has checked, merged and written.\<close>

lemma finishIdentity_merged:
  assumes out: "finishIdentity S R io i nextID before value remove r = Some (Inr v, r2)"
    and a: "acquire_session S R (li_owner io) (li_now io) (li_rounds io) i r = Some (Inr (current, owner), r1)"
  shows "commit_session S R (li_commit io) (li_commit_at io) (li_nonce io) i owner nextID v remove (li_between io r1) = (None, r2)"
    "bs_SDK v = bs_SDK current \<and> bs_Subject v = bs_Subject before \<and> bs_AuthenticatedAt v = bs_AuthenticatedAt before \<and>
     bs_AbsoluteUntil v = bs_AbsoluteUntil before \<and> same_place value v \<and> bs_CSRF v = bs_CSRF value \<and>
     bs_IdleUntil v = max (bs_IdleUntil current) (bs_IdleUntil value) \<and> bs_Until v = bs_IdleUntil v"
proof -
  obtain merged where m: "mergeIdentityUpdate current before value (li_commit_at io) = Inr merged"
      "v = merged\<lparr>bs_Organization := bs_Organization value, bs_Revision := bs_Revision value, bs_CSRF := bs_CSRF value\<rparr>"
      "commit_session S R (li_commit io) (li_commit_at io) (li_nonce io) i owner nextID v remove (li_between io r1) = (None, r2)"
    using out a by (auto simp: finishIdentity_def Let_def split: option.splits sum.splits prod.splits if_splits)
  show "commit_session S R (li_commit io) (li_commit_at io) (li_nonce io) i owner nextID v remove (li_between io r1) = (None, r2)" by (rule m(3))
  have "merged = current\<lparr>bs_IdleUntil := max (bs_IdleUntil current) (bs_IdleUntil value), bs_Until := max (bs_IdleUntil current) (bs_IdleUntil value)\<rparr>"
    and "bs_Subject current = bs_Subject before" "bs_AuthenticatedAt current = bs_AuthenticatedAt before" "bs_AbsoluteUntil current = bs_AbsoluteUntil before"
    using m(1) by (auto simp: mergeIdentityUpdate_def Let_def max_def split: if_splits option.splits)
  then show "bs_SDK v = bs_SDK current \<and> bs_Subject v = bs_Subject before \<and> bs_AuthenticatedAt v = bs_AuthenticatedAt before \<and>
     bs_AbsoluteUntil v = bs_AbsoluteUntil before \<and> same_place value v \<and> bs_CSRF v = bs_CSRF value \<and>
     bs_IdleUntil v = max (bs_IdleUntil current) (bs_IdleUntil value) \<and> bs_Until v = bs_IdleUntil v"
    unfolding m(2) by (simp add: same_place_def)
qed

lemma finishIdentity_written:
  assumes "finishIdentity S R io i nextID before value remove r = Some (Inr v, r2)"
  obtains owner r1 where "commit_session S R (li_commit io) (li_commit_at io) (li_nonce io) i owner nextID v remove (li_between io r1) = (None, r2)"
    "bs_Subject v = bs_Subject before" "same_place value v" "bs_AbsoluteUntil v = bs_AbsoluteUntil before"
proof -
  obtain current owner r1 where a: "acquire_session S R (li_owner io) (li_now io) (li_rounds io) i r = Some (Inr (current, owner), r1)"
    using assms by (auto simp: finishIdentity_def split: option.splits sum.splits)
  from finishIdentity_merged [OF assms a] that show thesis by blast
qed

lemma session_gate_passed:
  assumes "session_gate C I q = Inr i"
  shows "validHost C I q \<and> bq_Authorization q = [] \<and> bq_Cookies q (cf_CookieName C) = [i]"
  using assms by (auto simp: session_gate_def split: if_splits list.splits)

lemma rotate_session_keeps:
  assumes "rotate_session b ents i v = Some (j, w)"
  shows "same_place v w \<and> bs_Subject w = bs_Subject v \<and> bs_AbsoluteUntil w = bs_AbsoluteUntil v" "\<not> b \<Longrightarrow> j = i \<and> w = v"
  using assms by (auto simp: rotate_session_def same_place_def split: if_splits sum.splits)

lemma reply_simps [simp]:
  "bp_principal (reply_with s d) = None" "bp_cookie (reply_with s d) = None" "bp_status (reply_with s d) = s" "bp_data (reply_with s d) = d"
  "bp_redirect (reply_with s d) = []"
  "bp_principal (fail_with_code s c) = None" "bp_cookie (fail_with_code s c) = None" "bp_status (fail_with_code s c) = s"
  by (simp_all add: reply_with_def fail_with_code_def)

lemma acquire_failure_simps [simp]: "bp_principal (acquire_failure e) = None" "bp_cookie (acquire_failure e) = None"
  by (simp_all add: acquire_failure_def)

lemma session_response_principal:
  "bp_principal (session_response o1 i v t authorized) = (if authorized then map_option (Pair i) (br_principal o1) else None)"
  by (auto simp: session_response_def Let_def)

lemma session_response_cookie:
  "bp_cookie (session_response o1 i v t authorized) =
     (if br_remove o1 then Some ([], -1) else if br_rotate o1 then Some (i, sessionCookieMaxAge v t) else None)"
  by (simp add: session_response_def Let_def)

lemma gate_refuses: "session_gate C I q = Inl p \<Longrightarrow> bp_principal p = None \<and> bp_cookie p = None"
  by (auto simp: session_gate_def split: if_splits list.splits)


lemma unix_mono: "a \<le> b \<Longrightarrow> unix a \<le> unix b"
  by (simp add: unix_def second_def zdiv_mono1)

lemma settle_simps [simp]:
  "br_principal (settle_outcome v w o1) = br_principal o1" "br_status (settle_outcome v w o1) = br_status o1"
  "br_remove (settle_outcome v w o1) \<longleftrightarrow> br_remove o1 \<or> br_status o1 = 401" "br_redirect (settle_outcome v w o1) = br_redirect o1"
  by (simp_all add: settle_outcome_def)

lemma schema_order: "validateSessionSchema (Some v) t = None \<Longrightarrow> unix (bs_IdleUntil v) \<le> unix (bs_AbsoluteUntil v)"
  by (auto dest: schema_facts intro: unix_mono)

text \<open>A session that was read is well formed.\<close>

lemma acquire_loop_schema:
  "acquire_loop S R i owner deadline now rounds r = Some (Inr v, r1) \<Longrightarrow> \<exists>t d. sessionDeadline (Some v) t = Inr d"
proof (induction rounds arbitrary: now r)
  case (Cons rd rds)
  obtain res r2 where t: "acquire_try S R (rd_eval rd) (rd_release rd) (now + rd_elapsed rd) i owner r = (res, r2)" by (meson surj_pair)
  show ?case
  proof (cases res)
    case None
    with Cons t show ?thesis by (auto simp: Let_def split: if_splits option.splits)
  next
    case (Some out)
    with Cons(2) t have "res = Some (Inr v)" by (simp add: Let_def)
    with t show ?thesis
      by (auto simp: acquire_try_def read_leased_def split: prod.splits sum.splits list.splits lua_value.splits if_splits)
  qed
qed simp

lemma map_sum_eq_Inr: "map_sum f g x = Inr y \<longleftrightarrow> (\<exists>z. x = Inr z \<and> g z = y)"
  by (cases x) auto

lemma acquire_session_schema:
  assumes "acquire_session S R ent now rounds i r = Some (Inr (v, owner), r1)"
  shows "unix (bs_IdleUntil v) \<le> unix (bs_AbsoluteUntil v)"
proof -
  have "\<exists>o2. acquire_loop S R i o2 (now + authenticationTimeout) now rounds r = Some (Inr v, r1)"
    using assms by (auto simp: acquire_session_def map_sum_eq_Inr split: if_splits sum.splits)
  then obtain t d where "sessionDeadline (Some v) t = Inr d" by (auto dest: acquire_loop_schema)
  then show ?thesis using schema_order sessionDeadline_facts(4) by blast
qed

text \<open>
  A request that was let in with the session \<open>v\<close>; the answer of the provider, for a session of the same login, to the
  question that \<open>currentRequest\<close> asked last; the commit that wrote the session for the principal.
\<close>

definition admitted :: "bff_config \<Rightarrow> idp_env \<Rightarrow> bstore \<Rightarrow> 'r redis \<Rightarrow> 'r lease_io \<Rightarrow> browser_request \<Rightarrow> 'r \<Rightarrow> string \<Rightarrow> bsession \<Rightarrow> bool" where
  "admitted C I S R io q r i v \<longleftrightarrow> validHost C I q \<and> bq_Authorization q = [] \<and> bq_Cookies q (cf_CookieName C) = [i] \<and>
     (\<exists>owner r1. acquire_session S R (li_owner io) (li_now io) (li_rounds io) i r = Some (Inr (v, owner), r1)) \<and> csrfValid C q v"

definition confirmed :: "bff_config \<Rightarrow> idp_env \<Rightarrow> 'n idp \<Rightarrow> bsession \<Rightarrow> principal \<Rightarrow> bool" where
  "confirmed C I P v p \<longleftrightarrow>
     (\<exists>w m user rows w' m1 m2. same_login v w \<and> currentRequest C I P w m = (Inr (user, rows), w', m2) \<and>
        answer_confirms C I P m1 m2 (pn_OrganizationID p) (pn_OrganizationRevision p))"

definition written_back :: "bstore \<Rightarrow> 'r redis \<Rightarrow> string \<Rightarrow> string \<Rightarrow> principal \<Rightarrow> 'r \<Rightarrow> bool" where
  "written_back S R i nextID p r' \<longleftrightarrow>
     (\<exists>fate t nonce owner u r2. commit_session S R fate t nonce i owner nextID u False r2 = (None, r') \<and>
        bs_Subject u = pn_UserID p \<and> bs_Organization u = pn_OrganizationID p \<and> bs_Revision u = pn_OrganizationRevision p)"

lemma written_backI:
  assumes "commit_session S R fate t nonce i owner nextID u False r2 = (None, r')"
    "bs_Subject u = pn_UserID p" "bs_Organization u = pn_OrganizationID p" "bs_Revision u = pn_OrganizationRevision p"
  shows "written_back S R i nextID p r'"
  using assms unfolding written_back_def by blast

lemma acquired_expiry:
  assumes "acquire_session S R ent now rounds i r = Some (Inr (v, owner), r1)" "x \<le> unix (bs_IdleUntil v)"
  shows "x \<le> unix (bs_AbsoluteUntil v)"
  using acquire_session_schema [OF assms(1)] assms(2) by linarith

text \<open>
  How a request went that was not refused: the session that was read, what the handler was given and made of it, and
  the commit that wrote the session \<open>u\<close> back.
\<close>

definition refusal :: "bresponse \<Rightarrow> bool" where
  "refusal resp \<longleftrightarrow> (\<exists>status code. resp = fail_with_code status code)"

lemma refusal_simps [simp]: "refusal (fail_with_code s c)" "refusal (acquire_failure e)" "session_gate C I q = Inl p \<Longrightarrow> refusal p"
  by (auto simp: refusal_def acquire_failure_def session_gate_def split: if_splits list.splits)

lemma refusal_empty: "bp_cookie resp \<noteq> None \<or> bp_principal resp \<noteq> None \<or> bp_data resp = RedirectData x \<Longrightarrow> \<not> refusal resp"
  by (auto simp: refusal_def fail_with_code_def)

lemma with_expiry_simps [simp]:
  "br_status (with_expiry t o1) = br_status o1" "br_rotate (with_expiry t o1) = br_rotate o1" "br_remove (with_expiry t o1) = br_remove o1"
  "br_redirect (with_expiry t o1) = br_redirect o1" "br_principal (with_expiry t o1) = map_option (\<lambda>p. p\<lparr>pn_ExpiresAt := t\<rparr>) (br_principal o1)"
  by (simp_all add: with_expiry_def)

lemma identity_ran:
  assumes out: "withIdentitySession C I P S R io1 io2 ents now handler authorized q r n = Some (resp, r', n')" and ran: "\<not> refusal resp"
  obtains i v owner r1 w m o0 v1 nxt v2 u fate t nonce o2 r2 oe where
    "session_gate C I q = Inr i" "acquire_session S R (li_owner io1) (li_now io1) (li_rounds io1) i r = Some (Inr (v, owner), r1)" "same_login v w"
    "handler q w m = (o0, v1, n')"
    "rotate_session (br_rotate (settle_outcome w v1 o0) \<and> \<not> br_remove (settle_outcome w v1 o0)) ents i v1 = Some (nxt, v2)"
    "commit_session S R fate t nonce i o2 nxt u (br_remove (settle_outcome w v1 o0)) r2 = (None, r')"
    "same_place v1 u" "bs_Subject u = bs_Subject v" "bs_AbsoluteUntil u = bs_AbsoluteUntil v"
    "resp = session_response oe nxt u now authorized"
    "oe = settle_outcome w v1 o0 \<or> (\<exists>d. sessionDeadline (Some u) now = Inr d \<and> oe = with_expiry (unix d) (settle_outcome w v1 o0))"
proof -
  note out = out [unfolded withIdentitySession_def]
  obtain i where g: "session_gate C I q = Inr i" using out ran by (auto split: sum.splits)
  note out = out [unfolded g sum.case]
  obtain w r1 m where b: "beginIdentity I P S R io1 i r n = Some (Inr w, r1, m)" using out ran by (auto split: option.splits sum.splits)
  obtain v owner r0 where a: "acquire_session S R (li_owner io1) (li_now io1) (li_rounds io1) i r = Some (Inr (v, owner), r0)" "same_login v w"
    using beginIdentity_prepared [OF b] by blast
  note out = out [unfolded b option.case prod.case sum.case]
  obtain o0 v1 n2 where h: "handler q w m = (o0, v1, n2)" by (meson prod_cases3)
  let ?o = "settle_outcome w v1 o0"
  note out = out [unfolded h prod.case Let_def]
  obtain nxt v2 where rot: "rotate_session (br_rotate ?o \<and> \<not> br_remove ?o) ents i v1 = Some (nxt, v2)" using out ran by (auto split: option.splits)
  note out = out [unfolded rot option.case prod.case]
  obtain u where fin: "finishIdentity S R io2 i nxt (w\<lparr>bs_SDK := bs_SDK v1\<rparr>) v2 (br_remove ?o) r1 = Some (Inr u, r')"
    using out ran by (auto split: option.splits sum.splits)
  note out = out [unfolded fin option.case prod.case sum.case]
  define oe where "oe = (if br_remove ?o then ?o else case sessionDeadline (Some u) now of Inl _ \<Rightarrow> ?o | Inr deadline \<Rightarrow> with_expiry (unix deadline) ?o)"
  have resp: "resp = session_response oe nxt u now authorized" "n2 = n'" using out unfolding oe_def by auto
  have oe: "oe = ?o \<or> (\<exists>d. sessionDeadline (Some u) now = Inr d \<and> oe = with_expiry (unix d) ?o)" by (auto simp: oe_def split: sum.splits)
  obtain o2 r2 where fw: "commit_session S R (li_commit io2) (li_commit_at io2) (li_nonce io2) i o2 nxt u (br_remove ?o) (li_between io2 r2) = (None, r')"
      "bs_Subject u = bs_Subject w" "same_place v2 u" "bs_AbsoluteUntil u = bs_AbsoluteUntil w"
    using finishIdentity_written [OF fin] by auto
  have "same_place v1 u" using rotate_session_keeps(1) [OF rot] fw(3) same_place_trans by blast
  moreover have "bs_Subject u = bs_Subject v" "bs_AbsoluteUntil u = bs_AbsoluteUntil v" using fw a(2) by (simp_all add: same_login_def)
  ultimately show thesis using that [OF g a h [unfolded resp(2)] rot fw(1) _ _ _ resp(1) oe] by blast
qed

lemma resource_ran:
  assumes out: "withSession C I P S R io1 io2 ents now handler authorized q r n = Some (resp, r', n')" and ran: "\<not> refusal resp"
    and res: "cf_APIResource C \<noteq> []"
  obtains i v owner r1 o0 v1 nxt v2 where
    "session_gate C I q = Inr i" "acquire_session S R (li_owner io1) (li_now io1) (li_rounds io1) i r = Some (Inr (v, owner), r1)"
    "handler q v n = (o0, v1, n')" "rotate_session (br_rotate (settle_outcome v v1 o0)) ents i v1 = Some (nxt, v2)"
    "commit_session S R (li_commit io1) (li_commit_at io1) (li_nonce io1) i owner nxt v2 (br_remove (settle_outcome v v1 o0)) (li_between io1 r1) = (None, r')"
    "resp = session_response (settle_outcome v v1 o0) nxt v2 now authorized"
proof -
  note out = out [unfolded withSession_def if_not_P [OF res]]
  obtain i where g: "session_gate C I q = Inr i" using out ran by (auto split: sum.splits)
  note out = out [unfolded g sum.case]
  obtain v owner r1 where a: "acquire_session S R (li_owner io1) (li_now io1) (li_rounds io1) i r = Some (Inr (v, owner), r1)"
    using out ran by (auto split: option.splits sum.splits)
  note out = out [unfolded a option.case prod.case sum.case]
  obtain o0 v1 n1 where h: "handler q v n = (o0, v1, n1)" by (meson prod_cases3)
  note out = out [unfolded h prod.case Let_def]
  obtain j v2 where rot: "rotate_session (br_rotate (settle_outcome v v1 o0)) ents i v1 = Some (j, v2)" using out ran by (auto split: option.splits)
  note out = out [unfolded rot option.case prod.case]
  have "commit_session S R (li_commit io1) (li_commit_at io1) (li_nonce io1) i owner j v2 (br_remove (settle_outcome v v1 o0)) (li_between io1 r1) = (None, r')"
      "resp = session_response (settle_outcome v v1 o0) j v2 now authorized" "n1 = n'"
    using out ran by (auto split: prod.splits option.splits)
  with g a h rot show thesis using that by blast
qed

text \<open>Both at once.\<close>

lemma session_ran:
  assumes out: "withSession C I P S R io1 io2 ents now handler authorized q r n = Some (resp, r', n')" and ran: "\<not> refusal resp"
  obtains i v owner r1 w m o0 v1 nxt v2 u fate t nonce o2 r2 oe b where
    "session_gate C I q = Inr i" "acquire_session S R (li_owner io1) (li_now io1) (li_rounds io1) i r = Some (Inr (v, owner), r1)" "same_login v w"
    "handler q w m = (o0, v1, n')" "b \<or> br_remove (settle_outcome w v1 o0)" "rotate_session (br_rotate (settle_outcome w v1 o0) \<and> b) ents i v1 = Some (nxt, v2)"
    "commit_session S R fate t nonce i o2 nxt u (br_remove (settle_outcome w v1 o0)) r2 = (None, r')"
    "same_place v1 u" "same_login w v1 \<longrightarrow> bs_Subject u = bs_Subject v \<and> bs_AbsoluteUntil u = bs_AbsoluteUntil v"
    "resp = session_response oe nxt u now authorized"
    "oe = settle_outcome w v1 o0 \<or> (\<exists>d. sessionDeadline (Some u) now = Inr d \<and> oe = with_expiry (unix d) (settle_outcome w v1 o0))"
proof (cases "cf_APIResource C = []")
  case True
  with out have "withIdentitySession C I P S R io1 io2 ents now handler authorized q r n = Some (resp, r', n')" by (simp add: withSession_def)
  then show thesis
    by (rule identity_ran [OF _ ran]) (rule that; (assumption | blast))
next
  case False
  show thesis
  proof (rule resource_ran [OF out ran False])
    fix i v owner r1 o0 v1 nxt v2
    assume g: "session_gate C I q = Inr i" and a: "acquire_session S R (li_owner io1) (li_now io1) (li_rounds io1) i r = Some (Inr (v, owner), r1)"
      and h: "handler q v n = (o0, v1, n')" and rot: "rotate_session (br_rotate (settle_outcome v v1 o0)) ents i v1 = Some (nxt, v2)"
      and c: "commit_session S R (li_commit io1) (li_commit_at io1) (li_nonce io1) i owner nxt v2 (br_remove (settle_outcome v v1 o0)) (li_between io1 r1) = (None, r')"
      and resp: "resp = session_response (settle_outcome v v1 o0) nxt v2 now authorized"
    show thesis
      by (rule that [OF g a _ h _ _ c _ _ resp, of True])
        (use rot rotate_session_keeps(1) [OF rot] in \<open>auto simp: same_login_def\<close>)
  qed
qed

lemma served_principal:
  assumes "withSession C I P S R io1 io2 ents now (requirePrincipal C I P t scopes) True q r n = Some (resp, r', n')"
    and "bp_principal resp = Some (nextID, p)"
  shows "\<exists>i v. admitted C I S R io1 q r i v \<and> confirmed C I P v p \<and> written_back S R i nextID p r' \<and>
    bq_OrganizationID q = [pn_OrganizationID p] \<and> bq_OrganizationRevision q = [pn_OrganizationRevision p] \<and>
    pn_UserID p = bs_Subject v \<and> set scopes \<subseteq> set (pn_Permissions p) \<and> pn_ExpiresAt p \<le> unix (bs_AbsoluteUntil v)"
proof (rule session_ran [OF assms(1)])
  show "\<not> refusal resp" using assms(2) by (intro refusal_empty) simp
next
  fix i v owner r1 w m o0 v1 nxt v2 u fate tm nonce o2 r2 oe b
  let ?o = "settle_outcome w v1 o0"
  assume g: "session_gate C I q = Inr i" and a: "acquire_session S R (li_owner io1) (li_now io1) (li_rounds io1) i r = Some (Inr (v, owner), r1)" "same_login v w"
    and h: "requirePrincipal C I P t scopes q w m = (o0, v1, n')" 
    and c: "commit_session S R fate tm nonce i o2 nxt u (br_remove ?o) r2 = (None, r')"
    and u: "same_place v1 u" "same_login w v1 \<longrightarrow> bs_Subject u = bs_Subject v \<and> bs_AbsoluteUntil u = bs_AbsoluteUntil v"
    and resp: "resp = session_response oe nxt u now True"
    and oe: "oe = ?o \<or> (\<exists>d. sessionDeadline (Some u) now = Inr d \<and> oe = with_expiry (unix d) ?o)"
  have pr: "br_principal oe = Some p" "nxt = nextID" using assms(2) resp by (auto simp: session_response_principal)
  obtain p0 where p0: "br_principal o0 = Some p0" and pe: "p = p0 \<or> (\<exists>d. sessionDeadline (Some u) now = Inr d \<and> p = p0\<lparr>pn_ExpiresAt := unix d\<rparr>)"
    using pr(1) oe by auto
  note f = requirePrincipal_granted [OF h p0]
  have same: "pn_OrganizationID p = pn_OrganizationID p0" "pn_OrganizationRevision p = pn_OrganizationRevision p0" "pn_UserID p = pn_UserID p0" "pn_Permissions p = pn_Permissions p0"
    using pe by auto
  have u2: "bs_Subject u = bs_Subject v" "bs_AbsoluteUntil u = bs_AbsoluteUntil v" using u(2) f by auto
  have "admitted C I S R io1 q r i v" using session_gate_passed [OF g] a f unfolding admitted_def csrfValid_def same_login_def by auto
  moreover have "confirmed C I P v p" using f a(2) unfolding confirmed_def same by blast
  moreover have "written_back S R i nextID p r'"
  proof (rule written_backI)
    show "commit_session S R fate tm nonce i o2 nextID u False r2 = (None, r')" using c pr(2) f by simp
  qed (use u u2 f same a(2) in \<open>simp_all add: same_place_def same_login_def\<close>)
  moreover have "pn_ExpiresAt p \<le> unix (bs_AbsoluteUntil v)"
  proof (cases "p = p0")
    case True
    then show ?thesis using f a acquired_expiry [OF a(1)] by (simp add: same_login_def)
  next
    case False
    then obtain d where d: "sessionDeadline (Some u) now = Inr d" "pn_ExpiresAt p = unix d" using pe by auto
    then show ?thesis using sessionDeadline_facts(1,4) [OF d(1)] schema_order [of u now] u2(2) by simp
  qed
  ultimately show ?thesis using f a(2) same by (intro exI [of _ i] exI [of _ v]) (simp add: same_login_def)
qed

text \<open>C6. A request reaches the application with a principal only when it came to the host of the application with one session cookie
  and no bearer token, with the CSRF token of the session that was read under its lease and the origin of the application,
  naming the organization and revision of the principal, when the provider was then asked and answered 200 with
  this organization and revision among those of the user, and when the session has been written back with them;
  the principal is the subject of the session, has every scope that was asked for, and does not outlive
  the seven days of the session.\<close>

theorem principal_is_confirmed:
  assumes "withSession C I P S R io1 io2 ents now (requirePrincipal C I P t scopes) True q r n = Some (resp, r', n')"
    and "bp_principal resp = Some (nextID, p)"
  shows "\<exists>i v. admitted C I S R io1 q r i v \<and> confirmed C I P v p \<and> written_back S R i nextID p r' \<and>
    bq_OrganizationID q = [pn_OrganizationID p] \<and> bq_OrganizationRevision q = [pn_OrganizationRevision p] \<and>
    pn_UserID p = bs_Subject v \<and> set scopes \<subseteq> set (pn_Permissions p) \<and> pn_ExpiresAt p \<le> unix (bs_AbsoluteUntil v)"
  by (rule served_principal [OF assms])

section \<open>Cookies\<close>

lemma committed_contents:
  assumes ok: "redis_ok R" and c: "commit_session S R fate t nonce i owner nxt v remove r = (None, r')"
  shows "(remove \<or> nxt \<noteq> i \<longrightarrow> db_live (r_db R r') (sessionKey S i) = None) \<and>
    (\<not> remove \<longrightarrow> (\<exists>data. seal S nonce (sessionKey S nxt) (bx_session (st_box S) v) = Inr data \<and> text_at (r_db R r') (sessionKey S nxt) = Some data))"
proof -
  from commit_effect [OF ok c] obtain data ttl where d: "seal S nonce (sessionKey S nxt) (bx_session (st_box S) v) = Inr data"
      "\<not> remove \<longrightarrow> 0 < ttl" "r_db R r' = committed_db (lockKey S i) (sessionKey S i) (sessionKey S nxt) data ttl remove (r_db R r)" by auto
  then show ?thesis by (auto simp: committed_db_def Let_def text_at_def)
qed


text \<open>Cookies follow the store, whatever the handler does: a cookie is cleared only when Redis has no session any more under the
  identifier that the browser sent; a new cookie is the fresh identifier under which Redis has the
  session that was written, lives as long as that session may, and the old identifier has no session any more.\<close>

theorem cookies_follow_the_store:
  assumes ok: "redis_ok R" and out: "withSession C I P S R io1 io2 ents now handler authorized q r n = Some (resp, r', n')"
    and c: "bp_cookie resp = Some (j, age)"
  shows "\<exists>i. bq_Cookies q (cf_CookieName C) = [i] \<and>
    ((j, age) = ([], -1) \<and> db_live (r_db R r') (sessionKey S i) = None \<or>
     opaque (fst ents) = Inr j \<and> (j \<noteq> i \<longrightarrow> db_live (r_db R r') (sessionKey S i) = None) \<and>
       (\<exists>v nonce data. seal S nonce (sessionKey S j) (bx_session (st_box S) v) = Inr data \<and> text_at (r_db R r') (sessionKey S j) = Some data \<and>
          age = sessionCookieMaxAge v now))"
proof (rule session_ran [OF out])
  show "\<not> refusal resp" using c by (intro refusal_empty) simp
next
  fix i v owner r1 w m o0 v1 nxt v2 u fate tm nonce o2 r2 oe b
  let ?o = "settle_outcome w v1 o0"
  assume g: "session_gate C I q = Inr i" and b: "b \<or> br_remove ?o" and rot: "rotate_session (br_rotate ?o \<and> b) ents i v1 = Some (nxt, v2)"
    and com: "commit_session S R fate tm nonce i o2 nxt u (br_remove ?o) r2 = (None, r')"
    and resp: "resp = session_response oe nxt u now authorized"
    and oe: "oe = ?o \<or> (\<exists>d. sessionDeadline (Some u) now = Inr d \<and> oe = with_expiry (unix d) ?o)"
  have flags: "br_remove oe = br_remove ?o" "br_rotate oe = br_rotate ?o" using oe by auto
  note k = committed_contents [OF ok com]
  show ?thesis
  proof (cases "br_remove ?o")
    case True
    then have "db_live (r_db R r') (sessionKey S i) = None" using k by blast
    with True c resp flags session_gate_passed [OF g] show ?thesis by (simp add: session_response_cookie)
  next
    case False
    with c resp flags have j: "br_rotate ?o" "nxt = j" "age = sessionCookieMaxAge u now" by (auto simp: session_response_cookie split: if_splits)
    with rot b False have "opaque (fst ents) = Inr j" by (auto simp: rotate_session_def split: if_splits sum.splits)
    moreover obtain data where "seal S nonce (sessionKey S j) (bx_session (st_box S) u) = Inr data" "text_at (r_db R r') (sessionKey S j) = Some data"
        "j \<noteq> i \<longrightarrow> db_live (r_db R r') (sessionKey S i) = None" using k False j(2) by auto
    ultimately show ?thesis using session_gate_passed [OF g] j(3) by blast
  qed
qed


section \<open>Logout\<close>

lemma session_response_data: "bp_data (session_response o1 i v t authorized) = RedirectData x \<Longrightarrow> br_data o1 = RedirectData x"
  by (auto simp: session_response_def Let_def with_csrf_def split: if_splits bdata.splits)

lemma expiry_redirect: "br_data (with_expiry t o1) = RedirectData x \<longleftrightarrow> br_data o1 = RedirectData x"
  by (cases "br_data o1") (simp_all add: with_expiry_def)

lemma logout_result:
  assumes "bff_logout C I P q w m = (o1, v1, m')" "br_data o1 = RedirectData x"
  shows "csrfValid C q w \<and> br_remove o1 \<and> br_redirect o1 = [] \<and> br_principal o1 = None \<and>
    (\<exists>token response m1. ip_Do P \<lparr>iq_Method = ''POST'', iq_URL = cf_Endpoint C @ ''/api/my-account/browser-session/logout'', iq_Token = token\<rparr> m1 = (Some response, m') \<and>
       ir_Status response = 204 \<and> token \<noteq> [])"
  using assms by (fastforce simp: bff_logout_def Let_def split: if_splits sum.splits prod.splits option.splits)

text \<open>A logout that is reported as done has ended the session everywhere: the request carried the CSRF token of the session, the
  identity provider has answered 204 to the logout, Redis has no session any more under the identifier of the browser, and the
  cookie is cleared.\<close>

theorem logout_ends_the_session:
  assumes ok: "redis_ok R" and out: "withSession C I P S R io1 io2 ents now (bff_logout C I P) False q r n = Some (resp, r', n')" and said: "bp_data resp = RedirectData x"
  shows "\<exists>i v owner r1. bq_Cookies q (cf_CookieName C) = [i] \<and>
    acquire_session S R (li_owner io1) (li_now io1) (li_rounds io1) i r = Some (Inr (v, owner), r1) \<and> csrfValid C q v \<and>
    db_live (r_db R r') (sessionKey S i) = None \<and> bp_cookie resp = Some ([], -1) \<and>
    (\<exists>token response m1. ip_Do P \<lparr>iq_Method = ''POST'', iq_URL = cf_Endpoint C @ ''/api/my-account/browser-session/logout'', iq_Token = token\<rparr> m1 = (Some response, n') \<and>
       ir_Status response = 204 \<and> token \<noteq> [])"
proof (rule session_ran [OF out])
  show "\<not> refusal resp" using said by (intro refusal_empty [of _ x]) simp
next
  fix i v owner r1 w m o0 v1 nxt v2 u fate tm nonce o2 r2 oe b
  let ?o = "settle_outcome w v1 o0"
  assume g: "session_gate C I q = Inr i" and a: "acquire_session S R (li_owner io1) (li_now io1) (li_rounds io1) i r = Some (Inr (v, owner), r1)" "same_login v w"
    and h: "bff_logout C I P q w m = (o0, v1, n')" and com: "commit_session S R fate tm nonce i o2 nxt u (br_remove ?o) r2 = (None, r')"
    and resp: "resp = session_response oe nxt u now False"
    and oe: "oe = ?o \<or> (\<exists>d. sessionDeadline (Some u) now = Inr d \<and> oe = with_expiry (unix d) ?o)"
  have "br_data oe = RedirectData x" using session_response_data resp said by simp
  then have "br_data o0 = RedirectData x" using oe by (auto simp: expiry_redirect settle_outcome_def)
  note f = logout_result [OF h this]
  have "db_live (r_db R r') (sessionKey S i) = None" using committed_contents [OF ok com] f by simp
  moreover have "bp_cookie resp = Some ([], -1)" using oe f resp by (auto simp: session_response_cookie)
  moreover have "csrfValid C q v" using f a(2) by (simp add: csrfValid_def same_login_def)
  ultimately show ?thesis using session_gate_passed [OF g] a(1) f by blast
qed

section \<open>Renewal\<close>

lemma sessionViewData_keeps:
  assumes "sessionViewData C I P now v user rows n = (res, w, n')"
  shows "same_login v w \<and> same_place v w \<and>
    (\<forall>data. res = Inr data \<longrightarrow> sv_ExpiresAt data = unix (bs_IdleUntil v) \<and> sv_OrganizationID data = bs_Organization v \<and> sv_Revision data = bs_Revision v \<and>
       now < bs_IdleUntil v) \<and>
    (\<forall>e. res = Inl e \<longrightarrow> provider_error e \<or> e = errMissing \<or> e = errInvalid)"
proof (cases "sessionDeadline (Some v) now")
  case (Inl e)
  then show ?thesis using assms deadline_errors [OF Inl] by (auto simp: sessionViewData_def)
next
  case (Inr d)
  obtain res2 w2 m2 where cl: "organizationClaims C I P v (bs_Organization v) n = (res2, w2, m2)" by (meson prod_cases3)
  from sessionDeadline_facts(1,2) [OF Inr] claims_keeps [OF cl] claims_errors [of C I P v "bs_Organization v" n] assms Inr cl show ?thesis
    by (auto simp: sessionViewData_def Let_def bff_view_def split: if_splits sum.splits)
qed


text \<open>C24. A renewal is bounded: it leaves the login, its CSRF token and its seven days as they are; the idle deadline changes only
  when the request carried the CSRF token, organization and revision of the session and the provider has just confirmed
  both, and then it is eight hours from now but not beyond the seven days; the answer reports this deadline.\<close>

theorem renewal_is_bounded:
  assumes "renewSession C I P now q v n = (o1, w, n')"
  shows "bs_Subject w = bs_Subject v \<and> bs_CSRF w = bs_CSRF v \<and> bs_PolicyVersion w = bs_PolicyVersion v \<and>
    bs_AuthenticatedAt w = bs_AuthenticatedAt v \<and> bs_AbsoluteUntil w = bs_AbsoluteUntil v \<and>
    (if br_status o1 = 200
     then csrfValid C q v \<and> org_headers q v \<and> same_place v w \<and>
       (\<exists>user rows v1 m1 m2. currentRequest C I P v n = (Inr (user, rows), v1, m2) \<and> answer_confirms C I P m1 m2 (bs_Organization v) (bs_Revision v)) \<and>
       bs_IdleUntil w = min (now + 8 * hour) (bs_AbsoluteUntil v) \<and> bs_Until w = bs_IdleUntil w \<and> now < bs_IdleUntil w \<and>
       (\<exists>data. br_data o1 = ViewData data \<and> sv_ExpiresAt data = unix (bs_IdleUntil w))
     else bs_IdleUntil w = bs_IdleUntil v \<and> bs_Until w = bs_Until v \<and> br_status o1 \<in> {401, 403, 409, 503} \<and> (\<exists>code. br_data o1 = ErrorData code))"
proof -
  obtain res v1 m2 where cur: "currentRequest C I P v n = (res, v1, m2)" by (meson prod_cases3)
  have keep: "same_login v v1" using currentRequest_keeps [OF cur] .
  let ?idle = "nextSessionIdle now (bs_AbsoluteUntil v1)"
  let ?v2 = "v1\<lparr>bs_IdleUntil := ?idle, bs_Until := ?idle\<rparr>"
  have cls: "br_status (classify (Some e)) \<in> {401, 403, 409, 503} \<and> br_status (classify (Some e)) \<noteq> 200 \<and> (\<exists>code. br_data (classify (Some e)) = ErrorData code)"
    if "provider_error e \<or> e = errMissing \<or> e = errInvalid" for e
    using classify_status [OF that] classify_data [of "Some e"] by auto
  have bad: ?thesis if "o1 = classify (Some e)" "provider_error e \<or> e = errMissing \<or> e = errInvalid" "same_login v w" for e
    using cls [OF that(2)] that(1,3) by (auto simp: same_login_def)
  have idle: "?idle = min (now + 8 * hour) (bs_AbsoluteUntil v)" using keep by (simp add: nextSessionIdle_def Let_def sessionIdleLifetime_def same_login_def min_def)
  consider (refused) "\<not> csrfValid C q v \<or> \<not> org_headers q v \<or> bs_PolicyVersion v \<noteq> sessionPolicyVersion"
    | (failed) e where "csrfValid C q v" "org_headers q v" "bs_PolicyVersion v = sessionPolicyVersion" "res = Inl e"
    | (answered) user rows where "csrfValid C q v" "org_headers q v" "bs_PolicyVersion v = sessionPolicyVersion" "res = Inr (user, rows)"
    by (cases res) auto
  then show ?thesis
  proof cases
    case refused
    then show ?thesis using assms by (auto simp: renewSession_def split: if_splits)
  next
    case failed
    then have "o1 = classify (Some e)" "same_login v w" using assms cur keep by (auto simp: renewSession_def)
    then show ?thesis using bad currentRequest_errors [OF cur [unfolded failed(4)]] by blast
  next
    case answered
    obtain m1 where conf: "answer_confirms C I P m1 m2 (bs_Organization v1) (bs_Revision v1)" using currentRequest_confirms [OF cur [unfolded answered(4)]] by blast
    obtain res2 v3 n2 where vd: "sessionViewData C I P now ?v2 user rows m2 = (res2, v3, n2)" by (meson prod_cases3)
    note step = assms [unfolded renewSession_def, simplified answered cur if_False not_True_eq_False prod.case sum.case not_False_eq_True]
    show ?thesis
    proof (cases "same_place v v1 \<and> (cf_APIResource C = [] \<or> (\<exists>d. sessionDeadline (Some v1) now = Inr d))")
      case True
      then have out: "(case res2 of Inl e \<Rightarrow> (classify (Some e), v3\<lparr>bs_IdleUntil := bs_IdleUntil v1, bs_Until := bs_Until v1\<rparr>, n2)
          | Inr data \<Rightarrow> (plain_result 200 (ViewData data), v3, n2)) = (o1, w, n')"
        using step vd by (auto simp: same_place_def Let_def)
      note sv = sessionViewData_keeps [OF vd]
      show ?thesis
      proof (cases res2)
        case (Inl e)
        show ?thesis by (rule bad [of e]) (use Inl out sv keep in \<open>auto simp: same_login_def\<close>)
      next
        case (Inr data)
        then have w: "o1 = plain_result 200 (ViewData data)" "w = v3" using out by simp_all
        moreover have "bs_IdleUntil w = ?idle" "bs_Until w = ?idle" "sv_ExpiresAt data = unix ?idle" "now < ?idle" using w(2) sv Inr by (simp_all add: same_login_def)
        moreover have "same_place v w" using w(2) sv True by (simp add: same_place_def)
        moreover have "answer_confirms C I P m1 m2 (bs_Organization v) (bs_Revision v)" using conf True by (simp add: same_place_def)
        ultimately show ?thesis using sv keep idle answered cur by (simp add: same_login_def) blast
      qed
    next
      case False
      then have "o1 = problem 409 ''organization_identity_changed'' \<and> w = v1\<lparr>bs_Organization := bs_Organization v, bs_Revision := bs_Revision v\<rparr> \<or>
          (\<exists>e. sessionDeadline (Some v1) now = Inl e \<and> o1 = classify (Some e) \<and> w = v1)"
        using step by (auto simp: same_place_def split: if_splits sum.splits)
      then show ?thesis
      proof (elim disjE exE conjE)
        fix e assume "sessionDeadline (Some v1) now = Inl e" "o1 = classify (Some e)" "w = v1"
        then show ?thesis using bad [of e] deadline_errors keep by blast
      qed (use keep in \<open>simp add: same_login_def\<close>)
    qed
  qed
qed


section \<open>Updates\<close>

lemma release_keeps_sessions:
  assumes "redis_ok R"
  shows "db_live (r_db R (release_lease S R fate i owner r)) (sessionKey S j) = db_live (r_db R r) (sessionKey S j)"
  using release_effect [OF assms, of S fate i owner r] by (auto split: if_splits)


section \<open>Checking again\<close>

lemma recheck_of_confirmed [simp]: "recheck_of codes e \<noteq> Confirmed"
  by (simp add: recheck_of_def)

text \<open>What an accepted check has read and asked: the session under the lease is that of the principal, and the provider answers for the same organization.\<close>

definition rechecked :: "bff_config \<Rightarrow> idp_env \<Rightarrow> 'n idp \<Rightarrow> bstore \<Rightarrow> 'r redis \<Rightarrow> 'r lease_io \<Rightarrow> string \<Rightarrow> principal \<Rightarrow> 'r \<Rightarrow> bool" where
  "rechecked C I P S R io i p r \<longleftrightarrow>
     (\<exists>v owner r1. acquire_session S R (li_owner io) (li_now io) (li_rounds io) i r = Some (Inr (v, owner), r1) \<and>
        bs_Subject v = pn_UserID p \<and> same_principal v p \<and> confirmed C I P v p)"

text \<open>A principal is confirmed again only when its session can still be read and names the same subject, organization and revision,
  the provider then answers for that organization and revision, every permission that is asked for is still
  among the scopes of a verified token for it (in the mode without a resource none may be asked for), and the session could be
  written back.\<close>

theorem confirmed_again:
  assumes "revalidate C I P S R io1 io2 i p scopes r n = Some (Confirmed, r', n')"
  shows "rechecked C I P S R io1 i p r \<and>
    (if cf_APIResource C = [] then scopes = []
     else \<exists>w m claims w' m'. organizationClaims C I P w (pn_OrganizationID p) m = (Inr claims, w', m') \<and> sc_Subject claims = pn_UserID p \<and>
       sc_OrganizationID claims = pn_OrganizationID p \<and> list_all (hasScope claims) scopes) \<and>
    (\<exists>fate t nonce owner u r1 r2. commit_session S R fate t nonce i owner i u False r1 = (None, r2) \<and> bs_Subject u = pn_UserID p \<and> same_principal u p)"
proof (cases "cf_APIResource C = []")
  case True
  note out = assms [unfolded revalidate_def if_P [OF True] revalidateIdentity_def]
  have sc: "scopes = []" using out by (cases scopes) auto
  obtain w r1 m where b: "beginIdentity I P S R io1 i r n = Some (Inr w, r1, m)" using out sc by (auto split: option.splits sum.splits)
  note out = out [unfolded b option.case prod.case sum.case]
  have exp: "bs_Subject w = pn_UserID p" "same_principal w p" using out sc by (auto split: if_splits)
  obtain res v1 m2 where cur: "currentRequest C I P w m = (res, v1, m2)" by (meson prod_cases3)
  obtain user rows where res: "res = Inr (user, rows)" "same_principal v1 p"
    using out sc exp cur by (auto simp: Let_def split: sum.splits option.splits if_splits)
  let ?v2 = "v1\<lparr>bs_Organization := bs_Organization w, bs_Revision := bs_Revision w\<rparr>"
  obtain u where fin: "finishIdentity S R io2 i i (w\<lparr>bs_SDK := bs_SDK v1\<rparr>) ?v2 False r1 = Some (Inr u, r')"
    using out sc exp cur res by (auto simp: Let_def split: sum.splits option.splits if_splits)
  obtain v owner r0 where a: "acquire_session S R (li_owner io1) (li_now io1) (li_rounds io1) i r = Some (Inr (v, owner), r0)" "same_login v w" "same_place v w"
    using beginIdentity_prepared [OF b] by blast
  obtain m1 where "answer_confirms C I P m1 m2 (bs_Organization v1) (bs_Revision v1)" using currentRequest_confirms [OF cur [unfolded res(1)]] by blast
  then have "confirmed C I P v p" using a(2) cur res unfolding confirmed_def same_principal_def by metis
  then have "rechecked C I P S R io1 i p r" using a exp unfolding rechecked_def same_login_def same_place_def same_principal_def by metis
  moreover obtain o2 r2 where "commit_session S R (li_commit io2) (li_commit_at io2) (li_nonce io2) i o2 i u False (li_between io2 r2) = (None, r')"
      "bs_Subject u = pn_UserID p" "same_principal u p"
    by (rule finishIdentity_written [OF fin]) (use exp in \<open>auto simp: same_principal_def same_place_def\<close>)
  ultimately show ?thesis using True sc by (auto; blast)
next
  case False
  note out = assms [unfolded revalidate_def if_not_P [OF False]]
  obtain v owner r1 where a: "acquire_session S R (li_owner io1) (li_now io1) (li_rounds io1) i r = Some (Inr (v, owner), r1)"
    using out by (auto split: option.splits sum.splits if_splits)
  note out = out [unfolded a option.case prod.case sum.case]
  obtain err valid v1 n1 where rc: "recheck_claims C I P p scopes v n = (err, valid, v1, n1)" by (meson prod_cases4)
  note out = out [unfolded rc prod.case]
  have ok: "err = None" "valid" using out by (auto simp: Let_def split: option.splits if_splits)
  obtain res w m2 where cur: "currentRequest C I P v n = (res, w, m2)" by (meson prod_cases3)
  obtain res2 w2 m3 where cl: "organizationClaims C I P w (bs_Organization w) m2 = (res2, w2, m3)" by (meson prod_cases3)
  obtain user rows claims where rcs: "bs_Subject v = pn_UserID p" "same_principal v p" "res = Inr (user, rows)" "res2 = Inr claims" "same_principal w p"
      "list_all (hasScope claims) scopes" "v1 = w2"
    using rc ok cur cl by (auto simp: recheck_claims_def split: if_splits sum.splits)
  have keeps: "same_login v w" "same_login w w2" "same_principal w2 p"
    using currentRequest_keeps [OF cur] claims_keeps [OF cl] rcs(5) by (simp_all add: same_place_def same_principal_def)
  obtain m1 where "answer_confirms C I P m1 m2 (bs_Organization w) (bs_Revision w)" using currentRequest_confirms [OF cur [unfolded rcs(3)]] by blast
  then have "confirmed C I P v p" using cur rcs(3,5) same_login_simps(1) unfolding confirmed_def same_principal_def by metis
  then have "rechecked C I P S R io1 i p r" using a rcs(1,2) unfolding rechecked_def by blast
  moreover have "sc_Subject claims = pn_UserID p" "sc_OrganizationID claims = pn_OrganizationID p" "bs_Organization w = pn_OrganizationID p"
    using claims_checked [OF cl [unfolded rcs(4)]] keeps(1) rcs(1,5) by (simp_all add: same_login_def same_principal_def)
  moreover have "fst (commit_session S R (li_commit io1) (li_commit_at io1) (li_nonce io1) i owner i w2 False (li_between io1 r1)) = None"
    using out ok rcs(7) keeps(3) by (auto simp: Let_def identityErrorRevokesOrganization_def split: if_splits)
  moreover have "bs_Subject w2 = pn_UserID p" using keeps(1,2) rcs(1) by (simp add: same_login_def)
  ultimately show ?thesis using False cl rcs(4,6) keeps(3) by (simp; metis prod.collapse)
qed


section \<open>Witnesses\<close>

text \<open>A provider that knows one user with one organization; the application and a request of its browser.\<close>

definition one_user :: "unit idp" where
  "one_user = \<lparr>ip_GetAccessToken = (\<lambda>sdk n. (Inr \<lparr>at_Token = ''t'', at_ExpiresAt = 1000\<rparr>, sdk, n)),
     ip_GetAccessTokenFor = (\<lambda>_ _ sdk n. (Inr ''jwt'', sdk, n)), ip_GetIdTokenClaims = (\<lambda>_. Some ''user-7''),
     ip_FetchUserInfo = (\<lambda>sdk n. (Inr ''info'', sdk, n)),
     ip_Do = (\<lambda>req n. (Some \<lparr>ir_Status = if iq_Method req = ''GET'' then 200 else 204, ir_Body = ''doc'', ir_BodyFails = False\<rparr>, n)),
     ip_VerifySignature = (\<lambda>_ n. (None, n))\<rparr>"

definition one_doc :: identity_doc where
  "one_doc = \<lparr>id_Organizations = Some [\<lparr>og_ID = ''org-1'', og_Name = ''Org''\<rparr>], id_OrganizationID = ''org-1'', id_Revision = ''3'',
     id_User = Some (no_profile\<lparr>pf_Subject := ''user-7'', pf_Name := ''Ada''\<rparr>)\<rparr>"

definition plain_env :: idp_env where
  "plain_env = \<lparr>ie_identity = (\<lambda>_. Some one_doc), ie_profile = (\<lambda>_. None), ie_error = (\<lambda>_. None), ie_prune = (\<lambda>_. None), ie_token_key = ''k'',
     ie_alg = (\<lambda>_. None), ie_claims = (\<lambda>_. None), ie_valid = (\<lambda>_ _ _. False), ie_url_ok = (\<lambda>_. True), ie_host = (\<lambda>_. ''app'')\<rparr>"

definition app_config :: bff_config where
  "app_config = \<lparr>cf_Endpoint = ''https://id'', cf_Origin = ''https://app'', cf_ClientID = ''client'', cf_APIResource = [], cf_CookieName = ''sid''\<rparr>"

definition app_request :: browser_request where
  "app_request = \<lparr>bq_Host = ''app'', bq_Cookies = (\<lambda>_. [tx_id]), bq_Authorization = [], bq_Origin = [''https://app''], bq_CSRF = [''c''],
     bq_OrganizationID = [''org-1''], bq_OrganizationRevision = [''3'']\<rparr>"

definition lease_of :: "string \<Rightarrow> redis_db lease_io" where
  "lease_of bytes = \<lparr>li_owner = Some bytes, li_now = 0, li_rounds = [first_round], li_between = id, li_commit = Delivered, li_commit_at = 0,
     li_nonce = Some (replicate 12 (CHR 0x00)), li_release = Delivered\<rparr>"

definition sealed_login :: string where
  "sealed_login = replicate 28 (CHR 0x00) @ ''{}''"

definition browser_db :: redis_db where
  "browser_db = db_put (sessionKey app_store tx_id) (RString sealed_login, Some 1000) empty_redis_db"

lemma tx_id_pattern: "opaquePattern tx_id"
  by (simp add: opaquePattern_def opaque_char_def list_all_iff)

lemma login_acquire:
  assumes "db_live db (lockKey app_store tx_id) = None" "db_live db (sessionKey app_store tx_id) = Some (RString sealed_login, d)"
  shows "acquire_session app_store ref_redis (Some bytes) 0 [first_round] tx_id db =
    Some (Inr (login_session, b64_encode (map of_char bytes)),
      db_put (lockKey app_store tx_id) (RString (b64_encode (map of_char bytes)), Some (db_clock db + 30000)) db)"
proof -
  have "read_leased app_store tx_id 0 sealed_login = Inr login_session"
    by (simp add: read_leased_def open_sealed_def app_store_def tag_box_def login_session_ok sealed_login_def)
  moreover have "acquireScript redis_doc [lockKey app_store tx_id, sessionKey app_store tx_id] [owner, itoa 30000] db =
      (Inr [LInt 1, LStr sealed_login], db_put (lockKey app_store tx_id) (RString owner, Some (db_clock db + 30000)) db)" for owner
    using assms by (simp add: acquire_doc)
  ultimately show ?thesis
    by (simp add: acquire_session_def tx_id_pattern opaque_def first_round_def acquire_try_def via_net_def ref_redis_def)
qed

lemma login_commit:
  assumes "held_by db (lockKey app_store tx_id) owner" "db_live db (sessionKey app_store tx_id) \<noteq> None"
  shows "\<exists>ttl. 0 \<le> ttl \<and> (remove \<or> 0 < ttl) \<and>
    commit_session app_store ref_redis Delivered 0 (Some (replicate 12 (CHR 0x00))) tx_id owner tx_id login_session remove db =
      (None, committed_db (lockKey app_store tx_id) (sessionKey app_store tx_id) (sessionKey app_store tx_id) sealed_login ttl remove db)"
proof -
  define ttl where "ttl = (if remove then 0 else milliseconds (sessionIdleLifetime - 0))"
  have ttl: "int64 ttl" "0 \<le> ttl" "remove \<or> 0 < ttl" using ttl_bounds [OF login_session_ok]
    by (auto simp: ttl_def int64_def milliseconds_def go_div_nonneg lifetime_defs)
  have seal: "seal app_store (Some (replicate 12 (CHR 0x00))) (sessionKey app_store tx_id) (bx_session (st_box app_store) login_session) = Inr sealed_login"
    by (simp add: seal_def app_store_def tag_box_def sealed_login_def flip: replicate_add)
  have cond: "held_by db (lockKey app_store tx_id) owner \<and> db_live db (sessionKey app_store tx_id) \<noteq> None \<and> (remove \<or> 0 < ttl)" using assms ttl(3) by blast
  have "commitScript redis_doc [lockKey app_store tx_id, sessionKey app_store tx_id, sessionKey app_store tx_id]
        [owner, sealed_login, itoa ttl, [], if remove then ''1'' else ''0''] db =
      (Inr 1, committed_db (lockKey app_store tx_id) (sessionKey app_store tx_id) (sessionKey app_store tx_id) sealed_login ttl remove db)"
    using commit_doc [where l = "lockKey app_store tx_id" and k = "sessionKey app_store tx_id" and kn = "sessionKey app_store tx_id" and owner = owner
        and data = sealed_login and db = db and remove = remove, OF key_simps(5) key_simps(5) ttl(1) refl, THEN conjunct1, unfolded if_P [OF cond]] .
  moreover have "commit_ttl login_session 0 remove = Inr ttl" by (simp add: commit_ttl_def ttl_def login_session_ok)
  ultimately have "commit_session app_store ref_redis Delivered 0 (Some (replicate 12 (CHR 0x00))) tx_id owner tx_id login_session remove db =
      (None, committed_db (lockKey app_store tx_id) (sessionKey app_store tx_id) (sessionKey app_store tx_id) sealed_login ttl remove db)"
    by (simp add: commit_session_def seal sessionDeadline_facts(4) [OF login_session_ok] via_net_def ref_redis_def)
  with ttl show ?thesis by blast
qed

lemma login_prepared: "prepareIdentity plain_env one_user 0 login_session () = (None, login_session, ())"
  by (simp add: prepareIdentity_def one_user_def login_session_def token_short_def unix_def authenticationTimeout_def second_def)

lemma revision_three: "validRevision ''3''"
  by (simp add: validRevision_def parse_digits_def is_digit_def digits_value_def digit_value_def nat_digits.simps digit_char_def char_of_def bit_0)

lemma login_read:
  "read_identity one_doc ''user-7'' True = Inr (no_profile\<lparr>pf_Subject := ''user-7'', pf_Name := ''Ada''\<rparr>, [\<lparr>og_ID = ''org-1'', og_Name = ''Org''\<rparr>])"
  by (simp add: read_identity_def one_doc_def revision_three orgPattern_def opaque_char_def contains_org_def no_profile_def validateDisplayProfile_def)

lemma login_current:
  "currentRequest app_config plain_env one_user login_session () = (Inr (no_profile\<lparr>pf_Subject := ''user-7'', pf_Name := ''Ada''\<rparr>, [\<lparr>og_ID = ''org-1'', og_Name = ''Org''\<rparr>]), login_session, ())"
proof -
  have "organizations app_config plain_env one_user login_session True () =
      (Inr (no_profile\<lparr>pf_Subject := ''user-7'', pf_Name := ''Ada''\<rparr>, [\<lparr>og_ID = ''org-1'', og_Name = ''Org''\<rparr>]), login_session, ())"
    using login_read by (simp add: organizations_def app_config_def plain_env_def one_user_def login_session_def Let_def) (simp add: one_doc_def)
  then show ?thesis by (simp add: currentRequest_def ask_identity_def app_config_def contains_org_def login_session_def)
qed

lemma login_gate: "session_gate app_config plain_env app_request = Inr tx_id"
  by (simp add: session_gate_def validHost_def app_config_def plain_env_def app_request_def)

lemma login_csrf: "csrfValid app_config app_request login_session" "org_headers app_request login_session"
  by (simp_all add: csrfValid_def org_headers_def app_config_def app_request_def login_session_def)

text \<open>A session that is there and not leased: the two rounds through the store.\<close>

definition at_rest :: "redis_db \<Rightarrow> bool" where
  "at_rest db \<longleftrightarrow> db_live db (lockKey app_store tx_id) = None \<and> (\<exists>d. db_live db (sessionKey app_store tx_id) = Some (RString sealed_login, d))"

lemma browser_db_at_rest: "at_rest browser_db"
  by (simp add: at_rest_def browser_db_def)

lemma login_begin:
  assumes "at_rest db"
  shows "\<exists>db'. at_rest db' \<and> beginIdentity plain_env one_user app_store ref_redis (lease_of bytes) tx_id db () = Some (Inr login_session, db', ())"
proof -
  obtain d where d: "db_live db (lockKey app_store tx_id) = None" "db_live db (sessionKey app_store tx_id) = Some (RString sealed_login, d)"
    using assms by (auto simp: at_rest_def)
  let ?own = "b64_encode (map of_char bytes)"
  let ?db1 = "db_put (lockKey app_store tx_id) (RString ?own, Some (db_clock db + 30000)) db"
  obtain ttl where c: "0 < ttl" "commit_session app_store ref_redis Delivered 0 (Some (replicate 12 (CHR 0x00))) tx_id ?own tx_id login_session False ?db1 =
      (None, committed_db (lockKey app_store tx_id) (sessionKey app_store tx_id) (sessionKey app_store tx_id) sealed_login ttl False ?db1)"
    using login_commit [of ?db1 ?own False] d by (auto simp: held_by_def)
  show ?thesis
    by (intro exI conjI, rule_tac [2] trans [OF _ refl])
      (use login_acquire [OF d, of bytes] login_prepared c in
        \<open>simp_all add: at_rest_def beginIdentity_def lease_of_def applyIdentityPreparationFailure_def committed_db_def\<close>)
qed

lemma login_finish:
  assumes "at_rest db"
  shows "\<exists>db'. finishIdentity app_store ref_redis (lease_of bytes) tx_id tx_id login_session login_session remove db = Some (Inr login_session, db') \<and>
    (\<not> remove \<longrightarrow> at_rest db')"
proof -
  obtain d where d: "db_live db (lockKey app_store tx_id) = None" "db_live db (sessionKey app_store tx_id) = Some (RString sealed_login, d)"
    using assms by (auto simp: at_rest_def)
  let ?own = "b64_encode (map of_char bytes)"
  let ?db1 = "db_put (lockKey app_store tx_id) (RString ?own, Some (db_clock db + 30000)) db"
  obtain ttl where c: "remove \<or> 0 < ttl" "commit_session app_store ref_redis Delivered 0 (Some (replicate 12 (CHR 0x00))) tx_id ?own tx_id login_session remove ?db1 =
      (None, committed_db (lockKey app_store tx_id) (sessionKey app_store tx_id) (sessionKey app_store tx_id) sealed_login ttl remove ?db1)"
    using login_commit [of ?db1 ?own remove] d by (auto simp: held_by_def)
  have m: "mergeIdentityUpdate login_session login_session login_session 0 = Inr login_session"
    using sessionDeadline_facts(4) [OF login_session_ok] by (simp add: mergeIdentityUpdate_def) (simp add: login_session_def sessionPolicyVersion_def)
  have "finishIdentity app_store ref_redis (lease_of bytes) tx_id tx_id login_session login_session remove db =
      Some (Inr login_session, committed_db (lockKey app_store tx_id) (sessionKey app_store tx_id) (sessionKey app_store tx_id) sealed_login ttl remove ?db1)"
    using login_acquire [OF d, of bytes] m c(2) by (simp add: finishIdentity_def lease_of_def maps_Equal_def)
  moreover have "\<not> remove \<longrightarrow> at_rest (committed_db (lockKey app_store tx_id) (sessionKey app_store tx_id) (sessionKey app_store tx_id) sealed_login ttl remove ?db1)"
    using c(1) by (auto simp: at_rest_def committed_db_def)
  ultimately show ?thesis by blast
qed


lemma app_mode [simp]: "cf_APIResource app_config = []"
  by (simp add: app_config_def)

lemma login_granted:
  "requirePrincipal app_config plain_env one_user 0 [] app_request login_session () =
     ((plain_result 200 NoData)\<lparr>br_principal := Some
        \<lparr>pn_Issuer = ''https://id/oidc'', pn_UserID = ''user-7'', pn_OrganizationID = ''org-1'',
         pn_Username = fst (principalDisplayNames (no_profile\<lparr>pf_Subject := ''user-7'', pf_Name := ''Ada''\<rparr>) [\<lparr>og_ID = ''org-1'', og_Name = ''Org''\<rparr>] ''org-1''),
         pn_OrganizationName = snd (principalDisplayNames (no_profile\<lparr>pf_Subject := ''user-7'', pf_Name := ''Ada''\<rparr>) [\<lparr>og_ID = ''org-1'', og_Name = ''Org''\<rparr>] ''org-1''),
         pn_OrganizationRevision = ''3'', pn_DepartmentIDs = [], pn_PrimaryDepartmentID = None, pn_Permissions = [], pn_ExpiresAt = unix sessionIdleLifetime\<rparr>\<rparr>,
      login_session, ())"
proof -
  have f: "cf_APIResource app_config = []" "cf_Endpoint app_config = ''https://id''" "bs_Organization login_session = ''org-1''" "bs_Subject login_session = ''user-7''"
      "bs_Revision login_session = ''3''" by (simp_all add: app_config_def login_session_def)
  show ?thesis by (simp add: requirePrincipal_def login_csrf login_current f login_session_ok split: prod.splits)
qed

lemma settle_plain: "br_status o1 \<noteq> 401 \<Longrightarrow> settle_outcome v v o1 = o1"
  by (simp add: settle_outcome_def)

lemma login_served_at:
  assumes h: "handler app_request login_session () = (o1, login_session, ())" and st: "br_status o1 \<noteq> 401" "\<not> br_rotate o1"
  shows "\<exists>o2 db. withSession app_config plain_env one_user app_store ref_redis (lease_of a) (lease_of b) ents 0 handler authorized app_request browser_db () =
      Some (session_response o2 tx_id login_session 0 authorized, db, ()) \<and> (o2 = o1 \<or> o2 = with_expiry (unix sessionIdleLifetime) o1)"
proof -
  obtain db1 where b: "at_rest db1" "beginIdentity plain_env one_user app_store ref_redis (lease_of a) tx_id browser_db () = Some (Inr login_session, db1, ())"
    using login_begin [OF browser_db_at_rest] by blast
  obtain db2 where f: "finishIdentity app_store ref_redis (lease_of b) tx_id tx_id login_session login_session (br_remove o1) db1 = Some (Inr login_session, db2)"
    using login_finish [OF b(1)] by blast
  have "withSession app_config plain_env one_user app_store ref_redis (lease_of a) (lease_of b) ents 0 handler authorized app_request browser_db () =
      Some (session_response (if br_remove o1 then o1 else with_expiry (unix sessionIdleLifetime) o1) tx_id login_session 0 authorized, db2, ())"
    using b(2) f h st by (simp add: withSession_def withIdentitySession_def login_gate settle_plain rotate_session_def login_session_ok Let_def)
  then show ?thesis by (cases "br_remove o1") auto
qed

lemma login_served:
  assumes h: "handler app_request login_session () = (o1, login_session, ())" and st: "br_status o1 \<noteq> 401" "\<not> br_rotate o1"
  shows "\<exists>o2 db. withSession app_config plain_env one_user app_store ref_redis (lease_of a) (lease_of b) ents 0 handler authorized app_request browser_db () =
      Some (session_response o2 tx_id login_session 0 authorized, db, ()) \<and> (o2 = o1 \<or> (\<exists>t. o2 = with_expiry t o1))"
  using login_served_at [where handler = handler, OF assms, of a b ents authorized] by blast

theorem principal_is_confirmed_witness:
  "\<exists>resp r' p i v. withSession app_config plain_env one_user app_store ref_redis (lease_of ''a'') (lease_of ''b'') (None, None) 0
      (requirePrincipal app_config plain_env one_user 0 []) True app_request browser_db () = Some (resp, r', ()) \<and>
    bp_principal resp = Some (tx_id, p) \<and> confirmed app_config plain_env one_user v p \<and> written_back app_store ref_redis i tx_id p r' \<and> pn_UserID p = bs_Subject v"
proof -
  obtain o2 db where w: "withSession app_config plain_env one_user app_store ref_redis (lease_of ''a'') (lease_of ''b'') (None, None) 0
      (requirePrincipal app_config plain_env one_user 0 []) True app_request browser_db () = Some (session_response o2 tx_id login_session 0 True, db, ())"
      "\<exists>p. br_principal o2 = Some p"
    using login_served [where handler = "requirePrincipal app_config plain_env one_user 0 []", OF login_granted, of "''a''" "''b''" "(None, None)" True] by auto
  then obtain p where p: "bp_principal (session_response o2 tx_id login_session 0 True) = Some (tx_id, p)" by (auto simp: session_response_principal)
  from principal_is_confirmed [OF w(1) p] w(1) p show ?thesis by blast
qed

lemma login_logged_out:
  "bff_logout app_config plain_env one_user app_request login_session () =
     ((plain_result 200 (RedirectData ''https://app/''))\<lparr>br_remove := True\<rparr>, login_session, ())"
proof -
  have "login_session\<lparr>bs_SDK := bs_SDK login_session\<rparr> = login_session" by simp
  moreover have "cf_Origin app_config = ''https://app''" by (simp add: app_config_def)
  ultimately show ?thesis by (simp add: bff_logout_def login_csrf Let_def one_user_def plain_env_def)
qed

lemma login_logout_served:
  "\<exists>resp db. withSession app_config plain_env one_user app_store ref_redis (lease_of ''a'') (lease_of ''b'') (None, None) 0
      (bff_logout app_config plain_env one_user) False app_request browser_db () = Some (resp, db, ()) \<and>
     bp_cookie resp = Some ([], -1) \<and> bp_data resp = RedirectData ''https://app/''"
proof -
  obtain o2 db where w: "withSession app_config plain_env one_user app_store ref_redis (lease_of ''a'') (lease_of ''b'') (None, None) 0
      (bff_logout app_config plain_env one_user) False app_request browser_db () = Some (session_response o2 tx_id login_session 0 False, db, ())"
      "br_remove o2" "br_data o2 = RedirectData ''https://app/''" "br_redirect o2 = []" "br_principal o2 = None"
    using login_served [where handler = "bff_logout app_config plain_env one_user", OF login_logged_out, of "''a''" "''b''" "(None, None)" False]
    by (auto simp: expiry_redirect)
  then show ?thesis by (auto simp: session_response_def Let_def)
qed

theorem cookies_follow_the_store_witness:
  "\<exists>resp db. withSession app_config plain_env one_user app_store ref_redis (lease_of ''a'') (lease_of ''b'') (None, None) 0
      (bff_logout app_config plain_env one_user) False app_request browser_db () = Some (resp, db, ()) \<and>
     bp_cookie resp = Some ([], -1) \<and> db_live db (sessionKey app_store tx_id) = None"
proof -
  obtain resp db where w: "withSession app_config plain_env one_user app_store ref_redis (lease_of ''a'') (lease_of ''b'') (None, None) 0
      (bff_logout app_config plain_env one_user) False app_request browser_db () = Some (resp, db, ())" "bp_cookie resp = Some ([], -1)"
    using login_logout_served by blast
  from cookies_follow_the_store [OF ref_redis_ok w] w show ?thesis by (auto simp: ref_redis_def app_request_def opaque_def)
qed

theorem logout_ends_the_session_witness:
  "\<exists>resp db. withSession app_config plain_env one_user app_store ref_redis (lease_of ''a'') (lease_of ''b'') (None, None) 0
      (bff_logout app_config plain_env one_user) False app_request browser_db () = Some (resp, db, ()) \<and> db_live db (sessionKey app_store tx_id) = None"
proof -
  obtain resp db where w: "withSession app_config plain_env one_user app_store ref_redis (lease_of ''a'') (lease_of ''b'') (None, None) 0
      (bff_logout app_config plain_env one_user) False app_request browser_db () = Some (resp, db, ())" "bp_data resp = RedirectData ''https://app/''"
    using login_logout_served by blast
  from logout_ends_the_session [OF ref_redis_ok w] w show ?thesis by (auto simp: ref_redis_def app_request_def)
qed

theorem renewal_is_bounded_witness:
  "\<exists>o1 w. renewSession app_config plain_env one_user (7 * hour) app_request login_session () = (o1, w, ()) \<and>
     bs_AbsoluteUntil w = bs_AbsoluteUntil login_session \<and> bs_IdleUntil w \<le> bs_AbsoluteUntil w"
proof -
  obtain o1 w where r: "renewSession app_config plain_env one_user (7 * hour) app_request login_session () = (o1, w, ())" by (metis prod_cases3 old.unit.exhaust)
  from renewal_is_bounded [OF r] have "bs_AbsoluteUntil w = bs_AbsoluteUntil login_session" "bs_IdleUntil w \<le> bs_AbsoluteUntil login_session"
    by (auto simp: login_session_def lifetime_defs split: if_splits)
  with r show ?thesis by auto
qed


theorem confirmed_again_witness:
  "\<exists>p db'. revalidate app_config plain_env one_user app_store ref_redis (lease_of ''a'') (lease_of ''b'') tx_id p [] browser_db () = Some (Confirmed, db', ()) \<and>
     rechecked app_config plain_env one_user app_store ref_redis (lease_of ''a'') tx_id p browser_db"
proof -
  obtain p where p: "br_principal (fst (requirePrincipal app_config plain_env one_user 0 [] app_request login_session ())) = Some p"
      "pn_UserID p = ''user-7''" "pn_OrganizationID p = ''org-1''" "pn_OrganizationRevision p = ''3''"
    by (simp add: login_granted)
  have same: "bs_Subject login_session = pn_UserID p" "same_principal login_session p"
    using p(2-4) by (simp_all add: same_principal_def login_session_def)
  obtain db1 where b: "at_rest db1" "beginIdentity plain_env one_user app_store ref_redis (lease_of ''a'') tx_id browser_db () = Some (Inr login_session, db1, ())"
    using login_begin [OF browser_db_at_rest] by blast
  obtain db2 where f: "finishIdentity app_store ref_redis (lease_of ''b'') tx_id tx_id login_session login_session False db1 = Some (Inr login_session, db2)"
    using login_finish [OF b(1)] by blast
  have "revalidate app_config plain_env one_user app_store ref_redis (lease_of ''a'') (lease_of ''b'') tx_id p [] browser_db () = Some (Confirmed, db2, ())"
    using b(2) f same login_current by (simp add: revalidate_def revalidateIdentity_def Let_def)
  from confirmed_again [OF this] this show ?thesis by blast
qed

end
