(* ===== verification/Cors.thy ===== *)
theory Cors
  imports Go_Text Go_Numbers
begin

text \<open>
  Package \<open>middleware\<close>, cross-origin requests (\<open>cors.go\<close>, \<open>cors_host.go\<close>): canonical origins, the options and their normal form, preflight
  requests, and the response writer that puts the checked headers back before a response is sent.

  \<open>url.Parse\<close>, \<open>net.ParseIP\<close> and the tables of Unicode for case are parameters (\<open>cors_env\<close>), and so is the writer of
  gin (\<open>gin_writer\<close>) with the laws \<open>writer_ok\<close>. Handlers after the middleware are sequences of calls on the writer.
\<close>

section \<open>Library functions\<close>

definition upper_rune :: "(nat \<Rightarrow> nat) \<Rightarrow> nat \<Rightarrow> nat" where
  "upper_rune tbl r = (if 97 \<le> r \<and> r \<le> 122 then r - 32 else if r < 128 then r else tbl r)"

definition to_upper :: "(nat \<Rightarrow> nat) \<Rightarrow> string \<Rightarrow> string" where
  "to_upper tbl s = concat (map (\<lambda>r. encode_rune (upper_rune tbl r)) (runes s))"

fun join_text :: "string \<Rightarrow> string list \<Rightarrow> string" where
  "join_text sep [] = []"
| "join_text sep [x] = x"
| "join_text sep (x # y # zs) = x @ sep @ join_text sep (y # zs)"

record parsed_url =
  pu_Scheme :: string
  pu_Opaque :: string
  pu_User :: bool
  pu_Host :: string
  pu_Path :: string
  pu_RawPath :: string
  pu_RawQuery :: string
  pu_ForceQuery :: bool
  pu_Fragment :: string

text \<open>\<open>Hostname\<close> and \<open>Port\<close> of a parsed URL: the part after the last colon is the port when it has digits only.\<close>

definition split_host_port :: "string \<Rightarrow> string \<times> string" where
  "split_host_port hp =
     (let after = rev (takeWhile (\<lambda>c. c \<noteq> CHR '':'') (rev hp));
          (host, port) = (if CHR '':'' \<in> set hp \<and> list_all is_digit after then (take (length hp - length after - 1) hp, after) else (hp, []))
      in (if has_prefix host ''['' \<and> has_suffix host '']'' then butlast (drop 1 host) else host, port))"

record cors_env =
  ce_url :: "string \<Rightarrow> parsed_url option"
  ce_ip :: "string \<Rightarrow> string option"
  ce_lower :: "nat \<Rightarrow> nat"
  ce_upper :: "nat \<Rightarrow> nat"

text \<open>\<open>http.CanonicalHeaderKey\<close> of a name whose bytes are all allowed in header names.\<close>

fun canonical_bytes :: "bool \<Rightarrow> string \<Rightarrow> string" where
  "canonical_bytes upper [] = []"
| "canonical_bytes upper (c # cs) =
     (let n = of_char c :: nat;
          d = (if upper \<and> 97 \<le> n \<and> n \<le> 122 then char_of (n - 32) else if \<not> upper \<and> 65 \<le> n \<and> n \<le> 90 then char_of (n + 32) else c)
      in d # canonical_bytes (c = CHR ''-'') cs)"

definition header_byte :: "char \<Rightarrow> bool" where
  "header_byte c \<longleftrightarrow> (let n = of_char c :: nat in
     (48 \<le> n \<and> n \<le> 57) \<or> (65 \<le> n \<and> n \<le> 90) \<or> (97 \<le> n \<and> n \<le> 122) \<or> n \<in> {33, 35, 36, 37, 38, 39, 42, 43, 45, 46, 94, 95, 96, 124, 126})"

definition CanonicalHeaderKey :: "string \<Rightarrow> string" where
  "CanonicalHeaderKey s = (if list_all header_byte s then canonical_bytes True s else s)"

section \<open>Hosts\<close>

definition validToken :: "string \<Rightarrow> bool" where
  "validToken value \<longleftrightarrow> value \<noteq> [] \<and>
     list_all (\<lambda>r. 32 < r \<and> r < 127 \<and> r \<notin> set (map of_char (''()<>@,;:'' @ [CHR 0x5C, CHR 0x22] @ ''/[]?={}'' @ [CHR 0x09]))) (runes value)"

definition dns_label :: "string \<Rightarrow> bool" where
  "dns_label label \<longleftrightarrow> label \<noteq> [] \<and> length label \<le> 63 \<and> hd label \<noteq> CHR ''-'' \<and> last label \<noteq> CHR ''-'' \<and>
     list_all (\<lambda>r. (97 \<le> r \<and> r \<le> 122) \<or> (48 \<le> r \<and> r \<le> 57) \<or> r = 45) (runes label)"

definition validateDNSName :: "string \<Rightarrow> bool" where
  "validateDNSName hostname \<longleftrightarrow> length hostname \<le> 253 \<and> list_all dns_label (split_on (CHR ''.'') hostname)"

definition canonical_port :: "string \<Rightarrow> bool" where
  "canonical_port port \<longleftrightarrow> port = [] \<or> (case parse_int port of None \<Rightarrow> False | Some v \<Rightarrow> 1 \<le> v \<and> v \<le> 65535 \<and> itoa v = port)"

definition validateCanonicalHost :: "cors_env \<Rightarrow> string \<Rightarrow> bool" where
  "validateCanonicalHost E host =
     (if host = [] \<or> host \<noteq> to_lower (ce_lower E) host \<or> trim_space host \<noteq> host \<or> CHR 0x5C \<in> set host then False
      else case ce_url E (''http://'' @ host) of None \<Rightarrow> False
      | Some parsed \<Rightarrow>
         if pu_Host parsed \<noteq> host \<or> pu_User parsed \<or> pu_Path parsed \<noteq> [] \<or> pu_RawQuery parsed \<noteq> [] \<or> pu_Fragment parsed \<noteq> [] then False
         else case split_host_port (pu_Host parsed) of (hostname, port) \<Rightarrow>
           if hostname = [] \<or> has_suffix hostname ''.'' \<or> has_suffix host '':'' then False
           else (case ce_ip E hostname of
                   None \<Rightarrow> trim_cutset ''0123456789.'' hostname \<noteq> [] \<and> validateDNSName hostname
                 | Some text \<Rightarrow> text = hostname) \<and> canonical_port port)"

section \<open>Origins\<close>

datatype cors_error =
  NotAnOrigin | NotSchemeAndHost | WrongScheme | HostNotCanonical | NotCanonical
| BadAllowedOrigin string cors_error | BadExternalOrigin string cors_error
| BadMethod string | BadHeaderName string | BadAllowedHeader cors_error | BadExposedHeader cors_error

definition canonicalOrigin :: "cors_env \<Rightarrow> string \<Rightarrow> cors_error + string" where
  "canonicalOrigin E value =
     (if value = [] \<or> value = ''null'' \<or> trim_space value \<noteq> value \<or> CHR 0x5C \<in> set value then Inl NotAnOrigin
      else case ce_url E value of None \<Rightarrow> Inl NotSchemeAndHost
      | Some parsed \<Rightarrow>
         if pu_Opaque parsed \<noteq> [] \<or> pu_User parsed \<or> pu_Host parsed = [] \<or> pu_Path parsed \<noteq> [] \<or> pu_RawPath parsed \<noteq> [] \<or> pu_RawQuery parsed \<noteq> [] \<or>
            pu_ForceQuery parsed \<or> pu_Fragment parsed \<noteq> [] then Inl NotSchemeAndHost
         else if pu_Scheme parsed \<noteq> ''http'' \<and> pu_Scheme parsed \<noteq> ''https'' then Inl WrongScheme
         else if \<not> validateCanonicalHost E (pu_Host parsed) then Inl HostNotCanonical
         else let canonical = pu_Scheme parsed @ ''://'' @ pu_Host parsed
              in if canonical \<noteq> value then Inl NotCanonical else Inr canonical)"

section \<open>Options\<close>

definition defaultCORSMaxAge :: int where "defaultCORSMaxAge = 43200"
definition defaultCORSMethods :: "string list" where "defaultCORSMethods = [''GET'', ''HEAD'', ''POST'', ''PUT'', ''DELETE'', ''PATCH'']"
definition defaultCORSHeaders :: "string list" where "defaultCORSHeaders = [''Accept'', ''Authorization'', ''Content-Type'', ''Env'', ''X-CSRF-Token'']"
definition defaultCORSExposedHeaders :: "string list" where "defaultCORSExposedHeaders = [''Content-Length'']"

record cors_options =
  co_AllowedOrigins :: "string list"
  co_AllowedMethods :: "string list"
  co_AllowedHeaders :: "string list"
  co_ExposedHeaders :: "string list"
  co_ExternalOrigin :: string

record normalized_cors =
  nc_allowedOrigins :: "string list"
  nc_allowedMethods :: "string list"
  nc_allowedHeaders :: "string \<Rightarrow> string option"
  nc_exposedHeaders :: "string list"
  nc_externalOrigin :: string

fun normalize_origins :: "cors_env \<Rightarrow> string list \<Rightarrow> cors_error + string list" where
  "normalize_origins E [] = Inr []"
| "normalize_origins E (v # vs) =
     (case canonicalOrigin E v of Inl e \<Rightarrow> Inl (BadAllowedOrigin v e)
      | Inr origin \<Rightarrow> (case normalize_origins E vs of Inl e \<Rightarrow> Inl e | Inr os \<Rightarrow> Inr (origin # os)))"

definition bad_method :: "cors_env \<Rightarrow> string \<Rightarrow> bool" where
  "bad_method E m \<longleftrightarrow> m = [] \<or> m = ''*'' \<or> m \<noteq> to_upper (ce_upper E) m \<or> \<not> validToken m"

definition bad_header :: "string \<Rightarrow> bool" where
  "bad_header v \<longleftrightarrow> v = [] \<or> v = ''*'' \<or> trim_space v \<noteq> v \<or> \<not> validToken v"

fun add_header_names :: "cors_env \<Rightarrow> (string \<Rightarrow> string option) \<Rightarrow> string list \<Rightarrow> cors_error + (string \<Rightarrow> string option)" where
  "add_header_names E m [] = Inr m"
| "add_header_names E m (v # vs) =
     (if bad_header v then Inl (BadHeaderName v) else add_header_names E (m(to_lower (ce_lower E) v \<mapsto> CanonicalHeaderKey v)) vs)"

definition normalizeHeaderNames :: "cors_env \<Rightarrow> string list \<Rightarrow> cors_error + (string \<Rightarrow> string option)" where
  "normalizeHeaderNames E values = add_header_names E (\<lambda>_. None) values"

fun list_headers :: "cors_env \<Rightarrow> (string \<Rightarrow> string option) \<Rightarrow> string list \<Rightarrow> string list \<Rightarrow> string list" where
  "list_headers E lookup seen [] = []"
| "list_headers E lookup seen (v # vs) =
     (let lower = to_lower (ce_lower E) v
      in if lower \<in> set seen then list_headers E lookup seen vs
         else (case lookup lower of None \<Rightarrow> [] | Some c \<Rightarrow> c) # list_headers E lookup (lower # seen) vs)"

definition normalizedHeaderList :: "cors_env \<Rightarrow> string list \<Rightarrow> cors_error + string list" where
  "normalizedHeaderList E values = (case normalizeHeaderNames E values of Inl e \<Rightarrow> Inl e | Inr lookup \<Rightarrow> Inr (list_headers E lookup [] values))"

definition normalizeCORSOptions :: "cors_env \<Rightarrow> cors_options \<Rightarrow> cors_error + normalized_cors" where
  "normalizeCORSOptions E options =
     (case normalize_origins E (co_AllowedOrigins options) of Inl e \<Rightarrow> Inl e
      | Inr allowedOrigins \<Rightarrow>
     (case (if co_ExternalOrigin options = [] then Inr []
            else case canonicalOrigin E (co_ExternalOrigin options) of Inl e \<Rightarrow> Inl (BadExternalOrigin (co_ExternalOrigin options) e) | Inr x \<Rightarrow> Inr x) of
        Inl e \<Rightarrow> Inl e
      | Inr externalOrigin \<Rightarrow>
     (let methods = (if co_AllowedMethods options = [] then defaultCORSMethods else co_AllowedMethods options)
      in case List.find (bad_method E) methods of Some m \<Rightarrow> Inl (BadMethod m)
      | None \<Rightarrow>
     (case normalizeHeaderNames E (if co_AllowedHeaders options = [] then defaultCORSHeaders else co_AllowedHeaders options) of
        Inl e \<Rightarrow> Inl (BadAllowedHeader e)
      | Inr allowedHeaders \<Rightarrow>
     (case normalizedHeaderList E (if co_ExposedHeaders options = [] then defaultCORSExposedHeaders else co_ExposedHeaders options) of
        Inl e \<Rightarrow> Inl (BadExposedHeader e)
      | Inr exposedHeaders \<Rightarrow>
          Inr \<lparr>nc_allowedOrigins = allowedOrigins, nc_allowedMethods = methods, nc_allowedHeaders = allowedHeaders, nc_exposedHeaders = exposedHeaders,
               nc_externalOrigin = externalOrigin\<rparr>)))))"

section \<open>Requests\<close>

type_synonym header_map = "string \<Rightarrow> string list"

record cors_request =
  cq_Method :: string
  cq_Host :: string
  cq_TLS :: bool
  cq_Header :: header_map

definition allows :: "cors_env \<Rightarrow> normalized_cors \<Rightarrow> cors_request \<Rightarrow> string \<Rightarrow> bool \<times> bool" where
  "allows E options request origin =
     (if nc_externalOrigin options = [] \<and> \<not> validateCanonicalHost E (cq_Host request) then (False, False)
      else let target = (if nc_externalOrigin options = [] then (if cq_TLS request then ''https'' else ''http'') @ ''://'' @ cq_Host request
                         else nc_externalOrigin options)
           in if origin = target then (True, True) else (False, origin \<in> set (nc_allowedOrigins options)))"

definition isCORSPreflight :: "cors_request \<Rightarrow> bool" where
  "isCORSPreflight request \<longleftrightarrow> cq_Method request = ''OPTIONS'' \<and> cq_Header request ''Access-Control-Request-Method'' \<noteq> []"

fun requested_names :: "cors_env \<Rightarrow> (string \<Rightarrow> string option) \<Rightarrow> string list \<Rightarrow> string list \<Rightarrow> string list option" where
  "requested_names E allowed seen [] = Some []"
| "requested_names E allowed seen (part # parts) =
     (let name = trim_space part; lower = to_lower (ce_lower E) name
      in case allowed lower of None \<Rightarrow> None
         | Some canonical \<Rightarrow>
            if name = [] \<or> \<not> validToken name then None
            else if lower \<in> set seen then requested_names E allowed seen parts
            else map_option (Cons canonical) (requested_names E allowed (lower # seen) parts))"

definition requestedHeaderNames :: "cors_env \<Rightarrow> string list \<Rightarrow> (string \<Rightarrow> string option) \<Rightarrow> string list option" where
  "requestedHeaderNames E values allowed = requested_names E allowed [] (concat (map (split_on (CHR '','')) values))"

definition validatePreflight :: "cors_env \<Rightarrow> normalized_cors \<Rightarrow> cors_request \<Rightarrow> (string \<times> string list) option" where
  "validatePreflight E options request =
     (case cq_Header request ''Access-Control-Request-Method'' of
        [m] \<Rightarrow>
          if m = [] \<or> m \<noteq> to_upper (ce_upper E) m \<or> \<not> validToken m \<or> m \<notin> set (nc_allowedMethods options) then None
          else map_option (Pair m) (requestedHeaderNames E (cq_Header request ''Access-Control-Request-Headers'') (nc_allowedHeaders options))
      | _ \<Rightarrow> None)"

section \<open>Response headers\<close>

text \<open>The two loops of \<open>addVary\<close>: names that are new, in any spelling, are kept; \<open>skip\<close> drops empty ones.\<close>

fun vary_names :: "cors_env \<Rightarrow> bool \<Rightarrow> string list \<Rightarrow> string list \<Rightarrow> string list \<times> string list" where
  "vary_names E skip seen [] = ([], seen)"
| "vary_names E skip seen (v # vs) =
     (let lower = to_lower (ce_lower E) v
      in if skip \<and> v = [] \<or> lower \<in> set seen then vary_names E skip seen vs
         else (case vary_names E skip (lower # seen) vs of (ns, seen') \<Rightarrow> (v # ns, seen')))"

definition addVary :: "cors_env \<Rightarrow> string list \<Rightarrow> header_map \<Rightarrow> header_map" where
  "addVary E values headers =
     (case vary_names E True [] (map trim_space (concat (map (split_on (CHR '','')) (headers ''Vary'')))) of
        (existing, seen) \<Rightarrow> headers(''Vary'' := [join_text '', '' (existing @ fst (vary_names E False seen values))]))"

definition setAllowedCORSHeaders :: "cors_env \<Rightarrow> string \<Rightarrow> string list \<Rightarrow> header_map \<Rightarrow> header_map" where
  "setAllowedCORSHeaders E origin exposed headers =
     (let h1 = headers(''Access-Control-Allow-Origin'' := [origin], ''Access-Control-Allow-Credentials'' := [''true'']);
          h2 = (if exposed \<noteq> [] then h1(''Access-Control-Expose-Headers'' := [join_text '', '' exposed]) else h1)
      in addVary E [''Origin''] h2)"

section \<open>The writer\<close>

text \<open>
  The writer that gin hands to its handlers: its headers, what was sent (status and headers), and the calls; \<open>gw_edit\<close> is any change
  that is made to the headers. \<open>Write\<close> and \<open>WriteString\<close> return a count and whether they failed.
\<close>

record 'w gin_writer =
  gw_headers :: "'w \<Rightarrow> header_map"
  gw_Status :: "'w \<Rightarrow> nat"
  gw_sent :: "'w \<Rightarrow> (nat \<times> header_map) option"
  gw_edit :: "(header_map \<Rightarrow> header_map) \<Rightarrow> 'w \<Rightarrow> 'w"
  gw_WriteHeader :: "nat \<Rightarrow> 'w \<Rightarrow> 'w"
  gw_WriteHeaderNow :: "'w \<Rightarrow> 'w"
  gw_Write :: "string \<Rightarrow> 'w \<Rightarrow> (nat \<times> bool) \<times> 'w"
  gw_WriteString :: "string \<Rightarrow> 'w \<Rightarrow> (nat \<times> bool) \<times> 'w"
  gw_Flush :: "'w \<Rightarrow> 'w"

text \<open>
  A call leaves the headers alone; it sends them with the status as they are, or nothing, and nothing is sent twice.
  \<open>WriteHeader\<close> only notes a status, \<open>WriteHeaderNow\<close> forces the headers out.
\<close>

definition sends :: "'w gin_writer \<Rightarrow> 'w \<Rightarrow> 'w \<Rightarrow> bool" where
  "sends W w w' \<longleftrightarrow> gw_headers W w' = gw_headers W w \<and>
     (gw_sent W w' = gw_sent W w \<or> gw_sent W w = None \<and> gw_sent W w' = Some (gw_Status W w, gw_headers W w))"

definition writer_ok :: "'w gin_writer \<Rightarrow> bool" where
  "writer_ok W \<longleftrightarrow>
     (\<forall>f w. gw_headers W (gw_edit W f w) = f (gw_headers W w) \<and> gw_sent W (gw_edit W f w) = gw_sent W w \<and> gw_Status W (gw_edit W f w) = gw_Status W w) \<and>
     (\<forall>status w. gw_headers W (gw_WriteHeader W status w) = gw_headers W w \<and> gw_sent W (gw_WriteHeader W status w) = gw_sent W w \<and>
        (gw_sent W w = None \<longrightarrow> gw_Status W (gw_WriteHeader W status w) = status)) \<and>
     (\<forall>w. sends W w (gw_WriteHeaderNow W w) \<and> gw_sent W (gw_WriteHeaderNow W w) \<noteq> None) \<and> (\<forall>w. sends W w (gw_Flush W w)) \<and>
     (\<forall>d w. sends W w (snd (gw_Write W d w)) \<and> sends W w (snd (gw_WriteString W d w)))"

record 'w cors_writer =
  cw_inner :: 'w
  cw_origin :: string
  cw_exposed :: "string list"

definition ensured :: "cors_env \<Rightarrow> string \<Rightarrow> string list \<Rightarrow> header_map \<Rightarrow> header_map" where
  "ensured E origin exposed headers =
     (let h = addVary E [''Origin''] headers
      in if origin = [] then h(''Access-Control-Allow-Origin'' := [], ''Access-Control-Allow-Credentials'' := [], ''Access-Control-Expose-Headers'' := [])
         else setAllowedCORSHeaders E origin exposed h)"

definition ensureHeaders :: "cors_env \<Rightarrow> 'w gin_writer \<Rightarrow> 'w cors_writer \<Rightarrow> 'w cors_writer" where
  "ensureHeaders E W cw = cw\<lparr>cw_inner := gw_edit W (ensured E (cw_origin cw) (cw_exposed cw)) (cw_inner cw)\<rparr>"

definition allow_origin :: "cors_env \<Rightarrow> 'w gin_writer \<Rightarrow> string \<Rightarrow> string list \<Rightarrow> 'w cors_writer \<Rightarrow> 'w cors_writer" where
  "allow_origin E W origin exposed cw = ensureHeaders E W (cw\<lparr>cw_origin := origin, cw_exposed := exposed\<rparr>)"

definition cors_WriteHeader :: "cors_env \<Rightarrow> 'w gin_writer \<Rightarrow> nat \<Rightarrow> 'w cors_writer \<Rightarrow> 'w cors_writer" where
  "cors_WriteHeader E W status cw = (let c = ensureHeaders E W cw in c\<lparr>cw_inner := gw_WriteHeader W status (cw_inner c)\<rparr>)"

definition cors_WriteHeaderNow :: "cors_env \<Rightarrow> 'w gin_writer \<Rightarrow> 'w cors_writer \<Rightarrow> 'w cors_writer" where
  "cors_WriteHeaderNow E W cw = (let c = ensureHeaders E W cw in c\<lparr>cw_inner := gw_WriteHeaderNow W (cw_inner c)\<rparr>)"

definition cors_Write :: "cors_env \<Rightarrow> 'w gin_writer \<Rightarrow> string \<Rightarrow> 'w cors_writer \<Rightarrow> (nat \<times> bool) \<times> 'w cors_writer" where
  "cors_Write E W data cw =
     (let c = ensureHeaders E W cw in case gw_Write W data (cw_inner c) of (res, w) \<Rightarrow> (res, c\<lparr>cw_inner := w\<rparr>))"

definition cors_WriteString :: "cors_env \<Rightarrow> 'w gin_writer \<Rightarrow> string \<Rightarrow> 'w cors_writer \<Rightarrow> (nat \<times> bool) \<times> 'w cors_writer" where
  "cors_WriteString E W data cw =
     (let c = ensureHeaders E W cw in case gw_WriteString W data (cw_inner c) of (res, w) \<Rightarrow> (res, c\<lparr>cw_inner := w\<rparr>))"

definition cors_Flush :: "cors_env \<Rightarrow> 'w gin_writer \<Rightarrow> 'w cors_writer \<Rightarrow> 'w cors_writer" where
  "cors_Flush E W cw = (let c = ensureHeaders E W cw in c\<lparr>cw_inner := gw_Flush W (cw_inner c)\<rparr>)"

section \<open>The middleware\<close>

text \<open>What the handlers after the middleware do with the writer, call by call.\<close>

datatype writer_call = EditHeaders "header_map \<Rightarrow> header_map" | CallWriteHeader nat | CallWriteHeaderNow | CallWrite string | CallWriteString string | CallFlush

fun writer_act :: "cors_env \<Rightarrow> 'w gin_writer \<Rightarrow> writer_call \<Rightarrow> 'w cors_writer \<Rightarrow> 'w cors_writer" where
  "writer_act E W (EditHeaders f) cw = cw\<lparr>cw_inner := gw_edit W f (cw_inner cw)\<rparr>"
| "writer_act E W (CallWriteHeader status) cw = cors_WriteHeader E W status cw"
| "writer_act E W CallWriteHeaderNow cw = cors_WriteHeaderNow E W cw"
| "writer_act E W (CallWrite data) cw = snd (cors_Write E W data cw)"
| "writer_act E W (CallWriteString data) cw = snd (cors_WriteString E W data cw)"
| "writer_act E W CallFlush cw = cors_Flush E W cw"

definition run_next :: "cors_env \<Rightarrow> 'w gin_writer \<Rightarrow> writer_call list \<Rightarrow> 'w cors_writer \<Rightarrow> 'w cors_writer" where
  "run_next E W acts cw = ensureHeaders E W (fold (writer_act E W) acts cw)"

definition abort_with :: "cors_env \<Rightarrow> 'w gin_writer \<Rightarrow> nat \<Rightarrow> 'w cors_writer \<Rightarrow> 'w cors_writer" where
  "abort_with E W status cw = cors_WriteHeaderNow E W (cors_WriteHeader E W status cw)"

definition set_header :: "'w gin_writer \<Rightarrow> string \<Rightarrow> string \<Rightarrow> 'w cors_writer \<Rightarrow> 'w cors_writer" where
  "set_header W k v cw = cw\<lparr>cw_inner := gw_edit W (\<lambda>h. h(k := if v = [] then [] else [v])) (cw_inner cw)\<rparr>"

text \<open>The headers that answer a preflight request.\<close>

definition grant_preflight ::
  "cors_env \<Rightarrow> 'w gin_writer \<Rightarrow> string \<Rightarrow> string list \<Rightarrow> string \<Rightarrow> string list \<Rightarrow> 'w cors_writer \<Rightarrow> 'w cors_writer" where
  "grant_preflight E W origin exposed m headers writer =
     (let c1 = allow_origin E W origin exposed writer;
          c2 = c1\<lparr>cw_inner := gw_edit W (addVary E [''Access-Control-Request-Method'', ''Access-Control-Request-Headers'']) (cw_inner c1)\<rparr>;
          c3 = set_header W ''Access-Control-Allow-Methods'' m c2;
          c4 = (if headers \<noteq> [] then set_header W ''Access-Control-Allow-Headers'' (join_text '', '' headers) c3 else c3)
      in set_header W ''Access-Control-Max-Age'' (itoa defaultCORSMaxAge) c4)"

text \<open>The writer afterwards, and whether the handlers after the middleware were run.\<close>

definition cors_handle ::
  "cors_env \<Rightarrow> 'w gin_writer \<Rightarrow> normalized_cors \<Rightarrow> cors_request \<Rightarrow> writer_call list \<Rightarrow> 'w \<Rightarrow> 'w cors_writer \<times> bool" where
  "cors_handle E W normalized request acts w =
     (let writer = \<lparr>cw_inner = w, cw_origin = [], cw_exposed = []\<rparr>;
          refuse = (abort_with E W 403 writer, False)
      in case cq_Header request ''Origin'' of
           [] \<Rightarrow> (run_next E W acts writer, True)
         | [raw] \<Rightarrow>
            (case canonicalOrigin E raw of Inl _ \<Rightarrow> refuse
             | Inr origin \<Rightarrow>
                (case allows E normalized request origin of (sameOrigin, allowed) \<Rightarrow>
                   if \<not> allowed then refuse
                   else if isCORSPreflight request then
                     (case validatePreflight E normalized request of None \<Rightarrow> refuse
                      | Some (m, headers) \<Rightarrow>
                         (abort_with E W 204 (grant_preflight E W origin (nc_exposedHeaders normalized) m headers writer), False))
                   else if \<not> sameOrigin \<and> cq_Method request \<notin> set (nc_allowedMethods normalized) then refuse
                   else (run_next E W acts (allow_origin E W origin (nc_exposedHeaders normalized) writer), True)))
         | _ \<Rightarrow> refuse)"

definition NewCORS :: "cors_env \<Rightarrow> 'w gin_writer \<Rightarrow> cors_options \<Rightarrow> cors_error + (cors_request \<Rightarrow> writer_call list \<Rightarrow> 'w \<Rightarrow> 'w cors_writer \<times> bool)" where
  "NewCORS E W options = (case normalizeCORSOptions E options of Inl e \<Rightarrow> Inl e | Inr normalized \<Rightarrow> Inr (cors_handle E W normalized))"

text \<open>The default middleware; \<open>None\<close> is the panic.\<close>

definition CORS :: "cors_env \<Rightarrow> 'w gin_writer \<Rightarrow> (cors_request \<Rightarrow> writer_call list \<Rightarrow> 'w \<Rightarrow> 'w cors_writer \<times> bool) option" where
  "CORS E W =
     (case NewCORS E W \<lparr>co_AllowedOrigins = [], co_AllowedMethods = [], co_AllowedHeaders = [], co_ExposedHeaders = [], co_ExternalOrigin = []\<rparr> of
        Inl _ \<Rightarrow> None | Inr h \<Rightarrow> Some h)"

end
