(* ===== verification/Session_Login.thy ===== *)
theory Session_Login
  imports Session_Handlers Cors
begin

text \<open>
  Package \<open>logtobff\<close>, logging in (\<open>identity.go\<close>, \<open>runtime.go\<close>): the routes, the start of a login with its one-time transaction, the
  callback of the provider, and reading the principal of a request.

  The sign-in calls of the SDK and the verifier of identity tokens are parameters (\<open>login_sdk\<close>). \<open>login_env\<close> has what
  \<open>net/url\<close> computes: parsing, the \<open>state\<close> of an address, and an address with a query set.
\<close>

section \<open>Routes\<close>

datatype bff_route = LoginRoute | AutoLoginRoute | CallbackRoute | SessionViewRoute | RenewRoute | LogoutRoute | AccountCenterRoute

text \<open>A \<open>GET\<close> pattern serves \<open>HEAD\<close> too; \<open>None\<close> is left to the multiplexer.\<close>

definition bff_mux :: "string \<Rightarrow> string \<Rightarrow> bff_route option" where
  "bff_mux m path =
     (if m = ''GET'' \<or> m = ''HEAD'' then
        (if path = ''/auth/login'' \<or> path = ''/auth/switch-organization'' then Some LoginRoute
         else if path = ''/auth/auto-login'' then Some AutoLoginRoute
         else if path = ''/auth/callback'' then Some CallbackRoute
         else if path = ''/auth/session'' then Some SessionViewRoute
         else if path = ''/auth/account-center'' then Some AccountCenterRoute
         else None)
      else if m = ''POST'' then
        (if path = ''/auth/session'' then Some RenewRoute else if path = ''/auth/logout'' then Some LogoutRoute else None)
      else None)"

definition bff_Handler :: "bff_config \<Rightarrow> idp_env \<Rightarrow> browser_request \<Rightarrow> string \<Rightarrow> string \<Rightarrow> bresponse + bff_route option" where
  "bff_Handler C I q m path =
     (if \<not> validHost C I q then Inl (fail_with_code 403 ''host_rejected'')
      else if bq_Authorization q \<noteq> [] then Inl (fail_with_code 400 ''cookie_mode_rejects_bearer'')
      else Inr (bff_mux m path))"

section \<open>Starting a login\<close>

type_synonym query_values = "string \<Rightarrow> string list"

record id_token =
  it_Nonce :: string
  it_Subject :: string
  it_Identity :: "(string \<times> string) option"

record 'n login_sdk =
  ls_SignIn :: "string \<Rightarrow> string \<Rightarrow> string \<Rightarrow> sdk_map \<Rightarrow> 'n \<Rightarrow> string option \<times> sdk_map \<times> 'n"
  ls_HandleSignInCallback :: "query_values \<Rightarrow> sdk_map \<Rightarrow> 'n \<Rightarrow> bool \<times> sdk_map \<times> 'n"
  ls_GetIdToken :: "sdk_map \<Rightarrow> string"
  ls_GetRefreshToken :: "sdk_map \<Rightarrow> string"
  ls_Verify :: "string \<Rightarrow> 'n \<Rightarrow> id_token option \<times> 'n"

record login_env =
  le_url :: "string \<Rightarrow> parsed_url option"
  le_state :: "string \<Rightarrow> string option"
  le_guest :: "string \<Rightarrow> string option"

text \<open>Cookies in the order they are set, each with its value and age.\<close>

record login_response =
  lr_status :: nat
  lr_error :: string
  lr_redirect :: string
  lr_cookies :: "(string \<times> string \<times> int) list"

definition login_fail :: "nat \<Rightarrow> string \<Rightarrow> login_response" where
  "login_fail status code = \<lparr>lr_status = status, lr_error = code, lr_redirect = [], lr_cookies = []\<rparr>"

definition login_redirect :: "string \<Rightarrow> (string \<times> string \<times> int) list \<Rightarrow> login_response" where
  "login_redirect target cookies = \<lparr>lr_status = 302, lr_error = [], lr_redirect = target, lr_cookies = cookies\<rparr>"

definition after_cookie :: "string \<times> string \<times> int \<Rightarrow> login_response \<Rightarrow> login_response" where
  "after_cookie c p = p\<lparr>lr_cookies := c # lr_cookies p\<rparr>"

definition login_cookie :: "bff_config \<Rightarrow> string" where
  "login_cookie C = cf_CookieName C @ ''_login''"

text \<open>Entropy for the nonce and the identifier, the nonce of the cipher, and the fate of the request to Redis.\<close>

record start_io =
  si_nonce :: "string option"
  si_id :: "string option"
  si_seal :: "string option"
  si_net :: net

definition return_ok :: "login_env \<Rightarrow> string \<Rightarrow> bool" where
  "return_ok L returnTo =
     (case le_url L returnTo of None \<Rightarrow> False
      | Some u \<Rightarrow> length returnTo \<le> 2048 \<and> has_prefix returnTo ''/'' \<and> \<not> has_prefix returnTo ''//'' \<and>
          \<not> contains_any returnTo [CHR 0x5C, CHR 0x0D, CHR 0x0A] \<and> pu_Scheme u = [] \<and> pu_Host u = [])"

definition startLoginTransaction ::
  "bff_config \<Rightarrow> login_env \<Rightarrow> 'n login_sdk \<Rightarrow> bstore \<Rightarrow> 'r redis \<Rightarrow> start_io \<Rightarrow> string \<Rightarrow> string \<Rightarrow> 'r \<Rightarrow> 'n \<Rightarrow> login_response \<times> 'r \<times> 'n" where
  "startLoginTransaction C L K S R io prompt return0 r n =
     (let returnTo = (if return0 = [] then ''/'' else return0)
      in if \<not> return_ok L returnTo then (login_fail 400 ''return_to_invalid'', r, n)
         else case opaque (si_nonce io) of Inl _ \<Rightarrow> (login_fail 503 ''login_entropy_unavailable'', r, n)
         | Inr nonce \<Rightarrow>
            (case ls_SignIn K prompt (cf_Origin C @ ''/auth/callback'') nonce (Some fmempty) n of
               (None, _, n1) \<Rightarrow> (login_fail 503 ''login_provider_unavailable'', r, n1)
             | (Some target, sdk, n1) \<Rightarrow>
                (case le_state L target of None \<Rightarrow> (login_fail 503 ''login_state_unavailable'', r, n1)
                 | Some state \<Rightarrow>
                    if state = [] then (login_fail 503 ''login_state_unavailable'', r, n1)
                    else (case start_tx S R (si_net io) (si_id io) (si_seal io)
                            \<lparr>bt_SDK = sdk, bt_Nonce = nonce, bt_State = state, bt_ReturnTo = returnTo, bt_Silent = (prompt = ''none'')\<rparr> r of
                            (Inl _, r1) \<Rightarrow> (login_fail 503 ''login_store_unavailable'', r1, n1)
                          | (Inr i, r1) \<Rightarrow> (login_redirect target [(login_cookie C, i, 300)], r1, n1)))))"

definition startLogin ::
  "bff_config \<Rightarrow> login_env \<Rightarrow> 'n login_sdk \<Rightarrow> bstore \<Rightarrow> 'r redis \<Rightarrow> start_io \<Rightarrow> string \<Rightarrow> browser_request \<Rightarrow> query_values \<Rightarrow> 'r \<Rightarrow> 'n \<Rightarrow>
   login_response \<times> 'r \<times> 'n" where
  "startLogin C L K S R io prompt q query r n =
     (if bq_Authorization q \<noteq> [] \<or> length (query ''return_to'') > 1 then (login_fail 400 ''login_request_invalid'', r, n)
      else startLoginTransaction C L K S R io prompt (case query ''return_to'' of [] \<Rightarrow> [] | v # _ \<Rightarrow> v) r n)"

definition bff_login ::
  "bff_config \<Rightarrow> login_env \<Rightarrow> 'n login_sdk \<Rightarrow> bstore \<Rightarrow> 'r redis \<Rightarrow> start_io \<Rightarrow> browser_request \<Rightarrow> query_values \<Rightarrow> 'r \<Rightarrow> 'n \<Rightarrow>
   login_response \<times> 'r \<times> 'n" where
  "bff_login C L K S R io = startLogin C L K S R io []"

definition autoLogin ::
  "bff_config \<Rightarrow> login_env \<Rightarrow> 'n login_sdk \<Rightarrow> bstore \<Rightarrow> 'r redis \<Rightarrow> start_io \<Rightarrow> browser_request \<Rightarrow> query_values \<Rightarrow> 'r \<Rightarrow> 'n \<Rightarrow>
   login_response \<times> 'r \<times> 'n" where
  "autoLogin C L K S R io = startLogin C L K S R io ''none''"

section \<open>The callback\<close>

definition query_get :: "query_values \<Rightarrow> string \<Rightarrow> string" where
  "query_get query k = (case query k of [] \<Rightarrow> [] | v # _ \<Rightarrow> v)"

definition equalCSRF :: "string \<Rightarrow> string \<Rightarrow> bool" where
  "equalCSRF a b \<longleftrightarrow> a \<noteq> [] \<and> a = b"

definition silentLoginUnavailable :: "query_values \<Rightarrow> bool" where
  "silentLoginUnavailable query \<longleftrightarrow> length (query ''error'') = 1 \<and> query ''code'' = [] \<and>
     query_get query ''error'' \<in> {''login_required'', ''interaction_required'', ''consent_required'', ''unmet_authentication_requirements'',
       ''access_denied'', ''server_error'', ''temporarily_unavailable''}"

definition silentGuestRedirect :: "login_env \<Rightarrow> string \<Rightarrow> string \<Rightarrow> string" where
  "silentGuestRedirect L origin returnTo = origin @ (case le_guest L returnTo of None \<Rightarrow> ''/?sso_auto=guest'' | Some t \<Rightarrow> t)"

record callback_io =
  ci_consume :: net
  ci_start :: start_io
  ci_csrf :: "string option"
  ci_now :: time
  ci_create :: net
  ci_create_at :: time
  ci_id :: "string option"
  ci_seal :: "string option"

text \<open>The session of a login that the provider has accepted.\<close>

definition new_session :: "sdk_map \<Rightarrow> string \<Rightarrow> string \<Rightarrow> string \<Rightarrow> string \<Rightarrow> time \<Rightarrow> bsession" where
  "new_session sdk subject org revision csrf now =
     \<lparr>bs_SDK = sdk, bs_Subject = subject, bs_Organization = org, bs_Revision = revision, bs_CSRF = csrf, bs_Until = now + sessionIdleLifetime,
      bs_PolicyVersion = sessionPolicyVersion, bs_AuthenticatedAt = now, bs_IdleUntil = now + sessionIdleLifetime,
      bs_AbsoluteUntil = now + sessionAbsoluteLifetime\<rparr>"

text \<open>The checks on the session before it is stored.\<close>

definition admit_login :: "bff_config \<Rightarrow> idp_env \<Rightarrow> 'n idp \<Rightarrow> time \<Rightarrow> bsession \<Rightarrow> 'n \<Rightarrow> (login_response + bsession) \<times> 'n" where
  "admit_login C I P now value n =
     (case (if cf_APIResource C = [] then prepareIdentity I P now value n else (None, value, n)) of
        (Some e, _, n1) \<Rightarrow> (Inl (login_fail (br_status (classify (Some e))) ''identity_unavailable''), n1)
      | (None, v1, n1) \<Rightarrow>
         (case currentRequest C I P v1 n1 of
            (Inl e, _, n2) \<Rightarrow> (Inl (login_fail (br_status (classify (Some e))) ''organization_identity_unavailable''), n2)
          | (Inr _, v2, n2) \<Rightarrow>
             if bs_Organization v2 \<noteq> bs_Organization value \<or> bs_Revision v2 \<noteq> bs_Revision value
             then (Inl (login_fail 409 ''organization_identity_changed''), n2)
             else if cf_APIResource C \<noteq> [] then
               (case organizationClaims C I P v2 (bs_Organization v2) n2 of
                  (Inl e, _, n3) \<Rightarrow> (Inl (login_fail (br_status (classify (Some e))) ''organization_token_unavailable''), n3)
                | (Inr _, v3, n3) \<Rightarrow> (Inr v3, n3))
             else (Inr v2, n2)))"

text \<open>From a code of the provider to a verified subject with its organization.\<close>

definition verify_login ::
  "'n login_sdk \<Rightarrow> query_values \<Rightarrow> btransaction \<Rightarrow> 'n \<Rightarrow> (login_response + (sdk_map \<times> string \<times> string \<times> string)) \<times> 'n" where
  "verify_login K query tx n =
     (case ls_HandleSignInCallback K query (bt_SDK tx) n of
        (False, _, n1) \<Rightarrow> (Inl (login_fail 401 ''callback_rejected''), n1)
      | (True, sdk, n1) \<Rightarrow>
         (case ls_Verify K (ls_GetIdToken K sdk) n1 of
            (None, n2) \<Rightarrow> (Inl (login_fail 401 ''identity_invalid''), n2)
          | (Some verified, n2) \<Rightarrow>
             if \<not> equalCSRF (it_Nonce verified) (bt_Nonce tx) \<or> it_Subject verified = [] \<or> ls_GetRefreshToken K sdk = []
             then (Inl (login_fail 401 ''identity_invalid''), n2)
             else case it_Identity verified of None \<Rightarrow> (Inl (login_fail 401 ''organization_identity_missing''), n2)
             | Some (org, revision) \<Rightarrow>
                if \<not> orgPattern org \<or> \<not> validRevision revision then (Inl (login_fail 401 ''organization_identity_missing''), n2)
                else (Inr (sdk, it_Subject verified, org, revision), n2)))"

definition bff_callback ::
  "bff_config \<Rightarrow> idp_env \<Rightarrow> 'n idp \<Rightarrow> login_env \<Rightarrow> 'n login_sdk \<Rightarrow> bstore \<Rightarrow> 'r redis \<Rightarrow> callback_io \<Rightarrow> browser_request \<Rightarrow> query_values \<Rightarrow>
   'r \<Rightarrow> 'n \<Rightarrow> login_response \<times> 'r \<times> 'n" where
  "bff_callback C I P L K S R io q query r n =
     (case bq_Cookies q (login_cookie C) of
        [i] \<Rightarrow>
          (let clear = after_cookie (login_cookie C, [], -1)
           in case consume S R (ci_consume io) i r of
                (Inl e, r1) \<Rightarrow> (clear (login_fail (if errors_is e BMissing then 400 else 503) ''transaction_consumed_expired_or_unavailable''), r1, n)
              | (Inr tx, r1) \<Rightarrow>
                 if length (query ''state'') \<noteq> 1 \<or> \<not> equalCSRF (query_get query ''state'') (bt_State tx) then (clear (login_fail 400 ''callback_state_invalid''), r1, n)
                 else if bt_Silent tx \<and> silentLoginUnavailable query then
                   (if query_get query ''error'' = ''consent_required''
                    then (case startLoginTransaction C L K S R (ci_start io) [] (bt_ReturnTo tx) r1 n of (p, r2, n2) \<Rightarrow> (clear p, r2, n2))
                    else (clear (login_redirect (silentGuestRedirect L (cf_Origin C) (bt_ReturnTo tx)) []), r1, n))
                 else if query ''error'' = [''access_denied''] \<and> query ''code'' = []
                 then (clear (login_redirect (cf_Origin C @ ''/login-cancelled'') []), r1, n)
                 else if length (query ''code'') \<noteq> 1 \<or> query_get query ''code'' = [] \<or> query ''error'' \<noteq> [] then (clear (login_fail 400 ''callback_invalid''), r1, n)
                 else case verify_login K query tx n of
                   (Inl p, n1) \<Rightarrow> (clear p, r1, n1)
                 | (Inr (sdk, subject, org, revision), n1) \<Rightarrow>
                    (case opaque (ci_csrf io) of Inl _ \<Rightarrow> (clear (login_fail 503 ''session_entropy_unavailable''), r1, n1)
                     | Inr csrf \<Rightarrow>
                        (case admit_login C I P (ci_now io) (new_session sdk subject org revision csrf (ci_now io)) n1 of
                           (Inl p, n2) \<Rightarrow> (clear p, r1, n2)
                         | (Inr value, n2) \<Rightarrow>
                            (case create S R (ci_create io) (ci_create_at io) (ci_id io) (ci_seal io) value
                                    (case bq_Cookies q (cf_CookieName C) of [] \<Rightarrow> [] | v # _ \<Rightarrow> v) r1 of
                               ((_, Some e), r2) \<Rightarrow> (clear (login_fail 503 ''session_store_unavailable''), r2, n2)
                             | ((i2, None), r2) \<Rightarrow>
                                (clear (login_redirect (cf_Origin C @ bt_ReturnTo tx) [(cf_CookieName C, i2, sessionCookieMaxAge value (ci_create_at io))]), r2, n2)))))
      | _ \<Rightarrow> (login_fail 400 ''transaction_missing_or_ambiguous'', r, n))"

section \<open>Reading the principal\<close>

definition FromContext :: "time \<Rightarrow> principal option \<Rightarrow> principal option" where
  "FromContext now p =
     (case p of None \<Rightarrow> None
      | Some p \<Rightarrow> if pn_UserID p = [] \<or> pn_OrganizationID p = [] \<or> pn_ExpiresAt p \<le> unix now then None else Some p)"

end
