(* ===== verification/Login_Properties.thy ===== *)
theory Login_Properties
  imports Session_Login Handler_Properties
begin

text \<open>
  Properties of logging in: what a session that a callback creates rests on, that a callback works once, and where a login may lead
  back to.
\<close>

section \<open>What a login rests on\<close>

lemma verify_login_accepted:
  assumes "verify_login K query tx n = (Inr (sdk, subject, org, revision), n')"
  shows "\<exists>token m idt. ls_Verify K token m = (Some idt, n') \<and> it_Nonce idt = bt_Nonce tx \<and> bt_Nonce tx \<noteq> [] \<and> it_Subject idt = subject \<and>
    subject \<noteq> [] \<and> it_Identity idt = Some (org, revision)"
  using assms by (fastforce simp: verify_login_def equalCSRF_def split: prod.splits bool.splits option.splits if_splits)

lemma admit_login_accepted:
  assumes "admit_login C I P now v n = (Inr w, n')"
  shows "same_login v w \<and> same_place v w \<and>
    (\<exists>u m user rows u' m1 m2. same_login v u \<and> currentRequest C I P u m = (Inr (user, rows), u', m2) \<and> answer_confirms C I P m1 m2 (bs_Organization w) (bs_Revision w))"
proof -
  obtain e v1 n1 where p: "(if cf_APIResource C = [] then prepareIdentity I P now v n else (None, v, n)) = (e, v1, n1)" by (meson prod_cases3)
  have k1: "same_login v v1 \<and> same_place v v1" using p by (auto split: if_splits dest: prepare_keeps)
  obtain res v2 n2 where cur: "currentRequest C I P v1 n1 = (res, v2, n2)" by (meson prod_cases3)
  obtain res2 v3 n3 where cl: "organizationClaims C I P v2 (bs_Organization v2) n2 = (res2, v3, n3)" by (meson prod_cases3)
  note step = assms [unfolded admit_login_def p prod.case]
  have e: "e = None" using step by (cases e) simp_all
  note step = step [unfolded e option.case cur prod.case]
  obtain user rows where res: "res = Inr (user, rows)" using step by (cases res) auto
  note step = step [unfolded res sum.case]
  have pl: "same_place v v2" using step by (auto simp: same_place_def split: if_splits)
  have w: "w = v2 \<or> w = v3 \<and> cf_APIResource C \<noteq> []" using step cl by (auto split: if_splits sum.splits)
  have k2: "same_login v v2" using k1 currentRequest_keeps [OF cur] same_login_trans by blast
  have k3: "same_login v2 v3 \<and> same_place v2 v3" using claims_keeps [OF cl] .
  have sw: "same_login v w \<and> same_place v w \<and> same_place v2 w" using w k2 k3 pl same_login_trans same_place_trans by auto
  obtain m1 where "answer_confirms C I P m1 n2 (bs_Organization v2) (bs_Revision v2)" using currentRequest_confirms [OF cur [unfolded res]] by blast
  then have "answer_confirms C I P m1 n2 (bs_Organization w) (bs_Revision w)" using sw unfolding same_place_def by metis
  then show ?thesis using sw k1 cur res by blast
qed

lemma login_cookie_other [simp]: "login_cookie C \<noteq> cf_CookieName C" "cf_CookieName C \<noteq> login_cookie C"
  by (simp_all add: login_cookie_def)

lemma no_session_cookie [simp]:
  "c \<notin> set (lr_cookies (login_fail s e))" "lr_cookies (login_redirect t cs) = cs" "lr_cookies (after_cookie c p) = c # lr_cookies p"
  "lr_redirect (login_redirect t cs) = t" "lr_redirect (after_cookie c p) = lr_redirect p" "lr_status (login_fail s e) = s" "lr_status (after_cookie c p) = lr_status p"
  "lr_cookies (login_fail s e) = []" "lr_status (login_redirect t cs) = 302"
  by (simp_all add: login_fail_def login_redirect_def after_cookie_def)

lemma start_cookies:
  assumes "startLoginTransaction C L K S R io prompt ret r n = (p, r', n')"
  shows "(cf_CookieName C, i, age) \<notin> set (lr_cookies p)"
  using assms by (auto simp: startLoginTransaction_def Let_def split: if_splits sum.splits prod.splits option.splits)


lemma verify_login_cookies: "verify_login K query tx n = (Inl p, n') \<Longrightarrow> lr_cookies p = []"
  by (auto simp: verify_login_def split: prod.splits bool.splits option.splits if_splits)

lemma admit_login_cookies: "admit_login C I P now v n = (Inl p, n') \<Longrightarrow> lr_cookies p = []"
  by (auto simp: admit_login_def split: prod.splits option.splits sum.splits if_splits)

text \<open>The accepted run of a callback.\<close>

lemma callback_accepted:
  assumes out: "bff_callback C I P L K S R io q query r n = (p, r', n')" and c: "(cf_CookieName C, i2, age) \<in> set (lr_cookies p)"
  obtains i tx r1 sdk subject org revision csrf n1 v n2 previous where
    "bq_Cookies q (login_cookie C) = [i]" "consume S R (ci_consume io) i r = (Inr tx, r1)" "query ''state'' = [bt_State tx]"
    "\<exists>code. query ''code'' = [code] \<and> code \<noteq> []" "query ''error'' = []"
    "verify_login K query tx n = (Inr (sdk, subject, org, revision), n1)" "opaque (ci_csrf io) = Inr csrf"
    "admit_login C I P (ci_now io) (new_session sdk subject org revision csrf (ci_now io)) n1 = (Inr v, n2)"
    "create S R (ci_create io) (ci_create_at io) (ci_id io) (ci_seal io) v previous r1 = ((i2, None), r')"
    "lr_redirect p = cf_Origin C @ bt_ReturnTo tx" "age = sessionCookieMaxAge v (ci_create_at io)"
proof -
  obtain i where i: "bq_Cookies q (login_cookie C) = [i]" using out c by (auto simp: bff_callback_def split: list.splits)
  note out = out [unfolded bff_callback_def i list.case Let_def]
  obtain tx r1 where tx: "consume S R (ci_consume io) i r = (Inr tx, r1)" using out c by (auto split: prod.splits sum.splits)
  note out = out [unfolded tx prod.case sum.case]
  have st: "query ''state'' = [bt_State tx]"
    using out c by (auto simp: equalCSRF_def query_get_def length_Suc_conv split: if_splits list.splits)
  have guards: "\<not> (length (query ''state'') \<noteq> 1 \<or> \<not> equalCSRF (query_get query ''state'') (bt_State tx))" using out c by (auto split: if_splits)
  note out = out [unfolded if_not_P [OF guards]]
  have silent: "\<not> (bt_Silent tx \<and> silentLoginUnavailable query)"
  proof
    assume s: "bt_Silent tx \<and> silentLoginUnavailable query"
    obtain p2 r2 n2 where "startLoginTransaction C L K S R (ci_start io) [] (bt_ReturnTo tx) r1 n = (p2, r2, n2)" by (meson prod_cases3)
    with start_cookies [OF this] out [unfolded if_P [OF s]] c show False by (auto split: if_splits)
  qed
  note out = out [unfolded if_not_P [OF silent]]
  have den: "\<not> (query ''error'' = [''access_denied''] \<and> query ''code'' = [])" using out c by (auto split: if_splits)
  note out = out [unfolded if_not_P [OF den]]
  have code: "\<not> (length (query ''code'') \<noteq> 1 \<or> query_get query ''code'' = [] \<or> query ''error'' \<noteq> [])" using out c by (auto split: if_splits)
  note out = out [unfolded if_not_P [OF code]]
  obtain vr n1 where vr: "verify_login K query tx n = (vr, n1)" by (meson surj_pair)
  have "\<exists>x. vr = Inr x"
  proof (rule ccontr)
    assume "\<not> ?thesis"
    then obtain p1 where "vr = Inl p1" by (cases vr) auto
    with vr out have "p = after_cookie (login_cookie C, [], -1) p1" by simp
    with c verify_login_cookies vr \<open>vr = Inl p1\<close> show False by fastforce
  qed
  then obtain sdk subject org revision where v: "verify_login K query tx n = (Inr (sdk, subject, org, revision), n1)" using vr by auto
  note out = out [unfolded v prod.case sum.case]
  obtain csrf where cs: "opaque (ci_csrf io) = Inr csrf" using out c by (auto split: sum.splits)
  note out = out [unfolded cs sum.case]
  obtain ar n2 where ar: "admit_login C I P (ci_now io) (new_session sdk subject org revision csrf (ci_now io)) n1 = (ar, n2)" by (meson surj_pair)
  have "\<exists>x. ar = Inr x"
  proof (rule ccontr)
    assume "\<not> ?thesis"
    then obtain p1 where "ar = Inl p1" by (cases ar) auto
    with ar out have "p = after_cookie (login_cookie C, [], -1) p1" by simp
    with c admit_login_cookies ar \<open>ar = Inl p1\<close> show False by fastforce
  qed
  then obtain w where a: "admit_login C I P (ci_now io) (new_session sdk subject org revision csrf (ci_now io)) n1 = (Inr w, n2)" using ar by auto
  note out = out [unfolded a prod.case sum.case]
  define previous where "previous = (case bq_Cookies q (cf_CookieName C) of [] \<Rightarrow> [] | v # _ \<Rightarrow> v)"
  obtain i3 e r2 where cr: "create S R (ci_create io) (ci_create_at io) (ci_id io) (ci_seal io) w previous r1 = ((i3, e), r2)" by (metis surj_pair)
  note out = out [folded previous_def, unfolded cr prod.case]
  have fin: "e = None" "i3 = i2" "r2 = r'" "lr_redirect p = cf_Origin C @ bt_ReturnTo tx" "age = sessionCookieMaxAge w (ci_create_at io)"
    using out c by (cases e; auto)+
  have "\<exists>code. query ''code'' = [code] \<and> code \<noteq> []" "query ''error'' = []"
    using code by (auto simp: query_get_def length_Suc_conv split: list.splits)
  then show thesis using that [OF i tx st _ _ v cs a cr [unfolded fin(1-3)] fin(4,5)] by blast
qed


text \<open>C7. A login session rests on its whole chain: a callback hands out a session cookie only when the browser sent the cookie of one stored
  login transaction, which is used up by that, with the state of this transaction and one code, when the identity token that
  was then verified carries the nonce of the transaction and names subject, organization and revision of the session, when
  the provider has confirmed organization and revision, and when the session has been stored under the
  identifier in the cookie; it lives for eight hours of idleness and seven days from now, and the browser goes back to the path that
  the transaction kept, on the origin of the application.\<close>

theorem login_rests_on_its_transaction:
  assumes out: "bff_callback C I P L K S R io q query r n = (p, r', n')" and c: "(cf_CookieName C, i2, age) \<in> set (lr_cookies p)"
  shows "\<exists>i tx r1 v previous. bq_Cookies q (login_cookie C) = [i] \<and> consume S R (ci_consume io) i r = (Inr tx, r1) \<and> query ''state'' = [bt_State tx] \<and>
    (\<exists>code. query ''code'' = [code] \<and> code \<noteq> []) \<and> query ''error'' = [] \<and>
    (\<exists>token m m' idt. ls_Verify K token m = (Some idt, m') \<and> it_Nonce idt = bt_Nonce tx \<and> bt_Nonce tx \<noteq> [] \<and> it_Subject idt = bs_Subject v \<and>
       bs_Subject v \<noteq> [] \<and> it_Identity idt = Some (bs_Organization v, bs_Revision v)) \<and>
    (\<exists>w m user rows w' m1 m2. same_login v w \<and> currentRequest C I P w m = (Inr (user, rows), w', m2) \<and> answer_confirms C I P m1 m2 (bs_Organization v) (bs_Revision v)) \<and>
    create S R (ci_create io) (ci_create_at io) (ci_id io) (ci_seal io) v previous r1 = ((i2, None), r') \<and>
    bs_AuthenticatedAt v = ci_now io \<and> bs_IdleUntil v = ci_now io + 8 * hour \<and> bs_AbsoluteUntil v = ci_now io + 7 * 24 * hour \<and>
    age = sessionCookieMaxAge v (ci_create_at io) \<and> lr_redirect p = cf_Origin C @ bt_ReturnTo tx"
proof (rule callback_accepted [OF out c])
  fix i tx r1 sdk subject org revision csrf n1 v n2 previous
  let ?new = "new_session sdk subject org revision csrf (ci_now io)"
  assume a: "bq_Cookies q (login_cookie C) = [i]" "consume S R (ci_consume io) i r = (Inr tx, r1)" "query ''state'' = [bt_State tx]"
    "\<exists>code. query ''code'' = [code] \<and> code \<noteq> []" "query ''error'' = []"
    and ver: "verify_login K query tx n = (Inr (sdk, subject, org, revision), n1)" and adm: "admit_login C I P (ci_now io) ?new n1 = (Inr v, n2)"
    and b: "create S R (ci_create io) (ci_create_at io) (ci_id io) (ci_seal io) v previous r1 = ((i2, None), r')"
    "lr_redirect p = cf_Origin C @ bt_ReturnTo tx" "age = sessionCookieMaxAge v (ci_create_at io)"
  note ok = admit_login_accepted [OF adm]
  then have v: "bs_Subject v = subject" "bs_Organization v = org" "bs_Revision v = revision" "bs_AuthenticatedAt v = ci_now io"
      "bs_IdleUntil v = ci_now io + 8 * hour" "bs_AbsoluteUntil v = ci_now io + 7 * 24 * hour"
    by (simp_all add: same_login_def same_place_def new_session_def sessionIdleLifetime_def sessionAbsoluteLifetime_def)
  have sym: "same_login v w" if "same_login ?new w" for w using ok that by (simp add: same_login_def)
  have "\<exists>w m user rows w' m1 m2. same_login v w \<and> currentRequest C I P w m = (Inr (user, rows), w', m2) \<and> answer_confirms C I P m1 m2 (bs_Organization v) (bs_Revision v)"
    using ok sym by blast
  moreover have "\<exists>token m m' idt. ls_Verify K token m = (Some idt, m') \<and> it_Nonce idt = bt_Nonce tx \<and> bt_Nonce tx \<noteq> [] \<and> it_Subject idt = bs_Subject v \<and>
      bs_Subject v \<noteq> [] \<and> it_Identity idt = Some (bs_Organization v, bs_Revision v)"
    using verify_login_accepted [OF ver] unfolding v(1-3) by blast
  ultimately show ?thesis using a b v(4-6) by blast
qed

section \<open>Once\<close>

lemma create_keeps_tx:
  assumes "redis_ok R" "create S R fate t ent nonce v previous r = (out, r')"
  shows "db_live (r_db R r) (txKey S i) = None \<Longrightarrow> db_live (r_db R r') (txKey S i) = None"
proof -
  obtain j e where "out = (j, e)" by (cases out)
  then have "create S R fate t ent nonce v previous r = ((j, e), r')" using assms(2) by simp
  from create_effect [OF assms(1) this] show "db_live (r_db R r) (txKey S i) = None \<Longrightarrow> db_live (r_db R r') (txKey S i) = None"
    by (elim disjE exE conjE) auto
qed

text \<open>C34. A callback works once: after one has handed out a session, every later callback with the same login cookie is refused with 400 or
  503 and hands out none, whatever the other clients of the store do in between, for any query.\<close>

theorem callback_works_once:
  assumes ok: "redis_ok R" and out: "bff_callback C I P L K S R io q query r n = (p, r1, n1)" "(cf_CookieName C, j, age) \<in> set (lr_cookies p)"
    and cookie: "bq_Cookies q (login_cookie C) = [i]" "bq_Cookies q2 (login_cookie C) = [i]"
    and run: "(store_step S R [] taken)\<^sup>*\<^sup>* r1 r2" "i \<in> taken"
    and again: "bff_callback C I P L K S R io2 q2 query2 r2 n2 = (p2, r3, n3)"
  shows "(lr_status p2 = 400 \<or> lr_status p2 = 503) \<and> lr_cookies p2 = [(login_cookie C, [], -1)]"
proof -
  obtain tx r0 v previous where f: "consume S R (ci_consume io) i r = (Inr tx, r0)"
      "create S R (ci_create io) (ci_create_at io) (ci_id io) (ci_seal io) v previous r0 = ((j, None), r1)"
    by (rule callback_accepted [OF out]) (use cookie(1) in auto)
  have "db_live (r_db R r0) (txKey S i) = None" using consume_effect [OF ok f(1)] by auto
  then have "db_live (r_db R r1) (txKey S i) = None" using create_keeps_tx [OF ok f(2)] by blast
  then have "db_live (r_db R r2) (txKey S i) = None" using tx_gone.run_keeps [OF run(1), of i] ok run(2) by blast
  then obtain e r4 where "consume S R (ci_consume io2) i r2 = (Inl e, r4)" using gone_transaction_refused [OF ok] by (metis prod.collapse)
  then have "p2 = after_cookie (login_cookie C, [], -1) (login_fail (if errors_is e BMissing then 400 else 503) ''transaction_consumed_expired_or_unavailable'')"
    using again cookie(2) by (simp add: bff_callback_def)
  then show ?thesis by simp
qed

section \<open>The way back\<close>

text \<open>A login starts only towards a path of the application: when the browser is sent to the provider, the transaction that was stored
  under the login cookie keeps a path that begins with one slash, without backslash or line break, which \<open>url.Parse\<close> reads without scheme
  and host, the state of the address of the provider, and whether the attempt is silent.\<close>

theorem login_returns_to_the_application:
  assumes out: "startLoginTransaction C L K S R io prompt ret r n = (p, r', n')" and st: "lr_status p = 302"
  shows "\<exists>i tx. lr_cookies p = [(login_cookie C, i, 300)] \<and> start_tx S R (si_net io) (si_id io) (si_seal io) tx r = (Inr i, r') \<and>
    le_state L (lr_redirect p) = Some (bt_State tx) \<and> bt_State tx \<noteq> [] \<and> opaque (si_nonce io) = Inr (bt_Nonce tx) \<and> (bt_Silent tx \<longleftrightarrow> prompt = ''none'') \<and>
    has_prefix (bt_ReturnTo tx) ''/'' \<and> \<not> has_prefix (bt_ReturnTo tx) ''//'' \<and> length (bt_ReturnTo tx) \<le> 2048 \<and>
    set (bt_ReturnTo tx) \<inter> {CHR 0x5C, CHR 0x0D, CHR 0x0A} = {} \<and>
    (\<exists>u. le_url L (bt_ReturnTo tx) = Some u \<and> pu_Scheme u = [] \<and> pu_Host u = [])"
proof -
  define path where "path = (if ret = [] then ''/'' else ret)"
  note out = out [unfolded startLoginTransaction_def Let_def, folded path_def]
  have ok: "return_ok L path" using out st by (auto split: if_splits)
  obtain nonce where nonce: "opaque (si_nonce io) = Inr nonce" using out st ok by (auto split: sum.splits)
  obtain tgt sdk n1 where sign: "ls_SignIn K prompt (cf_Origin C @ ''/auth/callback'') nonce (Some fmempty) n = (tgt, sdk, n1)" by (meson prod_cases3)
  note out = out [unfolded not_not if_not_P [of "\<not> return_ok L path", unfolded not_not, OF ok] nonce sum.case sign prod.case]
  obtain target where tgt: "tgt = Some target" using out st by (cases tgt) auto
  note out = out [unfolded tgt option.case]
  obtain state where state: "le_state L target = Some state" "state \<noteq> []" using out st by (cases "le_state L target") (auto split: if_splits)
  let ?tx = "\<lparr>bt_SDK = sdk, bt_Nonce = nonce, bt_State = state, bt_ReturnTo = path, bt_Silent = (prompt = ''none'')\<rparr>"
  note out = out [unfolded state(1) option.case if_not_P [OF state(2)]]
  obtain i where i: "start_tx S R (si_net io) (si_id io) (si_seal io) ?tx r = (Inr i, r')" "p = login_redirect target [(login_cookie C, i, 300)]"
    using out st by (auto split: prod.splits sum.splits)
  have path: "has_prefix path ''/''" "\<not> has_prefix path ''//''" "length path \<le> 2048" "set path \<inter> {CHR 0x5C, CHR 0x0D, CHR 0x0A} = {}"
      "\<exists>u. le_url L path = Some u \<and> pu_Scheme u = [] \<and> pu_Host u = []"
    using ok by (auto simp: return_ok_def contains_any_def list_ex_iff split: option.splits)
  show ?thesis by (intro exI [of _ i] exI [of _ ?tx]) (use i state nonce path in simp)
qed


section \<open>Witnesses\<close>

text \<open>A provider that accepts the code of the transaction.\<close>

definition one_login :: "unit login_sdk" where
  "one_login = \<lparr>ls_SignIn = (\<lambda>_ _ _ sdk n. (Some ''https://id/sign-in?state=s'', sdk, n)), ls_HandleSignInCallback = (\<lambda>_ _ n. (True, Some fmempty, n)),
     ls_GetIdToken = (\<lambda>_. ''jwt''), ls_GetRefreshToken = (\<lambda>_. ''rt''),
     ls_Verify = (\<lambda>_ n. (Some \<lparr>it_Nonce = ''n'', it_Subject = ''user-7'', it_Identity = Some (''org-1'', ''3'')\<rparr>, n))\<rparr>"

definition plain_login_env :: login_env where
  "plain_login_env = \<lparr>le_url = (\<lambda>s. Some \<lparr>pu_Scheme = [], pu_Opaque = [], pu_User = False, pu_Host = [], pu_Path = s, pu_RawPath = [], pu_RawQuery = [],
     pu_ForceQuery = False, pu_Fragment = []\<rparr>), le_state = (\<lambda>_. Some ''s''), le_guest = (\<lambda>_. None)\<rparr>"

definition login_csrf_token :: string where
  "login_csrf_token = b64_encode (map of_char ''abc'')"

definition called_back :: bsession where
  "called_back = login_session\<lparr>bs_CSRF := login_csrf_token\<rparr>"

definition login_store :: bstore where
  "login_store = app_store\<lparr>st_box := tag_box\<lparr>bx_session := (\<lambda>v. if v = called_back then Some ''{}'' else None)\<rparr>\<rparr>"

definition callback_query :: query_values where
  "callback_query k = (if k = ''state'' then [''s''] else if k = ''code'' then [''c''] else [])"

definition callback_request :: browser_request where
  "callback_request = app_request\<lparr>bq_Cookies := (\<lambda>k. if k = ''sid_login'' then [tx_id] else [])\<rparr>"

definition one_callback :: callback_io where
  "one_callback = \<lparr>ci_consume = Delivered, ci_start = \<lparr>si_nonce = None, si_id = None, si_seal = None, si_net = Delivered\<rparr>, ci_csrf = Some ''abc'', ci_now = 0,
     ci_create = Delivered, ci_create_at = 0, ci_id = Some (replicate 32 (CHR ''a'')), ci_seal = Some (replicate 12 (CHR 0x00))\<rparr>"

lemma called_back_current:
  "currentRequest app_config plain_env one_user called_back () = (Inr (no_profile\<lparr>pf_Subject := ''user-7'', pf_Name := ''Ada''\<rparr>, [\<lparr>og_ID = ''org-1'', og_Name = ''Org''\<rparr>]), called_back, ())"
proof -
  have "organizations app_config plain_env one_user called_back True () =
      (Inr (no_profile\<lparr>pf_Subject := ''user-7'', pf_Name := ''Ada''\<rparr>, [\<lparr>og_ID = ''org-1'', og_Name = ''Org''\<rparr>]), called_back, ())"
    using login_read by (simp add: organizations_def app_config_def plain_env_def one_user_def called_back_def login_session_def Let_def) (simp add: one_doc_def)
  then show ?thesis by (simp add: currentRequest_def ask_identity_def contains_org_def called_back_def login_session_def)
qed

lemma called_back_admitted:
  "admit_login app_config plain_env one_user 0 (new_session (Some fmempty) ''user-7'' ''org-1'' ''3'' login_csrf_token 0) () = (Inr called_back, ())"
proof -
  have "new_session (Some fmempty) ''user-7'' ''org-1'' ''3'' login_csrf_token 0 = called_back"
    by (simp add: new_session_def called_back_def login_session_def sessionPolicyVersion_def)
  moreover have "prepareIdentity plain_env one_user 0 called_back () = (None, called_back, ())"
    by (simp add: prepareIdentity_def one_user_def called_back_def login_session_def token_short_def unix_def authenticationTimeout_def second_def)
  ultimately show ?thesis by (simp add: admit_login_def called_back_current)
qed

lemma called_back_created:
  "\<exists>i db. create login_store ref_redis Delivered 0 (Some (replicate 32 (CHR ''a''))) (Some (replicate 12 (CHR 0x00))) called_back [] r = ((i, None), db)"
proof -
  have dl: "sessionDeadline (Some called_back) 0 = Inr sessionIdleLifetime"
    by (simp add: called_back_def sessionDeadline_def validateSessionSchema_def login_session_def lifetime_defs sessionPolicyVersion_def is_zero_def zero_time_def)
  obtain i where i: "opaque (Some (replicate 32 (CHR ''a''))) = Inr i" using opaque_pattern [of "replicate 32 (CHR ''a'')"] by auto
  have "0 < milliseconds (sessionIdleLifetime - 0)" by (simp add: milliseconds_def go_div_nonneg lifetime_defs)
  then show ?thesis using i create_doc [OF ttl_bounds(3) [OF dl]]
    by (simp add: create_def dl seal_def login_store_def app_store_def tag_box_def via_net_def ref_redis_def)
qed

lemma callback_served:
  "\<exists>p db i age. bff_callback app_config plain_env one_user plain_login_env one_login login_store ref_redis one_callback callback_request callback_query stored_tx () = (p, db, ()) \<and>
     (cf_CookieName app_config, i, age) \<in> set (lr_cookies p)"
proof -
  have cookies: "login_cookie app_config = ''sid_login''" "cf_CookieName app_config = ''sid''" by (simp_all add: login_cookie_def app_config_def)
  have tx: "consume login_store ref_redis Delivered tx_id stored_tx = (Inr login_tx, db_del (txKey login_store tx_id) stored_tx)"
    using tx_id_pattern by (simp add: consume_def via_net_def ref_redis_def stored_tx_def open_sealed_def login_store_def app_store_def tag_box_def txKey_def)
  have txf: "bt_State login_tx = ''s''" "\<not> bt_Silent login_tx" by (simp_all add: login_tx_def)
  have v: "verify_login one_login callback_query login_tx () = (Inr (Some fmempty, ''user-7'', ''org-1'', ''3''), ())"
    by (simp add: verify_login_def one_login_def login_tx_def equalCSRF_def orgPattern_def opaque_char_def revision_three)
  obtain i db where c: "create login_store ref_redis Delivered 0 (Some (replicate 32 (CHR ''a''))) (Some (replicate 12 (CHR 0x00))) called_back [] (db_del (txKey login_store tx_id) stored_tx) = ((i, None), db)"
    using called_back_created by blast
  have "bff_callback app_config plain_env one_user plain_login_env one_login login_store ref_redis one_callback callback_request callback_query stored_tx () =
      (after_cookie (''sid_login'', [], -1) (login_redirect (cf_Origin app_config @ bt_ReturnTo login_tx) [(''sid'', i, sessionCookieMaxAge called_back 0)]), db, ())"
    using tx v c called_back_admitted
    by (simp add: bff_callback_def cookies callback_request_def one_callback_def callback_query_def query_get_def equalCSRF_def opaque_def login_csrf_token_def
        txf Let_def)
  then show ?thesis by (simp add: cookies)
qed

theorem login_rests_on_its_transaction_witness:
  "\<exists>p db tx r1 v. bff_callback app_config plain_env one_user plain_login_env one_login login_store ref_redis one_callback callback_request callback_query stored_tx () = (p, db, ()) \<and>
     consume login_store ref_redis Delivered tx_id stored_tx = (Inr tx, r1) \<and> bs_AbsoluteUntil (v :: bsession) = 7 * 24 * hour \<and> lr_redirect p = cf_Origin app_config @ bt_ReturnTo tx"
proof -
  obtain p db i age where c: "bff_callback app_config plain_env one_user plain_login_env one_login login_store ref_redis one_callback callback_request callback_query stored_tx () = (p, db, ())"
      "(cf_CookieName app_config, i, age) \<in> set (lr_cookies p)" using callback_served by blast
  from login_rests_on_its_transaction [OF c] show ?thesis
  proof (elim exE conjE)
    fix i tx r1 and v :: bsession
    assume a: "bq_Cookies callback_request (login_cookie app_config) = [i]" "consume login_store ref_redis (ci_consume one_callback) i stored_tx = (Inr tx, r1)"
      "bs_AbsoluteUntil v = ci_now one_callback + 7 * 24 * hour" "lr_redirect p = cf_Origin app_config @ bt_ReturnTo tx"
    have "i = tx_id" using a(1) by (simp add: callback_request_def login_cookie_def app_config_def)
    then have "consume login_store ref_redis Delivered tx_id stored_tx = (Inr tx, r1)" "bs_AbsoluteUntil v = 7 * 24 * hour"
      using a(2,3) by (simp_all add: one_callback_def)
    with c(1) a(4) show ?thesis by blast
  qed
qed

theorem callback_works_once_witness:
  "\<exists>p db p2 r3. bff_callback app_config plain_env one_user plain_login_env one_login login_store ref_redis one_callback callback_request callback_query stored_tx () = (p, db, ()) \<and>
     bff_callback app_config plain_env one_user plain_login_env one_login login_store ref_redis one_callback callback_request callback_query db () = (p2, r3, ()) \<and>
     lr_cookies p2 = [(login_cookie app_config, [], -1)]"
proof -
  obtain p db i age where c: "bff_callback app_config plain_env one_user plain_login_env one_login login_store ref_redis one_callback callback_request callback_query stored_tx () = (p, db, ())"
      "(cf_CookieName app_config, i, age) \<in> set (lr_cookies p)" using callback_served by blast
  obtain p2 r3 where a: "bff_callback app_config plain_env one_user plain_login_env one_login login_store ref_redis one_callback callback_request callback_query db () = (p2, r3, ())"
    by (metis prod_cases3 old.unit.exhaust)
  have k: "bq_Cookies callback_request (login_cookie app_config) = [tx_id]" by (simp add: callback_request_def login_cookie_def app_config_def)
  from callback_works_once [OF ref_redis_ok c k k rtranclp.rtrancl_refl _ a, of "{tx_id}"] c(1) a show ?thesis by auto
qed

theorem login_returns_to_the_application_witness:
  "\<exists>p db i. startLoginTransaction app_config plain_login_env one_login (login_store\<lparr>st_box := (st_box login_store)\<lparr>bx_tx := (\<lambda>_. Some ''[]'')\<rparr>\<rparr>) ref_redis
       \<lparr>si_nonce = Some ''abc'', si_id = Some ''def'', si_seal = Some (replicate 12 (CHR 0x00)), si_net = Delivered\<rparr> [] [] empty_redis_db () = (p, db, ()) \<and>
     lr_status p = 302 \<and> lr_cookies p = [(login_cookie app_config, i, 300)]"
proof -
  let ?S = "login_store\<lparr>st_box := (st_box login_store)\<lparr>bx_tx := (\<lambda>_. Some ''[]'')\<rparr>\<rparr>"
  let ?io = "\<lparr>si_nonce = Some ''abc'', si_id = Some ''def'', si_seal = Some (replicate 12 (CHR 0x00)), si_net = Delivered\<rparr>"
  have ms: "milliseconds (5 * minute) = 300000" by (simp add: milliseconds_def minute_def second_def millisecond_def go_div_def)
  have "\<exists>i db. start_tx ?S ref_redis Delivered (Some ''def'') (Some (replicate 12 (CHR 0x00))) tx empty_redis_db = (Inr i, db)" for tx
    by (simp add: start_tx_def opaque_def seal_def login_store_def app_store_def tag_box_def via_net_def ref_redis_def ms int64_def)
  then obtain i db where i: "start_tx ?S ref_redis Delivered (Some ''def'') (Some (replicate 12 (CHR 0x00)))
      \<lparr>bt_SDK = Some fmempty, bt_Nonce = b64_encode (map of_char ''abc''), bt_State = ''s'', bt_ReturnTo = ''/'', bt_Silent = False\<rparr> empty_redis_db = (Inr i, db)" by blast
  have s: "startLoginTransaction app_config plain_login_env one_login ?S ref_redis ?io [] [] empty_redis_db () = (login_redirect ''https://id/sign-in?state=s'' [(login_cookie app_config, i, 300)], db, ())"
    using i by (simp add: startLoginTransaction_def return_ok_def plain_login_env_def one_login_def has_prefix_def contains_any_def opaque_def)
  have "lr_status (login_redirect ''https://id/sign-in?state=s'' [(login_cookie app_config, i, 300)]) = 302" by simp
  from login_returns_to_the_application [OF s this] s show ?thesis by auto
qed

end
