(* ===== verification/Session_Grant.thy ===== *)
theory Session_Grant
  imports Session_Login
begin

text \<open>
  Package \<open>logtobff\<close>, capabilities of an admitted request (\<open>resource_grant.go\<close>, \<open>revalidate.go\<close>) and the configuration
  (\<open>runtime.go\<close>): revoking a resource grant of the user at the provider, after the session and the identity behind it have
  been confirmed again.
\<close>

section \<open>Requests\<close>

record grant_request =
  gq_Resource :: string
  gq_GrantID :: string
  gq_OrganizationID :: string
  gq_ExpectedRevision :: string

text \<open>How many bytes of a body could be read (one at most is asked for), whether that failed, and the length announced.\<close>

record grant_response =
  ga_Status :: nat
  ga_read :: nat
  ga_ReadFails :: bool
  ga_ContentLength :: int

record 'n grant_env =
  ge_url :: "string \<Rightarrow> (parsed_url \<times> string) option"
  ge_marshal :: "grant_request \<Rightarrow> string option"
  ge_Do :: "string \<Rightarrow> string \<Rightarrow> string \<Rightarrow> 'n \<Rightarrow> grant_response option \<times> 'n"
  ge_loopback :: "string \<Rightarrow> bool"

definition resourceGrantRevokePath :: string where "resourceGrantRevokePath = ''/api/my-account/resource-grants/revoke''"
definition maxGrantIDBytes :: nat where "maxGrantIDBytes = 128"
definition maxGrantResourceBytes :: nat where "maxGrantResourceBytes = 512"
definition maxRevokeBodyBytes :: nat where "maxRevokeBodyBytes = 4096"

definition validGrantID :: "string \<Rightarrow> bool" where
  "validGrantID value \<longleftrightarrow> value \<noteq> [] \<and> length value \<le> maxGrantIDBytes \<and> valid_utf8 value \<and> list_all (\<lambda>r. 32 \<le> r \<and> r \<noteq> 127) (runes value)"

definition validGrantResource :: "'n grant_env \<Rightarrow> string \<Rightarrow> bool" where
  "validGrantResource G value =
     (if value = [] \<or> length value > maxGrantResourceBytes \<or> \<not> valid_utf8 value then False
      else case ge_url G value of None \<Rightarrow> False
      | Some (u, text) \<Rightarrow>
         let host = fst (split_host_port (pu_Host u));
             local = (host = ''localhost'' \<or> host = ''127.0.0.1'' \<or> host = ''::1'')
         in text = value \<and> pu_Host u \<noteq> [] \<and> \<not> pu_User u \<and> pu_RawQuery u = [] \<and> pu_Fragment u = [] \<and> pu_RawPath u = [] \<and> pu_Opaque u = [] \<and>
            (pu_Scheme u = ''https'' \<or> pu_Scheme u = ''http'' \<and> local))"

section \<open>Revoking\<close>

definition revokeAtAccount :: "bff_config \<Rightarrow> idp_env \<Rightarrow> 'n grant_env \<Rightarrow> string \<Rightarrow> grant_request \<Rightarrow> 'n \<Rightarrow> recheck \<times> 'n" where
  "revokeAtAccount C I G accessToken input n =
     (case ge_marshal G input of None \<Rightarrow> (Unavailable, n)
      | Some body \<Rightarrow>
         let url = cf_Endpoint C @ resourceGrantRevokePath
         in if length body > maxRevokeBodyBytes \<or> \<not> ie_url_ok I url then (Unavailable, n)
            else case ge_Do G url accessToken body n of
              (None, n1) \<Rightarrow> (Unavailable, n1)
            | (Some response, n1) \<Rightarrow>
               (if ga_ReadFails response \<or> ga_Status response = 204 \<and> (ga_read response \<noteq> 0 \<or> ga_ContentLength response > 0) then Unavailable
                else if ga_Status response = 204 then Confirmed
                else if ga_Status response \<in> {401, 403, 409} then AuthorizationChanged
                else Unavailable, n1))"

text \<open>The access token is asked for again once the identity is confirmed; it has to outlive the request.\<close>

definition revoke_remote ::
  "bff_config \<Rightarrow> idp_env \<Rightarrow> 'n idp \<Rightarrow> 'n grant_env \<Rightarrow> time \<Rightarrow> grant_request \<Rightarrow> bsession \<Rightarrow> 'n \<Rightarrow> recheck \<times> bsession \<times> 'n" where
  "revoke_remote C I P G now input v n =
     (case ip_GetAccessToken P (bs_SDK v) n of
        (Inl _, sdk, n1) \<Rightarrow> (Unavailable, v\<lparr>bs_SDK := sdk\<rparr>, n1)
      | (Inr token, sdk, n1) \<Rightarrow>
         if at_Token token = [] \<or> token_short now token then (Unavailable, v\<lparr>bs_SDK := sdk\<rparr>, n1)
         else (case revokeAtAccount C I G (at_Token token) input n1 of (res, n2) \<Rightarrow> (res, v\<lparr>bs_SDK := sdk\<rparr>, n2)))"

text \<open>\<open>Confirmed\<close> is the return without an error.\<close>

definition revokeResourceGrant ::
  "bff_config \<Rightarrow> idp_env \<Rightarrow> 'n idp \<Rightarrow> 'n grant_env \<Rightarrow> bstore \<Rightarrow> 'r redis \<Rightarrow> 'r lease_io \<Rightarrow> 'r lease_io \<Rightarrow> time \<Rightarrow> string \<Rightarrow> principal \<Rightarrow> string \<Rightarrow> string \<Rightarrow>
   'r \<Rightarrow> 'n \<Rightarrow> (recheck \<times> 'r \<times> 'n) option" where
  "revokeResourceGrant C I P G S R io1 io2 now i expected resource grantID r n =
     (if \<not> validGrantResource G resource \<or> \<not> validGrantID grantID \<or> pn_UserID expected = [] \<or> pn_OrganizationID expected = [] \<or> pn_OrganizationRevision expected = []
      then Some (AuthorizationChanged, r, n)
      else case beginIdentity I P S R io1 i r n of
        None \<Rightarrow> None
      | Some (Inl e, r1, n1) \<Rightarrow> Some (authorizationError e, r1, n1)
      | Some (Inr value, r1, n1) \<Rightarrow>
         if bs_Subject value \<noteq> pn_UserID expected \<or> \<not> same_principal value expected then Some (AuthorizationChanged, r1, n1)
         else case currentRequest C I P value n1 of (res, v1, n2) \<Rightarrow>
           let valid = ((case res of Inr _ \<Rightarrow> True | Inl _ \<Rightarrow> False) \<and> bs_Subject v1 = pn_UserID expected \<and> same_principal v1 expected);
               v2 = (case res of Inr _ \<Rightarrow> v1\<lparr>bs_Organization := bs_Organization value, bs_Revision := bs_Revision value\<rparr>
                     | Inl e \<Rightarrow> if identityErrorRevokesOrganization (Some e) then v1\<lparr>bs_Organization := []\<rparr> else v1)
           in case (if valid then revoke_remote C I P G now \<lparr>gq_Resource = resource, gq_GrantID = grantID, gq_OrganizationID = pn_OrganizationID expected,
                        gq_ExpectedRevision = pn_OrganizationRevision expected\<rparr> v2 n2
                    else (Confirmed, v2, n2)) of (remote, v3, n3) \<Rightarrow>
             let remove = (case res of Inl e \<Rightarrow> authorizationError e = AuthorizationChanged | Inr _ \<Rightarrow> False)
             in case finishIdentity S R io2 i i (value\<lparr>bs_SDK := bs_SDK v3\<rparr>) v3 remove r1 of
                  None \<Rightarrow> None
                | Some (Inl _, r2) \<Rightarrow> Some (Unavailable, r2, n3)
                | Some (Inr _, r2) \<Rightarrow>
                    Some (case res of Inl e \<Rightarrow> authorizationError e | Inr _ \<Rightarrow> if \<not> valid then AuthorizationChanged else remote, r2, n3))"

section \<open>The context of a request\<close>

text \<open>What \<open>authorizedContext\<close> installs for the handlers after \<open>Require\<close>: the identifier of the session and the principal.\<close>

definition Revalidate ::
  "bff_config \<Rightarrow> idp_env \<Rightarrow> 'n idp \<Rightarrow> bstore \<Rightarrow> 'r redis \<Rightarrow> 'r lease_io \<Rightarrow> 'r lease_io \<Rightarrow> (string \<times> principal) option \<Rightarrow> 'r \<Rightarrow> 'n \<Rightarrow> (recheck \<times> 'r \<times> 'n) option" where
  "Revalidate C I P S R io1 io2 ctx r n =
     (case ctx of None \<Rightarrow> Some (AuthorizationChanged, r, n) | Some (i, p) \<Rightarrow> revalidate C I P S R io1 io2 i p (pn_Permissions p) r n)"

definition RevokeResourceGrant ::
  "bff_config \<Rightarrow> idp_env \<Rightarrow> 'n idp \<Rightarrow> 'n grant_env \<Rightarrow> bstore \<Rightarrow> 'r redis \<Rightarrow> 'r lease_io \<Rightarrow> 'r lease_io \<Rightarrow> time \<Rightarrow> (string \<times> principal) option \<Rightarrow> string \<Rightarrow> string \<Rightarrow>
   'r \<Rightarrow> 'n \<Rightarrow> (recheck \<times> 'r \<times> 'n) option" where
  "RevokeResourceGrant C I P G S R io1 io2 now ctx resource grantID r n =
     (case ctx of None \<Rightarrow> Some (AuthorizationChanged, r, n) | Some (i, p) \<Rightarrow> revokeResourceGrant C I P G S R io1 io2 now i p resource grantID r n)"

section \<open>Configuration\<close>

definition validOrigin :: "'n grant_env \<Rightarrow> string \<Rightarrow> bool \<Rightarrow> bool" where
  "validOrigin G raw local =
     (case ge_url G raw of None \<Rightarrow> False
      | Some (u, text) \<Rightarrow>
         if pu_Host u = [] \<or> pu_User u \<or> pu_Path u \<noteq> [] \<or> pu_RawQuery u \<noteq> [] \<or> pu_Fragment u \<noteq> [] \<or> text \<noteq> raw then False
         else if pu_Scheme u = ''https'' then True
         else let host = fst (split_host_port (pu_Host u)) in local \<and> pu_Scheme u = ''http'' \<and> (host = ''localhost'' \<or> ge_loopback G host))"

record start_config =
  sg_Endpoint :: string
  sg_Origin :: string
  sg_ClientID :: string
  sg_ClientSecret :: string
  sg_Scopes :: "string list"
  sg_CookieName :: string
  sg_Namespace :: string
  sg_RedisAddress :: string
  sg_AllowLocalHTTP :: bool
  sg_Environment :: string

text \<open>The check of the configuration that \<open>New\<close> begins with.\<close>

definition config_ok :: "'n grant_env \<Rightarrow> start_config \<Rightarrow> bool" where
  "config_ok G cfg =
     (let local = (sg_Environment cfg = ''local'' \<and> sg_AllowLocalHTTP cfg)
      in \<not> ((sg_AllowLocalHTTP cfg \<and> \<not> local) \<or> \<not> validOrigin G (sg_Endpoint cfg) local \<or> \<not> validOrigin G (sg_Origin cfg) local \<or>
         sg_ClientID cfg = [] \<or> sg_ClientSecret cfg = [] \<or> sg_Scopes cfg = [] \<or> \<not> orgPattern (sg_Namespace cfg) \<or> \<not> orgPattern (sg_CookieName cfg) \<or>
         (has_prefix (sg_CookieName cfg) ''__Host-'' \<or> has_prefix (sg_CookieName cfg) ''__Secure-'') \<and> \<not> has_prefix (sg_Origin cfg) ''https:'' \<or>
         sg_RedisAddress cfg = []))"

end
