(* ===== verification/Grant_Properties.thy ===== *)
theory Grant_Properties
  imports Session_Grant Handler_Properties
begin

text \<open>Properties of revoking a resource grant and of the configuration.\<close>

section \<open>Revoking\<close>

text \<open>The provider has taken the revocation, for the organization and revision of the principal, with 204 and no body.\<close>

definition grant_taken :: "bff_config \<Rightarrow> 'n grant_env \<Rightarrow> principal \<Rightarrow> string \<Rightarrow> string \<Rightarrow> 'n \<Rightarrow> 'n \<Rightarrow> bool" where
  "grant_taken C G p resource grantID m m' \<longleftrightarrow>
     (\<exists>token body response. token \<noteq> [] \<and>
        ge_marshal G \<lparr>gq_Resource = resource, gq_GrantID = grantID, gq_OrganizationID = pn_OrganizationID p, gq_ExpectedRevision = pn_OrganizationRevision p\<rparr> = Some body \<and>
        length body \<le> 4096 \<and> ge_Do G (cf_Endpoint C @ ''/api/my-account/resource-grants/revoke'') token body m = (Some response, m') \<and>
        ga_Status response = 204 \<and> \<not> ga_ReadFails response \<and> ga_read response = 0 \<and> ga_ContentLength response \<le> 0)"

lemma revoke_remote_done:
  assumes "revoke_remote C I P G now \<lparr>gq_Resource = resource, gq_GrantID = grantID, gq_OrganizationID = pn_OrganizationID p, gq_ExpectedRevision = pn_OrganizationRevision p\<rparr> v n = (Confirmed, w, n')"
  shows "\<exists>m. grant_taken C G p resource grantID m n'"
  using assms
  by (fastforce simp: revoke_remote_def revokeAtAccount_def grant_taken_def resourceGrantRevokePath_def maxRevokeBodyBytes_def Let_def
      split: sum.splits prod.splits option.splits if_splits)

lemma revoke_remote_keeps:
  assumes "revoke_remote C I P G now input v n = (res, w, n')"
  shows "same_login v w \<and> same_place v w"
  using assms by (auto simp: revoke_remote_def split: sum.splits prod.splits if_splits)

lemma authorizationError_refuses [simp]: "authorizationError e \<noteq> Confirmed"
  by (simp add: authorizationError_def split: option.splits)

text \<open>A grant is reported as revoked only when the session of the principal could be read again and names its subject, organization and
  revision, the provider has confirmed organization and revision, the provider has then taken the revocation of exactly
  this grant for exactly this organization and revision, and the session could be written back.\<close>

theorem grant_revoked_for_the_principal:
  assumes "revokeResourceGrant C I P G S R io1 io2 now i p resource grantID r n = Some (Confirmed, r', n')"
  shows "validGrantResource G resource \<and> validGrantID grantID \<and> rechecked C I P S R io1 i p r \<and> (\<exists>m. grant_taken C G p resource grantID m n') \<and>
    (\<exists>fate t nonce owner u r1. commit_session S R fate t nonce i owner i u False r1 = (None, r') \<and> bs_Subject u = pn_UserID p \<and> same_principal u p)"
proof -
  note out = assms [unfolded revokeResourceGrant_def]
  have valid: "validGrantResource G resource" "validGrantID grantID"
      "\<not> (\<not> validGrantResource G resource \<or> \<not> validGrantID grantID \<or> pn_UserID p = [] \<or> pn_OrganizationID p = [] \<or> pn_OrganizationRevision p = [])"
    using out by (auto split: if_splits)
  note out = out [unfolded if_not_P [OF valid(3)]]
  obtain w r1 m where b: "beginIdentity I P S R io1 i r n = Some (Inr w, r1, m)" using out by (auto split: option.splits sum.splits)
  note out = out [unfolded b option.case prod.case sum.case]
  have exp: "bs_Subject w = pn_UserID p" "same_principal w p" "\<not> (bs_Subject w \<noteq> pn_UserID p \<or> \<not> same_principal w p)" using out by (auto split: if_splits)
  obtain res v1 m2 where cur: "currentRequest C I P w m = (res, v1, m2)" by (meson prod_cases3)
  note out = out [unfolded if_not_P [OF exp(3)] cur prod.case Let_def]
  have ok: "\<exists>x. res = Inr x" "same_principal v1 p" "bs_Subject v1 = pn_UserID p" using out by (auto split: sum.splits prod.splits option.splits if_splits)
  then obtain user rows where res: "res = Inr (user, rows)" by auto
  let ?v2 = "v1\<lparr>bs_Organization := bs_Organization w, bs_Revision := bs_Revision w\<rparr>"
  obtain remote v3 m3 where rem: "revoke_remote C I P G now \<lparr>gq_Resource = resource, gq_GrantID = grantID, gq_OrganizationID = pn_OrganizationID p,
      gq_ExpectedRevision = pn_OrganizationRevision p\<rparr> ?v2 m2 = (remote, v3, m3)" by (meson prod_cases3)
  have fin: "\<exists>u. finishIdentity S R io2 i i (w\<lparr>bs_SDK := bs_SDK v3\<rparr>) v3 False r1 = Some (Inr u, r')" "remote = Confirmed" "m3 = n'"
    using out res ok rem by (auto split: option.splits sum.splits)
  then obtain u where u: "finishIdentity S R io2 i i (w\<lparr>bs_SDK := bs_SDK v3\<rparr>) v3 False r1 = Some (Inr u, r')" by blast
  obtain v owner r0 where a: "acquire_session S R (li_owner io1) (li_now io1) (li_rounds io1) i r = Some (Inr (v, owner), r0)" "same_login v w" "same_place v w"
    using beginIdentity_prepared [OF b] by blast
  obtain m1 where "answer_confirms C I P m1 m2 (bs_Organization v1) (bs_Revision v1)" using currentRequest_confirms [OF cur [unfolded res]] by blast
  then have "confirmed C I P v p" using a(2) cur res ok unfolding confirmed_def same_principal_def by metis
  then have "rechecked C I P S R io1 i p r" using a exp unfolding rechecked_def same_login_def same_place_def same_principal_def by metis
  moreover have "\<exists>m. grant_taken C G p resource grantID m n'" using revoke_remote_done [OF rem [unfolded fin(2,3)]] .
  moreover obtain o2 r2 where "commit_session S R (li_commit io2) (li_commit_at io2) (li_nonce io2) i o2 i u False (li_between io2 r2) = (None, r')"
      "bs_Subject u = pn_UserID p" "same_principal u p"
    by (rule finishIdentity_written [OF u]) (use exp revoke_remote_keeps [OF rem] in \<open>auto simp: same_principal_def same_place_def\<close>)
  ultimately show ?thesis using valid(1,2) by blast
qed


section \<open>Configuration\<close>

text \<open>Only a configuration for the local environment may use plain HTTP, and then only with itself: otherwise the addresses of the provider and of the
  application use TLS; a cookie with a reserved prefix always comes with TLS.\<close>

theorem config_uses_tls:
  assumes "config_ok G cfg" and "x = sg_Endpoint cfg \<or> x = sg_Origin cfg"
  shows "\<exists>u. ge_url G x = Some (u, x) \<and> pu_Host u \<noteq> [] \<and> \<not> pu_User u \<and> pu_Path u = [] \<and>
    (pu_Scheme u = ''https'' \<or>
     pu_Scheme u = ''http'' \<and> sg_Environment cfg = ''local'' \<and> sg_AllowLocalHTTP cfg \<and>
       (fst (split_host_port (pu_Host u)) = ''localhost'' \<or> ge_loopback G (fst (split_host_port (pu_Host u))))) \<and>
    (has_prefix (sg_CookieName cfg) ''__Host-'' \<or> has_prefix (sg_CookieName cfg) ''__Secure-'' \<longrightarrow> has_prefix (sg_Origin cfg) ''https:'')"
proof -
  let ?local = "sg_Environment cfg = ''local'' \<and> sg_AllowLocalHTTP cfg"
  have "validOrigin G x ?local" using assms by (auto simp: config_ok_def Let_def)
  then obtain u where "ge_url G x = Some (u, x)" "pu_Host u \<noteq> []" "\<not> pu_User u" "pu_Path u = []"
      "pu_Scheme u = ''https'' \<or> ?local \<and> pu_Scheme u = ''http'' \<and> (fst (split_host_port (pu_Host u)) = ''localhost'' \<or> ge_loopback G (fst (split_host_port (pu_Host u))))"
    by (auto simp: validOrigin_def Let_def split: option.splits if_splits)
  moreover have "has_prefix (sg_CookieName cfg) ''__Host-'' \<or> has_prefix (sg_CookieName cfg) ''__Secure-'' \<longrightarrow> has_prefix (sg_Origin cfg) ''https:''"
    using assms(1) by (auto simp: config_ok_def Let_def)
  ultimately show ?thesis by blast
qed

section \<open>Witnesses\<close>

definition one_grant :: "unit grant_env" where
  "one_grant = \<lparr>ge_url = (\<lambda>s. Some (\<lparr>pu_Scheme = ''https'', pu_Opaque = [], pu_User = False, pu_Host = ''api'', pu_Path = [], pu_RawPath = [], pu_RawQuery = [],
       pu_ForceQuery = False, pu_Fragment = []\<rparr>, s)),
     ge_marshal = (\<lambda>_. Some ''{}''), ge_Do = (\<lambda>_ _ _ n. (Some \<lparr>ga_Status = 204, ga_read = 0, ga_ReadFails = False, ga_ContentLength = 0\<rparr>, n)), ge_loopback = (\<lambda>_. False)\<rparr>"

definition one_principal :: principal where
  "one_principal = \<lparr>pn_Issuer = [], pn_UserID = ''user-7'', pn_OrganizationID = ''org-1'', pn_Username = [], pn_OrganizationName = [], pn_OrganizationRevision = ''3'',
     pn_DepartmentIDs = [], pn_PrimaryDepartmentID = None, pn_Permissions = [], pn_ExpiresAt = 0\<rparr>"

theorem grant_revoked_for_the_principal_witness:
  "\<exists>db. revokeResourceGrant app_config plain_env one_user one_grant app_store ref_redis (lease_of ''a'') (lease_of ''b'') 0 tx_id one_principal ''https://api'' ''g'' browser_db () =
       Some (Confirmed, db, ()) \<and> rechecked app_config plain_env one_user app_store ref_redis (lease_of ''a'') tx_id one_principal browser_db"
proof -
  have pt: "plain_text ''https://api''" "plain_text ''g''" by (simp_all add: plain_text_def)
  have valid: "validGrantResource one_grant ''https://api''" "validGrantID ''g''"
    by (simp_all add: validGrantResource_def validGrantID_def plain_text_simps(2,3) [OF pt(1)] plain_text_simps(2,3) [OF pt(2)] one_grant_def maxGrantResourceBytes_def maxGrantIDBytes_def)
  have same: "bs_Subject login_session = pn_UserID one_principal" "same_principal login_session one_principal"
    by (simp_all add: same_principal_def login_session_def one_principal_def)
  obtain db1 where b: "at_rest db1" "beginIdentity plain_env one_user app_store ref_redis (lease_of ''a'') tx_id browser_db () = Some (Inr login_session, db1, ())"
    using login_begin [OF browser_db_at_rest] by blast
  obtain db2 where f: "finishIdentity app_store ref_redis (lease_of ''b'') tx_id tx_id login_session login_session False db1 = Some (Inr login_session, db2)"
    using login_finish [OF b(1)] by blast
  have rem: "revoke_remote app_config plain_env one_user one_grant 0 input login_session () = (Confirmed, login_session, ())" for input
    by (simp add: revoke_remote_def revokeAtAccount_def one_user_def one_grant_def plain_env_def token_short_def unix_def authenticationTimeout_def second_def maxRevokeBodyBytes_def)
  have "pn_UserID one_principal \<noteq> []" "pn_OrganizationID one_principal \<noteq> []" "pn_OrganizationRevision one_principal \<noteq> []" by (simp_all add: one_principal_def)
  then have "revokeResourceGrant app_config plain_env one_user one_grant app_store ref_redis (lease_of ''a'') (lease_of ''b'') 0 tx_id one_principal ''https://api'' ''g'' browser_db () =
      Some (Confirmed, db2, ())"
    using valid b(2) f same login_current rem by (simp add: revokeResourceGrant_def Let_def)
  from grant_revoked_for_the_principal [OF this] this show ?thesis by blast
qed

definition tls_config :: start_config where
  "tls_config = \<lparr>sg_Endpoint = ''https://api'', sg_Origin = ''https://api'', sg_ClientID = ''c'', sg_ClientSecret = ''s'', sg_Scopes = [''a''], sg_CookieName = ''sid'',
     sg_Namespace = ''app'', sg_RedisAddress = ''r'', sg_AllowLocalHTTP = False, sg_Environment = ''prod''\<rparr>"

theorem config_uses_tls_witness: "\<exists>u. config_ok one_grant tls_config \<and> ge_url one_grant ''https://api'' = Some (u, ''https://api'') \<and> pu_Host u \<noteq> []"
proof -
  have ok: "config_ok one_grant tls_config"
    by (simp add: config_ok_def tls_config_def validOrigin_def one_grant_def orgPattern_def opaque_char_def has_prefix_def)
  have "''https://api'' = sg_Endpoint tls_config \<or> ''https://api'' = sg_Origin tls_config" by (simp add: tls_config_def)
  from config_uses_tls [OF ok this] ok show ?thesis by blast
qed

end
