(* ===== verification/Cors_Properties.thy ===== *)
theory Cors_Properties
  imports Cors
begin

text \<open>
  Properties of cross-origin requests: which origins a response may name, what a preflight request is told, and that
  the default options are valid.
\<close>

section \<open>Normal forms\<close>

lemma canonicalOrigin_same: "canonicalOrigin E v = Inr x \<Longrightarrow> x = v \<and> v \<noteq> []"
  by (auto simp: canonicalOrigin_def Let_def split: if_splits option.splits)

lemma normalize_origins_same: "normalize_origins E vs = Inr os \<Longrightarrow> os = vs"
  by (induction vs arbitrary: os) (auto dest: canonicalOrigin_same split: sum.splits)

definition cors_methods :: "cors_options \<Rightarrow> string list" where
  "cors_methods options = (if co_AllowedMethods options = [] then defaultCORSMethods else co_AllowedMethods options)"

definition cors_headers :: "cors_options \<Rightarrow> string list" where
  "cors_headers options = (if co_AllowedHeaders options = [] then defaultCORSHeaders else co_AllowedHeaders options)"

lemma normalized_options:
  assumes "normalizeCORSOptions E options = Inr N"
  shows "nc_allowedOrigins N = co_AllowedOrigins options" "nc_externalOrigin N = co_ExternalOrigin options" "nc_allowedMethods N = cors_methods options"
    "normalizeHeaderNames E (cors_headers options) = Inr (nc_allowedHeaders N)"
  using assms
  by (auto simp: normalizeCORSOptions_def cors_methods_def cors_headers_def Let_def dest!: normalize_origins_same canonicalOrigin_same
      split: sum.splits option.splits if_splits)

section \<open>What the writer sends\<close>

definition header_good :: "string \<Rightarrow> header_map \<Rightarrow> bool" where
  "header_good origin h \<longleftrightarrow>
     h ''Access-Control-Allow-Origin'' = (if origin = [] then [] else [origin]) \<and> h ''Access-Control-Allow-Credentials'' = (if origin = [] then [] else [''true''])"

lemma addVary_other: "k \<noteq> ''Vary'' \<Longrightarrow> addVary E vs h k = h k"
  by (simp add: addVary_def split: prod.splits)

lemma ensured_good: "header_good origin (ensured E origin exposed h)"
  by (simp add: header_good_def ensured_def setAllowedCORSHeaders_def Let_def addVary_other)

definition sent_good :: "'w gin_writer \<Rightarrow> 'w cors_writer \<Rightarrow> bool" where
  "sent_good W cw \<longleftrightarrow> (\<forall>status h. gw_sent W (cw_inner cw) = Some (status, h) \<longrightarrow> header_good (cw_origin cw) h)"

lemma edit_laws:
  assumes "writer_ok W"
  shows "gw_headers W (gw_edit W f w) = f (gw_headers W w)" "gw_sent W (gw_edit W f w) = gw_sent W w" "gw_Status W (gw_edit W f w) = gw_Status W w"
  using assms unfolding writer_ok_def by blast+

lemma now_laws:
  assumes "writer_ok W"
  shows "gw_sent W w = None \<Longrightarrow> gw_sent W (gw_WriteHeaderNow W w) = Some (gw_Status W w, gw_headers W w)"
    "gw_sent W w = Some x \<Longrightarrow> gw_sent W (gw_WriteHeaderNow W w) = Some x"
proof -
  have "sends W w (gw_WriteHeaderNow W w)" "gw_sent W (gw_WriteHeaderNow W w) \<noteq> None" using assms unfolding writer_ok_def by blast+
  then show "gw_sent W w = None \<Longrightarrow> gw_sent W (gw_WriteHeaderNow W w) = Some (gw_Status W w, gw_headers W w)"
      "gw_sent W w = Some x \<Longrightarrow> gw_sent W (gw_WriteHeaderNow W w) = Some x" by (auto simp: sends_def)
qed

lemma edit_keeps:
  assumes "writer_ok W"
  shows "sent_good W (cw\<lparr>cw_inner := gw_edit W f (cw_inner cw)\<rparr>) = sent_good W cw"
  using assms by (simp add: writer_ok_def sent_good_def)

lemma ensureHeaders_keeps:
  assumes "writer_ok W" "sent_good W cw"
  shows "sent_good W (ensureHeaders E W cw)" "cw_origin (ensureHeaders E W cw) = cw_origin cw"
    "header_good (cw_origin cw) (gw_headers W (cw_inner (ensureHeaders E W cw)))"
    "gw_sent W (cw_inner (ensureHeaders E W cw)) = gw_sent W (cw_inner cw)"
  using assms by (auto simp: ensureHeaders_def edit_keeps writer_ok_def ensured_good)

text \<open>A call that sends the headers after \<open>ensureHeaders\<close>.\<close>

lemma sends_good:
  assumes W: "writer_ok W" "sent_good W cw" and s: "sends W (cw_inner (ensureHeaders E W cw)) w'"
  shows "sent_good W ((ensureHeaders E W cw)\<lparr>cw_inner := w'\<rparr>)"
  using ensureHeaders_keeps [OF W, of E] s by (auto simp: sends_def sent_good_def)

lemma writer_act_keeps:
  assumes W: "writer_ok W" "sent_good W cw"
  shows "sent_good W (writer_act E W act cw) \<and> cw_origin (writer_act E W act cw) = cw_origin cw"
proof -
  have calls: "sends W w (gw_WriteHeader W status w)" "sends W w (gw_WriteHeaderNow W w)" "sends W w (gw_Flush W w)"
      "sends W w (snd (gw_Write W d w))" "sends W w (snd (gw_WriteString W d w))" for status w d
    using W(1) by (simp_all add: writer_ok_def sends_def)
  show ?thesis
    by (cases act) (auto simp: cors_WriteHeader_def cors_WriteHeaderNow_def cors_Flush_def cors_Write_def cors_WriteString_def Let_def edit_keeps [OF W(1)] W(2)
        split_beta ensureHeaders_keeps(2) [OF W] intro!: sends_good [OF W] calls)
qed

lemma run_acts_keeps:
  assumes "writer_ok W" "sent_good W cw"
  shows "sent_good W (fold (writer_act E W) acts cw) \<and> cw_origin (fold (writer_act E W) acts cw) = cw_origin cw"
  using assms(2) by (induction acts arbitrary: cw) (auto simp: writer_act_keeps [OF assms(1)])

text \<open>The headers at the end of a request are good, and what is sent then, if nothing was sent before.\<close>

definition ends_good :: "'w gin_writer \<Rightarrow> string \<Rightarrow> 'w cors_writer \<Rightarrow> bool" where
  "ends_good W origin cw \<longleftrightarrow> (\<forall>status h. gw_sent W (gw_WriteHeaderNow W (cw_inner cw)) = Some (status, h) \<longrightarrow> header_good origin h)"

lemma run_next_good:
  assumes W: "writer_ok W" "sent_good W cw"
  shows "ends_good W (cw_origin cw) (run_next E W acts cw)"
proof -
  let ?c = "fold (writer_act E W) acts cw"
  note k = run_acts_keeps [OF W, of E acts]
  then have g: "sent_good W ?c" by blast
  have "sends W (cw_inner (ensureHeaders E W ?c)) (gw_WriteHeaderNow W (cw_inner (ensureHeaders E W ?c)))" using W(1) by (simp add: writer_ok_def)
  from sends_good [OF W(1) g this] show ?thesis
    using k ensureHeaders_keeps(2) [OF W(1) g] by (simp add: sent_good_def ends_good_def run_next_def)
qed

definition ensured_keys :: "string set" where
  "ensured_keys = {''Vary'', ''Access-Control-Allow-Origin'', ''Access-Control-Allow-Credentials'', ''Access-Control-Expose-Headers''}"

lemma ensured_other:
  assumes "k \<notin> ensured_keys"
  shows "ensured E origin exposed h k = h k"
  using assms by (auto simp: ensured_keys_def ensured_def setAllowedCORSHeaders_def Let_def addVary_other)

text \<open>A request that is ended by the middleware itself.\<close>

definition answered :: "'w gin_writer \<Rightarrow> 'w cors_writer \<Rightarrow> nat \<Rightarrow> header_map \<Rightarrow> bool" where
  "answered W cw status h \<longleftrightarrow> gw_sent W (gw_WriteHeaderNow W (cw_inner cw)) = Some (status, h)"

lemma abort_with_answer:
  assumes W: "writer_ok W" and none: "gw_sent W (cw_inner cw) = None"
  shows "\<exists>h. answered W (abort_with E W status cw) status h \<and> header_good (cw_origin cw) h \<and>
    (\<forall>k. k \<notin> ensured_keys \<longrightarrow> h k = gw_headers W (cw_inner cw) k)"
proof -
  let ?en = "ensured E (cw_origin cw) (cw_exposed cw)"
  let ?w1 = "gw_WriteHeader W status (gw_edit W ?en (cw_inner cw))"
  let ?w2 = "gw_edit W ?en ?w1"
  have w2: "gw_sent W ?w2 = None" "gw_Status W ?w2 = status" "gw_headers W ?w2 = ?en (?en (gw_headers W (cw_inner cw)))"
    using W none by (simp_all add: writer_ok_def)
  then have "gw_sent W (gw_WriteHeaderNow W ?w2) = Some (status, gw_headers W ?w2)" using now_laws(1) [OF W w2(1)] by simp
  moreover have "gw_sent W (gw_WriteHeaderNow W (gw_WriteHeaderNow W ?w2)) = gw_sent W (gw_WriteHeaderNow W ?w2)"
    unfolding calculation by (rule now_laws(2) [OF W calculation])
  moreover have "cw_inner (abort_with E W status cw) = gw_WriteHeaderNow W ?w2"
    by (simp add: abort_with_def cors_WriteHeader_def cors_WriteHeaderNow_def ensureHeaders_def Let_def)
  ultimately have "answered W (abort_with E W status cw) status (?en (?en (gw_headers W (cw_inner cw))))" using w2(3) by (simp add: answered_def)
  then show ?thesis using ensured_good ensured_other by metis
qed

section \<open>Origins\<close>

text \<open>The origin of the service itself, as the request names it or as it is configured.\<close>

definition own_origin :: "cors_options \<Rightarrow> cors_request \<Rightarrow> string" where
  "own_origin options q =
     (if co_ExternalOrigin options = [] then (if cq_TLS q then ''https'' else ''http'') @ ''://'' @ cq_Host q else co_ExternalOrigin options)"

definition origin_allowed :: "cors_options \<Rightarrow> cors_request \<Rightarrow> string \<Rightarrow> bool" where
  "origin_allowed options q origin \<longleftrightarrow>
     cq_Header q ''Origin'' = [origin] \<and> (origin = own_origin options q \<or> origin \<in> set (co_AllowedOrigins options))"

lemma allows_allowed:
  assumes "normalizeCORSOptions E options = Inr N" "cq_Header q ''Origin'' = [raw]" "canonicalOrigin E raw = Inr origin" "allows E N q origin = (same, True)"
  shows "origin_allowed options q origin" "same = (origin = own_origin options q)"
  using assms(4) normalized_options [OF assms(1)] canonicalOrigin_same [OF assms(3)] assms(2)
  by (auto simp: allows_def own_origin_def origin_allowed_def Let_def split: if_splits)

text \<open>The ways through the middleware.\<close>

lemma cors_handle_ways:
  assumes N: "normalizeCORSOptions E options = Inr N" and out: "cors_handle E W N q acts w = (cw, went)"
  obtains
    (refused) "cw = abort_with E W 403 \<lparr>cw_inner = w, cw_origin = [], cw_exposed = []\<rparr>" "\<not> went"
  | (plain) "cq_Header q ''Origin'' = []" "cw = run_next E W acts \<lparr>cw_inner = w, cw_origin = [], cw_exposed = []\<rparr>" "went"
  | (preflight) origin m headers where "isCORSPreflight q" "origin \<noteq> []" "origin_allowed options q origin" "validatePreflight E N q = Some (m, headers)" "\<not> went"
      "cw = abort_with E W 204 (grant_preflight E W origin (nc_exposedHeaders N) m headers \<lparr>cw_inner = w, cw_origin = [], cw_exposed = []\<rparr>)"
  | (cross) origin where "\<not> isCORSPreflight q" "origin \<noteq> []" "origin_allowed options q origin"
      "origin = own_origin options q \<or> cq_Method q \<in> set (cors_methods options)" "went"
      "cw = run_next E W acts (allow_origin E W origin (nc_exposedHeaders N) \<lparr>cw_inner = w, cw_origin = [], cw_exposed = []\<rparr>)"
proof -
  consider (none) "cq_Header q ''Origin'' = []" | (one) raw where "cq_Header q ''Origin'' = [raw]" | (many) "length (cq_Header q ''Origin'') > 1"
    by (cases "cq_Header q ''Origin''"; cases "tl (cq_Header q ''Origin'')") auto
  then show thesis
  proof cases
    case none
    then show thesis using out by (intro plain) (auto simp: cors_handle_def Let_def)
  next
    case many
    then show thesis using out by (intro refused) (auto simp: cors_handle_def Let_def split: list.splits)
  next
    case one
    show thesis
    proof (cases "\<exists>origin same. canonicalOrigin E raw = Inr origin \<and> allows E N q origin = (same, True)")
      case False
      then show thesis using out one by (intro refused) (auto simp: cors_handle_def Let_def split: sum.splits prod.splits)
    next
      case True
      then obtain origin same where o: "canonicalOrigin E raw = Inr origin" "allows E N q origin = (same, True)" by blast
      note al = allows_allowed [OF N one o] canonicalOrigin_same [OF o(1)]
      show thesis
      proof (cases "isCORSPreflight q")
        case True
        note pre = this
        show thesis
        proof (cases "validatePreflight E N q")
          case None
          then show thesis using out one o pre by (intro refused) (auto simp: cors_handle_def Let_def)
        next
          case (Some mh)
          obtain m headers where mh: "mh = (m, headers)" by (cases mh)
          show thesis
            by (rule preflight [OF pre _ al(1) Some [unfolded mh]])
              (use out one o pre Some mh al in \<open>auto simp: cors_handle_def Let_def split: if_splits\<close>)
        qed
      next
        case False
        note pre = this
        show thesis
        proof (cases "same \<or> cq_Method q \<in> set (nc_allowedMethods N)")
          case False
          then show thesis using out one o pre by (intro refused) (auto simp: cors_handle_def Let_def)
        next
          case True
          then show thesis using out one o pre al normalized_options(3) [OF N]
            by (intro cross [of origin]) (auto simp: cors_handle_def Let_def)
        qed
      qed
    qed
  qed
qed


lemma allow_origin_fresh:
  assumes W: "writer_ok W" and none: "gw_sent W w = None"
  shows "sent_good W (allow_origin E W origin exposed \<lparr>cw_inner = w, cw_origin = [], cw_exposed = []\<rparr>)"
    "cw_origin (allow_origin E W origin exposed \<lparr>cw_inner = w, cw_origin = [], cw_exposed = []\<rparr>) = origin"
    "gw_sent W (cw_inner (allow_origin E W origin exposed \<lparr>cw_inner = w, cw_origin = [], cw_exposed = []\<rparr>)) = None"
  using W none by (auto simp: allow_origin_def ensureHeaders_def writer_ok_def sent_good_def)

lemma set_header_simps:
  assumes "writer_ok W"
  shows "cw_origin (set_header W k v cw) = cw_origin cw" "gw_sent W (cw_inner (set_header W k v cw)) = gw_sent W (cw_inner cw)"
    "gw_headers W (cw_inner (set_header W k v cw)) = (gw_headers W (cw_inner cw))(k := if v = [] then [] else [v])"
  by (simp_all add: set_header_def edit_laws [OF assms] fun_upd_def)

lemma preflight_answer:
  assumes W: "writer_ok W" and none: "gw_sent W w = None"
  shows "\<exists>h. answered W (abort_with E W 204 (grant_preflight E W origin exposed m headers \<lparr>cw_inner = w, cw_origin = [], cw_exposed = []\<rparr>)) 204 h \<and>
    header_good origin h \<and> h ''Access-Control-Allow-Methods'' = (if m = [] then [] else [m]) \<and>
    (headers \<noteq> [] \<longrightarrow> h ''Access-Control-Allow-Headers'' = (if join_text '', '' headers = [] then [] else [join_text '', '' headers])) \<and>
    h ''Access-Control-Max-Age'' = [''43200'']"
proof -
  let ?c = "allow_origin E W origin exposed \<lparr>cw_inner = w, cw_origin = [], cw_exposed = []\<rparr>"
  let ?g = "grant_preflight E W origin exposed m headers \<lparr>cw_inner = w, cw_origin = [], cw_exposed = []\<rparr>"
  note f = allow_origin_fresh [OF W none, of E origin exposed]
  have max: "itoa defaultCORSMaxAge = ''43200''"
    by (simp add: itoa_def defaultCORSMaxAge_def nat_digits.simps)
  have g: "gw_sent W (cw_inner ?g) = None" "cw_origin ?g = origin" "gw_headers W (cw_inner ?g) ''Access-Control-Max-Age'' = [''43200'']"
      "gw_headers W (cw_inner ?g) ''Access-Control-Allow-Methods'' = (if m = [] then [] else [m])"
      "headers \<noteq> [] \<longrightarrow> gw_headers W (cw_inner ?g) ''Access-Control-Allow-Headers'' = (if join_text '', '' headers = [] then [] else [join_text '', '' headers])"
    by (simp_all add: grant_preflight_def Let_def set_header_simps [OF W] edit_laws [OF W] f max)
  obtain h where "answered W (abort_with E W 204 ?g) 204 h" "header_good origin h"
      "\<forall>k. k \<notin> ensured_keys \<longrightarrow> h k = gw_headers W (cw_inner ?g) k"
    using abort_with_answer [OF W g(1), of E 204, unfolded g(2)] by blast
  with g(3-5) show ?thesis by (intro exI [of _ h]) (simp add: ensured_keys_def)
qed

text \<open>C19. Whatever the handlers do to the headers and when they send them: a response that is sent names no origin to browsers, or exactly
  the one origin that the request came from and that is the own origin of the service or configured, with credentials
  then; handlers are run only for requests without an origin and for those.\<close>

theorem only_checked_origins:
  assumes W: "writer_ok W" and none: "gw_sent W w = None" and new: "NewCORS E W options = Inr serve"
    and out: "serve q acts w = (cw, went)" and sent: "gw_sent W (gw_WriteHeaderNow W (cw_inner cw)) = Some (status, h)"
  shows "\<exists>origin. h ''Access-Control-Allow-Origin'' = (if origin = [] then [] else [origin]) \<and>
    h ''Access-Control-Allow-Credentials'' = (if origin = [] then [] else [''true'']) \<and>
    (origin \<noteq> [] \<longrightarrow> origin_allowed options q origin) \<and> (went \<longrightarrow> origin \<noteq> [] \<or> cq_Header q ''Origin'' = [])"
proof -
  obtain N where N: "normalizeCORSOptions E options = Inr N" "serve = cors_handle E W N" using new by (auto simp: NewCORS_def split: sum.splits)
  let ?start = "\<lparr>cw_inner = w, cw_origin = [], cw_exposed = []\<rparr>"
  have start: "sent_good W ?start" using none by (simp add: sent_good_def)
  have good: "\<exists>origin. header_good origin h \<and> (origin \<noteq> [] \<longrightarrow> origin_allowed options q origin) \<and> (went \<longrightarrow> origin \<noteq> [] \<or> cq_Header q ''Origin'' = [])"
    using N(1) out [unfolded N(2)]
  proof (cases rule: cors_handle_ways)
    case refused
    obtain h' where "answered W cw 403 h' \<and> header_good [] h'" using abort_with_answer [OF W, of ?start E 403] none refused by auto
    with sent refused show ?thesis by (auto simp: answered_def)
  next
    case plain
    then show ?thesis using run_next_good [OF W start, of E acts] sent by (auto simp: ends_good_def)
  next
    case (preflight origin m headers)
    obtain h' where "answered W cw 204 h' \<and> header_good origin h'" using preflight_answer [OF W none] preflight(6) by blast
    with sent preflight show ?thesis by (auto simp: answered_def)
  next
    case (cross origin)
    then show ?thesis using run_next_good [OF W allow_origin_fresh(1) [OF W none], of E origin "nc_exposedHeaders N" E acts] sent allow_origin_fresh(2) [OF W none]
      by (auto simp: ends_good_def)
  qed
  then show ?thesis by (auto simp: header_good_def)
qed


section \<open>Preflight requests\<close>

text \<open>The names that a preflight request asks for, one by one.\<close>

definition asked_names :: "cors_request \<Rightarrow> string list" where
  "asked_names q = map trim_space (concat (map (split_on (CHR '','')) (cq_Header q ''Access-Control-Request-Headers'')))"

lemma requested_names_allowed:
  assumes "requested_names E allowed seen parts = Some names"
  shows "(\<forall>part \<in> set parts. validToken (trim_space part) \<and> allowed (to_lower (ce_lower E) (trim_space part)) \<noteq> None) \<and>
    set names \<subseteq> {c. \<exists>part \<in> set parts. allowed (to_lower (ce_lower E) (trim_space part)) = Some c} \<and>
    (\<forall>part \<in> set parts. to_lower (ce_lower E) (trim_space part) \<notin> set seen \<longrightarrow>
       (\<exists>c \<in> set names. allowed (to_lower (ce_lower E) (trim_space part)) = Some c))"
  using assms
proof (induction parts arbitrary: seen names)
  case (Cons part parts)
  let ?lower = "to_lower (ce_lower E) (trim_space part)"
  obtain c where c: "allowed ?lower = Some c" "validToken (trim_space part)" using Cons(2) by (auto simp: Let_def split: option.splits if_splits)
  show ?case
  proof (cases "?lower \<in> set seen")
    case True
    then have "requested_names E allowed seen parts = Some names" using Cons(2) c by (auto simp: Let_def split: if_splits)
    from Cons(1) [OF this] c True show ?thesis by auto
  next
    case False
    then obtain ns where ns: "requested_names E allowed (?lower # seen) parts = Some ns" "names = c # ns" using Cons(2) c by (auto simp: Let_def split: if_splits)
    from Cons(1) [OF ns(1)] c ns(2) show ?thesis by fastforce
  qed
qed simp

lemma header_names_looked_up:
  assumes "add_header_names E m vs = Inr m'" "m' lower = Some c"
  shows "m lower = Some c \<or> (\<exists>v \<in> set vs. lower = to_lower (ce_lower E) v \<and> c = CanonicalHeaderKey v \<and> validToken v)"
  using assms by (induction vs arbitrary: m) (fastforce simp: bad_header_def split: if_splits)+

text \<open>A preflight request is answered by the middleware alone, with 204 or 403: with 204 only when its origin is allowed, its one method is
  configured and every header name that it asks for is a configured one; the answer then repeats the method and
  lists, for every name asked for, the canonical form of a configured header, and nothing else.\<close>

theorem preflight_answers:
  assumes W: "writer_ok W" and none: "gw_sent W w = None" and new: "NewCORS E W options = Inr serve"
    and pre: "isCORSPreflight q" "cq_Header q ''Origin'' \<noteq> []" and out: "serve q acts w = (cw, went)"
  shows "\<not> went \<and> (\<exists>status h. answered W cw status h \<and> (status = 403 \<or>
    status = 204 \<and> (\<exists>origin m names. origin_allowed options q origin \<and> h ''Access-Control-Allow-Origin'' = [origin] \<and>
      cq_Header q ''Access-Control-Request-Method'' = [m] \<and> m \<in> set (cors_methods options) \<and> h ''Access-Control-Allow-Methods'' = [m] \<and>
      (names \<noteq> [] \<and> join_text '', '' names \<noteq> [] \<longrightarrow> h ''Access-Control-Allow-Headers'' = [join_text '', '' names]) \<and>
      (\<forall>name \<in> set (asked_names q). \<exists>v \<in> set (cors_headers options). to_lower (ce_lower E) name = to_lower (ce_lower E) v \<and> CanonicalHeaderKey v \<in> set names) \<and>
      (\<forall>c \<in> set names. \<exists>v \<in> set (cors_headers options). c = CanonicalHeaderKey v \<and> to_lower (ce_lower E) v \<in> to_lower (ce_lower E) ` set (asked_names q)))))"
proof -
  obtain N where N: "normalizeCORSOptions E options = Inr N" "serve = cors_handle E W N" using new by (auto simp: NewCORS_def split: sum.splits)
  show ?thesis
    using N(1) out [unfolded N(2)]
  proof (cases rule: cors_handle_ways)
    case refused
    then show ?thesis using abort_with_answer [OF W, of "\<lparr>cw_inner = w, cw_origin = [], cw_exposed = []\<rparr>" E 403] none by auto
  next
    case plain
    with pre(2) show ?thesis by simp
  next
    case (cross origin)
    with pre(1) show ?thesis by simp
  next
    case (preflight origin m names)
    then obtain h where h: "answered W cw 204 h" "header_good origin h" "h ''Access-Control-Allow-Methods'' = (if m = [] then [] else [m])"
        "names \<noteq> [] \<longrightarrow> h ''Access-Control-Allow-Headers'' = (if join_text '', '' names = [] then [] else [join_text '', '' names])"
      using preflight_answer [OF W none] by blast
    have m: "cq_Header q ''Access-Control-Request-Method'' = [m]" "m \<in> set (cors_methods options)" "m \<noteq> []"
        "requestedHeaderNames E (cq_Header q ''Access-Control-Request-Headers'') (nc_allowedHeaders N) = Some names"
      using preflight(4) normalized_options(3) [OF N(1)] by (auto simp: validatePreflight_def split: list.splits if_splits)
    note rq = requested_names_allowed [OF m(4) [unfolded requestedHeaderNames_def]]
    have conf: "\<exists>v \<in> set (cors_headers options). lower = to_lower (ce_lower E) v \<and> c = CanonicalHeaderKey v" if "nc_allowedHeaders N lower = Some c" for lower c
      using header_names_looked_up [OF normalized_options(4) [OF N(1), unfolded normalizeHeaderNames_def] that] by auto
    have all: "\<exists>v \<in> set (cors_headers options). to_lower (ce_lower E) name = to_lower (ce_lower E) v \<and> CanonicalHeaderKey v \<in> set names" if asked: "name \<in> set (asked_names q)" for name
    proof -
      obtain part where part: "part \<in> set (concat (map (split_on (CHR '','')) (cq_Header q ''Access-Control-Request-Headers'')))" "name = trim_space part"
        using asked unfolding asked_names_def set_map by blast
      then obtain c where "c \<in> set names" "nc_allowedHeaders N (to_lower (ce_lower E) name) = Some c" using rq [THEN conjunct2, THEN conjunct2, rule_format, OF part(1)] by auto
      then show ?thesis using conf by blast
    qed
    have only: "\<exists>v \<in> set (cors_headers options). c = CanonicalHeaderKey v \<and> to_lower (ce_lower E) v \<in> to_lower (ce_lower E) ` set (asked_names q)" if listed: "c \<in> set names" for c
    proof -
      obtain part where part: "part \<in> set (concat (map (split_on (CHR '','')) (cq_Header q ''Access-Control-Request-Headers'')))"
          "nc_allowedHeaders N (to_lower (ce_lower E) (trim_space part)) = Some c"
        using rq listed by blast
      then have "trim_space part \<in> set (asked_names q)" by (auto simp: asked_names_def)
      with conf [OF part(2)] show ?thesis by (metis imageI)
    qed
    show ?thesis
      by (intro conjI exI [of _ 204] exI [of _ h] disjI2 exI [of _ origin] exI [of _ m] exI [of _ names])
        (use preflight h m all only in \<open>simp_all add: header_good_def\<close>)
  qed
qed


section \<open>Defaults\<close>

lemma ascii_token:
  assumes "\<forall>c \<in> set s. of_char c < (128::nat)"
  shows "validToken s \<longleftrightarrow> s \<noteq> [] \<and> list_all (\<lambda>c. 32 < (of_char c :: nat) \<and> of_char c < (127 :: nat) \<and>
      of_char c \<notin> set (map of_char (''()<>@,;:'' @ [CHR 0x5C, CHR 0x22] @ ''/[]?={}'' @ [CHR 0x09])  :: nat list)) s"
  unfolding validToken_def runes_ascii [OF assms] by (simp add: list_all_iff)

lemma ascii_upper:
  assumes "\<forall>c \<in> set s. of_char c < (97::nat)"
  shows "to_upper tbl s = s"
proof -
  have r: "runes s = map of_char s" using assms by (intro runes_ascii) auto
  have "map (\<lambda>r. encode_rune (upper_rune tbl r)) (map of_char s) = map (\<lambda>c. [c]) s"
    using assms by (auto simp: upper_rune_def encode_rune_def)
  then have "to_upper tbl s = concat (map (\<lambda>c. [c]) s)" unfolding to_upper_def r by (rule arg_cong)
  then show ?thesis by simp
qed

text \<open>The default middleware can always be made: its options are valid, so that \<open>CORS\<close> does not panic.\<close>

theorem default_cors_exists: "\<exists>serve. CORS E W = Some serve"
proof -
  have "\<not> bad_method E m" if "m \<in> set defaultCORSMethods" for m
    using that by (auto simp: defaultCORSMethods_def bad_method_def ascii_token ascii_upper)
  then have methods: "List.find (bad_method E) defaultCORSMethods = None" by (auto simp: find_None_iff)
  have "\<not> bad_header v" if "v \<in> set defaultCORSHeaders \<union> set defaultCORSExposedHeaders" for v
    using that by (auto simp: defaultCORSHeaders_def defaultCORSExposedHeaders_def bad_header_def ascii_token trim_space_ascii_id)
  then obtain a b where "add_header_names E (\<lambda>_. None) defaultCORSHeaders = Inr a" "add_header_names E (\<lambda>_. None) defaultCORSExposedHeaders = Inr b"
    by (simp add: defaultCORSHeaders_def defaultCORSExposedHeaders_def)
  then show ?thesis using methods
    by (auto simp: CORS_def NewCORS_def normalizeCORSOptions_def normalizedHeaderList_def normalizeHeaderNames_def Let_def split: sum.splits)
qed

section \<open>Witnesses\<close>

definition ref_writer :: "(header_map \<times> nat \<times> (nat \<times> header_map) option) gin_writer" where
  "ref_writer = (let now = (\<lambda>(h, s, sent). (h, s, case sent of None \<Rightarrow> Some (s, h) | Some x \<Rightarrow> Some x))
     in \<lparr>gw_headers = fst, gw_Status = fst \<circ> snd, gw_sent = snd \<circ> snd, gw_edit = (\<lambda>f (h, s, sent). (f h, s, sent)),
         gw_WriteHeader = (\<lambda>status (h, s, sent). (h, if sent = None then status else s, sent)), gw_WriteHeaderNow = now,
         gw_Write = (\<lambda>d w. ((length d, False), now w)), gw_WriteString = (\<lambda>d w. ((length d, False), now w)), gw_Flush = now\<rparr>)"

lemma ref_writer_ok: "writer_ok ref_writer"
  by (auto simp: writer_ok_def sends_def ref_writer_def Let_def split: option.splits)

definition plain_web :: cors_env where
  "plain_web = \<lparr>ce_url = (\<lambda>s. Some \<lparr>pu_Scheme = ''http'', pu_Opaque = [], pu_User = False, pu_Host = drop 7 s, pu_Path = [], pu_RawPath = [], pu_RawQuery = [],
     pu_ForceQuery = False, pu_Fragment = []\<rparr>), ce_ip = (\<lambda>_. None), ce_lower = id, ce_upper = id\<rparr>"

definition site_request :: "string \<Rightarrow> (string \<times> string) list \<Rightarrow> cors_request" where
  "site_request m hs = \<lparr>cq_Method = m, cq_Host = ''site'', cq_TLS = False, cq_Header = (\<lambda>k. map snd (filter (\<lambda>h. fst h = k) hs))\<rparr>"

lemma site_text: "plain_text ''site''" "plain_text ''http://site''"
  by (simp_all add: plain_text_def)

lemma site_host: "validateCanonicalHost plain_web ''site''"
  by (simp add: validateCanonicalHost_def plain_text_simps [OF site_text(1)] plain_web_def split_host_port_def has_suffix_def has_prefix_def trim_cutset_def
      trim_both_def validateDNSName_def dns_label_def canonical_port_def)

lemma site_origin: "canonicalOrigin plain_web ''http://site'' = Inr ''http://site''"
  using site_host by (simp add: canonicalOrigin_def plain_text_simps(1) [OF site_text(2)]) (simp add: plain_web_def)

definition site_options :: cors_options where
  "site_options = \<lparr>co_AllowedOrigins = [], co_AllowedMethods = [''GET''], co_AllowedHeaders = [''Accept''], co_ExposedHeaders = [''Etag''], co_ExternalOrigin = []\<rparr>"

lemma site_served: "\<exists>serve. NewCORS plain_web ref_writer site_options = Inr serve"
proof -
  have "\<not> bad_method plain_web ''GET''" "\<not> bad_header ''Accept''" "\<not> bad_header ''Etag''"
    by (simp_all add: bad_method_def bad_header_def ascii_token ascii_upper trim_space_ascii_id)
  then show ?thesis
    by (simp add: NewCORS_def normalizeCORSOptions_def site_options_def normalizedHeaderList_def normalizeHeaderNames_def)
qed

theorem only_checked_origins_witness:
  "\<exists>serve cw went status h. NewCORS plain_web ref_writer site_options = Inr serve \<and>
     serve (site_request ''GET'' [(''Origin'', ''http://site'')]) [EditHeaders (\<lambda>h. h(''Access-Control-Allow-Origin'' := [''*''])), CallWrite ''x''] ((\<lambda>_. []), 200, None) = (cw, went) \<and>
     gw_sent ref_writer (gw_WriteHeaderNow ref_writer (cw_inner cw)) = Some (status, h) \<and> h ''Access-Control-Allow-Origin'' \<noteq> [''*'']"
proof -
  let ?w = "((\<lambda>_. []), 200, None) :: header_map \<times> nat \<times> (nat \<times> header_map) option"
  let ?q = "site_request ''GET'' [(''Origin'', ''http://site'')]" and ?acts = "[EditHeaders (\<lambda>h. h(''Access-Control-Allow-Origin'' := [''*''])), CallWrite ''x'']"
  obtain serve where s: "NewCORS plain_web ref_writer site_options = Inr serve" using site_served by blast
  obtain cw went where c: "serve ?q ?acts ?w = (cw, went)" by (meson surj_pair)
  obtain status h where h: "gw_sent ref_writer (gw_WriteHeaderNow ref_writer (cw_inner cw)) = Some (status, h)"
    using now_laws [OF ref_writer_ok, of "cw_inner cw"] by (cases "gw_sent ref_writer (cw_inner cw)") auto
  have none: "gw_sent ref_writer ?w = None" by (simp add: ref_writer_def Let_def)
  obtain origin where "h ''Access-Control-Allow-Origin'' = (if origin = [] then [] else [origin])" "origin \<noteq> [] \<longrightarrow> origin_allowed site_options ?q origin"
    using only_checked_origins [OF ref_writer_ok none s c h] by blast
  then have "h ''Access-Control-Allow-Origin'' \<noteq> [''*'']" by (auto simp: origin_allowed_def site_request_def)
  with s c h show ?thesis by blast
qed

theorem preflight_answers_witness:
  "\<exists>serve cw went h. NewCORS plain_web ref_writer site_options = Inr serve \<and>
     serve (site_request ''OPTIONS'' [(''Origin'', ''http://site''), (''Access-Control-Request-Method'', ''GET'')]) [] ((\<lambda>_. []), 200, None) = (cw, went) \<and>
     \<not> went \<and> answered ref_writer cw 204 h \<and> h ''Access-Control-Allow-Methods'' = [''GET'']"
proof -
  let ?w = "((\<lambda>_. []), 200, None) :: header_map \<times> nat \<times> (nat \<times> header_map) option"
  let ?q = "site_request ''OPTIONS'' [(''Origin'', ''http://site''), (''Access-Control-Request-Method'', ''GET'')]"
  obtain serve where s: "NewCORS plain_web ref_writer site_options = Inr serve" using site_served by blast
  then obtain N where N: "normalizeCORSOptions plain_web site_options = Inr N" "serve = cors_handle plain_web ref_writer N" by (auto simp: NewCORS_def split: sum.splits)
  have none: "gw_sent ref_writer ?w = None" by (simp add: ref_writer_def Let_def)
  have q: "isCORSPreflight ?q" "cq_Header ?q ''Origin'' \<noteq> []" by (simp_all add: isCORSPreflight_def site_request_def)
  have "allows plain_web N ?q ''http://site'' = (True, True)"
    using site_host normalized_options(2) [OF N(1)] by (simp add: allows_def site_request_def site_options_def)
  moreover have "validatePreflight plain_web N ?q = Some (''GET'', [])" using normalized_options(3) [OF N(1)]
    by (simp add: validatePreflight_def site_request_def site_options_def cors_methods_def requestedHeaderNames_def ascii_token ascii_upper)
  ultimately obtain cw where c: "serve ?q [] ?w = (cw, False)"
      "cw = abort_with plain_web ref_writer 204 (grant_preflight plain_web ref_writer ''http://site'' (nc_exposedHeaders N) ''GET'' [] \<lparr>cw_inner = ?w, cw_origin = [], cw_exposed = []\<rparr>)"
    using site_origin q(1) unfolding N(2) by (simp add: cors_handle_def Let_def site_request_def)
  obtain h0 where h0: "answered ref_writer cw 204 h0" using preflight_answer [OF ref_writer_ok none] c(2) by blast
  obtain status h where "answered ref_writer cw status h"
      "status = 403 \<or> status = 204 \<and> (\<exists>m. cq_Header ?q ''Access-Control-Request-Method'' = [m] \<and> h ''Access-Control-Allow-Methods'' = [m])"
    using preflight_answers [OF ref_writer_ok none s q c(1)] by blast
  moreover have "status = 204" "h0 = h" using h0 calculation(1) by (simp_all add: answered_def)
  ultimately show ?thesis using s c(1) h0 by (auto simp: site_request_def)
qed

end
