(* ===== verification/Directory_Wire.thy ===== *)
theory Directory_Wire
  imports Request_Context Go_Json "HOL-Library.List_Lexorder" "HOL-Library.Char_ord"
begin

text \<open>
  Package \<open>logtodirectory\<close>, data (\<open>types.go\<close>, the wire types of \<open>validate.go\<close> and the checks of single values in \<open>client.go\<close>):
  errors, configuration, organizations, members and departments, and how the documents of the provider are decoded. Strings are
  compared byte by byte, as Go does. \<open>url.Parse\<close>, \<open>mime.ParseMediaType\<close>, the texts of JSON documents and the folding of their
  names are parameters (\<open>dir_env\<close>).
\<close>

section \<open>Errors\<close>

datatype dir_sentinel = DirDenied | DirOrganizationDenied | DirUnavailable | DirProtocol | DirUnexpectedStatus | DirCanceled | DirDeadline

type_synonym derror = "dir_sentinel go_error"

definition ErrDenied :: derror where "ErrDenied = GoError ''logtodirectory: denied'' [DirDenied]"

definition ErrOrganizationDenied :: derror where
  "ErrOrganizationDenied = GoError (error_text ErrDenied @ '': organization access denied'') (DirOrganizationDenied # error_chain ErrDenied)"

definition ErrUnavailable :: derror where "ErrUnavailable = GoError ''logtodirectory: unavailable'' [DirUnavailable]"
definition ErrProtocol :: derror where "ErrProtocol = GoError ''logtodirectory: protocol violation'' [DirProtocol]"

definition ErrUnexpectedStatus :: derror where
  "ErrUnexpectedStatus = GoError (error_text ErrProtocol @ '': unexpected HTTP status'') (DirUnexpectedStatus # error_chain ErrProtocol)"

lemmas dir_errors = ErrDenied_def ErrOrganizationDenied_def ErrUnavailable_def ErrProtocol_def ErrUnexpectedStatus_def

fun ctx_derror :: "ctx_err \<Rightarrow> derror" where
  "ctx_derror Canceled = GoError ''context canceled'' [DirCanceled]"
| "ctx_derror DeadlineExceeded = GoError ''context deadline exceeded'' [DirDeadline]"

definition wrapContextFailure :: "ctx_err \<Rightarrow> derror" where
  "wrapContextFailure cause = errorf_ww ErrUnavailable (ctx_derror cause)"

section \<open>Data\<close>

record dir_config =
  dg_Endpoint :: string
  dg_ClientID :: string
  dg_ClientSecret :: string
  dg_Resource :: string
  dg_Timeout :: duration

record dir_options =
  IncludeDepartments :: bool
  IncludeMembershipEpoch :: bool

record dir_organization =
  dorg_ID :: string
  dorg_Name :: string

record dir_member =
  dm_UserID :: string
  dm_Name :: string
  dm_AvatarURL :: string
  dm_Permissions :: "string list"
  dm_DepartmentIDs :: "string list"
  dm_IsCompanyOwner :: bool
  dm_MembershipEpoch :: string

record department =
  dp_ID :: string
  dp_Name :: string
  dp_ParentID :: "string option"

record snapshot =
  sn_Organization :: dir_organization
  sn_Members :: "dir_member list"
  sn_Departments :: "department list"

text \<open>What the package reads of a parsed URL; \<open>du_String\<close> is its \<open>String\<close>.\<close>

record dir_url =
  du_Scheme :: string
  du_Host :: string
  du_User :: bool
  du_Path :: string
  du_RawQuery :: string
  du_ForceQuery :: bool
  du_Fragment :: string
  du_String :: string

record dir_env =
  de_url :: "string \<Rightarrow> dir_url option"
  de_media :: "string \<Rightarrow> string option"
  de_json :: "string \<Rightarrow> json_doc option"
  de_fold :: "string \<Rightarrow> string"
  de_marshal :: "json \<Rightarrow> string option"

section \<open>Bounds\<close>

definition maxOrganizationIDRunes :: nat where "maxOrganizationIDRunes = 21"
definition maxOrganizationQueryRunes :: nat where "maxOrganizationQueryRunes = 128"
definition maxMemberIDRunes :: nat where "maxMemberIDRunes = 128"
definition maxDepartmentIDRunes :: nat where "maxDepartmentIDRunes = 21"
definition maxPermissionRunes :: nat where "maxPermissionRunes = 256"
definition maxClientIDRunes :: nat where "maxClientIDRunes = 128"
definition maxSecretBytes :: nat where "maxSecretBytes = 4096"
definition maxTokenRunes :: nat where "maxTokenRunes = 32768"
definition maxMembers :: nat where "maxMembers = 256"
definition maxOrganizations :: nat where "maxOrganizations = 100"
definition maxDepartments :: nat where "maxDepartments = 1000"
definition maxDirectDepartments :: nat where "maxDirectDepartments = 100"
definition maxPermissions :: nat where "maxPermissions = 32"

section \<open>Single values\<close>

definition canonicalValue :: "string \<Rightarrow> nat \<Rightarrow> bool" where
  "canonicalValue value limit =
     (if value = [] \<or> \<not> valid_utf8 value \<or> rune_count value > limit \<or> trim_space value \<noteq> value then False
      else \<not> list_ex is_control (runes value))"

definition displayValue :: "string \<Rightarrow> nat \<Rightarrow> bool \<Rightarrow> bool" where
  "displayValue value limit allowEmpty =
     (if value = [] then allowEmpty
      else if \<not> valid_utf8 value \<or> rune_count value > limit then False
      else \<not> list_ex (\<lambda>r. is_control r \<and> r \<noteq> 9) (runes value))"

definition validSecret :: "string \<Rightarrow> bool" where
  "validSecret value =
     (if value = [] \<or> length value > maxSecretBytes \<or> \<not> valid_utf8 value then False else \<not> list_ex is_control (runes value))"

definition validResource :: "dir_env \<Rightarrow> string \<Rightarrow> bool" where
  "validResource E value =
     (if length value > 2048 then False
      else case de_url E value of None \<Rightarrow> False
      | Some u \<Rightarrow> du_Scheme u = ''https'' \<and> du_Host u \<noteq> [] \<and> \<not> du_User u \<and> du_RawQuery u = [] \<and> du_Fragment u = [] \<and> du_String u = value)"

definition dir_validOrigin :: "dir_env \<Rightarrow> string \<Rightarrow> bool \<Rightarrow> bool" where
  "dir_validOrigin E value allowPlainHTTP =
     (case de_url E value of None \<Rightarrow> False
      | Some u \<Rightarrow>
         if du_Host u = [] \<or> du_User u \<or> du_Path u \<noteq> [] \<or> du_RawQuery u \<noteq> [] \<or> du_ForceQuery u \<or> du_Fragment u \<noteq> [] \<or> du_String u \<noteq> value
         then False else du_Scheme u = ''https'' \<or> allowPlainHTTP \<and> du_Scheme u = ''http'')"

definition validOrganizationName :: "string \<Rightarrow> bool" where
  "validOrganizationName value \<longleftrightarrow> value \<noteq> [] \<and> valid_utf8 value \<and> rune_count value \<le> 128"

definition validOrganizationQuery :: "string \<Rightarrow> bool" where
  "validOrganizationQuery value =
     (if \<not> valid_utf8 value \<or> rune_count value > maxOrganizationQueryRunes then False else \<not> list_ex is_control (runes value))"

definition validOrganizationID :: "string \<Rightarrow> bool" where
  "validOrganizationID value =
     (if value = [] \<or> \<not> valid_utf8 value \<or> rune_count value > maxOrganizationIDRunes then False
      else \<not> list_ex (\<lambda>r. is_space r \<or> is_control r \<or> r = 65279) (runes value))"

definition validAvatar :: "dir_env \<Rightarrow> string \<Rightarrow> bool" where
  "validAvatar E value =
     (if value = [] then True
      else if length value > 2048 then False
      else case de_url E value of None \<Rightarrow> False
      | Some u \<Rightarrow> du_Scheme u = ''https'' \<and> du_Host u \<noteq> [] \<and> \<not> du_User u \<and> du_Fragment u = [])"

definition canonicalPositiveInt64 :: "string \<Rightarrow> bool" where
  "canonicalPositiveInt64 value =
     (if value = [] \<or> hd value = CHR ''0'' then False
      else if list_ex (\<lambda>r. r < 48 \<or> r > 57) (runes value) then False
      else parse_int value \<noteq> None)"

section \<open>Decoding\<close>

text \<open>
  Members of an object go to the field whose name is equal after folding, an unknown name is an error, a later member overrides
  an earlier one. \<open>null\<close> makes a pointer nil and leaves a struct as it is. A \<open>RawMessage\<close> is the value itself, \<open>None\<close> when there is
  none.
\<close>

fun decode_members :: "(string \<Rightarrow> json \<Rightarrow> 'w \<Rightarrow> 'w option) \<Rightarrow> (string \<times> json) list \<Rightarrow> 'w \<Rightarrow> 'w option" where
  "decode_members field [] w = Some w"
| "decode_members field ((name, v) # ms) w = (case field name v w of None \<Rightarrow> None | Some w' \<Rightarrow> decode_members field ms w')"

fun decode_struct :: "(string \<Rightarrow> json \<Rightarrow> 'w \<Rightarrow> 'w option) \<Rightarrow> json \<Rightarrow> 'w \<Rightarrow> 'w option" where
  "decode_struct field (JObject ms) w = decode_members field ms w"
| "decode_struct field JNull w = Some w"
| "decode_struct field _ w = None"

fun decode_bool :: "json \<Rightarrow> bool option option" where
  "decode_bool JNull = Some None"
| "decode_bool (JBool b) = Some (Some b)"
| "decode_bool _ = None"

fun array_string :: "json \<Rightarrow> string option" where
  "array_string (JString s) = Some s"
| "array_string JNull = Some []"
| "array_string _ = None"

fun strictStrings :: "json \<Rightarrow> string list option" where
  "strictStrings (JArray vs) = those (map array_string vs)"
| "strictStrings _ = None"

record wire_organization =
  wo_ID :: "string option"
  wo_Name :: "string option"

record wire_member =
  wm_UserID :: "string option"
  wm_Name :: "string option"
  wm_AvatarURL :: "string option"
  wm_Permissions :: "string list option"
  wm_DepartmentIDs :: "string list option"
  wm_IsCompanyOwner :: "bool option"
  wm_MembershipEpoch :: "json option"

record wire_department =
  wd_ID :: "string option"
  wd_Name :: "string option"
  wd_ParentID :: "string option"

definition organization_field :: "dir_env \<Rightarrow> string \<Rightarrow> json \<Rightarrow> wire_organization \<Rightarrow> wire_organization option" where
  "organization_field E name v w =
     (if de_fold E name = de_fold E ''id'' then map_option (\<lambda>x. w\<lparr>wo_ID := x\<rparr>) (decode_string v)
      else if de_fold E name = de_fold E ''name'' then map_option (\<lambda>x. w\<lparr>wo_Name := x\<rparr>) (decode_string v)
      else None)"

definition member_field :: "dir_env \<Rightarrow> string \<Rightarrow> json \<Rightarrow> wire_member \<Rightarrow> wire_member option" where
  "member_field E name v w =
     (if de_fold E name = de_fold E ''user_id'' then map_option (\<lambda>x. w\<lparr>wm_UserID := x\<rparr>) (decode_string v)
      else if de_fold E name = de_fold E ''name'' then map_option (\<lambda>x. w\<lparr>wm_Name := x\<rparr>) (decode_string v)
      else if de_fold E name = de_fold E ''avatar_url'' then map_option (\<lambda>x. w\<lparr>wm_AvatarURL := x\<rparr>) (decode_string v)
      else if de_fold E name = de_fold E ''permissions'' then map_option (\<lambda>x. w\<lparr>wm_Permissions := Some x\<rparr>) (strictStrings v)
      else if de_fold E name = de_fold E ''department_ids'' then map_option (\<lambda>x. w\<lparr>wm_DepartmentIDs := Some x\<rparr>) (strictStrings v)
      else if de_fold E name = de_fold E ''is_company_owner'' then map_option (\<lambda>x. w\<lparr>wm_IsCompanyOwner := x\<rparr>) (decode_bool v)
      else if de_fold E name = de_fold E ''membership_epoch'' then Some (w\<lparr>wm_MembershipEpoch := Some v\<rparr>)
      else None)"

definition department_field :: "dir_env \<Rightarrow> string \<Rightarrow> json \<Rightarrow> wire_department \<Rightarrow> wire_department option" where
  "department_field E name v w =
     (if de_fold E name = de_fold E ''id'' then map_option (\<lambda>x. w\<lparr>wd_ID := x\<rparr>) (decode_string v)
      else if de_fold E name = de_fold E ''name'' then map_option (\<lambda>x. w\<lparr>wd_Name := x\<rparr>) (decode_string v)
      else if de_fold E name = de_fold E ''parent_id'' then map_option (\<lambda>x. w\<lparr>wd_ParentID := x\<rparr>) (decode_string v)
      else None)"

definition empty_wire_organization :: wire_organization where "empty_wire_organization = \<lparr>wo_ID = None, wo_Name = None\<rparr>"

definition empty_wire_member :: wire_member where
  "empty_wire_member = \<lparr>wm_UserID = None, wm_Name = None, wm_AvatarURL = None, wm_Permissions = None, wm_DepartmentIDs = None,
     wm_IsCompanyOwner = None, wm_MembershipEpoch = None\<rparr>"

definition empty_wire_department :: wire_department where "empty_wire_department = \<lparr>wd_ID = None, wd_Name = None, wd_ParentID = None\<rparr>"

text \<open>An array whose elements are objects, each decoded into a fresh value; \<open>null\<close> is no object.\<close>

fun strict_object :: "(string \<Rightarrow> json \<Rightarrow> 'w \<Rightarrow> 'w option) \<Rightarrow> 'w \<Rightarrow> json \<Rightarrow> 'w option" where
  "strict_object field w (JObject ms) = decode_members field ms w"
| "strict_object field w _ = None"

fun strictMembers :: "dir_env \<Rightarrow> json \<Rightarrow> wire_member list option" where
  "strictMembers E (JArray vs) = those (map (strict_object (member_field E) empty_wire_member) vs)"
| "strictMembers E _ = None"

fun strictDepartments :: "dir_env \<Rightarrow> json \<Rightarrow> wire_department list option" where
  "strictDepartments E (JArray vs) = those (map (strict_object (department_field E) empty_wire_department) vs)"
| "strictDepartments E _ = None"

record wire_snapshot =
  ws_Organization :: "wire_organization option"
  ws_Members :: "wire_member list option"
  ws_Departments :: "wire_department list option"

record wire_list_page = wire_snapshot +
  ws_NextCursor :: "json option"

text \<open>A pointer to a struct: \<open>null\<close> makes it nil, an object goes into the struct that is there or into a new one.\<close>

fun organization_pointer :: "dir_env \<Rightarrow> json \<Rightarrow> wire_organization option \<Rightarrow> wire_organization option option" where
  "organization_pointer E JNull p = Some None"
| "organization_pointer E v p =
     map_option Some (decode_struct (organization_field E) v (case p of None \<Rightarrow> empty_wire_organization | Some w \<Rightarrow> w))"

definition snapshot_field :: "dir_env \<Rightarrow> string \<Rightarrow> json \<Rightarrow> 'a wire_snapshot_scheme \<Rightarrow> 'a wire_snapshot_scheme option" where
  "snapshot_field E name v w =
     (if de_fold E name = de_fold E ''organization'' then map_option (\<lambda>x. w\<lparr>ws_Organization := x\<rparr>) (organization_pointer E v (ws_Organization w))
      else if de_fold E name = de_fold E ''members'' then map_option (\<lambda>x. w\<lparr>ws_Members := Some x\<rparr>) (strictMembers E v)
      else if de_fold E name = de_fold E ''departments'' then map_option (\<lambda>x. w\<lparr>ws_Departments := Some x\<rparr>) (strictDepartments E v)
      else None)"

definition list_page_field :: "dir_env \<Rightarrow> string \<Rightarrow> json \<Rightarrow> wire_list_page \<Rightarrow> wire_list_page option" where
  "list_page_field E name v w =
     (if de_fold E name = de_fold E ''next_cursor'' then Some (w\<lparr>ws_NextCursor := Some v\<rparr>) else snapshot_field E name v w)"

definition list_page_snapshot :: "wire_list_page \<Rightarrow> wire_snapshot" where
  "list_page_snapshot response =
     \<lparr>ws_Organization = ws_Organization response, ws_Members = ws_Members response, ws_Departments = ws_Departments response\<rparr>"

text \<open>
  \<open>Organizations\<close> is a plain slice: a repeated member decodes into the elements that are there, also into those behind the
  end of the slice (\<open>wx_Stored\<close> are the elements of its array), and an empty array starts a new one.
\<close>

record wire_organization_search =
  wx_Organizations :: "wire_organization list option"
  wx_Stored :: "wire_organization list"
  wx_NextCursor :: "json option"

fun decode_elements :: "dir_env \<Rightarrow> json list \<Rightarrow> wire_organization list \<Rightarrow> wire_organization list option" where
  "decode_elements E [] old = Some []"
| "decode_elements E (v # vs) old =
     (case decode_struct (organization_field E) v (case old of [] \<Rightarrow> empty_wire_organization | w # _ \<Rightarrow> w) of
        None \<Rightarrow> None
      | Some w \<Rightarrow> map_option (\<lambda>ws. w # ws) (decode_elements E vs (drop 1 old)))"

fun decode_slice :: "dir_env \<Rightarrow> json \<Rightarrow> wire_organization_search \<Rightarrow> wire_organization_search option" where
  "decode_slice E JNull w = Some (w\<lparr>wx_Organizations := None, wx_Stored := []\<rparr>)"
| "decode_slice E (JArray vs) w =
     (case decode_elements E vs (wx_Stored w) of None \<Rightarrow> None
      | Some ws \<Rightarrow> Some (w\<lparr>wx_Organizations := Some ws, wx_Stored := (if vs = [] then [] else ws @ drop (length ws) (wx_Stored w))\<rparr>))"
| "decode_slice E _ w = None"

definition search_field :: "dir_env \<Rightarrow> string \<Rightarrow> json \<Rightarrow> wire_organization_search \<Rightarrow> wire_organization_search option" where
  "search_field E name v w =
     (if de_fold E name = de_fold E ''organizations'' then decode_slice E v w
      else if de_fold E name = de_fold E ''next_cursor'' then Some (w\<lparr>wx_NextCursor := Some v\<rparr>)
      else None)"

record token_response =
  tr_AccessToken :: "string option"
  tr_TokenType :: "string option"
  tr_ExpiresIn :: "int option"
  tr_Scope :: "json option"

definition token_field :: "dir_env \<Rightarrow> string \<Rightarrow> json \<Rightarrow> token_response \<Rightarrow> token_response option" where
  "token_field E name v w =
     (if de_fold E name = de_fold E ''access_token'' then map_option (\<lambda>x. w\<lparr>tr_AccessToken := x\<rparr>) (decode_string v)
      else if de_fold E name = de_fold E ''token_type'' then map_option (\<lambda>x. w\<lparr>tr_TokenType := x\<rparr>) (decode_string v)
      else if de_fold E name = de_fold E ''expires_in'' then map_option (\<lambda>x. w\<lparr>tr_ExpiresIn := x\<rparr>) (decode_int64 v)
      else if de_fold E name = de_fold E ''scope'' then Some (w\<lparr>tr_Scope := Some v\<rparr>)
      else None)"

definition strictJSON :: "dir_env \<Rightarrow> (string \<Rightarrow> json \<Rightarrow> 'w \<Rightarrow> 'w option) \<Rightarrow> 'w \<Rightarrow> string \<Rightarrow> 'w option" where
  "strictJSON E field target document =
     (if \<not> valid_utf8 document then None
      else case de_json E document of None \<Rightarrow> None
      | Some doc \<Rightarrow> (case decode_struct field (jd_value doc) target of None \<Rightarrow> None | Some w \<Rightarrow> if jd_end doc then Some w else None))"

section \<open>Optional values\<close>

definition parseMembershipEpoch :: "json option \<Rightarrow> bool \<Rightarrow> derror + string" where
  "parseMembershipEpoch raw requested =
     (case raw of None \<Rightarrow> if requested then Inl ErrProtocol else Inr []
      | Some v \<Rightarrow>
         if \<not> requested then Inl ErrProtocol
         else case v of JString value \<Rightarrow> if canonicalPositiveInt64 value then Inr value else Inl ErrProtocol | _ \<Rightarrow> Inl ErrProtocol)"

definition parseOptionalString :: "json option \<Rightarrow> derror + string" where
  "parseOptionalString raw = (case raw of None \<Rightarrow> Inr [] | Some (JString value) \<Rightarrow> Inr value | _ \<Rightarrow> Inl ErrProtocol)"

definition parseNextCursor :: "json option \<Rightarrow> derror + string option" where
  "parseNextCursor raw =
     (case raw of None \<Rightarrow> Inl ErrProtocol | Some JNull \<Rightarrow> Inr None
      | Some (JString cursor) \<Rightarrow> if canonicalValue cursor maxMemberIDRunes then Inr (Some cursor) else Inl ErrProtocol
      | _ \<Rightarrow> Inl ErrProtocol)"

definition parseOptionalOrganizationCursor :: "json option \<Rightarrow> derror + string option" where
  "parseOptionalOrganizationCursor raw =
     (case raw of None \<Rightarrow> Inr None
      | Some (JString cursor) \<Rightarrow> if validOrganizationID cursor then Inr (Some cursor) else Inl ErrProtocol
      | _ \<Rightarrow> Inl ErrProtocol)"

end
