(* ===== verification/Directory_Validate.thy ===== *)
theory Directory_Validate
  imports Directory_Wire
begin

text \<open>
  Package \<open>logtodirectory\<close>, validation of decoded answers (\<open>validate.go\<close>): snapshots with their members and department trees, and
  pages of organizations. Every refusal is the protocol error. The maps of the code with the names seen so far are lists here.
\<close>

section \<open>Members\<close>

record snapshot_validation =
  sv_organizationID :: string
  sv_requested :: "string list"
  sv_listMode :: bool
  sv_cursor :: string
  sv_limit :: int
  sv_options :: dir_options

text \<open>The loop over names that have to be canonical and may not be repeated.\<close>

fun unique_names :: "nat \<Rightarrow> string list \<Rightarrow> string list \<Rightarrow> bool" where
  "unique_names limit seen [] = True"
| "unique_names limit seen (x # xs) =
     (if \<not> canonicalValue x limit then False else if x \<in> set seen then False else unique_names limit (x # seen) xs)"

definition member_in_place :: "snapshot_validation \<Rightarrow> string \<Rightarrow> string \<Rightarrow> bool" where
  "member_in_place v previous userID =
     (if sv_listMode v
      then \<not> (sv_cursor v \<noteq> [] \<and> userID \<le> sv_cursor v) \<and> \<not> (previous \<noteq> [] \<and> userID \<le> previous)
      else userID \<in> set (sv_requested v))"

definition check_member :: "dir_env \<Rightarrow> snapshot_validation \<Rightarrow> string list \<Rightarrow> string \<Rightarrow> wire_member \<Rightarrow> dir_member option" where
  "check_member E v seen previous m =
     (case (wm_UserID m, wm_Name m, wm_AvatarURL m, wm_IsCompanyOwner m, wm_Permissions m, wm_DepartmentIDs m) of
        (Some userID, Some name, Some avatar, Some owner, Some permissions, Some departmentIDs) \<Rightarrow>
          if \<not> canonicalValue userID maxMemberIDRunes \<or> \<not> displayValue name 128 False \<or> \<not> validAvatar E avatar \<or>
             length permissions > maxPermissions \<or> length departmentIDs > maxDirectDepartments
          then None
          else if userID \<in> set seen then None
          else if \<not> member_in_place v previous userID then None
          else if \<not> unique_names maxPermissionRunes [] permissions then None
          else if \<not> unique_names maxDepartmentIDRunes [] departmentIDs then None
          else case parseMembershipEpoch (wm_MembershipEpoch m) (IncludeMembershipEpoch (sv_options v)) of
            Inl _ \<Rightarrow> None
          | Inr epoch \<Rightarrow>
             Some \<lparr>dm_UserID = userID, dm_Name = name, dm_AvatarURL = avatar, dm_Permissions = permissions, dm_DepartmentIDs = departmentIDs,
                   dm_IsCompanyOwner = owner, dm_MembershipEpoch = epoch\<rparr>
      | _ \<Rightarrow> None)"

fun check_members :: "dir_env \<Rightarrow> snapshot_validation \<Rightarrow> string list \<Rightarrow> string \<Rightarrow> wire_member list \<Rightarrow> dir_member list option" where
  "check_members E v seen previous [] = Some []"
| "check_members E v seen previous (m # ms) =
     (case check_member E v seen previous m of None \<Rightarrow> None
      | Some x \<Rightarrow>
         map_option (\<lambda>xs. x # xs)
           (check_members E v (dm_UserID x # seen) (if sv_listMode v then dm_UserID x else previous) ms))"

section \<open>Departments\<close>

fun check_departments :: "string list \<Rightarrow> wire_department list \<Rightarrow> department list option" where
  "check_departments seen [] = Some []"
| "check_departments seen (d # ds) =
     (case (wd_ID d, wd_Name d) of
        (Some i, Some name) \<Rightarrow>
          if \<not> canonicalValue i maxDepartmentIDRunes \<or> \<not> displayValue name 128 False then None
          else if i \<in> set seen then None
          else map_option (\<lambda>xs. \<lparr>dp_ID = i, dp_Name = name, dp_ParentID = wd_ParentID d\<rparr> # xs) (check_departments (i # seen) ds)
      | _ \<Rightarrow> None)"

text \<open>\<open>byID\<close>: identifiers are distinct when it is built.\<close>

definition by_id :: "department list \<Rightarrow> string \<Rightarrow> department option" where
  "by_id departments i = List.find (\<lambda>d. dp_ID d = i) departments"

definition parent_ok :: "department list \<Rightarrow> department \<Rightarrow> bool" where
  "parent_ok departments d =
     (case dp_ParentID d of None \<Rightarrow> True
      | Some p \<Rightarrow>
         if \<not> canonicalValue p maxDepartmentIDRunes \<or> p = dp_ID d then False else by_id departments p \<noteq> None)"

lemma by_id_Some: "by_id departments i = Some d \<Longrightarrow> d \<in> set departments \<and> dp_ID d = i"
  by (auto simp: by_id_def find_Some_iff)

text \<open>The walk from a department to its root; it ends because it visits no department twice.\<close>

function walk_to_root :: "department list \<Rightarrow> string list \<Rightarrow> string \<Rightarrow> bool" where
  "walk_to_root departments visited current =
     (if current \<in> set visited then False
      else case by_id departments current of
        None \<Rightarrow> False
      | Some d \<Rightarrow> (case dp_ParentID d of None \<Rightarrow> True | Some p \<Rightarrow> walk_to_root departments (current # visited) p))"
  by pat_completeness auto

termination
proof (relation "measure (\<lambda>(departments, visited, _). card (dp_ID ` set departments - set visited))")
  fix departments visited current d p
  assume "current \<notin> set visited" and "by_id departments current = Some d" and "dp_ParentID d = Some p"
  then have "dp_ID ` set departments - set (current # visited) \<subset> dp_ID ` set departments - set visited"
    using by_id_Some by fastforce
  then show "((departments, current # visited, p), (departments, visited, current)) \<in> measure (\<lambda>(departments, visited, _). card (dp_ID ` set departments - set visited))"
    by (simp add: psubset_card_mono)
qed simp

declare walk_to_root.simps [simp del]

definition trees_ok :: "department list \<Rightarrow> bool" where
  "trees_ok departments \<longleftrightarrow> list_all (\<lambda>d. walk_to_root departments [] (dp_ID d)) departments"

section \<open>Snapshots\<close>

definition organization_ok :: "snapshot_validation \<Rightarrow> wire_organization option \<Rightarrow> dir_organization option" where
  "organization_ok v o1 =
     (case o1 of None \<Rightarrow> None
      | Some w \<Rightarrow>
         (case (wo_ID w, wo_Name w) of
            (Some i, Some name) \<Rightarrow> if i \<noteq> sv_organizationID v \<or> \<not> displayValue name 128 False then None else Some \<lparr>dorg_ID = i, dorg_Name = name\<rparr>
          | _ \<Rightarrow> None))"

definition validateSnapshot :: "dir_env \<Rightarrow> wire_snapshot \<Rightarrow> snapshot_validation \<Rightarrow> derror + snapshot" where
  "validateSnapshot E response v =
     (case (organization_ok v (ws_Organization response), ws_Members response, ws_Departments response) of
        (Some organization, Some wms, Some wds) \<Rightarrow>
          if length wms > maxMembers \<or> sv_listMode v \<and> int (length wms) > sv_limit v then Inl ErrProtocol
          else (case check_members E v [] [] wms of None \<Rightarrow> Inl ErrProtocol
          | Some members \<Rightarrow>
             if \<not> IncludeDepartments (sv_options v) \<and> wds \<noteq> [] then Inl ErrProtocol
             else if length wds > maxDepartments then Inl ErrProtocol
             else case check_departments [] wds of None \<Rightarrow> Inl ErrProtocol
             | Some departments \<Rightarrow>
                if \<not> list_all (parent_ok departments) departments then Inl ErrProtocol
                else if IncludeDepartments (sv_options v) \<and>
                        \<not> list_all (\<lambda>m. list_all (\<lambda>i. by_id departments i \<noteq> None) (dm_DepartmentIDs m)) members then Inl ErrProtocol
                else if \<not> trees_ok departments then Inl ErrProtocol
                else Inr \<lparr>sn_Organization = organization, sn_Members = members, sn_Departments = departments\<rparr>)
      | _ \<Rightarrow> Inl ErrProtocol)"

section \<open>Pages of organizations\<close>

fun check_organizations :: "string \<Rightarrow> string list \<Rightarrow> string \<Rightarrow> wire_organization list \<Rightarrow> dir_organization list option" where
  "check_organizations cursor seen previous [] = Some []"
| "check_organizations cursor seen previous (w # ws) =
     (case (wo_ID w, wo_Name w) of
        (Some i, Some name) \<Rightarrow>
          if \<not> validOrganizationID i \<or> \<not> validOrganizationName name then None
          else if i \<in> set seen \<or> previous \<noteq> [] \<and> i \<le> previous \<or> cursor \<noteq> [] \<and> i \<le> cursor then None
          else map_option (\<lambda>xs. \<lparr>dorg_ID = i, dorg_Name = name\<rparr> # xs) (check_organizations cursor (i # seen) i ws)
      | _ \<Rightarrow> None)"

definition validateOrganizationSearch ::
  "wire_organization list option \<Rightarrow> string \<Rightarrow> string option \<Rightarrow> int \<Rightarrow> derror + dir_organization list" where
  "validateOrganizationSearch organizations cursor nextCursor limit =
     (case organizations of None \<Rightarrow> Inl ErrProtocol
      | Some ws \<Rightarrow>
         if length ws > maxOrganizations \<or> int (length ws) > limit then Inl ErrProtocol
         else case check_organizations cursor [] [] ws of None \<Rightarrow> Inl ErrProtocol
         | Some validated \<Rightarrow>
            (case nextCursor of None \<Rightarrow> Inr validated
             | Some c \<Rightarrow> if validated = [] \<or> c < dorg_ID (last validated) then Inl ErrProtocol else Inr validated))"

section \<open>Lemmas\<close>

lemma unique_names_iff:
  "unique_names limit seen xs \<longleftrightarrow> distinct xs \<and> set xs \<inter> set seen = {} \<and> (\<forall>x \<in> set xs. canonicalValue x limit)"
  by (induction limit seen xs rule: unique_names.induct) auto

text \<open>What is true of a member that is accepted.\<close>

definition member_valid :: "dir_env \<Rightarrow> dir_options \<Rightarrow> dir_member \<Rightarrow> bool" where
  "member_valid E opts m \<longleftrightarrow>
     canonicalValue (dm_UserID m) maxMemberIDRunes \<and> displayValue (dm_Name m) 128 False \<and> validAvatar E (dm_AvatarURL m) \<and>
     length (dm_Permissions m) \<le> maxPermissions \<and> distinct (dm_Permissions m) \<and> (\<forall>p \<in> set (dm_Permissions m). canonicalValue p maxPermissionRunes) \<and>
     length (dm_DepartmentIDs m) \<le> maxDirectDepartments \<and> distinct (dm_DepartmentIDs m) \<and>
     (\<forall>i \<in> set (dm_DepartmentIDs m). canonicalValue i maxDepartmentIDRunes) \<and>
     (if IncludeMembershipEpoch opts then canonicalPositiveInt64 (dm_MembershipEpoch m) else dm_MembershipEpoch m = [])"

lemma parseMembershipEpoch_ok:
  "parseMembershipEpoch raw requested = Inr epoch \<Longrightarrow> if requested then canonicalPositiveInt64 epoch else epoch = []"
  by (auto simp: parseMembershipEpoch_def split: option.splits if_splits json.splits)

lemma check_member_ok:
  assumes "check_member E v seen previous m = Some x"
  shows "member_valid E (sv_options v) x \<and> dm_UserID x \<notin> set seen \<and> member_in_place v previous (dm_UserID x) \<and> dm_UserID x \<noteq> []"
proof -
  obtain userID name avatar owner permissions departmentIDs where f:
    "wm_UserID m = Some userID" "wm_Name m = Some name" "wm_AvatarURL m = Some avatar" "wm_IsCompanyOwner m = Some owner"
    "wm_Permissions m = Some permissions" "wm_DepartmentIDs m = Some departmentIDs"
    using assms by (auto simp: check_member_def split: option.splits)
  then obtain epoch where e: "parseMembershipEpoch (wm_MembershipEpoch m) (IncludeMembershipEpoch (sv_options v)) = Inr epoch"
    and x: "x = \<lparr>dm_UserID = userID, dm_Name = name, dm_AvatarURL = avatar, dm_Permissions = permissions, dm_DepartmentIDs = departmentIDs,
                dm_IsCompanyOwner = owner, dm_MembershipEpoch = epoch\<rparr>"
    and c: "canonicalValue userID maxMemberIDRunes" "displayValue name 128 False" "validAvatar E avatar" "length permissions \<le> maxPermissions"
      "length departmentIDs \<le> maxDirectDepartments" "userID \<notin> set seen" "member_in_place v previous userID"
      "unique_names maxPermissionRunes [] permissions" "unique_names maxDepartmentIDRunes [] departmentIDs"
    using assms by (auto simp: check_member_def split: if_splits sum.splits)
  have "userID \<noteq> []" using c(1) by (auto simp: canonicalValue_def)
  then show ?thesis
    using c parseMembershipEpoch_ok [OF e] by (simp add: x member_valid_def unique_names_iff)
qed

lemma check_members_ok:
  assumes "check_members E v seen previous ms = Some xs"
  shows "length xs = length ms \<and> list_all (member_valid E (sv_options v)) xs \<and> distinct (map dm_UserID xs) \<and> set (map dm_UserID xs) \<inter> set seen = {} \<and>
    (\<not> sv_listMode v \<longrightarrow> set (map dm_UserID xs) \<subseteq> set (sv_requested v))"
  using assms
proof (induction ms arbitrary: seen previous xs)
  case (Cons m ms)
  then obtain x ys where x: "check_member E v seen previous m = Some x" and xs: "xs = x # ys"
    and ys: "check_members E v (dm_UserID x # seen) (if sv_listMode v then dm_UserID x else previous) ms = Some ys"
    by (auto split: option.splits)
  from check_member_ok [OF x] Cons.IH [OF ys] show ?case by (auto simp: xs member_in_place_def)
qed simp

text \<open>In a list the identifiers ascend, behind the cursor.\<close>

lemma check_members_sorted:
  assumes "check_members E v seen previous ms = Some xs" and "sv_listMode v"
  shows "sorted_wrt (<) (map dm_UserID xs) \<and> (\<forall>x \<in> set xs. (previous \<noteq> [] \<longrightarrow> previous < dm_UserID x) \<and> (sv_cursor v \<noteq> [] \<longrightarrow> sv_cursor v < dm_UserID x))"
  using assms(1)
proof (induction ms arbitrary: seen previous xs)
  case (Cons m ms)
  then obtain x ys where x: "check_member E v seen previous m = Some x" and xs: "xs = x # ys"
    and ys: "check_members E v (dm_UserID x # seen) (dm_UserID x) ms = Some ys"
    using assms(2) by (auto split: option.splits)
  have place: "dm_UserID x \<noteq> []" "previous \<noteq> [] \<longrightarrow> previous < dm_UserID x" "sv_cursor v \<noteq> [] \<longrightarrow> sv_cursor v < dm_UserID x"
    using check_member_ok [OF x] assms(2) by (auto simp: member_in_place_def)
  with Cons.IH [OF ys] show ?case by (auto simp: xs intro: less_trans)
qed simp

lemma check_departments_ok:
  assumes "check_departments seen ds = Some xs"
  shows "length xs = length ds \<and> distinct (map dp_ID xs) \<and> set (map dp_ID xs) \<inter> set seen = {} \<and>
    (\<forall>d \<in> set xs. canonicalValue (dp_ID d) maxDepartmentIDRunes \<and> displayValue (dp_Name d) 128 False)"
  using assms
proof (induction ds arbitrary: seen xs)
  case (Cons d ds)
  then obtain i name ys where i: "wd_ID d = Some i" "wd_Name d = Some name" "canonicalValue i maxDepartmentIDRunes" "displayValue name 128 False" "i \<notin> set seen"
    and ys: "check_departments (i # seen) ds = Some ys" and xs: "xs = \<lparr>dp_ID = i, dp_Name = name, dp_ParentID = wd_ParentID d\<rparr> # ys"
    by (auto split: option.splits if_splits)
  from Cons.IH [OF ys] i show ?case by (auto simp: xs)
qed simp

lemma by_id_None: "by_id departments i = None \<longleftrightarrow> i \<notin> dp_ID ` set departments"
  by (auto simp: by_id_def find_None_iff)

lemma by_id_unique: "distinct (map dp_ID departments) \<Longrightarrow> d \<in> set departments \<Longrightarrow> by_id departments (dp_ID d) = Some d"
proof -
  assume dist: "distinct (map dp_ID departments)" and d: "d \<in> set departments"
  then have "by_id departments (dp_ID d) \<noteq> None" by (auto simp: by_id_None)
  then obtain e where e: "by_id departments (dp_ID d) = Some e" by blast
  with by_id_Some [OF e] dist d show ?thesis by (auto simp: distinct_map inj_on_def)
qed

section \<open>Department trees\<close>

text \<open>From a department to its parent.\<close>

definition parent_rel :: "department list \<Rightarrow> (string \<times> string) set" where
  "parent_rel departments = {(dp_ID d, p) |d p. d \<in> set departments \<and> dp_ParentID d = Some p}"

lemma finite_parent_rel: "finite (parent_rel departments)"
proof (rule finite_subset)
  show "parent_rel departments \<subseteq> (\<lambda>d. (dp_ID d, the (dp_ParentID d))) ` set departments"
  proof
    fix e assume "e \<in> parent_rel departments"
    then obtain d p where "e = (dp_ID d, p)" "d \<in> set departments" "dp_ParentID d = Some p" by (auto simp: parent_rel_def)
    then show "e \<in> (\<lambda>d. (dp_ID d, the (dp_ParentID d))) ` set departments" by force
  qed
qed simp

lemma parent_rel_step:
  assumes "distinct (map dp_ID departments)" and "by_id departments i = Some d"
  shows "(i, p) \<in> parent_rel departments \<longleftrightarrow> dp_ParentID d = Some p"
  using assms by_id_Some [OF assms(2)] by (auto simp: parent_rel_def distinct_map inj_on_def)

lemma parent_rel_trancl:
  assumes "distinct (map dp_ID departments)" and "by_id departments i = Some d" and "(i, j) \<in> (parent_rel departments)\<^sup>+"
  shows "\<exists>p. dp_ParentID d = Some p \<and> (p = j \<or> (p, j) \<in> (parent_rel departments)\<^sup>+)"
proof -
  obtain p where "(i, p) \<in> parent_rel departments" "p = j \<or> (p, j) \<in> (parent_rel departments)\<^sup>+"
    using assms(3) by (blast elim: converse_tranclE)
  then show ?thesis using parent_rel_step [OF assms(1,2)] by blast
qed

text \<open>A walk that arrives does not pass through a cycle.\<close>

lemma walk_no_cycle:
  assumes "distinct (map dp_ID departments)" and "walk_to_root departments visited i"
  shows "\<forall>j \<in> set (i # visited). (i, j) \<notin> (parent_rel departments)\<^sup>+"
  using assms
proof (induction departments visited i rule: walk_to_root.induct)
  case (1 deps visited i)
  obtain d where new: "i \<notin> set visited" and d: "by_id deps i = Some d"
    using "1.prems"(2) by (subst (asm) walk_to_root.simps) (auto split: if_splits option.splits)
  show ?case
  proof
    fix j assume j: "j \<in> set (i # visited)"
    show "(i, j) \<notin> (parent_rel deps)\<^sup>+"
    proof
      assume "(i, j) \<in> (parent_rel deps)\<^sup>+"
      then obtain p where p: "dp_ParentID d = Some p" "p = j \<or> (p, j) \<in> (parent_rel deps)\<^sup>+"
        using parent_rel_trancl [OF "1.prems"(1) d] by blast
      then have w: "walk_to_root deps (i # visited) p" using "1.prems"(2) new d by (subst (asm) walk_to_root.simps) simp
      then have "p \<notin> set (i # visited)" by (subst (asm) walk_to_root.simps) (auto split: if_splits)
      with "1.IH" [OF new d p(1) "1.prems"(1) w] p(2) j show False by auto
    qed
  qed
qed

lemma walk_arrives:
  assumes "distinct (map dp_ID departments)" and "acyclic (parent_rel departments)" and "Range (parent_rel departments) \<subseteq> dp_ID ` set departments"
    and "i \<in> dp_ID ` set departments" and "\<forall>v \<in> set visited. (v, i) \<in> (parent_rel departments)\<^sup>+"
  shows "walk_to_root departments visited i"
  using assms
proof (induction departments visited i rule: walk_to_root.induct)
  case (1 deps visited i)
  have new: "i \<notin> set visited" using "1.prems"(2,5) by (auto simp: acyclic_def)
  obtain d where d: "by_id deps i = Some d" using "1.prems"(4) by_id_None by blast
  have "walk_to_root deps (i # visited) p" if p: "dp_ParentID d = Some p" for p
  proof (rule "1.IH" [OF new d p "1.prems"(1-3)])
    have e: "(i, p) \<in> parent_rel deps" using parent_rel_step [OF "1.prems"(1) d] p by blast
    then show "p \<in> dp_ID ` set deps" using "1.prems"(3) by (auto simp: Range_iff)
    show "\<forall>v \<in> set (i # visited). (v, p) \<in> (parent_rel deps)\<^sup>+" using e "1.prems"(5) by (auto intro: trancl_into_trancl)
  qed
  then show ?case by (subst walk_to_root.simps) (auto simp: new d split: option.splits)
qed

text \<open>The walks of the code decide whether the departments form trees.\<close>

lemma trees_ok_iff:
  assumes "distinct (map dp_ID departments)" and "Range (parent_rel departments) \<subseteq> dp_ID ` set departments"
  shows "trees_ok departments \<longleftrightarrow> acyclic (parent_rel departments)"
proof
  assume ok: "trees_ok departments"
  show "acyclic (parent_rel departments)" unfolding acyclic_def
  proof
    fix i
    show "(i, i) \<notin> (parent_rel departments)\<^sup>+"
    proof (cases "i \<in> dp_ID ` set departments")
      case True
      then have "walk_to_root departments [] i" using ok by (auto simp: trees_ok_def list_all_iff)
      then show ?thesis using walk_no_cycle [OF assms(1)] by auto
    next
      case False
      then show ?thesis by (auto simp: parent_rel_def dest!: tranclD)
    qed
  qed
qed (use assms walk_arrives in \<open>auto simp: trees_ok_def list_all_iff\<close>)

lemma parents_in_range: "list_all (parent_ok departments) departments \<Longrightarrow> Range (parent_rel departments) \<subseteq> dp_ID ` set departments"
  by (auto simp: list_all_iff parent_ok_def parent_rel_def by_id_None split: if_splits)

end
