(* ===== verification/Directory_Client.thy ===== *)
theory Directory_Client
  imports Directory_Validate
begin

text \<open>
  Package \<open>logtodirectory\<close>, the client (\<open>client.go\<close>): construction, the transport that lets only registered requests through,
  the token of the workload and its cache, and the three operations. The transport underneath is a parameter, a function from the
  request to a response or an error over a state of its own. What \<open>ctx.Err()\<close> says at the points where the code asks is an argument
  (\<open>ctx_view\<close>). \<open>accessToken\<close> is here the call of a caller that finds no other one refreshing; \<open>Directory_Token\<close> interleaves callers.
\<close>

section \<open>Construction\<close>

definition tokenPath :: string where "tokenPath = ''/oidc/token''"
definition snapshotPath :: string where "snapshotPath = ''/api/workload-directory/snapshot''"
definition organizationsPath :: string where "organizationsPath = ''/api/workload-directory/organizations''"
definition directoryScope :: string where "directoryScope = ''directory:read''"

definition organizationDeniedBody :: string where
  "organizationDeniedBody = [CHR 0x7B, CHR 0x22] @ ''error'' @ [CHR 0x22, CHR 0x3A, CHR 0x22] @ ''organization_access_denied'' @ [CHR 0x22, CHR 0x7D]"

definition defaultTimeout :: duration where "defaultTimeout = 10 * second"
definition minTimeout :: duration where "minTimeout = second"
definition maxTimeout :: duration where "maxTimeout = 30 * second"
definition maxRequestBytes :: nat where "maxRequestBytes = 32768"
definition maxTokenBodyBytes :: nat where "maxTokenBodyBytes = 65536"
definition maxSnapshotBodyBytes :: nat where "maxSnapshotBodyBytes = 4194304"
definition maxErrorBodyBytes :: nat where "maxErrorBodyBytes = 256"
definition maxTokenLifetime :: int where "maxTokenLifetime = 3600"
definition tokenExpirySkew :: duration where "tokenExpirySkew = 30 * second"

text \<open>\<open>dc_refreshing\<close> names the refresh that is under way.\<close>

record dir_client =
  dc_config :: dir_config
  dc_token :: string
  dc_tokenTill :: time
  dc_refreshing :: "nat option"

definition newClient :: "dir_env \<Rightarrow> dir_config \<Rightarrow> bool \<Rightarrow> bool \<Rightarrow> derror + dir_client" where
  "newClient E config transport allowPlainHTTP =
     (if \<not> transport \<or> \<not> dir_validOrigin E (dg_Endpoint config) allowPlainHTTP \<or> \<not> canonicalValue (dg_ClientID config) maxClientIDRunes \<or>
         \<not> validSecret (dg_ClientSecret config) \<or> \<not> validResource E (dg_Resource config) then Inl ErrUnavailable
      else let config' = (if dg_Timeout config = 0 then config\<lparr>dg_Timeout := defaultTimeout\<rparr> else config)
           in if dg_Timeout config' < minTimeout \<or> dg_Timeout config' > maxTimeout then Inl ErrUnavailable
              else Inr \<lparr>dc_config = config', dc_token = [], dc_tokenTill = zero_time, dc_refreshing = None\<rparr>)"

definition dir_NewClientWithTransport :: "dir_env \<Rightarrow> dir_config \<Rightarrow> bool \<Rightarrow> derror + dir_client" where
  "dir_NewClientWithTransport E config transport = newClient E config transport False"

text \<open>\<open>cloneable\<close> says whether the default transport of the process is of the type that can be cloned.\<close>

definition dir_NewClient :: "dir_env \<Rightarrow> dir_config \<Rightarrow> bool \<Rightarrow> derror + dir_client" where
  "dir_NewClient E config cloneable = (if \<not> cloneable then Inl ErrUnavailable else dir_NewClientWithTransport E config True)"

definition dir_ready :: "dir_client option \<Rightarrow> request_context option \<Rightarrow> bool" where
  "dir_ready client ctx \<longleftrightarrow> client \<noteq> None \<and> ctx \<noteq> None"

section \<open>Requests\<close>

record dir_request =
  dq_Method :: string
  dq_URL :: dir_url
  dq_Header :: "string \<Rightarrow> string option"
  dq_Body :: string

record dir_response =
  ds_Status :: nat
  ds_ContentType :: string
  ds_ContentLength :: int
  ds_Body :: "string option"
  ds_BodyError :: "derror option"

type_synonym 'n transport = "dir_request \<Rightarrow> 'n \<Rightarrow> (derror + dir_response) \<times> 'n"

record ctx_view =
  cv_failed :: "ctx_err option"
  cv_before :: "ctx_err option"
  cv_read :: "ctx_err option"
  cv_after :: "ctx_err option"

definition registered :: "string \<Rightarrow> dir_request \<Rightarrow> bool" where
  "registered origin request \<longleftrightarrow>
     dq_Method request = ''POST'' \<and> du_Scheme (dq_URL request) @ ''://'' @ du_Host (dq_URL request) = origin \<and>
     (du_Path (dq_URL request) = tokenPath \<or> du_Path (dq_URL request) = snapshotPath \<or> du_Path (dq_URL request) = organizationsPath) \<and>
     du_RawQuery (dq_URL request) = []"

definition RoundTrip :: "'n transport \<Rightarrow> string \<Rightarrow> request_context option \<Rightarrow> 'n transport" where
  "RoundTrip base origin ctx request n =
     (if \<not> registered origin request then (Inl (errors_text ''logtodirectory: unregistered endpoint''), n)
      else let i = FromContext ctx
           in base (if i = [] then request else request\<lparr>dq_Header := (dq_Header request)(''X-Request-Id'' \<mapsto> i)\<rparr>) n)"

definition setNoStoreHeaders :: "(string \<Rightarrow> string option) \<Rightarrow> string \<Rightarrow> string option" where
  "setNoStoreHeaders h = h(''Accept'' \<mapsto> ''application/json'', ''Cache-Control'' \<mapsto> ''no-store'', ''Pragma'' \<mapsto> ''no-cache'')"

definition requestFailure :: "ctx_err option \<Rightarrow> derror \<Rightarrow> derror" where
  "requestFailure now err =
     (case now of Some c \<Rightarrow> wrapContextFailure c
      | None \<Rightarrow>
         if errors_is err DirCanceled then wrapContextFailure Canceled
         else if errors_is err DirDeadline then wrapContextFailure DeadlineExceeded
         else ErrUnavailable)"

text \<open>\<open>io.ReadAll\<close> of a body that is limited to \<open>limit + 1\<close> bytes.\<close>

definition read_limited :: "nat \<Rightarrow> string \<Rightarrow> derror option \<Rightarrow> derror + string" where
  "read_limited limit body failure =
     (if length body > limit then Inr (take (limit + 1) body)
      else case failure of None \<Rightarrow> Inr body | Some e \<Rightarrow> Inl e)"

definition readJSONResponse :: "dir_env \<Rightarrow> ctx_view \<Rightarrow> dir_response \<Rightarrow> nat \<Rightarrow> derror + string" where
  "readJSONResponse E view response limit =
     (case cv_before view of Some c \<Rightarrow> Inl (wrapContextFailure c)
      | None \<Rightarrow>
         (case ds_Body response of None \<Rightarrow> Inl ErrProtocol
          | Some body \<Rightarrow>
             if ds_ContentLength response > int limit \<or> de_media E (ds_ContentType response) \<noteq> Some ''application/json'' then Inl ErrProtocol
             else case read_limited limit body (ds_BodyError response) of
               Inl err \<Rightarrow>
                 (case cv_read view of Some c \<Rightarrow> Inl (wrapContextFailure c)
                  | None \<Rightarrow>
                     if errors_is err DirCanceled then Inl (wrapContextFailure Canceled)
                     else if errors_is err DirDeadline then Inl (wrapContextFailure DeadlineExceeded)
                     else Inl ErrProtocol)
             | Inr document \<Rightarrow>
                 if length document > limit then Inl ErrProtocol
                 else (case cv_after view of Some c \<Rightarrow> Inl (wrapContextFailure c) | None \<Rightarrow> Inr document)))"

definition classifyStatus :: "nat \<Rightarrow> bool \<Rightarrow> derror option" where
  "classifyStatus status tokenRequest =
     (if tokenRequest \<and> (status = 401 \<or> status = 403) \<or> \<not> tokenRequest \<and> (status = 401 \<or> status = 403 \<or> status = 404) then Some ErrDenied
      else if status = 200 then None
      else if status = 408 \<or> status = 425 \<or> status = 429 \<or> status \<ge> 500 then Some ErrUnavailable
      else Some ErrUnexpectedStatus)"

definition organizationAccessDenied :: "dir_env \<Rightarrow> dir_response \<Rightarrow> bool" where
  "organizationAccessDenied E response =
     (case ds_Body response of None \<Rightarrow> False
      | Some body \<Rightarrow>
         if ds_ContentLength response > int maxErrorBodyBytes \<or> de_media E (ds_ContentType response) \<noteq> Some ''application/json'' then False
         else read_limited maxErrorBodyBytes body (ds_BodyError response) = Inr organizationDeniedBody)"

definition classifyDirectoryResponse :: "dir_env \<Rightarrow> dir_response \<Rightarrow> derror option" where
  "classifyDirectoryResponse E response =
     (if ds_Status response \<noteq> 403 then classifyStatus (ds_Status response) False
      else if organizationAccessDenied E response then Some ErrOrganizationDenied else Some ErrDenied)"

section \<open>The token of the workload\<close>

text \<open>\<open>url.QueryEscape\<close> and \<open>Values.Encode\<close>, which sorts by key.\<close>

definition hex_digit :: "nat \<Rightarrow> char" where
  "hex_digit n = (if n < 10 then char_of (48 + n) else char_of (55 + n))"

definition query_escape :: "string \<Rightarrow> string" where
  "query_escape s = concat (map (\<lambda>c. let n = of_char c in
      if 97 \<le> n \<and> n \<le> 122 \<or> 65 \<le> n \<and> n \<le> 90 \<or> 48 \<le> n \<and> n \<le> 57 \<or> c \<in> set ''-_.~'' then [c]
      else if n = 32 then ''+'' else [CHR 0x25, hex_digit (n div 16), hex_digit (n mod 16)]) s)"

fun join_with :: "string \<Rightarrow> string list \<Rightarrow> string" where
  "join_with sep [] = []"
| "join_with sep [x] = x"
| "join_with sep (x # xs) = x @ sep @ join_with sep xs"

definition form_encode :: "(string \<times> string) list \<Rightarrow> string" where
  "form_encode kvs = join_with ''&'' (map (\<lambda>(k, v). query_escape k @ ''='' @ query_escape v) (sort_key fst kvs))"

definition token_form :: "dir_config \<Rightarrow> string" where
  "token_form config = form_encode
     [(''grant_type'', ''client_credentials''), (''client_id'', dg_ClientID config), (''client_secret'', dg_ClientSecret config),
      (''resource'', dg_Resource config), (''scope'', directoryScope)]"

definition tokenScopeAllowsDirectory :: "string \<Rightarrow> bool" where
  "tokenScopeAllowsDirectory scope \<longleftrightarrow> scope = [] \<or> directoryScope \<in> set (string_fields scope)"

text \<open>\<open>strings.EqualFold\<close> with \<open>"bearer"\<close>: none of its letters has a folding outside ASCII.\<close>

definition equal_fold_bearer :: "string \<Rightarrow> bool" where
  "equal_fold_bearer s \<longleftrightarrow> map (\<lambda>c. let n = of_char c in if 65 \<le> n \<and> n \<le> (90::nat) then char_of (n + 32) else c) s = ''bearer''"

definition read_token :: "dir_env \<Rightarrow> string \<Rightarrow> derror + (string \<times> duration)" where
  "read_token E document =
     (case strictJSON E (token_field E) \<lparr>tr_AccessToken = None, tr_TokenType = None, tr_ExpiresIn = None, tr_Scope = None\<rparr> document of
        None \<Rightarrow> Inl ErrProtocol
      | Some t \<Rightarrow>
         (case (tr_AccessToken t, tr_TokenType t, tr_ExpiresIn t) of
            (Some token, Some kind, Some expires) \<Rightarrow>
              (case parseOptionalString (tr_Scope t) of Inl _ \<Rightarrow> Inl ErrProtocol
               | Inr scope \<Rightarrow>
                  if \<not> canonicalValue token maxTokenRunes \<or> \<not> equal_fold_bearer kind \<or> expires \<le> 0 \<or> expires > maxTokenLifetime \<or>
                     \<not> tokenScopeAllowsDirectory scope then Inl ErrProtocol
                  else Inr (token, expires * second))
          | _ \<Rightarrow> Inl ErrProtocol))"

definition fetchToken ::
  "dir_env \<Rightarrow> 'n transport \<Rightarrow> dir_config \<Rightarrow> request_context option \<Rightarrow> ctx_view \<Rightarrow> 'n \<Rightarrow> (derror + (string \<times> duration)) \<times> 'n" where
  "fetchToken E base config ctx view n =
     (case de_url E (dg_Endpoint config @ tokenPath) of None \<Rightarrow> (Inl ErrUnavailable, n)
      | Some u \<Rightarrow>
         (case RoundTrip base (dg_Endpoint config) ctx
             \<lparr>dq_Method = ''POST'', dq_URL = u, dq_Header = (setNoStoreHeaders Map.empty)(''Content-Type'' \<mapsto> ''application/x-www-form-urlencoded''),
              dq_Body = token_form config\<rparr> n of
            (Inl err, n1) \<Rightarrow> (Inl (requestFailure (cv_failed view) err), n1)
          | (Inr response, n1) \<Rightarrow>
             (case classifyStatus (ds_Status response) True of Some e \<Rightarrow> (Inl e, n1)
              | None \<Rightarrow>
                 (case readJSONResponse E view response maxTokenBodyBytes of Inl e \<Rightarrow> (Inl e, n1)
                  | Inr document \<Rightarrow> (read_token E document, n1)))))"

definition token_skew :: "duration \<Rightarrow> duration" where
  "token_skew lifetime = (if lifetime \<le> 2 * tokenExpirySkew then go_div lifetime 2 else tokenExpirySkew)"

text \<open>What the caller that has fetched stores, and the error it ends with.\<close>

definition settle_token :: "derror + (string \<times> duration) \<Rightarrow> time \<Rightarrow> time \<Rightarrow> dir_client \<Rightarrow> derror option \<times> dir_client" where
  "settle_token result startedAt completedAt client =
     (let c = client\<lparr>dc_refreshing := None\<rparr>
      in case result of Inl e \<Rightarrow> (Some e, c)
         | Inr (token, lifetime) \<Rightarrow>
            let till = startedAt + (lifetime - token_skew lifetime)
            in if \<not> completedAt < till then (Some ErrUnavailable, c) else (None, c\<lparr>dc_token := token, dc_tokenTill := till\<rparr>))"

definition begin_refresh :: "nat \<Rightarrow> dir_client \<Rightarrow> dir_client" where
  "begin_refresh k client = client\<lparr>dc_refreshing := Some k, dc_token := [], dc_tokenTill := zero_time\<rparr>"

definition token_cached :: "time \<Rightarrow> dir_client \<Rightarrow> bool" where
  "token_cached now client \<longleftrightarrow> dc_token client \<noteq> [] \<and> now < dc_tokenTill client"

text \<open>
  One caller: \<open>now\<close>, \<open>startedAt\<close> and \<open>completedAt\<close> are what its clock says at its entry and around the request; \<open>None\<close> says that it
  waits for another one.
\<close>

record token_times =
  tt_now :: time
  tt_startedAt :: time
  tt_completedAt :: time

definition accessToken ::
  "dir_env \<Rightarrow> 'n transport \<Rightarrow> request_context option \<Rightarrow> ctx_view \<Rightarrow> token_times \<Rightarrow> dir_client \<Rightarrow> 'n \<Rightarrow> ((derror + string) \<times> dir_client \<times> 'n) option" where
  "accessToken E base ctx view tt client n =
     (if token_cached (tt_now tt) client then Some (Inr (dc_token client), client, n)
      else if dc_refreshing client \<noteq> None then None
      else case fetchToken E base (dc_config client) ctx view n of (result, n1) \<Rightarrow>
        (case settle_token result (tt_startedAt tt) (tt_completedAt tt) (begin_refresh 0 client) of
           (Some e, c) \<Rightarrow> Some (Inl e, c, n1)
         | (None, c) \<Rightarrow> Some (Inr (dc_token c), c, n1)))"

section \<open>Operations\<close>

definition postDirectory ::
  "dir_env \<Rightarrow> 'n transport \<Rightarrow> dir_config \<Rightarrow> request_context option \<Rightarrow> ctx_view \<Rightarrow> string \<Rightarrow> string \<Rightarrow> string \<Rightarrow> 'n \<Rightarrow> (derror + string) \<times> 'n" where
  "postDirectory E base config ctx view path token body n =
     (case de_url E (dg_Endpoint config @ path) of None \<Rightarrow> (Inl ErrUnavailable, n)
      | Some u \<Rightarrow>
         (case RoundTrip base (dg_Endpoint config) ctx
             \<lparr>dq_Method = ''POST'', dq_URL = u,
              dq_Header = (setNoStoreHeaders Map.empty)(''Authorization'' \<mapsto> ''Bearer '' @ token, ''Content-Type'' \<mapsto> ''application/json''), dq_Body = body\<rparr> n of
            (Inl err, n1) \<Rightarrow> (Inl (requestFailure (cv_failed view) err), n1)
          | (Inr response, n1) \<Rightarrow>
             (case classifyDirectoryResponse E response of Some e \<Rightarrow> (Inl e, n1)
              | None \<Rightarrow> (readJSONResponse E view response maxSnapshotBodyBytes, n1))))"

text \<open>
  What the operations share: marshalling, the token, the request and reading the answer. \<open>call_io\<close> has the views of the
  context during the two exchanges and the times.
\<close>

record call_io =
  io_token :: ctx_view
  io_post :: ctx_view
  io_times :: token_times

definition directory_call ::
  "dir_env \<Rightarrow> 'n transport \<Rightarrow> request_context option \<Rightarrow> call_io \<Rightarrow> string \<Rightarrow> json \<Rightarrow> (string \<Rightarrow> derror + 'a) \<Rightarrow> dir_client \<Rightarrow> 'n \<Rightarrow>
   ((derror + 'a) \<times> dir_client \<times> 'n) option" where
  "directory_call E base ctx io path request decode client n =
     (case de_marshal E request of None \<Rightarrow> Some (Inl ErrUnavailable, client, n)
      | Some body \<Rightarrow>
         if length body > maxRequestBytes then Some (Inl ErrProtocol, client, n)
         else case accessToken E base ctx (io_token io) (io_times io) client n of None \<Rightarrow> None
         | Some (Inl e, c1, n1) \<Rightarrow> Some (Inl e, c1, n1)
         | Some (Inr token, c1, n1) \<Rightarrow>
            (case postDirectory E base (dc_config c1) ctx (io_post io) path token body n1 of
               (Inl e, n2) \<Rightarrow> Some (Inl e, c1, n2)
             | (Inr document, n2) \<Rightarrow> Some (decode document, c1, n2)))"

definition json_strings :: "string list \<Rightarrow> json" where "json_strings xs = JArray (map JString xs)"

definition epoch_member :: "dir_options \<Rightarrow> (string \<times> json) list" where
  "epoch_member opts = (if IncludeMembershipEpoch opts then [(''include_membership_epoch'', JBool True)] else [])"

definition snapshotRequest :: "string \<Rightarrow> string list \<Rightarrow> dir_options \<Rightarrow> json" where
  "snapshotRequest organizationID userIDs opts = JObject
     ([(''organization_id'', JString organizationID), (''user_ids'', json_strings userIDs), (''include_departments'', JBool (IncludeDepartments opts))] @
      epoch_member opts)"

definition listPageRequest :: "string \<Rightarrow> string \<Rightarrow> int \<Rightarrow> dir_options \<Rightarrow> json" where
  "listPageRequest organizationID cursor limit opts = JObject
     ([(''organization_id'', JString organizationID), (''user_ids'', json_strings []), (''list_members'', JBool True)] @
      (if cursor = [] then [] else [(''cursor'', JString cursor)]) @
      [(''limit'', JNumber (itoa limit)), (''include_departments'', JBool (IncludeDepartments opts))] @ epoch_member opts)"

definition organizationSearchRequest :: "string \<Rightarrow> string \<Rightarrow> int \<Rightarrow> json" where
  "organizationSearchRequest query cursor limit = JObject
     ([(''query'', JString query)] @ (if cursor = [] then [] else [(''cursor'', JString cursor)]) @ [(''limit'', JNumber (itoa limit))])"

definition empty_wire_snapshot :: wire_snapshot where
  "empty_wire_snapshot = \<lparr>ws_Organization = None, ws_Members = None, ws_Departments = None\<rparr>"

definition read_snapshot :: "dir_env \<Rightarrow> snapshot_validation \<Rightarrow> string \<Rightarrow> derror + snapshot" where
  "read_snapshot E v document =
     (case strictJSON E (snapshot_field E) empty_wire_snapshot document of None \<Rightarrow> Inl ErrProtocol | Some response \<Rightarrow> validateSnapshot E response v)"

definition Snapshot ::
  "dir_env \<Rightarrow> 'n transport \<Rightarrow> request_context option \<Rightarrow> call_io \<Rightarrow> string \<Rightarrow> string list \<Rightarrow> dir_options \<Rightarrow> dir_client option \<Rightarrow> 'n \<Rightarrow>
   ((derror + snapshot) \<times> dir_client option \<times> 'n) option" where
  "Snapshot E base ctx io organizationID userIDs opts client n =
     (if \<not> dir_ready client ctx then Some (Inl ErrUnavailable, client, n)
      else if \<not> canonicalValue organizationID maxOrganizationIDRunes \<or> length userIDs > maxMembers then Some (Inl ErrProtocol, client, n)
      else if \<not> unique_names maxMemberIDRunes [] userIDs then Some (Inl ErrProtocol, client, n)
      else map_option (\<lambda>(r, c, n'). (r, Some c, n'))
        (directory_call E base ctx io snapshotPath (snapshotRequest organizationID userIDs opts)
          (read_snapshot E \<lparr>sv_organizationID = organizationID, sv_requested = userIDs, sv_listMode = False, sv_cursor = [], sv_limit = 0, sv_options = opts\<rparr>)
          (the client) n))"

definition read_list_page :: "dir_env \<Rightarrow> snapshot_validation \<Rightarrow> string \<Rightarrow> derror + (snapshot \<times> string option)" where
  "read_list_page E v document =
     (case strictJSON E (list_page_field E) \<lparr>ws_Organization = None, ws_Members = None, ws_Departments = None, ws_NextCursor = None\<rparr> document of
        None \<Rightarrow> Inl ErrProtocol
      | Some response \<Rightarrow>
         (case parseNextCursor (ws_NextCursor response) of Inl _ \<Rightarrow> Inl ErrProtocol
          | Inr next \<Rightarrow>
             if (case next of None \<Rightarrow> False | Some c \<Rightarrow> sv_cursor v \<noteq> [] \<and> c \<le> sv_cursor v) then Inl ErrProtocol
             else case validateSnapshot E (list_page_snapshot response) v of Inl e \<Rightarrow> Inl e
             | Inr s \<Rightarrow>
                if (case next of None \<Rightarrow> False | Some c \<Rightarrow> sn_Members s \<noteq> [] \<and> c < dm_UserID (last (sn_Members s))) then Inl ErrProtocol
                else Inr (s, next)))"

definition ListPage ::
  "dir_env \<Rightarrow> 'n transport \<Rightarrow> request_context option \<Rightarrow> call_io \<Rightarrow> string \<Rightarrow> string \<Rightarrow> int \<Rightarrow> dir_options \<Rightarrow> dir_client option \<Rightarrow> 'n \<Rightarrow>
   ((derror + (snapshot \<times> string option)) \<times> dir_client option \<times> 'n) option" where
  "ListPage E base ctx io organizationID cursor limit opts client n =
     (if \<not> dir_ready client ctx then Some (Inl ErrUnavailable, client, n)
      else if \<not> canonicalValue organizationID maxOrganizationIDRunes then Some (Inl ErrProtocol, client, n)
      else if cursor \<noteq> [] \<and> \<not> canonicalValue cursor maxMemberIDRunes then Some (Inl ErrProtocol, client, n)
      else let limit' = (if limit = 0 then 100 else limit)
      in if limit' < 1 \<or> limit' > int maxMembers then Some (Inl ErrProtocol, client, n)
         else map_option (\<lambda>(r, c, n'). (r, Some c, n'))
           (directory_call E base ctx io snapshotPath (listPageRequest organizationID cursor limit' opts)
             (read_list_page E \<lparr>sv_organizationID = organizationID, sv_requested = [], sv_listMode = True, sv_cursor = cursor, sv_limit = limit', sv_options = opts\<rparr>)
             (the client) n))"

definition read_organizations :: "dir_env \<Rightarrow> string \<Rightarrow> int \<Rightarrow> string \<Rightarrow> derror + (dir_organization list \<times> string option)" where
  "read_organizations E cursor limit document =
     (case strictJSON E (search_field E) \<lparr>wx_Organizations = None, wx_Stored = [], wx_NextCursor = None\<rparr> document of
        None \<Rightarrow> Inl ErrProtocol
      | Some response \<Rightarrow>
         (case parseOptionalOrganizationCursor (wx_NextCursor response) of Inl _ \<Rightarrow> Inl ErrProtocol
          | Inr next \<Rightarrow>
             (case validateOrganizationSearch (wx_Organizations response) cursor next limit of Inl e \<Rightarrow> Inl e
              | Inr organizations \<Rightarrow> Inr (organizations, next))))"

definition SearchOrganizations ::
  "dir_env \<Rightarrow> 'n transport \<Rightarrow> request_context option \<Rightarrow> call_io \<Rightarrow> string \<Rightarrow> string \<Rightarrow> int \<Rightarrow> dir_client option \<Rightarrow> 'n \<Rightarrow>
   ((derror + (dir_organization list \<times> string option)) \<times> dir_client option \<times> 'n) option" where
  "SearchOrganizations E base ctx io query cursor limit client n =
     (if \<not> dir_ready client ctx then Some (Inl ErrUnavailable, client, n)
      else if \<not> validOrganizationQuery query \<or> limit < 1 \<or> limit > int maxOrganizations \<or> cursor \<noteq> [] \<and> \<not> validOrganizationID cursor
      then Some (Inl ErrProtocol, client, n)
      else map_option (\<lambda>(r, c, n'). (r, Some c, n'))
        (directory_call E base ctx io organizationsPath (organizationSearchRequest query cursor limit) (read_organizations E cursor limit) (the client) n))"

end
