(* ===== verification/Directory_Token.thy ===== *)
theory Directory_Token
  imports Directory_Client Step_Invariant
begin

text \<open>
  The token cache of \<open>logtodirectory\<close> under concurrent callers (\<open>accessToken\<close> in \<open>client.go\<close>). The state is the client with its
  cache, the refreshes that have ended, and where each caller is; steps are the sections under the mutex and the readings of
  the clock between them, in any order. \<open>ts_fetched\<close> records the answers of the token endpoint and when they were asked for.
\<close>

section \<open>Callers\<close>

datatype token_phase =
    Entering
  | Checking time
  | Waiting nat
  | Woken string time "derror option"
  | Starting nat
  | Fetching nat time
  | Settling nat time "derror + (string \<times> duration)" time
  | Ended "derror + string" time

record token_state =
  ts_client :: dir_client
  ts_done :: "nat \<Rightarrow> derror option option"
  ts_next :: nat
  ts_phase :: "nat \<Rightarrow> token_phase"
  ts_clock :: time
  ts_fetched :: "(string \<times> time \<times> duration) set"

definition token_start :: "dir_client \<Rightarrow> time \<Rightarrow> token_state" where
  "token_start client t = \<lparr>ts_client = client, ts_done = (\<lambda>_. None), ts_next = 0, ts_phase = (\<lambda>_. Entering), ts_clock = t, ts_fetched = {}\<rparr>"

definition move :: "nat \<Rightarrow> token_phase \<Rightarrow> token_state \<Rightarrow> token_state" where
  "move c p s = s\<lparr>ts_phase := (ts_phase s)(c := p)\<rparr>"

text \<open>What \<open>fetchToken\<close> can return.\<close>

definition fetch_result :: "derror + (string \<times> duration) \<Rightarrow> bool" where
  "fetch_result r \<longleftrightarrow> (case r of Inl _ \<Rightarrow> True | Inr (token, lifetime) \<Rightarrow> token \<noteq> [] \<and> 0 < lifetime \<and> lifetime \<le> maxTokenLifetime * second)"

definition record_fetch :: "derror + (string \<times> duration) \<Rightarrow> time \<Rightarrow> token_state \<Rightarrow> token_state" where
  "record_fetch r st s = (case r of Inl _ \<Rightarrow> s | Inr (token, lifetime) \<Rightarrow> s\<lparr>ts_fetched := insert (token, st, lifetime) (ts_fetched s)\<rparr>)"

inductive token_step :: "token_state \<Rightarrow> token_state \<Rightarrow> bool" where
  tick: "ts_clock s \<le> t \<Longrightarrow> token_step s (s\<lparr>ts_clock := t\<rparr>)"
| look: "ts_phase s c = Entering \<Longrightarrow> token_step s (move c (Checking (ts_clock s)) s)"
| cached: "ts_phase s c = Checking now \<Longrightarrow> token_cached now (ts_client s) \<Longrightarrow> token_step s (move c (Ended (Inr (dc_token (ts_client s))) now) s)"
| join: "ts_phase s c = Checking now \<Longrightarrow> \<not> token_cached now (ts_client s) \<Longrightarrow> dc_refreshing (ts_client s) = Some k \<Longrightarrow> token_step s (move c (Waiting k) s)"
| claim: "ts_phase s c = Checking now \<Longrightarrow> \<not> token_cached now (ts_client s) \<Longrightarrow> dc_refreshing (ts_client s) = None \<Longrightarrow>
    token_step s (move c (Starting (ts_next s)) (s\<lparr>ts_client := begin_refresh (ts_next s) (ts_client s), ts_next := Suc (ts_next s)\<rparr>))"
| start: "ts_phase s c = Starting k \<Longrightarrow> token_step s (move c (Fetching k (ts_clock s)) s)"
| fetched: "ts_phase s c = Fetching k st \<Longrightarrow> fetch_result r \<Longrightarrow> token_step s (move c (Settling k st r (ts_clock s)) (record_fetch r st s))"
| settled: "ts_phase s c = Settling k st r ct \<Longrightarrow> settle_token r st ct (ts_client s) = (err, client) \<Longrightarrow>
    token_step s (move c (Ended (case err of None \<Rightarrow> Inr (dc_token client) | Some e \<Rightarrow> Inl e) ct) (s\<lparr>ts_client := client, ts_done := (ts_done s)(k \<mapsto> err)\<rparr>))"
| wake: "ts_phase s c = Waiting k \<Longrightarrow> ts_done s k = Some err \<Longrightarrow> token_step s (move c (Woken (dc_token (ts_client s)) (dc_tokenTill (ts_client s)) err) s)"
| give_up: "ts_phase s c = Waiting k \<Longrightarrow> token_step s (move c (Ended (Inl (wrapContextFailure e)) (ts_clock s)) s)"
| woken: "ts_phase s c = Woken token till err \<Longrightarrow> token \<noteq> [] \<Longrightarrow> ts_clock s < till \<Longrightarrow> token_step s (move c (Ended (Inr token) (ts_clock s)) s)"
| failed: "ts_phase s c = Woken token till (Some e) \<Longrightarrow> \<not> (token \<noteq> [] \<and> ts_clock s < till) \<Longrightarrow> token_step s (move c (Ended (Inl e) (ts_clock s)) s)"
| again: "ts_phase s c = Woken token till None \<Longrightarrow> \<not> (token \<noteq> [] \<and> ts_clock s < till) \<Longrightarrow> token_step s (move c Entering s)"

inductive_cases token_stepE: "token_step s s'"

section \<open>Invariant\<close>

fun works_on :: "nat \<Rightarrow> token_phase \<Rightarrow> bool" where
  "works_on k (Starting j) \<longleftrightarrow> j = k"
| "works_on k (Fetching j st) \<longleftrightarrow> j = k"
| "works_on k (Settling j st r ct) \<longleftrightarrow> j = k"
| "works_on k _ \<longleftrightarrow> False"

text \<open>A token that was asked for at some time and is good until then, less its margin.\<close>

definition good_until :: "(string \<times> time \<times> duration) set \<Rightarrow> string \<Rightarrow> time \<Rightarrow> bool" where
  "good_until F token till \<longleftrightarrow> (\<exists>st lifetime. (token, st, lifetime) \<in> F \<and> till = st + (lifetime - token_skew lifetime))"

fun phase_ok :: "(string \<times> time \<times> duration) set \<Rightarrow> time \<Rightarrow> token_phase \<Rightarrow> bool" where
  "phase_ok F clock (Checking now) \<longleftrightarrow> now \<le> clock"
| "phase_ok F clock (Woken token till err) \<longleftrightarrow> (token \<noteq> [] \<longrightarrow> good_until F token till)"
| "phase_ok F clock (Settling k st r ct) \<longleftrightarrow> fetch_result r \<and> ct \<le> clock \<and> (\<forall>token lifetime. r = Inr (token, lifetime) \<longrightarrow> (token, st, lifetime) \<in> F)"
| "phase_ok F clock (Ended r t) \<longleftrightarrow> t \<le> clock \<and> (\<forall>token. r = Inr token \<longrightarrow> token \<noteq> [] \<and> (\<exists>till. good_until F token till \<and> t < till))"
| "phase_ok F clock _ \<longleftrightarrow> True"

text \<open>Refreshes: at most one is under way, one caller is at work on it, and nobody waits for one that will not end.\<close>

definition refresh_ok :: "nat option \<Rightarrow> (nat \<Rightarrow> derror option option) \<Rightarrow> nat \<Rightarrow> (nat \<Rightarrow> token_phase) \<Rightarrow> bool" where
  "refresh_ok refreshing finished next ph \<longleftrightarrow>
     (\<forall>c k. works_on k (ph c) \<longrightarrow> refreshing = Some k) \<and>
     (\<forall>c d k. works_on k (ph c) \<longrightarrow> works_on k (ph d) \<longrightarrow> c = d) \<and>
     (\<forall>k. refreshing = Some k \<longrightarrow> k < next \<and> finished k = None \<and> (\<exists>c. works_on k (ph c))) \<and>
     (\<forall>c k. ph c = Waiting k \<longrightarrow> finished k \<noteq> None \<or> refreshing = Some k) \<and>
     (\<forall>k. finished k \<noteq> None \<longrightarrow> k < next)"

definition token_inv :: "token_state \<Rightarrow> bool" where
  "token_inv s \<longleftrightarrow>
     refresh_ok (dc_refreshing (ts_client s)) (ts_done s) (ts_next s) (ts_phase s) \<and>
     (\<forall>c. phase_ok (ts_fetched s) (ts_clock s) (ts_phase s c)) \<and>
     (dc_token (ts_client s) \<noteq> [] \<longrightarrow> good_until (ts_fetched s) (dc_token (ts_client s)) (dc_tokenTill (ts_client s))) \<and>
     (\<forall>(token, st, lifetime) \<in> ts_fetched s. 0 < lifetime \<and> lifetime \<le> maxTokenLifetime * second)"

lemma token_inv_start: "dc_token client = [] \<Longrightarrow> dc_refreshing client = None \<Longrightarrow> token_inv (token_start client t)"
  by (simp add: token_inv_def token_start_def refresh_ok_def)

lemma phase_ok_mono: "phase_ok F clock p \<Longrightarrow> F \<subseteq> F' \<Longrightarrow> clock \<le> clock' \<Longrightarrow> phase_ok F' clock' p"
  by (cases p) (fastforce simp: good_until_def)+

text \<open>A caller that moves without touching the refreshes.\<close>

lemma refresh_ok_move:
  assumes "refresh_ok refreshing finished next ph" and "\<And>k. works_on k p \<longleftrightarrow> works_on k (ph c)"
    and "\<And>k. p = Waiting k \<Longrightarrow> finished k \<noteq> None \<or> refreshing = Some k"
  shows "refresh_ok refreshing finished next (ph(c := p))"
proof -
  have "works_on k ((ph(c := p)) d) \<longleftrightarrow> works_on k (ph d)" for k d using assms(2) by simp
  then show ?thesis using assms(1,3) unfolding refresh_ok_def by auto
qed

lemma token_inv_move:
  assumes "token_inv s" and "\<And>k. works_on k p \<longleftrightarrow> works_on k (ts_phase s c)"
    and "\<And>k. p = Waiting k \<Longrightarrow> ts_done s k \<noteq> None \<or> dc_refreshing (ts_client s) = Some k" and "phase_ok (ts_fetched s) (ts_clock s) p"
  shows "token_inv (move c p s)"
proof -
  have "refresh_ok (dc_refreshing (ts_client s)) (ts_done s) (ts_next s) ((ts_phase s)(c := p))"
    by (rule refresh_ok_move) (use assms in \<open>simp_all add: token_inv_def\<close>)
  then show ?thesis using assms(1,4) by (simp add: token_inv_def move_def)
qed

lemma refresh_ok_claim:
  assumes "refresh_ok None finished next ph"
  shows "refresh_ok (Some next) finished (Suc next) (ph(c := Starting next))"
proof -
  have none: "\<not> works_on k (ph d)" for k d using assms by (auto simp: refresh_ok_def)
  have "finished next = None" using assms by (auto simp: refresh_ok_def)
  moreover have "works_on k ((ph(c := Starting next)) d) \<longleftrightarrow> d = c \<and> k = next" for k d using none by auto
  moreover have "k < Suc next" if "finished k \<noteq> None" for k using assms that by (auto simp: refresh_ok_def intro: less_SucI)
  ultimately show ?thesis using assms unfolding refresh_ok_def by auto
qed

lemma refresh_ok_settle:
  assumes "refresh_ok refreshing finished next ph" and "works_on k (ph c)" and p: "\<And>j. \<not> works_on j p" "\<And>j. p \<noteq> Waiting j"
  shows "refresh_ok None (finished(k \<mapsto> err)) next (ph(c := p))"
proof -
  have r: "refreshing = Some k" using assms(1,2) by (auto simp: refresh_ok_def)
  have "\<not> works_on j (ph d)" if "d \<noteq> c" for j d using assms(1,2) r that unfolding refresh_ok_def by (metis option.inject)
  then have idle: "\<not> works_on j ((ph(c := p)) d)" for j d using p by simp
  have "k < next" and old: "\<And>j. finished j \<noteq> None \<Longrightarrow> j < next" using assms(1) r unfolding refresh_ok_def by blast+
  then have bound: "j < next" if "(finished(k \<mapsto> err)) j \<noteq> None" for j using that by (cases "j = k") auto
  have waits: "(finished(k \<mapsto> err)) j \<noteq> None" if "(ph(c := p)) d = Waiting j" for d j
  proof -
    have "ph d = Waiting j" using that p(2) by (auto split: if_splits)
    then have "finished j \<noteq> None \<or> j = k" using assms(1) r unfolding refresh_ok_def by blast
    then show ?thesis by auto
  qed
  show ?thesis unfolding refresh_ok_def using idle bound waits by blast
qed

lemma settle_token_cases:
  assumes "settle_token r st ct client = (err, client')"
  shows "dc_refreshing client' = None \<and> dc_config client' = dc_config client \<and>
    ((\<exists>e. err = Some e) \<and> dc_token client' = dc_token client \<and> dc_tokenTill client' = dc_tokenTill client \<or>
     err = None \<and> (\<exists>lifetime. r = Inr (dc_token client', lifetime) \<and> dc_tokenTill client' = st + (lifetime - token_skew lifetime) \<and> ct < dc_tokenTill client'))"
  using assms by (auto simp: settle_token_def Let_def split: sum.splits prod.splits if_splits)

lemma token_inv_settle:
  assumes inv: "token_inv s" and c: "ts_phase s c = Settling k st r ct" and set: "settle_token r st ct (ts_client s) = (err, client)"
  shows "token_inv (move c (Ended (case err of None \<Rightarrow> Inr (dc_token client) | Some e \<Rightarrow> Inl e) ct) (s\<lparr>ts_client := client, ts_done := (ts_done s)(k \<mapsto> err)\<rparr>))"
proof -
  have ph: "phase_ok (ts_fetched s) (ts_clock s) (Settling k st r ct)" using inv c unfolding token_inv_def by metis
  note cases = settle_token_cases [OF set]
  have good: "good_until (ts_fetched s) (dc_token client) (dc_tokenTill client)" if "err = None"
    using cases ph that by (auto simp: good_until_def)
  have "refresh_ok None ((ts_done s)(k \<mapsto> err)) (ts_next s) ((ts_phase s)(c := Ended (case err of None \<Rightarrow> Inr (dc_token client) | Some e \<Rightarrow> Inl e) ct))"
    by (rule refresh_ok_settle [where refreshing = "dc_refreshing (ts_client s)"]) (use inv c in \<open>simp_all add: token_inv_def\<close>)
  moreover have "phase_ok (ts_fetched s) (ts_clock s) (Ended (case err of None \<Rightarrow> Inr (dc_token client) | Some e \<Rightarrow> Inl e) ct)"
    using ph cases good by (auto simp: fetch_result_def split: option.splits)
  moreover have "dc_token client \<noteq> [] \<longrightarrow> good_until (ts_fetched s) (dc_token client) (dc_tokenTill client)"
    using inv cases good by (cases err) (auto simp: token_inv_def)
  ultimately show ?thesis using inv cases by (simp add: token_inv_def move_def)
qed

lemma record_fetch_same [simp]:
  "ts_client (record_fetch r st s) = ts_client s" "ts_done (record_fetch r st s) = ts_done s" "ts_next (record_fetch r st s) = ts_next s"
  "ts_phase (record_fetch r st s) = ts_phase s" "ts_clock (record_fetch r st s) = ts_clock s"
  by (auto simp: record_fetch_def split: sum.splits)

lemma record_fetch_fetched:
  "ts_fetched (record_fetch r st s) = ts_fetched s \<union> (case r of Inl _ \<Rightarrow> {} | Inr (token, lifetime) \<Rightarrow> {(token, st, lifetime)})"
  by (auto simp: record_fetch_def split: sum.splits)

lemma token_inv_fetched:
  assumes inv: "token_inv s" and c: "ts_phase s c = Fetching k st" and r: "fetch_result r"
  shows "token_inv (move c (Settling k st r (ts_clock s)) (record_fetch r st s))"
proof -
  have sub: "ts_fetched s \<subseteq> ts_fetched (record_fetch r st s)" by (auto simp: record_fetch_fetched)
  have mono: "phase_ok (ts_fetched (record_fetch r st s)) (ts_clock s) (ts_phase s d)" for d
    by (rule phase_ok_mono [OF _ sub order_refl]) (use inv in \<open>simp add: token_inv_def\<close>)
  have good: "good_until (ts_fetched s) tok till \<Longrightarrow> good_until (ts_fetched (record_fetch r st s)) tok till" for tok till
    using sub by (auto simp: good_until_def)
  have lives: "\<forall>(token, st, lifetime) \<in> ts_fetched (record_fetch r st s). 0 < lifetime \<and> lifetime \<le> maxTokenLifetime * second"
    using inv r by (auto simp: record_fetch_fetched token_inv_def fetch_result_def split: sum.splits)
  have "token_inv (record_fetch r st s)" using inv mono good lives by (simp add: token_inv_def)
  moreover have "(token, st, lifetime) \<in> ts_fetched (record_fetch (Inr (token, lifetime)) st s)" for token lifetime
    by (simp add: record_fetch_fetched)
  ultimately show ?thesis
    by (intro token_inv_move) (use c r in auto)
qed

lemma token_inv_step: "token_step s s' \<Longrightarrow> token_inv s \<Longrightarrow> token_inv s'"
proof (induction rule: token_step.induct)
  case (tick s t)
  then show ?case by (auto simp: token_inv_def intro: phase_ok_mono)
next
  case (cached s c now)
  then have "phase_ok (ts_fetched s) (ts_clock s) (Checking now)" unfolding token_inv_def by metis
  then have "phase_ok (ts_fetched s) (ts_clock s) (Ended (Inr (dc_token (ts_client s))) now)"
    using cached by (auto simp: token_cached_def token_inv_def)
  then show ?case using cached by (intro token_inv_move) auto
next
  case (claim s c now)
  then have "refresh_ok (Some (ts_next s)) (ts_done s) (Suc (ts_next s)) ((ts_phase s)(c := Starting (ts_next s)))"
    by (intro refresh_ok_claim) (simp add: token_inv_def)
  with claim show ?case by (simp add: token_inv_def move_def begin_refresh_def)
next
  case (fetched s c k st r)
  then show ?case using token_inv_fetched by blast
next
  case (settled s c k st r ct err client)
  then show ?case using token_inv_settle by blast
next
  case (woken s c token till err)
  then have "phase_ok (ts_fetched s) (ts_clock s) (Woken token till err)" unfolding token_inv_def by metis
  with woken show ?case by (intro token_inv_move) auto
next
  case (wake s c k err)
  then show ?case by (intro token_inv_move) (auto simp: token_inv_def)
qed (intro token_inv_move; simp)+

interpretation tokens: step_invariant token_step token_inv
  by unfold_locales (rule token_inv_step)

section \<open>One caller alone\<close>

lemma fetchToken_result: "fst (fetchToken E base config ctx view n) = r \<Longrightarrow> fetch_result r"
proof -
  have "fetch_result (read_token E document)" for document
    by (auto simp: fetch_result_def read_token_def canonicalValue_def second_def maxTokenLifetime_def split: option.splits sum.splits if_splits)
  moreover have "fetch_result (Inl e)" for e by (simp add: fetch_result_def)
  ultimately show "fst (fetchToken E base config ctx view n) = r \<Longrightarrow> fetch_result r"
    by (auto simp: fetchToken_def split: option.splits sum.splits prod.splits)
qed

text \<open>\<open>accessToken\<close> of a caller on its own is a run of these steps.\<close>

lemma accessToken_steps:
  assumes out: "accessToken E base ctx view tt client n = Some (res, client', n')"
    and s: "ts_client s = client" "ts_phase s c = Entering" "ts_next s = 0" "ts_clock s \<le> tt_now tt" "tt_now tt \<le> tt_startedAt tt" "tt_startedAt tt \<le> tt_completedAt tt"
  shows "\<exists>s' t. token_step\<^sup>*\<^sup>* s s' \<and> ts_client s' = client' \<and> ts_phase s' c = Ended res t"
proof -
  define s1 where "s1 = move c (Checking (tt_now tt)) (s\<lparr>ts_clock := tt_now tt\<rparr>)"
  have "token_step s (s\<lparr>ts_clock := tt_now tt\<rparr>)" using s by (intro tick)
  moreover have "token_step (s\<lparr>ts_clock := tt_now tt\<rparr>) s1" unfolding s1_def using look [of "s\<lparr>ts_clock := tt_now tt\<rparr>" c] s(2) by simp
  ultimately have run1: "token_step\<^sup>*\<^sup>* s s1" by (meson converse_rtranclp_into_rtranclp r_into_rtranclp)
  have s1: "ts_client s1 = client" "ts_phase s1 c = Checking (tt_now tt)" "ts_next s1 = 0" "ts_clock s1 = tt_now tt" using s by (simp_all add: s1_def move_def)
  show ?thesis
  proof (cases "token_cached (tt_now tt) client")
    case True
    then have "res = Inr (dc_token client)" "client' = client" using out by (auto simp: accessToken_def)
    moreover have "token_step s1 (move c (Ended (Inr (dc_token (ts_client s1))) (tt_now tt)) s1)" using s1 True by (intro cached) simp_all
    ultimately show ?thesis using run1 s1 by (intro exI [of _ "move c (Ended (Inr (dc_token (ts_client s1))) (tt_now tt)) s1"])
        (auto simp: move_def intro: rtranclp.rtrancl_into_rtrancl)
  next
    case False
    obtain r n1 where r: "fetchToken E base (dc_config client) ctx view n = (r, n1)" by (meson surj_pair)
    obtain err c2 where e: "settle_token r (tt_startedAt tt) (tt_completedAt tt) (begin_refresh 0 client) = (err, c2)" by (meson surj_pair)
    have free: "dc_refreshing client = None" using out False by (auto simp: accessToken_def split: if_splits)
    have res: "res = (case err of None \<Rightarrow> Inr (dc_token c2) | Some x \<Rightarrow> Inl x)" "client' = c2"
      using out False free r e by (auto simp: accessToken_def split: option.splits)
    define s2 where "s2 = move c (Starting 0) (s1\<lparr>ts_client := begin_refresh 0 client, ts_next := 1\<rparr>)"
    define s3 where "s3 = move c (Fetching 0 (tt_startedAt tt)) (s2\<lparr>ts_clock := tt_startedAt tt\<rparr>)"
    define s4 where "s4 = move c (Settling 0 (tt_startedAt tt) r (tt_completedAt tt)) (record_fetch r (tt_startedAt tt) (s3\<lparr>ts_clock := tt_completedAt tt\<rparr>))"
    define s5 where "s5 = move c (Ended res (tt_completedAt tt)) (s4\<lparr>ts_client := c2, ts_done := (ts_done s4)(0 \<mapsto> err)\<rparr>)"
    have "token_step s1 s2" using claim [of s1 c "tt_now tt"] s1 False free by (simp add: s2_def)
    moreover have "token_step s2 (s2\<lparr>ts_clock := tt_startedAt tt\<rparr>)" by (rule tick) (use s1 s in \<open>simp add: s2_def move_def\<close>)
    moreover have "token_step (s2\<lparr>ts_clock := tt_startedAt tt\<rparr>) s3" using start [of "s2\<lparr>ts_clock := tt_startedAt tt\<rparr>" c 0] by (simp add: s3_def s2_def move_def)
    moreover have "token_step s3 (s3\<lparr>ts_clock := tt_completedAt tt\<rparr>)" by (rule tick) (use s in \<open>simp add: s3_def move_def\<close>)
    moreover have "token_step (s3\<lparr>ts_clock := tt_completedAt tt\<rparr>) s4"
      using fetched [of "s3\<lparr>ts_clock := tt_completedAt tt\<rparr>" c 0 "tt_startedAt tt" r] fetchToken_result [of E base "dc_config client" ctx view n r] r
      by (simp add: s4_def s3_def move_def)
    moreover have "ts_client s4 = begin_refresh 0 client" by (auto simp: s4_def s3_def s2_def move_def record_fetch_def split: sum.splits)
    then have "token_step s4 s5" using settled [of s4 c 0 "tt_startedAt tt" r "tt_completedAt tt" err c2] e res by (simp add: s5_def s4_def move_def)
    ultimately have "token_step\<^sup>*\<^sup>* s s5" using run1 by (meson rtranclp.rtrancl_into_rtrancl)
    then show ?thesis using res(2) by (intro exI [of _ s5]) (auto simp: s5_def move_def)
  qed
qed

end
