(* ===== verification/Page_Chain.thy ===== *)
theory Page_Chain
  imports Go_Base "HOL-Library.List_Lexorder" "HOL-Library.Char_ord"
begin

text \<open>
  Listings by cursor, as an interface: a provider hands out pages of identifiers behind a cursor, and a cursor for the rest. What
  every page promises on its own makes a chain of pages ascend, so that it repeats nothing.
\<close>

fun page_chain :: "(string \<Rightarrow> string list \<Rightarrow> string option \<Rightarrow> bool) \<Rightarrow> string \<Rightarrow> (string list \<times> string option) list \<Rightarrow> bool" where
  "page_chain page cursor [] = True"
| "page_chain page cursor ((ids, nxt) # rest) \<longleftrightarrow>
     page cursor ids nxt \<and> (case nxt of None \<Rightarrow> rest = [] | Some c \<Rightarrow> page_chain page c rest)"

abbreviation chain_ids :: "(string list \<times> string option) list \<Rightarrow> string list" where
  "chain_ids pages \<equiv> concat (map fst pages)"

locale ascending_pages =
  fixes page :: "string \<Rightarrow> string list \<Rightarrow> string option \<Rightarrow> bool"
  assumes page_sorted: "page c ids nxt \<Longrightarrow> sorted_wrt (<) ids"
    and page_after: "page c ids nxt \<Longrightarrow> c \<noteq> [] \<Longrightarrow> i \<in> set ids \<Longrightarrow> c < i"
    and next_covers: "page c ids (Some d) \<Longrightarrow> i \<in> set ids \<Longrightarrow> i \<le> d"
    and next_after: "page c ids (Some d) \<Longrightarrow> d \<noteq> [] \<and> (c \<noteq> [] \<longrightarrow> c < d)"
begin

lemma chain_after: "page_chain page c pages \<Longrightarrow> c \<noteq> [] \<Longrightarrow> i \<in> set (chain_ids pages) \<Longrightarrow> c < i"
proof (induction pages arbitrary: c)
  case (Cons p pages)
  obtain ids nxt where p: "p = (ids, nxt)" by (cases p)
  show ?case
  proof (cases "i \<in> set ids")
    case True
    then show ?thesis using Cons.prems page_after by (auto simp: p)
  next
    case False
    then obtain d where d: "nxt = Some d" "page_chain page d pages" "i \<in> set (chain_ids pages)" using Cons.prems by (auto simp: p split: option.splits)
    have "page c ids (Some d)" using Cons.prems(1) d(1) by (simp add: p)
    then show ?thesis using next_after Cons.IH [OF d(2) _ d(3)] Cons.prems(2) less_trans by blast
  qed
qed simp

lemma chain_sorted: "page_chain page c pages \<Longrightarrow> sorted_wrt (<) (chain_ids pages)"
proof (induction pages arbitrary: c)
  case (Cons p pages)
  obtain ids nxt where p: "p = (ids, nxt)" by (cases p)
  have ids: "sorted_wrt (<) ids" using Cons.prems page_sorted by (auto simp: p)
  show ?case
  proof (cases nxt)
    case None
    then show ?thesis using Cons.prems ids by (simp add: p)
  next
    case (Some d)
    then have d: "page c ids (Some d)" "page_chain page d pages" using Cons.prems by (simp_all add: p)
    have "i < j" if "i \<in> set ids" "j \<in> set (chain_ids pages)" for i j
      using next_covers [OF d(1) that(1)] chain_after [OF d(2) _ that(2)] next_after [OF d(1)] by (meson le_less_trans)
    then show ?thesis using ids Cons.IH [OF d(2)] by (auto simp: p sorted_wrt_append)
  qed
qed simp

lemma chain_distinct: "page_chain page c pages \<Longrightarrow> distinct (chain_ids pages)"
  using chain_sorted strict_sorted_iff by blast

end

end
