(* ===== verification/Directory_Properties.thy ===== *)
theory Directory_Properties
  imports Directory_Token Page_Chain
begin

text \<open>
  Properties of the directory client: what an accepted snapshot is, the decision about department trees, pages that never repeat a
  member or an organization, the token cache under concurrent callers, closed errors, and requests that stay at the origin.
\<close>

section \<open>Snapshots\<close>

definition snapshot_valid :: "dir_env \<Rightarrow> dir_options \<Rightarrow> snapshot \<Rightarrow> bool" where
  "snapshot_valid E opts s \<longleftrightarrow>
     displayValue (dorg_Name (sn_Organization s)) 128 False \<and>
     length (sn_Members s) \<le> maxMembers \<and> distinct (map dm_UserID (sn_Members s)) \<and> (\<forall>m \<in> set (sn_Members s). member_valid E opts m) \<and>
     length (sn_Departments s) \<le> maxDepartments \<and> distinct (map dp_ID (sn_Departments s)) \<and>
     (\<forall>d \<in> set (sn_Departments s). canonicalValue (dp_ID d) maxDepartmentIDRunes \<and> displayValue (dp_Name d) 128 False) \<and>
     Range (parent_rel (sn_Departments s)) \<subseteq> dp_ID ` set (sn_Departments s) \<and> acyclic (parent_rel (sn_Departments s)) \<and>
     (if IncludeDepartments opts then \<forall>m \<in> set (sn_Members s). set (dm_DepartmentIDs m) \<subseteq> dp_ID ` set (sn_Departments s)
      else sn_Departments s = [])"

lemma validateSnapshot_parts:
  assumes "validateSnapshot E response v = Inr s"
  obtains wms wds where "organization_ok v (ws_Organization response) = Some (sn_Organization s)"
    "length wms \<le> maxMembers" "sv_listMode v \<longrightarrow> int (length wms) \<le> sv_limit v" "check_members E v [] [] wms = Some (sn_Members s)"
    "IncludeDepartments (sv_options v) \<or> wds = []" "length wds \<le> maxDepartments" "check_departments [] wds = Some (sn_Departments s)"
    "list_all (parent_ok (sn_Departments s)) (sn_Departments s)"
    "IncludeDepartments (sv_options v) \<longrightarrow> (\<forall>m \<in> set (sn_Members s). \<forall>i \<in> set (dm_DepartmentIDs m). by_id (sn_Departments s) i \<noteq> None)"
    "trees_ok (sn_Departments s)"
proof -
  obtain o1 wms wds where o1: "organization_ok v (ws_Organization response) = Some o1" and w: "ws_Members response = Some wms" "ws_Departments response = Some wds"
    using assms by (auto simp: validateSnapshot_def split: option.splits)
  then obtain ms ds where c: "check_members E v [] [] wms = Some ms" "check_departments [] wds = Some ds"
    using assms by (auto simp: validateSnapshot_def split: option.splits if_splits)
  have "s = \<lparr>sn_Organization = o1, sn_Members = ms, sn_Departments = ds\<rparr>"
    using assms o1 w c by (auto simp: validateSnapshot_def split: if_splits)
  then show thesis using that [of wms wds] assms o1 w c by (auto simp: validateSnapshot_def list_all_iff split: if_splits)
qed

lemma organization_ok_id:
  "organization_ok v o1 = Some x \<Longrightarrow> dorg_ID x = sv_organizationID v \<and> displayValue (dorg_Name x) 128 False"
  by (auto simp: organization_ok_def split: option.splits if_splits)

lemma validateSnapshot_valid:
  assumes "validateSnapshot E response v = Inr s"
  shows "snapshot_valid E (sv_options v) s \<and> dorg_ID (sn_Organization s) = sv_organizationID v \<and>
    (if sv_listMode v then int (length (sn_Members s)) \<le> sv_limit v \<and> sorted_wrt (<) (map dm_UserID (sn_Members s)) \<and>
         (\<forall>m \<in> set (sn_Members s). sv_cursor v \<noteq> [] \<longrightarrow> sv_cursor v < dm_UserID m)
     else set (map dm_UserID (sn_Members s)) \<subseteq> set (sv_requested v))"
proof -
  obtain wms wds where p: "organization_ok v (ws_Organization response) = Some (sn_Organization s)"
    "length wms \<le> maxMembers" "sv_listMode v \<longrightarrow> int (length wms) \<le> sv_limit v" "check_members E v [] [] wms = Some (sn_Members s)"
    "IncludeDepartments (sv_options v) \<or> wds = []" "length wds \<le> maxDepartments" "check_departments [] wds = Some (sn_Departments s)"
    "list_all (parent_ok (sn_Departments s)) (sn_Departments s)"
    "IncludeDepartments (sv_options v) \<longrightarrow> (\<forall>m \<in> set (sn_Members s). \<forall>i \<in> set (dm_DepartmentIDs m). by_id (sn_Departments s) i \<noteq> None)"
    "trees_ok (sn_Departments s)" using validateSnapshot_parts [OF assms] by blast
  note ms = check_members_ok [OF p(4)] and ds = check_departments_ok [OF p(7)]
  have org: "dorg_ID (sn_Organization s) = sv_organizationID v" "displayValue (dorg_Name (sn_Organization s)) 128 False"
    using organization_ok_id [OF p(1)] by blast+
  have range: "Range (parent_rel (sn_Departments s)) \<subseteq> dp_ID ` set (sn_Departments s)" using parents_in_range [OF p(8)] .
  have "acyclic (parent_rel (sn_Departments s))" using trees_ok_iff [OF _ range] ds p(10) by simp
  moreover have "if IncludeDepartments (sv_options v) then \<forall>m \<in> set (sn_Members s). set (dm_DepartmentIDs m) \<subseteq> dp_ID ` set (sn_Departments s)
      else sn_Departments s = []" using p(5,9) ds by (auto simp: by_id_None)
  ultimately have "snapshot_valid E (sv_options v) s" using org ms ds range p(2,6) by (simp add: snapshot_valid_def list_all_iff)
  moreover have "if sv_listMode v then int (length (sn_Members s)) \<le> sv_limit v \<and> sorted_wrt (<) (map dm_UserID (sn_Members s)) \<and>
         (\<forall>m \<in> set (sn_Members s). sv_cursor v \<noteq> [] \<longrightarrow> sv_cursor v < dm_UserID m)
     else set (map dm_UserID (sn_Members s)) \<subseteq> set (sv_requested v)"
    using ms p(3) check_members_sorted [OF p(4)] by simp
  ultimately show ?thesis using org(1) by blast
qed

section \<open>Calls\<close>

text \<open>A call that has an answer: its token and the exchange that brought the document.\<close>

definition answered_by :: "'n transport \<Rightarrow> string \<Rightarrow> string \<Rightarrow> 'n \<Rightarrow> bool" where
  "answered_by base origin token n' \<longleftrightarrow>
     (\<exists>request n1 response. base request n1 = (Inr response, n') \<and> registered origin request \<and>
        dq_Header request ''Authorization'' = Some (''Bearer '' @ token) \<and> ds_Status response = 200)"

lemma RoundTrip_request:
  assumes "RoundTrip base origin ctx q n = (Inr response, n')"
  shows "\<exists>q'. base q' n = (Inr response, n') \<and> registered origin q' \<and> (\<forall>k. k \<noteq> ''X-Request-Id'' \<longrightarrow> dq_Header q' k = dq_Header q k)"
proof -
  have reg: "registered origin q" using assms by (auto simp: RoundTrip_def split: if_splits)
  define q' where "q' = (if FromContext ctx = [] then q else q\<lparr>dq_Header := (dq_Header q)(''X-Request-Id'' \<mapsto> FromContext ctx)\<rparr>)"
  have "base q' n = (Inr response, n')" using assms reg by (simp add: RoundTrip_def q'_def Let_def)
  moreover have "registered origin q'" "\<forall>k. k \<noteq> ''X-Request-Id'' \<longrightarrow> dq_Header q' k = dq_Header q k" using reg by (simp_all add: q'_def registered_def)
  ultimately show ?thesis by blast
qed

lemma postDirectory_answered:
  assumes "postDirectory E base config ctx view path token body n = (Inr document, n')"
  shows "answered_by base (dg_Endpoint config) token n'"
proof -
  obtain u where u: "de_url E (dg_Endpoint config @ path) = Some u" using assms by (auto simp: postDirectory_def split: option.splits)
  let ?q = "\<lparr>dq_Method = ''POST'', dq_URL = u,
      dq_Header = (setNoStoreHeaders Map.empty)(''Authorization'' \<mapsto> ''Bearer '' @ token, ''Content-Type'' \<mapsto> ''application/json''), dq_Body = body\<rparr>"
  obtain response n1 where r: "RoundTrip base (dg_Endpoint config) ctx ?q n = (Inr response, n1)" and n1: "n1 = n'"
    and c: "classifyDirectoryResponse E response = None"
    using assms u by (auto simp: postDirectory_def split: sum.splits prod.splits option.splits)
  obtain q where "base q n = (Inr response, n')" "registered (dg_Endpoint config) q" "dq_Header q ''Authorization'' = dq_Header ?q ''Authorization''"
    using RoundTrip_request [OF r] n1 by auto
  moreover have "ds_Status response = 200" using c by (auto simp: classifyDirectoryResponse_def classifyStatus_def split: if_splits)
  ultimately show ?thesis unfolding answered_by_def by (intro exI [of _ q] exI [of _ n] exI [of _ response]) simp
qed

lemma accessToken_config:
  assumes "accessToken E base ctx view tt client n = Some (r, client', n')"
  shows "dc_config client' = dc_config client"
proof (cases "token_cached (tt_now tt) client")
  case False
  obtain res n1 where f: "fetchToken E base (dc_config client) ctx view n = (res, n1)" by (meson surj_pair)
  obtain err c where s: "settle_token res (tt_startedAt tt) (tt_completedAt tt) (begin_refresh 0 client) = (err, c)" by (meson surj_pair)
  have "client' = c" using assms False f s by (auto simp: accessToken_def split: if_splits option.splits)
  then show ?thesis using settle_token_cases [OF s] by (simp add: begin_refresh_def)
qed (use assms in \<open>auto simp: accessToken_def\<close>)

lemma directory_call_answered:
  assumes "directory_call E base ctx io path request decode client n = Some (Inr x, client', n')"
  shows "\<exists>document token. decode document = Inr x \<and> answered_by base (dg_Endpoint (dc_config client)) token n'"
proof -
  obtain body token c1 n1 where a: "accessToken E base ctx (io_token io) (io_times io) client n = Some (Inr token, c1, n1)"
    and m: "de_marshal E request = Some body" "\<not> length body > maxRequestBytes"
    using assms by (auto simp: directory_call_def split: option.splits if_splits prod.splits sum.splits)
  obtain res n2 where p: "postDirectory E base (dc_config c1) ctx (io_post io) path token body n1 = (res, n2)" by (meson surj_pair)
  obtain document where d: "res = Inr document" "decode document = Inr x" "n2 = n'"
    using assms a m p by (auto simp: directory_call_def split: sum.splits)
  show ?thesis using postDirectory_answered [of E base "dc_config c1"] p d accessToken_config [OF a] by metis
qed

text \<open>C11. A snapshot is what was asked for: it comes from a registered request with a bearer token that was answered with 200, is of the requested
  organization and has only requested members, none twice, all within the bounds; its departments are there only when they were asked for, form
  trees, and are the ones its members refer to.\<close>

theorem snapshot_as_requested:
  assumes "Snapshot E base ctx io organizationID userIDs opts (Some client) n = Some (Inr s, client', n')"
  shows "snapshot_valid E opts s \<and> dorg_ID (sn_Organization s) = organizationID \<and> set (map dm_UserID (sn_Members s)) \<subseteq> set userIDs \<and>
    (\<exists>token. answered_by base (dg_Endpoint (dc_config client)) token n')"
proof -
  let ?v = "\<lparr>sv_organizationID = organizationID, sv_requested = userIDs, sv_listMode = False, sv_cursor = [], sv_limit = 0, sv_options = opts\<rparr>"
  obtain c where "directory_call E base ctx io snapshotPath (snapshotRequest organizationID userIDs opts) (read_snapshot E ?v) client n = Some (Inr s, c, n')"
    using assms by (auto simp: Snapshot_def split: if_splits)
  from directory_call_answered [OF this]
  obtain document token where d: "read_snapshot E ?v document = Inr s" and a: "answered_by base (dg_Endpoint (dc_config client)) token n'" by blast
  then obtain response where "validateSnapshot E response ?v = Inr s" by (auto simp: read_snapshot_def split: option.splits)
  from validateSnapshot_valid [OF this] a show ?thesis by auto
qed

section \<open>Department trees\<close>

text \<open>The walk of the code from every department to its root decides exactly whether the departments form trees: for departments with
  distinct identifiers and known parents it accepts if and only if no department is above itself.\<close>

theorem trees_are_decided:
  assumes "check_departments [] wds = Some departments" and "list_all (parent_ok departments) departments"
  shows "trees_ok departments \<longleftrightarrow> acyclic (parent_rel departments)"
  using trees_ok_iff [OF _ parents_in_range [OF assms(2)]] check_departments_ok [OF assms(1)] by simp

section \<open>Pages\<close>

definition member_page :: "dir_env \<Rightarrow> 'n transport \<Rightarrow> string \<Rightarrow> int \<Rightarrow> dir_options \<Rightarrow> string \<Rightarrow> string list \<Rightarrow> string option \<Rightarrow> bool" where
  "member_page E base organizationID limit opts cursor ids nxt \<longleftrightarrow>
     (\<exists>ctx io client n s client' n'. ListPage E base ctx io organizationID cursor limit opts client n = Some (Inr (s, nxt), client', n') \<and>
        ids = map dm_UserID (sn_Members s))"

definition organization_page :: "dir_env \<Rightarrow> 'n transport \<Rightarrow> string \<Rightarrow> int \<Rightarrow> string \<Rightarrow> string list \<Rightarrow> string option \<Rightarrow> bool" where
  "organization_page E base query limit cursor ids nxt \<longleftrightarrow>
     (\<exists>ctx io client n os client' n'. SearchOrganizations E base ctx io query cursor limit client n = Some (Inr (os, nxt), client', n') \<and>
        ids = map dorg_ID os)"

lemma read_list_page_ok:
  assumes "read_list_page E v document = Inr (s, nxt)" and v: "sv_listMode v"
  shows "sorted_wrt (<) (map dm_UserID (sn_Members s)) \<and> (\<forall>m \<in> set (sn_Members s). sv_cursor v \<noteq> [] \<longrightarrow> sv_cursor v < dm_UserID m) \<and>
    int (length (sn_Members s)) \<le> sv_limit v \<and> snapshot_valid E (sv_options v) s \<and> dorg_ID (sn_Organization s) = sv_organizationID v \<and>
    (\<forall>d. nxt = Some d \<longrightarrow> d \<noteq> [] \<and> (sv_cursor v \<noteq> [] \<longrightarrow> sv_cursor v < d) \<and> (sn_Members s \<noteq> [] \<longrightarrow> dm_UserID (last (sn_Members s)) \<le> d))"
proof -
  obtain response where r: "parseNextCursor (ws_NextCursor response) = Inr nxt" "validateSnapshot E (list_page_snapshot response) v = Inr s"
    and c: "\<not> (case nxt of None \<Rightarrow> False | Some c \<Rightarrow> sv_cursor v \<noteq> [] \<and> c \<le> sv_cursor v)"
      "\<not> (case nxt of None \<Rightarrow> False | Some c \<Rightarrow> sn_Members s \<noteq> [] \<and> c < dm_UserID (last (sn_Members s)))"
    using assms(1) by (auto simp: read_list_page_def split: option.splits sum.splits if_splits)
  have "d \<noteq> []" if "nxt = Some d" for d
    using r(1) that by (auto simp: parseNextCursor_def canonicalValue_def split: option.splits json.splits if_splits)
  with validateSnapshot_valid [OF r(2)] v c show ?thesis by (auto simp: not_le not_less)
qed

lemma sorted_last_ge: "sorted_wrt (<) xs \<Longrightarrow> x \<in> set xs \<Longrightarrow> x \<le> last xs" for xs :: "string list"
  by (induction xs) (auto simp: less_imp_le)

lemma member_page_ok:
  assumes "member_page E base organizationID limit opts cursor ids nxt"
  shows "sorted_wrt (<) ids \<and> (\<forall>i \<in> set ids. cursor \<noteq> [] \<longrightarrow> cursor < i) \<and>
    (\<forall>d. nxt = Some d \<longrightarrow> d \<noteq> [] \<and> (cursor \<noteq> [] \<longrightarrow> cursor < d) \<and> (\<forall>i \<in> set ids. i \<le> d))"
proof -
  obtain ctx io client n s client' n' where l: "ListPage E base ctx io organizationID cursor limit opts client n = Some (Inr (s, nxt), client', n')"
    and ids: "ids = map dm_UserID (sn_Members s)" using assms by (auto simp: member_page_def)
  let ?v = "\<lparr>sv_organizationID = organizationID, sv_requested = [], sv_listMode = True, sv_cursor = cursor,
      sv_limit = (if limit = 0 then 100 else limit), sv_options = opts\<rparr>"
  obtain c where "directory_call E base ctx io snapshotPath (listPageRequest organizationID cursor (if limit = 0 then 100 else limit) opts) (read_list_page E ?v) (the client) n =
      Some (Inr (s, nxt), c, n')" using l by (auto simp: ListPage_def Let_def split: if_splits)
  from directory_call_answered [OF this] obtain document where d: "read_list_page E ?v document = Inr (s, nxt)" by blast
  have ok: "sorted_wrt (<) ids" "\<forall>i \<in> set ids. cursor \<noteq> [] \<longrightarrow> cursor < i"
    "\<forall>d. nxt = Some d \<longrightarrow> d \<noteq> [] \<and> (cursor \<noteq> [] \<longrightarrow> cursor < d) \<and> (ids \<noteq> [] \<longrightarrow> last ids \<le> d)"
    using read_list_page_ok [OF d] by (auto simp: ids last_map)
  have "i \<le> d" if "nxt = Some d" "i \<in> set ids" for i d
  proof -
    have "last ids \<le> d" using ok(3) that by auto
    with sorted_last_ge [OF ok(1) that(2)] show ?thesis by (rule order_trans)
  qed
  with ok show ?thesis by blast
qed

interpretation member_pages: ascending_pages "member_page E base organizationID limit opts"
proof
  fix c ids nxt i
  assume p: "member_page E base organizationID limit opts c ids nxt"
  show "sorted_wrt (<) ids" using member_page_ok [OF p] by blast
  show "c \<noteq> [] \<Longrightarrow> i \<in> set ids \<Longrightarrow> c < i" using member_page_ok [OF p] by blast
next
  fix c ids d i
  assume p: "member_page E base organizationID limit opts c ids (Some d)"
  show "d \<noteq> [] \<and> (c \<noteq> [] \<longrightarrow> c < d)" using member_page_ok [OF p] by blast
  show "i \<in> set ids \<Longrightarrow> i \<le> d" using member_page_ok [OF p] by blast
qed

text \<open>C22. A listing repeats nobody: whoever follows the cursors of \<open>ListPage\<close> from one page to the next, with any number of failures and
  changes of the directory in between, gets the members in strictly ascending order, each one once, all behind the first cursor.\<close>

theorem pages_never_repeat:
  assumes "page_chain (member_page E base organizationID limit opts) cursor pages"
  shows "sorted_wrt (<) (chain_ids pages) \<and> distinct (chain_ids pages) \<and> (cursor \<noteq> [] \<longrightarrow> (\<forall>i \<in> set (chain_ids pages). cursor < i))"
  using member_pages.chain_sorted [OF assms] member_pages.chain_distinct [OF assms] member_pages.chain_after [OF assms] by blast

lemma check_organizations_sorted:
  assumes "check_organizations cursor seen previous ws = Some xs"
  shows "sorted_wrt (<) (map dorg_ID xs) \<and> (\<forall>x \<in> set xs. (previous \<noteq> [] \<longrightarrow> previous < dorg_ID x) \<and> (cursor \<noteq> [] \<longrightarrow> cursor < dorg_ID x)) \<and>
    length xs = length ws \<and> (\<forall>x \<in> set xs. validOrganizationID (dorg_ID x) \<and> validOrganizationName (dorg_Name x))"
  using assms
proof (induction ws arbitrary: seen previous xs)
  case (Cons w ws)
  then obtain i name ys where i: "wo_ID w = Some i" "wo_Name w = Some name" "validOrganizationID i" "validOrganizationName name"
      "\<not> (i \<in> set seen \<or> previous \<noteq> [] \<and> i \<le> previous \<or> cursor \<noteq> [] \<and> i \<le> cursor)"
    and ys: "check_organizations cursor (i # seen) i ws = Some ys" and xs: "xs = \<lparr>dorg_ID = i, dorg_Name = name\<rparr> # ys"
    by (auto split: option.splits if_splits)
  have "i \<noteq> []" using i(3) by (auto simp: validOrganizationID_def)
  with Cons.IH [OF ys] i show ?case by (auto simp: xs not_le intro: less_trans)
qed simp

lemma organization_page_ok:
  assumes "organization_page E base query limit cursor ids nxt"
  shows "sorted_wrt (<) ids \<and> (\<forall>i \<in> set ids. cursor \<noteq> [] \<longrightarrow> cursor < i) \<and>
    (\<forall>d. nxt = Some d \<longrightarrow> d \<noteq> [] \<and> (cursor \<noteq> [] \<longrightarrow> cursor < d) \<and> (\<forall>i \<in> set ids. i \<le> d))"
proof -
  obtain ctx io client n os client' n' where l: "SearchOrganizations E base ctx io query cursor limit client n = Some (Inr (os, nxt), client', n')"
    and ids: "ids = map dorg_ID os" using assms by (auto simp: organization_page_def)
  then obtain c where "directory_call E base ctx io organizationsPath (organizationSearchRequest query cursor limit) (read_organizations E cursor limit) (the client) n =
      Some (Inr (os, nxt), c, n')" by (auto simp: SearchOrganizations_def split: if_splits)
  from directory_call_answered [OF this] obtain document where d: "read_organizations E cursor limit document = Inr (os, nxt)" by blast
  then obtain response :: wire_organization_search where r: "parseOptionalOrganizationCursor (wx_NextCursor response) = Inr nxt"
    "validateOrganizationSearch (wx_Organizations response) cursor nxt limit = Inr os"
    by (auto simp: read_organizations_def split: option.splits sum.splits)
  then obtain ws where ws: "check_organizations cursor [] [] ws = Some os" and covers: "\<And>d. nxt = Some d \<Longrightarrow> os \<noteq> [] \<and> dorg_ID (last os) \<le> d"
    by (auto simp: validateOrganizationSearch_def not_less split: option.splits if_splits)
  have sorted: "sorted_wrt (<) ids" and after: "\<forall>i \<in> set ids. cursor \<noteq> [] \<longrightarrow> cursor < i"
    using check_organizations_sorted [OF ws] by (auto simp: ids)
  have "d \<noteq> [] \<and> (cursor \<noteq> [] \<longrightarrow> cursor < d) \<and> (\<forall>i \<in> set ids. i \<le> d)" if nxt: "nxt = Some d" for d
  proof (intro conjI impI ballI)
    show "d \<noteq> []" using r(1) nxt by (auto simp: parseOptionalOrganizationCursor_def validOrganizationID_def split: option.splits json.splits if_splits)
    have l: "ids \<noteq> []" "last ids \<le> d" using covers [OF nxt] by (auto simp: ids last_map)
    show "i \<le> d" if "i \<in> set ids" for i using sorted_last_ge [OF sorted that] l(2) by (rule order_trans)
    show "cursor < d" if "cursor \<noteq> []"
      using after that l last_in_set [OF l(1)] by (meson less_le_trans)
  qed
  with sorted after show ?thesis by blast
qed

interpretation organization_pages: ascending_pages "organization_page E base query limit"
proof
  fix c ids nxt i
  assume p: "organization_page E base query limit c ids nxt"
  show "sorted_wrt (<) ids" using organization_page_ok [OF p] by blast
  show "c \<noteq> [] \<Longrightarrow> i \<in> set ids \<Longrightarrow> c < i" using organization_page_ok [OF p] by blast
next
  fix c ids d i
  assume p: "organization_page E base query limit c ids (Some d)"
  show "d \<noteq> [] \<and> (c \<noteq> [] \<longrightarrow> c < d)" using organization_page_ok [OF p] by blast
  show "i \<in> set ids \<Longrightarrow> i \<le> d" using organization_page_ok [OF p] by blast
qed

text \<open>The same holds for a search of organizations.\<close>

theorem organizations_never_repeat:
  assumes "page_chain (organization_page E base query limit) cursor pages"
  shows "sorted_wrt (<) (chain_ids pages) \<and> distinct (chain_ids pages) \<and> (cursor \<noteq> [] \<longrightarrow> (\<forall>i \<in> set (chain_ids pages). cursor < i))"
  using organization_pages.chain_sorted [OF assms] organization_pages.chain_distinct [OF assms] organization_pages.chain_after [OF assms] by blast

section \<open>Errors\<close>

definition dir_error :: "derror \<Rightarrow> bool" where
  "dir_error e \<longleftrightarrow> e \<in> {ErrDenied, ErrOrganizationDenied, ErrUnavailable, ErrProtocol, ErrUnexpectedStatus} \<or> (\<exists>c. e = wrapContextFailure c)"

lemma dir_error_simps [simp]:
  "dir_error ErrDenied" "dir_error ErrOrganizationDenied" "dir_error ErrUnavailable" "dir_error ErrProtocol" "dir_error ErrUnexpectedStatus"
  "dir_error (wrapContextFailure c)"
  by (auto simp: dir_error_def)

definition closed :: "derror + 'a \<Rightarrow> bool" where "closed r \<longleftrightarrow> (\<forall>e. r = Inl e \<longrightarrow> dir_error e)"

lemma closed_simps [simp]: "closed (Inl e) \<longleftrightarrow> dir_error e" "closed (Inr x)"
  by (auto simp: closed_def)

lemma requestFailure_closed [simp]: "dir_error (requestFailure c e)"
  by (auto simp: requestFailure_def split: option.splits)

lemma classifyStatus_closed: "classifyStatus status b = Some e \<Longrightarrow> dir_error e"
  by (auto simp: classifyStatus_def split: if_splits)

lemma classifyDirectoryResponse_closed: "classifyDirectoryResponse E response = Some e \<Longrightarrow> dir_error e"
  by (auto simp: classifyDirectoryResponse_def classifyStatus_closed split: if_splits)

lemma readJSONResponse_closed [simp]: "closed (readJSONResponse E view response limit)"
  by (auto simp: readJSONResponse_def split: option.splits sum.splits)

lemma read_token_closed [simp]: "closed (read_token E document)"
  by (auto simp: read_token_def split: option.splits sum.splits)

lemma fetchToken_closed: "fetchToken E base config ctx view n = (r, n') \<Longrightarrow> closed r"
  using readJSONResponse_closed [of E view _ maxTokenBodyBytes]
  by (auto simp: fetchToken_def closed_def classifyStatus_closed split: option.splits sum.splits prod.splits)
    (metis closed_simps(1) read_token_closed)

lemma accessToken_closed:
  assumes "accessToken E base ctx view tt client n = Some (r, client', n')"
  shows "closed r"
proof (cases "token_cached (tt_now tt) client")
  case False
  obtain res n1 where f: "fetchToken E base (dc_config client) ctx view n = (res, n1)" by (meson surj_pair)
  obtain err c where s: "settle_token res (tt_startedAt tt) (tt_completedAt tt) (begin_refresh 0 client) = (err, c)" by (meson surj_pair)
  have "err = Some e \<Longrightarrow> dir_error e" for e
    using s fetchToken_closed [OF f] by (auto simp: settle_token_def Let_def split: sum.splits prod.splits if_splits)
  then show ?thesis using assms False f s by (auto simp: accessToken_def split: if_splits option.splits)
qed (use assms in \<open>auto simp: accessToken_def\<close>)

lemma postDirectory_closed: "postDirectory E base config ctx view path token body n = (r, n') \<Longrightarrow> closed r"
  by (auto simp: postDirectory_def classifyDirectoryResponse_closed split: option.splits sum.splits prod.splits)

lemma directory_call_closed:
  assumes "directory_call E base ctx io path request decode client n = Some (r, client', n')" and "\<And>d. closed (decode d)"
  shows "closed r"
proof (cases "de_marshal E request")
  case (Some body)
  show ?thesis
  proof (cases "length body > maxRequestBytes")
    case False
    obtain ar c1 n1 where a: "accessToken E base ctx (io_token io) (io_times io) client n = Some (ar, c1, n1)"
      using assms(1) Some False by (auto simp: directory_call_def split: option.splits)
    show ?thesis
    proof (cases ar)
      case (Inl e)
      then show ?thesis using assms(1) Some False a accessToken_closed [OF a] by (auto simp: directory_call_def)
    next
      case (Inr token)
      obtain pr n2 where p: "postDirectory E base (dc_config c1) ctx (io_post io) path token body n1 = (pr, n2)" by (meson surj_pair)
      show ?thesis using assms Some False a Inr p postDirectory_closed [OF p] by (cases pr) (auto simp: directory_call_def)
    qed
  qed (use assms Some in \<open>auto simp: directory_call_def\<close>)
qed (use assms in \<open>auto simp: directory_call_def\<close>)

lemma validateSnapshot_closed [simp]: "closed (validateSnapshot E response v)"
  by (auto simp: validateSnapshot_def split: option.splits)

lemma read_closed:
  "closed (read_snapshot E v document)" "closed (read_list_page E v document)" "closed (read_organizations E cursor limit document)"
proof -
  have "closed (validateOrganizationSearch ws cursor c limit)" for ws c
    by (auto simp: validateOrganizationSearch_def split: option.splits)
  then show "closed (read_organizations E cursor limit document)"
    by (auto simp: read_organizations_def closed_def split: option.splits sum.splits)
  show "closed (read_snapshot E v document)" by (auto simp: read_snapshot_def split: option.splits)
  show "closed (read_list_page E v document)"
    using validateSnapshot_closed [of E _ v] by (auto simp: read_list_page_def closed_def split: option.splits sum.splits)
qed


section \<open>Requests\<close>

text \<open>Only registered requests reach the transport: what it would do with others does not matter.\<close>

lemma RoundTrip_registered:
  assumes "\<And>q n. registered origin q \<Longrightarrow> base q n = base' q n"
  shows "RoundTrip base origin ctx = RoundTrip base' origin ctx"
  by (intro ext) (auto simp: RoundTrip_def Let_def registered_def intro!: assms)

theorem requests_stay_at_the_origin:
  assumes same: "\<And>q n. registered (dg_Endpoint (dc_config client)) q \<Longrightarrow> base q n = base' q n"
  shows "directory_call E base ctx io path request decode client n = directory_call E base' ctx io path request decode client n"
proof -
  have rt: "RoundTrip base (dg_Endpoint (dc_config client)) ctx = RoundTrip base' (dg_Endpoint (dc_config client)) ctx" using RoundTrip_registered same by blast
  have ft: "fetchToken E base (dc_config client) ctx = fetchToken E base' (dc_config client) ctx"
    by (intro ext) (simp only: fetchToken_def rt)
  have at: "accessToken E base ctx view tt client m = accessToken E base' ctx view tt client m" for view tt m
    by (simp only: accessToken_def ft)
  have post: "postDirectory E base (dc_config c1) ctx view path token body m = postDirectory E base' (dc_config c1) ctx view path token body m"
    if "accessToken E base' ctx view2 tt client m2 = Some (r, c1, m3)" for view view2 tt token body m m2 m3 r c1
    by (simp only: postDirectory_def accessToken_config [OF that] rt)
  show ?thesis unfolding directory_call_def at
    by (auto split: option.splits sum.splits prod.splits simp: post)
qed

section \<open>The token cache\<close>

lemma token_skew_min: "0 < lifetime \<Longrightarrow> token_skew lifetime = min (30 * second) (lifetime div 2)"
  by (auto simp: token_skew_def tokenExpirySkew_def go_div_nonneg)

text \<open>C9. However callers interleave: at most one is at work on a new token, nobody waits for a refresh that has no one at work on it and has not ended,
  and every token that is handed out came from the token endpoint and was looked at while more than its margin (thirty seconds, or half of a
  short life) was left of it, counted from before it was asked for.\<close>

theorem token_cache_sound:
  assumes new: "newClient E config transport plain = Inr client" and run: "token_step\<^sup>*\<^sup>* (token_start client t0) s"
  shows "(\<forall>c d k l. works_on k (ts_phase s c) \<and> works_on l (ts_phase s d) \<longrightarrow> c = d) \<and>
    (\<forall>c k. ts_phase s c = Waiting k \<longrightarrow> ts_done s k \<noteq> None \<or> (\<exists>d. works_on k (ts_phase s d))) \<and>
    (\<forall>c token t. ts_phase s c = Ended (Inr token) t \<longrightarrow>
       (\<exists>st lifetime. (token, st, lifetime) \<in> ts_fetched s \<and> 0 < lifetime \<and> t \<le> ts_clock s \<and> t + min (30 * second) (lifetime div 2) < st + lifetime))"
proof -
  have "token_inv (token_start client t0)"
    using new by (intro token_inv_start) (auto simp: newClient_def Let_def split: if_splits)
  then have inv: "token_inv s" using tokens.run_keeps [OF run] by blast
  then have ref: "refresh_ok (dc_refreshing (ts_client s)) (ts_done s) (ts_next s) (ts_phase s)" by (simp add: token_inv_def)
  have one: "c = d" if "works_on k (ts_phase s c)" "works_on l (ts_phase s d)" for c d k l
    using ref that unfolding refresh_ok_def by (metis option.inject)
  have waits: "ts_done s k \<noteq> None \<or> (\<exists>d. works_on k (ts_phase s d))" if "ts_phase s c = Waiting k" for c k
    using ref that unfolding refresh_ok_def by blast
  have "\<exists>st lifetime. (token, st, lifetime) \<in> ts_fetched s \<and> 0 < lifetime \<and> t \<le> ts_clock s \<and> t + min (30 * second) (lifetime div 2) < st + lifetime"
    if "ts_phase s c = Ended (Inr token) t" for c token t
  proof -
    have "phase_ok (ts_fetched s) (ts_clock s) (Ended (Inr token) t)" using inv that unfolding token_inv_def by metis
    then obtain st lifetime where l: "(token, st, lifetime) \<in> ts_fetched s" "t < st + (lifetime - token_skew lifetime)" "t \<le> ts_clock s"
      by (auto simp: good_until_def)
    moreover have "0 < lifetime" using inv l(1) by (auto simp: token_inv_def)
    ultimately show ?thesis using token_skew_min by (intro exI [of _ st] exI [of _ lifetime]) auto
  qed
  with one waits show ?thesis by blast
qed

section \<open>Examples\<close>

lemma canonical_plain: "plain_text s \<Longrightarrow> canonicalValue s limit \<longleftrightarrow> s \<noteq> [] \<and> length s \<le> limit"
  using plain_text_simps [of s] by (auto simp: canonicalValue_def rune_count_def)

lemma display_plain: "plain_text s \<Longrightarrow> displayValue s limit False \<longleftrightarrow> s \<noteq> [] \<and> length s \<le> limit"
  using plain_text_simps [of s] by (auto simp: displayValue_def rune_count_def list_ex_iff)

text \<open>A provider at one origin whose documents are \<open>doc\<close>, and a client with a token that is still good.\<close>

definition one_env :: "json \<Rightarrow> dir_env" where
  "one_env doc = \<lparr>de_url = (\<lambda>s. Some \<lparr>du_Scheme = ''https'', du_Host = ''dir'', du_User = False, du_Path = drop 11 s, du_RawQuery = [], du_ForceQuery = False,
       du_Fragment = [], du_String = s\<rparr>),
     de_media = Some, de_json = (\<lambda>_. Some \<lparr>jd_value = doc, jd_end = True\<rparr>), de_fold = (\<lambda>s. s), de_marshal = (\<lambda>_. Some ''{}'')\<rparr>"

definition one_config :: dir_config where
  "one_config = \<lparr>dg_Endpoint = ''https://dir'', dg_ClientID = ''c'', dg_ClientSecret = ''s'', dg_Resource = ''https://dir'', dg_Timeout = second\<rparr>"

definition fresh_client :: dir_client where
  "fresh_client = \<lparr>dc_config = one_config, dc_token = [], dc_tokenTill = zero_time, dc_refreshing = None\<rparr>"

definition warm_client :: dir_client where
  "warm_client = fresh_client\<lparr>dc_token := ''tok'', dc_tokenTill := 5\<rparr>"

definition answers_with :: "nat \<Rightarrow> string \<Rightarrow> unit transport" where
  "answers_with status body q n =
     (Inr \<lparr>ds_Status = status, ds_ContentType = ''application/json'', ds_ContentLength = 2, ds_Body = Some body, ds_BodyError = None\<rparr>, n)"

definition calm :: ctx_view where "calm = \<lparr>cv_failed = None, cv_before = None, cv_read = None, cv_after = None\<rparr>"

definition calm_io :: call_io where
  "calm_io = \<lparr>io_token = calm, io_post = calm, io_times = \<lparr>tt_now = 0, tt_startedAt = 0, tt_completedAt = 0\<rparr>\<rparr>"

definition both_options :: dir_options where "both_options = \<lparr>IncludeDepartments = True, IncludeMembershipEpoch = False\<rparr>"

definition one_member :: json where
  "one_member = JObject [(''user_id'', JString ''u''), (''name'', JString ''n''), (''avatar_url'', JString []), (''permissions'', JArray []),
     (''department_ids'', JArray [JString ''b'']), (''is_company_owner'', JBool True)]"

definition two_departments :: json where
  "two_departments = JArray [JObject [(''id'', JString ''a''), (''name'', JString ''n'')],
     JObject [(''id'', JString ''b''), (''name'', JString ''n''), (''parent_id'', JString ''a'')]]"

definition one_document :: "(string \<times> json) list \<Rightarrow> json" where
  "one_document extra = JObject ([(''organization'', JObject [(''id'', JString ''o''), (''name'', JString ''n'')]), (''members'', JArray [one_member]),
     (''departments'', two_departments)] @ extra)"

definition tree_departments :: "department list" where
  "tree_departments = [\<lparr>dp_ID = ''a'', dp_Name = ''n'', dp_ParentID = None\<rparr>, \<lparr>dp_ID = ''b'', dp_Name = ''n'', dp_ParentID = Some ''a''\<rparr>]"

definition wire_departments :: "wire_department list" where
  "wire_departments = [\<lparr>wd_ID = Some ''a'', wd_Name = Some ''n'', wd_ParentID = None\<rparr>, \<lparr>wd_ID = Some ''b'', wd_Name = Some ''n'', wd_ParentID = Some ''a''\<rparr>]"

definition wire_u :: wire_member where
  "wire_u = \<lparr>wm_UserID = Some ''u'', wm_Name = Some ''n'', wm_AvatarURL = Some [], wm_Permissions = Some [], wm_DepartmentIDs = Some [''b''],
     wm_IsCompanyOwner = Some True, wm_MembershipEpoch = None\<rparr>"

definition member_u :: dir_member where
  "member_u = \<lparr>dm_UserID = ''u'', dm_Name = ''n'', dm_AvatarURL = [], dm_Permissions = [], dm_DepartmentIDs = [''b''], dm_IsCompanyOwner = True, dm_MembershipEpoch = []\<rparr>"

lemma one_texts:
  "plain_text ''u''" "plain_text ''n''" "plain_text ''a''" "plain_text ''b''" "plain_text ''o''" "plain_text ''c''" "plain_text ''s''" "plain_text ''tok''"
  "plain_text ''https://dir''" "plain_text ''{}''"
  by (simp_all add: plain_text_def)

lemmas one_values = one_texts [THEN canonical_plain] one_texts [THEN display_plain] maxMemberIDRunes_def maxDepartmentIDRunes_def maxOrganizationIDRunes_def
  maxPermissions_def maxDirectDepartments_def maxDepartments_def maxMembers_def

lemma tree_checked: "check_departments [] wire_departments = Some tree_departments"
  by (simp add: wire_departments_def tree_departments_def one_values)

lemma tree_parents: "list_all (parent_ok tree_departments) tree_departments"
  by (simp add: tree_departments_def parent_ok_def by_id_def one_values)

theorem trees_are_decided_witness: "trees_ok tree_departments \<longleftrightarrow> acyclic (parent_rel tree_departments)"
  by (rule trees_are_decided [OF tree_checked tree_parents])

lemma tree_walks: "trees_ok tree_departments"
  by (simp add: trees_ok_def tree_departments_def walk_to_root.simps [of _ _ "''a''"] walk_to_root.simps [of _ _ "''b''"] by_id_def)

lemma member_checked:
  assumes "sv_options v = both_options" and "member_in_place v [] ''u''"
  shows "check_members E v [] [] [wire_u] = Some [member_u]"
  using assms by (simp add: check_member_def wire_u_def member_u_def both_options_def validAvatar_def parseMembershipEpoch_def one_values)

lemma one_validated:
  assumes "sv_options v = both_options" "member_in_place v [] ''u''" "sv_organizationID v = ''o''" "\<not> sv_listMode v \<or> 1 \<le> sv_limit v"
  shows "validateSnapshot E \<lparr>ws_Organization = Some \<lparr>wo_ID = Some ''o'', wo_Name = Some ''n''\<rparr>, ws_Members = Some [wire_u], ws_Departments = Some wire_departments\<rparr> v =
    Inr \<lparr>sn_Organization = \<lparr>dorg_ID = ''o'', dorg_Name = ''n''\<rparr>, sn_Members = [member_u], sn_Departments = tree_departments\<rparr>"
proof -
  have "length wire_departments = 2" by (simp add: wire_departments_def)
  moreover have "by_id tree_departments ''b'' \<noteq> None" by (simp add: tree_departments_def by_id_def)
  ultimately show ?thesis using assms member_checked [OF assms(1,2)]
    by (auto simp: validateSnapshot_def organization_ok_def one_values tree_checked tree_parents tree_walks both_options_def member_u_def)
qed

lemma one_decoded:
  "strictMembers (one_env doc) (JArray [one_member]) = Some [wire_u]"
  "strictDepartments (one_env doc) two_departments = Some wire_departments"
  by (simp_all add: one_member_def two_departments_def wire_u_def wire_departments_def member_field_def department_field_def one_env_def
      empty_wire_member_def empty_wire_department_def)

lemma one_organization:
  "organization_pointer (one_env doc) (JObject [(''id'', JString ''o''), (''name'', JString ''n'')]) None = Some (Some \<lparr>wo_ID = Some ''o'', wo_Name = Some ''n''\<rparr>)"
  by (simp add: organization_field_def empty_wire_organization_def one_env_def)

lemma snapshot_decoded:
  "strictJSON (one_env (one_document [])) (snapshot_field (one_env (one_document []))) empty_wire_snapshot ''{}'' =
    Some \<lparr>ws_Organization = Some \<lparr>wo_ID = Some ''o'', wo_Name = Some ''n''\<rparr>, ws_Members = Some [wire_u], ws_Departments = Some wire_departments\<rparr>"
proof -
  have f: "de_fold (one_env doc) s = s" "de_json (one_env doc) t = Some \<lparr>jd_value = doc, jd_end = True\<rparr>" for doc s t by (simp_all add: one_env_def)
  show ?thesis
    by (simp add: strictJSON_def plain_text_simps(2) [OF one_texts(10)] f one_document_def snapshot_field_def empty_wire_snapshot_def one_decoded one_organization
        del: organization_pointer.simps strictMembers.simps strictDepartments.simps)
qed

text \<open>An answer with a body that is read is decoded.\<close>

lemma one_call:
  assumes "path = snapshotPath \<or> path = organizationsPath"
  shows "directory_call (one_env doc) (answers_with 200 ''{}'') (Some Background) calm_io path request decode warm_client () = Some (decode ''{}'', warm_client, ())"
proof -
  have "token_cached 0 warm_client" by (simp add: token_cached_def warm_client_def)
  moreover have "FromContext (Some Background) = []" by (simp add: FromContext_def Background_def)
  ultimately show ?thesis using assms
    by (auto simp: directory_call_def accessToken_def calm_io_def calm_def postDirectory_def one_env_def maxRequestBytes_def RoundTrip_def registered_def
        warm_client_def fresh_client_def one_config_def snapshotPath_def organizationsPath_def tokenPath_def answers_with_def classifyDirectoryResponse_def classifyStatus_def
        readJSONResponse_def read_limited_def maxSnapshotBodyBytes_def)
qed

theorem snapshot_as_requested_witness:
  "\<exists>s. Snapshot (one_env (one_document [])) (answers_with 200 ''{}'') (Some Background) calm_io ''o'' [''u''] both_options (Some warm_client) () = Some (Inr s, Some warm_client, ()) \<and>
     snapshot_valid (one_env (one_document [])) both_options s \<and> dorg_ID (sn_Organization s) = ''o'' \<and> map dm_UserID (sn_Members s) = [''u'']"
proof -
  let ?s = "\<lparr>sn_Organization = \<lparr>dorg_ID = ''o'', dorg_Name = ''n''\<rparr>, sn_Members = [member_u], sn_Departments = tree_departments\<rparr>"
  have "read_snapshot (one_env (one_document [])) \<lparr>sv_organizationID = ''o'', sv_requested = [''u''], sv_listMode = False, sv_cursor = [], sv_limit = 0, sv_options = both_options\<rparr> ''{}'' = Inr ?s"
    unfolding read_snapshot_def snapshot_decoded using one_validated by (simp add: member_in_place_def)
  then have "Snapshot (one_env (one_document [])) (answers_with 200 ''{}'') (Some Background) calm_io ''o'' [''u''] both_options (Some warm_client) () = Some (Inr ?s, Some warm_client, ())"
    by (simp add: Snapshot_def dir_ready_def one_values one_call)
  from this snapshot_as_requested [OF this] show ?thesis by (intro exI [of _ ?s]) (auto simp: member_u_def)
qed

lemma page_decoded:
  "strictJSON (one_env (one_document [(''next_cursor'', JNull)])) (list_page_field (one_env (one_document [(''next_cursor'', JNull)])))
      \<lparr>ws_Organization = None, ws_Members = None, ws_Departments = None, ws_NextCursor = None\<rparr> ''{}'' =
    Some \<lparr>ws_Organization = Some \<lparr>wo_ID = Some ''o'', wo_Name = Some ''n''\<rparr>, ws_Members = Some [wire_u], ws_Departments = Some wire_departments, ws_NextCursor = Some JNull\<rparr>"
proof -
  have f: "de_fold (one_env doc) s = s" "de_json (one_env doc) t = Some \<lparr>jd_value = doc, jd_end = True\<rparr>" for doc s t by (simp_all add: one_env_def)
  show ?thesis
    by (simp add: strictJSON_def plain_text_simps(2) [OF one_texts(10)] f one_document_def list_page_field_def snapshot_field_def one_decoded one_organization
        del: organization_pointer.simps strictMembers.simps strictDepartments.simps)
qed

theorem pages_never_repeat_witness:
  "\<exists>pages. page_chain (member_page (one_env (one_document [(''next_cursor'', JNull)])) (answers_with 200 ''{}'') ''o'' 0 both_options) ''t'' pages \<and>
     chain_ids pages = [''u''] \<and> distinct (chain_ids pages)"
proof -
  let ?E = "one_env (one_document [(''next_cursor'', JNull)])"
  let ?s = "\<lparr>sn_Organization = \<lparr>dorg_ID = ''o'', dorg_Name = ''n''\<rparr>, sn_Members = [member_u], sn_Departments = tree_departments\<rparr>"
  have t: "canonicalValue ''t'' 128" using canonical_plain [of "''t''"] by (simp add: plain_text_def)
  have "read_list_page ?E \<lparr>sv_organizationID = ''o'', sv_requested = [], sv_listMode = True, sv_cursor = ''t'', sv_limit = 100, sv_options = both_options\<rparr> ''{}'' = Inr (?s, None)"
    unfolding read_list_page_def page_decoded using one_validated by (simp add: member_in_place_def parseNextCursor_def list_page_snapshot_def)
  then have "ListPage ?E (answers_with 200 ''{}'') (Some Background) calm_io ''o'' ''t'' 0 both_options (Some warm_client) () = Some (Inr (?s, None), Some warm_client, ())"
    by (simp add: ListPage_def dir_ready_def one_values t one_call)
  then have "member_page ?E (answers_with 200 ''{}'') ''o'' 0 both_options ''t'' [''u''] None"
    unfolding member_page_def by (intro exI conjI) (auto simp: member_u_def)
  then have "page_chain (member_page ?E (answers_with 200 ''{}'') ''o'' 0 both_options) ''t'' [([''u''], None)]" by simp
  from this pages_never_repeat [OF this] show ?thesis by (intro exI [of _ "[([''u''], None)]"]) simp
qed


definition token_document :: json where
  "token_document = JObject [(''access_token'', JString ''tok''), (''token_type'', JString ''Bearer''), (''expires_in'', JNumber ''90'')]"

lemma one_fetch: "fetchToken (one_env token_document) (answers_with 200 ''{}'') one_config (Some Background) calm () = (Inr (''tok'', 90 * second), ())"
proof -
  have n: "parse_int ''90'' = Some 90" by (simp add: parse_int_def parse_digits_def is_digit_def digits_value_def digit_value_def int64_def)
  have "FromContext (Some Background) = []" by (simp add: FromContext_def Background_def)
  then show ?thesis
    by (simp add: fetchToken_def one_env_def RoundTrip_def registered_def one_config_def tokenPath_def answers_with_def classifyStatus_def calm_def
        readJSONResponse_def read_limited_def maxTokenBodyBytes_def read_token_def strictJSON_def plain_text_simps(2) [OF one_texts(10)] token_document_def token_field_def
        parseOptionalString_def one_values maxTokenRunes_def equal_fold_bearer_def maxTokenLifetime_def tokenScopeAllowsDirectory_def n)
      (simp add: char_of_def bit_iff_odd)
qed

lemma fresh_made: "newClient (one_env token_document) one_config True False = Inr fresh_client"
  by (simp add: newClient_def dir_validOrigin_def one_env_def one_config_def one_values maxClientIDRunes_def validSecret_def plain_text_simps(2,6) [OF one_texts(7)] maxSecretBytes_def
      validResource_def minTimeout_def maxTimeout_def second_def fresh_client_def)

theorem token_cache_sound_witness:
  "\<exists>s t st lifetime. token_step\<^sup>*\<^sup>* (token_start fresh_client 0) s \<and> ts_phase s 0 = Ended (Inr ''tok'') t \<and>
     (''tok'', st, lifetime) \<in> ts_fetched s \<and> t + min (30 * second) (lifetime div 2) < st + lifetime"
proof -
  let ?tt = "\<lparr>tt_now = 0, tt_startedAt = 0, tt_completedAt = 7\<rparr>"
  have "\<not> token_cached 0 fresh_client" "dc_refreshing fresh_client = None" "dc_config fresh_client = one_config"
    by (simp_all add: token_cached_def fresh_client_def)
  then have "accessToken (one_env token_document) (answers_with 200 ''{}'') (Some Background) calm ?tt fresh_client () =
      Some (Inr ''tok'', fresh_client\<lparr>dc_token := ''tok'', dc_tokenTill := 60 * second\<rparr>, ())"
    by (simp add: accessToken_def one_fetch settle_token_def token_skew_def tokenExpirySkew_def second_def begin_refresh_def)
  from accessToken_steps [OF this, of "token_start fresh_client 0" 0]
  obtain s t where s: "token_step\<^sup>*\<^sup>* (token_start fresh_client 0) s" "ts_phase s 0 = Ended (Inr ''tok'') t" by (auto simp: token_start_def)
  from token_cache_sound [OF fresh_made s(1)] s show ?thesis by blast
qed

end
