(* ===== verification/Token_Jose.thy ===== *)
theory Token_Jose
  imports Base64 Go_Json
begin

text \<open>
  Package \<open>auth\<close>, the strict check of compact tokens (\<open>strict_jose.go\<close>). The decoder of \<open>encoding/json\<close> is the list of the tokens
  that it will still hand out, and whether the end of the document or a syntax error follows; how a text is cut into tokens
  is a parameter. Loops take the number of tokens as fuel, which they never use up.
\<close>

section \<open>Token streams\<close>

datatype jtoken = OpenObject | CloseObject | OpenArray | CloseArray | StringToken string | NumberToken string | BoolToken bool | NullToken

datatype jose_error =
    SegmentCount | EmptySegment | SegmentTooLong | InvalidBase64 | NotUTF8 | InvalidJSON | RootNotObject | TrailingValues | InvalidTrailing
  | TooDeep | ReadMember | MemberNotString | DuplicateMember string | NoObjectEnd | BadObjectEnd | NoArrayEnd | BadArrayEnd | ReadValue | UnexpectedDelimiter

text \<open>\<open>ends\<close> is true when the document ends after its tokens.\<close>

type_synonym jstream = "jtoken list \<times> bool"

definition maximumJOSEHeaderBytes :: nat where "maximumJOSEHeaderBytes = 16 * 1024"
definition maximumJWTClaimsBytes :: nat where "maximumJWTClaimsBytes = 1024 * 1024"
definition maximumJSONNestingDepth :: nat where "maximumJSONNestingDepth = 32"

text \<open>\<open>decoder.More()\<close>\<close>

fun decoder_more :: "jtoken list \<Rightarrow> bool" where
  "decoder_more (CloseObject # _) = False"
| "decoder_more (CloseArray # _) = False"
| "decoder_more [] = False"
| "decoder_more _ = True"

function consumeJSONObject :: "nat \<Rightarrow> nat \<Rightarrow> jtoken list \<Rightarrow> (jose_error + jtoken list) option"
  and object_loop :: "nat \<Rightarrow> nat \<Rightarrow> string list \<Rightarrow> jtoken list \<Rightarrow> (jose_error + jtoken list) option"
  and consumeJSONArray :: "nat \<Rightarrow> nat \<Rightarrow> jtoken list \<Rightarrow> (jose_error + jtoken list) option"
  and array_loop :: "nat \<Rightarrow> nat \<Rightarrow> jtoken list \<Rightarrow> (jose_error + jtoken list) option"
  and consumeJSONValue :: "nat \<Rightarrow> nat \<Rightarrow> jtoken list \<Rightarrow> (jose_error + jtoken list) option" where
  "consumeJSONObject n depth ts =
     (if depth > maximumJSONNestingDepth then Some (Inl TooDeep) else case n of 0 \<Rightarrow> None | Suc m \<Rightarrow> object_loop m depth [] ts)"
| "object_loop n depth members ts =
     (if decoder_more ts then
        (case hd ts of
           StringToken member \<Rightarrow>
             if member \<in> set members then Some (Inl (DuplicateMember member))
             else (case n of 0 \<Rightarrow> None
               | Suc m \<Rightarrow>
                  (case consumeJSONValue m depth (tl ts) of None \<Rightarrow> None
                   | Some (Inl e) \<Rightarrow> Some (Inl e)
                   | Some (Inr rest) \<Rightarrow> object_loop m depth (member # members) rest))
         | _ \<Rightarrow> Some (Inl MemberNotString))
      else case ts of [] \<Rightarrow> Some (Inl NoObjectEnd)
      | t # rest \<Rightarrow> if t \<noteq> CloseObject then Some (Inl BadObjectEnd) else Some (Inr rest))"
| "consumeJSONArray n depth ts =
     (if depth > maximumJSONNestingDepth then Some (Inl TooDeep) else case n of 0 \<Rightarrow> None | Suc m \<Rightarrow> array_loop m depth ts)"
| "array_loop n depth ts =
     (if decoder_more ts then
        (case n of 0 \<Rightarrow> None
         | Suc m \<Rightarrow>
            (case consumeJSONValue m depth ts of None \<Rightarrow> None
             | Some (Inl e) \<Rightarrow> Some (Inl e)
             | Some (Inr rest) \<Rightarrow> array_loop m depth rest))
      else case ts of [] \<Rightarrow> Some (Inl NoArrayEnd)
      | t # rest \<Rightarrow> if t \<noteq> CloseArray then Some (Inl BadArrayEnd) else Some (Inr rest))"
| "consumeJSONValue n parentDepth ts =
     (case ts of [] \<Rightarrow> Some (Inl ReadValue)
      | t # rest \<Rightarrow>
         (case t of
            OpenObject \<Rightarrow> consumeJSONObject n (parentDepth + 1) rest
          | OpenArray \<Rightarrow> consumeJSONArray n (parentDepth + 1) rest
          | CloseObject \<Rightarrow> Some (Inl UnexpectedDelimiter)
          | CloseArray \<Rightarrow> Some (Inl UnexpectedDelimiter)
          | _ \<Rightarrow> Some (Inr rest)))"
  by pat_completeness auto

termination
  by (relation "measure (case_sum (case_sum (\<lambda>(n, _). 2 * n) (\<lambda>(n, _). 2 * n)) (case_sum (\<lambda>(n, _). 2 * n) (case_sum (\<lambda>(n, _). 2 * n) (\<lambda>(n, _). 2 * n + 1))))") auto

declare consumeJSONObject.simps [simp del] object_loop.simps [simp del] consumeJSONArray.simps [simp del] array_loop.simps [simp del] consumeJSONValue.simps [simp del]

definition json_fuel :: "jtoken list \<Rightarrow> nat" where "json_fuel ts = 2 * length ts + 2"

definition validateJSONObject :: "(string \<Rightarrow> jstream) \<Rightarrow> string \<Rightarrow> jose_error option option" where
  "validateJSONObject tokens document =
     (if \<not> valid_utf8 document then Some (Some NotUTF8)
      else case tokens document of (ts, ends) \<Rightarrow>
        (case ts of [] \<Rightarrow> Some (Some InvalidJSON)
         | opening # ts1 \<Rightarrow>
            if opening \<noteq> OpenObject then Some (Some RootNotObject)
            else (case consumeJSONObject (json_fuel ts1) 1 ts1 of None \<Rightarrow> None
              | Some (Inl e) \<Rightarrow> Some (Some e)
              | Some (Inr rest) \<Rightarrow>
                 (case rest of [] \<Rightarrow> if ends then Some None else Some (Some InvalidTrailing)
                  | _ # _ \<Rightarrow> Some (Some TrailingValues)))))"

section \<open>Segments\<close>

text \<open>\<open>EncodedLen\<close> of the encoding without padding.\<close>

definition encoded_len :: "nat \<Rightarrow> nat" where "encoded_len n = n div 3 * 4 + (n mod 3 * 8 + 5) div 6"

definition decodeCompactSegment :: "string \<Rightarrow> nat \<Rightarrow> jose_error + string" where
  "decodeCompactSegment segment maximumBytes =
     (if segment = [] then Inl EmptySegment
      else if length segment > encoded_len maximumBytes then Inl SegmentTooLong
      else case b64_decode segment of None \<Rightarrow> Inl InvalidBase64
      | Some decoded \<Rightarrow> if length decoded > maximumBytes then Inl SegmentTooLong else Inr (map char_of decoded))"

definition validate_segment :: "(string \<Rightarrow> jstream) \<Rightarrow> string \<Rightarrow> nat \<Rightarrow> jose_error option option" where
  "validate_segment tokens segment limit =
     (case decodeCompactSegment segment limit of Inl e \<Rightarrow> Some (Some e) | Inr document \<Rightarrow> validateJSONObject tokens document)"

definition validateCompactJSONObjects :: "(string \<Rightarrow> jstream) \<Rightarrow> string \<Rightarrow> jose_error option option" where
  "validateCompactJSONObjects tokens raw =
     (case split_on (CHR ''.'') raw of
        [header, claims, signature] \<Rightarrow>
          (case validate_segment tokens header maximumJOSEHeaderBytes of
             Some None \<Rightarrow> validate_segment tokens claims maximumJWTClaimsBytes
           | r \<Rightarrow> r)
      | _ \<Rightarrow> Some (Some SegmentCount))"

section \<open>The loops end\<close>

text \<open>Twice the number of tokens is enough fuel, and what is left over is shorter.\<close>

lemma consume_returns:
  "2 * length ts + 2 \<le> n \<Longrightarrow> \<exists>r. consumeJSONObject n depth ts = Some r \<and> (\<forall>rest. r = Inr rest \<longrightarrow> length rest < length ts)"
  "2 * length ts + 1 \<le> n \<Longrightarrow> \<exists>r. object_loop n depth members ts = Some r \<and> (\<forall>rest. r = Inr rest \<longrightarrow> length rest < length ts)"
  "2 * length ts + 2 \<le> n \<Longrightarrow> \<exists>r. consumeJSONArray n depth ts = Some r \<and> (\<forall>rest. r = Inr rest \<longrightarrow> length rest < length ts)"
  "2 * length ts + 1 \<le> n \<Longrightarrow> \<exists>r. array_loop n depth ts = Some r \<and> (\<forall>rest. r = Inr rest \<longrightarrow> length rest < length ts)"
  "2 * length ts \<le> n \<Longrightarrow> \<exists>r. consumeJSONValue n parentDepth ts = Some r \<and> (\<forall>rest. r = Inr rest \<longrightarrow> length rest < length ts)"
proof (induction n depth ts and n depth members ts and n depth ts and n depth ts and n parentDepth ts
    rule: consumeJSONObject_object_loop_consumeJSONArray_array_loop_consumeJSONValue.induct)
  case (1 n depth ts)
  then show ?case by (cases n) (auto simp: consumeJSONObject.simps)
next
  case (2 n depth members ts)
  show ?case
  proof (cases "decoder_more ts \<and> (\<exists>x. hd ts = StringToken x \<and> x \<notin> set members)")
    case True
    then obtain x us m where ts: "ts = StringToken x # us" and x: "x \<notin> set members" "n = Suc m"
      using "2.prems" by (cases ts; cases n) auto
    obtain r where r: "consumeJSONValue m depth us = Some r" "\<And>rest. r = Inr rest \<Longrightarrow> length rest < length us"
      using "2.IH"(1) [of x m] x "2.prems" by (auto simp: ts)
    show ?thesis
    proof (cases r)
      case (Inl e)
      then show ?thesis using x r by (subst object_loop.simps) (simp add: ts)
    next
      case (Inr rest)
      have "\<exists>q. object_loop m depth (x # members) rest = Some q \<and> (\<forall>u. q = Inr u \<longrightarrow> length u < length rest)"
        using "2.IH"(2) [of x m "Inr rest" rest] x r Inr "2.prems" by (auto simp: ts)
      moreover have "object_loop n depth members ts = object_loop m depth (x # members) rest"
        using x r Inr by (subst object_loop.simps) (simp add: ts)
      ultimately show ?thesis using r(2) [OF Inr] by (force simp: ts)
    qed
  qed (subst object_loop.simps, auto split: list.splits jtoken.splits)
next
  case (3 n depth ts)
  then show ?case by (cases n) (auto simp: consumeJSONArray.simps)
next
  case (4 n depth ts)
  show ?case
  proof (cases "decoder_more ts")
    case True
    obtain m where m: "n = Suc m" using "4.prems" by (cases n) auto
    obtain r where r: "consumeJSONValue m depth ts = Some r" "\<And>rest. r = Inr rest \<Longrightarrow> length rest < length ts"
      using "4.IH"(1) [of m] True m "4.prems" by auto
    show ?thesis
    proof (cases r)
      case (Inl e)
      then show ?thesis using True m r by (subst array_loop.simps) simp
    next
      case (Inr rest)
      have "\<exists>q. array_loop m depth rest = Some q \<and> (\<forall>u. q = Inr u \<longrightarrow> length u < length rest)"
        using "4.IH"(2) [of m "Inr rest" rest] True m r Inr "4.prems" by auto
      moreover have "array_loop n depth ts = array_loop m depth rest" using True m r Inr by (subst array_loop.simps) simp
      ultimately show ?thesis using r(2) [OF Inr] by force
    qed
  qed (subst array_loop.simps, auto split: list.splits)
next
  case (5 n parentDepth ts)
  show ?case
  proof (cases ts)
    case (Cons t rest)
    then show ?thesis using 5 by (cases t) (fastforce simp: consumeJSONValue.simps)+
  qed (simp add: consumeJSONValue.simps)
qed

section \<open>What is accepted\<close>

text \<open>The tokens of a document.\<close>

fun tokens_of :: "json \<Rightarrow> jtoken list"
  and member_tokens :: "(string \<times> json) list \<Rightarrow> jtoken list"
  and element_tokens :: "json list \<Rightarrow> jtoken list" where
  "tokens_of JNull = [NullToken]"
| "tokens_of (JBool b) = [BoolToken b]"
| "tokens_of (JNumber n) = [NumberToken n]"
| "tokens_of (JString s) = [StringToken s]"
| "tokens_of (JArray vs) = OpenArray # element_tokens vs"
| "tokens_of (JObject ms) = OpenObject # member_tokens ms"
| "member_tokens [] = [CloseObject]"
| "member_tokens ((k, v) # ms) = StringToken k # tokens_of v @ member_tokens ms"
| "element_tokens [] = [CloseArray]"
| "element_tokens (v # vs) = tokens_of v @ element_tokens vs"

text \<open>Containers at most thirty-two deep, \<open>d\<close> being the depth of the value, and no name twice in one object.\<close>

fun strict_at :: "nat \<Rightarrow> json \<Rightarrow> bool" where
  "strict_at d (JObject ms) \<longleftrightarrow> d \<le> 32 \<and> distinct (map fst ms) \<and> (\<forall>m \<in> set ms. strict_at (Suc d) (snd m))"
| "strict_at d (JArray vs) \<longleftrightarrow> d \<le> 32 \<and> (\<forall>v \<in> set vs. strict_at (Suc d) v)"
| "strict_at d _ \<longleftrightarrow> True"

lemma more_tokens_of [simp]: "decoder_more (tokens_of v @ ts)"
  by (cases v) auto

lemma accepts_strict:
  "strict_at (Suc d) v \<Longrightarrow> 2 * length (tokens_of v @ rest) \<le> n \<Longrightarrow> consumeJSONValue n d (tokens_of v @ rest) = Some (Inr rest)"
  "distinct (map fst ms) \<Longrightarrow> fst ` set ms \<inter> set seen = {} \<Longrightarrow> \<forall>m \<in> set ms. strict_at (Suc d) (snd m) \<Longrightarrow> 2 * length (member_tokens ms @ rest) + 1 \<le> n \<Longrightarrow>
     object_loop n d seen (member_tokens ms @ rest) = Some (Inr rest)"
  "\<forall>v \<in> set vs. strict_at (Suc d) v \<Longrightarrow> 2 * length (element_tokens vs @ rest) + 1 \<le> n \<Longrightarrow> array_loop n d (element_tokens vs @ rest) = Some (Inr rest)"
proof (induction v and ms and vs arbitrary: n d rest and n d seen rest and n d rest rule: tokens_of_member_tokens_element_tokens.induct)
  case (5 vs)
  then show ?case by (cases n) (auto simp: consumeJSONValue.simps consumeJSONArray.simps maximumJSONNestingDepth_def)
next
  case (6 ms)
  then show ?case by (cases n) (auto simp: consumeJSONValue.simps consumeJSONObject.simps maximumJSONNestingDepth_def)
next
  case (7)
  then show ?case by (subst object_loop.simps) simp
next
  case (8 k v ms)
  then obtain m where m: "n = Suc m" by (cases n) auto
  have "consumeJSONValue m d (tokens_of v @ member_tokens ms @ rest) = Some (Inr (member_tokens ms @ rest))"
    using 8 m by (intro "8.IH"(1)) auto
  moreover have "object_loop m d (k # seen) (member_tokens ms @ rest) = Some (Inr rest)" using 8 m by (intro "8.IH"(2)) auto
  ultimately show ?case using "8.prems" by (subst object_loop.simps) (simp add: m)
next
  case (9)
  then show ?case by (subst array_loop.simps) simp
next
  case (10 v vs)
  then obtain m where m: "n = Suc m" by (cases n) auto
  have "consumeJSONValue m d (tokens_of v @ element_tokens vs @ rest) = Some (Inr (element_tokens vs @ rest))"
    using 10 m by (intro "10.IH"(1)) auto
  moreover have "array_loop m d (element_tokens vs @ rest) = Some (Inr rest)"
  proof -
    have "1 \<le> length (tokens_of v)" by (cases v) auto
    then have "2 * length (element_tokens vs @ rest) + 1 \<le> m" using "10.prems"(2) m by simp
    then show ?thesis using "10.prems"(1) by (intro "10.IH"(2)) auto
  qed
  ultimately show ?case by (subst array_loop.simps) (simp add: m)
qed (simp_all add: consumeJSONValue.simps)

lemma accepted_is_strict:
  "consumeJSONObject n depth ts = Some (Inr rest) \<Longrightarrow> depth \<le> 32 \<and> (\<exists>ms. ts = member_tokens ms @ rest \<and> distinct (map fst ms) \<and> (\<forall>m \<in> set ms. strict_at (Suc depth) (snd m)))"
  "object_loop n depth members ts = Some (Inr rest) \<Longrightarrow>
     \<exists>ms. ts = member_tokens ms @ rest \<and> distinct (map fst ms) \<and> fst ` set ms \<inter> set members = {} \<and> (\<forall>m \<in> set ms. strict_at (Suc depth) (snd m))"
  "consumeJSONArray n depth ts = Some (Inr rest) \<Longrightarrow> depth \<le> 32 \<and> (\<exists>vs. ts = element_tokens vs @ rest \<and> (\<forall>v \<in> set vs. strict_at (Suc depth) v))"
  "array_loop n depth ts = Some (Inr rest) \<Longrightarrow> \<exists>vs. ts = element_tokens vs @ rest \<and> (\<forall>v \<in> set vs. strict_at (Suc depth) v)"
  "consumeJSONValue n depth ts = Some (Inr rest) \<Longrightarrow> \<exists>v. ts = tokens_of v @ rest \<and> strict_at (Suc depth) v"
proof (induction n depth ts and n depth members ts and n depth ts and n depth ts and n depth ts arbitrary: rest and rest and rest and rest and rest
    rule: consumeJSONObject_object_loop_consumeJSONArray_array_loop_consumeJSONValue.induct)
  case (1 n depth ts)
  then show ?case by (fastforce simp: consumeJSONObject.simps maximumJSONNestingDepth_def split: if_splits nat.splits)
next
  case (2 n depth members ts)
  show ?case
  proof (cases "decoder_more ts")
    case True
    then obtain x us where ts: "ts = StringToken x # us" and x: "x \<notin> set members"
      using "2.prems" by (subst (asm) object_loop.simps) (cases ts; auto split: jtoken.splits if_splits)
    obtain m r where r: "n = Suc m" "consumeJSONValue m depth us = Some (Inr r)" "object_loop m depth (x # members) r = Some (Inr rest)"
      using "2.prems" x by (subst (asm) object_loop.simps) (auto simp: ts split: nat.splits option.splits sum.splits)
    obtain v where v: "us = tokens_of v @ r" "strict_at (Suc depth) v" using "2.IH"(1) [of x m r] True x r ts by auto
    obtain ms where ms: "r = member_tokens ms @ rest" "distinct (map fst ms)" "fst ` set ms \<inter> set (x # members) = {}" "\<forall>m \<in> set ms. strict_at (Suc depth) (snd m)"
      using "2.IH"(2) [of x m "Inr r" r rest] True x r ts by auto
    show ?thesis by (rule exI [of _ "(x, v) # ms"]) (use v ms x in \<open>auto simp: ts\<close>)
  next
    case False
    then have "ts = CloseObject # rest" using "2.prems" by (subst (asm) object_loop.simps) (auto split: list.splits if_splits)
    then show ?thesis by (intro exI [of _ "[]"]) simp
  qed
next
  case (3 n depth ts)
  then show ?case by (fastforce simp: consumeJSONArray.simps maximumJSONNestingDepth_def split: if_splits nat.splits)
next
  case (4 n depth ts)
  show ?case
  proof (cases "decoder_more ts")
    case True
    obtain m r where r: "n = Suc m" "consumeJSONValue m depth ts = Some (Inr r)" "array_loop m depth r = Some (Inr rest)"
      using "4.prems" True by (subst (asm) array_loop.simps) (auto split: nat.splits option.splits sum.splits)
    obtain v where v: "ts = tokens_of v @ r" "strict_at (Suc depth) v" using "4.IH"(1) [of m r] True r by auto
    obtain vs where vs: "r = element_tokens vs @ rest" "\<forall>v \<in> set vs. strict_at (Suc depth) v" using "4.IH"(2) [of m "Inr r" r rest] True r by auto
    show ?thesis by (rule exI [of _ "v # vs"]) (use v vs in auto)
  next
    case False
    then have "ts = CloseArray # rest" using "4.prems" by (subst (asm) array_loop.simps) (auto split: list.splits if_splits)
    then show ?thesis by (intro exI [of _ "[]"]) simp
  qed
next
  case (5 n depth ts)
  obtain t us where ts: "ts = t # us" using "5.prems" by (cases ts) (auto simp: consumeJSONValue.simps)
  show ?case
  proof (cases t)
    case OpenObject
    then obtain ms where "us = member_tokens ms @ rest" "distinct (map fst ms)" "\<forall>m \<in> set ms. strict_at (Suc (Suc depth)) (snd m)" "Suc depth \<le> 32"
      using "5.IH"(1) [OF ts, of rest] "5.prems" by (auto simp: ts consumeJSONValue.simps)
    then show ?thesis by (intro exI [of _ "JObject ms"]) (simp add: ts OpenObject)
  next
    case OpenArray
    then obtain vs where "us = element_tokens vs @ rest" "\<forall>v \<in> set vs. strict_at (Suc (Suc depth)) v" "Suc depth \<le> 32"
      using "5.IH"(2) [OF ts, of rest] "5.prems" by (auto simp: ts consumeJSONValue.simps)
    then show ?thesis by (intro exI [of _ "JArray vs"]) (simp add: ts OpenArray)
  next
    case (StringToken s)
    then show ?thesis using 5 by (intro exI [of _ "JString s"]) (simp add: ts consumeJSONValue.simps)
  next
    case (NumberToken s)
    then show ?thesis using 5 by (intro exI [of _ "JNumber s"]) (simp add: ts consumeJSONValue.simps)
  next
    case (BoolToken b)
    then show ?thesis using 5 by (intro exI [of _ "JBool b"]) (simp add: ts consumeJSONValue.simps)
  next
    case NullToken
    then show ?thesis using 5 by (intro exI [of _ JNull]) (simp add: ts consumeJSONValue.simps)
  qed (use 5 in \<open>simp_all add: ts consumeJSONValue.simps\<close>)
qed

lemma validateJSONObject_returns: "validateJSONObject tokens document \<noteq> None"
proof -
  have "consumeJSONObject (json_fuel ts) 1 ts \<noteq> None" for ts using consume_returns(1) [of ts "json_fuel ts" 1] by (auto simp: json_fuel_def)
  then have c: "consumeJSONObject (json_fuel ts) (Suc 0) ts = None \<longleftrightarrow> False" for ts by simp
  show ?thesis by (auto simp: validateJSONObject_def c split: prod.splits list.splits option.splits sum.splits)
qed

lemma validateCompact_returns: "validateCompactJSONObjects tokens raw \<noteq> None"
proof -
  have v: "\<exists>y. validate_segment tokens segment limit = Some y" for segment limit
    using validateJSONObject_returns [of tokens] by (auto simp: validate_segment_def split: sum.splits)
  have "\<exists>y. (case validate_segment tokens header maximumJOSEHeaderBytes of Some None \<Rightarrow> validate_segment tokens claims maximumJWTClaimsBytes | r \<Rightarrow> r) = Some y" for header claims
    using v [of header maximumJOSEHeaderBytes] v [of claims maximumJWTClaimsBytes] by (auto split: option.splits)
  then show ?thesis unfolding validateCompactJSONObjects_def by (auto split: list.splits)
qed

end
