(* ===== verification/Token_Auth.thy ===== *)
theory Token_Auth
  imports Token_Jose Request_Context "HOL-Library.List_Lexorder" "HOL-Library.Char_ord"
begin

text \<open>
  Package \<open>auth\<close> (\<open>claims.go\<close>, \<open>errors.go\<close>, \<open>signer.go\<close>, \<open>verifier.go\<close>, \<open>jwk.go\<close>): Ed25519 keys, signing and verifying of tokens and
  the published key set. The JWT library (\<open>jwt_lib\<close>), the derivation of a key from its seed, the cutting of JSON texts into tokens and
  the quoting of \<open>%q\<close> are parameters (\<open>auth_env\<close>). A context is \<open>None\<close> when it is nil, otherwise what \<open>Err\<close> says of it.
\<close>

section \<open>Errors\<close>

datatype auth_sentinel = InvalidCredential | AuthBackendUnavailable | AuthorizationDenied | AuthCanceled | AuthDeadline

type_synonym aerror = "auth_sentinel go_error"

definition ErrInvalidCredential :: aerror where "ErrInvalidCredential = errors_new InvalidCredential ''invalid credential''"
definition ErrAuthBackendUnavailable :: aerror where "ErrAuthBackendUnavailable = errors_new AuthBackendUnavailable ''auth backend unavailable''"
definition ErrAuthorizationDenied :: aerror where "ErrAuthorizationDenied = errors_new AuthorizationDenied ''authorization denied''"

definition invalidCredential :: "string \<Rightarrow> string \<Rightarrow> aerror" where
  "invalidCredential operation err = errorf_w ErrInvalidCredential (operation @ '': '' @ err)"

fun ctx_aerror :: "ctx_err \<Rightarrow> aerror" where
  "ctx_aerror Canceled = errors_new AuthCanceled ''context canceled''"
| "ctx_aerror DeadlineExceeded = errors_new AuthDeadline ''context deadline exceeded''"

definition contextError :: "ctx_err option option \<Rightarrow> aerror option" where
  "contextError ctx = (case ctx of None \<Rightarrow> Some (errors_text ''context is nil'') | Some e \<Rightarrow> map_option ctx_aerror e)"

text \<open>\<open>AuthorizationUnavailable\<close> of \<open>middleware/permission.go\<close>.\<close>

definition AuthorizationUnavailable :: "aerror option \<Rightarrow> bool" where
  "AuthorizationUnavailable err = (case err of None \<Rightarrow> False | Some e \<Rightarrow> \<not> errors_is e AuthorizationDenied)"

section \<open>Keys, claims and the library\<close>

datatype public_key = Ed25519Key string | OtherKey

record verification_key =
  vk_KeyID :: string
  vk_Algorithm :: string
  vk_PublicKey :: public_key

record user_claims =
  uc_Issuer :: string
  uc_Subject :: string
  uc_Audience :: "string list"
  uc_ExpiresAt :: "time option"
  uc_IssuedAt :: "time option"
  uc_ID :: string
  uc_AuthorizedParty :: string

text \<open>\<open>jt_EdDSA\<close> says whether the method is the \<open>SigningMethodEdDSA\<close> of the library, \<open>jt_Alg\<close> is its \<open>Alg()\<close>.\<close>

record jwt_token =
  jt_EdDSA :: bool
  jt_Alg :: string
  jt_Header :: "(string \<times> json) list"

record parse_options =
  po_ValidMethods :: "string list"
  po_Issuer :: string
  po_Audience :: string

record jwt_lib =
  jl_Parse :: "string \<Rightarrow> (jwt_token \<Rightarrow> string + string) \<Rightarrow> parse_options \<Rightarrow> time \<Rightarrow> string + (jwt_token \<times> bool \<times> user_claims)"
  jl_Sign :: "(string \<times> json) list \<Rightarrow> user_claims \<Rightarrow> string \<Rightarrow> string + string"

record auth_env =
  ae_tokens :: "string \<Rightarrow> jstream"
  ae_text :: "jose_error \<Rightarrow> string"
  ae_quote :: "string \<Rightarrow> string"
  ae_from_seed :: "string \<Rightarrow> string"

definition JWTAlgorithmEdDSA :: string where "JWTAlgorithmEdDSA = ''EdDSA''"
definition tokenTypeJWT :: string where "tokenTypeJWT = ''JWT''"

definition unavailable :: "string \<Rightarrow> aerror" where "unavailable t = errorf_w ErrAuthBackendUnavailable t"

text \<open>A name that is not empty and has no white space around it.\<close>

definition isCanonicalClaimValue :: "string \<Rightarrow> bool" where
  "isCanonicalClaimValue value \<longleftrightarrow> trim_space value \<noteq> [] \<and> value = trim_space value"

definition normalizeVerificationKey :: "auth_env \<Rightarrow> verification_key \<Rightarrow> aerror + verification_key" where
  "normalizeVerificationKey E key =
     (if trim_space (vk_KeyID key) = [] \<or> vk_KeyID key \<noteq> trim_space (vk_KeyID key) then Inl (unavailable ''verification key id must be a non-empty canonical value'')
      else if vk_Algorithm key \<noteq> JWTAlgorithmEdDSA then Inl (unavailable (''verification key '' @ ae_quote E (vk_KeyID key) @ '' must use EdDSA''))
      else case vk_PublicKey key of
        Ed25519Key k \<Rightarrow>
          if length k \<noteq> 32 then Inl (unavailable (''verification key '' @ ae_quote E (vk_KeyID key) @ '' must be an Ed25519 public key''))
          else Inr \<lparr>vk_KeyID = vk_KeyID key, vk_Algorithm = vk_Algorithm key, vk_PublicKey = Ed25519Key k\<rparr>
      | OtherKey \<Rightarrow> Inl (unavailable (''verification key '' @ ae_quote E (vk_KeyID key) @ '' must be an Ed25519 public key'')))"

section \<open>Signing\<close>

record token_signer =
  sg_keyID :: string
  sg_privateKey :: string

definition NewTokenSigner :: "auth_env \<Rightarrow> string \<Rightarrow> string \<Rightarrow> aerror + token_signer" where
  "NewTokenSigner E keyID privateKey =
     (if trim_space keyID = [] \<or> keyID \<noteq> trim_space keyID then Inl (unavailable ''signing key id must be a non-empty canonical value'')
      else if length privateKey \<noteq> 64 then Inl (unavailable (''signing key '' @ ae_quote E keyID @ '' must be an Ed25519 private key''))
      else if privateKey \<noteq> ae_from_seed E (take 32 privateKey)
      then Inl (unavailable (''signing key '' @ ae_quote E keyID @ '' has an inconsistent Ed25519 public component''))
      else Inr \<lparr>sg_keyID = keyID, sg_privateKey = privateKey\<rparr>)"

text \<open>\<open>generated\<close> is the pair of keys, the public one first, or the text of an error.\<close>

definition GenerateTokenSigner :: "auth_env \<Rightarrow> string + (string \<times> string) \<Rightarrow> string \<Rightarrow> aerror + (token_signer \<times> verification_key)" where
  "GenerateTokenSigner E generated keyID =
     (case generated of Inl err \<Rightarrow> Inl (errors_text (''generate Ed25519 key: '' @ err))
      | Inr (publicKey, privateKey) \<Rightarrow>
         (case NewTokenSigner E keyID privateKey of Inl e \<Rightarrow> Inl e
          | Inr s \<Rightarrow> Inr (s, \<lparr>vk_KeyID = keyID, vk_Algorithm = JWTAlgorithmEdDSA, vk_PublicKey = Ed25519Key publicKey\<rparr>)))"

definition VerificationKey :: "token_signer option \<Rightarrow> verification_key" where
  "VerificationKey s =
     (case s of
        Some t \<Rightarrow> if length (sg_privateKey t) \<noteq> 64 then \<lparr>vk_KeyID = [], vk_Algorithm = [], vk_PublicKey = OtherKey\<rparr>
          else \<lparr>vk_KeyID = sg_keyID t, vk_Algorithm = JWTAlgorithmEdDSA, vk_PublicKey = Ed25519Key (drop 32 (sg_privateKey t))\<rparr>
      | None \<Rightarrow> \<lparr>vk_KeyID = [], vk_Algorithm = [], vk_PublicKey = OtherKey\<rparr>)"

text \<open>The header as \<open>NewWithClaims\<close> and \<open>Sign\<close> leave it; \<open>e0\<close> and \<open>e1\<close> are the contexts before and after.\<close>

definition sign_header :: "string \<Rightarrow> (string \<times> json) list" where
  "sign_header keyID = [(''alg'', JString JWTAlgorithmEdDSA), (''kid'', JString keyID), (''typ'', JString tokenTypeJWT)]"

definition Sign :: "jwt_lib \<Rightarrow> ctx_err option option \<Rightarrow> ctx_err option option \<Rightarrow> user_claims option \<Rightarrow> token_signer option \<Rightarrow> aerror + (string \<times> string)" where
  "Sign J e0 e1 claims signer =
     (case contextError e0 of Some e \<Rightarrow> Inl e
      | None \<Rightarrow>
         (case signer of None \<Rightarrow> Inl (unavailable ''token signer is not configured'')
          | Some s \<Rightarrow>
             if trim_space (sg_keyID s) = [] \<or> length (sg_privateKey s) \<noteq> 64 then Inl (unavailable ''token signer is not configured'')
             else (case claims of None \<Rightarrow> Inl (errors_text ''sign jwt: claims are nil'')
               | Some c \<Rightarrow>
                  (case jl_Sign J (sign_header (sg_keyID s)) c (sg_privateKey s) of Inl err \<Rightarrow> Inl (errors_text (''sign jwt: '' @ err))
                   | Inr raw \<Rightarrow> (case contextError e1 of Some e \<Rightarrow> Inl e | None \<Rightarrow> Inr (raw, sg_keyID s))))))"

section \<open>Verifying\<close>

text \<open>The keys of a verifier by their identifiers, none twice.\<close>

type_synonym token_verifier = "(string \<times> verification_key) list"

fun index_keys :: "auth_env \<Rightarrow> token_verifier \<Rightarrow> verification_key list \<Rightarrow> aerror + token_verifier" where
  "index_keys E indexed [] = Inr indexed"
| "index_keys E indexed (key # keys) =
     (case normalizeVerificationKey E key of Inl e \<Rightarrow> Inl e
      | Inr k \<Rightarrow>
         if map_of indexed (vk_KeyID k) \<noteq> None then Inl (unavailable (''duplicate verification key id '' @ ae_quote E (vk_KeyID k)))
         else index_keys E (indexed @ [(vk_KeyID k, k)]) keys)"

definition NewTokenVerifier :: "auth_env \<Rightarrow> verification_key list \<Rightarrow> aerror + token_verifier" where
  "NewTokenVerifier E keys = (if keys = [] then Inl (unavailable ''verification keys are empty'') else index_keys E [] keys)"

definition verificationKey :: "token_verifier \<Rightarrow> jwt_token option \<Rightarrow> string + string" where
  "verificationKey v token =
     (case token of None \<Rightarrow> Inl ''unexpected signing method''
      | Some t \<Rightarrow>
         if \<not> jt_EdDSA t \<or> jt_Alg t \<noteq> JWTAlgorithmEdDSA then Inl ''unexpected signing method''
         else if length (jt_Header t) \<noteq> 3 then Inl ''unexpected JWT headers''
         else if map_of (jt_Header t) ''typ'' \<noteq> Some (JString tokenTypeJWT) then Inl ''invalid typ header''
         else if map_of (jt_Header t) ''jku'' \<noteq> None then Inl ''jku header is forbidden''
         else if map_of (jt_Header t) ''x5u'' \<noteq> None then Inl ''x5u header is forbidden''
         else (case map_of (jt_Header t) ''kid'' of
           Some (JString kid) \<Rightarrow>
             if trim_space kid = [] \<or> kid \<noteq> trim_space kid then Inl ''invalid kid header''
             else (case map_of v kid of None \<Rightarrow> Inl ''unknown kid''
               | Some key \<Rightarrow>
                  if vk_Algorithm key \<noteq> JWTAlgorithmEdDSA then Inl ''key algorithm mismatch''
                  else (case vk_PublicKey key of Ed25519Key k \<Rightarrow> if length k \<noteq> 32 then Inl ''key type mismatch'' else Inr k
                    | OtherKey \<Rightarrow> Inl ''key type mismatch''))
         | _ \<Rightarrow> Inl ''invalid kid header''))"

fun audiences_ok :: "string list \<Rightarrow> string list \<Rightarrow> bool" where
  "audiences_ok seen [] = True"
| "audiences_ok seen (a # as) = (if \<not> isCanonicalClaimValue a then False else if a \<in> set seen then False else audiences_ok (a # seen) as)"

definition validRequiredClaims :: "user_claims \<Rightarrow> string \<Rightarrow> bool" where
  "validRequiredClaims claims expectedAudience =
     (if \<not> isCanonicalClaimValue (uc_Issuer claims) \<or> \<not> isCanonicalClaimValue (uc_Subject claims) \<or> uc_IssuedAt claims = None \<or> uc_ExpiresAt claims = None \<or>
         \<not> isCanonicalClaimValue (uc_ID claims) \<or> uc_Audience claims = [] then False
      else if \<not> audiences_ok [] (uc_Audience claims) then False
      else if length (uc_Audience claims) > 1 \<and> uc_AuthorizedParty claims \<noteq> expectedAudience then False
      else True)"

definition Verify ::
  "jwt_lib \<Rightarrow> auth_env \<Rightarrow> ctx_err option option \<Rightarrow> ctx_err option option \<Rightarrow> time \<Rightarrow> token_verifier option \<Rightarrow> string \<Rightarrow> string \<Rightarrow> string \<Rightarrow> aerror + user_claims" where
  "Verify J E e0 e1 now v raw expectedIssuer expectedAudience =
     (case contextError e0 of Some e \<Rightarrow> Inl e
      | None \<Rightarrow>
         (case v of None \<Rightarrow> Inl (unavailable ''token verifier is not configured'')
          | Some keys \<Rightarrow>
             if keys = [] then Inl (unavailable ''token verifier is not configured'')
             else if trim_space raw = [] \<or> trim_space expectedIssuer = [] \<or> trim_space expectedAudience = [] then Inl ErrInvalidCredential
             else (case validateCompactJSONObjects (ae_tokens E) raw of
               Some None \<Rightarrow>
                 (case jl_Parse J raw (\<lambda>t. verificationKey keys (Some t))
                     \<lparr>po_ValidMethods = [JWTAlgorithmEdDSA], po_Issuer = expectedIssuer, po_Audience = expectedAudience\<rparr> now of
                    Inl err \<Rightarrow> Inl (invalidCredential ''verify jwt'' err)
                  | Inr (token, valid, claims) \<Rightarrow>
                     if \<not> valid \<or> \<not> validRequiredClaims claims expectedAudience then Inl ErrInvalidCredential
                     else (case contextError e1 of Some e \<Rightarrow> Inl e | None \<Rightarrow> Inr claims))
             | Some (Some err) \<Rightarrow> Inl (invalidCredential ''verify jwt'' (ae_text E err))
             | None \<Rightarrow> Inl ErrInvalidCredential)))"

section \<open>The published key set\<close>

record json_web_key =
  jk_KeyType :: string
  jk_Curve :: string
  jk_X :: string
  jk_KeyID :: string
  jk_Algorithm :: string
  jk_Use :: string

definition project_key :: "verification_key \<Rightarrow> json_web_key" where
  "project_key k =
     \<lparr>jk_KeyType = ''OKP'', jk_Curve = ''Ed25519'', jk_X = (case vk_PublicKey k of Ed25519Key b \<Rightarrow> b64_encode (map of_char b) | OtherKey \<Rightarrow> []), jk_KeyID = vk_KeyID k,
      jk_Algorithm = JWTAlgorithmEdDSA, jk_Use = ''sig''\<rparr>"

fun project_keys :: "auth_env \<Rightarrow> string list \<Rightarrow> verification_key list \<Rightarrow> aerror + json_web_key list" where
  "project_keys E seen [] = Inr []"
| "project_keys E seen (key # keys) =
     (case normalizeVerificationKey E key of Inl e \<Rightarrow> Inl e
      | Inr k \<Rightarrow>
         if vk_KeyID k \<in> set seen then Inl (unavailable (''duplicate verification key id '' @ ae_quote E (vk_KeyID k)))
         else (case project_keys E (vk_KeyID k # seen) keys of Inl e \<Rightarrow> Inl e | Inr ks \<Rightarrow> Inr (project_key k # ks)))"

definition PublicJWKS :: "auth_env \<Rightarrow> verification_key list \<Rightarrow> aerror + json_web_key list" where
  "PublicJWKS E keys = (case project_keys E [] keys of Inl e \<Rightarrow> Inl e | Inr ks \<Rightarrow> Inr (sort_key jk_KeyID ks))"

text \<open>\<open>order\<close> is the order in which the loop over the map happens to visit the keys.\<close>

definition JWKS :: "auth_env \<Rightarrow> token_verifier option \<Rightarrow> verification_key list \<Rightarrow> aerror + json_web_key list" where
  "JWKS E v order =
     (case v of None \<Rightarrow> Inl (unavailable ''token verifier is not configured'')
      | Some keys \<Rightarrow> if keys = [] then Inl (unavailable ''token verifier is not configured'') else PublicJWKS E order)"

end
