(* ===== verification/Token_Properties.thy ===== *)
theory Token_Properties
  imports Token_Auth Go_Path "HOL-Library.Multiset"
begin

text \<open>
  Properties of tokens: which JSON documents the strict check lets through, what a verified token guarantees, that a signed
  token verifies, and the published key set.
\<close>

section \<open>Strict documents\<close>

lemma validateJSONObject_iff:
  "validateJSONObject tokens document = Some None \<longleftrightarrow>
     valid_utf8 document \<and> (\<exists>ms. tokens document = (tokens_of (JObject ms), True) \<and> strict_at 1 (JObject ms))"
proof
  assume "validateJSONObject tokens document = Some None"
  then obtain ts where u: "valid_utf8 document" and t: "tokens document = (OpenObject # ts, True)" and c: "consumeJSONObject (json_fuel ts) 1 ts = Some (Inr [])"
    by (auto simp: validateJSONObject_def split: if_splits prod.splits list.splits option.splits sum.splits)
  obtain ms where "ts = member_tokens ms" "distinct (map fst ms)" "\<forall>m \<in> set ms. strict_at 2 (snd m)"
    using accepted_is_strict(1) [OF c] by (auto simp: numeral_2_eq_2)
  then show "valid_utf8 document \<and> (\<exists>ms. tokens document = (tokens_of (JObject ms), True) \<and> strict_at 1 (JObject ms))"
    using u t by (intro conjI exI [of _ ms]) (auto simp: numeral_2_eq_2)
next
  assume "valid_utf8 document \<and> (\<exists>ms. tokens document = (tokens_of (JObject ms), True) \<and> strict_at 1 (JObject ms))"
  then obtain ms where u: "valid_utf8 document" and t: "tokens document = (OpenObject # member_tokens ms, True)"
    and s: "distinct (map fst ms)" "\<forall>m \<in> set ms. strict_at (Suc 1) (snd m)" by auto
  have "object_loop (2 * length (member_tokens ms) + 1) 1 [] (member_tokens ms @ []) = Some (Inr [])"
    by (rule accepts_strict(2)) (use s in auto)
  then have "consumeJSONObject (json_fuel (member_tokens ms)) 1 (member_tokens ms) = Some (Inr [])"
    by (simp add: consumeJSONObject.simps json_fuel_def maximumJSONNestingDepth_def)
  then show "validateJSONObject tokens document = Some None" using u t by (simp add: validateJSONObject_def)
qed

text \<open>C29. The strict check accepts exactly the texts in UTF-8 whose tokens are those of one object, with no name twice in any object and at most
  thirty-two levels of nesting, followed by the end of the text.\<close>

theorem strict_objects_exactly:
  "validateJSONObject tokens document = Some None \<longleftrightarrow>
     valid_utf8 document \<and> (\<exists>ms. tokens document = (tokens_of (JObject ms), True) \<and> strict_at 1 (JObject ms))"
  by (rule validateJSONObject_iff)

section \<open>Verified tokens\<close>

text \<open>
  What the library documents of a successful \<open>ParseWithClaims\<close> with these options: \<open>decode\<close> reads a token and its claims, \<open>signed\<close> says that
  a text carries a valid signature for a key.
\<close>

definition jwt_ok :: "jwt_lib \<Rightarrow> (string \<Rightarrow> (jwt_token \<times> user_claims) option) \<Rightarrow> (string \<Rightarrow> string \<Rightarrow> bool) \<Rightarrow> bool" where
  "jwt_ok J decode signed \<longleftrightarrow>
     (\<forall>raw keyfunc po now token valid claims. jl_Parse J raw keyfunc po now = Inr (token, valid, claims) \<longrightarrow>
        decode raw = Some (token, claims) \<and> (valid \<longrightarrow> (\<exists>key. keyfunc token = Inr key \<and> signed key raw)) \<and> jt_Alg token \<in> set (po_ValidMethods po) \<and>
        (\<exists>e. uc_ExpiresAt claims = Some e \<and> now < e) \<and> (\<forall>i. uc_IssuedAt claims = Some i \<longrightarrow> i \<le> now) \<and>
        uc_Issuer claims = po_Issuer po \<and> po_Audience po \<in> set (uc_Audience claims))"

lemma normalize_ok:
  "normalizeVerificationKey E key = Inr k \<Longrightarrow>
     k = key \<and> isCanonicalClaimValue (vk_KeyID key) \<and> vk_Algorithm key = JWTAlgorithmEdDSA \<and> (\<exists>b. vk_PublicKey key = Ed25519Key b \<and> length b = 32)"
  by (auto simp: normalizeVerificationKey_def isCanonicalClaimValue_def split: if_splits public_key.splits)

lemma index_keys_ok:
  assumes "index_keys E indexed keys = Inr v"
  shows "v = indexed @ map (\<lambda>k. (vk_KeyID k, k)) keys \<and> distinct (map vk_KeyID keys) \<and> (\<forall>k \<in> set keys. vk_KeyID k \<notin> fst ` set indexed \<and> normalizeVerificationKey E k = Inr k)"
  using assms
proof (induction keys arbitrary: indexed)
  case (Cons key keys)
  obtain k where n: "normalizeVerificationKey E key = Inr k" using Cons.prems by (auto split: sum.splits)
  then have k: "k = key" using normalize_ok by blast
  have new: "map_of indexed (vk_KeyID key) = None" and v: "index_keys E (indexed @ [(vk_KeyID key, key)]) keys = Inr v"
    using Cons.prems n k by (auto split: if_splits)
  from Cons.IH [OF v] new n k show ?case by (auto simp: map_of_eq_None_iff)
qed simp

lemma verificationKey_ok:
  assumes "verificationKey v (Some t) = Inr k"
  shows "\<exists>kid key. map_of (jt_Header t) ''kid'' = Some (JString kid) \<and> map_of v kid = Some key \<and> vk_PublicKey key = Ed25519Key k \<and>
    length (jt_Header t) = 3 \<and> map_of (jt_Header t) ''typ'' = Some (JString tokenTypeJWT) \<and> jt_Alg t = JWTAlgorithmEdDSA \<and> length k = 32"
proof -
  obtain kid where kid: "map_of (jt_Header t) ''kid'' = Some (JString kid)"
    using assms by (auto simp: verificationKey_def split: if_splits option.splits json.splits)
  moreover obtain key where "map_of v kid = Some key" using assms kid by (auto simp: verificationKey_def split: if_splits option.splits)
  ultimately show ?thesis using assms by (auto simp: verificationKey_def split: if_splits public_key.splits)
qed

lemma audiences_ok_iff: "audiences_ok seen as \<longleftrightarrow> distinct as \<and> set as \<inter> set seen = {} \<and> (\<forall>a \<in> set as. isCanonicalClaimValue a)"
  by (induction seen as rule: audiences_ok.induct) auto

text \<open>Header and claims of a compact token are strict objects.\<close>

definition strict_segment :: "auth_env \<Rightarrow> string \<Rightarrow> nat \<Rightarrow> bool" where
  "strict_segment E segment limit \<longleftrightarrow>
     (\<exists>document ms. decodeCompactSegment segment limit = Inr document \<and> valid_utf8 document \<and> ae_tokens E document = (tokens_of (JObject ms), True) \<and> strict_at 1 (JObject ms))"

lemma validate_segment_iff: "validate_segment (ae_tokens E) segment limit = Some None \<longleftrightarrow> strict_segment E segment limit"
  unfolding strict_segment_def validate_segment_def
  by (cases "decodeCompactSegment segment limit") (simp_all only: sum.case validateJSONObject_iff, auto)

lemma validateCompact_iff:
  "validateCompactJSONObjects (ae_tokens E) raw = Some None \<longleftrightarrow>
     (\<exists>h c s. split_on (CHR ''.'') raw = [h, c, s] \<and> strict_segment E h maximumJOSEHeaderBytes \<and> strict_segment E c maximumJWTClaimsBytes)"
  by (auto simp: validateCompactJSONObjects_def validate_segment_iff [symmetric] split: list.splits option.splits)

lemma Verify_parts:
  assumes "Verify J E e0 e1 now (Some v) raw iss aud = Inr claims"
  obtains token where "validateCompactJSONObjects (ae_tokens E) raw = Some None"
    "jl_Parse J raw (\<lambda>t. verificationKey v (Some t)) \<lparr>po_ValidMethods = [JWTAlgorithmEdDSA], po_Issuer = iss, po_Audience = aud\<rparr> now = Inr (token, True, claims)"
    "validRequiredClaims claims aud"
  using assms by (auto simp: Verify_def split: option.splits if_splits sum.splits prod.splits)

text \<open>C4. A token that verifies is genuine and in force: header and claims are strict objects, its header has exactly three members, among them the type and
  the identifier of one of the configured keys, whose signature it carries; it is from the expected issuer for the expected
  audience, no audience is named twice, with several audiences it is authorized for the expected one, and it has been issued and has not
  expired; subject and identifier are canonical.\<close>

theorem verified_token_is_genuine:
  assumes lib: "jwt_ok J decode signed" and new: "NewTokenVerifier E keys = Inr v" and ok: "Verify J E e0 e1 now (Some v) raw iss aud = Inr claims"
  shows "(\<exists>h c s. split_on (CHR ''.'') raw = [h, c, s] \<and> strict_segment E h maximumJOSEHeaderBytes \<and> strict_segment E c maximumJWTClaimsBytes) \<and>
    (\<exists>token key k. decode raw = Some (token, claims) \<and> key \<in> set keys \<and> vk_PublicKey key = Ed25519Key k \<and> length k = 32 \<and> signed k raw \<and>
       length (jt_Header token) = 3 \<and> map_of (jt_Header token) ''kid'' = Some (JString (vk_KeyID key)) \<and> map_of (jt_Header token) ''typ'' = Some (JString ''JWT'') \<and>
       jt_Alg token = ''EdDSA'') \<and>
    uc_Issuer claims = iss \<and> aud \<in> set (uc_Audience claims) \<and> distinct (uc_Audience claims) \<and> (length (uc_Audience claims) > 1 \<longrightarrow> uc_AuthorizedParty claims = aud) \<and>
    (\<exists>e. uc_ExpiresAt claims = Some e \<and> now < e) \<and> (\<exists>i. uc_IssuedAt claims = Some i \<and> i \<le> now) \<and>
    isCanonicalClaimValue (uc_Subject claims) \<and> isCanonicalClaimValue (uc_ID claims)"
proof -
  obtain token where strict: "validateCompactJSONObjects (ae_tokens E) raw = Some None"
    and p: "jl_Parse J raw (\<lambda>t. verificationKey v (Some t)) \<lparr>po_ValidMethods = [JWTAlgorithmEdDSA], po_Issuer = iss, po_Audience = aud\<rparr> now = Inr (token, True, claims)"
    and req: "validRequiredClaims claims aud" using Verify_parts [OF ok] by blast
  have l: "decode raw = Some (token, claims)" "\<exists>key. verificationKey v (Some token) = Inr key \<and> signed key raw" "\<exists>e. uc_ExpiresAt claims = Some e \<and> now < e"
    "\<forall>i. uc_IssuedAt claims = Some i \<longrightarrow> i \<le> now" "uc_Issuer claims = iss" "aud \<in> set (uc_Audience claims)"
    using lib p unfolding jwt_ok_def by fastforce+
  then obtain k where k: "verificationKey v (Some token) = Inr k" "signed k raw" by blast
  obtain kid key where key: "map_of (jt_Header token) ''kid'' = Some (JString kid)" "map_of v kid = Some key" "vk_PublicKey key = Ed25519Key k"
    "length (jt_Header token) = 3" "map_of (jt_Header token) ''typ'' = Some (JString tokenTypeJWT)" "jt_Alg token = JWTAlgorithmEdDSA" "length k = 32"
    using verificationKey_ok [OF k(1)] by blast
  have "v = map (\<lambda>k. (vk_KeyID k, k)) keys" using new index_keys_ok [of E "[]" keys v] by (auto simp: NewTokenVerifier_def split: if_splits)
  then have "key \<in> set keys" "vk_KeyID key = kid" using map_of_SomeD [OF key(2)] by auto
  then have genuine: "\<exists>token key k. decode raw = Some (token, claims) \<and> key \<in> set keys \<and> vk_PublicKey key = Ed25519Key k \<and> length k = 32 \<and> signed k raw \<and>
       length (jt_Header token) = 3 \<and> map_of (jt_Header token) ''kid'' = Some (JString (vk_KeyID key)) \<and> map_of (jt_Header token) ''typ'' = Some (JString ''JWT'') \<and>
       jt_Alg token = ''EdDSA''"
    using key k(2) l(1) by (intro exI [of _ token] exI [of _ key] exI [of _ k]) (simp add: tokenTypeJWT_def JWTAlgorithmEdDSA_def)
  have req': "distinct (uc_Audience claims)" "length (uc_Audience claims) > 1 \<longrightarrow> uc_AuthorizedParty claims = aud" "isCanonicalClaimValue (uc_Subject claims)"
    "isCanonicalClaimValue (uc_ID claims)" "uc_IssuedAt claims \<noteq> None"
    using req by (auto simp: validRequiredClaims_def audiences_ok_iff split: if_splits)
  show ?thesis using strict [unfolded validateCompact_iff] genuine l req' by blast
qed

section \<open>The published key set\<close>

lemma project_keys_all:
  assumes "\<forall>k \<in> set keys. normalizeVerificationKey E k = Inr k \<and> vk_KeyID k \<notin> set seen" "distinct (map vk_KeyID keys)"
  shows "project_keys E seen keys = Inr (map project_key keys)"
  using assms
proof (induction keys arbitrary: seen)
  case (Cons k keys)
  have "project_keys E (vk_KeyID k # seen) keys = Inr (map project_key keys)" using Cons.prems by (intro Cons.IH) (auto simp: image_iff)
  then show ?case using Cons.prems by simp
qed simp

lemma distinct_map_sort: "distinct (map f (sort_key g xs)) \<longleftrightarrow> distinct (map f xs)"
  by (simp add: distinct_map)

text \<open>The key set of a verifier does not depend on the order in which its keys are visited.\<close>

theorem published_keys:
  assumes new: "NewTokenVerifier E keys = Inr v" and order: "mset order = mset (map snd v)"
  shows "\<exists>ks. JWKS E (Some v) order = Inr ks \<and> PublicJWKS E keys = Inr ks \<and> sorted (map jk_KeyID ks) \<and> distinct (map jk_KeyID ks) \<and>
    set ks = project_key ` set keys"
proof -
  have "keys \<noteq> []" and i: "index_keys E [] keys = Inr v" using new by (auto simp: NewTokenVerifier_def split: if_splits)
  note ok = index_keys_ok [OF i]
  then have v: "map snd v = keys" "v \<noteq> []" using \<open>keys \<noteq> []\<close> by (auto simp: comp_def)
  have set: "set order = set keys" and m: "mset order = mset keys" using order v mset_eq_setD by auto
  have "mset (map vk_KeyID order) = mset (map vk_KeyID keys)" using m by (metis mset_map)
  then have dist: "distinct (map vk_KeyID order)" using ok by (metis distinct_count_atmost_1 append_Nil set_mset_mset)
  have ids: "map jk_KeyID (map project_key xs) = map vk_KeyID xs" for xs by (simp add: project_key_def)
  have p1: "project_keys E [] keys = Inr (map project_key keys)" by (rule project_keys_all) (use ok in auto)
  have p2: "project_keys E [] order = Inr (map project_key order)" by (rule project_keys_all) (use ok dist set in auto)
  let ?f = "\<lambda>xs. sort_key jk_KeyID (map project_key xs)"
  have "?f order = ?f keys"
  proof (rule map_sorted_distinct_set_unique [where f = jk_KeyID])
    have "inj_on jk_KeyID (project_key ` set keys)"
      using ok by (auto simp: inj_on_def project_key_def distinct_map)
    then show "inj_on jk_KeyID (set (?f order) \<union> set (?f keys))" by (simp add: set)
    show "distinct (map jk_KeyID (?f order))" "distinct (map jk_KeyID (?f keys))"
      using dist ok by (simp_all add: distinct_map_sort ids del: map_map)
  qed (simp_all add: set)
  moreover have "distinct (map jk_KeyID (?f keys))" using ok by (simp add: distinct_map_sort ids del: map_map)
  ultimately show ?thesis using v(2) p1 p2 by (auto simp: JWKS_def PublicJWKS_def)
qed

section \<open>Signed tokens\<close>

definition claims_in_force :: "time \<Rightarrow> string \<Rightarrow> string \<Rightarrow> user_claims \<Rightarrow> bool" where
  "claims_in_force now iss aud claims \<longleftrightarrow>
     (\<exists>e. uc_ExpiresAt claims = Some e \<and> now < e) \<and> (\<exists>i. uc_IssuedAt claims = Some i \<and> i \<le> now) \<and> uc_Issuer claims = iss \<and> aud \<in> set (uc_Audience claims)"

definition signed_token :: "string \<Rightarrow> jwt_token" where
  "signed_token keyID = \<lparr>jt_EdDSA = True, jt_Alg = JWTAlgorithmEdDSA, jt_Header = sign_header keyID\<rparr>"

text \<open>
  What the library documents of signing: a token is three segments without padding, header and claims the texts of objects (\<open>members\<close> are
  those of the claims), and it parses with the public half of its key while the claims are in force.
\<close>

definition jwt_signs :: "jwt_lib \<Rightarrow> auth_env \<Rightarrow> (user_claims \<Rightarrow> (string \<times> json) list) \<Rightarrow> bool" where
  "jwt_signs J E members \<longleftrightarrow>
     (\<forall>keyID claims key raw. jl_Sign J (sign_header keyID) claims key = Inr raw \<longrightarrow>
        (\<exists>h c s. raw = b64_encode (bytes_of h) @ CHR ''.'' # b64_encode (bytes_of c) @ CHR ''.'' # b64_encode (bytes_of s) \<and> h \<noteq> [] \<and> c \<noteq> [] \<and>
           valid_utf8 h \<and> valid_utf8 c \<and> ae_tokens E h = (tokens_of (JObject (sign_header keyID)), True) \<and> ae_tokens E c = (tokens_of (JObject (members claims)), True) \<and>
           strict_at 1 (JObject (members claims))) \<and>
        (\<forall>keyfunc po now. keyfunc (signed_token keyID) = Inr (drop 32 key) \<longrightarrow> JWTAlgorithmEdDSA \<in> set (po_ValidMethods po) \<longrightarrow>
           claims_in_force now (po_Issuer po) (po_Audience po) claims \<longrightarrow> jl_Parse J raw keyfunc po now = Inr (signed_token keyID, True, claims)))"

lemma bytes_of_bounded: "\<forall>b \<in> set (bytes_of s). b < 256"
  by (simp add: bytes_of_def)

lemma b64_char_token: "n < 64 \<Longrightarrow> b64_char n \<noteq> CHR ''.'' \<and> 32 < (of_char (b64_char n) :: nat) \<and> of_char (b64_char n) < (128::nat)"
proof -
  assume n: "n < 64"
  consider "n < 26" | "26 \<le> n \<and> n < 52" | "52 \<le> n \<and> n < 62" | "n = 62" | "n = 63" using n by linarith
  then have b: "32 < (of_char (b64_char n) :: nat) \<and> of_char (b64_char n) < (128::nat)" by cases (auto simp: b64_char_def)
  have "b64_value (CHR ''.'') = None" by (simp add: b64_value_def)
  then have "b64_char n \<noteq> CHR ''.''" using b64_value_char [OF n] by (metis option.distinct(1))
  with b show ?thesis by blast
qed

lemma b64_encode_chars:
  assumes "x \<in> set (b64_encode (bytes_of s))"
  shows "x \<noteq> CHR ''.'' \<and> 32 < (of_char x :: nat) \<and> of_char x < (128::nat)"
proof -
  obtain n where x: "x = b64_char n" "n \<in> set (b64_groups (bytes_of s))" using assms by (auto simp: b64_encode_def)
  then have "n < 64" using b64_groups_bounded [OF bytes_of_bounded [of s]] by blast
  then show ?thesis unfolding x(1) by (rule b64_char_token)
qed

lemma length_b64_encode: "4 * length s \<le> 3 * length (b64_encode (bytes_of s))"
  using length_b64_groups [of "bytes_of s"] by (simp add: b64_encode_def bytes_of_def)

text \<open>A segment of a token that is not too long is decoded to the text it was made of.\<close>

lemma segment_decodes:
  assumes "h \<noteq> []" and "length (b64_encode (bytes_of h)) \<le> 21845" and "16384 \<le> limit"
  shows "decodeCompactSegment (b64_encode (bytes_of h)) limit = Inr h"
proof -
  have "length h \<le> 16384" using length_b64_encode [of h] assms(2) by linarith
  moreover have "b64_encode (bytes_of h) \<noteq> []" using length_b64_encode [of h] assms(1) by (cases "b64_encode (bytes_of h)") auto
  moreover have "21845 \<le> encoded_len limit"
  proof -
    have "5461 \<le> limit div 3" using assms(3) div_le_mono [of 16384 limit 3] by simp
    show ?thesis
    proof (cases "limit div 3 = 5461")
      case True
      then have "limit mod 3 \<ge> 1" using assms(3) div_mult_mod_eq [of limit 3] by linarith
      then have "2 \<le> (limit mod 3 * 8 + 5) div 6" using div_le_mono [of 12 "limit mod 3 * 8 + 5" 6] by simp
      then show ?thesis using True by (simp add: encoded_len_def)
    qed (use \<open>5461 \<le> limit div 3\<close> in \<open>simp add: encoded_len_def\<close>)
  qed
  moreover have "map char_of (bytes_of h) = h" by (simp add: bytes_of_def comp_def)
  ultimately show ?thesis using assms b64_decode_encode [OF bytes_of_bounded [of h]] by (simp add: decodeCompactSegment_def bytes_of_def)
qed

lemma sign_header_strict: "strict_at 1 (JObject (sign_header keyID))"
  by (simp add: sign_header_def)

lemma sign_then_verify:
  assumes lib: "jwt_signs J E members" and signer: "NewTokenSigner E keyID privateKey = Inr s"
    and sign: "Sign J e0 e1 (Some claims) (Some s) = Inr (raw, kid)" and size: "length raw \<le> 21845"
    and new: "NewTokenVerifier E keys = Inr v" and key: "VerificationKey (Some s) \<in> set keys"
    and req: "validRequiredClaims claims aud" and now: "claims_in_force now iss aud claims"
  shows "Verify J E (Some None) (Some None) now (Some v) raw iss aud = Inr claims"
proof -
  have s: "s = \<lparr>sg_keyID = keyID, sg_privateKey = privateKey\<rparr>" "length privateKey = 64" "isCanonicalClaimValue keyID"
    using signer by (auto simp: NewTokenSigner_def isCanonicalClaimValue_def split: if_splits)
  have raw: "jl_Sign J (sign_header keyID) claims privateKey = Inr raw"
    using sign s by (auto simp: Sign_def split: option.splits if_splits sum.splits)
  obtain h c g where seg: "raw = b64_encode (bytes_of h) @ CHR ''.'' # b64_encode (bytes_of c) @ CHR ''.'' # b64_encode (bytes_of g)" "h \<noteq> []" "c \<noteq> []"
      "valid_utf8 h" "valid_utf8 c" "ae_tokens E h = (tokens_of (JObject (sign_header keyID)), True)" "ae_tokens E c = (tokens_of (JObject (members claims)), True)"
      "strict_at 1 (JObject (members claims))"
    using lib raw unfolding jwt_signs_def by metis
  have dots: "CHR ''.'' \<notin> set (b64_encode (bytes_of x))" for x using b64_encode_chars by blast
  have split: "split_on (CHR ''.'') raw = [b64_encode (bytes_of h), b64_encode (bytes_of c), b64_encode (bytes_of g)]"
    by (simp add: seg(1) split_on_append [OF dots] split_on_no_sep [OF dots])
  have strict: "validateCompactJSONObjects (ae_tokens E) raw = Some None"
    unfolding validateCompact_iff strict_segment_def
    using split segment_decodes [OF seg(2), of maximumJOSEHeaderBytes] segment_decodes [OF seg(3), of maximumJWTClaimsBytes] size seg sign_header_strict
    by (auto simp: maximumJOSEHeaderBytes_def maximumJWTClaimsBytes_def)
  have "v = map (\<lambda>k. (vk_KeyID k, k)) keys" "distinct (map vk_KeyID keys)" "keys \<noteq> []"
    using new index_keys_ok [of E "[]" keys v] by (auto simp: NewTokenVerifier_def split: if_splits)
  then have v: "map_of v keyID = Some (VerificationKey (Some s))" "v \<noteq> []"
    using key s by (auto intro!: map_of_is_SomeI simp: comp_def VerificationKey_def image_iff)
  have vk: "verificationKey v (Some (signed_token keyID)) = Inr (drop 32 privateKey)"
  proof -
    have "trim_space keyID = keyID" "keyID \<noteq> []" using s(3) unfolding isCanonicalClaimValue_def by metis+
    then show ?thesis using v(1) s(1,2) by (simp add: verificationKey_def signed_token_def sign_header_def VerificationKey_def)
  qed
  have parse: "jl_Parse J raw (\<lambda>t. verificationKey v (Some t)) \<lparr>po_ValidMethods = [JWTAlgorithmEdDSA], po_Issuer = iss, po_Audience = aud\<rparr> now = Inr (signed_token keyID, True, claims)"
    using lib raw vk now unfolding jwt_signs_def by fastforce
  have "\<forall>x \<in> set raw. 32 < (of_char x :: nat) \<and> of_char x < (128::nat)" using b64_encode_chars by (auto simp: seg(1))
  then have "trim_space raw = raw" "raw \<noteq> []" using trim_space_ascii_id seg(1) by auto
  moreover have "trim_space iss \<noteq> []" "trim_space aud \<noteq> []"
    using req now by (auto simp: validRequiredClaims_def claims_in_force_def isCanonicalClaimValue_def audiences_ok_iff split: if_splits)
  ultimately show ?thesis using strict parse req v(2) by (simp add: Verify_def contextError_def)
qed


section \<open>Examples\<close>

definition one_key :: string where "one_key = replicate 64 (CHR 0x01)"

definition one_claims :: user_claims where
  "one_claims = \<lparr>uc_Issuer = ''i'', uc_Subject = ''u'', uc_Audience = [''a''], uc_ExpiresAt = Some 5, uc_IssuedAt = Some 0, uc_ID = ''j'', uc_AuthorizedParty = []\<rparr>"

definition one_raw :: string where
  "one_raw = b64_encode (bytes_of ''h'') @ CHR ''.'' # b64_encode (bytes_of ''c'') @ CHR ''.'' # b64_encode (bytes_of ''g'')"

definition auth_one :: auth_env where
  "auth_one = \<lparr>ae_tokens = (\<lambda>d. if d = ''h'' then (tokens_of (JObject (sign_header ''k'')), True) else (tokens_of (JObject []), True)), ae_text = (\<lambda>_. []), ae_quote = (\<lambda>x. x),
     ae_from_seed = (\<lambda>_. one_key)\<rparr>"

definition jwt_one :: jwt_lib where
  "jwt_one = \<lparr>jl_Parse = (\<lambda>raw keyfunc po now.
       if raw = one_raw \<and> keyfunc (signed_token ''k'') = Inr (drop 32 one_key) \<and> JWTAlgorithmEdDSA \<in> set (po_ValidMethods po) \<and>
          claims_in_force now (po_Issuer po) (po_Audience po) one_claims then Inr (signed_token ''k'', True, one_claims) else Inl []),
     jl_Sign = (\<lambda>h c k. if h = sign_header ''k'' \<and> c = one_claims \<and> k = one_key then Inr one_raw else Inl [])\<rparr>"

lemma jwt_one_signs: "jwt_signs jwt_one auth_one (\<lambda>_. [])"
proof -
  have "plain_text ''h''" "plain_text ''c''" by (simp_all add: plain_text_def)
  then have "valid_utf8 ''h''" "valid_utf8 ''c''" using plain_text_simps(2) by blast+
  then have "\<exists>h c s. one_raw = b64_encode (bytes_of h) @ CHR ''.'' # b64_encode (bytes_of c) @ CHR ''.'' # b64_encode (bytes_of s) \<and> h \<noteq> [] \<and> c \<noteq> [] \<and>
      valid_utf8 h \<and> valid_utf8 c \<and> ae_tokens auth_one h = (tokens_of (JObject (sign_header ''k'')), True) \<and> ae_tokens auth_one c = (tokens_of (JObject []), True)"
    by (intro exI [of _ "''h''"] exI [of _ "''c''"] exI [of _ "''g''"]) (simp add: one_raw_def auth_one_def)
  then show ?thesis unfolding jwt_signs_def by (auto simp: jwt_one_def sign_header_def split: if_splits)
qed

lemma jwt_one_ok: "jwt_ok jwt_one (\<lambda>raw. if raw = one_raw then Some (signed_token ''k'', one_claims) else None) (\<lambda>key raw. key = drop 32 one_key \<and> raw = one_raw)"
  unfolding jwt_ok_def by (auto simp: jwt_one_def claims_in_force_def signed_token_def one_claims_def split: if_splits)

definition one_signer :: token_signer where "one_signer = \<lparr>sg_keyID = ''k'', sg_privateKey = one_key\<rparr>"

lemma one_canonical: "trim_space ''k'' = ''k''" "trim_space ''i'' = ''i''" "trim_space ''u'' = ''u''" "trim_space ''a'' = ''a''" "trim_space ''j'' = ''j''"
  by (rule plain_text_simps; simp add: plain_text_def)+

lemma one_signed:
  "NewTokenSigner auth_one ''k'' one_key = Inr one_signer"
  "Sign jwt_one (Some None) (Some None) (Some one_claims) (Some one_signer) = Inr (one_raw, ''k'')"
  "NewTokenVerifier auth_one [VerificationKey (Some one_signer)] = Inr [(''k'', VerificationKey (Some one_signer))]"
  "validRequiredClaims one_claims ''a''" "claims_in_force 1 ''i'' ''a'' one_claims"
proof -
  have k: "length one_key = 64" by (simp add: one_key_def)
  show "NewTokenSigner auth_one ''k'' one_key = Inr one_signer" using k by (simp add: NewTokenSigner_def one_canonical auth_one_def one_signer_def)
  show "Sign jwt_one (Some None) (Some None) (Some one_claims) (Some one_signer) = Inr (one_raw, ''k'')"
    using k by (simp add: Sign_def contextError_def one_signer_def one_canonical jwt_one_def)
  show "NewTokenVerifier auth_one [VerificationKey (Some one_signer)] = Inr [(''k'', VerificationKey (Some one_signer))]"
    using k by (simp add: NewTokenVerifier_def normalizeVerificationKey_def VerificationKey_def one_signer_def one_canonical)
  show "validRequiredClaims one_claims ''a''" by (simp add: validRequiredClaims_def one_claims_def isCanonicalClaimValue_def one_canonical)
  show "claims_in_force 1 ''i'' ''a'' one_claims" by (simp add: claims_in_force_def one_claims_def)
qed

lemma one_raw_length: "length one_raw \<le> 21845"
  by (simp add: one_raw_def b64_encode_def bytes_of_def)

lemma one_verified: "Verify jwt_one auth_one (Some None) (Some None) 1 (Some [(''k'', VerificationKey (Some one_signer))]) one_raw ''i'' ''a'' = Inr one_claims"
  by (rule sign_then_verify [OF jwt_one_signs one_signed(1,2) one_raw_length one_signed(3) _ one_signed(4,5)]) simp


theorem verified_token_is_genuine_witness:
  "Verify jwt_one auth_one (Some None) (Some None) 1 (Some [(''k'', VerificationKey (Some one_signer))]) one_raw ''i'' ''a'' = Inr one_claims \<and>
     uc_Issuer one_claims = ''i'' \<and> ''a'' \<in> set (uc_Audience one_claims)"
  using verified_token_is_genuine [OF jwt_one_ok one_signed(3) one_verified] one_verified by blast

end
