(* ===== verification/Page_Query.thy ===== *)
theory Page_Query
  imports Go_Numbers
begin

text \<open>
  Page queries (\<open>apis/apiobj/query.go\<close>): defaults and bounds of a page, and the fields that may appear in the order and in the
  filters of a request. \<open>allower\<close> is the object that lists the fields: \<open>None\<close> when there is none, and for each of its two
  lists \<open>None\<close> when it does not have the method or returns nil. \<open>low\<close> is the case table of Unicode.
\<close>

section \<open>Queries\<close>

definition DefaultPageSize :: int where "DefaultPageSize = 10"
definition PageMaxCount :: int where "PageMaxCount = 150"

record filter_cond =
  fl_Field :: string
  fl_Value :: "string list"
  fl_ExactMatch :: bool

record page_query =
  pq_Offset :: int
  pq_Limit :: int
  pq_ListAll :: bool
  pq_OrderBy :: "string list"
  pq_Filters :: "filter_cond list"
  pq_BeginTime :: time
  pq_EndTime :: time
  pq_IsBackend :: bool
  pq_UserID :: nat

record allower =
  AllowOrderFields :: "string list option"
  AllowFilterFields :: "string list option"

definition Fill :: "page_query \<Rightarrow> page_query" where
  "Fill p = (if pq_Limit p = 0 then p\<lparr>pq_Limit := DefaultPageSize\<rparr> else p)"

definition trim_suffix :: "string \<Rightarrow> string \<Rightarrow> string" where
  "trim_suffix s suffix = (if has_suffix s suffix then take (length s - length suffix) s else s)"

fun containsString :: "string list \<Rightarrow> string \<Rightarrow> bool" where
  "containsString [] str = False"
| "containsString (v # arr) str = (if v = str then True else containsString arr str)"

text \<open>The field that an order expression is taken for.\<close>

definition order_field :: "(nat \<Rightarrow> nat) \<Rightarrow> string \<Rightarrow> string" where
  "order_field low ob = trim_suffix (trim_suffix (to_lower low (trim_space ob)) '' desc'') '' asc''"

fun check_orders :: "(nat \<Rightarrow> nat) \<Rightarrow> string list \<Rightarrow> string list \<Rightarrow> string option" where
  "check_orders low allowed [] = None"
| "check_orders low allowed (ob # obs) =
     (if \<not> containsString allowed (order_field low ob) then Some (''unsupported order field: '' @ order_field low ob)
      else check_orders low allowed obs)"

fun check_filters :: "(nat \<Rightarrow> nat) \<Rightarrow> string list \<Rightarrow> filter_cond list \<Rightarrow> string option" where
  "check_filters low allowed [] = None"
| "check_filters low allowed (f # fs) =
     (let field = to_lower low (trim_space (fl_Field f))
      in if \<not> containsString allowed field then Some (''unsupported filter field: '' @ field)
         else if fl_Value f = [] then Some (''filter value is empty: '' @ field)
         else check_filters low allowed fs)"

definition query_Validate :: "(nat \<Rightarrow> nat) \<Rightarrow> page_query \<Rightarrow> allower option \<Rightarrow> string option" where
  "query_Validate low p allower =
     (if pq_Offset p < 0 then Some (''offset is invalid, '' @ itoa (pq_Offset p))
      else if pq_Limit p \<le> 0 \<or> pq_Limit p > PageMaxCount then Some (''limit is invalid, '' @ itoa (pq_Limit p))
      else if \<not> is_zero (pq_BeginTime p) \<and> \<not> is_zero (pq_EndTime p) \<and> pq_EndTime p < pq_BeginTime p
      then Some ''end_time must not be before begin_time''
      else (let orders = (case allower of None \<Rightarrow> None | Some a \<Rightarrow> AllowOrderFields a);
                filters = (case allower of None \<Rightarrow> None | Some a \<Rightarrow> AllowFilterFields a)
            in case (case orders of None \<Rightarrow> None | Some allowed \<Rightarrow> check_orders low allowed (pq_OrderBy p)) of
                 Some e \<Rightarrow> Some e
               | None \<Rightarrow> (case filters of None \<Rightarrow> None | Some allowed \<Rightarrow> check_filters low allowed (pq_Filters p))))"

section \<open>Lemmas\<close>

lemma containsString_iff [simp]: "containsString arr str \<longleftrightarrow> str \<in> set arr"
  by (induction arr) auto

lemma trim_suffix_cases: "trim_suffix s t = s \<or> s = trim_suffix s t @ t"
proof (cases "has_suffix s t")
  case True
  then have "rev t = take (length t) (rev s)" and len: "length t \<le> length s" by (auto simp: has_suffix_def has_prefix_def dest: arg_cong [where f = length])
  then have "t = drop (length s - length t) s" by (metis rev_rev_ident rev_take length_rev)
  then have "s = take (length s - length t) s @ t" by (metis append_take_drop_id)
  with True show ?thesis by (simp add: trim_suffix_def)
qed (simp add: trim_suffix_def)

lemma order_field_cases:
  "\<exists>direction \<in> {[], '' asc'', '' desc'', '' asc desc''}. to_lower low (trim_space ob) = order_field low ob @ direction"
  using trim_suffix_cases [of "to_lower low (trim_space ob)" "'' desc''"]
    trim_suffix_cases [of "trim_suffix (to_lower low (trim_space ob)) '' desc''" "'' asc''"]
  unfolding order_field_def by (elim disjE) (metis append_Nil2 append_assoc append_Cons append_Nil insertI1 insertI2)+

lemma check_orders_None: "check_orders low allowed obs = None \<longleftrightarrow> (\<forall>ob \<in> set obs. order_field low ob \<in> set allowed)"
  by (induction obs) auto

lemma check_filters_None:
  "check_filters low allowed fs = None \<longleftrightarrow> (\<forall>f \<in> set fs. to_lower low (trim_space (fl_Field f)) \<in> set allowed \<and> fl_Value f \<noteq> [])"
  by (induction fs) (auto simp: Let_def)

end
