(* ===== verification/Task_Rows.thy ===== *)
theory Task_Rows
  imports Task_Store Page_Query Complex_Main
begin

text \<open>
  Package \<open>task\<close>, rows by member and by filter (\<open>src/task/dao.go\<close>, \<open>src/task/dao_base.go\<close>). A query is built clause by clause, as with
  GORM, and then run. Texts of SQL that come from the application are interpreted by the server: \<open>re_holds\<close> is a condition with
  its arguments, \<open>re_sort\<close> an \<open>ORDER BY\<close> (the empty text is the order the server picks when there is none), \<open>re_column\<close> the
  column that a name stands for and \<open>re_set\<close> its assignment; \<open>re_avg\<close> is \<open>AVG\<close>. MySQL has no \<open>OFFSET\<close> without \<open>LIMIT\<close>
  (\<open>re_bare_offset\<close> is false then). The columns of the member have a binary collation and compare as bytes.
\<close>

section \<open>Queries\<close>

record 'a rows_env =
  re_task :: task_env
  re_holds :: "string \<Rightarrow> 'a list \<Rightarrow> task \<Rightarrow> bool"
  re_sort :: "string \<Rightarrow> task list \<Rightarrow> task list"
  re_column :: "string \<Rightarrow> string"
  re_set :: "string \<Rightarrow> 'a \<Rightarrow> (task \<Rightarrow> task) option"
  re_avg :: "int list \<Rightarrow> real"
  re_bare_offset :: bool

record task_query =
  tq_where :: "task \<Rightarrow> bool"
  tq_unscoped :: bool
  tq_order :: "string list"
  tq_limit :: "int option"
  tq_offset :: "int option"

definition all_rows :: task_query where
  "all_rows = \<lparr>tq_where = (\<lambda>_. True), tq_unscoped = False, tq_order = [], tq_limit = None, tq_offset = None\<rparr>"

definition q_Where :: "(task \<Rightarrow> bool) \<Rightarrow> task_query \<Rightarrow> task_query" where
  "q_Where p q = q\<lparr>tq_where := \<lambda>r. tq_where q r \<and> p r\<rparr>"

definition q_when :: "bool \<Rightarrow> (task_query \<Rightarrow> task_query) \<Rightarrow> task_query \<Rightarrow> task_query" where
  "q_when c f q = (if c then f q else q)"

definition q_Order :: "string \<Rightarrow> task_query \<Rightarrow> task_query" where
  "q_Order t q = q\<lparr>tq_order := tq_order q @ [t]\<rparr>"

fun join_text :: "string \<Rightarrow> string list \<Rightarrow> string" where
  "join_text sep [] = []"
| "join_text sep [x] = x"
| "join_text sep (x # y # ys) = x @ sep @ join_text sep (y # ys)"

text \<open>The rows a query selects, in order, and the page of them it asks for.\<close>

definition matching :: "task_query \<Rightarrow> task list \<Rightarrow> task list" where
  "matching q rows = filter (\<lambda>r. (tq_unscoped q \<or> live r) \<and> tq_where q r) rows"

definition ordered :: "'a rows_env \<Rightarrow> task_query \<Rightarrow> task list \<Rightarrow> task list" where
  "ordered E q rows = re_sort E (join_text '','' (tq_order q)) (matching q rows)"

definition page :: "int option \<Rightarrow> int option \<Rightarrow> 'r list \<Rightarrow> 'r list" where
  "page lm ofs rows =
     (let rest = (case ofs of Some n \<Rightarrow> if 0 < n then drop (nat n) rows else rows | None \<Rightarrow> rows)
      in case lm of Some n \<Rightarrow> if 0 \<le> n then take (nat n) rest else rest | None \<Rightarrow> rest)"

definition refused :: "'a rows_env \<Rightarrow> task_query \<Rightarrow> bool" where
  "refused E q \<longleftrightarrow> \<not> re_bare_offset E \<and> (\<exists>n \<in> set_option (tq_offset q). 0 < n) \<and> \<not> (\<exists>n \<in> set_option (tq_limit q). 0 \<le> n)"

definition q_Find :: "'a rows_env \<Rightarrow> (task, 'd) sqltab \<Rightarrow> task_query \<Rightarrow> 'd session \<Rightarrow> (dberr + task list) \<times> 'd session" where
  "q_Find E T q s =
     (if refused E q then (Inl DbError, s\<lparr>s_fates := tl (s_fates s)\<rparr>)
      else sql_select T (\<lambda>rows. page (tq_limit q) (tq_offset q) (ordered E q rows)) s)"

definition q_Count :: "(task, 'd) sqltab \<Rightarrow> task_query \<Rightarrow> 'd session \<Rightarrow> (dberr + int) \<times> 'd session" where
  "q_Count T q s = (case sql_select T (matching q) s of (Inl e, s') \<Rightarrow> (Inl e, s') | (Inr rows, s') \<Rightarrow> (Inr (int (length rows)), s'))"

section \<open>Conditions\<close>

text \<open>\<open>BaseQuery\<close>\<close>

definition BaseQuery :: "page_query \<Rightarrow> task_query \<Rightarrow> task_query" where
  "BaseQuery query q =
     (let q1 = q_when (\<not> is_zero (pq_BeginTime query)) (q_Where (\<lambda>r. pq_BeginTime query \<le> tk_CreatedAt r)) q;
          q2 = q_when (\<not> is_zero (pq_EndTime query)) (q_Where (\<lambda>r. tk_CreatedAt r \<le> pq_EndTime query)) q1;
          q3 = fold q_Order (pq_OrderBy query) q2
      in if pq_ListAll query then q3
         else let q4 = q_when (0 < pq_Limit query) (\<lambda>q. q\<lparr>tq_limit := Some (pq_Limit query)\<rparr>) q3
              in q_when (0 \<le> pq_Offset query) (\<lambda>q. q\<lparr>tq_offset := Some (pq_Offset query)\<rparr>) q4)"

record 'a base_cond =
  bc_ID :: nat
  bc_IDs :: "nat list"
  bc_IsDelete :: bool
  bc_Offset :: int
  bc_Limit :: int
  bc_OrganizationID :: string
  bc_UserID :: string
  bc_BeginTime :: time
  bc_EndTime :: time
  bc_OrderBy :: "string list"
  bc_OrConditions :: "string list"
  bc_OrArgs :: "'a list"

definition cond_member :: "('a, 'b) base_cond_scheme \<Rightarrow> member" where
  "cond_member c = \<lparr>OrganizationID = bc_OrganizationID c, UserID = bc_UserID c\<rparr>"

definition BuildBaseCondition :: "'a rows_env \<Rightarrow> ('a, 'b) base_cond_scheme \<Rightarrow> task_query \<Rightarrow> task_query" where
  "BuildBaseCondition E cond q =
     (if \<not> member_ok (cond_member cond) then q_Where (\<lambda>_. False) q
      else let q1 = q_when (0 < bc_ID cond) (q_Where (\<lambda>r. tk_ID r = bc_ID cond)) q;
               q2 = q_when (bc_IDs cond \<noteq> []) (q_Where (\<lambda>r. tk_ID r \<in> set (bc_IDs cond))) q1;
               q3 = q_Where (\<lambda>r. tk_UserID r = bc_UserID cond) (q_Where (\<lambda>r. tk_OrganizationID r = bc_OrganizationID cond) q2);
               q4 = q_when (\<not> is_zero (bc_BeginTime cond)) (q_Where (\<lambda>r. bc_BeginTime cond \<le> tk_CreatedAt r)) q3;
               q5 = q_when (\<not> is_zero (bc_EndTime cond)) (q_Where (\<lambda>r. tk_CreatedAt r \<le> bc_EndTime cond)) q4;
               q6 = q_when (bc_IsDelete cond) (\<lambda>q. q\<lparr>tq_unscoped := True\<rparr>) q5;
               q7 = q_when (bc_OrderBy cond \<noteq> []) (q_Order (join_text '','' (bc_OrderBy cond))) q6
           in q_when (bc_OrConditions cond \<noteq> [] \<and> length (bc_OrArgs cond) = length (bc_OrConditions cond))
                (q_Where (re_holds E (''('' @ join_text '' OR '' (bc_OrConditions cond) @ '')'') (bc_OrArgs cond))) q7)"

record 'a task_cond = "'a base_cond" +
  tc_Filters :: "filter_cond list"
  tc_ID :: nat
  tc_IDs :: "nat list"
  tc_TaskType :: string
  tc_TaskStatus :: TaskStatus

definition BuildCondition :: "'a rows_env \<Rightarrow> 'a task_cond \<Rightarrow> task_query \<Rightarrow> task_query" where
  "BuildCondition E cond q =
     (let q1 = BuildBaseCondition E cond q;
          q2 = q_when (0 < tc_ID cond) (q_Where (\<lambda>r. tk_ID r = tc_ID cond)) q1;
          q3 = q_when (tc_IDs cond \<noteq> []) (q_Where (\<lambda>r. tk_ID r \<in> set (tc_IDs cond))) q2;
          q4 = q_when (tc_TaskType cond \<noteq> []) (q_Where (\<lambda>r. same_text (re_task E) (tk_TaskType r) (tc_TaskType cond))) q3
      in q_when (tc_TaskStatus cond \<noteq> TaskStatusText []) (q_Where (\<lambda>r. tk_TaskStatus r = tc_TaskStatus cond)) q4)"

definition taskMemberQuery :: "string \<Rightarrow> string \<Rightarrow> task_query \<Rightarrow> task_query" where
  "taskMemberQuery organizationID userID q =
     (if \<not> member_ok \<lparr>OrganizationID = organizationID, UserID = userID\<rparr> then q_Where (\<lambda>_. False) q
      else q_Where (\<lambda>r. tk_OrganizationID r = organizationID \<and> tk_UserID r = userID) q)"

section \<open>Reading\<close>

definition dao_GetByID :: "'a rows_env \<Rightarrow> (task, 'd) sqltab \<Rightarrow> string \<Rightarrow> string \<Rightarrow> nat \<Rightarrow> 'd session \<Rightarrow> (terror + task) \<times> 'd session" where
  "dao_GetByID E T organizationID userID i s =
     (let q = q_Where (\<lambda>r. tk_ID r = i) (taskMemberQuery organizationID userID all_rows)
      in case sql_select T (\<lambda>rows. take 1 (sort_key tk_ID (matching q rows))) s of
           (Inl _, s') \<Rightarrow> (Inl (errorf_ww (errors_text (''[TaskDao] GetByID fail, id:'' @ nat_digits i)) db_error), s')
         | (Inr [], s') \<Rightarrow> (Inl (errorf_ww (errors_text (''[TaskDao] GetByID fail, id:'' @ nat_digits i)) record_not_found), s')
         | (Inr (t # _), s') \<Rightarrow> (Inr t, s'))"

text \<open>\<open>Find\<close> into one value takes the first row, and leaves the zero value (\<open>None\<close>) without an error when there is none.\<close>

definition GetByCond :: "'a rows_env \<Rightarrow> (task, 'd) sqltab \<Rightarrow> 'a task_cond \<Rightarrow> 'd session \<Rightarrow> (terror + task option) \<times> 'd session" where
  "GetByCond E T cond s =
     (case q_Find E T (BuildCondition E cond all_rows) s of
        (Inl _, s') \<Rightarrow> (Inl (errorf_ww (errors_text ''find task'') db_error), s')
      | (Inr rows, s') \<Rightarrow> (Inr (case rows of [] \<Rightarrow> None | t # _ \<Rightarrow> Some t), s'))"

definition GetListByCond :: "'a rows_env \<Rightarrow> (task, 'd) sqltab \<Rightarrow> 'a task_cond \<Rightarrow> 'd session \<Rightarrow> (terror + task list) \<times> 'd session" where
  "GetListByCond E T cond s =
     (case q_Find E T (BuildCondition E cond all_rows) s of
        (Inl _, s') \<Rightarrow> (Inl (errorf_ww (errors_text ''list tasks'') db_error), s')
      | (Inr rows, s') \<Rightarrow> (Inr rows, s'))"

definition GetPageListByCond ::
  "'a rows_env \<Rightarrow> (task, 'd) sqltab \<Rightarrow> 'a task_cond \<Rightarrow> 'd session \<Rightarrow> (terror + (task list \<times> int)) \<times> 'd session" where
  "GetPageListByCond E T cond s =
     (let q = BuildCondition E cond all_rows
      in case q_Count T q s of
           (Inl _, s1) \<Rightarrow> (Inl (errorf_ww (errors_text ''count task page'') db_error), s1)
         | (Inr count, s1) \<Rightarrow>
            (let q1 = q_when (0 < bc_Limit cond) (\<lambda>q. q\<lparr>tq_limit := Some (bc_Limit cond)\<rparr>) q;
                 q2 = q_when (0 < bc_Offset cond) (\<lambda>q. q\<lparr>tq_offset := Some (bc_Offset cond)\<rparr>) q1
             in case q_Find E T q2 s1 of
                  (Inl _, s2) \<Rightarrow> (Inl (errorf_ww (errors_text ''list task page'') db_error), s2)
                | (Inr rows, s2) \<Rightarrow> (Inr (rows, count), s2)))"

definition CountByCond :: "'a rows_env \<Rightarrow> (task, 'd) sqltab \<Rightarrow> 'a task_cond \<Rightarrow> 'd session \<Rightarrow> (terror + int) \<times> 'd session" where
  "CountByCond E T cond s =
     (case q_Count T (BuildCondition E cond all_rows) s of
        (Inl _, s') \<Rightarrow> (Inl (errorf_ww (errors_text ''count tasks'') db_error), s')
      | (Inr n, s') \<Rightarrow> (Inr n, s'))"

definition AvgCostTimeByCond :: "'a rows_env \<Rightarrow> (task, 'd) sqltab \<Rightarrow> 'a task_cond \<Rightarrow> 'd session \<Rightarrow> (terror + real) \<times> 'd session" where
  "AvgCostTimeByCond E T cond s =
     (case sql_select T (matching (BuildCondition E cond all_rows)) s of
        (Inl _, s') \<Rightarrow> (Inl (errorf_ww (errors_text ''average task cost'') db_error), s')
      | (Inr rows, s') \<Rightarrow> (Inr (if rows = [] then 0 else re_avg E (map tk_Cost rows)), s'))"

section \<open>Writing\<close>

definition dao_Insert :: "'a rows_env \<Rightarrow> (task, 'd) sqltab \<Rightarrow> time \<Rightarrow> task option \<Rightarrow> 'd session \<Rightarrow> terror option \<times> 'd session" where
  "dao_Insert E T now entity s =
     (case entity of None \<Rightarrow> (Some (errors_text ''task entity is required''), s)
      | Some t \<Rightarrow>
         (case validateNewTask (re_task E) (Some t) of
            Some e \<Rightarrow> (Some (errorf_ww (errors_text ''[TaskDao] Insert fail'') e), s)
          | None \<Rightarrow>
             (case sql_insert T [stamped now t] s of
                (Inl _, s') \<Rightarrow> (Some (errorf_ww (errors_text ''insert task'') db_error), s')
              | (Inr _, s') \<Rightarrow> (None, s'))))"

fun batch_invalid :: "task_env \<Rightarrow> nat \<Rightarrow> task list \<Rightarrow> terror option" where
  "batch_invalid E index [] = None"
| "batch_invalid E index (t # ts) =
     (case validateNewTask E (Some t) of
        Some e \<Rightarrow> Some (errorf_ww (errors_text (''[TaskDao] BatchInsert fail, entityList['' @ nat_digits index @ '']'')) e)
      | None \<Rightarrow> batch_invalid E (Suc index) ts)"

definition BatchInsert :: "'a rows_env \<Rightarrow> (task, 'd) sqltab \<Rightarrow> time \<Rightarrow> task list \<Rightarrow> 'd session \<Rightarrow> terror option \<times> 'd session" where
  "BatchInsert E T now entityList s =
     (if entityList = [] then (Some (errors_text ''task batch is required''), s)
      else case batch_invalid (re_task E) 0 entityList of Some e \<Rightarrow> (Some e, s)
      | None \<Rightarrow>
         (case sql_insert T (map (stamped now) entityList) s of
            (Inl _, s') \<Rightarrow> (Some (errorf_ww (errors_text ''insert task batch'') db_error), s')
          | (Inr _, s') \<Rightarrow> (None, s')))"

text \<open>
  \<open>Updates\<close> with a struct takes its fields that are not zero, without the omitted ones, and sets the time of the update; an
  identifier in the struct becomes a condition. The soft delete clause is added because the struct names the model.
\<close>

definition keep_zero :: "('v \<Rightarrow> bool) \<Rightarrow> 'v \<Rightarrow> 'v \<Rightarrow> 'v" where
  "keep_zero zero old new = (if zero new then old else new)"

definition struct_update :: "task_env \<Rightarrow> time \<Rightarrow> task \<Rightarrow> task \<Rightarrow> task" where
  "struct_update E now e r =
     r\<lparr>tk_CreatedAt := keep_zero is_zero (tk_CreatedAt r) (tk_CreatedAt e), tk_UpdatedAt := now,
       tk_DeletedAt := keep_zero (\<lambda>x. x = None) (tk_DeletedAt r) (tk_DeletedAt e),
       tk_SubjectID := keep_zero (\<lambda>x. x = 0) (tk_SubjectID r) (tk_SubjectID e), tk_Step := keep_zero (\<lambda>x. x = 0) (tk_Step r) (tk_Step e),
       tk_TaskType := keep_zero (\<lambda>x. x = []) (tk_TaskType r) (tk_TaskType e), tk_Priority := keep_zero (\<lambda>x. x = 0) (tk_Priority r) (tk_Priority e),
       tk_TaskStatus := keep_zero (\<lambda>x. x = TaskStatusText []) (tk_TaskStatus r) (tk_TaskStatus e),
       tk_Redo := keep_zero (\<lambda>x. x = 0) (tk_Redo r) (tk_Redo e), tk_ErrMsg := keep_zero (\<lambda>x. x = []) (tk_ErrMsg r) (tk_ErrMsg e),
       tk_Comment := keep_zero (\<lambda>x. x = []) (tk_Comment r) (tk_Comment e), tk_WorkerID := keep_zero (\<lambda>x. x = []) (tk_WorkerID r) (tk_WorkerID e),
       tk_StartAt := keep_zero (\<lambda>x. x = None) (tk_StartAt r) (map_option (col_time E) (tk_StartAt e)),
       tk_EndAt := keep_zero (\<lambda>x. x = None) (tk_EndAt r) (map_option (col_time E) (tk_EndAt e)),
       tk_Cost := keep_zero (\<lambda>x. x = 0) (tk_Cost r) (tk_Cost e), tk_Payload := keep_zero (\<lambda>x. x = []) (tk_Payload r) (tk_Payload e),
       tk_Result := keep_zero (\<lambda>x. x = []) (tk_Result r) (tk_Result e), tk_AppGroup := keep_zero (\<lambda>x. x = []) (tk_AppGroup r) (tk_AppGroup e),
       tk_TaskConfigRedo := keep_zero (\<lambda>x. x = 0) (tk_TaskConfigRedo r) (tk_TaskConfigRedo e),
       tk_TaskConfigTimeout := keep_zero (\<lambda>x. x = 0) (tk_TaskConfigTimeout r) (tk_TaskConfigTimeout e)\<rparr>"

definition update_result :: "string \<Rightarrow> (dberr + nat) \<times> 'd session \<Rightarrow> terror option \<times> 'd session" where
  "update_result text out =
     (case out of (Inl _, s') \<Rightarrow> (Some (errorf_ww (errors_text text) db_error), s') | (Inr _, s') \<Rightarrow> (None, s'))"

definition UpdateByID ::
  "'a rows_env \<Rightarrow> (task, 'd) sqltab \<Rightarrow> time \<Rightarrow> string \<Rightarrow> string \<Rightarrow> nat \<Rightarrow> task option \<Rightarrow> 'd session \<Rightarrow> terror option \<times> 'd session" where
  "UpdateByID E T now organizationID userID i entity s =
     (let q = q_Where (\<lambda>r. tk_ID r = i) (taskMemberQuery organizationID userID all_rows)
      in case entity of
           None \<Rightarrow> (Some (errorf_ww (errors_text (''update task '' @ nat_digits i)) db_error), s)
         | Some e \<Rightarrow>
            update_result (''update task '' @ nat_digits i)
              (sql_update T (\<lambda>r. live r \<and> tq_where q r \<and> (tk_ID e = 0 \<or> tk_ID r = tk_ID e)) (struct_update (re_task E) now e) s))"

text \<open>
  \<open>Updates\<close> with a map knows no model: names are omitted as they are written, deleted rows are updated too, and without
  assignments there is no statement. An assignment the server does not know (\<open>None\<close>) fails the statement.
\<close>

definition omitted :: "string list" where "omitted = [''id'', ''organization_id'', ''user_id'']"

fun assignments :: "'a rows_env \<Rightarrow> (string \<times> 'a) list \<Rightarrow> (task \<Rightarrow> task) option" where
  "assignments E [] = Some id"
| "assignments E ((k, v) # kvs) =
     (case (re_set E k v, assignments E kvs) of (Some f, Some g) \<Rightarrow> Some (g \<circ> f) | _ \<Rightarrow> None)"

definition UpdateMap ::
  "'a rows_env \<Rightarrow> (task, 'd) sqltab \<Rightarrow> string \<Rightarrow> string \<Rightarrow> nat \<Rightarrow> (string \<times> 'a) list \<Rightarrow> 'd session \<Rightarrow> terror option \<times> 'd session" where
  "UpdateMap E T organizationID userID i updateMap s =
     (let q = q_Where (\<lambda>r. tk_ID r = i) (taskMemberQuery organizationID userID all_rows);
          kvs = filter (\<lambda>(k, v). k \<notin> set omitted) updateMap
      in if kvs = [] then (None, s)
         else case assignments E kvs of
           None \<Rightarrow> (Some (errorf_ww (errors_text (''update task fields '' @ nat_digits i)) db_error), s\<lparr>s_fates := tl (s_fates s)\<rparr>)
         | Some f \<Rightarrow> update_result (''update task fields '' @ nat_digits i) (sql_update T (tq_where q) f s))"

definition dao_Delete ::
  "'a rows_env \<Rightarrow> (task, 'd) sqltab \<Rightarrow> time \<Rightarrow> string \<Rightarrow> string \<Rightarrow> nat \<Rightarrow> 'd session \<Rightarrow> terror option \<times> 'd session" where
  "dao_Delete E T now organizationID userID i s =
     (let q = q_Where (\<lambda>r. tk_ID r = i) (taskMemberQuery organizationID userID all_rows)
      in update_result (''[TaskDao] Delete fail, id:'' @ nat_digits i)
           (sql_update T (tq_where q) (\<lambda>r. r\<lparr>tk_DeletedAt := Some (col_time (re_task E) now)\<rparr>) s))"

end
