(* ===== verification/Task_Row_Properties.thy ===== *)
theory Task_Row_Properties
  imports Task_Rows Task_Properties "HOL-Library.Multiset"
begin

text \<open>
  Properties of the rows by member: reads show and writes change the tasks of one member only, whatever the condition, and
  pages make up the list. The locale \<open>row_write\<close> is the contract of a write; it is interpreted for the three writes of the code.
\<close>

section \<open>Reading\<close>

definition owned :: "string \<Rightarrow> string \<Rightarrow> task \<Rightarrow> bool" where
  "owned organizationID userID r \<longleftrightarrow> tk_OrganizationID r = organizationID \<and> tk_UserID r = userID"

text \<open>\<open>ORDER BY\<close> gives the selected rows in some order.\<close>

definition sorts :: "'a rows_env \<Rightarrow> bool" where
  "sorts E \<longleftrightarrow> (\<forall>t rows. mset (re_sort E t rows) = mset rows)"

lemma q_simps [simp]:
  "tq_where (q_Where p q) r \<longleftrightarrow> tq_where q r \<and> p r" "tq_unscoped (q_Where p q) = tq_unscoped q"
  "tq_where (q_Order t q) = tq_where q" "tq_unscoped (q_Order t q) = tq_unscoped q"
  "tq_where all_rows r" "\<not> tq_unscoped all_rows" "tq_limit all_rows = None" "tq_offset all_rows = None"
  "tq_limit (q_Where p q) = tq_limit q" "tq_offset (q_Where p q) = tq_offset q" "tq_limit (q_Order t q) = tq_limit q" "tq_offset (q_Order t q) = tq_offset q"
  by (simp_all add: q_Where_def q_Order_def all_rows_def)

lemma q_when_simps [simp]:
  "tq_where (q_when c f q) r \<longleftrightarrow> (if c then tq_where (f q) r else tq_where q r)"
  "tq_unscoped (q_when c f q) \<longleftrightarrow> (if c then tq_unscoped (f q) else tq_unscoped q)"
  "tq_limit (q_when c f q) = (if c then tq_limit (f q) else tq_limit q)"
  "tq_offset (q_when c f q) = (if c then tq_offset (f q) else tq_offset q)"
  by (simp_all add: q_when_def)

lemma q_when_Where [simp]: "tq_unscoped (q_when c (q_Where p) q) = tq_unscoped q"
  by simp

declare q_when_simps(2) [simp del]

lemma base_condition:
  assumes "tq_where (BuildBaseCondition E cond q) r"
  shows "member_ok (cond_member cond) \<and> owned (bc_OrganizationID cond) (bc_UserID cond) r"
  using assms unfolding BuildBaseCondition_def Let_def owned_def by (simp split: if_splits)

lemma base_page:
  "tq_limit (BuildBaseCondition E cond q) = tq_limit q" "tq_offset (BuildBaseCondition E cond q) = tq_offset q"
  "tq_unscoped (BuildBaseCondition E cond q) \<Longrightarrow> tq_unscoped q \<or> bc_IsDelete cond"
  by (cases "member_ok (cond_member cond)"; simp add: BuildBaseCondition_def Let_def q_when_simps(2) split: if_splits)+

lemma condition_unscoped: "tq_unscoped (BuildCondition E cond all_rows) \<Longrightarrow> bc_IsDelete cond"
  by (auto simp: BuildCondition_def Let_def dest: base_page(3))

lemma condition_page: "tq_limit (BuildCondition E cond all_rows) = None" "tq_offset (BuildCondition E cond all_rows) = None"
  by (simp_all add: BuildCondition_def Let_def base_page)

lemma condition_where: "tq_where (BuildCondition E cond all_rows) r \<Longrightarrow> tq_where (BuildBaseCondition E cond all_rows) r"
  by (simp add: BuildCondition_def Let_def split: if_splits)

text \<open>A row that a condition may show.\<close>

definition shown :: "('a, 'b) base_cond_scheme \<Rightarrow> task list \<Rightarrow> task \<Rightarrow> bool" where
  "shown cond rows t \<longleftrightarrow> t \<in> set rows \<and> member_ok (cond_member cond) \<and> owned (bc_OrganizationID cond) (bc_UserID cond) t \<and> (live t \<or> bc_IsDelete cond)"

lemma matching_shown:
  assumes "t \<in> set (matching (BuildCondition E cond all_rows) rows)"
  shows "shown cond rows t"
proof -
  have t: "t \<in> set rows" "tq_unscoped (BuildCondition E cond all_rows) \<or> live t" "tq_where (BuildCondition E cond all_rows) t"
    using assms by (auto simp: matching_def)
  show ?thesis using base_condition [OF condition_where [OF t(3)]] t(1,2) condition_unscoped [of E cond] by (auto simp: shown_def)
qed

lemma page_subset: "set (page lm ofs rows) \<subseteq> set rows"
  by (auto simp: page_def Let_def split: option.splits dest!: in_set_takeD in_set_dropD)

lemma ordered_set: "sorts E \<Longrightarrow> set (ordered E q rows) = set (matching q rows)"
  unfolding ordered_def sorts_def by (metis set_mset_mset)

lemma ordered_page: "ordered E (q\<lparr>tq_limit := l\<rparr>) = ordered E q" "ordered E (q\<lparr>tq_offset := l\<rparr>) = ordered E q"
  by (simp_all add: ordered_def matching_def fun_eq_iff)

lemma q_Find_rows:
  assumes "sql_ok T" and "q_Find E T q s = (Inr rows, s')"
  shows "rows = page (tq_limit q) (tq_offset q) (ordered E q (t_rows T (s_db s)))"
proof -
  have "sql_select T (\<lambda>rows. page (tq_limit q) (tq_offset q) (ordered E q rows)) s = (Inr rows, s')"
    using assms(2) by (auto simp: q_Find_def split: if_splits)
  then show ?thesis using assms(1) by (auto elim: sql_select_cases)
qed

lemma q_Count_rows:
  assumes "sql_ok T" and "q_Count T q s = (r, s')"
  shows "t_rows T (s_db s') = t_rows T (s_db s)" and "r = Inr n \<Longrightarrow> n = int (length (matching q (t_rows T (s_db s))))"
proof -
  obtain o1 s1 where o: "sql_select T (matching q) s = (o1, s1)" by (meson surj_pair)
  then have "s' = s1" and r: "r = (case o1 of Inl e \<Rightarrow> Inl e | Inr rows \<Rightarrow> Inr (int (length rows)))"
    using assms(2) by (auto simp: q_Count_def split: sum.splits)
  with o assms(1) show "t_rows T (s_db s') = t_rows T (s_db s)" by (auto elim: sql_select_cases)
  from o assms(1) r show "n = int (length (matching q (t_rows T (s_db s))))" if "r = Inr n" using that by (auto elim: sql_select_cases)
qed

lemma GetPageListByCond_rows:
  assumes ok: "sql_ok T" and p: "GetPageListByCond E T cond s = (Inr (ts, n), s')"
  defines "q \<equiv> BuildCondition E cond all_rows" and "rows \<equiv> t_rows T (s_db s)"
  shows "n = int (length (matching q rows)) \<and>
    ts = page (if 0 < bc_Limit cond then Some (bc_Limit cond) else None) (if 0 < bc_Offset cond then Some (bc_Offset cond) else None) (ordered E q rows)"
proof -
  let ?q1 = "q_when (0 < bc_Limit cond) (\<lambda>q. q\<lparr>tq_limit := Some (bc_Limit cond)\<rparr>) q"
  let ?q2 = "q_when (0 < bc_Offset cond) (\<lambda>q. q\<lparr>tq_offset := Some (bc_Offset cond)\<rparr>) ?q1"
  obtain s1 where c: "q_Count T q s = (Inr n, s1)" and f: "q_Find E T ?q2 s1 = (Inr ts, s')"
    using p by (auto simp: GetPageListByCond_def Let_def q_def split: prod.splits sum.splits)
  from q_Find_rows [OF ok f] q_Count_rows [OF ok c]
  show ?thesis by (auto simp: q_when_def q_def rows_def ordered_page condition_page split: if_splits)
qed

section \<open>Writing\<close>

definition same_owner :: "task \<Rightarrow> task \<Rightarrow> bool" where
  "same_owner a b \<longleftrightarrow> tk_ID a = tk_ID b \<and> tk_OrganizationID a = tk_OrganizationID b \<and> tk_UserID a = tk_UserID b"

lemma same_owner_refl [simp]: "same_owner r r"
  by (simp add: same_owner_def)

text \<open>A table after a write: every row is as it was, or it is the row of the member with the identifier, still of this member.\<close>

definition only_touches :: "string \<Rightarrow> string \<Rightarrow> nat \<Rightarrow> task list \<Rightarrow> task list \<Rightarrow> bool" where
  "only_touches organizationID userID i rows rows' \<longleftrightarrow>
     list_all2 (\<lambda>a b. b = a \<or> member_ok \<lparr>OrganizationID = organizationID, UserID = userID\<rparr> \<and> owned organizationID userID a \<and> tk_ID a = i \<and> same_owner b a) rows rows'"

definition rows_valid :: "task list \<Rightarrow> bool" where
  "rows_valid rows \<longleftrightarrow> (\<forall>r \<in> set rows. task_member_ok r)"

lemma only_touches_refl [simp]: "only_touches organizationID userID i rows rows"
  by (simp add: only_touches_def list_all2_same)

lemma only_touches_valid: "only_touches organizationID userID i rows rows' \<Longrightarrow> rows_valid rows \<Longrightarrow> rows_valid rows'"
  unfolding only_touches_def rows_valid_def
  by (induction rule: list_all2_induct) (auto simp: task_member_ok_def same_owner_def)

lemma only_touches_update:
  assumes "\<And>r. p r \<Longrightarrow> member_ok \<lparr>OrganizationID = organizationID, UserID = userID\<rparr> \<and> owned organizationID userID r \<and> tk_ID r = i"
    and "\<And>r. p r \<Longrightarrow> same_owner (f r) r"
  shows "only_touches organizationID userID i rows (update_where p f rows)"
  using assms by (induction rows) (auto simp: only_touches_def update_where_def)

lemma sql_update_rows:
  assumes "sql_ok T" and "sql_update T p f s = (r, s')"
  shows "t_rows T (s_db s') = t_rows T (s_db s) \<or> t_rows T (s_db s') = update_where p f (t_rows T (s_db s))"
  using assms by (auto elim: sql_update_cases)

locale row_write =
  fixes T :: "(task, 'd) sqltab" and good :: bool and organizationID userID :: string and i :: nat
    and act :: "'d session \<Rightarrow> terror option \<times> 'd session"
  assumes write_rows: "good \<Longrightarrow> sql_ok T \<Longrightarrow> act s = (e, s') \<Longrightarrow> only_touches organizationID userID i (t_rows T (s_db s)) (t_rows T (s_db s'))"
begin

lemma write_valid: "good \<Longrightarrow> sql_ok T \<Longrightarrow> act s = (e, s') \<Longrightarrow> rows_valid (t_rows T (s_db s)) \<Longrightarrow> rows_valid (t_rows T (s_db s'))"
  using write_rows only_touches_valid by blast

lemma write_invalid: "good \<Longrightarrow> sql_ok T \<Longrightarrow> act s = (e, s') \<Longrightarrow> \<not> member_ok \<lparr>OrganizationID = organizationID, UserID = userID\<rparr> \<Longrightarrow>
    t_rows T (s_db s') = t_rows T (s_db s)"
  using write_rows [of s e s'] by (auto simp: only_touches_def list_all2_conv_all_nth intro!: nth_equalityI)

end

lemma member_query:
  "tq_where (q_Where (\<lambda>r. tk_ID r = i) (taskMemberQuery organizationID userID all_rows)) r \<longleftrightarrow>
     member_ok \<lparr>OrganizationID = organizationID, UserID = userID\<rparr> \<and> owned organizationID userID r \<and> tk_ID r = i"
  by (auto simp: taskMemberQuery_def owned_def)

lemma update_touches:
  assumes "sql_ok T" and "update_result text (sql_update T p f s) = (e, s')"
    and "\<And>r. p r \<Longrightarrow> tq_where (q_Where (\<lambda>r. tk_ID r = i) (taskMemberQuery organizationID userID all_rows)) r" and "\<And>r. p r \<Longrightarrow> same_owner (f r) r"
  shows "only_touches organizationID userID i (t_rows T (s_db s)) (t_rows T (s_db s'))"
proof -
  obtain r s1 where u: "sql_update T p f s = (r, s1)" by (meson surj_pair)
  with assms(2) have "s' = s1" by (auto simp: update_result_def split: sum.splits)
  with sql_update_rows [OF assms(1) u] only_touches_update [of p organizationID userID i f "t_rows T (s_db s)"] assms(3,4)
  show ?thesis unfolding member_query by auto
qed

text \<open>Assignments to columns other than the omitted ones leave the owner alone, and the map writes the omitted names as the code does.\<close>

definition sets_ok :: "'a rows_env \<Rightarrow> bool" where
  "sets_ok E \<longleftrightarrow> (\<forall>k v f r. re_set E k v = Some f \<longrightarrow> re_column E k \<notin> set omitted \<longrightarrow> same_owner (f r) r)"

definition spelled :: "'a rows_env \<Rightarrow> (string \<times> 'a) list \<Rightarrow> bool" where
  "spelled E kvs \<longleftrightarrow> (\<forall>(k, v) \<in> set kvs. re_column E k \<in> set omitted \<longrightarrow> k \<in> set omitted)"

lemma assignments_owner:
  assumes "sets_ok E" and "\<forall>(k, v) \<in> set kvs. re_column E k \<notin> set omitted" and "assignments E kvs = Some f"
  shows "same_owner (f r) r"
  using assms(2,3)
proof (induction kvs arbitrary: f r)
  case (Cons kv kvs)
  obtain k v where kv: "kv = (k, v)" by (cases kv)
  with Cons.prems obtain g h where g: "re_set E k v = Some g" "assignments E kvs = Some h" "f = h \<circ> g" by (auto split: option.splits)
  have "same_owner (g r) r" using assms(1) g(1) Cons.prems(1) kv unfolding sets_ok_def by fastforce
  moreover have "same_owner (h (g r)) (g r)" using Cons.IH [OF _ g(2)] Cons.prems(1) by simp
  ultimately show ?case using g(3) by (simp add: same_owner_def)
qed simp

interpretation update_by_id: row_write T True organizationID userID i "UpdateByID E T now organizationID userID i entity"
  for E :: "'a rows_env" and T :: "(task, 'd) sqltab" and now organizationID userID i entity
proof
  fix s e s'
  assume ok: "sql_ok T" and u: "UpdateByID E T now organizationID userID i entity s = (e, s')"
  show "only_touches organizationID userID i (t_rows T (s_db s)) (t_rows T (s_db s'))"
  proof (cases entity)
    case (Some x)
    have "update_result (''update task '' @ nat_digits i) (sql_update T (\<lambda>r. live r \<and>
        tq_where (q_Where (\<lambda>r. tk_ID r = i) (taskMemberQuery organizationID userID all_rows)) r \<and> (tk_ID x = 0 \<or> tk_ID r = tk_ID x)) (struct_update (re_task E) now x) s) = (e, s')"
      using u Some unfolding UpdateByID_def Let_def by simp
    then show ?thesis by (rule update_touches [OF ok]) (auto simp: struct_update_def same_owner_def)
  qed (use u in \<open>simp add: UpdateByID_def\<close>)
qed

interpretation update_map: row_write T "sets_ok E \<and> spelled E kvs" organizationID userID i "UpdateMap E T organizationID userID i kvs"
  for E :: "'a rows_env" and T :: "(task, 'd) sqltab" and organizationID userID i kvs
proof
  fix s e s'
  assume good: "sets_ok E \<and> spelled E kvs" and ok: "sql_ok T" and u: "UpdateMap E T organizationID userID i kvs s = (e, s')"
  let ?kvs = "filter (\<lambda>(k, v). k \<notin> set omitted) kvs"
  consider "s_db s' = s_db s" | f where "assignments E ?kvs = Some f" "update_result (''update task fields '' @ nat_digits i)
      (sql_update T (tq_where (q_Where (\<lambda>r. tk_ID r = i) (taskMemberQuery organizationID userID all_rows))) f s) = (e, s')"
    using u unfolding UpdateMap_def Let_def by (auto split: if_splits option.splits)
  then show "only_touches organizationID userID i (t_rows T (s_db s)) (t_rows T (s_db s'))"
  proof cases
    case 2
    have "same_owner (f r) r" for r
      using good 2(1) by (intro assignments_owner [of E ?kvs]) (auto simp: spelled_def)
    then show ?thesis using update_touches [OF ok 2(2)] by blast
  qed simp
qed

interpretation delete: row_write T True organizationID userID i "dao_Delete E T now organizationID userID i"
  for E :: "'a rows_env" and T :: "(task, 'd) sqltab" and now organizationID userID i
proof
  fix s e s'
  assume ok: "sql_ok T" and u: "dao_Delete E T now organizationID userID i s = (e, s')"
  then show "only_touches organizationID userID i (t_rows T (s_db s)) (t_rows T (s_db s'))"
    unfolding dao_Delete_def Let_def by (elim update_touches [OF ok]) (auto simp: same_owner_def)
qed

lemma insert_rows_valid:
  assumes "task_table T" and "sql_insert T (map (stamped now) ts) s = (r, s')" and "\<forall>t \<in> set ts. task_member_ok t" and "rows_valid (t_rows T (s_db s))"
  shows "rows_valid (t_rows T (s_db s'))"
proof -
  have ok: "sql_ok T" and w: "with_id T = (\<lambda>n r. r\<lparr>tk_ID := n\<rparr>)" using assms(1) by (simp_all add: task_table_def)
  have new: "\<forall>r \<in> set (number_rows (with_id T) n (map (stamped now) ts)). task_member_ok r" for n
    using assms(3) by (induction ts arbitrary: n) (auto simp: w task_member_ok_def stamped_def)
  from ok assms(2) show ?thesis using new assms(4) by (cases rule: sql_insert_cases) (auto simp: rows_valid_def)
qed

lemma validated_member: "validateNewTask E (Some t) = None \<Longrightarrow> task_member_ok t"
  by (auto simp: validateNewTask_def split: if_splits)

lemma batch_members: "batch_invalid E n ts = None \<Longrightarrow> t \<in> set ts \<Longrightarrow> task_member_ok t"
  by (induction ts arbitrary: n) (auto split: option.splits intro: validated_member)

lemma insert_valid:
  assumes "task_table T" and "dao_Insert E T now entity s = (e, s')" and "rows_valid (t_rows T (s_db s))"
  shows "rows_valid (t_rows T (s_db s'))"
proof (cases "s' = s")
  case False
  then obtain t r where "validateNewTask (re_task E) (Some t) = None" and "sql_insert T (map (stamped now) [t]) s = (r, s')"
    using assms(2) by (auto simp: dao_Insert_def split: option.splits prod.splits sum.splits)
  then show ?thesis using insert_rows_valid [OF assms(1)] validated_member assms(3) by fastforce
qed (use assms in simp)

lemma batch_valid:
  assumes "task_table T" and "BatchInsert E T now ts s = (e, s')" and "rows_valid (t_rows T (s_db s))"
  shows "rows_valid (t_rows T (s_db s'))"
proof (cases "s' = s")
  case False
  then obtain r where "batch_invalid (re_task E) 0 ts = None" and "sql_insert T (map (stamped now) ts) s = (r, s')"
    using assms(2) by (auto simp: BatchInsert_def split: option.splits prod.splits sum.splits if_splits)
  then show ?thesis using insert_rows_valid [OF assms(1)] batch_members assms(3) by blast
qed (use assms in simp)

section \<open>Pages\<close>

lemma concat_pages: "concat (map (\<lambda>k. take n (drop (k * n) xs)) [0..<m]) = take (m * n) xs"
  by (induction m) (simp_all add: add.commute flip: take_add)

lemma condition_of_page:
  "BuildCondition E (cond\<lparr>bc_Limit := l, bc_Offset := k\<rparr>) q = BuildCondition E cond q"
  by (simp add: BuildCondition_def BuildBaseCondition_def cond_member_def Let_def)

lemma page_nth: "0 < n \<Longrightarrow> page (Some n) (if 0 < k * n then Some (k * n) else None) rows = take (nat n) (drop (nat k * nat n) rows)"
  by (auto simp: page_def Let_def nat_mult_distrib zero_less_mult_iff not_less mult_nonneg_nonpos2)

lemma page_returns:
  fixes E :: "'a rows_env" and cond :: "'a task_cond"
  assumes ok: "sql_ok T" and fates: "s_fates s = []" and "0 < n" and "0 \<le> k"
  defines "rows \<equiv> t_rows T (s_db s)" and "q \<equiv> BuildCondition E cond all_rows"
  shows "\<exists>s'. GetPageListByCond E T (cond\<lparr>bc_Limit := n, bc_Offset := k * n\<rparr>) s =
    (Inr (take (nat n) (drop (nat k * nat n) (ordered E q rows)), int (length (matching q rows))), s')"
proof -
  let ?l = "if 0 < k * n then Some (k * n) else None"
  obtain s1 where c: "q_Count T q s = (Inr (int (length (matching q rows))), s1)" and s1: "s_fates s1 = []" "t_rows T (s_db s1) = rows"
    using sql_delivered(1) [OF ok fates, of "matching q"] by (auto simp: q_Count_def rows_def)
  let ?q2 = "q_when (0 < k * n) (\<lambda>q. q\<lparr>tq_offset := Some (k * n)\<rparr>) (q_when (0 < n) (\<lambda>q. q\<lparr>tq_limit := Some n\<rparr>) q)"
  have q2: "\<not> refused E ?q2" "tq_limit ?q2 = Some n" "tq_offset ?q2 = ?l" "ordered E ?q2 = ordered E q"
    using assms(3) by (auto simp: refused_def q_when_def q_def condition_page ordered_page)
  have "\<exists>s2. q_Find E T ?q2 s1 = (Inr (page (Some n) ?l (ordered E q rows)), s2)"
    using sql_delivered(1) [OF ok s1(1), of "\<lambda>rows. page (Some n) ?l (ordered E q rows)"] s1(2) q2 unfolding q_Find_def by auto
  then obtain s2 where f: "q_Find E T ?q2 s1 = (Inr (page (Some n) ?l (ordered E q rows)), s2)" by blast
  have "GetPageListByCond E T (cond\<lparr>bc_Limit := n, bc_Offset := k * n\<rparr>) s = (Inr (page (Some n) ?l (ordered E q rows), int (length (matching q rows))), s2)"
    unfolding GetPageListByCond_def condition_of_page q_def [symmetric] Let_def using c f by simp
  then show ?thesis using page_nth [OF assms(3), of k] by auto
qed

section \<open>Properties\<close>




section \<open>An example\<close>

definition row_env :: "string rows_env" where
  "row_env = \<lparr>re_task = plain_env, re_holds = (\<lambda>_ _ _. True), re_sort = (\<lambda>_ rows. rows),
     re_column = id, re_set = (\<lambda>k v. if k = ''comment'' then Some (\<lambda>r. r\<lparr>tk_Comment := v\<rparr>) else None), re_avg = (\<lambda>_. 0), re_bare_offset = False\<rparr>"

definition row_mine :: task where "row_mine = sample_task 1 TaskStatusPending"
definition row_other :: task where "row_other = (sample_task 2 TaskStatusPending)\<lparr>tk_UserID := ''user-8''\<rparr>"

definition row_cond :: "string task_cond" where
  "row_cond =
     \<lparr>bc_ID = 0, bc_IDs = [], bc_IsDelete = False, bc_Offset = 0, bc_Limit = 0, bc_OrganizationID = ''org-1'', bc_UserID = ''user-7'', bc_BeginTime = zero_time, bc_EndTime = zero_time,
      bc_OrderBy = [], bc_OrConditions = [], bc_OrArgs = [], tc_Filters = [], tc_ID = 0, tc_IDs = [], tc_TaskType = [], tc_TaskStatus = TaskStatusText []\<rparr>"

definition row_session :: "(task list \<times> nat) session" where
  "row_session = \<lparr>s_db = ([row_mine, row_other], 3), s_fates = []\<rparr>"

lemma row_env_ok: "sorts row_env" "sets_ok row_env" "spelled row_env [(''comment'', ''x''), (''user_id'', ''user-8'')]"
  by (auto simp: sorts_def row_env_def sets_ok_def spelled_def same_owner_def omitted_def split: if_splits)

lemma row_member: "member_ok \<lparr>OrganizationID = ''org-1'', UserID = ''user-7''\<rparr>"
  using w_member_ok by (simp add: w_member_def)

lemma row_matching: "matching (BuildCondition row_env row_cond all_rows) [row_mine, row_other] = [row_mine]"
  by (simp add: matching_def BuildCondition_def BuildBaseCondition_def Let_def cond_member_def row_cond_def row_member live_def row_mine_def row_other_def sample_task_def is_zero_def q_when_def)

lemma row_list: "GetListByCond row_env core_task row_cond row_session = (Inr [row_mine], row_session)"
  using row_matching
  by (simp add: GetListByCond_def q_Find_def refused_def condition_page page_def ordered_def sql_run row_session_def Let_def) (simp add: row_env_def)




end
