(* ===== verification/Mail.thy ===== *)
theory Mail
  imports Request_Context Go_Numbers
begin

text \<open>
  Package \<open>mail\<close>: configuration and messages with their checks (\<open>mail.go\<close>), the text of a message (\<open>message.go\<close>) and its delivery
  over SMTP (\<open>smtp.go\<close>). \<open>mail_env\<close> is what the package takes from the standard library without a definition here: IP addresses,
  RFC 5322 addresses (their printed form and the bare address), encoded words and dates. The other side of the connection is a
  function \<open>peer\<close> that decides, from what has happened on it so far, whether the next action succeeds; \<open>Send\<close> returns its result and the
  actions it has taken. \<open>ended\<close> is what the context says after some actions, \<open>boundary\<close> the random boundary of a multipart text.
\<close>

section \<open>Configuration and messages\<close>

datatype mail_sentinel = InvalidConfig | InvalidMessage | Delivery | MailCanceled | MailDeadline

type_synonym merror = "mail_sentinel go_error"

definition ErrInvalidConfig :: merror where "ErrInvalidConfig = errors_new InvalidConfig ''invalid SMTP configuration''"
definition ErrInvalidMessage :: merror where "ErrInvalidMessage = errors_new InvalidMessage ''invalid mail message''"
definition ErrDelivery :: merror where "ErrDelivery = errors_new Delivery ''mail delivery failed''"

definition EncryptionSTARTTLS :: string where "EncryptionSTARTTLS = ''starttls''"
definition EncryptionTLS :: string where "EncryptionTLS = ''tls''"
definition EncryptionNone :: string where "EncryptionNone = ''none''"

record mail_config =
  mc_Host :: string
  mc_Port :: int
  mc_Username :: string
  mc_Password :: string
  mc_From :: string
  mc_Encryption :: string
  mc_Timeout :: duration

record mail_message =
  mm_To :: "string list"
  mm_Subject :: string
  mm_Text :: string
  mm_HTML :: string

record address =
  ad_String :: string
  ad_Address :: string

record mail_env =
  me_ip :: "string \<Rightarrow> bool"
  me_address :: "string \<Rightarrow> address option"
  me_words :: "string \<Rightarrow> string"
  me_date :: "time \<Rightarrow> string"

definition CRLF :: string where "CRLF = [CHR 0x0D, CHR 0x0A]"

definition hasHeaderBreak :: "string \<Rightarrow> bool" where
  "hasHeaderBreak value = contains_any value [CHR 0x0D, CHR 0x0A]"

definition parseAddress :: "mail_env \<Rightarrow> string \<Rightarrow> address option" where
  "parseAddress M value = (if trim_space value = [] then None else me_address M value)"

definition host_char :: "char \<Rightarrow> bool" where
  "host_char c \<longleftrightarrow> (let n = of_char c :: nat in 97 \<le> n \<and> n \<le> 122 \<or> 65 \<le> n \<and> n \<le> 90 \<or> 48 \<le> n \<and> n \<le> 57 \<or> n = 45)"

definition valid_label :: "string \<Rightarrow> bool" where
  "valid_label label \<longleftrightarrow> \<not> (label = [] \<or> length label > 63 \<or> hd label = CHR ''-'' \<or> last label = CHR ''-'') \<and> list_all host_char label"

definition validHost :: "mail_env \<Rightarrow> string \<Rightarrow> bool" where
  "validHost M host =
     (if host = [] \<or> length host > 253 \<or> trim_space host \<noteq> host \<or> contains_any host [CHR 0x0D, CHR 0x0A, CHR 0x09, CHR '' ''] then False
      else if me_ip M host then True
      else list_all valid_label (split_on (CHR ''.'') (if has_suffix host ''.'' then butlast host else host)))"

definition config_Validate :: "mail_env \<Rightarrow> mail_config \<Rightarrow> merror option" where
  "config_Validate M config =
     (if \<not> validHost M (mc_Host config) then Some (errorf_w ErrInvalidConfig ''invalid host'')
      else if mc_Port config < 1 \<or> mc_Port config > 65535 then Some (errorf_w ErrInvalidConfig ''invalid port'')
      else if mc_Timeout config < 0 then Some (errorf_w ErrInvalidConfig ''invalid timeout'')
      else if hasHeaderBreak (mc_From config) then Some (errorf_w ErrInvalidConfig ''invalid from address'')
      else if parseAddress M (mc_From config) = None then Some (errorf_w ErrInvalidConfig ''invalid from address'')
      else if (mc_Username config = []) \<noteq> (mc_Password config = []) then Some (errorf_w ErrInvalidConfig ''incomplete credentials'')
      else if mc_Encryption config = EncryptionSTARTTLS \<or> mc_Encryption config = EncryptionTLS then None
      else if mc_Encryption config = EncryptionNone
      then (if mc_Username config \<noteq> [] then Some (errorf_w ErrInvalidConfig ''credentials require encryption'') else None)
      else Some (errorf_w ErrInvalidConfig ''invalid encryption''))"

fun check_recipients :: "mail_env \<Rightarrow> string list \<Rightarrow> merror option" where
  "check_recipients M [] = None"
| "check_recipients M (r # rs) =
     (if hasHeaderBreak r then Some (errorf_w ErrInvalidMessage ''invalid recipient'')
      else if parseAddress M r = None then Some (errorf_w ErrInvalidMessage ''invalid recipient'')
      else check_recipients M rs)"

definition message_validate :: "mail_env \<Rightarrow> mail_message \<Rightarrow> merror option" where
  "message_validate M m =
     (if mm_To m = [] then Some (errorf_w ErrInvalidMessage ''missing recipients'')
      else case check_recipients M (mm_To m) of Some e \<Rightarrow> Some e
      | None \<Rightarrow>
         if trim_space (mm_Subject m) = [] \<or> hasHeaderBreak (mm_Subject m) then Some (errorf_w ErrInvalidMessage ''invalid subject'')
         else if mm_Text m = [] \<and> mm_HTML m = [] then Some (errorf_w ErrInvalidMessage ''missing body'')
         else None)"

section \<open>Quoted-printable\<close>

text \<open>
  The writer of \<open>mime/quotedprintable\<close> in text mode: lines of at most 76 bytes, soft breaks, white space at the end of a line encoded,
  every line break written as CRLF. The state is the output, the current line and whether the last byte was a carriage return.
\<close>

definition hex_upper :: "nat \<Rightarrow> char" where
  "hex_upper n = ''0123456789ABCDEF'' ! n"

definition qp_hex :: "char \<Rightarrow> string" where
  "qp_hex c = [CHR ''='', hex_upper (of_char c div 16), hex_upper (of_char c mod 16)]"

definition qp_space :: "char \<Rightarrow> bool" where "qp_space c \<longleftrightarrow> c = CHR '' '' \<or> c = CHR 0x09"

definition qp_plain :: "char \<Rightarrow> bool" where
  "qp_plain c \<longleftrightarrow> 33 \<le> (of_char c :: nat) \<and> (of_char c :: nat) \<le> 126 \<and> c \<noteq> CHR ''='' \<or> qp_space c"

definition qp_encode :: "char \<Rightarrow> string \<times> string \<Rightarrow> string \<times> string" where
  "qp_encode c st = (case st of (out, line) \<Rightarrow> if 75 - length line < 3 then (out @ line @ ''='' @ CRLF, qp_hex c) else (out, line @ qp_hex c))"

definition qp_last :: "string \<times> string \<Rightarrow> string \<times> string" where
  "qp_last st = (case st of (out, line) \<Rightarrow> if line \<noteq> [] \<and> qp_space (last line) then qp_encode (last line) (out, butlast line) else (out, line))"

fun qp_write :: "string \<Rightarrow> bool \<Rightarrow> string \<times> string \<Rightarrow> string" where
  "qp_write [] cr st = (case qp_last st of (out, line) \<Rightarrow> out @ line)"
| "qp_write (c # cs) cr st =
     (if c = CHR 0x0A \<or> c = CHR 0x0D then
        (if cr \<and> c = CHR 0x0A then qp_write cs False st
         else (case qp_last st of (out, line) \<Rightarrow> qp_write cs (c = CHR 0x0D) (out @ line @ CRLF, [])))
      else if qp_plain c then
        (case st of (out, line) \<Rightarrow>
           if length line = 75 then qp_write cs False (out @ line @ ''='' @ CRLF, [c]) else qp_write cs False (out, line @ [c]))
      else qp_write cs cr (qp_encode c st))"

definition writeQuotedPrintable :: "string \<Rightarrow> string" where
  "writeQuotedPrintable body = qp_write body False ([], [])"

section \<open>Messages\<close>

fun comma_list :: "string list \<Rightarrow> string" where
  "comma_list [] = []"
| "comma_list [x] = x"
| "comma_list (x # y # ys) = x @ '', '' @ comma_list (y # ys)"

definition address_text :: "mail_env \<Rightarrow> string \<Rightarrow> string" where
  "address_text M value = (case parseAddress M value of Some a \<Rightarrow> ad_String a | None \<Rightarrow> [])"

definition address_bare :: "mail_env \<Rightarrow> string \<Rightarrow> string" where
  "address_bare M value = (case parseAddress M value of Some a \<Rightarrow> ad_Address a | None \<Rightarrow> [])"

definition lines_text :: "string list \<Rightarrow> string" where
  "lines_text ls = concat (map (\<lambda>l. l @ CRLF) ls)"

text \<open>One part of a multipart text, after the first one with a line break before its boundary; the headers come in the order of their names.\<close>

definition writePart :: "string \<Rightarrow> bool \<Rightarrow> string \<Rightarrow> string \<Rightarrow> string" where
  "writePart boundary first contentType body =
     (if first then [] else CRLF) @ lines_text [''--'' @ boundary, ''Content-Transfer-Encoding: quoted-printable'', ''Content-Type: '' @ contentType] @ CRLF @
     writeQuotedPrintable body"

definition common_headers :: "mail_env \<Rightarrow> time \<Rightarrow> mail_config \<Rightarrow> mail_message \<Rightarrow> string list" where
  "common_headers M now config m =
     [''From: '' @ address_text M (mc_From config), ''To: '' @ comma_list (map (address_text M) (mm_To m)), ''Subject: '' @ me_words M (mm_Subject m),
      ''Date: '' @ me_date M now, ''MIME-Version: 1.0'']"

definition buildMessage :: "mail_env \<Rightarrow> time \<Rightarrow> string \<Rightarrow> mail_config \<Rightarrow> mail_message \<Rightarrow> merror + string" where
  "buildMessage M now boundary config m =
     (case config_Validate M config of Some e \<Rightarrow> Inl e
      | None \<Rightarrow>
         (case message_validate M m of Some e \<Rightarrow> Inl e
          | None \<Rightarrow>
             if mm_Text m \<noteq> [] \<and> mm_HTML m \<noteq> []
             then Inr (lines_text (common_headers M now config m @ [''Content-Type: multipart/alternative; boundary='' @ boundary]) @ CRLF @
                    writePart boundary True ''text/plain; charset=UTF-8'' (mm_Text m) @ writePart boundary False ''text/html; charset=UTF-8'' (mm_HTML m) @
                    CRLF @ ''--'' @ boundary @ ''--'' @ CRLF)
             else (let contentType = (if mm_Text m = [] then ''text/html; charset=UTF-8'' else ''text/plain; charset=UTF-8'');
                       body = (if mm_Text m = [] then mm_HTML m else mm_Text m)
                   in Inr (lines_text (common_headers M now config m @ [''Content-Type: '' @ contentType, ''Content-Transfer-Encoding: quoted-printable'']) @ CRLF @
                        writeQuotedPrintable body))))"

section \<open>Delivery\<close>

datatype smtp_action =
    Dial string | SetDeadline | Handshake string | Greet string | StartTLS string | Auth string string string
  | MailFrom string | RcptTo string | OpenData | WriteData string | CloseData | Quit | CloseClient | CloseConnection

text \<open>\<open>net.JoinHostPort\<close>\<close>

definition join_host_port :: "string \<Rightarrow> int \<Rightarrow> string" where
  "join_host_port host port = (if CHR '':'' \<in> set host then ''['' @ host @ '']:'' @ itoa port else host @ '':'' @ itoa port)"

fun ctx_merror :: "ctx_err \<Rightarrow> merror" where
  "ctx_merror Canceled = errors_new MailCanceled ''context canceled''"
| "ctx_merror DeadlineExceeded = errors_new MailDeadline ''context deadline exceeded''"

definition operationError :: "ctx_err option \<Rightarrow> string \<Rightarrow> merror" where
  "operationError e operation =
     (case e of Some c \<Rightarrow> errorf_ww (errorf_w ErrDelivery operation) (ctx_merror c) | None \<Rightarrow> errorf_w ErrDelivery operation)"

text \<open>Actions in a row, each with the name of its failure; the trace is what has been done, and the failure of the first that does not succeed.\<close>

type_synonym peer = "smtp_action list \<Rightarrow> smtp_action \<Rightarrow> bool"

fun perform :: "peer \<Rightarrow> (string \<times> smtp_action) list \<Rightarrow> smtp_action list \<Rightarrow> string option \<times> smtp_action list" where
  "perform peer [] trace = (None, trace)"
| "perform peer ((name, a) # as) trace =
     (if peer trace a then perform peer as (trace @ [a]) else (Some name, trace @ [a]))"

text \<open>\<open>connect\<close>: the connection is closed when a step after dialling fails. The context of \<open>Send\<close> always has a deadline.\<close>

definition connect_steps :: "mail_config \<Rightarrow> (string \<times> smtp_action) list" where
  "connect_steps config =
     [(''connect SMTP server'', SetDeadline)] @
     (if mc_Encryption config = EncryptionTLS then [(''connect SMTP server'', Handshake (mc_Host config))] else []) @
     [(''connect SMTP server'', Greet (mc_Host config))]"

definition connect :: "peer \<Rightarrow> mail_config \<Rightarrow> string option \<times> smtp_action list" where
  "connect peer config =
     (case perform peer [(''connect SMTP server'', Dial (join_host_port (mc_Host config) (mc_Port config)))] [] of
        (Some e, trace) \<Rightarrow> (Some e, trace)
      | (None, trace) \<Rightarrow>
         (case perform peer (connect_steps config) trace of
            (Some e, trace) \<Rightarrow> (Some e, trace @ [CloseConnection])
          | (None, trace) \<Rightarrow> (None, trace)))"

text \<open>The steps of \<open>Send\<close> on an open connection; a failed write of the body closes its writer.\<close>

definition session_steps :: "mail_env \<Rightarrow> mail_config \<Rightarrow> mail_message \<Rightarrow> (string \<times> smtp_action) list" where
  "session_steps M config m =
     (if mc_Encryption config = EncryptionSTARTTLS then [(''start TLS'', StartTLS (mc_Host config))] else []) @
     (if mc_Username config \<noteq> [] then [(''authenticate'', Auth (mc_Username config) (mc_Password config) (mc_Host config))] else []) @
     [(''set sender'', MailFrom (address_bare M (mc_From config)))] @
     map (\<lambda>value. (''set recipient'', RcptTo (address_bare M value))) (mm_To m) @
     [(''open message body'', OpenData)]"

definition body_steps :: "string \<Rightarrow> (string \<times> smtp_action) list" where
  "body_steps payload = [(''write message body'', WriteData payload), (''commit message body'', CloseData), (''close SMTP session'', Quit)]"

definition NewSMTPSender :: "mail_env \<Rightarrow> mail_config \<Rightarrow> merror + mail_config" where
  "NewSMTPSender M config = (case config_Validate M config of Some e \<Rightarrow> Inl e | None \<Rightarrow> Inr config)"

definition mail_Send ::
  "mail_env \<Rightarrow> time \<Rightarrow> string \<Rightarrow> peer \<Rightarrow> (smtp_action list \<Rightarrow> ctx_err option) \<Rightarrow> mail_config option \<Rightarrow> mail_message \<Rightarrow> merror option \<times> smtp_action list" where
  "mail_Send M now boundary peer ended sender m =
     (case sender of None \<Rightarrow> (Some (errorf_w ErrInvalidConfig ''sender is nil''), [])
      | Some config \<Rightarrow>
         (case buildMessage M now boundary config m of Inl e \<Rightarrow> (Some e, [])
          | Inr payload \<Rightarrow>
             (case connect peer config of (Some e, trace) \<Rightarrow> (Some (operationError (ended trace) e), trace)
              | (None, trace) \<Rightarrow>
                 (case perform peer (session_steps M config m) trace of
                    (Some e, trace) \<Rightarrow> (Some (operationError (ended trace) e), trace @ [CloseClient])
                  | (None, trace) \<Rightarrow>
                     (case perform peer (body_steps payload) trace of
                        (Some e, trace) \<Rightarrow> (Some (operationError (ended trace) e), trace @ (if e = ''write message body'' then [CloseData] else []) @ [CloseClient])
                      | (None, trace) \<Rightarrow> (None, trace @ [CloseClient]))))))"

text \<open>
  Properties of package \<open>mail\<close>: credentials travel over encrypted connections only, a mail that is reported as sent was handed over
  completely, and nothing in a request adds a header.
\<close>

section \<open>Runs of actions\<close>

fun accepted :: "peer \<Rightarrow> smtp_action list \<Rightarrow> smtp_action list \<Rightarrow> bool" where
  "accepted peer trace [] \<longleftrightarrow> True"
| "accepted peer trace (a # as) \<longleftrightarrow> peer trace a \<and> accepted peer (trace @ [a]) as"

lemma accepted_append: "accepted peer trace (as @ bs) \<longleftrightarrow> accepted peer trace as \<and> accepted peer (trace @ as) bs"
  by (induction as arbitrary: trace) auto

lemma perform_cases:
  assumes "perform peer steps trace = (r, trace')"
  obtains (all) "r = None" "trace' = trace @ map snd steps" "accepted peer trace (map snd steps)"
  | (failed) before name a after where "steps = before @ (name, a) # after" "r = Some name" "trace' = trace @ map snd before @ [a]" "accepted peer trace (map snd before)"
  using assms
proof (induction steps arbitrary: trace thesis)
  case (Cons step steps)
  obtain name a where s: "step = (name, a)" by (cases step)
  show ?case
  proof (cases "peer trace a")
    case True
    then have p: "perform peer steps (trace @ [a]) = (r, trace')" using Cons.prems(3) s by simp
    show ?thesis
    proof (rule Cons.IH [OF _ _ p])
      show thesis if "r = None" "trace' = (trace @ [a]) @ map snd steps" "accepted peer (trace @ [a]) (map snd steps)"
        using that True s Cons.prems(1) by simp
      show thesis if "steps = before @ (n, b) # after" "r = Some n" "trace' = (trace @ [a]) @ map snd before @ [b]" "accepted peer (trace @ [a]) (map snd before)" for before n b after
        using that True s Cons.prems(2) [of "step # before" n b after] by simp
    qed
  qed (use Cons.prems s in \<open>auto intro!: Cons.prems(2) [of "[]" name a steps]\<close>)
qed simp

definition no_auth :: "smtp_action list \<Rightarrow> bool" where
  "no_auth trace \<longleftrightarrow> (\<forall>u p h. Auth u p h \<notin> set trace)"

lemma connect_cases:
  assumes "connect peer config = (r, trace)"
  obtains (connected) "r = None" "trace = Dial (join_host_port (mc_Host config) (mc_Port config)) # map snd (connect_steps config)" "accepted peer [] trace"
  | (failed) "r \<noteq> None" "no_auth trace"
proof -
  let ?d = "Dial (join_host_port (mc_Host config) (mc_Port config))"
  have noauth: "\<forall>a \<in> snd ` set (connect_steps config). \<forall>u p h. a \<noteq> Auth u p h" by (auto simp: connect_steps_def)
  obtain r1 t1 where p1: "perform peer [(''connect SMTP server'', ?d)] [] = (r1, t1)" by (meson surj_pair)
  show thesis
  proof (cases r1)
    case None
    then have t1: "t1 = [?d]" "peer [] ?d" using p1 by (auto split: if_splits)
    obtain r2 t2 where p2: "perform peer (connect_steps config) t1 = (r2, t2)" by (meson surj_pair)
    from p2 show thesis
    proof (cases rule: perform_cases)
      case all
      then show thesis using assms p1 p2 None t1 connected by (simp add: connect_def)
    next
      case (failed before name a after)
      then have "set t2 \<subseteq> insert ?d (snd ` set (connect_steps config))" using t1 by auto
      then have "no_auth t2" using noauth unfolding no_auth_def by fastforce
      moreover have "r = Some name" "trace = t2 @ [CloseConnection]" using assms p1 p2 None failed(2) by (simp_all add: connect_def)
      ultimately show thesis using that(2) by (simp add: no_auth_def)
    qed
  next
    case (Some e)
    then show thesis using assms p1 that(2) by (auto simp: connect_def no_auth_def split: if_splits)
  qed
qed

section \<open>Headers\<close>

text \<open>What the standard library documents: printed addresses, encoded words and dates of texts without line breaks have none.\<close>

definition mail_env_ok :: "mail_env \<Rightarrow> bool" where
  "mail_env_ok M \<longleftrightarrow>
     (\<forall>v a. me_address M v = Some a \<longrightarrow> \<not> hasHeaderBreak v \<longrightarrow> \<not> hasHeaderBreak (ad_String a)) \<and>
     (\<forall>s. \<not> hasHeaderBreak s \<longrightarrow> \<not> hasHeaderBreak (me_words M s)) \<and> (\<forall>t. \<not> hasHeaderBreak (me_date M t))"

lemma break_append [simp]: "hasHeaderBreak (a @ b) \<longleftrightarrow> hasHeaderBreak a \<or> hasHeaderBreak b"
  by (simp add: hasHeaderBreak_def contains_any_def)

lemma break_Cons [simp]: "hasHeaderBreak (c # b) \<longleftrightarrow> c = CHR 0x0D \<or> c = CHR 0x0A \<or> hasHeaderBreak b" "\<not> hasHeaderBreak []"
  by (simp_all add: hasHeaderBreak_def contains_any_def)

lemma address_text_break: "mail_env_ok M \<Longrightarrow> \<not> hasHeaderBreak v \<Longrightarrow> \<not> hasHeaderBreak (address_text M v)"
  by (auto simp: mail_env_ok_def address_text_def parseAddress_def split: option.splits)

lemma recipients_checked: "check_recipients M rs = None \<Longrightarrow> r \<in> set rs \<Longrightarrow> \<not> hasHeaderBreak r \<and> parseAddress M r \<noteq> None"
  by (induction rs) (auto split: if_splits)

lemma comma_list_break: "\<forall>x \<in> set xs. \<not> hasHeaderBreak x \<Longrightarrow> \<not> hasHeaderBreak (comma_list xs)"
  by (induction xs rule: comma_list.induct) auto

lemma built_valid:
  assumes "buildMessage M now boundary config m = Inr out"
  shows "config_Validate M config = None" "check_recipients M (mm_To m) = None" "\<not> hasHeaderBreak (mm_Subject m)" "\<not> hasHeaderBreak (mc_From config)"
proof -
  show c: "config_Validate M config = None" using assms unfolding buildMessage_def by (simp split: option.splits)
  have m: "message_validate M m = None" using assms unfolding buildMessage_def by (simp split: option.splits)
  show "check_recipients M (mm_To m) = None" using m unfolding message_validate_def by (simp split: if_splits option.splits)
  show "\<not> hasHeaderBreak (mm_Subject m)" using m unfolding message_validate_def by (simp split: if_splits option.splits)
  show "\<not> hasHeaderBreak (mc_From config)" using c unfolding config_Validate_def by (simp split: if_splits)
qed

lemma common_headers_break:
  assumes "mail_env_ok M" and "buildMessage M now boundary config m = Inr out"
  shows "list_all (\<lambda>h. \<not> hasHeaderBreak h) (common_headers M now config m)"
proof -
  have "\<not> hasHeaderBreak (comma_list (map (address_text M) (mm_To m)))"
    using recipients_checked [OF built_valid(2) [OF assms(2)]] address_text_break [OF assms(1)] by (intro comma_list_break) auto
  moreover have "\<not> hasHeaderBreak (me_words M (mm_Subject m))" "\<not> hasHeaderBreak (me_date M now)"
    using assms(1) built_valid(3) [OF assms(2)] by (simp_all add: mail_env_ok_def)
  ultimately show ?thesis using address_text_break [OF assms(1) built_valid(4) [OF assms(2)]] by (simp add: common_headers_def)
qed

definition header_names :: "string list \<Rightarrow> string list" where
  "header_names hs = map (takeWhile (\<lambda>c. c \<noteq> CHR '':'')) hs"

text \<open>C21. Nothing in a mail adds a header: the text of a message starts with six or seven lines, each with one of the fixed names and without a
  line break in it, then an empty line and the body, whatever addresses and subject were given.\<close>

theorem headers_cannot_be_injected:
  assumes M: "mail_env_ok M" and b: "\<not> hasHeaderBreak boundary" and out: "buildMessage M now boundary config m = Inr out"
  shows "\<exists>hs body. out = lines_text hs @ CRLF @ body \<and> list_all (\<lambda>h. \<not> hasHeaderBreak h) hs \<and>
    header_names hs \<in> {[''From'', ''To'', ''Subject'', ''Date'', ''MIME-Version'', ''Content-Type''],
      [''From'', ''To'', ''Subject'', ''Date'', ''MIME-Version'', ''Content-Type'', ''Content-Transfer-Encoding'']}"
proof -
  note ok = common_headers_break [OF M out]
  show ?thesis
  proof (cases "mm_Text m \<noteq> [] \<and> mm_HTML m \<noteq> []")
    case True
    then obtain body where "out = lines_text (common_headers M now config m @ [''Content-Type: multipart/alternative; boundary='' @ boundary]) @ CRLF @ body"
      using out unfolding buildMessage_def by (auto split: option.splits)
    then show ?thesis using ok b by (intro exI conjI) (assumption, simp_all add: header_names_def common_headers_def)
  next
    case False
    then obtain t body where "out = lines_text (common_headers M now config m @ [''Content-Type: '' @ t, ''Content-Transfer-Encoding: quoted-printable'']) @ CRLF @ body"
      and "t = ''text/html; charset=UTF-8'' \<or> t = ''text/plain; charset=UTF-8''"
      using out unfolding buildMessage_def by (auto simp: Let_def split: option.splits if_splits)
    then show ?thesis using ok by (intro exI conjI) (assumption, auto simp: header_names_def common_headers_def)
  qed
qed

section \<open>Credentials and delivery\<close>

text \<open>Credentials in a trace come after a handshake that succeeded.\<close>

definition auth_secured :: "peer \<Rightarrow> string \<Rightarrow> smtp_action list \<Rightarrow> bool" where
  "auth_secured peer host trace \<longleftrightarrow>
     (\<forall>before u p h after. trace = before @ Auth u p h # after \<longrightarrow>
        (\<exists>pre x post. before = pre @ x # post \<and> (x = Handshake host \<or> x = StartTLS host) \<and> peer pre x))"

lemma no_auth_secured: "no_auth trace \<Longrightarrow> auth_secured peer host trace"
  unfolding no_auth_def auth_secured_def by fastforce

lemma secured_extension:
  assumes "no_auth (pre @ x # post)" and "x = Handshake host \<or> x = StartTLS host" and "peer pre x"
  shows "auth_secured peer host ((pre @ x # post) @ rest)"
  unfolding auth_secured_def
proof (intro allI impI)
  fix before u p h after assume eq: "(pre @ x # post) @ rest = before @ Auth u p h # after"
  have na: "Auth u p h \<notin> set (pre @ x # post)" using assms(1) by (simp add: no_auth_def)
  have "(\<exists>us. before = (pre @ x # post) @ us) \<or> (\<exists>us. pre @ x # post = before @ us \<and> us @ rest = Auth u p h # after)"
    using eq unfolding append_eq_append_conv2 [of "pre @ x # post"] by metis
  then have "\<exists>us. before = (pre @ x # post) @ us"
  proof (elim disjE exE conjE)
    fix us assume us: "pre @ x # post = before @ us" "us @ rest = Auth u p h # after"
    then have "us = []" using na by (cases us) (auto simp del: append_assoc)
    then show ?thesis using us by (metis append_Nil2)
  qed blast
  then show "\<exists>pre x post. before = pre @ x # post \<and> (x = Handshake host \<or> x = StartTLS host) \<and> peer pre x" using assms(2,3) by (metis append.assoc append_Cons)
qed

lemma perform_extends: "perform peer steps trace = (r, trace') \<Longrightarrow> \<exists>x. trace' = trace @ x \<and> set x \<subseteq> snd ` set steps"
  by (erule perform_cases) auto

lemma send_extends:
  assumes s: "mail_Send M now boundary peer ended (Some config) m = (r, trace)" and c: "connect peer config = (None, t1)"
    and b: "buildMessage M now boundary config m = Inr payload"
  obtains r2 t2 rest where "perform peer (session_steps M config m) t1 = (r2, t2)" "trace = t2 @ rest" "r2 \<noteq> None \<longrightarrow> rest = [CloseClient]" "no_auth rest"
proof -
  obtain r2 t2 where p: "perform peer (session_steps M config m) t1 = (r2, t2)" by (meson surj_pair)
  obtain r3 t3 where q: "perform peer (body_steps payload) t2 = (r3, t3)" by (meson surj_pair)
  obtain x where x: "t3 = t2 @ x" "set x \<subseteq> snd ` set (body_steps payload)" using perform_extends [OF q] by blast
  have "no_auth x" using x(2) by (auto simp: no_auth_def body_steps_def)
  moreover have "trace = t2 @ [CloseClient] \<and> r2 \<noteq> None \<or> r2 = None \<and> (\<exists>y. trace = t2 @ x @ y \<and> set y \<subseteq> {CloseData, CloseClient})"
    using s c b p q x(1) unfolding mail_Send_def by (cases r2; cases r3) auto
  ultimately show thesis
    by (elim disjE conjE exE) (rule that [OF p], assumption, simp_all add: no_auth_def, rule that [OF p], assumption, auto simp: no_auth_def)
qed

lemma session_auth: "mc_Username config = [] \<Longrightarrow> no_auth (map snd (session_steps M config m))"
  by (auto simp: session_steps_def no_auth_def)

lemma connect_no_auth: "no_auth (Dial a # map snd (connect_steps config))"
  by (auto simp: connect_steps_def no_auth_def)

lemma tls_handshake:
  assumes "mc_Encryption config = EncryptionTLS" and "accepted peer [] (Dial a # map snd (connect_steps config))"
  shows "\<exists>pre post. Dial a # map snd (connect_steps config) = pre @ Handshake (mc_Host config) # post \<and> peer pre (Handshake (mc_Host config))"
  using assms by (intro exI [of _ "[Dial a, SetDeadline]"] exI [of _ "[Greet (mc_Host config)]"]) (simp add: connect_steps_def)

lemma starttls_first:
  assumes "mc_Encryption config = EncryptionSTARTTLS" and p: "perform peer (session_steps M config m) t1 = (r, t2)" and t1: "no_auth t1"
  shows "no_auth t2 \<or> (\<exists>rest. t2 = (t1 @ StartTLS (mc_Host config) # []) @ rest) \<and> peer t1 (StartTLS (mc_Host config))"
proof (cases "peer t1 (StartTLS (mc_Host config))")
  case True
  obtain steps where "session_steps M config m = (''start TLS'', StartTLS (mc_Host config)) # steps" using assms(1) by (simp add: session_steps_def)
  then show ?thesis using p True perform_extends [of peer steps "t1 @ [StartTLS (mc_Host config)]"] by auto
next
  case False
  then show ?thesis using p assms(1) t1 by (auto simp: session_steps_def no_auth_def)
qed

text \<open>C20. Credentials travel encrypted: with a sender that \<open>NewSMTPSender\<close> has accepted, whatever the other side does and whatever fails, an
  authentication is only attempted after an implicit or explicit TLS handshake with the configured host has succeeded on the connection.\<close>

theorem credentials_need_encryption:
  assumes new: "NewSMTPSender M config = Inr sender" and s: "mail_Send M now boundary peer ended (Some sender) m = (r, trace)"
  shows "auth_secured peer (mc_Host config) trace"
proof -
  have sender: "sender = config" and valid: "config_Validate M config = None" using new by (auto simp: NewSMTPSender_def split: option.splits)
  then have enc: "mc_Username config = [] \<or> mc_Encryption config = EncryptionSTARTTLS \<or> mc_Encryption config = EncryptionTLS"
    by (auto simp: config_Validate_def split: if_splits)
  show ?thesis
  proof (cases "buildMessage M now boundary config m")
    case (Inl e)
    then show ?thesis using s sender by (auto simp: mail_Send_def no_auth_def intro!: no_auth_secured)
  next
    case (Inr payload)
    obtain rc t1 where c: "connect peer config = (rc, t1)" by (meson surj_pair)
    then show ?thesis
    proof (cases rule: connect_cases)
      case failed
      then show ?thesis using s sender Inr c by (auto simp: mail_Send_def intro!: no_auth_secured)
    next
      case connected
      then have na: "no_auth t1" using connect_no_auth by simp
      obtain r2 t2 rest where p: "perform peer (session_steps M config m) t1 = (r2, t2)" and tr: "trace = t2 @ rest" and nm: "no_auth rest"
        using send_extends [OF s [unfolded sender] _ Inr] c connected(1) by blast
      obtain x where x: "t2 = t1 @ x" "set x \<subseteq> snd ` set (session_steps M config m)" using perform_extends [OF p] by blast
      show ?thesis using enc
      proof (elim disjE)
        assume "mc_Username config = []"
        from session_auth [OF this, of M m] have "no_auth x" using x(2) unfolding no_auth_def set_map by blast
        then have "no_auth trace" using na nm tr x(1) by (simp add: no_auth_def)
        then show ?thesis by (rule no_auth_secured)
      next
        assume "mc_Encryption config = EncryptionTLS"
        from tls_handshake [OF this] connected(2,3) obtain pre post where "t1 = pre @ Handshake (mc_Host config) # post" "peer pre (Handshake (mc_Host config))" by metis
        then show ?thesis using secured_extension [of pre "Handshake (mc_Host config)" post "mc_Host config" peer "x @ rest"] na tr x(1) by simp
      next
        assume "mc_Encryption config = EncryptionSTARTTLS"
        from starttls_first [OF this p na] show ?thesis
        proof (elim disjE conjE exE)
          assume "no_auth t2"
          then show ?thesis using nm tr by (intro no_auth_secured) (auto simp: no_auth_def)
        next
          fix y assume "t2 = (t1 @ StartTLS (mc_Host config) # []) @ y" "peer t1 (StartTLS (mc_Host config))"
          then show ?thesis using secured_extension [of t1 "StartTLS (mc_Host config)" "[]" "mc_Host config" peer "y @ rest"] na tr by (simp add: no_auth_def)
        qed
      qed
    qed
  qed
qed

text \<open>A mail that is reported as sent went through every step: sender, every recipient in order, the whole text, its end and the farewell.\<close>

theorem sent_completely:
  assumes "mail_Send M now boundary peer ended (Some config) m = (None, trace)"
  shows "\<exists>payload. buildMessage M now boundary config m = Inr payload \<and>
    trace = Dial (join_host_port (mc_Host config) (mc_Port config)) # map snd (connect_steps config @ session_steps M config m @ body_steps payload) @ [CloseClient] \<and>
    accepted peer [] (butlast trace)"
proof -
  obtain payload t1 t2 t3 where b: "buildMessage M now boundary config m = Inr payload" and c: "connect peer config = (None, t1)"
    and p: "perform peer (session_steps M config m) t1 = (None, t2)" and q: "perform peer (body_steps payload) t2 = (None, t3)" and tr: "trace = t3 @ [CloseClient]"
    using assms by (auto simp: mail_Send_def split: sum.splits prod.splits option.splits)
  have t1: "t1 = Dial (join_host_port (mc_Host config) (mc_Port config)) # map snd (connect_steps config)" "accepted peer [] t1"
    using c by (cases rule: connect_cases; simp)+
  have "t2 = t1 @ map snd (session_steps M config m)" "accepted peer t1 (map snd (session_steps M config m))" using p by (cases rule: perform_cases; simp)+
  moreover have "butlast trace = t3" using tr by simp
  moreover have "t3 = t2 @ map snd (body_steps payload)" "accepted peer t2 (map snd (body_steps payload))" using q by (cases rule: perform_cases; simp)+
  ultimately show ?thesis using b t1 tr by (intro exI [of _ payload] conjI) (simp_all add: accepted_append del: butlast.simps)
qed

theorem mail_errors_closed:
  assumes "mail_Send M now boundary peer ended sender m = (Some e, trace)"
  shows "errors_is e InvalidConfig \<or> errors_is e InvalidMessage \<or> errors_is e Delivery"
proof -
  have config: "errors_is x InvalidConfig" if "config_Validate M config = Some x" for x config
    using that by (auto simp: config_Validate_def ErrInvalidConfig_def split: if_splits)
  have to: "errors_is x InvalidMessage" if "check_recipients M rs = Some x" for x rs
    using that by (induction rs) (auto simp: ErrInvalidMessage_def split: if_splits)
  have msg: "errors_is x InvalidMessage" if "message_validate M m = Some x" for x
    using that to by (auto simp: message_validate_def ErrInvalidMessage_def split: if_splits option.splits)
  have built: "errors_is x InvalidConfig \<or> errors_is x InvalidMessage" if "buildMessage M now boundary config m = Inl x" for x config
    using that config msg by (auto simp: buildMessage_def Let_def split: option.splits if_splits)
  have op: "errors_is (operationError c t) Delivery" for c t by (auto simp: operationError_def ErrDelivery_def split: option.splits)
  show ?thesis
  proof (cases sender)
    case (Some config)
    then show ?thesis
    proof (cases "buildMessage M now boundary config m")
      case (Inr payload)
      then have "\<exists>c t. e = operationError c t" using assms Some by (auto simp: mail_Send_def split: option.splits prod.splits)
      then show ?thesis using op by blast
    qed (use assms Some built in \<open>auto simp: mail_Send_def\<close>)
  qed (use assms in \<open>auto simp: mail_Send_def ErrInvalidConfig_def\<close>)
qed

section \<open>An example\<close>

definition mail_one :: mail_env where
  "mail_one = \<lparr>me_ip = (\<lambda>_. False), me_address = (\<lambda>v. Some \<lparr>ad_String = v, ad_Address = v\<rparr>), me_words = (\<lambda>s. s), me_date = (\<lambda>_. ''now'')\<rparr>"

definition config_one :: mail_config where
  "config_one = \<lparr>mc_Host = ''mx'', mc_Port = 587, mc_Username = ''u'', mc_Password = ''p'', mc_From = ''a'', mc_Encryption = ''starttls'', mc_Timeout = 0\<rparr>"

definition message_one :: mail_message where
  "message_one = \<lparr>mm_To = [''b'', ''c''], mm_Subject = ''s'', mm_Text = ''t'', mm_HTML = []\<rparr>"

lemma mail_one_valid: "config_Validate mail_one config_one = None" "message_validate mail_one message_one = None"
proof -
  have t: "trim_space ''mx'' = ''mx''" "trim_space ''a'' = ''a''" "trim_space ''b'' = ''b''" "trim_space ''c'' = ''c''" "trim_space ''s'' = ''s''"
    by (simp_all add: plain_text_simps(1) plain_text_def)
  have "validHost mail_one ''mx''"
    by (simp add: validHost_def t contains_any_def mail_one_def has_suffix_def has_prefix_def valid_label_def host_char_def)
  then show "config_Validate mail_one config_one = None"
    by (simp add: config_Validate_def config_one_def parseAddress_def t mail_one_def EncryptionSTARTTLS_def)
  show "message_validate mail_one message_one = None"
    by (simp add: message_validate_def message_one_def parseAddress_def t mail_one_def)
qed

lemma mail_one_built: "\<exists>out. buildMessage mail_one 0 ''x'' config_one message_one = Inr out"
proof -
  have "\<not> (mm_Text message_one \<noteq> [] \<and> mm_HTML message_one \<noteq> [])" by (simp add: message_one_def)
  then show ?thesis unfolding buildMessage_def mail_one_valid Let_def by simp
qed

lemma mail_one_ok: "mail_env_ok mail_one" "\<not> hasHeaderBreak ''x''"
  by (simp_all add: mail_env_ok_def mail_one_def)

theorem headers_cannot_be_injected_witness:
  "\<exists>out hs body. buildMessage mail_one 0 ''x'' config_one message_one = Inr out \<and> out = lines_text hs @ CRLF @ body \<and> list_all (\<lambda>h. \<not> hasHeaderBreak h) hs"
  using headers_cannot_be_injected [OF mail_one_ok] mail_one_built by metis

lemma mail_one_sent:
  "\<exists>trace. mail_Send mail_one 0 ''x'' (\<lambda>_ _. True) (\<lambda>_. None) (Some config_one) message_one = (None, trace) \<and> Auth ''u'' ''p'' ''mx'' \<in> set trace"
proof -
  obtain out where "buildMessage mail_one 0 ''x'' config_one message_one = Inr out" using mail_one_built by blast
  then show ?thesis
    by (simp add: mail_Send_def connect_def connect_steps_def session_steps_def body_steps_def EncryptionTLS_def EncryptionSTARTTLS_def)
       (simp add: config_one_def message_one_def body_steps_def)
qed

theorem credentials_need_encryption_witness:
  "\<exists>trace. mail_Send mail_one 0 ''x'' (\<lambda>_ _. True) (\<lambda>_. None) (Some config_one) message_one = (None, trace) \<and> Auth ''u'' ''p'' ''mx'' \<in> set trace \<and>
     auth_secured (\<lambda>_ _. True) ''mx'' trace"
proof -
  have "NewSMTPSender mail_one config_one = Inr config_one" by (simp add: NewSMTPSender_def mail_one_valid)
  from credentials_need_encryption [OF this] mail_one_sent show ?thesis by (fastforce simp: config_one_def)
qed

end
