(* ===== verification/Api_Server.thy ===== *)
theory Api_Server
  imports Task_Types
begin

text \<open>
  Answers and handlers of the API server: \<open>apis/runtime/error.go\<close>, \<open>apis/runtime/context.go\<close>, \<open>apis/errcode/code.go\<close>,
  \<open>apis/runtime/middleware/env.go\<close> and \<open>apis/runtime/server/handler.go\<close>. A gin context carries the code and the identifier of the
  request, whether the chain was aborted, and the bodies that were written. Reflection is an argument: a handler is a function with
  its type and the numbers of its parameters and results, \<open>out_view\<close> says which of the fields the code looks for an output type has, \<open>dec\<close> is the
  decoder of the input type, given the bytes within the limit and whether there are more, and \<open>fmt_lib\<close> is package \<open>fmt\<close>.
\<close>

section \<open>Answers\<close>

record api_response = base_response +
  resp_Env :: string
  resp_RequestID :: string

datatype 'o answer = Envelope api_response | Output 'o

record 'o gin_context =
  gc_code :: "int option"
  gc_reqid :: "string option"
  gc_aborted :: bool
  gc_answers :: "'o answer list"

datatype go_value = GoText string | GoValue string

record fmt_lib =
  Sprint :: "go_value list \<Rightarrow> string"
  Sprintf :: "string \<Rightarrow> go_value list \<Rightarrow> string"

definition formatMessage :: "fmt_lib \<Rightarrow> go_value list \<Rightarrow> string" where
  "formatMessage F msgs =
     (case msgs of [] \<Rightarrow> []
      | [m] \<Rightarrow> Sprint F [m]
      | GoText format # rest \<Rightarrow> Sprintf F format rest
      | _ \<Rightarrow> Sprint F msgs)"

definition RequestID :: "'o gin_context \<Rightarrow> string" where
  "RequestID ctx = (case gc_reqid ctx of Some i \<Rightarrow> i | None \<Rightarrow> [])"

definition ResponseMessage :: "fmt_lib \<Rightarrow> string \<Rightarrow> nat \<Rightarrow> go_value list \<Rightarrow> 'o gin_context \<Rightarrow> 'o gin_context" where
  "ResponseMessage F env code msgs ctx =
     (let c = ctx\<lparr>gc_code := Some (int code)\<rparr>
      in c\<lparr>gc_aborted := True,
           gc_answers := gc_answers c @ [Envelope \<lparr>resp_Code = code, resp_Message = formatMessage F msgs, resp_Env = env, resp_RequestID = RequestID c\<rparr>]\<rparr>)"

definition Success :: "fmt_lib \<Rightarrow> string \<Rightarrow> go_value list \<Rightarrow> 'o gin_context \<Rightarrow> 'o gin_context" where
  "Success F env msgs = ResponseMessage F env 0 msgs"

definition BadRequest :: "fmt_lib \<Rightarrow> string \<Rightarrow> go_value list \<Rightarrow> 'o gin_context \<Rightarrow> 'o gin_context" where
  "BadRequest F env msgs = ResponseMessage F env ErrCode_BadRequest msgs"

definition InternalError :: "fmt_lib \<Rightarrow> string \<Rightarrow> go_value list \<Rightarrow> 'o gin_context \<Rightarrow> 'o gin_context" where
  "InternalError F env msgs = ResponseMessage F env ErrCode_InternalError msgs"

definition BadRequestWithCode :: "fmt_lib \<Rightarrow> string \<Rightarrow> nat \<Rightarrow> go_value list \<Rightarrow> 'o gin_context \<Rightarrow> 'o gin_context" where
  "BadRequestWithCode F env code msgs = ResponseMessage F env code msgs"

definition InternalErrorWithCode :: "fmt_lib \<Rightarrow> string \<Rightarrow> nat \<Rightarrow> go_value list \<Rightarrow> 'o gin_context \<Rightarrow> 'o gin_context" where
  "InternalErrorWithCode F env code msgs = ResponseMessage F env code msgs"

text \<open>\<open>errCodeMap\<close> with \<open>Register\<close> and \<open>GetMessage\<close>.\<close>

definition errcode_Register :: "nat \<Rightarrow> string \<Rightarrow> (nat \<rightharpoonup> string) \<Rightarrow> nat \<rightharpoonup> string" where
  "errcode_Register code message m = m(code \<mapsto> message)"

definition GetMessage :: "(nat \<rightharpoonup> string) \<Rightarrow> nat \<Rightarrow> string" where
  "GetMessage m code = (case m code of Some msg \<Rightarrow> msg | None \<Rightarrow> [])"

section \<open>Requests\<close>

text \<open>\<open>GetRealIP\<close>: \<open>header\<close> is \<open>Header.Get\<close> and \<open>host\<close> the first result of \<open>SplitHostPort\<close> on the remote address.\<close>

definition GetRealIP :: "(string \<Rightarrow> string) \<Rightarrow> string \<Rightarrow> string" where
  "GetRealIP header host =
     (let ip1 = header ''X-Real-Ip'';
          ip2 = (if ip1 = [] then header ''X-Forwarded-For'' else ip1);
          ip3 = (if ip2 = [] then host else ip2);
          ip4 = (if contains_any ip3 '','' then hd (split_on (CHR '','') ip3) else ip3)
      in trim_space ip4)"

text \<open>\<open>CustomerHeader\<close>: \<open>values\<close> are the values of \<open>X-Request-Id\<close> in the request, \<open>fresh\<close> the hexadecimal text of a new UUID.\<close>

record 'o header_result =
  hs_gin :: "'o gin_context"
  hs_request :: "request_context option"
  hs_headers :: "(string \<times> string) list"

definition CustomerHeader :: "string \<Rightarrow> string list \<Rightarrow> string \<Rightarrow> 'o gin_context \<Rightarrow> request_context option \<Rightarrow> 'o header_result" where
  "CustomerHeader env values fresh ctx req =
     (let reqID0 = (case values of v # _ \<Rightarrow> v | [] \<Rightarrow> []);
          reqID = (if length values \<noteq> 1 \<or> \<not> Valid reqID0 then fresh else reqID0)
      in \<lparr>hs_gin = ctx\<lparr>gc_reqid := Some reqID\<rparr>, hs_request = WithContext req reqID,
          hs_headers = (''X-Request-Id'', reqID) # (if env \<noteq> [] then [(''Env'', env)] else [])\<rparr>)"

section \<open>Handlers\<close>

definition maxRequestBodyBytes :: int where "maxRequestBodyBytes = 1048576"

text \<open>The options of a handler are sizes; a nil option is \<open>None\<close>.\<close>

definition WithMaxRequestBodyBytes :: "int \<Rightarrow> int \<Rightarrow> int" where
  "WithMaxRequestBodyBytes sz limit = (if sz > 0 then sz else limit)"

definition apply_options :: "int option list \<Rightarrow> int" where
  "apply_options opts = fold (\<lambda>o1 limit. case o1 of None \<Rightarrow> limit | Some sz \<Rightarrow> WithMaxRequestBodyBytes sz limit) opts maxRequestBodyBytes"

datatype handler_return = NoValue | NilValue | ErrorValue string string | OtherValue string

datatype ('i, 'o) api_handler =
    HandlerFunc string nat nat "'i \<Rightarrow> 'o gin_context \<Rightarrow> handler_return \<times> 'o \<times> 'o gin_context"
  | NoHandler string

record 'o out_view =
  ov_code :: "'o \<Rightarrow> int option"
  ov_base :: "'o \<Rightarrow> api_response option"
  ov_set :: "'o \<Rightarrow> api_response \<Rightarrow> 'o"

definition fixBaseResponse :: "(nat \<rightharpoonup> string) \<Rightarrow> string \<Rightarrow> 'o out_view \<Rightarrow> 'o \<Rightarrow> 'o gin_context \<Rightarrow> 'o \<times> 'o gin_context" where
  "fixBaseResponse messages env V out ctx =
     (let c = (case ov_code V out of Some n \<Rightarrow> ctx\<lparr>gc_code := Some n\<rparr> | None \<Rightarrow> ctx)
      in case ov_base V out of None \<Rightarrow> (out, c)
         | Some b \<Rightarrow>
            (let code = (case gc_code c of Some n \<Rightarrow> n | None \<Rightarrow> 0);
                 b1 = (if code > 0 \<and> resp_Message b = [] then b\<lparr>resp_Message := GetMessage messages (nat code mod 2 ^ 32)\<rparr> else b)
             in (ov_set V out (b1\<lparr>resp_Env := env, resp_RequestID := RequestID c\<rparr>), c)))"

definition transAPI ::
  "fmt_lib \<Rightarrow> (nat \<rightharpoonup> string) \<Rightarrow> string \<Rightarrow> 'o out_view \<Rightarrow> (string \<Rightarrow> bool \<Rightarrow> string + 'i) \<Rightarrow> ('i, 'o) api_handler \<Rightarrow> int option list \<Rightarrow> string \<Rightarrow> 'o gin_context \<Rightarrow> 'o gin_context" where
  "transAPI F messages env V dec hdr opts body ctx =
     (let limit = nat (apply_options opts)
      in case hdr of
           NoHandler typ \<Rightarrow> BadRequest F env [GoText (''failed hdrType '' @ typ)] ctx
         | HandlerFunc typ numIn numOut run \<Rightarrow>
            if numIn \<noteq> 3 then InternalError F env [GoText (''invalid handler params number. '' @ typ @ '' '' @ nat_digits numIn)] ctx
            else if numOut > 1 then InternalError F env [GoText (''invalid handler returns number. '' @ typ @ '' '' @ nat_digits numOut)] ctx
            else (case dec (take limit body) (length body > limit) of
              Inl err \<Rightarrow> BadRequest F env [GoText (''decode request failed, '' @ err)] ctx
            | Inr inp \<Rightarrow>
               (case run inp ctx of (ret, out, ctx1) \<Rightarrow>
                  (case ret of
                     OtherValue t \<Rightarrow> InternalError F env [GoText (''invalid handler returns type: '' @ t)] ctx1
                   | ErrorValue t err \<Rightarrow> InternalError F env [GoText (''handler return error '' @ t @ '' '' @ err)] ctx1
                   | _ \<Rightarrow>
                      if gc_aborted ctx1 then ctx1
                      else (case fixBaseResponse messages env V out ctx1 of
                              (out1, ctx2) \<Rightarrow> ctx2\<lparr>gc_answers := gc_answers ctx2 @ [Output out1]\<rparr>)))))"

section \<open>Properties\<close>

lemma options_positive: "0 < apply_options opts"
proof -
  have "0 < fold (\<lambda>o1 limit. case o1 of None \<Rightarrow> limit | Some sz \<Rightarrow> WithMaxRequestBodyBytes sz limit) opts n" if "0 < n" for n
    using that by (induction opts arbitrary: n) (auto simp: WithMaxRequestBodyBytes_def split: option.splits)
  then show ?thesis by (simp add: apply_options_def maxRequestBodyBytes_def)
qed

lemma answers_message [simp]:
  "gc_aborted (ResponseMessage F env code msgs ctx)"
  "gc_answers (ResponseMessage F env code msgs ctx) =
     gc_answers ctx @ [Envelope \<lparr>resp_Code = code, resp_Message = formatMessage F msgs, resp_Env = env, resp_RequestID = RequestID ctx\<rparr>]"
  by (simp_all add: ResponseMessage_def Let_def RequestID_def)

lemma fixBaseResponse_context [simp]:
  "gc_answers (snd (fixBaseResponse messages env V out ctx)) = gc_answers ctx" "RequestID (snd (fixBaseResponse messages env V out ctx)) = RequestID ctx"
  by (auto simp: fixBaseResponse_def Let_def RequestID_def split: option.splits)

text \<open>What a handler writes is its own business only when it aborts the chain: otherwise it writes nothing and keeps the identifier.\<close>

definition quiet :: "('i \<Rightarrow> 'o gin_context \<Rightarrow> handler_return \<times> 'o \<times> 'o gin_context) \<Rightarrow> bool" where
  "quiet run \<longleftrightarrow> (\<forall>inp ctx ret out ctx'. run inp ctx = (ret, out, ctx') \<longrightarrow> gc_reqid ctx' = gc_reqid ctx \<and> (\<not> gc_aborted ctx' \<longrightarrow> gc_answers ctx' = gc_answers ctx))"

text \<open>A request that is not answered by an aborting handler gets one answer: a failure in the common form with the identifier of the request, or the
  output of the handler, whose common part carries the environment, the identifier and a message for its code.\<close>

theorem one_answer:
  assumes t: "transAPI F messages env V dec (HandlerFunc typ numIn numOut run) opts body ctx = ctx'" and q: "quiet run"
    and na: "\<And>inp. \<not> gc_aborted (snd (snd (run inp ctx)))" and V: "\<And>out b. ov_base V out \<noteq> None \<Longrightarrow> ov_base V (ov_set V out b) = Some b"
  shows "(\<exists>r. gc_answers ctx' = gc_answers ctx @ [Envelope r] \<and> resp_Code r \<in> {400, 500} \<and> resp_Env r = env \<and> resp_RequestID r = RequestID ctx) \<or>
    (\<exists>out. gc_answers ctx' = gc_answers ctx @ [Output out] \<and> (\<forall>b. ov_base V out = Some b \<longrightarrow> resp_Env b = env \<and> resp_RequestID b = RequestID ctx))"
proof (cases "numIn \<noteq> 3 \<or> numOut > 1 \<or> (\<exists>err. dec (take (nat (apply_options opts)) body) (length body > nat (apply_options opts)) = Inl err)")
  case True
  then show ?thesis using t by (auto simp: transAPI_def Let_def InternalError_def BadRequest_def errcode_defs split: if_splits)
next
  case False
  then obtain inp where inp: "dec (take (nat (apply_options opts)) body) (length body > nat (apply_options opts)) = Inr inp" by (cases "dec (take (nat (apply_options opts)) body) (length body > nat (apply_options opts))") auto
  obtain ret out ctx1 where run: "run inp ctx = (ret, out, ctx1)" by (metis prod.collapse)
  have c1: "gc_answers ctx1 = gc_answers ctx" "RequestID ctx1 = RequestID ctx" "\<not> gc_aborted ctx1"
    using q na [of inp] run unfolding quiet_def by (auto simp: RequestID_def)
  show ?thesis
  proof (cases "ret \<in> {NoValue, NilValue}")
    case True
    obtain out1 ctx2 where f: "fixBaseResponse messages env V out ctx1 = (out1, ctx2)" by (metis prod.collapse)
    have "ctx' = ctx2\<lparr>gc_answers := gc_answers ctx2 @ [Output out1]\<rparr>"
      using t False inp run c1(3) f True by (auto simp: transAPI_def Let_def)
    moreover have "gc_answers ctx2 = gc_answers ctx" using fixBaseResponse_context(1) [of messages env V out ctx1] f c1(1) by simp
    moreover have "resp_Env b = env \<and> resp_RequestID b = RequestID ctx" if "ov_base V out1 = Some b" for b
      using f that V c1(2) by (auto simp: fixBaseResponse_def Let_def RequestID_def split: option.splits)
    ultimately show ?thesis by auto
  next
    case ret: False
    then show ?thesis using t False inp run c1 by (cases ret) (auto simp: transAPI_def Let_def InternalError_def errcode_defs)
  qed
qed

text \<open>The identifier of a request is the one it brings, when it brings exactly one that is valid, and a new one otherwise; context and answer
  carry the same.\<close>

theorem one_request_id:
  assumes "Valid fresh" and "r = CustomerHeader env values fresh ctx req"
  shows "Valid (RequestID (hs_gin r)) \<and> FromContext (hs_request r) = RequestID (hs_gin r) \<and> (''X-Request-Id'', RequestID (hs_gin r)) \<in> set (hs_headers r) \<and>
    (\<forall>i. values = [i] \<and> Valid i \<longrightarrow> RequestID (hs_gin r) = i)"
  using assms by (auto simp: CustomerHeader_def RequestID_def WithContext_def FromContext_def Let_def split: list.splits option.splits)

end
