(* ===== verification/Browser_Credits.thy ===== *)
theory Browser_Credits
  imports Session_Login Handler_Properties Credits_Properties Api_Server
begin

text \<open>
  Credits behind the browser session: the balance interface (\<open>apis/credits/balance.go\<close>) and the binding of executions
  (\<open>apis/runtime/middleware/credits.go\<close>), which put the browser session and the credits client together.
\<close>

section \<open>The balance interface\<close>

record browser_balance =
  bb_Balance :: balance
  bb_OrganizationID :: string
  bb_UserID :: string

record balance_response =
  mb_Base :: base_response
  mb_Response :: "browser_balance option"

text \<open>The two messages, as the UTF-8 bytes of their characters.\<close>

definition denied_text :: string where
  "denied_text = map char_of [229, 189, 147, 229, 137, 141, 232, 186, 171, 228, 187, 189, 228, 184, 141, 229, 143, 175, 230, 159, 165, 232, 175, 162, 233, 162, 157, 229, 186, 166 :: nat]"

definition unavailable_text :: string where
  "unavailable_text = map char_of [233, 162, 157, 229, 186, 166, 230, 156, 141, 229, 138, 161, 230, 154, 130, 230, 151, 182, 228, 184, 141, 229, 143, 175, 231, 148, 168 :: nat]"

definition service_chars :: string where "service_chars = ''abcdefghijklmnopqrstuvwxyz0123456789_''"

text \<open>\<open>present\<close> says that router, client and runtime are there; the result is the action that is registered.\<close>

definition RegisterBrowserBalance :: "bool \<Rightarrow> string \<Rightarrow> cerror + string" where
  "RegisterBrowserBalance present service =
     (if \<not> present \<or> service = [] \<or> length service > 64 \<or> trim_cutset service_chars service \<noteq> [] then Inl (cerr CreditsUnavailable)
      else Inr (service @ ''.GetMyModelBalance''))"

text \<open>\<open>p\<close> is the principal that the context of the request carries, \<open>reqid\<close> the identifier of the request. The result has the headers that are set.\<close>

definition balanceHandler ::
  "credits_env \<Rightarrow> 'n http_client \<Rightarrow> credits_client option \<Rightarrow> time \<Rightarrow> string \<Rightarrow> request_context option \<Rightarrow> principal option \<Rightarrow> ctx_err option \<Rightarrow> ctx_err option \<Rightarrow> 'n \<Rightarrow>
   (string \<times> string) list \<times> balance_response \<times> 'n" where
  "balanceHandler E http client now reqid ctx p e0 e1 n =
     ([(''Cache-Control'', ''no-store''), (''Pragma'', ''no-cache'')],
      case Session_Login.FromContext now p of
        None \<Rightarrow> (\<lparr>mb_Base = fail_response ErrCode_Forbidden denied_text, mb_Response = None\<rparr>, n)
      | Some pr \<Rightarrow>
         (case GetBalance E http client (WithContext ctx reqid) e0 e1 \<lparr>OrganizationID = pn_OrganizationID pr, UserID = pn_UserID pr\<rparr> n of
            (Inl err, n1) \<Rightarrow>
              (\<lparr>mb_Base = (if errors_is err CreditsDenied then fail_response ErrCode_Forbidden denied_text
                          else fail_response ErrCode_ServiceUnavailable unavailable_text), mb_Response = None\<rparr>, n1)
          | (Inr b, n1) \<Rightarrow>
              (\<lparr>mb_Base = ok_response, mb_Response = Some \<lparr>bb_Balance = b, bb_OrganizationID = pn_OrganizationID pr, bb_UserID = pn_UserID pr\<rparr>\<rparr>, n1)))"

text \<open>
  The route: \<open>Require()\<close> without scopes, then the handler with the principal it passes on. \<open>n\<close> is the side of the provider, \<open>m\<close> that of
  the credits service; \<open>later\<close> is the time at which the handler reads the principal.
\<close>

definition balance_route ::
  "bff_config \<Rightarrow> idp_env \<Rightarrow> 'n idp \<Rightarrow> bstore \<Rightarrow> 'r redis \<Rightarrow> 'r lease_io \<Rightarrow> 'r lease_io \<Rightarrow> string option \<times> string option \<Rightarrow> time \<Rightarrow> time \<Rightarrow> browser_request \<Rightarrow> 'r \<Rightarrow> 'n \<Rightarrow>
   credits_env \<Rightarrow> 'm http_client \<Rightarrow> credits_client option \<Rightarrow> time \<Rightarrow> string \<Rightarrow> request_context option \<Rightarrow> ctx_err option \<Rightarrow> ctx_err option \<Rightarrow> 'm \<Rightarrow>
   (bresponse + ((string \<times> string) list \<times> balance_response \<times> 'm)) option" where
  "balance_route C I P S R io1 io2 ents now t q r n E http client later reqid ctx e0 e1 m =
     (case withSession C I P S R io1 io2 ents now (requirePrincipal C I P t []) True q r n of None \<Rightarrow> None
      | Some (resp, r', n') \<Rightarrow>
         (case bp_principal resp of None \<Rightarrow> Some (Inl resp)
          | Some (_, p) \<Rightarrow> Some (Inr (balanceHandler E http client later reqid ctx (Some p) e0 e1 m))))"

section \<open>Executions\<close>

datatype bound = Abort nat | Next credits_context execution

definition BindCreditsExecution :: "bool \<Rightarrow> time \<Rightarrow> string \<Rightarrow> principal option \<Rightarrow> credits_context \<Rightarrow> bound" where
  "BindCreditsExecution client now reqid p ctx =
     (if \<not> client then Abort 503
      else case Session_Login.FromContext now p of None \<Rightarrow> Abort 401
      | Some pr \<Rightarrow>
         (case NewExecution \<lparr>OrganizationID = pn_OrganizationID pr, UserID = pn_UserID pr\<rparr> True of
            Inl _ \<Rightarrow> Abort 401
          | Inr e \<Rightarrow>
             (let base = (if Valid reqid then ctx\<lparr>ctx_request_id := Some reqid\<rparr> else ctx)
              in case WithExecution (Some base) (Some e) of Some c \<Rightarrow> Next c e | None \<Rightarrow> Abort 401)))"

section \<open>Properties\<close>

lemma registered_service: "RegisterBrowserBalance present service = Inr action \<Longrightarrow> set service \<subseteq> set service_chars \<and> service \<noteq> [] \<and> length service \<le> 64 \<and> action = service @ ''.GetMyModelBalance''"
  by (auto simp: RegisterBrowserBalance_def trim_cutset_def trim_both_Nil_iff split: if_splits)

lemma FromContext_principal: "Session_Login.FromContext now p = Some pr \<Longrightarrow> p = Some pr \<and> unix now < pn_ExpiresAt pr"
  by (auto simp: Session_Login.FromContext_def split: option.splits if_splits)

lemma balanceHandler_answer:
  assumes "balanceHandler E http client now reqid ctx p e0 e1 n = (hs, resp, n')" and "mb_Response resp = Some b"
  obtains pr where "Session_Login.FromContext now p = Some pr" "bb_OrganizationID b = pn_OrganizationID pr" "bb_UserID b = pn_UserID pr" "mb_Base resp = ok_response"
    "GetBalance E http client (WithContext ctx reqid) e0 e1 \<lparr>OrganizationID = pn_OrganizationID pr, UserID = pn_UserID pr\<rparr> n = (Inr (bb_Balance b), n')"
  using assms by (auto simp: balanceHandler_def split: option.splits prod.splits sum.splits)


text \<open>An execution that a request is bound to is of its principal, has not started, and is what the context gives.\<close>

theorem bound_execution_is_own:
  assumes "BindCreditsExecution client now reqid p ctx = Next ctx' e"
  shows "\<exists>pr. p = Some pr \<and> unix now < pn_ExpiresAt pr \<and> ex_subject e = \<lparr>OrganizationID = pn_OrganizationID pr, UserID = pn_UserID pr\<rparr> \<and> \<not> ex_started e \<and>
    ExecutionFromContext (Some ctx') = Inr e"
proof -
  obtain pr where pr: "Session_Login.FromContext now p = Some pr" and e: "NewExecution \<lparr>OrganizationID = pn_OrganizationID pr, UserID = pn_UserID pr\<rparr> True = Inr e" and c: "ctx_execution ctx' = Some (Some e)"
    using assms by (auto simp: BindCreditsExecution_def WithExecution_def Let_def split: if_splits option.splits sum.splits)
  then have "ex_subject e = \<lparr>OrganizationID = pn_OrganizationID pr, UserID = pn_UserID pr\<rparr>" "\<not> ex_started e" "ex_acquire e"
    by (auto simp: NewExecution_def split: if_splits)
  then show ?thesis using FromContext_principal [OF pr] c by (auto simp: ExecutionFromContext_def)
qed

section \<open>An example\<close>

lemma one_balance:
  "GetBalance plain_credits answering (Some sample_client) (Some Background) None None w_member () = (Inr \<lparr>State = ''ready'', Quota = -5, UsedQuota = 12\<rparr>, ())"
proof -
  have p: "parse_int ''-5'' = Some (-5)" "parse_int ''12'' = Some 12"
    by (simp_all add: parse_int_def parse_digits_def is_digit_def digits_value_def digit_value_def int64_def)
  have "client_call plain_credits answering (Some sample_client) (Some Background) None None w_member BalancePath balance_UnmarshalJSON () =
      (Inr \<lparr>bw_State = Some ''ready'', bw_Quota = Some (-5), bw_UsedQuota = Some 12\<rparr>, ())"
    by (simp add: client_call_def w_member_ok exchange_def answering_def read_response_def read_body_def bodyLimit_def plain_credits_def
        balance_field_def empty_wire_def p)
  then show ?thesis by (simp add: GetBalance_def ValidateBalance_def maxExactInteger_def)
qed

lemma one_route:
  "\<exists>hs resp b. balance_route app_config Handler_Properties.plain_env one_user app_store ref_redis (lease_of ''a'') (lease_of ''b'') (None, None) 0 0 app_request browser_db ()
      plain_credits answering (Some sample_client) 0 [] (Some Background) None None () = Some (Inr (hs, resp, ())) \<and> mb_Response resp = Some b"
proof -
  let ?p = "\<lambda>t. \<lparr>pn_Issuer = ''https://id/oidc'', pn_UserID = ''user-7'', pn_OrganizationID = ''org-1'',
         pn_Username = fst (principalDisplayNames (no_profile\<lparr>pf_Subject := ''user-7'', pf_Name := ''Ada''\<rparr>) [\<lparr>og_ID = ''org-1'', og_Name = ''Org''\<rparr>] ''org-1''),
         pn_OrganizationName = snd (principalDisplayNames (no_profile\<lparr>pf_Subject := ''user-7'', pf_Name := ''Ada''\<rparr>) [\<lparr>og_ID = ''org-1'', og_Name = ''Org''\<rparr>] ''org-1''),
         pn_OrganizationRevision = ''3'', pn_DepartmentIDs = [], pn_PrimaryDepartmentID = None, pn_Permissions = [], pn_ExpiresAt = t\<rparr>"
  have g: "balanceHandler plain_credits answering (Some sample_client) 0 [] (Some Background) (Some (?p t)) None None () = (hs, resp, x) \<Longrightarrow> 0 < t \<Longrightarrow>
      \<exists>b. mb_Response resp = Some b" for t hs resp x
    using one_balance by (auto simp: balanceHandler_def Session_Login.FromContext_def unix_def WithContext_def Valid_def Let_def w_member_def)
  obtain o2 db where w: "withSession app_config Handler_Properties.plain_env one_user app_store ref_redis (lease_of ''a'') (lease_of ''b'') (None, None) 0
      (requirePrincipal app_config Handler_Properties.plain_env one_user 0 []) True app_request browser_db () = Some (session_response o2 tx_id login_session 0 True, db, ())"
      "br_principal o2 = Some (?p (unix sessionIdleLifetime))"
    using login_served_at [where handler = "requirePrincipal app_config Handler_Properties.plain_env one_user 0 []", OF login_granted, of "''a''" "''b''" "(None, None)" True]
    by (auto simp: with_expiry_def)
  have "0 < unix sessionIdleLifetime" by (simp add: unix_def sessionIdleLifetime_def hour_def minute_def second_def)
  obtain hs resp x where h: "balanceHandler plain_credits answering (Some sample_client) 0 [] (Some Background) (Some (?p (unix sessionIdleLifetime))) None None () = (hs, resp, x)"
    by (metis prod.collapse)
  from g [OF h \<open>0 < unix sessionIdleLifetime\<close>] w h show ?thesis by (auto simp: balance_route_def session_response_principal)
qed


end
