(* ===== verification/Session_Discovery.thy ===== *)
theory Session_Discovery
  imports Go_Base Step_Invariant
begin

text \<open>
  The discovery document of the identity provider (\<open>apis/runtime/logtobff/discovery.go\<close>): a transport that caches one public document
  for an hour after checking that every endpoint in it belongs to the registered origin. The other transport is a function over a
  state of its own; parsing of URLs and of the document are parameters (\<open>disc_env\<close>). The sections under the mutex are the reading and the
  writing of the cache; \<open>disc_step\<close> interleaves those of any number of requests.
\<close>

section \<open>The transport\<close>

record disc_url =
  du_Scheme :: string
  du_Host :: string
  du_User :: bool
  du_Fragment :: string

record disc_meta =
  dm_Issuer :: string
  dm_Authorization :: string
  dm_Token :: string
  dm_UserInfo :: string
  dm_JWKS :: string

record disc_env =
  dv_url :: "string \<Rightarrow> disc_url option"
  dv_json :: "string \<Rightarrow> disc_meta option"

record disc_request =
  rq_Method :: string
  rq_URL :: string
  rq_Authorization :: string

text \<open>\<open>rs_Data\<close> is what a reader gets from the body, \<open>rs_Error\<close> the errors of reading and closing it.\<close>

record disc_response =
  rs_Status :: nat
  rs_Data :: string
  rs_Error :: "string option"

record disc_cache =
  dt_endpoint :: string
  dt_document :: string
  dt_until :: time

type_synonym 'n disc_transport = "disc_request \<Rightarrow> 'n \<Rightarrow> (string + disc_response) \<times> 'n"

definition maxDiscovery :: nat where "maxDiscovery = 1048576"

definition endpoint_ok :: "disc_env \<Rightarrow> string \<Rightarrow> string \<Rightarrow> bool" where
  "endpoint_ok V origin raw =
     (case dv_url V raw of None \<Rightarrow> False
      | Some u \<Rightarrow> \<not> (du_Scheme u @ ''://'' @ du_Host u \<noteq> origin \<or> du_User u \<or> du_Fragment u \<noteq> [] \<or> length raw > 2048))"

definition check_document :: "disc_env \<Rightarrow> string \<Rightarrow> string \<Rightarrow> string option" where
  "check_document V endpoint data =
     (case dv_url V endpoint of None \<Rightarrow> Some ''invalid discovery registration''
      | Some r \<Rightarrow>
         if du_Host r = [] then Some ''invalid discovery registration''
         else let origin = du_Scheme r @ ''://'' @ du_Host r
              in case dv_json V data of None \<Rightarrow> Some ''invalid identity discovery''
                 | Some m \<Rightarrow>
                    if dm_Issuer m \<noteq> origin @ ''/oidc'' then Some ''invalid identity discovery''
                    else if \<not> list_all (endpoint_ok V origin) [dm_Authorization m, dm_Token m, dm_UserInfo m, dm_JWKS m] then Some ''unregistered discovery endpoint''
                    else None)"

definition cached_document :: "time \<Rightarrow> disc_cache \<Rightarrow> string option" where
  "cached_document now t = (if dt_document t \<noteq> [] \<and> now < dt_until t then Some (dt_document t) else None)"

definition store_document :: "time \<Rightarrow> string \<Rightarrow> disc_cache \<Rightarrow> disc_cache" where
  "store_document now data t = t\<lparr>dt_document := data, dt_until := now + hour\<rparr>"

text \<open>What a request makes of the answer to it: an answer to pass on, with the document to store if there is one.\<close>

definition read_discovery :: "disc_env \<Rightarrow> string \<Rightarrow> string + disc_response \<Rightarrow> (string + disc_response) \<times> string option" where
  "read_discovery V endpoint answer =
     (case answer of Inl e \<Rightarrow> (Inl e, None)
      | Inr r \<Rightarrow>
         if rs_Status r \<noteq> 200 then (Inr r, None)
         else (case rs_Error r of Some e \<Rightarrow> (Inl e, None)
           | None \<Rightarrow>
              let data = take (maxDiscovery + 1) (rs_Data r)
              in if length data > maxDiscovery then (Inl ''identity discovery too large'', None)
                 else (case check_document V endpoint data of Some e \<Rightarrow> (Inl e, None) | None \<Rightarrow> (Inr (r\<lparr>rs_Data := data\<rparr>), Some data))))"

definition registered_request :: "disc_cache \<Rightarrow> disc_request \<Rightarrow> bool" where
  "registered_request t q \<longleftrightarrow> \<not> (rq_Method q \<noteq> ''GET'' \<or> rq_URL q \<noteq> dt_endpoint t \<or> rq_Authorization q \<noteq> [])"

text \<open>\<open>RoundTrip\<close>: \<open>now\<close> and \<open>later\<close> are the clock at the look into the cache and at the storing, \<open>ended\<close> the error of the context.\<close>

definition disc_RoundTrip ::
  "disc_env \<Rightarrow> 'n disc_transport \<Rightarrow> string option \<Rightarrow> time \<Rightarrow> time \<Rightarrow> disc_request \<Rightarrow> disc_cache \<Rightarrow> 'n \<Rightarrow> (string + disc_response) \<times> disc_cache \<times> 'n" where
  "disc_RoundTrip V base ended now later q t n =
     (if \<not> registered_request t q then (case base q n of (a, n1) \<Rightarrow> (a, t, n1))
      else case ended of Some e \<Rightarrow> (Inl e, t, n)
      | None \<Rightarrow>
         (case cached_document now t of
            Some data \<Rightarrow> (Inr \<lparr>rs_Status = 200, rs_Data = data, rs_Error = None\<rparr>, t, n)
          | None \<Rightarrow>
             (case base q n of (a, n1) \<Rightarrow>
                (case read_discovery V (dt_endpoint t) a of (r, stored) \<Rightarrow>
                   (r, (case stored of None \<Rightarrow> t | Some data \<Rightarrow> store_document later data t), n1)))))"

section \<open>Any number of requests\<close>

text \<open>\<open>ds_log\<close> are the documents that passed the check and when they were stored, \<open>ds_served\<close> the answers from the cache and when they were given.\<close>

record disc_state =
  ds_cache :: disc_cache
  ds_clock :: time
  ds_log :: "(string \<times> time) set"
  ds_served :: "(string \<times> time) set"

definition disc_start :: "string \<Rightarrow> time \<Rightarrow> disc_state" where
  "disc_start endpoint t0 = \<lparr>ds_cache = \<lparr>dt_endpoint = endpoint, dt_document = [], dt_until = zero_time\<rparr>, ds_clock = t0, ds_log = {}, ds_served = {}\<rparr>"

inductive disc_step :: "disc_env \<Rightarrow> disc_state \<Rightarrow> disc_state \<Rightarrow> bool" for V where
  tick: "ds_clock s \<le> t \<Longrightarrow> disc_step V s (s\<lparr>ds_clock := t\<rparr>)"
| hit: "cached_document (ds_clock s) (ds_cache s) = Some data \<Longrightarrow> disc_step V s (s\<lparr>ds_served := insert (data, ds_clock s) (ds_served s)\<rparr>)"
| store: "read_discovery V (dt_endpoint (ds_cache s)) answer = (r, Some data) \<Longrightarrow>
    disc_step V s (s\<lparr>ds_cache := store_document (ds_clock s) data (ds_cache s), ds_log := insert (data, ds_clock s) (ds_log s)\<rparr>)"

section \<open>Invariant\<close>

definition disc_inv :: "disc_env \<Rightarrow> string \<Rightarrow> disc_state \<Rightarrow> bool" where
  "disc_inv V endpoint s \<longleftrightarrow> dt_endpoint (ds_cache s) = endpoint \<and>
     (dt_document (ds_cache s) \<noteq> [] \<longrightarrow> (\<exists>t. (dt_document (ds_cache s), t) \<in> ds_log s \<and> dt_until (ds_cache s) = t + hour)) \<and>
     (\<forall>(data, t) \<in> ds_log s. check_document V endpoint data = None \<and> length data \<le> maxDiscovery \<and> t \<le> ds_clock s) \<and>
     (\<forall>(data, t) \<in> ds_served s. \<exists>t0. (data, t0) \<in> ds_log s \<and> t0 \<le> t \<and> t < t0 + hour)"

lemma read_discovery_stored:
  "read_discovery V endpoint answer = (r, Some data) \<Longrightarrow> check_document V endpoint data = None \<and> length data \<le> maxDiscovery"
  by (auto simp: read_discovery_def Let_def split: sum.splits if_splits option.splits)

lemma disc_inv_step: "disc_inv V endpoint s \<Longrightarrow> disc_step V s s' \<Longrightarrow> disc_inv V endpoint s'"
  by (erule disc_step.cases)
     (fastforce simp: disc_inv_def cached_document_def store_document_def dest: read_discovery_stored split: if_splits)+

interpretation discovery: step_invariant "disc_step V" "disc_inv V endpoint" for V endpoint
  by unfold_locales (rule disc_inv_step)

section \<open>Property\<close>

text \<open>C23. Whatever requests do at the same time, a discovery document that is answered from the cache was given by the provider less than an hour before and
  passed the check then: it is of bounded length, names the issuer of the registered origin, and all its endpoints are of this origin.\<close>

theorem discovery_stays_registered:
  assumes run: "(disc_step V)\<^sup>*\<^sup>* (disc_start endpoint t0) s" and served: "(data, t) \<in> ds_served s"
  shows "(\<exists>t1. (data, t1) \<in> ds_log s \<and> t1 \<le> t \<and> t < t1 + hour) \<and> length data \<le> maxDiscovery \<and>
    (\<exists>r m. dv_url V endpoint = Some r \<and> dv_json V data = Some m \<and> dm_Issuer m = du_Scheme r @ ''://'' @ du_Host r @ ''/oidc'' \<and>
      (\<forall>raw \<in> {dm_Authorization m, dm_Token m, dm_UserInfo m, dm_JWKS m}. \<exists>u. dv_url V raw = Some u \<and>
         du_Scheme u @ ''://'' @ du_Host u = du_Scheme r @ ''://'' @ du_Host r \<and> \<not> du_User u))"
proof -
  have "disc_inv V endpoint (disc_start endpoint t0)" by (simp add: disc_inv_def disc_start_def)
  then have inv: "disc_inv V endpoint s" using discovery.run_keeps [OF run] by blast
  then obtain t1 where t1: "(data, t1) \<in> ds_log s" "t1 \<le> t" "t < t1 + hour" using served unfolding disc_inv_def by blast
  then have c: "check_document V endpoint data = None" "length data \<le> maxDiscovery" using inv unfolding disc_inv_def by auto
  then show ?thesis using t1
    by (auto simp: check_document_def Let_def endpoint_ok_def split: option.splits if_splits)
qed

text \<open>A single request stores a document only after the check, and answers a registered request from the cache or with what the provider said.\<close>

theorem single_discovery:
  assumes "disc_RoundTrip V base ended now later q t n = (r, t', n')"
  shows "t' = t \<or> (\<exists>data. t' = store_document later data t \<and> check_document V (dt_endpoint t) data = None \<and> cached_document now t = None)"
  using assms read_discovery_stored
  by (fastforce simp: disc_RoundTrip_def split: if_splits option.splits prod.splits)

section \<open>An example\<close>

definition disc_one :: disc_env where
  "disc_one = \<lparr>dv_url = (\<lambda>_. Some \<lparr>du_Scheme = ''https'', du_Host = ''id'', du_User = False, du_Fragment = []\<rparr>),
     dv_json = (\<lambda>_. Some \<lparr>dm_Issuer = ''https://id/oidc'', dm_Authorization = ''a'', dm_Token = ''t'', dm_UserInfo = ''u'', dm_JWKS = ''j''\<rparr>)\<rparr>"

definition disc_stored :: disc_state where
  "disc_stored = \<lparr>ds_cache = \<lparr>dt_endpoint = ''e'', dt_document = ''{}'', dt_until = hour\<rparr>, ds_clock = 0, ds_log = {(''{}'', 0)}, ds_served = {}\<rparr>"

lemma disc_one_run: "(disc_step disc_one)\<^sup>*\<^sup>* (disc_start ''e'' 0) (disc_stored\<lparr>ds_served := {(''{}'', 0)}\<rparr>)"
proof -
  have "read_discovery disc_one ''e'' (Inr \<lparr>rs_Status = 200, rs_Data = ''{}'', rs_Error = None\<rparr>) = (Inr \<lparr>rs_Status = 200, rs_Data = ''{}'', rs_Error = None\<rparr>, Some ''{}'')"
    by (simp add: read_discovery_def Let_def maxDiscovery_def check_document_def endpoint_ok_def disc_one_def)
  from disc_step.store [of disc_one "disc_start ''e'' 0"] this have "disc_step disc_one (disc_start ''e'' 0) disc_stored"
    by (fastforce simp: disc_start_def disc_stored_def store_document_def)
  moreover have "disc_step disc_one disc_stored (disc_stored\<lparr>ds_served := {(''{}'', 0)}\<rparr>)"
    using disc_step.hit [of disc_stored "''{}''" disc_one] by (simp add: disc_stored_def cached_document_def hour_def minute_def second_def)
  ultimately show ?thesis by (meson converse_rtranclp_into_rtranclp rtranclp.rtrancl_refl)
qed

theorem discovery_stays_registered_witness:
  "(disc_step disc_one)\<^sup>*\<^sup>* (disc_start ''e'' 0) (disc_stored\<lparr>ds_served := {(''{}'', 0)}\<rparr>) \<and> (\<exists>m. dv_json disc_one ''{}'' = Some m \<and> dm_Issuer m = ''https://id/oidc'')"
  using disc_one_run discovery_stays_registered [OF disc_one_run, of "''{}''" 0] by (simp add: disc_one_def)

end
