(* ===== verification/Identity_Json.thy ===== *)
theory Identity_Json
  imports Identity Token_Jose
begin

text \<open>
  Reading of display names (\<open>DisplayNames.UnmarshalJSON\<close> in \<open>identity/display_names.go\<close>) over the token stream of a document, as in
  \<open>Token_Jose\<close>: \<open>tokens\<close> gives the tokens up to the first error and whether the document ends after them.
\<close>

section \<open>Reading\<close>

text \<open>\<open>decoder.Decode\<close> into a pointer to a string: a string, or null for no value.\<close>

fun decode_text :: "jtoken list \<Rightarrow> (string option \<times> jtoken list) option" where
  "decode_text (StringToken s # ts) = Some (Some s, ts)"
| "decode_text (NullToken # ts) = Some (None, ts)"
| "decode_text _ = None"

lemma decode_text_shorter: "decode_text ts = Some (v, rest) \<Longrightarrow> length rest < length ts"
  by (erule decode_text.elims) auto

function names_loop :: "string list \<Rightarrow> string option \<Rightarrow> string option \<Rightarrow> jtoken list \<Rightarrow> (string option \<times> string option \<times> jtoken list) option" where
  "names_loop seen username organizationName ts =
     (if \<not> decoder_more ts then Some (username, organizationName, ts)
      else case hd ts of
        StringToken name \<Rightarrow>
          if name \<in> set seen then None
          else if name = ''username'' then
            (case decode_text (tl ts) of None \<Rightarrow> None | Some (v, rest) \<Rightarrow> names_loop (name # seen) v organizationName rest)
          else if name = ''organization_name'' then
            (case decode_text (tl ts) of None \<Rightarrow> None | Some (v, rest) \<Rightarrow> names_loop (name # seen) username v rest)
          else None
      | _ \<Rightarrow> None)"
  by pat_completeness auto

termination
  by (relation "measure (\<lambda>(_, _, _, ts). length ts)") (auto dest!: decode_text_shorter)

declare names_loop.simps [simp del]

definition display_UnmarshalJSON :: "(string \<Rightarrow> jstream) \<Rightarrow> string \<Rightarrow> display_names option" where
  "display_UnmarshalJSON tokens raw =
     (if \<not> valid_utf8 raw then None
      else case tokens raw of (ts, ends) \<Rightarrow>
        (case ts of
           OpenObject # ts1 \<Rightarrow>
             (case names_loop [] None None ts1 of
                Some (Some username, Some organizationName, [CloseObject]) \<Rightarrow>
                  let decoded = \<lparr>Username = username, OrganizationName = organizationName\<rparr>
                  in if \<not> ends \<or> display_Validate decoded \<noteq> None then None else Some decoded
              | _ \<Rightarrow> None)
         | _ \<Rightarrow> None))"

section \<open>What is accepted\<close>

definition names_tokens :: "display_names \<Rightarrow> jtoken list set" where
  "names_tokens n =
     {[OpenObject, StringToken ''username'', StringToken (Username n), StringToken ''organization_name'', StringToken (OrganizationName n), CloseObject],
      [OpenObject, StringToken ''organization_name'', StringToken (OrganizationName n), StringToken ''username'', StringToken (Username n), CloseObject]}"

lemma decode_text_Some: "decode_text ts = Some (v, rest) \<longleftrightarrow> (\<exists>s. v = Some s \<and> ts = StringToken s # rest) \<or> v = None \<and> ts = NullToken # rest"
  by (cases ts rule: decode_text.cases) auto

lemma loop_done: "names_loop [a, b] u n ts = Some (Some u', Some n', [CloseObject]) \<Longrightarrow> {a, b} = {''username'', ''organization_name''} \<Longrightarrow> u = Some u' \<and> n = Some n' \<and> ts = [CloseObject]"
  by (subst (asm) names_loop.simps) (auto split: if_splits jtoken.splits)

lemma loop_second:
  assumes "names_loop [a] u n ts = Some (Some u', Some n', [CloseObject])" and "a = ''username'' \<and> n = None \<or> a = ''organization_name'' \<and> u = None"
  shows "(a = ''username'' \<and> u = Some u' \<and> ts = [StringToken ''organization_name'', StringToken n', CloseObject]) \<or>
    (a = ''organization_name'' \<and> n = Some n' \<and> ts = [StringToken ''username'', StringToken u', CloseObject])"
proof (cases "decoder_more ts")
  case True
  then obtain t rest where ts: "ts = t # rest" by (cases ts) auto
  show ?thesis using assms True unfolding ts
    by (subst (asm) names_loop.simps) (auto split: if_splits jtoken.splits option.splits simp: decode_text_Some dest!: loop_done)
qed (use assms in \<open>subst (asm) names_loop.simps, auto\<close>)

lemma loop_first:
  assumes "names_loop [] None None ts = Some (Some u, Some n, [CloseObject])"
  shows "OpenObject # ts \<in> names_tokens \<lparr>Username = u, OrganizationName = n\<rparr>"
proof (cases "decoder_more ts")
  case True
  then obtain t rest where ts: "ts = t # rest" by (cases ts) auto
  show ?thesis using assms True unfolding ts
    by (subst (asm) names_loop.simps) (auto split: if_splits jtoken.splits option.splits simp: decode_text_Some names_tokens_def dest!: loop_second)
qed (use assms in \<open>subst (asm) names_loop.simps, auto\<close>)

lemma loop_accepts: "OpenObject # ts \<in> names_tokens \<lparr>Username = u, OrganizationName = n\<rparr> \<Longrightarrow> names_loop [] None None ts = Some (Some u, Some n, [CloseObject])"
  by (auto simp: names_tokens_def names_loop.simps)

text \<open>Display names are read exactly from the objects with the two string members, in either order, each once and nothing else, in valid UTF-8, whose
  values are valid display names.\<close>

theorem display_names_exactly:
  "display_UnmarshalJSON tokens raw = Some n \<longleftrightarrow>
     valid_utf8 raw \<and> (\<exists>ts \<in> names_tokens n. tokens raw = (ts, True)) \<and> display_Validate n = None"
proof
  assume "display_UnmarshalJSON tokens raw = Some n"
  then obtain ts u o1 where "valid_utf8 raw" "tokens raw = (OpenObject # ts, True)" "names_loop [] None None ts = Some (Some u, Some o1, [CloseObject])"
    "n = \<lparr>Username = u, OrganizationName = o1\<rparr>" "display_Validate n = None"
    by (auto simp: display_UnmarshalJSON_def Let_def split: if_splits prod.splits list.splits jtoken.splits option.splits)
  then show "valid_utf8 raw \<and> (\<exists>ts \<in> names_tokens n. tokens raw = (ts, True)) \<and> display_Validate n = None" using loop_first by blast
next
  assume a: "valid_utf8 raw \<and> (\<exists>ts \<in> names_tokens n. tokens raw = (ts, True)) \<and> display_Validate n = None"
  then obtain ts where ts: "OpenObject # ts \<in> names_tokens n" "tokens raw = (OpenObject # ts, True)" by (auto simp: names_tokens_def)
  have "names_loop [] None None ts = Some (Some (Username n), Some (OrganizationName n), [CloseObject])" using ts(1) by (intro loop_accepts) (simp add: names_tokens_def)
  then show "display_UnmarshalJSON tokens raw = Some n" using a ts(2) by (simp add: display_UnmarshalJSON_def Let_def display_Validate_def)
qed

end
