(* ===== verification/Redis_Cache.thy ===== *)
theory Redis_Cache
  imports Redis_Service
begin

text \<open>
  The Redis cache (\<open>dbtools/redispool/redis_cache.go\<close>): strings, hashes, documents and locks over a Redis server, with requests that
  may be lost. The package functions on the shared cache are the same operations; they panic when the cache is not set, which is
  \<open>with_cache\<close>. Lists and sorted sets are calls of single commands that \<open>Redis_Service\<close> does not have.
\<close>

section \<open>Strings and hashes\<close>

datatype cache_error = CacheNil | CacheFailed string

text \<open>\<open>CacheInstance\<close>: \<open>None\<close> is the panic.\<close>

definition with_cache :: "'c option \<Rightarrow> ('c \<Rightarrow> 'a) \<Rightarrow> 'a option" where
  "with_cache std f = (case std of None \<Rightarrow> None | Some c \<Rightarrow> Some (f c))"

definition IsExist :: "'r redis \<Rightarrow> net \<Rightarrow> string \<Rightarrow> 'r \<Rightarrow> bool \<times> 'r" where
  "IsExist R n key r = (case via_net n (r_call R (EXISTS key)) r of (Inr (RInt k), r') \<Rightarrow> (k > 0, r') | (_, r') \<Rightarrow> (False, r'))"

definition cache_Get :: "'r redis \<Rightarrow> net \<Rightarrow> string \<Rightarrow> 'r \<Rightarrow> (cache_error + string) \<times> 'r" where
  "cache_Get R n key r =
     (case via_net n (r_call R (GET key)) r of
        (Inr (RBulk v), r') \<Rightarrow> (Inr v, r') | (Inr RNil, r') \<Rightarrow> (Inl CacheNil, r')
      | (Inl e, r') \<Rightarrow> (Inl (CacheFailed e), r') | (_, r') \<Rightarrow> (Inl (CacheFailed []), r'))"

text \<open>\<open>SETEX\<close> takes whole seconds; the client sends one for a positive duration below a second.\<close>

definition format_sec :: "duration \<Rightarrow> int" where
  "format_sec dur = (if 0 < dur \<and> dur < second then 1 else go_div dur second)"

definition SetEx :: "'r redis \<Rightarrow> net \<Rightarrow> string \<Rightarrow> string \<Rightarrow> duration \<Rightarrow> 'r \<Rightarrow> cache_error option \<times> 'r" where
  "SetEx R n key data expired r =
     (case via_net n (r_call R (SET_PX key data (itoa (format_sec expired * 1000)))) r of
        (Inl e, r') \<Rightarrow> (Some (CacheFailed e), r') | (Inr _, r') \<Rightarrow> (None, r'))"

definition cache_SetNX :: "'r redis \<Rightarrow> net \<Rightarrow> string \<Rightarrow> string \<Rightarrow> duration \<Rightarrow> 'r \<Rightarrow> (cache_error + bool) \<times> 'r" where
  "cache_SetNX R n key data expired r =
     (case via_net n (r_call R (SETNX_EX key data (milliseconds expired))) r of
        (Inr ROk, r') \<Rightarrow> (Inr True, r') | (Inr _, r') \<Rightarrow> (Inr False, r') | (Inl e, r') \<Rightarrow> (Inl (CacheFailed e), r'))"

definition cache_Del :: "'r redis \<Rightarrow> net \<Rightarrow> string \<Rightarrow> 'r \<Rightarrow> cache_error option \<times> 'r" where
  "cache_Del R n key r = (case via_net n (r_call R (DEL key)) r of (Inl e, r') \<Rightarrow> (Some (CacheFailed e), r') | (Inr _, r') \<Rightarrow> (None, r'))"

definition cache_HExists :: "'r redis \<Rightarrow> net \<Rightarrow> string \<Rightarrow> string \<Rightarrow> 'r \<Rightarrow> (cache_error + bool) \<times> 'r" where
  "cache_HExists R n key field r =
     (case via_net n (r_call R (HEXISTS key field)) r of
        (Inr (RInt k), r') \<Rightarrow> (Inr (k = 1), r') | (Inl e, r') \<Rightarrow> (Inl (CacheFailed e), r') | (_, r') \<Rightarrow> (Inl (CacheFailed []), r'))"

definition cache_HGet :: "'r redis \<Rightarrow> net \<Rightarrow> string \<Rightarrow> string \<Rightarrow> 'r \<Rightarrow> (cache_error + string) \<times> 'r" where
  "cache_HGet R n key field r =
     (case via_net n (r_call R (HGET key field)) r of
        (Inr (RBulk v), r') \<Rightarrow> (Inr v, r') | (Inr RNil, r') \<Rightarrow> (Inl CacheNil, r')
      | (Inl e, r') \<Rightarrow> (Inl (CacheFailed e), r') | (_, r') \<Rightarrow> (Inl (CacheFailed []), r'))"

definition cache_HSet :: "'r redis \<Rightarrow> net \<Rightarrow> string \<Rightarrow> string \<Rightarrow> string \<Rightarrow> 'r \<Rightarrow> (cache_error + int) \<times> 'r" where
  "cache_HSet R n key field v r =
     (case via_net n (r_call R (HSET key [(field, v)])) r of
        (Inr (RInt k), r') \<Rightarrow> (Inr k, r') | (Inl e, r') \<Rightarrow> (Inl (CacheFailed e), r') | (_, r') \<Rightarrow> (Inl (CacheFailed []), r'))"

text \<open>\<open>HMSet\<close>: fields and values in turn; the server refuses an odd number of them, and none.\<close>

fun pairs_of :: "string list \<Rightarrow> (string \<times> string) list option" where
  "pairs_of [] = Some []"
| "pairs_of [x] = None"
| "pairs_of (f # v # rest) = map_option (\<lambda>ps. (f, v) # ps) (pairs_of rest)"

definition HMSet :: "'r redis \<Rightarrow> net \<Rightarrow> string \<Rightarrow> string list \<Rightarrow> 'r \<Rightarrow> (cache_error + int) \<times> 'r" where
  "HMSet R n key vs r =
     (case pairs_of vs of
        Some (p # ps) \<Rightarrow>
          (case via_net n (r_call R (HSET key (p # ps))) r of
             (Inr (RInt k), r') \<Rightarrow> (Inr k, r') | (Inl e, r') \<Rightarrow> (Inl (CacheFailed e), r') | (_, r') \<Rightarrow> (Inl (CacheFailed []), r'))
      | _ \<Rightarrow> (Inl (CacheFailed ''ERR wrong number of arguments for 'hset' command''), r))"

text \<open>The package functions on the shared cache.\<close>

definition SetString :: "'r redis option \<Rightarrow> net \<Rightarrow> string \<Rightarrow> string \<Rightarrow> duration \<Rightarrow> 'r \<Rightarrow> (cache_error option \<times> 'r) option" where
  "SetString std n key v timeout r = with_cache std (\<lambda>c. SetEx c n key v timeout r)"

definition GetString :: "'r redis option \<Rightarrow> net \<Rightarrow> string \<Rightarrow> 'r \<Rightarrow> ((cache_error + string) \<times> 'r) option" where
  "GetString std n key r = with_cache std (\<lambda>c. cache_Get c n key r)"

definition std_Del :: "'r redis option \<Rightarrow> net \<Rightarrow> string \<Rightarrow> 'r \<Rightarrow> (cache_error option \<times> 'r) option" where
  "std_Del std n key r = with_cache std (\<lambda>c. cache_Del c n key r)"

definition std_SetNX :: "'r redis option \<Rightarrow> net \<Rightarrow> string \<Rightarrow> string \<Rightarrow> duration \<Rightarrow> 'r \<Rightarrow> ((cache_error + bool) \<times> 'r) option" where
  "std_SetNX std n key data expired r = with_cache std (\<lambda>c. cache_SetNX c n key data expired r)"

section \<open>Documents\<close>

definition cache_SetJSON :: "('v \<Rightarrow> string + string) \<Rightarrow> 'r redis \<Rightarrow> net \<Rightarrow> string \<Rightarrow> 'v \<Rightarrow> duration \<Rightarrow> 'r \<Rightarrow> cache_error option \<times> 'r" where
  "cache_SetJSON marshal R n key v expired r =
     (case marshal v of Inl e \<Rightarrow> (Some (CacheFailed e), r) | Inr data \<Rightarrow> SetEx R n key data expired r)"

definition cache_GetJSON :: "(string \<Rightarrow> string + 'v) \<Rightarrow> 'r redis \<Rightarrow> net \<Rightarrow> string \<Rightarrow> 'r \<Rightarrow> (cache_error + 'v) \<times> 'r" where
  "cache_GetJSON unmarshal R n key r =
     (case cache_Get R n key r of (Inl e, r') \<Rightarrow> (Inl e, r')
      | (Inr data, r') \<Rightarrow> (case unmarshal data of Inl e \<Rightarrow> (Inl (CacheFailed e), r') | Inr v \<Rightarrow> (Inr v, r')))"

section \<open>Locks\<close>

text \<open>The functions of this section act on the shared cache that \<open>CacheInstance\<close> has found.\<close>

definition GetLock :: "'r redis \<Rightarrow> net \<Rightarrow> string \<Rightarrow> duration \<Rightarrow> 'r \<Rightarrow> bool \<times> 'r" where
  "GetLock R n key expired r =
     (case via_net n (r_call R (SETNX_EX key (itoa 1) (milliseconds expired))) r of (Inr ROk, r') \<Rightarrow> (True, r') | (_, r') \<Rightarrow> (False, r'))"

text \<open>\<open>Lock\<close>: at most a hundred rounds, ten milliseconds apart; \<open>fates\<close> are those of the requests, \<open>others\<close> what happens while the caller sleeps.\<close>

fun lock_rounds :: "nat \<Rightarrow> 'r redis \<Rightarrow> (nat \<Rightarrow> net) \<Rightarrow> ('r \<Rightarrow> 'r) \<Rightarrow> string \<Rightarrow> duration \<Rightarrow> 'r \<Rightarrow> cache_error option \<times> 'r" where
  "lock_rounds 0 R fates others key expired r = (Some (CacheFailed ''lock failed''), r)"
| "lock_rounds (Suc i) R fates others key expired r =
     (case GetLock R (fates i) key expired r of
        (True, r') \<Rightarrow> (None, r')
      | (False, r') \<Rightarrow> lock_rounds i R fates others key expired (others (r_wait R 10 r')))"

definition cache_Lock :: "'r redis \<Rightarrow> (nat \<Rightarrow> net) \<Rightarrow> ('r \<Rightarrow> 'r) \<Rightarrow> string \<Rightarrow> duration \<Rightarrow> 'r \<Rightarrow> cache_error option \<times> 'r" where
  "cache_Lock R fates others key expired r = lock_rounds 100 R fates others key expired r"

definition UnLock :: "'r redis \<Rightarrow> net \<Rightarrow> string \<Rightarrow> 'r \<Rightarrow> cache_error option \<times> 'r" where
  "UnLock R n key r = cache_Del R n key r"

text \<open>
  \<open>LockWithTimeout\<close>: a round is the fate of its request and the time that has passed since the start when it looks at the clock; \<open>None\<close>
  means that the loop has not ended after the given rounds.
\<close>

fun LockWithTimeout :: "'r redis \<Rightarrow> (net \<times> duration) list \<Rightarrow> ('r \<Rightarrow> 'r) \<Rightarrow> string \<Rightarrow> duration \<Rightarrow> duration \<Rightarrow> duration \<Rightarrow> 'r \<Rightarrow> (bool \<times> 'r) option" where
  "LockWithTimeout R [] others key expired interval timeout r = None"
| "LockWithTimeout R ((n, passed) # rounds) others key expired interval timeout r =
     (case GetLock R n key expired r of
        (True, r') \<Rightarrow> Some (True, r')
      | (False, r') \<Rightarrow>
          if passed > timeout then Some (False, r')
          else LockWithTimeout R rounds others key expired interval timeout (others (r_wait R (milliseconds interval) r')))"

section \<open>Properties\<close>

lemma via_net_Inr: "via_net n m r = (Inr v, r') \<Longrightarrow> m r = (Inr v, r')"
  by (cases n) (auto simp: via_net_def)

lemma call_doc:
  assumes "redis_ok R" and "r_call R c r = (v, r')"
  shows "v = fst (redis_doc c (r_db R r)) \<and> r_db R r' = snd (redis_doc c (r_db R r))"
  using assms unfolding redis_ok_def cmd_sim_def by (metis fst_conv snd_conv)

text \<open>A lock that is reported as taken was free, and is held from then on with its deadline.\<close>

lemma GetLock_taken:
  assumes ok: "redis_ok R" and g: "GetLock R n key expired r = (True, r')"
  shows "db_live (r_db R r) key = None \<and>
    db_keys (r_db R r') key = Some (RString (itoa 1), if milliseconds expired > 0 then Some (db_clock (r_db R r) + milliseconds expired) else None)"
proof -
  have "via_net n (r_call R (SETNX_EX key (itoa 1) (milliseconds expired))) r = (Inr ROk, r')"
    using g by (auto simp: GetLock_def split: prod.splits sum.splits redis_reply.splits)
  from call_doc [OF ok via_net_Inr [OF this]] show ?thesis by (cases "db_live (r_db R r) key") (auto simp: db_put_def)
qed

theorem cache_lock_exclusive:
  assumes ok: "redis_ok R" and l: "cache_Lock R fates others key expired r = (None, r')"
  shows "\<exists>r0. db_live (r_db R r0) key = None \<and>
    db_keys (r_db R r') key = Some (RString (itoa 1), if milliseconds expired > 0 then Some (db_clock (r_db R r0) + milliseconds expired) else None)"
proof -
  have "lock_rounds k R fates others key expired r = (None, r') \<Longrightarrow> \<exists>r0 n. GetLock R n key expired r0 = (True, r')" for k
    by (induction k arbitrary: r) (auto split: prod.splits bool.splits)
  then obtain r0 n where "GetLock R n key expired r0 = (True, r')" using l unfolding cache_Lock_def by blast
  from GetLock_taken [OF ok this] show ?thesis by blast
qed

text \<open>\<open>LockWithTimeout\<close> ends at the latest with the first round that looks at the clock after the timeout.\<close>

theorem lock_with_timeout_ends:
  assumes "length rounds > k" and "snd (rounds ! k) > timeout"
  shows "LockWithTimeout R rounds others key expired interval timeout r \<noteq> None"
  using assms
proof (induction rounds arbitrary: k r)
  case (Cons x rounds)
  then show ?case by (cases x; cases k) (auto split: prod.splits bool.splits)
qed simp

text \<open>A string is read back until it expires.\<close>

theorem cached_string_is_read:
  assumes ok: "redis_ok R" and s: "SetEx R n key data expired r = (None, r1)" and del: "n = Delivered" and w: "0 \<le> ms" "ms < format_sec expired * 1000" and big: "int64 (format_sec expired * 1000)"
  shows "fst (cache_Get R Delivered key (r_wait R ms r1)) = Inr data"
proof -
  obtain v where "via_net n (r_call R (SET_PX key data (itoa (format_sec expired * 1000)))) r = (Inr v, r1)"
    using s by (auto simp: SetEx_def split: prod.splits sum.splits)
  from call_doc [OF ok via_net_Inr [OF this]]
  obtain t where t: "redis_int (itoa (format_sec expired * 1000)) = Some t" "db_keys (r_db R r1) key = Some (RString data, Some (db_clock (r_db R r) + t))" "db_clock (r_db R r1) = db_clock (r_db R r)"
    by (auto simp: db_put_def split: option.splits if_splits)
  have "t = format_sec expired * 1000" using t(1) big by (simp add: redis_int_itoa)
  then have live: "db_live (r_db R (r_wait R ms r1)) key = Some (RString data, Some (db_clock (r_db R r) + t))"
    using ok w t by (simp add: redis_ok_def db_live_def entry_live_def db_wait_def)
  obtain a b where c: "r_call R (GET key) (r_wait R ms r1) = (a, b)" by (metis surj_pair)
  from call_doc [OF ok c] live show ?thesis using c by (simp add: cache_Get_def via_net_def)
qed

end
