(* ===== verification/Settings.thy ===== *)
theory Settings
  imports Request_Context Sql_Service
begin

text \<open>
  Settings in the database (\<open>settings/settings.go\<close>): rows under a group and a key, written by insertion or update and read back. \<open>same\<close> is
  the collation of the columns; YAML and JSON are codecs given as arguments. The unique index is on group and key alone, so a
  deleted row still has its key.
\<close>

section \<open>Rows\<close>

type_synonym value_type = string

definition ValueText :: value_type where "ValueText = ''text''"
definition ValueInt64 :: value_type where "ValueInt64 = ''int64''"
definition ValueBool :: value_type where "ValueBool = ''bool''"
definition ValueJSON :: value_type where "ValueJSON = ''json''"
definition ValueYaml :: value_type where "ValueYaml = ''yaml''"

record setting_item =
  si_ID :: nat
  si_CreatedAt :: time
  si_UpdatedAt :: time
  si_DeletedAt :: "time option"
  si_Group :: string
  si_Key :: string
  si_Name :: string
  si_Describe :: string
  si_ValueType :: value_type
  si_Value :: string
  si_Default :: string

definition empty_setting :: setting_item where
  "empty_setting = \<lparr>si_ID = 0, si_CreatedAt = zero_time, si_UpdatedAt = zero_time, si_DeletedAt = None, si_Group = [], si_Key = [], si_Name = [], si_Describe = [],
     si_ValueType = [], si_Value = [], si_Default = []\<rparr>"

datatype settings_error = SettingsDB | SettingsNotFound | SettingsInvalidDB | SettingsContext ctx_err | SettingsCodec string

section \<open>Writing\<close>

definition same_key :: "(string \<Rightarrow> string \<Rightarrow> bool) \<Rightarrow> string \<Rightarrow> string \<Rightarrow> setting_item \<Rightarrow> bool" where
  "same_key same grp key r \<longleftrightarrow> same (si_Group r) grp \<and> same (si_Key r) key"

text \<open>The columns of \<open>DoUpdates\<close> are taken from the new row.\<close>

definition take_columns :: "setting_item \<Rightarrow> setting_item \<Rightarrow> setting_item" where
  "take_columns v r = r\<lparr>si_Name := si_Name v, si_Describe := si_Describe v, si_Value := si_Value v, si_ValueType := si_ValueType v, si_Default := si_Default v\<rparr>"

text \<open>GORM sets the times of a new row, and its type to the default of the column when it has none.\<close>

definition stamped_setting :: "time \<Rightarrow> setting_item \<Rightarrow> setting_item" where
  "stamped_setting now v =
     v\<lparr>si_CreatedAt := (if is_zero (si_CreatedAt v) then now else si_CreatedAt v), si_UpdatedAt := (if is_zero (si_UpdatedAt v) then now else si_UpdatedAt v),
       si_ValueType := (if si_ValueType v = [] then ValueText else si_ValueType v)\<rparr>"

definition UpsertSetting :: "(setting_item, 'd) sqltab \<Rightarrow> (string \<Rightarrow> string \<Rightarrow> bool) \<Rightarrow> time \<Rightarrow> setting_item \<Rightarrow> 'd session \<Rightarrow> settings_error option \<times> 'd session" where
  "UpsertSetting T same now v s =
     (let v' = stamped_setting now v
      in case sql_insert_update T (same_key same (si_Group v) (si_Key v)) v' (take_columns v') s of (Inl _, s') \<Rightarrow> (Some SettingsDB, s') | (Inr _, s') \<Rightarrow> (None, s'))"

definition SetText :: "(setting_item, 'd) sqltab \<Rightarrow> (string \<Rightarrow> string \<Rightarrow> bool) \<Rightarrow> time \<Rightarrow> string \<Rightarrow> string \<Rightarrow> string \<Rightarrow> 'd session \<Rightarrow> settings_error option \<times> 'd session" where
  "SetText T same now grp key v s =
     UpsertSetting T same now (empty_setting\<lparr>si_Group := grp, si_Key := key, si_Value := v, si_ValueType := ValueText\<rparr>) s"

definition settings_Set :: "(setting_item, 'd) sqltab \<Rightarrow> (string \<Rightarrow> string \<Rightarrow> bool) \<Rightarrow> time \<Rightarrow> string \<Rightarrow> string \<Rightarrow> string \<Rightarrow> 'd session \<Rightarrow> settings_error option \<times> 'd session" where
  "settings_Set T same now grp key v s = SetText T same now grp key v s"

definition SetYaml ::
  "('v \<Rightarrow> string + string) \<Rightarrow> (setting_item, 'd) sqltab \<Rightarrow> (string \<Rightarrow> string \<Rightarrow> bool) \<Rightarrow> time \<Rightarrow> string \<Rightarrow> string \<Rightarrow> 'v \<Rightarrow> 'd session \<Rightarrow> settings_error option \<times> 'd session" where
  "SetYaml marshal T same now grp key v s =
     (case marshal v of Inl e \<Rightarrow> (Some (SettingsCodec e), s)
      | Inr data \<Rightarrow> UpsertSetting T same now (empty_setting\<lparr>si_Group := grp, si_Key := key, si_Value := data, si_ValueType := ValueYaml\<rparr>) s)"

section \<open>Reading\<close>

text \<open>\<open>Find\<close> gives the zero value when there is no row.\<close>

definition settings_GetByID :: "(setting_item, 'd) sqltab \<Rightarrow> nat \<Rightarrow> 'd session \<Rightarrow> (settings_error + setting_item) \<times> 'd session" where
  "settings_GetByID T i s =
     (case sql_select T (filter (\<lambda>r. si_DeletedAt r = None \<and> si_ID r = i)) s of
        (Inl _, s') \<Rightarrow> (Inl SettingsDB, s') | (Inr [], s') \<Rightarrow> (Inr empty_setting, s') | (Inr (r # _), s') \<Rightarrow> (Inr r, s'))"

text \<open>\<open>getContext\<close>: \<open>ctx\<close> is the context with its error, \<open>db\<close> says that there is a database.\<close>

definition getContext ::
  "ctx_err option option \<Rightarrow> bool \<Rightarrow> (setting_item, 'd) sqltab \<Rightarrow> (string \<Rightarrow> string \<Rightarrow> bool) \<Rightarrow> string \<Rightarrow> string \<Rightarrow> 'd session \<Rightarrow> (settings_error + setting_item) \<times> 'd session" where
  "getContext ctx db T same grp key s =
     (case ctx of None \<Rightarrow> (Inl SettingsInvalidDB, s)
      | Some e \<Rightarrow>
         if \<not> db then (Inl SettingsInvalidDB, s)
         else (case e of Some x \<Rightarrow> (Inl (SettingsContext x), s)
           | None \<Rightarrow>
              (case sql_select T (\<lambda>rows. take 1 (sort_key si_ID (filter (\<lambda>r. si_DeletedAt r = None \<and> same_key same grp key r) rows))) s of
                 (Inl _, s') \<Rightarrow> (Inl SettingsDB, s') | (Inr [], s') \<Rightarrow> (Inl SettingsNotFound, s') | (Inr (r # _), s') \<Rightarrow> (Inr r, s'))))"

definition getValueContext ::
  "ctx_err option option \<Rightarrow> bool \<Rightarrow> (setting_item, 'd) sqltab \<Rightarrow> (string \<Rightarrow> string \<Rightarrow> bool) \<Rightarrow> string \<Rightarrow> string \<Rightarrow> 'd session \<Rightarrow> (settings_error + string) \<times> 'd session" where
  "getValueContext ctx db T same grp key s =
     (case getContext ctx db T same grp key s of (Inl e, s') \<Rightarrow> (Inl e, s') | (Inr si, s') \<Rightarrow> (Inr (si_Value si), s'))"

definition getYamlContext ::
  "(string \<Rightarrow> string + 'v) \<Rightarrow> ctx_err option option \<Rightarrow> bool \<Rightarrow> (setting_item, 'd) sqltab \<Rightarrow> (string \<Rightarrow> string \<Rightarrow> bool) \<Rightarrow> string \<Rightarrow> string \<Rightarrow> 'd session \<Rightarrow> (settings_error + 'v) \<times> 'd session" where
  "getYamlContext unmarshal ctx db T same grp key s =
     (case getValueContext ctx db T same grp key s of (Inl e, s') \<Rightarrow> (Inl e, s')
      | (Inr t, s') \<Rightarrow> (case unmarshal t of Inl e \<Rightarrow> (Inl (SettingsCodec e), s') | Inr v \<Rightarrow> (Inr v, s')))"

definition GetYamlContext ::
  "(string \<Rightarrow> string + 'v) \<Rightarrow> ctx_err option option \<Rightarrow> bool \<Rightarrow> (setting_item, 'd) sqltab \<Rightarrow> (string \<Rightarrow> string \<Rightarrow> bool) \<Rightarrow> string \<Rightarrow> string \<Rightarrow> 'd session \<Rightarrow> (settings_error + 'v) \<times> 'd session" where
  "GetYamlContext unmarshal ctx db T same grp key s =
     (case ctx of None \<Rightarrow> (Inl SettingsInvalidDB, s)
      | Some e \<Rightarrow>
         if \<not> db then (Inl SettingsInvalidDB, s)
         else (case e of Some x \<Rightarrow> (Inl (SettingsContext x), s) | None \<Rightarrow> getYamlContext unmarshal ctx db T same grp key s))"

definition settings_GetValue :: "(setting_item, 'd) sqltab \<Rightarrow> (string \<Rightarrow> string \<Rightarrow> bool) \<Rightarrow> string \<Rightarrow> string \<Rightarrow> 'd session \<Rightarrow> (settings_error + string) \<times> 'd session" where
  "settings_GetValue T same grp key s = getValueContext (Some None) True T same grp key s"

definition settings_GetText :: "(setting_item, 'd) sqltab \<Rightarrow> (string \<Rightarrow> string \<Rightarrow> bool) \<Rightarrow> string \<Rightarrow> string \<Rightarrow> 'd session \<Rightarrow> (settings_error + string) \<times> 'd session" where
  "settings_GetText T same grp key s = settings_GetValue T same grp key s"

definition settings_Get :: "(setting_item, 'd) sqltab \<Rightarrow> (string \<Rightarrow> string \<Rightarrow> bool) \<Rightarrow> string \<Rightarrow> string \<Rightarrow> 'd session \<Rightarrow> (settings_error + setting_item) \<times> 'd session" where
  "settings_Get T same grp key s = getContext (Some None) True T same grp key s"

definition settings_GetYaml ::
  "(string \<Rightarrow> string + 'v) \<Rightarrow> (setting_item, 'd) sqltab \<Rightarrow> (string \<Rightarrow> string \<Rightarrow> bool) \<Rightarrow> string \<Rightarrow> string \<Rightarrow> 'd session \<Rightarrow> (settings_error + 'v) \<times> 'd session" where
  "settings_GetYaml unmarshal T same grp key s = getYamlContext unmarshal (Some None) True T same grp key s"

definition settings_GetJSON ::
  "(string \<Rightarrow> string + 'v) \<Rightarrow> (setting_item, 'd) sqltab \<Rightarrow> (string \<Rightarrow> string \<Rightarrow> bool) \<Rightarrow> string \<Rightarrow> string \<Rightarrow> 'd session \<Rightarrow> (settings_error + 'v) \<times> 'd session" where
  "settings_GetJSON unmarshal T same grp key s =
     (case settings_GetValue T same grp key s of (Inl e, s') \<Rightarrow> (Inl e, s')
      | (Inr t, s') \<Rightarrow> (case unmarshal t of Inl e \<Rightarrow> (Inl (SettingsCodec e), s') | Inr v \<Rightarrow> (Inr v, s')))"

section \<open>What is set is read\<close>

definition settings_table :: "(setting_item, 'd) sqltab \<Rightarrow> bool" where
  "settings_table T \<longleftrightarrow> sql_ok T \<and> with_id T = (\<lambda>n r. r\<lparr>si_ID := n\<rparr>)"

lemma update_first_append: "\<not> list_ex p xs \<Longrightarrow> p r \<Longrightarrow> update_first p f (xs @ r # ys) = xs @ f r # ys"
  by (induction xs) auto

lemma read_row:
  assumes ok: "sql_ok T" and f: "s_fates s = []" and rows: "t_rows T (s_db s) = xs @ r # ys" and x: "\<not> list_ex (same_key same grp key) (xs @ ys)"
    and r: "same_key same grp key r" "si_DeletedAt r = None"
  shows "\<exists>s'. settings_GetValue T same grp key s = (Inr (si_Value r), s')"
proof -
  have none: "filter (\<lambda>r. si_DeletedAt r = None \<and> same_key same grp key r) xs = []" "filter (\<lambda>r. si_DeletedAt r = None \<and> same_key same grp key r) ys = []" using x by (auto simp: filter_empty_conv list_ex_iff)
  have "take 1 (sort_key si_ID (filter (\<lambda>r. si_DeletedAt r = None \<and> same_key same grp key r) (t_rows T (s_db s)))) = [r]" unfolding rows using none r by simp
  then show ?thesis using sql_delivered(1) [OF ok f, of "\<lambda>rows. take 1 (sort_key si_ID (filter (\<lambda>r. si_DeletedAt r = None \<and> same_key same grp key r) rows))"]
    by (auto simp: settings_GetValue_def getValueContext_def getContext_def)
qed

text \<open>The value that \<open>Set\<close> has stored is the one that \<open>GetValue\<close> reads, when no deleted row holds the key (a deleted row keeps it hidden)
  and the unique index has been kept.\<close>

theorem set_then_get:
  assumes T: "settings_table T" and refl: "\<And>a. same a a" and f: "s_fates s = []"
    and live: "\<forall>r \<in> set (t_rows T (s_db s)). same_key same grp key r \<longrightarrow> si_DeletedAt r = None"
    and unique: "length (filter (same_key same grp key) (t_rows T (s_db s))) \<le> 1"
  shows "\<exists>s' s''. settings_Set T same now grp key v s = (None, s') \<and> settings_GetValue T same grp key s' = (Inr v, s'')"
proof -
  let ?v = "stamped_setting now (empty_setting\<lparr>si_Group := grp, si_Key := key, si_Value := v, si_ValueType := ValueText\<rparr>)"
  let ?p = "same_key same grp key" and ?rows = "t_rows T (s_db s)"
  have ok: "sql_ok T" using T by (simp add: settings_table_def)
  obtain reply s1 where q: "sql T (InsertUpdate ?p ?v (take_columns ?v)) s = (reply, s1)" by (meson surj_pair)
  have law: "(fst (t_exec T c d), t_rows T (snd (t_exec T c d)), t_next T (snd (t_exec T c d))) = sql_doc T c (t_rows T d) (t_next T d)" for c d
    using ok unfolding sql_ok_def by blast
  have q1: "reply = Inr (fst (t_exec T (InsertUpdate ?p ?v (take_columns ?v)) (s_db s)))" "s_db s1 = snd (t_exec T (InsertUpdate ?p ?v (take_columns ?v)) (s_db s))" "s_fates s1 = []"
    using q f by (auto simp: sql_def Let_def)
  have rows1: "t_rows T (s_db s1) = fst (snd (sql_doc T (InsertUpdate ?p ?v (take_columns ?v)) ?rows (t_next T (s_db s))))"
    unfolding q1(2) law [of "InsertUpdate ?p ?v (take_columns ?v)" "s_db s", symmetric] by simp
  have set: "settings_Set T same now grp key v s = (None, s1)"
    using q q1(1) by (simp add: settings_Set_def SetText_def UpsertSetting_def sql_insert_update_def Let_def)
  have "\<exists>s''. settings_GetValue T same grp key s1 = (Inr v, s'')"
  proof (cases "list_ex ?p ?rows")
    case True
    then have "\<exists>r \<in> set ?rows. ?p r" by (simp add: list_ex_iff)
    from split_list_first_prop [OF this] obtain xs r ys where split: "?rows = xs @ r # ys" "?p r" "\<forall>x \<in> set xs. \<not> ?p x" by blast
    have nx: "\<not> list_ex ?p xs" using split(3) by (simp add: list_ex_iff)
    have "filter ?p ys = []" using unique split(2) unfolding split(1) by simp
    then have ny: "\<not> list_ex ?p (xs @ ys)" using nx by (auto simp: filter_empty_conv list_ex_iff)
    have "t_rows T (s_db s1) = xs @ take_columns ?v r # ys" using rows1 True split(1,2) update_first_append [OF nx split(2)] by simp
    moreover have "?p (take_columns ?v r)" "si_DeletedAt (take_columns ?v r) = None" using split live by (simp_all add: take_columns_def same_key_def)
    ultimately obtain s2 where "settings_GetValue T same grp key s1 = (Inr (si_Value (take_columns ?v r)), s2)" using read_row [OF ok q1(3) _ ny] by blast
    then show ?thesis by (simp add: take_columns_def stamped_setting_def)
  next
    case False
    then have "t_rows T (s_db s1) = ?rows @ (?v\<lparr>si_ID := t_next T (s_db s)\<rparr>) # []" using rows1 T by (simp add: settings_table_def)
    moreover have "?p (?v\<lparr>si_ID := t_next T (s_db s)\<rparr>)" "si_DeletedAt (?v\<lparr>si_ID := t_next T (s_db s)\<rparr>) = None" by (simp_all add: same_key_def stamped_setting_def empty_setting_def refl)
    ultimately obtain s2 where "settings_GetValue T same grp key s1 = (Inr (si_Value (?v\<lparr>si_ID := t_next T (s_db s)\<rparr>)), s2)" using read_row [OF ok q1(3)] False by (metis append_Nil2)
    then show ?thesis by (simp add: stamped_setting_def)
  qed
  then show ?thesis using set by blast
qed

text \<open>Setting a value takes over every column of the new row: name, description and default of a stored setting are emptied.\<close>

lemma set_clears_texts:
  assumes "v = stamped_setting now (empty_setting\<lparr>si_Group := grp, si_Key := key, si_Value := x, si_ValueType := ValueText\<rparr>)"
  shows "si_Name (take_columns v r) = []" "si_Describe (take_columns v r) = []" "si_Default (take_columns v r) = []"
  using assms by (simp_all add: take_columns_def stamped_setting_def empty_setting_def)

end
