(* ===== verification/Lifecycle.thy ===== *)
theory Lifecycle
  imports Go_Base Step_Invariant
begin

text \<open>
  The end of a process (\<open>lifecycle/lifecycle.go\<close>): the closers that run before it, the time they are given and what the process exits
  with. A closer is known by how long it takes, \<open>None\<close> if it never returns.
\<close>

section \<open>State\<close>

record lifecycle =
  lc_cancelled :: bool
  lc_exit :: bool
  lc_timeout :: duration
  lc_signals :: "string list"
  lc_closers :: "duration option list"

definition lc_New :: lifecycle where
  "lc_New = \<lparr>lc_cancelled = False, lc_exit = False, lc_timeout = 15 * second, lc_signals = [''terminated'', ''interrupt''], lc_closers = []\<rparr>"

definition SetSignals :: "string list \<Rightarrow> lifecycle \<Rightarrow> lifecycle" where
  "SetSignals sigs l = l\<lparr>lc_signals := sigs\<rparr>"

definition SetTimeout :: "duration \<Rightarrow> lifecycle \<Rightarrow> lifecycle" where
  "SetTimeout d l = l\<lparr>lc_timeout := d\<rparr>"

definition AddCloser :: "duration option \<Rightarrow> lifecycle \<Rightarrow> lifecycle" where
  "AddCloser clr l = l\<lparr>lc_closers := lc_closers l @ [clr]\<rparr>"

definition CancelContext :: "lifecycle \<Rightarrow> lifecycle" where
  "CancelContext l = (if lc_cancelled l then l else l\<lparr>lc_cancelled := True\<rparr>)"

text \<open>\<open>Exit\<close> closes the channel unless it is closed.\<close>

definition lc_Exit :: "lifecycle \<Rightarrow> lifecycle" where
  "lc_Exit l = (if lc_exit l then l else l\<lparr>lc_exit := True\<rparr>)"

text \<open>\<open>WaitExit\<close> up to its end: the signals that arrive, and the closing of the channel as \<open>None\<close>. The result says whether it has come to the end.\<close>

fun WaitExit :: "lifecycle \<Rightarrow> string option list \<Rightarrow> bool" where
  "WaitExit l [] = False"
| "WaitExit l (Some sig # events) = (if sig \<in> set (lc_signals l) then True else WaitExit l events)"
| "WaitExit l (None # events) = True"

text \<open>
  \<open>exit\<close>: the code and the time of the end of the process, counted from its call, and how many closers were started. A timer ends the process at the
  timeout; otherwise it ends a second after the last closer. When both fall together either may come first.
\<close>

inductive exits :: "lifecycle \<Rightarrow> nat \<Rightarrow> duration \<Rightarrow> nat \<Rightarrow> bool" where
  forced: "lc_timeout l < 1000 \<Longrightarrow> exits l 0 0 0"
| completed: "\<not> lc_timeout l < 1000 \<Longrightarrow> lc_closers l = map Some ds \<Longrightarrow> last_end = fold max ds 0 \<Longrightarrow> last_end + second \<le> lc_timeout l \<Longrightarrow>
    exits l 0 (last_end + second) (length (lc_closers l))"
| timed_out: "\<not> lc_timeout l < 1000 \<Longrightarrow> (\<And>ds. lc_closers l = map Some ds \<Longrightarrow> lc_timeout l \<le> fold max ds 0 + second) \<Longrightarrow>
    exits l 1 (lc_timeout l) (length (lc_closers l))"

section \<open>Concurrent calls of Exit\<close>

text \<open>\<open>closeCh\<close> looks at the channel and then closes it, without a lock: \<open>Looked\<close> callers have found it open.\<close>

datatype exit_phase = Calling | Looked | Returned | Panicked

record exit_state =
  xt_closed :: bool
  xt_phase :: "nat \<Rightarrow> exit_phase"

inductive exit_step :: "exit_state \<Rightarrow> exit_state \<Rightarrow> bool" where
  found_closed: "xt_phase s c = Calling \<Longrightarrow> xt_closed s \<Longrightarrow> exit_step s (s\<lparr>xt_phase := (xt_phase s)(c := Returned)\<rparr>)"
| found_open: "xt_phase s c = Calling \<Longrightarrow> \<not> xt_closed s \<Longrightarrow> exit_step s (s\<lparr>xt_phase := (xt_phase s)(c := Looked)\<rparr>)"
| closes: "xt_phase s c = Looked \<Longrightarrow> \<not> xt_closed s \<Longrightarrow> exit_step s (s\<lparr>xt_closed := True, xt_phase := (xt_phase s)(c := Returned)\<rparr>)"
| closes_again: "xt_phase s c = Looked \<Longrightarrow> xt_closed s \<Longrightarrow> exit_step s (s\<lparr>xt_phase := (xt_phase s)(c := Panicked)\<rparr>)"

section \<open>Properties\<close>

lemma fold_max_start: "(m :: int) \<le> fold max ds m"
  by (induction ds arbitrary: m) (auto intro: order_trans [OF max.cobounded2])

lemma fold_max_ge: "d \<in> set ds \<Longrightarrow> (d :: int) \<le> fold max ds m"
  by (induction ds arbitrary: m) (auto intro: order_trans [OF max.cobounded1 fold_max_start])

lemma exits_possible: "\<exists>code at started. exits l code at started"
proof (cases "lc_timeout l < 1000")
  case False
  show ?thesis
  proof (cases "\<exists>ds. lc_closers l = map Some ds \<and> fold max ds 0 + second \<le> lc_timeout l")
    case True
    then show ?thesis using completed [OF False _ refl] by blast
  next
    case no: False
    then show ?thesis using timed_out [OF False] by (meson linear)
  qed
qed (use forced in blast)

text \<open>The process ends, within the timeout that was set; unless the timeout is below a microsecond every closer is started, and it exits with zero only
  when all of them have returned.\<close>

theorem process_ends:
  "(\<exists>code at started. exits l code at started) \<and>
   (exits l code at started \<longrightarrow> 0 \<le> lc_timeout l \<longrightarrow> at \<le> max 0 (lc_timeout l) \<and>
      (1000 \<le> lc_timeout l \<longrightarrow> started = length (lc_closers l) \<and> (code = 0 \<longrightarrow> (\<forall>d \<in> set (lc_closers l). \<exists>t. d = Some t \<and> t < at))))"
proof (intro conjI impI exits_possible)
  assume e: "exits l code at started" and "0 \<le> lc_timeout l"
  then show "at \<le> max 0 (lc_timeout l)" by cases auto
next
  assume e: "exits l code at started" and t: "1000 \<le> lc_timeout l"
  from e show "started = length (lc_closers l)" by cases (use t in auto)
next
  assume e: "exits l code at started" and t: "1000 \<le> lc_timeout l" and c: "code = 0"
  from e c show "\<forall>d \<in> set (lc_closers l). \<exists>t. d = Some t \<and> t < at"
  proof cases
    case (completed ds last_end)
    then have "t \<le> last_end" if "t \<in> set ds" for t using fold_max_ge [OF that] by simp
    then show ?thesis using completed by (fastforce simp: second_def)
  qed (use t in auto)
qed

text \<open>One caller of \<open>Exit\<close> alone never closes the channel twice, but two at the same time may, which panics.\<close>

definition both_calling :: exit_state where
  "both_calling = \<lparr>xt_closed = False, xt_phase = (\<lambda>_. Calling)\<rparr>"

definition alone_inv :: "nat \<Rightarrow> exit_state \<Rightarrow> bool" where
  "alone_inv c s \<longleftrightarrow> (\<forall>d. d \<noteq> c \<longrightarrow> xt_phase s d = Returned) \<and> xt_phase s c \<noteq> Panicked \<and> (xt_phase s c = Looked \<longrightarrow> \<not> xt_closed s)"

lemma alone_step: "alone_inv c s \<Longrightarrow> exit_step s s' \<Longrightarrow> alone_inv c s'"
  by (erule exit_step.cases) (auto simp: alone_inv_def split: if_splits)

interpretation alone: step_invariant exit_step "alone_inv c" for c
  by unfold_locales (rule alone_step)

theorem exit_alone_is_safe:
  assumes "exit_step\<^sup>*\<^sup>* \<lparr>xt_closed = closed, xt_phase = (\<lambda>d. if d = c then Calling else Returned)\<rparr> s"
  shows "xt_phase s c \<noteq> Panicked"
  using alone.run_keeps [OF assms, of c] by (simp add: alone_inv_def)

theorem exit_race: "\<exists>s. exit_step\<^sup>*\<^sup>* both_calling s \<and> xt_phase s 1 = Panicked"
proof -
  let ?s1 = "\<lparr>xt_closed = False, xt_phase = (\<lambda>_. Calling)(0 := Looked)\<rparr>" and ?s2 = "\<lparr>xt_closed = False, xt_phase = (\<lambda>_. Calling)(0 := Looked, 1 := Looked)\<rparr>"
  let ?s3 = "\<lparr>xt_closed = True, xt_phase = (\<lambda>_. Calling)(0 := Looked, 1 := Looked, 0 := Returned)\<rparr>"
  let ?s4 = "\<lparr>xt_closed = True, xt_phase = (\<lambda>_. Calling)(0 := Looked, 1 := Looked, 0 := Returned, 1 := Panicked)\<rparr>"
  have "exit_step both_calling ?s1" "exit_step ?s1 ?s2" "exit_step ?s2 ?s3" "exit_step ?s3 ?s4"
    using found_open [of both_calling 0] found_open [of ?s1 1] closes [of ?s2 0] closes_again [of ?s3 1] by (simp_all add: both_calling_def)
  then have "exit_step\<^sup>*\<^sup>* both_calling ?s4" by (meson rtranclp.rtrancl_refl rtranclp.rtrancl_into_rtrancl)
  then show ?thesis by (intro exI [of _ ?s4]) simp
qed

end
