(* ===== verification/Server_Life.thy ===== *)
theory Server_Life
  imports Lifecycle
begin

text \<open>
  The servers of a process: the router (\<open>apis/runtime/server/server.go\<close>: options, prefixes, registration, start and end) and the
  listener for workers (\<open>task/worker_server.go\<close>). Middleware and handlers are of any type \<open>'m\<close>; the HTTP server is its state, started or
  not, and the outcome of its shutdown. Go maps have no order: prefixes are taken in the order in which they come first.
\<close>

section \<open>The router\<close>

definition PrefixAPIDefault :: string where "PrefixAPIDefault = ''/v1/''"
definition defaultGracefulShutdownTimeout :: duration where "defaultGracefulShutdownTimeout = 10 * second"

record 'm router =
  rt_Prefix :: string
  rt_prefixes :: "string list"
  rt_groups :: "string list"
  rt_cors :: 'm
  rt_middleware :: "'m list"
  rt_timeout :: duration
  rt_running :: bool
  rt_actions :: "string list"
  rt_routes :: "(string \<times> string \<times> string \<times> 'm list) list"

datatype 'm router_option =
    WithPrefixes "string list" | WithMiddleware "'m list" | WithCORS "'m option" | WithGracefulShutdownTimeout duration

fun apply_option :: "'m router_option \<Rightarrow> 'm router \<Rightarrow> 'm router" where
  "apply_option (WithPrefixes ps) svr =
     svr\<lparr>rt_prefixes := remdups ((if rt_Prefix svr \<noteq> [] then [rt_Prefix svr] else []) @ filter (\<lambda>p. p \<noteq> []) ps)\<rparr>"
| "apply_option (WithMiddleware ms) svr = svr\<lparr>rt_middleware := rt_middleware svr @ ms\<rparr>"
| "apply_option (WithCORS c) svr = (case c of None \<Rightarrow> svr | Some m \<Rightarrow> svr\<lparr>rt_cors := m\<rparr>)"
| "apply_option (WithGracefulShutdownTimeout t) svr = (if t \<le> 0 then svr else svr\<lparr>rt_timeout := t\<rparr>)"

text \<open>\<open>NewRouter\<close>: \<open>cors\<close> is the default CORS middleware and \<open>builtin\<close> the ones after it. The first place of the chain looks its middleware up when it is called.\<close>

definition NewRouter :: "'m \<Rightarrow> 'm list \<Rightarrow> string \<Rightarrow> 'm router_option list \<Rightarrow> 'm router" where
  "NewRouter cors builtin apiPrefix opts =
     (let prefix = (if apiPrefix = [] then PrefixAPIDefault else apiPrefix);
          svr0 = \<lparr>rt_Prefix = prefix, rt_prefixes = [], rt_groups = [], rt_cors = cors, rt_middleware = builtin, rt_timeout = defaultGracefulShutdownTimeout,
                  rt_running = False, rt_actions = [], rt_routes = []\<rparr>;
          svr1 = fold apply_option opts svr0;
          svr2 = (if rt_prefixes svr1 = [] then svr1\<lparr>rt_prefixes := [rt_Prefix svr1]\<rparr> else svr1)
      in svr2\<lparr>rt_groups := remdups (rt_prefixes svr2)\<rparr>)"

definition chain :: "'m router \<Rightarrow> 'm list" where
  "chain svr = rt_cors svr # rt_middleware svr"

text \<open>\<open>registerRoute\<close>: a handler is taken as it is or wrapped, by its kind.\<close>

datatype 'm raw_handler = GinHandler 'm | PlainFunc 'm | PlainHandler 'm | Reflected 'm

fun gin_handler :: "('m \<Rightarrow> 'm) \<Rightarrow> ('m \<Rightarrow> 'm) \<Rightarrow> ('m \<Rightarrow> 'm) \<Rightarrow> 'm raw_handler \<Rightarrow> 'm" where
  "gin_handler transHttp transHttpHdr transAPI (GinHandler m) = m"
| "gin_handler transHttp transHttpHdr transAPI (PlainFunc m) = transHttp m"
| "gin_handler transHttp transHttpHdr transAPI (PlainHandler m) = transHttpHdr m"
| "gin_handler transHttp transHttpHdr transAPI (Reflected m) = transAPI m"

record 'm adapters =
  ad_transHttp :: "'m \<Rightarrow> 'm"
  ad_transHttpHdr :: "'m \<Rightarrow> 'm"
  ad_transAPI :: "'m \<Rightarrow> 'm"

definition registerRoute :: "'m adapters \<Rightarrow> string \<Rightarrow> string \<Rightarrow> 'm raw_handler list \<Rightarrow> string \<Rightarrow> string \<times> string \<times> string \<times> 'm list" where
  "registerRoute A verb action hdrs p = (verb, p, action, map (gin_handler (ad_transHttp A) (ad_transHttpHdr A) (ad_transAPI A)) hdrs)"

definition register :: "'m adapters \<Rightarrow> string \<Rightarrow> string \<Rightarrow> 'm raw_handler list \<Rightarrow> 'm router \<Rightarrow> 'm router" where
  "register A verb action hdrs svr =
     svr\<lparr>rt_actions := List.insert action (rt_actions svr), rt_routes := rt_routes svr @ map (registerRoute A verb action hdrs) (rt_groups svr)\<rparr>"

definition router_Any :: "'m adapters \<Rightarrow> string \<Rightarrow> 'm raw_handler list \<Rightarrow> 'm router \<Rightarrow> 'm router" where "router_Any A = register A ''ANY''"
definition router_Post :: "'m adapters \<Rightarrow> string \<Rightarrow> 'm raw_handler list \<Rightarrow> 'm router \<Rightarrow> 'm router" where "router_Post A = register A ''POST''"
definition router_P :: "'m adapters \<Rightarrow> string \<Rightarrow> 'm raw_handler list \<Rightarrow> 'm router \<Rightarrow> 'm router" where "router_P A = router_Post A"
definition router_G :: "'m adapters \<Rightarrow> string \<Rightarrow> 'm raw_handler list \<Rightarrow> 'm router \<Rightarrow> 'm router" where "router_G A = register A ''GET''"

text \<open>\<open>Run\<close>: \<open>closing\<close> is how long \<open>Close\<close> of this router will take, the closer it adds to the life cycle.\<close>

definition router_Run :: "bool \<Rightarrow> duration option \<Rightarrow> 'm router \<Rightarrow> lifecycle \<Rightarrow> string option \<times> 'm router \<times> lifecycle" where
  "router_Run listener closing svr lc =
     (if \<not> listener then (Some ''server: nil listener'', svr, lc)
      else if rt_running svr then (Some ''server: router is already running'', svr, lc)
      else (None, svr\<lparr>rt_running := True\<rparr>, AddCloser closing lc))"

text \<open>What the goroutine of \<open>Run\<close> does when the HTTP server has returned, with or without an error.\<close>

definition router_served :: "lifecycle \<Rightarrow> lifecycle" where "router_served lc = lc_Exit lc"

text \<open>\<open>Close\<close>: \<open>shutdown\<close> is the outcome of draining the requests within a time.\<close>

definition router_Close :: "(duration \<Rightarrow> string option) \<Rightarrow> 'm router \<Rightarrow> string option" where
  "router_Close shutdown svr = (if \<not> rt_running svr then None else shutdown (rt_timeout svr))"

section \<open>The listener for workers\<close>

record worker_server =
  ws_listening :: bool
  ws_closed :: bool
  ws_once :: bool
  ws_closeErr :: "string option"

text \<open>\<open>NewWorkerServer\<close>: \<open>routes\<close> is the outcome of the registration, \<open>pair\<close>, \<open>pem\<close> and \<open>pool\<close> say whether certificate, file and authorities could be read.\<close>

definition NewWorkerServer :: "string \<Rightarrow> string option \<Rightarrow> bool \<Rightarrow> bool \<Rightarrow> bool \<Rightarrow> string + worker_server" where
  "NewWorkerServer address routes pair pem pool =
     (if address = [] then Inl ''task: invalid worker server configuration''
      else case routes of Some e \<Rightarrow> Inl e
      | None \<Rightarrow>
         if \<not> pair \<or> \<not> pem \<or> \<not> pool then Inl ''task: worker TLS unavailable''
         else Inr \<lparr>ws_listening = False, ws_closed = False, ws_once = False, ws_closeErr = None\<rparr>)"

definition worker_Serve :: "bool \<Rightarrow> worker_server \<Rightarrow> string option \<times> worker_server" where
  "worker_Serve listens s =
     (if ws_closed s \<or> ws_listening s then (Some ''task: worker listener unavailable'', s)
      else if \<not> listens then (Some ''task: worker listener unavailable'', s)
      else (None, s\<lparr>ws_listening := True\<rparr>))"

text \<open>The end of its goroutine: an error other than \<open>ErrServerClosed\<close> (\<open>failed\<close>) ends the process.\<close>

definition worker_served :: "bool \<Rightarrow> lifecycle \<Rightarrow> lifecycle" where "worker_served failed lc = (if failed then lc_Exit lc else lc)"

definition worker_Close :: "(duration \<Rightarrow> string option) \<Rightarrow> (unit \<Rightarrow> string option) \<Rightarrow> worker_server option \<Rightarrow> string option \<times> worker_server option" where
  "worker_Close shutdown close s =
     (case s of None \<Rightarrow> (None, None)
      | Some w \<Rightarrow>
         if ws_once w then (ws_closeErr w, Some w)
         else let err = (case shutdown (70 * second) of None \<Rightarrow> None
                        | Some e \<Rightarrow> Some (e @ (case close () of None \<Rightarrow> [] | Some f \<Rightarrow> CHR 0x0A # f)));
                  w1 = w\<lparr>ws_closed := True, ws_once := True, ws_closeErr := err\<rparr>
              in (err, Some w1))"

section \<open>Properties\<close>

lemma option_keeps:
  "rt_Prefix (apply_option o1 svr) = rt_Prefix svr \<and> rt_running (apply_option o1 svr) = rt_running svr \<and> (0 < rt_timeout svr \<longrightarrow> 0 < rt_timeout (apply_option o1 svr)) \<and>
   (rt_Prefix svr \<noteq> [] \<and> (rt_Prefix svr \<in> set (rt_prefixes svr) \<or> rt_prefixes svr = []) \<longrightarrow>
      rt_Prefix svr \<in> set (rt_prefixes (apply_option o1 svr)) \<or> rt_prefixes (apply_option o1 svr) = [])"
  by (cases o1) (auto split: option.splits)

lemma options_keep:
  assumes "rt_Prefix svr \<in> set (rt_prefixes svr) \<or> rt_prefixes svr = []" and "rt_Prefix svr \<noteq> []" and "0 < rt_timeout svr"
  shows "rt_Prefix (fold apply_option opts svr) = rt_Prefix svr \<and> rt_running (fold apply_option opts svr) = rt_running svr \<and> 0 < rt_timeout (fold apply_option opts svr) \<and>
    (rt_Prefix svr \<in> set (rt_prefixes (fold apply_option opts svr)) \<or> rt_prefixes (fold apply_option opts svr) = [])"
  using assms
proof (induction opts arbitrary: svr)
  case (Cons o1 opts)
  have "rt_Prefix (apply_option o1 svr) = rt_Prefix svr" "rt_Prefix svr \<noteq> []" "rt_running (apply_option o1 svr) = rt_running svr" "0 < rt_timeout (apply_option o1 svr)"
    "rt_Prefix (apply_option o1 svr) \<in> set (rt_prefixes (apply_option o1 svr)) \<or> rt_prefixes (apply_option o1 svr) = []"
    using option_keeps [of o1 svr] Cons.prems by auto
  with Cons.IH [of "apply_option o1 svr"] show ?case by simp
qed simp

text \<open>A new router does not run, waits a positive time at its end, has distinct groups with its main prefix among them, and puts every action under each of them.\<close>

theorem router_serves_every_prefix:
  fixes cors :: 'm
  assumes svr: "svr = NewRouter cors builtin apiPrefix opts"
  shows "\<not> rt_running svr \<and> 0 < rt_timeout svr \<and> distinct (rt_groups svr) \<and> rt_Prefix svr \<in> set (rt_groups svr) \<and>
    (\<forall>p \<in> set (rt_groups svr). registerRoute A ''POST'' action hdrs p \<in> set (rt_routes (router_Post A action hdrs svr)))"
proof -
  let ?s = "\<lparr>rt_Prefix = (if apiPrefix = [] then PrefixAPIDefault else apiPrefix), rt_prefixes = [], rt_groups = [], rt_cors = cors, rt_middleware = builtin,
    rt_timeout = defaultGracefulShutdownTimeout, rt_running = False, rt_actions = [], rt_routes = []\<rparr> :: 'm router"
  have "0 < rt_timeout ?s" by (simp add: defaultGracefulShutdownTimeout_def second_def)
  moreover have "rt_Prefix ?s \<noteq> []" by (simp add: PrefixAPIDefault_def)
  ultimately show ?thesis
    using options_keep [of ?s opts] unfolding svr NewRouter_def Let_def router_Post_def register_def by auto
qed

text \<open>A router runs once and adds itself to the closers of the process once; a worker server that has been closed neither listens nor changes its answer.\<close>

theorem runs_once:
  "router_Run l closing svr lc = (None, svr', lc') \<Longrightarrow>
   lc_closers lc' = lc_closers lc @ [closing] \<and> (\<exists>e. router_Run l' closing' svr' lc'' = (Some e, svr', lc''))"
  by (auto simp: router_Run_def AddCloser_def split: if_splits)

text \<open>When the HTTP server of a router returns, the wait for the end of the process is over.\<close>

theorem ended_router_ends_the_process:
  "lc_exit (router_served lc) \<and> WaitExit (router_served lc) (None # events)"
  by (simp add: router_served_def lc_Exit_def)

theorem closed_worker_stays_closed:
  assumes "worker_Close shutdown close (Some s) = (e, Some s')"
  shows "worker_Close shutdown' close' (Some s') = (e, Some s') \<and> (ws_closed s \<or> \<not> ws_once s \<longrightarrow> fst (worker_Serve listens s') \<noteq> None)"
  using assms by (auto simp: worker_Close_def worker_Serve_def Let_def split: if_splits)

end
