(* ===== verification/Random_Text.thy ===== *)
theory Random_Text
  imports Go_Base "HOL-Library.Word"
begin

text \<open>
  Random texts and numbers (\<open>random/rand.go\<close>). The generator is an argument: \<open>draw\<close> answers \<open>rand.Intn n\<close> with the next number below \<open>n\<close>
  and the generator after it; \<open>Intn\<close> panics for a bound that is not positive (\<open>None\<close>). Integers have 64 bits and wrap.
\<close>

type_synonym 'g draws = "int \<Rightarrow> 'g \<Rightarrow> int \<times> 'g"

definition NUMBER :: string where "NUMBER = ''0123456789''"
definition ALPHABET :: string where "ALPHABET = ''ABCDEFGHIJKLMNOPQRSTUVWXYZabcdefghijklmnopqrstuvwxyz''"
definition ALPHANUM :: string where "ALPHANUM = ''0123456789ABCDEFGHIJKLMNOPQRSTUVWXYZabcdefghijklmnopqrstuvwxyz''"
definition ALPHASYM :: string where "ALPHASYM = ''0123456789ABCDEFGHIJKLMNOPQRSTUVWXYZabcdefghijklmnopqrstuvwxyz~!@#$%^&*_+?-=''"

definition Intn :: "'g draws \<Rightarrow> int \<Rightarrow> 'g \<Rightarrow> (int \<times> 'g) option" where
  "Intn draw n g = (if n \<le> 0 then None else Some (draw n g))"

fun rand_loop :: "'g draws \<Rightarrow> nat \<Rightarrow> string \<Rightarrow> 'g \<Rightarrow> (string \<times> 'g) option" where
  "rand_loop draw 0 cs g = Some ([], g)"
| "rand_loop draw (Suc k) cs g =
     (case Intn draw (int (length cs)) g of None \<Rightarrow> None
      | Some (i, g1) \<Rightarrow> map_option (\<lambda>(s, g2). (cs ! nat i # s, g2)) (rand_loop draw k cs g1))"

text \<open>\<open>make\<close> panics for a negative length.\<close>

definition RandString :: "'g draws \<Rightarrow> int \<Rightarrow> string \<Rightarrow> 'g \<Rightarrow> (string \<times> 'g) option" where
  "RandString draw count cs g = (if count < 0 then None else rand_loop draw (nat count) cs g)"

definition Alphabet :: "'g draws \<Rightarrow> int \<Rightarrow> 'g \<Rightarrow> (string \<times> 'g) option" where "Alphabet draw count = RandString draw count ALPHABET"
definition Alphanum :: "'g draws \<Rightarrow> int \<Rightarrow> 'g \<Rightarrow> (string \<times> 'g) option" where "Alphanum draw count = RandString draw count ALPHANUM"
definition Alphasym :: "'g draws \<Rightarrow> int \<Rightarrow> 'g \<Rightarrow> (string \<times> 'g) option" where "Alphasym draw count = RandString draw count ALPHASYM"
definition rand_String :: "'g draws \<Rightarrow> int \<Rightarrow> 'g \<Rightarrow> (string \<times> 'g) option" where "rand_String draw n = Alphanum draw n"

fun number_loop :: "'g draws \<Rightarrow> nat \<Rightarrow> 'g \<Rightarrow> string \<times> 'g" where
  "number_loop draw 0 g = ([], g)"
| "number_loop draw (Suc k) g =
     (case draw 10 g of (i, g1) \<Rightarrow> (case number_loop draw k g1 of (s, g2) \<Rightarrow> (char_of (nat i + 48) # s, g2)))"

definition rand_Number :: "'g draws \<Rightarrow> int \<Rightarrow> 'g \<Rightarrow> (string \<times> 'g) option" where
  "rand_Number draw count g = (if count < 0 then None else Some (number_loop draw (nat count) g))"

definition wrap64 :: "int \<Rightarrow> int" where "wrap64 n = sint (word_of_int n :: 64 word)"

definition rand_Int :: "'g draws \<Rightarrow> int \<Rightarrow> int \<Rightarrow> 'g \<Rightarrow> (int \<times> 'g) option" where
  "rand_Int draw start stop g =
     (case Intn draw (wrap64 (wrap64 (stop - start) + 1)) g of None \<Rightarrow> None | Some (i, g1) \<Rightarrow> Some (wrap64 (i + start), g1))"

section \<open>Properties\<close>

definition draws_ok :: "'g draws \<Rightarrow> bool" where
  "draws_ok draw \<longleftrightarrow> (\<forall>n g. 0 < n \<longrightarrow> 0 \<le> fst (draw n g) \<and> fst (draw n g) < n)"

lemma wrap64_id: "- (2 ^ 63) \<le> n \<Longrightarrow> n < 2 ^ 63 \<Longrightarrow> wrap64 n = n"
  unfolding wrap64_def int_word_sint by simp

text \<open>A random text has the length and the characters that were asked for.\<close>

theorem random_text_in_set:
  assumes d: "draws_ok draw" and cs: "cs \<noteq> []" and n: "0 \<le> count"
  shows "\<exists>s g'. RandString draw count cs g = Some (s, g') \<and> int (length s) = count \<and> set s \<subseteq> set cs"
proof -
  have "\<exists>s g'. rand_loop draw k cs g = Some (s, g') \<and> length s = k \<and> set s \<subseteq> set cs" for k
  proof (induction k arbitrary: g)
    case (Suc k)
    have pos: "0 < int (length cs)" using cs by simp
    obtain i g1 where i: "draw (int (length cs)) g = (i, g1)" by (meson surj_pair)
    then have "0 \<le> i \<and> i < int (length cs)" using d pos unfolding draws_ok_def by (metis fst_conv)
    then have "cs ! nat i \<in> set cs" by (intro nth_mem) auto
    moreover obtain s g' where "rand_loop draw k cs g1 = Some (s, g')" "length s = k" "set s \<subseteq> set cs" using Suc.IH by blast
    ultimately show ?case using i pos by (simp add: Intn_def)
  qed simp
  from this[of "nat count"] show ?thesis using n by (auto simp: RandString_def)
qed

text \<open>A random number lies between its bounds, both included, when their distance fits in 63 bits.\<close>

theorem random_number_in_range:
  assumes d: "draws_ok draw" and b: "- (2 ^ 63) \<le> start" "start \<le> stop" "stop < 2 ^ 63" "stop - start < 2 ^ 63 - 1"
  shows "\<exists>x g'. rand_Int draw start stop g = Some (x, g') \<and> start \<le> x \<and> x \<le> stop"
proof -
  have w: "wrap64 (wrap64 (stop - start) + 1) = stop - start + 1" using b by (simp add: wrap64_id)
  obtain i g1 where i: "draw (stop - start + 1) g = (i, g1)" by (meson surj_pair)
  then have "0 \<le> i \<and> i < stop - start + 1" using d[unfolded draws_ok_def, rule_format, of "stop - start + 1" g] b by simp
  moreover from this have "wrap64 (i + start) = i + start" using b by (intro wrap64_id) auto
  ultimately show ?thesis using i b w by (simp add: rand_Int_def Intn_def)
qed

end
