(* ===== verification/Storage_S3.thy ===== *)
theory Storage_S3
  imports Upload_Validation Settings
begin

text \<open>
  Object storage (\<open>storage/s3.go\<close>, \<open>storage/storage.go\<close>): the checks and conversions around the S3 SDK, and the storages that
  are made from the settings. The SDK is a parameter: \<open>s3_api\<close> has its operations over a state \<open>'o\<close>, and a client is made from a
  configuration; pointers are options. \<open>api_ListParts\<close> gives the answers of the paginator in the order in which they are read, up to the
  last page or an error. \<open>s3_env\<close> has parsing and joining of URLs and the media types by extension. At the end the file system is put in
  place of the object storage of the upload service.
\<close>

section \<open>Parameters\<close>

datatype s3_error = S3Text string | S3Remote oerror | S3Settings settings_error

record s3_config =
  s3_EndPoint :: string
  s3_AccessKeyID :: string
  s3_SecretAccessKey :: string
  s3_Region :: string
  s3_Bucket :: string
  s3_UsePathStyle :: bool

record storage_option =
  so_Purpose :: string
  so_PresignedTimeout :: duration

record storage_config =
  sc_Option :: storage_option
  sc_S3 :: "s3_config option"

record s3fs =
  sf_opt :: storage_option
  sf_cfg :: s3_config

record head_output =
  ho_ContentLength :: "int option"
  ho_ContentType :: "string option"
  ho_ETag :: "string option"

type_synonym s3_part = "int option \<times> string option"

record 'o s3_api =
  api_HeadBucket :: "string \<Rightarrow> 'o \<Rightarrow> oerror option \<times> 'o"
  api_Upload :: "string \<Rightarrow> string \<Rightarrow> string \<Rightarrow> reader \<Rightarrow> 'o \<Rightarrow> oerror option \<times> 'o"
  api_PresignGet :: "string \<Rightarrow> string \<Rightarrow> duration \<Rightarrow> 'o \<Rightarrow> (oerror + string) \<times> 'o"
  api_PresignPut :: "string \<Rightarrow> string \<Rightarrow> duration \<Rightarrow> 'o \<Rightarrow> (oerror + string) \<times> 'o"
  api_CreateMultipartUpload :: "string \<Rightarrow> string \<Rightarrow> string option \<Rightarrow> 'o \<Rightarrow> (oerror + string option) \<times> 'o"
  api_PresignUploadPart :: "string \<Rightarrow> string \<Rightarrow> string \<Rightarrow> int \<Rightarrow> duration \<Rightarrow> 'o \<Rightarrow> (oerror + string) \<times> 'o"
  api_ListParts :: "string \<Rightarrow> string \<Rightarrow> string \<Rightarrow> 'o \<Rightarrow> (oerror + s3_part list) list \<times> 'o"
  api_CompleteMultipartUpload :: "string \<Rightarrow> string \<Rightarrow> string \<Rightarrow> (int \<times> string) list \<Rightarrow> 'o \<Rightarrow> oerror option \<times> 'o"
  api_AbortMultipartUpload :: "string \<Rightarrow> string \<Rightarrow> string \<Rightarrow> 'o \<Rightarrow> oerror option \<times> 'o"
  api_HeadObject :: "string \<Rightarrow> string \<Rightarrow> 'o \<Rightarrow> (oerror + head_output) \<times> 'o"
  api_GetObject :: "string \<Rightarrow> string \<Rightarrow> 'o \<Rightarrow> (oerror + reader) \<times> 'o"
  api_DeleteObject :: "string \<Rightarrow> string \<Rightarrow> 'o \<Rightarrow> oerror option \<times> 'o"

text \<open>\<open>sv_url\<close> gives scheme and host of a URL, \<open>sv_join\<close> is \<open>url.JoinPath\<close>.\<close>

record s3_env =
  sv_url :: "string \<Rightarrow> (string \<times> string) option"
  sv_join :: "string \<Rightarrow> string list \<Rightarrow> string option"
  sv_mime :: "string \<Rightarrow> string"

type_synonym 'o s3_client = "s3_config \<Rightarrow> 'o s3_api"

definition to_string :: "string option \<Rightarrow> string" where "to_string p = (case p of None \<Rightarrow> [] | Some s \<Rightarrow> s)"
definition to_int :: "int option \<Rightarrow> int" where "to_int p = (case p of None \<Rightarrow> 0 | Some n \<Rightarrow> n)"

text \<open>An error of the SDK as it is passed on.\<close>

definition remote :: "oerror option \<times> 'o \<Rightarrow> s3_error option \<times> 'o" where
  "remote out = (case out of (None, o1) \<Rightarrow> (None, o1) | (Some e, o1) \<Rightarrow> (Some (S3Remote e), o1))"

definition remote_value :: "(oerror + 'v) \<times> 'o \<Rightarrow> (s3_error + 'v) \<times> 'o" where
  "remote_value out = (case out of (Inl e, o1) \<Rightarrow> (Inl (S3Remote e), o1) | (Inr v, o1) \<Rightarrow> (Inr v, o1))"

section \<open>Files\<close>

text \<open>\<open>loads\<close> is the outcome of loading the configuration of the SDK.\<close>

definition NewS3Fs :: "oerror option \<Rightarrow> 'o s3_client \<Rightarrow> s3_config \<Rightarrow> storage_option \<Rightarrow> 'o \<Rightarrow> (s3_error + s3fs) \<times> 'o" where
  "NewS3Fs loads A cfg opt o0 =
     (if s3_Bucket cfg = [] then (Inl (S3Text ''configuration bucket error''), o0)
      else case loads of Some e \<Rightarrow> (Inl (S3Remote e), o0)
      | None \<Rightarrow>
         (case api_HeadBucket (A cfg) (s3_Bucket cfg) o0 of
            (Some e, o1) \<Rightarrow> (Inl (S3Remote e), o1)
          | (None, o1) \<Rightarrow> (Inr \<lparr>sf_opt = opt, sf_cfg = cfg\<rparr>, o1)))"

definition s3_Save :: "s3_env \<Rightarrow> 'o s3_client \<Rightarrow> s3fs \<Rightarrow> core_file \<Rightarrow> reader option \<Rightarrow> 'o \<Rightarrow> s3_error option \<times> 'o" where
  "s3_Save V A s3fs fi r o0 =
     (if cf_StoragePath fi = [] then (Some (S3Text ''storage path is empty''), o0)
      else case r of None \<Rightarrow> (Some (S3Text ''reader is empty''), o0)
      | Some body \<Rightarrow> remote (api_Upload (A (sf_cfg s3fs)) (s3_Bucket (sf_cfg s3fs)) (cf_StoragePath fi) (sv_mime V (cf_FileExt fi)) body o0))"

definition GetPublicURL :: "s3_env \<Rightarrow> s3fs \<Rightarrow> string \<Rightarrow> string" where
  "GetPublicURL V s3fs storagePath =
     (if storagePath = [] then []
      else case sv_url V (s3_EndPoint (sf_cfg s3fs)) of None \<Rightarrow> storagePath
      | Some (scheme, host) \<Rightarrow>
         if s3_UsePathStyle (sf_cfg s3fs)
         then (case sv_join V (scheme @ ''://'' @ host) [s3_Bucket (sf_cfg s3fs), storagePath] of None \<Rightarrow> storagePath | Some u \<Rightarrow> u)
         else (case sv_join V (scheme @ ''://'' @ s3_Bucket (sf_cfg s3fs) @ ''.'' @ host) [storagePath] of None \<Rightarrow> storagePath | Some u \<Rightarrow> u))"

definition GetPresignedURL :: "'o s3_client \<Rightarrow> s3fs \<Rightarrow> string \<Rightarrow> string \<Rightarrow> 'o \<Rightarrow> (s3_error + string) \<times> 'o" where
  "GetPresignedURL A s3fs verb storagePath o0 =
     (let api = A (sf_cfg s3fs); bucket = s3_Bucket (sf_cfg s3fs); expires = so_PresignedTimeout (sf_opt s3fs)
      in if verb = ''GET'' then remote_value (api_PresignGet api bucket storagePath expires o0)
         else if verb = ''PUT'' then remote_value (api_PresignPut api bucket storagePath expires o0)
         else (Inl (S3Text (''only GET and PUT are allowed,now: '' @ verb)), o0))"

definition HeadFile :: "'o s3_client \<Rightarrow> s3fs \<Rightarrow> string \<Rightarrow> 'o \<Rightarrow> (s3_error + file_metadata) \<times> 'o" where
  "HeadFile A s3fs storagePath o0 =
     (if storagePath = [] then (Inl (S3Text ''storage path is empty''), o0)
      else case api_HeadObject (A (sf_cfg s3fs)) (s3_Bucket (sf_cfg s3fs)) storagePath o0 of
        (Inl e, o1) \<Rightarrow> (Inl (S3Remote e), o1)
      | (Inr obj, o1) \<Rightarrow>
          (Inr \<lparr>fm_ContentLength = to_int (ho_ContentLength obj), fm_ContentType = to_string (ho_ContentType obj),
                fm_ETag = trim_cutset [CHR 0x22] (to_string (ho_ETag obj))\<rparr>, o1))"

definition ReadFile :: "'o s3_client \<Rightarrow> s3fs \<Rightarrow> string \<Rightarrow> 'o \<Rightarrow> (s3_error + reader) \<times> 'o" where
  "ReadFile A s3fs storagePath o0 =
     (if storagePath = [] then (Inl (S3Text ''storage path is empty''), o0)
      else remote_value (api_GetObject (A (sf_cfg s3fs)) (s3_Bucket (sf_cfg s3fs)) storagePath o0))"

definition DeleteFile :: "'o s3_client \<Rightarrow> s3fs \<Rightarrow> string \<Rightarrow> 'o \<Rightarrow> s3_error option \<times> 'o" where
  "DeleteFile A s3fs storagePath o0 =
     (if storagePath = [] then (Some (S3Text ''storage path is empty''), o0)
      else remote (api_DeleteObject (A (sf_cfg s3fs)) (s3_Bucket (sf_cfg s3fs)) storagePath o0))"

section \<open>Uploads in parts\<close>

definition normalizeETag :: "string \<Rightarrow> string" where
  "normalizeETag v = trim_cutset [CHR 0x22] (trim_space v)"

definition validateMultipartReference :: "string \<Rightarrow> string \<Rightarrow> int \<Rightarrow> s3_error option" where
  "validateMultipartReference storagePath uploadID partNumber =
     (if trim_space storagePath = [] then Some (S3Text ''storage path is empty'')
      else if trim_space uploadID = [] then Some (S3Text ''multipart upload ID is empty'')
      else if partNumber < 1 \<or> partNumber > 10000 then Some (S3Text ''multipart part number must be between 1 and 10000'')
      else None)"

definition CreateMultipartUpload :: "'o s3_client \<Rightarrow> s3fs \<Rightarrow> string \<Rightarrow> string \<Rightarrow> 'o \<Rightarrow> (s3_error + string) \<times> 'o" where
  "CreateMultipartUpload A s3fs storagePath contentType o0 =
     (if trim_space storagePath = [] then (Inl (S3Text ''storage path is empty''), o0)
      else case api_CreateMultipartUpload (A (sf_cfg s3fs)) (s3_Bucket (sf_cfg s3fs)) storagePath
                  (if trim_space contentType \<noteq> [] then Some contentType else None) o0 of
        (Inl e, o1) \<Rightarrow> (Inl (S3Remote e), o1)
      | (Inr result, o1) \<Rightarrow>
          (let uploadID = trim_space (to_string result)
           in if uploadID = [] then (Inl (S3Text ''multipart upload ID is empty''), o1) else (Inr uploadID, o1)))"

definition GetMultipartUploadPartPresignedURL :: "'o s3_client \<Rightarrow> s3fs \<Rightarrow> string \<Rightarrow> string \<Rightarrow> int \<Rightarrow> 'o \<Rightarrow> (s3_error + string) \<times> 'o" where
  "GetMultipartUploadPartPresignedURL A s3fs storagePath uploadID partNumber o0 =
     (case validateMultipartReference storagePath uploadID partNumber of Some e \<Rightarrow> (Inl e, o0)
      | None \<Rightarrow> remote_value (api_PresignUploadPart (A (sf_cfg s3fs)) (s3_Bucket (sf_cfg s3fs)) storagePath uploadID partNumber (so_PresignedTimeout (sf_opt s3fs)) o0))"

definition listed_part :: "s3_part \<Rightarrow> upload_part" where
  "listed_part p = \<lparr>pt_PartNumber = to_int (fst p), pt_ETag = normalizeETag (to_string (snd p))\<rparr>"

fun list_loop :: "upload_part list \<Rightarrow> (oerror + s3_part list) list \<Rightarrow> s3_error + upload_part list" where
  "list_loop parts [] = Inr parts"
| "list_loop parts (Inl e # pages) = Inl (S3Remote e)"
| "list_loop parts (Inr page # pages) = list_loop (parts @ map listed_part page) pages"

definition ListMultipartUploadParts :: "'o s3_client \<Rightarrow> s3fs \<Rightarrow> string \<Rightarrow> string \<Rightarrow> 'o \<Rightarrow> (s3_error + upload_part list) \<times> 'o" where
  "ListMultipartUploadParts A s3fs storagePath uploadID o0 =
     (case validateMultipartReference storagePath uploadID 1 of Some e \<Rightarrow> (Inl e, o0)
      | None \<Rightarrow>
         (case api_ListParts (A (sf_cfg s3fs)) (s3_Bucket (sf_cfg s3fs)) storagePath uploadID o0 of (pages, o1) \<Rightarrow> (list_loop [] pages, o1)))"

fun complete_loop :: "(int \<times> string) list \<Rightarrow> s3_error + (int \<times> string) list" where
  "complete_loop [] = Inr []"
| "complete_loop ((n, e) # ps) =
     (let etag = normalizeETag e
      in if n < 1 \<or> n > 10000 \<or> etag = [] then Inl (S3Text ''multipart part is invalid'')
         else case complete_loop ps of Inl err \<Rightarrow> Inl err | Inr cs \<Rightarrow> Inr ((n, [CHR 0x22] @ etag @ [CHR 0x22]) # cs))"

text \<open>A Go map is finite; its entries are sorted by their numbers, which are distinct.\<close>

definition completedMultipartParts :: "(int \<rightharpoonup> string) \<Rightarrow> s3_error + (int \<times> string) list" where
  "completedMultipartParts parts =
     (if card (dom parts) = 0 \<or> card (dom parts) > 10000 then Inl (S3Text ''multipart parts count is invalid'')
      else complete_loop (map (\<lambda>n. (n, to_string (parts n))) (sorted_list_of_set (dom parts))))"

definition CompleteMultipartUpload :: "'o s3_client \<Rightarrow> s3fs \<Rightarrow> string \<Rightarrow> string \<Rightarrow> (int \<rightharpoonup> string) \<Rightarrow> 'o \<Rightarrow> s3_error option \<times> 'o" where
  "CompleteMultipartUpload A s3fs storagePath uploadID parts o0 =
     (case validateMultipartReference storagePath uploadID 1 of Some e \<Rightarrow> (Some e, o0)
      | None \<Rightarrow>
         (case completedMultipartParts parts of Inl e \<Rightarrow> (Some e, o0)
          | Inr completed \<Rightarrow> remote (api_CompleteMultipartUpload (A (sf_cfg s3fs)) (s3_Bucket (sf_cfg s3fs)) storagePath uploadID completed o0)))"

definition AbortMultipartUpload :: "'o s3_client \<Rightarrow> s3fs \<Rightarrow> string \<Rightarrow> string \<Rightarrow> 'o \<Rightarrow> s3_error option \<times> 'o" where
  "AbortMultipartUpload A s3fs storagePath uploadID o0 =
     (case validateMultipartReference storagePath uploadID 1 of Some e \<Rightarrow> (Some e, o0)
      | None \<Rightarrow> remote (api_AbortMultipartUpload (A (sf_cfg s3fs)) (s3_Bucket (sf_cfg s3fs)) storagePath uploadID o0))"

section \<open>Storages by purpose\<close>

definition SettingGroupCore :: string where "SettingGroupCore = ''core''"
definition SettingPrefix :: string where "SettingPrefix = ''storage-''"

type_synonym ('d, 'o) store_world = "'d session \<times> 'o"

definition NewStorage ::
  "(string \<Rightarrow> string + storage_config) \<Rightarrow> (setting_item, 'd) sqltab \<Rightarrow> (string \<Rightarrow> string \<Rightarrow> bool) \<Rightarrow> oerror option \<Rightarrow> 'o s3_client \<Rightarrow> string \<Rightarrow>
   ('d, 'o) store_world \<Rightarrow> (s3_error + s3fs) \<times> ('d, 'o) store_world" where
  "NewStorage yaml T same loads A purpose w =
     (case settings_GetYaml yaml T same SettingGroupCore (SettingPrefix @ purpose) (fst w) of
        (Inl e, s) \<Rightarrow> (Inl (S3Settings e), s, snd w)
      | (Inr cfg, s) \<Rightarrow>
         (case sc_S3 cfg of None \<Rightarrow> (Inl (S3Text ''not found useful remote storage config''), s, snd w)
          | Some c \<Rightarrow> (case NewS3Fs loads A c (sc_Option cfg) (snd w) of (r, o1) \<Rightarrow> (r, s, o1))))"

definition LoadStorager ::
  "(string \<Rightarrow> string + storage_config) \<Rightarrow> (setting_item, 'd) sqltab \<Rightarrow> (string \<Rightarrow> string \<Rightarrow> bool) \<Rightarrow> oerror option \<Rightarrow> 'o s3_client \<Rightarrow> string \<Rightarrow>
   (string \<rightharpoonup> s3fs) \<Rightarrow> ('d, 'o) store_world \<Rightarrow> (s3_error + s3fs) \<times> (string \<rightharpoonup> s3fs) \<times> ('d, 'o) store_world" where
  "LoadStorager yaml T same loads A purpose storagerMap w =
     (case storagerMap purpose of Some s \<Rightarrow> (Inr s, storagerMap, w)
      | None \<Rightarrow>
         (case NewStorage yaml T same loads A purpose w of
            (Inl e, w1) \<Rightarrow> (Inl e, storagerMap, w1)
          | (Inr s, w1) \<Rightarrow> (Inr s, storagerMap(purpose \<mapsto> s), w1)))"

section \<open>The storage of the upload service\<close>

text \<open>The service looks at the code of an error of the SDK only.\<close>

definition error_code :: "s3_error \<Rightarrow> oerror" where
  "error_code e = (case e of S3Remote c \<Rightarrow> c | _ \<Rightarrow> None)"

definition as_service :: "(s3_error + 'v) \<times> 'o \<Rightarrow> (oerror + 'v) \<times> 'o" where
  "as_service out = (case out of (Inl e, o1) \<Rightarrow> (Inl (error_code e), o1) | (Inr v, o1) \<Rightarrow> (Inr v, o1))"

definition as_outcome :: "s3_error option \<times> 'o \<Rightarrow> oerror option \<times> 'o" where
  "as_outcome out = (map_option error_code (fst out), snd out)"

definition some_value :: "(oerror + 'v) \<times> 'o \<Rightarrow> (oerror + 'v option) \<times> 'o" where
  "some_value out = (case out of (Inl e, o1) \<Rightarrow> (Inl e, o1) | (Inr v, o1) \<Rightarrow> (Inr (Some v), o1))"

definition s3_multipart :: "'o s3_client \<Rightarrow> s3fs \<Rightarrow> 'o multipart_storage" where
  "s3_multipart A f =
     \<lparr>mp_create = (\<lambda>path ct o0. as_service (CreateMultipartUpload A f path ct o0)),
      mp_part_url = (\<lambda>path i n o0. as_service (GetMultipartUploadPartPresignedURL A f path i n o0)),
      mp_list = (\<lambda>path i o0. as_service (ListMultipartUploadParts A f path i o0)),
      mp_complete = (\<lambda>path i parts o0. as_outcome (CompleteMultipartUpload A f path i parts o0)),
      mp_abort = (\<lambda>path i o0. as_outcome (AbortMultipartUpload A f path i o0))\<rparr>"

definition s3_storage :: "'o s3_client \<Rightarrow> s3fs \<Rightarrow> 'o object_storage" where
  "s3_storage A f =
     \<lparr>os_presign = (\<lambda>verb path o0. as_service (GetPresignedURL A f verb path o0)),
      os_head = (\<lambda>path o0. some_value (as_service (HeadFile A f path o0))),
      os_read = (\<lambda>path o0. some_value (as_service (ReadFile A f path o0))),
      os_delete = (\<lambda>path o0. as_outcome (DeleteFile A f path o0)),
      os_multipart = Some (s3_multipart A f)\<rparr>"

text \<open>
  Properties of the object storage: parts are merged in order with their own ETags, also when they come through the upload service, and
  a listing of parts can be given back as it is.
\<close>

section \<open>Lists of parts\<close>

abbreviation quoted :: "string \<Rightarrow> string" where "quoted e \<equiv> [CHR 0x22] @ e @ [CHR 0x22]"

lemma complete_loop_ok:
  "complete_loop ps = Inr cs \<longleftrightarrow>
     (\<forall>(n, e) \<in> set ps. 1 \<le> n \<and> n \<le> 10000 \<and> normalizeETag e \<noteq> []) \<and> cs = map (\<lambda>(n, e). (n, quoted (normalizeETag e))) ps"
proof (induction ps arbitrary: cs)
  case (Cons p ps)
  then show ?case by (cases p) (cases "complete_loop ps"; auto simp: Let_def split: if_splits)
qed auto

lemma sorted_numbers: "sorted_list_of_set {1..n :: int} = [1..n]"
  by (rule sorted_distinct_set_unique) simp_all

lemma reference_ok: "validateMultipartReference path i 1 = None \<longleftrightarrow> trim_space path \<noteq> [] \<and> trim_space i \<noteq> []"
  by (simp add: validateMultipartReference_def)

text \<open>What is handed to S3 for merging: every part of the map once, in ascending order, with its quoted ETag.\<close>

lemma completed_parts_sorted:
  assumes "completedMultipartParts parts = Inr cs" and fin: "finite (dom parts)"
  shows "sorted_wrt (<) (map fst cs) \<and> set (map fst cs) = dom parts \<and> (\<forall>(n, e) \<in> set cs. 1 \<le> n \<and> n \<le> 10000 \<and> e = quoted (normalizeETag (the (parts n))))"
proof -
  have "set (sorted_list_of_set (dom parts)) = dom parts" using fin by simp
  moreover have "the (parts n) = to_string (parts n)" if "n \<in> dom parts" for n using that by (auto simp: to_string_def)
  moreover have "sorted_wrt (<) (sorted_list_of_set (dom parts))" by simp
  moreover have "cs = map (\<lambda>n. (n, quoted (normalizeETag (to_string (parts n))))) (sorted_list_of_set (dom parts))"
    "\<forall>n \<in> set (sorted_list_of_set (dom parts)). 1 \<le> n \<and> n \<le> 10000"
    using assms(1) by (auto simp: completedMultipartParts_def complete_loop_ok split: if_splits)
  ultimately show ?thesis by (auto simp: comp_def image_image)
qed

lemma completed_range:
  assumes dom: "dom parts = {1..k}" and k: "1 \<le> k" "k \<le> 10000" and e: "\<And>n. n \<in> {1..k} \<Longrightarrow> normalizeETag (the (parts n)) \<noteq> []"
  shows "completedMultipartParts parts = Inr (map (\<lambda>n. (n, quoted (normalizeETag (the (parts n))))) [1..k])"
proof -
  have t: "to_string (parts n) = the (parts n)" if "n \<in> {1..k}" for n using that unfolding dom [symmetric] by (auto simp: to_string_def)
  have "complete_loop (map (\<lambda>n. (n, to_string (parts n))) [1..k]) = Inr (map (\<lambda>(n, e). (n, quoted (normalizeETag e))) (map (\<lambda>n. (n, to_string (parts n))) [1..k]))"
    unfolding complete_loop_ok using e k t by auto
  then show ?thesis using k t by (simp add: completedMultipartParts_def dom sorted_numbers)
qed

section \<open>Merging through the upload service\<close>

lemma part_map:
  assumes v: "validateMultipartParts x parts = None" and p: "p \<in> set parts"
  shows "map_of (rev (map (\<lambda>p. (pt_PartNumber p, pt_ETag p)) parts)) (pt_PartNumber p) = Some (pt_ETag p)"
proof (rule map_of_is_SomeI)
  have "distinct (map pt_PartNumber parts)" using v by (simp add: validateMultipartParts_def check_parts_iff split: if_splits)
  then show "distinct (map fst (rev (map (\<lambda>p. (pt_PartNumber p, pt_ETag p)) parts)))" by (simp add: rev_map [symmetric] comp_def)
  show "(pt_PartNumber p, pt_ETag p) \<in> set (rev (map (\<lambda>p. (pt_PartNumber p, pt_ETag p)) parts))" using p by auto
qed

lemma part_numbers:
  assumes v: "validateMultipartParts x parts = None"
  shows "pt_PartNumber ` set parts = {1..us_PartCount x}" and "us_PartCount x \<le> 10000"
proof -
  have d: "distinct (map pt_PartNumber parts)" "int (length parts) = us_PartCount x" "\<forall>n \<in> set (map pt_PartNumber parts). 1 \<le> n \<and> n \<le> us_PartCount x"
    and m: "us_PartCount x \<le> 10000"
    using v by (auto simp: validateMultipartParts_def check_parts_iff maxPartCount_def split: if_splits)
  show "pt_PartNumber ` set parts = {1..us_PartCount x}" using distinct_range_iff [OF d(1), of "us_PartCount x"] d(2,3) by simp
  show "us_PartCount x \<le> 10000" by (rule m)
qed

text \<open>C32. Parts reach S3 in order: when the upload service merges an accepted list of parts over S3, whatever their order in the request, S3 is asked to merge the
  parts one to the part count, ascending, each with its own ETag in quotes; if it agrees the merge succeeds, and if it reports an error the
  merge succeeds exactly when the object is there after all.\<close>

theorem merged_parts_in_order:
  assumes mode: "us_Mode x = ModeMultipart" and v: "validateMultipartParts x parts = None" and parts: "parts \<noteq> []"
    and ref: "trim_space (us_StoragePath x) \<noteq> []" "trim_space (us_MultipartID x) \<noteq> []" and e: "\<forall>p \<in> set parts. normalizeETag (pt_ETag p) \<noteq> []"
    and ctx: "u_ctx w = []"
    and call: "api_CompleteMultipartUpload (A (sf_cfg f)) (s3_Bucket (sf_cfg f)) (us_StoragePath x) (us_MultipartID x)
      (map (\<lambda>n. (n, quoted (etag n))) [1..us_PartCount x]) (u_obj w) = (r, o1)"
    and etag: "\<forall>p \<in> set parts. etag (pt_PartNumber p) = normalizeETag (pt_ETag p)"
  shows "case r of
      None \<Rightarrow> merge_parts (s3_storage A f) x parts w = (None, w\<lparr>u_obj := o1\<rparr>)
    | Some _ \<Rightarrow> (fst (merge_parts (s3_storage A f) x parts w) = None) =
        (\<exists>out o2. api_HeadObject (A (sf_cfg f)) (s3_Bucket (sf_cfg f)) (us_StoragePath x) o1 = (Inr out, o2))"
proof -
  define m where "m = map_of (rev (map (\<lambda>p. (pt_PartNumber p, pt_ETag p)) parts))"
  have dom: "dom m = {1..us_PartCount x}" using part_numbers(1) [OF v] by (simp add: m_def dom_map_of_conv_image_fst image_image)
  have val: "m n = Some (pt_ETag p)" if "p \<in> set parts" "n = pt_PartNumber p" for n p using part_map [OF v that(1)] that(2) by (simp add: m_def)
  have num: "\<exists>p \<in> set parts. n = pt_PartNumber p" if "n \<in> {1..us_PartCount x}" for n using that part_numbers(1) [OF v] by auto
  have k: "1 \<le> us_PartCount x" using parts part_numbers(1) [OF v] by (cases "us_PartCount x < 1") auto
  have norm: "normalizeETag (the (m n)) = etag n \<and> normalizeETag (the (m n)) \<noteq> []" if n: "n \<in> {1..us_PartCount x}" for n
    using num [OF n] val etag e by fastforce
  have "completedMultipartParts m = Inr (map (\<lambda>n. (n, quoted (normalizeETag (the (m n))))) [1..us_PartCount x])"
    using norm by (intro completed_range [OF dom k part_numbers(2) [OF v]]) blast
  also have "map (\<lambda>n. (n, quoted (normalizeETag (the (m n))))) [1..us_PartCount x] = map (\<lambda>n. (n, quoted (etag n))) [1..us_PartCount x]" using norm by auto
  finally have "completedMultipartParts m = Inr (map (\<lambda>n. (n, quoted (etag n))) [1..us_PartCount x])" .
  moreover have "validateMultipartReference (us_StoragePath x) (us_MultipartID x) 1 = None" using ref by (simp add: reference_ok)
  ultimately have c: "CompleteMultipartUpload A f (us_StoragePath x) (us_MultipartID x) m (u_obj w) = remote (r, o1)"
    using call unfolding CompleteMultipartUpload_def by simp
  have path: "us_StoragePath x \<noteq> []" using ref(1) by (auto simp: trim_space_Nil_iff runes_def utf8_chunks.simps)
  have step: "on_obj (mp_complete (s3_multipart A f) (us_StoragePath x) (us_MultipartID x) m) w = (r, w\<lparr>u_obj := o1\<rparr>)"
    using c by (cases r) (auto simp: on_obj_def s3_multipart_def as_outcome_def remote_def error_code_def)
  show ?thesis
    using step mode v ctx path unfolding merge_parts_def m_def [symmetric]
    by (cases r) (auto simp: s3_storage_def ctx_err_def on_obj_def HeadFile_def as_service_def some_value_def Let_def split: prod.splits sum.splits)
qed

section \<open>Listings\<close>

text \<open>ETags as S3 documents them: printable ASCII in quotes, without quotes inside.\<close>

definition plain_etag :: "string \<Rightarrow> bool" where
  "plain_etag e \<longleftrightarrow> e \<noteq> [] \<and> list_all (\<lambda>c. 32 < (of_char c :: nat) \<and> of_char c < (128::nat) \<and> c \<noteq> CHR 0x22) e"

lemma normalize_plain:
  assumes "plain_etag e"
  shows "normalizeETag e = e" and "normalizeETag (quoted e) = e"
proof -
  have c: "\<forall>c \<in> set e. 32 < (of_char c :: nat) \<and> of_char c < (128::nat)" and e: "\<forall>c \<in> set e. c \<noteq> CHR 0x22" "e \<noteq> []"
    using assms by (auto simp: plain_etag_def list_all_iff)
  have t: "trim_space (quoted e) = quoted e" "trim_space e = e"
    by (rule trim_space_ascii_id, use c in simp)+
  have d: "dropWhile (\<lambda>c. c = CHR 0x22) (xs @ ys) = xs @ ys" if "xs \<noteq> []" "\<forall>c \<in> set xs. c \<noteq> CHR 0x22" for xs ys
    using that by (cases xs) simp_all
  show "normalizeETag e = e" using e(1) t(2) by (simp add: normalizeETag_def trim_cutset_def trim_both_id)
  show "normalizeETag (quoted e) = e" using t(1) d [of e "[CHR 0x22]"] d [of "rev e" "[]"] e by (simp add: normalizeETag_def trim_cutset_def trim_both_def)
qed

lemma list_loop_pages: "list_loop acc (map Inr pages) = Inr (acc @ map listed_part (concat pages))"
  by (induction pages arbitrary: acc) auto

text \<open>Parts that S3 lists, on any number of pages, can be given back for merging as they are: it is then asked to merge exactly the parts it has listed,
  in their order and with the ETags it gave them.\<close>

theorem listed_parts_are_merged:
  assumes ref: "trim_space path \<noteq> []" "trim_space i \<noteq> []"
    and pages: "api_ListParts (A (sf_cfg f)) (s3_Bucket (sf_cfg f)) path i o0 = (map Inr pages, o1)"
    and stored: "concat pages = map (\<lambda>n. (Some n, Some (quoted (etag n)))) [1..k]" and k: "1 \<le> k" "k \<le> 10000" and e: "\<forall>n \<in> {1..k}. plain_etag (etag n)"
  shows "\<exists>parts. ListMultipartUploadParts A f path i o0 = (Inr parts, o1) \<and>
    CompleteMultipartUpload A f path i (map_of (map (\<lambda>p. (pt_PartNumber p, pt_ETag p)) parts)) o2 =
      remote (api_CompleteMultipartUpload (A (sf_cfg f)) (s3_Bucket (sf_cfg f)) path i (map (\<lambda>n. (n, quoted (etag n))) [1..k]) o2)"
proof -
  define parts where "parts = map (\<lambda>n. \<lparr>pt_PartNumber = n, pt_ETag = etag n\<rparr>) [1..k]"
  have listed: "map listed_part (concat pages) = parts"
    unfolding stored parts_def using e by (auto simp: listed_part_def to_int_def to_string_def normalize_plain(2) simp del: append.simps)
  have valid: "validateMultipartReference path i 1 = None" using ref by (simp add: reference_ok)
  define m where "m = map_of (map (\<lambda>p. (pt_PartNumber p, pt_ETag p)) parts)"
  have m: "m = map_of (map (\<lambda>n. (n, etag n)) [1..k])" by (simp add: m_def parts_def comp_def)
  have val: "m n = Some (etag n)" if "n \<in> {1..k}" for n using that by (simp add: m map_of_map_restrict)
  have dom: "dom m = {1..k}" by (auto simp: m map_of_map_restrict restrict_map_def split: if_splits)
  have "completedMultipartParts m = Inr (map (\<lambda>n. (n, quoted (normalizeETag (the (m n))))) [1..k])"
    using val e normalize_plain(1) by (intro completed_range [OF dom k]) (auto simp: plain_etag_def)
  also have "map (\<lambda>n. (n, quoted (normalizeETag (the (m n))))) [1..k] = map (\<lambda>n. (n, quoted (etag n))) [1..k]"
    using val e normalize_plain(1) by (auto simp: val)
  finally have c: "completedMultipartParts m = Inr (map (\<lambda>n. (n, quoted (etag n))) [1..k])" .
  have "ListMultipartUploadParts A f path i o0 = (Inr parts, o1)"
    using valid pages listed by (simp add: ListMultipartUploadParts_def list_loop_pages)
  then show ?thesis using valid c unfolding m_def by (auto simp: CompleteMultipartUpload_def)
qed

section \<open>Storages by purpose\<close>

text \<open>A storage that has been loaded has a bucket and stays: later loads for its purpose return it without reading settings or asking S3, whatever the
  settings say by then, and loads for other purposes leave it.\<close>

theorem storage_loaded_once:
  assumes first: "LoadStorager yaml T same loads A purpose storages w = (Inr s, storages', w')"
  shows "storages' purpose = Some s \<and> LoadStorager yaml' T' same' loads' A' purpose storages' w2 = (Inr s, storages', w2) \<and>
    (\<forall>p r st w3. p \<noteq> purpose \<and> LoadStorager yaml' T' same' loads' A' p storages' w2 = (r, st, w3) \<longrightarrow> st purpose = Some s) \<and>
    (storages purpose = None \<longrightarrow> s3_Bucket (sf_cfg s) \<noteq> [])"
proof -
  have kept: "storages' purpose = Some s" using first by (auto simp: LoadStorager_def split: option.splits prod.splits sum.splits)
  moreover have "st purpose = Some s" if "p \<noteq> purpose" "LoadStorager yaml' T' same' loads' A' p storages' w2 = (r, st, w3)" for p r st w3
    using that kept by (auto simp: LoadStorager_def split: option.splits prod.splits sum.splits)
  moreover have "s3_Bucket (sf_cfg s) \<noteq> []" if "storages purpose = None"
    using first that by (auto simp: LoadStorager_def NewStorage_def NewS3Fs_def split: option.splits prod.splits sum.splits if_splits)
  ultimately show ?thesis by (auto simp: LoadStorager_def)
qed

section \<open>A concrete merge\<close>

text \<open>A server that keeps the parts it was asked to merge, and an upload of two parts whose numbers come in the wrong order.\<close>

definition recording :: "(int \<times> string) list s3_api" where
  "recording = \<lparr>api_HeadBucket = (\<lambda>b o1. (None, o1)), api_Upload = (\<lambda>b k t r o1. (None, o1)), api_PresignGet = (\<lambda>b k d o1. (Inr k, o1)),
     api_PresignPut = (\<lambda>b k d o1. (Inr k, o1)), api_CreateMultipartUpload = (\<lambda>b k t o1. (Inr (Some ''u''), o1)),
     api_PresignUploadPart = (\<lambda>b k i n d o1. (Inr k, o1)), api_ListParts = (\<lambda>b k i o1. ([], o1)),
     api_CompleteMultipartUpload = (\<lambda>b k i parts o1. (None, parts)), api_AbortMultipartUpload = (\<lambda>b k i o1. (None, o1)),
     api_HeadObject = (\<lambda>b k o1. (Inl None, o1)), api_GetObject = (\<lambda>b k o1. (Inl None, o1)), api_DeleteObject = (\<lambda>b k o1. (None, o1))\<rparr>"

definition bucket_fs :: s3fs where
  "bucket_fs = \<lparr>sf_opt = \<lparr>so_Purpose = ''p'', so_PresignedTimeout = 0\<rparr>,
     sf_cfg = \<lparr>s3_EndPoint = [], s3_AccessKeyID = [], s3_SecretAccessKey = [], s3_Region = [], s3_Bucket = ''b'', s3_UsePathStyle = True\<rparr>\<rparr>"

definition two_parts :: upload_session where
  "two_parts = \<lparr>us_ID = ''i'', us_OrganizationID = ''o'', us_UserID = ''u'', us_Purpose = ''p'', us_Filename = ''f'', us_FileExt = [], us_MIMEType = [], us_SizeBytes = 2,
     us_SHA256 = [], us_StoragePath = ''k'', us_MultipartID = ''m'', us_Mode = ModeMultipart, us_PartSize = 1, us_PartCount = 2, us_ExpiresAt = 0, us_FileID = None,
     us_State = StateCompleting, us_LeaseToken = [], us_LeaseExpiresAt = None, us_CreatedAt = 0, us_UpdatedAt = 0\<rparr>"

definition swapped_parts :: "upload_part list" where
  "swapped_parts = [\<lparr>pt_PartNumber = 2, pt_ETag = ''bb''\<rparr>, \<lparr>pt_PartNumber = 1, pt_ETag = ''aa''\<rparr>]"

definition merge_world :: "(unit, (int \<times> string) list) uworld" where
  "merge_world = \<lparr>u_sess = \<lparr>s_db = (), s_fates = []\<rparr>, u_obj = [], u_ctx = []\<rparr>"

theorem merged_parts_in_order_witness:
  "u_obj (snd (merge_parts (s3_storage (\<lambda>_. recording) bucket_fs) two_parts swapped_parts merge_world)) = [(1, quoted ''aa''), (2, quoted ''bb'')]"
proof -
  have plain: "plain_etag ''aa''" "plain_etag ''bb''" by (simp_all add: plain_etag_def)
  have texts: "trim_space ''k'' = ''k''" "trim_space ''m'' = ''m''" "trim_space ''aa'' = ''aa''" "trim_space ''bb'' = ''bb''" by (simp_all add: trim_space_ascii_id)
  have valid: "validateMultipartParts two_parts swapped_parts = None"
    using texts by (simp add: validateMultipartParts_def two_parts_def swapped_parts_def maxPartCount_def contains_any_def)
  let ?e = "\<lambda>n :: int. if n = 1 then ''aa'' else ''bb''"
  have "merge_parts (s3_storage (\<lambda>_. recording) bucket_fs) two_parts swapped_parts merge_world = (None, merge_world\<lparr>u_obj := map (\<lambda>n. (n, quoted (?e n))) [1..2]\<rparr>)"
    using merged_parts_in_order [of two_parts swapped_parts merge_world "\<lambda>_. recording" bucket_fs ?e None "map (\<lambda>n. (n, quoted (?e n))) [1..2]"] valid texts normalize_plain(1) [OF plain(1)] normalize_plain(1) [OF plain(2)]
    by (simp add: two_parts_def swapped_parts_def merge_world_def recording_def)
  then show ?thesis by (simp add: upto.simps)
qed

end
