(* ===== verification/Task_Migration.thy ===== *)
theory Task_Migration
  imports Task_Store
begin

text \<open>
  The indexes of the task table (\<open>task/task_migration.go\<close>): the two indexes that claims and dependency scans need are created
  when they are missing and checked when they are there. The migrator of GORM and the catalogue of the database are parameters: \<open>mg_look\<close> finds
  the columns of an index in the tags of a struct, \<open>mg_statistics\<close> reads \<open>information_schema.STATISTICS\<close>, \<open>mg_create\<close> creates an index, and \<open>mg_rows\<close> is
  the part of the catalogue that belongs to the table, which only the hypothesis \<open>mg_ok\<close> mentions.
\<close>

section \<open>Metadata\<close>

definition taskClaimIndexName :: string where "taskClaimIndexName = ''idx_core_task_claim''"
definition taskMemberDependencyIndexName :: string where "taskMemberDependencyIndexName = ''idx_core_task_member_dependency''"
definition core_task_table :: string where "core_task_table = ''core_task''"

text \<open>The fields of a struct of metadata: column, index and priority of their tags.\<close>

type_synonym index_metadata = "(string \<times> string \<times> nat) list"

definition taskClaimIndexMetadata :: index_metadata where
  "taskClaimIndexMetadata =
     [(''task_type'', taskClaimIndexName, 1), (''deleted_at'', taskClaimIndexName, 2), (''task_status'', taskClaimIndexName, 3),
      (''priority'', taskClaimIndexName, 4), (''updated_at'', taskClaimIndexName, 5)]"

definition taskMemberDependencyIndexMetadata :: index_metadata where
  "taskMemberDependencyIndexMetadata =
     [(''organization_id'', taskMemberDependencyIndexName, 1), (''user_id'', taskMemberDependencyIndexName, 2),
      (''subject_id'', taskMemberDependencyIndexName, 3), (''app_group'', taskMemberDependencyIndexName, 4), (''step'', taskMemberDependencyIndexName, 5),
      (''deleted_at'', taskMemberDependencyIndexName, 6), (''task_status'', taskMemberDependencyIndexName, 7)]"

record index_statistic =
  ix_IndexName :: string
  ix_ColumnName :: "string option"
  ix_NonUnique :: int
  ix_SeqInIndex :: int
  ix_Collation :: "string option"
  ix_SubPart :: "int option"
  ix_IndexType :: string
  ix_IsVisible :: "string option"

record 'd migrator =
  mg_look :: "index_metadata \<Rightarrow> string \<Rightarrow> terror + string list option"
  mg_database :: "'d \<Rightarrow> string"
  mg_statistics :: "string \<Rightarrow> string \<Rightarrow> 'd \<Rightarrow> terror + index_statistic list"
  mg_create :: "index_metadata \<Rightarrow> string \<Rightarrow> 'd \<Rightarrow> terror option \<times> 'd"
  mg_rows :: "'d \<Rightarrow> index_statistic list"

section \<open>Checking\<close>

definition taskIndexColumns :: "'d migrator \<Rightarrow> index_metadata \<Rightarrow> string \<Rightarrow> terror + string list" where
  "taskIndexColumns G metadata name =
     (case mg_look G metadata name of
        Inl e \<Rightarrow> Inl (errorf_ww (errors_text (''parse index metadata '' @ name)) e)
      | Inr None \<Rightarrow> Inl (errors_text (''index metadata '' @ name @ '' is unavailable''))
      | Inr (Some columns) \<Rightarrow> Inr columns)"

definition by_name :: "index_statistic list \<Rightarrow> string \<rightharpoonup> index_statistic list" where
  "by_name rows n = (case filter (\<lambda>r. ix_IndexName r = n) rows of [] \<Rightarrow> None | rs \<Rightarrow> Some rs)"

definition readTaskIndexStatistics :: "'d migrator \<Rightarrow> 'd \<Rightarrow> terror + (string \<rightharpoonup> index_statistic list)" where
  "readTaskIndexStatistics G d =
     (let database = mg_database G d
      in if database = [] then Inl (errors_text ''read core_task index metadata: current database is unavailable'')
         else case mg_statistics G database core_task_table d of
           Inl e \<Rightarrow> Inl (errorf_ww (errors_text ''read core_task index metadata'') e)
         | Inr rows \<Rightarrow> Inr (by_name rows))"

fun spaced :: "string list \<Rightarrow> string" where
  "spaced [] = []"
| "spaced [x] = x"
| "spaced (x # y # ys) = x @ '' '' @ spaced (y # ys)"

definition columns_text :: "string list \<Rightarrow> string" where "columns_text cs = ''['' @ spaced cs @ '']''"

definition statisticColumns :: "index_statistic list \<Rightarrow> string list" where
  "statisticColumns rows = concat (map (\<lambda>r. case ix_ColumnName r of Some c \<Rightarrow> [c] | None \<Rightarrow> []) rows)"

text \<open>The check of the row at one place of the index, by the first rule that it breaks.\<close>

definition wrong_columns :: "string \<Rightarrow> string list \<Rightarrow> index_statistic list \<Rightarrow> terror" where
  "wrong_columns name columns rows =
     errors_text (''index '' @ name @ '' has columns '' @ columns_text (statisticColumns rows) @ ''; want '' @ columns_text columns)"

definition check_row :: "string \<Rightarrow> string list \<Rightarrow> index_statistic list \<Rightarrow> nat \<Rightarrow> index_statistic \<Rightarrow> terror option" where
  "check_row name columns rows at row =
     (case ix_ColumnName row of
        None \<Rightarrow> Some (errors_text (''index '' @ name @ '' column '' @ nat_digits (at + 1) @ '' is not a full column''))
      | Some column \<Rightarrow>
         if column \<noteq> columns ! at then Some (wrong_columns name columns rows)
         else if ix_SeqInIndex row \<noteq> int at + 1
         then Some (errors_text (''index '' @ name @ '' has sequence '' @ itoa (ix_SeqInIndex row) @ '' at position '' @ nat_digits (at + 1)))
         else if ix_NonUnique row \<noteq> 1 then Some (errors_text (''index '' @ name @ '' is unique; want a non-unique index''))
         else if ix_IndexType row \<noteq> ''BTREE'' then Some (errors_text (''index '' @ name @ '' type is '' @ ix_IndexType row @ ''; want BTREE''))
         else if (case ix_IsVisible row of Some v \<Rightarrow> v \<noteq> ''YES'' | None \<Rightarrow> False) then Some (errors_text (''index '' @ name @ '' is hidden''))
         else if ix_Collation row \<noteq> Some ''A'' then Some (errors_text (''index '' @ name @ '' does not use ascending column order''))
         else if ix_SubPart row \<noteq> None then Some (errors_text (''index '' @ name @ '' uses a column prefix''))
         else None)"

fun check_rows :: "string \<Rightarrow> string list \<Rightarrow> index_statistic list \<Rightarrow> nat \<Rightarrow> index_statistic list \<Rightarrow> terror option" where
  "check_rows name columns rows at [] = None"
| "check_rows name columns rows at (row # rest) =
     (case check_row name columns rows at row of Some e \<Rightarrow> Some e | None \<Rightarrow> check_rows name columns rows (Suc at) rest)"

definition validateExactTaskIndex :: "string \<Rightarrow> string list \<Rightarrow> (string \<rightharpoonup> index_statistic list) \<Rightarrow> terror + bool" where
  "validateExactTaskIndex name columns statistics =
     (case statistics name of None \<Rightarrow> Inr False
      | Some rows \<Rightarrow>
         if length rows \<noteq> length columns then Inl (wrong_columns name columns rows)
         else case check_rows name columns rows 0 rows of Some e \<Rightarrow> Inl e | None \<Rightarrow> Inr True)"

section \<open>Creating\<close>

definition createTaskIndex :: "'d migrator \<Rightarrow> index_metadata \<Rightarrow> string \<Rightarrow> 'd \<Rightarrow> terror option \<times> 'd" where
  "createTaskIndex G metadata name d =
     (case mg_create G metadata name d of
        (Some e, d1) \<Rightarrow> (Some (errorf_ww (errors_text (''create index '' @ name)) e), d1)
      | (None, d1) \<Rightarrow> (None, d1))"

text \<open>What is found of one index, and the creation of it when it is missing.\<close>

definition find_index :: "'d migrator \<Rightarrow> index_metadata \<Rightarrow> string \<Rightarrow> (string \<rightharpoonup> index_statistic list) \<Rightarrow> terror + bool" where
  "find_index G metadata name statistics =
     (case taskIndexColumns G metadata name of Inl e \<Rightarrow> Inl e | Inr columns \<Rightarrow> validateExactTaskIndex name columns statistics)"

definition create_missing :: "'d migrator \<Rightarrow> bool \<Rightarrow> index_metadata \<Rightarrow> string \<Rightarrow> 'd \<Rightarrow> terror option \<times> 'd" where
  "create_missing G exists metadata name d = (if exists then (None, d) else createTaskIndex G metadata name d)"

definition ensureTaskIndexes :: "'d migrator \<Rightarrow> 'd \<Rightarrow> terror option \<times> 'd" where
  "ensureTaskIndexes G d =
     (case readTaskIndexStatistics G d of Inl e \<Rightarrow> (Some e, d)
      | Inr statistics \<Rightarrow>
         (case find_index G taskClaimIndexMetadata taskClaimIndexName statistics of Inl e \<Rightarrow> (Some e, d)
          | Inr claimExists \<Rightarrow>
             (case find_index G taskMemberDependencyIndexMetadata taskMemberDependencyIndexName statistics of Inl e \<Rightarrow> (Some e, d)
              | Inr dependencyExists \<Rightarrow>
                 (case create_missing G claimExists taskClaimIndexMetadata taskClaimIndexName d of
                    (Some e, d1) \<Rightarrow> (Some e, d1)
                  | (None, d1) \<Rightarrow> create_missing G dependencyExists taskMemberDependencyIndexMetadata taskMemberDependencyIndexName d1))))"

section \<open>The migrator and the database as documented\<close>

definition index_rows :: "'d migrator \<Rightarrow> 'd \<Rightarrow> string \<Rightarrow> index_statistic list" where
  "index_rows G d n = sort_key ix_SeqInIndex (filter (\<lambda>r. ix_IndexName r = n) (mg_rows G d))"

definition tagged_columns :: "index_metadata \<Rightarrow> string \<Rightarrow> string list" where
  "tagged_columns metadata name = map fst (sort_key (\<lambda>(_, _, p). p) (filter (\<lambda>(_, n, _). n = name) metadata))"

definition full_row :: "string \<Rightarrow> string list \<Rightarrow> nat \<Rightarrow> index_statistic \<Rightarrow> bool" where
  "full_row name columns at r \<longleftrightarrow>
     ix_IndexName r = name \<and> ix_ColumnName r = Some (columns ! at) \<and> ix_SeqInIndex r = int at + 1 \<and> ix_NonUnique r = 1 \<and> ix_IndexType r = ''BTREE'' \<and>
     ix_IsVisible r \<in> {None, Some ''YES''} \<and> ix_Collation r = Some ''A'' \<and> ix_SubPart r = None"

text \<open>An ordinary index: visible, not unique, a B-tree over the full columns in this order, ascending.\<close>

definition ordinary_index :: "string \<Rightarrow> string list \<Rightarrow> index_statistic list \<Rightarrow> bool" where
  "ordinary_index name columns rows \<longleftrightarrow> length rows = length columns \<and> (\<forall>at < length columns. full_row name columns at (rows ! at))"

text \<open>
  The tags of an index come in the order of their priorities; the catalogue has the rows of an index in order; creating an index that is not there
  adds an ordinary one and leaves the others, and a failure changes nothing in the catalogue.
\<close>

definition mg_ok :: "'d migrator \<Rightarrow> bool" where
  "mg_ok G \<longleftrightarrow>
     (\<forall>metadata name cs. mg_look G metadata name = Inr (Some cs) \<longrightarrow> cs = tagged_columns metadata name) \<and>
     (\<forall>db d rows n. mg_statistics G db core_task_table d = Inr rows \<longrightarrow> filter (\<lambda>r. ix_IndexName r = n) rows = index_rows G d n) \<and>
     (\<forall>metadata name d d'. index_rows G d name = [] \<and> mg_create G metadata name d = (None, d') \<longrightarrow>
        ordinary_index name (tagged_columns metadata name) (index_rows G d' name)) \<and>
     (\<forall>metadata name d e d' n. mg_create G metadata name d = (e, d') \<and> (n \<noteq> name \<or> e \<noteq> None) \<longrightarrow> index_rows G d' n = index_rows G d n)"

text \<open>
  The migration of the task indexes converges: it ends with both indexes as they are wanted or with an error, never touches an index that was
  there, and does nothing when it is run again.
\<close>

section \<open>Checks\<close>

lemma check_row_ok: "ix_IndexName row = name \<Longrightarrow> check_row name columns rows at row = None \<longleftrightarrow> full_row name columns at row"
  by (auto simp: check_row_def full_row_def split: option.splits)

lemma check_rows_ok:
  "\<forall>r \<in> set rest. ix_IndexName r = name \<Longrightarrow>
   check_rows name columns rows at rest = None \<longleftrightarrow> (\<forall>i < length rest. full_row name columns (at + i) (rest ! i))"
proof (induction rest arbitrary: at)
  case (Cons row rest)
  have "(\<forall>i < length (row # rest). full_row name columns (at + i) ((row # rest) ! i)) \<longleftrightarrow>
      full_row name columns at row \<and> (\<forall>i < length rest. full_row name columns (Suc at + i) (rest ! i))"
    by (auto simp: less_Suc_eq_0_disj nth_Cons split: nat.splits)
  then show ?case using Cons check_row_ok [of row name columns rows at] by (auto split: option.splits)
qed simp

lemma names_of_rows: "r \<in> set (index_rows G d n) \<Longrightarrow> ix_IndexName r = n"
  by (simp add: index_rows_def)

lemma validate_index:
  assumes f: "filter (\<lambda>r. ix_IndexName r = name) rows = index_rows G d name"
  shows "validateExactTaskIndex name columns (by_name rows) = Inr False \<longleftrightarrow> index_rows G d name = []"
    and "validateExactTaskIndex name columns (by_name rows) = Inr True \<longleftrightarrow> index_rows G d name \<noteq> [] \<and> ordinary_index name columns (index_rows G d name)"
proof -
  let ?rs = "index_rows G d name"
  have c: "check_rows name columns ?rs 0 ?rs = None \<longleftrightarrow> (\<forall>i < length ?rs. full_row name columns i (?rs ! i))"
    using check_rows_ok [of ?rs name columns ?rs 0] names_of_rows by fastforce
  have b: "by_name rows name = (case ?rs of [] \<Rightarrow> None | _ \<Rightarrow> Some ?rs)" unfolding by_name_def f by (cases ?rs) auto
  show "validateExactTaskIndex name columns (by_name rows) = Inr False \<longleftrightarrow> ?rs = []"
    unfolding validateExactTaskIndex_def b by (cases ?rs) (auto split: option.splits)
  show "validateExactTaskIndex name columns (by_name rows) = Inr True \<longleftrightarrow> ?rs \<noteq> [] \<and> ordinary_index name columns ?rs"
    using c unfolding validateExactTaskIndex_def b ordinary_index_def by (cases "?rs = []") (auto split: option.splits list.splits)
qed

section \<open>Indexes\<close>

definition claim_columns :: "string list" where
  "claim_columns = [''task_type'', ''deleted_at'', ''task_status'', ''priority'', ''updated_at'']"

definition dependency_columns :: "string list" where
  "dependency_columns = [''organization_id'', ''user_id'', ''subject_id'', ''app_group'', ''step'', ''deleted_at'', ''task_status'']"

lemma tagged:
  "tagged_columns taskClaimIndexMetadata taskClaimIndexName = claim_columns"
  "tagged_columns taskMemberDependencyIndexMetadata taskMemberDependencyIndexName = dependency_columns"
  by (simp_all add: tagged_columns_def taskClaimIndexMetadata_def taskMemberDependencyIndexMetadata_def claim_columns_def dependency_columns_def insort_key_def)

lemma distinct_names: "taskClaimIndexName \<noteq> taskMemberDependencyIndexName"
  by (simp add: taskClaimIndexName_def taskMemberDependencyIndexName_def)

lemma find_index_result:
  assumes ok: "mg_ok G" and s: "readTaskIndexStatistics G d = Inr statistics" and f: "find_index G metadata name statistics = Inr b"
  shows "b \<longleftrightarrow> index_rows G d name \<noteq> []" and "b \<Longrightarrow> ordinary_index name (tagged_columns metadata name) (index_rows G d name)"
proof -
  obtain rows where r: "mg_statistics G (mg_database G d) core_task_table d = Inr rows" "statistics = by_name rows"
    using s by (auto simp: readTaskIndexStatistics_def Let_def split: if_splits sum.splits)
  have eq: "filter (\<lambda>r. ix_IndexName r = name) rows = index_rows G d name" using ok r(1) unfolding mg_ok_def by blast
  obtain cs where cs: "mg_look G metadata name = Inr (Some cs)" "validateExactTaskIndex name cs statistics = Inr b"
    using f by (auto simp: find_index_def taskIndexColumns_def split: sum.splits option.splits)
  have "cs = tagged_columns metadata name" using ok cs(1) unfolding mg_ok_def by blast
  then have v: "validateExactTaskIndex name (tagged_columns metadata name) (by_name rows) = Inr b" using cs(2) r(2) by simp
  show "b \<longleftrightarrow> index_rows G d name \<noteq> []" using v validate_index [OF eq, of "tagged_columns metadata name"] by (cases b) auto
  show "ordinary_index name (tagged_columns metadata name) (index_rows G d name)" if b
    using v that validate_index(2) [OF eq, of "tagged_columns metadata name"] by simp
qed

lemma create_missing_result:
  assumes ok: "mg_ok G" and c: "create_missing G (index_rows G d name \<noteq> []) metadata name d = (e, d')"
    and o: "index_rows G d name \<noteq> [] \<Longrightarrow> ordinary_index name (tagged_columns metadata name) (index_rows G d name)"
  shows "e = None \<Longrightarrow> ordinary_index name (tagged_columns metadata name) (index_rows G d' name)"
    and "index_rows G d n \<noteq> [] \<or> n \<noteq> name \<Longrightarrow> index_rows G d' n = index_rows G d n"
proof -
  show "ordinary_index name (tagged_columns metadata name) (index_rows G d' name)" if "e = None"
  proof (cases "index_rows G d name = []")
    case True
    then have "mg_create G metadata name d = (None, d')" using c that by (auto simp: create_missing_def createTaskIndex_def split: prod.splits option.splits)
    then show ?thesis using ok True unfolding mg_ok_def by blast
  qed (use c o in \<open>simp add: create_missing_def\<close>)
  show "index_rows G d' n = index_rows G d n" if n: "index_rows G d n \<noteq> [] \<or> n \<noteq> name"
  proof (cases "index_rows G d name = []")
    case True
    then obtain e1 where "mg_create G metadata name d = (e1, d')" using c by (auto simp: create_missing_def createTaskIndex_def split: prod.splits option.splits)
    moreover have "n \<noteq> name" using n True by auto
    ultimately show ?thesis using ok unfolding mg_ok_def by blast
  qed (use c in \<open>simp add: create_missing_def\<close>)
qed

section \<open>The migration\<close>

text \<open>How a run ends: with an error and nothing searched, or after both indexes were looked for and the missing ones created in turn.\<close>

lemma ensure_cases:
  assumes ok: "mg_ok G" and run: "ensureTaskIndexes G d = (e, d')"
  obtains (refused) "e \<noteq> None" "d' = d"
  | (searched) e1 d1 where
      "create_missing G (index_rows G d taskClaimIndexName \<noteq> []) taskClaimIndexMetadata taskClaimIndexName d = (e1, d1)"
      "index_rows G d taskClaimIndexName \<noteq> [] \<Longrightarrow> ordinary_index taskClaimIndexName claim_columns (index_rows G d taskClaimIndexName)"
      "index_rows G d taskMemberDependencyIndexName \<noteq> [] \<Longrightarrow> ordinary_index taskMemberDependencyIndexName dependency_columns (index_rows G d taskMemberDependencyIndexName)"
      "e1 \<noteq> None \<and> e = e1 \<and> d' = d1 \<or>
       e1 = None \<and> create_missing G (index_rows G d taskMemberDependencyIndexName \<noteq> []) taskMemberDependencyIndexMetadata taskMemberDependencyIndexName d1 = (e, d')"
proof (cases "\<exists>statistics b1 b2. readTaskIndexStatistics G d = Inr statistics \<and> find_index G taskClaimIndexMetadata taskClaimIndexName statistics = Inr b1 \<and>
    find_index G taskMemberDependencyIndexMetadata taskMemberDependencyIndexName statistics = Inr b2")
  case False
  then have "e \<noteq> None \<and> d' = d" using run by (auto simp: ensureTaskIndexes_def split: sum.splits)
  then show ?thesis using refused by blast
next
  case True
  then obtain statistics b1 b2 where s: "readTaskIndexStatistics G d = Inr statistics"
    and f: "find_index G taskClaimIndexMetadata taskClaimIndexName statistics = Inr b1" "find_index G taskMemberDependencyIndexMetadata taskMemberDependencyIndexName statistics = Inr b2"
    by blast
  note r1 = find_index_result [OF ok s f(1), unfolded tagged] and r2 = find_index_result [OF ok s f(2), unfolded tagged]
  obtain e1 d1 where c: "create_missing G b1 taskClaimIndexMetadata taskClaimIndexName d = (e1, d1)" by (meson surj_pair)
  have "e1 \<noteq> None \<and> e = e1 \<and> d' = d1 \<or> e1 = None \<and> create_missing G b2 taskMemberDependencyIndexMetadata taskMemberDependencyIndexName d1 = (e, d')"
    using run s f c by (cases e1) (auto simp: ensureTaskIndexes_def)
  then show ?thesis using searched [of e1 d1] c r1 r2 by blast
qed

text \<open>C33. The migration of the task indexes converges: when it succeeds the table has both indexes as ordinary, visible, ascending indexes over exactly the columns that
  claims and dependency scans use; in any case every index that was there before, and every other one, is as it was; an index of one of the two names with
  another shape is refused before anything is created; and after a success running it again changes nothing.\<close>

theorem migration_converges:
  assumes ok: "mg_ok G" and run: "ensureTaskIndexes G d = (e, d')"
  shows "(e = None \<longrightarrow> ordinary_index taskClaimIndexName claim_columns (index_rows G d' taskClaimIndexName) \<and>
      ordinary_index taskMemberDependencyIndexName dependency_columns (index_rows G d' taskMemberDependencyIndexName) \<and> snd (ensureTaskIndexes G d') = d') \<and>
    (\<forall>n. index_rows G d n \<noteq> [] \<or> n \<notin> {taskClaimIndexName, taskMemberDependencyIndexName} \<longrightarrow> index_rows G d' n = index_rows G d n) \<and>
    (index_rows G d taskClaimIndexName \<noteq> [] \<and> \<not> ordinary_index taskClaimIndexName claim_columns (index_rows G d taskClaimIndexName) \<or>
     index_rows G d taskMemberDependencyIndexName \<noteq> [] \<and> \<not> ordinary_index taskMemberDependencyIndexName dependency_columns (index_rows G d taskMemberDependencyIndexName) \<longrightarrow>
       e \<noteq> None \<and> d' = d)"
  using ok run
proof (cases rule: ensure_cases)
  case (searched e1 d1)
  note c1 = create_missing_result [OF ok searched(1), unfolded tagged, OF searched(2)]
  have dep: "index_rows G d1 taskMemberDependencyIndexName = index_rows G d taskMemberDependencyIndexName" using c1(2) distinct_names by auto
  have c2: "(e = None \<longrightarrow> ordinary_index taskMemberDependencyIndexName dependency_columns (index_rows G d' taskMemberDependencyIndexName)) \<and>
      (\<forall>n. index_rows G d1 n \<noteq> [] \<or> n \<noteq> taskMemberDependencyIndexName \<longrightarrow> index_rows G d' n = index_rows G d1 n)" if "e1 = None"
  proof -
    have c: "create_missing G (index_rows G d1 taskMemberDependencyIndexName \<noteq> []) taskMemberDependencyIndexMetadata taskMemberDependencyIndexName d1 = (e, d')"
      using searched(4) that dep by simp
    show ?thesis using create_missing_result [OF ok c, unfolded tagged] searched(3) dep by simp
  qed
  have kept: "index_rows G d' n = index_rows G d n" if "index_rows G d n \<noteq> [] \<or> n \<notin> {taskClaimIndexName, taskMemberDependencyIndexName}" for n
  proof (cases "e1 = None")
    case True
    then show ?thesis using c2 c1(2) [of n] that by (metis insertCI)
  qed (use searched(4) c1(2) [of n] that in auto)
  have both: "ordinary_index taskClaimIndexName claim_columns (index_rows G d' taskClaimIndexName) \<and>
      ordinary_index taskMemberDependencyIndexName dependency_columns (index_rows G d' taskMemberDependencyIndexName)" if "e = None"
    using that searched(4) c1(1) c2 distinct_names by auto
  have again: "snd (ensureTaskIndexes G d') = d'" if "e = None"
  proof -
    obtain e2 d2 where r: "ensureTaskIndexes G d' = (e2, d2)" by (meson surj_pair)
    have ne: "index_rows G d' taskClaimIndexName \<noteq> []" "index_rows G d' taskMemberDependencyIndexName \<noteq> []"
      using both [OF that] by (auto simp: ordinary_index_def claim_columns_def dependency_columns_def)
    from ok r have "d2 = d'" by (cases rule: ensure_cases) (use ne in \<open>auto simp: create_missing_def\<close>)
    then show ?thesis using r by simp
  qed
  show ?thesis using kept both again searched(2,3) by blast
qed auto

section \<open>A concrete catalogue\<close>

definition plain_row :: "string \<Rightarrow> nat \<Rightarrow> string \<Rightarrow> index_statistic" where
  "plain_row name at c = \<lparr>ix_IndexName = name, ix_ColumnName = Some c, ix_NonUnique = 1, ix_SeqInIndex = int at + 1, ix_Collation = Some ''A'',
     ix_SubPart = None, ix_IndexType = ''BTREE'', ix_IsVisible = Some ''YES''\<rparr>"

definition new_index :: "string \<Rightarrow> string list \<Rightarrow> index_statistic list" where
  "new_index name cs = map (\<lambda>at. plain_row name at (cs ! at)) [0..<length cs]"

definition catalogue :: "index_statistic list migrator" where
  "catalogue = \<lparr>mg_look = (\<lambda>metadata name. Inr (if tagged_columns metadata name = [] then None else Some (tagged_columns metadata name))),
     mg_database = (\<lambda>_. ''core''), mg_statistics = (\<lambda>_ _ d. Inr (sort_key ix_SeqInIndex d)),
     mg_create = (\<lambda>metadata name d. if filter (\<lambda>r. ix_IndexName r = name) d \<noteq> [] then (Some (errors_text ''Duplicate key name''), d)
        else (None, d @ new_index name (tagged_columns metadata name))), mg_rows = (\<lambda>d. d)\<rparr>"

lemma new_index_ordinary: "ordinary_index name cs (sort_key ix_SeqInIndex (filter (\<lambda>r. ix_IndexName r = name) (new_index name cs)))"
proof -
  have "filter (\<lambda>r. ix_IndexName r = name) (new_index name cs) = new_index name cs" by (simp add: new_index_def plain_row_def filter_id_conv)
  moreover have "sorted (map ix_SeqInIndex (new_index name cs))" by (simp add: new_index_def plain_row_def comp_def sorted_map sorted_wrt_upt)
  ultimately show ?thesis by (simp add: sorted_sort_id sort_key_id_if_sorted new_index_def ordinary_index_def full_row_def plain_row_def)
qed

lemma catalogue_ok: "mg_ok catalogue"
proof -
  have other: "filter (\<lambda>r. ix_IndexName r = n) (new_index name cs) = []" if "n \<noteq> name" for n name cs
    using that by (simp add: new_index_def plain_row_def)
  show ?thesis using new_index_ordinary other
    by (auto simp: mg_ok_def catalogue_def index_rows_def filter_sort split: if_splits)
qed

theorem migration_converges_witness:
  "ordinary_index taskClaimIndexName claim_columns (index_rows catalogue (snd (ensureTaskIndexes catalogue [])) taskClaimIndexName)"
proof -
  have "fst (ensureTaskIndexes catalogue []) = None"
    using distinct_names
    by (simp add: ensureTaskIndexes_def readTaskIndexStatistics_def find_index_def taskIndexColumns_def catalogue_def tagged claim_columns_def dependency_columns_def
        validateExactTaskIndex_def by_name_def create_missing_def createTaskIndex_def new_index_def plain_row_def)
  then obtain d' where "ensureTaskIndexes catalogue [] = (None, d')" by (metis prod.collapse)
  then show ?thesis using migration_converges [OF catalogue_ok, of "[]" None d'] by simp
qed

end
