(* ===== verification/Connections.thy ===== *)
theory Connections
  imports Cors Settings
begin

text \<open>
  The connections of a process: databases by name (\<open>dbtools/datasource.go\<close>, \<open>pool.go\<close>, \<open>mysql.go\<close>, \<open>db.go\<close>, \<open>database.go\<close>) and the
  two Redis clients (\<open>dbtools/redispool/redis.go\<close>). Drivers are arguments: \<open>open\<close> opens a database from a DSN, \<open>ping\<close> asks a Redis server,
  \<open>getenv\<close> is the environment, \<open>db_env\<close> has parsing and printing of URLs, of durations and the case table of Unicode.
\<close>

section \<open>Pools\<close>

record pool_options =
  po_maxOpen :: int
  po_maxIdle :: int
  po_idleTime :: duration
  po_lifetime :: duration

record db_url =
  db_Scheme :: string
  db_User :: string
  db_Password :: string
  db_Host :: string
  db_Hostname :: string
  db_Port :: string
  db_Path :: string
  db_RawQuery :: string

record db_env =
  dbe_url :: "string \<Rightarrow> db_url option"
  dbe_text :: "string \<Rightarrow> string \<Rightarrow> string \<Rightarrow> string"
  dbe_duration :: "string \<Rightarrow> duration option"
  dbe_upper :: "nat \<Rightarrow> nat"

text \<open>One option of the environment: the value that is there without it, the text it has and how it is read.\<close>

definition read_option :: "(string \<Rightarrow> int option) \<Rightarrow> int \<Rightarrow> string \<Rightarrow> string \<Rightarrow> string + int" where
  "read_option parse preset key raw =
     (if raw = [] then Inr preset
      else case parse raw of None \<Rightarrow> Inl (''invalid database pool option '' @ key)
      | Some v \<Rightarrow> if v < 0 then Inl (''invalid database pool option '' @ key) else Inr v)"

definition pool_prefix :: "db_env \<Rightarrow> string \<Rightarrow> string" where
  "pool_prefix D name = ''JX_DB_'' @ to_upper (dbe_upper D) (map (\<lambda>c. if c = CHR ''-'' then CHR ''_'' else c) name) @ ''_''"

definition databasePoolOptions :: "db_env \<Rightarrow> (string \<Rightarrow> string) \<Rightarrow> string \<Rightarrow> string + pool_options" where
  "databasePoolOptions D getenv name0 =
     (let name = (if name0 = [] then ''default'' else name0);
          key = (\<lambda>k. pool_prefix D name @ k);
          get = (\<lambda>parse preset k. read_option parse preset (key k) (getenv (key k)))
      in case get parse_int 0 ''MAX_OPEN_CONNS'' of Inl e \<Rightarrow> Inl e
         | Inr maxOpen \<Rightarrow>
        (case get parse_int 2 ''MAX_IDLE_CONNS'' of Inl e \<Rightarrow> Inl e
         | Inr maxIdle \<Rightarrow>
        (case get (dbe_duration D) 0 ''CONN_MAX_IDLE_TIME'' of Inl e \<Rightarrow> Inl e
         | Inr idleTime \<Rightarrow>
        (case get (dbe_duration D) 0 ''CONN_MAX_LIFETIME'' of Inl e \<Rightarrow> Inl e
         | Inr lifetime \<Rightarrow>
            if maxOpen > 0 \<and> maxIdle > maxOpen then Inl (''database pool '' @ name @ '': max idle exceeds max open'')
            else Inr \<lparr>po_maxOpen = maxOpen, po_maxIdle = maxIdle, po_idleTime = idleTime, po_lifetime = lifetime\<rparr>))))"

section \<open>Databases\<close>

definition NormalizeMySQL :: "db_url \<Rightarrow> string" where
  "NormalizeMySQL u =
     (let port = (if db_Port u = [] then ''3306'' else db_Port u);
          query = (if db_RawQuery u \<noteq> [] then ''?'' @ db_RawQuery u else [])
      in db_User u @ '':'' @ db_Password u @ ''@tcp('' @ db_Hostname u @ '':'' @ port @ '')/'' @ trim_prefix (db_Path u) ''/'' @ query)"

text \<open>
  \<open>open\<close> gives the connection for a DSN, \<open>handle\<close> says whether its pool can be had. A connection is kept with the options of its pool.
\<close>

type_synonym 'c databases = "string \<rightharpoonup> 'c \<times> pool_options"

definition InitDBConn ::
  "db_env \<Rightarrow> (string \<Rightarrow> string) \<Rightarrow> (string \<Rightarrow> 'c option) \<Rightarrow> ('c \<Rightarrow> bool) \<Rightarrow> string \<Rightarrow> string \<Rightarrow> 'c databases \<Rightarrow> (string + 'c) \<times> 'c databases" where
  "InitDBConn D getenv open handle name dburl dbs =
     (case databasePoolOptions D getenv name of Inl e \<Rightarrow> (Inl e, dbs)
      | Inr pool \<Rightarrow>
         (case dbe_url D dburl of None \<Rightarrow> (Inl ''parse database connection URL failed'', dbs)
          | Some dsn \<Rightarrow>
             if db_Scheme dsn \<noteq> ''mysql'' then (Inl ''unsupported database connection scheme'', dbs)
             else (case open (NormalizeMySQL dsn) of None \<Rightarrow> (Inl ''open database connection failed'', dbs)
               | Some c \<Rightarrow>
                  (let n = (if name = [] then ''default'' else name)
                   in if \<not> handle c then (Inl (''get database pool '' @ n), dbs)
                      else (Inr c, dbs(n \<mapsto> (c, pool)))))))"

text \<open>The entries of a map of URLs, in the order in which they are taken.\<close>

fun InitMutilDBConn ::
  "db_env \<Rightarrow> (string \<Rightarrow> string) \<Rightarrow> (string \<Rightarrow> 'c option) \<Rightarrow> ('c \<Rightarrow> bool) \<Rightarrow> (string \<times> string) list \<Rightarrow> 'c databases \<Rightarrow> string option \<times> 'c databases" where
  "InitMutilDBConn D getenv open handle [] dbs = (None, dbs)"
| "InitMutilDBConn D getenv open handle ((name, dburl) # rest) dbs =
     (case InitDBConn D getenv open handle name dburl dbs of (Inl e, dbs1) \<Rightarrow> (Some e, dbs1)
      | (Inr _, dbs1) \<Rightarrow> InitMutilDBConn D getenv open handle rest dbs1)"

text \<open>What is logged of a URL: \<open>dbe_text\<close> prints one with scheme, host and path only.\<close>

definition redactedDatabaseURL :: "db_env \<Rightarrow> string \<Rightarrow> string" where
  "redactedDatabaseURL D raw =
     (case dbe_url D raw of None \<Rightarrow> ''<invalid-database-url>''
      | Some u \<Rightarrow>
         if db_Scheme u = [] \<or> db_Host u = [] then ''<invalid-database-url>'' else dbe_text D (db_Scheme u) (db_Host u) (db_Path u))"

text \<open>\<open>DB\<close>: \<open>None\<close> is the panic.\<close>

definition DB :: "string \<Rightarrow> 'c databases \<Rightarrow> 'c option" where
  "DB name dbs = map_option fst (dbs name)"

definition DBExists :: "string \<Rightarrow> 'c databases \<Rightarrow> bool" where
  "DBExists name dbs \<longleftrightarrow> dbs name \<noteq> None"

definition db_Account :: "'c databases \<Rightarrow> 'c option" where "db_Account = DB ''account''"
definition db_Core :: "'c databases \<Rightarrow> 'c option" where "db_Core = DB ''core''"
definition db_Jxone :: "'c databases \<Rightarrow> 'c option" where "db_Jxone = DB ''jxone''"

text \<open>Steps of an initialization in a row, up to the first error.\<close>

fun InitModel :: "('m \<Rightarrow> 'd \<Rightarrow> string option \<times> 'd) \<Rightarrow> 'm list \<Rightarrow> 'd \<Rightarrow> string option \<times> 'd" where
  "InitModel migrate [] d = (None, d)"
| "InitModel migrate (v # models) d =
     (case migrate v d of (Some e, d1) \<Rightarrow> (Some e, d1) | (None, d1) \<Rightarrow> InitModel migrate models d1)"

definition DoInitModels :: "('d \<Rightarrow> string option \<times> 'd) list \<Rightarrow> 'd \<Rightarrow> string option \<times> 'd" where
  "DoInitModels imfs = InitModel (\<lambda>imf. imf) imfs"

section \<open>Redis\<close>

record redis_options =
  rd_Addr :: string
  rd_Password :: string
  rd_DB :: int

record redis_pool =
  rp_std :: "redis_options option"
  rp_account :: "redis_options option"
  rp_cache :: "redis_options option"

datatype pool_error = PoolText string | PoolSettings settings_error

text \<open>A client is known by its options. \<open>ping\<close> is the error of a ping.\<close>

definition connectRedis :: "(redis_options \<Rightarrow> string option) \<Rightarrow> redis_options option \<Rightarrow> pool_error + redis_options" where
  "connectRedis ping cfg =
     (case cfg of None \<Rightarrow> Inl (PoolText ''redis config is nil'')
      | Some c \<Rightarrow> (case ping c of Some e \<Rightarrow> Inl (PoolText e) | None \<Rightarrow> Inr c))"

definition loadRedis ::
  "(string \<Rightarrow> string + redis_options) \<Rightarrow> (redis_options \<Rightarrow> string option) \<Rightarrow> (setting_item, 'd) sqltab \<Rightarrow> (string \<Rightarrow> string \<Rightarrow> bool) \<Rightarrow> string \<Rightarrow> string \<Rightarrow>
   'd session \<Rightarrow> (pool_error + redis_options) \<times> 'd session" where
  "loadRedis yaml ping T same grp key s =
     (case settings_GetYaml yaml T same grp key s of (Inl e, s1) \<Rightarrow> (Inl (PoolSettings e), s1)
      | (Inr cfg, s1) \<Rightarrow> (connectRedis ping (Some cfg), s1))"

definition InitCache :: "redis_options \<Rightarrow> redis_pool \<Rightarrow> redis_pool" where
  "InitCache cli p = p\<lparr>rp_cache := Some cli\<rparr>"

definition InitRedis ::
  "(string \<Rightarrow> string + redis_options) \<Rightarrow> (redis_options \<Rightarrow> string option) \<Rightarrow> (setting_item, 'd) sqltab \<Rightarrow> (string \<Rightarrow> string \<Rightarrow> bool) \<Rightarrow> string \<Rightarrow> string \<Rightarrow>
   redis_pool \<Rightarrow> 'd session \<Rightarrow> pool_error option \<times> redis_pool \<times> 'd session" where
  "InitRedis yaml ping T same grp key p s =
     (case loadRedis yaml ping T same grp key s of (Inl e, s1) \<Rightarrow> (Some e, p, s1)
      | (Inr rds, s1) \<Rightarrow> (None, InitCache rds (p\<lparr>rp_std := Some rds\<rparr>), s1))"

definition InitRedisWithConfig ::
  "(redis_options \<Rightarrow> string option) \<Rightarrow> redis_options option \<Rightarrow> redis_pool \<Rightarrow> (pool_error + redis_options) \<times> redis_pool" where
  "InitRedisWithConfig ping cfg p =
     (case connectRedis ping cfg of Inl e \<Rightarrow> (Inl e, p) | Inr rds \<Rightarrow> (Inr rds, InitCache rds (p\<lparr>rp_std := Some rds\<rparr>)))"

definition InitAccountRedis ::
  "(string \<Rightarrow> string + redis_options) \<Rightarrow> (redis_options \<Rightarrow> string option) \<Rightarrow> (setting_item, 'd) sqltab \<Rightarrow> (string \<Rightarrow> string \<Rightarrow> bool) \<Rightarrow> string \<Rightarrow> string \<Rightarrow>
   redis_pool \<Rightarrow> 'd session \<Rightarrow> pool_error option \<times> redis_pool \<times> 'd session" where
  "InitAccountRedis yaml ping T same grp key p s =
     (case loadRedis yaml ping T same grp key s of (Inl e, s1) \<Rightarrow> (Some e, p, s1)
      | (Inr rds, s1) \<Rightarrow> (None, p\<lparr>rp_account := Some rds\<rparr>, s1))"

text \<open>\<open>Redis\<close> and \<open>Account\<close> panic without a client (\<open>None\<close>), \<open>GetRedis\<close> and \<open>GetAccountRedis\<close> return an error.\<close>

definition pool_Redis :: "redis_pool \<Rightarrow> redis_options option" where "pool_Redis p = rp_std p"
definition pool_Account :: "redis_pool \<Rightarrow> redis_options option" where "pool_Account p = rp_account p"

definition GetRedis :: "redis_pool \<Rightarrow> pool_error + redis_options" where
  "GetRedis p = (case rp_std p of None \<Rightarrow> Inl (PoolText ''redis is nil'') | Some r \<Rightarrow> Inr r)"

definition GetAccountRedis :: "redis_pool \<Rightarrow> pool_error + redis_options" where
  "GetAccountRedis p = (case rp_account p of None \<Rightarrow> Inl (PoolText ''account redis is nil'') | Some r \<Rightarrow> Inr r)"

section \<open>Properties\<close>

definition pool_ok :: "pool_options \<Rightarrow> bool" where
  "pool_ok p \<longleftrightarrow> 0 \<le> po_maxOpen p \<and> 0 \<le> po_maxIdle p \<and> 0 \<le> po_idleTime p \<and> 0 \<le> po_lifetime p \<and> (po_maxOpen p = 0 \<or> po_maxIdle p \<le> po_maxOpen p)"

lemma read_option_bounds: "read_option parse preset key raw = Inr v \<Longrightarrow> 0 \<le> preset \<Longrightarrow> 0 \<le> v"
  by (auto simp: read_option_def split: if_splits option.splits)

lemma databasePoolOptions_ok: "databasePoolOptions D getenv name = Inr p \<Longrightarrow> pool_ok p"
  by (auto simp: databasePoolOptions_def Let_def pool_ok_def dest: read_option_bounds split: sum.splits if_splits)

text \<open>Every database that is kept has a pool with sound bounds, also when the environment is wrong for some of them; a failure leaves the others as they are.\<close>

definition pools_ok :: "'c databases \<Rightarrow> bool" where
  "pools_ok dbs \<longleftrightarrow> (\<forall>n c p. dbs n = Some (c, p) \<longrightarrow> pool_ok p)"

lemma InitDBConn_ok:
  assumes "InitDBConn D getenv open handle name dburl dbs = (r, dbs')" and "pools_ok dbs"
  shows "pools_ok dbs' \<and> (\<forall>n. n \<noteq> (if name = [] then ''default'' else name) \<longrightarrow> dbs' n = dbs n) \<and> (\<forall>e. r = Inl e \<longrightarrow> dbs' = dbs) \<and>
    (\<forall>c. r = Inr c \<longrightarrow> DB (if name = [] then ''default'' else name) dbs' = Some c)"
  using assms databasePoolOptions_ok [of D getenv name]
  by (auto simp: InitDBConn_def Let_def pools_ok_def DB_def split: sum.splits option.splits if_splits)

theorem pools_stay_sound: "InitMutilDBConn D getenv open handle urls dbs = (e, dbs') \<Longrightarrow> pools_ok dbs \<Longrightarrow> pools_ok dbs'"
proof (induction D getenv "open" handle urls dbs rule: InitMutilDBConn.induct)
  case (2 D getenv open' handle name dburl rest dbs)
  obtain r dbs1 where i: "InitDBConn D getenv open' handle name dburl dbs = (r, dbs1)" by (meson surj_pair)
  with 2 InitDBConn_ok [OF i] show ?case by (cases r) auto
qed simp

text \<open>What is logged of a URL depends on its scheme, host and path only: two that differ in user, password or query are logged alike.\<close>

theorem redaction_hides_credentials:
  assumes "dbe_url D raw = Some u" and "dbe_url D raw' = Some (u\<lparr>db_User := user, db_Password := password, db_RawQuery := query\<rparr>)"
  shows "redactedDatabaseURL D raw' = redactedDatabaseURL D raw"
  using assms by (simp add: redactedDatabaseURL_def)

text \<open>The client of the accounts and the one of the business, with its cache, do not replace each other; a failed initialization keeps the old one.\<close>

theorem redis_clients_are_separate:
  "(InitAccountRedis yaml ping T same grp key p s = (e, p', s') \<longrightarrow>
      rp_std p' = rp_std p \<and> rp_cache p' = rp_cache p \<and> (e \<noteq> None \<longrightarrow> p' = p) \<and> (e = None \<longrightarrow> (\<exists>r. rp_account p' = Some r \<and> ping r = None))) \<and>
   (InitRedis yaml ping T same grp key p s = (e, p', s') \<longrightarrow>
      rp_account p' = rp_account p \<and> (e \<noteq> None \<longrightarrow> p' = p) \<and> (e = None \<longrightarrow> (\<exists>r. rp_std p' = Some r \<and> rp_cache p' = Some r \<and> ping r = None)))"
  by (auto simp: InitAccountRedis_def InitRedis_def loadRedis_def connectRedis_def InitCache_def split: sum.splits prod.splits option.splits)

end
