(* ===== verification/Spec2Isabelle.thy ===== *)
theory Spec2Isabelle
  imports Context_Properties Verification_Properties Task_Progress Upload_Progress Worker_Properties Cluster_Properties
    Session_Properties Handler_Properties Login_Properties Grant_Properties Cors_Properties
    Directory_Properties Token_Properties Task_Row_Properties Mail Browser_Credits Session_Discovery Identity_Json
    Redis_Cache Settings Server_Life Random_Text Storage_S3 Task_Migration Connections
begin

text \<open>
  Verification of \<open>jxpkg\<close>, a Go library shared by the services of a company: verification codes, background
  tasks, file uploads, access to a credits service, leader election, browser sessions behind an identity provider, a
  client of its directory, signed tokens, CORS, mail, settings, a cache, the API server and the end of a process, and the
  request scope that goes with them.
  Every theory is a translation of named source files followed by its lemmas; the theories with \<open>_Properties\<close>,
  \<open>_Progress\<close> or \<open>_Validation\<close> in their names hold the properties, each after a text that states it; a theory without such
  a companion ends with its properties.

  \<^bold>\<open>The language and its surroundings.\<close> \<open>Go_Base\<close> has errors (a text and the sentinels that \<open>errors.Is\<close> finds), times
  and durations in nanoseconds; \<open>Go_Text\<close> strings as bytes with UTF-8 decoding, trimming and searching; \<open>Go_Numbers\<close>
  decimal conversions with their 64 bit bounds; \<open>Go_Path\<close> path cleaning; \<open>Go_Json\<close> decoded documents; \<open>Base64\<close>.
  \<open>Redis_Service\<close> and \<open>Sql_Service\<close> are the servers the program talks to. They are parameters: a record of operations
  over a state type of their own, with the hypotheses \<open>redis_ok\<close> and \<open>sql_ok\<close> (\<open>task_table\<close>, \<open>upload_tables\<close> for the
  tables of a component) that they do what the documentation of Redis and SQL says. A request may be lost
  before or after it takes effect; an operation is given the fates of its requests. Both hypotheses hold for the
  reference servers \<open>ref_redis\<close> and \<open>ref_table\<close>, on which the witnesses are evaluated.

  \<^bold>\<open>Request scope.\<close> \<open>Identity\<close> (\<open>identity/*.go\<close>: members, authorizations, display names and their contexts),
  \<open>Identity_Json\<close> (\<open>DisplayNames.UnmarshalJSON\<close> over token streams, which accepts exactly the two members), \<open>Request_Context\<close> (\<open>requestid\<close>, \<open>safeerror\<close>), \<open>Context_Properties\<close>: what is read from a context is what was put
  there, and permissions are exactly the ones listed.

  \<^bold>\<open>Verification codes.\<close> \<open>Verification_Types\<close> and \<open>Verification_Service\<close> (\<open>verification/verification.go\<close>: policies,
  validation, code generation, \<open>Send\<close>, \<open>VerifyAndConsume\<close>, \<open>VerifyAndClaim\<close>, \<open>ConsumeClaim\<close>, \<open>ReleaseClaim\<close>),
  \<open>Verification_Store\<close> (\<open>redis.go\<close>: keys and the five Lua scripts, command by command), \<open>Verification_Spec\<close> (a challenge
  as an abstract value and the refinement of the scripts), \<open>Verification_Machine\<close> (interleavings of operations, lost
  requests and time). The locale \<open>challenge_store\<close> is the contract of a store, interpreted for the Redis store; the
  service is verified against it. Properties: codes work once and only in time, in any interleaving; bounded
  attempts and rates; exclusive claims; separate keys; closed errors; uniform digits. \<open>generateCode_loop\<close> works on the
  bytes it reads, so its end is a property of that input.

  \<^bold>\<open>Tasks.\<close> \<open>Task_Types\<close> (\<open>task_info.go\<close>, \<open>biz.go\<close>, \<open>independent.go\<close>), \<open>Task_Store\<close> (\<open>crud.go\<close>: claims, callback reservation,
  outcomes, expiry, creation, next steps), \<open>Task_Queue\<close> (\<open>task_queue.go\<close>, \<open>task_health_check.go\<close>), \<open>Task_Server\<close>
  (\<open>task_server.go\<close>, \<open>task.go\<close>), with \<open>Task_Lemmas\<close> and the interleavings of \<open>Task_Machine\<close>. \<open>claim_loop\<close> takes fuel: one
  round per batch of 32 candidates, and \<open>claim_search_ends\<close> shows that rows / 32 + 1 rounds are enough. Properties: a
  callback is entered once per attempt, outcomes need the claim they were computed for, claims follow priority,
  age and steps, sweeps, batches, wake-ups and heartbeats do what they should, and a claimed task completes.

  \<^bold>\<open>Uploads.\<close> \<open>Upload_Types\<close> (\<open>fileupload/types.go\<close>), \<open>Upload_Repository\<close> (\<open>repository.go\<close>, \<open>storage/fileinfo.go\<close>), \<open>Upload_Service\<close>
  (\<open>service.go\<close>, \<open>verifier.go\<close>) over any object storage, \<open>Upload_Machine\<close> with the invariant of the two tables and the
  locale \<open>row_life\<close> of \<open>Row_Life\<close>, interpreted for sessions and for files. Properties: sessions, leases and files fit
  together in every reachable state, completion is atomic, idempotent and, without failures, succeeds; ended
  sessions stay; the default verifier, paths, part lists and part plans are right.

  \<^bold>\<open>Credits and workers.\<close> \<open>Credits_Client\<close> (\<open>credits/client.go\<close>, \<open>balance.go\<close>) over any HTTP client, \<open>Credits_Execution\<close>
  (\<open>execution.go\<close>) with the steps of concurrent callers, \<open>Worker_Routes\<close> (\<open>task/worker_routes.go\<close>), which puts tasks and
  executions together. Properties: one acquisition per execution, closed errors, exact balances, and model
  connections only for authenticated workers that still hold their task.

  \<^bold>\<open>Mutexes.\<close> \<open>Cluster_Mutex\<close> (\<open>mutex/*.go\<close>) with the interleaved requests of the daemons of a cluster. The locale
  \<open>step_invariant\<close> of \<open>Step_Invariant\<close> carries invariants over runs, here and for executions. Properties: one master as
  long as renewals come in time (\<open>on_time\<close>, without which \<open>two_masters_when_late\<close> shows two), what a tick decides, and the
  end of \<open>Lock\<close>, whose rounds are counted by the list of fates.

  \<^bold>\<open>Browser sessions.\<close> \<open>Session_Store\<close> (\<open>apis/runtime/logtobff/store.go\<close>: sealed sessions and login transactions in Redis, the
  scripts for create, acquire, release and commit, leases), \<open>Session_Machine\<close> (the requests of any number of clients, lost ones
  included, interleaved) and \<open>Session_Properties\<close>: no update is lost under a lease, ended sessions stay ended, stored sessions
  are well formed, \<open>acquire\<close> returns (its rounds are a list; ten thousand and one are enough, for a busy round waits at
  least two milliseconds of the twenty seconds or reaches the deadline), a created session is read back. \<open>Session_Identity\<close>
  (\<open>identity.go\<close>: tokens, claims, organizations, the current request) and \<open>Session_Handlers\<close> (\<open>runtime.go\<close>,
  \<open>identity_session.go\<close>, \<open>session_renewal.go\<close>, \<open>revalidate.go\<close>: sessions around a handler, identity checks with and without the lease, view,
  renewal, logout, principals) come with \<open>Handler_Lemmas\<close> and \<open>Handler_Properties\<close>: principals are confirmed by the provider,
  cookies follow the store, renewals are bounded, concurrent updates are merged or refused. \<open>Session_Login\<close> (\<open>identity.go\<close>: login,
  silent login, callback; the routes) with \<open>Login_Properties\<close>: a session rests on its transaction, which works once and leads
  back to the application. \<open>Session_Grant\<close> (\<open>resource_grant.go\<close>, the check of the configuration) with \<open>Grant_Properties\<close>. Cipher and codec (\<open>session_box\<close>
  with \<open>box_ok\<close>), the provider (\<open>idp\<close>, \<open>idp_env\<close>), the OIDC SDK (\<open>login_sdk\<close>, \<open>login_env\<close>) and the revocation service (\<open>grant_env\<close>)
  are parameters; entropy and times are arguments.

  \<^bold>\<open>CORS.\<close> \<open>Cors\<close> (\<open>apis/runtime/middleware/cors.go\<close>, \<open>cors_host.go\<close>) over any response writer (\<open>gin_writer\<close> with \<open>writer_ok\<close>) and URL parser
  (\<open>cors_env\<close>), handlers being arbitrary sequences of changes of headers and writes. \<open>Cors_Properties\<close>: only checked origins are
  named, whatever the handlers do, and preflight requests are answered by the middleware.

  \<^bold>\<open>The directory.\<close> \<open>Directory_Wire\<close> (\<open>logtodirectory/types.go\<close> and the decoding in \<open>validate.go\<close>), \<open>Directory_Validate\<close> (\<open>validateSnapshot\<close>,
  \<open>validateOrganizationSearch\<close>; the walk to the root of a department ends because it visits nobody twice), \<open>Directory_Client\<close>
  (\<open>client.go\<close>: construction, the bounded transport, tokens, \<open>Snapshot\<close>, \<open>ListPage\<close>, \<open>SearchOrganizations\<close>) over any transport,
  \<open>Directory_Token\<close> (the token cache with any number of callers) and \<open>Page_Chain\<close>, whose locale \<open>ascending_pages\<close> is the
  contract of a page, interpreted for members and for organizations. \<open>Directory_Properties\<close>: snapshots are what was asked for,
  cycles are found exactly, pages repeat nobody, errors are closed, tokens are used in time. URL parsing, number texts and
  the \<open>encoding/json\<close> reader are parameters (\<open>dir_env\<close>). A call that finds a refresh of another caller under way waits: the
  operations for one caller then give \<open>None\<close>, and \<open>Directory_Token\<close> has the waiting.

  \<^bold>\<open>Tokens.\<close> \<open>Token_Jose\<close> (\<open>auth/strict_jose.go\<close> over token streams; \<open>json_fuel\<close>, twice the number of tokens and two, is
  always enough), \<open>Token_Auth\<close> (\<open>claims.go\<close>, \<open>errors.go\<close>, \<open>signer.go\<close>, \<open>verifier.go\<close>, \<open>jwk.go\<close>, \<open>middleware/permission.go\<close>) over the JWT
  library (\<open>jwt_lib\<close> with \<open>jwt_ok\<close> and \<open>jwt_signs\<close>) and \<open>auth_env\<close> (token streams, key derivation). \<open>Token_Properties\<close>: the strict
  parser accepts exactly the strict objects, verified tokens are genuine, signed tokens verify, the published keys are
  the configured ones in order.

  \<^bold>\<open>Rows of tasks.\<close> \<open>Page_Query\<close> (\<open>apis/apiobj/query.go\<close>) and \<open>Task_Rows\<close> (\<open>task/dao.go\<close>, \<open>dao_base.go\<close>): queries are records that
  are built clause by clause and run on a table; conditions, orders and assignments that the application writes in SQL are
  interpreted by \<open>rows_env\<close>. \<open>Task_Row_Properties\<close>, with the locale \<open>row_write\<close> for the three ways of writing: reads and writes
  stay with the member of the request, and pages make up the list.

  \<^bold>\<open>Mail.\<close> \<open>Mail\<close> (\<open>mail/*.go\<close>): checks, the text of a message with its quoted-printable writer, and delivery as a sequence of
  actions on a connection whose other side (\<open>peer\<close>) is any function of what has happened. Properties: no header can be
  injected, credentials travel encrypted, a reported success means that everything was accepted, errors are closed.

  \<^bold>\<open>The API server.\<close> \<open>Api_Server\<close> (\<open>apis/runtime/error.go\<close>, \<open>context.go\<close>, \<open>errcode/code.go\<close>, \<open>middleware/env.go\<close>, \<open>server/handler.go\<close>) with
  reflection and package \<open>fmt\<close> as parameters (\<open>out_view\<close>, \<open>fmt_lib\<close>): one answer per request, one identifier. \<open>Server_Life\<close>
  (\<open>server/server.go\<close>, \<open>task/worker_server.go\<close>) and \<open>Lifecycle\<close> (\<open>lifecycle/lifecycle.go\<close>): routes under every prefix, servers that start
  once, the end of the process within its timeout, and the race of two calls of \<open>Exit\<close>. \<open>Browser_Credits\<close> (\<open>apis/credits/balance.go\<close>,
  \<open>middleware/credits.go\<close>) composes browser sessions with the credits client: a browser sees its own balance only. \<open>Session_Discovery\<close>
  (\<open>logtobff/discovery.go\<close>) with the interleaved requests on the cached document, which stays registered and fresh.

  \<^bold>\<open>Cache, settings, random texts.\<close> \<open>Redis_Cache\<close> (\<open>dbtools/redispool/redis_cache.go\<close>: strings, hashes, documents, locks), \<open>Settings\<close>
  (\<open>settings/settings.go\<close>: what is set is read) and \<open>Random_Text\<close> (\<open>random/rand.go\<close> over any generator, with numbers of 64 bits).
  \<open>Lock\<close> has a hundred rounds, \<open>LockWithTimeout\<close> one for each entry of its list and ends with the first after the timeout.

  \<^bold>\<open>Storage, indexes, connections.\<close> \<open>Storage_S3\<close> (\<open>storage/s3.go\<close>, \<open>storage/storage.go\<close>) has the checks and conversions around the S3 SDK (\<open>s3_api\<close>) and
  \<open>s3_storage\<close>, which stands in for the object storage of the upload service. Properties: parts are merged in order, listings can be given back,
  storages are loaded once. \<open>Task_Migration\<close> (\<open>task/task_migration.go\<close>) over a migrator with \<open>mg_ok\<close>: the indexes converge.
  \<open>Connections\<close> (\<open>dbtools/*.go\<close>, \<open>redispool/redis.go\<close>): pool options, DSNs, named databases, the two Redis clients.

  \<^bold>\<open>Parameters.\<close> Code that is not part of the repository or has no readable definition here appears as an argument:
  SHA-256, the case tables of Unicode, parsing of URLs, media types, mail and IP addresses, UUIDs, JSON texts,
  the collation of the database (\<open>same_text\<close>, \<open>ue_same\<close>), the object storage, the HTTP client, callbacks of the
  application.

  \<^bold>\<open>Not modelled.\<close> Lists and sorted sets of the Redis cache, which are calls of single commands. Input and output only:
  logging with its middleware and the recovery from panics, configuration files, the HTTP client and the TLS files of a worker,
  documentation pages, the construction of the client of language models.
\<close>

end
